(* ===== verification/Prelude.thy ===== *)
theory Prelude
  imports Complex_Main "HOL-Library.Product_Lexorder" "HOL-Library.List_Lexorder" "HOL-Library.Char_ord"
begin

text \<open>
  What every component of the model shares: the result type of fallible code, JavaScript
  objects and \<open>Map\<close>s as insertion-ordered association lists, JavaScript \<open>Set\<close>s as
  duplicate-free lists, and the lemmas and collections the component proofs rest on.
\<close>

named_theorems js_simps \<open>evaluation of objects, sets and results\<close>
named_theorems res_elims \<open>inversion of a successful result\<close>

section \<open>Results: a thrown error is \<open>Inl\<close>, a returned value is \<open>Inr\<close>\<close>

type_synonym 'a res = "string + 'a"

definition rbind :: "'e + 'a \<Rightarrow> ('a \<Rightarrow> 'e + 'b) \<Rightarrow> 'e + 'b" where
  "rbind m f = (case m of Inl e \<Rightarrow> Inl e | Inr x \<Rightarrow> f x)"

text \<open>\<open>if (\<not> b) throw new Error(e)\<close>\<close>

definition require :: "bool \<Rightarrow> 'e \<Rightarrow> 'e + unit" where
  "require b e = (if b then Inr () else Inl e)"

definition is_ok :: "'e + 'a \<Rightarrow> bool" where
  "is_ok m = (case m of Inl _ \<Rightarrow> False | Inr _ \<Rightarrow> True)"

text \<open>\<open>xs.map(f)\<close> where \<open>f\<close> may throw: the first error wins.\<close>

fun rmap_list :: "('a \<Rightarrow> 'e + 'b) \<Rightarrow> 'a list \<Rightarrow> 'e + 'b list" where
  "rmap_list f [] = Inr []"
| "rmap_list f (x # xs) =
     (case f x of
        Inl e \<Rightarrow> Inl e
      | Inr y \<Rightarrow> (case rmap_list f xs of Inl e \<Rightarrow> Inl e | Inr ys \<Rightarrow> Inr (y # ys)))"

lemma rbind_Inl [simp, js_simps]: "rbind (Inl e) f = Inl e"
  and rbind_Inr [simp, js_simps]: "rbind (Inr x) f = f x"
  by (simp_all add: rbind_def)

lemma rbind_eq_Inr [res_elims]: "rbind m f = Inr y \<longleftrightarrow> (\<exists>x. m = Inr x \<and> f x = Inr y)"
  by (cases m) auto

lemma require_eq_Inr [simp, res_elims]: "require b e = Inr u \<longleftrightarrow> b"
  by (simp add: require_def)

lemma require_True [simp, js_simps]: "b \<Longrightarrow> require b e = Inr ()"
  by (simp add: require_def)

lemma require_False [simp, js_simps]: "\<not> b \<Longrightarrow> require b e = Inl e"
  by (simp add: require_def)

lemma is_ok_simps [simp]: "is_ok (Inr x)" "\<not> is_ok (Inl e)"
  by (simp_all add: is_ok_def)

lemma rmap_list_Inr_iff:
  "rmap_list f xs = Inr ys \<longleftrightarrow> list_all2 (\<lambda>x y. f x = Inr y) xs ys"
proof (induction xs arbitrary: ys)
  case (Cons x xs)
  show ?case
    by (cases "f x"; cases "rmap_list f xs"; cases ys) (auto simp: Cons.IH [symmetric])
qed auto

lemma rmap_list_length: "rmap_list f xs = Inr ys \<Longrightarrow> length ys = length xs"
  by (simp add: rmap_list_Inr_iff list_all2_lengthD)

section \<open>Objects and \<open>Map\<close>s: association lists in insertion order\<close>

type_synonym 'v obj = "(string \<times> 'v) list"

definition oget :: "('k \<times> 'v) list \<Rightarrow> 'k \<Rightarrow> 'v option" where
  "oget o1 k = map_of o1 k"

text \<open>\<open>o[k] = v\<close>: an existing key keeps its position, a new key goes to the end.\<close>

fun oset :: "'k \<Rightarrow> 'v \<Rightarrow> ('k \<times> 'v) list \<Rightarrow> ('k \<times> 'v) list" where
  "oset k v [] = [(k, v)]"
| "oset k v ((k', v') # kvs) = (if k' = k then (k, v) # kvs else (k', v') # oset k v kvs)"

definition odel :: "'k \<Rightarrow> ('k \<times> 'v) list \<Rightarrow> ('k \<times> 'v) list" where
  "odel k kvs = filter (\<lambda>kv. fst kv \<noteq> k) kvs"

text \<open>\<open>{ ...a, ...b }\<close>\<close>

fun ospread :: "('k \<times> 'v) list \<Rightarrow> ('k \<times> 'v) list \<Rightarrow> ('k \<times> 'v) list" where
  "ospread a [] = a"
| "ospread a ((k, v) # b) = ospread (oset k v a) b"

text \<open>\<open>Object.fromEntries(es)\<close>, \<open>new Map(es)\<close>\<close>

definition from_entries :: "('k \<times> 'v) list \<Rightarrow> ('k \<times> 'v) list" where
  "from_entries es = ospread [] es"

definition okeys :: "('k \<times> 'v) list \<Rightarrow> 'k list" where
  "okeys kvs = map fst kvs"

lemma oget_Nil [simp, js_simps]: "oget [] k = None"
  by (simp add: oget_def)

lemma oget_Cons [simp, js_simps]: "oget ((k', v) # kvs) k = (if k' = k then Some v else oget kvs k)"
  by (auto simp: oget_def)

lemma oget_append: "oget (a @ b) k = (case oget a k of None \<Rightarrow> oget b k | Some v \<Rightarrow> Some v)"
  by (induction a) auto

lemma oget_oset [simp]: "oget (oset k v kvs) k' = (if k' = k then Some v else oget kvs k')"
  by (induction kvs) auto

lemma oget_odel [simp]: "oget (odel k kvs) k' = (if k' = k then None else oget kvs k')"
  by (induction kvs) (auto simp: odel_def)

lemma oget_ospread:
  "distinct (map fst b) \<Longrightarrow>
     oget (ospread a b) k = (case oget b k of None \<Rightarrow> oget a k | Some v \<Rightarrow> Some v)"
proof (induction a b rule: ospread.induct)
  case (1 a) then show ?case by simp
next
  case (2 a k' v b)
  have "oget b k' = None" using "2.prems" by (auto simp: oget_def map_of_eq_None_iff)
  with 2 show ?case by (auto split: option.splits)
qed

lemma fst_set_oset [simp]: "fst ` set (oset k v kvs) = insert k (fst ` set kvs)"
proof (induction kvs)
  case (Cons kv kvs)
  then show ?case by (cases kv) (auto simp: insert_commute)
qed simp

lemma distinct_keys_oset [simp]:
  "distinct (map fst kvs) \<Longrightarrow> distinct (map fst (oset k v kvs))"
  by (induction kvs) auto

lemma fst_set_ospread [simp]: "fst ` set (ospread a b) = fst ` set a \<union> fst ` set b"
  by (induction a b rule: ospread.induct) auto

lemma distinct_keys_ospread [simp]:
  "distinct (map fst a) \<Longrightarrow> distinct (map fst (ospread a b))"
  by (induction a b rule: ospread.induct) auto

lemma distinct_keys_from_entries [simp]: "distinct (map fst (from_entries es))"
  by (simp add: from_entries_def)

lemma distinct_keys_odel [simp]: "distinct (map fst kvs) \<Longrightarrow> distinct (map fst (odel k kvs))"
  by (simp add: odel_def distinct_map_filter)

lemma oget_None_iff: "oget kvs k = None \<longleftrightarrow> k \<notin> fst ` set kvs"
  by (simp add: oget_def map_of_eq_None_iff)

lemma oget_Some_iff:
  "distinct (map fst kvs) \<Longrightarrow> oget kvs k = Some v \<longleftrightarrow> (k, v) \<in> set kvs"
  by (simp add: oget_def)

lemma oget_SomeD: "oget kvs k = Some v \<Longrightarrow> (k, v) \<in> set kvs"
  by (simp add: oget_def map_of_SomeD)

lemma set_odel: "set (odel k kvs) = {kv \<in> set kvs. fst kv \<noteq> k}"
  by (auto simp: odel_def)

lemma set_oset_subset: "set (oset k v kvs) \<subseteq> insert (k, v) (set kvs)"
proof (induction kvs)
  case (Cons kv kvs)
  then show ?case by (cases kv) auto
qed simp

lemma set_oset:
  "distinct (map fst kvs) \<Longrightarrow> set (oset k v kvs) = insert (k, v) {kv \<in> set kvs. fst kv \<noteq> k}"
proof (induction kvs)
  case (Cons kv kvs)
  then show ?case by (cases kv) (auto simp: image_iff)
qed simp

lemma odel_oset_same: "odel k (oset k v kvs) = odel k kvs"
proof (induction kvs)
  case (Cons kv kvs)
  then show ?case by (cases kv) (simp add: odel_def)
qed (simp add: odel_def)

lemma oset_fresh: "k \<notin> fst ` set kvs \<Longrightarrow> oset k v kvs = kvs @ [(k, v)]"
  by (induction kvs) auto

lemma length_oset_le: "length (oset k v kvs) \<le> Suc (length kvs)"
  by (induction kvs) auto

lemma oset_same: "oget kvs k = Some v \<Longrightarrow> oset k v kvs = kvs"
  by (induction kvs) (auto split: if_splits)

section \<open>JavaScript \<open>Set\<close>s: the first occurrence of each element, in order\<close>

fun uniq :: "'a list \<Rightarrow> 'a list" where
  "uniq [] = []"
| "uniq (x # xs) = x # filter (\<lambda>y. y \<noteq> x) (uniq xs)"

lemma set_uniq [simp]: "set (uniq xs) = set xs"
  by (induction xs) auto

lemma distinct_uniq [simp]: "distinct (uniq xs)"
  by (induction xs) auto

lemma uniq_distinct: "distinct xs \<Longrightarrow> uniq xs = xs"
  by (induction xs) (auto simp: filter_id_conv)

lemma uniq_Nil_iff [simp]: "uniq xs = [] \<longleftrightarrow> xs = []"
  by (cases xs) auto

lemma length_uniq_le: "length (uniq xs) \<le> length xs"
  by (induction xs) (auto intro: le_trans [OF length_filter_le])

lemma length_uniq_eq_iff: "length (uniq xs) = length xs \<longleftrightarrow> distinct xs"
proof
  assume "length (uniq xs) = length xs"
  then have "card (set (uniq xs)) = length xs" by (simp only: distinct_card [OF distinct_uniq])
  then show "distinct xs" by (simp add: card_distinct)
qed (simp add: uniq_distinct)

lemma uniq_append_prefix: "distinct xs \<Longrightarrow> take (length xs) (uniq (xs @ ys)) = xs"
proof (induction xs)
  case (Cons x xs)
  let ?u = "uniq (xs @ ys)"
  have tk: "take (length xs) ?u = xs" using Cons by simp
  have "?u = xs @ drop (length xs) ?u" using tk append_take_drop_id [of "length xs" ?u] by simp
  then have "filter (\<lambda>y. y \<noteq> x) ?u = filter (\<lambda>y. y \<noteq> x) xs @ filter (\<lambda>y. y \<noteq> x) (drop (length xs) ?u)"
    by (metis filter_append)
  moreover have "filter (\<lambda>y. y \<noteq> x) xs = xs" using Cons.prems by (auto simp: filter_id_conv)
  ultimately show ?case by simp
qed simp

section \<open>Sorting, as \<open>Array.prototype.sort\<close> with a key: stable\<close>

lemma sorted_take: "sorted xs \<Longrightarrow> sorted (take n xs)"
  using sorted_append [of "take n xs" "drop n xs"] by simp

lemma sorted_map_take: "sorted (map f xs) \<Longrightarrow> sorted (map f (take n xs))"
  by (simp add: take_map [symmetric] sorted_take)

end
