(* ===== verification/JsString.thy ===== *)
theory JsString
  imports Prelude
begin

text \<open>
  JavaScript strings.  A string is the list of the bytes of its UTF-8 encoding, so
  \<open>Buffer.byteLength\<close> is \<open>length\<close> and an ASCII literal is itself; \<open>s.length\<close> counts
  UTF-16 units and is \<open>js_length\<close>.  The regular expressions of the code are fixed-width
  patterns of character classes, matched by \<open>matches\<close>, or character-class repetitions, matched by
  \<open>list_all\<close>.  Lower-casing is that of ASCII: every value the code lower-cases is checked
  against an ASCII pattern before or after.
\<close>

section \<open>Lengths\<close>

abbreviation code :: "char \<Rightarrow> nat" where
  "code c \<equiv> of_char c"

text \<open>The UTF-16 units a byte starts: continuation bytes none, lead bytes of a surrogate pair two.\<close>

definition units :: "char \<Rightarrow> nat" where
  "units c = (if code c < 128 then 1 else if code c < 192 then 0 else if code c < 240 then 1 else 2)"

fun js_length :: "string \<Rightarrow> nat" where
  "js_length [] = 0"
| "js_length (c # cs) = units c + js_length cs"

definition is_ascii :: "string \<Rightarrow> bool" where
  "is_ascii s = list_all (\<lambda>c. code c < 128) s"

lemma js_length_ascii: "is_ascii s \<Longrightarrow> js_length s = length s"
  by (induction s) (auto simp: is_ascii_def units_def)

lemma js_length_append [simp]: "js_length (a @ b) = js_length a + js_length b"
  by (induction a) auto

section \<open>Character classes and fixed-width patterns\<close>

definition is_digit :: "char \<Rightarrow> bool" where
  "is_digit c = (48 \<le> code c \<and> code c \<le> 57)"

definition is_upper :: "char \<Rightarrow> bool" where
  "is_upper c = (65 \<le> code c \<and> code c \<le> 90)"

definition is_lower :: "char \<Rightarrow> bool" where
  "is_lower c = (97 \<le> code c \<and> code c \<le> 122)"

definition is_alnum :: "char \<Rightarrow> bool" where
  "is_alnum c = (is_digit c \<or> is_upper c \<or> is_lower c)"

text \<open>\<open>[0-9a-f]\<close>, with and without the flag \<open>i\<close>\<close>

definition is_hex_lower :: "char \<Rightarrow> bool" where
  "is_hex_lower c = (is_digit c \<or> 97 \<le> code c \<and> code c \<le> 102)"

definition is_hex :: "char \<Rightarrow> bool" where
  "is_hex c = (is_hex_lower c \<or> 65 \<le> code c \<and> code c \<le> 70)"

fun matches :: "(char \<Rightarrow> bool) list \<Rightarrow> string \<Rightarrow> bool" where
  "matches [] s = (s = [])"
| "matches (p # ps) [] = False"
| "matches (p # ps) (c # cs) = (p c \<and> matches ps cs)"

lemma matches_length: "matches ps s \<Longrightarrow> length s = length ps"
  by (induction ps s rule: matches.induct) auto

lemma matches_nth: "matches ps s \<Longrightarrow> i < length ps \<Longrightarrow> (ps ! i) (s ! i)"
  by (induction ps s arbitrary: i rule: matches.induct) (auto simp: nth_Cons split: nat.splits)

lemma matches_iff: "matches ps s \<longleftrightarrow> length s = length ps \<and> (\<forall>i<length ps. (ps ! i) (s ! i))"
proof (induction ps s rule: matches.induct)
  case (3 p ps c cs)
  then show ?case by (auto simp: nth_Cons less_Suc_eq_0_disj split: nat.splits)
qed auto

lemma matches_append:
  "matches (ps @ qs) s \<longleftrightarrow>
     matches ps (take (length ps) s) \<and> matches qs (drop (length ps) s)"
proof (induction ps arbitrary: s)
  case (Cons p ps)
  then show ?case by (cases s) auto
qed simp

text \<open>\<open>[0-9a-f]{8}-[0-9a-f]{4}-v[0-9a-f]{3}-w[0-9a-f]{3}-[0-9a-f]{12}\<close>, \<open>v\<close> and
  \<open>w\<close> the classes of the version and the variant character.\<close>

definition uuid_pattern :: "(char \<Rightarrow> bool) \<Rightarrow> (char \<Rightarrow> bool) \<Rightarrow> (char \<Rightarrow> bool) \<Rightarrow> (char \<Rightarrow> bool) list" where
  "uuid_pattern h v w =
     replicate 8 h @ [\<lambda>c. c = CHR ''-''] @ replicate 4 h @ [\<lambda>c. c = CHR ''-''] @
     v # replicate 3 h @ [\<lambda>c. c = CHR ''-''] @ w # replicate 3 h @ [\<lambda>c. c = CHR ''-''] @
     replicate 12 h"

definition is_variant :: "char \<Rightarrow> bool" where
  "is_variant c = (c \<in> set ''89abAB'')"

definition is_version_1_8 :: "char \<Rightarrow> bool" where
  "is_version_1_8 c = (49 \<le> code c \<and> code c \<le> 56)"

lemma length_uuid_pattern [simp]: "length (uuid_pattern h v w) = 36"
  by (simp add: uuid_pattern_def)

lemma matches_uuid_mono:
  assumes "matches (uuid_pattern h v w) s"
    and "\<And>c. h c \<Longrightarrow> h' c" "\<And>c. v c \<Longrightarrow> v' c" "\<And>c. w c \<Longrightarrow> w' c"
  shows "matches (uuid_pattern h' v' w') s"
proof -
  have m: "matches ps cs \<Longrightarrow> list_all2 (\<lambda>p q. \<forall>c. p c \<longrightarrow> q c) ps qs \<Longrightarrow> matches qs cs" for ps qs :: "(char \<Rightarrow> bool) list" and cs
    by (induction ps cs arbitrary: qs rule: matches.induct) (auto simp: list_all2_Cons1)
  show ?thesis
    using m [OF assms(1), of "uuid_pattern h' v' w'"] assms(2-4)
    by (simp add: uuid_pattern_def numeral_eq_Suc)
qed

section \<open>Case, white space\<close>

definition lower_char :: "char \<Rightarrow> char" where
  "lower_char c = (if is_upper c then char_of (code c + 32) else c)"

definition to_lower :: "string \<Rightarrow> string" where
  "to_lower s = map lower_char s"

lemma code_lower_char: "code (lower_char c) = (if is_upper c then code c + 32 else code c)"
  by (simp add: lower_char_def is_upper_def)

lemma lower_char_idem [simp]: "lower_char (lower_char c) = lower_char c"
proof (cases "is_upper c")
  case True
  then have "\<not> is_upper (lower_char c)" by (simp add: is_upper_def code_lower_char)
  then show ?thesis by (simp add: lower_char_def [of "lower_char c"])
qed (simp add: lower_char_def)

lemma to_lower_idem [simp]: "to_lower (to_lower s) = to_lower s"
  by (simp add: to_lower_def)

lemma length_to_lower [simp]: "length (to_lower s) = length s"
  by (simp add: to_lower_def)

lemma nth_to_lower: "i < length s \<Longrightarrow> to_lower s ! i = lower_char (s ! i)"
  by (simp add: to_lower_def)

text \<open>
  The length in bytes of the white space at the front (0 if there is none): the code points that
  \<open>trim\<close> and \<open>\s\<close> take, U+0009--000D, U+0020, U+00A0, U+1680, U+2000--200A, U+2028,
  U+2029, U+202F, U+205F, U+3000 and U+FEFF.
\<close>

fun ws_prefix :: "nat list \<Rightarrow> nat" where
  "ws_prefix (a # b # c # cs) =
     (if 9 \<le> a \<and> a \<le> 13 \<or> a = 32 then 1
      else if a = 194 \<and> b = 160 then 2
      else if a = 225 \<and> b = 154 \<and> c = 128 then 3
      else if a = 226 \<and> b = 128 \<and> (128 \<le> c \<and> c \<le> 138 \<or> c = 168 \<or> c = 169 \<or> c = 175) then 3
      else if a = 226 \<and> b = 129 \<and> c = 159 then 3
      else if a = 227 \<and> b = 128 \<and> c = 128 then 3
      else if a = 239 \<and> b = 187 \<and> c = 191 then 3
      else 0)"
| "ws_prefix [a, b] =
     (if 9 \<le> a \<and> a \<le> 13 \<or> a = 32 then 1 else if a = 194 \<and> b = 160 then 2 else 0)"
| "ws_prefix [a] = (if 9 \<le> a \<and> a \<le> 13 \<or> a = 32 then 1 else 0)"
| "ws_prefix [] = 0"

definition ws_front :: "string \<Rightarrow> nat" where
  "ws_front s = ws_prefix (map of_char s)"

function trim_start :: "string \<Rightarrow> string" where
  "trim_start s = (if ws_front s = 0 \<or> s = [] then s else trim_start (drop (ws_front s) s))"
  by pat_completeness auto
termination by (relation "measure length") auto

declare trim_start.simps [simp del]

text \<open>Trailing white space: the suffix from which \<open>trim_start\<close> leaves nothing is dropped.\<close>

fun trim_end :: "string \<Rightarrow> string" where
  "trim_end [] = []"
| "trim_end (c # cs) = (if trim_start (c # cs) = [] then [] else c # trim_end cs)"

definition trim :: "string \<Rightarrow> string" where
  "trim s = trim_end (trim_start s)"

lemma trim_start_idem [simp]: "trim_start (trim_start s) = trim_start s"
proof (induction s rule: trim_start.induct)
  case (1 s)
  then show ?case
    by (cases "ws_front s = 0 \<or> s = []") (simp_all add: trim_start.simps [of s])
qed

lemma trim_end_Nil_iff: "trim_end s = [] \<longleftrightarrow> trim_start s = []"
  by (cases s) (auto simp: trim_start.simps [of "[]"])

lemma trim_Nil_iff: "trim s = [] \<longleftrightarrow> trim_start s = []"
  by (simp add: trim_def trim_end_Nil_iff)

text \<open>\<open>value.trim() === ""\<close>\<close>

definition blank :: "string \<Rightarrow> bool" where
  "blank s = (trim s = [])"

section \<open>Searching and cutting\<close>

definition has_char :: "char \<Rightarrow> string \<Rightarrow> bool" where
  "has_char c s = (c \<in> set s)"

definition starts_with :: "string \<Rightarrow> string \<Rightarrow> bool" where
  "starts_with p s = (take (length p) s = p)"

fun str_includes :: "string \<Rightarrow> string \<Rightarrow> bool" where
  "str_includes p [] = (p = [])"
| "str_includes p (c # cs) = (starts_with p (c # cs) \<or> str_includes p cs)"

lemma starts_with_append [simp]: "starts_with p (p @ s)"
  by (simp add: starts_with_def)

lemma starts_with_iff: "starts_with p s \<longleftrightarrow> (\<exists>r. s = p @ r)"
  unfolding starts_with_def by (metis append_take_drop_id append_eq_conv_conj)

text \<open>\<open>s.split(",")\<close>\<close>

fun split_on :: "char \<Rightarrow> string \<Rightarrow> string list" where
  "split_on d [] = [[]]"
| "split_on d (c # cs) =
     (if c = d then [] # split_on d cs
      else (case split_on d cs of [] \<Rightarrow> [[c]] | w # ws \<Rightarrow> (c # w) # ws))"

text \<open>\<open>value.replace(/\s+/g, " ")\<close>: every run of white space becomes one space.\<close>

function collapse_ws :: "string \<Rightarrow> string" where
  "collapse_ws s =
     (case s of
        [] \<Rightarrow> []
      | c # cs \<Rightarrow>
          if ws_front s = 0 then c # collapse_ws cs
          else CHR '' '' # collapse_ws (trim_start (drop (ws_front s) s)))"
  by pat_completeness auto

lemma length_trim_start_le: "length (trim_start s) \<le> length s"
proof (induction s rule: trim_start.induct)
  case (1 s)
  then show ?case
    by (cases "ws_front s = 0 \<or> s = []") (auto simp: trim_start.simps [of s])
qed

termination collapse_ws
proof (relation "measure length")
  fix s :: string and c cs
  assume s: "s = c # cs" and w: "ws_front s \<noteq> 0"
  have "length (trim_start (drop (ws_front s) s)) \<le> length (drop (ws_front s) s)"
    by (rule length_trim_start_le)
  also have "\<dots> < length s" using s w by simp
  finally show "(trim_start (drop (ws_front s) s), s) \<in> measure length" by simp
qed auto

section \<open>Hexadecimal and decimal numerals\<close>

definition hex_char :: "nat \<Rightarrow> char" where
  "hex_char d = (if d < 10 then char_of (48 + d) else char_of (87 + d))"

definition hex_val :: "char \<Rightarrow> nat" where
  "hex_val c = (if is_digit c then code c - 48 else if is_lower c then code c - 87 else code c - 55)"

text \<open>\<open>value.toString(16)\<close>\<close>

fun to_hex :: "nat \<Rightarrow> string" where
  "to_hex n = (if n < 16 then [hex_char n] else to_hex (n div 16) @ [hex_char (n mod 16)])"

declare to_hex.simps [simp del]

text \<open>\<open>s.padStart(width, "0")\<close>\<close>

definition pad_start :: "nat \<Rightarrow> string \<Rightarrow> string" where
  "pad_start w s = replicate (w - length s) (CHR ''0'') @ s"

fun from_hex :: "string \<Rightarrow> nat" where
  "from_hex [] = 0"
| "from_hex (c # cs) = hex_val c * 16 ^ length cs + from_hex cs"

lemma from_hex_append: "from_hex (a @ b) = from_hex a * 16 ^ length b + from_hex b"
  by (induction a) (auto simp: algebra_simps power_add)

lemma code_hex_char: "d < 16 \<Longrightarrow> code (hex_char d) = (if d < 10 then 48 + d else 87 + d)"
  by (simp add: hex_char_def)

lemma hex_val_hex_char [simp]: "d < 16 \<Longrightarrow> hex_val (hex_char d) = d"
  by (simp add: hex_val_def is_digit_def is_lower_def code_hex_char)

lemma is_hex_lower_hex_char [simp]: "d < 16 \<Longrightarrow> is_hex_lower (hex_char d)"
  by (simp add: is_hex_lower_def is_digit_def code_hex_char)

lemma hex_val_zero [simp]: "hex_val (CHR ''0'') = 0"
  by (simp add: hex_val_def is_digit_def)

lemma from_hex_to_hex [simp]: "from_hex (to_hex n) = n"
proof (induction n rule: to_hex.induct)
  case (1 n)
  then show ?case by (cases "n < 16") (simp_all add: to_hex.simps [of n] from_hex_append)
qed

lemma to_hex_hex: "list_all is_hex_lower (to_hex n)"
proof (induction n rule: to_hex.induct)
  case (1 n)
  then show ?case by (cases "n < 16") (simp_all add: to_hex.simps [of n])
qed

lemma length_to_hex_le: "n < 16 ^ w \<Longrightarrow> 0 < w \<Longrightarrow> length (to_hex n) \<le> w"
proof (induction n arbitrary: w rule: to_hex.induct)
  case (1 n)
  show ?case
  proof (cases "n < 16")
    case True
    with "1.prems" show ?thesis by (simp add: to_hex.simps [of n])
  next
    case False
    obtain w' where w': "w = Suc w'" using "1.prems"(2) by (cases w) auto
    have "0 < w'" using False "1.prems"(1) w' by (cases w') auto
    moreover have "n div 16 < 16 ^ w'" using "1.prems"(1) w' by (simp add: div_less_iff_less_mult)
    ultimately have "length (to_hex (n div 16)) \<le> w'" using "1.IH" False by blast
    with False w' show ?thesis by (simp add: to_hex.simps [of n])
  qed
qed

lemma from_hex_pad [simp]: "from_hex (pad_start w s) = from_hex s"
proof -
  have "from_hex (replicate k (CHR ''0'') @ s) = from_hex s" for k by (induction k) auto
  then show ?thesis by (simp add: pad_start_def)
qed

lemma pad_start_hex: "list_all is_hex_lower s \<Longrightarrow> list_all is_hex_lower (pad_start w s)"
  by (auto simp: pad_start_def list_all_iff is_hex_lower_def is_digit_def)

lemma length_pad_start [simp]: "length (pad_start w s) = max w (length s)"
  by (simp add: pad_start_def)

lemma from_hex_bound: "list_all is_hex_lower s \<Longrightarrow> from_hex s < 16 ^ length s"
proof (induction s)
  case (Cons c cs)
  have "hex_val c \<le> 15" using Cons.prems by (auto simp: hex_val_def is_hex_lower_def is_digit_def is_lower_def)
  then have "hex_val c * 16 ^ length cs \<le> 15 * 16 ^ length cs" by (rule mult_right_mono) simp
  then have "from_hex (c # cs) < 15 * 16 ^ length cs + 16 ^ length cs"
    unfolding from_hex.simps using Cons by (intro add_le_less_mono) auto
  then show ?case by simp
qed simp

text \<open>\<open>String(n)\<close> for a natural number\<close>

fun dec_str :: "nat \<Rightarrow> string" where
  "dec_str n = (if n < 10 then [char_of (48 + n)] else dec_str (n div 10) @ [char_of (48 + n mod 10)])"

declare dec_str.simps [simp del]

lemma length_dec_str_le: "n < 10 ^ w \<Longrightarrow> 0 < w \<Longrightarrow> length (dec_str n) \<le> w"
proof (induction n arbitrary: w rule: dec_str.induct)
  case (1 n)
  show ?case
  proof (cases "n < 10")
    case True
    with "1.prems" show ?thesis by (simp add: dec_str.simps [of n])
  next
    case False
    obtain w' where w': "w = Suc w'" using "1.prems"(2) by (cases w) auto
    have "0 < w'" using False "1.prems"(1) w' by (cases w') auto
    moreover have "n div 10 < 10 ^ w'" using "1.prems"(1) w' by (simp add: div_less_iff_less_mult)
    ultimately have "length (dec_str (n div 10)) \<le> w'" using "1.IH" False by blast
    with False w' show ?thesis by (simp add: dec_str.simps [of n])
  qed
qed

end
