(* ===== verification/Json.thy ===== *)
theory Json
  imports JsString "HOL-Library.Multiset"
begin

text \<open>
  JSON values and the two serialisations the code uses: \<open>JSON.stringify\<close> and the
  key-sorted \<open>canonicalJson\<close> of \<open>apps/mcp/src/router.ts\<close> and
  \<open>apps/mcp/src/retry-queue.ts\<close>.  An object is its list of fields in property order; a field
  that is \<open>undefined\<close> is a field that is absent, which is what \<open>JSON.stringify\<close>, the
  \<open>!== undefined\<close> filters and \<open>canonicalJson\<close> make of it.  Finite numbers are rationals;
  \<open>JInf\<close> is a number that is not finite (what \<open>JSON.parse\<close> returns for \<open>1e999\<close>).
  How a number that is not a natural number is written is the parameter \<open>fmt\<close>.
\<close>

section \<open>Values\<close>

datatype json =
    JNull
  | JBool bool
  | JNum rat
  | JInf
  | JStr string
  | JArr "json list"
  | JObj "(string \<times> json) list"

type_synonym fields = "(string \<times> json) list"

text \<open>\<open>value !== null \<and> typeof value === "object" \<and> !Array.isArray(value)\<close>, then the value\<close>

fun as_object :: "json \<Rightarrow> fields option" where
  "as_object (JObj o1) = Some o1"
| "as_object _ = None"

fun as_string :: "json \<Rightarrow> string option" where
  "as_string (JStr s) = Some s"
| "as_string _ = None"

fun as_array :: "json \<Rightarrow> json list option" where
  "as_array (JArr xs) = Some xs"
| "as_array _ = None"

fun as_bool :: "json \<Rightarrow> bool option" where
  "as_bool (JBool b) = Some b"
| "as_bool _ = None"

text \<open>\<open>Number.isInteger(value)\<close>, and then the integer\<close>

fun as_integer :: "json \<Rightarrow> int option" where
  "as_integer (JNum q) = (if of_int \<lfloor>q\<rfloor> = q then Some \<lfloor>q\<rfloor> else None)"
| "as_integer _ = None"

text \<open>Truthiness of a value that may be \<open>undefined\<close>\<close>

fun truthy :: "json \<Rightarrow> bool" where
  "truthy JNull = False"
| "truthy (JBool b) = b"
| "truthy (JNum q) = (q \<noteq> 0)"
| "truthy (JStr s) = (s \<noteq> [])"
| "truthy _ = True"

definition truthy_opt :: "json option \<Rightarrow> bool" where
  "truthy_opt v = (case v of None \<Rightarrow> False | Some j \<Rightarrow> truthy j)"

text \<open>\<open>typeof o[k] === "string" ? o[k] : undefined\<close> and its kin\<close>

definition str_field :: "fields \<Rightarrow> string \<Rightarrow> string option" where
  "str_field o1 k = Option.bind (oget o1 k) as_string"

definition arr_field :: "fields \<Rightarrow> string \<Rightarrow> json list option" where
  "arr_field o1 k = Option.bind (oget o1 k) as_array"

definition obj_field :: "fields \<Rightarrow> string \<Rightarrow> fields option" where
  "obj_field o1 k = Option.bind (oget o1 k) as_object"

definition bool_field :: "fields \<Rightarrow> string \<Rightarrow> bool option" where
  "bool_field o1 k = Option.bind (oget o1 k) as_bool"

lemma as_object_Some [simp]: "as_object j = Some o1 \<longleftrightarrow> j = JObj o1"
  by (cases j) auto

lemma as_string_Some [simp]: "as_string j = Some s \<longleftrightarrow> j = JStr s"
  by (cases j) auto

lemma as_array_Some [simp]: "as_array j = Some xs \<longleftrightarrow> j = JArr xs"
  by (cases j) auto

lemma as_bool_Some [simp]: "as_bool j = Some b \<longleftrightarrow> j = JBool b"
  by (cases j) auto

lemma as_integer_of_int [simp]: "as_integer (JNum (of_int i)) = Some i"
  by simp

lemma as_integer_Some: "as_integer j = Some i \<longleftrightarrow> j = JNum (of_int i)"
  by (cases j) auto

lemma str_field_Some: "str_field o1 k = Some s \<longleftrightarrow> oget o1 k = Some (JStr s)"
  by (auto simp: str_field_def bind_eq_Some_conv)

lemma str_field_oset [simp]:
  "str_field (oset k v o1) k' = (if k' = k then as_string v else str_field o1 k')"
  by (simp add: str_field_def)

section \<open>Serialisation\<close>

text \<open>The characters \<open>JSON.stringify\<close> escapes: quote, backslash and the control characters.\<close>

definition escape_char :: "char \<Rightarrow> string" where
  "escape_char c =
     (if c = CHR 0x22 then [CHR 0x5C, CHR 0x22]
      else if c = CHR 0x5C then [CHR 0x5C, CHR 0x5C]
      else if c = CHR 0x08 then [CHR 0x5C, CHR ''b'']
      else if c = CHR 0x0C then [CHR 0x5C, CHR ''f'']
      else if c = CHR 0x0A then [CHR 0x5C, CHR ''n'']
      else if c = CHR 0x0D then [CHR 0x5C, CHR ''r'']
      else if c = CHR 0x09 then [CHR 0x5C, CHR ''t'']
      else if code c < 32 then CHR 0x5C # CHR ''u'' # pad_start 4 (to_hex (code c))
      else [c])"

definition quote :: "string \<Rightarrow> string" where
  "quote s = CHR 0x22 # concat (map escape_char s) @ [CHR 0x22]"

fun join :: "string \<Rightarrow> string list \<Rightarrow> string" where
  "join sep [] = []"
| "join sep [x] = x"
| "join sep (x # y # ys) = x @ sep @ join sep (y # ys)"

definition num_str :: "(rat \<Rightarrow> string) \<Rightarrow> rat \<Rightarrow> string" where
  "num_str fmt q = (if of_int \<lfloor>q\<rfloor> = q \<and> 0 \<le> q then dec_str (nat \<lfloor>q\<rfloor>) else fmt q)"

fun stringify :: "(rat \<Rightarrow> string) \<Rightarrow> json \<Rightarrow> string" where
  "stringify fmt JNull = ''null''"
| "stringify fmt (JBool b) = (if b then ''true'' else ''false'')"
| "stringify fmt (JNum q) = num_str fmt q"
| "stringify fmt JInf = ''null''"
| "stringify fmt (JStr s) = quote s"
| "stringify fmt (JArr xs) = ''['' @ join '','' (map (stringify fmt) xs) @ '']''"
| "stringify fmt (JObj kvs) =
     ''{'' @ join '','' (map (\<lambda>kv. quote (fst kv) @ '':'' @ stringify fmt (snd kv)) kvs) @ ''}''"

text \<open>\<open>Buffer.byteLength(JSON.stringify(value), "utf8")\<close>\<close>

definition serialized_bytes :: "(rat \<Rightarrow> string) \<Rightarrow> json \<Rightarrow> nat" where
  "serialized_bytes fmt v = length (stringify fmt v)"

text \<open>
  \<open>canonicalJson\<close>: as \<open>JSON.stringify\<close>, the keys of every object sorted.  The sort is by
  bytes, the order of UTF-16 units on the strings outside the surrogate range.
\<close>

fun canonical_json :: "(rat \<Rightarrow> string) \<Rightarrow> json \<Rightarrow> string" where
  "canonical_json fmt (JArr xs) = ''['' @ join '','' (map (canonical_json fmt) xs) @ '']''"
| "canonical_json fmt (JObj kvs) =
     ''{'' @ join '','' (map (\<lambda>kt. quote (fst kt) @ '':'' @ snd kt)
        (sort_key fst (map (\<lambda>kv. (fst kv, canonical_json fmt (snd kv))) kvs))) @ ''}''"
| "canonical_json fmt v = stringify fmt v"

lemma sort_key_perm:
  assumes "mset xs = mset ys" and "distinct (map fst xs)"
  shows "sort_key fst xs = (sort_key fst ys :: (('a::linorder) \<times> 'b) list)"
  using assms by (intro sort_key_inj_key_eq) (simp_all add: distinct_map)

text \<open>Two values that differ only in the order of the fields of their objects, at any depth.\<close>

inductive same_json :: "json \<Rightarrow> json \<Rightarrow> bool" where
  same_refl: "same_json v v"
| same_arr: "list_all2 same_json xs ys \<Longrightarrow> same_json (JArr xs) (JArr ys)"
| same_obj:
    "list_all2 (\<lambda>a b. fst a = fst b \<and> same_json (snd a) (snd b)) kvs kvs' \<Longrightarrow>
     mset kvs' = mset kvs'' \<Longrightarrow> distinct (map fst kvs'') \<Longrightarrow>
     same_json (JObj kvs) (JObj kvs'')"

lemma canonical_json_same: "same_json v w \<Longrightarrow> canonical_json fmt v = canonical_json fmt w"
proof (induction rule: same_json.induct)
  case (same_refl v)
  show ?case ..
next
  case (same_arr xs ys)
  then have "map (canonical_json fmt) xs = map (canonical_json fmt) ys"
    by (induction rule: list_all2_induct) auto
  then show ?case by simp
next
  case (same_obj kvs kvs' kvs'')
  let ?c = "\<lambda>kv. (fst kv, canonical_json fmt (snd kv))"
  have "map ?c kvs = map ?c kvs'"
    using same_obj.IH by (induction rule: list_all2_induct) auto
  moreover have "sort_key fst (map ?c kvs'') = sort_key fst (map ?c kvs')"
  proof (rule sort_key_perm)
    show "mset (map ?c kvs'') = mset (map ?c kvs')" using same_obj.hyps(1) by simp
    show "distinct (map fst (map ?c kvs''))" using same_obj.hyps(2) by (simp add: comp_def)
  qed
  ultimately have "sort_key fst (map ?c kvs) = sort_key fst (map ?c kvs'')" by simp
  then show ?case by simp
qed

end
