(* ===== verification/Durable.thy ===== *)
theory Durable
  imports Prelude
begin

text \<open>
  The contract of a durable store, as a client of it relies on: a state with an invariant, the set
  of the things it holds, and steps of which each may add some things and drop some.  What a whole
  history of steps does follows once for all stores.
\<close>

locale durable_log =
  fixes inv :: "'s \<Rightarrow> bool"
    and held :: "'s \<Rightarrow> 'd set"
    and step :: "'e \<Rightarrow> 's \<Rightarrow> 's"
    and allowed :: "'e \<Rightarrow> bool"
    and adds :: "'e \<Rightarrow> 'd set"
    and drops :: "'e \<Rightarrow> 'd set"
  assumes step_inv: "inv s \<Longrightarrow> allowed e \<Longrightarrow> inv (step e s)"
    and step_keeps: "inv s \<Longrightarrow> allowed e \<Longrightarrow> held s - drops e \<subseteq> held (step e s)"
    and step_adds: "inv s \<Longrightarrow> allowed e \<Longrightarrow> held (step e s) \<subseteq> held s \<union> adds e"
begin

lemma history_inv: "inv s \<Longrightarrow> \<forall>e \<in> set es. allowed e \<Longrightarrow> inv (fold step es s)"
  by (induction es arbitrary: s) (auto intro: step_inv)

lemma history_keeps:
  "inv s \<Longrightarrow> \<forall>e \<in> set es. allowed e \<Longrightarrow> d \<in> held s \<Longrightarrow> \<forall>e \<in> set es. d \<notin> drops e \<Longrightarrow>
     d \<in> held (fold step es s)"
proof (induction es arbitrary: s)
  case (Cons e es)
  then have "d \<in> held (step e s)" using step_keeps [of s e] by auto
  with Cons show ?case by (simp add: step_inv)
qed simp

lemma history_origin:
  "inv s \<Longrightarrow> \<forall>e \<in> set es. allowed e \<Longrightarrow> d \<in> held (fold step es s) \<Longrightarrow>
     d \<in> held s \<or> (\<exists>e \<in> set es. d \<in> adds e)"
proof (induction es arbitrary: s)
  case (Cons e es)
  then have "d \<in> held (step e s) \<or> (\<exists>e \<in> set es. d \<in> adds e)" by (simp add: step_inv)
  then show ?case using Cons.prems step_adds [of s e] by auto
qed simp

end

end
