(* ===== verification/RetryQueue.thy ===== *)
theory RetryQueue
  imports Json Durable
begin

text \<open>
  The durable retry queue of the MCP adapter, \<open>apps/mcp/src/retry-queue.ts\<close>: the queue file
  \<open>retry-queue.json\<close>, the record spool \<open>records/<id>.json\<close>, the idempotency registry
  \<open>idempotency/<xx>/<digest>.json\<close> and the in-memory counter of the class
  \<open>DurableRetryQueue\<close>.

  An operation reads the state and returns the list of the writes it makes, in order, with its
  result (an error may follow writes already made).  Every write is one \<open>atomicJsonWrite\<close>
  (write a temporary file, sync, rename) or one \<open>rm\<close>, so a crash leaves a prefix of the list
  on disk: \<open>crash_op\<close>.  Operations run one at a time (\<open>#exclusive\<close>).  ISO timestamps are
  their milliseconds, which \<open>toISOString\<close> and \<open>Date.parse\<close> carry both ways and which
  \<open>localeCompare\<close> orders alike; clock readings are arguments.  The SHA-256 digest is the
  parameter \<open>sha\<close>.
\<close>

section \<open>State\<close>

record entry =
  record_id :: string
  target_node :: string
  attempts :: nat
  next_attempt_at :: int
  created_at :: int
  updated_at :: int
  last_error_code :: "string option"

text \<open>\<open>SpoolEnvelope\<close>; \<open>pending_targets\<close> is \<open>None\<close> where the file holds no array.\<close>

record envelope =
  env_record :: fields
  pending_targets :: "string list option"

text \<open>\<open>IdempotencyEntry\<close>; a timestamp that does not parse is \<open>None\<close>.\<close>

record idem_entry =
  idem_record_id :: string
  payload_hash :: string
  namespace_hash :: "string option"
  idem_created_at :: "int option"

datatype queue_file = QMissing | QCorrupt | QEntries "entry list"

record rqueue =
  queue :: queue_file
  spool :: "(string \<times> envelope) list"
  idem :: "(string \<times> idem_entry) list"
  idempotencyWritesSincePrune :: nat

definition IDEMPOTENCY_TTL_MS :: int where
  "IDEMPOTENCY_TTL_MS = 30 * 24 * 60 * 60000"

definition IDEMPOTENCY_MAX_ENTRIES_PER_NAMESPACE :: nat where
  "IDEMPOTENCY_MAX_ENTRIES_PER_NAMESPACE = 10000"

section \<open>Writes and operations\<close>

datatype disk_write =
    WriteQueue "entry list"
  | WriteSpool string envelope
  | RemoveSpool string
  | WriteIdem string idem_entry
  | RemoveIdem string
  | CountWrites nat

fun apply_write :: "disk_write \<Rightarrow> rqueue \<Rightarrow> rqueue" where
  "apply_write (WriteQueue es) s = s\<lparr>queue := QEntries es\<rparr>"
| "apply_write (WriteSpool r env) s = s\<lparr>spool := oset r env (spool s)\<rparr>"
| "apply_write (RemoveSpool r) s = s\<lparr>spool := odel r (spool s)\<rparr>"
| "apply_write (WriteIdem d e) s = s\<lparr>idem := oset d e (idem s)\<rparr>"
| "apply_write (RemoveIdem d) s = s\<lparr>idem := odel d (idem s)\<rparr>"
| "apply_write (CountWrites n) s = s\<lparr>idempotencyWritesSincePrune := n\<rparr>"

definition apply_writes :: "disk_write list \<Rightarrow> rqueue \<Rightarrow> rqueue" where
  "apply_writes ws s = fold apply_write ws s"

type_synonym 'a op = "disk_write list \<times> 'a res"

definition run_op :: "'a op \<Rightarrow> rqueue \<Rightarrow> rqueue \<times> 'a res" where
  "run_op p s = (apply_writes (fst p) s, snd p)"

text \<open>The process stops after \<open>n\<close> writes of the operation; its memory is gone.\<close>

definition crash_op :: "nat \<Rightarrow> 'a op \<Rightarrow> rqueue \<Rightarrow> rqueue" where
  "crash_op n p s = (apply_writes (take n (fst p)) s)\<lparr>idempotencyWritesSincePrune := 0\<rparr>"

text \<open>\<open>await first; await next\<close>\<close>

definition op_then :: "'a op \<Rightarrow> (rqueue \<Rightarrow> 'b op) \<Rightarrow> rqueue \<Rightarrow> 'b op" where
  "op_then p f s =
     (case snd p of
        Inl e \<Rightarrow> (fst p, Inl e)
      | Inr _ \<Rightarrow> let q = f (apply_writes (fst p) s) in (fst p @ fst q, snd q))"

lemma apply_writes_simps [simp]:
  "apply_writes [] s = s" "apply_writes (w # ws) s = apply_writes ws (apply_write w s)"
  by (simp_all add: apply_writes_def)

lemma apply_writes_append: "apply_writes (a @ b) s = apply_writes b (apply_writes a s)"
  by (simp add: apply_writes_def)

section \<open>Record ids and retry keys\<close>

definition RECORD_ID_PATTERN :: "(char \<Rightarrow> bool) list" where
  "RECORD_ID_PATTERN = uuid_pattern is_hex is_hex is_hex"

definition assertRecordId :: "string \<Rightarrow> bool" where
  "assertRecordId recordId = matches RECORD_ID_PATTERN recordId"

definition retryKey :: "string \<Rightarrow> string \<Rightarrow> string" where
  "retryKey recordId targetNode = recordId @ CHR 0x00 # targetNode"

definition entry_key :: "entry \<Rightarrow> string" where
  "entry_key e = retryKey (record_id e) (target_node e)"

fun readQueue :: "queue_file \<Rightarrow> entry list res" where
  "readQueue QMissing = Inl ''ENOENT''"
| "readQueue QCorrupt = Inl ''retry queue is corrupt''"
| "readQueue (QEntries es) = Inr es"

section \<open>enqueueRecord\<close>

definition new_entry :: "string \<Rightarrow> int \<Rightarrow> string option \<Rightarrow> string \<Rightarrow> entry" where
  "new_entry recordId now err target =
     \<lparr>record_id = recordId, target_node = target, attempts = 0, next_attempt_at = now,
      created_at = now, updated_at = now, last_error_code = err\<rparr>"

text \<open>\<open>v && typeof v === "object" ? v : {}\<close>, spread: an array spreads its indices.\<close>

definition object_or_empty :: "json option \<Rightarrow> fields" where
  "object_or_empty v =
     (case v of
        Some (JObj o1) \<Rightarrow> o1
      | Some (JArr xs) \<Rightarrow> map (\<lambda>(i, x). (dec_str i, x)) (enumerate 0 xs)
      | _ \<Rightarrow> [])"

text \<open>\<open>canonicalJson\<close> of a record without its \<open>origin_scopes\<close>\<close>

definition immutable_json :: "(rat \<Rightarrow> string) \<Rightarrow> fields \<Rightarrow> string" where
  "immutable_json fmt record = canonical_json fmt (JObj (odel ''origin_scopes'' record))"

text \<open>The spool half: the record that is persisted, and the write if there is one\<close>

definition spool_record ::
  "(rat \<Rightarrow> string) \<Rightarrow> string \<Rightarrow> fields \<Rightarrow> string list \<Rightarrow> rqueue \<Rightarrow> (disk_write list \<times> fields) res" where
  "spool_record fmt recordId record targets s =
     (case oget (spool s) recordId of
        None \<Rightarrow> Inr ([WriteSpool recordId \<lparr>env_record = record, pending_targets = Some targets\<rparr>], record)
      | Some existing \<Rightarrow>
          if immutable_json fmt (env_record existing) \<noteq> immutable_json fmt record
          then Inl ''record spool collision''
          else (case pending_targets existing of
              None \<Rightarrow> Inl ''TypeError''
            | Some pending \<Rightarrow>
                let existingScopes = object_or_empty (oget (env_record existing) ''origin_scopes'');
                    requestedScopes = object_or_empty (oget record ''origin_scopes'');
                    persisted = oset ''origin_scopes'' (JObj (ospread requestedScopes existingScopes))
                                  (env_record existing);
                    pendingTargets = uniq (pending @ targets)
                in Inr (if length pendingTargets \<noteq> length pending \<or>
                           stringify fmt (JObj persisted) \<noteq> stringify fmt (JObj (env_record existing))
                        then [WriteSpool recordId \<lparr>env_record = persisted, pending_targets = Some pendingTargets\<rparr>]
                        else [], persisted)))"

definition enqueueRecord ::
  "(rat \<Rightarrow> string) \<Rightarrow> int \<Rightarrow> fields \<Rightarrow> string list \<Rightarrow> rqueue \<Rightarrow> fields op" where
  "enqueueRecord fmt now record targets s =
     (let recordId = (case str_field record ''record_id'' of None \<Rightarrow> [] | Some r \<Rightarrow> r)
      in if \<not> assertRecordId recordId then ([], Inl ''invalid record id'')
      else (case spool_record fmt recordId record targets s of
          Inl e \<Rightarrow> ([], Inl e)
        | Inr (ws, persisted) \<Rightarrow>
            (case readQueue (queue s) of
               Inl e \<Rightarrow> (ws, Inl e)
             | Inr entries \<Rightarrow>
                 let existingKeys = map entry_key entries;
                     fresh = filter (\<lambda>target. retryKey recordId target \<notin> set existingKeys) targets
                 in (ws @ [WriteQueue (entries @ map (new_entry recordId now None) fresh)],
                     Inr persisted))))"

section \<open>markPending\<close>

definition delayMs :: "nat \<Rightarrow> int" where
  "delayMs attempts1 = min 300000 (2000 * 2 ^ min (attempts1 - 1) 8)"

definition bump_entry :: "int \<Rightarrow> int \<Rightarrow> string \<Rightarrow> entry \<Rightarrow> entry" where
  "bump_entry now now' errorCode e =
     (let n = attempts e + 1
      in e\<lparr>attempts := n, last_error_code := Some errorCode, updated_at := now,
           next_attempt_at := now' + delayMs n\<rparr>)"

text \<open>\<open>entries.find(p)\<close> and the update of what it found\<close>

fun update_first :: "('a \<Rightarrow> bool) \<Rightarrow> ('a \<Rightarrow> 'a) \<Rightarrow> 'a list \<Rightarrow> 'a list option" where
  "update_first p f [] = None"
| "update_first p f (x # xs) =
     (if p x then Some (f x # xs) else map_option ((#) x) (update_first p f xs))"

definition for_pair :: "string \<Rightarrow> string \<Rightarrow> entry \<Rightarrow> bool" where
  "for_pair recordId targetNode e = (record_id e = recordId \<and> target_node e = targetNode)"

definition markPending ::
  "int \<Rightarrow> int \<Rightarrow> string \<Rightarrow> string \<Rightarrow> string \<Rightarrow> rqueue \<Rightarrow> unit op" where
  "markPending now now' recordId targetNode errorCode s =
     (case readQueue (queue s) of
        Inl e \<Rightarrow> ([], Inl e)
      | Inr entries \<Rightarrow>
          (case update_first (for_pair recordId targetNode) (bump_entry now now' errorCode) entries of
             None \<Rightarrow> ([], Inl ''retry entry disappeared'')
           | Some entries' \<Rightarrow> ([WriteQueue entries'], Inr ())))"

section \<open>resolve\<close>

definition resolve :: "string \<Rightarrow> string \<Rightarrow> rqueue \<Rightarrow> unit op" where
  "resolve recordId targetNode s =
     (if \<not> assertRecordId recordId then ([], Inl ''invalid record id'')
      else let spooled =
             (case oget (spool s) recordId of
                None \<Rightarrow> Inr []
              | Some envelope \<Rightarrow>
                  (case pending_targets envelope of
                     None \<Rightarrow> Inl ''TypeError''
                   | Some pending \<Rightarrow>
                       let pendingTargets = filter (\<lambda>target. target \<noteq> targetNode) pending
                       in Inr (if pendingTargets = [] then [RemoveSpool recordId]
                               else [WriteSpool recordId (envelope\<lparr>pending_targets := Some pendingTargets\<rparr>)])))
      in (case spooled of
            Inl e \<Rightarrow> ([], Inl e)
          | Inr ws \<Rightarrow>
              (case readQueue (queue s) of
                 Inl e \<Rightarrow> (ws, Inl e)
               | Inr entries \<Rightarrow>
                   (ws @ [WriteQueue (filter (\<lambda>e. \<not> for_pair recordId targetNode e) entries)], Inr ()))))"

section \<open>list, readRecord, count\<close>

definition list_entries :: "string list option \<Rightarrow> nat \<Rightarrow> bool \<Rightarrow> int \<Rightarrow> rqueue \<Rightarrow> entry list res" where
  "list_entries targets limit force now s =
     rbind (readQueue (queue s)) (\<lambda>entries.
       Inr (take limit
         (sort_key next_attempt_at
           (filter (\<lambda>e. force \<or> next_attempt_at e \<le> now)
             (filter (\<lambda>e. case targets of None \<Rightarrow> True | Some ts \<Rightarrow> target_node e \<in> set ts) entries)))))"

definition readRecord :: "string \<Rightarrow> rqueue \<Rightarrow> fields option res" where
  "readRecord recordId s =
     (if \<not> assertRecordId recordId then Inl ''invalid record id''
      else Inr (map_option env_record (oget (spool s) recordId)))"

definition count :: "rqueue \<Rightarrow> nat res" where
  "count s = rbind (readQueue (queue s)) (\<lambda>entries. Inr (length entries))"

section \<open>initialize: reconcileSpool\<close>

text \<open>One spool file: its pending targets are valid keys, and get an entry if they have none.\<close>

fun reconcile_targets ::
  "int \<Rightarrow> string \<Rightarrow> string list \<Rightarrow> (string \<times> entry) list \<times> string list \<Rightarrow> (string \<times> entry) list \<times> string list" where
  "reconcile_targets now recordId [] acc = acc"
| "reconcile_targets now recordId (targetNode # ts) (byKey, validKeys) =
     (let key = retryKey recordId targetNode
      in reconcile_targets now recordId ts
           (if oget byKey key = None
            then oset key (new_entry recordId now (Some ''recovered_after_restart'') targetNode) byKey
            else byKey, key # validKeys))"

fun reconcile_files ::
  "int \<Rightarrow> (string \<times> envelope) list \<Rightarrow> (string \<times> entry) list \<times> string list \<Rightarrow>
   ((string \<times> entry) list \<times> string list) res" where
  "reconcile_files now [] acc = Inr acc"
| "reconcile_files now ((recordId, envelope) # files) acc =
     (if \<not> assertRecordId recordId then Inl ''invalid record id''
      else (case pending_targets envelope of
          None \<Rightarrow> Inl ''record spool is corrupt''
        | Some pending \<Rightarrow>
            if str_field (env_record envelope) ''record_id'' \<noteq> Some recordId
            then Inl ''record spool is corrupt''
            else reconcile_files now files (reconcile_targets now recordId pending acc)))"

definition reconcileSpool :: "int \<Rightarrow> rqueue \<Rightarrow> unit op" where
  "reconcileSpool now s =
     (case readQueue (queue s) of
        Inl e \<Rightarrow> ([], Inl e)
      | Inr entries \<Rightarrow>
          (case reconcile_files now (spool s) (from_entries (map (\<lambda>e. (entry_key e, e)) entries), []) of
             Inl e \<Rightarrow> ([], Inl e)
           | Inr (byKey, validKeys) \<Rightarrow>
               let reconciled = map snd (filter (\<lambda>ke. fst ke \<in> set validKeys) byKey)
               in (if reconciled \<noteq> entries then [WriteQueue reconciled] else [], Inr ())))"

section \<open>The idempotency registry\<close>

definition idem_active :: "rqueue \<Rightarrow> idem_entry \<Rightarrow> bool" where
  "idem_active s e = (idem_record_id e \<in> fst ` set (spool s))"

definition idem_expired :: "int \<Rightarrow> idem_entry \<Rightarrow> bool" where
  "idem_expired now e =
     (case idem_created_at e of None \<Rightarrow> True | Some t \<Rightarrow> now - t > IDEMPOTENCY_TTL_MS)"

definition idem_namespace :: "idem_entry \<Rightarrow> string" where
  "idem_namespace e = (case namespace_hash e of None \<Rightarrow> ''legacy'' | Some h \<Rightarrow> h)"

definition idem_created :: "idem_entry \<Rightarrow> int" where
  "idem_created e = (case idem_created_at e of None \<Rightarrow> 0 | Some t \<Rightarrow> t)"

text \<open>\<open>byNamespace\<close>: the kept entries grouped, in the order of the first of each group\<close>

definition idem_groups :: "(string \<times> idem_entry) list \<Rightarrow> (string \<times> idem_entry) list list" where
  "idem_groups es =
     map (\<lambda>ns. filter (\<lambda>de. idem_namespace (snd de) = ns) es) (uniq (map (idem_namespace \<circ> snd) es))"

text \<open>The oldest inactive entries of a group that is over its limit\<close>

definition idem_excess :: "rqueue \<Rightarrow> (string \<times> idem_entry) list \<Rightarrow> string list" where
  "idem_excess s grouped =
     map fst (take (length grouped - IDEMPOTENCY_MAX_ENTRIES_PER_NAMESPACE)
       (sort_key (idem_created \<circ> snd) (filter (\<lambda>de. \<not> idem_active s (snd de)) grouped)))"

definition pruneIdempotencyRegistry :: "int \<Rightarrow> rqueue \<Rightarrow> unit op" where
  "pruneIdempotencyRegistry now s =
     (let doomed = filter (\<lambda>de. \<not> idem_active s (snd de) \<and> idem_expired now (snd de)) (idem s);
          kept = filter (\<lambda>de. idem_active s (snd de) \<or> \<not> idem_expired now (snd de)) (idem s)
      in (map (RemoveIdem \<circ> fst) doomed @
          map RemoveIdem (concat (map (idem_excess s) (idem_groups kept))), Inr ()))"

definition idem_digest :: "(string \<Rightarrow> string) \<Rightarrow> string \<Rightarrow> string \<Rightarrow> string" where
  "idem_digest sha namespace key = sha (namespace @ CHR 0x00 # key)"

text \<open>\<open>fresh\<close> is what \<open>uuid7()\<close> returns if it is called.\<close>

definition resolveIdempotencyKey ::
  "(string \<Rightarrow> string) \<Rightarrow> int \<Rightarrow> string \<Rightarrow> string \<Rightarrow> string \<Rightarrow> string \<Rightarrow> string option \<Rightarrow> rqueue \<Rightarrow> string op" where
  "resolveIdempotencyKey sha now fresh key namespace payloadHash requestedRecordId s =
     (if key = [] \<or> length key > 512 then ([], Inl ''idempotency_key must be 1 to 512 bytes'')
      else if (case requestedRecordId of None \<Rightarrow> False | Some r \<Rightarrow> r \<noteq> [] \<and> \<not> assertRecordId r)
      then ([], Inl ''invalid record id'')
      else let digest = idem_digest sha namespace key;
               existing = oget (idem s) digest
      in (case (case existing of
                  None \<Rightarrow> None
                | Some e \<Rightarrow>
                    if \<not> assertRecordId (idem_record_id e) then Some (Inl ''invalid record id'')
                    else if idem_active s e \<or> \<not> idem_expired now e
                    then Some (if payload_hash e \<noteq> payloadHash
                               then Inl ''idempotency_key was already used with a different payload''
                               else if (case requestedRecordId of None \<Rightarrow> False | Some r \<Rightarrow> r \<noteq> [] \<and> idem_record_id e \<noteq> r)
                               then Inl ''record_id conflicts with idempotency_key''
                               else Inr (idem_record_id e))
                    else None) of
            Some r \<Rightarrow> ([], r)
          | None \<Rightarrow>
              let recordId = (case requestedRecordId of None \<Rightarrow> fresh | Some r \<Rightarrow> r);
                  ws = [WriteIdem digest \<lparr>idem_record_id = recordId, payload_hash = payloadHash,
                          namespace_hash = Some (sha namespace), idem_created_at = Some now\<rparr>];
                  n = idempotencyWritesSincePrune s + 1
              in if n \<ge> 256
                 then (ws @ fst (pruneIdempotencyRegistry now (apply_writes ws s)) @ [CountWrites 0], Inr recordId)
                 else (ws @ [CountWrites n], Inr recordId)))"

text \<open>\<open>initialize\<close>: an absent queue file is created empty\<close>

definition create_queue :: "rqueue \<Rightarrow> unit op" where
  "create_queue s = (if queue s = QMissing then [WriteQueue []] else [], Inr ())"

definition initialize :: "int \<Rightarrow> rqueue \<Rightarrow> unit op" where
  "initialize now s =
     op_then (create_queue s)
       (\<lambda>s'. op_then (reconcileSpool now s') (pruneIdempotencyRegistry now) s') s"

section \<open>The abstract queue: the set of pending deliveries\<close>

definition pairs_of :: "entry list \<Rightarrow> (string \<times> string) set" where
  "pairs_of es = (\<lambda>e. (record_id e, target_node e)) ` set es"

definition env_targets :: "envelope \<Rightarrow> string list" where
  "env_targets env = (case pending_targets env of None \<Rightarrow> [] | Some ts \<Rightarrow> ts)"

text \<open>A delivery is pending when the spool of its record names its target.\<close>

definition pending :: "rqueue \<Rightarrow> (string \<times> string) set" where
  "pending s = {(r, t). \<exists>env. oget (spool s) r = Some env \<and> t \<in> set (env_targets env)}"

text \<open>The same with the content that is to be delivered: all of the record but its scopes\<close>

definition deliveries :: "(rat \<Rightarrow> string) \<Rightarrow> rqueue \<Rightarrow> (string \<times> string \<times> string) set" where
  "deliveries fmt s = {(r, t, c). \<exists>env. oget (spool s) r = Some env \<and> t \<in> set (env_targets env) \<and>
     c = immutable_json fmt (env_record env)}"

definition envelope_ok :: "string \<Rightarrow> envelope \<Rightarrow> bool" where
  "envelope_ok r env =
     (assertRecordId r \<and> str_field (env_record env) ''record_id'' = Some r \<and>
      (\<exists>ts. pending_targets env = Some ts \<and> ts \<noteq> [] \<and> distinct ts))"

definition spool_ok :: "rqueue \<Rightarrow> bool" where
  "spool_ok s = (distinct (map fst (spool s)) \<and> (\<forall>(r, env) \<in> set (spool s). envelope_ok r env))"

definition entries_ok :: "entry list \<Rightarrow> bool" where
  "entries_ok es = distinct (map (\<lambda>e. (record_id e, target_node e)) es)"

text \<open>Between operations the queue holds exactly one entry for each pending delivery.\<close>

definition rq_inv :: "rqueue \<Rightarrow> bool" where
  "rq_inv s = (spool_ok s \<and> (\<exists>es. queue s = QEntries es \<and> entries_ok es \<and> pairs_of es = pending s))"

text \<open>What holds at any moment, also after a crash in the middle of an operation\<close>

definition rq_crash_inv :: "rqueue \<Rightarrow> bool" where
  "rq_crash_inv s =
     (spool_ok s \<and> (queue s = QMissing \<or>
        (\<exists>es. queue s = QEntries es \<and> entries_ok es \<and> (\<forall>e \<in> set es. assertRecordId (record_id e)))))"

section \<open>Lemmas on the parts\<close>

lemma assertRecordId_length: "assertRecordId r \<Longrightarrow> length r = 36"
  by (auto simp: assertRecordId_def RECORD_ID_PATTERN_def dest: matches_length)

lemma assertRecordId_Nil [simp]: "\<not> assertRecordId []"
  using assertRecordId_length by fastforce

text \<open>The separator cannot be confused: record ids have a fixed length.\<close>

lemma retryKey_inj:
  "length r = length r' \<Longrightarrow> retryKey r t = retryKey r' t' \<longleftrightarrow> r = r' \<and> t = t'"
  by (auto simp: retryKey_def)

lemma retryKey_eq:
  "assertRecordId r \<Longrightarrow> assertRecordId r' \<Longrightarrow> retryKey r t = retryKey r' t' \<longleftrightarrow> r = r' \<and> t = t'"
  by (simp add: retryKey_inj assertRecordId_length)

lemma spool_okD:
  assumes "spool_ok s" and "oget (spool s) r = Some env"
  shows "envelope_ok r env"
  using assms oget_SomeD [of "spool s" r env] by (auto simp: spool_ok_def)

lemma pendingI: "oget (spool s) r = Some env \<Longrightarrow> t \<in> set (env_targets env) \<Longrightarrow> (r, t) \<in> pending s"
  by (auto simp: pending_def)

lemma pending_assert: "spool_ok s \<Longrightarrow> (r, t) \<in> pending s \<Longrightarrow> assertRecordId r"
  by (auto simp: pending_def envelope_ok_def dest!: spool_okD)

lemma pending_cong: "spool s' = spool s \<Longrightarrow> pending s' = pending s"
  by (simp add: pending_def)

lemma spool_ok_cong: "spool s' = spool s \<Longrightarrow> spool_ok s' = spool_ok s"
  by (simp add: spool_ok_def)

lemma pending_simps [simp]:
  "pending (s\<lparr>queue := q\<rparr>) = pending s" "pending (s\<lparr>idem := i\<rparr>) = pending s"
  "pending (s\<lparr>idempotencyWritesSincePrune := n\<rparr>) = pending s"
  by (simp_all add: pending_def)

lemma spool_ok_simps [simp]:
  "spool_ok (s\<lparr>queue := q\<rparr>) = spool_ok s" "spool_ok (s\<lparr>idem := i\<rparr>) = spool_ok s"
  "spool_ok (s\<lparr>idempotencyWritesSincePrune := n\<rparr>) = spool_ok s"
  by (simp_all add: spool_ok_def)

lemma spool_ok_write:
  "spool_ok s \<Longrightarrow> envelope_ok r env \<Longrightarrow> spool_ok (s\<lparr>spool := oset r env (spool s)\<rparr>)"
  by (auto simp: spool_ok_def set_oset)

lemma spool_ok_remove: "spool_ok s \<Longrightarrow> spool_ok (s\<lparr>spool := odel r (spool s)\<rparr>)"
  by (auto simp: spool_ok_def set_odel)

lemma pending_write:
  "pending (s\<lparr>spool := oset r env (spool s)\<rparr>) =
     {(r', t) \<in> pending s. r' \<noteq> r} \<union> {r} \<times> set (env_targets env)"
  by (auto simp: pending_def split: if_splits)

lemma pending_remove: "pending (s\<lparr>spool := odel r (spool s)\<rparr>) = {(r', t) \<in> pending s. r' \<noteq> r}"
  by (auto simp: pending_def split: if_splits)

lemma pairs_of_simps [simp]:
  "pairs_of [] = {}" "pairs_of (e # es) = insert (record_id e, target_node e) (pairs_of es)"
  "pairs_of (es @ es') = pairs_of es \<union> pairs_of es'"
  by (auto simp: pairs_of_def)

lemma pairs_of_new: "pairs_of (map (new_entry r now err) ts) = {r} \<times> set ts"
  by (auto simp: pairs_of_def new_entry_def image_iff)

lemma pairs_of_filter:
  "pairs_of (filter (\<lambda>e. \<not> for_pair r t e) es) = pairs_of es - {(r, t)}"
  by (auto simp: pairs_of_def for_pair_def)

lemma entries_ok_filter: "entries_ok es \<Longrightarrow> entries_ok (filter p es)"
  by (simp add: entries_ok_def distinct_map_filter)

lemma update_first_map:
  assumes "update_first p f xs = Some ys" and "\<And>x. g (f x) = g x"
  shows "map g ys = map g xs"
  using assms(1) by (induction xs arbitrary: ys) (auto split: if_splits simp: assms(2))

lemma update_first_None: "update_first p f xs = None \<longleftrightarrow> (\<forall>x \<in> set xs. \<not> p x)"
  by (induction xs) auto

lemma pairs_of_map: "pairs_of es = set (map (\<lambda>e. (record_id e, target_node e)) es)"
  by (simp add: pairs_of_def)

lemma bump_entry_pair [simp]:
  "record_id (bump_entry a b c e) = record_id e" "target_node (bump_entry a b c e) = target_node e"
  by (simp_all add: bump_entry_def Let_def)

section \<open>Every operation keeps the invariant\<close>

definition stored_as :: "(rat \<Rightarrow> string) \<Rightarrow> string \<Rightarrow> fields \<Rightarrow> rqueue \<Rightarrow> bool" where
  "stored_as fmt recordId record s =
     (\<exists>env. oget (spool s) recordId = Some env \<and>
        stringify fmt (JObj (env_record env)) = stringify fmt (JObj record))"

lemma spool_record_facts:
  assumes s: "spool_ok s" and r: "assertRecordId recordId" "str_field record ''record_id'' = Some recordId"
    and t: "targets \<noteq> []" "distinct targets"
    and sr: "spool_record fmt recordId record targets s = Inr (ws, persisted)"
  shows "spool_ok (apply_writes ws s)"
    and "pending (apply_writes ws s) = pending s \<union> {recordId} \<times> set targets"
    and "queue (apply_writes ws s) = queue s"
    and "stored_as fmt recordId persisted (apply_writes ws s)"
    and "length ws \<le> 1"
proof -
  have "spool_ok (apply_writes ws s) \<and> pending (apply_writes ws s) = pending s \<union> {recordId} \<times> set targets \<and>
    queue (apply_writes ws s) = queue s \<and>
    stored_as fmt recordId persisted (apply_writes ws s) \<and> length ws \<le> 1"
  proof (cases "oget (spool s) recordId")
    case None
    then have ws: "ws = [WriteSpool recordId \<lparr>env_record = record, pending_targets = Some targets\<rparr>]"
      and p: "persisted = record" using sr by (auto simp: spool_record_def)
    have "(recordId, t) \<notin> pending s" for t using None by (simp add: pending_def)
    then show ?thesis
      using s r t None p
      by (auto simp: ws spool_ok_write envelope_ok_def pending_write env_targets_def stored_as_def)
  next
    case (Some ex)
    then obtain old where old: "pending_targets ex = Some old" "old \<noteq> []" "distinct old"
      and rid: "str_field (env_record ex) ''record_id'' = Some recordId"
      using spool_okD [OF s Some] by (auto simp: envelope_ok_def)
    let ?new = "uniq (old @ targets)"
    define ps where "ps = oset ''origin_scopes'' (JObj (ospread (object_or_empty (oget record ''origin_scopes''))
      (object_or_empty (oget (env_record ex) ''origin_scopes'')))) (env_record ex)"
    have p: "persisted = ps" and ws: "ws = (if length ?new \<noteq> length old \<or>
         stringify fmt (JObj ps) \<noteq> stringify fmt (JObj (env_record ex))
       then [WriteSpool recordId \<lparr>env_record = ps, pending_targets = Some ?new\<rparr>] else [])"
      using sr Some old by (auto simp: spool_record_def Let_def ps_def split: if_splits)
    have ok: "envelope_ok recordId \<lparr>env_record = ps, pending_targets = Some ?new\<rparr>"
      using r(1) rid old by (auto simp: envelope_ok_def ps_def)
    have old_p: "{recordId} \<times> set old \<subseteq> pending s"
      using Some old by (auto simp: pending_def env_targets_def)
    have only_p: "{(r', t) \<in> pending s. r' = recordId} \<subseteq> {recordId} \<times> set old"
      using Some old by (auto simp: pending_def env_targets_def)
    show ?thesis
    proof (cases "ws = []")
      case True
      then have "length ?new = length old" and st: "stringify fmt (JObj ps) = stringify fmt (JObj (env_record ex))"
        unfolding ws by (metis list.distinct(1))+
      then have "card (set old \<union> set targets) = card (set old)"
        by (metis distinct_card distinct_uniq old(3) set_append set_uniq)
      then have "set targets \<subseteq> set old"
        by (metis List.finite_set Un_upper1 Un_upper2 card_subset_eq finite_Un)
      then show ?thesis using True s old_p Some st p by (auto simp: stored_as_def)
    next
      case False
      then have ws': "ws = [WriteSpool recordId \<lparr>env_record = ps, pending_targets = Some ?new\<rparr>]"
        using ws by (auto split: if_splits)
      show ?thesis
        using s ok old_p only_p p
        by (auto simp: ws' spool_ok_write pending_write env_targets_def stored_as_def)
    qed
  qed
  then show "spool_ok (apply_writes ws s)"
    and "pending (apply_writes ws s) = pending s \<union> {recordId} \<times> set targets"
    and "queue (apply_writes ws s) = queue s"
    and "stored_as fmt recordId persisted (apply_writes ws s)"
    and "length ws \<le> 1" by simp_all
qed

lemma immutable_oset [simp]: "immutable_json fmt (oset ''origin_scopes'' v o1) = immutable_json fmt o1"
  by (simp add: immutable_json_def odel_oset_same)

lemma deliveries_write:
  "deliveries fmt (s\<lparr>spool := oset r env (spool s)\<rparr>) =
     {(r', t, c) \<in> deliveries fmt s. r' \<noteq> r} \<union> {r} \<times> set (env_targets env) \<times> {immutable_json fmt (env_record env)}"
  by (auto simp: deliveries_def split: if_splits)

lemma deliveries_cong: "spool s' = spool s \<Longrightarrow> deliveries fmt s' = deliveries fmt s"
  by (simp add: deliveries_def)

lemma deliveries_pending: "(\<exists>c. (r, t, c) \<in> deliveries fmt s) \<longleftrightarrow> (r, t) \<in> pending s"
  by (auto simp: deliveries_def pending_def)

text \<open>What the spool half of an enqueue adds\<close>

lemma spool_record_deliveries:
  assumes s: "spool_ok s" and sr: "spool_record fmt r record targets s = Inr (ws, persisted)"
  shows "deliveries fmt s \<subseteq> deliveries fmt (apply_writes ws s)"
    and "deliveries fmt (apply_writes ws s) \<subseteq> deliveries fmt s \<union> {r} \<times> set targets \<times> {immutable_json fmt record}"
proof -
  let ?new = "{r} \<times> set targets \<times> {immutable_json fmt record}"
  have "deliveries fmt s \<subseteq> deliveries fmt (apply_writes ws s) \<and>
    deliveries fmt (apply_writes ws s) \<subseteq> deliveries fmt s \<union> ?new"
  proof (cases "oget (spool s) r")
    case None
    then have "ws = [WriteSpool r \<lparr>env_record = record, pending_targets = Some targets\<rparr>]"
      using sr by (auto simp: spool_record_def)
    moreover have "(r, t, c) \<notin> deliveries fmt s" for t c using None by (simp add: deliveries_def)
    ultimately show ?thesis by (auto simp: deliveries_write env_targets_def)
  next
    case (Some ex)
    then obtain old where old: "pending_targets ex = Some old"
      using spool_okD [OF s Some] by (auto simp: envelope_ok_def)
    have im: "immutable_json fmt (env_record ex) = immutable_json fmt record"
      using sr Some by (auto simp: spool_record_def split: if_splits)
    have old_d: "(r, t, c) \<in> deliveries fmt s \<longleftrightarrow> t \<in> set old \<and> c = immutable_json fmt record" for t c
      using Some old im by (auto simp: deliveries_def env_targets_def)
    obtain v where "ws = [] \<or> ws = [WriteSpool r \<lparr>env_record = oset ''origin_scopes'' v (env_record ex),
        pending_targets = Some (uniq (old @ targets))\<rparr>]"
      using sr Some old im that by (auto simp: spool_record_def Let_def split: if_splits)
    then show ?thesis by (auto simp: deliveries_write env_targets_def im old_d)
  qed
  then show "deliveries fmt s \<subseteq> deliveries fmt (apply_writes ws s)"
    and "deliveries fmt (apply_writes ws s) \<subseteq> deliveries fmt s \<union> ?new" by simp_all
qed

text \<open>An operation is atomic for the abstract queue: it ends in the invariant, and wherever it is
  cut the spool is the one before or the one after.\<close>

definition op_atomic :: "rqueue \<Rightarrow> 'a op \<Rightarrow> bool" where
  "op_atomic s p =
     (rq_inv (fst (run_op p s)) \<and>
      (\<forall>n. rq_crash_inv (crash_op n p s) \<and>
         (spool (crash_op n p s) = spool s \<or>
          spool (crash_op n p s) = spool (fst (run_op p s)))))"

lemma rq_inv_crash_inv: "rq_inv s \<Longrightarrow> rq_crash_inv s"
  unfolding rq_inv_def rq_crash_inv_def
  by (metis (no_types, lifting) image_eqI pairs_of_def pending_assert)

lemma rq_crash_inv_simps [simp]:
  "rq_crash_inv (s\<lparr>idempotencyWritesSincePrune := n\<rparr>) = rq_crash_inv s"
  "rq_crash_inv (s\<lparr>idem := i\<rparr>) = rq_crash_inv s"
  by (simp_all add: rq_crash_inv_def)

lemma rq_inv_simps [simp]:
  "rq_inv (s\<lparr>idempotencyWritesSincePrune := n\<rparr>) = rq_inv s"
  "rq_inv (s\<lparr>idem := i\<rparr>) = rq_inv s"
  by (simp_all add: rq_inv_def)

lemma op_atomic_none: "rq_inv s \<Longrightarrow> op_atomic s ([], r)"
  by (simp add: op_atomic_def run_op_def crash_op_def rq_inv_crash_inv)

lemma op_atomic_shape:
  assumes s: "rq_inv s" and len: "length ws \<le> 1"
    and q: "queue (apply_writes ws s) = queue s" and ok: "spool_ok (apply_writes ws s)"
    and es: "entries_ok es" "pairs_of es = pending (apply_writes ws s)"
  shows "op_atomic s (ws @ [WriteQueue es], r)"
    and "pending (fst (run_op (ws @ [WriteQueue es], r) s)) = pending (apply_writes ws s)"
proof -
  let ?m = "apply_writes ws s" and ?p = "(ws @ [WriteQueue es], r)"
  have fin: "fst (run_op ?p s) = ?m\<lparr>queue := QEntries es\<rparr>"
    by (simp add: run_op_def apply_writes_append)
  show pend: "pending (fst (run_op ?p s)) = pending ?m" by (simp add: fin)
  have inv: "rq_inv (fst (run_op ?p s))" using ok es by (simp add: fin rq_inv_def)
  have mid: "rq_crash_inv ?m"
    using rq_inv_crash_inv [OF s] ok q by (simp add: rq_crash_inv_def)
  have "rq_crash_inv (crash_op n ?p s) \<and>
     (spool (crash_op n ?p s) = spool s \<or> spool (crash_op n ?p s) = spool (fst (run_op ?p s)))" for n
  proof -
    consider "n = 0" | "0 < n" "n \<le> length ws" | "length ws < n" by linarith
    then show ?thesis
    proof cases
      case 1
      then show ?thesis by (simp add: crash_op_def rq_inv_crash_inv s)
    next
      case 2
      then have "take n (fst ?p) = ws" using len by simp
      then show ?thesis using mid by (simp add: crash_op_def fin)
    next
      case 3
      then have "take n (fst ?p) = fst ?p" by simp
      then show ?thesis using rq_inv_crash_inv [OF inv] by (simp add: crash_op_def run_op_def)
    qed
  qed
  with inv show "op_atomic s ?p" by (simp add: op_atomic_def)
qed

lemma rq_inv_queue: "rq_inv s \<Longrightarrow> \<exists>es. queue s = QEntries es \<and> entries_ok es \<and> pairs_of es = pending s"
  by (simp add: rq_inv_def)

lemma enqueue_effect:
  assumes s: "rq_inv s" and t: "targets \<noteq> []" "distinct targets"
    and ok: "snd (enqueueRecord fmt now record targets s) = Inr persisted"
  obtains r where "str_field record ''record_id'' = Some r" "assertRecordId r"
    "op_atomic s (enqueueRecord fmt now record targets s)"
    "pending (fst (run_op (enqueueRecord fmt now record targets s) s)) = pending s \<union> {r} \<times> set targets"
    "stored_as fmt r persisted (fst (run_op (enqueueRecord fmt now record targets s) s))"
    "deliveries fmt s \<subseteq> deliveries fmt (fst (run_op (enqueueRecord fmt now record targets s) s))"
    "deliveries fmt (fst (run_op (enqueueRecord fmt now record targets s) s)) \<subseteq>
       deliveries fmt s \<union> {r} \<times> set targets \<times> {immutable_json fmt record}"
proof -
  obtain es where es: "queue s = QEntries es" "entries_ok es" "pairs_of es = pending s"
    using rq_inv_queue [OF s] by blast
  obtain r ws where r: "str_field record ''record_id'' = Some r" "assertRecordId r"
    and ws: "spool_record fmt r record targets s = Inr (ws, persisted)"
    using ok es
    by (auto simp: enqueueRecord_def Let_def split: if_splits option.splits sum.splits)
  define fresh where "fresh = filter (\<lambda>t. retryKey r t \<notin> set (map entry_key es)) targets"
  define es' where "es' = es @ map (new_entry r now None) fresh"
  have eq: "enqueueRecord fmt now record targets s = (ws @ [WriteQueue es'], Inr persisted)"
    using r ws es by (simp add: enqueueRecord_def Let_def es'_def fresh_def)
  have "spool_ok s" using s by (simp add: rq_inv_def)
  note f = spool_record_facts [OF this r(2,1) t ws]
  have key: "retryKey r t \<in> set (map entry_key es) \<longleftrightarrow> (r, t) \<in> pairs_of es" for t
  proof -
    have "retryKey r t = entry_key e \<longleftrightarrow> record_id e = r \<and> target_node e = t" if "e \<in> set es" for e
    proof -
      have "(record_id e, target_node e) \<in> pending s" using that es(3) by (auto simp: pairs_of_def)
      then have "assertRecordId (record_id e)" using \<open>spool_ok s\<close> pending_assert by blast
      then show ?thesis
        using assertRecordId_length r(2) by (auto simp: entry_key_def retryKey_inj)
    qed
    then show ?thesis by (auto simp: pairs_of_def image_iff)
  qed
  have pr: "pairs_of es' = pending s \<union> {r} \<times> set targets"
    using key es(3) by (auto simp: es'_def pairs_of_new fresh_def)
  have "entries_ok es'"
    using es(2) t(2) key
    by (auto simp: entries_ok_def es'_def fresh_def pairs_of_def new_entry_def distinct_map comp_def inj_on_def)
  then have at: "op_atomic s (ws @ [WriteQueue es'], Inr persisted)"
    "pending (fst (run_op (ws @ [WriteQueue es'], Inr persisted) s)) = pending (apply_writes ws s)"
    using op_atomic_shape [OF s f(5) f(3) f(1)] pr f(2) by blast+
  have "deliveries fmt (fst (run_op (ws @ [WriteQueue es'], Inr persisted) s)) = deliveries fmt (apply_writes ws s)"
    by (rule deliveries_cong) (simp add: run_op_def apply_writes_append)
  then show ?thesis
    using that [OF r] at f(2,4) spool_record_deliveries [OF \<open>spool_ok s\<close> ws] unfolding eq
    by (simp add: stored_as_def run_op_def apply_writes_append)
qed

lemma enqueue_error:
  assumes "rq_inv s" and "snd (enqueueRecord fmt now record targets s) = Inl e"
  shows "fst (enqueueRecord fmt now record targets s) = []"
  using assms rq_inv_queue [OF assms(1)]
  by (auto simp: enqueueRecord_def Let_def split: if_splits option.splits sum.splits)

lemma mark_effect:
  assumes s: "rq_inv s"
  shows "op_atomic s (markPending now now' r t err s)"
    and "pending (fst (run_op (markPending now now' r t err s) s)) = pending s"
    and "snd (markPending now now' r t err s) = Inr () \<longleftrightarrow> (r, t) \<in> pending s"
proof -
  obtain es where es: "queue s = QEntries es" "entries_ok es" "pairs_of es = pending s"
    using rq_inv_queue [OF s] by blast
  let ?u = "update_first (for_pair r t) (bump_entry now now' err) es"
  have "op_atomic s (markPending now now' r t err s) \<and>
    pending (fst (run_op (markPending now now' r t err s) s)) = pending s \<and>
    (snd (markPending now now' r t err s) = Inr () \<longleftrightarrow> (r, t) \<in> pending s)"
  proof (cases ?u)
    case None
    then have eq: "markPending now now' r t err s = ([], Inl ''retry entry disappeared'')"
      using es(1) by (simp add: markPending_def)
    have "(r, t) \<notin> pending s"
      unfolding es(3) [symmetric] using None by (auto simp: update_first_None for_pair_def pairs_of_def)
    then show ?thesis unfolding eq using s by (simp add: op_atomic_none run_op_def)
  next
    case (Some es')
    have m: "map (\<lambda>e. (record_id e, target_node e)) es' = map (\<lambda>e. (record_id e, target_node e)) es"
      by (rule update_first_map [OF Some]) simp
    have in_p: "(r, t) \<in> pending s"
    proof -
      have "\<exists>e \<in> set es. for_pair r t e" using Some by (metis option.distinct(1) update_first_None)
      then show ?thesis using es(3) by (force simp: pairs_of_def for_pair_def)
    qed
    have eq: "markPending now now' r t err s = ([] @ [WriteQueue es'], Inr ())"
      using Some es(1) by (simp add: markPending_def)
    have "entries_ok es'" "pairs_of es' = pending s"
      using es m by (simp_all add: entries_ok_def pairs_of_map)
    then show ?thesis
      using op_atomic_shape [OF s, of "[]" es' "Inr () :: unit res"] in_p s unfolding eq by (simp add: rq_inv_def)
  qed
  then show "op_atomic s (markPending now now' r t err s)"
    and "pending (fst (run_op (markPending now now' r t err s) s)) = pending s"
    and "snd (markPending now now' r t err s) = Inr () \<longleftrightarrow> (r, t) \<in> pending s" by blast+
qed

lemma resolve_effect:
  assumes s: "rq_inv s" and r: "assertRecordId r"
  shows "snd (resolve r t s) = Inr ()"
    and "op_atomic s (resolve r t s)"
    and "pending (fst (run_op (resolve r t s) s)) = pending s - {(r, t)}"
proof -
  obtain es where es: "queue s = QEntries es" "entries_ok es" "pairs_of es = pending s"
    using rq_inv_queue [OF s] by blast
  have sp: "spool_ok s" using s by (simp add: rq_inv_def)
  define es' where "es' = filter (\<lambda>e. \<not> for_pair r t e) es"
  have es': "entries_ok es'" "pairs_of es' = pending s - {(r, t)}"
    using es by (simp_all add: es'_def entries_ok_filter pairs_of_filter)
  obtain ws where ws: "resolve r t s = (ws @ [WriteQueue es'], Inr ())" "length ws \<le> 1"
    "queue (apply_writes ws s) = queue s" "spool_ok (apply_writes ws s)"
    "pending (apply_writes ws s) = pending s - {(r, t)}"
  proof (cases "oget (spool s) r")
    case None
    then show ?thesis
      using that [of "[]"] r es(1) sp by (auto simp: resolve_def es'_def pending_def)
  next
    case (Some env)
    obtain ts where ts: "pending_targets env = Some ts" "ts \<noteq> []" "distinct ts"
      "str_field (env_record env) ''record_id'' = Some r"
      using spool_okD [OF sp Some] by (auto simp: envelope_ok_def)
    let ?ts = "filter (\<lambda>x. x \<noteq> t) ts"
    have p: "(r, x) \<in> pending s \<longleftrightarrow> x \<in> set ts" for x
      using Some ts by (auto simp: pending_def env_targets_def)
    show ?thesis
    proof (cases "?ts = []")
      case True
      then show ?thesis
        using that [of "[RemoveSpool r]"] r es(1) sp Some ts p
        by (auto simp: resolve_def es'_def spool_ok_remove pending_remove filter_empty_conv)
    next
      case False
      have "envelope_ok r (env\<lparr>pending_targets := Some ?ts\<rparr>)"
        using ts r False by (simp add: envelope_ok_def)
      with False show ?thesis
        using that [of "[WriteSpool r (env\<lparr>pending_targets := Some ?ts\<rparr>)]"] r es(1) sp Some ts p
        by (auto simp: resolve_def es'_def spool_ok_write pending_write env_targets_def)
    qed
  qed
  show "snd (resolve r t s) = Inr ()" by (simp add: ws(1))
  show "op_atomic s (resolve r t s)" "pending (fst (run_op (resolve r t s) s)) = pending s - {(r, t)}"
    unfolding ws(1) using op_atomic_shape [OF s ws(2-4) es'(1)] es'(2) ws(5) by simp_all
qed

section \<open>Recovery at start-up\<close>

text \<open>The map \<open>byKey\<close> of \<open>reconcileSpool\<close>: every key is that of its entry, and ids are valid.\<close>

definition by_key_ok :: "(string \<times> entry) list \<Rightarrow> bool" where
  "by_key_ok m = (distinct (map fst m) \<and> (\<forall>(k, e) \<in> set m. k = entry_key e \<and> assertRecordId (record_id e)))"

lemma by_key_ok_oset:
  "by_key_ok m \<Longrightarrow> assertRecordId (record_id e) \<Longrightarrow> by_key_ok (oset (entry_key e) e m)"
  by (auto simp: by_key_ok_def set_oset)

lemma by_key_ok_ospread:
  "by_key_ok m \<Longrightarrow> \<forall>e \<in> set es. assertRecordId (record_id e) \<Longrightarrow>
     by_key_ok (ospread m (map (\<lambda>e. (entry_key e, e)) es))"
  by (induction es arbitrary: m) (auto simp: by_key_ok_oset)

lemma new_entry_key [simp]: "entry_key (new_entry r now err t) = retryKey r t"
  and new_entry_record [simp]: "record_id (new_entry r now err t) = r"
  by (simp_all add: entry_key_def new_entry_def)

lemma reconcile_targets_facts:
  assumes "by_key_ok m" and "assertRecordId r"
    and "reconcile_targets now r ts (m, vs) = (m', vs')"
  shows "by_key_ok m' \<and> set vs' = set vs \<union> retryKey r ` set ts \<and>
    fst ` set m' = fst ` set m \<union> retryKey r ` set ts \<and>
    (\<forall>k e. oget m k = Some e \<longrightarrow> oget m' k = Some e)"
  using assms
proof (induction ts arbitrary: m vs)
  case (Cons t ts)
  define m1 where "m1 = (if oget m (retryKey r t) = None
    then oset (retryKey r t) (new_entry r now (Some ''recovered_after_restart'') t) m else m)"
  have "by_key_ok m1"
    using Cons.prems(1,2) by_key_ok_oset [of m "new_entry r now (Some ''recovered_after_restart'') t"]
    by (simp add: m1_def)
  moreover have "reconcile_targets now r ts (m1, retryKey r t # vs) = (m', vs')"
    using Cons.prems(3) by (simp add: m1_def Let_def)
  ultimately have IH: "by_key_ok m' \<and> set vs' = set (retryKey r t # vs) \<union> retryKey r ` set ts \<and>
    fst ` set m' = fst ` set m1 \<union> retryKey r ` set ts \<and> (\<forall>k e. oget m1 k = Some e \<longrightarrow> oget m' k = Some e)"
    using Cons.IH Cons.prems(2) by blast
  moreover have "fst ` set m1 = insert (retryKey r t) (fst ` set m)"
    by (auto simp: m1_def oget_None_iff)
  moreover have "oget m k = Some e \<Longrightarrow> oget m1 k = Some e" for k e by (auto simp: m1_def)
  ultimately show ?case by auto
qed simp

definition file_keys :: "(string \<times> envelope) list \<Rightarrow> string set" where
  "file_keys files = (\<Union>f \<in> set files. retryKey (fst f) ` set (env_targets (snd f)))"

definition reconciled :: "(string \<times> envelope) list \<Rightarrow> (string \<times> entry) list \<Rightarrow> string set \<Rightarrow>
    (string \<times> entry) list \<Rightarrow> string set \<Rightarrow> bool" where
  "reconciled files m vs m' vs' =
     (by_key_ok m' \<and> vs' = vs \<union> file_keys files \<and> file_keys files \<subseteq> fst ` set m' \<and>
      (\<forall>k e. oget m k = Some e \<longrightarrow> oget m' k = Some e))"

lemma reconciled_Cons:
  assumes "reconciled files m1 (vs \<union> retryKey r ` set ts) m' vs'"
    and "env_targets env = ts" and "retryKey r ` set ts \<subseteq> fst ` set m1"
    and "\<forall>k e. oget m k = Some e \<longrightarrow> oget m1 k = Some e"
  shows "reconciled ((r, env) # files) m vs m' vs'"
proof -
  have "fst ` set m1 \<subseteq> fst ` set m'"
  proof
    fix k assume "k \<in> fst ` set m1"
    then obtain e where "oget m1 k = Some e" using oget_None_iff [of m1 k] by auto
    then have "oget m' k = Some e" using assms(1) by (simp add: reconciled_def)
    then show "k \<in> fst ` set m'" using oget_None_iff [of m' k] by auto
  qed
  moreover have fk: "file_keys ((r, env) # files) = retryKey r ` set ts \<union> file_keys files"
    using assms(2) by (simp add: file_keys_def)
  moreover have "file_keys files \<subseteq> fst ` set m'" using assms(1) by (simp add: reconciled_def)
  ultimately have sub: "retryKey r ` set ts \<union> file_keys files \<subseteq> fst ` set m'"
    using assms(3) by (meson Un_least order.trans)
  show ?thesis
    unfolding reconciled_def fk
  proof (intro conjI)
    show "by_key_ok m'" "vs' = vs \<union> (retryKey r ` set ts \<union> file_keys files)"
      using assms(1) by (simp_all add: reconciled_def Un_assoc)
    show "\<forall>k e. oget m k = Some e \<longrightarrow> oget m' k = Some e"
      using assms(1,4) by (simp add: reconciled_def)
  qed (rule sub)
qed

lemma reconcile_files_facts:
  assumes "\<forall>(r, env) \<in> set files. envelope_ok r env" and "by_key_ok m"
  shows "\<exists>m' vs'. reconcile_files now files (m, vs) = Inr (m', vs') \<and> reconciled files m (set vs) m' (set vs')"
  using assms
proof (induction files arbitrary: m vs)
  case Nil
  then show ?case by (simp add: reconciled_def file_keys_def)
next
  case (Cons f0 files)
  obtain r env where f: "f0 = (r, env)" by (cases f0)
  then have "envelope_ok r env" using Cons.prems(1) by simp
  then obtain ts where ts: "pending_targets env = Some ts" and r: "assertRecordId r"
    "str_field (env_record env) ''record_id'' = Some r" by (auto simp: envelope_ok_def)
  obtain m1 v1 where 1: "reconcile_targets now r ts (m, vs) = (m1, v1)" by (metis surj_pair)
  have t: "by_key_ok m1 \<and> set v1 = set vs \<union> retryKey r ` set ts \<and>
    fst ` set m1 = fst ` set m \<union> retryKey r ` set ts \<and> (\<forall>k e. oget m k = Some e \<longrightarrow> oget m1 k = Some e)"
    by (rule reconcile_targets_facts [OF Cons.prems(2) r(1) 1])
  have "\<forall>(r, env) \<in> set files. envelope_ok r env" using Cons.prems(1) by simp
  then obtain m' vs' where m': "reconcile_files now files (m1, v1) = Inr (m', vs')"
    "reconciled files m1 (set v1) m' (set vs')"
    using Cons.IH t by meson
  have "reconcile_files now (f0 # files) (m, vs) = Inr (m', vs')"
    using ts r 1 m'(1) by (simp add: f)
  moreover have "reconciled (f0 # files) m (set vs) m' (set vs')"
    unfolding f
  proof (rule reconciled_Cons [where ts = ts])
    show "reconciled files m1 (set vs \<union> retryKey r ` set ts) m' (set vs')" using m'(2) t by simp
    show "env_targets env = ts" using ts by (simp add: env_targets_def)
    show "retryKey r ` set ts \<subseteq> fst ` set m1" using t by blast
    show "\<forall>k e. oget m k = Some e \<longrightarrow> oget m1 k = Some e" using t by blast
  qed
  ultimately show ?case by auto
qed

lemma file_keys_iff:
  assumes "assertRecordId r" and "\<forall>(r, env) \<in> set files. envelope_ok r env"
  shows "retryKey r t \<in> file_keys files \<longleftrightarrow> (\<exists>env. (r, env) \<in> set files \<and> t \<in> set (env_targets env))"
proof -
  have key: "r = r' \<and> t = t'" if "(r', env) \<in> set files" "retryKey r t = retryKey r' t'" for r' env t'
  proof -
    have "assertRecordId r'" using that(1) assms(2) by (auto simp: envelope_ok_def)
    then show ?thesis using that(2) assms(1) by (simp add: retryKey_eq)
  qed
  show ?thesis
  proof
    assume "retryKey r t \<in> file_keys files"
    then obtain r' env t' where "(r', env) \<in> set files" "t' \<in> set (env_targets env)" "retryKey r t = retryKey r' t'"
      by (auto simp: file_keys_def)
    then show "\<exists>env. (r, env) \<in> set files \<and> t \<in> set (env_targets env)" using key by blast
  next
    assume "\<exists>env. (r, env) \<in> set files \<and> t \<in> set (env_targets env)"
    then show "retryKey r t \<in> file_keys files" unfolding file_keys_def by force
  qed
qed

lemma by_key_okD: "by_key_ok m \<Longrightarrow> (k, e) \<in> set m \<Longrightarrow> k = entry_key e \<and> assertRecordId (record_id e)"
  by (auto simp: by_key_ok_def)

lemma by_key_pairs:
  assumes "by_key_ok m"
  shows "entries_ok (map snd (filter p m))"
proof -
  let ?g = "\<lambda>e. retryKey (fst e) (snd e)"
  let ?ys = "map (\<lambda>e. (record_id e, target_node e)) (map snd (filter p m))"
  have "map fst (filter p m) = map ?g ?ys"
    unfolding map_map by (rule map_cong) (use assms in \<open>auto simp: entry_key_def dest: by_key_okD\<close>)
  moreover have "distinct (map fst (filter p m))" using assms by (simp add: by_key_ok_def distinct_map_filter)
  ultimately have "distinct (map ?g ?ys)" by (simp only:)
  then have "distinct ?ys" by (rule distinct_map [THEN iffD1, THEN conjunct1])
  then show ?thesis unfolding entries_ok_def .
qed

lemma by_key_pairs_iff:
  assumes "by_key_ok m"
  shows "(r, t) \<in> pairs_of (map snd (filter p m)) \<longleftrightarrow>
    (\<exists>e. (entry_key e, e) \<in> set m \<and> p (entry_key e, e) \<and> record_id e = r \<and> target_node e = t)"
    (is "?L \<longleftrightarrow> ?R")
proof
  assume ?L
  then obtain k e where "(k, e) \<in> set m" "p (k, e)" "record_id e = r" "target_node e = t"
    by (auto simp: pairs_of_def)
  then show ?R using by_key_okD [OF assms] by blast
next
  assume ?R
  then show ?L by (force simp: pairs_of_def)
qed

lemma reconcile_effect:
  assumes s: "spool_ok s" and q: "queue s = QEntries es" and es: "\<forall>e \<in> set es. assertRecordId (record_id e)"
  shows "snd (reconcileSpool now s) = Inr ()"
    and "rq_inv (fst (run_op (reconcileSpool now s) s))"
    and "spool (fst (run_op (reconcileSpool now s) s)) = spool s"
    and "fst (reconcileSpool now s) = [] \<or> (\<exists>es'. fst (reconcileSpool now s) = [WriteQueue es'])"
proof -
  let ?m = "from_entries (map (\<lambda>e. (entry_key e, e)) es)"
  have "by_key_ok ?m"
    unfolding from_entries_def using es by (intro by_key_ok_ospread) (simp_all add: by_key_ok_def)
  moreover have sp: "\<forall>(r, env) \<in> set (spool s). envelope_ok r env" using s by (simp add: spool_ok_def)
  ultimately obtain m vs where rf: "reconcile_files now (spool s) (?m, []) = Inr (m, vs)"
    and "reconciled (spool s) ?m (set []) m (set vs)"
    using reconcile_files_facts [of "spool s" ?m now "[]"] by blast
  then have m: "by_key_ok m" "set vs = file_keys (spool s)" "set vs \<subseteq> fst ` set m"
    by (simp_all add: reconciled_def)
  define es' where "es' = map snd (filter (\<lambda>ke. fst ke \<in> set vs) m)"
  have d: "distinct (map fst (spool s))" using s by (simp add: spool_ok_def)
  then have vs: "retryKey r t \<in> set vs \<longleftrightarrow> (r, t) \<in> pending s" if "assertRecordId r" for r t
    using file_keys_iff [OF that sp] by (simp add: m(2) pending_def oget_Some_iff)
  have "pairs_of es' = pending s"
  proof (rule set_eqI)
    fix rt :: "string \<times> string"
    obtain r t where rt: "rt = (r, t)" by (cases rt)
    have "(r, t) \<in> pairs_of es' \<longleftrightarrow> (\<exists>e. (entry_key e, e) \<in> set m \<and> entry_key e \<in> set vs \<and> record_id e = r \<and> target_node e = t)"
      unfolding es'_def by_key_pairs_iff [OF m(1)] by simp
    also have "\<dots> \<longleftrightarrow> (r, t) \<in> pending s"
    proof
      assume "\<exists>e. (entry_key e, e) \<in> set m \<and> entry_key e \<in> set vs \<and> record_id e = r \<and> target_node e = t"
      then show "(r, t) \<in> pending s"
        using vs by_key_okD [OF m(1)] by (auto simp: entry_key_def)
    next
      assume p: "(r, t) \<in> pending s"
      then have r: "assertRecordId r" using s pending_assert by blast
      with p have k: "retryKey r t \<in> set vs" using vs by blast
      then obtain e where e: "(retryKey r t, e) \<in> set m" using m(3) by auto
      then have "retryKey r t = entry_key e" "assertRecordId (record_id e)" using by_key_okD [OF m(1)] by blast+
      then show "\<exists>e. (entry_key e, e) \<in> set m \<and> entry_key e \<in> set vs \<and> record_id e = r \<and> target_node e = t"
        using e k r by (auto simp: entry_key_def retryKey_eq)
    qed
    finally show "rt \<in> pairs_of es' \<longleftrightarrow> rt \<in> pending s" by (simp add: rt)
  qed
  moreover have "entries_ok es'" using by_key_pairs [OF m(1)] by (simp add: es'_def)
  moreover have eq: "reconcileSpool now s = (if es' \<noteq> es then [WriteQueue es'] else [], Inr ())"
    using q rf by (simp add: reconcileSpool_def Let_def es'_def)
  ultimately show "snd (reconcileSpool now s) = Inr ()"
    and "rq_inv (fst (run_op (reconcileSpool now s) s))"
    and "spool (fst (run_op (reconcileSpool now s) s)) = spool s"
    and "fst (reconcileSpool now s) = [] \<or> (\<exists>es'. fst (reconcileSpool now s) = [WriteQueue es'])"
    using s q by (auto simp: run_op_def rq_inv_def)
qed

end
