(* ===== verification/RetryHistory.thy ===== *)
theory RetryHistory
  imports RetryQueue
begin

text \<open>
  The durable retry queue over time: crash recovery at start-up, and what any history of completed
  and interrupted operations of \<open>apps/mcp/src/retry-queue.ts\<close> does to the pending deliveries.
\<close>

fun idem_write :: "disk_write \<Rightarrow> bool" where
  "idem_write (WriteIdem d e) = True"
| "idem_write (RemoveIdem d) = True"
| "idem_write (CountWrites n) = True"
| "idem_write _ = False"

lemma idem_writes_frame:
  assumes "list_all idem_write ws"
  shows "queue (apply_writes ws s) = queue s" and "spool (apply_writes ws s) = spool s"
proof -
  have "queue (apply_write w s) = queue s \<and> spool (apply_write w s) = spool s" if "idem_write w" for w s
    using that by (cases w) auto
  then have "queue (apply_writes ws s) = queue s \<and> spool (apply_writes ws s) = spool s"
    using assms by (induction ws arbitrary: s) auto
  then show "queue (apply_writes ws s) = queue s" "spool (apply_writes ws s) = spool s" by simp_all
qed

lemma rq_inv_cong:
  assumes "queue s' = queue s" "spool s' = spool s"
  shows "rq_inv s' = rq_inv s" and "rq_crash_inv s' = rq_crash_inv s" and "pending s' = pending s"
  using assms by (simp_all add: rq_inv_def rq_crash_inv_def pending_def spool_ok_def)

lemma idem_writes_inv:
  assumes "list_all idem_write ws"
  shows "rq_inv (apply_writes ws s) = rq_inv s" and "rq_crash_inv (apply_writes ws s) = rq_crash_inv s"
    and "pending (apply_writes ws s) = pending s"
  by (rule rq_inv_cong [OF idem_writes_frame [OF assms]])+

lemma idem_op_effect:
  assumes s: "rq_inv s" and ws: "list_all idem_write (fst p)"
  shows "op_atomic s p" and "spool (fst (run_op p s)) = spool s"
proof -
  have t: "list_all idem_write (take n (fst p))" for n
    using ws by (metis append_take_drop_id list_all_append)
  show "spool (fst (run_op p s)) = spool s" by (simp add: run_op_def idem_writes_frame(2) [OF ws])
  show "op_atomic s p"
    using s rq_inv_crash_inv [OF s]
    by (simp add: op_atomic_def run_op_def crash_op_def idem_writes_inv [OF ws] idem_writes_inv [OF t]
      idem_writes_frame [OF ws] idem_writes_frame [OF t])
qed

lemma prune_writes: "list_all idem_write (fst (pruneIdempotencyRegistry now s))"
  and prune_ok: "snd (pruneIdempotencyRegistry now s) = Inr ()"
  by (auto simp: pruneIdempotencyRegistry_def Let_def list_all_iff)

lemma resolveIdempotencyKey_writes:
  "list_all idem_write (fst (resolveIdempotencyKey sha now fresh key ns hash req s))"
  by (auto simp: resolveIdempotencyKey_def Let_def prune_writes split: option.splits)

text \<open>Where a sequence of writes is cut: in its first part, or in the rest.\<close>

lemma cut_append:
  assumes "\<And>n. P (apply_writes (take n a) s)" and "\<And>n. P (apply_writes (take n b) (apply_writes a s))"
  shows "P (apply_writes (take n (a @ b)) s)"
proof (cases "n \<le> length a")
  case True
  then show ?thesis using assms(1) [of n] by simp
next
  case False
  then show ?thesis using assms(2) [of "n - length a"] by (simp add: apply_writes_append)
qed

text \<open>What the parts of \<open>initialize\<close> keep at each of their writes\<close>

definition recoverable :: "rqueue \<Rightarrow> rqueue \<Rightarrow> bool" where
  "recoverable s0 s = (rq_crash_inv s \<and> spool s = spool s0)"

lemma recoverable_queue:
  assumes "recoverable s0 s" and "entries_ok es" and "\<forall>e \<in> set es. assertRecordId (record_id e)"
  shows "recoverable s0 (s\<lparr>queue := QEntries es\<rparr>)"
  using assms by (simp add: recoverable_def rq_crash_inv_def)

lemma recoverable_idem:
  "list_all idem_write ws \<Longrightarrow> recoverable s0 (apply_writes ws s) = recoverable s0 s"
  by (simp add: recoverable_def idem_writes_inv idem_writes_frame)

lemma create_queue_effect:
  assumes "rq_crash_inv s"
  shows "recoverable s (apply_writes (take n (fst (create_queue s))) s)"
    and "\<exists>es. queue (apply_writes (fst (create_queue s)) s) = QEntries es \<and> (\<forall>e \<in> set es. assertRecordId (record_id e))"
    and "spool (apply_writes (fst (create_queue s)) s) = spool s"
proof -
  have r: "recoverable s s" using assms by (simp add: recoverable_def)
  have "recoverable s (s\<lparr>queue := QEntries []\<rparr>)"
    by (rule recoverable_queue [OF r]) (simp_all add: entries_ok_def)
  then show "recoverable s (apply_writes (take n (fst (create_queue s))) s)"
    using r by (cases n) (simp_all add: create_queue_def)
  show "\<exists>es. queue (apply_writes (fst (create_queue s)) s) = QEntries es \<and> (\<forall>e \<in> set es. assertRecordId (record_id e))"
    using assms by (cases "queue s") (auto simp: rq_crash_inv_def create_queue_def)
  show "spool (apply_writes (fst (create_queue s)) s) = spool s" by (simp add: create_queue_def)
qed

text \<open>\<open>initialize\<close> repairs any state a crash can leave, without changing the spool; cut short,
  it leaves such a state again.\<close>

lemma initialize_effect:
  assumes s: "rq_crash_inv s"
  shows "snd (initialize now s) = Inr ()"
    and "rq_inv (fst (run_op (initialize now s) s))"
    and "spool (fst (run_op (initialize now s) s)) = spool s"
    and "rq_crash_inv (crash_op n (initialize now s) s)"
    and "spool (crash_op n (initialize now s) s) = spool s"
proof -
  define a where "a = fst (create_queue s)"
  define s1 where "s1 = apply_writes a s"
  define b where "b = fst (reconcileSpool now s1)"
  define s2 where "s2 = apply_writes b s1"
  define c where "c = fst (pruneIdempotencyRegistry now s2)"
  obtain es where q: "queue s1 = QEntries es" and es: "\<forall>e \<in> set es. assertRecordId (record_id e)"
    using create_queue_effect(2) [OF s] unfolding s1_def a_def by blast
  have sp: "spool s1 = spool s" using create_queue_effect(3) [OF s] by (simp add: s1_def a_def)
  have ok: "spool_ok s1" using s sp by (simp add: spool_ok_def rq_crash_inv_def)
  note r = reconcile_effect [OF ok q es, of now]
  have s2: "rq_inv s2" "spool s2 = spool s1"
    using r(2,3) by (simp_all add: s2_def b_def run_op_def)
  have snd1: "snd (create_queue s) = Inr ()" by (simp add: create_queue_def)
  have eq: "initialize now s = (a @ b @ c, Inr ())"
    unfolding initialize_def op_then_def snd1 r(1) a_def [symmetric] s1_def [symmetric] sum.case
      Let_def b_def [symmetric] s2_def [symmetric] c_def [symmetric] fst_conv snd_conv prune_ok ..
  have c: "list_all idem_write c" by (simp add: c_def prune_writes)
  have fin: "fst (run_op (initialize now s) s) = apply_writes c s2"
    by (simp add: eq run_op_def apply_writes_append s1_def s2_def)
  have p2: "spool s2 = spool s" using s2(2) sp by simp
  show "snd (initialize now s) = Inr ()" by (simp add: eq)
  show "rq_inv (fst (run_op (initialize now s) s))" "spool (fst (run_op (initialize now s) s)) = spool s"
    unfolding fin using s2(1) p2 by (simp_all add: idem_writes_inv [OF c] idem_writes_frame [OF c])
  have rec2: "recoverable s s2" using rq_inv_crash_inv [OF s2(1)] p2 by (simp add: recoverable_def)
  have rec1: "recoverable s s1" using create_queue_effect(1) [OF s, of "length a"] by (simp add: s1_def a_def)
  have "recoverable s (apply_writes (take n (a @ b @ c)) s)"
  proof (rule cut_append, goal_cases)
    case (1 n)
    show ?case unfolding a_def by (rule create_queue_effect(1) [OF s])
  next
    case (2 n)
    show ?case unfolding s1_def [symmetric]
    proof (rule cut_append, goal_cases)
      case (1 n)
      have "take n b = [] \<or> take n b = b" using r(4) b_def by (cases n) auto
      then show ?case using rec1 rec2 by (auto simp: s2_def)
    next
      case (2 n)
      have "list_all idem_write (take n c)"
        using c by (metis append_take_drop_id list_all_append)
      then show ?case unfolding s2_def [symmetric] using rec2 by (simp add: recoverable_idem)
    qed
  qed
  then show "rq_crash_inv (crash_op n (initialize now s) s)" "spool (crash_op n (initialize now s) s) = spool s"
    by (simp_all add: recoverable_def crash_op_def eq)
qed

section \<open>What completes and what a crash interrupts\<close>

lemma mark_spool: "spool (fst (run_op (markPending now now' r t err s) s)) = spool s"
  by (auto simp: markPending_def run_op_def split: sum.splits option.splits)

lemma resolve_deliveries:
  assumes s: "rq_inv s"
  shows "deliveries fmt (fst (run_op (resolve r t s) s)) = {(r', t', c) \<in> deliveries fmt s. (r', t') \<noteq> (r, t)}"
proof -
  obtain es where es: "queue s = QEntries es" using rq_inv_queue [OF s] by blast
  have sp: "spool_ok s" using s by (simp add: rq_inv_def)
  have del: "deliveries fmt (s\<lparr>spool := odel r (spool s)\<rparr>) = {(r', t', c) \<in> deliveries fmt s. r' \<noteq> r}"
    by (auto simp: deliveries_def split: if_splits)
  show ?thesis
  proof (cases "assertRecordId r")
    case False
    then have "(r, t, c) \<notin> deliveries fmt s" for c
      using pending_assert [OF sp] deliveries_pending [of r t fmt s] by blast
    then show ?thesis using False by (auto simp: resolve_def run_op_def)
  next
    case r: True
    show ?thesis
    proof (cases "oget (spool s) r")
      case None
      then show ?thesis using r es by (auto simp: resolve_def run_op_def deliveries_def)
    next
      case (Some env)
      then obtain ts where ts: "pending_targets env = Some ts"
        using spool_okD [OF sp Some] by (auto simp: envelope_ok_def)
      have d: "(r, x, c) \<in> deliveries fmt s \<longleftrightarrow> x \<in> set ts \<and> c = immutable_json fmt (env_record env)" for x c
        using Some ts by (auto simp: deliveries_def env_targets_def)
      let ?ts = "filter (\<lambda>x. x \<noteq> t) ts"
      define m where "m = (if ?ts = [] then s\<lparr>spool := odel r (spool s)\<rparr>
        else s\<lparr>spool := oset r (env\<lparr>pending_targets := Some ?ts\<rparr>) (spool s)\<rparr>)"
      have "spool (fst (run_op (resolve r t s) s)) = spool m"
        using r es Some ts by (simp add: resolve_def run_op_def m_def)
      then have "deliveries fmt (fst (run_op (resolve r t s) s)) = deliveries fmt m" by (rule deliveries_cong)
      also have "\<dots> = {(r', t', c) \<in> deliveries fmt s. (r', t') \<noteq> (r, t)}"
        unfolding m_def by (auto simp: del deliveries_write env_targets_def d filter_empty_conv)
      finally show ?thesis .
    qed
  qed
qed

text \<open>The calls a client makes; the result is forgotten here.\<close>

datatype action =
    EnqueueRecord fields "string list"
  | MarkPending string string string
  | Resolve string string
  | ResolveIdempotencyKey string string string string "string option"

definition forget :: "'a op \<Rightarrow> unit op" where
  "forget p = (fst p, case snd p of Inl e \<Rightarrow> Inl e | Inr _ \<Rightarrow> Inr ())"

fun perform :: "(rat \<Rightarrow> string) \<Rightarrow> (string \<Rightarrow> string) \<Rightarrow> int \<Rightarrow> action \<Rightarrow> rqueue \<Rightarrow> unit op" where
  "perform fmt sha now (EnqueueRecord record targets) s = forget (enqueueRecord fmt now record targets s)"
| "perform fmt sha now (MarkPending r t err) s = markPending now now r t err s"
| "perform fmt sha now (Resolve r t) s = resolve r t s"
| "perform fmt sha now (ResolveIdempotencyKey fresh key namespace hash requested) s =
     forget (resolveIdempotencyKey sha now fresh key namespace hash requested s)"

text \<open>An operation completes; or the process dies after \<open>n\<close> of its writes, dies again in each of
  the listed restarts, and at last starts up.\<close>

datatype event =
    Completed int action
  | Interrupted int action nat "(int \<times> nat) list" int

definition failed_start :: "int \<times> nat \<Rightarrow> rqueue \<Rightarrow> rqueue" where
  "failed_start nk s = crash_op (snd nk) (initialize (fst nk) s) s"

fun event_step :: "(rat \<Rightarrow> string) \<Rightarrow> (string \<Rightarrow> string) \<Rightarrow> event \<Rightarrow> rqueue \<Rightarrow> rqueue" where
  "event_step fmt sha (Completed now a) s = fst (run_op (perform fmt sha now a s) s)"
| "event_step fmt sha (Interrupted now a n starts now') s =
     (let s' = fold failed_start starts (crash_op n (perform fmt sha now a s) s)
      in fst (run_op (initialize now' s') s'))"

definition history :: "(rat \<Rightarrow> string) \<Rightarrow> (string \<Rightarrow> string) \<Rightarrow> event list \<Rightarrow> rqueue \<Rightarrow> rqueue" where
  "history fmt sha evs s = fold (event_step fmt sha) evs s"

fun event_action :: "event \<Rightarrow> action" where
  "event_action (Completed now a) = a"
| "event_action (Interrupted now a n starts now') = a"

text \<open>The router enqueues for a list of different targets that is not empty.\<close>

fun proper :: "action \<Rightarrow> bool" where
  "proper (EnqueueRecord record targets) = (targets \<noteq> [] \<and> distinct targets)"
| "proper _ = True"

fun enqueued :: "(rat \<Rightarrow> string) \<Rightarrow> action \<Rightarrow> (string \<times> string \<times> string) set" where
  "enqueued fmt (EnqueueRecord record targets) =
     (case str_field record ''record_id'' of
        None \<Rightarrow> {}
      | Some r \<Rightarrow> {r} \<times> set targets \<times> {immutable_json fmt record})"
| "enqueued fmt _ = {}"

fun resolved :: "action \<Rightarrow> (string \<times> string \<times> string) set" where
  "resolved (Resolve r t) = {r} \<times> {t} \<times> UNIV"
| "resolved _ = {}"

lemma forget_run [simp]: "fst (run_op (forget p) s) = fst (run_op p s)"
  by (simp add: forget_def run_op_def)

lemma forget_atomic [simp]: "op_atomic s (forget p) = op_atomic s p"
  by (simp add: op_atomic_def forget_def run_op_def crash_op_def)

definition effect_ok :: "(rat \<Rightarrow> string) \<Rightarrow> action \<Rightarrow> rqueue \<Rightarrow> rqueue \<Rightarrow> bool" where
  "effect_ok fmt a s s' =
     (deliveries fmt s - resolved a \<subseteq> deliveries fmt s' \<and> deliveries fmt s' \<subseteq> deliveries fmt s \<union> enqueued fmt a)"

lemma effect_same: "spool s' = spool s \<Longrightarrow> effect_ok fmt a s s'"
  by (auto simp: effect_ok_def deliveries_def)

lemma perform_effect:
  assumes s: "rq_inv s" and a: "proper a"
  shows "op_atomic s (perform fmt sha now a s) \<and> effect_ok fmt a s (fst (run_op (perform fmt sha now a s) s))"
proof (cases a)
  case (EnqueueRecord rec targets)
  have t: "targets \<noteq> []" "distinct targets" using a by (simp_all add: EnqueueRecord)
  let ?p = "enqueueRecord fmt now rec targets s"
  show ?thesis
  proof (cases "snd ?p")
    case (Inl e)
    then have "fst ?p = []" by (rule enqueue_error [OF s])
    then have "?p = ([], Inl e)" using Inl by (metis prod.collapse)
    then show ?thesis using s by (simp add: EnqueueRecord op_atomic_none effect_same run_op_def forget_def)
  next
    case (Inr persisted)
    obtain r where "str_field rec ''record_id'' = Some r" "op_atomic s ?p"
      "deliveries fmt s \<subseteq> deliveries fmt (fst (run_op ?p s))"
      "deliveries fmt (fst (run_op ?p s)) \<subseteq> deliveries fmt s \<union> {r} \<times> set targets \<times> {immutable_json fmt rec}"
      by (rule enqueue_effect [OF s t Inr]) (rule that; assumption)
    then show ?thesis
      unfolding EnqueueRecord perform.simps forget_run forget_atomic effect_ok_def resolved.simps enqueued.simps
      by (simp only: option.case Diff_empty simp_thms)
  qed
next
  case (MarkPending r t err)
  show ?thesis using mark_effect [OF s] by (simp add: MarkPending effect_same mark_spool)
next
  case (Resolve r t)
  have "op_atomic s (resolve r t s)"
  proof (cases "assertRecordId r")
    case True
    then show ?thesis using resolve_effect [OF s] by simp
  next
    case False
    then show ?thesis using s by (simp add: resolve_def op_atomic_none)
  qed
  moreover have "effect_ok fmt a s (fst (run_op (resolve r t s) s))"
    by (auto simp: effect_ok_def resolve_deliveries [OF s] Resolve)
  ultimately show ?thesis by (simp add: Resolve)
next
  case (ResolveIdempotencyKey fresh key namespace hash requested)
  show ?thesis
    using idem_op_effect [OF s resolveIdempotencyKey_writes]
    by (simp add: ResolveIdempotencyKey effect_same)
qed

lemma failed_starts:
  assumes "rq_crash_inv s"
  shows "rq_crash_inv (fold failed_start starts s) \<and> spool (fold failed_start starts s) = spool s"
  using assms
proof (induction starts arbitrary: s)
  case (Cons nk starts)
  then have "rq_crash_inv (failed_start nk s)" "spool (failed_start nk s) = spool s"
    using initialize_effect(4,5) by (simp_all add: failed_start_def)
  then show ?case using Cons.IH by simp
qed simp

lemma event_effect:
  assumes s: "rq_inv s" and a: "proper (event_action e)"
  shows "rq_inv (event_step fmt sha e s) \<and> effect_ok fmt (event_action e) s (event_step fmt sha e s)"
proof (cases e)
  case (Completed now a')
  then show ?thesis using perform_effect [OF s] a by (simp add: op_atomic_def)
next
  case (Interrupted now a' n starts now')
  let ?p = "perform fmt sha now a' s"
  let ?c = "crash_op n ?p s"
  let ?s' = "fold failed_start starts ?c"
  have at: "op_atomic s ?p" and ef: "effect_ok fmt a' s (fst (run_op ?p s))"
    using perform_effect [OF s, of a' fmt sha now] a by (simp_all add: Interrupted)
  have c: "rq_crash_inv ?c" "spool ?c = spool s \<or> spool ?c = spool (fst (run_op ?p s))"
    using at by (simp_all add: op_atomic_def)
  have s': "rq_crash_inv ?s'" "spool ?s' = spool ?c" using failed_starts [OF c(1)] by simp_all
  have st: "event_step fmt sha e s = fst (run_op (initialize now' ?s') ?s')" by (simp add: Interrupted Let_def)
  have "spool (event_step fmt sha e s) = spool ?c"
    unfolding st using initialize_effect(3) [OF s'(1)] s'(2) by simp
  then have "spool (event_step fmt sha e s) = spool s \<or> spool (event_step fmt sha e s) = spool (fst (run_op ?p s))"
    using c(2) by simp
  then have "effect_ok fmt a' s (event_step fmt sha e s)"
  proof
    assume "spool (event_step fmt sha e s) = spool s"
    then show ?thesis by (rule effect_same)
  next
    assume "spool (event_step fmt sha e s) = spool (fst (run_op ?p s))"
    then have "deliveries fmt (event_step fmt sha e s) = deliveries fmt (fst (run_op ?p s))" by (rule deliveries_cong)
    then show ?thesis using ef by (simp add: effect_ok_def)
  qed
  moreover have "rq_inv (event_step fmt sha e s)" unfolding st by (rule initialize_effect(2) [OF s'(1)])
  ultimately show ?thesis by (simp add: Interrupted)
qed

interpretation rq: durable_log rq_inv "deliveries fmt" "event_step fmt sha"
  "\<lambda>e. proper (event_action e)" "\<lambda>e. enqueued fmt (event_action e)" "\<lambda>e. resolved (event_action e)"
  for fmt sha
  by unfold_locales (use event_effect in \<open>auto simp: effect_ok_def\<close>)

end
