(* ===== verification/RetryProps.thy ===== *)
theory RetryProps
  imports RetryHistory
begin

text \<open>
  The properties of the durable retry queue: durability over histories with crashes, atomic
  recovery, collisions, the back-off, the listing, and the idempotency registry.
\<close>

section \<open>A concrete queue for the witnesses\<close>

definition example_id :: string where
  "example_id = ''00000000-0000-7000-8000-000000000001''"

definition example_record :: fields where
  "example_record = [(''record_id'', JStr example_id), (''content'', JStr ''note'')]"

definition empty_queue :: rqueue where
  "empty_queue = \<lparr>queue = QEntries [], spool = [], idem = [], idempotencyWritesSincePrune = 0\<rparr>"

definition example_queue :: rqueue where
  "example_queue =
     \<lparr>queue = QEntries [new_entry example_id 5 None ''peer''],
      spool = [(example_id, \<lparr>env_record = example_record, pending_targets = Some [''peer'']\<rparr>)],
      idem = [], idempotencyWritesSincePrune = 0\<rparr>"

definition no_fmt :: "rat \<Rightarrow> string" where "no_fmt q = []"

lemma example_id_ok [simp]: "assertRecordId example_id"
  by code_simp

lemma example_record_id [simp]: "str_field example_record ''record_id'' = Some example_id"
  by (simp add: str_field_Some example_record_def)

lemma example_pending: "pending example_queue = {(example_id, ''peer'')}"
  by (auto simp: pending_def example_queue_def env_targets_def split: if_splits)

lemma example_deliveries:
  "(example_id, ''peer'', immutable_json fmt example_record) \<in> deliveries fmt example_queue"
  by (simp add: deliveries_def example_queue_def env_targets_def)

lemma example_inv: "rq_inv example_queue"
  by (simp add: rq_inv_def spool_ok_def example_pending)
    (simp add: example_queue_def envelope_ok_def entries_ok_def new_entry_def)

lemma empty_inv: "rq_inv empty_queue"
  by (simp add: rq_inv_def spool_ok_def empty_queue_def entries_ok_def pending_def)

section \<open>Durability\<close>

text \<open>
  C1: No delivery is lost.  A delivery that is pending in a consistent queue is still there after
  any history of completed and crash-interrupted operations, of which none resolves it: the queue
  holds an entry for it, and the spool returns its record with the same immutable content.
\<close>

theorem delivery_survives:
  assumes "rq_inv s" and "\<forall>e \<in> set evs. proper (event_action e)"
    and "(r, t, c) \<in> deliveries fmt s" and "\<forall>e \<in> set evs. event_action e \<noteq> Resolve r t"
  shows "(\<exists>es. queue (history fmt sha evs s) = QEntries es \<and> (\<exists>e \<in> set es. for_pair r t e)) \<and>
    (\<exists>rec. readRecord r (history fmt sha evs s) = Inr (Some rec) \<and> immutable_json fmt rec = c)"
proof -
  let ?h = "history fmt sha evs s"
  have inv: "rq_inv ?h" unfolding history_def by (rule rq.history_inv [OF assms(1,2)])
  have nr: "\<forall>e \<in> set evs. (r, t, c) \<notin> resolved (event_action e)"
  proof
    fix e assume "e \<in> set evs"
    then have "event_action e \<noteq> Resolve r t" using assms(4) by blast
    then show "(r, t, c) \<notin> resolved (event_action e)" by (cases "event_action e") auto
  qed
  have d: "(r, t, c) \<in> deliveries fmt ?h"
    unfolding history_def by (rule rq.history_keeps [OF assms(1-3) nr])
  then have p: "(r, t) \<in> pending ?h" using deliveries_pending by blast
  obtain es where es: "queue ?h = QEntries es" "pairs_of es = pending ?h" using rq_inv_queue [OF inv] by blast
  have "\<exists>e \<in> set es. for_pair r t e" using p unfolding es(2) [symmetric] by (auto simp: pairs_of_def for_pair_def)
  then have q: "\<exists>es. queue ?h = QEntries es \<and> (\<exists>e \<in> set es. for_pair r t e)" using es(1) by blast
  have "assertRecordId r" using inv p pending_assert by (auto simp: rq_inv_def)
  then have "\<exists>rec. readRecord r ?h = Inr (Some rec) \<and> immutable_json fmt rec = c"
    using d by (auto simp: readRecord_def deliveries_def)
  with q show ?thesis by blast
qed

definition example_events :: "event list" where
  "example_events =
     [Completed 7 (MarkPending example_id ''peer'' ''DOWN''),
      Interrupted 8 (EnqueueRecord example_record [''peer'', ''hub'']) 1 [(9, 0)] 10,
      Interrupted 11 (Resolve example_id ''hub'') 1 [] 12]"

theorem delivery_survives_witness:
  "(\<exists>es. queue (history no_fmt id example_events example_queue) = QEntries es \<and> (\<exists>e \<in> set es. for_pair example_id ''peer'' e)) \<and>
   (\<exists>rec. readRecord example_id (history no_fmt id example_events example_queue) = Inr (Some rec) \<and>
     immutable_json no_fmt rec = immutable_json no_fmt example_record)"
  using delivery_survives [OF example_inv _ example_deliveries [of no_fmt], of example_events id]
  by (simp add: example_events_def)

text \<open>
  Nothing is invented.  What is pending after a history was pending before it, or was enqueued
  in it for that target with that content.
\<close>

theorem deliveries_origin:
  assumes "rq_inv s" and "\<forall>e \<in> set evs. proper (event_action e)"
    and "(r, t, c) \<in> deliveries fmt (history fmt sha evs s)"
  shows "(r, t, c) \<in> deliveries fmt s \<or>
    (\<exists>e \<in> set evs. \<exists>record targets. event_action e = EnqueueRecord record targets \<and>
       str_field record ''record_id'' = Some r \<and> t \<in> set targets \<and> immutable_json fmt record = c)"
proof -
  have "\<exists>record targets. a = EnqueueRecord record targets \<and>
      str_field record ''record_id'' = Some r \<and> t \<in> set targets \<and> immutable_json fmt record = c"
    if "(r, t, c) \<in> enqueued fmt a" for a
    using that by (cases a) (auto split: option.splits)
  then show ?thesis using rq.history_origin [OF assms(1,2)] assms(3) unfolding history_def by blast
qed

theorem deliveries_origin_witness:
  "(example_id, ''peer'', immutable_json no_fmt example_record) \<in> deliveries no_fmt (history no_fmt id [] example_queue) \<and>
   (example_id, ''peer'', immutable_json no_fmt example_record) \<in> deliveries no_fmt example_queue"
  using deliveries_origin [OF example_inv, of "[]" example_id "''peer''" "immutable_json no_fmt example_record" no_fmt id]
    example_deliveries [of no_fmt] by (simp add: history_def)

text \<open>
  C2: Crash atomicity and recovery.  Wherever an operation is cut, and however often the restart is
  cut too, the restart that succeeds leaves a consistent queue, with one entry for each pending
  delivery, whose spool is the one before the operation or the one after it.
\<close>

theorem crash_recovery:
  assumes "rq_inv s" and "proper a"
  shows "snd (initialize now' (fold failed_start restarts (crash_op n (perform fmt sha now a s) s))) = Inr () \<and>
    rq_inv (event_step fmt sha (Interrupted now a n restarts now') s) \<and>
    spool (event_step fmt sha (Interrupted now a n restarts now') s) \<in>
      {spool s, spool (event_step fmt sha (Completed now a) s)}"
proof -
  let ?c = "crash_op n (perform fmt sha now a s) s"
  let ?s = "fold failed_start restarts ?c"
  have at: "op_atomic s (perform fmt sha now a s)" using perform_effect [OF assms] by blast
  then have "rq_crash_inv ?c" by (simp add: op_atomic_def)
  then have s: "rq_crash_inv ?s" "spool ?s = spool ?c" using failed_starts by blast+
  have st: "event_step fmt sha (Interrupted now a n restarts now') s = fst (run_op (initialize now' ?s) ?s)"
    by (simp add: Let_def)
  have "spool (event_step fmt sha (Interrupted now a n restarts now') s) \<in>
      {spool s, spool (event_step fmt sha (Completed now a) s)}"
    unfolding st initialize_effect(3) [OF s(1)] s(2) using at by (simp add: op_atomic_def)
  moreover have "rq_inv (event_step fmt sha (Interrupted now a n restarts now') s)"
    unfolding st by (rule initialize_effect(2) [OF s(1)])
  ultimately show ?thesis using initialize_effect(1) [OF s(1)] by simp
qed

theorem crash_recovery_witness:
  "rq_inv (event_step no_fmt id (Interrupted 6 (EnqueueRecord example_record [''peer'']) 1 [(7, 0)] 8) empty_queue)"
  using crash_recovery [OF empty_inv, of "EnqueueRecord example_record [''peer'']" 8 "[(7, 0)]" 1 no_fmt id 6] by simp

section \<open>Enqueueing\<close>

definition scopes_of :: "fields \<Rightarrow> fields" where
  "scopes_of record = object_or_empty (oget record ''origin_scopes'')"

text \<open>What an enqueue that succeeds promises: the record read back is the one returned (as JSON), its
  immutable content is the one asked for, every target has an entry, and the scopes the spool had
  are still there.\<close>

definition enqueue_promise ::
  "(rat \<Rightarrow> string) \<Rightarrow> string \<Rightarrow> fields \<Rightarrow> string list \<Rightarrow> rqueue \<Rightarrow> rqueue \<Rightarrow> fields \<Rightarrow> bool" where
  "enqueue_promise fmt r record targets s s' persisted =
     ((\<exists>rec. readRecord r s' = Inr (Some rec) \<and> stringify fmt (JObj rec) = stringify fmt (JObj persisted)) \<and>
      immutable_json fmt persisted = immutable_json fmt record \<and>
      (\<exists>es. queue s' = QEntries es \<and> (\<forall>t \<in> set targets. \<exists>e \<in> set es. for_pair r t e)) \<and>
      (\<forall>env k v. oget (spool s) r = Some env \<and> oget (scopes_of (env_record env)) k = Some v \<longrightarrow>
         oget (scopes_of persisted) k = Some v))"

lemma enqueue_result:
  assumes s: "rq_inv s" and r: "assertRecordId r" "str_field record ''record_id'' = Some r"
  shows "snd (enqueueRecord fmt now record targets s) = map_sum (\<lambda>e. e) snd (spool_record fmt r record targets s)"
  using rq_inv_queue [OF s] r
  by (cases "spool_record fmt r record targets s") (auto simp: enqueueRecord_def Let_def split: sum.splits)

lemma spool_record_collides:
  assumes "spool_ok s"
  shows "spool_record fmt r record targets s = Inl e \<longleftrightarrow>
    e = ''record spool collision'' \<and>
    (\<exists>env. oget (spool s) r = Some env \<and> immutable_json fmt (env_record env) \<noteq> immutable_json fmt record)"
  using spool_okD [OF assms, of r]
  by (cases "oget (spool s) r") (auto simp: spool_record_def Let_def envelope_ok_def)

lemma spool_record_persisted:
  assumes "spool_record fmt r record targets s = Inr (ws, persisted)"
    and "\<forall>env. oget (spool s) r = Some env \<longrightarrow> distinct (map fst (scopes_of (env_record env)))"
  shows "immutable_json fmt persisted = immutable_json fmt record \<and>
    (\<forall>env k v. oget (spool s) r = Some env \<and> oget (scopes_of (env_record env)) k = Some v \<longrightarrow>
       oget (scopes_of persisted) k = Some v)"
proof (cases "oget (spool s) r")
  case None
  then show ?thesis using assms(1) by (simp add: spool_record_def)
next
  case (Some env)
  let ?new = "ospread (scopes_of record) (scopes_of (env_record env))"
  have "persisted = oset ''origin_scopes'' (JObj ?new) (env_record env)"
    and im: "immutable_json fmt (env_record env) = immutable_json fmt record"
    using assms(1) Some by (auto simp: spool_record_def Let_def scopes_of_def split: if_splits option.splits)
  then have p: "scopes_of persisted = ?new" "immutable_json fmt persisted = immutable_json fmt record"
    by (simp_all add: scopes_of_def object_or_empty_def)
  have "oget ?new k = Some v" if "oget (scopes_of (env_record env)) k = Some v" for k v
    using that assms(2) Some by (simp add: oget_ospread)
  then show ?thesis using Some p by simp
qed

text \<open>
  Enqueueing.  From a consistent queue, a record with a valid id is refused with a collision,
  and nothing is written, exactly when the spool holds a record of that id with other immutable
  content; else it is persisted and read back, keeps every origin scope the spool already had, and
  each of its targets has an entry.
\<close>

theorem enqueue_record_spec:
  assumes "rq_inv s" and "assertRecordId r" and "str_field record ''record_id'' = Some r"
    and "targets \<noteq> []" and "distinct targets"
    and "\<forall>env. oget (spool s) r = Some env \<longrightarrow> distinct (map fst (scopes_of (env_record env)))"
  shows "if \<exists>env. oget (spool s) r = Some env \<and> immutable_json fmt (env_record env) \<noteq> immutable_json fmt record
    then enqueueRecord fmt now record targets s = ([], Inl ''record spool collision'')
    else \<exists>persisted. snd (enqueueRecord fmt now record targets s) = Inr persisted \<and>
      enqueue_promise fmt r record targets s (fst (run_op (enqueueRecord fmt now record targets s) s)) persisted"
proof -
  let ?p = "enqueueRecord fmt now record targets s"
  let ?s = "fst (run_op ?p s)"
  have sp: "spool_ok s" using assms(1) by (simp add: rq_inv_def)
  note res = enqueue_result [OF assms(1-3), of fmt now targets]
  show ?thesis
  proof (cases "spool_record fmt r record targets s")
    case (Inl e)
    note col = spool_record_collides [OF sp, THEN iffD1, OF Inl]
    then have "snd ?p = Inl ''record spool collision''" unfolding res Inl by simp
    moreover from this have "fst ?p = []" by (rule enqueue_error [OF assms(1)])
    ultimately have "?p = ([], Inl ''record spool collision'')" by (metis prod.collapse)
    then show ?thesis using col by simp
  next
    case (Inr wp)
    obtain ws persisted where wp: "wp = (ws, persisted)" by (cases wp)
    have ok: "snd ?p = Inr persisted" using res Inr wp by simp
    have inv: "rq_inv ?s" and p: "pending ?s = pending s \<union> {r} \<times> set targets"
      and st: "stored_as fmt r persisted ?s"
      by (rule enqueue_effect [OF assms(1,4,5) ok], use assms(3) in \<open>simp add: op_atomic_def\<close>)+
    obtain es where es: "queue ?s = QEntries es" "pairs_of es = pending ?s" using rq_inv_queue [OF inv] by blast
    have "\<exists>e \<in> set es. for_pair r t e" if "t \<in> set targets" for t
    proof -
      have "(r, t) \<in> pairs_of es" using that p es(2) by simp
      then show ?thesis by (auto simp: pairs_of_def for_pair_def)
    qed
    moreover have "\<exists>rec. readRecord r ?s = Inr (Some rec) \<and> stringify fmt (JObj rec) = stringify fmt (JObj persisted)"
      using st assms(2) by (auto simp: stored_as_def readRecord_def)
    ultimately have "enqueue_promise fmt r record targets s ?s persisted"
      using es(1) spool_record_persisted [OF _ assms(6)] Inr wp by (auto simp: enqueue_promise_def)
    moreover have "\<not> (\<exists>env. oget (spool s) r = Some env \<and> immutable_json fmt (env_record env) \<noteq> immutable_json fmt record)"
      using Inr spool_record_collides [OF sp, of fmt r "record" targets] by auto
    ultimately show ?thesis using ok by (simp only: if_False) blast
  qed
qed

theorem enqueue_record_spec_witness:
  "\<exists>persisted. snd (enqueueRecord no_fmt 5 example_record [''peer''] empty_queue) = Inr persisted \<and>
     enqueue_promise no_fmt example_id example_record [''peer''] empty_queue
       (fst (run_op (enqueueRecord no_fmt 5 example_record [''peer''] empty_queue) empty_queue)) persisted"
  using enqueue_record_spec [OF empty_inv example_id_ok example_record_id, of "[''peer'']" no_fmt 5]
  by (simp add: empty_queue_def)

section \<open>The back-off\<close>

lemma delayMs_bounds: "2000 \<le> delayMs n" "delayMs n \<le> 300000"
proof -
  have "(1::int) \<le> 2 ^ min (n - 1) 8" by simp
  then show "2000 \<le> delayMs n" unfolding delayMs_def by linarith
qed (simp add: delayMs_def)

lemma delayMs_mono: "m \<le> n \<Longrightarrow> delayMs m \<le> delayMs n"
proof -
  assume "m \<le> n"
  then have "(2::int) ^ min (m - 1) 8 \<le> 2 ^ min (n - 1) 8" by (intro power_increasing) auto
  then show "delayMs m \<le> delayMs n" unfolding delayMs_def by linarith
qed

lemma update_first_unique:
  assumes "update_first p f xs = Some ys" and "distinct (map g xs)"
    and "\<And>x y. p x \<Longrightarrow> p y \<Longrightarrow> g x = g y"
  shows "ys = map (\<lambda>x. if p x then f x else x) xs"
  using assms(1,2)
proof (induction xs arbitrary: ys)
  case (Cons x xs)
  show ?case
  proof (cases "p x")
    case True
    then have "\<not> p y" if "y \<in> set xs" for y
      using that Cons.prems(2) assms(3) by (metis distinct.simps(2) image_eqI list.simps(9) set_map)
    then have "map (\<lambda>x. if p x then f x else x) xs = xs" by (intro map_idI) simp
    then show ?thesis using True Cons.prems(1) by simp
  next
    case False
    then show ?thesis using Cons by auto
  qed
qed simp

text \<open>
  A failed delivery.  For a pending delivery \<open>markPending\<close> succeeds and changes only its own
  entry: one more attempt, the error code kept, and the next attempt between 2 s and 300 s away,
  not sooner than after any earlier failure; for any other pair it is an error and writes nothing.
\<close>

theorem mark_pending_backoff:
  assumes "rq_inv s" and "queue s = QEntries es"
  shows "if (r, t) \<in> pending s
    then run_op (markPending now now' r t err s) s =
           (s\<lparr>queue := QEntries (map (\<lambda>e. if for_pair r t e
              then e\<lparr>attempts := attempts e + 1, last_error_code := Some err, updated_at := now,
                     next_attempt_at := now' + delayMs (attempts e + 1)\<rparr> else e) es)\<rparr>, Inr ()) \<and>
         (\<forall>n. 2000 \<le> delayMs n \<and> delayMs n \<le> 300000 \<and> delayMs n \<le> delayMs (n + 1))
    else markPending now now' r t err s = ([], Inl ''retry entry disappeared'')"
proof -
  have es: "entries_ok es" "pairs_of es = pending s" using rq_inv_queue [OF assms(1)] assms(2) by auto
  have mem: "(r, t) \<in> pending s \<longleftrightarrow> (\<exists>e \<in> set es. for_pair r t e)"
    unfolding es(2) [symmetric] by (auto simp: pairs_of_def for_pair_def)
  show ?thesis
  proof (cases "update_first (for_pair r t) (bump_entry now now' err) es")
    case None
    then have "(r, t) \<notin> pending s" unfolding mem by (simp add: update_first_None)
    then show ?thesis using None assms(2) by (simp add: markPending_def)
  next
    case (Some es')
    then have in_p: "(r, t) \<in> pending s" using mem by (metis option.distinct(1) update_first_None)
    have "es' = map (\<lambda>e. if for_pair r t e then bump_entry now now' err e else e) es"
      by (rule update_first_unique [OF Some es(1) [unfolded entries_ok_def]]) (simp add: for_pair_def)
    then show ?thesis
      using in_p Some assms(2)
      by (simp add: markPending_def run_op_def bump_entry_def Let_def delayMs_bounds delayMs_mono if_distrib)
  qed
qed

theorem mark_pending_backoff_witness:
  "markPending 9 9 example_id ''hub'' ''DOWN'' example_queue = ([], Inl ''retry entry disappeared'') \<and>
   snd (run_op (markPending 9 9 example_id ''peer'' ''DOWN'' example_queue) example_queue) = Inr ()"
  using mark_pending_backoff [OF example_inv, of "[new_entry example_id 5 None ''peer'']" example_id "''hub''" 9 9 "''DOWN''"]
    mark_pending_backoff [OF example_inv, of "[new_entry example_id 5 None ''peer'']" example_id "''peer''" 9 9 "''DOWN''"]
  by (simp add: example_pending) (simp add: example_queue_def)

section \<open>The listing\<close>

definition listable :: "string list option \<Rightarrow> bool \<Rightarrow> int \<Rightarrow> entry \<Rightarrow> bool" where
  "listable targets force now e =
     ((case targets of None \<Rightarrow> True | Some ts \<Rightarrow> target_node e \<in> set ts) \<and> (force \<or> next_attempt_at e \<le> now))"

text \<open>
  The listing.  It holds the entries that are wanted and due, in the order they are due, at most
  \<open>limit\<close> of them, and never leaves out an entry that is due before one it returns.
\<close>

theorem list_entries_spec:
  assumes "queue s = QEntries es" and "list_entries targets limit force now s = Inr out"
  shows "length out = min limit (length (filter (listable targets force now) es)) \<and>
    sorted (map next_attempt_at out) \<and> mset out \<subseteq># mset (filter (listable targets force now) es) \<and>
    (\<forall>e \<in># mset (filter (listable targets force now) es) - mset out. \<forall>e' \<in> set out. next_attempt_at e' \<le> next_attempt_at e)"
proof -
  let ?f = "filter (listable targets force now) es"
  let ?s = "sort_key next_attempt_at ?f"
  have "filter (\<lambda>e. force \<or> next_attempt_at e \<le> now)
      (filter (\<lambda>e. case targets of None \<Rightarrow> True | Some ts \<Rightarrow> target_node e \<in> set ts) es) = ?f"
    unfolding filter_filter by (rule filter_cong) (auto simp: listable_def)
  then have out: "out = take limit ?s" using assms by (simp add: list_entries_def)
  have split: "mset ?f = mset out + mset (drop limit ?s)"
    by (metis append_take_drop_id mset_append mset_sort out)
  have "sorted (map next_attempt_at (out @ drop limit ?s))" by (simp add: out)
  then have "sorted (map next_attempt_at out) \<and>
      (\<forall>e' \<in> set out. \<forall>e \<in> set (drop limit ?s). next_attempt_at e' \<le> next_attempt_at e)"
    by (simp add: sorted_append)
  then show ?thesis using split by (simp add: out)
qed

theorem list_entries_spec_witness:
  "list_entries None 3 False 5 example_queue = Inr [new_entry example_id 5 None ''peer''] \<and>
   sorted (map next_attempt_at [new_entry example_id 5 None ''peer''])"
proof
  show l: "list_entries None 3 False 5 example_queue = Inr [new_entry example_id 5 None ''peer'']"
    by (simp add: list_entries_def example_queue_def new_entry_def)
  show "sorted (map next_attempt_at [new_entry example_id 5 None ''peer''])"
    using list_entries_spec [OF _ l, of "[new_entry example_id 5 None ''peer'']"] by (simp add: example_queue_def)
qed

end
