(* ===== verification/RetryIdem.thy ===== *)
theory RetryIdem
  imports RetryProps
begin

text \<open>
  The idempotency registry of \<open>apps/mcp/src/retry-queue.ts\<close>: what \<open>pruneIdempotencyRegistry\<close>
  keeps and how far it cuts, and that a key keeps standing for the record it was first used for.
\<close>

section \<open>Pruning\<close>

definition removed_digests :: "int \<Rightarrow> rqueue \<Rightarrow> string list" where
  "removed_digests now s =
     map fst (filter (\<lambda>de. \<not> idem_active s (snd de) \<and> idem_expired now (snd de)) (idem s)) @
     concat (map (idem_excess s)
       (idem_groups (filter (\<lambda>de. idem_active s (snd de) \<or> \<not> idem_expired now (snd de)) (idem s))))"

lemma prune_is_removal: "fst (pruneIdempotencyRegistry now s) = map RemoveIdem (removed_digests now s)"
  by (simp add: pruneIdempotencyRegistry_def removed_digests_def Let_def)

lemma idem_removals: "idem (apply_writes (map RemoveIdem ds) s) = filter (\<lambda>de. fst de \<notin> set ds) (idem s)"
  by (induction ds arbitrary: s) (auto simp: odel_def intro!: filter_cong)

lemma idem_after_prune:
  "idem (apply_writes (fst (pruneIdempotencyRegistry now s)) s) = filter (\<lambda>de. fst de \<notin> set (removed_digests now s)) (idem s)"
  by (simp add: prune_is_removal idem_removals)

lemma set_idem_excess:
  "d \<in> set (idem_excess s g) \<Longrightarrow> \<exists>e. (d, e) \<in> set g \<and> \<not> idem_active s e"
  unfolding idem_excess_def by (fastforce dest: in_set_takeD)

lemma set_idem_groups: "g \<in> set (idem_groups es) \<Longrightarrow> \<exists>ns. g = filter (\<lambda>de. idem_namespace (snd de) = ns) es"
  by (auto simp: idem_groups_def)

lemma removed_inactive:
  assumes "d \<in> set (removed_digests now s)"
  shows "\<exists>e. (d, e) \<in> set (idem s) \<and> \<not> idem_active s e"
proof -
  let ?kept = "filter (\<lambda>de. idem_active s (snd de) \<or> \<not> idem_expired now (snd de)) (idem s)"
  have "(\<exists>g \<in> set (idem_groups ?kept). d \<in> set (idem_excess s g)) \<Longrightarrow> ?thesis"
    using set_idem_excess set_idem_groups by fastforce
  moreover have "d \<in> fst ` set (filter (\<lambda>de. \<not> idem_active s (snd de) \<and> idem_expired now (snd de)) (idem s)) \<Longrightarrow> ?thesis"
    by auto
  ultimately show ?thesis using assms unfolding removed_digests_def by auto
qed

lemma expired_removed:
  "(d, e) \<in> set (idem s) \<Longrightarrow> \<not> idem_active s e \<Longrightarrow> idem_expired now e \<Longrightarrow> d \<in> set (removed_digests now s)"
  unfolding removed_digests_def by force

lemma removed_key_inactive:
  assumes "distinct (map fst (idem s))" and "(d, e) \<in> set (idem s)" and "d \<in> set (removed_digests now s)"
  shows "\<not> idem_active s e"
  using removed_inactive [OF assms(3)] eq_key_imp_eq_value [OF assms(1,2)] by blast

lemma length_remove_keys:
  assumes "distinct (map fst g)" and "distinct ds" and "set ds \<subseteq> fst ` set g"
  shows "length (filter (\<lambda>de. fst de \<notin> set ds) g) = length g - length ds"
proof -
  have "length (filter (\<lambda>de. fst de \<notin> set ds) g) = card (fst ` set (filter (\<lambda>de. fst de \<notin> set ds) g))"
    by (metis assms(1) distinct_card distinct_map_filter length_map set_map)
  also have "fst ` set (filter (\<lambda>de. fst de \<notin> set ds) g) = fst ` set g - set ds" by auto
  also have "card \<dots> = card (fst ` set g) - card (set ds)"
    by (rule card_Diff_subset) (use assms(3) in auto)
  also have "card (fst ` set g) = length g" by (metis assms(1) distinct_card length_map set_map)
  also have "card (set ds) = length ds" by (rule distinct_card [OF assms(2)])
  finally show ?thesis .
qed

lemma excess_distinct:
  assumes "distinct (map fst g)"
  shows "distinct (idem_excess s g)" and "set (idem_excess s g) \<subseteq> fst ` set g"
proof -
  let ?inactive = "filter (\<lambda>de. \<not> idem_active s (snd de)) g"
  let ?ss = "sort_key (idem_created \<circ> snd) ?inactive"
  have "distinct (map fst ?inactive)" using assms by (rule distinct_map_filter)
  then have "distinct (map fst ?ss)"
    by (metis mset_eq_imp_distinct_iff mset_map mset_sort)
  then show "distinct (idem_excess s g)" unfolding idem_excess_def by (simp add: take_map [symmetric])
  show "set (idem_excess s g) \<subseteq> fst ` set g" using set_idem_excess by force
qed

lemma excess_length:
  "length (idem_excess s g) = min (length g - IDEMPOTENCY_MAX_ENTRIES_PER_NAMESPACE) (length (filter (\<lambda>de. \<not> idem_active s (snd de)) g))"
  by (simp add: idem_excess_def min.commute)

lemma group_after_excess:
  assumes "distinct (map fst g)"
  shows "length (filter (\<lambda>de. fst de \<notin> set (idem_excess s g)) g) \<le>
    max IDEMPOTENCY_MAX_ENTRIES_PER_NAMESPACE (length (filter (\<lambda>de. idem_active s (snd de)) g))"
proof -
  have "length (filter (\<lambda>de. idem_active s (snd de)) g) + length (filter (\<lambda>de. \<not> idem_active s (snd de)) g) = length g"
    by (rule sum_length_filter_compl)
  then show ?thesis
    using length_remove_keys [OF assms excess_distinct [OF assms, of s]] excess_length [of s g] by linarith
qed

text \<open>
  Pruning.  It never removes the entry of a record that is still in the spool; it removes every
  other entry that has expired; and it leaves in each namespace at most 10000 entries, unless more
  than that belong to records in the spool.
\<close>

theorem prune_keeps_and_bounds:
  assumes "distinct (map fst (idem s))"
  shows "let after = idem (fst (run_op (pruneIdempotencyRegistry now s) s)) in
    (\<forall>(d, e) \<in> set (idem s). idem_active s e \<longrightarrow> (d, e) \<in> set after) \<and>
    (\<forall>(d, e) \<in> set after. (d, e) \<in> set (idem s) \<and> (idem_active s e \<or> \<not> idem_expired now e)) \<and>
    (\<forall>ns. length (filter (\<lambda>de. idem_namespace (snd de) = ns) after) \<le>
       max 10000 (length (filter (\<lambda>de. idem_namespace (snd de) = ns \<and> idem_active s (snd de)) (idem s))))"
proof -
  define rem where "rem = removed_digests now s"
  define after where "after = filter (\<lambda>de. fst de \<notin> set rem) (idem s)"
  define kept where "kept = filter (\<lambda>de. idem_active s (snd de) \<or> \<not> idem_expired now (snd de)) (idem s)"
  have aft: "idem (fst (run_op (pruneIdempotencyRegistry now s) s)) = after"
    by (simp add: run_op_def idem_after_prune after_def rem_def)
  have 1: "\<forall>(d, e) \<in> set (idem s). idem_active s e \<longrightarrow> (d, e) \<in> set after"
    using removed_key_inactive [OF assms] by (auto simp: after_def rem_def)
  have 2: "\<forall>(d, e) \<in> set after. (d, e) \<in> set (idem s) \<and> (idem_active s e \<or> \<not> idem_expired now e)"
    using expired_removed by (fastforce simp: after_def rem_def)
  have 3: "length (filter (\<lambda>de. idem_namespace (snd de) = ns) after) \<le>
      max 10000 (length (filter (\<lambda>de. idem_namespace (snd de) = ns \<and> idem_active s (snd de)) (idem s)))" for ns
  proof -
    define g where "g = filter (\<lambda>de. idem_namespace (snd de) = ns) kept"
    have d: "distinct (map fst g)" using assms by (simp add: g_def kept_def distinct_map_filter)
    have "set (idem_excess s g) \<subseteq> set rem"
    proof (cases "g = []")
      case True
      then show ?thesis by (simp add: idem_excess_def)
    next
      case False
      then obtain de where "de \<in> set kept" "idem_namespace (snd de) = ns"
        unfolding g_def filter_empty_conv by blast
      then have "ns \<in> set (uniq (map (idem_namespace \<circ> snd) kept))" by (force simp: image_iff)
      then have "g \<in> set (idem_groups kept)" unfolding idem_groups_def g_def set_map by (rule imageI)
      then show ?thesis by (auto simp: rem_def removed_digests_def kept_def)
    qed
    moreover have "after = filter (\<lambda>de. fst de \<notin> set rem) kept"
      unfolding after_def kept_def filter_filter
      by (intro filter_cong) (use expired_removed [of _ _ s now, folded rem_def] in auto)
    ultimately have "filter (\<lambda>de. idem_namespace (snd de) = ns) after =
        filter (\<lambda>de. fst de \<notin> set rem) (filter (\<lambda>de. fst de \<notin> set (idem_excess s g)) g)"
      by (auto simp: g_def intro!: filter_cong)
    then have "length (filter (\<lambda>de. idem_namespace (snd de) = ns) after) \<le>
        length (filter (\<lambda>de. fst de \<notin> set (idem_excess s g)) g)"
      by (simp only: length_filter_le)
    also have "\<dots> \<le> max 10000 (length (filter (\<lambda>de. idem_active s (snd de)) g))"
      using group_after_excess [OF d] by (simp add: IDEMPOTENCY_MAX_ENTRIES_PER_NAMESPACE_def)
    also have "filter (\<lambda>de. idem_active s (snd de)) g =
        filter (\<lambda>de. idem_namespace (snd de) = ns \<and> idem_active s (snd de)) (idem s)"
      by (auto simp: g_def kept_def intro: filter_cong)
    finally show ?thesis .
  qed
  show ?thesis unfolding aft Let_def using 1 2 3 by blast
qed

definition registry_example :: rqueue where
  "registry_example = example_queue\<lparr>idem :=
     [(''a'', \<lparr>idem_record_id = example_id, payload_hash = ''p'', namespace_hash = Some ''n'', idem_created_at = Some 0\<rparr>),
      (''b'', \<lparr>idem_record_id = ''gone'', payload_hash = ''p'', namespace_hash = Some ''n'', idem_created_at = Some 0\<rparr>)]\<rparr>"

theorem prune_keeps_and_bounds_witness:
  "map fst (idem (fst (run_op (pruneIdempotencyRegistry (IDEMPOTENCY_TTL_MS + 1) registry_example) registry_example))) = [''a''] \<and>
   (let after = idem (fst (run_op (pruneIdempotencyRegistry (IDEMPOTENCY_TTL_MS + 1) registry_example) registry_example))
    in \<forall>(d, e) \<in> set (idem registry_example). idem_active registry_example e \<longrightarrow> (d, e) \<in> set after)"
proof
  show "map fst (idem (fst (run_op (pruneIdempotencyRegistry (IDEMPOTENCY_TTL_MS + 1) registry_example) registry_example))) = [''a'']"
    by code_simp
  show "let after = idem (fst (run_op (pruneIdempotencyRegistry (IDEMPOTENCY_TTL_MS + 1) registry_example) registry_example))
    in \<forall>(d, e) \<in> set (idem registry_example). idem_active registry_example e \<longrightarrow> (d, e) \<in> set after"
    using prune_keeps_and_bounds [of registry_example "IDEMPOTENCY_TTL_MS + 1"]
    unfolding Let_def by (simp add: registry_example_def)
qed

section \<open>A key stands for one record\<close>

fun idem_action :: "action \<Rightarrow> bool" where
  "idem_action (ResolveIdempotencyKey fresh key namespace hash requested) = True"
| "idem_action _ = False"

lemma other_actions_keep_idem:
  assumes "\<not> idem_action a"
  shows "idem (event_step fmt sha (Completed now a) s) = idem s"
proof (cases a)
  case (EnqueueRecord rec targets)
  have "idem (apply_writes ws s) = idem s" if "spool_record fmt r rec targets s = Inr (ws, p)" for r ws p
    using that by (auto simp: spool_record_def Let_def split: option.splits if_splits)
  then show ?thesis
    by (auto simp: EnqueueRecord enqueueRecord_def forget_def Let_def run_op_def apply_writes_append split: sum.splits)
next
  case (MarkPending r t err)
  then show ?thesis by (auto simp: markPending_def run_op_def split: sum.splits option.splits)
next
  case (Resolve r t)
  then show ?thesis by (auto simp: resolve_def run_op_def Let_def apply_writes_append split: sum.splits option.splits)
qed (use assms in simp)

lemma other_history_keeps_idem:
  "\<forall>e \<in> set evs. \<exists>now a. e = Completed now a \<and> \<not> idem_action a \<Longrightarrow> idem (history fmt sha evs s) = idem s"
  unfolding history_def
proof (induction evs arbitrary: s)
  case (Cons e evs)
  then obtain now a where "e = Completed now a" "\<not> idem_action a" by auto
  then have "idem (event_step fmt sha e s) = idem s" by (simp only: other_actions_keep_idem not_False_eq_True)
  then show ?case using Cons by simp
qed simp

lemma group_not_over:
  assumes "length es \<le> IDEMPOTENCY_MAX_ENTRIES_PER_NAMESPACE" and "g \<in> set (idem_groups es)"
  shows "idem_excess s g = []"
proof -
  have "length g \<le> length es" using set_idem_groups [OF assms(2)] by auto
  then show ?thesis using assms(1) by (simp add: idem_excess_def)
qed

lemma small_registry_removed:
  assumes "length (idem s) \<le> IDEMPOTENCY_MAX_ENTRIES_PER_NAMESPACE" and "d \<in> set (removed_digests now s)"
  shows "\<exists>e. (d, e) \<in> set (idem s) \<and> idem_expired now e"
proof -
  let ?kept = "filter (\<lambda>de. idem_active s (snd de) \<or> \<not> idem_expired now (snd de)) (idem s)"
  have "length ?kept \<le> IDEMPOTENCY_MAX_ENTRIES_PER_NAMESPACE" using assms(1) length_filter_le le_trans by blast
  then have "concat (map (idem_excess s) (idem_groups ?kept)) = []" using group_not_over by simp
  then show ?thesis using assms(2) by (auto simp: removed_digests_def)
qed

text \<open>
  Idempotency.  A key that is used for the first time, with a registry below its limit, gets a
  record id (the requested one, or a fresh one), and keeps it: after any completed enqueues, failures
  and resolutions, and until 30 days have passed, the same key with the same payload returns the same
  id and writes nothing, and with another payload or another requested id is refused.
\<close>

theorem idempotency_key_stable:
  assumes "distinct (map fst (idem s))" and "length (idem s) < 10000"
    and "oget (idem s) (idem_digest sha namespace key) = None"
    and "resolveIdempotencyKey sha now fresh key namespace hash requested s = (ws, Inr recordId)"
    and "assertRecordId fresh" and "requested \<noteq> Some []"
    and "\<forall>e \<in> set evs. \<exists>now a. e = Completed now a \<and> \<not> idem_action a"
    and "now' - now \<le> 30 * 24 * 60 * 60000" and "\<forall>q. requested' = Some q \<longrightarrow> assertRecordId q"
  shows "recordId = (case requested of None \<Rightarrow> fresh | Some q \<Rightarrow> q) \<and>
    resolveIdempotencyKey sha now' fresh' key namespace hash' requested' (history fmt sha evs (apply_writes ws s)) =
      ([], if hash' \<noteq> hash then Inl ''idempotency_key was already used with a different payload''
           else if requested' \<noteq> None \<and> requested' \<noteq> Some recordId then Inl ''record_id conflicts with idempotency_key''
           else Inr recordId)"
proof -
  let ?d = "idem_digest sha namespace key"
  have key: "key \<noteq> []" "length key \<le> 512" and req: "\<forall>q. requested = Some q \<longrightarrow> assertRecordId q"
    using assms(4,6) by (auto simp: resolveIdempotencyKey_def split: if_splits option.splits)
  define e where "e = \<lparr>idem_record_id = recordId, payload_hash = hash, namespace_hash = Some (sha namespace), idem_created_at = Some now\<rparr>"
  define s1 where "s1 = apply_write (WriteIdem ?d e) s"
  have rid: "recordId = (case requested of None \<Rightarrow> fresh | Some q \<Rightarrow> q)"
    and ws: "ws = (if idempotencyWritesSincePrune s + 1 \<ge> 256
      then [WriteIdem ?d e] @ fst (pruneIdempotencyRegistry now s1) @ [CountWrites 0]
      else [WriteIdem ?d e] @ [CountWrites (idempotencyWritesSincePrune s + 1)])"
    using assms(3,4) key req
    by (auto simp: resolveIdempotencyKey_def Let_def e_def s1_def split: if_splits option.splits)
  have rid_ok: "assertRecordId recordId" using rid req assms(5) by (auto split: option.splits)
  have fresh_key: "?d \<notin> fst ` set (idem s)" using assms(3) by (simp add: oget_None_iff)
  have dist: "distinct (map fst (idem s1))" using assms(1) by (simp add: s1_def)
  have len: "length (idem s1) \<le> IDEMPOTENCY_MAX_ENTRIES_PER_NAMESPACE"
    using assms(2) length_oset_le [of ?d e "idem s"] by (simp add: s1_def IDEMPOTENCY_MAX_ENTRIES_PER_NAMESPACE_def)
  have mem: "(?d, e) \<in> set (idem s1)" using fresh_key by (simp add: s1_def oset_fresh)
  have "\<not> idem_expired now e" by (simp add: e_def idem_expired_def IDEMPOTENCY_TTL_MS_def)
  then have not_removed: "?d \<notin> set (removed_digests now s1)"
    using small_registry_removed [OF len] eq_key_imp_eq_value [OF dist mem] by blast
  have "oget (idem (apply_writes ws s)) ?d = Some e"
  proof (cases "idempotencyWritesSincePrune s + 1 \<ge> 256")
    case True
    have "(?d, e) \<in> set (filter (\<lambda>de. fst de \<notin> set (removed_digests now s1)) (idem s1))" using mem not_removed by simp
    then have "oget (filter (\<lambda>de. fst de \<notin> set (removed_digests now s1)) (idem s1)) ?d = Some e"
      unfolding oget_Some_iff [OF distinct_map_filter [OF dist]] .
    moreover have "s\<lparr>idem := oset ?d e (idem s)\<rparr> = s1" by (simp add: s1_def)
    then have "apply_writes ws s = apply_write (CountWrites 0) (apply_writes (fst (pruneIdempotencyRegistry now s1)) s1)"
      using True unfolding ws by (simp add: apply_writes_append)
    ultimately show ?thesis by (simp add: idem_after_prune)
  next
    case False
    then show ?thesis using ws by (simp add: apply_writes_append)
  qed
  then have found: "oget (idem (history fmt sha evs (apply_writes ws s))) ?d = Some e"
    by (simp add: other_history_keeps_idem [OF assms(7)])
  have "\<not> idem_expired now' e" using assms(8) by (simp add: e_def idem_expired_def IDEMPOTENCY_TTL_MS_def)
  then show ?thesis
    using found key rid rid_ok assms(9)
    by (auto simp: resolveIdempotencyKey_def Let_def e_def split: option.splits)
qed

theorem idempotency_key_stable_witness:
  "resolveIdempotencyKey id 9 ''unused'' ''k'' ''ns'' ''other'' None
     (history no_fmt id [Completed 8 (EnqueueRecord example_record [''peer''])]
       (apply_writes (fst (resolveIdempotencyKey id 7 example_id ''k'' ''ns'' ''h'' None empty_queue)) empty_queue)) =
   ([], Inl ''idempotency_key was already used with a different payload'')"
proof -
  have "snd (resolveIdempotencyKey id 7 example_id ''k'' ''ns'' ''h'' None empty_queue) = Inr example_id"
    by (simp add: resolveIdempotencyKey_def Let_def empty_queue_def idem_digest_def)
  then have "resolveIdempotencyKey id 7 example_id ''k'' ''ns'' ''h'' None empty_queue =
      (fst (resolveIdempotencyKey id 7 example_id ''k'' ''ns'' ''h'' None empty_queue), Inr example_id)"
    by (metis prod.collapse)
  from idempotency_key_stable [OF _ _ _ this example_id_ok _, of "[Completed 8 (EnqueueRecord example_record [''peer''])]" 9 None
      "''unused''" "''other''" no_fmt]
  have "idem empty_queue = [] \<longrightarrow> ?thesis" by (simp del: history_def)
  then show ?thesis by (simp add: empty_queue_def)
qed

end
