(* ===== verification/JsValue.thy ===== *)
theory JsValue
  imports Json
begin

text \<open>
  The conversions of the language that the code applies to unchecked values: \<open>String(value)\<close>,
  \<open>Number(value)\<close>, \<open>a ?? b\<close>, property access.  A number is the rational its literal
  denotes (not yet rounded to a double).
\<close>

section \<open>String(value)\<close>

fun js_string :: "(rat \<Rightarrow> string) \<Rightarrow> json \<Rightarrow> string" where
  "js_string fmt JNull = ''null''"
| "js_string fmt (JBool b) = (if b then ''true'' else ''false'')"
| "js_string fmt (JNum q) = num_str fmt q"
| "js_string fmt JInf = ''Infinity''"
| "js_string fmt (JStr s) = s"
| "js_string fmt (JArr xs) = join '','' (map (\<lambda>x. if x = JNull then [] else js_string fmt x) xs)"
| "js_string fmt (JObj kvs) = ''[object Object]''"

section \<open>Number(value)\<close>

definition digits_value :: "nat \<Rightarrow> string \<Rightarrow> nat" where
  "digits_value base s = foldl (\<lambda>v c. v * base + hex_val c) 0 s"

text \<open>\<open>0x\<close>, \<open>0o\<close> and \<open>0b\<close> literals\<close>

definition prefixed_number :: "string \<Rightarrow> rat option" where
  "prefixed_number s =
     (if length s < 3 \<or> hd s \<noteq> CHR ''0'' then None
      else let d = drop 2 s; p = lower_char (s ! 1)
      in if p = CHR ''x'' \<and> list_all is_hex d then Some (of_nat (digits_value 16 d))
         else if p = CHR ''o'' \<and> list_all (\<lambda>c. is_digit c \<and> hex_val c < 8) d then Some (of_nat (digits_value 8 d))
         else if p = CHR ''b'' \<and> list_all (\<lambda>c. is_digit c \<and> hex_val c < 2) d then Some (of_nat (digits_value 2 d))
         else None)"

definition exponent_value :: "string \<Rightarrow> rat option" where
  "exponent_value s =
     (case s of
        [] \<Rightarrow> Some 1
      | c # cs \<Rightarrow>
          if lower_char c \<noteq> CHR ''e'' then None
          else let neg = (cs \<noteq> [] \<and> hd cs = CHR ''-'');
                   d = (if cs \<noteq> [] \<and> hd cs \<in> set ''+-'' then tl cs else cs)
          in if d = [] \<or> \<not> list_all is_digit d then None
             else Some (if neg then 1 / 10 ^ digits_value 10 d else 10 ^ digits_value 10 d))"

definition unsigned_decimal :: "string \<Rightarrow> rat option" where
  "unsigned_decimal s =
     (let i = takeWhile is_digit s; r = dropWhile is_digit s;
          point = (r \<noteq> [] \<and> hd r = CHR ''.'');
          f = (if point then takeWhile is_digit (tl r) else []);
          e = (if point then dropWhile is_digit (tl r) else r)
      in if i = [] \<and> f = [] then None
         else map_option (\<lambda>x. (of_nat (digits_value 10 i) + of_nat (digits_value 10 f) / 10 ^ length f) * x)
                (exponent_value e))"

text \<open>\<open>Number(s)\<close> of a string; \<open>None\<close> is \<open>NaN\<close> or an infinity.\<close>

definition str_number :: "string \<Rightarrow> rat option" where
  "str_number s =
     (let t = trim s
      in if t = [] then Some 0
         else (case prefixed_number t of
             Some q \<Rightarrow> Some q
           | None \<Rightarrow>
               if hd t = CHR ''-'' then map_option uminus (unsigned_decimal (tl t))
               else if hd t = CHR ''+'' then unsigned_decimal (tl t)
               else unsigned_decimal t))"

fun js_number :: "(rat \<Rightarrow> string) \<Rightarrow> json \<Rightarrow> rat option" where
  "js_number fmt (JNum q) = Some q"
| "js_number fmt JInf = None"
| "js_number fmt JNull = Some 0"
| "js_number fmt (JBool b) = Some (if b then 1 else 0)"
| "js_number fmt v = str_number (js_string fmt v)"

text \<open>\<open>Number.isInteger\<close>\<close>

definition rat_integer :: "rat \<Rightarrow> int option" where
  "rat_integer q = (if of_int \<lfloor>q\<rfloor> = q then Some \<lfloor>q\<rfloor> else None)"

definition js_integer :: "(rat \<Rightarrow> string) \<Rightarrow> json \<Rightarrow> int option" where
  "js_integer fmt v = Option.bind (js_number fmt v) rat_integer"

lemma rat_integer_of_int [simp]: "rat_integer (of_int i) = Some i"
  by (simp add: rat_integer_def)

lemma js_integer_number [simp]: "js_integer fmt (JNum (of_int i)) = Some i"
  by (simp add: js_integer_def)

section \<open>\<open>a ?? b\<close> and property access\<close>

definition nullish :: "json option \<Rightarrow> bool" where
  "nullish v = (v = None \<or> v = Some JNull)"

definition coalesce :: "json option \<Rightarrow> json option \<Rightarrow> json option" where
  "coalesce a b = (if nullish a then b else a)"

text \<open>The own properties of a value; only \<open>null\<close> (and \<open>undefined\<close>) refuse access.\<close>

fun props :: "json \<Rightarrow> fields option" where
  "props (JObj o1) = Some o1"
| "props JNull = None"
| "props _ = Some []"

end
