(* ===== verification/Clients.thy ===== *)
theory Clients
  imports Json
begin

text \<open>
  The two HTTP clients of the MCP adapter: \<open>apps/mcp/src/core-client.ts\<close> and
  \<open>apps/mcp/src/control-gateway-client.ts\<close>, with the types of \<open>apps/mcp/src/types.ts\<close>
  they use.  What \<open>fetch\<close> does is an argument: the outcome of a request, with the body as the
  chunks the reader returns until its end or its failure.  \<open>JSON.parse\<close> of decoded bytes is the
  parameter \<open>parse\<close>; the parts of a parsed URL come from the parameter \<open>parse_url\<close>.
\<close>

section \<open>Types\<close>

record scope =
  workspace_id :: string
  project_id :: string

record core_node =
  node_id :: string
  baseUrl :: string
  node_token :: "string option"
  scopeMap :: "(string \<times> scope) list option"

record auth_context =
  principal_id :: string
  credential_id :: string
  ctx_workspace_id :: string
  ctx_project_id :: string
  human_peer_id :: string
  agent_peer_id :: "string option"
  capabilities :: "string list"
  request_id :: "string option"
  ctx_client :: "string option"

text \<open>What is thrown: the error classes of the code, and any other \<open>Error\<close> with its message\<close>

datatype exn =
    CoreRequestError string bool "nat option"
  | InvalidCoreResponseError string
  | ControlGatewayError string "nat option" bool
  | OtherError string

record url_parts =
  protocol :: string
  username :: string
  password :: string
  hostname :: string
  url_port :: string
  pathname :: string
  search :: string
  url_hash :: string

section \<open>HTTP\<close>

record http_request =
  req_method :: string
  req_url :: string
  req_query :: "(string \<times> string) list"
  req_headers :: "(string \<times> string) list"
  req_body :: "string option"

text \<open>What a body reader returns: a chunk, or a failure (\<open>True\<close> if it is an abort)\<close>

datatype body_event = Chunk string | ReadError bool

record response =
  status :: nat
  content_type :: "string option"
  body :: "body_event list option"

datatype outcome = Fetched response | FetchError bool

definition response_ok :: "response \<Rightarrow> bool" where
  "response_ok r = (200 \<le> status r \<and> status r \<le> 299)"

definition retryable_status :: "nat \<Rightarrow> bool" where
  "retryable_status n = (n = 408 \<or> n = 425 \<or> n = 429 \<or> n \<ge> 500)"

text \<open>\<open>encodeURIComponent\<close>: all but the unreserved characters as \<open>%XX\<close>\<close>

definition unreserved :: "char \<Rightarrow> bool" where
  "unreserved c = (is_alnum c \<or> c \<in> set ''-_.!~*()'' \<or> c = CHR 0x27)"

definition upper_hex_char :: "nat \<Rightarrow> char" where
  "upper_hex_char d = (if d < 10 then char_of (48 + d) else char_of (55 + d))"

definition encode_char :: "char \<Rightarrow> string" where
  "encode_char c =
     (if unreserved c then [c]
      else [CHR ''%'', upper_hex_char (code c div 16), upper_hex_char (code c mod 16)])"

definition encodeURIComponent :: "string \<Rightarrow> string" where
  "encodeURIComponent s = concat (map encode_char s)"

text \<open>\<open>String(value)\<close> of a query parameter\<close>

fun query_str :: "(rat \<Rightarrow> string) \<Rightarrow> json \<Rightarrow> string" where
  "query_str fmt (JStr s) = s"
| "query_str fmt (JNum q) = num_str fmt q"
| "query_str fmt (JBool b) = (if b then ''true'' else ''false'')"
| "query_str fmt _ = []"

section \<open>CoreClient\<close>

record core_client =
  client_node :: string
  client_base :: string
  client_token :: "string option"
  maxResponseBytes :: nat

record core_options =
  opt_body :: "fields option"
  opt_query :: "(string \<times> json) list"
  opt_idempotencyKey :: "string option"
  opt_expectJson :: bool
  opt_maxResponseBytes :: "nat option"

text \<open>A header that is set when its value is truthy\<close>

definition header_if :: "string \<Rightarrow> string \<Rightarrow> string option \<Rightarrow> (string \<times> string) list" where
  "header_if name prefix v = (case v of None \<Rightarrow> [] | Some s \<Rightarrow> if s = [] then [] else [(name, prefix @ s)])"

definition core_http_request :: "(rat \<Rightarrow> string) \<Rightarrow> core_client \<Rightarrow> string \<Rightarrow> string \<Rightarrow> core_options \<Rightarrow> http_request" where
  "core_http_request fmt client method path options =
     \<lparr>req_method = method, req_url = client_base client @ path,
      req_query = map (\<lambda>kv. (fst kv, query_str fmt (snd kv))) (opt_query options),
      req_headers = [(''accept'', ''application/json'')] @
        (if opt_body options = None then [] else [(''content-type'', ''application/json'')]) @
        header_if ''authorization'' ''Bearer '' (client_token client) @
        header_if ''idempotency-key'' [] (opt_idempotencyKey options),
      req_body = map_option (\<lambda>b. stringify fmt (JObj b)) (opt_body options)\<rparr>"

text \<open>The reading loop; \<open>got\<close> (\<open>size\<close> in the code) is the number of bytes read before.\<close>

fun read_chunks :: "exn \<Rightarrow> (bool \<Rightarrow> exn) \<Rightarrow> nat \<Rightarrow> nat \<Rightarrow> body_event list \<Rightarrow> exn + string" where
  "read_chunks too_large failed maximum got [] = Inr []"
| "read_chunks too_large failed maximum got (ReadError aborted # es) = Inl (failed aborted)"
| "read_chunks too_large failed maximum got (Chunk c # es) =
     (if got + length c > maximum then Inl too_large
      else (case read_chunks too_large failed maximum (got + length c) es of
              Inl e \<Rightarrow> Inl e
            | Inr rest \<Rightarrow> Inr (c @ rest)))"

definition core_read_failure :: "response \<Rightarrow> bool \<Rightarrow> exn" where
  "core_read_failure r aborted =
     (if aborted then CoreRequestError ''timeout'' True None
      else CoreRequestError ''invalid_json_response'' False (Some (status r)))"

definition readJsonBounded :: "(string \<Rightarrow> json option) \<Rightarrow> response \<Rightarrow> nat \<Rightarrow> exn + json" where
  "readJsonBounded parse r maximum =
     (case body r of
        None \<Rightarrow> Inl (CoreRequestError ''invalid_json_response'' False (Some (status r)))
      | Some es \<Rightarrow>
          rbind (read_chunks (CoreRequestError ''response_too_large'' False (Some (status r)))
                   (core_read_failure r) maximum 0 es)
            (\<lambda>bytes. case parse bytes of
               None \<Rightarrow> Inl (CoreRequestError ''invalid_json_response'' False (Some (status r)))
             | Some v \<Rightarrow> Inr v))"

definition is_json_type :: "string option \<Rightarrow> bool" where
  "is_json_type contentType =
     str_includes ''application/json'' (case contentType of None \<Rightarrow> [] | Some t \<Rightarrow> t)"

text \<open>\<open>request\<close>: what the outcome of its \<open>fetch\<close> makes of it\<close>

definition core_request :: "(string \<Rightarrow> json option) \<Rightarrow> core_client \<Rightarrow> core_options \<Rightarrow> outcome \<Rightarrow> exn + json" where
  "core_request parse client options out =
     (case out of
        FetchError aborted \<Rightarrow>
          Inl (CoreRequestError (if aborted then ''timeout'' else ''network_error'') True None)
      | Fetched r \<Rightarrow>
          if \<not> response_ok r
          then Inl (CoreRequestError (''http_'' @ dec_str (status r)) (retryable_status (status r)) (Some (status r)))
          else if status r = 204 then Inr JNull
          else if \<not> opt_expectJson options then Inr (JObj [(''ok'', JBool True)])
          else if \<not> is_json_type (content_type r)
          then Inl (CoreRequestError ''invalid_json_response'' False (Some (status r)))
          else readJsonBounded parse r
                 (case opt_maxResponseBytes options of None \<Rightarrow> maxResponseBytes client | Some m \<Rightarrow> m))"

section \<open>ControlGatewayClient\<close>

record gateway =
  gw_base :: string
  gw_maxResponseBytes :: nat
  ensuredProjects :: "string list"

definition strip_slashes :: "string \<Rightarrow> string" where
  "strip_slashes s = rev (dropWhile (\<lambda>c. c = CHR ''/'') (rev s))"

definition new_gateway :: "(string \<Rightarrow> url_parts option) \<Rightarrow> string \<Rightarrow> nat \<Rightarrow> exn + gateway" where
  "new_gateway parse_url base maximum =
     (case parse_url base of
        None \<Rightarrow> Inl (OtherError ''Control Gateway URL must be an HTTP(S) URL'')
      | Some u \<Rightarrow>
          if protocol u \<notin> {''http:'', ''https:''} \<or> username u \<noteq> [] \<or> password u \<noteq> []
          then Inl (OtherError ''Control Gateway URL must be an HTTP(S) URL without credentials'')
          else Inr \<lparr>gw_base = strip_slashes base, gw_maxResponseBytes = maximum, ensuredProjects = []\<rparr>)"

record gw_options =
  gw_body :: "fields option"
  gw_query :: "(string \<times> json) list"
  gw_idempotencyKey :: "string option"

definition gateway_headers :: "auth_context \<Rightarrow> string \<Rightarrow> gw_options \<Rightarrow> (string \<times> string) list" where
  "gateway_headers context bearer options =
     [(''accept'', ''application/json''), (''authorization'', ''Bearer '' @ bearer),
      (''x-neuromem-workspace'', ctx_workspace_id context),
      (''x-neuromem-project'', ctx_project_id context)] @
     header_if ''x-request-id'' [] (request_id context) @
     (if gw_body options = None then [] else [(''content-type'', ''application/json'')]) @
     header_if ''idempotency-key'' [] (gw_idempotencyKey options)"

definition gateway_http_request ::
  "(rat \<Rightarrow> string) \<Rightarrow> gateway \<Rightarrow> string \<Rightarrow> string \<Rightarrow> auth_context \<Rightarrow> string \<Rightarrow> gw_options \<Rightarrow> http_request" where
  "gateway_http_request fmt gw method path context bearer options =
     \<lparr>req_method = method, req_url = gw_base gw @ path,
      req_query = map (\<lambda>kv. (fst kv, query_str fmt (snd kv))) (gw_query options),
      req_headers = gateway_headers context bearer options,
      req_body = map_option (\<lambda>b. stringify fmt (JObj b)) (gw_body options)\<rparr>"

definition gateway_read_failure :: "bool \<Rightarrow> exn" where
  "gateway_read_failure aborted =
     (if aborted then ControlGatewayError ''gateway_timeout'' None True
      else ControlGatewayError ''gateway_unavailable'' None True)"

definition readBoundedJson :: "(string \<Rightarrow> json option) \<Rightarrow> response \<Rightarrow> nat \<Rightarrow> exn + json" where
  "readBoundedJson parse r maximum =
     (case body r of
        None \<Rightarrow> Inl (ControlGatewayError ''gateway_invalid_json'' None False)
      | Some es \<Rightarrow>
          rbind (read_chunks (ControlGatewayError ''gateway_response_too_large'' None False)
                   gateway_read_failure maximum 0 es)
            (\<lambda>bytes. case parse bytes of
               None \<Rightarrow> Inl (ControlGatewayError ''gateway_invalid_json'' None False)
             | Some v \<Rightarrow> Inr v))"

definition gateway_response :: "(string \<Rightarrow> json option) \<Rightarrow> gateway \<Rightarrow> outcome \<Rightarrow> exn + json" where
  "gateway_response parse gw out =
     (case out of
        FetchError aborted \<Rightarrow> Inl (gateway_read_failure aborted)
      | Fetched r \<Rightarrow>
          if \<not> response_ok r
          then Inl (ControlGatewayError (''gateway_http_'' @ dec_str (status r)) (Some (status r)) (retryable_status (status r)))
          else if status r = 204 then Inr JNull
          else if \<not> is_json_type (content_type r) then Inl (ControlGatewayError ''gateway_invalid_json'' None False)
          else readBoundedJson parse r (gw_maxResponseBytes gw))"

text \<open>
  The requests made so far are threaded through, and the network answers by them: \<open>net past req\<close>
  is the outcome of \<open>req\<close> after the requests \<open>past\<close>.
\<close>

type_synonym network = "http_request list \<Rightarrow> http_request \<Rightarrow> outcome"
type_synonym 'a io = "(exn + 'a) \<times> http_request list"

definition gateway_request ::
  "(rat \<Rightarrow> string) \<Rightarrow> (string \<Rightarrow> json option) \<Rightarrow> network \<Rightarrow> gateway \<Rightarrow> string \<Rightarrow> string \<Rightarrow> auth_context \<Rightarrow>
   string \<Rightarrow> gw_options \<Rightarrow> http_request list \<Rightarrow> json io" where
  "gateway_request fmt parse net gw method path context bearer options past =
     (if \<not> starts_with ''/api/v1/'' path \<or> starts_with ''//'' path
      then (Inl (OtherError ''Control Gateway path must stay under /api/v1''), past)
      else if bearer = [] \<or> (\<exists>c \<in> set bearer. c \<in> {CHR 0x0D, CHR 0x0A, CHR 0x00})
      then (Inl (ControlGatewayError ''invalid_credential'' None False), past)
      else let req = gateway_http_request fmt gw method path context bearer options
           in (gateway_response parse gw (net past req), past @ [req]))"

fun gateway_status :: "exn \<Rightarrow> nat option" where
  "gateway_status (ControlGatewayError c st r) = st"
| "gateway_status _ = None"

definition scope_key :: "auth_context \<Rightarrow> string" where
  "scope_key context = ctx_workspace_id context @ '':'' @ ctx_project_id context"

definition gw_post :: "fields \<Rightarrow> string option \<Rightarrow> gw_options" where
  "gw_post b key = \<lparr>gw_body = Some b, gw_query = [], gw_idempotencyKey = key\<rparr>"

text \<open>The project is ensured once; a 403 there is left for the session endpoint to decide.\<close>

definition ensure_project ::
  "(rat \<Rightarrow> string) \<Rightarrow> (string \<Rightarrow> json option) \<Rightarrow> network \<Rightarrow> gateway \<Rightarrow> auth_context \<Rightarrow> string \<Rightarrow>
   http_request list \<Rightarrow> gateway io" where
  "ensure_project fmt parse net gw context bearer past =
     (if scope_key context \<in> set (ensuredProjects gw) then (Inr gw, past)
      else (case gateway_request fmt parse net gw ''POST''
                   (''/api/v1/memory/projects/'' @ encodeURIComponent (ctx_project_id context) @ '':ensure'')
                   context bearer (gw_post [(''metadata'', JObj []), (''configuration'', JObj [])] None) past of
              (Inr _, past') \<Rightarrow> (Inr (gw\<lparr>ensuredProjects := ensuredProjects gw @ [scope_key context]\<rparr>), past')
            | (Inl e, past') \<Rightarrow> (if gateway_status e = Some 403 then Inr gw else Inl e, past')))"

definition message_path :: "string \<Rightarrow> string" where
  "message_path sessionId = ''/api/v1/memory/sessions/'' @ encodeURIComponent sessionId @ ''/messages''"

definition session_options :: "auth_context \<Rightarrow> string \<Rightarrow> gw_options" where
  "session_options context sessionId =
     gw_post [(''session_id'', JStr sessionId),
              (''name'', JStr (case ctx_client context of
                 Some c \<Rightarrow> if c = [] then ''Agent session'' else c
               | None \<Rightarrow> ''Agent session'')),
              (''metadata'', JObj [(''source'', JStr ''neuromem-mcp'')])]
       (Some (''session:'' @ ctx_project_id context @ '':'' @ sessionId))"

definition gateway_record ::
  "(rat \<Rightarrow> string) \<Rightarrow> (string \<Rightarrow> json option) \<Rightarrow> network \<Rightarrow> gateway \<Rightarrow> auth_context \<Rightarrow> string \<Rightarrow> string \<Rightarrow>
   fields \<Rightarrow> string \<Rightarrow> http_request list \<Rightarrow> json io \<times> gateway" where
  "gateway_record fmt parse net gw context bearer sessionId b idempotencyKey past =
     (case ensure_project fmt parse net gw context bearer past of
        (Inl e, past1) \<Rightarrow> ((Inl e, past1), gw)
      | (Inr gw1, past1) \<Rightarrow>
          let post = gateway_request fmt parse net gw1 ''POST'' (message_path sessionId) context bearer
                       (gw_post b (Some idempotencyKey))
          in (case post past1 of
                (Inr v, past2) \<Rightarrow> ((Inr v, past2), gw1)
              | (Inl e, past2) \<Rightarrow>
                  if gateway_status e \<noteq> Some 404 then ((Inl e, past2), gw1)
                  else (case gateway_request fmt parse net gw1 ''POST'' ''/api/v1/memory/sessions'' context bearer
                               (session_options context sessionId) past2 of
                          (Inl e', past3) \<Rightarrow> ((Inl e', past3), gw1)
                        | (Inr _, past3) \<Rightarrow> (post past3, gw1))))"

section \<open>Reading a body\<close>

lemma read_chunks_Inr:
  "read_chunks too_large failed maximum got es = Inr bytes \<Longrightarrow> got \<le> maximum \<Longrightarrow>
     (\<exists>cs. es = map Chunk cs \<and> bytes = concat cs) \<and> got + length bytes \<le> maximum"
proof (induction es arbitrary: got bytes)
  case (Cons ev es)
  show ?case
  proof (cases ev)
    case (Chunk c)
    then obtain rest where r: "got + length c \<le> maximum" "bytes = c @ rest"
      "read_chunks too_large failed maximum (got + length c) es = Inr rest"
      using Cons.prems by (auto split: if_splits sum.splits)
    then obtain cs where cs: "es = map Chunk cs" "rest = concat cs" "got + length c + length rest \<le> maximum"
      using Cons.IH by blast
    then have "ev # es = map Chunk (c # cs)" "bytes = concat (c # cs)" using Chunk r by simp_all
    then show ?thesis using cs r by (intro conjI exI [of _ "c # cs"]) simp_all
  next
    case (ReadError a)
    then show ?thesis using Cons.prems by simp
  qed
qed simp

lemma read_chunks_Inl:
  "read_chunks too_large failed maximum got es = Inl e \<Longrightarrow> e = too_large \<or> (\<exists>a. e = failed a)"
  by (induction es arbitrary: got rule: list.induct)
    (auto elim!: read_chunks.elims split: if_splits sum.splits)

text \<open>A string is within a list of chunks of the body.\<close>

definition body_bytes :: "response \<Rightarrow> string \<Rightarrow> bool" where
  "body_bytes r bytes = (\<exists>cs. body r = Some (map Chunk cs) \<and> bytes = concat cs)"

text \<open>
  Core errors.  Every failure of a Core request is a \<open>CoreRequestError\<close>, and it is marked
  retryable exactly when there was no answer in time (no status) or the status is 408, 425, 429 or
  5xx and above.
\<close>

theorem core_request_errors:
  assumes "core_request parse client options out = Inl e"
  shows "\<exists>c st. e = CoreRequestError c (case st of None \<Rightarrow> True | Some n \<Rightarrow> retryable_status n) st"
proof (cases out)
  case (FetchError aborted)
  then show ?thesis using assms by (auto simp: core_request_def intro!: exI [of _ None])
next
  case (Fetched r)
  have ok: "\<not> retryable_status (status r)" if "response_ok r"
    using that by (auto simp: response_ok_def retryable_status_def)
  show ?thesis
  proof (cases "response_ok r")
    case False
    then show ?thesis using assms Fetched by (auto simp: core_request_def intro!: exI [of _ "Some (status r)"])
  next
    case True
    have rd: "\<exists>c st. e = CoreRequestError c (case st of None \<Rightarrow> True | Some n \<Rightarrow> retryable_status n) st"
      if "readJsonBounded parse r m = Inl e" for m
    proof -
      have "e = CoreRequestError ''response_too_large'' False (Some (status r)) \<or>
          (\<exists>a. e = core_read_failure r a) \<or> e = CoreRequestError ''invalid_json_response'' False (Some (status r))"
        using that
        by (auto simp: readJsonBounded_def rbind_def dest!: read_chunks_Inl split: option.splits sum.splits)
      then show ?thesis
        using ok [OF True]
        by (auto simp: core_read_failure_def intro!: exI [of _ "Some (status r)"] split: if_splits)
    qed
    show ?thesis
    proof (cases "status r = 204 \<or> \<not> opt_expectJson options")
      case True
      then show ?thesis using assms Fetched \<open>response_ok r\<close> by (auto simp: core_request_def split: if_splits)
    next
      case False
      then show ?thesis
        using assms Fetched \<open>response_ok r\<close> rd ok
        by (auto simp: core_request_def intro!: exI [of _ "Some (status r)"] split: if_splits)
    qed
  qed
qed

definition example_client :: core_client where
  "example_client = \<lparr>client_node = ''n'', client_base = ''http://n'', client_token = Some ''t'', maxResponseBytes = 4\<rparr>"

definition json_options :: core_options where
  "json_options = \<lparr>opt_body = None, opt_query = [], opt_idempotencyKey = None, opt_expectJson = True, opt_maxResponseBytes = None\<rparr>"

theorem core_request_errors_witness:
  "\<exists>c st. CoreRequestError ''http_503'' True (Some 503) =
     CoreRequestError c (case st of None \<Rightarrow> True | Some n \<Rightarrow> retryable_status n) st"
proof (rule core_request_errors)
  show "core_request (\<lambda>_. None) example_client json_options
      (Fetched \<lparr>status = 503, content_type = None, body = None\<rparr>) = Inl (CoreRequestError ''http_503'' True (Some 503))"
    by code_simp
qed

text \<open>
  Bounded answers.  A value that a Core request returns is the parse of a complete body of at
  most the configured number of bytes, with a 2xx status and a JSON content type; the only other
  values are the null of a 204 and the acknowledgement when no JSON is expected.
\<close>

theorem core_request_bounded:
  assumes "core_request parse client options out = Inr v"
  shows "\<exists>r. out = Fetched r \<and> response_ok r \<and>
    (if status r = 204 then v = JNull
     else if \<not> opt_expectJson options then v = JObj [(''ok'', JBool True)]
     else is_json_type (content_type r) \<and>
       (\<exists>bytes. body_bytes r bytes \<and> parse bytes = Some v \<and>
          length bytes \<le> (case opt_maxResponseBytes options of None \<Rightarrow> maxResponseBytes client | Some m \<Rightarrow> m)))"
proof -
  obtain r where r: "out = Fetched r" "response_ok r"
    using assms by (auto simp: core_request_def split: outcome.splits if_splits)
  have rd: "\<exists>bytes. body_bytes r bytes \<and> parse bytes = Some v \<and> length bytes \<le> m"
    if rj: "readJsonBounded parse r m = Inr v" for m
  proof -
    obtain es bytes where es: "body r = Some es" "parse bytes = Some v"
      "read_chunks (CoreRequestError ''response_too_large'' False (Some (status r))) (core_read_failure r) m 0 es = Inr bytes"
      using rj by (auto simp: readJsonBounded_def rbind_eq_Inr split: option.splits)
    then show ?thesis using read_chunks_Inr [OF es(3)] by (auto simp: body_bytes_def)
  qed
  show ?thesis
    using assms r rd by (auto simp: core_request_def split: if_splits)
qed

theorem core_request_bounded_witness:
  "\<exists>bytes. body_bytes \<lparr>status = 200, content_type = Some ''application/json'', body = Some [Chunk ''t'', Chunk ''rue'']\<rparr> bytes \<and>
     length bytes \<le> 4"
proof -
  let ?r = "\<lparr>status = 200, content_type = Some ''application/json'', body = Some [Chunk ''t'', Chunk ''rue'']\<rparr>"
  have "core_request (\<lambda>b. if b = ''true'' then Some (JBool True) else None) example_client json_options (Fetched ?r) = Inr (JBool True)"
    by code_simp
  from core_request_bounded [OF this] show ?thesis
    by (auto simp: json_options_def example_client_def)
qed

section \<open>Path segments\<close>

lemma encode_char_cases:
  "encode_char c = [c] \<and> unreserved c \<or>
   (\<exists>a b. encode_char c = [CHR ''%'', a, b] \<and> \<not> unreserved c)"
  by (auto simp: encode_char_def)

lemma code_upper_hex: "d < 16 \<Longrightarrow> code (upper_hex_char d) = (if d < 10 then 48 + d else 55 + d)"
  by (simp add: upper_hex_char_def)

lemma upper_hex_unreserved: "d < 16 \<Longrightarrow> unreserved (upper_hex_char d)"
  by (auto simp: unreserved_def is_alnum_def is_digit_def is_upper_def code_upper_hex)

lemma code_div_16 [simp]: "code c div 16 < 16"
  using nat_of_char_less_256 [of c] by (simp add: less_mult_imp_div_less)

lemma encoded_set: "c \<in> set (encodeURIComponent s) \<Longrightarrow> unreserved c \<or> c = CHR ''%''"
proof -
  have "c \<in> set (encode_char x) \<Longrightarrow> unreserved c \<or> c = CHR ''%''" for x
    by (auto simp: encode_char_def upper_hex_unreserved split: if_splits)
  then show "c \<in> set (encodeURIComponent s) \<Longrightarrow> unreserved c \<or> c = CHR ''%''"
    by (auto simp: encodeURIComponent_def)
qed

lemma upper_hex_inj: "d < 16 \<Longrightarrow> d' < 16 \<Longrightarrow> upper_hex_char d = upper_hex_char d' \<Longrightarrow> d = d'"
proof -
  assume d: "d < 16" "d' < 16" and eq: "upper_hex_char d = upper_hex_char d'"
  have "(if d < 10 then 48 + d else 55 + d) = (if d' < 10 then 48 + d' else 55 + d')"
    using code_upper_hex [OF d(1)] code_upper_hex [OF d(2)] unfolding eq by simp
  then show "d = d'" using d by (simp split: if_splits)
qed

lemma encode_char_append_eq:
  assumes "encode_char c @ s = encode_char d @ t"
  shows "c = d \<and> s = t"
proof -
  have pc: "\<not> unreserved (CHR ''%'')" by code_simp
  consider "unreserved c" "unreserved d" | "\<not> unreserved c" "\<not> unreserved d" | "unreserved c \<noteq> unreserved d" by blast
  then show ?thesis
  proof cases
    case 2
    then have "upper_hex_char (code c div 16) = upper_hex_char (code d div 16)"
      and "upper_hex_char (code c mod 16) = upper_hex_char (code d mod 16)" and "s = t"
      using assms by (simp_all add: encode_char_def)
    then have "code c div 16 = code d div 16" "code c mod 16 = (code d mod 16 :: nat)" "s = t"
      using upper_hex_inj [OF code_div_16 code_div_16] upper_hex_inj [of "code c mod 16" "code d mod 16"] by simp_all
    then have "code c = (code d :: nat)" by (metis div_mult_mod_eq)
    then show ?thesis using \<open>s = t\<close> by simp
  qed (use assms pc in \<open>auto simp: encode_char_def split: if_splits\<close>)
qed

text \<open>
  Identifiers in paths.  The encoding of an identifier holds no character that could end its path
  segment, and different identifiers have different encodings.
\<close>

theorem encode_component_safe:
  "inj encodeURIComponent \<and> set (encodeURIComponent s) \<inter> {CHR ''/'', CHR ''?'', CHR ''#'', CHR '':'', CHR '' '', CHR 0x5C} = {}"
proof
  have "encodeURIComponent s = encodeURIComponent t \<Longrightarrow> s = t" for s t
  proof (induction s arbitrary: t)
    case Nil
    then show ?case by (cases t) (auto simp: encodeURIComponent_def encode_char_def split: if_splits)
  next
    case (Cons c s)
    then obtain d t' where t: "t = d # t'"
      by (cases t) (auto simp: encodeURIComponent_def encode_char_def split: if_splits)
    with Cons.prems have "c = d \<and> encodeURIComponent s = encodeURIComponent t'"
      by (intro encode_char_append_eq) (simp add: encodeURIComponent_def)
    then show ?case using Cons.IH t by simp
  qed
  then show "inj encodeURIComponent" by (intro injI)
  have "\<not> unreserved x \<and> x \<noteq> CHR ''%''" if "x \<in> {CHR ''/'', CHR ''?'', CHR ''#'', CHR '':'', CHR '' '', CHR 0x5C}" for x
    using that by (elim insertE emptyE; simp only:; code_simp)
  then show "set (encodeURIComponent s) \<inter> {CHR ''/'', CHR ''?'', CHR ''#'', CHR '':'', CHR '' '', CHR 0x5C} = {}"
    using encoded_set [of _ s] by blast
qed

section \<open>What the gateway client sends\<close>

text \<open>A request made for a context: its bearer, its scope headers and no others, under the base.\<close>

definition made_for :: "gateway \<Rightarrow> auth_context \<Rightarrow> string \<Rightarrow> http_request \<Rightarrow> bool" where
  "made_for gw context bearer req =
     ((\<forall>v. (''authorization'', v) \<in> set (req_headers req) \<longleftrightarrow> v = ''Bearer '' @ bearer) \<and>
      (\<forall>v. (''x-neuromem-workspace'', v) \<in> set (req_headers req) \<longleftrightarrow> v = ctx_workspace_id context) \<and>
      (\<forall>v. (''x-neuromem-project'', v) \<in> set (req_headers req) \<longleftrightarrow> v = ctx_project_id context) \<and>
      starts_with (gw_base gw @ ''/api/v1/'') (req_url req))"

lemma header_if_set: "(k, v) \<in> set (header_if name prefix w) \<Longrightarrow> k = name"
  by (auto simp: header_if_def split: option.splits if_splits)

lemma gateway_headers_scope:
  "(''authorization'', v) \<in> set (gateway_headers context bearer options) \<longleftrightarrow> v = ''Bearer '' @ bearer"
  "(''x-neuromem-workspace'', v) \<in> set (gateway_headers context bearer options) \<longleftrightarrow> v = ctx_workspace_id context"
  "(''x-neuromem-project'', v) \<in> set (gateway_headers context bearer options) \<longleftrightarrow> v = ctx_project_id context"
  by (auto simp: gateway_headers_def dest: header_if_set)

definition sent :: "(http_request \<Rightarrow> bool) \<Rightarrow> nat \<Rightarrow> http_request list \<Rightarrow> http_request list \<Rightarrow> bool" where
  "sent P n past past' = (\<exists>new. past' = past @ new \<and> length new \<le> n \<and> list_all P new)"

lemma sent_refl [simp]: "sent P n past past"
  by (simp add: sent_def)

lemma sent_mono: "sent P m past past' \<Longrightarrow> m \<le> n \<Longrightarrow> sent P n past past'"
  by (auto simp: sent_def)

lemma sent_trans:
  assumes "sent P m a b" and "sent P n b c" and "m + n \<le> k"
  shows "sent P k a c"
proof -
  obtain x where x: "b = a @ x" "length x \<le> m" "list_all P x" using assms(1) unfolding sent_def by blast
  obtain y where y: "c = b @ y" "length y \<le> n" "list_all P y" using assms(2) unfolding sent_def by blast
  have "c = a @ (x @ y)" "length (x @ y) \<le> k" "list_all P (x @ y)" using x y assms(3) by simp_all
  then show ?thesis unfolding sent_def by blast
qed

lemma gateway_request_sent:
  assumes "gateway_request fmt parse net gw method path context bearer options past = (r, past')"
    and "P (gateway_http_request fmt gw method path context bearer options)"
  shows "sent P 1 past past'"
proof -
  let ?req = "gateway_http_request fmt gw method path context bearer options"
  have "past' = past \<or> past' = past @ [?req]"
    using assms(1) by (simp add: gateway_request_def Let_def split: if_splits)
  moreover have "sent P 1 past (past @ [?req])"
    unfolding sent_def by (rule exI [of _ "[?req]"]) (simp add: assms(2))
  ultimately show ?thesis by (elim disjE) simp_all
qed

lemma gateway_request_scope:
  assumes "starts_with ''/api/v1/'' path"
  shows "made_for gw context bearer (gateway_http_request fmt gw method path context bearer options)"
  using assms by (auto simp: made_for_def gateway_http_request_def gateway_headers_scope starts_with_iff)

lemma made_for_ensured [simp]: "made_for (gw\<lparr>ensuredProjects := e\<rparr>) = made_for gw"
  by (simp add: made_for_def fun_eq_iff)

lemma gateway_http_request_ensured [simp]:
  "gateway_http_request fmt (gw\<lparr>ensuredProjects := e\<rparr>) = gateway_http_request fmt gw"
  by (simp add: gateway_http_request_def fun_eq_iff)

text \<open>All that \<open>record\<close> may send: requests of the context, of which the messages are one request.\<close>

definition record_request ::
  "(rat \<Rightarrow> string) \<Rightarrow> gateway \<Rightarrow> auth_context \<Rightarrow> string \<Rightarrow> string \<Rightarrow> fields \<Rightarrow> string \<Rightarrow> http_request \<Rightarrow> bool" where
  "record_request fmt gw context bearer sessionId b idempotencyKey req =
     (made_for gw context bearer req \<and>
      (req_url req = gw_base gw @ message_path sessionId \<longrightarrow>
         req = gateway_http_request fmt gw ''POST'' (message_path sessionId) context bearer (gw_post b (Some idempotencyKey))))"

definition ensure_request :: "(rat \<Rightarrow> string) \<Rightarrow> gateway \<Rightarrow> auth_context \<Rightarrow> string \<Rightarrow> http_request" where
  "ensure_request fmt gw context bearer =
     gateway_http_request fmt gw ''POST''
       (''/api/v1/memory/projects/'' @ encodeURIComponent (ctx_project_id context) @ '':ensure'')
       context bearer (gw_post [(''metadata'', JObj []), (''configuration'', JObj [])] None)"

definition message_request ::
  "(rat \<Rightarrow> string) \<Rightarrow> gateway \<Rightarrow> auth_context \<Rightarrow> string \<Rightarrow> string \<Rightarrow> fields \<Rightarrow> string \<Rightarrow> http_request" where
  "message_request fmt gw context bearer sessionId b key =
     gateway_http_request fmt gw ''POST'' (message_path sessionId) context bearer (gw_post b (Some key))"

definition session_request ::
  "(rat \<Rightarrow> string) \<Rightarrow> gateway \<Rightarrow> auth_context \<Rightarrow> string \<Rightarrow> string \<Rightarrow> http_request" where
  "session_request fmt gw context bearer sessionId =
     gateway_http_request fmt gw ''POST'' ''/api/v1/memory/sessions'' context bearer (session_options context sessionId)"

lemma ensure_project_sent:
  assumes "ensure_project fmt parse net gw context bearer past = (r, past')"
  shows "P (ensure_request fmt gw context bearer) \<Longrightarrow> sent P 1 past past'"
    and "r = Inr gw1 \<Longrightarrow> gw1 = gw \<or> gw1 = gw\<lparr>ensuredProjects := ensuredProjects gw @ [scope_key context]\<rparr>"
    and "scope_key context \<in> set (ensuredProjects gw) \<Longrightarrow> past' = past"
proof -
  show "sent P 1 past past'" if "P (ensure_request fmt gw context bearer)"
    using assms that [unfolded ensure_request_def]
      gateway_request_sent [of fmt parse net gw "''POST''"
        "''/api/v1/memory/projects/'' @ encodeURIComponent (ctx_project_id context) @ '':ensure''" "context" bearer
        "gw_post [(''metadata'', JObj []), (''configuration'', JObj [])] None" past]
    by (auto simp: ensure_project_def split: if_splits prod.splits sum.splits)
  show "r = Inr gw1 \<Longrightarrow> gw1 = gw \<or> gw1 = gw\<lparr>ensuredProjects := ensuredProjects gw @ [scope_key context]\<rparr>"
    and "scope_key context \<in> set (ensuredProjects gw) \<Longrightarrow> past' = past"
    using assms by (auto simp: ensure_project_def split: if_splits prod.splits sum.splits)
qed

text \<open>Whatever holds of the three requests of \<open>record\<close> holds of all that is sent.\<close>

lemma gateway_record_sent:
  assumes "gateway_record fmt parse net gw context bearer sessionId b key past = ((r, past'), gw')"
    and P: "P (ensure_request fmt gw context bearer)" "P (message_request fmt gw context bearer sessionId b key)"
      "P (session_request fmt gw context bearer sessionId)"
  shows "sent P 4 past past' \<and>
    gw' \<in> {gw, gw\<lparr>ensuredProjects := ensuredProjects gw @ [scope_key context]\<rparr>} \<and>
    (scope_key context \<in> set (ensuredProjects gw) \<longrightarrow> gw' = gw \<and> sent P 3 past past')"
proof -
  let ?seen = "scope_key context \<in> set (ensuredProjects gw)"
  obtain r1 past1 where 1: "ensure_project fmt parse net gw context bearer past = (r1, past1)" by fastforce
  note e1 = ensure_project_sent(1) [where P = P, OF 1 P(1)] and e = ensure_project_sent(2,3) [OF 1]
  show ?thesis
  proof (cases r1)
    case (Inl e1)
    then have "past' = past1" "gw' = gw" using assms(1) 1 by (simp_all add: gateway_record_def)
    moreover have "\<not> ?seen" using 1 Inl by (auto simp: ensure_project_def)
    ultimately show ?thesis using e1 sent_mono [of P 1 past past1 4] by simp
  next
    case (Inr gw1)
    have gw1: "gw1 = gw \<or> gw1 = gw\<lparr>ensuredProjects := ensuredProjects gw @ [scope_key context]\<rparr>" by (rule e(1) [OF Inr])
    have same: "?seen \<Longrightarrow> gw1 = gw" using 1 Inr by (auto simp: ensure_project_def)
    define post where "post = gateway_request fmt parse net gw1 ''POST'' (message_path sessionId) context bearer (gw_post b (Some key))"
    define create where "create = gateway_request fmt parse net gw1 ''POST'' ''/api/v1/memory/sessions'' context bearer (session_options context sessionId)"
    have same_req: "gateway_http_request fmt gw1 = gateway_http_request fmt gw" using gw1 by auto
    have sp: "sent P 1 a a'" if "post a = (x, a')" for a x a'
      using that gateway_request_sent P(2) unfolding post_def message_request_def same_req [symmetric] by blast
    have sc: "sent P 1 a a'" if "create a = (x, a')" for a x a'
      using that gateway_request_sent P(3) unfolding create_def session_request_def same_req [symmetric] by blast
    obtain r2 past2 where 2: "post past1 = (r2, past2)" by fastforce
    obtain r3 past3 where 3: "create past2 = (r3, past3)" by fastforce
    obtain r4 past4 where 4: "post past3 = (r4, past4)" by fastforce
    have run: "gw' = gw1 \<and> (past' = past2 \<or> past' = past3 \<or> past' = past4)"
      using assms(1) 2 3 4
      unfolding gateway_record_def 1 Inr prod.case sum.case Let_def post_def [symmetric] create_def [symmetric]
      by (auto split: sum.splits if_splits)
    have s2: "sent P 1 past1 past2" and s3: "sent P 2 past1 past3" and s4: "sent P 3 past1 past4"
      using sp [OF 2] sc [OF 3] sp [OF 4] by (auto intro: sent_trans)
    have s: "sent P 3 past1 past'" using run s2 s3 s4 sent_mono [of P _ past1 past' 3] by auto
    then have "sent P 4 past past'" by (rule sent_trans [OF e1]) simp
    then show ?thesis using run gw1 same s e(2) by auto
  qed
qed

text \<open>
  A gateway write.  \<open>record\<close> sends at most four requests, each with the bearer and the workspace
  and project headers of the caller's context and no other; it posts the message at most twice, both
  times as the identical request with the same idempotency key; and a project once ensured is never
  ensured again.
\<close>

theorem gateway_record_pinned:
  assumes "gateway_record fmt parse net gw context bearer sessionId b idempotencyKey past = ((r, past'), gw')"
  shows "sent (record_request fmt gw context bearer sessionId b idempotencyKey) 4 past past' \<and>
    ensuredProjects gw' \<in> {ensuredProjects gw, ensuredProjects gw @ [scope_key context]} \<and>
    (scope_key context \<in> set (ensuredProjects gw) \<longrightarrow>
       gw' = gw \<and> sent (record_request fmt gw context bearer sessionId b idempotencyKey) 3 past past')"
proof -
  let ?P = "record_request fmt gw context bearer sessionId b idempotencyKey"
  have "?P (ensure_request fmt gw context bearer)" "?P (session_request fmt gw context bearer sessionId)"
    unfolding record_request_def ensure_request_def session_request_def
    by (auto simp: gateway_request_scope starts_with_def) (simp_all add: gateway_http_request_def message_path_def)
  moreover have "?P (message_request fmt gw context bearer sessionId b idempotencyKey)"
    unfolding record_request_def message_request_def by (auto simp: gateway_request_scope starts_with_def message_path_def)
  ultimately show ?thesis using gateway_record_sent [OF assms, where P = ?P] by auto
qed

definition example_context :: auth_context where
  "example_context = \<lparr>principal_id = ''p'', credential_id = ''c'', ctx_workspace_id = ''w'', ctx_project_id = ''j'',
     human_peer_id = ''h'', agent_peer_id = None, capabilities = [''memory.read''], request_id = None, ctx_client = None\<rparr>"

definition example_gateway :: gateway where
  "example_gateway = \<lparr>gw_base = ''http://g'', gw_maxResponseBytes = 9, ensuredProjects = []\<rparr>"

theorem gateway_record_pinned_witness:
  "sent (record_request (\<lambda>_. []) example_gateway example_context ''t'' ''s'' [] ''k'') 4 []
     (snd (fst (gateway_record (\<lambda>_. []) (\<lambda>_. None) (\<lambda>past req. FetchError True) example_gateway example_context ''t'' ''s'' [] ''k'' [])))"
proof -
  obtain r past' gw' where g: "gateway_record (\<lambda>_. []) (\<lambda>_. None) (\<lambda>past req. FetchError True) example_gateway
      example_context ''t'' ''s'' [] ''k'' [] = ((r, past'), gw')"
    by (metis surj_pair)
  show ?thesis using gateway_record_pinned [OF g] unfolding g by simp
qed

end
