(* ===== verification/Config.thy ===== *)
theory Config
  imports JsValue Clients
begin

text \<open>
  The configuration of the MCP adapter, \<open>apps/mcp/src/config.ts\<close>: the environment is a map
  from names to strings, \<open>parse\<close> is \<open>JSON.parse\<close>, \<open>parse_url\<close> the \<open>URL\<close> constructor
  and \<open>show_url\<close> its \<open>toString\<close>; \<open>home\<close> is the default state directory.
\<close>

type_synonym environment = "string \<Rightarrow> string option"

datatype auth_mode = Legacy | Control | Hybrid

record router_config =
  cfg_nodes :: "core_node list"
  stateDir :: string
  cfg_readTargets :: "string list option"
  cfg_writeTargets :: "string list option"
  cfg_requestTimeoutMs :: "int option"
  cfg_maxCoreResponseBytes :: "int option"
  cfg_rrfK :: "int option"
  cfg_retryIntervalMs :: "int option"

text \<open>\<open>env.X || y\<close>\<close>

definition env_truthy :: "environment \<Rightarrow> string \<Rightarrow> bool" where
  "env_truthy env name = (case env name of None \<Rightarrow> False | Some s \<Rightarrow> s \<noteq> [])"

definition UUID_PATTERN :: "(char \<Rightarrow> bool) list" where
  "UUID_PATTERN = uuid_pattern is_hex is_version_1_8 is_variant"

section \<open>loadMcpAuthConfig\<close>

fun auth_mode_of :: "string \<Rightarrow> auth_mode option" where
  "auth_mode_of s =
     (if s = ''legacy'' then Some Legacy else if s = ''control'' then Some Control
      else if s = ''hybrid'' then Some Hybrid else None)"

definition required_context_keys :: "string list" where
  "required_context_keys = [''principal_id'', ''credential_id'', ''workspace_id'', ''project_id'', ''human_peer_id'']"

fun require_strings :: "fields \<Rightarrow> string list \<Rightarrow> unit res" where
  "require_strings value [] = Inr ()"
| "require_strings value (key # keys) =
     (if str_field value key \<in> {None, Some []}
      then Inl (''NEUROMEM_MCP_AUTH_CONTEXT.'' @ key @ '' is required'')
      else require_strings value keys)"

definition check_context :: "(rat \<Rightarrow> string) \<Rightarrow> fields \<Rightarrow> unit res" where
  "check_context fmt value =
     rbind (require_strings value required_context_keys) (\<lambda>_.
     rbind (require (case arr_field value ''capabilities'' of
                       None \<Rightarrow> False | Some items \<Rightarrow> list_all (\<lambda>item. as_string item \<noteq> None) items)
              ''NEUROMEM_MCP_AUTH_CONTEXT.capabilities must be a string array'') (\<lambda>_.
       require (case oget value ''client'' of
                  None \<Rightarrow> True | Some v \<Rightarrow> js_string fmt v \<in> {''codex'', ''claude'', ''custom''})
         ''NEUROMEM_MCP_AUTH_CONTEXT.client is invalid''))"

definition loadMcpAuthConfig ::
  "(rat \<Rightarrow> string) \<Rightarrow> (string \<Rightarrow> json option) \<Rightarrow> environment \<Rightarrow> (auth_mode \<times> fields option) res" where
  "loadMcpAuthConfig fmt parse env =
     (let name = to_lower
            (if env_truthy env ''NEUROMEM_MCP_AUTH_MODE'' then the (env ''NEUROMEM_MCP_AUTH_MODE'')
             else if env_truthy env ''NEUROMEM_MCP_AUTH_CONTEXT'' \<or> env_truthy env ''NEUROMEM_CONTROL_API_URL''
             then ''control'' else ''hybrid'')
      in (case auth_mode_of name of
            None \<Rightarrow> Inl ''NEUROMEM_MCP_AUTH_MODE must be legacy, control, or hybrid''
          | Some mode \<Rightarrow>
              if \<not> env_truthy env ''NEUROMEM_MCP_AUTH_CONTEXT''
              then (if mode = Control \<and> \<not> env_truthy env ''NEUROMEM_CONTROL_API_URL''
                    then Inl ''control auth requires NEUROMEM_MCP_AUTH_CONTEXT or NEUROMEM_CONTROL_API_URL''
                    else Inr (mode, None))
              else (case parse (the (env ''NEUROMEM_MCP_AUTH_CONTEXT'')) of
                      None \<Rightarrow> Inl ''NEUROMEM_MCP_AUTH_CONTEXT is not valid JSON''
                    | Some (JObj value) \<Rightarrow> rbind (check_context fmt value) (\<lambda>_. Inr (mode, Some value))
                    | Some _ \<Rightarrow> Inl ''NEUROMEM_MCP_AUTH_CONTEXT must be an object'')))"

section \<open>parsePositiveInteger, parseTargetList\<close>

definition parsePositiveInteger :: "(rat \<Rightarrow> string) \<Rightarrow> json option \<Rightarrow> int \<Rightarrow> string \<Rightarrow> int res" where
  "parsePositiveInteger fmt value fallback label =
     (if value \<in> {None, Some (JStr [])} then Inr fallback
      else (case Option.bind value (js_integer fmt) of
              None \<Rightarrow> Inl (label @ '' must be a positive integer'')
            | Some n \<Rightarrow> if n \<le> 0 then Inl (label @ '' must be a positive integer'') else Inr n))"

definition parseTargetList :: "(rat \<Rightarrow> string) \<Rightarrow> json option \<Rightarrow> string list option res" where
  "parseTargetList fmt value =
     (let normalized = (\<lambda>entries. uniq (filter (\<lambda>e. e \<noteq> []) (map (\<lambda>e. to_lower (trim e)) entries)));
          result = (\<lambda>entries. if normalized entries = [] then None else Some (normalized entries))
      in case value of
           None \<Rightarrow> Inr None
         | Some (JArr xs) \<Rightarrow> Inr (result (map (js_string fmt) xs))
         | Some (JStr s) \<Rightarrow> Inr (if s = [] then None else result (split_on (CHR '','') s))
         | Some _ \<Rightarrow> Inl ''target lists must be arrays or comma-separated strings'')"

section \<open>normalizeNode\<close>

definition node_id_ok :: "string \<Rightarrow> bool" where
  "node_id_ok s =
     (case s of [] \<Rightarrow> False
      | c # cs \<Rightarrow> is_alnum c \<and> list_all (\<lambda>d. is_alnum d \<or> d = CHR ''_'' \<or> d = CHR ''-'') cs \<and> length cs \<le> 63)"

text \<open>\<open>s.replace(/\/$/, "")\<close>\<close>

definition strip_slash :: "string \<Rightarrow> string" where
  "strip_slash s = (if s \<noteq> [] \<and> last s = CHR ''/'' then butlast s else s)"

definition node_error :: "string \<Rightarrow> string \<Rightarrow> string" where
  "node_error i text = ''node '' @ [CHR 0x27] @ i @ [CHR 0x27] @ text"

fun normalize_scope_map :: "string \<Rightarrow> fields \<Rightarrow> (string \<times> scope) list \<Rightarrow> (string \<times> scope) list res" where
  "normalize_scope_map i [] acc = Inr acc"
| "normalize_scope_map i ((logicalProjectId, v) # es) acc =
     (case v of
        JObj mapped \<Rightarrow>
          (case (str_field mapped ''workspace_id'', str_field mapped ''project_id'') of
             (Some w, Some p) \<Rightarrow>
               if matches UUID_PATTERN logicalProjectId \<and> matches UUID_PATTERN w \<and> matches UUID_PATTERN p
               then normalize_scope_map i es
                      (oset (to_lower logicalProjectId) \<lparr>workspace_id = to_lower w, project_id = to_lower p\<rparr> acc)
               else Inl (node_error i '' scope mappings must use UUIDs'')
           | _ \<Rightarrow> Inl (node_error i '' has an invalid scope mapping''))
      | _ \<Rightarrow> Inl (node_error i '' has an invalid scope mapping''))"

definition normalize_url :: "(string \<Rightarrow> url_parts option) \<Rightarrow> (url_parts \<Rightarrow> string) \<Rightarrow> string \<Rightarrow> string \<Rightarrow> string res" where
  "normalize_url parse_url show_url i base =
     (case parse_url base of
        None \<Rightarrow> Inl (node_error i '' has an invalid base URL'')
      | Some u \<Rightarrow>
          if protocol u \<notin> {''http:'', ''https:''} \<or> username u \<noteq> [] \<or> password u \<noteq> []
          then Inl (node_error i '' base URL must be an HTTP(S) URL without credentials'')
          else Inr (strip_slash (show_url (u\<lparr>pathname := strip_slash (pathname u), search := [], url_hash := []\<rparr>))))"

definition node_scope_map :: "string \<Rightarrow> fields \<Rightarrow> (string \<times> scope) list option res" where
  "node_scope_map i raw =
     (case coalesce (oget raw ''scope_map'') (oget raw ''scopeMap'') of
        None \<Rightarrow> Inr None
      | Some (JObj es) \<Rightarrow> rbind (normalize_scope_map i es []) (\<lambda>m. Inr (Some m))
      | Some _ \<Rightarrow> Inl (node_error i '' scope map must be an object''))"

definition normalizeNode :: "(string \<Rightarrow> url_parts option) \<Rightarrow> (url_parts \<Rightarrow> string) \<Rightarrow> json \<Rightarrow> core_node res" where
  "normalizeNode parse_url show_url rawNode =
     (case props rawNode of
        None \<Rightarrow> Inl ''TypeError''
      | Some raw \<Rightarrow>
          let i = (case str_field raw ''id'' of None \<Rightarrow> [] | Some s \<Rightarrow> to_lower (trim s));
              base = (case str_field raw ''base_url'' of
                        Some s \<Rightarrow> trim s
                      | None \<Rightarrow> (case str_field raw ''baseUrl'' of Some s \<Rightarrow> trim s | None \<Rightarrow> []));
              token = (case str_field raw ''token'' of None \<Rightarrow> None | Some t \<Rightarrow> if t = [] then None else Some t)
          in rbind (require (node_id_ok i) (''each node id must contain only letters, digits, '' @
                      [CHR 0x27, CHR ''_'', CHR 0x27] @ '' or '' @ [CHR 0x27, CHR ''-'', CHR 0x27])) (\<lambda>_.
             rbind (normalize_url parse_url show_url i base) (\<lambda>url.
             rbind (require (case token of None \<Rightarrow> False | Some t \<Rightarrow> 32 \<le> length t)
                      (node_error i '' requires a Core token of at least 32 bytes'')) (\<lambda>_.
             rbind (node_scope_map i raw) (\<lambda>scopes.
               Inr \<lparr>node_id = i, baseUrl = url, node_token = token, scopeMap = scopes\<rparr>)))))"

section \<open>loadRouterConfig\<close>

definition direct_names :: "string list" where
  "direct_names = [''NEUROMEM_NODE_ID'', ''NEUROMEM_CORE_URL'', ''NEUROMEM_CORE_TOKEN'']"

text \<open>The router object and the raw nodes the environment gives\<close>

definition raw_nodes :: "(string \<Rightarrow> json option) \<Rightarrow> environment \<Rightarrow> (fields \<times> json list) res" where
  "raw_nodes parse env =
     (if list_ex (\<lambda>n. env n \<noteq> None) direct_names
      then (if list_ex (\<lambda>n. env n \<in> {None, Some []}) direct_names
            then Inl ''direct mode requires NEUROMEM_NODE_ID, NEUROMEM_CORE_URL, and NEUROMEM_CORE_TOKEN''
            else Inr ([], [JObj [(''id'', JStr (the (env (if env_truthy env ''NEUROMEM_NODE_ALIAS''
                                                         then ''NEUROMEM_NODE_ALIAS'' else ''NEUROMEM_NODE_ID'')))),
                                 (''base_url'', JStr (the (env ''NEUROMEM_CORE_URL''))),
                                 (''token'', JStr (the (env ''NEUROMEM_CORE_TOKEN'')))]]))
      else if env_truthy env ''NEUROMEM_NODES_JSON''
      then (case parse (the (env ''NEUROMEM_NODES_JSON'')) of
              None \<Rightarrow> Inl ''NEUROMEM_NODES_JSON is not valid JSON''
            | Some (JArr ns) \<Rightarrow> Inr ([], ns)
            | Some (JObj raw) \<Rightarrow>
                (case arr_field raw ''nodes'' of
                   None \<Rightarrow> Inl ''NEUROMEM_NODES_JSON.nodes must be an array''
                 | Some ns \<Rightarrow> Inr (raw, ns))
            | Some _ \<Rightarrow> Inl ''NEUROMEM_NODES_JSON must be a node array or a router object'')
      else Inr ([], []))"

definition env_or_raw :: "environment \<Rightarrow> string \<Rightarrow> fields \<Rightarrow> string \<Rightarrow> json option" where
  "env_or_raw env name raw key = (case env name of Some s \<Rightarrow> Some (JStr s) | None \<Rightarrow> oget raw key)"

definition target_defaults :: "(rat \<Rightarrow> string) \<Rightarrow> json option \<Rightarrow> string list \<Rightarrow> string list res" where
  "target_defaults fmt value preferred =
     rbind (parseTargetList fmt value) (\<lambda>ts. Inr (case ts of None \<Rightarrow> preferred | Some l \<Rightarrow> l))"

fun check_known :: "string list \<Rightarrow> string list \<Rightarrow> unit res" where
  "check_known known [] = Inr ()"
| "check_known known (t # ts) =
     (if t \<in> set known then check_known known ts
      else Inl (''default target '' @ [CHR 0x27] @ t @ [CHR 0x27] @ '' is not configured''))"

definition loadRouterConfig ::
  "(rat \<Rightarrow> string) \<Rightarrow> (string \<Rightarrow> json option) \<Rightarrow> (string \<Rightarrow> url_parts option) \<Rightarrow> (url_parts \<Rightarrow> string) \<Rightarrow> string \<Rightarrow>
   environment \<Rightarrow> router_config res" where
  "loadRouterConfig fmt parse parse_url show_url home env =
     rbind (raw_nodes parse env) (\<lambda>(raw, rawNodes).
     rbind (rmap_list (normalizeNode parse_url show_url) rawNodes) (\<lambda>nodes.
     rbind (require (nodes \<noteq> []) ''at least one Core node must be configured'') (\<lambda>_.
     rbind (require (length (uniq (map node_id nodes)) = length nodes) ''node ids must be unique'') (\<lambda>_.
     rbind (target_defaults fmt (env_or_raw env ''NEUROMEM_DEFAULT_READ_TARGETS'' raw ''default_read_targets'')
              [node_id (hd nodes)]) (\<lambda>readTargets.
     rbind (target_defaults fmt (env_or_raw env ''NEUROMEM_DEFAULT_WRITE_TARGETS'' raw ''default_write_targets'')
              [node_id (hd nodes)]) (\<lambda>writeTargets.
     rbind (check_known (map node_id nodes) (readTargets @ writeTargets)) (\<lambda>_.
     rbind (parsePositiveInteger fmt (env_or_raw env ''NEUROMEM_REQUEST_TIMEOUT_MS'' raw ''request_timeout_ms'')
              120000 ''request timeout'') (\<lambda>timeout.
     rbind (parsePositiveInteger fmt (env_or_raw env ''NEUROMEM_CORE_MAX_RESPONSE_BYTES'' raw ''core_max_response_bytes'')
              (64 * 1048576) ''Core response limit'') (\<lambda>maximum.
     rbind (parsePositiveInteger fmt (env_or_raw env ''NEUROMEM_RRF_K'' raw ''rrf_k'') 60 ''RRF k'') (\<lambda>k.
     rbind (parsePositiveInteger fmt (env_or_raw env ''NEUROMEM_RETRY_INTERVAL_MS'' raw ''retry_interval_ms'')
              30000 ''retry interval'') (\<lambda>interval.
       Inr \<lparr>cfg_nodes = nodes,
            stateDir = (case env ''NEUROMEM_MCP_STATE_DIR'' of
                          Some d \<Rightarrow> d
                        | None \<Rightarrow> (case str_field raw ''state_dir'' of Some d \<Rightarrow> d | None \<Rightarrow> home)),
            cfg_readTargets = Some readTargets, cfg_writeTargets = Some writeTargets,
            cfg_requestTimeoutMs = Some timeout, cfg_maxCoreResponseBytes = Some maximum,
            cfg_rrfK = Some k, cfg_retryIntervalMs = Some interval\<rparr>)))))))))))"

section \<open>What a configuration that loads guarantees\<close>

definition scope_ok :: "scope \<Rightarrow> bool" where
  "scope_ok sc = (matches UUID_PATTERN (workspace_id sc) \<and> matches UUID_PATTERN (project_id sc) \<and>
     to_lower (workspace_id sc) = workspace_id sc \<and> to_lower (project_id sc) = project_id sc)"

definition scope_map_ok :: "(string \<times> scope) list \<Rightarrow> bool" where
  "scope_map_ok m = (distinct (map fst m) \<and>
     (\<forall>(k, sc) \<in> set m. matches UUID_PATTERN k \<and> to_lower k = k \<and> scope_ok sc))"

definition node_ok :: "core_node \<Rightarrow> bool" where
  "node_ok n = (node_id_ok (node_id n) \<and> to_lower (node_id n) = node_id n \<and>
     (\<exists>t. node_token n = Some t \<and> 32 \<le> length t) \<and>
     (\<forall>m. scopeMap n = Some m \<longrightarrow> scope_map_ok m))"

definition targets_ok :: "string list \<Rightarrow> string list option \<Rightarrow> bool" where
  "targets_ok known ts = (\<exists>l. ts = Some l \<and> l \<noteq> [] \<and> distinct l \<and> set l \<subseteq> set known)"

definition config_ok :: "router_config \<Rightarrow> bool" where
  "config_ok cfg =
     (cfg_nodes cfg \<noteq> [] \<and> distinct (map node_id (cfg_nodes cfg)) \<and> list_all node_ok (cfg_nodes cfg) \<and>
      targets_ok (map node_id (cfg_nodes cfg)) (cfg_readTargets cfg) \<and>
      targets_ok (map node_id (cfg_nodes cfg)) (cfg_writeTargets cfg) \<and>
      (\<forall>v \<in> {cfg_requestTimeoutMs cfg, cfg_maxCoreResponseBytes cfg, cfg_rrfK cfg, cfg_retryIntervalMs cfg}.
         \<exists>n. v = Some n \<and> 0 < n))"

lemma matches_lower:
  assumes "matches UUID_PATTERN s"
  shows "matches UUID_PATTERN (to_lower s)"
proof -
  have h: "is_hex c \<Longrightarrow> is_hex (lower_char c)" for c
    by (auto simp: is_hex_def is_hex_lower_def is_digit_def is_upper_def code_lower_char)
  have v: "is_version_1_8 c \<Longrightarrow> is_version_1_8 (lower_char c)" for c
    by (simp add: is_version_1_8_def is_upper_def code_lower_char)
  have w: "is_variant c \<Longrightarrow> is_variant (lower_char c)" for c
  proof -
    assume "is_variant c"
    then have "c \<in> set ''89abAB''" by (simp only: is_variant_def)
    then show "is_variant (lower_char c)"
      unfolding set_simps list.set by (elim insertE emptyE; simp only:; code_simp)
  qed
  have d: "lower_char (CHR ''-'') = CHR ''-''" by code_simp
  have "matches ps s \<Longrightarrow> list_all (\<lambda>p. \<forall>c. p c \<longrightarrow> p (lower_char c)) ps \<Longrightarrow> matches ps (to_lower s)" for ps s
    by (induction ps s rule: matches.induct) (auto simp: to_lower_def)
  moreover have "list_all (\<lambda>p. \<forall>c. p c \<longrightarrow> p (lower_char c)) UUID_PATTERN"
    unfolding UUID_PATTERN_def uuid_pattern_def using h v w d by (simp add: list_all_iff)
  ultimately show ?thesis using assms by blast
qed

lemma normalize_scope_map_ok:
  "normalize_scope_map i es acc = Inr m \<Longrightarrow> scope_map_ok acc \<Longrightarrow> scope_map_ok m"
proof (induction i es acc rule: normalize_scope_map.induct)
  case (2 i k v es acc)
  obtain mapped w p where v: "v = JObj mapped" and wp: "str_field mapped ''workspace_id'' = Some w" "str_field mapped ''project_id'' = Some p"
    and u: "matches UUID_PATTERN k" "matches UUID_PATTERN w" "matches UUID_PATTERN p"
    using "2.prems"(1) by (auto split: json.splits option.splits if_splits)
  let ?acc = "oset (to_lower k) \<lparr>workspace_id = to_lower w, project_id = to_lower p\<rparr> acc"
  have "scope_map_ok ?acc"
    using "2.prems"(2) u matches_lower by (auto simp: scope_map_ok_def scope_ok_def set_oset)
  then show ?case using "2.IH" "2.prems"(1) v wp u by simp
qed simp

lemma node_scope_map_ok: "node_scope_map i raw = Inr (Some m) \<Longrightarrow> scope_map_ok m"
  using normalize_scope_map_ok [of i _ "[]"]
  by (auto simp: node_scope_map_def scope_map_ok_def rbind_eq_Inr split: option.splits json.splits)

lemma normalizeNode_ok:
  assumes "normalizeNode parse_url show_url j = Inr n"
  shows "node_ok n"
  using assms
  by (auto simp: normalizeNode_def node_ok_def Let_def rbind_eq_Inr node_scope_map_ok to_lower_def [of "[]"] split: option.splits if_splits)

lemma check_known_Inr: "check_known known ts = Inr u \<longleftrightarrow> set ts \<subseteq> set known"
  by (induction ts) auto

lemma parsePositiveInteger_pos: "parsePositiveInteger fmt v d l = Inr n \<Longrightarrow> 0 < d \<Longrightarrow> 0 < n"
  by (auto simp: parsePositiveInteger_def split: if_splits option.splits)

lemma parseTargetList_ok: "parseTargetList fmt v = Inr (Some l) \<Longrightarrow> l \<noteq> [] \<and> distinct l"
  by (auto simp: parseTargetList_def Let_def split: option.splits json.splits if_splits)

lemma target_defaults_ok: "target_defaults fmt v [d] = Inr l \<Longrightarrow> l \<noteq> [] \<and> distinct l"
  using parseTargetList_ok by (fastforce simp: target_defaults_def rbind_eq_Inr split: option.splits)

lemma loaded_config:
  assumes "loadRouterConfig fmt parse parse_url show_url home env = Inr cfg"
  shows "config_ok cfg"
proof -
  obtain raw rawNodes nodes rt wt a b c d where
    n: "rmap_list (normalizeNode parse_url show_url) rawNodes = Inr nodes" "nodes \<noteq> []"
      "length (uniq (map node_id nodes)) = length nodes"
    and t: "target_defaults fmt (env_or_raw env ''NEUROMEM_DEFAULT_READ_TARGETS'' raw ''default_read_targets'') [node_id (hd nodes)] = Inr rt"
      "target_defaults fmt (env_or_raw env ''NEUROMEM_DEFAULT_WRITE_TARGETS'' raw ''default_write_targets'') [node_id (hd nodes)] = Inr wt"
      "check_known (map node_id nodes) (rt @ wt) = Inr ()"
    and p: "0 < a" "0 < b" "0 < c" "0 < d"
    and cfg: "cfg_nodes cfg = nodes" "cfg_readTargets cfg = Some rt" "cfg_writeTargets cfg = Some wt"
      "cfg_requestTimeoutMs cfg = Some a" "cfg_maxCoreResponseBytes cfg = Some b" "cfg_rrfK cfg = Some c" "cfg_retryIntervalMs cfg = Some d"
    using assms unfolding loadRouterConfig_def
    by (auto simp: rbind_eq_Inr dest!: parsePositiveInteger_pos)
  have "list_all node_ok nodes"
    using n(1) normalizeNode_ok by (fastforce simp: rmap_list_Inr_iff list_all_iff list_all2_conv_all_nth in_set_conv_nth)
  moreover have "distinct (map node_id nodes)" using n(3) length_uniq_eq_iff [of "map node_id nodes"] by simp
  ultimately show ?thesis
    using n(2) t(3) p target_defaults_ok [OF t(1)] target_defaults_ok [OF t(2)]
    by (auto simp: config_ok_def targets_ok_def cfg check_known_Inr)
qed

text \<open>
  The router configuration.  Whatever the environment, a configuration that loads has at least
  one node, unique lower-case node ids, a token of at least 32 bytes for each node, scope maps from
  lower-case UUIDs to lower-case UUIDs, non-empty default targets that are all configured, and
  positive limits.
\<close>

theorem loaded_config_ok:
  assumes "loadRouterConfig fmt parse parse_url show_url home env = Inr cfg"
  shows "config_ok cfg"
  by (rule loaded_config [OF assms])

definition example_env :: environment where
  "example_env = (\<lambda>name. map_of [(''NEUROMEM_NODE_ID'', ''Hub''), (''NEUROMEM_CORE_URL'', ''http://h''),
     (''NEUROMEM_CORE_TOKEN'', replicate 32 (CHR ''t''))] name)"

definition example_url :: "string \<Rightarrow> url_parts option" where
  "example_url s = Some \<lparr>protocol = ''http:'', username = [], password = [], hostname = ''h'', url_port = [],
     pathname = ''/'', search = [], url_hash = []\<rparr>"

lemma example_env_loads:
  "\<exists>cfg. loadRouterConfig (\<lambda>_. []) (\<lambda>_. None) example_url (\<lambda>u. ''http://h/'') ''/s'' example_env = Inr cfg"
proof -
  have "is_ok (loadRouterConfig (\<lambda>_. []) (\<lambda>_. None) example_url (\<lambda>u. ''http://h/'') ''/s'' example_env)"
    by code_simp
  then show ?thesis by (auto simp: is_ok_def split: sum.splits)
qed

theorem loaded_config_ok_witness:
  "\<exists>cfg. loadRouterConfig (\<lambda>_. []) (\<lambda>_. None) example_url (\<lambda>u. ''http://h/'') ''/s'' example_env = Inr cfg \<and> config_ok cfg"
proof -
  obtain cfg where l: "loadRouterConfig (\<lambda>_. []) (\<lambda>_. None) example_url (\<lambda>u. ''http://h/'') ''/s'' example_env = Inr cfg"
    using example_env_loads by blast
  with loaded_config_ok [OF l] show ?thesis by blast
qed

text \<open>
  The MCP authentication mode.  A configuration that loads with a context has all its identity
  fields as non-empty strings and its capabilities as strings; the control mode never loads without a
  context or a Control API to resolve credentials; and giving either selects the control mode when
  none is named.
\<close>

theorem loaded_auth_ok:
  assumes "loadMcpAuthConfig fmt parse env = Inr (mode, ctx)"
  shows "(\<forall>v. ctx = Some v \<longrightarrow>
      (\<forall>key \<in> set required_context_keys. \<exists>c cs. str_field v key = Some (c # cs)) \<and>
      (\<exists>items. arr_field v ''capabilities'' = Some items \<and> (\<forall>item \<in> set items. \<exists>s. item = JStr s))) \<and>
    (mode = Control \<longrightarrow> ctx \<noteq> None \<or> env_truthy env ''NEUROMEM_CONTROL_API_URL'') \<and>
    (\<not> env_truthy env ''NEUROMEM_MCP_AUTH_MODE'' \<longrightarrow>
       mode = (if env_truthy env ''NEUROMEM_MCP_AUTH_CONTEXT'' \<or> env_truthy env ''NEUROMEM_CONTROL_API_URL''
               then Control else Hybrid))"
proof -
  have req: "require_strings v keys = Inr () \<Longrightarrow> \<forall>key \<in> set keys. \<exists>c cs. str_field v key = Some (c # cs)" for v keys
    by (induction v keys rule: require_strings.induct) (auto simp: neq_Nil_conv split: if_splits)
  have ctx: "parse (the (env ''NEUROMEM_MCP_AUTH_CONTEXT'')) = Some (JObj v) \<and> check_context fmt v = Inr ()"
    if "ctx = Some v" for v
    using assms that
    by (auto simp: loadMcpAuthConfig_def Let_def rbind_eq_Inr split: option.splits if_splits json.splits)
  have 1: "(\<forall>key \<in> set required_context_keys. \<exists>c cs. str_field v key = Some (c # cs)) \<and>
      (\<exists>items. arr_field v ''capabilities'' = Some items \<and> (\<forall>item \<in> set items. \<exists>s. item = JStr s))"
    if "ctx = Some v" for v
  proof -
    have "check_context fmt v = Inr ()" using ctx [OF that] by blast
    then show ?thesis
      using req [of v required_context_keys]
      by (auto simp: check_context_def rbind_eq_Inr list_all_iff split: option.splits)
  qed
  have 2: "mode = Control \<longrightarrow> ctx \<noteq> None \<or> env_truthy env ''NEUROMEM_CONTROL_API_URL''"
    using assms by (auto simp: loadMcpAuthConfig_def Let_def rbind_eq_Inr split: option.splits if_splits json.splits)
  have low: "to_lower ''control'' = ''control''" "to_lower ''hybrid'' = ''hybrid''" by code_simp+
  have 3: "\<not> env_truthy env ''NEUROMEM_MCP_AUTH_MODE'' \<longrightarrow>
       mode = (if env_truthy env ''NEUROMEM_MCP_AUTH_CONTEXT'' \<or> env_truthy env ''NEUROMEM_CONTROL_API_URL''
               then Control else Hybrid)"
    using assms by (auto simp: loadMcpAuthConfig_def Let_def rbind_eq_Inr low split: option.splits if_splits json.splits)
  show ?thesis using 1 2 3 by blast
qed

theorem loaded_auth_ok_witness:
  "loadMcpAuthConfig (\<lambda>_. []) (\<lambda>_. None) (\<lambda>n. if n = ''NEUROMEM_CONTROL_API_URL'' then Some ''u'' else None) = Inr (Control, None) \<and>
   env_truthy (\<lambda>n. if n = ''NEUROMEM_CONTROL_API_URL'' then Some ''u'' else None) ''NEUROMEM_CONTROL_API_URL''"
proof -
  have l: "loadMcpAuthConfig (\<lambda>_. []) (\<lambda>_. None) (\<lambda>n. if n = ''NEUROMEM_CONTROL_API_URL'' then Some ''u'' else None) = Inr (Control, None)"
    by code_simp
  from loaded_auth_ok [OF l] l show ?thesis by blast
qed

end
