(* ===== verification/Targets.thy ===== *)
theory Targets
  imports Config
begin

text \<open>
  The router's nodes and targets: the constructor of \<open>FederatedMemoryRouter\<close> in
  \<open>apps/mcp/src/router.ts\<close> (its maps, defaults and checks), \<open>selectTargets\<close>,
  \<open>targetsFor\<close>, \<open>scopeFor\<close> and the two limits.
\<close>

record router =
  nodes :: "(string \<times> core_node) list"
  clients :: "(string \<times> core_client) list"
  defaultReadTargets :: "string list"
  defaultWriteTargets :: "string list"
  rrfK :: int
  retryIntervalMs :: int

definition quoted :: "string \<Rightarrow> string" where
  "quoted s = [CHR 0x27] @ s @ [CHR 0x27]"

text \<open>\<open>requested && requested.length > 0 ? requested : defaults\<close>\<close>

definition requested_or :: "string list option \<Rightarrow> string list \<Rightarrow> string list" where
  "requested_or requested defaults = (if requested \<in> {None, Some []} then defaults else the requested)"

definition selectTargets :: "(string \<times> core_node) list \<Rightarrow> string list option \<Rightarrow> string list \<Rightarrow> string list res" where
  "selectTargets ns requested defaults =
     (let selected = uniq (requested_or requested defaults)
      in if selected = [] then Inl ''at least one target node is required''
         else (case find (\<lambda>t. oget ns t = None) selected of
                 Some target \<Rightarrow> Inl (''unknown target node '' @ quoted target)
               | None \<Rightarrow> Inr selected))"

definition node_map :: "router_config \<Rightarrow> (string \<times> core_node) list" where
  "node_map config = from_entries (map (\<lambda>n. (node_id n, n)) (cfg_nodes config))"

definition client_of :: "router_config \<Rightarrow> core_node \<Rightarrow> core_client" where
  "client_of config n =
     \<lparr>client_node = node_id n, client_base = baseUrl n, client_token = node_token n,
      maxResponseBytes = nat (case cfg_maxCoreResponseBytes config of None \<Rightarrow> 64 * 1048576 | Some m \<Rightarrow> m)\<rparr>"

definition short_token :: "core_node \<Rightarrow> bool" where
  "short_token n = (case node_token n of None \<Rightarrow> True | Some t \<Rightarrow> t = [] \<or> length t < 32)"

definition new_router :: "router_config \<Rightarrow> router res" where
  "new_router config =
     (if cfg_nodes config = [] then Inl ''router requires at least one node''
      else (case find short_token (cfg_nodes config) of
          Some n \<Rightarrow> Inl (node_error (node_id n) '' requires a Core token of at least 32 bytes'')
        | None \<Rightarrow>
            let ns = node_map config;
                fallback = [node_id (hd (cfg_nodes config))];
                reads = (case cfg_readTargets config of None \<Rightarrow> fallback | Some ts \<Rightarrow> ts);
                writes = (case cfg_writeTargets config of None \<Rightarrow> fallback | Some ts \<Rightarrow> ts)
            in rbind (selectTargets ns (Some reads) []) (\<lambda>_.
               rbind (selectTargets ns (Some writes) []) (\<lambda>_.
                 Inr \<lparr>nodes = ns, clients = from_entries (map (\<lambda>n. (node_id n, client_of config n)) (cfg_nodes config)),
                      defaultReadTargets = reads, defaultWriteTargets = writes,
                      rrfK = (case cfg_rrfK config of None \<Rightarrow> 60 | Some k \<Rightarrow> k),
                      retryIntervalMs = (case cfg_retryIntervalMs config of None \<Rightarrow> 30000 | Some i \<Rightarrow> i)\<rparr>))))"

definition configuredNodes :: "router \<Rightarrow> string list" where
  "configuredNodes r = okeys (nodes r)"

definition targetsFor :: "router \<Rightarrow> string option \<Rightarrow> string list option res" where
  "targetsFor r target =
     (case target of
        None \<Rightarrow> Inr None
      | Some t \<Rightarrow>
          let requested = (if t = ''all'' then okeys (nodes r) else [t])
          in (case filter (\<lambda>n. oget (nodes r) n = None) requested of
                missing # _ \<Rightarrow> Inl (''target '' @ quoted t @ '' is unavailable; missing node '' @ quoted missing)
              | [] \<Rightarrow> Inr (Some requested)))"

definition scopeFor :: "router \<Rightarrow> string \<Rightarrow> scope \<Rightarrow> scope" where
  "scopeFor r target logical =
     (case Option.bind (oget (nodes r) target) scopeMap of
        None \<Rightarrow> logical
      | Some m \<Rightarrow> (case oget m (to_lower (project_id logical)) of None \<Rightarrow> logical | Some mapped \<Rightarrow> mapped))"

text \<open>\<open>#limit\<close> and \<open>#retryLimit\<close>; \<open>Number(value ?? 10)\<close>\<close>

definition limit_of :: "(rat \<Rightarrow> string) \<Rightarrow> json option \<Rightarrow> nat res" where
  "limit_of fmt v =
     (case js_integer fmt (case coalesce v (Some (JNum 10)) of Some j \<Rightarrow> j | None \<Rightarrow> JNull) of
        None \<Rightarrow> Inl ''limit must be an integer from 1 to 50''
      | Some n \<Rightarrow> if n < 1 \<or> n > 50 then Inl ''limit must be an integer from 1 to 50'' else Inr (nat n))"

definition retryLimit :: "(rat \<Rightarrow> string) \<Rightarrow> json \<Rightarrow> nat res" where
  "retryLimit fmt v =
     (case js_integer fmt v of
        None \<Rightarrow> Inl ''retry limit must be an integer from 1 to 1000''
      | Some n \<Rightarrow> if n < 1 \<or> n > 1000 then Inl ''retry limit must be an integer from 1 to 1000'' else Inr (nat n))"

section \<open>Selecting targets\<close>

lemma find_None_all: "find p xs = None \<longleftrightarrow> (\<forall>x \<in> set xs. \<not> p x)"
  by (auto simp: find_None_iff)

lemma find_SomeD: "find p xs = Some x \<Longrightarrow> x \<in> set xs \<and> p x"
  by (auto simp: find_Some_iff)

lemma selectTargets_Inr:
  "selectTargets ns requested defaults = Inr ts \<longleftrightarrow>
     ts = uniq (requested_or requested defaults) \<and> ts \<noteq> [] \<and> (\<forall>t \<in> set ts. oget ns t \<noteq> None)"
proof (cases "find (\<lambda>t. oget ns t = None) (uniq (requested_or requested defaults))")
  case None
  then have "\<forall>t \<in> set (uniq (requested_or requested defaults)). oget ns t \<noteq> None"
    unfolding find_None_all .
  then show ?thesis using None by (auto simp: selectTargets_def Let_def)
next
  case (Some t)
  from find_SomeD [OF this] have "t \<in> set (uniq (requested_or requested defaults))" "oget ns t = None" by simp_all
  then show ?thesis using Some by (auto simp: selectTargets_def Let_def)
qed

text \<open>
  Target selection.  The targets of a call are those requested, or the defaults when none are,
  each once and in order; the call is refused exactly when that leaves none, or names a node that is
  not configured.
\<close>

theorem select_targets_spec:
  "(case selectTargets ns requested defaults of
      Inr ts \<Rightarrow> ts = uniq (requested_or requested defaults) \<and> ts \<noteq> [] \<and> distinct ts \<and> set ts \<subseteq> set (okeys ns)
    | Inl _ \<Rightarrow> requested_or requested defaults = [] \<or> \<not> set (requested_or requested defaults) \<subseteq> set (okeys ns))"
proof (cases "selectTargets ns requested defaults")
  case (Inr ts)
  from this [unfolded selectTargets_Inr] show ?thesis unfolding Inr sum.case by (auto simp: okeys_def oget_None_iff)
next
  case (Inl e)
  then have "selectTargets ns requested defaults \<noteq> Inr (uniq (requested_or requested defaults))" by simp
  from this [unfolded selectTargets_Inr] show ?thesis unfolding Inl sum.case by (auto simp: okeys_def oget_None_iff)
qed

theorem select_targets_spec_witness:
  "\<exists>e. selectTargets [] None [''a''] = Inl e"
  using select_targets_spec [where ns = "[]" and requested = None and defaults = "[''a'']"]
  by (cases "selectTargets [] None [''a'']") (auto simp: okeys_def)

lemma fst_from_entries [simp]: "fst ` set (from_entries es) = fst ` set es"
  by (simp add: from_entries_def)

lemma ospread_distinct: "distinct (map fst (a @ es)) \<Longrightarrow> ospread a es = a @ es"
proof (induction a es rule: ospread.induct)
  case (2 a k v b)
  then have "k \<notin> fst ` set a" by (simp add: image_iff)
  then have "oset k v a = a @ [(k, v)]" by (rule oset_fresh)
  then show ?case using 2 by simp
qed simp

lemma from_entries_distinct: "distinct (map fst es) \<Longrightarrow> from_entries es = es"
  by (simp add: from_entries_def ospread_distinct)

lemma ok_config_builds_router:
  assumes "config_ok cfg"
  shows "\<exists>r. new_router cfg = Inr r \<and> configuredNodes r = map node_id (cfg_nodes cfg) \<and>
    okeys (clients r) = configuredNodes r \<and> 0 < rrfK r \<and>
    selectTargets (nodes r) None (defaultReadTargets r) = Inr (defaultReadTargets r) \<and>
    selectTargets (nodes r) None (defaultWriteTargets r) = Inr (defaultWriteTargets r)"
proof -
  note ok = assms
  let ?ids = "map node_id (cfg_nodes cfg)"
  have d: "distinct ?ids" and ne: "cfg_nodes cfg \<noteq> []" using ok by (simp_all add: config_ok_def)
  have nm: "node_map cfg = map (\<lambda>n. (node_id n, n)) (cfg_nodes cfg)"
    unfolding node_map_def using d by (intro from_entries_distinct) (simp add: comp_def)
  have cm: "from_entries (map (\<lambda>n. (node_id n, client_of cfg n)) (cfg_nodes cfg)) = map (\<lambda>n. (node_id n, client_of cfg n)) (cfg_nodes cfg)"
    using d by (intro from_entries_distinct) (simp add: comp_def)
  have "find short_token (cfg_nodes cfg) = None"
    using ok by (auto simp: find_None_all config_ok_def list_all_iff node_ok_def short_token_def)
  moreover have sel: "selectTargets (node_map cfg) x y = Inr l"
    if "requested_or x y = l" "l \<noteq> []" "distinct l" "set l \<subseteq> set ?ids" for x y l
    using that by (auto simp: selectTargets_Inr uniq_distinct oget_None_iff nm image_iff)
  moreover obtain rt wt k i where t: "cfg_readTargets cfg = Some rt" "rt \<noteq> []" "distinct rt" "set rt \<subseteq> set ?ids"
    "cfg_writeTargets cfg = Some wt" "wt \<noteq> []" "distinct wt" "set wt \<subseteq> set ?ids"
    "cfg_rrfK cfg = Some k" "0 < k"
    using ok by (auto simp: config_ok_def targets_ok_def)
  ultimately have "new_router cfg = Inr \<lparr>nodes = node_map cfg,
      clients = map (\<lambda>n. (node_id n, client_of cfg n)) (cfg_nodes cfg),
      defaultReadTargets = rt, defaultWriteTargets = wt, rrfK = k,
      retryIntervalMs = (case cfg_retryIntervalMs cfg of None \<Rightarrow> 30000 | Some i \<Rightarrow> i)\<rparr>"
    using ne sel [of "Some rt" "[]" rt] sel [of "Some wt" "[]" wt]
    by (simp add: new_router_def Let_def cm requested_or_def)
  then show ?thesis
    using sel [of None rt rt] sel [of None wt wt] t
    by (simp add: configuredNodes_def okeys_def nm requested_or_def comp_def)
qed

text \<open>
  A configuration that loads builds a router: the constructor accepts it, with the configured
  nodes in order, one client for each node, and default targets that every call may use.
\<close>

theorem loaded_config_builds_router:
  assumes "loadRouterConfig fmt parse parse_url show_url home env = Inr cfg"
  shows "\<exists>r. new_router cfg = Inr r \<and> configuredNodes r = map node_id (cfg_nodes cfg) \<and>
    okeys (clients r) = configuredNodes r \<and> 0 < rrfK r \<and>
    selectTargets (nodes r) None (defaultReadTargets r) = Inr (defaultReadTargets r) \<and>
    selectTargets (nodes r) None (defaultWriteTargets r) = Inr (defaultWriteTargets r)"
  by (rule ok_config_builds_router [OF loaded_config [OF assms]])

theorem loaded_config_builds_router_witness:
  "\<exists>cfg r. loadRouterConfig (\<lambda>_. []) (\<lambda>_. None) example_url (\<lambda>u. ''http://h/'') ''/s'' example_env = Inr cfg \<and> new_router cfg = Inr r"
proof -
  obtain cfg where l: "loadRouterConfig (\<lambda>_. []) (\<lambda>_. None) example_url (\<lambda>u. ''http://h/'') ''/s'' example_env = Inr cfg"
    using example_env_loads by blast
  with loaded_config_builds_router [OF l] show ?thesis by blast
qed

lemma limit_of_bounds: "limit_of fmt v = Inr n \<Longrightarrow> 1 \<le> n \<and> n \<le> 50"
  by (auto simp: limit_of_def split: option.splits if_splits)

lemma retryLimit_bounds: "retryLimit fmt v = Inr n \<Longrightarrow> 1 \<le> n \<and> n \<le> 1000"
  by (auto simp: retryLimit_def split: option.splits if_splits)

text \<open>
  Scope mapping.  In a router built from a loaded configuration a target's scope is either the
  logical scope itself, or one its node's scope map gives for that project, whatever the case of the
  project id; and the mapped scope is made of lower-case UUIDs.
\<close>

theorem scope_for_mapped:
  assumes "loadRouterConfig fmt parse parse_url show_url home env = Inr cfg" and "new_router cfg = Inr r"
  shows "scopeFor r target logical = logical \<or>
    scope_ok (scopeFor r target logical) \<and>
    (\<exists>n m. n \<in> set (cfg_nodes cfg) \<and> node_id n = target \<and> scopeMap n = Some m \<and>
       oget m (to_lower (project_id logical)) = Some (scopeFor r target logical))"
proof (cases "scopeFor r target logical = logical")
  case False
  then obtain n m sc where n: "oget (nodes r) target = Some n" "scopeMap n = Some m"
    "oget m (to_lower (project_id logical)) = Some sc" and sc: "scopeFor r target logical = sc"
    by (auto simp: scopeFor_def bind_eq_Some_conv split: option.splits)
  have ok: "config_ok cfg" by (rule loaded_config [OF assms(1)])
  have "nodes r = node_map cfg"
    using assms(2) by (auto simp: new_router_def Let_def rbind_eq_Inr split: if_splits option.splits)
  also have "\<dots> = map (\<lambda>n. (node_id n, n)) (cfg_nodes cfg)"
    unfolding node_map_def using ok by (intro from_entries_distinct) (simp add: comp_def config_ok_def)
  finally have mem: "n \<in> set (cfg_nodes cfg)" "node_id n = target" using oget_SomeD [OF n(1)] by auto
  then have "scope_map_ok m" using ok n(2) by (auto simp: config_ok_def list_all_iff node_ok_def)
  then have "scope_ok sc" using oget_SomeD [OF n(3)] by (auto simp: scope_map_ok_def)
  then show ?thesis using n mem sc by blast
qed simp

theorem scope_for_mapped_witness:
  "\<exists>r. scopeFor r ''x'' \<lparr>workspace_id = ''w'', project_id = ''p''\<rparr> = \<lparr>workspace_id = ''w'', project_id = ''p''\<rparr> \<or>
     scope_ok (scopeFor r ''x'' \<lparr>workspace_id = ''w'', project_id = ''p''\<rparr>)"
proof -
  obtain cfg r where "loadRouterConfig (\<lambda>_. []) (\<lambda>_. None) example_url (\<lambda>u. ''http://h/'') ''/s'' example_env = Inr cfg"
    "new_router cfg = Inr r"
    using example_env_loads loaded_config ok_config_builds_router by blast
  from scope_for_mapped [OF this] show ?thesis by blast
qed

end
