(* ===== verification/Ids.thy ===== *)
theory Ids
  imports JsString
begin

text \<open>
  The two UUIDv7 generators: the process-monotonic one of \<open>apps/mcp/src/ids.ts\<close>, whose
  module variables are the record \<open>uuid_state\<close>, and the one of
  \<open>apps/manager/src/fs-safe.ts\<close>; and \<open>uuid7OccurredAt\<close> of
  \<open>apps/mcp/src/router.ts\<close>, which reads the timestamp back.  The \<open>bigint\<close>s are
  \<open>nat\<close>; \<open>Date.now()\<close> and the random bytes are arguments.
\<close>

unbundle bit_operations_syntax

section \<open>Definitions\<close>

definition RANDOM_MASK :: nat where
  "RANDOM_MASK = push_bit 74 1 - 1"

record uuid_state =
  lastTimestampMs :: int
  lastRandom :: nat

definition uuid_init :: uuid_state where
  "uuid_init = \<lparr>lastTimestampMs = - 1, lastRandom = 0\<rparr>"

text \<open>The ten bytes of \<open>randomBytes(10)\<close>, folded and masked to 74 bits\<close>

definition freshRandom74 :: "nat list \<Rightarrow> nat" where
  "freshRandom74 bytes = foldl (\<lambda>value byte. push_bit 8 value OR byte) 0 bytes AND RANDOM_MASK"

definition hex :: "nat \<Rightarrow> nat \<Rightarrow> string" where
  "hex value width = pad_start width (to_hex value)"

text \<open>\<open>`${s.slice(0, 8)}-${s.slice(8, 12)}-...-${s.slice(20)}`\<close>\<close>

definition uuid_format :: "string \<Rightarrow> string" where
  "uuid_format s =
     take 8 s @ ''-'' @ take 4 (drop 8 s) @ ''-'' @ take 4 (drop 12 s) @ ''-'' @
     take 4 (drop 16 s) @ ''-'' @ drop 20 s"

text \<open>The state update of \<open>uuid7\<close>: the clock and the random part that go into the value\<close>

definition uuid7_advance :: "int \<Rightarrow> nat list \<Rightarrow> uuid_state \<Rightarrow> uuid_state" where
  "uuid7_advance now bytes st =
     (if now > lastTimestampMs st
      then \<lparr>lastTimestampMs = now, lastRandom = freshRandom74 bytes\<rparr>
      else let r = (lastRandom st + 1) AND RANDOM_MASK
           in if r = 0 then \<lparr>lastTimestampMs = lastTimestampMs st + 1, lastRandom = r\<rparr>
              else st\<lparr>lastRandom := r\<rparr>)"

definition uuid7_value :: "uuid_state \<Rightarrow> nat" where
  "uuid7_value st =
     (let timestamp = nat (lastTimestampMs st) AND (push_bit 48 1 - 1);
          randA = drop_bit 62 (lastRandom st) AND 0xfff;
          randB = lastRandom st AND (push_bit 62 1 - 1)
      in push_bit 80 timestamp OR push_bit 76 0x7 OR push_bit 64 randA OR push_bit 62 0x2 OR randB)"

definition uuid7 :: "int \<Rightarrow> nat list \<Rightarrow> uuid_state \<Rightarrow> string \<times> uuid_state" where
  "uuid7 now bytes st =
     (let st' = uuid7_advance now bytes st
      in (uuid_format (hex (uuid7_value st') 32), st'))"

text \<open>\<open>uuid7OccurredAt\<close>: the milliseconds that \<open>toISOString()\<close> then prints\<close>

definition uuid7OccurredAt :: "string \<Rightarrow> nat" where
  "uuid7OccurredAt recordId = from_hex (take 12 (filter (\<lambda>c. c \<noteq> CHR ''-'') recordId))"

text \<open>\<open>assertUuid\<close> and \<open>assertUuid7\<close> of the manager\<close>

definition assertUuid :: "string \<Rightarrow> string \<Rightarrow> unit res" where
  "assertUuid value field =
     require (matches (uuid_pattern is_hex is_version_1_8 is_variant) value) (field @ '' must be a UUID'')"

definition assertUuid7 :: "string \<Rightarrow> string \<Rightarrow> unit res" where
  "assertUuid7 value field =
     rbind (assertUuid value field) (\<lambda>_.
       require (14 < length value \<and> lower_char (value ! 14) = CHR ''7'') (field @ '' must be a UUIDv7''))"

text \<open>The manager's generator: 16 random bytes, the first six overwritten by the clock\<close>

fun timestamp_bytes :: "nat \<Rightarrow> nat \<Rightarrow> nat list" where
  "timestamp_bytes 0 t = []"
| "timestamp_bytes (Suc n) t = timestamp_bytes n (drop_bit 8 t) @ [t AND 0xff]"

definition byte_hex :: "nat \<Rightarrow> string" where
  "byte_hex b = [hex_char (b div 16 mod 16), hex_char (b mod 16)]"

definition manager_uuid7 :: "int \<Rightarrow> nat list \<Rightarrow> string res" where
  "manager_uuid7 now random =
     (if now < 0 \<or> now > 0xffffffffffff then Inl ''Invalid UUIDv7 timestamp''
      else let bytes = timestamp_bytes 6 (nat now) @ drop 6 random;
               bytes = bytes[6 := (bytes ! 6 AND 0x0f) OR 0x70];
               bytes = bytes[8 := (bytes ! 8 AND 0x3f) OR 0x80]
           in Inr (uuid_format (concat (map byte_hex bytes))))"

section \<open>The value of an identifier\<close>

lemma mask_eq: "(push_bit n 1 - 1 :: nat) = mask n"
  by (simp add: mask_eq_exp_minus_1 push_bit_eq_mult)

lemma RANDOM_MASK_eq: "RANDOM_MASK = mask 74"
  unfolding RANDOM_MASK_def by (rule mask_eq)

lemma and_mask_mod: "(x :: nat) AND mask n = x mod 2 ^ n"
  by (simp add: take_bit_eq_mask [symmetric] take_bit_eq_mod)

lemma push_or_add:
  fixes a b :: nat
  assumes "b < 2 ^ n"
  shows "push_bit n a OR b = a * 2 ^ n + b"
proof -
  have b: "b = take_bit n b" using assms by (simp add: take_bit_nat_eq_self)
  have "push_bit n a AND take_bit n b = 0"
    by (auto simp: bit_eq_iff bit_simps)
  then have "push_bit n a + b = push_bit n a OR b"
    using b by (metis disjunctive_add_eq_or)
  then show ?thesis by (simp add: push_bit_eq_mult)
qed

text \<open>The five fields of the 128-bit value do not overlap: it is their weighted sum.\<close>

definition uuid_sum :: "nat \<Rightarrow> nat \<Rightarrow> nat" where
  "uuid_sum t r = t * 2 ^ 80 + 7 * 2 ^ 76 + (r div 2 ^ 62) * 2 ^ 64 + 2 * 2 ^ 62 + r mod 2 ^ 62"

lemma uuid7_value_sum:
  assumes r: "lastRandom st < 2 ^ 74"
  shows "uuid7_value st = uuid_sum (nat (lastTimestampMs st) mod 2 ^ 48) (lastRandom st)"
proof -
  let ?t = "nat (lastTimestampMs st) mod 2 ^ 48" and ?r = "lastRandom st"
  let ?a = "?r div 2 ^ 62" and ?b = "?r mod 2 ^ 62"
  have a: "?a < 2 ^ 12" using r by (simp add: div_less_iff_less_mult)
  have fff: "(0xfff :: nat) = mask 12" by (simp add: mask_eq_exp_minus_1)
  have ra: "drop_bit 62 ?r AND 0xfff = ?a"
    unfolding fff and_mask_mod drop_bit_eq_div using a by simp
  have "?b < 2 ^ 62" by simp
  then have b2: "push_bit 62 2 OR ?b = 2 * 2 ^ 62 + ?b" by (rule push_or_add)
  have "2 * 2 ^ 62 + ?b < 2 ^ 64" by (simp add: mod_less_divisor [THEN less_trans])
  then have b3: "push_bit 64 ?a OR (2 * 2 ^ 62 + ?b) = ?a * 2 ^ 64 + (2 * 2 ^ 62 + ?b)"
    by (rule push_or_add)
  have "?b < 2 ^ 62" by simp
  with a have lt76: "?a * 2 ^ 64 + (2 * 2 ^ 62 + ?b) < 2 ^ 76" by simp
  then have b4: "push_bit 76 7 OR (?a * 2 ^ 64 + (2 * 2 ^ 62 + ?b)) = 7 * 2 ^ 76 + (?a * 2 ^ 64 + (2 * 2 ^ 62 + ?b))"
    by (rule push_or_add)
  have "7 * 2 ^ 76 + (?a * 2 ^ 64 + (2 * 2 ^ 62 + ?b)) < 2 ^ 80" using lt76 by simp
  then have b5: "push_bit 80 ?t OR (7 * 2 ^ 76 + (?a * 2 ^ 64 + (2 * 2 ^ 62 + ?b)))
      = ?t * 2 ^ 80 + (7 * 2 ^ 76 + (?a * 2 ^ 64 + (2 * 2 ^ 62 + ?b)))"
    by (rule push_or_add)
  show ?thesis
    unfolding uuid7_value_def Let_def mask_eq and_mask_mod ra or.assoc b2 b3 b4 b5 uuid_sum_def
    by (simp only: add.assoc)
qed

lemma hex_char_hex_val: "is_hex_lower c \<Longrightarrow> hex_char (hex_val c) = c"
proof -
  assume c: "is_hex_lower c"
  then have "code (hex_char (hex_val c)) = code c"
    by (auto simp: is_hex_lower_def is_digit_def hex_val_def is_lower_def code_hex_char simp del: of_char_eq_iff)
  then show ?thesis by (simp only: of_char_eq_iff)
qed

lemma hex_char_values [simp]:
  "hex_char 7 = CHR ''7''" "hex_char 8 = CHR ''8''" "hex_char 9 = CHR ''9''"
  "hex_char 10 = CHR ''a''" "hex_char 11 = CHR ''b''"
  by (simp_all add: hex_char_def char_of_def bit_Suc_0_iff)

lemma hex_char_variant: "d \<in> {8, 9, 10, 11} \<Longrightarrow> hex_char d \<in> set ''89ab''"
  by auto

lemma hex_val_less: "is_hex_lower c \<Longrightarrow> hex_val c < 16"
  by (auto simp: is_hex_lower_def is_digit_def hex_val_def is_lower_def)

text \<open>Cutting a numeral is dividing by a power of 16; a digit is a remainder.\<close>

lemma from_hex_take:
  assumes "list_all is_hex_lower s"
  shows "from_hex (take n s) = from_hex s div 16 ^ (length s - n)"
proof -
  have "list_all is_hex_lower (drop n s)" using assms by (metis append_take_drop_id list_all_append)
  then have "from_hex (drop n s) < 16 ^ (length s - n)" by (metis from_hex_bound length_drop)
  moreover have "from_hex s = from_hex (take n s) * 16 ^ (length s - n) + from_hex (drop n s)"
    by (metis append_take_drop_id from_hex_append length_drop)
  ultimately show ?thesis by simp
qed

lemma hex_digit_nth:
  assumes s: "list_all is_hex_lower s" and i: "i < length s"
  shows "s ! i = hex_char (from_hex s div 16 ^ (length s - Suc i) mod 16)"
proof -
  have "from_hex (take (Suc i) s) = from_hex s div 16 ^ (length s - Suc i)"
    using s by (rule from_hex_take)
  moreover have "take (Suc i) s = take i s @ [s ! i]" using i by (rule take_Suc_conv_app_nth)
  ultimately have "from_hex s div 16 ^ (length s - Suc i) = from_hex (take i s) * 16 + hex_val (s ! i)"
    by (simp add: from_hex_append)
  moreover have h: "is_hex_lower (s ! i)" using s i by (simp add: list_all_length)
  ultimately have "from_hex s div 16 ^ (length s - Suc i) mod 16 = hex_val (s ! i)"
    using hex_val_less [OF h] by simp
  with h show ?thesis by (simp add: hex_char_hex_val)
qed

lemma hex_full:
  assumes "v < 16 ^ w" and "0 < w"
  shows "length (hex v w) = w" and "list_all is_hex_lower (hex v w)" and "from_hex (hex v w) = v"
  using length_to_hex_le [OF assms] by (simp_all add: hex_def pad_start_hex to_hex_hex)

text \<open>The number an identifier denotes: its digits without the dashes\<close>

definition uuid_num :: "string \<Rightarrow> nat" where
  "uuid_num s = from_hex (filter (\<lambda>c. c \<noteq> CHR ''-'') s)"

lemma uuid_format_plain:
  assumes "list_all is_hex_lower s"
  shows "filter (\<lambda>c. c \<noteq> CHR ''-'') (uuid_format s) = s"
proof -
  have "c \<noteq> CHR ''-''" if "c \<in> set s" for c
    using that assms by (auto simp: list_all_iff is_hex_lower_def is_digit_def)
  then have f: "filter (\<lambda>c. c \<noteq> CHR ''-'') s' = s'" if "set s' \<subseteq> set s" for s'
    using that by (auto simp: filter_id_conv)
  have d: "set (take m (drop n s)) \<subseteq> set s" "set (drop n s) \<subseteq> set s" "set (take m s) \<subseteq> set s" for m n
    by (meson order.trans set_take_subset set_drop_subset)+
  have "take 8 s @ take 4 (drop 8 s) @ take 4 (drop 12 s) @ take 4 (drop 16 s) @ drop 20 s = s"
    using append_take_drop_id [of 8 s] append_take_drop_id [of 4 "drop 8 s"]
      append_take_drop_id [of 4 "drop 12 s"] append_take_drop_id [of 4 "drop 16 s"] by simp
  then show ?thesis unfolding uuid_format_def by (simp add: f d)
qed

lemma uuid_format_matches:
  assumes s: "length s = 32" "list_all is_hex_lower s" and v: "v (s ! 12)" and w: "w (s ! 16)"
  shows "matches (uuid_pattern is_hex_lower v w) (uuid_format s)"
proof -
  show ?thesis
    using s v w unfolding uuid_format_def uuid_pattern_def
    by (simp add: numeral_eq_Suc length_Suc_conv) (auto simp: numeral_eq_Suc)
qed

section \<open>The state and what it guarantees\<close>

definition uuid_inv :: "uuid_state \<Rightarrow> bool" where
  "uuid_inv st = (- 1 \<le> lastTimestampMs st \<and> lastRandom st < 2 ^ 74)"

lemma uuid_inv_init: "uuid_inv uuid_init"
  by (simp add: uuid_inv_def uuid_init_def)

lemma freshRandom74_bound: "freshRandom74 bytes < 2 ^ 74"
  by (simp add: freshRandom74_def RANDOM_MASK_eq and_mask_mod)

lemma uuid_inv_advance: "uuid_inv st \<Longrightarrow> uuid_inv (uuid7_advance now bytes st)"
  using freshRandom74_bound [of bytes]
  by (auto simp: uuid_inv_def uuid7_advance_def Let_def RANDOM_MASK_eq and_mask_mod)

lemma advance_nonneg: "uuid_inv st \<Longrightarrow> 0 \<le> now \<Longrightarrow> 0 \<le> lastTimestampMs (uuid7_advance now bytes st)"
  by (auto simp: uuid_inv_def uuid7_advance_def Let_def)

lemma uuid_sum_bound:
  assumes "t < 2 ^ 48" "r < 2 ^ 74"
  shows "uuid_sum t r < 2 ^ 128"
proof -
  have "r div 2 ^ 62 < 2 ^ 12" using assms(2) by (simp add: div_less_iff_less_mult)
  moreover have "r mod 2 ^ 62 < 2 ^ 62" by simp
  ultimately show ?thesis using assms(1) unfolding uuid_sum_def by simp
qed

lemma uuid_sum_parts:
  assumes "r < 2 ^ 74"
  shows "uuid_sum t r div 2 ^ 80 = t"
    and "uuid_sum t r div 2 ^ 76 mod 16 = 7"
    and "uuid_sum t r div 2 ^ 60 mod 16 \<in> {8, 9, 10, 11}"
proof -
  define a b where "a = r div 2 ^ 62" and "b = r mod 2 ^ 62"
  have a: "a < 2 ^ 12" using assms by (simp add: a_def div_less_iff_less_mult)
  have b: "b < 2 ^ 62" by (simp add: b_def)
  have u: "uuid_sum t r = t * 2 ^ 80 + 7 * 2 ^ 76 + a * 2 ^ 64 + 2 * 2 ^ 62 + b"
    by (simp add: uuid_sum_def a_def b_def)
  show "uuid_sum t r div 2 ^ 80 = t" unfolding u using a b by simp
  have "uuid_sum t r div 2 ^ 76 = t * 16 + 7" unfolding u using a b by simp
  then show "uuid_sum t r div 2 ^ 76 mod 16 = 7" by simp
  have "uuid_sum t r div 2 ^ 60 = (t * 2 ^ 20 + 7 * 2 ^ 16 + a * 16 + 8) + b div 2 ^ 60"
    unfolding u by simp
  moreover have "b div 2 ^ 60 < 4" using b by (simp add: div_less_iff_less_mult)
  moreover have "(t * 2 ^ 20 + 7 * 2 ^ 16 + a * 16 + 8 + q) mod 16 = 8 + q" if "q < 4" for q
  proof -
    have "t * 2 ^ 20 + 7 * 2 ^ 16 + a * 16 + 8 + q = (8 + q) + 16 * (t * 2 ^ 16 + 7 * 2 ^ 12 + a)" by simp
    then show ?thesis using that by (simp only: mod_mult_self2) simp
  qed
  ultimately have "uuid_sum t r div 2 ^ 60 mod 16 = 8 + b div 2 ^ 60" and "b div 2 ^ 60 < 4" by simp_all
  then show "uuid_sum t r div 2 ^ 60 mod 16 \<in> {8, 9, 10, 11}" by auto
qed

lemma uuid7_digits:
  assumes "uuid_inv st"
  defines "d \<equiv> hex (uuid7_value st) 32"
  shows "length d = 32" and "list_all is_hex_lower d"
    and "from_hex d = uuid_sum (nat (lastTimestampMs st) mod 2 ^ 48) (lastRandom st)"
proof -
  have v: "uuid7_value st = uuid_sum (nat (lastTimestampMs st) mod 2 ^ 48) (lastRandom st)"
    using assms(1) by (simp add: uuid_inv_def uuid7_value_sum)
  then have "uuid7_value st < 16 ^ 32"
    using assms(1) uuid_sum_bound by (simp add: uuid_inv_def)
  then show "length d = 32" "list_all is_hex_lower d"
    "from_hex d = uuid_sum (nat (lastTimestampMs st) mod 2 ^ 48) (lastRandom st)"
    using hex_full [of "uuid7_value st" 32] v by (simp_all add: d_def)
qed

lemma fst_uuid7: "fst (uuid7 now bytes st) = uuid_format (hex (uuid7_value (uuid7_advance now bytes st)) 32)"
  and snd_uuid7: "snd (uuid7 now bytes st) = uuid7_advance now bytes st"
  by (simp_all add: uuid7_def Let_def)

text \<open>Whatever the clock and the random source return, \<open>uuid7\<close> of the MCP adapter
  returns an identifier in the canonical UUIDv7 form, lower case, version 7 and variant 10.\<close>

theorem uuid7_wellformed:
  assumes "uuid_inv st"
  shows "matches (uuid_pattern is_hex_lower (\<lambda>c. c = CHR ''7'') (\<lambda>c. c \<in> set ''89ab''))
           (fst (uuid7 now bytes st))"
proof -
  let ?st = "uuid7_advance now bytes st"
  let ?d = "hex (uuid7_value ?st) 32"
  let ?r = "lastRandom ?st"
  have st: "uuid_inv ?st" using assms by (rule uuid_inv_advance)
  then have r: "?r < 2 ^ 74" by (simp add: uuid_inv_def)
  note d = uuid7_digits [OF st]
  have "?d ! 12 = hex_char (from_hex ?d div 2 ^ 76 mod 16)"
    using hex_digit_nth [OF d(2), of 12] d(1) by simp
  then have "?d ! 12 = CHR ''7''"
    unfolding d(3) using uuid_sum_parts(2) [OF r] by simp
  moreover have "?d ! 16 = hex_char (from_hex ?d div 2 ^ 60 mod 16)"
    using hex_digit_nth [OF d(2), of 16] d(1) by simp
  then have "?d ! 16 \<in> set ''89ab''"
    unfolding d(3) by (simp only: hex_char_variant [OF uuid_sum_parts(3) [OF r]])
  ultimately show ?thesis
    unfolding fst_uuid7 using d by (intro uuid_format_matches) simp_all
qed

theorem uuid7_wellformed_witness:
  "matches (uuid_pattern is_hex_lower (\<lambda>c. c = CHR ''7'') (\<lambda>c. c \<in> set ''89ab''))
     (fst (uuid7 1700000000000 [255, 255, 255, 255, 255, 255, 255, 255, 255, 255] uuid_init))"
  by (rule uuid7_wellformed) (rule uuid_inv_init)

lemma uuid_num_uuid7:
  assumes "uuid_inv st"
  shows "uuid_num (fst (uuid7 now bytes st)) =
    uuid_sum (nat (lastTimestampMs (snd (uuid7 now bytes st))) mod 2 ^ 48)
      (lastRandom (snd (uuid7 now bytes st)))"
  using uuid7_digits [OF uuid_inv_advance [OF assms]]
  by (simp add: uuid_num_def fst_uuid7 snd_uuid7 uuid_format_plain)

text \<open>The creation time is carried by the identifier: \<open>uuid7OccurredAt\<close> of the router
  reads back from a fresh identifier the millisecond \<open>uuid7\<close> put into it, which is the clock
  reading itself unless an earlier call already used that millisecond or a later one.\<close>

theorem uuid7_occurred_at_roundtrip:
  assumes "uuid_inv st" and "lastTimestampMs st < now" and "now < 2 ^ 48"
  shows "int (uuid7OccurredAt (fst (uuid7 now bytes st))) = now"
proof -
  let ?st = "uuid7_advance now bytes st"
  have st: "uuid_inv ?st" using assms(1) by (rule uuid_inv_advance)
  note d = uuid7_digits [OF st]
  have now: "0 \<le> now" using assms(1,2) by (simp add: uuid_inv_def)
  have t: "nat (lastTimestampMs ?st) mod 2 ^ 48 = nat now"
    using assms(2,3) now by (simp add: uuid7_advance_def nat_less_iff)
  have "uuid7OccurredAt (fst (uuid7 now bytes st)) = from_hex (hex (uuid7_value ?st) 32) div 16 ^ 20"
    unfolding uuid7OccurredAt_def fst_uuid7 using d by (simp add: uuid_format_plain from_hex_take)
  also have "\<dots> = nat now"
    unfolding d(3) t using uuid_sum_parts(1) [of "lastRandom ?st" "nat now"] st
    by (simp add: uuid_inv_def)
  finally show ?thesis using now by simp
qed

theorem uuid7_occurred_at_roundtrip_witness:
  "int (uuid7OccurredAt (fst (uuid7 1700000000000 [1, 2, 3, 4, 5, 6, 7, 8, 9, 10] uuid_init))) = 1700000000000"
  by (rule uuid7_occurred_at_roundtrip) (simp_all add: uuid_inv_init, simp_all add: uuid_init_def)

text \<open>A process's calls in order, each with the clock and the random bytes it read\<close>

fun uuid7_calls :: "(int \<times> nat list) list \<Rightarrow> uuid_state \<Rightarrow> string list" where
  "uuid7_calls [] st = []"
| "uuid7_calls ((now, bytes) # calls) st =
     fst (uuid7 now bytes st) # uuid7_calls calls (snd (uuid7 now bytes st))"

lemma uuid_sum_less:
  assumes "r < 2 ^ 74" "r' < 2 ^ 74" and "t < t' \<or> t = t' \<and> r < r'"
  shows "uuid_sum t r < uuid_sum t' r'"
proof (cases "t < t'")
  case True
  have "uuid_sum t r < Suc t * 2 ^ 80"
    using uuid_sum_parts(1) [OF assms(1), of t] by (simp add: div_less_iff_less_mult [symmetric])
  also have "\<dots> \<le> t' * 2 ^ 80" using True by (intro mult_right_mono) simp_all
  also have "\<dots> \<le> uuid_sum t' r'" by (simp add: uuid_sum_def)
  finally show ?thesis .
next
  case False
  then have r: "t = t'" "r < r'" using assms(3) by simp_all
  have "r div 2 ^ 62 < r' div 2 ^ 62 \<or> r div 2 ^ 62 = r' div 2 ^ 62 \<and> r mod 2 ^ 62 < r' mod 2 ^ 62"
    using r(2) div_le_mono [of r r' "2 ^ 62"] by (metis le_neq_implies_less less_imp_le mod_less_eq_dividend
        div_mult_mod_eq nat_add_left_cancel_less)
  moreover have "r mod 2 ^ 62 < 2 ^ 62" by simp
  ultimately show ?thesis unfolding uuid_sum_def r(1) by auto
qed

lemma advance_increases:
  assumes "uuid_inv st"
  shows "lastTimestampMs st < lastTimestampMs (uuid7_advance now bytes st) \<or>
    lastTimestampMs st = lastTimestampMs (uuid7_advance now bytes st) \<and>
    lastRandom st < lastRandom (uuid7_advance now bytes st)"
  using assms
  by (auto simp: uuid7_advance_def Let_def uuid_inv_def RANDOM_MASK_eq and_mask_mod mod_Suc)

definition calls_fit :: "(int \<times> nat list) list \<Rightarrow> uuid_state \<Rightarrow> bool" where
  "calls_fit calls st =
     (lastTimestampMs st + int (length calls) < 2 ^ 48 \<and>
      list_all (\<lambda>call. 0 \<le> fst call \<and> fst call + int (length calls) < 2 ^ 48) calls)"

lemma calls_fit_Cons:
  assumes "uuid_inv st" "calls_fit ((now, bytes) # calls) st"
  shows "calls_fit calls (uuid7_advance now bytes st)"
    and "0 \<le> lastTimestampMs (uuid7_advance now bytes st)"
    and "uuid_num (fst (uuid7 now bytes st)) =
      uuid_sum (nat (lastTimestampMs (uuid7_advance now bytes st))) (lastRandom (uuid7_advance now bytes st))"
proof -
  have now: "0 \<le> now" "now + int (length calls) + 1 < 2 ^ 48"
    and ts: "lastTimestampMs st + int (length calls) + 1 < 2 ^ 48"
    using assms(2) by (simp_all add: calls_fit_def)
  have adv: "lastTimestampMs (uuid7_advance now bytes st) \<le> max now (lastTimestampMs st + 1)"
    by (simp add: uuid7_advance_def Let_def)
  with now ts have "lastTimestampMs (uuid7_advance now bytes st) + int (length calls) < 2 ^ 48"
    by linarith
  moreover have "list_all (\<lambda>call. 0 \<le> fst call \<and> fst call + int (length calls) < 2 ^ 48) calls"
    using assms(2) by (auto simp: calls_fit_def list_all_iff)
  ultimately show "calls_fit calls (uuid7_advance now bytes st)" by (simp add: calls_fit_def)
  show nn: "0 \<le> lastTimestampMs (uuid7_advance now bytes st)"
    using assms(1) now(1) by (rule advance_nonneg)
  have "nat (lastTimestampMs (uuid7_advance now bytes st)) < 2 ^ 48"
    using adv now ts nn by (simp add: nat_less_iff)
  then show "uuid_num (fst (uuid7 now bytes st)) =
      uuid_sum (nat (lastTimestampMs (uuid7_advance now bytes st))) (lastRandom (uuid7_advance now bytes st))"
    using uuid_num_uuid7 [OF assms(1), of now bytes] by (simp add: snd_uuid7)
qed

lemma uuid7_calls_above:
  assumes "uuid_inv st" and "0 \<le> lastTimestampMs st" and "calls_fit calls st"
  shows "(\<forall>x \<in> set (uuid7_calls calls st). uuid_sum (nat (lastTimestampMs st)) (lastRandom st) < uuid_num x) \<and>
    sorted_wrt (<) (map uuid_num (uuid7_calls calls st))"
  using assms
proof (induction calls arbitrary: st)
  case (Cons call calls)
  obtain now bytes where c: "call = (now, bytes)" by (cases call)
  let ?st = "uuid7_advance now bytes st"
  note inv = uuid_inv_advance [OF Cons.prems(1), of now bytes]
  note f = calls_fit_Cons [OF Cons.prems(1) Cons.prems(3) [unfolded c]]
  have "uuid_sum (nat (lastTimestampMs st)) (lastRandom st) < uuid_sum (nat (lastTimestampMs ?st)) (lastRandom ?st)"
    using advance_increases [OF Cons.prems(1), of now bytes] Cons.prems(1,2) inv
    by (intro uuid_sum_less) (auto simp: uuid_inv_def)
  then show ?case
    using Cons.IH [OF inv f(2) f(1)] f(3) by (auto simp: c snd_uuid7)
qed simp

text \<open>The identifiers of one process strictly increase, however its clock jumps and
  however often it calls within one millisecond: compared as 128-bit numbers, every identifier is
  greater than all the earlier ones, as long as the 48-bit timestamp does not overflow.\<close>

theorem uuid7_calls_increase:
  assumes "uuid_inv st" and "calls_fit calls st"
  shows "sorted_wrt (<) (map uuid_num (uuid7_calls calls st))"
proof (cases calls)
  case (Cons call rest)
  obtain now bytes where c: "call = (now, bytes)" by (cases call)
  note f = calls_fit_Cons [OF assms(1) assms(2) [unfolded Cons c]]
  show ?thesis
    using uuid7_calls_above [OF uuid_inv_advance [OF assms(1)] f(2) f(1)] f(3)
    by (auto simp: Cons c snd_uuid7)
qed simp

theorem uuid7_calls_increase_witness:
  "sorted_wrt (<) (map uuid_num
     (uuid7_calls [(1700000000000, [255, 255, 255, 255, 255, 255, 255, 255, 255, 255]),
                   (1700000000000, []), (1600000000000, [])] uuid_init))"
  by (rule uuid7_calls_increase [OF uuid_inv_init]) (simp add: calls_fit_def uuid_init_def)

section \<open>The manager's generator\<close>

lemma timestamp_bytes_length [simp]: "length (timestamp_bytes n t) = n"
  by (induction n arbitrary: t) auto

lemma byte_hex_facts:
  "length (byte_hex b) = 2" "list_all is_hex_lower (byte_hex b)" "from_hex (byte_hex b) = b mod 256"
proof -
  show "length (byte_hex b) = 2" "list_all is_hex_lower (byte_hex b)" by (simp_all add: byte_hex_def)
  have "b div 16 mod 16 * 16 + b mod 16 = b mod 256"
    using mod_mult2_eq [of b 16 16] by simp
  then show "from_hex (byte_hex b) = b mod 256" by (simp add: byte_hex_def)
qed

lemma bytes_hex_facts:
  "length (concat (map byte_hex bs)) = 2 * length bs"
  "list_all is_hex_lower (concat (map byte_hex bs))"
  by (induction bs) (simp_all add: byte_hex_facts)

lemma from_hex_timestamp_bytes:
  "t < 256 ^ n \<Longrightarrow> from_hex (concat (map byte_hex (timestamp_bytes n t))) = t"
proof (induction n arbitrary: t)
  case (Suc n)
  have "drop_bit 8 t < 256 ^ n"
    using Suc.prems by (simp add: drop_bit_eq_div div_less_iff_less_mult)
  moreover have "t AND 255 = t mod 256"
    using and_mask_mod [of t 8] by (simp add: mask_eq_exp_minus_1)
  ultimately show ?case
    using Suc.IH by (simp add: from_hex_append byte_hex_facts drop_bit_eq_div)
qed simp

lemma concat_byte_hex_nth:
  "i < length bs \<Longrightarrow> concat (map byte_hex bs) ! (2 * i) = hex_char (bs ! i div 16 mod 16)"
proof (induction bs arbitrary: i)
  case (Cons b bs)
  then show ?case by (cases i) (simp_all add: byte_hex_def)
qed simp

lemma version_nibble: "((b AND 0x0f) OR 0x70) div 16 mod 16 = (7 :: nat)"
proof -
  have "(b AND 0x0f) OR 0x70 = push_bit 4 7 OR (b mod 2 ^ 4)"
    using and_mask_mod [of b 4] by (simp add: mask_eq_exp_minus_1 push_bit_eq_mult or.commute)
  also have "\<dots> = 7 * 2 ^ 4 + b mod 2 ^ 4" by (rule push_or_add) simp
  finally show ?thesis by simp
qed

lemma variant_nibble: "((b AND 0x3f) OR 0x80) div 16 mod 16 \<in> {8, 9, 10, 11 :: nat}"
proof -
  have "(b AND 0x3f) OR 0x80 = push_bit 6 2 OR (b mod 2 ^ 6)"
    using and_mask_mod [of b 6] by (simp add: mask_eq_exp_minus_1 push_bit_eq_mult or.commute)
  also have "\<dots> = 2 * 2 ^ 6 + b mod 2 ^ 6" by (rule push_or_add) simp
  also have "\<dots> = b mod 64 + 8 * 16" by simp
  finally have "((b AND 0x3f) OR 0x80) div 16 = b mod 64 div 16 + 8"
    by simp
  moreover have "b mod 64 div 16 < 4" by (simp add: div_less_iff_less_mult)
  ultimately show ?thesis by auto
qed

lemma assertUuid7_pattern:
  assumes "matches (uuid_pattern is_hex_lower (\<lambda>c. c = CHR ''7'') (\<lambda>c. c \<in> set ''89ab'')) s"
  shows "assertUuid7 s field = Inr ()"
proof -
  have m: "matches (uuid_pattern is_hex is_version_1_8 is_variant) s"
    using assms by (rule matches_uuid_mono) (auto simp: is_hex_def is_version_1_8_def is_variant_def)
  have "(uuid_pattern is_hex_lower (\<lambda>c. c = CHR ''7'') (\<lambda>c. c \<in> set ''89ab'') ! 14) (s ! 14)"
    using assms by (rule matches_nth) simp
  then have "s ! 14 = CHR ''7''" by (simp add: uuid_pattern_def numeral_eq_Suc)
  moreover have "length s = 36" using matches_length [OF assms] by simp
  ultimately show ?thesis
    using m by (simp add: assertUuid7_def assertUuid_def lower_char_def is_upper_def)
qed

text \<open>The manager's \<open>uuid7\<close> returns, for every clock it accepts, a UUID that its own
  \<open>assertUuid7\<close> accepts and whose first 48 bits are that clock.\<close>

theorem manager_uuid7_accepted:
  assumes "0 \<le> now" and "now \<le> 0xffffffffffff" and "length random = 16"
  shows "\<exists>s. manager_uuid7 now random = Inr s \<and> assertUuid7 s field = Inr () \<and>
    int (uuid7OccurredAt s) = now"
proof -
  let ?t = "timestamp_bytes 6 (nat now)" and ?r = "drop 6 random"
  define bs where "bs = ((?t @ ?r)[6 := ((?t @ ?r) ! 6 AND 0x0f) OR 0x70])"
  define cs where "cs = bs[8 := (bs ! 8 AND 0x3f) OR 0x80]"
  let ?d = "concat (map byte_hex cs)"
  have len: "length cs = 16" using assms(3) by (simp add: cs_def bs_def)
  then have d: "length ?d = 32" "list_all is_hex_lower ?d" by (simp_all add: bytes_hex_facts)
  have "cs ! 6 = ((?t @ ?r) ! 6 AND 0x0f) OR 0x70" using assms(3) by (simp add: cs_def bs_def)
  then have "?d ! 12 = CHR ''7''"
    using concat_byte_hex_nth [of 6 cs] len version_nibble by simp
  moreover have "cs ! 8 = (bs ! 8 AND 0x3f) OR 0x80" using assms(3) by (simp add: cs_def bs_def)
  then have "?d ! 16 \<in> set ''89ab''"
    using concat_byte_hex_nth [of 8 cs] len hex_char_variant [OF variant_nibble [of "bs ! 8"]]
    by simp
  ultimately have "assertUuid7 (uuid_format ?d) field = Inr ()"
    using d by (intro assertUuid7_pattern uuid_format_matches) auto
  moreover have "take 6 cs = ?t" by (simp add: cs_def bs_def)
  then have "?d = concat (map byte_hex ?t) @ concat (map byte_hex (drop 6 cs))"
    by (metis append_take_drop_id concat_append map_append)
  then have "take 12 ?d = concat (map byte_hex ?t)" by (simp add: bytes_hex_facts)
  then have "uuid7OccurredAt (uuid_format ?d) = nat now"
    using d(2) assms(2) by (simp add: uuid7OccurredAt_def uuid_format_plain from_hex_timestamp_bytes)
  moreover have "manager_uuid7 now random = Inr (uuid_format ?d)"
    using assms(1,2) by (simp add: manager_uuid7_def Let_def cs_def bs_def)
  ultimately show ?thesis using assms(1) by auto
qed

theorem manager_uuid7_accepted_witness:
  "\<exists>s. manager_uuid7 1700000000000 (replicate 16 255) = Inr s \<and>
     assertUuid7 s ''node_id'' = Inr () \<and> int (uuid7OccurredAt s) = 1700000000000"
  by (rule manager_uuid7_accepted) simp_all

end
