(* ===== verification/Delivery.thy ===== *)
theory Delivery
  imports Targets RetryIdem Ids
begin

text \<open>
  Writing: \<open>memoryRecord\<close>, \<open>#deliver\<close>, \<open>#createMissingSession\<close>,
  \<open>#finishDeliveryError\<close>, \<open>#retryEntry\<close> and \<open>#drain\<close> of
  \<open>apps/mcp/src/router.ts\<close>, over the durable retry queue.  What a delivery relies on of the queue
  is the locale \<open>delivery_queue\<close>, of which the queue's model is an instance.

  A delivery makes requests and then one queue operation; the deliveries of one \<open>Promise.all\<close> run
  together, and their queue operations one at a time in any order, which is the argument
  \<open>order\<close>.  The network answers by the target and the number of the request in the delivery.
\<close>

section \<open>The interface of the queue\<close>

record 'q queue_api =
  qa_resolve :: "string \<Rightarrow> string \<Rightarrow> 'q \<Rightarrow> 'q \<times> unit res"
  qa_mark :: "string \<Rightarrow> string \<Rightarrow> string \<Rightarrow> 'q \<Rightarrow> 'q \<times> unit res"

datatype delivery_state = Stored | Pending | Failed

record delivery_status =
  ds_status :: delivery_state
  ds_http :: "nat option"
  ds_error :: "string option"

record delivery_env =
  de_fmt :: "rat \<Rightarrow> string"
  de_parse :: "string \<Rightarrow> json option"
  de_net :: "string \<Rightarrow> nat \<Rightarrow> http_request \<Rightarrow> outcome"

section \<open>One delivery\<close>

definition str_prop :: "fields \<Rightarrow> string \<Rightarrow> string" where
  "str_prop o1 key = (case str_field o1 key of None \<Rightarrow> [] | Some s \<Rightarrow> s)"

definition scope_of_json :: "json \<Rightarrow> scope option" where
  "scope_of_json v =
     map_option (\<lambda>o1. \<lparr>workspace_id = str_prop o1 ''workspace_id'', project_id = str_prop o1 ''project_id''\<rparr>) (as_object v)"

text \<open>\<open>write.origin_scopes?.[target] ?? this.#scopeFor(target, ...)\<close>\<close>

definition write_scope :: "router \<Rightarrow> fields \<Rightarrow> string \<Rightarrow> scope" where
  "write_scope r write target =
     (case Option.bind (Option.bind (obj_field write ''origin_scopes'') (\<lambda>o1. oget o1 target)) scope_of_json of
        Some sc \<Rightarrow> sc
      | None \<Rightarrow> scopeFor r target
          \<lparr>workspace_id = str_prop write ''workspace_id'', project_id = str_prop write ''project_id''\<rparr>)"

definition batch_options :: "router \<Rightarrow> fields \<Rightarrow> string \<Rightarrow> core_options" where
  "batch_options r write target =
     (let sc = write_scope r write target
      in \<lparr>opt_body = Some ([(''workspace_id'', JStr (workspace_id sc)), (''project_id'', JStr (project_id sc)),
                            (''session_id'', JStr (str_prop write ''session_id''))] @
                           (case oget write ''record'' of None \<Rightarrow> [(''records'', JArr [JNull])]
                              | Some rec \<Rightarrow> [(''records'', JArr [rec])])),
          opt_query = [], opt_idempotencyKey = Some (str_prop write ''record_id''), opt_expectJson = False,
          opt_maxResponseBytes = None\<rparr>)"

definition postBatch :: "delivery_env \<Rightarrow> router \<Rightarrow> core_client \<Rightarrow> fields \<Rightarrow> string \<Rightarrow> nat \<Rightarrow> exn + unit" where
  "postBatch env r client write target n =
     (let options = batch_options r write target
      in rbind (core_request (de_parse env) client options
                 (de_net env target n (core_http_request (de_fmt env) client ''POST'' ''/v1/records:batch'' options)))
           (\<lambda>_. Inr ()))"

definition session_create_options :: "fields \<Rightarrow> core_options" where
  "session_create_options write =
     (let sessionId = str_prop write ''session_id'';
          sourceApp = (case Option.bind (obj_field write ''record'') (\<lambda>rec. str_field rec ''source_app'') of
                         Some s \<Rightarrow> if s = [] then ''Agent session'' else s
                       | None \<Rightarrow> ''Agent session'')
      in \<lparr>opt_body = Some [(''id'', JStr sessionId), (''external_key'', JStr sessionId), (''name'', JStr sourceApp)],
          opt_query = [], opt_idempotencyKey = None, opt_expectJson = True, opt_maxResponseBytes = None\<rparr>)"

definition session_create_path :: "scope \<Rightarrow> string" where
  "session_create_path sc =
     ''/v1/workspaces/'' @ encodeURIComponent (workspace_id sc) @ ''/projects/'' @ encodeURIComponent (project_id sc) @ ''/sessions''"

text \<open>\<open>{ created, error? }\<close>: whether the answer names the session; what was thrown\<close>

definition createMissingSession :: "delivery_env \<Rightarrow> router \<Rightarrow> core_client \<Rightarrow> fields \<Rightarrow> string \<Rightarrow> exn + bool" where
  "createMissingSession env r client write target =
     (let options = session_create_options write
      in rbind (core_request (de_parse env) client options
                 (de_net env target 1
                   (core_http_request (de_fmt env) client ''POST'' (session_create_path (write_scope r write target)) options)))
           (\<lambda>response. Inr (Option.bind (as_object response) (\<lambda>o1. str_field o1 ''id'') = Some (str_prop write ''session_id''))))"

definition finishDeliveryError ::
  "'q queue_api \<Rightarrow> fields \<Rightarrow> string \<Rightarrow> exn \<Rightarrow> 'q \<Rightarrow> 'q \<times> delivery_status res" where
  "finishDeliveryError api write target e q =
     (let recordId = str_prop write ''record_id'';
          after = (\<lambda>st qr. (fst qr, case snd qr of Inl err \<Rightarrow> Inl err | Inr _ \<Rightarrow> Inr st))
      in case e of
           CoreRequestError c retryable http \<Rightarrow>
             if retryable
             then after \<lparr>ds_status = Pending, ds_http = http, ds_error = Some c\<rparr> (qa_mark api recordId target c q)
             else after \<lparr>ds_status = Failed, ds_http = http, ds_error = Some c\<rparr> (qa_resolve api recordId target q)
         | _ \<Rightarrow> after \<lparr>ds_status = Pending, ds_http = None, ds_error = Some ''internal_error''\<rparr>
                  (qa_mark api recordId target ''internal_error'' q))"

text \<open>\<open>try { post; resolve; stored } catch (e) { handler(e) }\<close>; an error of \<open>resolve\<close> is caught too.\<close>

definition stored_or ::
  "'q queue_api \<Rightarrow> fields \<Rightarrow> string \<Rightarrow> exn + unit \<Rightarrow> (exn \<Rightarrow> 'q \<Rightarrow> 'q \<times> delivery_status res) \<Rightarrow> 'q \<Rightarrow>
   'q \<times> delivery_status res" where
  "stored_or api write target posted handler q =
     (case posted of
        Inl e \<Rightarrow> handler e q
      | Inr _ \<Rightarrow>
          (case qa_resolve api (str_prop write ''record_id'') target q of
             (q', Inl err) \<Rightarrow> handler (OtherError err) q'
           | (q', Inr _) \<Rightarrow> (q', Inr \<lparr>ds_status = Stored, ds_http = None, ds_error = None\<rparr>)))"

fun http_status_of :: "exn \<Rightarrow> nat option" where
  "http_status_of (CoreRequestError c retryable http) = http"
| "http_status_of _ = None"

fun is_retryable :: "exn \<Rightarrow> bool" where
  "is_retryable (CoreRequestError c retryable http) = retryable"
| "is_retryable _ = False"

definition deliver :: "'q queue_api \<Rightarrow> delivery_env \<Rightarrow> router \<Rightarrow> fields \<Rightarrow> string \<Rightarrow> 'q \<Rightarrow> 'q \<times> delivery_status res" where
  "deliver api env r write target q =
     (case oget (clients r) target of
        None \<Rightarrow> (q, Inr \<lparr>ds_status = Failed, ds_http = None, ds_error = Some ''unknown_target''\<rparr>)
      | Some client \<Rightarrow>
          stored_or api write target (postBatch env r client write target 0)
            (\<lambda>e q1.
               if http_status_of e = Some 404
               then (case createMissingSession env r client write target of
                       Inr True \<Rightarrow>
                         stored_or api write target (postBatch env r client write target 2)
                           (finishDeliveryError api write target) q1
                     | Inl e' \<Rightarrow>
                         if is_retryable e' then finishDeliveryError api write target e' q1
                         else finishDeliveryError api write target e q1
                     | Inr False \<Rightarrow> finishDeliveryError api write target e q1)
               else finishDeliveryError api write target e q1) q)"

text \<open>The deliveries of one \<open>Promise.all\<close>, in the order their queue operations take place\<close>

fun deliver_all :: "(string \<Rightarrow> 'q \<Rightarrow> 'q \<times> 'a res) \<Rightarrow> string list \<Rightarrow> 'q \<Rightarrow> 'q \<times> (string \<times> 'a res) list" where
  "deliver_all f [] q = (q, [])"
| "deliver_all f (t # ts) q =
     (let (q1, st) = f t q; (q2, rest) = deliver_all f ts q1 in (q2, (t, st) # rest))"

section \<open>The contract of the queue, and what a delivery makes of it\<close>

text \<open>A node accepted the batch: at the first post, or at the second after the session was created.\<close>

definition accepted :: "delivery_env \<Rightarrow> router \<Rightarrow> core_client \<Rightarrow> fields \<Rightarrow> string \<Rightarrow> bool" where
  "accepted env r client write target =
     (is_ok (postBatch env r client write target 0) \<or>
      (\<exists>e. postBatch env r client write target 0 = Inl e \<and> http_status_of e = Some 404) \<and>
      createMissingSession env r client write target = Inr True \<and>
      is_ok (postBatch env r client write target 2))"

text \<open>What a delivery leaves: pending exactly when it says so\<close>

definition settled ::
  "('q \<Rightarrow> bool) \<Rightarrow> ('q \<Rightarrow> (string \<times> string) set) \<Rightarrow> string \<Rightarrow> string \<Rightarrow> 'q \<Rightarrow> 'q \<times> delivery_status res \<Rightarrow> bool" where
  "settled valid pend rid t q out =
     (valid (fst out) \<and>
      (\<exists>st. snd out = Inr st \<and>
         pend (fst out) = (if ds_status st = Pending then pend q else pend q - {(rid, t)})))"

locale delivery_queue =
  fixes api :: "'q queue_api"
    and inv :: "'q \<Rightarrow> bool"
    and pend :: "'q \<Rightarrow> (string \<times> string) set"
  assumes resolve_law:
      "inv q \<Longrightarrow> (rid, t) \<in> pend q \<Longrightarrow>
         \<exists>q'. qa_resolve api rid t q = (q', Inr ()) \<and> inv q' \<and> pend q' = pend q - {(rid, t)}"
    and mark_law:
      "inv q \<Longrightarrow> (rid, t) \<in> pend q \<Longrightarrow> \<exists>q'. qa_mark api rid t c q = (q', Inr ()) \<and> inv q' \<and> pend q' = pend q"
begin

lemma finish_settled:
  assumes "inv q" and "(str_prop write ''record_id'', t) \<in> pend q"
  shows "settled inv pend (str_prop write ''record_id'') t q (finishDeliveryError api write t e q)"
proof -
  let ?rid = "str_prop write ''record_id''"
  obtain q1 where res: "qa_resolve api ?rid t q = (q1, Inr ())" "inv q1" "pend q1 = pend q - {(?rid, t)}"
    using resolve_law [OF assms] by blast
  obtain qi where int: "qa_mark api ?rid t ''internal_error'' q = (qi, Inr ())" "inv qi" "pend qi = pend q"
    using mark_law [OF assms] by blast
  show ?thesis
  proof (cases e)
    case (CoreRequestError c retryable http)
    obtain q2 where "qa_mark api ?rid t c q = (q2, Inr ())" "inv q2" "pend q2 = pend q"
      using mark_law [OF assms] by blast
    then show ?thesis using res by (cases retryable) (simp_all add: settled_def finishDeliveryError_def CoreRequestError)
  qed (simp_all add: settled_def finishDeliveryError_def int)
qed

lemma stored_settled:
  assumes "inv q" and "(str_prop write ''record_id'', t) \<in> pend q"
    and "\<And>e. posted = Inl e \<Longrightarrow> settled inv pend (str_prop write ''record_id'') t q (handler e q)"
  shows "settled inv pend (str_prop write ''record_id'') t q (stored_or api write t posted handler q)"
proof (cases posted)
  case (Inl e)
  then show ?thesis using assms(3) by (simp add: stored_or_def)
next
  case (Inr u)
  obtain q1 where "qa_resolve api (str_prop write ''record_id'') t q = (q1, Inr ())" "inv q1"
    "pend q1 = pend q - {(str_prop write ''record_id'', t)}"
    using resolve_law [OF assms(1,2)] by blast
  then show ?thesis using Inr by (simp add: stored_or_def settled_def)
qed

lemma deliver_settled:
  assumes "inv q" and "(str_prop write ''record_id'', t) \<in> pend q" and "oget (clients r) t = Some client"
  shows "settled inv pend (str_prop write ''record_id'') t q (deliver api env r write t q)"
proof -
  note f = finish_settled [OF assms(1,2)]
  have "settled inv pend (str_prop write ''record_id'') t q
      (stored_or api write t (postBatch env r client write t 2) (finishDeliveryError api write t) q)"
    by (rule stored_settled [OF assms(1,2)]) (rule f)
  then show ?thesis
    unfolding deliver_def assms(3) option.case
    by (intro stored_settled [OF assms(1,2)]) (auto simp: f split: sum.splits bool.splits)
qed

lemma deliver_stored:
  assumes "inv q" and "(str_prop write ''record_id'', t) \<in> pend q" and "oget (clients r) t = Some client"
    and "snd (deliver api env r write t q) = Inr st"
  shows "ds_status st = Stored \<longleftrightarrow> accepted env r client write t"
proof -
  have fin: "snd (finishDeliveryError api write t e q) = Inr s \<Longrightarrow> ds_status s \<noteq> Stored" for e s
    by (cases e) (auto simp: finishDeliveryError_def Let_def split: sum.splits if_splits)
  obtain q1 where q1: "qa_resolve api (str_prop write ''record_id'') t q = (q1, Inr ())"
    using resolve_law [OF assms(1,2)] by blast
  show ?thesis
    using assms(3,4) fin q1
    by (auto simp: deliver_def stored_or_def accepted_def is_ok_def split: sum.splits if_splits bool.splits)
qed

text \<open>All deliveries of a record\<close>

definition all_settled ::
  "delivery_env \<Rightarrow> router \<Rightarrow> fields \<Rightarrow> string list \<Rightarrow> 'q \<Rightarrow> 'q \<times> (string \<times> delivery_status res) list \<Rightarrow> bool" where
  "all_settled env r write order q out =
     (inv (fst out) \<and> map fst (snd out) = order \<and>
      (\<forall>(t, st) \<in> set (snd out). \<exists>s client. st = Inr s \<and> oget (clients r) t = Some client \<and>
         (ds_status s = Stored \<longleftrightarrow> accepted env r client write t) \<and>
         ((str_prop write ''record_id'', t) \<in> pend (fst out) \<longleftrightarrow> ds_status s = Pending)) \<and>
      (\<forall>p. p \<notin> {str_prop write ''record_id''} \<times> set order \<longrightarrow> p \<in> pend (fst out) \<longleftrightarrow> p \<in> pend q))"

lemma deliver_all_settled:
  assumes "inv q" and "distinct order"
    and "\<forall>t \<in> set order. (str_prop write ''record_id'', t) \<in> pend q \<and> oget (clients r) t \<noteq> None"
  shows "all_settled env r write order q (deliver_all (deliver api env r write) order q)"
  using assms
proof (induction order arbitrary: q)
  case Nil
  then show ?case by (simp add: all_settled_def)
next
  case (Cons t ts)
  let ?rid = "str_prop write ''record_id''"
  obtain client where client: "oget (clients r) t = Some client" using Cons.prems(3) by auto
  have pt: "(?rid, t) \<in> pend q" using Cons.prems(3) by simp
  obtain q1 st1 where 1: "deliver api env r write t q = (q1, st1)" by fastforce
  have "settled inv pend ?rid t q (q1, st1)" using deliver_settled [OF Cons.prems(1) pt client, of env] 1 by simp
  then obtain s where s: "st1 = Inr s" "inv q1" "pend q1 = (if ds_status s = Pending then pend q else pend q - {(?rid, t)})"
    by (auto simp: settled_def)
  have acc: "ds_status s = Stored \<longleftrightarrow> accepted env r client write t"
    using deliver_stored [OF Cons.prems(1) pt client, of env s] 1 s(1) by simp
  have "\<forall>t' \<in> set ts. (?rid, t') \<in> pend q1 \<and> oget (clients r) t' \<noteq> None" using Cons.prems(2,3) s(3) by auto
  then have IH: "all_settled env r write ts q1 (deliver_all (deliver api env r write) ts q1)"
    using Cons.IH s(2) Cons.prems(2) by simp
  obtain q2 rest where 2: "deliver_all (deliver api env r write) ts q1 = (q2, rest)" by fastforce
  have q2: "inv q2" "map fst rest = ts"
    and rest: "\<forall>(t', st) \<in> set rest. \<exists>s client. st = Inr s \<and> oget (clients r) t' = Some client \<and>
         (ds_status s = Stored \<longleftrightarrow> accepted env r client write t') \<and> ((?rid, t') \<in> pend q2 \<longleftrightarrow> ds_status s = Pending)"
    and keep: "\<And>p. p \<notin> {?rid} \<times> set ts \<Longrightarrow> p \<in> pend q2 \<longleftrightarrow> p \<in> pend q1"
    using IH unfolding all_settled_def 2 fst_conv snd_conv by blast+
  have "(?rid, t) \<in> pend q2 \<longleftrightarrow> ds_status s = Pending"
    using keep [of "(?rid, t)"] Cons.prems(2) s(3) pt by auto
  moreover have "p \<in> pend q2 \<longleftrightarrow> p \<in> pend q" if "p \<notin> {?rid} \<times> set (t # ts)" for p
    using keep [of p] s(3) that by auto
  ultimately show ?case
    using q2 rest s(1) acc client by (simp add: all_settled_def 1 2)
qed

end

section \<open>The retry queue keeps the contract\<close>

definition retry_api :: "int \<Rightarrow> rqueue queue_api" where
  "retry_api now =
     \<lparr>qa_resolve = (\<lambda>rid t q. run_op (resolve rid t q) q),
      qa_mark = (\<lambda>rid t c q. run_op (markPending now now rid t c q) q)\<rparr>"

lemma retry_api_resolve:
  assumes "rq_inv q" and "(rid, t) \<in> pending q"
  shows "\<exists>q'. qa_resolve (retry_api now) rid t q = (q', Inr ()) \<and> rq_inv q' \<and> pending q' = pending q - {(rid, t)}"
proof -
  have r: "assertRecordId rid" using assms pending_assert by (auto simp: rq_inv_def)
  note e = resolve_effect [OF assms(1) r, of t]
  have "rq_inv (fst (run_op (resolve rid t q) q))" using e(2) by (simp add: op_atomic_def)
  moreover have "snd (run_op (resolve rid t q) q) = Inr ()" using e(1) by (simp add: run_op_def)
  ultimately show ?thesis
    using e(3) by (intro exI [of _ "fst (run_op (resolve rid t q) q)"]) (simp add: retry_api_def prod_eq_iff)
qed

lemma retry_api_mark:
  assumes "rq_inv q" and "(rid, t) \<in> pending q"
  shows "\<exists>q'. qa_mark (retry_api now) rid t c q = (q', Inr ()) \<and> rq_inv q' \<and> pending q' = pending q"
proof -
  note e = mark_effect [OF assms(1), of now now rid t c]
  have "rq_inv (fst (run_op (markPending now now rid t c q) q))" using e(1) by (simp add: op_atomic_def)
  moreover have "snd (run_op (markPending now now rid t c q) q) = Inr ()" using e(3) assms(2) by (simp add: run_op_def)
  ultimately show ?thesis
    using e(2) by (intro exI [of _ "fst (run_op (markPending now now rid t c q) q)"]) (simp add: retry_api_def prod_eq_iff)
qed

interpretation rqd: delivery_queue "retry_api now" rq_inv pending for now
  by unfold_locales (use retry_api_resolve retry_api_mark in blast)+

end
