(* ===== verification/Extract.thy ===== *)
theory Extract
  imports JsValue Clients
begin

text \<open>
  Reading the answers of the Core nodes, the functions at the top of \<open>apps/mcp/src/router.ts\<close>:
  the extractors with their shape checks, the context of a recalled record, content hashes, the
  de-duplication key, truncation and compaction.  SHA-256 (in hexadecimal) is the parameter
  \<open>sha\<close>.
\<close>

section \<open>Objects and truncation\<close>

text \<open>\<open>objectItems(value)\<close> and \<open>objectItems(value, memoryKind)\<close>\<close>

definition objectItems :: "json option \<Rightarrow> fields list" where
  "objectItems v = (case Option.bind v as_array of None \<Rightarrow> [] | Some xs \<Rightarrow> List.map_filter as_object xs)"

definition objectItems_kind :: "json option \<Rightarrow> string \<Rightarrow> fields list" where
  "objectItems_kind v memoryKind = map (oset ''memory_kind'' (JStr memoryKind)) (objectItems v)"

text \<open>A property that is left out when its value is \<open>undefined\<close>\<close>

definition opt_prop :: "string \<Rightarrow> json option \<Rightarrow> fields" where
  "opt_prop key v = (case v of None \<Rightarrow> [] | Some j \<Rightarrow> [(key, j)])"

text \<open>\<open>new TextDecoder().decode\<close> of a prefix of an encoded string: a byte-order mark at the front
  is dropped, a sequence that is cut becomes U+FFFD.\<close>

definition utf8_len :: "char \<Rightarrow> nat" where
  "utf8_len c = (if code c < 192 then 1 else if code c < 224 then 2 else if code c < 240 then 3 else 4)"

definition replacement :: string where
  "replacement = [CHR 0xEF, CHR 0xBF, CHR 0xBD]"

definition byte_order_mark :: string where
  "byte_order_mark = [CHR 0xEF, CHR 0xBB, CHR 0xBF]"

function utf8_decode :: "string \<Rightarrow> string" where
  "utf8_decode s =
     (case s of
        [] \<Rightarrow> []
      | c # cs \<Rightarrow>
          if utf8_len c \<le> length s then take (utf8_len c) s @ utf8_decode (drop (utf8_len c) s)
          else replacement)"
  by pat_completeness auto
termination
  by (relation "measure length") (auto simp: utf8_len_def split: if_splits)

declare utf8_decode.simps [simp del]

definition drop_bom :: "string \<Rightarrow> string" where
  "drop_bom s = (if starts_with byte_order_mark s then drop 3 s else s)"

definition truncateUtf8 :: "string \<Rightarrow> nat \<Rightarrow> string" where
  "truncateUtf8 v maximumBytes =
     (if length v \<le> maximumBytes then v else utf8_decode (drop_bom (take maximumBytes v)))"

definition optionalFields :: "fields \<Rightarrow> string list \<Rightarrow> fields" where
  "optionalFields input keys = foldl (\<lambda>result key. case oget input key of None \<Rightarrow> result | Some v \<Rightarrow> oset key v result) [] keys"

definition compact_keys :: "string list" where
  "compact_keys =
     [''origin_node'', ''origin_nodes'', ''origin_scope'', ''logical_scope'', ''memory_kind'', ''record_id'', ''claim_id'', ''snippet_ref'',
      ''result_id'', ''session_id'', ''matched_record_ids'', ''content_hash'', ''status'', ''derivation_method'', ''rank'', ''rrf_score'', ''created_at'']"

definition set_if :: "string \<Rightarrow> json option \<Rightarrow> fields \<Rightarrow> fields" where
  "set_if key v o1 = (case v of None \<Rightarrow> o1 | Some j \<Rightarrow> oset key j o1)"

definition compactItem :: "(rat \<Rightarrow> string) \<Rightarrow> fields \<Rightarrow> fields" where
  "compactItem fmt item =
     (let compact = optionalFields item compact_keys;
          compact = set_if ''content'' (map_option (\<lambda>s. JStr (truncateUtf8 s (64 * 1024))) (str_field item ''content'')) compact;
          compact = set_if ''matched_content''
            (map_option (\<lambda>s. JStr (truncateUtf8 s (32 * 1024))) (str_field item ''matched_content'')) compact;
          compact = oset ''truncated'' (JBool True) compact
      in oset ''original_bytes'' (JNum (of_nat (serialized_bytes fmt (JObj item)))) compact)"

section \<open>Hashes and keys\<close>

definition contentHash :: "(string \<Rightarrow> string) \<Rightarrow> fields \<Rightarrow> string option" where
  "contentHash sha item =
     (if str_field item ''content_hash'' \<notin> {None, Some []} then str_field item ''content_hash''
      else (case str_field item ''content'' of
              None \<Rightarrow> None
            | Some content \<Rightarrow> Some (sha (collapse_ws (trim content)))))"

text \<open>A string property that is not empty\<close>

definition str_truthy :: "fields \<Rightarrow> string \<Rightarrow> string option" where
  "str_truthy item key = (case str_field item key of None \<Rightarrow> None | Some s \<Rightarrow> if s = [] then None else Some s)"

definition dedupeKey :: "(string \<Rightarrow> string) \<Rightarrow> fields \<Rightarrow> string \<Rightarrow> string \<Rightarrow> string" where
  "dedupeKey sha item nodeId fallback =
     (case str_truthy item ''record_id'' of
        Some r \<Rightarrow> ''record:'' @ r
      | None \<Rightarrow>
     (case str_truthy item ''claim_id'' of
        Some c \<Rightarrow> ''claim:'' @ c
      | None \<Rightarrow>
     (case str_truthy item ''result_id'' of
        Some r \<Rightarrow> ''result:'' @ nodeId @ '':'' @ r
      | None \<Rightarrow>
     (let kind = (case str_field item ''memory_kind'' of Some k \<Rightarrow> k | None \<Rightarrow> ''content'')
      in case contentHash sha item of
           Some hash \<Rightarrow> (if hash = [] then fallback else kind @ '':'' @ nodeId @ '':'' @ hash)
         | None \<Rightarrow> fallback))))"

section \<open>Recall\<close>

text \<open>\<open>snippetsByRecord\<close>: for each record id, the snippets that matched it\<close>

definition attach_snippet :: "fields \<Rightarrow> (string \<times> fields list) list \<Rightarrow> (string \<times> fields list) list" where
  "attach_snippet snippet m =
     (case arr_field snippet ''matched_record_ids'' of
        None \<Rightarrow> m
      | Some ids \<Rightarrow>
          fold (\<lambda>recordId m'. oset recordId ((case oget m' recordId of None \<Rightarrow> [] | Some l \<Rightarrow> l) @ [snippet]) m')
            (List.map_filter as_string ids) m)"

definition snippets_by_record :: "fields list \<Rightarrow> (string \<times> fields list) list" where
  "snippets_by_record snippets = fold attach_snippet snippets []"

text \<open>\<open>findIndex\<close>, and the five records around the target\<close>

fun find_index :: "('a \<Rightarrow> bool) \<Rightarrow> 'a list \<Rightarrow> nat option" where
  "find_index p [] = None"
| "find_index p (x # xs) = (if p x then Some 0 else map_option Suc (find_index p xs))"

definition local_context :: "string \<Rightarrow> fields list \<Rightarrow> fields list" where
  "local_context recordId snippetRecords =
     (case find_index (\<lambda>candidate. oget candidate ''id'' = Some (JStr recordId)) snippetRecords of
        Some i \<Rightarrow> take (i + 3 - (i - 2)) (drop (i - 2) snippetRecords)
      | None \<Rightarrow> take 5 snippetRecords)"

definition context_entry :: "(rat \<Rightarrow> string) \<Rightarrow> (string \<Rightarrow> string) \<Rightarrow> fields \<Rightarrow> string \<times> fields" where
  "context_entry fmt sha contextRecord =
     ((case str_field contextRecord ''id'' of Some i \<Rightarrow> i | None \<Rightarrow> sha (stringify fmt (JObj contextRecord))),
      (case str_field contextRecord ''content'' of
         Some content \<Rightarrow>
           if length content > 16 * 1024
           then oset ''content_truncated'' (JBool True) (oset ''content'' (JStr (truncateUtf8 content (16 * 1024))) contextRecord)
           else contextRecord
       | None \<Rightarrow> contextRecord))"

definition context_by_id :: "(rat \<Rightarrow> string) \<Rightarrow> (string \<Rightarrow> string) \<Rightarrow> string \<Rightarrow> fields list \<Rightarrow> (string \<times> fields) list" where
  "context_by_id fmt sha recordId snippets =
     from_entries (map (context_entry fmt sha)
       (concat (map (\<lambda>snippet. local_context recordId (objectItems (oget snippet ''records''))) snippets)))"

definition recall_record ::
  "(rat \<Rightarrow> string) \<Rightarrow> (string \<Rightarrow> string) \<Rightarrow> (string \<times> fields list) list \<Rightarrow> fields \<Rightarrow> fields" where
  "recall_record fmt sha snippetsByRecord rec =
     (case str_field rec ''record_id'' of
        None \<Rightarrow> rec
      | Some recordId \<Rightarrow>
          (case oget snippetsByRecord recordId of
             Some (primarySnippet # others) \<Rightarrow>
               oset ''context_records'' (JArr (map (JObj \<circ> snd) (context_by_id fmt sha recordId (primarySnippet # others))))
                 (oset ''record_snippet''
                    (JObj ([(''snippet_ref'', JStr (sha (canonical_json fmt (JObj primarySnippet))))] @
                           opt_prop ''session_id'' (oget primarySnippet ''session_id'') @
                           opt_prop ''matched_record_ids'' (oget primarySnippet ''matched_record_ids''))) rec)
           | _ \<Rightarrow> rec))"

text \<open>\<open>include\<close>: whether it has \<open>"records"\<close> and whether it has \<open>"claims"\<close>\<close>

definition extractRecallItems ::
  "(rat \<Rightarrow> string) \<Rightarrow> (string \<Rightarrow> string) \<Rightarrow> string list \<Rightarrow> json \<Rightarrow> exn + fields list" where
  "extractRecallItems fmt sha included payload =
     (case as_object payload of
        None \<Rightarrow> Inl (InvalidCoreResponseError ''invalid recall response'')
      | Some o1 \<Rightarrow>
          if arr_field o1 ''records'' = None \<or> arr_field o1 ''claims'' = None \<or> arr_field o1 ''record_snippets'' = None
          then Inl (InvalidCoreResponseError ''invalid recall response'')
          else let byRecord = snippets_by_record (objectItems (oget o1 ''record_snippets''))
          in Inr ((if ''records'' \<in> set included
                   then map (recall_record fmt sha byRecord) (objectItems_kind (oget o1 ''records'') ''record'') else []) @
                  (if ''claims'' \<in> set included then objectItems_kind (oget o1 ''claims'') ''claim'' else [])))"

section \<open>The other extractors\<close>

definition requireContainerArrays :: "string list \<Rightarrow> json \<Rightarrow> exn + fields list" where
  "requireContainerArrays keys payload =
     (case as_object payload of
        None \<Rightarrow> Inl (InvalidCoreResponseError ''invalid Core response'')
      | Some o1 \<Rightarrow>
          if list_ex (\<lambda>key. arr_field o1 key = None) keys then Inl (InvalidCoreResponseError ''invalid Core response'')
          else Inr [o1])"

definition extractContainer :: "json \<Rightarrow> exn + fields list" where
  "extractContainer payload =
     (case as_object payload of
        None \<Rightarrow> Inl (InvalidCoreResponseError ''invalid Core response'')
      | Some o1 \<Rightarrow> Inr [o1])"

definition extractRecordContext :: "json \<Rightarrow> exn + fields list" where
  "extractRecordContext payload =
     (case as_object payload of
        None \<Rightarrow> Inl (InvalidCoreResponseError ''invalid record context response'')
      | Some o1 \<Rightarrow>
          if str_field o1 ''target_record_id'' = None \<or> arr_field o1 ''records'' = None
          then Inl (InvalidCoreResponseError ''invalid record context response'') else Inr [o1])"

definition extractClaimEvidence :: "json \<Rightarrow> exn + fields list" where
  "extractClaimEvidence payload =
     (case as_object payload of
        None \<Rightarrow> Inl (InvalidCoreResponseError ''invalid claim evidence response'')
      | Some o1 \<Rightarrow>
          if obj_field o1 ''claim'' = None \<or> arr_field o1 ''evidence'' = None
          then Inl (InvalidCoreResponseError ''invalid claim evidence response'') else Inr [o1])"

section \<open>Truncation\<close>

lemma utf8_decode_Nil [simp]: "utf8_decode [] = []"
  by (simp add: utf8_decode.simps)

text \<open>What is decoded from a prefix: complete characters of the string, then at most one mark.\<close>

lemma utf8_decode_shape:
  "\<exists>n k. k \<le> 3 \<and> length s = n + k \<and> utf8_decode s = take n s @ (if k = 0 then [] else replacement)"
proof (induction s rule: utf8_decode.induct)
  case (1 s)
  show ?case
  proof (cases s)
    case Nil
    then show ?thesis by (intro exI [of _ 0]) simp
  next
    case (Cons c cs)
    show ?thesis
    proof (cases "utf8_len c \<le> length s")
      case True
      then obtain n k where nk: "k \<le> 3" "length (drop (utf8_len c) s) = n + k"
        "utf8_decode (drop (utf8_len c) s) = take n (drop (utf8_len c) s) @ (if k = 0 then [] else replacement)"
        using 1 Cons by blast
      have "utf8_decode s = take (utf8_len c) s @ take n (drop (utf8_len c) s) @ (if k = 0 then [] else replacement)"
        using True unfolding nk(3) [symmetric] by (subst utf8_decode.simps) (simp add: Cons)
      then have "utf8_decode s = take (utf8_len c + n) s @ (if k = 0 then [] else replacement)"
        by (simp add: take_add)
      moreover have "length s = (utf8_len c + n) + k" using nk(2) True by simp
      ultimately show ?thesis using nk(1) by blast
    next
      case False
      moreover have "utf8_len c \<le> 4" by (simp add: utf8_len_def)
      ultimately have "length s \<le> 3" "length s \<noteq> 0" using Cons by simp_all
      moreover have "utf8_decode s = replacement" using False by (subst utf8_decode.simps) (simp add: Cons)
      ultimately show ?thesis by (intro exI [of _ 0] exI [of _ "length s"]) simp
    qed
  qed
qed

lemma length_drop_bom_le: "length (drop_bom s) \<le> length s"
  by (simp add: drop_bom_def)

text \<open>
  Truncation of content.  A text within the limit is kept; a longer one becomes a prefix of
  itself (less a byte-order mark at its front), at most three bytes short of the limit, followed by at
  most one replacement character, so that it may exceed the limit, but by no more than two bytes.
\<close>

theorem truncate_utf8_spec:
  "if length v \<le> maximumBytes then truncateUtf8 v maximumBytes = v
   else length (truncateUtf8 v maximumBytes) \<le> maximumBytes + 2 \<and>
     (\<exists>n k. k \<le> 3 \<and> length (drop_bom (take maximumBytes v)) = n + k \<and>
        truncateUtf8 v maximumBytes = take n (drop_bom (take maximumBytes v)) @ (if k = 0 then [] else replacement))"
proof (cases "length v \<le> maximumBytes")
  case False
  let ?p = "drop_bom (take maximumBytes v)"
  obtain n k where nk: "k \<le> 3" "length ?p = n + k"
    "utf8_decode ?p = take n ?p @ (if k = 0 then [] else replacement)"
    using utf8_decode_shape by blast
  have t: "truncateUtf8 v maximumBytes = utf8_decode ?p" using False by (simp add: truncateUtf8_def)
  have "length ?p \<le> maximumBytes" using length_drop_bom_le [of "take maximumBytes v"] False by simp
  then have "length (utf8_decode ?p) \<le> maximumBytes + 2" using nk by (auto simp: replacement_def)
  moreover have "\<exists>n k. k \<le> 3 \<and> length ?p = n + k \<and> truncateUtf8 v maximumBytes = take n ?p @ (if k = 0 then [] else replacement)"
    unfolding t using nk by blast
  ultimately show ?thesis using False t by simp
qed (simp add: truncateUtf8_def)

text \<open>
  The limit of a truncation is exceeded: cutting inside a three-byte character after its first
  byte leaves two bytes more than were allowed.
\<close>

theorem truncate_utf8_exceeds:
  "length (truncateUtf8 (''ab'' @ [CHR 0xE2, CHR 0x82, CHR 0xAC]) 3) = 3 + 2"
  by code_simp

lemma oget_optionalFields:
  "oget (optionalFields input keys) k = (if k \<in> set keys then oget input k else None)"
proof -
  have "oget (foldl (\<lambda>result key. case oget input key of None \<Rightarrow> result | Some v \<Rightarrow> oset key v result) acc keys) k =
      (if k \<in> set keys \<and> oget input k \<noteq> None then oget input k else oget acc k)" for acc
    by (induction keys arbitrary: acc) (auto split: option.splits)
  then show ?thesis by (auto simp: optionalFields_def)
qed

end
