(* ===== verification/Rrf.thy ===== *)
theory Rrf
  imports Extract
begin

text \<open>
  Reciprocal-rank fusion, \<open>#rrf\<close> of \<open>apps/mcp/src/router.ts\<close>: the map \<open>fused\<close> from
  de-duplication keys to fused entries, filled in one pass over the ranked items, then sorted and
  cut.  Scores are exact rationals where the code has doubles.
\<close>

section \<open>Definitions\<close>

record ranked =
  rk_item :: fields
  rk_node :: string
  rk_order :: nat
  rk_rank :: nat

record fused =
  f_item :: fields
  score :: rat
  bestRank :: nat
  primaryNode :: string
  primaryNodeOrder :: nat
  f_nodes :: "string list"
  f_ranks :: "(string \<times> nat) list"
  f_snippets :: "(string \<times> fields) list"
  f_contexts :: "(string \<times> fields) list"

text \<open>\<open>...(item.k ? { k: item.k } : {})\<close>\<close>

definition copy_if_truthy :: "string \<Rightarrow> fields \<Rightarrow> fields \<Rightarrow> fields" where
  "copy_if_truthy key from o1 =
     (case oget from key of None \<Rightarrow> o1 | Some v \<Rightarrow> if truthy v then oset key v o1 else o1)"

definition collect_one ::
  "(rat \<Rightarrow> string) \<Rightarrow> (string \<Rightarrow> string) \<Rightarrow> ranked \<Rightarrow> fields \<Rightarrow> (string \<times> fields) list \<Rightarrow> (string \<times> fields) list" where
  "collect_one fmt sha r item destination =
     (let variantHash = sha (stringify fmt (JObj item));
          identity = (case str_field item ''id'' of Some i \<Rightarrow> i | None \<Rightarrow> variantHash)
      in oset (rk_node r @ '':'' @ identity @ '':'' @ variantHash)
           (copy_if_truthy ''logical_scope'' (rk_item r)
              (copy_if_truthy ''origin_scope'' (rk_item r)
                 (oset ''origin_node'' (JStr (rk_node r)) item))) destination)"

definition collectObjects ::
  "(rat \<Rightarrow> string) \<Rightarrow> (string \<Rightarrow> string) \<Rightarrow> string \<Rightarrow> ranked \<Rightarrow> (string \<times> fields) list \<Rightarrow> (string \<times> fields) list" where
  "collectObjects fmt sha property r destination =
     fold (collect_one fmt sha r) (objectItems (oget (rk_item r) property)) destination"

definition rank_key :: "(string \<Rightarrow> string) \<Rightarrow> ranked \<Rightarrow> string" where
  "rank_key sha r =
     dedupeKey sha (rk_item r) (rk_node r) (''unique:'' @ rk_node r @ '':'' @ dec_str (rk_rank r))"

definition reciprocal :: "int \<Rightarrow> nat \<Rightarrow> rat" where
  "reciprocal k rank = 1 / (of_int k + of_nat rank)"

definition new_fused :: "(rat \<Rightarrow> string) \<Rightarrow> (string \<Rightarrow> string) \<Rightarrow> int \<Rightarrow> ranked \<Rightarrow> fused" where
  "new_fused fmt sha k r =
     \<lparr>f_item = rk_item r, score = reciprocal k (rk_rank r), bestRank = rk_rank r,
      primaryNode = rk_node r, primaryNodeOrder = rk_order r, f_nodes = [rk_node r],
      f_ranks = [(rk_node r, rk_rank r)],
      f_snippets = collectObjects fmt sha ''record_snippets'' r [],
      f_contexts = collectObjects fmt sha ''context_records'' r []\<rparr>"

definition add_rank :: "int \<Rightarrow> ranked \<Rightarrow> fused \<Rightarrow> fused" where
  "add_rank k r e =
     (case oget (f_ranks e) (rk_node r) of
        None \<Rightarrow> e\<lparr>score := score e + reciprocal k (rk_rank r), f_nodes := f_nodes e @ [rk_node r],
                  f_ranks := oset (rk_node r) (rk_rank r) (f_ranks e)\<rparr>
      | Some priorRank \<Rightarrow>
          if rk_rank r < priorRank
          then e\<lparr>score := score e + reciprocal k (rk_rank r) - reciprocal k priorRank,
                 f_ranks := oset (rk_node r) (rk_rank r) (f_ranks e)\<rparr>
          else e)"

definition take_primary :: "ranked \<Rightarrow> fused \<Rightarrow> fused" where
  "take_primary r e =
     (if rk_rank r < bestRank e \<or> rk_rank r = bestRank e \<and> rk_order r < primaryNodeOrder e
      then e\<lparr>f_item := rk_item r, bestRank := rk_rank r, primaryNode := rk_node r, primaryNodeOrder := rk_order r\<rparr>
      else e)"

definition merge_fused :: "(rat \<Rightarrow> string) \<Rightarrow> (string \<Rightarrow> string) \<Rightarrow> int \<Rightarrow> ranked \<Rightarrow> fused \<Rightarrow> fused" where
  "merge_fused fmt sha k r e =
     (let e1 = add_rank k r e;
          e2 = e1\<lparr>f_snippets := collectObjects fmt sha ''record_snippets'' r (f_snippets e1),
                  f_contexts := collectObjects fmt sha ''context_records'' r (f_contexts e1)\<rparr>
      in take_primary r e2)"

definition fuse_step ::
  "(rat \<Rightarrow> string) \<Rightarrow> (string \<Rightarrow> string) \<Rightarrow> int \<Rightarrow> ranked \<Rightarrow> (string \<times> fused) list \<Rightarrow> (string \<times> fused) list" where
  "fuse_step fmt sha k r fs =
     (case oget fs (rank_key sha r) of
        None \<Rightarrow> oset (rank_key sha r) (new_fused fmt sha k r) fs
      | Some existing \<Rightarrow> oset (rank_key sha r) (merge_fused fmt sha k r existing) fs)"

definition fuse :: "(rat \<Rightarrow> string) \<Rightarrow> (string \<Rightarrow> string) \<Rightarrow> int \<Rightarrow> ranked list \<Rightarrow> (string \<times> fused) list" where
  "fuse fmt sha k items = fold (fuse_step fmt sha k) items []"

definition fused_order :: "fused \<Rightarrow> rat \<times> nat \<times> nat" where
  "fused_order e = (- score e, bestRank e, primaryNodeOrder e)"

text \<open>What is returned for a fused entry\<close>

definition is_record :: "fields \<Rightarrow> bool" where
  "is_record item = (oget item ''memory_kind'' = Some (JStr ''record''))"

definition record_context :: "fused \<Rightarrow> fields" where
  "record_context e =
     (let snippets = map snd (f_snippets e); contexts = map snd (f_contexts e)
      in (if is_record (f_item e) \<and> snippets \<noteq> []
          then [(''record_snippet'', JObj (case find (\<lambda>snippet. oget snippet ''origin_node'' = Some (JStr (primaryNode e))) snippets of
                                            Some snippet \<Rightarrow> snippet | None \<Rightarrow> hd snippets)),
                (''record_snippets'', JArr (map JObj snippets))] else []) @
         (if is_record (f_item e) \<and> contexts \<noteq> [] then [(''context_records'', JArr (map JObj contexts))] else []))"

definition fused_result :: "fused \<Rightarrow> fields" where
  "fused_result e =
     ospread (ospread (f_item e) (record_context e))
       [(''origin_node'', JStr (primaryNode e)),
        (''origin_nodes'', JArr (map JStr (f_nodes e))),
        (''node_ranks'', JObj (map (\<lambda>nr. (fst nr, JNum (of_nat (snd nr)))) (f_ranks e))),
        (''rrf_score'', JNum (score e))]"

definition rrf :: "(rat \<Rightarrow> string) \<Rightarrow> (string \<Rightarrow> string) \<Rightarrow> int \<Rightarrow> ranked list \<Rightarrow> nat \<Rightarrow> fields list" where
  "rrf fmt sha k items limit =
     map fused_result (take limit (sort_key fused_order (map snd (fuse fmt sha k items))))"

section \<open>The reference: fusion by groups\<close>

text \<open>The items of one key; the best rank a node gives it; the first of the best placed items\<close>

definition group :: "(string \<Rightarrow> string) \<Rightarrow> string \<Rightarrow> ranked list \<Rightarrow> ranked list" where
  "group sha key items = filter (\<lambda>r. rank_key sha r = key) items"

definition node_rank :: "ranked list \<Rightarrow> string \<Rightarrow> nat" where
  "node_rank g n = Min (rk_rank ` {r \<in> set g. rk_node r = n})"

definition place :: "ranked \<Rightarrow> nat \<times> nat" where
  "place r = (rk_rank r, rk_order r)"

definition first_best :: "ranked list \<Rightarrow> ranked" where
  "first_best g = the (find (\<lambda>r. \<forall>r' \<in> set g. place r \<le> place r') g)"

definition group_nodes :: "ranked list \<Rightarrow> string list" where
  "group_nodes g = uniq (map rk_node g)"

definition reference :: "(rat \<Rightarrow> string) \<Rightarrow> (string \<Rightarrow> string) \<Rightarrow> int \<Rightarrow> ranked list \<Rightarrow> fused" where
  "reference fmt sha k g =
     \<lparr>f_item = rk_item (first_best g),
      score = (\<Sum>n\<leftarrow>group_nodes g. reciprocal k (node_rank g n)),
      bestRank = rk_rank (first_best g), primaryNode = rk_node (first_best g),
      primaryNodeOrder = rk_order (first_best g),
      f_nodes = group_nodes g,
      f_ranks = map (\<lambda>n. (n, node_rank g n)) (group_nodes g),
      f_snippets = fold (collectObjects fmt sha ''record_snippets'') g [],
      f_contexts = fold (collectObjects fmt sha ''context_records'') g []\<rparr>"

section \<open>One more item\<close>

lemma uniq_snoc: "uniq (xs @ [x]) = (if x \<in> set xs then uniq xs else uniq xs @ [x])"
  by (induction xs) auto

lemma group_nodes_snoc:
  "group_nodes (g @ [r]) = (if rk_node r \<in> set (group_nodes g) then group_nodes g else group_nodes g @ [rk_node r])"
  by (simp add: group_nodes_def uniq_snoc)

lemma set_group_nodes [simp]: "set (group_nodes g) = rk_node ` set g"
  by (simp add: group_nodes_def)

lemma node_rank_snoc:
  "node_rank (g @ [r]) n =
     (if rk_node r = n then (if n \<in> rk_node ` set g then min (rk_rank r) (node_rank g n) else rk_rank r)
      else node_rank g n)"
proof (cases "rk_node r = n")
  case True
  let ?S = "rk_rank ` {x \<in> set g. rk_node x = n}"
  have ins: "rk_rank ` {x \<in> set (g @ [r]). rk_node x = n} = insert (rk_rank r) ?S" using True by auto
  have fin: "finite ?S" by simp
  show ?thesis
  proof (cases "n \<in> rk_node ` set g")
    case True
    then have "?S \<noteq> {}" by auto
    then show ?thesis using \<open>rk_node r = n\<close> True fin by (simp only: node_rank_def ins Min_insert if_True simp_thms)
  next
    case False
    then have "?S = {}" by auto
    then show ?thesis using \<open>rk_node r = n\<close> False by (simp only: node_rank_def ins Min_singleton if_True if_False simp_thms)
  qed
next
  case False
  then have "{x \<in> set (g @ [r]). rk_node x = n} = {x \<in> set g. rk_node x = n}" by auto
  then show ?thesis using False by (simp add: node_rank_def)
qed

lemma find_first_min:
  assumes "g \<noteq> []"
  shows "\<exists>b. find (\<lambda>r. \<forall>r' \<in> set g. place r \<le> place r') g = Some b"
proof -
  have "finite (place ` set g)" "place ` set g \<noteq> {}" using assms by simp_all
  then have m: "Min (place ` set g) \<in> place ` set g" "\<And>r'. r' \<in> set g \<Longrightarrow> Min (place ` set g) \<le> place r'"
    by (simp_all del: Min_in add: Min_in)
  from m(1) obtain b where "b \<in> set g" "place b = Min (place ` set g)" by auto
  then have "b \<in> set g \<and> (\<forall>r' \<in> set g. place b \<le> place r')" using m(2) by simp
  then have "find (\<lambda>r. \<forall>r' \<in> set g. place r \<le> place r') g \<noteq> None" by (auto simp: find_None_iff)
  then show ?thesis by blast
qed

lemma first_best_min:
  assumes "g \<noteq> []"
  shows "first_best g \<in> set g" and "\<forall>r' \<in> set g. place (first_best g) \<le> place r'"
proof -
  obtain b where b: "find (\<lambda>r. \<forall>r' \<in> set g. place r \<le> place r') g = Some b" using find_first_min [OF assms] by blast
  then have "first_best g = b" by (simp add: first_best_def)
  moreover have "b \<in> set g \<and> (\<forall>r' \<in> set g. place b \<le> place r')" using b by (auto simp: find_Some_iff)
  ultimately show "first_best g \<in> set g" "\<forall>r' \<in> set g. place (first_best g) \<le> place r'" by simp_all
qed

lemma find_append_None: "find p xs = None \<Longrightarrow> find p (xs @ ys) = find p ys"
  by (induction xs) (auto split: if_splits)

lemma find_append_Some: "find p xs = Some b \<Longrightarrow> find p (xs @ ys) = Some b"
  by (induction xs) (auto split: if_splits)

lemma first_best_snoc:
  assumes "g \<noteq> []"
  shows "first_best (g @ [r]) = (if place r < place (first_best g) then r else first_best g)"
proof -
  let ?P = "\<lambda>g r. \<forall>r' \<in> set g. place r \<le> place r'"
  obtain b where b: "find (?P g) g = Some b" using find_first_min [OF assms] by blast
  then have fb: "first_best g = b" by (simp add: first_best_def)
  have bm: "b \<in> set g" "?P g b" using first_best_min [OF assms] fb by simp_all
  show ?thesis
  proof (cases "place r < place b")
    case True
    then have "\<not> ?P (g @ [r]) x" if "x \<in> set g" for x
      using bm(2) that by (auto simp: not_le intro: less_le_trans)
    then have "find (?P (g @ [r])) g = None" by (simp add: find_None_iff)
    then have "find (?P (g @ [r])) (g @ [r]) = find (?P (g @ [r])) [r]" by (rule find_append_None)
    also have "?P (g @ [r]) r" using True bm(2) by (auto intro: less_imp_le less_le_trans)
    then have "find (?P (g @ [r])) [r] = Some r" by simp
    finally show ?thesis using True fb by (simp only: first_best_def option.sel if_True)
  next
    case False
    have "?P (g @ [r]) x = ?P g x" if "x \<in> set g" for x
      using bm that False by (auto intro: order_trans)
    then have "find (?P (g @ [r])) g = find (?P g) g" by (intro find_cong) auto
    then have "find (?P (g @ [r])) (g @ [r]) = Some b" using b by (intro find_append_Some) simp
    then show ?thesis using False fb by (simp only: first_best_def option.sel if_False)
  qed
qed

lemma oget_map_pair: "oget (map (\<lambda>n. (n, f n)) ns) m = (if m \<in> set ns then Some (f m) else None)"
  by (induction ns) auto

lemma oset_map_pair:
  "distinct ns \<Longrightarrow> n \<in> set ns \<Longrightarrow> oset n v (map (\<lambda>m. (m, f m)) ns) = map (\<lambda>m. (m, if m = n then v else f m)) ns"
  by (induction ns) auto

lemma sum_list_update:
  fixes f :: "'a \<Rightarrow> rat"
  assumes "distinct ns" and "n \<in> set ns"
  shows "(\<Sum>m\<leftarrow>ns. if m = n then v else f m) = (\<Sum>m\<leftarrow>ns. f m) + v - f n"
  using assms
proof (induction ns)
  case (Cons m ns)
  show ?case
  proof (cases "m = n")
    case True
    then have "map (\<lambda>x. if x = n then v else f x) ns = map f ns" using Cons.prems(1) by auto
    then have "(\<Sum>x\<leftarrow>ns. if x = n then v else f x) = (\<Sum>x\<leftarrow>ns. f x)" by (simp only:)
    then show ?thesis using True by simp
  next
    case False
    then show ?thesis using Cons by auto
  qed
qed simp

text \<open>The rank bookkeeping of one more item keeps the score the sum over the nodes.\<close>

definition rank_state :: "int \<Rightarrow> ranked list \<Rightarrow> fused \<Rightarrow> bool" where
  "rank_state k g e =
     (score e = (\<Sum>n\<leftarrow>group_nodes g. reciprocal k (node_rank g n)) \<and> f_nodes e = group_nodes g \<and>
      f_ranks e = map (\<lambda>n. (n, node_rank g n)) (group_nodes g))"

lemma add_rank_state:
  assumes e: "rank_state k g e"
  shows "rank_state k (g @ [r]) (add_rank k r e)"
proof -
  let ?n = "rk_node r" and ?ns = "group_nodes g" and ?f = "node_rank g"
  have d: "distinct ?ns" by (simp add: group_nodes_def)
  show ?thesis
  proof (cases "?n \<in> set ?ns")
    case False
    then have "map (\<lambda>n. (n, node_rank (g @ [r]) n)) ?ns = map (\<lambda>n. (n, ?f n)) ?ns"
      by (intro map_cong) (auto simp: node_rank_snoc)
    moreover have "map (\<lambda>n. reciprocal k (node_rank (g @ [r]) n)) ?ns = map (\<lambda>n. reciprocal k (?f n)) ?ns"
      using False by (intro map_cong) (auto simp: node_rank_snoc)
    then have "(\<Sum>n\<leftarrow>?ns. reciprocal k (node_rank (g @ [r]) n)) = (\<Sum>n\<leftarrow>?ns. reciprocal k (?f n))" by (simp only:)
    moreover have "oset ?n (rk_rank r) (f_ranks e) = f_ranks e @ [(?n, rk_rank r)]"
      using e False by (intro oset_fresh) (auto simp: rank_state_def)
    moreover have "node_rank (g @ [r]) ?n = rk_rank r" using False by (simp add: node_rank_snoc)
    ultimately show ?thesis
      using e False by (simp add: rank_state_def add_rank_def oget_map_pair group_nodes_snoc)
  next
    case True
    then have og: "oget (f_ranks e) ?n = Some (?f ?n)" using e by (simp add: rank_state_def oget_map_pair)
    show ?thesis
    proof (cases "rk_rank r < ?f ?n")
      case less: True
      have nr: "node_rank (g @ [r]) m = (if m = ?n then rk_rank r else ?f m)" if "m \<in> set ?ns" for m
        using that True less by (auto simp: node_rank_snoc)
      have "map (\<lambda>n. (n, node_rank (g @ [r]) n)) ?ns = map (\<lambda>m. (m, if m = ?n then rk_rank r else ?f m)) ?ns"
        using nr by (intro map_cong) auto
      also have "\<dots> = oset ?n (rk_rank r) (map (\<lambda>n. (n, ?f n)) ?ns)" using oset_map_pair [OF d True] by metis
      finally have ranks: "map (\<lambda>n. (n, node_rank (g @ [r]) n)) ?ns = oset ?n (rk_rank r) (map (\<lambda>n. (n, ?f n)) ?ns)" .
      have "map (\<lambda>n. reciprocal k (node_rank (g @ [r]) n)) ?ns =
          map (\<lambda>m. if m = ?n then reciprocal k (rk_rank r) else reciprocal k (?f m)) ?ns"
        using nr by (intro map_cong) auto
      then have "(\<Sum>n\<leftarrow>?ns. reciprocal k (node_rank (g @ [r]) n)) =
          (\<Sum>n\<leftarrow>?ns. reciprocal k (?f n)) + reciprocal k (rk_rank r) - reciprocal k (?f ?n)"
        using sum_list_update [OF d True, of "reciprocal k (rk_rank r)" "\<lambda>m. reciprocal k (?f m)"] by (simp only:)
      then show ?thesis
        using e og less ranks True by (simp add: rank_state_def add_rank_def group_nodes_snoc)
    next
      case False
      then have nr: "node_rank (g @ [r]) m = ?f m" if "m \<in> set ?ns" for m
        using that by (auto simp: node_rank_snoc)
      have "map (\<lambda>n. (n, node_rank (g @ [r]) n)) ?ns = map (\<lambda>n. (n, ?f n)) ?ns"
        and "map (\<lambda>n. reciprocal k (node_rank (g @ [r]) n)) ?ns = map (\<lambda>n. reciprocal k (?f n)) ?ns"
        using nr by (simp_all cong: map_cong)
      then have "map (\<lambda>n. (n, node_rank (g @ [r]) n)) ?ns = map (\<lambda>n. (n, ?f n)) ?ns"
        and "(\<Sum>n\<leftarrow>?ns. reciprocal k (node_rank (g @ [r]) n)) = (\<Sum>n\<leftarrow>?ns. reciprocal k (?f n))"
        by (simp_all only:)
      then show ?thesis
        using e og False True by (simp add: rank_state_def add_rank_def group_nodes_snoc)
    qed
  qed
qed

definition primary_state :: "ranked list \<Rightarrow> fused \<Rightarrow> bool" where
  "primary_state g e =
     (f_item e = rk_item (first_best g) \<and> bestRank e = rk_rank (first_best g) \<and>
      primaryNode e = rk_node (first_best g) \<and> primaryNodeOrder e = rk_order (first_best g))"

lemma take_primary_state:
  assumes "primary_state g e" and "g \<noteq> []"
  shows "primary_state (g @ [r]) (take_primary r e)"
proof -
  have "place r < place (first_best g) \<longleftrightarrow>
      rk_rank r < bestRank e \<or> rk_rank r = bestRank e \<and> rk_order r < primaryNodeOrder e"
    using assms(1) by (auto simp: place_def primary_state_def)
  then show ?thesis
    using assms by (simp add: primary_state_def take_primary_def first_best_snoc)
qed

lemma rank_state_primary [simp]: "rank_state k g (take_primary r e) = rank_state k g e"
  by (simp add: rank_state_def take_primary_def)

lemma primary_state_rank [simp]: "primary_state g (add_rank k r e) = primary_state g e"
  by (simp add: primary_state_def add_rank_def split: option.splits)

lemma state_objects [simp]:
  "rank_state k g (e\<lparr>f_snippets := a, f_contexts := b\<rparr>) = rank_state k g e"
  "primary_state g (e\<lparr>f_snippets := a, f_contexts := b\<rparr>) = primary_state g e"
  "f_snippets (take_primary r e) = f_snippets e" "f_contexts (take_primary r e) = f_contexts e"
  "f_snippets (add_rank k r e) = f_snippets e" "f_contexts (add_rank k r e) = f_contexts e"
  by (simp_all add: rank_state_def primary_state_def take_primary_def add_rank_def split: option.splits)

lemma reference_iff:
  "e = reference fmt sha k g \<longleftrightarrow> rank_state k g e \<and> primary_state g e \<and>
     f_snippets e = fold (collectObjects fmt sha ''record_snippets'') g [] \<and>
     f_contexts e = fold (collectObjects fmt sha ''context_records'') g []"
  by (cases e) (auto simp: reference_def rank_state_def primary_state_def)

lemma merge_reference:
  assumes "g \<noteq> []"
  shows "merge_fused fmt sha k r (reference fmt sha k g) = reference fmt sha k (g @ [r])"
proof -
  let ?e = "reference fmt sha k g"
  have e: "rank_state k g ?e" "primary_state g ?e"
    "f_snippets ?e = fold (collectObjects fmt sha ''record_snippets'') g []"
    "f_contexts ?e = fold (collectObjects fmt sha ''context_records'') g []"
    using reference_iff [of ?e] by blast+
  have "rank_state k (g @ [r]) (add_rank k r ?e)" by (rule add_rank_state [OF e(1)])
  moreover have "primary_state g (add_rank k r ?e)" using e(2) by simp
  ultimately show ?thesis
    unfolding reference_iff merge_fused_def Let_def
    using e(3,4) take_primary_state [OF _ assms] by simp
qed

lemma node_rank_single: "node_rank [r] (rk_node r) = rk_rank r"
proof -
  have "{x \<in> set [r]. rk_node x = rk_node r} = {r}" by auto
  then show ?thesis by (simp only: node_rank_def image_insert image_empty Min_singleton)
qed

lemma new_reference: "new_fused fmt sha k r = reference fmt sha k [r]"
  by (simp add: new_fused_def reference_def first_best_def group_nodes_def node_rank_single)

lemma fuse_grouping:
  "fuse fmt sha k items =
     map (\<lambda>key. (key, reference fmt sha k (group sha key items))) (uniq (map (rank_key sha) items))"
proof (induction items rule: rev_induct)
  case Nil
  then show ?case by (simp add: fuse_def)
next
  case (snoc r items)
  let ?key = "rank_key sha r" and ?keys = "uniq (map (rank_key sha) items)"
  let ?f = "\<lambda>key. reference fmt sha k (group sha key items)"
  have g: "group sha key (items @ [r]) = (if key = ?key then group sha key items @ [r] else group sha key items)" for key
    by (simp add: group_def)
  have step: "fuse fmt sha k (items @ [r]) = fuse_step fmt sha k r (map (\<lambda>key. (key, ?f key)) ?keys)"
    using snoc by (simp add: fuse_def)
  show ?case
  proof (cases "?key \<in> set ?keys")
    case True
    then have ne: "group sha ?key items \<noteq> []" by (auto simp: group_def filter_empty_conv)
    have "fuse fmt sha k (items @ [r]) = oset ?key (reference fmt sha k (group sha ?key items @ [r])) (map (\<lambda>key. (key, ?f key)) ?keys)"
      using True by (simp add: step fuse_step_def oget_map_pair merge_reference [OF ne])
    also have "\<dots> = map (\<lambda>key. (key, if key = ?key then reference fmt sha k (group sha ?key items @ [r]) else ?f key)) ?keys"
      by (rule oset_map_pair [OF distinct_uniq True])
    also have "\<dots> = map (\<lambda>key. (key, reference fmt sha k (group sha key (items @ [r])))) ?keys"
      by (intro map_cong) (auto simp: g)
    finally show ?thesis using True by (simp add: uniq_snoc)
  next
    case False
    then have e: "group sha ?key items = []" by (auto simp: group_def filter_empty_conv image_iff)
    have "fuse fmt sha k (items @ [r]) = map (\<lambda>key. (key, ?f key)) ?keys @ [(?key, reference fmt sha k [r])]"
      using False by (simp add: step fuse_step_def oget_map_pair new_reference oset_fresh image_iff)
    also have "map (\<lambda>key. (key, ?f key)) ?keys = map (\<lambda>key. (key, reference fmt sha k (group sha key (items @ [r])))) ?keys"
    proof (intro map_cong refl)
      fix key assume "key \<in> set ?keys"
      then have "key \<noteq> ?key" using False by blast
      then show "(key, ?f key) = (key, reference fmt sha k (group sha key (items @ [r])))" by (simp add: g)
    qed
    finally show ?thesis using False e by (simp add: uniq_snoc g)
  qed
qed

text \<open>
  C30: Fusion is grouping.  The one-pass fusion of the ranked items gives, for each de-duplication key
  in the order of its first item, the entry computed from the whole group of that key: the score is
  the sum over the nodes of 1 / (k + the node's best rank), the item shown is the first of the best
  placed, and snippets and contexts are those of all the items.
\<close>

theorem fuse_is_grouping:
  "fuse fmt sha k items =
     map (\<lambda>key. (key, reference fmt sha k (group sha key items))) (uniq (map (rank_key sha) items))"
  by (rule fuse_grouping)

section \<open>The ranking\<close>

lemma take_sorted_max:
  assumes "sorted (map f xs)" and "x \<in> set (take n xs)" and "y \<in># mset xs - mset (take n xs)"
  shows "f x \<le> f y"
proof -
  have "mset xs = mset (take n xs) + mset (drop n xs)" by (metis append_take_drop_id mset_append)
  then have y: "y \<in> set (drop n xs)" using assms(3) by simp
  have "sorted (map f (take n xs) @ map f (drop n xs))"
    using assms(1) by (metis append_take_drop_id map_append)
  then show ?thesis using assms(2) y unfolding sorted_append by auto
qed

text \<open>
  The ranking.  The fused results are the entries of the groups, each at most once, at most
  \<open>limit\<close> of them, in descending order of score, and no group that was left out has a higher
  score than one that was returned.
\<close>

theorem rrf_ranking:
  shows "\<exists>es. rrf fmt sha k items limit = map fused_result es \<and> length es \<le> limit \<and>
    (let all = map (\<lambda>key. reference fmt sha k (group sha key items)) (uniq (map (rank_key sha) items)) in
      mset es \<subseteq># mset all \<and> length es = min limit (length all) \<and>
      sorted (map (\<lambda>e. - score e) es) \<and>
      (\<forall>e \<in> set es. \<forall>e' \<in># mset all - mset es. score e' \<le> score e))"
proof -
  let ?all = "map (\<lambda>key. reference fmt sha k (group sha key items)) (uniq (map (rank_key sha) items))"
  define ss where "ss = sort_key fused_order ?all"
  define es where "es = take limit ss"
  have "map snd (fuse fmt sha k items) = ?all" by (simp add: fuse_grouping comp_def)
  then have out: "rrf fmt sha k items limit = map fused_result es" by (simp add: rrf_def es_def ss_def)
  have so: "sorted (map fused_order ss)" by (simp add: ss_def)
  then have "sorted (map (\<lambda>e. - score e) ss)"
    by (auto simp: sorted_iff_nth_mono fused_order_def less_eq_prod_simp less_le)
  then have s: "sorted (map (\<lambda>e. - score e) es)" by (simp add: es_def sorted_map_take)
  have ms: "mset ss = mset ?all" by (simp add: ss_def)
  have "mset ss = mset es + mset (drop limit ss)" unfolding es_def by (metis append_take_drop_id mset_append)
  then have sub: "mset es \<subseteq># mset ?all" unfolding ms by simp
  have "score e' \<le> score e" if "e \<in> set es" "e' \<in># mset ?all - mset es" for e e'
    using take_sorted_max [OF \<open>sorted (map (\<lambda>e. - score e) ss)\<close>, of e limit e'] that
    by (simp add: es_def ms)
  moreover have "length es = min limit (length ?all)" by (simp add: es_def ss_def min.commute)
  ultimately show ?thesis using out s sub unfolding Let_def by (intro exI [of _ es]) simp
qed

theorem rrf_ranking_witness:
  "\<exists>es. rrf (\<lambda>_. []) id 60
      [\<lparr>rk_item = [(''record_id'', JStr ''a'')], rk_node = ''n'', rk_order = 0, rk_rank = 2\<rparr>,
       \<lparr>rk_item = [(''record_id'', JStr ''a'')], rk_node = ''m'', rk_order = 1, rk_rank = 1\<rparr>] 5 = map fused_result es \<and> length es \<le> 5"
  using rrf_ranking [of "\<lambda>_. []" id 60 _ 5] by blast

end
