(* ===== verification/Federated.thy ===== *)
theory Federated
  imports Targets Rrf
begin

text \<open>
  Federated reads of \<open>apps/mcp/src/router.ts\<close>: \<open>#federated\<close> asks every target, turns each
  answer into items or a safe error, fuses the items and bounds the result; the read operations of
  \<open>FederatedMemoryRouter\<close> are calls of it.  Every caller passes the logical scope, so it is not
  optional here.
\<close>

section \<open>The surroundings\<close>

text \<open>How numbers print, SHA-256 in hexadecimal, \<open>JSON.parse\<close>, and the answers of the nodes\<close>

record world =
  w_fmt :: "rat \<Rightarrow> string"
  w_sha :: "string \<Rightarrow> string"
  w_parse :: "string \<Rightarrow> json option"
  w_net :: "string \<Rightarrow> http_request \<Rightarrow> outcome"

definition client_request :: "world \<Rightarrow> core_client \<Rightarrow> string \<Rightarrow> string \<Rightarrow> core_options \<Rightarrow> exn + json" where
  "client_request w client method path options =
     core_request (w_parse w) client options
       (w_net w (client_node client) (core_http_request (w_fmt w) client method path options))"

definition MAX_SERIALIZED_RESULT_BYTES :: nat where "MAX_SERIALIZED_RESULT_BYTES = 960000"
definition MAX_SERIALIZED_ITEM_BYTES :: nat where "MAX_SERIALIZED_ITEM_BYTES = 512 * 1024"

definition scope_json :: "scope \<Rightarrow> json" where
  "scope_json sc = JObj [(''workspace_id'', JStr (workspace_id sc)), (''project_id'', JStr (project_id sc))]"

section \<open>One target\<close>

record target_response =
  tr_target :: string
  tr_order :: nat
  tr_items :: "fields list"
  tr_payload :: "json option"
  tr_scope :: scope
  tr_error :: "fields option"

definition scoped_body :: "scope \<Rightarrow> fields \<Rightarrow> fields" where
  "scoped_body origin b =
     (if oget b ''workspace_id'' \<noteq> None \<or> oget b ''project_id'' \<noteq> None
      then oset ''project_id'' (JStr (project_id origin)) (oset ''workspace_id'' (JStr (workspace_id origin)) b)
      else b)"

definition replace_if :: "string \<Rightarrow> json \<Rightarrow> fields \<Rightarrow> fields" where
  "replace_if key v o1 = (if oget o1 key = None then o1 else oset key v o1)"

definition scoped_query :: "scope \<Rightarrow> fields \<Rightarrow> fields" where
  "scoped_query origin q =
     replace_if ''project_id'' (JStr (project_id origin)) (replace_if ''workspace_id'' (JStr (workspace_id origin)) q)"

definition read_options :: "scope \<Rightarrow> fields option \<Rightarrow> fields option \<Rightarrow> core_options" where
  "read_options origin b q =
     \<lparr>opt_body = map_option (scoped_body origin) b,
      opt_query = (case q of None \<Rightarrow> [] | Some q1 \<Rightarrow> scoped_query origin q1),
      opt_idempotencyKey = None, opt_expectJson = True, opt_maxResponseBytes = None\<rparr>"

definition label_item :: "string \<Rightarrow> scope \<Rightarrow> scope \<Rightarrow> fields \<Rightarrow> fields" where
  "label_item target origin logical item =
     oset ''logical_scope'' (scope_json logical)
       (oset ''origin_scope'' (scope_json origin)
          (case obj_field item ''record_snippet'' of
             None \<Rightarrow> item
           | Some snippet \<Rightarrow>
               (case str_field snippet ''snippet_ref'' of
                  None \<Rightarrow> item
                | Some ref \<Rightarrow>
                    oset ''record_snippet'' (JObj (oset ''snippet_ref'' (JStr (target @ '':'' @ ref)) snippet)) item)))"

definition safe_error :: "string \<Rightarrow> scope \<Rightarrow> scope \<Rightarrow> exn \<Rightarrow> fields" where
  "safe_error target origin logical e =
     [(''origin_node'', JStr target)] @
     (case e of
        CoreRequestError c retryable st \<Rightarrow>
          [(''error_code'', JStr c)] @ (case st of None \<Rightarrow> [] | Some n \<Rightarrow> [(''http_status'', JNum (of_nat n))])
      | InvalidCoreResponseError m \<Rightarrow> [(''error_code'', JStr ''invalid_core_response'')]
      | _ \<Rightarrow> [(''error_code'', JStr ''internal_error'')]) @
     [(''origin_scope'', scope_json origin), (''logical_scope'', scope_json logical)]"

record read_call =
  rc_method :: string
  rc_path :: "scope \<Rightarrow> string"
  rc_body :: "fields option"
  rc_query :: "fields option"
  rc_extract :: "json \<Rightarrow> exn + fields list"

text \<open>The payload and the items of a target, or what was thrown\<close>

definition ask_result :: "world \<Rightarrow> router \<Rightarrow> read_call \<Rightarrow> scope \<Rightarrow> string \<Rightarrow> exn + json \<times> fields list" where
  "ask_result w r call logical target =
     (let origin = scopeFor r target logical
      in case oget (clients r) target of
           None \<Rightarrow> Inl (OtherError ''TypeError'')
         | Some client \<Rightarrow>
             rbind (client_request w client (rc_method call) (rc_path call origin)
                      (read_options origin (rc_body call) (rc_query call))) (\<lambda>payload.
             rbind (rc_extract call payload) (\<lambda>items.
               Inr (payload, map (label_item target origin logical) items))))"

definition ask_target :: "world \<Rightarrow> router \<Rightarrow> read_call \<Rightarrow> scope \<Rightarrow> nat \<times> string \<Rightarrow> target_response" where
  "ask_target w r call logical nt =
     (let target = snd nt; origin = scopeFor r target logical
      in case ask_result w r call logical target of
           Inr (payload, items) \<Rightarrow>
             \<lparr>tr_target = target, tr_order = fst nt, tr_items = items, tr_payload = Some payload, tr_scope = origin, tr_error = None\<rparr>
         | Inl e \<Rightarrow>
             \<lparr>tr_target = target, tr_order = fst nt, tr_items = [], tr_payload = None, tr_scope = origin,
              tr_error = Some (safe_error target origin logical e)\<rparr>)"

section \<open>The federated result\<close>

record fed_result =
  fr_results :: "fields list"
  fr_errors :: "fields list"
  fr_targets :: "string list"
  fr_embedding :: "(string \<times> bool) list"
  fr_snippets :: "fields list"
  fr_omitted :: "(nat \<times> nat) option"

text \<open>The object that is returned, its optional properties in the order they are added\<close>

definition embedding_fields :: "(string \<times> bool) list \<Rightarrow> fields" where
  "embedding_fields byNode =
     (if byNode = [] then []
      else [(''embedding_used'', JBool (list_ex snd byNode)),
            (''embedding_used_by_node'', JObj (map (\<lambda>nb. (fst nb, JBool (snd nb))) byNode))])"

definition omitted_fields :: "(nat \<times> nat) option \<Rightarrow> fields" where
  "omitted_fields omitted =
     (case omitted of None \<Rightarrow> []
      | Some (results, snippets) \<Rightarrow>
          [(''truncated'', JBool True), (''omitted_results'', JNum (of_nat results)), (''omitted_snippets'', JNum (of_nat snippets))])"

definition fed_json :: "fed_result \<Rightarrow> json" where
  "fed_json r =
     JObj ([(''results'', JArr (map JObj (fr_results r))), (''errors'', JArr (map JObj (fr_errors r))),
            (''targets'', JArr (map JStr (fr_targets r)))] @
           embedding_fields (fr_embedding r) @
           (if fr_snippets r = [] then [] else [(''record_snippets'', JArr (map JObj (fr_snippets r)))]) @
           omitted_fields (fr_omitted r))"

definition ranked_items :: "target_response \<Rightarrow> ranked list" where
  "ranked_items tr =
     map (\<lambda>(index, item).
            \<lparr>rk_item = item, rk_node = tr_target tr, rk_order = tr_order tr,
             rk_rank = (case Option.bind (oget item ''rank'') as_integer of
                          Some n \<Rightarrow> if n > 0 then nat n else index + 1
                        | None \<Rightarrow> index + 1)\<rparr>)
       (enumerate 0 (tr_items tr))"

definition node_embedding :: "target_response \<Rightarrow> (string \<times> bool) list" where
  "node_embedding tr =
     (case Option.bind (tr_payload tr) as_object of
        None \<Rightarrow> []
      | Some payload \<Rightarrow> (case bool_field payload ''embedding_used'' of None \<Rightarrow> [] | Some b \<Rightarrow> [(tr_target tr, b)]))"

definition node_snippets :: "world \<Rightarrow> scope \<Rightarrow> target_response \<Rightarrow> fields list" where
  "node_snippets w logical tr =
     (case Option.bind (tr_payload tr) as_object of
        None \<Rightarrow> []
      | Some payload \<Rightarrow>
          map (\<lambda>snippet.
                 oset ''logical_scope'' (scope_json logical)
                   (oset ''origin_scope'' (scope_json (tr_scope tr))
                      (oset ''origin_node'' (JStr (tr_target tr))
                         (oset ''snippet_ref''
                            (JStr (tr_target tr @ '':'' @ w_sha w (canonical_json (w_fmt w) (JObj snippet)))) snippet))))
            (objectItems (oget payload ''record_snippets'')))"

section \<open>boundFederatedResult\<close>

definition bound_candidate :: "(rat \<Rightarrow> string) \<Rightarrow> fields \<Rightarrow> fields" where
  "bound_candidate fmt raw =
     (if serialized_bytes fmt (JObj raw) \<le> MAX_SERIALIZED_ITEM_BYTES then raw else compactItem fmt raw)"

text \<open>The kept items, and how many were left out; \<open>size\<close> of the object with the items so far\<close>

fun bound_items ::
  "(rat \<Rightarrow> string) \<Rightarrow> (fields list \<Rightarrow> fed_result) \<Rightarrow> fields list \<Rightarrow> fields list \<Rightarrow> fields list \<times> nat" where
  "bound_items fmt put kept [] = (kept, 0)"
| "bound_items fmt put kept (raw # raws) =
     (let candidate = bound_candidate fmt raw
      in if serialized_bytes fmt (fed_json (put (kept @ [candidate]))) > MAX_SERIALIZED_RESULT_BYTES - 256
         then (let (k, n) = bound_items fmt put kept raws in (k, n + 1))
         else bound_items fmt put (kept @ [candidate]) raws)"

definition marked_truncated :: "fields \<Rightarrow> bool" where
  "marked_truncated item = (oget item ''truncated'' = Some (JBool True))"

definition boundFederatedResult :: "(rat \<Rightarrow> string) \<Rightarrow> fed_result \<Rightarrow> fed_result" where
  "boundFederatedResult fmt r =
     (let base = r\<lparr>fr_results := [], fr_snippets := [], fr_omitted := None\<rparr>;
          (results, omittedResults) = bound_items fmt (\<lambda>rs. base\<lparr>fr_results := rs\<rparr>) [] (fr_results r);
          bounded = base\<lparr>fr_results := results\<rparr>;
          (snippets, omittedSnippets) = bound_items fmt (\<lambda>ss. bounded\<lparr>fr_snippets := ss\<rparr>) [] (fr_snippets r);
          snippetCompacted = list_ex (\<lambda>raw. serialized_bytes fmt (JObj raw) > MAX_SERIALIZED_ITEM_BYTES) (fr_snippets r)
      in bounded\<lparr>fr_snippets := snippets,
                 fr_omitted := (if omittedResults > 0 \<or> omittedSnippets > 0 \<or> snippetCompacted \<or> list_ex marked_truncated results
                                then Some (omittedResults, omittedSnippets) else None)\<rparr>)"

definition unbounded_result :: "world \<Rightarrow> router \<Rightarrow> string list \<Rightarrow> nat \<Rightarrow> scope \<Rightarrow> target_response list \<Rightarrow> fed_result" where
  "unbounded_result w r targets limit logical responses =
     \<lparr>fr_results = rrf (w_fmt w) (w_sha w) (rrfK r) (concat (map ranked_items responses)) limit,
      fr_errors = List.map_filter tr_error responses,
      fr_targets = targets,
      fr_embedding = from_entries (concat (map node_embedding responses)),
      fr_snippets = concat (map (node_snippets w logical) responses),
      fr_omitted = None\<rparr>"

definition federated :: "world \<Rightarrow> router \<Rightarrow> string list \<Rightarrow> nat \<Rightarrow> read_call \<Rightarrow> scope \<Rightarrow> fed_result" where
  "federated w r targets limit call logical =
     boundFederatedResult (w_fmt w)
       (unbounded_result w r targets limit logical (map (ask_target w r call logical) (enumerate 0 targets)))"

section \<open>The read operations\<close>

definition logical_scope :: "string \<Rightarrow> string \<Rightarrow> scope" where
  "logical_scope workspace project = \<lparr>workspace_id = workspace, project_id = project\<rparr>"

definition scope_query :: "string \<Rightarrow> string \<Rightarrow> fields" where
  "scope_query workspace project = [(''workspace_id'', JStr workspace), (''project_id'', JStr project)]"

text \<open>\<open>string[] | undefined\<close> of an input's \<open>targets\<close>\<close>

definition targets_of :: "fields \<Rightarrow> string list option" where
  "targets_of input = map_option (List.map_filter as_string) (arr_field input ''targets'')"

definition recall :: "world \<Rightarrow> router \<Rightarrow> string \<Rightarrow> string \<Rightarrow> string \<Rightarrow> fields \<Rightarrow> string list \<Rightarrow> fed_result res" where
  "recall w r workspace project query input included =
     rbind (selectTargets (nodes r) (targets_of input) (defaultReadTargets r)) (\<lambda>targets.
     rbind (limit_of (w_fmt w) (oget input ''limit'')) (\<lambda>limit.
       Inr (federated w r targets limit
         \<lparr>rc_method = ''POST'', rc_path = (\<lambda>_. ''/v1/recall''),
          rc_body = Some ([(''workspace_id'', JStr workspace), (''project_id'', JStr project), (''query'', JStr query),
                           (''include'', JArr (map JStr included)), (''limit'', JNum (of_nat limit))] @
                          optionalFields input [''session_id'', ''after'', ''before'', ''include_general'', ''include_federated'']),
          rc_query = None, rc_extract = extractRecallItems (w_fmt w) (w_sha w) included\<rparr>
         (logical_scope workspace project))))"

text \<open>The reads by path; all have a limit of 50.\<close>

definition read_by ::
  "world \<Rightarrow> router \<Rightarrow> string list option \<Rightarrow> string list \<Rightarrow> read_call \<Rightarrow> string \<Rightarrow> string \<Rightarrow> fed_result res" where
  "read_by w r targets defaults call workspace project =
     rbind (selectTargets (nodes r) targets defaults) (\<lambda>selected.
       Inr (federated w r selected 50 call (logical_scope workspace project)))"

definition getRecordContext :: "world \<Rightarrow> router \<Rightarrow> string \<Rightarrow> string \<Rightarrow> string \<Rightarrow> string list option \<Rightarrow> fed_result res" where
  "getRecordContext w r workspace project recordId targets =
     read_by w r targets (defaultReadTargets r)
       \<lparr>rc_method = ''GET'', rc_path = (\<lambda>_. ''/v1/records/'' @ encodeURIComponent recordId @ ''/context''),
        rc_body = None, rc_query = Some (scope_query workspace project), rc_extract = extractRecordContext\<rparr> workspace project"

definition getClaimEvidence :: "world \<Rightarrow> router \<Rightarrow> string \<Rightarrow> string \<Rightarrow> string \<Rightarrow> string list option \<Rightarrow> fed_result res" where
  "getClaimEvidence w r workspace project claimId targets =
     read_by w r targets (defaultReadTargets r)
       \<lparr>rc_method = ''GET'', rc_path = (\<lambda>_. ''/v1/claims/'' @ encodeURIComponent claimId @ ''/evidence''),
        rc_body = None, rc_query = Some (scope_query workspace project), rc_extract = extractClaimEvidence\<rparr> workspace project"

definition wikiRead :: "world \<Rightarrow> router \<Rightarrow> string \<Rightarrow> string \<Rightarrow> string list option \<Rightarrow> fed_result res" where
  "wikiRead w r workspace project targets =
     read_by w r targets (defaultReadTargets r)
       \<lparr>rc_method = ''GET'', rc_path = (\<lambda>sc. ''/v1/projects/'' @ encodeURIComponent (project_id sc) @ ''/wiki''),
        rc_body = None, rc_query = Some (scope_query workspace project),
        rc_extract = requireContainerArrays [''sections'']\<rparr> workspace project"

definition graphRead :: "world \<Rightarrow> router \<Rightarrow> string \<Rightarrow> string \<Rightarrow> string list option \<Rightarrow> fed_result res" where
  "graphRead w r workspace project targets =
     read_by w r targets (defaultReadTargets r)
       \<lparr>rc_method = ''GET'', rc_path = (\<lambda>sc. ''/v1/projects/'' @ encodeURIComponent (project_id sc) @ ''/graph''),
        rc_body = None, rc_query = Some (scope_query workspace project),
        rc_extract = requireContainerArrays [''nodes'', ''edges'']\<rparr> workspace project"

definition general_query :: "string \<Rightarrow> string \<Rightarrow> bool \<Rightarrow> fields" where
  "general_query workspace project includeGeneral =
     scope_query workspace project @ [(''include_general'', JBool includeGeneral)]"

definition representationRead :: "world \<Rightarrow> router \<Rightarrow> string \<Rightarrow> string \<Rightarrow> string \<Rightarrow> bool \<Rightarrow> string list option \<Rightarrow> fed_result res" where
  "representationRead w r workspace project peerId includeGeneral targets =
     read_by w r targets (defaultReadTargets r)
       \<lparr>rc_method = ''GET'', rc_path = (\<lambda>_. ''/v1/peers/'' @ encodeURIComponent peerId @ ''/representation''),
        rc_body = None, rc_query = Some (general_query workspace project includeGeneral),
        rc_extract = extractContainer\<rparr> workspace project"

definition peerCardRead :: "world \<Rightarrow> router \<Rightarrow> string \<Rightarrow> string \<Rightarrow> string \<Rightarrow> bool \<Rightarrow> string list option \<Rightarrow> fed_result res" where
  "peerCardRead w r workspace project peerId includeGeneral targets =
     read_by w r targets (defaultReadTargets r)
       \<lparr>rc_method = ''GET'', rc_path = (\<lambda>_. ''/v1/peers/'' @ encodeURIComponent peerId @ ''/card''),
        rc_body = None, rc_query = Some (general_query workspace project includeGeneral),
        rc_extract = extractContainer\<rparr> workspace project"

definition sessionContextRead :: "world \<Rightarrow> router \<Rightarrow> string \<Rightarrow> string \<Rightarrow> string \<Rightarrow> bool \<Rightarrow> string list option \<Rightarrow> fed_result res" where
  "sessionContextRead w r workspace project sessionId includeGeneral targets =
     read_by w r targets (defaultReadTargets r)
       \<lparr>rc_method = ''GET'', rc_path = (\<lambda>_. ''/v1/sessions/'' @ encodeURIComponent sessionId @ ''/context''),
        rc_body = None, rc_query = Some (general_query workspace project includeGeneral),
        rc_extract = extractContainer\<rparr> workspace project"

text \<open>\<open>input.k ?? d\<close> written back as \<open>k\<close>\<close>

definition default_bool :: "string \<Rightarrow> bool \<Rightarrow> fields \<Rightarrow> fields \<Rightarrow> fields" where
  "default_bool key d input o1 = oset key (case coalesce (oget input key) None of Some v \<Rightarrow> v | None \<Rightarrow> JBool d) o1"

definition context_body :: "fields \<Rightarrow> fields" where
  "context_body input =
     default_bool ''include_federated'' False input
       (default_bool ''include_general'' True input (odel ''targets'' input))"

definition post_call :: "string \<Rightarrow> fields \<Rightarrow> read_call" where
  "post_call path b =
     \<lparr>rc_method = ''POST'', rc_path = (\<lambda>_. path), rc_body = Some b, rc_query = None, rc_extract = extractContainer\<rparr>"

definition dynamicContext :: "world \<Rightarrow> router \<Rightarrow> string \<Rightarrow> string \<Rightarrow> fields \<Rightarrow> fed_result res" where
  "dynamicContext w r workspace project input =
     read_by w r (targets_of input) (defaultReadTargets r) (post_call ''/v1/context'' (context_body input)) workspace project"

definition dialecticChat :: "world \<Rightarrow> router \<Rightarrow> string \<Rightarrow> string \<Rightarrow> fields \<Rightarrow> fed_result res" where
  "dialecticChat w r workspace project input =
     read_by w r (targets_of input) (defaultReadTargets r) (post_call ''/v1/chat'' (context_body input)) workspace project"

definition scheduleDream :: "world \<Rightarrow> router \<Rightarrow> string \<Rightarrow> string \<Rightarrow> fields \<Rightarrow> string list option \<Rightarrow> fed_result res" where
  "scheduleDream w r workspace project input targets =
     read_by w r targets (defaultWriteTargets r)
       (post_call ''/v1/dreams'' (oset ''project_id'' (JStr project) (oset ''workspace_id'' (JStr workspace) input)))
       workspace project"

definition createTransferRequest :: "world \<Rightarrow> router \<Rightarrow> string \<Rightarrow> string \<Rightarrow> fields \<Rightarrow> string list option \<Rightarrow> fed_result res" where
  "createTransferRequest w r workspace project input targets =
     read_by w r targets (defaultWriteTargets r)
       (post_call ''/v1/transfer-requests''
          (oset ''source_project_id'' (JStr project) (oset ''source_workspace_id'' (JStr workspace) input)))
       workspace project"

end
