(* ===== verification/Memory.thy ===== *)
theory Memory
  imports Delivery Federated
begin

text \<open>
  Recording and retrying, \<open>memoryRecord\<close>, \<open>retryEntry\<close> and \<open>drain\<close> of
  \<open>apps/mcp/src/router.ts\<close>, with what a caller may conclude from the statuses they return.
  \<open>isoTime\<close> prints a time, \<open>fresh\<close> is what \<open>uuid7()\<close> returns if it is called.
\<close>

section \<open>memoryRecord\<close>

definition UUID7_RECORD_PATTERN :: "(char \<Rightarrow> bool) list" where
  "UUID7_RECORD_PATTERN = uuid_pattern is_hex (\<lambda>c. c = CHR ''7'') is_variant"

definition string_or :: "fields \<Rightarrow> string \<Rightarrow> json option \<Rightarrow> json option" where
  "string_or input key fallback = (case str_field input key of Some s \<Rightarrow> Some (JStr s) | None \<Rightarrow> fallback)"

definition caller_fields :: "fields \<Rightarrow> fields" where
  "caller_fields input =
     opt_prop ''author_key'' (oget input ''author_key'') @
     opt_prop ''author_name'' (string_or input ''author_name'' (oget input ''author_key'')) @
     opt_prop ''author_kind'' (oget input ''author_kind'') @
     opt_prop ''kind'' (string_or input ''kind'' (Some (JStr ''message''))) @
     opt_prop ''content'' (oget input ''content'') @
     opt_prop ''source_app'' (string_or input ''source_app'' (Some (JStr ''neuromem-mcp''))) @
     opt_prop ''metadata'' (coalesce (oget input ''metadata'') (Some (JObj []))) @
     opt_prop ''occurred_at'' (string_or input ''occurred_at'' (Some JNull))"

definition record_namespace :: "fields \<Rightarrow> string" where
  "record_namespace input =
     str_prop input ''workspace_id'' @ '':'' @ str_prop input ''project_id'' @ '':'' @ str_prop input ''session_id''"

text \<open>The record id: by the idempotency key, or the one supplied, or a fresh one\<close>

definition choose_record_id ::
  "(rat \<Rightarrow> string) \<Rightarrow> (string \<Rightarrow> string) \<Rightarrow> int \<Rightarrow> string \<Rightarrow> fields \<Rightarrow> string option \<Rightarrow> rqueue \<Rightarrow> string op" where
  "choose_record_id fmt sha now fresh input supplied q =
     (case str_field input ''idempotency_key'' of
        Some (c # cs) \<Rightarrow>
          resolveIdempotencyKey sha now fresh (c # cs) (record_namespace input)
            (sha (canonical_json fmt (JObj (caller_fields input)))) supplied q
      | _ \<Rightarrow> ([], Inr (case supplied of None \<Rightarrow> fresh | Some r \<Rightarrow> r)))"

definition stored_write :: "(nat \<Rightarrow> string) \<Rightarrow> router \<Rightarrow> fields \<Rightarrow> string \<Rightarrow> string list \<Rightarrow> fields" where
  "stored_write isoTime r input recordId targets =
     (let logical = \<lparr>workspace_id = str_prop input ''workspace_id'', project_id = str_prop input ''project_id''\<rparr>
      in [(''record_id'', JStr recordId),
          (''workspace_id'', JStr (str_prop input ''workspace_id'')),
          (''project_id'', JStr (str_prop input ''project_id'')),
          (''session_id'', JStr (str_prop input ''session_id'')),
          (''record'', JObj (oset ''occurred_at''
             (JStr (case str_field input ''occurred_at'' of Some t \<Rightarrow> t | None \<Rightarrow> isoTime (uuid7OccurredAt recordId)))
             ((''id'', JStr recordId) # caller_fields input))),
          (''origin_scopes'', JObj (from_entries (map (\<lambda>t.
             (t, JObj [(''workspace_id'', JStr (workspace_id (scopeFor r t logical))),
                       (''project_id'', JStr (project_id (scopeFor r t logical)))])) targets)))])"

record target_delivery =
  td_target :: string
  td_origin_scope :: scope
  td_logical_scope :: scope
  td_status :: delivery_status

text \<open>\<open>Promise.all\<close>: rejected if one delivery is\<close>

fun all_statuses :: "('k \<times> 'a res) list \<Rightarrow> ('k \<times> 'a) list res" where
  "all_statuses [] = Inr []"
| "all_statuses ((t, Inl e) # sts) = Inl e"
| "all_statuses ((t, Inr s) # sts) = rbind (all_statuses sts) (\<lambda>rest. Inr ((t, s) # rest))"

definition target_report :: "router \<Rightarrow> fields \<Rightarrow> scope \<Rightarrow> (string \<times> delivery_status) list \<Rightarrow> string \<Rightarrow> target_delivery" where
  "target_report r write logical sts t =
     \<lparr>td_target = t, td_origin_scope = write_scope r write t, td_logical_scope = logical,
      td_status = the (oget sts t)\<rparr>"

definition memoryRecord ::
  "delivery_env \<Rightarrow> (string \<Rightarrow> string) \<Rightarrow> (nat \<Rightarrow> string) \<Rightarrow> int \<Rightarrow> string \<Rightarrow> string list \<Rightarrow> router \<Rightarrow> fields \<Rightarrow> rqueue \<Rightarrow>
   rqueue \<times> (string \<times> target_delivery list) res" where
  "memoryRecord env sha isoTime now fresh order r input q =
     (case selectTargets (nodes r) (targets_of input) (defaultWriteTargets r) of
        Inl e \<Rightarrow> (q, Inl e)
      | Inr targets \<Rightarrow>
          let supplied = map_option to_lower (str_field input ''record_id'')
          in if \<not> (case supplied of Some (c # cs) \<Rightarrow> matches UUID7_RECORD_PATTERN (c # cs) | _ \<Rightarrow> True)
             then (q, Inl ''record_id must be a UUIDv7'')
             else (case run_op (choose_record_id (de_fmt env) sha now fresh input supplied q) q of
                 (q1, Inl e) \<Rightarrow> (q1, Inl e)
               | (q1, Inr recordId) \<Rightarrow>
                   (case run_op (enqueueRecord (de_fmt env) now (stored_write isoTime r input recordId targets) targets q1) q1 of
                      (q2, Inl e) \<Rightarrow> (q2, Inl e)
                    | (q2, Inr queuedWrite) \<Rightarrow>
                        let logical = \<lparr>workspace_id = str_prop input ''workspace_id'', project_id = str_prop input ''project_id''\<rparr>;
                            (q3, sts) = deliver_all (deliver (retry_api now) env r queuedWrite) order q2
                        in (q3, rbind (all_statuses sts) (\<lambda>ss.
                              Inr (recordId, map (target_report r queuedWrite logical ss) targets))))))"

section \<open>retryEntry and drain\<close>

definition retryEntry ::
  "delivery_env \<Rightarrow> int \<Rightarrow> router \<Rightarrow> entry \<Rightarrow> rqueue \<Rightarrow> rqueue \<times> delivery_status res" where
  "retryEntry env now r e q =
     (case readRecord (record_id e) q of
        Inl err \<Rightarrow> (q, Inl err)
      | Inr None \<Rightarrow>
          (case qa_resolve (retry_api now) (record_id e) (target_node e) q of
             (q1, Inl err) \<Rightarrow> (q1, Inl err)
           | (q1, Inr _) \<Rightarrow> (q1, Inr \<lparr>ds_status = Failed, ds_http = None, ds_error = Some ''spool_missing''\<rparr>))
      | Inr (Some write) \<Rightarrow>
          if oget (clients r) (target_node e) = None
          then (case qa_mark (retry_api now) (record_id e) (target_node e) ''target_unavailable'' q of
                  (q1, Inl err) \<Rightarrow> (q1, Inl err)
                | (q1, Inr _) \<Rightarrow> (q1, Inr \<lparr>ds_status = Pending, ds_http = None, ds_error = Some ''target_unavailable''\<rparr>))
          else deliver (retry_api now) env r write (target_node e) q)"

fun retry_all ::
  "(entry \<Rightarrow> rqueue \<Rightarrow> rqueue \<times> delivery_status res) \<Rightarrow> entry list \<Rightarrow> rqueue \<Rightarrow>
   rqueue \<times> ((string \<times> string) \<times> delivery_status res) list" where
  "retry_all f [] q = (q, [])"
| "retry_all f (e # es) q =
     (let (q1, st) = f e q; (q2, rest) = retry_all f es q1
      in (q2, ((record_id e, target_node e), st) # rest))"

text \<open>The entries that are due, and how many entries remain\<close>

definition drain ::
  "delivery_env \<Rightarrow> int \<Rightarrow> router \<Rightarrow> string list option \<Rightarrow> json option \<Rightarrow> bool \<Rightarrow> (entry list \<Rightarrow> entry list) \<Rightarrow> rqueue \<Rightarrow>
   rqueue \<times> (((string \<times> string) \<times> delivery_status) list \<times> nat) res" where
  "drain env now r requested limit force order q =
     (case (case requested of
              None \<Rightarrow> Inr None
            | Some ts \<Rightarrow> rbind (selectTargets (nodes r) (Some ts) []) (\<lambda>sel. Inr (Some sel))) of
        Inl e \<Rightarrow> (q, Inl e)
      | Inr targets \<Rightarrow>
          (case retryLimit (de_fmt env) (case coalesce limit (Some (JNum 100)) of Some v \<Rightarrow> v | None \<Rightarrow> JNull) of
             Inl e \<Rightarrow> (q, Inl e)
           | Inr n \<Rightarrow>
               (case list_entries targets n force now q of
                  Inl e \<Rightarrow> (q, Inl e)
                | Inr entries \<Rightarrow>
                    let (q1, sts) = retry_all (retryEntry env now r) (order entries) q
                    in (q1, rbind (all_statuses sts) (\<lambda>ss. rbind (count q1) (\<lambda>remaining. Inr (ss, remaining)))))))"

section \<open>The record that is delivered\<close>

lemma enqueue_persisted_id:
  assumes s: "rq_inv q" and ok: "snd (enqueueRecord fmt now rec targets q) = Inr persisted"
  shows "str_field persisted ''record_id'' = str_field rec ''record_id''"
proof -
  have sp: "spool_ok q" using s by (simp add: rq_inv_def)
  obtain r ws where r: "str_field rec ''record_id'' = Some r" and ws: "spool_record fmt r rec targets q = Inr (ws, persisted)"
    using ok rq_inv_queue [OF s]
    by (auto simp: enqueueRecord_def Let_def split: if_splits option.splits sum.splits)
  show ?thesis
  proof (cases "oget (spool q) r")
    case None
    then show ?thesis using ws by (simp add: spool_record_def)
  next
    case (Some env)
    then have "str_field (env_record env) ''record_id'' = Some r" using spool_okD [OF sp] by (simp add: envelope_ok_def)
    then show ?thesis
      using ws Some r by (auto simp: spool_record_def Let_def split: if_splits option.splits)
  qed
qed

lemma all_statuses_Inr:
  "all_statuses sts = Inr ss \<Longrightarrow> map fst ss = map fst sts \<and> (\<forall>(t, s) \<in> set ss. (t, Inr s) \<in> set sts)"
  by (induction sts arbitrary: ss rule: all_statuses.induct) (auto simp: rbind_eq_Inr)

lemma all_statuses_ok: "\<forall>(t, st) \<in> set sts. \<exists>s. st = Inr s \<Longrightarrow> \<exists>ss. all_statuses sts = Inr ss"
  by (induction sts rule: all_statuses.induct) auto

lemma choose_record_id_writes: "list_all idem_write (fst (choose_record_id fmt sha now fresh input supplied q))"
  by (auto simp: choose_record_id_def resolveIdempotencyKey_writes split: option.splits list.splits)

lemma oget_all_statuses:
  assumes "all_statuses sts = Inr ss" and "distinct (map fst sts)" and "t \<in> set (map fst sts)"
  shows "\<exists>s. oget ss t = Some s \<and> (t, Inr s) \<in> set sts"
proof -
  note a = all_statuses_Inr [OF assms(1)]
  then have "t \<in> fst ` set ss" using assms(3) by (metis list.set_map)
  then obtain s where s: "oget ss t = Some s" using oget_None_iff [of ss t] by auto
  then have "(t, s) \<in> set ss" by (rule oget_SomeD)
  then show ?thesis using a s by auto
qed

text \<open>What the report of one target says, against the final queue\<close>

definition report_true :: "delivery_env \<Rightarrow> router \<Rightarrow> string \<Rightarrow> rqueue \<Rightarrow> target_delivery \<Rightarrow> bool" where
  "report_true env r recordId q d =
     (\<exists>write client. str_prop write ''record_id'' = recordId \<and> oget (clients r) (td_target d) = Some client \<and>
        td_origin_scope d = write_scope r write (td_target d) \<and>
        (ds_status (td_status d) = Stored \<longleftrightarrow> accepted env r client write (td_target d)) \<and>
        ((recordId, td_target d) \<in> pending q \<longleftrightarrow> ds_status (td_status d) = Pending))"

lemma deliveries_reported:
  assumes "rq_inv q2" and "{str_prop write ''record_id''} \<times> set targets \<subseteq> pending q2"
    and "mset order = mset targets" and "distinct targets" and "\<forall>t \<in> set targets. oget (clients r) t \<noteq> None"
    and "deliver_all (deliver (retry_api now) env r write) order q2 = (q3, sts)"
  shows "\<exists>ss. all_statuses sts = Inr ss \<and> rq_inv q3 \<and>
    (\<forall>d \<in> set (map (target_report r write logical ss) targets). report_true env r (str_prop write ''record_id'') q3 d) \<and>
    (\<forall>p. p \<notin> {str_prop write ''record_id''} \<times> set targets \<longrightarrow> p \<in> pending q3 \<longleftrightarrow> p \<in> pending q2)"
proof -
  have set: "set order = set targets" using assms(3) by (metis set_mset_mset)
  have dist: "distinct order" using assms(3,4) by (metis mset_eq_imp_distinct_iff)
  have all: "\<forall>t \<in> set order. (str_prop write ''record_id'', t) \<in> pending q2 \<and> oget (clients r) t \<noteq> None"
    using assms(2,5) set by blast
  have "rqd.all_settled env r write order q2 (q3, sts)"
    unfolding assms(6) [symmetric] by (rule rqd.deliver_all_settled [OF assms(1) dist all])
  then have inv: "rq_inv q3" and fst: "map fst sts = order"
    and each: "\<And>t st. (t, st) \<in> set sts \<Longrightarrow> \<exists>s client. st = Inr s \<and> oget (clients r) t = Some client \<and>
         (ds_status s = Stored \<longleftrightarrow> accepted env r client write t) \<and>
         ((str_prop write ''record_id'', t) \<in> pending q3 \<longleftrightarrow> ds_status s = Pending)"
    and keep: "\<forall>p. p \<notin> {str_prop write ''record_id''} \<times> set order \<longrightarrow> p \<in> pending q3 \<longleftrightarrow> p \<in> pending q2"
    unfolding rqd.all_settled_def fst_conv snd_conv by blast+
  have "\<forall>(t, st) \<in> set sts. \<exists>s. st = Inr s" using each by blast
  then obtain ss where ss: "all_statuses sts = Inr ss" using all_statuses_ok by blast
  have "report_true env r (str_prop write ''record_id'') q3 (target_report r write logical ss t)" if "t \<in> set targets" for t
  proof -
    have "t \<in> set (map fst sts)" using that fst set by simp
    then obtain s where s: "oget ss t = Some s" "(t, Inr s) \<in> set sts"
      using oget_all_statuses [OF ss] fst dist by blast
    obtain client where "oget (clients r) t = Some client" "ds_status s = Stored \<longleftrightarrow> accepted env r client write t"
      "(str_prop write ''record_id'', t) \<in> pending q3 \<longleftrightarrow> ds_status s = Pending"
      using each [OF s(2)] by blast
    then show ?thesis
      using s(1) unfolding report_true_def target_report_def by (intro exI [of _ "write"] exI [of _ client]) simp
  qed
  then show ?thesis using ss inv keep set by auto
qed

text \<open>
  C3: Recording.  When \<open>memoryRecord\<close> fails, nothing became pending and nothing was lost; when it
  returns, it reports every target once, and each report is true: \<open>stored\<close> exactly when the node
  accepted the batch, \<open>pending\<close> exactly when the delivery is still in the queue, to be retried;
  whatever order the deliveries run in, no other delivery is touched.
\<close>

theorem memory_record_spec:
  assumes "rq_inv q" and "selectTargets (nodes r) (targets_of input) (defaultWriteTargets r) = Inr targets"
    and "mset order = mset targets" and "\<forall>t \<in> set targets. oget (clients r) t \<noteq> None"
    and "memoryRecord env sha isoTime now fresh order r input q = (q3, result)"
  shows "rq_inv q3 \<and>
    (case result of
       Inl e \<Rightarrow> pending q3 = pending q
     | Inr (recordId, reports) \<Rightarrow>
         map td_target reports = targets \<and> (\<forall>d \<in> set reports. report_true env r recordId q3 d) \<and>
         (\<forall>p. p \<notin> {recordId} \<times> set targets \<longrightarrow> p \<in> pending q3 \<longleftrightarrow> p \<in> pending q))"
proof -
  define supplied where "supplied = map_option to_lower (str_field input ''record_id'')"
  define good where "good = (case supplied of Some (c # cs) \<Rightarrow> matches UUID7_RECORD_PATTERN (c # cs) | _ \<Rightarrow> True)"
  define p where "p = choose_record_id (de_fmt env) sha now fresh input supplied q"
  define q1 where "q1 = fst (run_op p q)"
  define logical where "logical = \<lparr>workspace_id = str_prop input ''workspace_id'', project_id = str_prop input ''project_id''\<rparr>"
  have t: "targets \<noteq> []" "distinct targets" using assms(2) by (auto simp: selectTargets_Inr)
  have q1: "rq_inv q1" "pending q1 = pending q"
    using idem_op_effect [OF assms(1), of p] choose_record_id_writes
    by (simp_all add: p_def q1_def op_atomic_def pending_def)
  have mr: "memoryRecord env sha isoTime now fresh order r input q =
      (if \<not> good then (q, Inl ''record_id must be a UUIDv7'')
       else (case (q1, snd p) of
           (q1, Inl e) \<Rightarrow> (q1, Inl e)
         | (q1, Inr recordId) \<Rightarrow>
             (case run_op (enqueueRecord (de_fmt env) now (stored_write isoTime r input recordId targets) targets q1) q1 of
                (q2, Inl e) \<Rightarrow> (q2, Inl e)
              | (q2, Inr queuedWrite) \<Rightarrow>
                  let (q3, sts) = deliver_all (deliver (retry_api now) env r queuedWrite) order q2
                  in (q3, rbind (all_statuses sts) (\<lambda>ss. Inr (recordId, map (target_report r queuedWrite logical ss) targets))))))"
    using assms(2)
    by (simp add: memoryRecord_def targets_of_def Let_def supplied_def good_def p_def q1_def run_op_def logical_def)
  consider "\<not> good" | e where "good" "snd p = Inl e" | recordId where "good" "snd p = Inr recordId"
    by (cases "snd p") auto
  then show ?thesis
  proof cases
    case 1
    then show ?thesis using assms(1,5) mr by auto
  next
    case (2 e)
    then show ?thesis using q1 assms(5) mr by auto
  next
    case (3 recordId)
    define wr where "wr = stored_write isoTime r input recordId targets"
    define en where "en = enqueueRecord (de_fmt env) now wr targets q1"
    define q2 where "q2 = fst (run_op en q1)"
    have wid: "str_field wr ''record_id'' = Some recordId"
      by (simp add: wr_def stored_write_def Let_def str_field_Some)
    show ?thesis
    proof (cases "snd en")
      case (Inl e)
      then have "fst en = []" unfolding en_def by (rule enqueue_error [OF q1(1)])
      then have "run_op en q1 = (q1, Inl e)" using Inl by (simp add: run_op_def)
      then have "q3 = q1" "result = Inl e" using 3 assms(5) mr by (auto simp: en_def wr_def)
      then show ?thesis using q1 by simp
    next
      case (Inr queued)
      obtain rid where rid: "str_field wr ''record_id'' = Some rid" "op_atomic q1 en"
        "pending q2 = pending q1 \<union> {rid} \<times> set targets"
        by (rule enqueue_effect [OF q1(1) t Inr [unfolded en_def], folded en_def, folded q2_def]) (rule that; assumption)
      have rid_eq: "rid = recordId" using rid(1) wid by simp
      have q2: "rq_inv q2" using rid(2) by (simp add: op_atomic_def q2_def)
      have qid: "str_prop queued ''record_id'' = recordId"
        using enqueue_persisted_id [OF q1(1) Inr [unfolded en_def]] wid by (simp add: str_prop_def)
      obtain q4 sts where d: "deliver_all (deliver (retry_api now) env r queued) order q2 = (q4, sts)" by fastforce
      have sub: "{str_prop queued ''record_id''} \<times> set targets \<subseteq> pending q2" using rid(3) by (simp add: qid rid_eq)
      obtain ss where ss: "all_statuses sts = Inr ss" "rq_inv q4"
        "\<forall>d \<in> set (map (target_report r queued logical ss) targets). report_true env r recordId q4 d"
        "\<forall>p. p \<notin> {recordId} \<times> set targets \<longrightarrow> p \<in> pending q4 \<longleftrightarrow> p \<in> pending q2"
        using deliveries_reported [OF q2 sub assms(3) t(2) assms(4) d, of logical] unfolding qid by blast
      have "run_op en q1 = (q2, Inr queued)" using Inr by (simp add: run_op_def q2_def)
      then have res: "q3 = q4" "result = Inr (recordId, map (target_report r queued logical ss) targets)"
        using 3 assms(5) mr d ss(1) by (auto simp: en_def wr_def)
      have "map td_target (map (target_report r queued logical ss) targets) = targets"
        by (simp add: comp_def target_report_def)
      moreover have "\<forall>p. p \<notin> {recordId} \<times> set targets \<longrightarrow> p \<in> pending q4 \<longleftrightarrow> p \<in> pending q"
        using ss(4) rid(3) q1(2) by (auto simp: rid_eq)
      ultimately show ?thesis using ss(2,3) unfolding res by simp
    qed
  qed
qed

definition example_input :: fields where
  "example_input = [(''workspace_id'', JStr ''w''), (''project_id'', JStr ''p''), (''session_id'', JStr ''s''),
     (''author_key'', JStr ''a''), (''author_kind'', JStr ''human''), (''content'', JStr ''c'')]"

definition accepting_env :: delivery_env where
  "accepting_env = \<lparr>de_fmt = (\<lambda>_. []), de_parse = (\<lambda>_. None),
     de_net = (\<lambda>_ _ _. Fetched \<lparr>status = 200, content_type = None, body = None\<rparr>)\<rparr>"

definition hub_router :: router where
  "hub_router =
     \<lparr>nodes = [(''hub'', \<lparr>node_id = ''hub'', baseUrl = ''http://h'', node_token = Some ''t'', scopeMap = None\<rparr>)],
      clients = [(''hub'', \<lparr>client_node = ''hub'', client_base = ''http://h'', client_token = Some ''t'', maxResponseBytes = 9\<rparr>)],
      defaultReadTargets = [''hub''], defaultWriteTargets = [''hub''], rrfK = 60, retryIntervalMs = 1\<rparr>"

theorem memory_record_spec_witness:
  "rq_inv (fst (memoryRecord accepting_env id (\<lambda>_. []) 5 example_id [''hub''] hub_router example_input empty_queue))"
proof -
  obtain q3 result where m: "memoryRecord accepting_env id (\<lambda>_. []) 5 example_id [''hub''] hub_router example_input empty_queue = (q3, result)"
    by (metis surj_pair)
  have "selectTargets (nodes hub_router) (targets_of example_input) (defaultWriteTargets hub_router) = Inr [''hub'']"
    by (simp add: selectTargets_Inr hub_router_def example_input_def targets_of_def requested_or_def arr_field_def)
  moreover have "\<forall>t \<in> set [''hub'']. oget (clients hub_router) t \<noteq> None" by (simp add: hub_router_def)
  ultimately have "rq_inv q3" using memory_record_spec [OF empty_inv _ _ _ m, of "[''hub'']"] by blast
  then show ?thesis by (simp only: m fst_conv)
qed

section \<open>Draining the queue\<close>

lemma retryEntry_settled:
  assumes q: "rq_inv q" and p: "(record_id e, target_node e) \<in> pending q"
  shows "settled rq_inv pending (record_id e) (target_node e) q (retryEntry env now r e q)"
proof -
  have sp: "spool_ok q" using q by (simp add: rq_inv_def)
  then have a: "assertRecordId (record_id e)" using p pending_assert by blast
  obtain en where en: "oget (spool q) (record_id e) = Some en" using p by (auto simp: pending_def)
  define w where "w = env_record en"
  have wid: "str_prop w ''record_id'' = record_id e"
    using spool_okD [OF sp en] by (simp add: envelope_ok_def str_prop_def w_def)
  have rd: "readRecord (record_id e) q = Inr (Some w)" using a en by (simp add: readRecord_def w_def)
  show ?thesis
  proof (cases "oget (clients r) (target_node e)")
    case None
    obtain q1 where "qa_mark (retry_api now) (record_id e) (target_node e) ''target_unavailable'' q = (q1, Inr ())"
      "rq_inv q1" "pending q1 = pending q"
      using retry_api_mark [OF q p] by blast
    then show ?thesis using rd None by (simp add: retryEntry_def settled_def)
  next
    case (Some client)
    have "settled rq_inv pending (str_prop w ''record_id'') (target_node e) q (deliver (retry_api now) env r w (target_node e) q)"
      by (rule rqd.deliver_settled [OF q _ Some]) (simp add: wid p)
    then show ?thesis using rd Some wid by (simp add: retryEntry_def)
  qed
qed

definition pair_of :: "entry \<Rightarrow> string \<times> string" where
  "pair_of e = (record_id e, target_node e)"

lemma retry_all_settled:
  assumes "rq_inv q" and "distinct (map pair_of es)" and "\<forall>e \<in> set es. pair_of e \<in> pending q"
    and "retry_all (retryEntry env now r) es q = (q', sts)"
  shows "rq_inv q' \<and> map fst sts = map pair_of es \<and>
    (\<forall>(p, st) \<in> set sts. \<exists>s. st = Inr s \<and> (p \<in> pending q' \<longleftrightarrow> ds_status s = Pending)) \<and>
    (\<forall>p. p \<notin> pair_of ` set es \<longrightarrow> p \<in> pending q' \<longleftrightarrow> p \<in> pending q)"
  using assms
proof (induction es arbitrary: q q' sts)
  case Nil
  then show ?case by simp
next
  case (Cons e es)
  obtain q1 st1 where 1: "retryEntry env now r e q = (q1, st1)" by fastforce
  have "settled rq_inv pending (record_id e) (target_node e) q (q1, st1)"
    unfolding 1 [symmetric] by (rule retryEntry_settled [OF Cons.prems(1)]) (use Cons.prems(3) in \<open>simp add: pair_of_def\<close>)
  then obtain s where s: "st1 = Inr s" "rq_inv q1" "pending q1 = (if ds_status s = Pending then pending q else pending q - {pair_of e})"
    by (auto simp: settled_def pair_of_def)
  obtain q2 rest where 2: "retry_all (retryEntry env now r) es q1 = (q2, rest)" by fastforce
  have out: "q' = q2" "sts = (pair_of e, st1) # rest" using Cons.prems(4) by (simp_all add: 1 2 pair_of_def)
  have new: "pair_of e \<notin> pair_of ` set es" using Cons.prems(2) by simp
  have in1: "\<forall>e' \<in> set es. pair_of e' \<in> pending q1"
  proof
    fix e' assume "e' \<in> set es"
    then have "pair_of e' \<noteq> pair_of e" using new by (metis imageI)
    then show "pair_of e' \<in> pending q1" using \<open>e' \<in> set es\<close> Cons.prems(3) s(3) by simp
  qed
  have IH: "rq_inv q2" "map fst rest = map pair_of es"
    "\<forall>(p, st) \<in> set rest. \<exists>s. st = Inr s \<and> (p \<in> pending q2 \<longleftrightarrow> ds_status s = Pending)"
    "\<And>p. p \<notin> pair_of ` set es \<Longrightarrow> p \<in> pending q2 \<longleftrightarrow> p \<in> pending q1"
    using Cons.IH [OF s(2) _ in1 2] Cons.prems(2) by (simp, simp, simp, (metis (no_types, lifting) distinct.simps(2) list.simps(9)))
  have "pair_of e \<in> pending q2 \<longleftrightarrow> ds_status s = Pending"
    using IH(4) [OF new] s(3) Cons.prems(3) by auto
  moreover have "p \<in> pending q2 \<longleftrightarrow> p \<in> pending q" if "p \<notin> pair_of ` set (e # es)" for p
    using IH(4) [of p] s(3) that by auto
  ultimately show ?case using IH(1-3) s(1) by (simp add: out)
qed

lemma count_pending: "rq_inv q \<Longrightarrow> count q = Inr (card (pending q))"
proof -
  assume "rq_inv q"
  then obtain es where es: "queue q = QEntries es" "entries_ok es" "pairs_of es = pending q" using rq_inv_queue by blast
  let ?ps = "map (\<lambda>e. (record_id e, target_node e)) es"
  have "card (set ?ps) = length ?ps" using es(2) unfolding entries_ok_def by (rule distinct_card)
  then have "card (pending q) = length es" using es(3) by (simp only: pairs_of_map length_map)
  then show ?thesis using es(1) by (simp add: count_def)
qed

text \<open>
  C31: Retrying.  A drain from a consistent queue never fails on a delivery: it settles each entry it
  takes, which is left in the queue exactly when its status is \<open>pending\<close>; it touches no other
  delivery, adds none, and the number it reports is that of the deliveries still pending.
\<close>

theorem drain_spec:
  assumes "rq_inv q" and "\<And>es. mset (order es) = mset es"
    and "drain env now r requested limit force order q = (q', Inr (statuses, remaining))"
  shows "rq_inv q' \<and> pending q' \<subseteq> pending q \<and> remaining = card (pending q') \<and> length statuses \<le> 1000 \<and>
    (\<forall>(p, s) \<in> set statuses. p \<in> pending q \<and> (p \<in> pending q' \<longleftrightarrow> ds_status s = Pending)) \<and>
    (\<forall>p. p \<notin> fst ` set statuses \<longrightarrow> p \<in> pending q' \<longleftrightarrow> p \<in> pending q)"
proof -
  obtain targets n entries sts where n: "retryLimit (de_fmt env) (case coalesce limit (Some (JNum 100)) of Some v \<Rightarrow> v | None \<Rightarrow> JNull) = Inr n"
    and l: "list_entries targets n force now q = Inr entries"
    and ra: "retry_all (retryEntry env now r) (order entries) q = (q', sts)"
    and st: "all_statuses sts = Inr statuses" "count q' = Inr remaining"
    using assms(3) by (auto simp: drain_def rbind_eq_Inr Let_def split: sum.splits prod.splits)
  obtain es where es: "queue q = QEntries es" "entries_ok es" "pairs_of es = pending q" using rq_inv_queue [OF assms(1)] by blast
  define fs where "fs = filter (\<lambda>e. force \<or> next_attempt_at e \<le> now)
      (filter (\<lambda>e. case targets of None \<Rightarrow> True | Some ts \<Rightarrow> target_node e \<in> set ts) es)"
  have en: "entries = take n (sort_key next_attempt_at fs)" using l es(1) by (simp add: list_entries_def fs_def)
  have "distinct (map pair_of es)" using es(2) by (simp add: entries_ok_def pair_of_def [abs_def])
  then have "distinct (map pair_of fs)" by (simp add: fs_def distinct_map_filter)
  then have "distinct (map pair_of (sort_key next_attempt_at fs))" by (metis mset_eq_imp_distinct_iff mset_map mset_sort)
  then have "distinct (map pair_of entries)" unfolding en take_map [symmetric] by simp
  then have d: "distinct (map pair_of (order entries))" using assms(2) by (metis mset_eq_imp_distinct_iff mset_map)
  have so: "set (order entries) = set entries" using assms(2) by (metis set_mset_mset)
  have "set entries \<subseteq> set es" unfolding en by (auto dest!: in_set_takeD simp: fs_def)
  then have in_p: "\<forall>e \<in> set (order entries). pair_of e \<in> pending q"
    unfolding so es(3) [symmetric] by (auto simp: pairs_of_def pair_of_def)
  note all = retry_all_settled [OF assms(1) d in_p ra]
  note ss = all_statuses_Inr [OF st(1)]
  have fsts: "fst ` set statuses = pair_of ` set (order entries)"
    using ss all by (metis list.set_map)
  have each: "p \<in> pending q \<and> (p \<in> pending q' \<longleftrightarrow> ds_status s = Pending)" if "(p, s) \<in> set statuses" for p s
  proof -
    have "(p, Inr s) \<in> set sts" using ss that by blast
    then have "p \<in> pending q' \<longleftrightarrow> ds_status s = Pending" using all by fastforce
    moreover have "p \<in> fst ` set statuses" using that by force
    ultimately show ?thesis using fsts in_p by auto
  qed
  have other: "p \<in> pending q' \<longleftrightarrow> p \<in> pending q" if "p \<notin> fst ` set statuses" for p
    using all that fsts by blast
  have "pending q' \<subseteq> pending q"
  proof
    fix p assume "p \<in> pending q'"
    then show "p \<in> pending q" using each other [of p] by (cases "p \<in> fst ` set statuses") auto
  qed
  moreover have "remaining = card (pending q')" using st(2) count_pending all by simp
  moreover have "length statuses \<le> 1000"
  proof -
    have "length statuses = length sts" using ss by (metis length_map)
    also have "\<dots> = length (order entries)" using all by (metis length_map)
    also have "\<dots> = length entries" using assms(2) by (metis size_mset)
    also have "\<dots> \<le> n" by (simp add: en)
    finally show ?thesis using retryLimit_bounds [OF n] by simp
  qed
  ultimately show ?thesis using all each other by blast
qed

theorem drain_spec_witness:
  "\<exists>q' statuses. drain accepting_env 9 hub_router None None True id example_queue = (q', Inr (statuses, 1)) \<and>
     pending q' \<subseteq> pending example_queue"
proof -
  have "snd (drain accepting_env 9 hub_router None None True id example_queue) =
      Inr ([((example_id, ''peer''), \<lparr>ds_status = Pending, ds_http = None, ds_error = Some ''target_unavailable''\<rparr>)], 1)"
    by code_simp
  then obtain q' statuses where d: "drain accepting_env 9 hub_router None None True id example_queue = (q', Inr (statuses, 1))"
    by (metis prod.collapse)
  from drain_spec [OF example_inv _ d] show ?thesis using d by auto
qed

end
