(* ===== verification/FederatedProps.thy ===== *)
theory FederatedProps
  imports Federated
begin

text \<open>
  The properties of federated reads: the bound on the serialized result, that a result within the
  bound is left as it is, and that the failure of a node is an error of its own and nothing else.
\<close>

section \<open>Sizes of serialised values\<close>

lemma length_join: "length (join sep xs) = sum_list (map length xs) + (length xs - 1) * length sep"
  by (induction sep xs rule: join.induct) auto

definition field_bytes :: "(rat \<Rightarrow> string) \<Rightarrow> string \<times> json \<Rightarrow> nat" where
  "field_bytes fmt kv = length (quote (fst kv)) + 1 + serialized_bytes fmt (snd kv)"

lemma bytes_obj: "serialized_bytes fmt (JObj kvs) = 2 + (\<Sum>kv\<leftarrow>kvs. field_bytes fmt kv) + (length kvs - 1)"
  by (simp add: serialized_bytes_def length_join field_bytes_def comp_def)

lemma bytes_arr: "serialized_bytes fmt (JArr xs) = 2 + (\<Sum>x\<leftarrow>xs. serialized_bytes fmt x) + (length xs - 1)"
  by (simp add: serialized_bytes_def length_join comp_def)

lemma bytes_obj_append:
  "kvs \<noteq> [] \<Longrightarrow> serialized_bytes fmt (JObj (kvs @ ys)) = serialized_bytes fmt (JObj kvs) + (\<Sum>y\<leftarrow>ys. 1 + field_bytes fmt y)"
proof -
  have "(\<Sum>y\<leftarrow>ys. 1 + field_bytes fmt y) = length ys + (\<Sum>y\<leftarrow>ys. field_bytes fmt y)"
    by (induction ys) auto
  then show "kvs \<noteq> [] \<Longrightarrow> ?thesis" by (cases kvs) (auto simp: bytes_obj)
qed

lemma bytes_arr_mono: "serialized_bytes fmt (JArr xs) \<le> serialized_bytes fmt (JArr (xs @ ys))"
  by (simp add: bytes_arr)

lemma bytes_nat: "n < 10 ^ 20 \<Longrightarrow> serialized_bytes fmt (JNum (of_nat n)) \<le> 20"
  using length_dec_str_le [of n 20] by (simp add: serialized_bytes_def num_str_def)

lemma quoted_lengths:
  "length (quote ''truncated'') = 11" "length (quote ''omitted_results'') = 17" "length (quote ''omitted_snippets'') = 18"
  "length (quote ''results'') = 9" "length (quote ''errors'') = 8" "length (quote ''targets'') = 9"
  "length (quote ''record_snippets'') = 17"
  by code_simp+

abbreviation fed_bytes :: "(rat \<Rightarrow> string) \<Rightarrow> fed_result \<Rightarrow> nat" where
  "fed_bytes fmt r \<equiv> serialized_bytes fmt (fed_json r)"

lemma fed_bytes_omitted:
  assumes "n < 10 ^ 20" and "m < 10 ^ 20"
  shows "fed_bytes fmt (r\<lparr>fr_omitted := Some (n, m)\<rparr>) \<le> fed_bytes fmt (r\<lparr>fr_omitted := None\<rparr>) + 256"
proof -
  define kvs where "kvs = [(''results'', JArr (map JObj (fr_results r))), (''errors'', JArr (map JObj (fr_errors r))),
            (''targets'', JArr (map JStr (fr_targets r)))] @ embedding_fields (fr_embedding r) @
           (if fr_snippets r = [] then [] else [(''record_snippets'', JArr (map JObj (fr_snippets r)))])"
  have ne: "kvs \<noteq> []" by (simp add: kvs_def)
  have a: "fed_json (r\<lparr>fr_omitted := Some (n, m)\<rparr>) = JObj (kvs @ omitted_fields (Some (n, m)))"
    and b: "fed_json (r\<lparr>fr_omitted := None\<rparr>) = JObj kvs"
    by (simp_all add: fed_json_def kvs_def omitted_fields_def)
  have "(\<Sum>y\<leftarrow>omitted_fields (Some (n, m)). 1 + field_bytes fmt y) \<le> 256"
    using bytes_nat [OF assms(1), of fmt] bytes_nat [OF assms(2), of fmt]
    by (simp add: omitted_fields_def field_bytes_def quoted_lengths) (simp add: serialized_bytes_def)
  then show ?thesis unfolding a b bytes_obj_append [OF ne] by simp
qed

lemma bound_items_size:
  assumes "fed_bytes fmt (put kept) \<le> MAX_SERIALIZED_RESULT_BYTES - 256"
  shows "fed_bytes fmt (put (fst (bound_items fmt put kept raws))) \<le> MAX_SERIALIZED_RESULT_BYTES - 256"
  using assms
proof (induction raws arbitrary: kept)
  case (Cons raw raws)
  show ?case
  proof (cases "fed_bytes fmt (put (kept @ [bound_candidate fmt raw])) > MAX_SERIALIZED_RESULT_BYTES - 256")
    case True
    then show ?thesis using Cons by (simp add: Let_def split: prod.splits) (metis fst_conv)
  next
    case False
    then show ?thesis using Cons.IH [of "kept @ [bound_candidate fmt raw]"] by (simp add: Let_def)
  qed
qed simp

lemma bound_items_omitted: "snd (bound_items fmt put kept raws) \<le> length raws"
proof (induction raws arbitrary: kept)
  case (Cons raw raws)
  show ?case
    using Cons.IH [of kept] Cons.IH [of "kept @ [bound_candidate fmt raw]"]
    by (auto simp: Let_def split: prod.splits)
qed simp

lemma bound_items_all:
  assumes "\<forall>raw \<in> set raws. serialized_bytes fmt (JObj raw) \<le> MAX_SERIALIZED_ITEM_BYTES"
    and "\<forall>n. fed_bytes fmt (put (kept @ take n raws)) \<le> MAX_SERIALIZED_RESULT_BYTES - 256"
  shows "bound_items fmt put kept raws = (kept @ raws, 0)"
  using assms
proof (induction raws arbitrary: kept)
  case (Cons raw raws)
  have c: "bound_candidate fmt raw = raw" using Cons.prems(1) by (simp add: bound_candidate_def)
  have "fed_bytes fmt (put (kept @ [raw])) \<le> MAX_SERIALIZED_RESULT_BYTES - 256"
    using spec [OF Cons.prems(2), of 1] by simp
  moreover have "bound_items fmt put (kept @ [raw]) raws = ((kept @ [raw]) @ raws, 0)"
  proof (rule Cons.IH)
    show "\<forall>n. fed_bytes fmt (put ((kept @ [raw]) @ take n raws)) \<le> MAX_SERIALIZED_RESULT_BYTES - 256"
      using Cons.prems(2) by (metis append.assoc append_Cons append_Nil take_Suc_Cons)
  qed (use Cons.prems(1) in simp)
  ultimately show ?case by (simp add: c Let_def)
qed simp

text \<open>The bounded result, step by step\<close>

definition fed_base :: "fed_result \<Rightarrow> fed_result" where
  "fed_base r = r\<lparr>fr_results := [], fr_snippets := [], fr_omitted := None\<rparr>"

definition bounded_results :: "(rat \<Rightarrow> string) \<Rightarrow> fed_result \<Rightarrow> fields list \<times> nat" where
  "bounded_results fmt r = bound_items fmt (\<lambda>rs. (fed_base r)\<lparr>fr_results := rs\<rparr>) [] (fr_results r)"

definition bounded_snippets :: "(rat \<Rightarrow> string) \<Rightarrow> fed_result \<Rightarrow> fields list \<times> nat" where
  "bounded_snippets fmt r =
     bound_items fmt (\<lambda>ss. (fed_base r)\<lparr>fr_results := fst (bounded_results fmt r), fr_snippets := ss\<rparr>) [] (fr_snippets r)"

lemma bound_parts:
  "\<exists>omitted. boundFederatedResult fmt r =
     (fed_base r)\<lparr>fr_results := fst (bounded_results fmt r), fr_snippets := fst (bounded_snippets fmt r), fr_omitted := omitted\<rparr> \<and>
     (omitted = None \<or> omitted = Some (snd (bounded_results fmt r), snd (bounded_snippets fmt r)))"
  by (auto simp: boundFederatedResult_def Let_def fed_base_def bounded_results_def bounded_snippets_def split: prod.splits)

lemma bounded_size:
  assumes "fed_bytes fmt (fed_base r) \<le> MAX_SERIALIZED_RESULT_BYTES - 256"
  shows "fed_bytes fmt ((fed_base r)\<lparr>fr_results := fst (bounded_results fmt r), fr_snippets := fst (bounded_snippets fmt r)\<rparr>)
    \<le> MAX_SERIALIZED_RESULT_BYTES - 256"
proof -
  have b: "(fed_base r)\<lparr>fr_results := []\<rparr> = fed_base r" by (simp add: fed_base_def)
  have "fed_bytes fmt ((fed_base r)\<lparr>fr_results := fst (bounded_results fmt r)\<rparr>) \<le> MAX_SERIALIZED_RESULT_BYTES - 256"
    unfolding bounded_results_def by (rule bound_items_size) (simp only: b assms)
  moreover have "(fed_base r)\<lparr>fr_results := fst (bounded_results fmt r), fr_snippets := []\<rparr> =
      (fed_base r)\<lparr>fr_results := fst (bounded_results fmt r)\<rparr>"
    by (simp add: fed_base_def)
  ultimately have "fed_bytes fmt ((fed_base r)\<lparr>fr_results := fst (bounded_results fmt r), fr_snippets := []\<rparr>)
      \<le> MAX_SERIALIZED_RESULT_BYTES - 256" by (simp only:)
  then show ?thesis unfolding bounded_snippets_def by (rule bound_items_size)
qed

text \<open>
  C35: The bound on a result.  When the errors and targets alone fit, the object that is returned
  serialises to at most 960000 bytes, whatever the nodes answered.
\<close>

theorem bounded_result_size:
  assumes "fed_bytes fmt (r\<lparr>fr_results := [], fr_snippets := [], fr_omitted := None\<rparr>) \<le> 960000 - 256"
    and "length (fr_results r) < 10 ^ 20" and "length (fr_snippets r) < 10 ^ 20"
  shows "serialized_bytes fmt (fed_json (boundFederatedResult fmt r)) \<le> 960000"
proof -
  let ?rs = "fst (bounded_results fmt r)" and ?ss = "fst (bounded_snippets fmt r)"
  let ?b = "(fed_base r)\<lparr>fr_results := ?rs, fr_snippets := ?ss\<rparr>"
  obtain omitted where o: "boundFederatedResult fmt r = ?b\<lparr>fr_omitted := omitted\<rparr>"
    "omitted = None \<or> omitted = Some (snd (bounded_results fmt r), snd (bounded_snippets fmt r))"
    using bound_parts by blast
  have n: "snd (bounded_results fmt r) < 10 ^ 20" "snd (bounded_snippets fmt r) < 10 ^ 20"
    unfolding bounded_results_def bounded_snippets_def
    by (rule le_less_trans [OF bound_items_omitted assms(2)], rule le_less_trans [OF bound_items_omitted assms(3)])
  have "fed_bytes fmt (fed_base r) \<le> MAX_SERIALIZED_RESULT_BYTES - 256"
    using assms(1) by (simp add: fed_base_def MAX_SERIALIZED_RESULT_BYTES_def)
  then have "fed_bytes fmt ?b \<le> 960000 - 256"
    using bounded_size by (simp add: MAX_SERIALIZED_RESULT_BYTES_def)
  moreover have "?b\<lparr>fr_omitted := None\<rparr> = ?b" by (simp add: fed_base_def)
  ultimately show ?thesis
    using o fed_bytes_omitted [OF n, of fmt ?b] by auto
qed

definition empty_result :: fed_result where
  "empty_result = \<lparr>fr_results = [], fr_errors = [], fr_targets = [''hub''], fr_embedding = [], fr_snippets = [], fr_omitted = None\<rparr>"

lemma example_bytes:
  "fed_bytes (\<lambda>_. []) empty_result = 44"
  "fed_bytes (\<lambda>_. []) (empty_result\<lparr>fr_results := [[(''content'', JStr ''x'')]]\<rparr>) = 59"
  "serialized_bytes (\<lambda>_. []) (JObj [(''content'', JStr ''x'')]) = 15"
  by code_simp+

theorem bounded_result_size_witness:
  "serialized_bytes (\<lambda>_. []) (fed_json (boundFederatedResult (\<lambda>_. [])
     (empty_result\<lparr>fr_results := [[(''content'', JStr ''x'')]]\<rparr>))) \<le> 960000"
proof (rule bounded_result_size)
  have "(empty_result\<lparr>fr_results := [[(''content'', JStr ''x'')]]\<rparr>)\<lparr>fr_results := [], fr_snippets := [], fr_omitted := None\<rparr> = empty_result"
    by (simp add: empty_result_def)
  then show "fed_bytes (\<lambda>_. []) ((empty_result\<lparr>fr_results := [[(''content'', JStr ''x'')]]\<rparr>)
      \<lparr>fr_results := [], fr_snippets := [], fr_omitted := None\<rparr>) \<le> 960000 - 256"
    by (simp only: example_bytes)
qed (simp_all add: empty_result_def)

section \<open>Results within the bound\<close>

lemma fed_bytes_mono:
  assumes "fr_omitted r = None"
  shows "fed_bytes fmt (r\<lparr>fr_results := take n (fr_results r), fr_snippets := []\<rparr>) \<le> fed_bytes fmt r"
    and "fed_bytes fmt (r\<lparr>fr_snippets := take n (fr_snippets r)\<rparr>) \<le> fed_bytes fmt r"
proof -
  define rest where "rest r = [(''errors'', JArr (map JObj (fr_errors r))), (''targets'', JArr (map JStr (fr_targets r)))] @
    embedding_fields (fr_embedding r)" for r :: fed_result
  define snips :: "fields list \<Rightarrow> fields" where
    "snips ss = (if ss = [] then [] else [(''record_snippets'', JArr (map JObj ss))])" for ss
  have j: "fed_json q = JObj ([(''results'', JArr (map JObj (fr_results q)))] @ rest q @ snips (fr_snippets q))"
    if "fr_omitted q = None" for q
    using that by (simp add: fed_json_def rest_def snips_def omitted_fields_def)
  have split: "fed_bytes fmt q = 2 + field_bytes fmt (''results'', JArr (map JObj (fr_results q))) +
      (\<Sum>y\<leftarrow>rest q. 1 + field_bytes fmt y) + (\<Sum>y\<leftarrow>snips (fr_snippets q). 1 + field_bytes fmt y)"
    if "fr_omitted q = None" for q
    unfolding j [OF that] by (subst bytes_obj_append) (simp_all add: bytes_obj)
  have arr: "serialized_bytes fmt (JArr (map JObj (take n xs))) \<le> serialized_bytes fmt (JArr (map JObj xs))" for xs
    using bytes_arr_mono [of fmt "map JObj (take n xs)" "map JObj (drop n xs)"] by (simp add: map_append [symmetric] del: map_append)
  have rest: "rest (r\<lparr>fr_results := a, fr_snippets := b\<rparr>) = rest r" "rest (r\<lparr>fr_snippets := b\<rparr>) = rest r" for a b
    by (simp_all add: rest_def)
  show "fed_bytes fmt (r\<lparr>fr_results := take n (fr_results r), fr_snippets := []\<rparr>) \<le> fed_bytes fmt r"
    using assms arr [of "fr_results r"] by (simp add: split rest field_bytes_def) (simp add: snips_def)
  have "(\<Sum>y\<leftarrow>snips (take n ss). 1 + field_bytes fmt y) \<le> (\<Sum>y\<leftarrow>snips ss. 1 + field_bytes fmt y)" for ss
    using arr [of ss] by (simp add: snips_def field_bytes_def)
  then show "fed_bytes fmt (r\<lparr>fr_snippets := take n (fr_snippets r)\<rparr>) \<le> fed_bytes fmt r"
    using assms by (simp add: split rest)
qed

text \<open>
  Nothing is lost within the bound.  A result that fits, all of whose items fit and of which no
  item is marked as truncated by its node, is returned as it is.
\<close>

theorem bounded_result_identity:
  assumes "fed_bytes fmt r \<le> 960000 - 256" and "fr_omitted r = None"
    and "\<forall>item \<in> set (fr_results r) \<union> set (fr_snippets r). serialized_bytes fmt (JObj item) \<le> 512 * 1024"
    and "\<forall>item \<in> set (fr_results r). \<not> marked_truncated item"
  shows "boundFederatedResult fmt r = r"
proof -
  have size: "fed_bytes fmt r \<le> MAX_SERIALIZED_RESULT_BYTES - 256"
    using assms(1) by (simp add: MAX_SERIALIZED_RESULT_BYTES_def)
  have items: "\<forall>item \<in> set (fr_results r). serialized_bytes fmt (JObj item) \<le> MAX_SERIALIZED_ITEM_BYTES"
    "\<forall>item \<in> set (fr_snippets r). serialized_bytes fmt (JObj item) \<le> MAX_SERIALIZED_ITEM_BYTES"
    using assms(3) by (simp_all add: MAX_SERIALIZED_ITEM_BYTES_def)
  have "bounded_results fmt r = ([] @ fr_results r, 0)"
    unfolding bounded_results_def
  proof (rule bound_items_all [OF items(1)], rule allI)
    fix n
    have "(fed_base r)\<lparr>fr_results := [] @ take n (fr_results r)\<rparr> = r\<lparr>fr_results := take n (fr_results r), fr_snippets := []\<rparr>"
      using assms(2) by (simp add: fed_base_def)
    then show "fed_bytes fmt ((fed_base r)\<lparr>fr_results := [] @ take n (fr_results r)\<rparr>) \<le> MAX_SERIALIZED_RESULT_BYTES - 256"
      using fed_bytes_mono(1) [OF assms(2), of fmt n] size by simp
  qed
  moreover from this have "bounded_snippets fmt r = ([] @ fr_snippets r, 0)"
    unfolding bounded_snippets_def
  proof (intro bound_items_all [OF items(2)] allI)
    fix n
    have "(fed_base r)\<lparr>fr_results := fr_results r, fr_snippets := [] @ take n (fr_snippets r)\<rparr> = r\<lparr>fr_snippets := take n (fr_snippets r)\<rparr>"
      using assms(2) by (simp add: fed_base_def)
    then show "fed_bytes fmt ((fed_base r)\<lparr>fr_results := fst (bounded_results fmt r), fr_snippets := [] @ take n (fr_snippets r)\<rparr>)
        \<le> MAX_SERIALIZED_RESULT_BYTES - 256"
      using fed_bytes_mono(2) [OF assms(2), of fmt n] size \<open>bounded_results fmt r = ([] @ fr_results r, 0)\<close> by simp
  qed
  moreover have "\<not> list_ex (\<lambda>raw. serialized_bytes fmt (JObj raw) > MAX_SERIALIZED_ITEM_BYTES) (fr_snippets r)"
    using items(2) by (auto simp: list_ex_iff)
  moreover have "\<not> list_ex marked_truncated (fr_results r)" using assms(4) by (auto simp: list_ex_iff)
  ultimately show ?thesis
    using assms(2)
    by (simp add: boundFederatedResult_def Let_def bounded_results_def bounded_snippets_def fed_base_def)
qed

theorem bounded_result_identity_witness:
  "boundFederatedResult (\<lambda>_. []) (empty_result\<lparr>fr_results := [[(''content'', JStr ''x'')]]\<rparr>) =
     empty_result\<lparr>fr_results := [[(''content'', JStr ''x'')]]\<rparr>"
proof (rule bounded_result_identity)
  show "fed_bytes (\<lambda>_. []) (empty_result\<lparr>fr_results := [[(''content'', JStr ''x'')]]\<rparr>) \<le> 960000 - 256"
    by (simp only: example_bytes)
  have S: "set (fr_results (empty_result\<lparr>fr_results := [[(''content'', JStr ''x'')]]\<rparr>)) \<union>
      set (fr_snippets (empty_result\<lparr>fr_results := [[(''content'', JStr ''x'')]]\<rparr>)) = {[(''content'', JStr ''x'')]}"
    by (simp add: empty_result_def)
  show "\<forall>item \<in> set (fr_results (empty_result\<lparr>fr_results := [[(''content'', JStr ''x'')]]\<rparr>)) \<union>
      set (fr_snippets (empty_result\<lparr>fr_results := [[(''content'', JStr ''x'')]]\<rparr>)).
      serialized_bytes (\<lambda>_. []) (JObj item) \<le> 512 * 1024"
    unfolding S by (simp add: example_bytes)
qed (simp_all add: empty_result_def marked_truncated_def)

section \<open>A node that fails is an error of its own\<close>

lemma snd_enumerate: "map (f \<circ> snd) (enumerate n xs) = map f xs"
  by (metis map_map map_snd_enumerate)

lemma errors_of_targets:
  "List.map_filter tr_error (map (ask_target w r call logical) (enumerate n targets)) =
     concat (map (\<lambda>t. case ask_result w r call logical t of
        Inl e \<Rightarrow> [safe_error t (scopeFor r t logical) logical e] | Inr _ \<Rightarrow> []) targets)"
  by (induction targets arbitrary: n)
    (auto simp: List.map_filter_simps ask_target_def Let_def split: sum.splits prod.splits)

lemma fr_errors_bound [simp]: "fr_errors (boundFederatedResult fmt r) = fr_errors r"
  and fr_targets_bound [simp]: "fr_targets (boundFederatedResult fmt r) = fr_targets r"
  by (auto simp: boundFederatedResult_def Let_def split: prod.splits)

lemma bound_items_from:
  "item \<in> set (fst (bound_items fmt put kept raws)) \<Longrightarrow> item \<in> set kept \<or> (\<exists>raw \<in> set raws. item = bound_candidate fmt raw)"
proof (induction raws arbitrary: kept)
  case (Cons raw raws)
  show ?case
    using Cons.prems Cons.IH [of kept] Cons.IH [of "kept @ [bound_candidate fmt raw]"]
    by (auto simp: Let_def split: if_splits prod.splits)
qed simp

lemma oget_set_if: "oget (set_if key v o1) k = (if k = key \<and> v \<noteq> None then v else oget o1 k)"
  by (auto simp: set_if_def split: option.splits)

lemma compact_origin: "oget (bound_candidate fmt raw) ''origin_node'' = oget raw ''origin_node''"
  by (simp add: bound_candidate_def compactItem_def Let_def oget_set_if oget_optionalFields compact_keys_def)

lemma fused_result_origin: "oget (fused_result e) ''origin_node'' = Some (JStr (primaryNode e))"
  by (simp add: fused_result_def oget_ospread)

lemma ranked_items_node: "x \<in> set (ranked_items tr) \<Longrightarrow> rk_node x = tr_target tr \<and> tr_items tr \<noteq> []"
  by (cases "tr_items tr") (auto simp: ranked_items_def)

lemma rrf_from:
  assumes "item \<in> set (rrf fmt sha k items limit)"
  shows "\<exists>x \<in> set items. oget item ''origin_node'' = Some (JStr (rk_node x))"
proof -
  let ?all = "map (\<lambda>key. reference fmt sha k (group sha key items)) (uniq (map (rank_key sha) items))"
  have "map snd (fuse fmt sha k items) = ?all" by (simp add: fuse_grouping comp_def)
  then obtain e where e: "item = fused_result e" "e \<in> set ?all"
    using assms by (auto simp: rrf_def dest!: in_set_takeD)
  then obtain key where key: "key \<in> rank_key sha ` set items" "e = reference fmt sha k (group sha key items)" by auto
  then have "group sha key items \<noteq> []" by (auto simp: group_def filter_empty_conv)
  then have "first_best (group sha key items) \<in> set items" using first_best_min(1) by (fastforce simp: group_def)
  then show ?thesis using e(1) key(2) by (auto simp: fused_result_origin reference_def)
qed

text \<open>
  C32: Partial failure.  A federated read reports every target; each target whose request or answer
  fails gives exactly one error, with its name and a code only, in the order of the targets; and every
  result comes from a target that answered.
\<close>

theorem federated_isolates_failures:
  "fr_targets (federated w r targets limit call logical) = targets \<and>
   fr_errors (federated w r targets limit call logical) =
     concat (map (\<lambda>t. case ask_result w r call logical t of
        Inl e \<Rightarrow> [safe_error t (scopeFor r t logical) logical e] | Inr _ \<Rightarrow> []) targets) \<and>
   (\<forall>item \<in> set (fr_results (federated w r targets limit call logical)).
      \<exists>t \<in> set targets. is_ok (ask_result w r call logical t) \<and> oget item ''origin_node'' = Some (JStr t))"
proof -
  let ?rs = "map (ask_target w r call logical) (enumerate 0 targets)"
  let ?u = "unbounded_result w r targets limit logical ?rs"
  have "\<exists>t \<in> set targets. is_ok (ask_result w r call logical t) \<and> oget item ''origin_node'' = Some (JStr t)"
    if i: "item \<in> set (fr_results (federated w r targets limit call logical))" for item
  proof -
    have "item \<in> set (fst (bounded_results (w_fmt w) ?u))"
      using i bound_parts [of "w_fmt w" ?u] by (auto simp: federated_def)
    then obtain raw where raw: "raw \<in> set (fr_results ?u)" "item = bound_candidate (w_fmt w) raw"
      unfolding bounded_results_def using bound_items_from by fastforce
    then obtain x where x: "x \<in> set (concat (map ranked_items ?rs))" "oget raw ''origin_node'' = Some (JStr (rk_node x))"
      using rrf_from by (fastforce simp: unbounded_result_def)
    then obtain tr where tr: "tr \<in> set ?rs" "x \<in> set (ranked_items tr)" by auto
    then obtain nt where nt: "nt \<in> set (enumerate 0 targets)" "tr = ask_target w r call logical nt" by auto
    then have t: "snd nt \<in> set targets" using nth_mem by (fastforce simp: in_set_enumerate_eq)
    have "rk_node x = tr_target tr" "tr_items tr \<noteq> []" using ranked_items_node [OF tr(2)] by simp_all
    moreover have "tr_target tr = snd nt" "tr_items tr \<noteq> [] \<longrightarrow> is_ok (ask_result w r call logical (snd nt))"
      unfolding nt(2) by (simp_all add: ask_target_def Let_def split: sum.splits prod.splits)
    ultimately show ?thesis using raw(2) x(2) t by (auto simp: compact_origin)
  qed
  then show ?thesis
    by (simp add: federated_def unbounded_result_def errors_of_targets)
qed

definition example_world :: world where
  "example_world = \<lparr>w_fmt = (\<lambda>_. []), w_sha = id, w_parse = (\<lambda>_. None), w_net = (\<lambda>_ _. FetchError False)\<rparr>"

definition example_router :: router where
  "example_router =
     \<lparr>nodes = [(''hub'', \<lparr>node_id = ''hub'', baseUrl = ''http://h'', node_token = Some ''t'', scopeMap = None\<rparr>)],
      clients = [(''hub'', \<lparr>client_node = ''hub'', client_base = ''http://h'', client_token = Some ''t'', maxResponseBytes = 9\<rparr>)],
      defaultReadTargets = [''hub''], defaultWriteTargets = [''hub''], rrfK = 60, retryIntervalMs = 1\<rparr>"

theorem federated_isolates_failures_witness:
  "fr_errors (federated example_world example_router [''hub''] 5 (post_call ''/v1/chat'' []) (logical_scope ''w'' ''p'')) =
     [safe_error ''hub'' (logical_scope ''w'' ''p'') (logical_scope ''w'' ''p'') (CoreRequestError ''network_error'' True None)]"
proof -
  have "ask_result example_world example_router (post_call ''/v1/chat'' []) (logical_scope ''w'' ''p'') ''hub'' =
      Inl (CoreRequestError ''network_error'' True None)"
    "scopeFor example_router ''hub'' (logical_scope ''w'' ''p'') = logical_scope ''w'' ''p''"
    by (simp_all add: ask_result_def example_world_def example_router_def client_request_def core_request_def scopeFor_def)
  then show ?thesis
    using federated_isolates_failures [of example_world example_router "[''hub'']" 5 "post_call ''/v1/chat'' []" "logical_scope ''w'' ''p''"]
    by simp
qed

end
