(* ===== verification/ToolTables.thy ===== *)
theory ToolTables
  imports Targets
begin

text \<open>
  The tables at the top of \<open>apps/mcp/src/tools.ts\<close>: the two tool lists with their JSON schemas,
  the argument names each tool allows, the capability it needs.  A table is an object; a name that
  only the object prototype has (\<open>constructor\<close>) is not in it here, and in the code such a name
  is refused a few statements later.
\<close>

section \<open>Property schemas\<close>

record tool =
  tool_name :: string
  tool_description :: string
  inputSchema :: fields

definition typed :: "string \<Rightarrow> fields \<Rightarrow> json" where
  "typed t rest = JObj ((''type'', JStr t) # rest)"

definition len_string :: "nat \<Rightarrow> nat \<Rightarrow> json" where
  "len_string lo hi = typed ''string'' [(''minLength'', JNum (of_nat lo)), (''maxLength'', JNum (of_nat hi))]"

definition enum_string :: "string list \<Rightarrow> json" where
  "enum_string vs = typed ''string'' [(''enum'', JArr (map JStr vs))]"

definition int_range :: "nat \<Rightarrow> nat \<Rightarrow> json" where
  "int_range lo hi = typed ''integer'' [(''minimum'', JNum (of_nat lo)), (''maximum'', JNum (of_nat hi))]"

definition default_flag :: "bool \<Rightarrow> json" where
  "default_flag b = typed ''boolean'' [(''default'', JBool b)]"

definition date_time :: json where
  "date_time = typed ''string'' [(''format'', JStr ''date-time'')]"

definition uuidProperty :: json where
  "uuidProperty = typed ''string'' [(''format'', JStr ''uuid'')]"

definition uuid7Property :: json where
  "uuid7Property = typed ''string'' [(''format'', JStr ''uuid''),
     (''pattern'', JStr (''^[0-9a-fA-F]{8}-[0-9a-fA-F]{4}-7[0-9a-fA-F]{3}-[89abAB][0-9a-fA-F]{3}-[0-9a-fA-F]{12}$''))]"

definition targetProperty :: json where
  "targetProperty = typed ''string'' [(''pattern'', JStr ''^[a-zA-Z0-9][a-zA-Z0-9_-]{0,63}$''),
     (''description'', JStr (''Development Router Node ID; use '' @ quoted ''all'' @ '' for every configured Node''))]"

definition scopeProperties :: fields where
  "scopeProperties = [(''workspace_id'', uuidProperty), (''project_id'', uuidProperty)]"

definition query_property :: json where
  "query_property = len_string 1 10000"

definition recallProperties :: fields where
  "recallProperties = scopeProperties @
     [(''query'', query_property), (''session_id'', uuid7Property), (''after'', date_time),
      (''before'', date_time), (''limit'', int_range 1 50), (''target'', targetProperty)]"

definition record_kinds :: "string list" where
  "record_kinds = [''message'', ''file'', ''commit'', ''tool_result'', ''correction'', ''note'']"

definition author_kinds :: "string list" where
  "author_kinds = [''human'', ''agent'', ''automation'', ''service'']"

definition object_schema :: "fields \<Rightarrow> string list \<Rightarrow> fields" where
  "object_schema ps req =
     [(''type'', JStr ''object''), (''additionalProperties'', JBool False), (''properties'', JObj ps)] @
     (if req = [] then [] else [(''required'', JArr (map JStr req))])"

definition tool_of :: "string \<Rightarrow> string \<Rightarrow> fields \<Rightarrow> string list \<Rightarrow> tool" where
  "tool_of name description ps req =
     \<lparr>tool_name = name, tool_description = description, inputSchema = object_schema ps req\<rparr>"

section \<open>MEMORY_TOOLS\<close>

definition MEMORY_TOOLS :: "tool list" where
  "MEMORY_TOOLS =
     [tool_of ''memory_record'' ''Append one source record to one or more memory nodes''
        (scopeProperties @
         [(''session_id'', uuid7Property), (''record_id'', uuid7Property), (''idempotency_key'', len_string 1 512),
          (''author_key'', len_string 1 256), (''author_name'', len_string 1 256),
          (''author_kind'', enum_string author_kinds), (''kind'', enum_string record_kinds),
          (''content'', len_string 1 1000000), (''occurred_at'', date_time),
          (''source_app'', typed ''string'' [(''maxLength'', JNum 64)]), (''metadata'', typed ''object'' []),
          (''target'', targetProperty)])
        [''workspace_id'', ''project_id'', ''session_id'', ''author_key'', ''author_kind'', ''content''],
      tool_of ''search_records'' ''Search source records across selected nodes'' recallProperties
        [''workspace_id'', ''project_id'', ''query''],
      tool_of ''search_claims'' ''Search derived claims across selected nodes'' recallProperties
        [''workspace_id'', ''project_id'', ''query''],
      tool_of ''recall'' ''Search both records and claims across selected nodes'' recallProperties
        [''workspace_id'', ''project_id'', ''query''],
      tool_of ''get_record_context'' ''Read neighboring records around one source record''
        (scopeProperties @ [(''record_id'', uuidProperty), (''target'', targetProperty)])
        [''workspace_id'', ''project_id'', ''record_id''],
      tool_of ''get_claim_evidence'' ''Read the source evidence attached to one claim''
        (scopeProperties @ [(''claim_id'', uuidProperty), (''target'', targetProperty)])
        [''workspace_id'', ''project_id'', ''claim_id''],
      tool_of ''wiki_read'' ''Read the generated project wiki from selected nodes''
        (scopeProperties @ [(''target'', targetProperty)]) [''workspace_id'', ''project_id''],
      tool_of ''graph_read'' ''Read the project relationship graph from selected nodes''
        (scopeProperties @ [(''target'', targetProperty)]) [''workspace_id'', ''project_id'']]"

section \<open>CONTROL_MEMORY_TOOLS\<close>

definition include_general :: "string \<times> json" where
  "include_general = (''include_general'', default_flag True)"

definition include_federated :: "string \<times> json" where
  "include_federated = (''include_federated'', default_flag False)"

definition controlRecallProperties :: fields where
  "controlRecallProperties =
     [(''query'', query_property), (''session_id'', uuid7Property), (''after'', date_time),
      (''before'', date_time), (''limit'', int_range 1 50), include_general, include_federated]"

definition control_record_tool :: tool where
  "control_record_tool =
     tool_of ''memory_record'' ''Record a message as the Human or Agent Peer bound to this credential''
       [(''session_id'', uuid7Property), (''record_id'', uuid7Property), (''idempotency_key'', len_string 1 512),
        (''speaker'', enum_string [''human'', ''agent'']), (''kind'', enum_string record_kinds),
        (''content'', len_string 1 1000000), (''occurred_at'', date_time), (''metadata'', typed ''object'' [])]
       [''session_id'', ''speaker'', ''content'']"

definition control_search_tools :: "tool list" where
  "control_search_tools =
     map (\<lambda>name. tool_of name (name @ '' within the credential-bound General + current Project context'')
            controlRecallProperties [''query''])
       [''search_records'', ''search_claims'', ''recall'']"

definition control_read_tools :: "tool list" where
  "control_read_tools =
     [tool_of ''get_record_context'' ''Read neighboring records within the credential scope''
        [(''record_id'', uuidProperty)] [''record_id''],
      tool_of ''get_claim_evidence'' ''Read conclusion evidence within the credential scope''
        [(''claim_id'', uuidProperty)] [''claim_id''],
      tool_of ''wiki_read'' ''Read the current Project Wiki with citations'' [] [],
      tool_of ''graph_read'' ''Read the current Project relationship graph'' [] [],
      tool_of ''representation_read'' ''Read a General profile plus current Project overlay''
        [(''peer_id'', uuidProperty), include_general] [],
      tool_of ''peer_card_read'' ''Read the current Peer Card'' [(''peer_id'', uuidProperty), include_general] [],
      tool_of ''session_context'' ''Read reconstructed Session context''
        [(''session_id'', uuid7Property), include_general] [''session_id'']]"

definition control_agent_tools :: "tool list" where
  "control_agent_tools =
     [tool_of ''dynamic_context'' ''Compile token-bounded Wiki, representation, and source context''
        [(''query'', query_property), (''token_budget'', int_range 256 128000), include_general, include_federated]
        [''query''],
      tool_of ''dialectic_chat'' ''Ask a grounded question without automatically recording the answer''
        [(''query'', query_property), (''reasoning_level'', enum_string [''minimal'', ''low'', ''medium'', ''high'']),
         include_general, include_federated] [''query''],
      tool_of ''schedule_dream'' ''Schedule memory consolidation for the current Project''
        [(''strategy'', enum_string [''omni'', ''deduction'', ''induction'', ''surprisal'']),
         (''force'', default_flag False)] [],
      tool_of ''federated_search''
        ''Search explicitly granted external Projects with source Workspace, Project, Peer, and grant metadata''
        [(''query'', query_property), (''limit'', int_range 1 50), include_general] [''query''],
      tool_of ''transfer_request''
        ''Request an audited transfer of selected records to another Workspace and Project''
        [(''target_workspace_id'', uuidProperty), (''target_project_id'', uuidProperty), (''record_id'', uuidProperty),
         (''source_content_hash'', typed ''string'' [(''pattern'', JStr ''^[0-9a-f]{64}$'')]),
         (''source_snapshot'', len_string 1 1000000), (''reason'', len_string 1 2000)]
        [''target_workspace_id'', ''target_project_id'', ''record_id'', ''source_content_hash'', ''source_snapshot'', ''reason'']]"

definition CONTROL_MEMORY_TOOLS :: "tool list" where
  "CONTROL_MEMORY_TOOLS = control_record_tool # control_search_tools @ control_read_tools @ control_agent_tools"

section \<open>Allowed arguments, capabilities\<close>

definition recall_keys :: "string list" where
  "recall_keys = [''workspace_id'', ''project_id'', ''query'', ''session_id'', ''after'', ''before'', ''limit'', ''target'']"

definition ALLOWED_KEYS :: "(string \<times> string list) list" where
  "ALLOWED_KEYS =
     [(''memory_record'',
       [''workspace_id'', ''project_id'', ''session_id'', ''record_id'', ''idempotency_key'', ''author_key'',
        ''author_name'', ''author_kind'', ''kind'', ''content'', ''occurred_at'', ''source_app'', ''metadata'', ''target'']),
      (''search_records'', recall_keys),
      (''search_claims'', recall_keys),
      (''recall'', recall_keys),
      (''get_record_context'', [''workspace_id'', ''project_id'', ''record_id'', ''target'']),
      (''get_claim_evidence'', [''workspace_id'', ''project_id'', ''claim_id'', ''target'']),
      (''wiki_read'', [''workspace_id'', ''project_id'', ''target'']),
      (''graph_read'', [''workspace_id'', ''project_id'', ''target''])]"

definition schema_keys :: "tool \<Rightarrow> string list" where
  "schema_keys t = (case obj_field (inputSchema t) ''properties'' of None \<Rightarrow> [] | Some ps \<Rightarrow> okeys ps)"

definition CONTROL_ALLOWED_KEYS :: "(string \<times> string list) list" where
  "CONTROL_ALLOWED_KEYS = from_entries (map (\<lambda>t. (tool_name t, schema_keys t)) CONTROL_MEMORY_TOOLS)"

definition TOOL_CAPABILITY :: "(string \<times> string) list" where
  "TOOL_CAPABILITY =
     [(''memory_record'', ''project.write''),
      (''search_records'', ''project.read''),
      (''search_claims'', ''project.read''),
      (''recall'', ''project.read''),
      (''get_record_context'', ''project.read''),
      (''get_claim_evidence'', ''project.read''),
      (''wiki_read'', ''wiki.read''),
      (''graph_read'', ''project.read''),
      (''representation_read'', ''project.read''),
      (''peer_card_read'', ''project.read''),
      (''session_context'', ''project.read''),
      (''dynamic_context'', ''project.read''),
      (''dialectic_chat'', ''project.read''),
      (''schedule_dream'', ''project.write''),
      (''federated_search'', ''project.read''),
      (''transfer_request'', ''transfer.request'')]"

definition CONTROL_GATEWAY_UNSUPPORTED :: "string list" where
  "CONTROL_GATEWAY_UNSUPPORTED = [''get_record_context'', ''get_claim_evidence'', ''graph_read'']"

section \<open>The tables agree\<close>

definition required_keys :: "tool \<Rightarrow> string list" where
  "required_keys t = (case arr_field (inputSchema t) ''required'' of None \<Rightarrow> [] | Some ks \<Rightarrow> List.map_filter as_string ks)"

text \<open>Scope and authorship, which a credential-bound tool may not name\<close>

definition identity_keys :: "string list" where
  "identity_keys = [''workspace_id'', ''project_id'', ''principal_id'', ''author_key'', ''author_name'', ''author_kind'',
     ''source_app'', ''source_workspace_id'', ''source_project_id'', ''target'', ''targets'']"

lemmas table_defs =
  MEMORY_TOOLS_def CONTROL_MEMORY_TOOLS_def control_record_tool_def control_search_tools_def control_read_tools_def
  control_agent_tools_def scopeProperties_def recallProperties_def controlRecallProperties_def include_general_def
  include_federated_def tool_of_def object_schema_def schema_keys_def required_keys_def

lemma memory_tool_keys:
  "map (\<lambda>t. (tool_name t, schema_keys t)) MEMORY_TOOLS = ALLOWED_KEYS"
  by (simp add: table_defs ALLOWED_KEYS_def recall_keys_def okeys_def obj_field_def)

lemma memory_tool_names: "map tool_name MEMORY_TOOLS = okeys ALLOWED_KEYS"
  by (simp add: memory_tool_keys [symmetric] okeys_def comp_def)

lemma control_tool_names: "map tool_name CONTROL_MEMORY_TOOLS = okeys TOOL_CAPABILITY"
  by (simp add: table_defs TOOL_CAPABILITY_def okeys_def)

lemma tool_names_distinct [simp]: "distinct (okeys TOOL_CAPABILITY)"
  by (simp add: TOOL_CAPABILITY_def okeys_def)

lemma control_allowed_keys:
  "CONTROL_ALLOWED_KEYS = map (\<lambda>t. (tool_name t, schema_keys t)) CONTROL_MEMORY_TOOLS"
  by (simp add: CONTROL_ALLOWED_KEYS_def from_entries_def table_defs)

lemma required_declared:
  "list_all (\<lambda>t. list_all (\<lambda>k. k \<in> set (schema_keys t)) (required_keys t)) (MEMORY_TOOLS @ CONTROL_MEMORY_TOOLS)"
  by (simp add: table_defs okeys_def obj_field_def arr_field_def List.map_filter_simps)

lemma control_identity_free:
  "list_all (\<lambda>t. list_all (\<lambda>k. k \<notin> set identity_keys) (schema_keys t)) CONTROL_MEMORY_TOOLS"
  by (simp add: table_defs okeys_def obj_field_def identity_keys_def)

text \<open>
  The tables of the tools agree.  The arguments a legacy tool allows are exactly the properties
  its schema declares, in order; the credential-bound tools are exactly the tools with a capability,
  each once, and every legacy tool is one of them; every required argument is declared; and no
  credential-bound tool has an argument that names a scope, an author or a target.
\<close>

theorem tool_tables_consistent:
  "map (\<lambda>t. (tool_name t, schema_keys t)) MEMORY_TOOLS = ALLOWED_KEYS \<and>
   map (\<lambda>t. (tool_name t, schema_keys t)) CONTROL_MEMORY_TOOLS = CONTROL_ALLOWED_KEYS \<and>
   map tool_name CONTROL_MEMORY_TOOLS = okeys TOOL_CAPABILITY \<and> distinct (okeys TOOL_CAPABILITY) \<and>
   set (okeys ALLOWED_KEYS) \<subseteq> set (okeys TOOL_CAPABILITY) \<and>
   list_all (\<lambda>t. list_all (\<lambda>k. k \<in> set (schema_keys t)) (required_keys t)) (MEMORY_TOOLS @ CONTROL_MEMORY_TOOLS) \<and>
   list_all (\<lambda>t. list_all (\<lambda>k. k \<notin> set identity_keys) (schema_keys t)) CONTROL_MEMORY_TOOLS"
proof -
  have "set (okeys ALLOWED_KEYS) \<subseteq> set (okeys TOOL_CAPABILITY)"
    by (simp add: ALLOWED_KEYS_def TOOL_CAPABILITY_def okeys_def)
  then show ?thesis
    by (simp only: memory_tool_keys control_allowed_keys control_tool_names tool_names_distinct
        required_declared control_identity_free simp_thms)
qed

end
