(* ===== verification/Tools.thy ===== *)
theory Tools
  imports ToolTables Memory
begin

text \<open>
  The tool dispatcher of \<open>apps/mcp/src/tools.ts\<close>: argument validation and
  \<open>MemoryToolDispatcher\<close> with its three modes.  A call runs against a state of the durable queue,
  the Control Gateway client and the requests sent to the gateway.  Whether \<open>Date.parse\<close> accepts a
  string that has the shape of a date-time is the parameter \<open>date_ok\<close>.
\<close>

section \<open>Arguments\<close>

definition objectInput :: "json option \<Rightarrow> fields res" where
  "objectInput v =
     (case v of
        None \<Rightarrow> Inr []
      | Some (JObj o1) \<Rightarrow> Inr o1
      | Some _ \<Rightarrow> Inl ''tool arguments must be an object'')"

definition unknown_tool :: "string \<Rightarrow> string" where
  "unknown_tool name = ''unknown memory tool '' @ quoted name"

definition reject_unknown :: "(string \<times> string list) list \<Rightarrow> string \<Rightarrow> fields \<Rightarrow> unit res" where
  "reject_unknown table name input =
     (case oget table name of
        None \<Rightarrow> Inl (unknown_tool name)
      | Some allowed \<Rightarrow>
          (case filter (\<lambda>key. key \<notin> set allowed) (okeys input) of
             [] \<Rightarrow> Inr ()
           | key # _ \<Rightarrow> Inl (''unknown argument '' @ quoted key)))"

definition rejectUnknown :: "string \<Rightarrow> fields \<Rightarrow> unit res" where
  "rejectUnknown = reject_unknown ALLOWED_KEYS"

definition rejectUnknownControl :: "string \<Rightarrow> fields \<Rightarrow> unit res" where
  "rejectUnknownControl = reject_unknown CONTROL_ALLOWED_KEYS"

definition requiredString :: "fields \<Rightarrow> string \<Rightarrow> string res" where
  "requiredString input key =
     (case oget input key of
        Some (JStr s) \<Rightarrow> if blank s then Inl (key @ '' must be a non-empty string'') else Inr s
      | _ \<Rightarrow> Inl (key @ '' must be a non-empty string''))"

definition optionalString :: "fields \<Rightarrow> string \<Rightarrow> nat \<Rightarrow> string option res" where
  "optionalString input key maximum =
     (let err = Inl (key @ '' must be a string from 1 to '' @ dec_str maximum @ '' characters'')
      in case oget input key of
           None \<Rightarrow> Inr None
         | Some (JStr s) \<Rightarrow> if js_length s = 0 \<or> js_length s > maximum then err else Inr (Some s)
         | Some _ \<Rightarrow> err)"

text \<open>\<open>/^\d{4}-\d{2}-\d{2}T\d{2}:\d{2}:\d{2}(?:\.\d+)?(?:Z|[+-]\d{2}:\d{2})$/\<close>\<close>

definition is_chr :: "char \<Rightarrow> char \<Rightarrow> bool" where
  "is_chr a c = (c = a)"

definition date_shape :: "(char \<Rightarrow> bool) list" where
  "date_shape =
     replicate 4 is_digit @ [is_chr CHR ''-''] @ replicate 2 is_digit @ [is_chr CHR ''-''] @ replicate 2 is_digit @
     [is_chr CHR ''T''] @ replicate 2 is_digit @ [is_chr CHR '':''] @ replicate 2 is_digit @ [is_chr CHR '':''] @
     replicate 2 is_digit"

definition zone_shape :: "string \<Rightarrow> bool" where
  "zone_shape s =
     (s = ''Z'' \<or> matches ([\<lambda>c. c = CHR ''+'' \<or> c = CHR ''-''] @ replicate 2 is_digit @ [is_chr CHR '':''] @ replicate 2 is_digit) s)"

definition rfc3339_shape :: "string \<Rightarrow> bool" where
  "rfc3339_shape s =
     (matches date_shape (take 19 s) \<and>
      (case drop 19 s of
         c # cs \<Rightarrow> if c = CHR ''.'' then takeWhile is_digit cs \<noteq> [] \<and> zone_shape (dropWhile is_digit cs) else zone_shape (c # cs)
       | [] \<Rightarrow> False))"

definition optionalDateTime :: "(string \<Rightarrow> bool) \<Rightarrow> fields \<Rightarrow> string \<Rightarrow> string option res" where
  "optionalDateTime date_ok input key =
     rbind (optionalString input key 64) (\<lambda>v.
       case v of
         None \<Rightarrow> Inr None
       | Some s \<Rightarrow> if rfc3339_shape s \<and> date_ok s then Inr (Some s) else Inl (key @ '' must be an RFC3339 date-time''))"

definition optionalLimit :: "fields \<Rightarrow> nat option res" where
  "optionalLimit input =
     (case oget input ''limit'' of
        None \<Rightarrow> Inr None
      | Some v \<Rightarrow>
          (case as_integer v of
             None \<Rightarrow> Inl ''limit must be an integer from 1 to 50''
           | Some n \<Rightarrow> if n < 1 \<or> n > 50 then Inl ''limit must be an integer from 1 to 50'' else Inr (Some (nat n))))"

definition optionalBoolean :: "fields \<Rightarrow> string \<Rightarrow> bool \<Rightarrow> bool res" where
  "optionalBoolean input key fallback =
     (case oget input key of
        None \<Rightarrow> Inr fallback
      | Some (JBool b) \<Rightarrow> Inr b
      | Some _ \<Rightarrow> Inl (key @ '' must be a boolean''))"

definition valid_content :: "string \<Rightarrow> bool" where
  "valid_content s = (js_length s \<le> 1000000 \<and> CHR 0x00 \<notin> set s)"

text \<open>\<open>input.metadata !== undefined\<close> and not an object\<close>

definition check_metadata :: "fields \<Rightarrow> unit res" where
  "check_metadata input =
     require (case oget input ''metadata'' of None \<Rightarrow> True | Some v \<Rightarrow> as_object v \<noteq> None) ''metadata must be an object''"

definition validateMemoryRecord :: "(rat \<Rightarrow> string) \<Rightarrow> (string \<Rightarrow> bool) \<Rightarrow> fields \<Rightarrow> unit res" where
  "validateMemoryRecord fmt date_ok input =
     rbind (requiredString input ''content'') (\<lambda>content.
     rbind (require (valid_content content) ''content is invalid or too long'') (\<lambda>_.
     rbind (requiredString input ''author_key'') (\<lambda>author.
     rbind (require (js_length author \<le> 256) ''author_key is too long'') (\<lambda>_.
     rbind (optionalString input ''author_name'' 256) (\<lambda>_.
     rbind (optionalString input ''source_app'' 64) (\<lambda>_.
     rbind (optionalDateTime date_ok input ''occurred_at'') (\<lambda>_.
     rbind (optionalString input ''idempotency_key'' 512) (\<lambda>_.
     rbind (check_metadata input) (\<lambda>_.
     rbind (require (case str_field input ''author_kind'' of None \<Rightarrow> False | Some k \<Rightarrow> k \<in> set author_kinds)
              ''author_kind is invalid'') (\<lambda>_.
       require (case oget input ''kind'' of None \<Rightarrow> True | Some v \<Rightarrow> js_string fmt v \<in> set record_kinds)
         ''kind is invalid''))))))))))"

definition UUID_ARGUMENT :: "(char \<Rightarrow> bool) list" where
  "UUID_ARGUMENT = uuid_pattern is_hex is_version_1_8 is_variant"

definition requiredUuid :: "fields \<Rightarrow> string \<Rightarrow> string res" where
  "requiredUuid input key =
     rbind (requiredString input key) (\<lambda>v.
       if matches UUID_ARGUMENT v then Inr (to_lower v) else Inl (key @ '' must be a UUID''))"

definition requiredUuid7 :: "fields \<Rightarrow> string \<Rightarrow> string res" where
  "requiredUuid7 input key =
     rbind (requiredUuid input key) (\<lambda>v.
       if v ! 14 \<noteq> CHR ''7'' then Inl (key @ '' must be a UUIDv7'') else Inr (to_lower v))"

definition optionalUuid7 :: "fields \<Rightarrow> string \<Rightarrow> string option res" where
  "optionalUuid7 input key =
     (if oget input key = None then Inr None else rbind (requiredUuid7 input key) (\<lambda>v. Inr (Some v)))"

definition optionalUuid :: "fields \<Rightarrow> string \<Rightarrow> string option res" where
  "optionalUuid input key =
     (if oget input key = None then Inr None else rbind (requiredUuid input key) (\<lambda>v. Inr (Some v)))"

definition targetValue :: "fields \<Rightarrow> string option res" where
  "targetValue input =
     (let err = Inl (''target must be a configured development Router Node ID or '' @ quoted ''all'')
      in case oget input ''target'' of
           None \<Rightarrow> Inr None
         | Some (JStr s) \<Rightarrow> if node_id_ok s then Inr (Some (to_lower s)) else err
         | Some _ \<Rightarrow> err)"

definition tool_scope :: "fields \<Rightarrow> (string \<times> string) res" where
  "tool_scope input =
     rbind (requiredUuid input ''workspace_id'') (\<lambda>w. rbind (requiredUuid input ''project_id'') (\<lambda>p. Inr (w, p)))"

text \<open>\<open>{ ...input, targets }\<close> where \<open>targets\<close> may be \<open>undefined\<close>\<close>

definition put_targets :: "string list option \<Rightarrow> fields \<Rightarrow> fields" where
  "put_targets targets input =
     (case targets of None \<Rightarrow> odel ''targets'' input | Some ts \<Rightarrow> oset ''targets'' (JArr (map JStr ts)) input)"

definition check_session :: "fields \<Rightarrow> unit res" where
  "check_session input =
     (if oget input ''session_id'' = None then Inr () else rbind (requiredUuid7 input ''session_id'') (\<lambda>_. Inr ()))"

text \<open>Workspace, project, query and the input of a recall\<close>

definition recallInput ::
  "(string \<Rightarrow> bool) \<Rightarrow> router \<Rightarrow> fields \<Rightarrow> (string \<times> string \<times> string \<times> fields) res" where
  "recallInput date_ok r input =
     rbind (requiredString input ''query'') (\<lambda>query.
     rbind (require (js_length query \<le> 10000) ''query is too long'') (\<lambda>_.
     rbind (check_session input) (\<lambda>_.
     rbind (optionalDateTime date_ok input ''after'') (\<lambda>_.
     rbind (optionalDateTime date_ok input ''before'') (\<lambda>_.
     rbind (requiredUuid input ''workspace_id'') (\<lambda>w.
     rbind (requiredUuid input ''project_id'') (\<lambda>p.
     rbind (targetValue input) (\<lambda>t.
     rbind (targetsFor r t) (\<lambda>targets.
     rbind (optionalLimit input) (\<lambda>_.
       Inr (w, p, query,
            put_targets targets (oset ''project_id'' (JStr p) (oset ''workspace_id'' (JStr w) input)))))))))))))"

section \<open>The dispatcher\<close>

record dispatcher =
  d_router :: "router option"
  authMode :: auth_mode
  authContext :: "auth_context option"
  has_gateway :: bool
  bearerToken :: "string option"

text \<open>\<open>!value\<close> of an optional string\<close>

definition has_text :: "string option \<Rightarrow> bool" where
  "has_text v = (v \<noteq> None \<and> v \<noteq> Some [])"

text \<open>The context fields that must be truthy\<close>

definition context_fields :: "auth_context \<Rightarrow> (string \<times> string) list" where
  "context_fields c =
     [(''principal_id'', principal_id c), (''credential_id'', credential_id c),
      (''workspace_id'', ctx_workspace_id c), (''project_id'', ctx_project_id c),
      (''human_peer_id'', human_peer_id c)]"

definition new_dispatcher ::
  "router option \<Rightarrow> auth_mode option \<Rightarrow> auth_context option \<Rightarrow> bool \<Rightarrow> string option \<Rightarrow> dispatcher res" where
  "new_dispatcher r mode context gateway bearer =
     (let m = (case mode of None \<Rightarrow> Hybrid | Some m \<Rightarrow> m)
      in if gateway \<and> (context = None \<or> \<not> has_text bearer)
         then Inl ''Control Gateway requests require AuthContext and a transient bearer''
         else if r = None \<and> \<not> gateway \<and> m \<noteq> Control
         then Inl ''legacy and hybrid development modes require a memory router''
         else (case find (\<lambda>kv. snd kv = []) (case context of None \<Rightarrow> [] | Some c \<Rightarrow> context_fields c) of
                 Some kv \<Rightarrow> Inl (''AuthContext.'' @ fst kv @ '' is required'')
               | None \<Rightarrow> Inr \<lparr>d_router = r, authMode = m, authContext = context, has_gateway = gateway, bearerToken = bearer\<rparr>))"

definition withAuthContext :: "dispatcher \<Rightarrow> auth_context \<Rightarrow> auth_mode option \<Rightarrow> dispatcher res" where
  "withAuthContext d context mode =
     new_dispatcher (d_router d) (Some (case mode of None \<Rightarrow> Control | Some m \<Rightarrow> m)) (Some context) False None"

definition withControlRequest :: "auth_context \<Rightarrow> string \<Rightarrow> dispatcher res" where
  "withControlRequest context bearer = new_dispatcher None (Some Control) (Some context) True (Some bearer)"

definition hasCapability :: "dispatcher \<Rightarrow> string \<Rightarrow> bool" where
  "hasCapability d capability =
     (case authContext d of
        None \<Rightarrow> True
      | Some c \<Rightarrow>
          ''*'' \<in> set (capabilities c) \<or> capability \<in> set (capabilities c) \<or>
          capability = ''transfer.request'' \<and> ''transfer.manage'' \<in> set (capabilities c))"

definition tool_allowed :: "dispatcher \<Rightarrow> string \<Rightarrow> bool" where
  "tool_allowed d name = (case oget TOOL_CAPABILITY name of None \<Rightarrow> False | Some c \<Rightarrow> hasCapability d c)"

definition listTools :: "dispatcher \<Rightarrow> tool list" where
  "listTools d =
     (if authMode d = Legacy \<or> authContext d = None then MEMORY_TOOLS
      else if authMode d = Control
      then filter (\<lambda>t. (\<not> has_gateway d \<or> tool_name t \<notin> set CONTROL_GATEWAY_UNSUPPORTED) \<and> tool_allowed d (tool_name t))
             CONTROL_MEMORY_TOOLS
      else filter (\<lambda>t. tool_allowed d (tool_name t)) MEMORY_TOOLS)"

definition requireCapability :: "dispatcher \<Rightarrow> string \<Rightarrow> unit res" where
  "requireCapability d name =
     (case oget TOOL_CAPABILITY name of
        None \<Rightarrow> Inl (unknown_tool name)
      | Some capability \<Rightarrow>
          require (hasCapability d capability) (''credential lacks '' @ quoted capability @ '' capability''))"

definition expected_peer :: "auth_context \<Rightarrow> string \<Rightarrow> string option" where
  "expected_peer context kind =
     (if kind = ''human'' then Some (human_peer_id context)
      else if kind = ''agent'' then agent_peer_id context else None)"

definition assertLegacyScopeAndPeer :: "auth_context \<Rightarrow> fields \<Rightarrow> string \<Rightarrow> unit res" where
  "assertLegacyScopeAndPeer context input name =
     rbind (tool_scope input) (\<lambda>(w, p).
       if w \<noteq> ctx_workspace_id context \<or> p \<noteq> ctx_project_id context
       then Inl ''tool scope does not match the credential-bound Workspace and Project''
       else if name \<noteq> ''memory_record'' then Inr ()
       else rbind (requiredString input ''author_kind'') (\<lambda>kind.
         let err = Inl ''author identity does not match the credential-bound Peer''
         in if \<not> has_text (expected_peer context kind) then err
            else rbind (requiredString input ''author_key'') (\<lambda>author.
                   if expected_peer context kind \<noteq> Some author then err else Inr ())))"

section \<open>Legacy calls\<close>

datatype tool_result =
    Recorded string "target_delivery list"
  | FedRead fed_result
  | GatewayAnswer json

record tool_state =
  ts_queue :: rqueue
  ts_gateway :: gateway
  ts_sent :: "http_request list"

record tool_env =
  te_world :: world
  te_delivery :: delivery_env
  te_net :: network
  te_isoTime :: "nat \<Rightarrow> string"
  te_now :: int
  te_fresh :: string
  te_order :: "string list \<Rightarrow> string list"
  te_date_ok :: "string \<Rightarrow> bool"

type_synonym tool_call = "(exn + tool_result) \<times> tool_state"

definition throws :: "string \<Rightarrow> tool_state \<Rightarrow> tool_call" where
  "throws e st = (Inl (OtherError e), st)"

text \<open>What \<open>memoryRecord\<close> is called with\<close>

definition legacy_record_input ::
  "(rat \<Rightarrow> string) \<Rightarrow> (string \<Rightarrow> bool) \<Rightarrow> fields \<Rightarrow> string list option \<Rightarrow> fields res" where
  "legacy_record_input fmt date_ok input targets =
     rbind (validateMemoryRecord fmt date_ok input) (\<lambda>_.
     rbind (requiredUuid input ''workspace_id'') (\<lambda>w.
     rbind (requiredUuid input ''project_id'') (\<lambda>p.
     rbind (requiredUuid7 input ''session_id'') (\<lambda>s.
     rbind (optionalUuid7 input ''record_id'') (\<lambda>i.
     rbind (requiredString input ''author_key'') (\<lambda>_.
     rbind (requiredString input ''content'') (\<lambda>_.
       Inr (put_targets targets
              ((case i of None \<Rightarrow> odel ''record_id'' | Some v \<Rightarrow> oset ''record_id'' (JStr v))
                (oset ''session_id'' (JStr s) (oset ''project_id'' (JStr p) (oset ''workspace_id'' (JStr w) input)))))))))))) "

definition legacy_read ::
  "tool_env \<Rightarrow> router \<Rightarrow> string \<Rightarrow> fields \<Rightarrow> string list option \<Rightarrow> fed_result res" where
  "legacy_read env r name input targets =
     (let w = te_world env;
          recall_of = (\<lambda>included. rbind (recallInput (te_date_ok env) r input)
                         (\<lambda>(ws, p, query, input'). recall w r ws p query input' included));
          scoped = (\<lambda>f. rbind (tool_scope input) (\<lambda>(ws, p). f ws p))
      in if name = ''search_records'' then recall_of [''records'']
         else if name = ''search_claims'' then recall_of [''claims'']
         else if name = ''recall'' then recall_of [''records'', ''claims'']
         else if name = ''get_record_context''
         then scoped (\<lambda>ws p. rbind (requiredUuid input ''record_id'') (\<lambda>i. getRecordContext w r ws p i targets))
         else if name = ''get_claim_evidence''
         then scoped (\<lambda>ws p. rbind (requiredUuid input ''claim_id'') (\<lambda>i. getClaimEvidence w r ws p i targets))
         else if name = ''wiki_read'' then scoped (\<lambda>ws p. wikiRead w r ws p targets)
         else if name = ''graph_read'' then scoped (\<lambda>ws p. graphRead w r ws p targets)
         else Inl (unknown_tool name))"

definition callLegacy :: "tool_env \<Rightarrow> dispatcher \<Rightarrow> string \<Rightarrow> fields \<Rightarrow> tool_state \<Rightarrow> tool_call" where
  "callLegacy env d name input st =
     (case d_router d of
        None \<Rightarrow> throws ''legacy memory router is not configured'' st
      | Some r \<Rightarrow>
          (case rbind (rejectUnknown name input) (\<lambda>_. rbind (targetValue input) (targetsFor r)) of
             Inl e \<Rightarrow> throws e st
           | Inr targets \<Rightarrow>
               if name = ''memory_record''
               then (case legacy_record_input (w_fmt (te_world env)) (te_date_ok env) input targets of
                   Inl e \<Rightarrow> throws e st
                 | Inr input' \<Rightarrow>
                     let order = te_order env (uniq (requested_or targets (defaultWriteTargets r)));
                         (q, result) = memoryRecord (te_delivery env) (w_sha (te_world env)) (te_isoTime env)
                                         (te_now env) (te_fresh env) order r input' (ts_queue st)
                     in (case result of Inl e \<Rightarrow> Inl (OtherError e) | Inr (i, ds) \<Rightarrow> Inr (Recorded i ds),
                         st\<lparr>ts_queue := q\<rparr>))
               else (case legacy_read env r name input targets of
                   Inl e \<Rightarrow> throws e st
                 | Inr fr \<Rightarrow> (Inr (FedRead fr), st))))"

end
