(* ===== verification/Dispatch.thy ===== *)
theory Dispatch
  imports Tools
begin

text \<open>
  The credential-bound half of \<open>MemoryToolDispatcher\<close> in \<open>apps/mcp/src/tools.ts\<close>, and
  \<open>callTool\<close>.  A control call is planned first (\<open>control_plan\<close>): what it would ask of the Control
  Gateway client, or the error it throws before it asks anything; then the client is called once.
\<close>

section \<open>What a control call asks of the gateway client\<close>

text \<open>The arguments of \<open>gateway.request\<close> and of \<open>gateway.record\<close>\<close>

datatype gateway_ask =
    AskRequest string string "fields option" "fields option"
  | AskRecord string fields string

definition ask_get :: "string \<Rightarrow> fields option \<Rightarrow> gateway_ask" where
  "ask_get path q = AskRequest ''GET'' path None q"

definition ask_post :: "string \<Rightarrow> fields \<Rightarrow> gateway_ask" where
  "ask_post path b = AskRequest ''POST'' path (Some b) None"

definition valid_query :: "fields \<Rightarrow> string res" where
  "valid_query input =
     rbind (requiredString input ''query'') (\<lambda>query.
       if js_length query > 10000 then Inl ''query is too long'' else Inr query)"

definition context_scope :: "auth_context \<Rightarrow> fields" where
  "context_scope context =
     [(''workspace_id'', JStr (ctx_workspace_id context)), (''project_id'', JStr (ctx_project_id context))]"

text \<open>\<open>...(input[key] ? { [key]: input[key] } : {})\<close>\<close>

definition if_truthy :: "fields \<Rightarrow> string \<Rightarrow> fields" where
  "if_truthy input key = (if truthy_opt (oget input key) then [(key, the (oget input key))] else [])"

definition gatewayRecall :: "(string \<Rightarrow> bool) \<Rightarrow> auth_context \<Rightarrow> fields \<Rightarrow> string list \<Rightarrow> fields res" where
  "gatewayRecall date_ok context input included =
     rbind (check_session input) (\<lambda>_.
     rbind (optionalDateTime date_ok input ''after'') (\<lambda>_.
     rbind (optionalDateTime date_ok input ''before'') (\<lambda>_.
     rbind (valid_query input) (\<lambda>query.
     rbind (optionalLimit input) (\<lambda>limit.
     rbind (optionalBoolean input ''include_general'' True) (\<lambda>general.
     rbind (optionalBoolean input ''include_federated'' False) (\<lambda>federate.
       Inr (context_scope context @
            [(''query'', JStr query), (''include'', JArr (map JStr included)),
             (''limit'', JNum (of_nat (case limit of None \<Rightarrow> 10 | Some n \<Rightarrow> n))),
             (''include_general'', JBool general), (''include_federated'', JBool federate)] @
            if_truthy input ''session_id'' @ if_truthy input ''after'' @ if_truthy input ''before''))))))))"

definition readablePeer :: "dispatcher \<Rightarrow> auth_context \<Rightarrow> fields \<Rightarrow> string res" where
  "readablePeer d context input =
     rbind (optionalUuid input ''peer_id'') (\<lambda>p.
       let requested = (case p of None \<Rightarrow> human_peer_id context | Some i \<Rightarrow> i)
       in if requested \<noteq> human_peer_id context \<and> Some requested \<noteq> agent_peer_id context \<and> \<not> hasCapability d ''peer:read:any''
          then Inl ''credential cannot read another Peer'' else Inr requested)"

text \<open>The record of a control call: the author is a Peer of the credential, chosen by \<open>speaker\<close>.\<close>

definition control_record ::
  "tool_env \<Rightarrow> auth_context \<Rightarrow> fields \<Rightarrow> gateway_ask res" where
  "control_record env context input =
     (let fmt = w_fmt (te_world env)
      in rbind (requiredString input ''speaker'') (\<lambda>speaker.
         rbind (require (speaker \<in> {''human'', ''agent''})
                  (''speaker must be '' @ quoted ''human'' @ '' or '' @ quoted ''agent'')) (\<lambda>_.
         let peer = (if speaker = ''human'' then Some (human_peer_id context) else agent_peer_id context)
         in rbind (require (has_text peer) ''this credential is not bound to an Agent Peer'') (\<lambda>_.
         rbind (requiredUuid7 input ''session_id'') (\<lambda>sessionId.
         rbind (optionalUuid7 input ''record_id'') (\<lambda>supplied.
         rbind (requiredString input ''content'') (\<lambda>content.
         rbind (require (valid_content content) ''content is invalid or too long'') (\<lambda>_.
         rbind (optionalDateTime (te_date_ok env) input ''occurred_at'') (\<lambda>_.
         rbind (check_metadata input) (\<lambda>_.
         let kind = (case oget input ''kind'' of None \<Rightarrow> ''message'' | Some v \<Rightarrow> js_string fmt v)
         in rbind (require (kind \<in> set record_kinds) ''kind is invalid'') (\<lambda>_.
         rbind (optionalString input ''idempotency_key'' 512) (\<lambda>suppliedKey.
           let recordId = (case supplied of None \<Rightarrow> te_fresh env | Some i \<Rightarrow> i);
               key = (case suppliedKey of
                        Some k \<Rightarrow> k
                      | None \<Rightarrow> w_sha (te_world env)
                          (credential_id context @ '':'' @ ctx_project_id context @ '':'' @ sessionId @ '':'' @ recordId))
           in Inr (AskRecord sessionId
                (context_scope context @
                 [(''session_id'', JStr sessionId),
                  (''records'', JArr [JObj
                    ([(''id'', JStr recordId), (''author_key'', JStr (the peer)), (''author_name'', JStr (the peer)),
                      (''author_kind'', JStr speaker), (''kind'', JStr kind), (''content'', JStr content),
                      (''source_app'', JStr (case ctx_client context of None \<Rightarrow> ''neuromem-mcp'' | Some c \<Rightarrow> c)),
                      (''metadata'', the (coalesce (oget input ''metadata'') (Some (JObj []))))] @
                     if_truthy input ''occurred_at'')])])
                key)))))))))))))"

definition general_scope_query :: "auth_context \<Rightarrow> fields \<Rightarrow> fields res" where
  "general_scope_query context input =
     rbind (optionalBoolean input ''include_general'' True) (\<lambda>general.
       Inr (context_scope context @ [(''include_general'', JBool general)]))"

text \<open>\<open>input[key] ?? fallback\<close>, whose text must be one of the given\<close>

definition choice_of :: "(rat \<Rightarrow> string) \<Rightarrow> fields \<Rightarrow> string \<Rightarrow> string \<Rightarrow> string list \<Rightarrow> json res" where
  "choice_of fmt input key fallback allowed =
     (let v = the (coalesce (oget input key) (Some (JStr fallback)))
      in if js_string fmt v \<in> set allowed then Inr v else Inl (key @ '' is invalid''))"

definition token_budget_ok :: "fields \<Rightarrow> bool" where
  "token_budget_ok input =
     (case oget input ''token_budget'' of
        None \<Rightarrow> True
      | Some v \<Rightarrow> (case as_integer v of None \<Rightarrow> False | Some n \<Rightarrow> 256 \<le> n \<and> n \<le> 128000))"

definition dynamic_context_ask :: "auth_context \<Rightarrow> fields \<Rightarrow> gateway_ask res" where
  "dynamic_context_ask context input =
     rbind (require (token_budget_ok input) ''token_budget must be an integer from 256 to 128000'') (\<lambda>_.
     rbind (valid_query input) (\<lambda>query.
     rbind (optionalBoolean input ''include_general'' True) (\<lambda>general.
     rbind (optionalBoolean input ''include_federated'' False) (\<lambda>federate.
       Inr (ask_post ''/api/v1/context''
         (context_scope context @ [(''query'', JStr query)] @
          opt_prop ''token_budget'' (oget input ''token_budget'') @
          [(''include_general'', JBool general), (''include_federated'', JBool federate)]))))))"

definition dialectic_chat_ask :: "(rat \<Rightarrow> string) \<Rightarrow> auth_context \<Rightarrow> fields \<Rightarrow> gateway_ask res" where
  "dialectic_chat_ask fmt context input =
     rbind (choice_of fmt input ''reasoning_level'' ''low'' [''minimal'', ''low'', ''medium'', ''high'']) (\<lambda>level.
     rbind (valid_query input) (\<lambda>query.
     rbind (optionalBoolean input ''include_general'' True) (\<lambda>general.
     rbind (optionalBoolean input ''include_federated'' False) (\<lambda>federate.
       Inr (ask_post ''/api/v1/chat''
         (context_scope context @ [(''query'', JStr query), (''reasoning_level'', level),
          (''include_general'', JBool general), (''include_federated'', JBool federate)]))))))"

definition schedule_dream_ask :: "(rat \<Rightarrow> string) \<Rightarrow> auth_context \<Rightarrow> fields \<Rightarrow> gateway_ask res" where
  "schedule_dream_ask fmt context input =
     rbind (choice_of fmt input ''strategy'' ''omni'' [''omni'', ''deduction'', ''induction'', ''surprisal'']) (\<lambda>strategy.
     rbind (optionalBoolean input ''force'' False) (\<lambda>force.
       Inr (ask_post ''/api/v1/dreams''
         (context_scope context @ [(''strategy'', strategy), (''force'', JBool force)]))))"

definition transfer_request_ask :: "auth_context \<Rightarrow> fields \<Rightarrow> gateway_ask res" where
  "transfer_request_ask context input =
     rbind (requiredString input ''source_content_hash'') (\<lambda>contentHash.
     rbind (require (matches (replicate 64 is_hex_lower) contentHash)
              ''source_content_hash must be a lowercase SHA-256 hex digest'') (\<lambda>_.
     rbind (requiredString input ''source_snapshot'') (\<lambda>snapshot.
     rbind (require (valid_content snapshot) ''source_snapshot is invalid or too long'') (\<lambda>_.
     rbind (requiredUuid input ''target_workspace_id'') (\<lambda>tw.
     rbind (requiredUuid input ''target_project_id'') (\<lambda>tp.
     rbind (requiredUuid input ''record_id'') (\<lambda>recordId.
     rbind (requiredString input ''reason'') (\<lambda>reason.
       Inr (ask_post ''/api/v1/transfer-requests''
         [(''source_workspace_id'', JStr (ctx_workspace_id context)), (''source_project_id'', JStr (ctx_project_id context)),
          (''target_workspace_id'', JStr tw), (''target_project_id'', JStr tp),
          (''source_record_id'', JStr recordId), (''source_content_hash'', JStr contentHash),
          (''source_snapshot'', JStr snapshot), (''provenance'', JObj [(''reason'', JStr reason)])])))))))))"

definition recall_ask :: "tool_env \<Rightarrow> auth_context \<Rightarrow> fields \<Rightarrow> string list \<Rightarrow> gateway_ask res" where
  "recall_ask env context input included =
     rbind (gatewayRecall (te_date_ok env) context input included) (\<lambda>b. Inr (ask_post ''/api/v1/recall'' b))"

definition peer_ask :: "dispatcher \<Rightarrow> auth_context \<Rightarrow> string \<Rightarrow> fields \<Rightarrow> gateway_ask res" where
  "peer_ask d context leaf input =
     rbind (readablePeer d context input) (\<lambda>peerId.
     rbind (general_scope_query context input) (\<lambda>q.
       Inr (ask_get (''/api/v1/peers/'' @ encodeURIComponent peerId @ leaf) (Some q))))"

definition session_context_ask :: "auth_context \<Rightarrow> fields \<Rightarrow> gateway_ask res" where
  "session_context_ask context input =
     rbind (requiredUuid7 input ''session_id'') (\<lambda>s.
     rbind (general_scope_query context input) (\<lambda>q.
       Inr (ask_get (''/api/v1/sessions/'' @ encodeURIComponent s @ ''/context'') (Some q))))"

section \<open>callControlGateway\<close>

definition control_plan :: "tool_env \<Rightarrow> dispatcher \<Rightarrow> auth_context \<Rightarrow> string \<Rightarrow> fields \<Rightarrow> gateway_ask res" where
  "control_plan env d context name input =
     (let fmt = w_fmt (te_world env)
      in if name = ''memory_record'' then control_record env context input
         else if name = ''search_records'' then recall_ask env context input [''records'']
         else if name = ''search_claims'' then recall_ask env context input [''claims'']
         else if name = ''recall'' then recall_ask env context input [''records'', ''claims'']
         else if name = ''wiki_read''
         then Inr (ask_get (''/api/v1/projects/'' @ encodeURIComponent (ctx_project_id context) @ ''/wiki'') None)
         else if name = ''representation_read'' then peer_ask d context ''/representation'' input
         else if name = ''peer_card_read'' then peer_ask d context ''/card'' input
         else if name = ''session_context'' then session_context_ask context input
         else if name = ''dynamic_context'' then dynamic_context_ask context input
         else if name = ''dialectic_chat'' then dialectic_chat_ask fmt context input
         else if name = ''schedule_dream'' then schedule_dream_ask fmt context input
         else if name = ''federated_search''
         then recall_ask env context (oset ''include_federated'' (JBool True) input) [''records'', ''claims'']
         else if name = ''transfer_request'' then transfer_request_ask context input
         else if name \<in> set CONTROL_GATEWAY_UNSUPPORTED then Inl (''Control Gateway does not support '' @ quoted name)
         else Inl (unknown_tool name))"

definition answer_of :: "exn + json \<Rightarrow> exn + tool_result" where
  "answer_of r = (case r of Inl e \<Rightarrow> Inl e | Inr v \<Rightarrow> Inr (GatewayAnswer v))"

definition ask_options :: "fields option \<Rightarrow> fields option \<Rightarrow> gw_options" where
  "ask_options b q = \<lparr>gw_body = b, gw_query = (case q of None \<Rightarrow> [] | Some q1 \<Rightarrow> q1), gw_idempotencyKey = None\<rparr>"

fun run_ask :: "tool_env \<Rightarrow> auth_context \<Rightarrow> string \<Rightarrow> gateway_ask \<Rightarrow> tool_state \<Rightarrow> tool_call" where
  "run_ask env context bearer (AskRequest method path b q) st =
     (let (r, past) = gateway_request (w_fmt (te_world env)) (w_parse (te_world env)) (te_net env) (ts_gateway st)
                        method path context bearer (ask_options b q) (ts_sent st)
      in (answer_of r, st\<lparr>ts_sent := past\<rparr>))"
| "run_ask env context bearer (AskRecord sessionId b key) st =
     (let ((r, past), gw) = gateway_record (w_fmt (te_world env)) (w_parse (te_world env)) (te_net env) (ts_gateway st)
                              context bearer sessionId b key (ts_sent st)
      in (answer_of r, st\<lparr>ts_sent := past, ts_gateway := gw\<rparr>))"

definition callControlGateway ::
  "tool_env \<Rightarrow> dispatcher \<Rightarrow> auth_context \<Rightarrow> string \<Rightarrow> string \<Rightarrow> fields \<Rightarrow> tool_state \<Rightarrow> tool_call" where
  "callControlGateway env d context bearer name input st =
     (case control_plan env d context name input of
        Inl e \<Rightarrow> throws e st
      | Inr a \<Rightarrow> run_ask env context bearer a st)"

definition callControl :: "tool_env \<Rightarrow> dispatcher \<Rightarrow> string \<Rightarrow> fields \<Rightarrow> tool_state \<Rightarrow> tool_call" where
  "callControl env d name input st =
     (case authContext d of
        None \<Rightarrow> throws ''credential-bound AuthContext is required'' st
      | Some context \<Rightarrow>
          (case rbind (rejectUnknownControl name input) (\<lambda>_. requireCapability d name) of
             Inl e \<Rightarrow> throws e st
           | Inr _ \<Rightarrow>
               if \<not> has_gateway d \<or> \<not> has_text (bearerToken d)
               then throws ''control auth requires the Control Gateway and an incoming bearer credential'' st
               else callControlGateway env d context (the (bearerToken d)) name input st))"

section \<open>callTool\<close>

definition callTool :: "tool_env \<Rightarrow> dispatcher \<Rightarrow> string \<Rightarrow> json option \<Rightarrow> tool_state \<Rightarrow> tool_call" where
  "callTool env d name arguments st =
     (case objectInput arguments of
        Inl e \<Rightarrow> throws e st
      | Inr input \<Rightarrow>
          (case authMode d of
             Control \<Rightarrow> callControl env d name input st
           | Legacy \<Rightarrow> callLegacy env d name input st
           | Hybrid \<Rightarrow>
               (case authContext d of
                  None \<Rightarrow> callLegacy env d name input st
                | Some context \<Rightarrow>
                    (case rbind (requireCapability d name) (\<lambda>_. assertLegacyScopeAndPeer context input name) of
                       Inl e \<Rightarrow> throws e st
                     | Inr _ \<Rightarrow> callLegacy env d name input st))))"

end
