(* ===== verification/DispatchProps.thy ===== *)
theory DispatchProps
  imports Dispatch
begin

text \<open>
  The properties of the tool dispatcher: what a credential-bound call may send, which tools act at
  all, what the hybrid mode checks, and that the router takes every validated search.
\<close>

section \<open>What a credential-bound call asks\<close>

text \<open>Fields that name the credential's scope, and records by one of the credential's Peers\<close>

definition own_author :: "auth_context \<Rightarrow> json \<Rightarrow> bool" where
  "own_author context r =
     (case as_object r of
        None \<Rightarrow> False
      | Some o1 \<Rightarrow>
          str_field o1 ''author_kind'' \<in> {Some ''human'', Some ''agent''} \<and>
          has_text (str_field o1 ''author_key'') \<and>
          str_field o1 ''author_key'' =
            (if str_field o1 ''author_kind'' = Some ''human'' then Some (human_peer_id context) else agent_peer_id context))"

definition own_scope :: "auth_context \<Rightarrow> fields \<Rightarrow> bool" where
  "own_scope context b =
     (oget b ''workspace_id'' \<in> {None, Some (JStr (ctx_workspace_id context))} \<and>
      oget b ''project_id'' \<in> {None, Some (JStr (ctx_project_id context))} \<and>
      oget b ''source_workspace_id'' \<in> {None, Some (JStr (ctx_workspace_id context))} \<and>
      oget b ''source_project_id'' \<in> {None, Some (JStr (ctx_project_id context))} \<and>
      (case arr_field b ''records'' of None \<Rightarrow> True | Some rs \<Rightarrow> list_all (own_author context) rs))"

definition own_options :: "auth_context \<Rightarrow> gw_options \<Rightarrow> bool" where
  "own_options context o1 =
     ((case gw_body o1 of None \<Rightarrow> True | Some b \<Rightarrow> own_scope context b) \<and> own_scope context (gw_query o1))"

text \<open>A request the credential may make: its bearer, its scope headers, its scope in the body\<close>

definition own_request :: "(rat \<Rightarrow> string) \<Rightarrow> gateway \<Rightarrow> auth_context \<Rightarrow> string \<Rightarrow> http_request \<Rightarrow> bool" where
  "own_request fmt gw context bearer req =
     (made_for gw context bearer req \<and>
      (\<exists>verb path options. req = gateway_http_request fmt gw verb path context bearer options \<and>
         own_options context options))"

fun own_ask :: "auth_context \<Rightarrow> gateway_ask \<Rightarrow> bool" where
  "own_ask context (AskRequest verb path b q) =
     (starts_with ''/api/v1/'' path \<and> own_options context (ask_options b q))"
| "own_ask context (AskRecord sessionId b key) = own_scope context b"

lemmas own_defs = own_options_def own_scope_def own_author_def ask_options_def arr_field_def str_field_def

lemma oget_context_scope [simp]:
  "oget (context_scope context @ rest) k =
     (if k = ''workspace_id'' then Some (JStr (ctx_workspace_id context))
      else if k = ''project_id'' then Some (JStr (ctx_project_id context)) else oget rest k)"
  by (auto simp: context_scope_def)

lemma oget_if_truthy: "oget (if_truthy input key) k \<noteq> None \<Longrightarrow> k = key"
  by (auto simp: if_truthy_def split: if_splits)

lemma if_truthy_other [simp]: "k \<noteq> key \<Longrightarrow> oget (if_truthy input key) k = None"
  using oget_if_truthy by metis

lemma own_scope_context:
  assumes "\<And>k. k \<in> {''source_workspace_id'', ''source_project_id'', ''records''} \<Longrightarrow> oget rest k = None"
  shows "own_scope context (context_scope context @ rest)"
  using assms by (simp add: own_defs)

lemma gatewayRecall_own:
  "gatewayRecall date_ok context input included = Inr b \<Longrightarrow> own_scope context b"
  unfolding gatewayRecall_def
  by (auto simp: rbind_eq_Inr oget_append intro!: own_scope_context)

lemma recall_ask_own: "recall_ask env context input included = Inr a \<Longrightarrow> own_ask context a"
  unfolding recall_ask_def
  by (auto simp: rbind_eq_Inr ask_post_def own_options_def ask_options_def starts_with_def own_scope_def [of _ "[]"]
      arr_field_def dest: gatewayRecall_own)

lemma own_scope_Nil [simp]: "own_scope context []"
  by (simp add: own_scope_def arr_field_def)

lemma own_ask_post [simp]: "own_ask context (ask_post path b) \<longleftrightarrow> starts_with ''/api/v1/'' path \<and> own_scope context b"
  by (simp add: ask_post_def own_options_def ask_options_def)

lemma own_ask_get [simp]:
  "own_ask context (ask_get path q) \<longleftrightarrow> starts_with ''/api/v1/'' path \<and> own_scope context (case q of None \<Rightarrow> [] | Some q1 \<Rightarrow> q1)"
  by (simp add: ask_get_def own_options_def ask_options_def)

lemma general_scope_query_own: "general_scope_query context input = Inr q \<Longrightarrow> own_scope context q"
  unfolding general_scope_query_def by (auto simp: rbind_eq_Inr intro!: own_scope_context)

lemma oget_opt_prop: "oget (opt_prop key v) k = (if k = key then v else None)"
  by (cases v) (simp_all add: opt_prop_def)

lemma oget_opt_prop_append: "k \<noteq> key \<Longrightarrow> oget (opt_prop key v @ rest) k = oget rest k"
  by (simp add: oget_append oget_opt_prop)

lemma peer_ask_own: "peer_ask d context leaf input = Inr a \<Longrightarrow> own_ask context a"
  unfolding peer_ask_def
  by (auto simp: rbind_eq_Inr starts_with_def dest: general_scope_query_own)

lemma session_context_ask_own: "session_context_ask context input = Inr a \<Longrightarrow> own_ask context a"
  unfolding session_context_ask_def
  by (auto simp: rbind_eq_Inr starts_with_def dest: general_scope_query_own)

lemma dynamic_context_ask_own: "dynamic_context_ask context input = Inr a \<Longrightarrow> own_ask context a"
  unfolding dynamic_context_ask_def
  by (auto simp: rbind_eq_Inr starts_with_def oget_opt_prop_append intro!: own_scope_context)

lemma dialectic_chat_ask_own: "dialectic_chat_ask fmt context input = Inr a \<Longrightarrow> own_ask context a"
  unfolding dialectic_chat_ask_def
  by (auto simp: rbind_eq_Inr starts_with_def intro!: own_scope_context)

lemma schedule_dream_ask_own: "schedule_dream_ask fmt context input = Inr a \<Longrightarrow> own_ask context a"
  unfolding schedule_dream_ask_def
  by (auto simp: rbind_eq_Inr starts_with_def intro!: own_scope_context)

lemma transfer_request_ask_own: "transfer_request_ask context input = Inr a \<Longrightarrow> own_ask context a"
  unfolding transfer_request_ask_def
  by (auto simp: rbind_eq_Inr starts_with_def own_scope_def arr_field_def)

lemma control_record_own: "control_record env context input = Inr a \<Longrightarrow> own_ask context a"
  unfolding control_record_def Let_def
  by (auto simp: rbind_eq_Inr own_scope_def own_author_def arr_field_def str_field_def has_text_def)

lemmas ask_owns = recall_ask_own peer_ask_own session_context_ask_own dynamic_context_ask_own
  dialectic_chat_ask_own schedule_dream_ask_own transfer_request_ask_own control_record_own

lemma control_plan_own: "control_plan env d context name input = Inr a \<Longrightarrow> own_ask context a"
  unfolding control_plan_def Let_def
  by (auto simp: starts_with_def split: if_splits dest: ask_owns)

section \<open>What it sends\<close>

lemma own_requestI:
  assumes "starts_with ''/api/v1/'' path" and "own_options context options"
  shows "own_request fmt gw context bearer (gateway_http_request fmt gw verb path context bearer options)"
  using assms unfolding own_request_def by (blast intro: gateway_request_scope)

lemma own_record_requests:
  "own_request fmt gw context bearer (ensure_request fmt gw context bearer)"
  "own_request fmt gw context bearer (session_request fmt gw context bearer sessionId)"
  "own_scope context b \<Longrightarrow> own_request fmt gw context bearer (message_request fmt gw context bearer sessionId b key)"
  unfolding ensure_request_def session_request_def message_request_def message_path_def
  by (rule own_requestI; simp add: starts_with_def own_options_def gw_post_def session_options_def own_scope_def arr_field_def)+

lemma run_ask_own:
  assumes "own_ask context a" and "run_ask env context bearer a st = (r, st')"
  shows "ts_queue st' = ts_queue st \<and>
    sent (own_request (w_fmt (te_world env)) (ts_gateway st) context bearer) 4 (ts_sent st) (ts_sent st') \<and>
    ts_gateway st' \<in> {ts_gateway st,
      (ts_gateway st)\<lparr>ensuredProjects := ensuredProjects (ts_gateway st) @ [scope_key context]\<rparr>}"
proof (cases a)
  case (AskRequest verb path b q)
  let ?P = "own_request (w_fmt (te_world env)) (ts_gateway st) context bearer"
  obtain v past where g: "gateway_request (w_fmt (te_world env)) (w_parse (te_world env)) (te_net env) (ts_gateway st)
      verb path context bearer (ask_options b q) (ts_sent st) = (v, past)" by fastforce
  have "?P (gateway_http_request (w_fmt (te_world env)) (ts_gateway st) verb path context bearer (ask_options b q))"
    using assms(1) AskRequest by (simp add: own_requestI)
  then have "sent ?P 1 (ts_sent st) past" by (rule gateway_request_sent [OF g])
  then have "sent ?P 4 (ts_sent st) past" by (rule sent_mono) simp
  then show ?thesis using assms(2) AskRequest g by auto
next
  case (AskRecord sessionId b key)
  obtain v past gw where g: "gateway_record (w_fmt (te_world env)) (w_parse (te_world env)) (te_net env) (ts_gateway st)
      context bearer sessionId b key (ts_sent st) = ((v, past), gw)" by (metis surj_pair)
  note s = gateway_record_sent [OF g own_record_requests(1) own_record_requests(3) own_record_requests(2)]
  show ?thesis using s assms AskRecord g by auto
qed

lemma control_call_own:
  assumes "authMode d = Control" and "authContext d = Some context" and "bearerToken d = Some bearer"
    and "callTool env d name arguments st = (r, st')"
  shows "ts_queue st' = ts_queue st \<and>
    sent (own_request (w_fmt (te_world env)) (ts_gateway st) context bearer) 4 (ts_sent st) (ts_sent st') \<and>
    ts_gateway st' \<in> {ts_gateway st,
      (ts_gateway st)\<lparr>ensuredProjects := ensuredProjects (ts_gateway st) @ [scope_key context]\<rparr>}"
proof (cases "st' = st")
  case False
  then obtain input a where "control_plan env d context name input = Inr a" "run_ask env context bearer a st = (r, st')"
    using assms
    by (auto simp: callTool_def callControl_def callControlGateway_def throws_def split: sum.splits if_splits)
  then show ?thesis by (intro run_ask_own [where a = a]) (auto dest: control_plan_own)
qed simp

text \<open>
  A credential-bound call.  Whatever its name and arguments, a call in control mode leaves the
  local queue alone and sends at most four requests, each with the credential's bearer and scope
  headers, and with no other workspace or project in its body or query; a record it posts is by a
  Peer of the credential, the one its author kind names.
\<close>

theorem control_call_pinned:
  assumes "authMode d = Control" and "authContext d = Some context" and "bearerToken d = Some bearer"
    and "callTool env d name arguments st = (r, st')"
  shows "ts_queue st' = ts_queue st \<and>
    sent (own_request (w_fmt (te_world env)) (ts_gateway st) context bearer) 4 (ts_sent st) (ts_sent st') \<and>
    ts_gateway st' \<in> {ts_gateway st,
      (ts_gateway st)\<lparr>ensuredProjects := ensuredProjects (ts_gateway st) @ [scope_key context]\<rparr>}"
  by (rule control_call_own [OF assms])

definition example_world :: world where
  "example_world = \<lparr>w_fmt = (\<lambda>_. []), w_sha = id, w_parse = (\<lambda>_. None), w_net = (\<lambda>_ _. FetchError True)\<rparr>"

definition example_tool_env :: tool_env where
  "example_tool_env = \<lparr>te_world = example_world, te_delivery = accepting_env, te_net = (\<lambda>_ _. FetchError True),
     te_isoTime = (\<lambda>_. []), te_now = 5, te_fresh = example_id, te_order = (\<lambda>ts. ts), te_date_ok = (\<lambda>_. True)\<rparr>"

definition example_state :: tool_state where
  "example_state = \<lparr>ts_queue = empty_queue, ts_gateway = example_gateway, ts_sent = []\<rparr>"

definition agent_context :: auth_context where
  "agent_context = example_context\<lparr>capabilities := [''project.read'', ''wiki.read'']\<rparr>"

definition control_dispatcher :: dispatcher where
  "control_dispatcher = \<lparr>d_router = None, authMode = Control, authContext = Some agent_context, has_gateway = True,
     bearerToken = Some ''t''\<rparr>"

definition hybrid_dispatcher :: dispatcher where
  "hybrid_dispatcher = \<lparr>d_router = Some hub_router, authMode = Hybrid, authContext = Some agent_context, has_gateway = False,
     bearerToken = None\<rparr>"

lemma wiki_read_keys: "oget CONTROL_ALLOWED_KEYS ''wiki_read'' = Some []"
  by (simp add: control_allowed_keys table_defs obj_field_def okeys_def)

lemma wiki_read_listed: "list_ex (\<lambda>t. tool_name t = ''wiki_read'') (listTools control_dispatcher)"
  by (simp add: list_ex_iff listTools_def control_dispatcher_def tool_allowed_def hasCapability_def agent_context_def
      TOOL_CAPABILITY_def table_defs CONTROL_GATEWAY_UNSUPPORTED_def)

lemma wiki_read_sends:
  "length (ts_sent (snd (callTool env control_dispatcher ''wiki_read'' None example_state))) = 1"
  by (simp add: callTool_def objectInput_def control_dispatcher_def callControl_def rejectUnknownControl_def
      reject_unknown_def wiki_read_keys okeys_def requireCapability_def TOOL_CAPABILITY_def hasCapability_def agent_context_def
      has_text_def callControlGateway_def control_plan_def ask_get_def example_state_def gateway_request_def
      starts_with_def Let_def split: prod.splits)

theorem control_call_pinned_witness:
  "sent (own_request (\<lambda>_. []) example_gateway agent_context ''t'') 4 []
     (ts_sent (snd (callTool example_tool_env control_dispatcher ''wiki_read'' None example_state))) \<and>
   length (ts_sent (snd (callTool example_tool_env control_dispatcher ''wiki_read'' None example_state))) = 1"
proof
  obtain r st' where c: "callTool example_tool_env control_dispatcher ''wiki_read'' None example_state = (r, st')" by fastforce
  show "sent (own_request (\<lambda>_. []) example_gateway agent_context ''t'') 4 []
     (ts_sent (snd (callTool example_tool_env control_dispatcher ''wiki_read'' None example_state)))"
    using control_call_pinned [OF _ _ _ c, of agent_context "''t''"] c
    by (simp add: control_dispatcher_def example_tool_env_def example_state_def example_world_def)
qed (rule wiki_read_sends)

section \<open>Which tools act\<close>

lemma reject_unknown_other: "name \<notin> set (okeys table) \<Longrightarrow> reject_unknown table name input = Inl (unknown_tool name)"
  by (simp add: reject_unknown_def okeys_def oget_None_iff [THEN iffD2])

lemma not_allowed: "\<not> tool_allowed d name \<Longrightarrow> \<exists>e. requireCapability d name = Inl e"
  by (auto simp: tool_allowed_def requireCapability_def split: option.splits)

lemma callLegacy_other:
  assumes "name \<notin> tool_name ` set MEMORY_TOOLS"
  shows "\<exists>e. callLegacy env d name input st = throws e st"
proof -
  have "name \<notin> set (okeys ALLOWED_KEYS)" using assms memory_tool_names by (metis set_map)
  then show ?thesis by (auto simp: callLegacy_def rejectUnknown_def reject_unknown_other split: option.splits)
qed

lemma unsupported_plan:
  "name \<in> set CONTROL_GATEWAY_UNSUPPORTED \<Longrightarrow> \<exists>e. control_plan env d context name input = Inl e"
proof -
  assume "name \<in> set CONTROL_GATEWAY_UNSUPPORTED"
  then consider "name = ''get_record_context''" | "name = ''get_claim_evidence''" | "name = ''graph_read''"
    by (auto simp: CONTROL_GATEWAY_UNSUPPORTED_def)
  then show ?thesis by cases (simp_all add: control_plan_def CONTROL_GATEWAY_UNSUPPORTED_def)
qed

lemma callControl_other:
  assumes "name \<notin> tool_name ` set CONTROL_MEMORY_TOOLS \<or> \<not> tool_allowed d name \<or> name \<in> set CONTROL_GATEWAY_UNSUPPORTED"
  shows "\<exists>e. callControl env d name input st = throws e st"
proof -
  have "\<exists>e. rbind (rejectUnknownControl name input) (\<lambda>_. requireCapability d name) = Inl e"
    if "name \<notin> tool_name ` set CONTROL_MEMORY_TOOLS"
  proof -
    have "name \<notin> set (okeys CONTROL_ALLOWED_KEYS)"
      using that by (auto simp: control_allowed_keys okeys_def)
    then show ?thesis by (simp add: rejectUnknownControl_def reject_unknown_other)
  qed
  moreover have "\<exists>e. rbind (rejectUnknownControl name input) (\<lambda>_. requireCapability d name) = Inl e" if "\<not> tool_allowed d name"
    using not_allowed [OF that] by (cases "rejectUnknownControl name input") auto
  moreover have "\<exists>e. callControlGateway env d c b name input st = throws e st" if "name \<in> set CONTROL_GATEWAY_UNSUPPORTED" for c b
    using unsupported_plan [OF that, of env d c input] by (auto simp: callControlGateway_def)
  ultimately show ?thesis
    using assms by (auto simp: callControl_def split: option.splits sum.splits)
qed

text \<open>
  C33: Only the listed tools act.  A call of a tool that \<open>listTools\<close> does not show to the caller,
  because it does not exist, is not supported, or needs a capability the credential lacks, is an
  error whatever its arguments: nothing is recorded, nothing is sent.
\<close>

theorem only_listed_tools_act:
  assumes "name \<notin> tool_name ` set (listTools d)"
  shows "\<exists>e. callTool env d name arguments st = (Inl e, st)"
proof (cases "objectInput arguments")
  case (Inr input)
  have t: "\<exists>e'. throws e st = (Inl e', st)" for e by (simp add: throws_def)
  show ?thesis
  proof (cases "authMode d = Control")
    case True
    have "\<exists>e. callControl env d name input st = throws e st"
    proof (cases "authContext d")
      case (Some c)
      then have "name \<notin> tool_name ` set CONTROL_MEMORY_TOOLS \<or> \<not> tool_allowed d name \<or> name \<in> set CONTROL_GATEWAY_UNSUPPORTED"
        using assms True by (auto simp: listTools_def)
      then show ?thesis by (rule callControl_other)
    qed (auto simp: callControl_def)
    then show ?thesis using t Inr True by (auto simp: callTool_def)
  next
    case False
    have "(\<exists>e. callLegacy env d name input st = throws e st) \<or>
        authMode d = Hybrid \<and> authContext d \<noteq> None \<and> \<not> tool_allowed d name"
      using assms False callLegacy_other [of name env d input st]
      by (cases "authMode d") (auto simp: listTools_def image_iff split: if_splits)
    then show ?thesis
      using t Inr False not_allowed [of d name]
      by (cases "authMode d") (auto simp: callTool_def throws_def split: option.splits sum.splits)
  qed
qed (simp add: callTool_def throws_def)

theorem only_listed_tools_act_witness:
  "\<exists>e. callTool example_tool_env control_dispatcher ''memory_record'' (Some (JObj [])) example_state = (Inl e, example_state)"
proof (rule only_listed_tools_act)
  show "''memory_record'' \<notin> tool_name ` set (listTools control_dispatcher)"
    by (auto simp: listTools_def control_dispatcher_def tool_allowed_def TOOL_CAPABILITY_def hasCapability_def agent_context_def)
qed

section \<open>The hybrid mode\<close>

definition within_credential :: "auth_context \<Rightarrow> string \<Rightarrow> fields \<Rightarrow> bool" where
  "within_credential context name input =
     (map_option to_lower (str_field input ''workspace_id'') = Some (ctx_workspace_id context) \<and>
      map_option to_lower (str_field input ''project_id'') = Some (ctx_project_id context) \<and>
      (name = ''memory_record'' \<longrightarrow> own_author context (JObj input)))"

lemma requiredString_Inr: "requiredString input key = Inr v \<longleftrightarrow> str_field input key = Some v \<and> \<not> blank v"
  by (auto simp: requiredString_def str_field_def split: option.splits json.splits)

lemma requiredUuid_Inr:
  "requiredUuid input key = Inr v \<longleftrightarrow>
     (\<exists>s. str_field input key = Some s \<and> \<not> blank s \<and> matches UUID_ARGUMENT s \<and> v = to_lower s)"
  by (auto simp: requiredUuid_def rbind_eq_Inr requiredString_Inr split: if_splits)

lemma assert_scope_Inr:
  "assertLegacyScopeAndPeer context input name = Inr u \<Longrightarrow> within_credential context name input"
  unfolding assertLegacyScopeAndPeer_def tool_scope_def within_credential_def own_author_def expected_peer_def Let_def
  by (auto simp: rbind_eq_Inr requiredString_Inr requiredUuid_Inr has_text_def split: if_splits)

text \<open>
  The hybrid mode with a credential.  A call that returns a result or changes anything names the
  credential's workspace and project, holds the capability of its tool, and records only in the name
  of the credential's Peer.
\<close>

theorem hybrid_call_checked:
  assumes "authMode d = Hybrid" and "authContext d = Some context"
    and "callTool env d name arguments st = (r, st')" and "is_ok r \<or> st' \<noteq> st"
  shows "\<exists>input. objectInput arguments = Inr input \<and> tool_allowed d name \<and> within_credential context name input"
proof -
  obtain input where i: "objectInput arguments = Inr input"
    using assms by (cases "objectInput arguments") (auto simp: callTool_def throws_def)
  obtain u where "rbind (requireCapability d name) (\<lambda>_. assertLegacyScopeAndPeer context input name) = Inr u"
    using assms i by (auto simp: callTool_def throws_def split: sum.splits)
  then have "requireCapability d name = Inr ()" "assertLegacyScopeAndPeer context input name = Inr ()"
    by (auto simp: rbind_eq_Inr)
  then show ?thesis
    using i not_allowed [of d name] by (auto dest: assert_scope_Inr)
qed

definition uuid_context :: auth_context where
  "uuid_context = agent_context\<lparr>ctx_workspace_id := example_id, ctx_project_id := example_id\<rparr>"

definition uuid_scope :: fields where
  "uuid_scope = [(''workspace_id'', JStr example_id), (''project_id'', JStr example_id)]"

lemma example_id_uuid: "requiredUuid uuid_scope ''workspace_id'' = Inr example_id" "requiredUuid uuid_scope ''project_id'' = Inr example_id"
  by code_simp+

lemma hybrid_example:
  "\<exists>fr. callTool example_tool_env (hybrid_dispatcher\<lparr>authContext := Some uuid_context\<rparr>) ''wiki_read'' (Some (JObj uuid_scope)) example_state
     = (Inr (FedRead fr), example_state)"
proof -
  have k: "rejectUnknown ''wiki_read'' uuid_scope = Inr ()"
    by (simp add: rejectUnknown_def reject_unknown_def ALLOWED_KEYS_def uuid_scope_def okeys_def)
  have sel: "selectTargets (nodes hub_router) None [''hub''] = Inr [''hub'']"
    by (simp add: selectTargets_Inr hub_router_def requested_or_def)
  have d: "defaultReadTargets hub_router = [''hub'']" by (simp add: hub_router_def)
  have t: "targetValue uuid_scope = Inr None" by (simp add: targetValue_def uuid_scope_def)
  show ?thesis
    by (simp add: callTool_def objectInput_def hybrid_dispatcher_def requireCapability_def TOOL_CAPABILITY_def
        hasCapability_def uuid_context_def agent_context_def assertLegacyScopeAndPeer_def tool_scope_def
        example_id_uuid callLegacy_def k t targetsFor_def legacy_read_def Let_def wikiRead_def read_by_def sel d)
qed

theorem hybrid_call_checked_witness:
  "within_credential uuid_context ''wiki_read'' uuid_scope"
proof -
  obtain fr where c: "callTool example_tool_env (hybrid_dispatcher\<lparr>authContext := Some uuid_context\<rparr>) ''wiki_read''
      (Some (JObj uuid_scope)) example_state = (Inr (FedRead fr), example_state)"
    using hybrid_example by blast
  have "\<exists>input. objectInput (Some (JObj uuid_scope)) = Inr input \<and>
      tool_allowed (hybrid_dispatcher\<lparr>authContext := Some uuid_context\<rparr>) ''wiki_read'' \<and>
      within_credential uuid_context ''wiki_read'' input"
    by (rule hybrid_call_checked [OF _ _ c]) (simp_all add: hybrid_dispatcher_def)
  then show ?thesis by (simp add: objectInput_def)
qed

section \<open>The router takes every validated search\<close>

lemma targetsFor_selects:
  assumes "targetsFor r t = Inr targets" and "targets \<noteq> Some []"
    and "selectTargets (nodes r) None defaults = Inr ds"
  shows "\<exists>ts. selectTargets (nodes r) targets defaults = Inr ts \<and>
    (case t of None \<Rightarrow> ts = ds | Some n \<Rightarrow> ts = uniq (if n = ''all'' then configuredNodes r else [n]))"
  using assms
  by (auto simp: targetsFor_def selectTargets_Inr requested_or_def configuredNodes_def filter_empty_conv Let_def
      split: option.splits list.splits if_splits)

lemma map_filter_strings [simp]: "List.map_filter as_string (map JStr ts) = ts"
  by (induction ts) (simp_all add: List.map_filter_simps)

lemma limit_of_validated:
  assumes "optionalLimit input = Inr l"
  shows "limit_of fmt (oget input ''limit'') = Inr (case l of None \<Rightarrow> 10 | Some n \<Rightarrow> n)"
proof (cases "oget input ''limit''")
  case None
  then show ?thesis
    using assms rat_integer_of_int [of 10] by (simp add: optionalLimit_def limit_of_def coalesce_def nullish_def js_integer_def)
next
  case (Some v)
  then obtain n where "v = JNum (of_int n)" "1 \<le> n" "n \<le> 50" "l = Some (nat n)"
    using assms by (auto simp: optionalLimit_def as_integer_Some split: option.splits if_splits)
  then show ?thesis using Some by (simp add: limit_of_def coalesce_def nullish_def)
qed

text \<open>
  A validated search is answered.  With a router whose defaults are usable, which is every router
  built from a loaded configuration, a search that passes the argument checks is never refused by
  the router: it has a result, for exactly the wanted targets, each once, however the nodes answer.
\<close>

theorem validated_recall_answers:
  assumes "configuredNodes r \<noteq> []" and "selectTargets (nodes r) None (defaultReadTargets r) = Inr (defaultReadTargets r)"
    and "recallInput date_ok r input = Inr (ws, p, query, input')" and "targetValue input = Inr t"
    and "oget input ''targets'' = None"
  shows "\<exists>fr. recall w r ws p query input' included = Inr fr \<and>
    fr_targets fr = (case t of None \<Rightarrow> defaultReadTargets r | Some n \<Rightarrow> uniq (if n = ''all'' then configuredNodes r else [n]))"
proof -
  obtain targets l where i: "targetsFor r t = Inr targets" "optionalLimit input = Inr l"
      "input' = put_targets targets (oset ''project_id'' (JStr p) (oset ''workspace_id'' (JStr ws) input))"
    using assms(3,4) unfolding recallInput_def by (auto simp: rbind_eq_Inr)
  have ne: "targets \<noteq> Some []"
    using i(1) assms(1) by (auto simp: targetsFor_def configuredNodes_def Let_def split: option.splits list.splits if_splits)
  obtain ts where ts: "selectTargets (nodes r) targets (defaultReadTargets r) = Inr ts"
      "case t of None \<Rightarrow> ts = defaultReadTargets r | Some n \<Rightarrow> ts = uniq (if n = ''all'' then configuredNodes r else [n])"
    using targetsFor_selects [OF i(1) ne assms(2)] by blast
  have "targets_of input' = targets"
    using assms(5) by (cases targets) (simp_all add: i(3) put_targets_def targets_of_def arr_field_def)
  moreover have "oget input' ''limit'' = oget input ''limit''"
    by (cases targets) (simp_all add: i(3) put_targets_def)
  ultimately show ?thesis
    using ts limit_of_validated [OF i(2)]
    by (cases t) (simp_all add: recall_def federated_def boundFederatedResult_def unbounded_result_def Let_def split: prod.split)
qed

theorem validated_recall_answers_witness:
  "\<exists>fr. recall example_world hub_router example_id example_id ''q'' (uuid_scope @ [(''query'', JStr ''q'')]) [''records''] = Inr fr"
proof -
  let ?in = "uuid_scope @ [(''query'', JStr ''q'')]"
  have "recallInput (\<lambda>_. True) hub_router ?in = Inr (example_id, example_id, ''q'', ?in)" by code_simp
  moreover have "selectTargets (nodes hub_router) None (defaultReadTargets hub_router) = Inr (defaultReadTargets hub_router)"
    by (simp add: selectTargets_Inr hub_router_def requested_or_def)
  ultimately show ?thesis
    using validated_recall_answers [of hub_router "\<lambda>_. True" ?in example_id example_id "''q''" ?in None example_world "[''records'']"]
    by (auto simp: configuredNodes_def okeys_def hub_router_def targetValue_def uuid_scope_def)
qed

end
