(* ===== verification/Rpc.thy ===== *)
theory Rpc
  imports DispatchProps
begin

text \<open>
  JSON-RPC over the dispatcher, \<open>apps/mcp/src/rpc.ts\<close>, and the line-based server of
  \<open>apps/mcp/src/stdio.ts\<close>.  A request is the fields of its object; a field that is
  \<open>undefined\<close> is absent.  A cut inside a surrogate pair keeps the first half, here in the
  three-byte form its code unit has.
\<close>

section \<open>Previews\<close>

text \<open>The first half of the pair a four-byte character is\<close>

definition high_surrogate :: "string \<Rightarrow> string" where
  "high_surrogate s =
     (let b = map of_char s :: nat list;
          cp = (b ! 0 mod 8) * 262144 + (b ! 1 mod 64) * 4096 + (b ! 2 mod 64) * 64 + b ! 3 mod 64;
          unit = 55296 + (cp - 65536) div 1024
      in [CHR 0xED, char_of (128 + (unit div 64) mod 64), char_of (128 + unit mod 64)])"

text \<open>\<open>value.slice(0, maximum)\<close>\<close>

fun js_slice :: "nat \<Rightarrow> string \<Rightarrow> string" where
  "js_slice maximum [] = []"
| "js_slice maximum (c # cs) =
     (if units c \<le> maximum then c # js_slice (maximum - units c) cs
      else if maximum = 1 \<and> 3 \<le> length cs then high_surrogate (c # cs) else [])"

definition ellipsis :: string where
  "ellipsis = [CHR 0xE2, CHR 0x80, CHR 0xA6]"

definition truncateText :: "string \<Rightarrow> nat \<Rightarrow> string" where
  "truncateText v maximum = (if js_length v \<le> maximum then v else js_slice maximum v @ ellipsis)"

definition opaque_key :: "string \<Rightarrow> bool" where
  "opaque_key key =
     list_ex (\<lambda>w. str_includes w (to_lower key)) [''embedding'', ''vector'', ''base64'', ''binary'', ''blob'']"

fun compactPreview :: "nat \<Rightarrow> nat \<Rightarrow> nat \<Rightarrow> json \<Rightarrow> json" where
  "compactPreview depth stringLimit arrayLimit (JStr s) = JStr (truncateText s stringLimit)"
| "compactPreview 0 stringLimit arrayLimit (JArr xs) = JStr ''[depth limit]''"
| "compactPreview 0 stringLimit arrayLimit (JObj kvs) = JStr ''[depth limit]''"
| "compactPreview (Suc d) stringLimit arrayLimit (JArr xs) =
     JArr (map (compactPreview d stringLimit arrayLimit) (take arrayLimit xs))"
| "compactPreview (Suc d) stringLimit arrayLimit (JObj kvs) =
     JObj (map (\<lambda>kv. (fst kv, compactPreview d stringLimit arrayLimit (snd kv)))
            (filter (\<lambda>kv. \<not> opaque_key (fst kv)) (take 24 kvs)))"
| "compactPreview depth stringLimit arrayLimit v = v"

definition preview_steps :: "(nat \<times> nat \<times> nat) list" where
  "preview_steps = [(5, 1024, 5), (4, 512, 3), (3, 256, 2)]"

definition encodeBoundedPreview :: "(rat \<Rightarrow> string) \<Rightarrow> json \<Rightarrow> string" where
  "encodeBoundedPreview fmt v =
     (case find (\<lambda>e. length e \<le> 16 * 1024)
             (map (\<lambda>(depth, stringLimit, arrayLimit). stringify fmt (compactPreview depth stringLimit arrayLimit v)) preview_steps) of
        Some encoded \<Rightarrow> encoded
      | None \<Rightarrow> stringify fmt (JObj [(''summary'', JStr ''Memory result preview exceeded 16 KiB.''), (''truncated'', JBool True)]))"

definition delivery_text :: "(rat \<Rightarrow> string) \<Rightarrow> string \<times> json \<Rightarrow> string" where
  "delivery_text fmt nd =
     fst nd @ ''='' @
     js_string fmt (case coalesce (Option.bind (as_object (snd nd)) (\<lambda>o1. oget o1 ''status'')) (Some (JStr ''unknown'')) of
       Some v \<Rightarrow> v | None \<Rightarrow> JNull)"

definition arr_or_empty :: "fields \<Rightarrow> string \<Rightarrow> json list" where
  "arr_or_empty o1 key = (case arr_field o1 key of None \<Rightarrow> [] | Some xs \<Rightarrow> xs)"

definition result_preview :: "fields \<Rightarrow> json list \<Rightarrow> json" where
  "result_preview o1 results =
     (let errs = arr_or_empty o1 ''errors''
      in JObj [(''summary'', JStr (''Returned '' @ dec_str (length results) @ '' memory result(s) with '' @
                  dec_str (length errs) @ '' node error(s).'')),
               (''truncated'', JBool (oget o1 ''truncated'' = Some (JBool True))),
               (''results'', JArr (take 5 results)), (''errors'', JArr (take 5 errs))])"

definition summarizeResult :: "(rat \<Rightarrow> string) \<Rightarrow> json \<Rightarrow> string" where
  "summarizeResult fmt v =
     (case as_object v of
        None \<Rightarrow> ''Memory operation completed.''
      | Some o1 \<Rightarrow>
          (case str_field o1 ''record_id'' of
             Some i \<Rightarrow> ''Record '' @ i @ '': '' @
               (case obj_field o1 ''deliveries'' of
                  Some ds \<Rightarrow> join '', '' (map (delivery_text fmt) ds)
                | None \<Rightarrow> ''no delivery status'') @ ''.''
           | None \<Rightarrow>
               (case arr_field o1 ''results'' of
                  Some results \<Rightarrow> encodeBoundedPreview fmt (result_preview o1 results)
                | None \<Rightarrow> ''Memory operation completed.'')))"

section \<open>Results as JSON\<close>

fun delivery_state_str :: "delivery_state \<Rightarrow> string" where
  "delivery_state_str Stored = ''stored''"
| "delivery_state_str Pending = ''pending''"
| "delivery_state_str Failed = ''failed''"

definition delivery_json :: "target_delivery \<Rightarrow> json" where
  "delivery_json d =
     JObj ([(''origin_node'', JStr (td_target d)), (''origin_scope'', scope_json (td_origin_scope d)),
            (''logical_scope'', scope_json (td_logical_scope d)),
            (''status'', JStr (delivery_state_str (ds_status (td_status d))))] @
           opt_prop ''http_status'' (map_option (\<lambda>n. JNum (of_nat n)) (ds_http (td_status d))) @
           opt_prop ''error_code'' (map_option JStr (ds_error (td_status d))))"

fun result_json :: "tool_result \<Rightarrow> json" where
  "result_json (Recorded recordId ds) =
     JObj [(''record_id'', JStr recordId), (''deliveries'', JObj (map (\<lambda>d. (td_target d, delivery_json d)) ds))]"
| "result_json (FedRead fr) = fed_json fr"
| "result_json (GatewayAnswer v) = v"

definition tool_json :: "tool \<Rightarrow> json" where
  "tool_json t =
     JObj [(''name'', JStr (tool_name t)), (''description'', JStr (tool_description t)), (''inputSchema'', JObj (inputSchema t))]"

text \<open>\<open>rpcErrorMessage\<close>: the message each error class gives its \<open>Error\<close>\<close>

fun exn_message :: "exn \<Rightarrow> string" where
  "exn_message (CoreRequestError c r st) = c"
| "exn_message (InvalidCoreResponseError m) = m"
| "exn_message (ControlGatewayError c st r) = c"
| "exn_message (OtherError m) = m"

section \<open>dispatchRpc\<close>

definition validJsonRpcId :: "json option \<Rightarrow> bool" where
  "validJsonRpcId v =
     (case v of None \<Rightarrow> True | Some (JStr _) \<Rightarrow> True | Some (JNum _) \<Rightarrow> True | Some _ \<Rightarrow> False)"

datatype rpc_error = RpcError int string

definition text_content :: "string \<Rightarrow> string \<times> json" where
  "text_content t = (''content'', JArr [JObj [(''type'', JStr ''text''), (''text'', JStr t)]])"

definition valid_initialize :: "json option \<Rightarrow> bool" where
  "valid_initialize params =
     (case Option.bind params as_object of
        None \<Rightarrow> False
      | Some p \<Rightarrow>
          str_field p ''protocolVersion'' \<noteq> None \<and> obj_field p ''capabilities'' \<noteq> None \<and>
          (case obj_field p ''clientInfo'' of
             None \<Rightarrow> False
           | Some c \<Rightarrow> str_field c ''name'' \<noteq> None \<and> str_field c ''version'' \<noteq> None))"

definition initialize_result :: json where
  "initialize_result =
     JObj [(''protocolVersion'', JStr ''2025-03-26''),
           (''capabilities'', JObj [(''tools'', JObj [(''listChanged'', JBool False)])]),
           (''serverInfo'', JObj [(''name'', JStr ''neuromem-mcp''), (''version'', JStr ''0.1.0'')])]"

definition tools_call ::
  "tool_env \<Rightarrow> dispatcher \<Rightarrow> json option \<Rightarrow> tool_state \<Rightarrow> (rpc_error + json option) \<times> tool_state" where
  "tools_call env d rawParams st =
     (let fmt = w_fmt (te_world env);
          params = (case Option.bind rawParams as_object of None \<Rightarrow> [] | Some p \<Rightarrow> p);
          name = (case str_field params ''name'' of None \<Rightarrow> [] | Some n \<Rightarrow> n)
      in if name = [] \<or> \<not> list_ex (\<lambda>t. tool_name t = name) (listTools d)
         then (Inl (RpcError (-32602) ''Unknown tool''), st)
         else if (case oget params ''arguments'' of None \<Rightarrow> False | Some v \<Rightarrow> as_object v = None)
         then (Inl (RpcError (-32602) ''Tool arguments must be an object''), st)
         else (case callTool env d name (oget params ''arguments'') st of
                 (Inr v, st') \<Rightarrow>
                   (Inr (Some (JObj [text_content (summarizeResult fmt (result_json v)),
                      (''structuredContent'', result_json v), (''isError'', JBool False)])), st')
               | (Inl e, st') \<Rightarrow>
                   (Inr (Some (JObj [text_content (exn_message e), (''isError'', JBool True)])), st')))"

definition dispatchRpc ::
  "tool_env \<Rightarrow> dispatcher \<Rightarrow> fields \<Rightarrow> tool_state \<Rightarrow> (rpc_error + json option) \<times> tool_state" where
  "dispatchRpc env d request st =
     (if oget request ''jsonrpc'' \<noteq> Some (JStr ''2.0'') \<or> str_field request ''method'' = None \<or>
         \<not> validJsonRpcId (oget request ''id'')
      then (Inl (RpcError (-32600) ''Invalid Request''), st)
      else let method = the (str_field request ''method'')
        in if method = ''initialize''
           then (if valid_initialize (oget request ''params'') then (Inr (Some initialize_result), st)
                 else (Inl (RpcError (-32602) ''Invalid initialize parameters''), st))
           else if method = ''notifications/initialized'' then (Inr None, st)
           else if method = ''ping'' then (Inr (Some (JObj [])), st)
           else if method = ''tools/list''
           then (Inr (Some (JObj [(''tools'', JArr (map tool_json (listTools d)))])), st)
           else if method = ''tools/call'' then tools_call env d (oget request ''params'') st
           else (Inl (RpcError (-32601) ''Method not found''), st))"

section \<open>Envelopes\<close>

definition error_reply :: "json \<Rightarrow> int \<Rightarrow> string \<Rightarrow> fields" where
  "error_reply reply_id rcode message =
     [(''jsonrpc'', JStr ''2.0''), (''id'', reply_id),
      (''error'', JObj [(''code'', JNum (of_int rcode)), (''message'', JStr message)])]"

definition result_reply :: "json \<Rightarrow> json option \<Rightarrow> fields" where
  "result_reply reply_id result = [(''jsonrpc'', JStr ''2.0''), (''id'', reply_id)] @ opt_prop ''result'' result"

definition safe_id :: "fields \<Rightarrow> json" where
  "safe_id request =
     (if validJsonRpcId (oget request ''id'')
      then (case oget request ''id'' of None \<Rightarrow> JNull | Some i \<Rightarrow> i) else JNull)"

definition envelope_of :: "fields \<Rightarrow> rpc_error + json option \<Rightarrow> fields option" where
  "envelope_of request r =
     (case oget request ''id'' of
        None \<Rightarrow> None
      | Some i \<Rightarrow>
          (case r of
             Inr result \<Rightarrow> Some (result_reply i result)
           | Inl (RpcError rcode message) \<Rightarrow> Some (error_reply (safe_id request) rcode message)))"

definition rpc_envelope ::
  "tool_env \<Rightarrow> dispatcher \<Rightarrow> fields \<Rightarrow> tool_state \<Rightarrow> fields option \<times> tool_state" where
  "rpc_envelope env d request st =
     (let (r, st') = dispatchRpc env d request st in (envelope_of request r, st'))"

text \<open>
  The requests of a batch, one at a time in the order \<open>order\<close> of their positions; \<open>envs i\<close> is what
  the call at position \<open>i\<close> finds around it (the time, the fresh id, the answers).
\<close>

fun run_batch ::
  "(nat \<Rightarrow> tool_env) \<Rightarrow> dispatcher \<Rightarrow> fields list \<Rightarrow> nat list \<Rightarrow> tool_state \<Rightarrow> (nat \<times> fields option) list \<times> tool_state" where
  "run_batch envs d requests [] st = ([], st)"
| "run_batch envs d requests (i # order) st =
     (let (reply, st1) = rpc_envelope (envs i) d (requests ! i) st;
          (rest, st2) = run_batch envs d requests order st1
      in ((i, reply) # rest, st2))"

text \<open>\<open>(await Promise.all(requests.map(envelope))).filter(reply !== undefined)\<close>\<close>

definition batch_replies ::
  "(nat \<Rightarrow> tool_env) \<Rightarrow> dispatcher \<Rightarrow> fields list \<Rightarrow> nat list \<Rightarrow> tool_state \<Rightarrow> fields list \<times> tool_state" where
  "batch_replies envs d requests order st =
     (let (replies, st') = run_batch envs d requests order st
      in (List.map_filter (\<lambda>i. case oget replies i of Some (Some reply) \<Rightarrow> Some reply | _ \<Rightarrow> None) [0..<length requests], st'))"

section \<open>stdio\<close>

record stdio_state =
  initialized :: bool
  io_tools :: tool_state

definition is_initialize :: "fields \<Rightarrow> bool" where
  "is_initialize request = (oget request ''method'' = Some (JStr ''initialize''))"

definition batch_ok :: "json list \<Rightarrow> bool" where
  "batch_ok items =
     (items \<noteq> [] \<and> length items \<le> 32 \<and>
      list_all (\<lambda>item. case as_object item of None \<Rightarrow> False | Some request \<Rightarrow> \<not> is_initialize request) items)"

definition invalid_request :: json where
  "invalid_request = JObj (error_reply JNull (-32600) ''Invalid Request'')"

text \<open>One line: what is emitted, and the state after it\<close>

definition handleLine ::
  "(nat \<Rightarrow> tool_env) \<Rightarrow> nat list \<Rightarrow> dispatcher \<Rightarrow> string \<Rightarrow> stdio_state \<Rightarrow> json option \<times> stdio_state" where
  "handleLine envs order d line s =
     (case w_parse (te_world (envs 0)) line of
        None \<Rightarrow> (Some (JObj (error_reply JNull (-32700) ''Parse error'')), s)
      | Some (JArr items) \<Rightarrow>
          if \<not> initialized s \<or> \<not> batch_ok items then (Some invalid_request, s)
          else let (replies, st) = batch_replies envs d (List.map_filter as_object items) order (io_tools s)
               in (if replies = [] then None else Some (JArr (map JObj replies)), s\<lparr>io_tools := st\<rparr>)
      | Some (JObj request) \<Rightarrow>
          if \<not> initialized s \<and> \<not> is_initialize request
          then (map_option (\<lambda>i. JObj (error_reply i (-32002) ''Not initialized'')) (oget request ''id''), s)
          else let (reply, st) = rpc_envelope (envs 0) d request (io_tools s)
               in (map_option JObj reply,
                   \<lparr>initialized = initialized s \<or>
                      is_initialize request \<and> (case reply of None \<Rightarrow> False | Some r \<Rightarrow> oget r ''error'' = None),
                    io_tools = st\<rparr>)
      | Some _ \<Rightarrow> (Some invalid_request, s))"

text \<open>The lines are handled one after the other, each in its surroundings.\<close>

fun handle_lines ::
  "dispatcher \<Rightarrow> ((nat \<Rightarrow> tool_env) \<times> nat list \<times> string) list \<Rightarrow> stdio_state \<Rightarrow> json list \<times> stdio_state" where
  "handle_lines d [] s = ([], s)"
| "handle_lines d ((envs, order, line) # rest) s =
     (let (out, s1) = handleLine envs order d line s;
          (outs, s2) = handle_lines d rest s1
      in (case out of None \<Rightarrow> outs | Some v \<Rightarrow> v # outs, s2))"

end
