(* ===== verification/RpcProps.thy ===== *)
theory RpcProps
  imports Rpc
begin

text \<open>
  The properties of JSON-RPC and of the line-based server: the bound of a preview, which requests
  have an effect, the ids of a batch's replies, and that nothing is called before \<open>initialize\<close>.
\<close>

section \<open>Previews\<close>

text \<open>
  The text of a search result is bounded.  Whatever the nodes returned, the summary of a result
  list is at most 16 KiB.
\<close>

theorem summary_bounded:
  assumes "as_object v = Some o1" and "str_field o1 ''record_id'' = None"
  shows "length (summarizeResult fmt v) \<le> 16 * 1024"
proof -
  have p: "length (encodeBoundedPreview fmt j) \<le> 16 * 1024" for j
  proof (cases "find (\<lambda>e. length e \<le> 16 * 1024)
      (map (\<lambda>(depth, stringLimit, arrayLimit). stringify fmt (compactPreview depth stringLimit arrayLimit j)) preview_steps)")
    case None
    then show ?thesis by (simp add: encodeBoundedPreview_def quote_def escape_char_def)
  next
    case (Some e)
    then show ?thesis using find_SomeD [OF Some] by (simp add: encodeBoundedPreview_def)
  qed
  show ?thesis using assms p by (simp add: summarizeResult_def split: option.split)
qed

theorem summary_bounded_witness:
  "length (summarizeResult (\<lambda>_. []) (JObj [(''results'', JArr [JStr ''a''])])) \<le> 16 * 1024"
  by (rule summary_bounded [of _ "[(''results'', JArr [JStr ''a''])]"]) (simp_all add: str_field_def)

section \<open>Which requests have an effect\<close>

lemma tools_call_effect:
  assumes "tools_call env d params st = (r, st')" and "st' \<noteq> st"
  shows "\<exists>name arguments v. name \<in> tool_name ` set (listTools d) \<and> callTool env d name arguments st = (v, st')"
proof -
  define p where "p = (case Option.bind params as_object of None \<Rightarrow> [] | Some p \<Rightarrow> p)"
  define name where "name = (case str_field p ''name'' of None \<Rightarrow> [] | Some n \<Rightarrow> n)"
  obtain v st1 where c: "callTool env d name (oget p ''arguments'') st = (v, st1)" by fastforce
  have l: "list_ex (\<lambda>t. tool_name t = name) (listTools d)" and "st1 = st'"
    using assms c unfolding tools_call_def Let_def p_def [symmetric] name_def [symmetric]
    by (auto split: if_splits sum.splits)
  then have "name \<in> tool_name ` set (listTools d)" by (auto simp: list_ex_iff)
  then show ?thesis using c \<open>st1 = st'\<close> by blast
qed

lemma rpc_dispatch_effect:
  assumes "dispatchRpc env d request st = (r, st')" and "st' \<noteq> st"
  shows "oget request ''jsonrpc'' = Some (JStr ''2.0'') \<and> oget request ''method'' = Some (JStr ''tools/call'') \<and>
    validJsonRpcId (oget request ''id'') \<and>
    (\<exists>name arguments v. name \<in> tool_name ` set (listTools d) \<and> callTool env d name arguments st = (v, st'))"
proof -
  have m: "oget request ''jsonrpc'' = Some (JStr ''2.0'')" "validJsonRpcId (oget request ''id'')"
      "str_field request ''method'' = Some ''tools/call''" "tools_call env d (oget request ''params'') st = (r, st')"
    using assms by (auto simp: dispatchRpc_def Let_def split: if_splits)
  then show ?thesis using tools_call_effect [OF m(4) assms(2)] by (simp add: str_field_Some)
qed

text \<open>
  Requests that have an effect.  A JSON-RPC request changes something only as a valid
  \<open>tools/call\<close> of a tool that \<open>listTools\<close> shows to this caller, and then what it changes is what
  that one call of the tool changes.
\<close>

theorem rpc_effects:
  assumes "dispatchRpc env d request st = (r, st')" and "st' \<noteq> st"
  shows "oget request ''jsonrpc'' = Some (JStr ''2.0'') \<and> oget request ''method'' = Some (JStr ''tools/call'') \<and>
    validJsonRpcId (oget request ''id'') \<and>
    (\<exists>name arguments v. name \<in> tool_name ` set (listTools d) \<and> callTool env d name arguments st = (v, st'))"
  by (rule rpc_dispatch_effect [OF assms])

definition wiki_read_call :: fields where
  "wiki_read_call = [(''jsonrpc'', JStr ''2.0''), (''method'', JStr ''tools/call''),
     (''params'', JObj [(''name'', JStr ''wiki_read'')])]"

theorem rpc_effects_witness:
  "\<exists>name arguments v. name \<in> tool_name ` set (listTools control_dispatcher) \<and>
     callTool example_tool_env control_dispatcher name arguments example_state =
       (v, snd (dispatchRpc example_tool_env control_dispatcher wiki_read_call example_state))"
proof -
  obtain r st' where d: "dispatchRpc example_tool_env control_dispatcher wiki_read_call example_state = (r, st')" by fastforce
  have "snd (dispatchRpc example_tool_env control_dispatcher wiki_read_call example_state) =
      snd (callTool example_tool_env control_dispatcher ''wiki_read'' None example_state)"
    using wiki_read_listed
    by (simp add: dispatchRpc_def wiki_read_call_def str_field_def validJsonRpcId_def tools_call_def Let_def
        split: prod.splits sum.splits)
  then have "st' \<noteq> example_state"
    using d wiki_read_sends [of example_tool_env] by (auto simp: example_state_def)
  from rpc_effects [OF d this] show ?thesis unfolding d by auto
qed

section \<open>The replies of a batch\<close>

lemma envelope_id:
  assumes "rpc_envelope env d request st = (reply, st')"
  shows "(reply = None \<longleftrightarrow> oget request ''id'' = None) \<and> (\<forall>r. reply = Some r \<longrightarrow> oget r ''id'' = Some (safe_id request))"
proof -
  obtain r where d: "dispatchRpc env d request st = (r, st')" and e: "reply = envelope_of request r"
    using assms by (auto simp: rpc_envelope_def split: prod.splits)
  have "validJsonRpcId (oget request ''id'')" if "r = Inr x" for x
    using d that by (auto simp: dispatchRpc_def split: if_splits)
  then show ?thesis
    using e by (auto simp: envelope_of_def result_reply_def error_reply_def safe_id_def split: option.splits sum.splits rpc_error.splits)
qed

lemma run_batch_reply:
  "run_batch envs d requests order st = (replies, st') \<Longrightarrow>
     map fst replies = order \<and>
     (\<forall>(i, reply) \<in> set replies. (reply = None \<longleftrightarrow> oget (requests ! i) ''id'' = None) \<and>
        (\<forall>r. reply = Some r \<longrightarrow> oget r ''id'' = Some (safe_id (requests ! i))))"
proof (induction order arbitrary: st replies st')
  case (Cons i order)
  obtain reply st1 where 1: "rpc_envelope (envs i) d (requests ! i) st = (reply, st1)" by fastforce
  obtain rest st2 where 2: "run_batch envs d requests order st1 = (rest, st2)" by fastforce
  have "replies = (i, reply) # rest" using Cons.prems 1 2 by simp
  then show ?case using Cons.IH [OF 2] envelope_id [OF 1] by auto
qed simp

lemma map_filter_eq:
  assumes "\<And>x. x \<in> set xs \<Longrightarrow> (case f x of None \<Rightarrow> \<not> P x | Some y \<Rightarrow> P x \<and> g y = h x)"
  shows "map g (List.map_filter f xs) = map h (filter P xs)"
  using assms
proof (induction xs)
  case (Cons x xs)
  then show ?case
    using Cons.prems [of x] by (cases "f x") (auto simp: List.map_filter_simps)
qed (simp add: List.map_filter_simps)

lemma oget_in: "k \<in> fst ` set kvs \<Longrightarrow> \<exists>v. oget kvs k = Some v \<and> (k, v) \<in> set kvs"
  using oget_None_iff [of kvs k] oget_SomeD [of kvs k] by (cases "oget kvs k") auto

text \<open>
  The replies of a batch.  In whatever order the requests of a batch are carried out, there is
  one reply for every request that has an id, none for a notification, in the order of the requests,
  and a reply carries the id of its request (null where that id is not valid).
\<close>

theorem batch_reply_ids:
  assumes "mset order = mset [0..<length requests]" and "batch_replies envs d requests order st = (replies, st')"
  shows "map (\<lambda>r. oget r ''id'') replies =
    map (Some \<circ> safe_id) (filter (\<lambda>request. oget request ''id'' \<noteq> None) requests)"
proof -
  obtain pairs where b: "run_batch envs d requests order st = (pairs, st')"
      and r: "replies = List.map_filter (\<lambda>i. case oget pairs i of Some (Some reply) \<Rightarrow> Some reply | _ \<Rightarrow> None) [0..<length requests]"
    using assms(2) by (auto simp: batch_replies_def split: prod.splits)
  have "set order = {0..<length requests}" using mset_eq_setD [OF assms(1)] by simp
  then have keys: "fst ` set pairs = {0..<length requests}" using run_batch_reply [OF b] by (metis set_map)
  let ?f = "\<lambda>i. case oget pairs i of Some (Some reply) \<Rightarrow> Some reply | _ \<Rightarrow> None"
  have "map (\<lambda>r. oget r ''id'') replies =
      map (\<lambda>i. Some (safe_id (requests ! i))) (filter (\<lambda>i. oget (requests ! i) ''id'' \<noteq> None) [0..<length requests])"
    unfolding r
  proof (rule map_filter_eq)
    fix i assume "i \<in> set [0..<length requests]"
    then have "i \<in> fst ` set pairs" using keys by simp
    then obtain reply where o: "oget pairs i = Some reply" "(i, reply) \<in> set pairs" by (metis oget_in)
    show "case ?f i of None \<Rightarrow> \<not> oget (requests ! i) ''id'' \<noteq> None
        | Some y \<Rightarrow> oget (requests ! i) ''id'' \<noteq> None \<and> oget y ''id'' = Some (safe_id (requests ! i))"
    proof -
      have "(reply = None \<longleftrightarrow> oget (requests ! i) ''id'' = None) \<and>
          (\<forall>r. reply = Some r \<longrightarrow> oget r ''id'' = Some (safe_id (requests ! i)))"
        using bspec [OF conjunct2 [OF run_batch_reply [OF b]] o(2)] by simp
      then show ?thesis using o(1) by (cases reply) simp_all
    qed
  qed
  also have "\<dots> = map (Some \<circ> safe_id) (filter (\<lambda>request. oget request ''id'' \<noteq> None) (map ((!) requests) [0..<length requests]))"
    by (simp only: filter_map map_map comp_def)
  finally show ?thesis by (simp only: map_nth)
qed

theorem batch_reply_ids_witness:
  "map (\<lambda>r. oget r ''id'') (fst (batch_replies (\<lambda>_. example_tool_env) control_dispatcher
       [[(''id'', JStr ''a'')], [], [(''id'', JNull)]] [2, 0, 1] example_state)) = [Some (JStr ''a''), Some JNull]"
proof -
  obtain replies st' where b: "batch_replies (\<lambda>_. example_tool_env) control_dispatcher
       [[(''id'', JStr ''a'')], [], [(''id'', JNull)]] [2, 0, 1] example_state = (replies, st')" by fastforce
  have "mset [2, 0, 1] = mset [0..<length [[(''id'', JStr ''a'')], [], [(''id'', JNull)]]]" by (simp add: numeral_3_eq_3)
  from batch_reply_ids [OF this b] show ?thesis unfolding b by (simp add: safe_id_def validJsonRpcId_def)
qed

section \<open>stdio\<close>

text \<open>A line that is a valid \<open>initialize\<close> request\<close>

definition initializes :: "tool_env \<Rightarrow> string \<Rightarrow> bool" where
  "initializes env line =
     (case Option.bind (w_parse (te_world env) line) as_object of
        None \<Rightarrow> False
      | Some request \<Rightarrow>
          is_initialize request \<and> oget request ''jsonrpc'' = Some (JStr ''2.0'') \<and>
          oget request ''id'' \<noteq> None \<and> validJsonRpcId (oget request ''id'') \<and>
          valid_initialize (oget request ''params''))"

lemma initialize_no_effect:
  "is_initialize request \<Longrightarrow> snd (dispatchRpc env d request st) = st"
  by (simp add: is_initialize_def dispatchRpc_def str_field_def)

lemma initialize_reply:
  assumes "is_initialize request"
  shows "(case fst (rpc_envelope env d request st) of None \<Rightarrow> False | Some r \<Rightarrow> oget r ''error'' = None) \<longleftrightarrow>
    oget request ''jsonrpc'' = Some (JStr ''2.0'') \<and> oget request ''id'' \<noteq> None \<and>
    validJsonRpcId (oget request ''id'') \<and> valid_initialize (oget request ''params'')"
  using assms
  by (auto simp: is_initialize_def dispatchRpc_def str_field_def rpc_envelope_def envelope_of_def result_reply_def
      error_reply_def opt_prop_def split: option.splits)

lemma handleLine_uninitialized:
  assumes "\<not> initialized s" and "handleLine envs order d line s = (out, s')"
  shows "io_tools s' = io_tools s" and "initialized s' \<longleftrightarrow> initializes (envs 0) line"
proof -
  have "io_tools s' = io_tools s \<and> (initialized s' \<longleftrightarrow> initializes (envs 0) line)"
  proof (cases "w_parse (te_world (envs 0)) line")
    case (Some v)
    show ?thesis
    proof (cases "\<exists>request. v = JObj request \<and> is_initialize request")
      case True
      then obtain request where r: "v = JObj request" "is_initialize request" by blast
      obtain reply st where e: "rpc_envelope (envs 0) d request (io_tools s) = (reply, st)" by fastforce
      have "st = io_tools s"
        using e initialize_no_effect [OF r(2), of "envs 0" d "io_tools s"] by (auto simp: rpc_envelope_def split: prod.splits)
      then show ?thesis
        using assms Some r e initialize_reply [OF r(2), of "envs 0" d "io_tools s"]
        by (auto simp: handleLine_def initializes_def)
    next
      case False
      then show ?thesis using assms Some by (cases v) (auto simp: handleLine_def initializes_def split: if_splits)
    qed
  qed (use assms in \<open>auto simp: handleLine_def initializes_def\<close>)
  then show "io_tools s' = io_tools s" and "initialized s' \<longleftrightarrow> initializes (envs 0) line" by blast+
qed

text \<open>
  The line server's handshake.  Until a line is a valid \<open>initialize\<close> request with an id, no line,
  whatever it is, has any effect on the queue or the gateway; if a run from the start has an
  effect, a valid \<open>initialize\<close> came first.
\<close>

theorem stdio_handshake:
  assumes "\<not> initialized s" and "handle_lines d lines s = (outs, s')"
    and "list_all (\<lambda>(envs, order, line). \<not> initializes (envs 0) line) lines"
  shows "io_tools s' = io_tools s \<and> \<not> initialized s'"
  using assms
proof (induction lines arbitrary: s outs)
  case (Cons l lines)
  obtain envs order line where l: "l = (envs, order, line)" by (cases l)
  obtain out s1 where 1: "handleLine envs order d line s = (out, s1)" by fastforce
  obtain outs1 s2 where 2: "handle_lines d lines s1 = (outs1, s2)" by fastforce
  have "s' = s2" using Cons.prems l 1 2 by (auto split: option.splits)
  moreover have "\<not> initialized s1" "io_tools s1 = io_tools s"
    using handleLine_uninitialized [OF Cons.prems(1) 1] Cons.prems(3) l by auto
  ultimately show ?case using Cons.IH [of s1 outs1] Cons.prems(3) 2 by simp
qed simp

theorem stdio_handshake_witness:
  "io_tools (snd (handle_lines control_dispatcher [(\<lambda>_. example_tool_env, [], ''x'')] \<lparr>initialized = False, io_tools = example_state\<rparr>))
     = example_state"
proof -
  obtain outs s' where h: "handle_lines control_dispatcher [(\<lambda>_. example_tool_env, [], ''x'')] \<lparr>initialized = False, io_tools = example_state\<rparr>
      = (outs, s')" by fastforce
  show ?thesis
    using stdio_handshake [OF _ h] unfolding h by (simp add: initializes_def example_tool_env_def example_world_def)
qed

end
