(* ===== verification/Http.thy ===== *)
theory Http
  imports RpcProps FederatedProps
begin

text \<open>
  The HTTP server of the MCP adapter, \<open>apps/mcp/src/http.ts\<close>: the checks on a request, its
  authentication, the sessions, and the handler.  A header is its first value; \<open>URL\<close> and the digest
  of an identity are parameters.  Between its waits a request is one step: it is admitted, then served
  (nothing waits between looking up its session and dispatching it), then it has finished.
\<close>

section \<open>Requests and responses\<close>

record mcp_request =
  hr_method :: string
  hr_path :: string
  hr_host :: "string option"
  hr_origin :: "string option"
  hr_authorization :: "string option"
  hr_session :: "string option"
  hr_content_type :: "string option"
  hr_content_length :: "string option"
  hr_chunks :: "string list"

record mcp_response =
  hs_status :: nat
  hs_json :: "json option"
  hs_headers :: "(string \<times> string) list"

datatype input_error = HttpInputError nat string bool

definition error_json :: "string \<Rightarrow> json" where
  "error_json message = JObj [(''error'', JStr message)]"

definition bare :: "nat \<Rightarrow> (string \<times> string) list \<Rightarrow> mcp_response" where
  "bare n headers = \<lparr>hs_status = n, hs_json = None, hs_headers = headers\<rparr>"

definition writeJson :: "(rat \<Rightarrow> string) \<Rightarrow> nat \<Rightarrow> json \<Rightarrow> (string \<times> string) list \<Rightarrow> mcp_response" where
  "writeJson fmt n v headers =
     (let large = serialized_bytes fmt v > 1048576;
          v' = (if large then error_json ''response_too_large'' else v)
      in \<lparr>hs_status = (if large then 500 else n), hs_json = Some v',
          hs_headers = [(''content-type'', ''application/json; charset=utf-8''),
            (''content-length'', dec_str (serialized_bytes fmt v')), (''cache-control'', ''no-store''),
            (''x-content-type-options'', ''nosniff'')] @ headers\<rparr>)"

definition error_response :: "(rat \<Rightarrow> string) \<Rightarrow> input_error \<Rightarrow> mcp_response" where
  "error_response fmt e =
     (case e of HttpInputError n message closes \<Rightarrow>
        writeJson fmt n (error_json message) (if closes then [(''connection'', ''close'')] else []))"

section \<open>Checks on a request\<close>

definition isLoopbackHost :: "(string \<Rightarrow> url_parts option) \<Rightarrow> string \<Rightarrow> bool" where
  "isLoopbackHost parse_url v =
     (case parse_url (''http://'' @ v) of
        None \<Rightarrow> False
      | Some u \<Rightarrow> hostname u \<in> {''127.0.0.1'', ''localhost'', ''[::1]''})"

text \<open>\<open>url.host\<close>: the host name with its port\<close>

definition url_host :: "url_parts \<Rightarrow> string" where
  "url_host u = (if url_port u = [] then hostname u else hostname u @ '':'' @ url_port u)"

definition validateBrowserOrigin ::
  "(string \<Rightarrow> url_parts option) \<Rightarrow> bool \<Rightarrow> mcp_request \<Rightarrow> input_error + unit" where
  "validateBrowserOrigin parse_url allowRemoteAccess request =
     (if allowRemoteAccess \<and> \<not> has_text (hr_origin request) then Inr ()
      else if \<not> has_text (hr_host request) \<or> \<not> isLoopbackHost parse_url (the (hr_host request))
      then Inl (HttpInputError 403 ''loopback Host is required'' False)
      else if \<not> has_text (hr_origin request) then Inr ()
      else (case parse_url (the (hr_origin request)) of
              None \<Rightarrow> Inl (HttpInputError 403 ''Origin is not allowed'' False)
            | Some u \<Rightarrow>
                if protocol u \<notin> {''http:'', ''https:''} \<or> \<not> isLoopbackHost parse_url (url_host u)
                then Inl (HttpInputError 403 ''Origin is not allowed'' False) else Inr ()))"

definition bearerValue :: "string option \<Rightarrow> string option" where
  "bearerValue header =
     (case header of
        None \<Rightarrow> None
      | Some h \<Rightarrow> if starts_with ''Bearer '' h \<and> drop 7 h \<noteq> [] then Some (drop 7 h) else None)"

definition tokenMatches :: "(string \<Rightarrow> string) \<Rightarrow> string option \<Rightarrow> string \<Rightarrow> bool" where
  "tokenMatches sha header expected =
     (let provided = (case header of None \<Rightarrow> [] | Some h \<Rightarrow> if starts_with ''Bearer '' h then drop 7 h else [])
      in sha expected = sha provided \<and> provided \<noteq> [])"

definition identity_json :: "auth_context \<Rightarrow> json" where
  "identity_json c =
     JArr [JStr (principal_id c), JStr (credential_id c), JStr (ctx_workspace_id c), JStr (ctx_project_id c),
           JStr (human_peer_id c),
           (case agent_peer_id c of None \<Rightarrow> JNull | Some p \<Rightarrow> JStr p),
           (case ctx_client c of None \<Rightarrow> JNull | Some p \<Rightarrow> JStr p)]"

definition authContextIdentity :: "(rat \<Rightarrow> string) \<Rightarrow> (string \<Rightarrow> string) \<Rightarrow> auth_context \<Rightarrow> string" where
  "authContextIdentity fmt sha c = sha (stringify fmt (identity_json c))"

section \<open>The body\<close>

definition too_large :: input_error where
  "too_large = HttpInputError 413 ''request body is too large'' True"

fun receive :: "nat \<Rightarrow> nat \<Rightarrow> string list \<Rightarrow> input_error + string" where
  "receive maximum received [] = Inr []"
| "receive maximum received (c # cs) =
     (if received + length c > maximum then Inl too_large
      else (case receive maximum (received + length c) cs of Inl e \<Rightarrow> Inl e | Inr rest \<Rightarrow> Inr (c @ rest)))"

definition check_content_length :: "nat \<Rightarrow> string option \<Rightarrow> input_error + unit" where
  "check_content_length maximum header =
     (case header of
        None \<Rightarrow> Inr ()
      | Some h \<Rightarrow>
          (case Option.bind (str_number h) rat_integer of
             None \<Rightarrow> Inl (HttpInputError 400 ''invalid content length'' False)
           | Some n \<Rightarrow>
               if n < 0 then Inl (HttpInputError 400 ''invalid content length'' False)
               else if n > int maximum then Inl too_large else Inr ()))"

text \<open>One request object, or a batch of them\<close>

datatype incoming = Single fields | Batch "fields list"

definition read_decoded :: "json option \<Rightarrow> input_error + incoming" where
  "read_decoded decoded =
     (case decoded of
        None \<Rightarrow> Inl (HttpInputError 400 ''invalid JSON'' False)
      | Some (JArr items) \<Rightarrow>
          if items = [] \<or> length items > 32 \<or> list_ex (\<lambda>item. as_object item = None) items
          then Inl (HttpInputError 400 ''JSON-RPC batches must contain 1 to 32 request objects'' False)
          else Inr (Batch (List.map_filter as_object items))
      | Some (JObj request) \<Rightarrow> Inr (Single request)
      | Some _ \<Rightarrow> Inl (HttpInputError 400 ''a JSON-RPC request object is required'' False))"

definition readJson :: "(string \<Rightarrow> json option) \<Rightarrow> nat \<Rightarrow> mcp_request \<Rightarrow> input_error + incoming" where
  "readJson parse maximum request =
     (let contentType = (case hr_content_type request of None \<Rightarrow> [] | Some t \<Rightarrow> t)
      in rbind (require (starts_with ''application/json'' (to_lower contentType))
                  (HttpInputError 415 ''application/json is required'' False)) (\<lambda>_.
         rbind (check_content_length maximum (hr_content_length request)) (\<lambda>_.
         rbind (receive maximum 0 (hr_chunks request)) (\<lambda>bytes.
           read_decoded (parse bytes)))))"

section \<open>boundBatchReplies\<close>

definition omitted_reply :: "(rat \<Rightarrow> string) \<Rightarrow> fields \<Rightarrow> fields" where
  "omitted_reply fmt reply =
     (let i = (case coalesce (oget reply ''id'') (Some JNull) of Some v \<Rightarrow> v | None \<Rightarrow> JNull)
      in error_reply (if serialized_bytes fmt i \<le> 1024 then i else JNull) (-32001) ''Response omitted by batch size limit'')"

text \<open>\<open>replies\<close> are those still to come, so their number is the code's \<open>replies.length - index - 1\<close>.\<close>

fun bound_replies :: "(rat \<Rightarrow> string) \<Rightarrow> fields list \<Rightarrow> fields list \<Rightarrow> fields list" where
  "bound_replies fmt bounded [] = bounded"
| "bound_replies fmt bounded (reply # replies) =
     (let reserveBytes = int (length replies) * 2048
      in bound_replies fmt
           (bounded @ [if int (serialized_bytes fmt (JArr (map JObj (bounded @ [reply])))) \<le> 1048576 - reserveBytes
                       then reply else omitted_reply fmt reply]) replies)"

definition boundBatchReplies :: "(rat \<Rightarrow> string) \<Rightarrow> fields list \<Rightarrow> fields list" where
  "boundBatchReplies fmt replies = bound_replies fmt [] replies"

section \<open>The server\<close>

record session =
  lastSeenAt :: int
  credentialId :: "string option"
  authIdentity :: "string option"

record server_options =
  so_dispatcher :: dispatcher
  so_bearer :: "string option"
  so_context :: "auth_context option"
  so_resolver :: "(string \<Rightarrow> auth_context option) option"
  so_gateway :: bool
  so_mode :: "auth_mode option"
  so_remote :: bool
  maxBodyBytes :: nat
  sessionTtlMs :: int
  maxSessions :: nat
  maxInFlight :: nat

record server_state =
  sessions :: "(string \<times> session) list"
  activeRequests :: nat
  srv_tools :: tool_state

text \<open>What surrounds the server: \<open>URL\<close>, the environment of the tools, the time\<close>

record server_env =
  sv_parse_url :: "string \<Rightarrow> url_parts option"
  sv_tools :: "nat \<Rightarrow> tool_env"
  sv_order :: "nat list"
  sv_now :: int
  sv_fresh :: string

definition positive_option :: "int option \<Rightarrow> nat \<Rightarrow> string \<Rightarrow> nat res" where
  "positive_option v fallback name =
     (case v of
        None \<Rightarrow> Inr fallback
      | Some n \<Rightarrow> if n < 1 then Inl (name @ '' must be positive'') else Inr (nat n))"

definition createMcpHttpServer ::
  "dispatcher \<Rightarrow> string option \<Rightarrow> auth_context option \<Rightarrow> (string \<Rightarrow> auth_context option) option \<Rightarrow> bool \<Rightarrow>
   auth_mode option \<Rightarrow> bool \<Rightarrow> int option \<Rightarrow> int option \<Rightarrow> int option \<Rightarrow> int option \<Rightarrow> server_options res" where
  "createMcpHttpServer d bearer context resolver gateway mode remote bodyMax ttl sess inflight =
     (if bearer \<noteq> None \<and> length (the bearer) < 16 then Inl ''NEUROMEM_MCP_TOKEN must be at least 16 bytes''
      else if bearer = None \<and> resolver = None then Inl ''a bearer token or credential resolver is required''
      else rbind (positive_option bodyMax (5 * 1048576) ''maxBodyBytes'') (\<lambda>b.
           rbind (positive_option ttl (30 * 60000) ''sessionTtlMs'') (\<lambda>t.
           rbind (positive_option sess 1024 ''maxSessions'') (\<lambda>s.
           rbind (positive_option inflight 64 ''maxInFlight'') (\<lambda>f.
             Inr \<lparr>so_dispatcher = d, so_bearer = bearer, so_context = context, so_resolver = resolver,
                  so_gateway = gateway, so_mode = mode, so_remote = remote, maxBodyBytes = b,
                  sessionTtlMs = int t, maxSessions = s, maxInFlight = f\<rparr>)))))"

definition pruneSessions :: "int \<Rightarrow> int \<Rightarrow> (string \<times> session) list \<Rightarrow> (string \<times> session) list" where
  "pruneSessions ttl now ss = filter (\<lambda>is. now - lastSeenAt (snd is) \<le> ttl) ss"

text \<open>The id of the session, and the sessions afterwards, which are pruned even when it throws\<close>

definition requireSession ::
  "int \<Rightarrow> int \<Rightarrow> mcp_request \<Rightarrow> string option \<Rightarrow> string option \<Rightarrow> (string \<times> session) list \<Rightarrow>
   (input_error + string) \<times> (string \<times> session) list" where
  "requireSession ttl now request cred ident ss =
     (let live = pruneSessions ttl now ss
      in if \<not> has_text (hr_session request) then (Inl (HttpInputError 400 ''Mcp-Session-Id is required'' False), live)
         else let i = the (hr_session request)
         in (case oget live i of
               None \<Rightarrow> (Inl (HttpInputError 404 ''MCP session not found'' False), live)
             | Some s \<Rightarrow>
                 if credentialId s \<noteq> cred
                 then (Inl (HttpInputError 401 ''MCP credential does not match the initialized session'' False), live)
                 else if authIdentity s \<noteq> ident
                 then (Inl (HttpInputError 401 ''MCP credential scope does not match the initialized session'' False), live)
                 else (Inr i, oset i (s\<lparr>lastSeenAt := now\<rparr>) live)))"

record authenticated =
  au_dispatcher :: dispatcher
  au_credential :: "string option"
  au_identity :: "string option"

text \<open>\<open>Inl\<close> when a dispatcher refuses the context, \<open>None\<close> when the request is not authenticated\<close>

definition authenticate ::
  "(rat \<Rightarrow> string) \<Rightarrow> (string \<Rightarrow> string) \<Rightarrow> server_options \<Rightarrow> mcp_request \<Rightarrow> authenticated option res" where
  "authenticate fmt sha opts request =
     (let bound = (\<lambda>c dr. rbind dr (\<lambda>d. Inr (Some
            \<lparr>au_dispatcher = d, au_credential = Some (credential_id c),
             au_identity = Some (authContextIdentity fmt sha c)\<rparr>)))
      in case bearerValue (hr_authorization request) of
           None \<Rightarrow> Inr None
         | Some token \<Rightarrow>
             (case so_resolver opts of
                Some resolver \<Rightarrow>
                  (case resolver token of
                     None \<Rightarrow> Inr None
                   | Some c \<Rightarrow>
                       bound c (if so_gateway opts then withControlRequest c token
                                else withAuthContext (so_dispatcher opts) c
                                       (Some (case so_mode opts of None \<Rightarrow> Control | Some m \<Rightarrow> m))))
              | None \<Rightarrow>
                  if \<not> has_text (so_bearer opts) \<or> \<not> tokenMatches sha (hr_authorization request) (the (so_bearer opts))
                  then Inr None
                  else (case so_context opts of
                          Some c \<Rightarrow> bound c (withAuthContext (so_dispatcher opts) c
                                               (Some (case so_mode opts of None \<Rightarrow> Hybrid | Some m \<Rightarrow> m)))
                        | None \<Rightarrow> Inr (Some \<lparr>au_dispatcher = so_dispatcher opts, au_credential = None, au_identity = None\<rparr>))))"

end
