(* ===== verification/HttpServer.thy ===== *)
theory HttpServer
  imports Http
begin

text \<open>
  The request handler of \<open>createMcpHttpServer\<close> in \<open>apps/mcp/src/http.ts\<close>: admission, the service
  of an admitted request, and the server as a machine whose steps are those of any number of
  overlapping requests.
\<close>

section \<open>Admission\<close>

definition admit ::
  "server_env \<Rightarrow> server_options \<Rightarrow> mcp_request \<Rightarrow> server_state \<Rightarrow> mcp_response + server_state" where
  "admit env opts request st =
     (let fmt = w_fmt (te_world (sv_tools env 0))
      in case validateBrowserOrigin (sv_parse_url env) (so_remote opts) request of
           Inl e \<Rightarrow> Inl (error_response fmt e)
         | Inr _ \<Rightarrow>
             if hr_path request = ''/health'' \<and> hr_method request = ''GET''
             then Inl (writeJson fmt 200 (JObj [(''status'', JStr ''ok'')]) [])
             else if hr_path request \<noteq> ''/mcp'' then Inl (writeJson fmt 404 (error_json ''not_found'') [])
             else if activeRequests st \<ge> maxInFlight opts
             then Inl (error_response fmt (HttpInputError 503 ''too many in-flight requests'' False))
             else Inr (st\<lparr>activeRequests := activeRequests st + 1\<rparr>))"

section \<open>Service\<close>

definition session_header :: "string \<Rightarrow> (string \<times> string) list" where
  "session_header i = [(''mcp-session-id'', i)]"

definition no_store :: "string \<times> string" where
  "no_store = (''cache-control'', ''no-store'')"

text \<open>Something that needs the session of the request; its error is the answer otherwise.\<close>

definition with_session ::
  "server_env \<Rightarrow> server_options \<Rightarrow> mcp_request \<Rightarrow> authenticated \<Rightarrow> server_state \<Rightarrow>
   (string \<Rightarrow> server_state \<Rightarrow> mcp_response \<times> server_state) \<Rightarrow> mcp_response \<times> server_state" where
  "with_session env opts request a st k =
     (let (r, ss) = requireSession (sessionTtlMs opts) (sv_now env) request (au_credential a) (au_identity a) (sessions st);
          st1 = st\<lparr>sessions := ss\<rparr>
      in case r of
           Inl e \<Rightarrow> (error_response (w_fmt (te_world (sv_tools env 0))) e, st1)
         | Inr i \<Rightarrow> k i st1)"

definition serve_batch ::
  "server_env \<Rightarrow> authenticated \<Rightarrow> fields list \<Rightarrow> string \<Rightarrow> server_state \<Rightarrow> mcp_response \<times> server_state" where
  "serve_batch env a requests i st =
     (let fmt = w_fmt (te_world (sv_tools env 0));
          (replies, tools) = batch_replies (sv_tools env) (au_dispatcher a) requests (sv_order env) (srv_tools st)
      in (if replies = [] then bare 202 (session_header i @ [no_store])
          else writeJson fmt 200 (JArr (map JObj (boundBatchReplies fmt replies))) (session_header i),
          st\<lparr>srv_tools := tools\<rparr>))"

text \<open>One request in its session; \<open>initializing\<close>, a failure takes the new session away again.\<close>

definition serve_rpc ::
  "server_env \<Rightarrow> authenticated \<Rightarrow> fields \<Rightarrow> bool \<Rightarrow> string \<Rightarrow> server_state \<Rightarrow> mcp_response \<times> server_state" where
  "serve_rpc env a rpc initializing i st =
     (let fmt = w_fmt (te_world (sv_tools env 0));
          (r, tools) = dispatchRpc (sv_tools env 0) (au_dispatcher a) rpc (srv_tools st);
          st1 = st\<lparr>srv_tools := tools\<rparr>
      in case r of
           Inr result \<Rightarrow>
             ((case oget rpc ''id'' of
                 None \<Rightarrow> bare 202 (session_header i @ [no_store])
               | Some reply_id \<Rightarrow> writeJson fmt 200 (JObj (result_reply reply_id result)) (session_header i)), st1)
         | Inl (RpcError rcode message) \<Rightarrow>
             ((case oget rpc ''id'' of
                 None \<Rightarrow> bare 202 [no_store]
               | Some _ \<Rightarrow> writeJson fmt 200 (JObj (error_reply (safe_id rpc) rcode message))
                              (if initializing then [] else session_header i)),
              if initializing then st1\<lparr>sessions := odel i (sessions st1)\<rparr> else st1))"

definition new_session :: "server_env \<Rightarrow> authenticated \<Rightarrow> session" where
  "new_session env a = \<lparr>lastSeenAt = sv_now env, credentialId = au_credential a, authIdentity = au_identity a\<rparr>"

definition serve_initialize ::
  "server_env \<Rightarrow> server_options \<Rightarrow> mcp_request \<Rightarrow> authenticated \<Rightarrow> fields \<Rightarrow> server_state \<Rightarrow> mcp_response \<times> server_state" where
  "serve_initialize env opts request a rpc st =
     (let fmt = w_fmt (te_world (sv_tools env 0));
          refuse = (\<lambda>n message s. (error_response fmt (HttpInputError n message False), s))
      in if oget rpc ''id'' = None then refuse 400 ''initialize requires a JSON-RPC id'' st
         else if has_text (hr_session request) then refuse 400 ''initialize must not reuse a session'' st
         else let st1 = st\<lparr>sessions := pruneSessions (sessionTtlMs opts) (sv_now env) (sessions st)\<rparr>
              in if length (sessions st1) \<ge> maxSessions opts then refuse 503 ''session capacity reached'' st1
                 else serve_rpc env a rpc True (sv_fresh env)
                        (st1\<lparr>sessions := oset (sv_fresh env) (new_session env a) (sessions st1)\<rparr>))"

definition serve_post ::
  "server_env \<Rightarrow> server_options \<Rightarrow> mcp_request \<Rightarrow> authenticated \<Rightarrow> server_state \<Rightarrow> mcp_response \<times> server_state" where
  "serve_post env opts request a st =
     (let fmt = w_fmt (te_world (sv_tools env 0))
      in case readJson (w_parse (te_world (sv_tools env 0))) (maxBodyBytes opts) request of
           Inl e \<Rightarrow> (error_response fmt e, st)
         | Inr (Batch requests) \<Rightarrow>
             if list_ex is_initialize requests
             then (error_response fmt (HttpInputError 400 ''initialize must be a single request'' False), st)
             else with_session env opts request a st (serve_batch env a requests)
         | Inr (Single rpc) \<Rightarrow>
             if is_initialize rpc then serve_initialize env opts request a rpc st
             else with_session env opts request a st (serve_rpc env a rpc False))"

definition serve ::
  "server_env \<Rightarrow> server_options \<Rightarrow> mcp_request \<Rightarrow> server_state \<Rightarrow> mcp_response \<times> server_state" where
  "serve env opts request st =
     (let fmt = w_fmt (te_world (sv_tools env 0)); sha = w_sha (te_world (sv_tools env 0))
      in case authenticate fmt sha opts request of
           Inl e \<Rightarrow> (writeJson fmt 500 (error_json ''internal_error'') [], st)
         | Inr None \<Rightarrow> (writeJson fmt 401 (error_json ''unauthorized'') [(''www-authenticate'', ''Bearer'')], st)
         | Inr (Some a) \<Rightarrow>
             if hr_method request = ''GET''
             then with_session env opts request a st
                    (\<lambda>i s. (bare 405 [(''allow'', ''POST, DELETE''), no_store], s))
             else if hr_method request = ''DELETE''
             then with_session env opts request a st
                    (\<lambda>i s. (bare 204 [no_store], s\<lparr>sessions := odel i (sessions s)\<rparr>))
             else if hr_method request \<noteq> ''POST'' then (bare 405 [(''allow'', ''POST, DELETE'')], st)
             else serve_post env opts request a st)"

section \<open>The machine\<close>

text \<open>A state of the server with the requests that are in flight\<close>

inductive http_step ::
  "server_options \<Rightarrow> server_state \<times> mcp_request list \<Rightarrow> server_state \<times> mcp_request list \<Rightarrow> bool"
  for opts where
  refused: "admit env opts request st = Inl response \<Longrightarrow> http_step opts (st, flight) (st, flight)"
| admitted: "admit env opts request st = Inr st' \<Longrightarrow> http_step opts (st, flight) (st', request # flight)"
| served: "serve env opts request st = (response, st') \<Longrightarrow>
     http_step opts (st, a @ request # b) (st'\<lparr>activeRequests := activeRequests st' - 1\<rparr>, a @ b)"

inductive_cases http_stepE: "http_step opts (st, flight) (st', flight')"

inductive http_reachable :: "server_options \<Rightarrow> tool_state \<Rightarrow> server_state \<times> mcp_request list \<Rightarrow> bool"
  for opts tools where
  start: "http_reachable opts tools (\<lparr>sessions = [], activeRequests = 0, srv_tools = tools\<rparr>, [])"
| step: "http_reachable opts tools s \<Longrightarrow> http_step opts s s' \<Longrightarrow> http_reachable opts tools s'"

end
