(* ===== verification/HttpProps.thy ===== *)
theory HttpProps
  imports HttpServer
begin

text \<open>
  The properties of the HTTP server: its limits hold in every reachable state, an effect needs an
  authenticated request in a session of the same identity, a credential-bound server sends only what
  its credentials may, an identity is that of one context, and a batch of replies fits a response.
\<close>

section \<open>The limits\<close>

lemma oget_in_keys: "oget kvs k = Some v \<Longrightarrow> k \<in> fst ` set kvs"
  by (force dest: oget_SomeD)

lemma length_oset_existing: "oget kvs k = Some v \<Longrightarrow> length (oset k w kvs) = length kvs"
  by (induction kvs) (auto split: if_splits)

definition sessions_ok :: "server_options \<Rightarrow> server_state \<Rightarrow> bool" where
  "sessions_ok opts st = (length (sessions st) \<le> maxSessions opts \<and> distinct (map fst (sessions st)))"

lemma sessions_ok_update [simp]:
  "sessions_ok opts (st\<lparr>srv_tools := t\<rparr>) = sessions_ok opts st"
  "sessions_ok opts (st\<lparr>activeRequests := n\<rparr>) = sessions_ok opts st"
  by (simp_all add: sessions_ok_def)

lemma prune_ok: "sessions_ok opts st \<Longrightarrow> sessions_ok opts (st\<lparr>sessions := pruneSessions ttl now (sessions st)\<rparr>)"
  by (auto simp: sessions_ok_def pruneSessions_def distinct_map_filter intro: le_trans [OF length_filter_le])

lemma delete_ok: "sessions_ok opts st \<Longrightarrow> sessions_ok opts (st\<lparr>sessions := odel i (sessions st)\<rparr>)"
  by (auto simp: sessions_ok_def odel_def distinct_map_filter intro: le_trans [OF length_filter_le])

lemma requireSession_ok:
  assumes "requireSession ttl now request cred ident (sessions st) = (r, ss)" and "sessions_ok opts st"
  shows "sessions_ok opts (st\<lparr>sessions := ss\<rparr>)"
proof -
  let ?live = "pruneSessions ttl now (sessions st)"
  have "ss = ?live \<or> (\<exists>i s v. oget ?live i = Some s \<and> ss = oset i v ?live)"
    using assms(1) by (auto simp: requireSession_def Let_def split: if_splits option.splits)
  then show ?thesis
    using prune_ok [OF assms(2), of ttl now] by (auto simp: sessions_ok_def length_oset_existing)
qed

text \<open>What a step of a request's service keeps\<close>

definition keeps :: "server_options \<Rightarrow> server_state \<Rightarrow> server_state \<Rightarrow> bool" where
  "keeps opts st st' = (activeRequests st' = activeRequests st \<and> (sessions_ok opts st \<longrightarrow> sessions_ok opts st'))"

lemma keeps_refl [simp]: "keeps opts st st"
  by (simp add: keeps_def)

lemma keeps_trans: "keeps opts a b \<Longrightarrow> keeps opts b c \<Longrightarrow> keeps opts a c"
  by (simp add: keeps_def)

lemma keeps_tools [simp]: "keeps opts st (st\<lparr>srv_tools := t\<rparr>)"
  by (simp add: keeps_def)

lemma keeps_delete [simp]:
  "keeps opts st (st\<lparr>sessions := odel i (sessions st)\<rparr>)"
  "keeps opts st (st\<lparr>srv_tools := t, sessions := odel i (sessions st)\<rparr>)"
  using delete_ok [of opts st i] delete_ok [of opts "st\<lparr>srv_tools := t\<rparr>" i] by (simp_all add: keeps_def)

lemma with_session_keeps:
  assumes "with_session env opts request a st k = (response, st')"
    and "\<And>i s r s'. k i s = (r, s') \<Longrightarrow> keeps opts s s'"
  shows "keeps opts st st'"
proof -
  obtain r ss where r: "requireSession (sessionTtlMs opts) (sv_now env) request (au_credential a) (au_identity a)
      (sessions st) = (r, ss)" by fastforce
  have 1: "keeps opts st (st\<lparr>sessions := ss\<rparr>)" by (simp add: keeps_def requireSession_ok [OF r])
  show ?thesis
    using assms 1 r by (auto simp: with_session_def Let_def split: sum.splits intro: keeps_trans [OF 1])
qed

lemma serve_rpc_keeps: "serve_rpc env a rpc initializing i st = (response, st') \<Longrightarrow> keeps opts st st'"
  by (auto simp: serve_rpc_def Let_def split: prod.splits sum.splits rpc_error.splits if_splits)

lemma serve_batch_keeps: "serve_batch env a requests i st = (response, st') \<Longrightarrow> keeps opts st st'"
  by (auto simp: serve_batch_def Let_def split: prod.splits if_splits)

lemma serve_initialize_keeps:
  assumes "serve_initialize env opts request a rpc st = (response, st')"
  shows "keeps opts st st'"
proof -
  define st1 where "st1 = st\<lparr>sessions := pruneSessions (sessionTtlMs opts) (sv_now env) (sessions st)\<rparr>"
  have k1: "keeps opts st st1" by (simp add: keeps_def st1_def prune_ok)
  have "st' = st \<or> st' = st1 \<or> length (sessions st1) < maxSessions opts \<and>
      (\<exists>r. serve_rpc env a rpc True (sv_fresh env)
        (st1\<lparr>sessions := oset (sv_fresh env) (new_session env a) (sessions st1)\<rparr>) = (r, st'))"
    using assms unfolding serve_initialize_def Let_def st1_def [symmetric] by (auto split: if_splits)
  moreover have "keeps opts st1 (st1\<lparr>sessions := oset (sv_fresh env) (new_session env a) (sessions st1)\<rparr>)"
    if "length (sessions st1) < maxSessions opts"
    using that length_oset_le [of "sv_fresh env" "new_session env a" "sessions st1"] by (auto simp: keeps_def sessions_ok_def)
  ultimately show ?thesis
    using k1 by (elim disjE conjE exE) (simp_all, blast intro: keeps_trans serve_rpc_keeps)
qed

lemma serve_keeps:
  assumes "serve env opts request st = (response, st')"
  shows "keeps opts st st'"
proof (cases "st' = st")
  case False
  then obtain a where c: "with_session env opts request a st (\<lambda>i s. (bare 405 [(''allow'', ''POST, DELETE''), no_store], s)) = (response, st') \<or>
      with_session env opts request a st (\<lambda>i s. (bare 204 [no_store], s\<lparr>sessions := odel i (sessions s)\<rparr>)) = (response, st') \<or>
      serve_post env opts request a st = (response, st')"
    using assms by (auto simp: serve_def Let_def split: sum.splits option.splits if_splits)
  have "keeps opts st st'" if "serve_post env opts request a st = (response, st')"
    using that False
    by (auto simp: serve_post_def Let_def split: sum.splits incoming.splits if_splits
        intro: serve_initialize_keeps with_session_keeps serve_batch_keeps serve_rpc_keeps)
  then show ?thesis
    using c with_session_keeps [of env opts request a st _ response st'] by fastforce
qed simp

definition server_ok :: "server_options \<Rightarrow> server_state \<times> mcp_request list \<Rightarrow> bool" where
  "server_ok opts s =
     (sessions_ok opts (fst s) \<and> activeRequests (fst s) = length (snd s) \<and> length (snd s) \<le> maxInFlight opts)"

lemma admit_active:
  "admit env opts request st = Inr st' \<Longrightarrow>
     st' = st\<lparr>activeRequests := activeRequests st + 1\<rparr> \<and> activeRequests st < maxInFlight opts"
  by (auto simp: admit_def Let_def split: sum.splits if_splits)

lemma http_step_ok: "http_step opts s s' \<Longrightarrow> server_ok opts s \<Longrightarrow> server_ok opts s'"
proof (induction rule: http_step.induct)
  case (served env request st response st' a b)
  then show ?case using serve_keeps [OF served.hyps] by (auto simp: server_ok_def keeps_def)
qed (auto simp: server_ok_def dest: admit_active)

text \<open>
  C5: The limits of the server.  However requests overlap, in every state the server can reach there
  are at most \<open>maxSessions\<close> sessions, each with an id of its own, at most \<open>maxInFlight\<close> requests are in
  flight, and the counter of active requests is their number, so a refused or failed request never
  leaks a place.
\<close>

theorem http_server_bounds:
  assumes "http_reachable opts tools (st, flight)"
  shows "length (sessions st) \<le> maxSessions opts \<and> distinct (map fst (sessions st)) \<and>
    activeRequests st = length flight \<and> length flight \<le> maxInFlight opts"
proof -
  have "server_ok opts s" if "http_reachable opts tools s" for s
    using that by induction (auto simp: server_ok_def [of _ "(_, [])"] sessions_ok_def intro: http_step_ok)
  from this [OF assms] show ?thesis by (simp add: server_ok_def sessions_ok_def)
qed

definition example_options :: server_options where
  "example_options = \<lparr>so_dispatcher = control_dispatcher, so_bearer = None, so_context = None,
     so_resolver = Some (\<lambda>token. if token = ''t'' then Some agent_context else None), so_gateway = True, so_mode = None,
     so_remote = False, maxBodyBytes = 100, sessionTtlMs = 10, maxSessions = 2, maxInFlight = 1\<rparr>"

definition loopback_url :: url_parts where
  "loopback_url = \<lparr>protocol = ''http:'', username = [], password = [], hostname = ''localhost'', url_port = [],
     pathname = ''/'', search = [], url_hash = []\<rparr>"

definition ping_world :: world where
  "ping_world = example_world\<lparr>w_parse := (\<lambda>_. Some (JObj [(''jsonrpc'', JStr ''2.0''), (''method'', JStr ''tools/call''),
     (''params'', JObj [(''name'', JStr ''wiki_read'')])]))\<rparr>"

definition example_server_env :: server_env where
  "example_server_env = \<lparr>sv_parse_url = (\<lambda>_. Some loopback_url), sv_tools = (\<lambda>_. example_tool_env\<lparr>te_world := ping_world\<rparr>),
     sv_order = [], sv_now = 7, sv_fresh = example_id\<rparr>"

definition example_request :: mcp_request where
  "example_request = \<lparr>hr_method = ''POST'', hr_path = ''/mcp'', hr_host = Some ''localhost'', hr_origin = None,
     hr_authorization = Some ''Bearer t'', hr_session = Some ''i'', hr_content_type = Some ''application/json'',
     hr_content_length = None, hr_chunks = [''{}'']\<rparr>"

definition idle_server :: server_state where
  "idle_server = \<lparr>sessions = [], activeRequests = 0, srv_tools = example_state\<rparr>"

theorem http_server_bounds_witness:
  "\<exists>st. http_reachable example_options example_state (st, [example_request]) \<and> activeRequests st = 1"
proof -
  have "admit example_server_env example_options example_request idle_server = Inr (idle_server\<lparr>activeRequests := 1\<rparr>)"
    by (simp add: admit_def validateBrowserOrigin_def isLoopbackHost_def has_text_def example_server_env_def
        example_options_def example_request_def loopback_url_def idle_server_def)
  then have "http_step example_options (idle_server, []) (idle_server\<lparr>activeRequests := 1\<rparr>, [example_request])"
    by (rule admitted)
  then have r: "http_reachable example_options example_state (idle_server\<lparr>activeRequests := 1\<rparr>, [example_request])"
    using http_reachable.step [OF http_reachable.start] unfolding idle_server_def by blast
  then show ?thesis using http_server_bounds [OF r] by auto
qed

section \<open>An effect needs a session of the same identity\<close>

lemma requireSession_Inr:
  assumes "requireSession ttl now request cred ident ss = (Inr i, ss')"
  shows "hr_session request = Some i \<and>
    (\<exists>s. (i, s) \<in> set ss \<and> now - lastSeenAt s \<le> ttl \<and> credentialId s = cred \<and> authIdentity s = ident)"
proof -
  obtain s where s: "oget (pruneSessions ttl now ss) i = Some s" "hr_session request = Some i"
      "credentialId s = cred" "authIdentity s = ident"
    using assms by (auto simp: requireSession_def Let_def has_text_def split: if_splits option.splits)
  then have "(i, s) \<in> set ss \<and> now - lastSeenAt s \<le> ttl"
    using oget_SomeD [OF s(1)] by (simp add: pruneSessions_def)
  then show ?thesis using s by blast
qed

lemma with_session_effect:
  assumes "with_session env opts request a st k = (response, st')" and "srv_tools st' \<noteq> srv_tools st"
  shows "\<exists>i ss. requireSession (sessionTtlMs opts) (sv_now env) request (au_credential a) (au_identity a) (sessions st) = (Inr i, ss) \<and>
    k i (st\<lparr>sessions := ss\<rparr>) = (response, st')"
  using assms by (auto simp: with_session_def Let_def split: prod.splits sum.splits)

lemma serve_initialize_tools:
  assumes "serve_initialize env opts request a rpc st = (response, st')" and "is_initialize rpc"
  shows "srv_tools st' = srv_tools st"
  using assms initialize_no_effect [OF assms(2), of "sv_tools env 0" "au_dispatcher a" "srv_tools st"]
  by (auto simp: serve_initialize_def serve_rpc_def Let_def split: if_splits prod.splits sum.splits rpc_error.splits)

lemma serve_effect:
  assumes "serve env opts request st = (response, st')" and "srv_tools st' \<noteq> srv_tools st"
  shows "\<exists>a i ss. authenticate (w_fmt (te_world (sv_tools env 0))) (w_sha (te_world (sv_tools env 0))) opts request = Inr (Some a) \<and>
    hr_method request = ''POST'' \<and>
    requireSession (sessionTtlMs opts) (sv_now env) request (au_credential a) (au_identity a) (sessions st) = (Inr i, ss) \<and>
    ((\<exists>rpc. serve_rpc env a rpc False i (st\<lparr>sessions := ss\<rparr>) = (response, st')) \<or>
     (\<exists>requests. serve_batch env a requests i (st\<lparr>sessions := ss\<rparr>) = (response, st')))"
proof -
  obtain a where a: "authenticate (w_fmt (te_world (sv_tools env 0))) (w_sha (te_world (sv_tools env 0))) opts request = Inr (Some a)"
    using assms by (auto simp: serve_def Let_def split: sum.splits option.splits)
  have g: "srv_tools st' = srv_tools st" if "hr_method request = ''GET''"
    using assms that with_session_effect [of env opts request a st _ response st'] by (fastforce simp: serve_def Let_def a)
  have d: "srv_tools st' = srv_tools st" if "hr_method request = ''DELETE''"
    using assms that with_session_effect [of env opts request a st _ response st'] by (fastforce simp: serve_def Let_def a)
  have post: "hr_method request = ''POST''" "serve_post env opts request a st = (response, st')"
    using assms g d by (auto simp: serve_def Let_def a split: if_splits)
  then have "(\<exists>rpc. with_session env opts request a st (serve_rpc env a rpc False) = (response, st')) \<or>
      (\<exists>requests. with_session env opts request a st (serve_batch env a requests) = (response, st'))"
    using assms(2) serve_initialize_tools
    by (auto simp: serve_post_def Let_def split: sum.splits incoming.splits if_splits)
  then show ?thesis using a post(1) with_session_effect [OF _ assms(2)] by blast
qed

text \<open>
  C34: An effect needs its session.  Serving a request changes the queue or sends to the gateway only
  when it is an authenticated POST that names a live session, not longer unused than the limit, whose
  credential and whose identity are those of this very request.
\<close>

theorem http_effect_needs_session:
  assumes "serve env opts request st = (response, st')" and "srv_tools st' \<noteq> srv_tools st"
  shows "\<exists>a i s. authenticate (w_fmt (te_world (sv_tools env 0))) (w_sha (te_world (sv_tools env 0))) opts request = Inr (Some a) \<and>
    hr_method request = ''POST'' \<and> hr_session request = Some i \<and> (i, s) \<in> set (sessions st) \<and>
    sv_now env - lastSeenAt s \<le> sessionTtlMs opts \<and> credentialId s = au_credential a \<and> authIdentity s = au_identity a"
  using serve_effect [OF assms] requireSession_Inr by blast

section \<open>What a credential-bound server sends\<close>

definition pinned ::
  "(rat \<Rightarrow> string) \<Rightarrow> auth_context \<Rightarrow> string \<Rightarrow> nat \<Rightarrow> tool_state \<Rightarrow> tool_state \<Rightarrow> bool" where
  "pinned fmt context bearer n st st' =
     (ts_queue st' = ts_queue st \<and> sent (own_request fmt (ts_gateway st) context bearer) n (ts_sent st) (ts_sent st') \<and>
      (\<exists>e. ts_gateway st' = (ts_gateway st)\<lparr>ensuredProjects := e\<rparr>))"

lemma own_request_ensured [simp]:
  "own_request fmt (gw\<lparr>ensuredProjects := e\<rparr>) = own_request fmt gw"
  by (simp add: own_request_def fun_eq_iff)

lemma pinned_refl [simp]: "pinned fmt context bearer n st st"
  by (auto simp: pinned_def intro: exI [of _ "ensuredProjects (ts_gateway st)"])

lemma pinned_trans:
  assumes "pinned fmt context bearer m a b" and "pinned fmt context bearer n b c" and "m + n \<le> k"
  shows "pinned fmt context bearer k a c"
proof -
  obtain e where e: "ts_gateway b = (ts_gateway a)\<lparr>ensuredProjects := e\<rparr>" using assms(1) unfolding pinned_def by blast
  obtain e' where e': "ts_gateway c = (ts_gateway b)\<lparr>ensuredProjects := e'\<rparr>" using assms(2) unfolding pinned_def by blast
  have "ts_gateway c = (ts_gateway a)\<lparr>ensuredProjects := e'\<rparr>" by (simp add: e e')
  moreover have "sent (own_request fmt (ts_gateway a) context bearer) k (ts_sent a) (ts_sent c)"
    using assms by (auto simp: pinned_def e intro: sent_trans)
  ultimately show ?thesis using assms(1,2) by (auto simp: pinned_def)
qed

definition bound_to :: "auth_context \<Rightarrow> string \<Rightarrow> dispatcher \<Rightarrow> bool" where
  "bound_to context bearer d = (authMode d = Control \<and> authContext d = Some context \<and> bearerToken d = Some bearer)"

lemma dispatch_pinned:
  assumes "bound_to context bearer d" and "dispatchRpc env d request st = (r, st')"
  shows "pinned (w_fmt (te_world env)) context bearer 4 st st'"
proof (cases "st' = st")
  case False
  then obtain name arguments v where c: "callTool env d name arguments st = (v, st')"
    using rpc_dispatch_effect [OF assms(2)] by blast
  have p: "ts_queue st' = ts_queue st \<and>
      sent (own_request (w_fmt (te_world env)) (ts_gateway st) context bearer) 4 (ts_sent st) (ts_sent st') \<and>
      ts_gateway st' \<in> {ts_gateway st, (ts_gateway st)\<lparr>ensuredProjects := ensuredProjects (ts_gateway st) @ [scope_key context]\<rparr>}"
    using assms(1) by (intro control_call_own [OF _ _ _ c]) (simp_all add: bound_to_def)
  then have "\<exists>e. ts_gateway st' = (ts_gateway st)\<lparr>ensuredProjects := e\<rparr>"
    by (auto intro: exI [of _ "ensuredProjects (ts_gateway st)"])
  then show ?thesis using p unfolding pinned_def by simp
qed simp

lemma run_batch_pinned:
  assumes "bound_to context bearer d" and "\<forall>i. w_fmt (te_world (envs i)) = fmt"
    and "run_batch envs d requests order st = (replies, st')"
  shows "pinned fmt context bearer (4 * length order) st st'"
  using assms(3)
proof (induction order arbitrary: st replies st')
  case (Cons i order)
  obtain reply st1 where 1: "rpc_envelope (envs i) d (requests ! i) st = (reply, st1)" by fastforce
  obtain rest st2 where 2: "run_batch envs d requests order st1 = (rest, st2)" by fastforce
  obtain r where "dispatchRpc (envs i) d (requests ! i) st = (r, st1)" using 1 by (auto simp: rpc_envelope_def split: prod.splits)
  then have "pinned fmt context bearer 4 st st1" using dispatch_pinned [OF assms(1)] assms(2) by metis
  moreover have "pinned fmt context bearer (4 * length order) st1 st2" by (rule Cons.IH [OF 2])
  ultimately show ?case using Cons.prems 1 2 by (auto intro: pinned_trans)
qed simp

lemma control_request_bound: "withControlRequest context token = Inr d \<Longrightarrow> bound_to context token d"
  by (auto simp: withControlRequest_def new_dispatcher_def bound_to_def Let_def split: if_splits option.splits)

lemma authenticate_bound:
  assumes "authenticate fmt sha opts request = Inr (Some a)" and "so_resolver opts = Some resolver" and "so_gateway opts"
  shows "\<exists>token context. bearerValue (hr_authorization request) = Some token \<and> resolver token = Some context \<and>
    bound_to context token (au_dispatcher a)"
  using assms control_request_bound
  by (auto simp: authenticate_def Let_def rbind_eq_Inr split: option.splits)


definition busy_server :: server_state where
  "busy_server = \<lparr>sessions = [(''i'', \<lparr>lastSeenAt = 0, credentialId = Some ''c'',
       authIdentity = Some (authContextIdentity (\<lambda>_. []) id agent_context)\<rparr>)],
     activeRequests = 1, srv_tools = example_state\<rparr>"

lemma example_serve_effect:
  assumes "so_resolver opts = Some f" and "f ''t'' = Some agent_context" and "so_gateway opts"
    and "2 \<le> maxBodyBytes opts" and "7 \<le> sessionTtlMs opts"
  shows "srv_tools (snd (serve example_server_env opts example_request busy_server)) \<noteq> srv_tools busy_server"
proof -
  have d: "withControlRequest agent_context ''t'' = Inr control_dispatcher"
    by (simp add: withControlRequest_def new_dispatcher_def has_text_def context_fields_def agent_context_def example_context_def
        control_dispatcher_def)
  have f: "w_fmt (te_world (sv_tools example_server_env i)) = (\<lambda>_. [])"
      "w_sha (te_world (sv_tools example_server_env i)) = id" for i
    by (simp_all add: example_server_env_def example_tool_env_def ping_world_def example_world_def)
  have a: "authenticate (\<lambda>_. []) id opts example_request = Inr (Some
      \<lparr>au_dispatcher = control_dispatcher, au_credential = Some ''c'',
       au_identity = Some (authContextIdentity (\<lambda>_. []) id agent_context)\<rparr>)"
    by (simp add: authenticate_def bearerValue_def example_request_def starts_with_def d assms)
      (simp add: agent_context_def example_context_def)
  obtain v ts where ct: "callTool (sv_tools example_server_env 0) control_dispatcher ''wiki_read'' None example_state = (v, ts)" by fastforce
  have j: "readJson (w_parse (te_world (sv_tools example_server_env 0))) (maxBodyBytes opts) example_request =
      Inr (Single [(''jsonrpc'', JStr ''2.0''), (''method'', JStr ''tools/call''), (''params'', JObj [(''name'', JStr ''wiki_read'')])])"
    using assms(4) by (simp add: readJson_def example_request_def example_server_env_def example_tool_env_def ping_world_def
        check_content_length_def read_decoded_def starts_with_def to_lower_def lower_char_def is_upper_def)
  have n: "\<not> is_initialize [(''jsonrpc'', JStr ''2.0''), (''method'', JStr ''tools/call''), (''params'', JObj [(''name'', JStr ''wiki_read'')])]"
    by (simp add: is_initialize_def)
  have m: "hr_method example_request = ''POST''" by (simp add: example_request_def)
  have "ts \<noteq> example_state"
    using wiki_read_sends [of "sv_tools example_server_env 0"] ct by (auto simp: example_state_def)
  then show ?thesis
    using ct wiki_read_listed
    by (simp add: serve_def f a m serve_post_def j n with_session_def requireSession_def Let_def)
      (simp add: example_request_def has_text_def busy_server_def pruneSessions_def example_server_env_def assms
        serve_rpc_def dispatchRpc_def str_field_def validJsonRpcId_def tools_call_def Let_def split: sum.split)
qed

lemma example_options_effect:
  "srv_tools (snd (serve example_server_env example_options example_request busy_server)) \<noteq> srv_tools busy_server"
  using example_serve_effect [of example_options "\<lambda>token. if token = ''t'' then Some agent_context else None"]
  by (simp add: example_options_def)

theorem http_effect_needs_session_witness:
  "\<exists>a. authenticate (\<lambda>_. []) id example_options example_request = Inr (Some a)"
proof -
  obtain response st' where s: "serve example_server_env example_options example_request busy_server = (response, st')" by fastforce
  then have "srv_tools st' \<noteq> srv_tools busy_server" using example_options_effect by (metis snd_conv)
  from http_effect_needs_session [OF s this] show ?thesis
    by (auto simp: example_server_env_def example_tool_env_def ping_world_def example_world_def)
qed


section \<open>A batch of replies fits a response\<close>

lemma omitted_reply_size:
  assumes "fmt (- 32001) = ''-32001''"
  shows "serialized_bytes fmt (JObj (omitted_reply fmt reply)) \<le> 1300"
proof -
  have n: "serialized_bytes fmt (JNum (- 32001)) = 6" using assms by (simp add: serialized_bytes_def num_str_def)
  have q: "length (quote ''jsonrpc'') = 9" "length (quote ''id'') = 4" "length (quote ''error'') = 7" "length (quote ''code'') = 6"
      "length (quote ''message'') = 9" "length (quote ''2.0'') = 5" "length (quote ''Response omitted by batch size limit'') = 38"
    by code_simp+
  have i: "serialized_bytes fmt (if serialized_bytes fmt i \<le> 1024 then i else JNull) \<le> 1024" for i
    by (simp add: serialized_bytes_def)
  show ?thesis
    unfolding omitted_reply_def Let_def error_reply_def
    using i [of "case coalesce (oget reply ''id'') (Some JNull) of None \<Rightarrow> JNull | Some v \<Rightarrow> v"]
    by (simp add: bytes_obj field_bytes_def q n) (simp add: serialized_bytes_def q)
qed

lemma bytes_arr_snoc: "serialized_bytes fmt (JArr (xs @ [x])) \<le> serialized_bytes fmt (JArr xs) + 1 + serialized_bytes fmt x"
  by (simp add: bytes_arr)

lemma bound_replies_size:
  assumes "fmt (- 32001) = ''-32001''"
    and "int (serialized_bytes fmt (JArr (map JObj bounded))) \<le> 1048576 - int (length replies) * 2048"
  shows "serialized_bytes fmt (JArr (map JObj (bound_replies fmt bounded replies))) \<le> 1048576"
  using assms(2)
proof (induction replies arbitrary: bounded)
  case (Cons reply replies)
  define next_reply where "next_reply =
    (if int (serialized_bytes fmt (JArr (map JObj (bounded @ [reply])))) \<le> 1048576 - int (length replies) * 2048
     then reply else omitted_reply fmt reply)"
  have "int (serialized_bytes fmt (JArr (map JObj (bounded @ [next_reply])))) \<le> 1048576 - int (length replies) * 2048"
  proof (cases "int (serialized_bytes fmt (JArr (map JObj (bounded @ [reply])))) \<le> 1048576 - int (length replies) * 2048")
    case False
    then have "next_reply = omitted_reply fmt reply" by (simp only: next_reply_def if_False)
    then show ?thesis
      using Cons.prems omitted_reply_size [of fmt reply, OF assms(1)] bytes_arr_snoc [of fmt "map JObj bounded" "JObj next_reply"]
      by simp
  qed (simp only: next_reply_def if_True)
  from Cons.IH [OF this] show ?case unfolding bound_replies.simps Let_def next_reply_def .
qed simp

lemma bound_replies_each:
  "list_all2 (\<lambda>r b. b = r \<or> b = omitted_reply fmt r) done bounded \<Longrightarrow>
     list_all2 (\<lambda>r b. b = r \<or> b = omitted_reply fmt r) (done @ replies) (bound_replies fmt bounded replies)"
proof (induction replies arbitrary: "done" bounded)
  case (Cons reply replies)
  define x where "x = (if int (serialized_bytes fmt (JArr (map JObj (bounded @ [reply])))) \<le> 1048576 - int (length replies) * 2048
     then reply else omitted_reply fmt reply)"
  have "list_all2 (\<lambda>r b. b = r \<or> b = omitted_reply fmt r) (done @ [reply]) (bounded @ [x])"
    using Cons.prems by (simp add: list_all2_appendI x_def)
  from Cons.IH [OF this] show ?case unfolding bound_replies.simps Let_def x_def by simp
qed simp

text \<open>
  A batch of replies.  Of up to 32 replies of any size, as many as a batch may have, one array of
  at most 1 MiB is made, with one entry for each, in order: the reply itself or the small error that
  stands for it; so the answer to a batch is never turned into an internal error for its size.
\<close>

theorem batch_replies_bounded:
  assumes "fmt (- 32001) = ''-32001''" and "length replies \<le> 32"
  shows "serialized_bytes fmt (JArr (map JObj (boundBatchReplies fmt replies))) \<le> 1048576 \<and>
    list_all2 (\<lambda>r b. b = r \<or> b = omitted_reply fmt r) replies (boundBatchReplies fmt replies)"
proof -
  have "int (serialized_bytes fmt (JArr (map JObj []))) \<le> 1048576 - int (length replies) * 2048"
    using assms(2) by (simp add: bytes_arr)
  then show ?thesis
    using bound_replies_size [of fmt "[]" replies, OF assms(1)] bound_replies_each [of fmt "[]" "[]" replies]
    by (simp add: boundBatchReplies_def)
qed

theorem batch_replies_bounded_witness:
  "serialized_bytes (\<lambda>_. ''-32001'') (JArr (map JObj (boundBatchReplies (\<lambda>_. ''-32001'') [[(''id'', JNull)], []]))) \<le> 1048576"
  using batch_replies_bounded [of "\<lambda>_. ''-32001''" "[[(''id'', JNull)], []]"] by simp

end
