(* ===== verification/JsonText.thy ===== *)
theory JsonText
  imports Json
begin

text \<open>
  \<open>JSON.stringify\<close> can be read back: two values whose numbers are natural have the same text only if
  they are the same value.  What compares or hashes texts therefore compares the values.
\<close>

section \<open>Strings\<close>

text \<open>The character an escape begins with\<close>

definition unescape :: "string \<Rightarrow> char \<times> string" where
  "unescape s =
     (if hd s \<noteq> CHR 0x5C then (hd s, tl s)
      else if s ! 1 = CHR ''b'' then (CHR 0x08, drop 2 s)
      else if s ! 1 = CHR ''f'' then (CHR 0x0C, drop 2 s)
      else if s ! 1 = CHR ''n'' then (CHR 0x0A, drop 2 s)
      else if s ! 1 = CHR ''r'' then (CHR 0x0D, drop 2 s)
      else if s ! 1 = CHR ''t'' then (CHR 0x09, drop 2 s)
      else if s ! 1 = CHR ''u'' then (char_of (from_hex (take 4 (drop 2 s))), drop 6 s)
      else (s ! 1, drop 2 s))"

lemma unescape_escape: "unescape (escape_char c @ r) = (c, r)"
proof (cases "escape_char c = CHR 0x5C # CHR ''u'' # pad_start 4 (to_hex (code c))")
  case True
  have e: "escape_char c \<noteq> [c]" using True by auto
  have "code c < 32 \<or> c \<in> {CHR 0x22, CHR 0x5C, CHR 0x08, CHR 0x0C, CHR 0x0A, CHR 0x0D, CHR 0x09}"
    using e by (auto simp: escape_char_def split: if_splits)
  then have "code c < 16 ^ 2" by auto
  then have "length (to_hex (code c)) \<le> 2" by (intro length_to_hex_le) simp_all
  then have "length (pad_start 4 (to_hex (code c))) = 4" by simp
  then show ?thesis by (simp add: True unescape_def)
next
  case False
  then show ?thesis by (auto simp: escape_char_def unescape_def split: if_splits)
qed

lemma escape_inj: "escape_char c @ r = escape_char c' @ r' \<Longrightarrow> c = c' \<and> r = r'"
  by (metis unescape_escape prod.inject)

lemma escape_hd: "escape_char c \<noteq> [] \<and> hd (escape_char c) \<noteq> CHR 0x22"
  by (auto simp: escape_char_def)

lemma escape_not_quote: "escape_char c @ r \<noteq> CHR 0x22 # r'"
  using escape_hd [of c] by (cases "escape_char c") auto

lemma escaped_inj:
  "concat (map escape_char s) @ CHR 0x22 # r = concat (map escape_char s') @ CHR 0x22 # r' \<Longrightarrow> s = s' \<and> r = r'"
proof (induction s arbitrary: s')
  case Nil
  then show ?case using escape_not_quote [symmetric] by (cases s') auto
next
  case (Cons c s)
  show ?case
  proof (cases s')
    case Nil
    then show ?thesis using Cons.prems escape_not_quote by simp
  next
    case (Cons c' t)
    then have "c = c' \<and> concat (map escape_char s) @ CHR 0x22 # r = concat (map escape_char t) @ CHR 0x22 # r'"
      using Cons.prems by (intro escape_inj) simp
    then show ?thesis using Cons Cons.IH by blast
  qed
qed

lemma quote_inj: "quote s @ r = quote s' @ r' \<Longrightarrow> s = s' \<and> r = r'"
  using escaped_inj [of s r s' r'] by (simp add: quote_def)

section \<open>Natural numbers\<close>

lemma dec_str_digits: "list_all is_digit (dec_str n)"
proof (induction n rule: dec_str.induct)
  case (1 n)
  have "is_digit (char_of (48 + d :: nat))" if "d < 10" for d using that by (simp add: is_digit_def)
  then show ?case using 1 by (auto simp: dec_str.simps [of n])
qed

lemma dec_str_not_Nil: "dec_str n \<noteq> []"
  by (simp add: dec_str.simps [of n])

lemma dec_str_value: "foldl (\<lambda>v c. 10 * v + (code c - 48)) 0 (dec_str n) = n"
proof (induction n rule: dec_str.induct)
  case (1 n)
  then show ?case by (cases "n < 10") (simp_all add: dec_str.simps [of n])
qed

text \<open>What may follow a number\<close>

definition delim :: "string \<Rightarrow> bool" where
  "delim r = (r = [] \<or> \<not> is_digit (hd r))"

lemma takeWhile_digits: "list_all is_digit ds \<Longrightarrow> delim r \<Longrightarrow> takeWhile is_digit (ds @ r) = ds"
  by (cases r) (auto simp: delim_def list_all_iff takeWhile_append)

lemma dec_str_inj:
  assumes "dec_str m @ r = dec_str n @ r'" "delim r" "delim r'"
  shows "m = n \<and> r = r'"
proof -
  have "dec_str m = dec_str n"
    using takeWhile_digits [OF dec_str_digits assms(2), of m] takeWhile_digits [OF dec_str_digits assms(3), of n] assms(1)
    by metis
  then show ?thesis using dec_str_value [of m] dec_str_value [of n] assms(1) by (metis same_append_eq)
qed

section \<open>Lists\<close>

lemma join_Cons: "join sep (x # xs) = x @ concat (map (\<lambda>y. sep @ y) xs)"
  by (induction xs arbitrary: x) simp_all

text \<open>\<open>f\<close> writes \<open>x\<close> so that it can be told from every other admissible item.\<close>

definition told :: "('a \<Rightarrow> bool) \<Rightarrow> ('a \<Rightarrow> string) \<Rightarrow> 'a \<Rightarrow> bool" where
  "told ok f x \<longleftrightarrow> (\<forall>y r r'. ok y \<longrightarrow> delim r \<longrightarrow> delim r' \<longrightarrow> f x @ r = f y @ r' \<longrightarrow> x = y \<and> r = r')"

lemma told_rest:
  assumes "\<forall>x \<in> set xs. told ok f x" and "list_all ok ys" and c: "c \<noteq> CHR '',''" "\<not> is_digit c"
    and "concat (map (\<lambda>x. CHR '','' # f x) xs) @ c # r = concat (map (\<lambda>x. CHR '','' # f x) ys) @ c # r'"
  shows "xs = ys \<and> r = r'"
  using assms(1,2,5)
proof (induction xs arbitrary: ys)
  case Nil
  then show ?case using c(1) by (cases ys) auto
next
  case (Cons x xs)
  have d: "delim (concat (map (\<lambda>x. CHR '','' # f x) zs) @ c # q)" for zs q
    using c(2) by (cases zs) (auto simp: delim_def is_digit_def)
  show ?case
  proof (cases ys)
    case Nil
    then show ?thesis using Cons.prems(3) c(1) by simp
  next
    case (Cons y zs)
    let ?rest = "\<lambda>zs q. concat (map (\<lambda>x. CHR '','' # f x) zs) @ c # q"
    have "f x @ ?rest xs r = f y @ ?rest zs r'" using Cons.prems(3) Cons by simp
    moreover have "told ok f x" "ok y" using Cons.prems(1,2) Cons by simp_all
    ultimately have "x = y \<and> ?rest xs r = ?rest zs r'" using d unfolding told_def by blast
    then show ?thesis using Cons.IH [of zs] Cons.prems(1,2) Cons by simp
  qed
qed

lemma told_list:
  assumes "\<forall>x \<in> set xs. told ok f x" and "list_all ok xs" "list_all ok ys" and c: "c \<noteq> CHR '',''" "\<not> is_digit c"
    and f: "\<forall>x. ok x \<longrightarrow> f x \<noteq> [] \<and> hd (f x) \<noteq> c"
    and e: "join '','' (map f xs) @ c # r = join '','' (map f ys) @ c # r'"
  shows "xs = ys \<and> r = r'"
proof (cases xs; cases ys)
  fix x xs' y ys' assume s: "xs = x # xs'" "ys = y # ys'"
  let ?rest = "\<lambda>zs q. concat (map (\<lambda>x. CHR '','' # f x) zs) @ c # q"
  have d: "delim (?rest zs q)" for zs q using c(2) by (cases zs) (auto simp: delim_def is_digit_def)
  have "f x @ ?rest xs' r = f y @ ?rest ys' r'" using e s by (simp add: join_Cons comp_def)
  moreover have "told ok f x" "ok y" using assms(1,3) s by simp_all
  ultimately have "x = y \<and> ?rest xs' r = ?rest ys' r'" using d unfolding told_def by blast
  then show ?thesis using told_rest [of xs' ok f ys' c r r'] assms(1,3) c s by simp
next
  fix y ys' assume s: "xs = []" "ys = y # ys'"
  then have "c # r = f y @ concat (map (\<lambda>y. '','' @ f y) ys') @ c # r'" using e by (simp add: join_Cons comp_def)
  then show ?thesis using f assms(3) s by (cases "f y") auto
next
  fix x xs' assume s: "xs = x # xs'" "ys = []"
  then have "f x @ concat (map (\<lambda>y. '','' @ f y) xs') @ c # r = c # r'" using e by (simp add: join_Cons comp_def)
  then show ?thesis using f assms(2) s by (cases "f x") auto
qed (use e in simp)

section \<open>Values\<close>

fun plain_json :: "json \<Rightarrow> bool" where
  "plain_json (JNum q) = (of_int \<lfloor>q\<rfloor> = q \<and> 0 \<le> q)"
| "plain_json JInf = False"
| "plain_json (JArr xs) = list_all plain_json xs"
| "plain_json (JObj kvs) = list_all (\<lambda>kv. plain_json (snd kv)) kvs"
| "plain_json v = True"

definition first_char :: "json \<Rightarrow> char" where
  "first_char v = (case v of JNull \<Rightarrow> CHR ''n'' | JBool b \<Rightarrow> if b then CHR ''t'' else CHR ''f'' | JNum q \<Rightarrow> CHR ''0''
     | JInf \<Rightarrow> CHR ''n'' | JStr _ \<Rightarrow> CHR 0x22 | JArr _ \<Rightarrow> CHR ''['' | JObj _ \<Rightarrow> CHR 0x7B)"

lemma digit_not: "is_digit c \<Longrightarrow> c \<notin> {CHR ''n'', CHR ''t'', CHR ''f'', CHR 0x22, CHR ''['', CHR 0x7B, CHR '']'', CHR 0x7D}"
  by (auto simp: is_digit_def)

definition digit_class :: "char \<Rightarrow> char" where
  "digit_class c = (if is_digit c then CHR ''0'' else c)"

lemma stringify_hd: "plain_json v \<Longrightarrow> stringify fmt v \<noteq> [] \<and> digit_class (hd (stringify fmt v)) = first_char v"
proof (cases v)
  case (JNum q)
  assume "plain_json v"
  then show ?thesis using JNum dec_str_digits [of "nat \<lfloor>q\<rfloor>"] dec_str_not_Nil [of "nat \<lfloor>q\<rfloor>"]
    by (cases "dec_str (nat \<lfloor>q\<rfloor>)") (simp_all add: num_str_def first_char_def digit_class_def)
qed (simp_all add: first_char_def quote_def digit_class_def is_digit_def)

lemma stringify_first_char:
  assumes "plain_json v" "plain_json w" "stringify fmt v @ r = stringify fmt w @ r'"
  shows "first_char v = first_char w"
  using stringify_hd [OF assms(1), of fmt] stringify_hd [OF assms(2), of fmt] assms(3) by (metis hd_append2)

lemma first_char_close: "first_char v \<noteq> CHR '']''"
  by (simp add: first_char_def split: json.split)

lemma toldI:
  assumes "\<And>w r r'. ok w \<Longrightarrow> delim r \<Longrightarrow> delim r' \<Longrightarrow> f v @ r = f w @ r' \<Longrightarrow> v = w \<and> r = r'"
  shows "told ok f v"
  using assms unfolding told_def by blast

lemma told_number:
  assumes "plain_json (JNum q)"
  shows "told plain_json (stringify fmt) (JNum q)"
proof (rule toldI)
  fix w r r' assume w: "plain_json w" and d: "delim r" "delim r'"
    and e: "stringify fmt (JNum q) @ r = stringify fmt w @ r'"
  obtain p where p: "w = JNum p"
    using stringify_first_char [OF assms w e] by (cases w) (auto simp: first_char_def split: if_splits)
  have t: "dec_str (nat \<lfloor>q\<rfloor>) @ r = dec_str (nat \<lfloor>p\<rfloor>) @ r'" using e assms w p by (simp add: num_str_def)
  have "nat \<lfloor>q\<rfloor> = nat \<lfloor>p\<rfloor> \<and> r = r'" by (rule dec_str_inj [OF t d])
  moreover have "of_nat (nat \<lfloor>q\<rfloor>) = q" "of_nat (nat \<lfloor>p\<rfloor>) = p" using assms w p by (simp_all add: of_nat_nat)
  ultimately show "JNum q = w \<and> r = r'" using p by metis
qed

lemma told_array:
  assumes "plain_json (JArr xs)" and "\<forall>x \<in> set xs. told plain_json (stringify fmt) x"
  shows "told plain_json (stringify fmt) (JArr xs)"
proof (rule toldI)
  fix w r r' assume w: "plain_json w" and e: "stringify fmt (JArr xs) @ r = stringify fmt w @ r'"
  obtain ys where ys: "w = JArr ys"
    using stringify_first_char [OF assms(1) w e] by (cases w) (auto simp: first_char_def split: if_splits)
  have f: "\<forall>x. plain_json x \<longrightarrow> stringify fmt x \<noteq> [] \<and> hd (stringify fmt x) \<noteq> CHR '']''"
  proof (intro allI impI)
    fix x assume "plain_json x"
    then show "stringify fmt x \<noteq> [] \<and> hd (stringify fmt x) \<noteq> CHR '']''"
      using stringify_hd [of x fmt] first_char_close [of x] by (auto simp: digit_class_def is_digit_def)
  qed
  have "xs = ys \<and> r = r'"
    using told_list [of xs plain_json "stringify fmt" ys "CHR '']''" r r'] assms w ys e f by (simp add: is_digit_def)
  then show "JArr xs = w \<and> r = r'" using ys by simp
qed

definition entry_text :: "(rat \<Rightarrow> string) \<Rightarrow> string \<times> json \<Rightarrow> string" where
  "entry_text fmt kv = quote (fst kv) @ '':'' @ stringify fmt (snd kv)"

lemma told_object:
  assumes "plain_json (JObj kvs)" and told: "\<forall>kv \<in> set kvs. told plain_json (stringify fmt) (snd kv)"
  shows "told plain_json (stringify fmt) (JObj kvs)"
proof (rule toldI)
  fix w r r' assume w: "plain_json w" and e: "stringify fmt (JObj kvs) @ r = stringify fmt w @ r'"
  obtain kws where kws: "w = JObj kws"
    using stringify_first_char [OF assms(1) w e] by (cases w) (auto simp: first_char_def split: if_splits)
  let ?ok = "\<lambda>kv. plain_json (snd kv)"
  have t: "\<forall>kv \<in> set kvs. told ?ok (entry_text fmt) kv"
  proof (intro ballI toldI)
    fix kv kw r r' assume kv: "kv \<in> set kvs" and ok: "plain_json (snd kw)" and d: "delim r" "delim r'"
      and e: "entry_text fmt kv @ r = entry_text fmt kw @ r'"
    have q: "quote (fst kv) @ CHR '':'' # stringify fmt (snd kv) @ r = quote (fst kw) @ CHR '':'' # stringify fmt (snd kw) @ r'"
      using e by (simp add: entry_text_def)
    have "fst kv = fst kw" "stringify fmt (snd kv) @ r = stringify fmt (snd kw) @ r'" using quote_inj [OF q] by simp_all
    then show "kv = kw \<and> r = r'" using told kv ok d unfolding told_def by (metis prod.expand)
  qed
  have f: "\<forall>kv. ?ok kv \<longrightarrow> entry_text fmt kv \<noteq> [] \<and> hd (entry_text fmt kv) \<noteq> CHR 0x7D"
    by (simp add: entry_text_def quote_def)
  have "kvs = kws \<and> r = r'"
    using told_list [OF t, of kws "CHR 0x7D" r r'] assms(1) w kws e f by (simp add: is_digit_def entry_text_def [abs_def])
  then show "JObj kvs = w \<and> r = r'" using kws by simp
qed

lemma stringify_told: "plain_json v \<Longrightarrow> told plain_json (stringify fmt) v"
proof (induction v)
  case (JArr xs)
  then show ?case by (intro told_array) (auto simp: list_all_iff)
next
  case (JObj kvs)
  have "told plain_json (stringify fmt) (snd kv)" if "kv \<in> set kvs" for kv
    using JObj.IH [of kv "snd kv"] JObj.prems that by (cases kv) (auto simp: list_all_iff)
  then show ?case using JObj.prems by (intro told_object) auto
next
  case (JStr s)
  show ?case
  proof (rule toldI)
    fix w r r' assume w: "plain_json w" and e: "stringify fmt (JStr s) @ r = stringify fmt w @ r'"
    obtain t where t: "w = JStr t"
      using stringify_first_char [OF JStr w e] by (cases w) (auto simp: first_char_def split: if_splits)
    then show "JStr s = w \<and> r = r'" using e quote_inj [of s r t r'] by simp
  qed
next
  case JNull
  show ?case
  proof (rule toldI)
    fix w r r' assume w: "plain_json w" and e: "stringify fmt JNull @ r = stringify fmt w @ r'"
    have "w = JNull" using stringify_first_char [OF JNull w e] w by (cases w) (auto simp: first_char_def split: if_splits)
    then show "JNull = w \<and> r = r'" using e by simp
  qed
next
  case (JBool b)
  show ?case
  proof (rule toldI)
    fix w r r' assume w: "plain_json w" and e: "stringify fmt (JBool b) @ r = stringify fmt w @ r'"
    have "w = JBool b" using stringify_first_char [OF JBool w e] by (cases w) (auto simp: first_char_def split: if_splits)
    then show "JBool b = w \<and> r = r'" using e by simp
  qed
qed (simp_all add: told_number)

lemma stringify_inj:
  assumes "plain_json v" "plain_json w" "stringify fmt v = stringify fmt w"
  shows "v = w"
  using stringify_told [OF assms(1), of fmt] assms(2,3) unfolding told_def delim_def by (metis append_Nil2)

end
