(* ===== verification/HttpStart.thy ===== *)
theory HttpStart
  imports HttpProps JsonText
begin

text \<open>
  Starting the server of \<open>apps/mcp/src/http.ts\<close> from the environment: the port, the resolver that
  asks the control plane whose bearer it is, and what is configured in which mode.  Listening,
  signals and stopping are left out.
\<close>

definition positivePort :: "string option \<Rightarrow> nat res" where
  "positivePort v =
     (case Option.bind (str_number (case v of None \<Rightarrow> ''3001'' | Some s \<Rightarrow> s)) rat_integer of
        None \<Rightarrow> Inl ''PORT must be an integer from 1 to 65535''
      | Some n \<Rightarrow> if n < 1 \<or> n > 65535 then Inl ''PORT must be an integer from 1 to 65535'' else Inr (nat n))"

section \<open>The credential resolver\<close>

text \<open>The fields of a context; what is not a string is left out of the optional ones.\<close>

definition context_of_fields :: "fields \<Rightarrow> auth_context" where
  "context_of_fields c =
     \<lparr>principal_id = str_prop c ''principal_id'', credential_id = str_prop c ''credential_id'',
      ctx_workspace_id = str_prop c ''workspace_id'', ctx_project_id = str_prop c ''project_id'',
      human_peer_id = str_prop c ''human_peer_id'', agent_peer_id = str_field c ''agent_peer_id'',
      capabilities = List.map_filter as_string (arr_or_empty c ''capabilities''),
      request_id = str_field c ''request_id'', ctx_client = str_field c ''client''\<rparr>"

definition context_of_payload :: "json \<Rightarrow> auth_context option" where
  "context_of_payload payload =
     (case Option.bind (props payload) (\<lambda>o1. obj_field o1 ''context'') of
        None \<Rightarrow> None
      | Some c \<Rightarrow>
          if list_all (\<lambda>k. str_field c k \<noteq> None) required_context_keys \<and> arr_field c ''capabilities'' \<noteq> None
          then Some (context_of_fields c) else None)"

definition readBoundedJsonResponse :: "(string \<Rightarrow> json option) \<Rightarrow> response \<Rightarrow> nat \<Rightarrow> exn + json" where
  "readBoundedJsonResponse parse r maximum =
     (case body r of
        None \<Rightarrow> Inl (OtherError ''Control response has no body'')
      | Some es \<Rightarrow>
          rbind (read_chunks (OtherError ''Control response is too large'') (\<lambda>_. OtherError ''read failed'') maximum 0 es)
            (\<lambda>bytes. case parse bytes of None \<Rightarrow> Inl (OtherError ''SyntaxError'') | Some v \<Rightarrow> Inr v))"

definition resolve_credential :: "(string \<Rightarrow> json option) \<Rightarrow> outcome \<Rightarrow> auth_context option" where
  "resolve_credential parse out =
     (case out of
        FetchError _ \<Rightarrow> None
      | Fetched r \<Rightarrow>
          if \<not> response_ok r then None
          else (case readBoundedJsonResponse parse r (64 * 1024) of
                  Inl _ \<Rightarrow> None
                | Inr payload \<Rightarrow> context_of_payload payload))"

definition credential_request :: "string \<Rightarrow> string \<Rightarrow> http_request" where
  "credential_request base bearer =
     \<lparr>req_method = ''GET'', req_url = base @ ''/api/v1/me'', req_query = [],
      req_headers = [(''accept'', ''application/json''), (''authorization'', ''Bearer '' @ bearer)], req_body = None\<rparr>"

definition createControlCredentialResolver ::
  "(string \<Rightarrow> url_parts option) \<Rightarrow> (string \<Rightarrow> json option) \<Rightarrow> (http_request \<Rightarrow> outcome) \<Rightarrow> string \<Rightarrow>
   (string \<Rightarrow> auth_context option) res" where
  "createControlCredentialResolver parse_url parse net controlBaseUrl =
     (let base = strip_slashes controlBaseUrl
      in case parse_url base of
           None \<Rightarrow> Inl ''NEUROMEM_CONTROL_API_URL must be an HTTP(S) URL''
         | Some u \<Rightarrow>
             if protocol u \<notin> {''http:'', ''https:''} \<or> username u \<noteq> [] \<or> password u \<noteq> []
             then Inl ''NEUROMEM_CONTROL_API_URL must be an HTTP(S) URL without credentials''
             else Inr (\<lambda>bearer. resolve_credential parse (net (credential_request base bearer))))"

section \<open>startHttpServerFromEnv\<close>

record start_env =
  se_fmt :: "rat \<Rightarrow> string"
  se_parse :: "string \<Rightarrow> json option"
  se_parse_url :: "string \<Rightarrow> url_parts option"
  se_show_url :: "url_parts \<Rightarrow> string"
  se_home :: string
  se_net :: "http_request \<Rightarrow> outcome"

definition lift_exn :: "exn + 'a \<Rightarrow> 'a res" where
  "lift_exn r = (case r of Inl e \<Rightarrow> Inl (exn_message e) | Inr x \<Rightarrow> Inr x)"

text \<open>\<open>env.X ? Number(env.X) : undefined\<close>; what is no integer is refused like 0.\<close>

definition body_limit :: "environment \<Rightarrow> int option" where
  "body_limit env =
     (if env_truthy env ''NEUROMEM_MCP_MAX_BODY_BYTES''
      then (case Option.bind (str_number (the (env ''NEUROMEM_MCP_MAX_BODY_BYTES''))) rat_integer of
              None \<Rightarrow> Some 0 | Some n \<Rightarrow> Some n)
      else None)"

definition start_dispatcher ::
  "start_env \<Rightarrow> environment \<Rightarrow> auth_mode \<Rightarrow> auth_context option \<Rightarrow> dispatcher res" where
  "start_dispatcher se env mode context =
     (if env_truthy env ''NEUROMEM_CONTROL_API_URL''
      then rbind (lift_exn (new_gateway (se_parse_url se) (the (env ''NEUROMEM_CONTROL_API_URL'')) (16 * 1048576))) (\<lambda>_.
             new_dispatcher None (Some Control) None False None)
      else rbind (loadRouterConfig (se_fmt se) (se_parse se) (se_parse_url se) (se_show_url se) (se_home se) env) (\<lambda>cfg.
           rbind (new_router cfg) (\<lambda>r.
             new_dispatcher (Some r) (Some (if context = None then Hybrid else mode)) context False None)))"

definition startHttpServerFromEnv :: "start_env \<Rightarrow> environment \<Rightarrow> (server_options \<times> string \<times> nat) res" where
  "startHttpServerFromEnv se env =
     (let token = env ''NEUROMEM_MCP_TOKEN'';
          control = env_truthy env ''NEUROMEM_CONTROL_API_URL''
      in if \<not> control \<and> (\<not> has_text token \<or> length (the token) < 16)
         then Inl ''NEUROMEM_MCP_TOKEN must be at least 16 bytes''
         else rbind (loadMcpAuthConfig (se_fmt se) (se_parse se) env) (\<lambda>(mode, fs).
           if mode = Control \<and> \<not> control then Inl ''control auth requires NEUROMEM_CONTROL_API_URL''
           else let context = map_option context_of_fields fs
             in rbind (start_dispatcher se env mode context) (\<lambda>d.
                rbind (if control
                       then rbind (createControlCredentialResolver (se_parse_url se) (se_parse se) (se_net se)
                                     (the (env ''NEUROMEM_CONTROL_API_URL''))) (\<lambda>f. Inr (Some f))
                       else Inr None) (\<lambda>resolver.
                rbind (createMcpHttpServer d token context resolver control (Some mode)
                         (env ''NEUROMEM_MCP_ALLOW_REMOTE'' = Some ''true'') (body_limit env) None None None) (\<lambda>opts.
                rbind (positivePort (env ''PORT'')) (\<lambda>port.
                  Inr (opts, if env_truthy env ''HOST'' then the (env ''HOST'') else ''127.0.0.1'', port)))))))"

section \<open>A started server asks for credentials\<close>

lemma create_server_fields:
  assumes "createMcpHttpServer d bearer context resolver gateway mode remote b t s f = Inr opts"
  shows "so_bearer opts = bearer \<and> so_resolver opts = resolver \<and> so_gateway opts = gateway \<and>
    (bearer \<noteq> None \<longrightarrow> 16 \<le> length (the bearer)) \<and> 0 < maxSessions opts \<and> 0 < maxInFlight opts \<and> 0 < maxBodyBytes opts"
  using assms
  by (auto simp: createMcpHttpServer_def positive_option_def rbind_eq_Inr split: if_splits option.splits)

lemma started_options:
  assumes "startHttpServerFromEnv se env = Inr (opts, host, port)"
  shows "so_bearer opts = env ''NEUROMEM_MCP_TOKEN'' \<and>
    (so_resolver opts = None \<longleftrightarrow> \<not> so_gateway opts) \<and>
    (so_resolver opts = None \<longrightarrow> (\<exists>token. so_bearer opts = Some token \<and> 16 \<le> length token)) \<and>
    0 < maxSessions opts \<and> 0 < maxInFlight opts \<and> 0 < maxBodyBytes opts \<and> 1 \<le> port \<and> port \<le> 65535"
proof -
  obtain d ctx resolver mode where
    c: "createMcpHttpServer d (env ''NEUROMEM_MCP_TOKEN'') ctx resolver (env_truthy env ''NEUROMEM_CONTROL_API_URL'')
          (Some mode) (env ''NEUROMEM_MCP_ALLOW_REMOTE'' = Some ''true'') (body_limit env) None None None = Inr opts"
    and p: "positivePort (env ''PORT'') = Inr port"
    and r: "resolver = None \<longleftrightarrow> \<not> env_truthy env ''NEUROMEM_CONTROL_API_URL''"
    and t: "env_truthy env ''NEUROMEM_CONTROL_API_URL'' \<or> has_text (env ''NEUROMEM_MCP_TOKEN'')"
    using assms
    by (auto simp: startHttpServerFromEnv_def Let_def rbind_eq_Inr split: if_splits)
  have "1 \<le> port \<and> port \<le> 65535"
    using p by (auto simp: positivePort_def split: option.splits if_splits)
  then show ?thesis using create_server_fields [OF c] r t by (auto simp: has_text_def)
qed

lemma token_matches_bearer: "bearerValue h = Some b \<Longrightarrow> tokenMatches sha h t \<longleftrightarrow> sha t = sha b"
  by (auto simp: bearerValue_def tokenMatches_def split: option.splits if_splits)

lemma authenticate_bearer:
  assumes "authenticate fmt sha opts request = Inr (Some a)"
  shows "\<exists>b. bearerValue (hr_authorization request) = Some b \<and>
    (case so_resolver opts of Some f \<Rightarrow> f b \<noteq> None | None \<Rightarrow> \<exists>t. so_bearer opts = Some t \<and> sha t = sha b)"
proof -
  obtain b where b: "bearerValue (hr_authorization request) = Some b"
    using assms by (cases "bearerValue (hr_authorization request)") (auto simp: authenticate_def)
  show ?thesis
  proof (cases "so_resolver opts")
    case None
    have "has_text (so_bearer opts) \<and> tokenMatches sha (hr_authorization request) (the (so_bearer opts))"
      using assms b None by (auto simp: authenticate_def split: if_splits)
    then show ?thesis using b None token_matches_bearer [OF b] by (auto simp: has_text_def)
  next
    case (Some f)
    have "f b \<noteq> None" using assms b Some by (cases "f b") (auto simp: authenticate_def)
    then show ?thesis using b Some by simp
  qed
qed

text \<open>
  A started server asks for credentials.  A server that starts from the environment serves
  requests and sessions at all, on a valid port, and has an effect only for a request whose bearer is
  one the control plane knows, or, without a control plane, exactly the configured token of at least
  16 bytes (with a digest that does not collide).
\<close>

theorem started_server_needs_credentials:
  assumes "startHttpServerFromEnv se env = Inr (opts, host, port)" and "inj (w_sha (te_world (sv_tools sv 0)))"
    and "serve sv opts request st = (response, st')" and "srv_tools st' \<noteq> srv_tools st"
  shows "1 \<le> port \<and> port \<le> 65535 \<and> 0 < maxSessions opts \<and> 0 < maxInFlight opts \<and>
    (\<exists>bearer. bearerValue (hr_authorization request) = Some bearer \<and>
       (case so_resolver opts of
          Some resolver \<Rightarrow> resolver bearer \<noteq> None
        | None \<Rightarrow> env ''NEUROMEM_MCP_TOKEN'' = Some bearer \<and> 16 \<le> length bearer))"
proof -
  note o = started_options [OF assms(1)]
  obtain a where "authenticate (w_fmt (te_world (sv_tools sv 0))) (w_sha (te_world (sv_tools sv 0))) opts request = Inr (Some a)"
    using serve_effect [OF assms(3,4)] by blast
  from authenticate_bearer [OF this] obtain b where b: "bearerValue (hr_authorization request) = Some b"
      "case so_resolver opts of Some f \<Rightarrow> f b \<noteq> None | None \<Rightarrow> \<exists>t. so_bearer opts = Some t \<and>
         w_sha (te_world (sv_tools sv 0)) t = w_sha (te_world (sv_tools sv 0)) b" by blast
  have "case so_resolver opts of Some f \<Rightarrow> f b \<noteq> None | None \<Rightarrow> env ''NEUROMEM_MCP_TOKEN'' = Some b \<and> 16 \<le> length b"
  proof (cases "so_resolver opts")
    case None
    then obtain t where t: "so_bearer opts = Some t" "w_sha (te_world (sv_tools sv 0)) t = w_sha (te_world (sv_tools sv 0)) b"
      using b(2) by auto
    have "t = b" by (rule injD [OF assms(2) t(2)])
    then show ?thesis using None o t(1) by auto
  qed (use b(2) in simp)
  then show ?thesis using b(1) o by blast
qed

definition me_payload :: json where
  "me_payload = JObj [(''context'', JObj
     [(''principal_id'', JStr ''p''), (''credential_id'', JStr ''c''), (''workspace_id'', JStr ''w''), (''project_id'', JStr ''j''),
      (''human_peer_id'', JStr ''h''), (''capabilities'', JArr [JStr ''project.read'', JStr ''wiki.read''])])]"

definition control_start :: start_env where
  "control_start = \<lparr>se_fmt = (\<lambda>_. []), se_parse = (\<lambda>_. Some me_payload), se_parse_url = (\<lambda>_. Some loopback_url),
     se_show_url = (\<lambda>_. []), se_home = [],
     se_net = (\<lambda>_. Fetched \<lparr>status = 200, content_type = None, body = Some [Chunk ''{}'']\<rparr>)\<rparr>"

definition control_environment :: environment where
  "control_environment name = (if name = ''NEUROMEM_CONTROL_API_URL'' then Some ''http://c'' else None)"

lemma me_resolves:
  "resolve_credential (\<lambda>_. Some me_payload) (Fetched \<lparr>status = 200, content_type = None, body = Some [Chunk ''{}'']\<rparr>)
     = Some agent_context"
  by (simp add: resolve_credential_def response_ok_def readBoundedJsonResponse_def context_of_payload_def me_payload_def
      obj_field_def arr_field_def str_field_def required_context_keys_def context_of_fields_def str_prop_def arr_or_empty_def
      List.map_filter_simps agent_context_def example_context_def)

lemma control_starts:
  "\<exists>opts f. startHttpServerFromEnv control_start control_environment = Inr (opts, ''127.0.0.1'', 3001) \<and>
     so_resolver opts = Some f \<and> f ''t'' = Some agent_context \<and> so_gateway opts \<and>
     2 \<le> maxBodyBytes opts \<and> 7 \<le> sessionTtlMs opts"
proof -
  have a: "loadMcpAuthConfig (\<lambda>_. []) (\<lambda>_. Some me_payload) control_environment = Inr (Control, None)"
    by (simp add: loadMcpAuthConfig_def control_environment_def env_truthy_def to_lower_def lower_char_def is_upper_def)
  have t: "trim ''3001'' = ''3001''" by code_simp
  have d: "hex_val (CHR ''3'') = 3" "hex_val (CHR ''0'') = 0" "hex_val (CHR ''1'') = 1" by (simp_all add: hex_val_def is_digit_def)
  have "str_number ''3001'' = Some (of_int 3001)"
    by (simp add: str_number_def t prefixed_number_def lower_char_def is_upper_def unsigned_decimal_def is_digit_def
        exponent_value_def digits_value_def d)
  then have p: "positivePort None = Inr 3001" using rat_integer_of_int [of 3001] by (simp add: positivePort_def)
  show ?thesis
    by (simp add: startHttpServerFromEnv_def control_start_def a p control_environment_def env_truthy_def start_dispatcher_def
        lift_exn_def new_gateway_def loopback_url_def new_dispatcher_def createControlCredentialResolver_def strip_slashes_def
        createMcpHttpServer_def positive_option_def body_limit_def me_resolves)
qed

theorem started_server_needs_credentials_witness:
  "\<exists>opts. startHttpServerFromEnv control_start control_environment = Inr (opts, ''127.0.0.1'', 3001) \<and>
     0 < maxSessions opts \<and> srv_tools (snd (serve example_server_env opts example_request busy_server)) \<noteq> srv_tools busy_server"
proof -
  obtain opts f where o: "startHttpServerFromEnv control_start control_environment = Inr (opts, ''127.0.0.1'', 3001)"
      "so_resolver opts = Some f" "f ''t'' = Some agent_context" "so_gateway opts" "2 \<le> maxBodyBytes opts" "7 \<le> sessionTtlMs opts"
    using control_starts by blast
  obtain response st' where s: "serve example_server_env opts example_request busy_server = (response, st')" by fastforce
  have e: "srv_tools st' \<noteq> srv_tools busy_server" using example_serve_effect [OF o(2-6)] s by simp
  have "inj (w_sha (te_world (sv_tools example_server_env 0)))"
    by (simp add: example_server_env_def example_tool_env_def ping_world_def example_world_def)
  from started_server_needs_credentials [OF o(1) this s e] show ?thesis using o(1) s e by auto
qed

section \<open>Identities\<close>

text \<open>
  The identity a session of \<open>apps/mcp/src/http.ts\<close> is pinned to: the digest of a serialised list, and
  that this serialisation can be read back.
\<close>

lemma stringify_identity_inj:
  assumes "stringify fmt (identity_json c) = stringify fmt (identity_json c')"
  shows "principal_id c = principal_id c' \<and> credential_id c = credential_id c' \<and>
    ctx_workspace_id c = ctx_workspace_id c' \<and> ctx_project_id c = ctx_project_id c' \<and>
    human_peer_id c = human_peer_id c' \<and> agent_peer_id c = agent_peer_id c' \<and> ctx_client c = ctx_client c'"
proof -
  have plain: "plain_json (identity_json d)" for d by (simp add: identity_json_def split: option.split)
  have "identity_json c = identity_json c'" by (rule stringify_inj [OF plain plain assms])
  then show ?thesis by (simp add: identity_json_def split: option.splits)
qed

section \<open>The identity\<close>

text \<open>
  What pins a session.  With a digest that does not collide, two contexts have the same identity
  only when they are of the same principal, credential, workspace, project, Peers and client,
  whatever characters their names have: a session cannot be taken over by another context.
\<close>

theorem identity_pins_context:
  assumes "inj sha" and "authContextIdentity fmt sha c = authContextIdentity fmt sha c'"
  shows "principal_id c = principal_id c' \<and> credential_id c = credential_id c' \<and>
    ctx_workspace_id c = ctx_workspace_id c' \<and> ctx_project_id c = ctx_project_id c' \<and>
    human_peer_id c = human_peer_id c' \<and> agent_peer_id c = agent_peer_id c' \<and> ctx_client c = ctx_client c'"
  using assms unfolding authContextIdentity_def by (intro stringify_identity_inj) (auto dest: injD)

theorem identity_pins_context_witness:
  "authContextIdentity (\<lambda>_. []) id example_context \<noteq> authContextIdentity (\<lambda>_. []) id (example_context\<lparr>human_peer_id := ''x''\<rparr>)"
proof
  assume e: "authContextIdentity (\<lambda>_. []) id example_context = authContextIdentity (\<lambda>_. []) id (example_context\<lparr>human_peer_id := ''x''\<rparr>)"
  show False using identity_pins_context [OF inj_on_id e] by (simp add: example_context_def)
qed

end
