(* ===== verification/ManagerState.thy ===== *)
theory ManagerState
  imports Json
begin

text \<open>
  The Node Manager's state store, \<open>apps/manager/src/state.ts\<close>: the registry of nodes, the node
  snapshots and the operation records, as files under the manager's home.  An operation is a
  function of the store that returns its result, or the message it throws, and the store after it.
  The registry mutations of one manager run one after another (\<open>#mutationQueue\<close>), so each is
  one atomic step; the file it rewrites is replaced by a rename.  Files hold values of the types
  the manager writes; a file that cannot be parsed is \<open>None\<close>.
\<close>

section \<open>Records: \<open>types.ts\<close>\<close>

datatype desired_state = WantRunning | WantStopped

datatype node_phase = PhStopped | PhStarting | PhReady | PhDegraded | PhMaintenance | PhFailed

record node_ports =
  port_api :: int
  port_dashboard :: int
  port_mcp :: int

record node_record =
  n_node_id :: string
  n_alias :: string
  n_ports :: node_ports
  n_generation :: int
  n_desired_state :: desired_state
  n_phase :: node_phase
  n_compose_project :: string
  n_schema_revision :: string
  n_created_at :: string
  n_updated_at :: string

record registry_file =
  reg_format :: int
  reg_default_node_id :: "string option"
  reg_nodes :: "node_record list"

datatype operation_kind =
  OpCreate | OpStart | OpStop | OpRestart | OpBackup | OpBackupVerify | OpRestorePlan | OpRestoreApply |
  OpMigratePlan | OpMigrateApply | OpMigrateVerify | OpModelsConfigure | OpDelete

datatype operation_state = OsRunning | OsSucceeded | OsFailed | OsRecovered | OsNeedsAttention

record operation_record =
  op_operation_id :: string
  op_node_id :: string
  op_kind :: operation_kind
  op_state :: operation_state
  op_phase :: string
  op_started_at :: string
  op_updated_at :: string
  op_completed_at :: "string option"
  op_error :: "string option"
  op_result :: "json option"

text \<open>
  The files: \<open>registry.json\<close>; of each node its \<open>node.json\<close>, the entries of its \<open>operations\<close>
  directory where there is one, and the owner recorded in its operation lock.
\<close>

record store =
  s_registry :: "registry_file option"
  s_snapshots :: "(string \<times> node_record) list"
  s_operations :: "(string \<times> (string \<times> operation_record option) list) list"
  s_owners :: "(string \<times> int) list"

section \<open>The registry\<close>

definition EMPTY_REGISTRY :: registry_file where
  "EMPTY_REGISTRY = \<lparr>reg_format = 1, reg_default_node_id = None, reg_nodes = []\<rparr>"

text \<open>A string property tested as a condition: absent and empty both count as false.\<close>

definition is_set :: "string option \<Rightarrow> bool" where
  "is_set v = (v \<noteq> None \<and> v \<noteq> Some [])"

definition expected_project :: "string \<Rightarrow> string" where
  "expected_project nodeId = ''neuromem-'' @ to_lower (filter (\<lambda>c. c \<noteq> CHR ''-'') nodeId)"

fun validate_nodes :: "string list \<Rightarrow> string list \<Rightarrow> string list \<Rightarrow> node_record list \<Rightarrow> string list res" where
  "validate_nodes ids aliases projects [] = Inr ids"
| "validate_nodes ids aliases projects (node # nodes) =
     (if n_node_id node \<in> set ids then Inl (''Duplicate Node UUID: '' @ n_node_id node)
      else if n_alias node \<in> set aliases then Inl (''Duplicate Node alias: '' @ n_alias node)
      else if n_compose_project node \<in> set projects then Inl (''Duplicate Compose project: '' @ n_compose_project node)
      else if n_compose_project node \<noteq> expected_project (n_node_id node)
      then Inl (''Invalid Compose project for Node '' @ n_node_id node)
      else validate_nodes (n_node_id node # ids) (n_alias node # aliases) (n_compose_project node # projects) nodes)"

definition validateRegistry :: "registry_file \<Rightarrow> unit res" where
  "validateRegistry registry =
     (if reg_format registry \<noteq> 1 then Inl ''Unsupported Node registry format''
      else rbind (validate_nodes [] [] [] (reg_nodes registry)) (\<lambda>ids.
        if is_set (reg_default_node_id registry) \<and> the (reg_default_node_id registry) \<notin> set ids
        then Inl ''The default Node does not exist in the registry''
        else Inr ()))"

definition initialize_store :: "store \<Rightarrow> store" where
  "initialize_store st =
     (case s_registry st of None \<Rightarrow> st\<lparr>s_registry := Some EMPTY_REGISTRY\<rparr> | Some _ \<Rightarrow> st)"

definition stored_registry :: "store \<Rightarrow> registry_file" where
  "stored_registry st = (case s_registry st of None \<Rightarrow> EMPTY_REGISTRY | Some registry \<Rightarrow> registry)"

text \<open>\<open>registry()\<close>, of the store it has initialized.\<close>

definition read_registry :: "store \<Rightarrow> registry_file res" where
  "read_registry st =
     (let registry = stored_registry st in rbind (validateRegistry registry) (\<lambda>_. Inr registry))"

definition findNode :: "store \<Rightarrow> string \<Rightarrow> node_record res" where
  "findNode st selector =
     rbind (read_registry st) (\<lambda>registry.
       case List.find (\<lambda>n. n_node_id n = selector \<or> n_alias n = selector) (reg_nodes registry) of
         None \<Rightarrow> Inl (''Unknown Neuromem Node: '' @ selector)
       | Some node \<Rightarrow> Inr node)"

definition defaultNode :: "store \<Rightarrow> node_record option res" where
  "defaultNode st =
     rbind (read_registry st) (\<lambda>registry. Inr (
       if \<not> is_set (reg_default_node_id registry) then None
       else List.find (\<lambda>n. Some (n_node_id n) = reg_default_node_id registry) (reg_nodes registry)))"

text \<open>The mutation returns what the caller takes out of it together with the changed registry.\<close>

definition mutateRegistry :: "(registry_file \<Rightarrow> ('a \<times> registry_file) res) \<Rightarrow> store \<Rightarrow> 'a res \<times> store" where
  "mutateRegistry mutation st =
     (let st = initialize_store st in
      case rbind (read_registry st) (\<lambda>registry. rbind (mutation registry) (\<lambda>(result, registry).
             rbind (validateRegistry registry) (\<lambda>_. Inr (result, registry)))) of
        Inl e \<Rightarrow> (Inl e, st)
      | Inr (result, registry) \<Rightarrow> (Inr result, st\<lparr>s_registry := Some registry\<rparr>))"

definition add_mutation :: "node_record \<Rightarrow> bool \<Rightarrow> registry_file \<Rightarrow> (unit \<times> registry_file) res" where
  "add_mutation node makeDefault registry =
     (if \<exists>n \<in> set (reg_nodes registry). n_node_id n = n_node_id node
      then Inl (''Node UUID already exists: '' @ n_node_id node)
      else if \<exists>n \<in> set (reg_nodes registry). n_alias n = n_alias node
      then Inl (''Node alias already exists: '' @ n_alias node)
      else let registry = registry\<lparr>reg_nodes := reg_nodes registry @ [node]\<rparr>
           in Inr ((), if makeDefault \<or> \<not> is_set (reg_default_node_id registry)
                   then registry\<lparr>reg_default_node_id := Some (n_node_id node)\<rparr> else registry))"

definition writeNodeSnapshot :: "node_record \<Rightarrow> store \<Rightarrow> store" where
  "writeNodeSnapshot node st = st\<lparr>s_snapshots := oset (n_node_id node) node (s_snapshots st)\<rparr>"

definition ensure_operations :: "string \<Rightarrow> store \<Rightarrow> store" where
  "ensure_operations nodeId st =
     (if oget (s_operations st) nodeId = None then st\<lparr>s_operations := oset nodeId [] (s_operations st)\<rparr> else st)"

definition addNode :: "node_record \<Rightarrow> bool \<Rightarrow> store \<Rightarrow> unit res \<times> store" where
  "addNode node makeDefault st =
     (case mutateRegistry (add_mutation node makeDefault) st of
        (Inl e, st) \<Rightarrow> (Inl e, st)
      | (Inr _, st) \<Rightarrow> (Inr (), writeNodeSnapshot node (ensure_operations (n_node_id node) st)))"

text \<open>
  \<open>updateNode\<close>: the caller's change, then the time stamp, on the first node of that id.
\<close>

fun update_node_in :: "string \<Rightarrow> (node_record \<Rightarrow> node_record) \<Rightarrow> node_record list \<Rightarrow> (node_record \<times> node_record list) option" where
  "update_node_in nodeId f [] = None"
| "update_node_in nodeId f (n # ns) =
     (if n_node_id n = nodeId then Some (f n, f n # ns)
      else case update_node_in nodeId f ns of None \<Rightarrow> None | Some (r, ns') \<Rightarrow> Some (r, n # ns'))"

definition stamped :: "string \<Rightarrow> (node_record \<Rightarrow> node_record) \<Rightarrow> node_record \<Rightarrow> node_record" where
  "stamped now f n = (f n)\<lparr>n_updated_at := now\<rparr>"

definition update_mutation ::
    "string \<Rightarrow> (node_record \<Rightarrow> node_record) \<Rightarrow> registry_file \<Rightarrow> (node_record \<times> registry_file) res" where
  "update_mutation nodeId f registry =
     (case update_node_in nodeId f (reg_nodes registry) of
        None \<Rightarrow> Inl (''Unknown Neuromem Node: '' @ nodeId)
      | Some (node, nodes) \<Rightarrow> Inr (node, registry\<lparr>reg_nodes := nodes\<rparr>))"

definition updateNode :: "string \<Rightarrow> (node_record \<Rightarrow> node_record) \<Rightarrow> string \<Rightarrow> store \<Rightarrow> node_record res \<times> store" where
  "updateNode nodeId update now st =
     (case mutateRegistry (update_mutation nodeId (stamped now update)) st of
        (Inl e, st) \<Rightarrow> (Inl e, st)
      | (Inr node, st) \<Rightarrow> (Inr node, writeNodeSnapshot node st))"

definition first_node_id :: "node_record list \<Rightarrow> string option" where
  "first_node_id nodes =
     (case nodes of [] \<Rightarrow> None | n # _ \<Rightarrow> if n_node_id n = [] then None else Some (n_node_id n))"

definition remove_mutation :: "string \<Rightarrow> registry_file \<Rightarrow> (unit \<times> registry_file) res" where
  "remove_mutation nodeId registry =
     (let nodes = filter (\<lambda>n. n_node_id n \<noteq> nodeId) (reg_nodes registry)
      in if length nodes = length (reg_nodes registry) then Inl (''Unknown Neuromem Node: '' @ nodeId)
         else Inr ((), registry\<lparr>reg_nodes := nodes, reg_default_node_id :=
                (if reg_default_node_id registry = Some nodeId then first_node_id nodes
                 else reg_default_node_id registry)\<rparr>))"

definition removeNode :: "string \<Rightarrow> store \<Rightarrow> unit res \<times> store" where
  "removeNode nodeId st = mutateRegistry (remove_mutation nodeId) st"

section \<open>Operation records\<close>

definition writeOperation :: "operation_record \<Rightarrow> store \<Rightarrow> store" where
  "writeOperation operation st =
     (let files = (case oget (s_operations st) (op_node_id operation) of None \<Rightarrow> [] | Some files \<Rightarrow> files)
      in st\<lparr>s_operations := oset (op_node_id operation)
             (oset (op_operation_id operation @ ''.json'') (Some operation) files) (s_operations st)\<rparr>)"

definition beginOperation ::
    "string \<Rightarrow> string \<Rightarrow> string \<Rightarrow> operation_kind \<Rightarrow> string \<Rightarrow> store \<Rightarrow> operation_record \<times> store" where
  "beginOperation uuid now nodeId kind phase st =
     (let operation = \<lparr>op_operation_id = uuid, op_node_id = nodeId, op_kind = kind, op_state = OsRunning,
            op_phase = phase, op_started_at = now, op_updated_at = now,
            op_completed_at = None, op_error = None, op_result = None\<rparr>
      in (operation, writeOperation operation st))"

text \<open>
  \<open>{ ...operation, ...patch, operation_id, node_id, kind, updated_at }\<close>, the patch as the
  function that overwrites its fields.
\<close>

definition patched :: "string \<Rightarrow> (operation_record \<Rightarrow> operation_record) \<Rightarrow> operation_record \<Rightarrow> operation_record" where
  "patched now patch operation = (patch operation)\<lparr>op_operation_id := op_operation_id operation,
     op_node_id := op_node_id operation, op_kind := op_kind operation, op_updated_at := now\<rparr>"

definition updateOperation ::
    "string \<Rightarrow> operation_record \<Rightarrow> (operation_record \<Rightarrow> operation_record) \<Rightarrow> store \<Rightarrow> operation_record \<times> store" where
  "updateOperation now operation patch st =
     (let next = patched now patch operation in (next, writeOperation next st))"

definition MAX_SAFE_INTEGER :: int where
  "MAX_SAFE_INTEGER = 2 ^ 53 - 1"

text \<open>\<open>processIsAlive\<close>; \<open>alive\<close> is whether a signal can be sent to the process.\<close>

definition processIsAlive :: "(int \<Rightarrow> bool) \<Rightarrow> int \<Rightarrow> bool" where
  "processIsAlive alive pid = (\<bar>pid\<bar> \<le> MAX_SAFE_INTEGER \<and> 0 < pid \<and> alive pid)"

definition interrupted_patch :: "string \<Rightarrow> operation_record \<Rightarrow> operation_record" where
  "interrupted_patch now operation = operation\<lparr>op_state := OsNeedsAttention, op_phase := ''manager_restarted'',
     op_error := Some ''The Node Manager restarted during this operation; it was not replayed automatically'',
     op_completed_at := Some now\<rparr>"

definition ends_with :: "string \<Rightarrow> string \<Rightarrow> bool" where
  "ends_with p s = (length p \<le> length s \<and> drop (length s - length p) s = p)"

definition op_file :: "store \<Rightarrow> string \<Rightarrow> string \<Rightarrow> operation_record option" where
  "op_file st nodeId entry =
     Option.bind (oget (s_operations st) nodeId) (\<lambda>files. Option.bind (oget files entry) (\<lambda>v. v))"

fun recover_entries :: "string \<Rightarrow> string \<Rightarrow> string list \<Rightarrow> nat \<times> store \<Rightarrow> nat \<times> store" where
  "recover_entries now nodeId [] s = s"
| "recover_entries now nodeId (entry # entries) (recovered, st) =
     recover_entries now nodeId entries
       (if \<not> ends_with ''.json'' entry then (recovered, st)
        else case op_file st nodeId entry of
          None \<Rightarrow> (recovered, st)
        | Some operation \<Rightarrow>
            if op_state operation \<noteq> OsRunning then (recovered, st)
            else (recovered + 1, snd (updateOperation now operation (interrupted_patch now) st)))"

definition owner_alive :: "(int \<Rightarrow> bool) \<Rightarrow> store \<Rightarrow> string \<Rightarrow> bool" where
  "owner_alive alive st nodeId =
     (case oget (s_owners st) nodeId of None \<Rightarrow> False | Some pid \<Rightarrow> processIsAlive alive pid)"

definition op_entries :: "store \<Rightarrow> string \<Rightarrow> string list" where
  "op_entries st nodeId = (case oget (s_operations st) nodeId of None \<Rightarrow> [] | Some files \<Rightarrow> map fst files)"

fun recover_nodes :: "(int \<Rightarrow> bool) \<Rightarrow> string \<Rightarrow> node_record list \<Rightarrow> nat \<times> store \<Rightarrow> nat \<times> store" where
  "recover_nodes alive now [] s = s"
| "recover_nodes alive now (node # nodes) (recovered, st) =
     recover_nodes alive now nodes
       (if owner_alive alive st (n_node_id node) then (recovered, st)
        else recover_entries now (n_node_id node) (op_entries st (n_node_id node)) (recovered, st))"

definition recoverInterruptedOperations :: "(int \<Rightarrow> bool) \<Rightarrow> string \<Rightarrow> store \<Rightarrow> nat res \<times> store" where
  "recoverInterruptedOperations alive now st =
     (let st' = initialize_store st in
      case read_registry st of
        Inl e \<Rightarrow> (Inl e, st')
      | Inr registry \<Rightarrow>
          (case recover_nodes alive now (reg_nodes registry) (0, st') of (recovered, st') \<Rightarrow> (Inr recovered, st')))"

text \<open>The readable records of the node, by start (ISO time stamps, which sort as strings).\<close>

definition operations_of :: "store \<Rightarrow> string \<Rightarrow> operation_record list" where
  "operations_of st nodeId =
     sort_key op_started_at
       (filter (\<lambda>operation. op_node_id operation = nodeId)
         (List.map_filter (\<lambda>entry. if ends_with ''.json'' entry then op_file st nodeId entry else None)
           (op_entries st nodeId)))"

section \<open>What validation accepts\<close>

definition registry_ok :: "registry_file \<Rightarrow> bool" where
  "registry_ok r \<longleftrightarrow> reg_format r = 1 \<and> distinct (map n_node_id (reg_nodes r)) \<and> distinct (map n_alias (reg_nodes r)) \<and>
     distinct (map n_compose_project (reg_nodes r)) \<and>
     (\<forall>n \<in> set (reg_nodes r). n_compose_project n = expected_project (n_node_id n)) \<and>
     (is_set (reg_default_node_id r) \<longrightarrow> reg_default_node_id r \<in> Some ` n_node_id ` set (reg_nodes r))"

lemma validate_nodes_iff:
  "(\<exists>out. validate_nodes ids aliases projects nodes = Inr out) \<longleftrightarrow>
     distinct (map n_node_id nodes) \<and> distinct (map n_alias nodes) \<and> distinct (map n_compose_project nodes) \<and>
     n_node_id ` set nodes \<inter> set ids = {} \<and> n_alias ` set nodes \<inter> set aliases = {} \<and>
     n_compose_project ` set nodes \<inter> set projects = {} \<and>
     (\<forall>n \<in> set nodes. n_compose_project n = expected_project (n_node_id n))"
  by (induction nodes arbitrary: ids aliases projects) auto

lemma validate_nodes_ids:
  "validate_nodes ids aliases projects nodes = Inr out \<Longrightarrow> set out = n_node_id ` set nodes \<union> set ids"
  by (induction nodes arbitrary: ids aliases projects) (auto split: if_splits)

lemma validateRegistry_iff: "validateRegistry r = Inr u \<longleftrightarrow> registry_ok r"
proof (cases "validate_nodes [] [] [] (reg_nodes r)")
  case (Inl e)
  then show ?thesis using validate_nodes_iff [of "[]" "[]" "[]" "reg_nodes r"]
    by (auto simp: validateRegistry_def registry_ok_def)
next
  case (Inr out)
  show ?thesis using validate_nodes_iff [of "[]" "[]" "[]" "reg_nodes r"] Inr validate_nodes_ids [OF Inr]
    by (auto simp: validateRegistry_def registry_ok_def is_set_def)
qed

end
