(* ===== verification/ManagerStateProps.thy ===== *)
theory ManagerStateProps
  imports ManagerState Durable
begin

text \<open>
  What the Node Manager's store guarantees: the registry over any history of calls, as an instance
  of the durable log, and what a restart does to the operations it interrupted.
\<close>

section \<open>One mutation of the registry\<close>

lemma stored_initialize [simp]: "stored_registry (initialize_store st) = stored_registry st"
  by (simp add: stored_registry_def initialize_store_def split: option.split)

lemma initialize_store_simps [simp]:
  "s_snapshots (initialize_store st) = s_snapshots st" "s_operations (initialize_store st) = s_operations st"
  "s_owners (initialize_store st) = s_owners st"
  by (simp_all add: initialize_store_def split: option.split)

lemma read_registry_Inr: "read_registry st = Inr r \<longleftrightarrow> registry_ok (stored_registry st) \<and> r = stored_registry st"
  by (auto simp: read_registry_def Let_def rbind_eq_Inr validateRegistry_iff)

lemma mutateRegistry_cases:
  assumes "mutateRegistry m st = (r, st')"
  obtains (failed) e where "r = Inl e" "st' = initialize_store st"
      "\<And>v reg. registry_ok (stored_registry st) \<Longrightarrow> m (stored_registry st) = Inr (v, reg) \<Longrightarrow> \<not> registry_ok reg"
  | (changed) v reg where "r = Inr v" "registry_ok (stored_registry st)" "m (stored_registry st) = Inr (v, reg)"
      "registry_ok reg" "st' = (initialize_store st)\<lparr>s_registry := Some reg\<rparr>"
proof -
  let ?p = "rbind (read_registry (initialize_store st)) (\<lambda>registry. rbind (m registry) (\<lambda>(result, registry).
             rbind (validateRegistry registry) (\<lambda>_. Inr (result, registry))))"
  show ?thesis
  proof (cases ?p)
    case (Inl e)
    then have "\<not> registry_ok reg" if "registry_ok (stored_registry st)" "m (stored_registry st) = Inr (v, reg)" for v reg
      using that by (auto simp: read_registry_Inr [THEN iffD2] validateRegistry_iff [of reg "()", symmetric])
    then show ?thesis using assms failed [of e] Inl by (simp add: mutateRegistry_def Let_def)
  next
    case (Inr p)
    then obtain v reg where p: "p = (v, reg)" by (cases p)
    with Inr have "registry_ok (stored_registry st)" "m (stored_registry st) = Inr (v, reg)" "registry_ok reg"
      by (auto simp: rbind_eq_Inr read_registry_Inr validateRegistry_iff split: prod.splits)
    then show ?thesis using assms Inr p changed [of v reg] by (simp add: mutateRegistry_def Let_def)
  qed
qed

lemma update_node_in_Some:
  "update_node_in nodeId f ns = Some (r, ns') \<Longrightarrow> (\<And>n. n_node_id (f n) = n_node_id n) \<Longrightarrow>
     map n_node_id ns' = map n_node_id ns \<and> nodeId \<in> n_node_id ` set ns \<and> r \<in> set ns' \<and> n_node_id r = nodeId"
  by (induction ns arbitrary: ns') (auto split: if_splits option.splits)

section \<open>Histories of calls\<close>

datatype store_call =
    CallAdd node_record bool
  | CallUpdate string "node_record \<Rightarrow> node_record" string
  | CallRemove string

fun store_step :: "store_call \<Rightarrow> store \<Rightarrow> store" where
  "store_step (CallAdd node makeDefault) st = snd (addNode node makeDefault st)"
| "store_step (CallUpdate nodeId update now) st = snd (updateNode nodeId update now st)"
| "store_step (CallRemove nodeId) st = snd (removeNode nodeId st)"

text \<open>The manager adds nodes with an id, and its updates leave the id alone.\<close>

fun call_allowed :: "store_call \<Rightarrow> bool" where
  "call_allowed (CallAdd node _) = (n_node_id node \<noteq> [])"
| "call_allowed (CallUpdate _ update _) = (\<forall>n. n_node_id (update n) = n_node_id n)"
| "call_allowed (CallRemove _) = True"

fun call_adds :: "store_call \<Rightarrow> string set" where
  "call_adds (CallAdd node _) = {n_node_id node}"
| "call_adds _ = {}"

fun call_drops :: "store_call \<Rightarrow> string set" where
  "call_drops (CallRemove nodeId) = {nodeId}"
| "call_drops _ = {}"

definition registered :: "store \<Rightarrow> string set" where
  "registered st = n_node_id ` set (reg_nodes (stored_registry st))"

definition registry_inv :: "registry_file \<Rightarrow> bool" where
  "registry_inv r \<longleftrightarrow> registry_ok r \<and> [] \<notin> n_node_id ` set (reg_nodes r) \<and>
     (is_set (reg_default_node_id r) \<longleftrightarrow> reg_nodes r \<noteq> [])"

definition store_inv :: "store \<Rightarrow> bool" where
  "store_inv st = registry_inv (stored_registry st)"

lemma stored_set [simp]: "stored_registry (st\<lparr>s_registry := Some reg\<rparr>) = reg"
  by (simp add: stored_registry_def)

lemma stored_frame [simp]:
  "stored_registry (writeNodeSnapshot node st) = stored_registry st"
  "stored_registry (ensure_operations nodeId st) = stored_registry st"
  "stored_registry (writeOperation operation st) = stored_registry st"
  by (simp_all add: stored_registry_def writeNodeSnapshot_def ensure_operations_def writeOperation_def Let_def)

lemma add_mutation_inv:
  assumes "add_mutation node makeDefault r = Inr (v, r')" and "registry_inv r" and "registry_ok r'" and "n_node_id node \<noteq> []"
  shows "registry_inv r' \<and> reg_nodes r' = reg_nodes r @ [node]"
  using assms by (auto simp: add_mutation_def registry_inv_def is_set_def Let_def split: if_splits)

lemma update_mutation_inv:
  assumes "update_mutation nodeId (stamped now f) r = Inr (v, r')" and "registry_inv r" and "registry_ok r'"
    and "\<forall>n. n_node_id (f n) = n_node_id n"
  shows "registry_inv r' \<and> n_node_id ` set (reg_nodes r') = n_node_id ` set (reg_nodes r)"
proof -
  obtain ns where u: "update_node_in nodeId (stamped now f) (reg_nodes r) = Some (v, ns)" and r': "r' = r\<lparr>reg_nodes := ns\<rparr>"
    using assms(1) by (auto simp: update_mutation_def split: option.splits)
  have "map n_node_id ns = map n_node_id (reg_nodes r)"
    using update_node_in_Some [OF u] assms(4) by (simp add: stamped_def)
  then have "n_node_id ` set ns = n_node_id ` set (reg_nodes r)" "ns = [] \<longleftrightarrow> reg_nodes r = []"
    by (metis set_map, metis map_is_Nil_conv)
  then show ?thesis using assms(2,3) r' by (simp add: registry_inv_def)
qed

lemma remove_mutation_inv:
  assumes "remove_mutation nodeId r = Inr (v, r')" and "registry_inv r" and "registry_ok r'"
  shows "registry_inv r' \<and> n_node_id ` set (reg_nodes r') = n_node_id ` set (reg_nodes r) - {nodeId}"
proof -
  let ?ns = "filter (\<lambda>n. n_node_id n \<noteq> nodeId) (reg_nodes r)"
  have r': "r' = r\<lparr>reg_nodes := ?ns, reg_default_node_id :=
      (if reg_default_node_id r = Some nodeId then first_node_id ?ns else reg_default_node_id r)\<rparr>"
    using assms(1) by (auto simp: remove_mutation_def Let_def split: if_splits)
  have "is_set (reg_default_node_id r') \<longleftrightarrow> ?ns \<noteq> []"
  proof (cases "reg_default_node_id r = Some nodeId")
    case True
    have "[] \<notin> n_node_id ` set ?ns" using assms(2) by (auto simp: registry_inv_def)
    then show ?thesis using True r' by (cases ?ns) (auto simp: first_node_id_def is_set_def)
  next
    case False
    have "is_set (reg_default_node_id r) \<Longrightarrow> ?ns \<noteq> []"
      using assms(3) r' False by (auto simp: registry_ok_def filter_empty_conv)
    moreover have "?ns \<noteq> [] \<Longrightarrow> is_set (reg_default_node_id r)"
      using assms(2) by (auto simp: registry_inv_def simp: filter_empty_conv)
    ultimately show ?thesis using False r' by auto
  qed
  then show ?thesis using assms(2,3) r' by (auto simp: registry_inv_def)
qed

lemma store_step_effect:
  assumes "store_inv st" and "call_allowed e"
  shows "store_inv (store_step e st) \<and> registered st - call_drops e \<subseteq> registered (store_step e st) \<and>
    registered (store_step e st) \<subseteq> registered st \<union> call_adds e"
proof (cases e)
  case (CallAdd node makeDefault)
  obtain r st' where m: "mutateRegistry (add_mutation node makeDefault) st = (r, st')" by fastforce
  from m show ?thesis
  proof (cases rule: mutateRegistry_cases)
    case (failed e)
    then show ?thesis using assms CallAdd m by (auto simp: addNode_def store_inv_def registered_def)
  next
    case (changed v reg)
    then have "registry_inv reg \<and> reg_nodes reg = reg_nodes (stored_registry st) @ [node]"
      using add_mutation_inv [OF changed(3)] assms CallAdd by (simp add: store_inv_def)
    then show ?thesis using changed CallAdd m by (auto simp: addNode_def store_inv_def registered_def)
  qed
next
  case (CallUpdate nodeId f now)
  obtain r st' where m: "mutateRegistry (update_mutation nodeId (stamped now f)) st = (r, st')" by fastforce
  from m show ?thesis
  proof (cases rule: mutateRegistry_cases)
    case (failed e)
    then show ?thesis using assms CallUpdate m by (simp add: updateNode_def store_inv_def registered_def)
  next
    case (changed v reg)
    then have "registry_inv reg \<and> n_node_id ` set (reg_nodes reg) = n_node_id ` set (reg_nodes (stored_registry st))"
      using update_mutation_inv [OF changed(3)] assms CallUpdate by (simp add: store_inv_def)
    then show ?thesis using changed CallUpdate m by (simp add: updateNode_def store_inv_def registered_def)
  qed
next
  case (CallRemove nodeId)
  obtain r st' where m: "mutateRegistry (remove_mutation nodeId) st = (r, st')" by fastforce
  from m show ?thesis
  proof (cases rule: mutateRegistry_cases)
    case (failed e)
    then show ?thesis using assms CallRemove m by (auto simp: removeNode_def store_inv_def registered_def)
  next
    case (changed v reg)
    then have "registry_inv reg \<and> n_node_id ` set (reg_nodes reg) = n_node_id ` set (reg_nodes (stored_registry st)) - {nodeId}"
      using remove_mutation_inv [OF changed(3)] assms by (simp add: store_inv_def)
    then show ?thesis using changed CallRemove m by (auto simp: removeNode_def store_inv_def registered_def)
  qed
qed

interpretation reglog: durable_log store_inv registered store_step call_allowed call_adds call_drops
  by unfold_locales (simp_all add: store_step_effect)

text \<open>
  C13: The registry over any history.  Whatever calls add, update and remove nodes, refused ones
  included, the registry stays one that validates (no two nodes share an id, an alias or a Compose
  project, each project is the one its id stands for), a node is its default exactly when it has
  nodes, a registered node stays until a call removes it, and no node appears but by being added.
\<close>

theorem registry_history:
  assumes "store_inv st" and "\<forall>e \<in> set es. call_allowed e"
  shows "registry_ok (stored_registry (fold store_step es st)) \<and>
    (is_set (reg_default_node_id (stored_registry (fold store_step es st))) \<longleftrightarrow>
       reg_nodes (stored_registry (fold store_step es st)) \<noteq> []) \<and>
    (\<forall>i \<in> registered st. (\<forall>e \<in> set es. e \<noteq> CallRemove i) \<longrightarrow> i \<in> registered (fold store_step es st)) \<and>
    (\<forall>i \<in> registered (fold store_step es st). i \<in> registered st \<or> (\<exists>node b. CallAdd node b \<in> set es \<and> n_node_id node = i))"
proof -
  have "store_inv (fold store_step es st)" by (rule reglog.history_inv [OF assms])
  moreover have "i \<in> registered (fold store_step es st)" if "i \<in> registered st" "\<forall>e \<in> set es. e \<noteq> CallRemove i" for i
  proof (rule reglog.history_keeps [OF assms that(1)])
    show "\<forall>e \<in> set es. i \<notin> call_drops e"
    proof
      fix e assume "e \<in> set es"
      then have "e \<noteq> CallRemove i" using that(2) by blast
      then show "i \<notin> call_drops e" by (cases e) auto
    qed
  qed
  moreover have "i \<in> registered st \<or> (\<exists>node b. CallAdd node b \<in> set es \<and> n_node_id node = i)"
    if "i \<in> registered (fold store_step es st)" for i
  proof -
    from reglog.history_origin [OF assms that] consider "i \<in> registered st" | e where "e \<in> set es" "i \<in> call_adds e" by blast
    then show ?thesis
    proof cases
      case 2
      then obtain node b where "e = CallAdd node b" "n_node_id node = i" by (cases rule: store_call.exhaust [of e]) auto
      then show ?thesis using 2(1) by blast
    qed blast
  qed
  ultimately show ?thesis by (simp add: store_inv_def registry_inv_def)
qed

definition empty_store :: store where
  "empty_store = \<lparr>s_registry = None, s_snapshots = [], s_operations = [], s_owners = []\<rparr>"

definition example_node :: "string \<Rightarrow> string \<Rightarrow> node_record" where
  "example_node i a = \<lparr>n_node_id = i, n_alias = a, n_ports = \<lparr>port_api = 1, port_dashboard = 2, port_mcp = 3\<rparr>,
     n_generation = 1, n_desired_state = WantStopped, n_phase = PhStopped, n_compose_project = expected_project i,
     n_schema_revision = [], n_created_at = [], n_updated_at = []\<rparr>"

lemma empty_store_inv: "store_inv empty_store"
  by (simp add: store_inv_def registry_inv_def registry_ok_def stored_registry_def empty_store_def EMPTY_REGISTRY_def is_set_def)

theorem registry_history_witness:
  "registry_ok (stored_registry (fold store_step
     [CallAdd (example_node ''a-1'' ''x'') False, CallAdd (example_node ''A1'' ''y'') False, CallRemove ''b''] empty_store))"
  using registry_history [OF empty_store_inv, of "[CallAdd (example_node ''a-1'' ''x'') False,
    CallAdd (example_node ''A1'' ''y'') False, CallRemove ''b'']"] by (simp add: example_node_def)

section \<open>Adding a node\<close>

text \<open>
  Adding a node.  A node is added exactly when its id, alias and Compose project are new and
  the project is the one of its id; the registry then ends with it, it is the default if it was asked to be
  or there was none, and its snapshot is written.  A refusal leaves the registry and every other
  file as they were.
\<close>

theorem add_node_spec:
  assumes "registry_inv (stored_registry st)" and "n_node_id node \<noteq> []" and "addNode node makeDefault st = (r, st')"
  shows "(is_ok r \<longleftrightarrow> (\<forall>n \<in> set (reg_nodes (stored_registry st)). n_node_id n \<noteq> n_node_id node \<and> n_alias n \<noteq> n_alias node \<and>
      n_compose_project n \<noteq> n_compose_project node) \<and> n_compose_project node = expected_project (n_node_id node)) \<and>
    (if is_ok r
     then reg_nodes (stored_registry st') = reg_nodes (stored_registry st) @ [node] \<and>
       reg_default_node_id (stored_registry st') =
         (if makeDefault \<or> reg_nodes (stored_registry st) = [] then Some (n_node_id node) else reg_default_node_id (stored_registry st)) \<and>
       oget (s_snapshots st') (n_node_id node) = Some node
     else st' = initialize_store st)"
proof -
  let ?r = "stored_registry st"
  let ?new = "\<lparr>reg_format = reg_format ?r, reg_default_node_id =
      (if makeDefault \<or> reg_nodes ?r = [] then Some (n_node_id node) else reg_default_node_id ?r), reg_nodes = reg_nodes ?r @ [node]\<rparr>"
  obtain r1 st1 where m: "mutateRegistry (add_mutation node makeDefault) st = (r1, st1)" by fastforce
  have add: "add_mutation node makeDefault ?r = (if \<exists>n \<in> set (reg_nodes ?r). n_node_id n = n_node_id node
      then Inl (''Node UUID already exists: '' @ n_node_id node)
      else if \<exists>n \<in> set (reg_nodes ?r). n_alias n = n_alias node
      then Inl (''Node alias already exists: '' @ n_alias node) else Inr ((), ?new))"
    using assms(1) by (auto simp: add_mutation_def registry_inv_def Let_def)
  let ?fresh = "(\<forall>n \<in> set (reg_nodes ?r). n_node_id n \<noteq> n_node_id node \<and> n_alias n \<noteq> n_alias node \<and>
      n_compose_project n \<noteq> n_compose_project node) \<and> n_compose_project node = expected_project (n_node_id node)"
  have valid: "registry_ok ?new \<longleftrightarrow> ?fresh"
    using assms(1) by (auto simp: registry_inv_def registry_ok_def is_set_def image_iff)
  have ok: "registry_ok ?r" using assms(1) by (simp add: registry_inv_def)
  from m show ?thesis
  proof (cases rule: mutateRegistry_cases)
    case (failed e)
    have "r = Inl e" "st' = initialize_store st" using assms(3) m failed(1,2) by (auto simp: addNode_def)
    moreover have "\<not> registry_ok ?new" if "add_mutation node makeDefault ?r = Inr ((), ?new)"
      using failed(3) [OF ok that] .
    then have "\<not> ?fresh" using valid add by auto
    ultimately show ?thesis by simp
  next
    case (changed v reg)
    then have "reg = ?new" "?fresh" using valid add by (auto split: if_splits)
    moreover have "r = Inr ()" "stored_registry st' = reg" "oget (s_snapshots st') (n_node_id node) = Some node"
      using changed m assms(3) by (auto simp: addNode_def) (simp add: writeNodeSnapshot_def)
    ultimately show ?thesis by auto
  qed
qed

theorem add_node_spec_witness:
  "is_ok (fst (addNode (example_node ''a-1'' ''x'') False empty_store))"
proof -
  obtain r st' where a: "addNode (example_node ''a-1'' ''x'') False empty_store = (r, st')" by fastforce
  have "registry_inv (stored_registry empty_store)" using empty_store_inv by (simp add: store_inv_def)
  from add_node_spec [OF this _ a] show ?thesis unfolding a
    by (simp add: example_node_def empty_store_def stored_registry_def EMPTY_REGISTRY_def)
qed

section \<open>Interrupted operations\<close>

text \<open>Every operation record is in the file of its id, in the directory of its node.\<close>

definition well_filed :: "store \<Rightarrow> bool" where
  "well_filed st \<longleftrightarrow> (\<forall>nodeId. distinct (op_entries st nodeId) \<and>
     (\<forall>entry operation. op_file st nodeId entry = Some operation \<longrightarrow>
        entry = op_operation_id operation @ ''.json'' \<and> op_node_id operation = nodeId))"

definition interrupted :: "store \<Rightarrow> string \<Rightarrow> string \<Rightarrow> bool" where
  "interrupted st nodeId entry = (case op_file st nodeId entry of None \<Rightarrow> False | Some operation \<Rightarrow> op_state operation = OsRunning)"

definition attended :: "string \<Rightarrow> operation_record \<Rightarrow> operation_record" where
  "attended now operation = patched now (interrupted_patch now) operation"

lemma ends_with_append [simp]: "ends_with p (s @ p)"
  by (simp add: ends_with_def)

lemma map_fst_oset: "k \<in> fst ` set kvs \<Longrightarrow> map fst (oset k v kvs) = map fst kvs"
proof (induction kvs)
  case (Cons kv kvs)
  then show ?case by (cases kv) auto
qed simp

lemma op_file_some: "op_file st nodeId entry = Some operation \<Longrightarrow>
    \<exists>files. oget (s_operations st) nodeId = Some files \<and> oget files entry = Some (Some operation)"
  by (cases "oget (s_operations st) nodeId"; cases "oget (the (oget (s_operations st) nodeId)) entry") (auto simp: op_file_def)

lemma attend_effect:
  assumes "well_filed st" and "op_file st nodeId entry = Some operation"
    and "st' = snd (updateOperation now operation (interrupted_patch now) st)"
  shows "op_file st' n e = (if n = nodeId \<and> e = entry then Some (attended now operation) else op_file st n e)"
    and "op_entries st' n = op_entries st n" and "s_owners st' = s_owners st" and "stored_registry st' = stored_registry st"
    and "well_filed st'"
proof -
  have f: "entry = op_operation_id operation @ ''.json''" "op_node_id operation = nodeId"
    using assms(1,2) by (auto simp: well_filed_def)
  obtain files where o: "oget (s_operations st) nodeId = Some files" "oget files entry = Some (Some operation)"
    using op_file_some [OF assms(2)] by blast
  have ops: "s_operations st' = oset nodeId (oset entry (Some (attended now operation)) files) (s_operations st)"
    using assms(3) o f by (simp add: updateOperation_def writeOperation_def attended_def patched_def Let_def)
  have stands: "op_file st' n e = (if n = nodeId \<and> e = entry then Some (attended now operation) else op_file st n e)" for n e
    using ops o by (simp add: op_file_def)
  have "entry \<in> fst ` set files" using o(2) by (metis oget_None_iff option.distinct(1))
  then have entries: "op_entries st' n = op_entries st n" for n
    using ops o by (simp add: op_entries_def map_fst_oset)
  have same: "op_operation_id (attended now operation) = op_operation_id operation"
      "op_node_id (attended now operation) = op_node_id operation"
    by (simp_all add: attended_def patched_def)
  show "op_file st' n e = (if n = nodeId \<and> e = entry then Some (attended now operation) else op_file st n e)"
      "op_entries st' n = op_entries st n" by (fact stands, fact entries)
  show "s_owners st' = s_owners st" "stored_registry st' = stored_registry st"
    using assms(3) by (simp_all add: updateOperation_def writeOperation_def stored_registry_def Let_def)
  show "well_filed st'"
    using assms(1) f same by (auto simp: well_filed_def stands entries)
qed

text \<open>What stands in a file after the recovery of some entries of a node\<close>

definition recovered_file :: "string \<Rightarrow> store \<Rightarrow> (string \<Rightarrow> string \<Rightarrow> bool) \<Rightarrow> string \<Rightarrow> string \<Rightarrow> operation_record option" where
  "recovered_file now st sel n e =
     (if sel n e \<and> interrupted st n e then map_option (attended now) (op_file st n e) else op_file st n e)"

lemma recover_entries_effect:
  assumes "well_filed st" and "distinct es" and "recover_entries now nodeId es (k, st) = (k', st')"
  shows "op_file st' n e = recovered_file now st (\<lambda>n e. n = nodeId \<and> e \<in> set es) n e \<and>
    k' = k + length (filter (interrupted st nodeId) es) \<and> well_filed st' \<and> op_entries st' n = op_entries st n \<and>
    s_owners st' = s_owners st \<and> stored_registry st' = stored_registry st"
  using assms
proof (induction es arbitrary: k st n e)
  case Nil
  then show ?case by (simp add: recovered_file_def)
next
  case (Cons x es)
  show ?case
  proof (cases "interrupted st nodeId x")
    case False
    then have "recover_entries now nodeId es (k, st) = (k', st')"
      using Cons.prems(3) by (auto simp: interrupted_def split: option.splits if_splits)
    from Cons.IH [OF Cons.prems(1) _ this, of n e] Cons.prems(2) False show ?thesis
      by (auto simp: recovered_file_def)
  next
    case True
    then obtain operation where o: "op_file st nodeId x = Some operation" "op_state operation = OsRunning"
      by (auto simp: interrupted_def split: option.splits)
    define st1 where "st1 = snd (updateOperation now operation (interrupted_patch now) st)"
    have "x = op_operation_id operation @ ''.json''" using Cons.prems(1) o(1) by (simp add: well_filed_def)
    then have x: "ends_with ''.json'' x" by (simp only: ends_with_append)
    have r: "recover_entries now nodeId es (k + 1, st1) = (k', st')"
      using Cons.prems(3) x o by (simp add: st1_def)
    note a = attend_effect [OF Cons.prems(1) o(1) st1_def]
    have i: "interrupted st1 nodeId y = interrupted st nodeId y" if "y \<in> set es" for y
      using that Cons.prems(2) a(1) by (auto simp: interrupted_def)
    then have f: "filter (interrupted st1 nodeId) es = filter (interrupted st nodeId) es" by (auto intro: filter_cong)
    have "op_file st' n e = recovered_file now st (\<lambda>n e. n = nodeId \<and> e \<in> set (x # es)) n e"
      using Cons.IH [OF a(5) _ r, of n e] Cons.prems(2) True o i [of e] a(1) [of n e]
      by (auto simp: recovered_file_def interrupted_def)
    then show ?thesis using Cons.IH [OF a(5) _ r, of n e] Cons.prems(2) True a f by simp
  qed
qed

lemma recover_nodes_effect:
  assumes "well_filed st" and "distinct (map n_node_id nodes)" and "recover_nodes alive now nodes (k, st) = (k', st')"
  shows "op_file st' n e = recovered_file now st
      (\<lambda>n e. n \<in> n_node_id ` set nodes \<and> \<not> owner_alive alive st n \<and> e \<in> set (op_entries st n)) n e \<and>
    k' = k + sum_list (map (\<lambda>node. length (filter (interrupted st (n_node_id node)) (op_entries st (n_node_id node))))
                       (filter (\<lambda>node. \<not> owner_alive alive st (n_node_id node)) nodes)) \<and>
    stored_registry st' = stored_registry st \<and> well_filed st'"
  using assms
proof (induction nodes arbitrary: k st)
  case Nil
  then show ?case by (simp add: recovered_file_def)
next
  case (Cons node nodes)
  show ?case
  proof (cases "owner_alive alive st (n_node_id node)")
    case True
    then have "recover_nodes alive now nodes (k, st) = (k', st')" using Cons.prems(3) by simp
    from Cons.IH [OF Cons.prems(1) _ this] Cons.prems(2) True show ?thesis
      by (auto simp: recovered_file_def)
  next
    case False
    obtain k1 st1 where e: "recover_entries now (n_node_id node) (op_entries st (n_node_id node)) (k, st) = (k1, st1)"
      by fastforce
    then have r: "recover_nodes alive now nodes (k1, st1) = (k', st')" using Cons.prems(3) False by simp
    have d: "distinct (op_entries st (n_node_id node))" using Cons.prems(1) by (simp add: well_filed_def)
    note a = recover_entries_effect [OF Cons.prems(1) d e]
    have w: "well_filed st1" and "s_owners st1 = s_owners st" using a by blast+
    then have own: "owner_alive alive st1 m = owner_alive alive st m" for m by (simp add: owner_alive_def)
    have ent: "op_entries st1 m = op_entries st m" for m using a by blast
    have stands: "op_file st1 m f = recovered_file now st (\<lambda>n e. n = n_node_id node \<and> e \<in> set (op_entries st (n_node_id node))) m f" for m f
      using a by blast
    have other: "op_file st1 (n_node_id m) = op_file st (n_node_id m)" if "m \<in> set nodes" for m
    proof
      fix f
      have "n_node_id m \<noteq> n_node_id node" using that Cons.prems(2) by (metis distinct.simps(2) imageI list.map(2) set_map)
      then show "op_file st1 (n_node_id m) f = op_file st (n_node_id m) f" by (simp add: stands recovered_file_def)
    qed
    have i: "interrupted st1 (n_node_id m) = interrupted st (n_node_id m)" if "m \<in> set nodes" for m
      using other [OF that] by (auto simp: interrupted_def fun_eq_iff)
    have ih: "op_file st' n e = recovered_file now st1
        (\<lambda>n e. n \<in> n_node_id ` set nodes \<and> \<not> owner_alive alive st n \<and> e \<in> set (op_entries st n)) n e"
      "k' = k1 + sum_list (map (\<lambda>node. length (filter (interrupted st1 (n_node_id node)) (op_entries st (n_node_id node))))
                       (filter (\<lambda>node. \<not> owner_alive alive st (n_node_id node)) nodes))"
      "stored_registry st' = stored_registry st1 \<and> well_filed st'"
      using Cons.IH [OF w _ r] Cons.prems(2) by (simp_all add: own ent)
    have sums: "sum_list (map (\<lambda>node. length (filter (interrupted st1 (n_node_id node)) (op_entries st (n_node_id node))))
                       (filter (\<lambda>node. \<not> owner_alive alive st (n_node_id node)) nodes)) =
      sum_list (map (\<lambda>node. length (filter (interrupted st (n_node_id node)) (op_entries st (n_node_id node))))
                       (filter (\<lambda>node. \<not> owner_alive alive st (n_node_id node)) nodes))"
      by (rule arg_cong [of _ _ sum_list]) (use i in auto)
    have files: "op_file st' n e = recovered_file now st
      (\<lambda>n e. n \<in> n_node_id ` set (node # nodes) \<and> \<not> owner_alive alive st n \<and> e \<in> set (op_entries st n)) n e"
    proof (cases "n = n_node_id node")
      case True
      then have "n \<notin> n_node_id ` set nodes" using Cons.prems(2) by auto
      then show ?thesis using ih(1) stands [of n e] True False by (simp add: recovered_file_def)
    next
      case other_node: False
      then have "op_file st1 n e = op_file st n e" using stands [of n e] by (simp add: recovered_file_def)
      then show ?thesis using ih(1) other_node by (auto simp: recovered_file_def interrupted_def)
    qed
    moreover have "k1 = k + length (filter (interrupted st (n_node_id node)) (op_entries st (n_node_id node)))"
        "stored_registry st1 = stored_registry st" using a by blast+
    ultimately show ?thesis using files ih(2,3) sums False by simp
  qed
qed

lemma recovered_all:
  assumes "well_filed st" and "registry_ok (stored_registry st)"
    and "recoverInterruptedOperations alive now st = (r, st')"
  shows "r = Inr (sum_list (map (\<lambda>node. length (filter (interrupted st (n_node_id node)) (op_entries st (n_node_id node))))
      (filter (\<lambda>node. \<not> owner_alive alive st (n_node_id node)) (reg_nodes (stored_registry st))))) \<and>
    stored_registry st' = stored_registry st \<and>
    op_file st' n e = (case op_file st n e of
      None \<Rightarrow> None
    | Some operation \<Rightarrow> Some (
        if n \<in> registered st \<and> \<not> owner_alive alive st n \<and> op_state operation = OsRunning
        then operation\<lparr>op_state := OsNeedsAttention, op_phase := ''manager_restarted'', op_updated_at := now,
               op_error := Some ''The Node Manager restarted during this operation; it was not replayed automatically'',
               op_completed_at := Some now\<rparr>
        else operation)) \<and> well_filed st'"
proof -
  let ?st = "initialize_store st"
  have same: "op_file ?st = op_file st" "op_entries ?st = op_entries st" "interrupted ?st = interrupted st"
      "owner_alive alive ?st = owner_alive alive st"
    by (simp_all add: fun_eq_iff op_file_def op_entries_def interrupted_def owner_alive_def)
  have w: "well_filed ?st" using assms(1) by (simp add: well_filed_def same)
  have d: "distinct (map n_node_id (reg_nodes (stored_registry st)))" using assms(2) by (simp add: registry_ok_def)
  obtain k where k: "recover_nodes alive now (reg_nodes (stored_registry st)) (0, ?st) = (k, st')" and r: "r = Inr k"
    using assms(2,3) by (auto simp: recoverInterruptedOperations_def Let_def read_registry_Inr [THEN iffD2] split: prod.splits)
  have "e \<in> set (op_entries st n)" if f: "op_file st n e = Some operation" for operation
  proof -
    obtain files where f: "oget (s_operations st) n = Some files" "oget files e = Some (Some operation)"
      using op_file_some [OF f] by blast
    then have "e \<in> fst ` set files" by (metis oget_None_iff option.distinct(1))
    then show ?thesis using f(1) by (simp add: op_entries_def)
  qed
  then show ?thesis
    using recover_nodes_effect [OF w d k, of n e] r
    by (auto simp: same recovered_file_def registered_def interrupted_def attended_def patched_def interrupted_patch_def
        split: option.splits)
qed

text \<open>
  C14: Recovery after a restart.  Every operation recorded as running of a registered node is marked
  as needing attention, unless a live process owns the node's lock; its identity and start are
  kept, no other record changes, nothing is replayed, and the number returned is the number
  of marked records.
\<close>

theorem recover_interrupted:
  assumes "well_filed st" and "registry_ok (stored_registry st)"
    and "recoverInterruptedOperations alive now st = (r, st')"
  shows "r = Inr (sum_list (map (\<lambda>node. length (filter (interrupted st (n_node_id node)) (op_entries st (n_node_id node))))
      (filter (\<lambda>node. \<not> owner_alive alive st (n_node_id node)) (reg_nodes (stored_registry st))))) \<and>
    stored_registry st' = stored_registry st \<and>
    op_file st' n e = (case op_file st n e of
      None \<Rightarrow> None
    | Some operation \<Rightarrow> Some (
        if n \<in> registered st \<and> \<not> owner_alive alive st n \<and> op_state operation = OsRunning
        then operation\<lparr>op_state := OsNeedsAttention, op_phase := ''manager_restarted'', op_updated_at := now,
               op_error := Some ''The Node Manager restarted during this operation; it was not replayed automatically'',
               op_completed_at := Some now\<rparr>
        else operation))"
  using recovered_all [OF assms, of n e] by simp

definition crashed_store :: store where
  "crashed_store = writeOperation
     \<lparr>op_operation_id = ''o'', op_node_id = ''a-1'', op_kind = OpStart, op_state = OsRunning, op_phase = ''starting'',
      op_started_at = ''t'', op_updated_at = ''t'', op_completed_at = None, op_error = None, op_result = None\<rparr>
     (snd (addNode (example_node ''a-1'' ''x'') False empty_store))"

theorem recover_interrupted_witness:
  "fst (recoverInterruptedOperations (\<lambda>_. False) ''u'' crashed_store) = Inr 1"
proof -
  obtain r st' where rec: "recoverInterruptedOperations (\<lambda>_. False) ''u'' crashed_store = (r, st')" by fastforce
  have s: "stored_registry crashed_store = \<lparr>reg_format = 1, reg_default_node_id = Some ''a-1'', reg_nodes = [example_node ''a-1'' ''x'']\<rparr>"
    by code_simp
  have o: "s_operations crashed_store = [(''a-1'', [(''o.json'', Some \<lparr>op_operation_id = ''o'', op_node_id = ''a-1'', op_kind = OpStart,
      op_state = OsRunning, op_phase = ''starting'', op_started_at = ''t'', op_updated_at = ''t'', op_completed_at = None,
      op_error = None, op_result = None\<rparr>)])]" "s_owners crashed_store = []"
    by code_simp+
  have "well_filed crashed_store" by (auto simp: well_filed_def op_entries_def op_file_def o split: if_splits)
  moreover have "registry_ok (stored_registry crashed_store)" by (simp add: s registry_ok_def example_node_def)
  ultimately show ?thesis using recover_interrupted [OF _ _ rec] unfolding rec
    by (simp add: s owner_alive_def o op_entries_def interrupted_def op_file_def example_node_def)
qed

end
