(* ===== verification/NodeLock.thy ===== *)
theory NodeLock
  imports ManagerState
begin

text \<open>
  The lock of a node's lifecycle operations, \<open>withNodeLock\<close> of \<open>apps/manager/src/state.ts\<close>: a
  directory that one task creates, with the owner's process id in a file inside.  The function
  gives up control at each file operation, so it is modelled as one step per operation of any
  number of tasks, of any number of processes, that interleave freely.
\<close>

section \<open>The steps\<close>

datatype lock_pc =
    Start       \<comment> \<open>about to create the directory\<close>
  | Blocked     \<comment> \<open>it exists; about to read its owner\<close>
  | Aging       \<comment> \<open>no owner recorded; about to look at its age\<close>
  | Stale       \<comment> \<open>about to remove it\<close>
  | Cleared     \<comment> \<open>removed; about to create it again\<close>
  | Made        \<comment> \<open>created; about to record the owner\<close>
  | Inside      \<comment> \<open>running the action; then the directory is removed\<close>
  | Finished
  | Refused     \<comment> \<open>an error was thrown\<close>

record lock_dir =
  ld_owner :: "int option"
  ld_mtime :: int

record lock_state =
  l_dir :: "lock_dir option"
  l_pcs :: "nat \<Rightarrow> lock_pc"
  l_now :: int
  l_alive :: "int \<Rightarrow> bool"

definition to_pc :: "nat \<Rightarrow> lock_pc \<Rightarrow> lock_state \<Rightarrow> lock_state" where
  "to_pc t pc s = s\<lparr>l_pcs := (l_pcs s)(t := pc)\<rparr>"

definition make_lock :: "nat \<Rightarrow> lock_state \<Rightarrow> lock_state" where
  "make_lock t s = to_pc t Made (s\<lparr>l_dir := Some \<lparr>ld_owner = None, ld_mtime = l_now s\<rparr>\<rparr>)"

text \<open>
  The next file operation of task \<open>t\<close>, whose process is \<open>pid t\<close>.  Recording the owner writes
  into the directory (creating it if it is gone), which also sets its modification time.
\<close>

definition lock_step :: "(nat \<Rightarrow> int) \<Rightarrow> nat \<Rightarrow> lock_state \<Rightarrow> lock_state" where
  "lock_step pid t s =
     (case l_pcs s t of
        Start \<Rightarrow> (case l_dir s of None \<Rightarrow> make_lock t s | Some _ \<Rightarrow> to_pc t Blocked s)
      | Blocked \<Rightarrow>
          (case Option.bind (l_dir s) ld_owner of
             Some p \<Rightarrow> to_pc t (if processIsAlive (l_alive s) p then Refused else Stale) s
           | None \<Rightarrow> to_pc t Aging s)
      | Aging \<Rightarrow>
          (case l_dir s of
             None \<Rightarrow> to_pc t Refused s
           | Some d \<Rightarrow> to_pc t (if l_now s - ld_mtime d < 30000 then Refused else Stale) s)
      | Stale \<Rightarrow> to_pc t Cleared (s\<lparr>l_dir := None\<rparr>)
      | Cleared \<Rightarrow> (case l_dir s of None \<Rightarrow> make_lock t s | Some _ \<Rightarrow> to_pc t Refused s)
      | Made \<Rightarrow> to_pc t Inside (s\<lparr>l_dir := Some \<lparr>ld_owner = Some (pid t), ld_mtime = l_now s\<rparr>\<rparr>)
      | Inside \<Rightarrow> to_pc t Finished (s\<lparr>l_dir := None\<rparr>)
      | Finished \<Rightarrow> s
      | Refused \<Rightarrow> s)"

text \<open>
  Runs in which no process dies, and no task takes half a minute between creating the directory
  and recording its owner, or between missing the owner and looking at the directory's age.
\<close>

definition prompt :: "lock_state \<Rightarrow> bool" where
  "prompt s \<longleftrightarrow> (\<forall>d t. l_dir s = Some d \<and> l_pcs s t \<in> {Made, Aging} \<longrightarrow> l_now s - ld_mtime d < 30000)"

inductive lock_run :: "(nat \<Rightarrow> int) \<Rightarrow> lock_state \<Rightarrow> lock_state \<Rightarrow> bool" for pid :: "nat \<Rightarrow> int" and s0 :: lock_state where
  begins: "lock_run pid s0 s0"
| steps: "lock_run pid s0 s \<Longrightarrow> lock_run pid s0 (lock_step pid t s)"
| waits: "lock_run pid s0 s \<Longrightarrow> 0 \<le> d \<Longrightarrow> prompt (s\<lparr>l_now := l_now s + d\<rparr>) \<Longrightarrow> lock_run pid s0 (s\<lparr>l_now := l_now s + d\<rparr>)"

section \<open>Mutual exclusion\<close>

definition holding :: "lock_pc \<Rightarrow> bool" where
  "holding pc = (pc = Made \<or> pc = Inside)"

text \<open>
  \<open>h\<close> is the task that has the lock, if one has.  No task removes the lock of another; the
  directory is there exactly while a task has it, and carries its process id from the moment it
  runs its action.
\<close>

definition lock_inv :: "(nat \<Rightarrow> int) \<Rightarrow> nat option \<Rightarrow> lock_state \<Rightarrow> bool" where
  "lock_inv pid h s \<longleftrightarrow> (\<forall>t. l_pcs s t \<noteq> Stale \<and> l_pcs s t \<noteq> Cleared) \<and> (\<forall>t. holding (l_pcs s t) \<longleftrightarrow> h = Some t) \<and>
     map_option ld_owner (l_dir s) = map_option (\<lambda>t. if l_pcs s t = Inside then Some (pid t) else None) h \<and>
     prompt s \<and> (\<forall>t. processIsAlive (l_alive s) (pid t))"

lemma lock_inv_waits:
  assumes "lock_inv pid h s" and "\<not> holding (l_pcs s t)" and "pc \<in> {Blocked, Refused, Finished, Aging}"
    and "\<And>d. pc = Aging \<Longrightarrow> l_dir s = Some d \<Longrightarrow> l_now s - ld_mtime d < 30000"
  shows "lock_inv pid h (to_pc t pc s)"
  using assms by (auto simp: lock_inv_def to_pc_def holding_def prompt_def map_option_case split: option.splits)

lemma lock_inv_step:
  assumes "lock_inv pid h s"
  shows "\<exists>h. lock_inv pid h (lock_step pid t s)"
proof (cases "l_pcs s t")
  case Start
  show ?thesis
  proof (cases "l_dir s")
    case None
    then have "h = None" using assms by (cases h) (simp_all add: lock_inv_def)
    then have "lock_inv pid (Some t) (lock_step pid t s)" using assms Start None
      by (simp add: lock_inv_def lock_step_def make_lock_def to_pc_def holding_def prompt_def)
    then show ?thesis by blast
  next
    case (Some d)
    then show ?thesis using lock_inv_waits [OF assms, of t Blocked] Start
      by (auto simp: lock_step_def holding_def)
  qed
next
  case Blocked
  show ?thesis
  proof (cases "Option.bind (l_dir s) ld_owner")
    case None
    have "l_now s - ld_mtime d < 30000" if d: "l_dir s = Some d" for d
    proof -
      from d None have "ld_owner d = None" by simp
      then obtain u where "h = Some u" "l_pcs s u \<noteq> Inside"
        using assms d by (cases h) (auto simp: lock_inv_def split: if_splits)
      then have "l_pcs s u = Made" using assms by (auto simp: lock_inv_def holding_def)
      then show ?thesis using assms d by (auto simp: lock_inv_def prompt_def)
    qed
    then show ?thesis using lock_inv_waits [OF assms, of t Aging] Blocked None
      by (auto simp: lock_step_def holding_def)
  next
    case (Some p)
    then have "processIsAlive (l_alive s) p"
      using assms by (cases h) (auto simp: lock_inv_def bind_eq_Some_conv split: if_splits)
    then show ?thesis using lock_inv_waits [OF assms, of t Refused] Blocked Some
      by (auto simp: lock_step_def holding_def)
  qed
next
  case Aging
  have "l_now s - ld_mtime d < 30000" if "l_dir s = Some d" for d
    using assms that Aging by (auto simp: lock_inv_def prompt_def)
  then show ?thesis using lock_inv_waits [OF assms, of t Refused] Aging
    by (auto simp: lock_step_def holding_def split: option.split)
next
  case Made
  then have "h = Some t" using assms by (auto simp: lock_inv_def holding_def)
  then have "lock_inv pid (Some t) (lock_step pid t s)" using assms Made
    by (auto simp: lock_inv_def lock_step_def to_pc_def holding_def prompt_def)
  then show ?thesis by blast
next
  case Inside
  then have "h = Some t" using assms by (auto simp: lock_inv_def holding_def)
  then have "lock_inv pid None (lock_step pid t s)" using assms Inside
    by (auto simp: lock_inv_def lock_step_def to_pc_def holding_def prompt_def)
  then show ?thesis by blast
qed (use assms in \<open>auto simp: lock_inv_def lock_step_def\<close>)

lemma lock_inv_run: "lock_run pid s0 s \<Longrightarrow> lock_inv pid h s0 \<Longrightarrow> \<exists>h. lock_inv pid h s"
proof (induction rule: lock_run.induct)
  case (steps s t)
  then show ?case using lock_inv_step by blast
next
  case (waits s d)
  then show ?case by (auto simp: lock_inv_def)
qed blast

text \<open>
  C16: Mutual exclusion.  Starting without a lock directory, however the steps of any number of
  tasks of live processes interleave, at most one task at a time runs its action, and the directory
  carries its process id while it does, provided no process dies and no task pauses for half a minute
  around the recording of an owner.
\<close>

theorem node_lock_exclusive:
  assumes "lock_run pid s0 s" and "l_dir s0 = None" and "\<forall>t. l_pcs s0 t = Start"
    and "\<forall>t. processIsAlive (l_alive s0) (pid t)"
    and "l_pcs s t = Inside" and "l_pcs s u \<in> {Made, Inside}"
  shows "t = u \<and> Option.bind (l_dir s) ld_owner = Some (pid t)"
proof -
  have "lock_inv pid None s0" using assms(2-4) by (simp add: lock_inv_def holding_def prompt_def)
  then obtain h where h: "lock_inv pid h s" using lock_inv_run [OF assms(1)] by blast
  then have "h = Some t" "h = Some u" using assms(5,6) by (auto simp: lock_inv_def holding_def)
  then show ?thesis using h assms(5) by (auto simp: lock_inv_def)
qed

definition fresh_lock :: lock_state where
  "fresh_lock = \<lparr>l_dir = None, l_pcs = (\<lambda>_. Start), l_now = 0, l_alive = (\<lambda>p. p = 9)\<rparr>"

theorem node_lock_exclusive_witness:
  "Option.bind (l_dir (lock_step (\<lambda>_. 9) 1 (lock_step (\<lambda>_. 9) 0 (lock_step (\<lambda>_. 9) 0 fresh_lock)))) ld_owner = Some 9"
proof -
  let ?s = "lock_step (\<lambda>_. 9) 1 (lock_step (\<lambda>_. 9) 0 (lock_step (\<lambda>_. 9) 0 fresh_lock))"
  have "lock_run (\<lambda>_. 9) fresh_lock ?s" by (intro lock_run.steps lock_run.begins)
  moreover have "l_pcs ?s 0 = Inside"
    by (simp add: lock_step_def fresh_lock_def make_lock_def to_pc_def)
  ultimately show ?thesis
    using node_lock_exclusive [of "\<lambda>_. 9" fresh_lock ?s 0 0]
    by (simp add: fresh_lock_def processIsAlive_def MAX_SAFE_INTEGER_def)
qed

section \<open>Taking over a stale lock\<close>

text \<open>What keeps a task out: a live owner, or a directory without an owner that is not old.\<close>

definition locked_out :: "lock_state \<Rightarrow> bool" where
  "locked_out s = (case l_dir s of
     None \<Rightarrow> False
   | Some d \<Rightarrow> (case ld_owner d of
       Some p \<Rightarrow> processIsAlive (l_alive s) p
     | None \<Rightarrow> l_now s - ld_mtime d < 30000))"

text \<open>
  C17: A task that is not disturbed gets an answer.  Within six steps of its own it either runs its
  action with the lock in its name, or is refused with the lock left alone; it is refused
  exactly when the lock has a live owner or is younger than 30 seconds without one, so the lock a
  dead process left behind never keeps the node out of reach.
\<close>

theorem lone_task_answered:
  assumes "l_pcs s t = Start"
  shows "\<exists>k \<le> 6. let s' = (lock_step pid t ^^ k) s in
    if locked_out s then l_pcs s' t = Refused \<and> l_dir s' = l_dir s
    else l_pcs s' t = Inside \<and> Option.bind (l_dir s') ld_owner = Some (pid t)"
proof (cases "l_dir s")
  case None
  then show ?thesis using assms
    by (intro exI [of _ 2]) (simp add: numeral_eq_Suc lock_step_def make_lock_def to_pc_def locked_out_def)
next
  case dir: (Some d)
  show ?thesis
  proof (cases "ld_owner d")
    case None
    then show ?thesis using assms dir
      by (cases "l_now s - ld_mtime d < 30000"; intro exI [of _ "if locked_out s then 3 else 6"])
        (simp_all add: numeral_eq_Suc lock_step_def make_lock_def to_pc_def locked_out_def)
  next
    case (Some p)
    then show ?thesis using assms dir
      by (cases "processIsAlive (l_alive s) p"; intro exI [of _ "if locked_out s then 2 else 5"])
        (simp_all add: numeral_eq_Suc lock_step_def make_lock_def to_pc_def locked_out_def)
  qed
qed

theorem lone_task_answered_witness:
  "\<exists>k \<le> 6. l_pcs ((lock_step (\<lambda>_. 9) 0 ^^ k) (fresh_lock\<lparr>l_dir := Some \<lparr>ld_owner = Some 8, ld_mtime = 0\<rparr>\<rparr>)) 0 = Inside"
  using lone_task_answered [of "fresh_lock\<lparr>l_dir := Some \<lparr>ld_owner = Some 8, ld_mtime = 0\<rparr>\<rparr>" 0 "\<lambda>_. 9"]
  by (auto simp: fresh_lock_def locked_out_def processIsAlive_def Let_def)

text \<open>
  C18: Two tasks can take over the same stale lock.  From a lock whose owner is dead, two tasks of
  one live process can both end up running their action: each finds the owner dead, the first
  removes the directory and creates its own, and the second then removes that one.
\<close>

theorem stale_takeover_race:
  "\<exists>s. lock_run (\<lambda>_. 9) (fresh_lock\<lparr>l_dir := Some \<lparr>ld_owner = Some 8, ld_mtime = 0\<rparr>\<rparr>) s \<and> l_pcs s 0 = Inside \<and> l_pcs s 1 = Inside"
proof -
  let ?s0 = "fresh_lock\<lparr>l_dir := Some \<lparr>ld_owner = Some 8, ld_mtime = 0\<rparr>\<rparr>"
  have run: "lock_run pid s0 (fold (lock_step pid) ts s)" if "lock_run pid s0 s" for pid s0 s ts
    using that by (induction ts arbitrary: s) (auto intro: lock_run.steps)
  have "lock_run (\<lambda>_. 9) ?s0 (fold (lock_step (\<lambda>_. 9)) [0, 1, 0, 1, 0, 0, 1, 1, 0, 1] ?s0)"
    by (rule run) (rule lock_run.begins)
  moreover have "l_pcs (fold (lock_step (\<lambda>_. 9)) [0, 1, 0, 1, 0, 0, 1, 1, 0, 1] ?s0) i = Inside" if "i = 0 \<or> i = 1" for i
    using that by (auto simp: lock_step_def fresh_lock_def make_lock_def to_pc_def processIsAlive_def)
  ultimately show ?thesis by blast
qed

end
