(* ===== verification/Base64.thy ===== *)
theory Base64
  imports JsString
begin

text \<open>
  The \<open>base64url\<close> encoding of Node's \<open>Buffer\<close>, as the tokens of the Node Manager use it: no
  padding, and a decoder that accepts both alphabets, stops at the padding and skips every other character.
\<close>

definition b64_char :: "nat \<Rightarrow> char" where
  "b64_char v = (if v < 26 then char_of (65 + v) else if v < 52 then char_of (71 + v)
     else if v < 62 then char_of (v - 4) else if v = 62 then CHR ''-'' else CHR ''_'')"

definition b64_val :: "char \<Rightarrow> nat option" where
  "b64_val c = (if is_upper c then Some (code c - 65) else if is_lower c then Some (code c - 71)
     else if is_digit c then Some (code c + 4)
     else if c = CHR ''-'' \<or> c = CHR ''+'' then Some 62
     else if c = CHR ''_'' \<or> c = CHR ''/'' then Some 63 else None)"

fun b64_bytes :: "nat list \<Rightarrow> nat list" where
  "b64_bytes (a # b # c # bs) = a div 4 # (a mod 4 * 16 + b div 16) # (b mod 16 * 4 + c div 64) # c mod 64 # b64_bytes bs"
| "b64_bytes [a, b] = [a div 4, a mod 4 * 16 + b div 16, b mod 16 * 4]"
| "b64_bytes [a] = [a div 4, a mod 4 * 16]"
| "b64_bytes [] = []"

text \<open>A single character left over holds no whole byte and is dropped.\<close>

fun unb64_bytes :: "nat list \<Rightarrow> nat list" where
  "unb64_bytes (w # x # y # z # vs) = (w * 4 + x div 16) # (x mod 16 * 16 + y div 4) # (y mod 4 * 64 + z) # unb64_bytes vs"
| "unb64_bytes [w, x, y] = [w * 4 + x div 16, x mod 16 * 16 + y div 4]"
| "unb64_bytes [w, x] = [w * 4 + x div 16]"
| "unb64_bytes _ = []"

definition base64url :: "string \<Rightarrow> string" where
  "base64url s = map b64_char (b64_bytes (map of_char s))"

definition un_base64url :: "string \<Rightarrow> string" where
  "un_base64url s = map char_of (unb64_bytes (List.map_filter b64_val (takeWhile (\<lambda>c. c \<noteq> CHR ''='') s)))"

definition is_base64url :: "char \<Rightarrow> bool" where
  "is_base64url c = (is_alnum c \<or> c = CHR ''_'' \<or> c = CHR ''-'')"

lemma b64_val_char: "v < 64 \<Longrightarrow> b64_val (b64_char v) = Some v \<and> is_base64url (b64_char v)"
proof -
  assume "v < 64"
  then consider "v < 26" | "26 \<le> v" "v < 52" | "52 \<le> v" "v < 62" | "v = 62" | "v = 63" by linarith
  moreover have "52 \<le> v \<Longrightarrow> v < 62 \<Longrightarrow> 48 \<le> v - 4 \<and> v - 4 \<le> 57" by linarith
  ultimately show ?thesis
    by cases (simp_all add: b64_val_def b64_char_def is_base64url_def is_alnum_def is_upper_def is_lower_def is_digit_def)
qed

lemma octet_parts:
  "(b::nat) < 256 \<Longrightarrow> b div 16 < 16" "(c::nat) < 256 \<Longrightarrow> c div 64 < 4" "(a::nat) < 256 \<Longrightarrow> a div 4 < 64"
  by (simp_all add: div_less_iff_less_mult)

lemma sextets_bound:
  "(b::nat) < 256 \<Longrightarrow> a mod 4 * 16 + b div 16 < 64"
  "(c::nat) < 256 \<Longrightarrow> b mod 16 * 4 + c div 64 < 64"
  "a mod 4 * 16 < (64::nat)" "b mod 16 * 4 < (64::nat)"
proof -
  have m: "a mod 4 \<le> 3" "b mod 16 \<le> 15" for a b :: nat by linarith+
  show "b < 256 \<Longrightarrow> a mod 4 * 16 + b div 16 < 64" using m(1) [of a] octet_parts(1) [of b] by linarith
  show "c < 256 \<Longrightarrow> b mod 16 * 4 + c div 64 < 64" using m(2) [of b] octet_parts(2) [of c] by linarith
  show "a mod 4 * 16 < 64" "b mod 16 * 4 < 64" using m(1) [of a] m(2) [of b] by linarith+
qed

lemma b64_bytes_bound: "\<forall>b \<in> set bs. b < 256 \<Longrightarrow> \<forall>v \<in> set (b64_bytes bs). v < 64"
  by (induction bs rule: b64_bytes.induct) (simp_all add: sextets_bound octet_parts)

lemma unb64_b64_bytes: "\<forall>b \<in> set bs. b < 256 \<Longrightarrow> unb64_bytes (b64_bytes bs) = bs"
proof (induction bs rule: b64_bytes.induct)
  case (1 a b c bs)
  then show ?case using octet_parts(1) [of b] octet_parts(2) [of c] by simp
next
  case (2 a b)
  then show ?case using octet_parts(1) [of b] by simp
qed simp_all

lemma byte_codes: "\<forall>b \<in> set (map of_char s). b < (256::nat)"
  by (auto simp: of_char_def char.size)

lemma base64url_safe: "c \<in> set (base64url s) \<Longrightarrow> is_base64url c"
  using b64_bytes_bound [OF byte_codes [of s]] b64_val_char by (auto simp: base64url_def)

text \<open>Decoding what was encoded gives it back.\<close>

lemma un_base64url_base64url [simp]: "un_base64url (base64url s) = s"
proof -
  let ?vs = "b64_bytes (map of_char s)"
  have v: "\<forall>v \<in> set ?vs. v < 64" by (rule b64_bytes_bound [OF byte_codes])
  have w: "takeWhile (\<lambda>c. c \<noteq> CHR ''='') (base64url s) = base64url s"
  proof (rule takeWhile_eq_all_conv [THEN iffD2], rule ballI)
    fix c assume "c \<in> set (base64url s)"
    then have "is_base64url c" by (rule base64url_safe)
    then show "c \<noteq> CHR ''=''" by (auto simp: is_base64url_def is_alnum_def is_digit_def is_upper_def is_lower_def)
  qed
  have "List.map_filter b64_val (map b64_char vs) = vs" if "\<forall>v \<in> set vs. v < 64" for vs
    using that by (induction vs) (simp_all add: List.map_filter_def b64_val_char)
  then have "List.map_filter b64_val (base64url s) = ?vs" using v by (simp add: base64url_def)
  then show ?thesis using unb64_b64_bytes [OF byte_codes [of s]]
    by (simp add: un_base64url_def w o_def)
qed

lemma b64_bytes_Nil [simp]: "b64_bytes bs = [] \<longleftrightarrow> bs = []"
  by (cases bs rule: b64_bytes.cases) simp_all

lemma base64url_Nil [simp]: "base64url s = [] \<longleftrightarrow> s = []"
  by (simp add: base64url_def)

lemma length_b64_bytes: "length (b64_bytes bs) = (4 * length bs + 2) div 3"
  by (induction bs rule: b64_bytes.induct) simp_all

lemma length_base64url: "length (base64url s) = (4 * length s + 2) div 3"
  by (simp add: base64url_def length_b64_bytes)

lemma split_on_plain: "d \<notin> set s \<Longrightarrow> split_on d s = [s]"
  by (induction s) auto

lemma split_on_join: "d \<notin> set a \<Longrightarrow> split_on d (a @ d # b) = a # split_on d b"
  by (induction a) (auto split: list.splits)

end
