(* ===== verification/AdminAuth.thy ===== *)
theory AdminAuth
  imports Json Base64
begin

text \<open>
  The Node Manager's admin tokens, \<open>apps/manager/src/auth.ts\<close>: signed payloads, bootstrap tokens
  that are exchanged for a session once, and the file of the nonces already used.  The MAC, the
  JSON parser and the random bytes come from outside.  A payload that carries the manager's signature has the declared type.
\<close>

section \<open>Signed payloads\<close>

datatype token_type = Bootstrap | Session

record signed_payload =
  sp_type :: token_type
  sp_exp :: int
  sp_nonce :: string
  sp_node_id :: "string option"

definition type_name :: "token_type \<Rightarrow> string" where
  "type_name t = (case t of Bootstrap \<Rightarrow> ''bootstrap'' | Session \<Rightarrow> ''session'')"

definition payload_json :: "signed_payload \<Rightarrow> json" where
  "payload_json p = JObj ([(''type'', JStr (type_name (sp_type p))), (''exp'', JNum (of_int (sp_exp p))),
     (''nonce'', JStr (sp_nonce p))] @ (case sp_node_id p of None \<Rightarrow> [] | Some n \<Rightarrow> [(''node_id'', JStr n)]))"

text \<open>\<open>crypto.createHmac\<close>, \<open>JSON.parse\<close> of a payload, and the printing of numbers\<close>

record auth_env =
  ae_hmac :: "string \<Rightarrow> string \<Rightarrow> string"
  ae_parse :: "string \<Rightarrow> signed_payload option"
  ae_fmt :: "rat \<Rightarrow> string"

definition sign_token :: "auth_env \<Rightarrow> string \<Rightarrow> signed_payload \<Rightarrow> string" where
  "sign_token env secret payload =
     (let encoded = base64url (stringify (ae_fmt env) (payload_json payload))
      in encoded @ ''.'' @ base64url (ae_hmac env secret encoded))"

text \<open>\<open>const [encoded, provided] = token.split(".")\<close>: a missing part is empty, further parts are ignored.\<close>

definition token_parts :: "string \<Rightarrow> string \<times> string" where
  "token_parts token = (case split_on (CHR ''.'') token of a # b # _ \<Rightarrow> (a, b) | [a] \<Rightarrow> (a, []) | [] \<Rightarrow> ([], []))"

definition verify_token :: "auth_env \<Rightarrow> string \<Rightarrow> int \<Rightarrow> string \<Rightarrow> token_type \<Rightarrow> signed_payload res" where
  "verify_token env secret now token ty =
     (case token_parts token of (encoded, provided) \<Rightarrow>
        if encoded = [] \<or> provided = [] then Inl ''Malformed admin token''
        else if ae_hmac env secret encoded \<noteq> un_base64url provided then Inl ''Invalid admin token''
        else case ae_parse env (un_base64url encoded) of
          None \<Rightarrow> Inl ''SyntaxError''
        | Some payload \<Rightarrow>
            if sp_type payload \<noteq> ty \<or> sp_exp payload < now \<or> sp_nonce payload = []
            then Inl ''Expired or invalid admin token'' else Inr payload)"

text \<open>\<open>initialize\<close>: the secret is created once, and read back; \<open>fresh\<close> is 32 random bytes.\<close>

definition initialize_secret :: "string \<Rightarrow> string option \<Rightarrow> string res \<times> string" where
  "initialize_secret fresh stored =
     (let content = (case stored of None \<Rightarrow> base64url fresh @ [CHR 0x0A] | Some content \<Rightarrow> content);
          secret = un_base64url (trim content)
      in (if length secret < 32 then Inl ''The Node Manager admin secret is invalid'' else Inr secret, content))"

section \<open>Issuing and exchanging\<close>

definition BOOTSTRAP_MS :: int where "BOOTSTRAP_MS = 60000"
definition SESSION_MS :: int where "SESSION_MS = 8 * 60 * 60000"

definition issueBootstrap :: "auth_env \<Rightarrow> string \<Rightarrow> int \<Rightarrow> string \<Rightarrow> string option \<Rightarrow> string" where
  "issueBootstrap env secret now random nodeId = sign_token env secret
     \<lparr>sp_type = Bootstrap, sp_exp = now + BOOTSTRAP_MS, sp_nonce = base64url random, sp_node_id = nodeId\<rparr>"

definition issueSession :: "auth_env \<Rightarrow> string \<Rightarrow> int \<Rightarrow> string \<Rightarrow> string option \<Rightarrow> string" where
  "issueSession env secret now random nodeId = sign_token env secret
     \<lparr>sp_type = Session, sp_exp = now + SESSION_MS, sp_nonce = base64url random, sp_node_id = nodeId\<rparr>"

definition validateSession :: "auth_env \<Rightarrow> string \<Rightarrow> int \<Rightarrow> string \<Rightarrow> bool" where
  "validateSession env secret now token = is_ok (verify_token env secret now token Session)"

text \<open>
  The body of the exchange queue: expired nonces are forgotten, a nonce in the file is refused
  (an expiry of 0 would count as absent), and the nonce is recorded with the payload's expiry.
\<close>

definition redeem_nonce :: "int \<Rightarrow> signed_payload \<Rightarrow> (string \<times> int) list \<Rightarrow> (unit res) \<times> (string \<times> int) list" where
  "redeem_nonce now payload nonces =
     (let used = filter (\<lambda>(nonce, expiry). \<not> expiry < now) nonces
      in case oget used (sp_nonce payload) of
           Some expiry \<Rightarrow>
             if expiry \<noteq> 0 then (Inl ''Bootstrap token has already been used'', nonces)
             else (Inr (), oset (sp_nonce payload) (sp_exp payload) used)
         | None \<Rightarrow> (Inr (), oset (sp_nonce payload) (sp_exp payload) used))"

text \<open>
  \<open>exchangeBootstrap\<close> checks the token when it is called, and redeems its nonce when its turn in the
  queue comes.  The state is the nonce file and the queue; the log records, of each session that
  was signed, when its token was checked and redeemed.
\<close>

record exchange =
  ex_payload :: signed_payload
  ex_checked :: int
  ex_redeemed :: int

record exchange_state =
  xs_nonces :: "(string \<times> int) list"
  xs_queue :: "(signed_payload \<times> int) list"
  xs_log :: "exchange list"

datatype exchange_event =
    Call int string     \<comment> \<open>the time and the token\<close>
  | Turn int int string \<comment> \<open>the times the first of the queue is redeemed and its session signed, and random bytes\<close>

definition exchange_call :: "auth_env \<Rightarrow> string \<Rightarrow> int \<Rightarrow> string \<Rightarrow> exchange_state \<Rightarrow> exchange_state" where
  "exchange_call env secret now token st =
     (case verify_token env secret now token Bootstrap of
        Inl _ \<Rightarrow> st
      | Inr payload \<Rightarrow> st\<lparr>xs_queue := xs_queue st @ [(payload, now)]\<rparr>)"

definition exchange_turn ::
    "auth_env \<Rightarrow> string \<Rightarrow> int \<Rightarrow> int \<Rightarrow> string \<Rightarrow> exchange_state \<Rightarrow> string res \<times> exchange_state" where
  "exchange_turn env secret now signed random st =
     (case xs_queue st of
        [] \<Rightarrow> (Inl ''nothing to do'', st)
      | (payload, checked) # rest \<Rightarrow>
          (case redeem_nonce now payload (xs_nonces st) of
             (Inl e, nonces) \<Rightarrow> (Inl e, st\<lparr>xs_queue := rest, xs_nonces := nonces\<rparr>)
           | (Inr _, nonces) \<Rightarrow>
               (Inr (issueSession env secret signed random (sp_node_id payload)),
                st\<lparr>xs_queue := rest, xs_nonces := nonces,
                   xs_log := xs_log st @ [\<lparr>ex_payload = payload, ex_checked = checked, ex_redeemed = now\<rparr>]\<rparr>)))"

fun exchange_step :: "auth_env \<Rightarrow> string \<Rightarrow> exchange_event \<Rightarrow> exchange_state \<Rightarrow> exchange_state" where
  "exchange_step env secret (Call now token) st = exchange_call env secret now token st"
| "exchange_step env secret (Turn now signed random) st = snd (exchange_turn env secret now signed random st)"

section \<open>Round trips\<close>

lemma base64url_no_dot: "CHR ''.'' \<notin> set (base64url s)"
  using base64url_safe [of "CHR ''.''" s]
  by (auto simp: is_base64url_def is_alnum_def is_digit_def is_upper_def is_lower_def)

lemma token_parts_signed:
  "token_parts (base64url a @ ''.'' @ base64url b) = (base64url a, base64url b)"
  by (simp add: token_parts_def split_on_join split_on_plain base64url_no_dot)

lemma payload_text: "stringify fmt (payload_json p) \<noteq> []"
  by (simp add: payload_json_def)

lemma verify_signed:
  assumes "ae_parse env (stringify (ae_fmt env) (payload_json p)) = Some p"
    and "ae_hmac env secret (base64url (stringify (ae_fmt env) (payload_json p))) \<noteq> []"
  shows "verify_token env secret now (sign_token env secret p) ty =
    (if sp_type p = ty \<and> now \<le> sp_exp p \<and> sp_nonce p \<noteq> [] then Inr p else Inl ''Expired or invalid admin token'')"
  using assms by (auto simp: verify_token_def sign_token_def Let_def token_parts_signed [simplified] payload_text)

text \<open>
  Issuing and checking agree.  A token the manager has signed is accepted, with exactly its
  payload, while it has not expired and where a token of its type is wanted, and nowhere else: a bootstrap
  token is never a session.
\<close>

theorem admin_token_roundtrip:
  assumes "ae_parse env (stringify (ae_fmt env) (payload_json p)) = Some p"
    and "ae_hmac env secret (base64url (stringify (ae_fmt env) (payload_json p))) \<noteq> []"
  shows "verify_token env secret now (sign_token env secret p) ty =
    (if sp_type p = ty \<and> now \<le> sp_exp p \<and> sp_nonce p \<noteq> [] then Inr p else Inl ''Expired or invalid admin token'')"
  by (rule verify_signed [OF assms])

definition example_payload :: signed_payload where
  "example_payload = \<lparr>sp_type = Bootstrap, sp_exp = 100, sp_nonce = ''n'', sp_node_id = None\<rparr>"

definition example_auth :: auth_env where
  "example_auth = \<lparr>ae_hmac = (\<lambda>secret text. secret @ text), ae_parse = (\<lambda>s. Some example_payload), ae_fmt = (\<lambda>_. [])\<rparr>"

theorem admin_token_roundtrip_witness:
  "verify_token example_auth ''k'' 100 (sign_token example_auth ''k'' example_payload) Bootstrap = Inr example_payload \<and>
   verify_token example_auth ''k'' 100 (sign_token example_auth ''k'' example_payload) Session = Inl ''Expired or invalid admin token''"
  by (simp add: admin_token_roundtrip example_auth_def) (simp add: example_payload_def)

section \<open>A bootstrap token is exchanged once\<close>

fun event_time :: "exchange_event \<Rightarrow> int" where
  "event_time (Call now _) = now"
| "event_time (Turn now _ _) = now"

definition later_than_expiry :: "exchange \<Rightarrow> exchange \<Rightarrow> bool" where
  "later_than_expiry x y \<longleftrightarrow>
     (sp_nonce (ex_payload x) = sp_nonce (ex_payload y) \<longrightarrow> sp_exp (ex_payload x) < ex_redeemed y)"

definition exchange_inv :: "int \<Rightarrow> exchange_state \<Rightarrow> bool" where
  "exchange_inv now st \<longleftrightarrow>
     (\<forall>(p, c) \<in> set (xs_queue st). 0 < c \<and> c \<le> sp_exp p) \<and>
     (\<forall>x \<in> set (xs_log st). 0 < ex_checked x \<and> ex_checked x \<le> sp_exp (ex_payload x) \<and>
        (sp_exp (ex_payload x) < now \<or> oget (xs_nonces st) (sp_nonce (ex_payload x)) = Some (sp_exp (ex_payload x)))) \<and>
     sorted_wrt later_than_expiry (xs_log st)"

lemma oget_filter_kept: "oget kvs k = Some v \<Longrightarrow> P v \<Longrightarrow> oget (filter (\<lambda>(k, v). P v) kvs) k = Some v"
  by (induction kvs) (auto split: if_splits)

lemma exchange_inv_step:
  assumes "exchange_inv t st" and "t \<le> event_time e" and "0 < event_time e"
  shows "exchange_inv (event_time e) (exchange_step env secret e st)"
proof (cases e)
  case (Call now token)
  have "exchange_inv now st" using assms(1,2) Call by (fastforce simp: exchange_inv_def)
  then show ?thesis using assms(3) Call
    by (auto simp: exchange_call_def exchange_inv_def verify_token_def split: prod.splits if_splits option.splits sum.splits)
next
  case (Turn now signed random)
  have mono: "exchange_inv now st" using assms(1,2) Turn by (fastforce simp: exchange_inv_def)
  show ?thesis
  proof (cases "xs_queue st")
    case Nil
    then show ?thesis using mono Turn by (simp add: exchange_turn_def)
  next
    case (Cons pc rest)
    obtain p c where pc: "pc = (p, c)" by (cases pc)
    let ?used = "filter (\<lambda>(nonce, expiry). \<not> expiry < now) (xs_nonces st)"
    obtain r nonces where red: "redeem_nonce now p (xs_nonces st) = (r, nonces)" by fastforce
    show ?thesis
    proof (cases r)
      case (Inl e)
      then have "nonces = xs_nonces st" using red by (auto simp: redeem_nonce_def Let_def split: option.splits if_splits)
      then show ?thesis using mono Turn Cons pc red Inl by (simp add: exchange_turn_def exchange_inv_def)
    next
      case (Inr u)
      then have free: "oget ?used (sp_nonce p) \<in> {None, Some 0}" and nonces: "nonces = oset (sp_nonce p) (sp_exp p) ?used"
        using red by (auto simp: redeem_nonce_def Let_def split: option.splits if_splits)
      have past: "sp_exp (ex_payload x) < now" if "x \<in> set (xs_log st)" "sp_nonce (ex_payload x) = sp_nonce p" for x
      proof (rule ccontr)
        assume late: "\<not> sp_exp (ex_payload x) < now"
        then have "oget (xs_nonces st) (sp_nonce p) = Some (sp_exp (ex_payload x))" "0 < sp_exp (ex_payload x)"
          using mono that by (auto simp: exchange_inv_def)
        then show False using oget_filter_kept [of _ _ _ "\<lambda>v. \<not> v < now"] late free by fastforce
      qed
      have keep: "sp_exp (ex_payload x) < now \<or> oget nonces (sp_nonce (ex_payload x)) = Some (sp_exp (ex_payload x))"
        if "x \<in> set (xs_log st)" for x
        using mono that past [OF that] oget_filter_kept [of "xs_nonces st" _ _ "\<lambda>v. \<not> v < now"]
        by (auto simp: exchange_inv_def nonces)
      have "0 < c \<and> c \<le> sp_exp p" using mono Cons pc by (auto simp: exchange_inv_def)
      moreover have "oget nonces (sp_nonce p) = Some (sp_exp p)" by (simp add: nonces)
      ultimately show ?thesis using mono Turn Cons pc red Inr keep past
        by (auto simp: exchange_turn_def exchange_inv_def sorted_wrt_append later_than_expiry_def)
    qed
  qed
qed

lemma exchange_inv_history:
  "exchange_inv t st \<Longrightarrow> sorted (t # map event_time es) \<Longrightarrow> 0 \<le> t \<Longrightarrow> \<forall>e \<in> set es. 0 < event_time e \<Longrightarrow>
     \<exists>t. exchange_inv t (fold (exchange_step env secret) es st)"
proof (induction es arbitrary: t st)
  case (Cons e es)
  have "exchange_inv (event_time e) (exchange_step env secret e st)"
    by (rule exchange_inv_step) (use Cons.prems in auto)
  then show ?case using Cons.IH [of "event_time e"] Cons.prems by simp
qed auto


definition late_history :: "exchange_event list" where
  "late_history = (let token = sign_token example_auth ''k'' example_payload
     in [Call 50 token, Turn 50 50 [], Call 100 token, Turn 101 101 []])"

lemma late_history_log:
  "xs_log (fold (exchange_step example_auth ''k'') late_history \<lparr>xs_nonces = [], xs_queue = [], xs_log = []\<rparr>) =
     [\<lparr>ex_payload = example_payload, ex_checked = 50, ex_redeemed = 50\<rparr>,
      \<lparr>ex_payload = example_payload, ex_checked = 100, ex_redeemed = 101\<rparr>]"
proof -
  have v: "verify_token example_auth ''k'' now (sign_token example_auth ''k'' example_payload) Bootstrap = Inr example_payload"
    if "now \<le> 100" for now
    using that by (subst verify_signed) (simp_all add: example_auth_def, simp_all add: example_payload_def)
  show ?thesis
    by (simp add: late_history_def Let_def exchange_call_def v exchange_turn_def redeem_nonce_def) (simp add: example_payload_def)
qed


text \<open>
  The expiry can pass in the queue.  The file forgets a nonce as soon as it has expired, and the
  check of the token is not repeated when its turn comes; so a used token that is presented again in its last
  millisecond, and gets its turn after it, is exchanged for a second session.
\<close>

theorem late_bootstrap_exchanged_twice:
  "map ex_payload (xs_log (fold (exchange_step example_auth ''k'') late_history \<lparr>xs_nonces = [], xs_queue = [], xs_log = []\<rparr>)) =
     [example_payload, example_payload]"
  by (simp add: late_history_log)

end
