(* ===== verification/InternalAuth.thy ===== *)
theory InternalAuth
  imports Base64 JsValue
begin

text \<open>
  The internal authorization that Control mints for the Node Manager,
  \<open>apps/manager/src/internal-auth.ts\<close>: \<open>verifyControlInternalAuthorization\<close> and the validation of
  the context it carries.  Every refusal is the same error.
\<close>

record internal_context =
  ic_principal_id :: string
  ic_credential_id :: "string option"
  ic_workspace_id :: string
  ic_project_id :: string
  ic_human_peer_id :: "string option"
  ic_agent_peer_id :: "string option"
  ic_capabilities :: "string list"
  ic_request_id :: string

text \<open>\<open>undefined\<close>, a header given once, a header given several times\<close>

datatype auth_header = NoHeader | OneHeader string | ManyHeaders "string list"

definition INVALID :: string where
  "INVALID = ''Invalid internal authorization''"

section \<open>The context\<close>

definition forbidden_char :: "char \<Rightarrow> bool" where
  "forbidden_char c = (c = CHR 0x00 \<or> c = CHR 0x0D \<or> c = CHR 0x0A)"

definition scopedString :: "nat \<Rightarrow> json option \<Rightarrow> string res" where
  "scopedString maxLength v =
     (case Option.bind v as_string of
        None \<Rightarrow> Inl INVALID
      | Some s \<Rightarrow> if s = [] \<or> maxLength < js_length s \<or> list_ex forbidden_char s then Inl INVALID else Inr s)"

definition optionalScoped :: "json option \<Rightarrow> string option res" where
  "optionalScoped v = (if nullish v then Inr None else rbind (scopedString 256 v) (\<lambda>s. Inr (Some s)))"

definition validateContext :: "json option \<Rightarrow> internal_context res" where
  "validateContext v =
     (case Option.bind v as_object of
        None \<Rightarrow> Inl INVALID
      | Some c \<Rightarrow>
          rbind (scopedString 256 (oget c ''principal_id'')) (\<lambda>principalId.
          rbind (scopedString 256 (oget c ''workspace_id'')) (\<lambda>workspaceId.
          rbind (scopedString 256 (oget c ''project_id'')) (\<lambda>projectId.
          rbind (scopedString 256 (oget c ''request_id'')) (\<lambda>requestId.
          case arr_field c ''capabilities'' of
            None \<Rightarrow> Inl INVALID
          | Some caps \<Rightarrow>
              if 128 < length caps then Inl INVALID
              else rbind (rmap_list (\<lambda>v. scopedString 128 (Some v)) caps) (\<lambda>capabilities.
                if \<not> distinct capabilities then Inl INVALID
                else rbind (optionalScoped (oget c ''credential_id'')) (\<lambda>credentialId.
                     rbind (optionalScoped (oget c ''human_peer_id'')) (\<lambda>humanPeerId.
                     rbind (optionalScoped (oget c ''agent_peer_id'')) (\<lambda>agentPeerId.
                     Inr \<lparr>ic_principal_id = principalId, ic_credential_id = credentialId, ic_workspace_id = workspaceId,
                          ic_project_id = projectId, ic_human_peer_id = humanPeerId, ic_agent_peer_id = agentPeerId,
                          ic_capabilities = capabilities, ic_request_id = requestId\<rparr>)))))))))"

section \<open>The envelope\<close>

text \<open>
  \<open>/^Internal\s+(nmic1\.[A-Za-z0-9_-]+\.[A-Za-z0-9_-]+)$/i\<close>: the captured token, and the split of
  it at its points.
\<close>

definition match_internal :: "string \<Rightarrow> (string \<times> string \<times> string) option" where
  "match_internal header =
     (let rest = drop 8 header; token = trim_start rest
      in if to_lower (take 8 header) = ''internal'' \<and> token \<noteq> rest
         then (case split_on (CHR ''.'') token of
                 [version, encoded, provided] \<Rightarrow>
                   if to_lower version = ''nmic1'' \<and> encoded \<noteq> [] \<and> provided \<noteq> [] \<and>
                      list_all is_base64url encoded \<and> list_all is_base64url provided
                   then Some (token, encoded, provided) else None
               | _ \<Rightarrow> None)
         else None)"

definition MAX_SAFE :: int where
  "MAX_SAFE = 2 ^ 53 - 1"

definition safe_integer :: "json option \<Rightarrow> int option" where
  "safe_integer v = (case Option.bind v as_integer of
     None \<Rightarrow> None | Some i \<Rightarrow> if \<bar>i\<bar> \<le> MAX_SAFE then Some i else None)"

text \<open>\<open>hmac\<close> is HMAC-SHA-256, \<open>parse\<close> is \<open>JSON.parse\<close>; \<open>now\<close> is in milliseconds.\<close>

definition verifyControlInternalAuthorization ::
    "(string \<Rightarrow> string \<Rightarrow> string) \<Rightarrow> (string \<Rightarrow> json option) \<Rightarrow> auth_header \<Rightarrow> string \<Rightarrow> int \<Rightarrow> internal_context res" where
  "verifyControlInternalAuthorization hmac parse authorization secret now =
     (case authorization of
        OneHeader header \<Rightarrow>
          if length secret < 32 then Inl INVALID
          else (case match_internal header of
            None \<Rightarrow> Inl INVALID
          | Some (token, encoded, provided) \<Rightarrow>
              if 32768 < length token \<or> length provided \<noteq> 43 then Inl INVALID
              else if un_base64url provided \<noteq> hmac secret encoded then Inl INVALID
              else (case Option.bind (parse (un_base64url encoded)) props of
                None \<Rightarrow> Inl INVALID
              | Some payload \<Rightarrow>
                  if oget payload ''v'' \<noteq> Some (JNum 1) then Inl INVALID
                  else (case (safe_integer (oget payload ''iat''), safe_integer (oget payload ''exp'')) of
                    (Some iat, Some expiry) \<Rightarrow>
                      let nowSeconds = now div 1000
                      in if nowSeconds + 60 < iat \<or> expiry \<le> nowSeconds \<or> expiry \<le> iat \<or> 300 < expiry - iat then Inl INVALID
                         else validateContext (oget payload ''context'')
                  | _ \<Rightarrow> Inl INVALID)))
      | _ \<Rightarrow> Inl INVALID)"

section \<open>What is accepted\<close>

definition scoped_ok :: "nat \<Rightarrow> string \<Rightarrow> bool" where
  "scoped_ok maxLength s \<longleftrightarrow> s \<noteq> [] \<and> js_length s \<le> maxLength \<and> \<not> list_ex forbidden_char s"

definition context_ok :: "internal_context \<Rightarrow> bool" where
  "context_ok c \<longleftrightarrow>
     list_all (scoped_ok 256) [ic_principal_id c, ic_workspace_id c, ic_project_id c, ic_request_id c] \<and>
     list_all (pred_option (scoped_ok 256)) [ic_credential_id c, ic_human_peer_id c, ic_agent_peer_id c] \<and>
     list_all (scoped_ok 128) (ic_capabilities c) \<and> distinct (ic_capabilities c) \<and> length (ic_capabilities c) \<le> 128"

definition lifetime_ok :: "int \<Rightarrow> int \<Rightarrow> int \<Rightarrow> bool" where
  "lifetime_ok now iat expiry \<longleftrightarrow>
     iat \<le> now div 1000 + 60 \<and> now div 1000 < expiry \<and> iat < expiry \<and> expiry \<le> iat + 300 \<and>
     \<bar>iat\<bar> \<le> MAX_SAFE \<and> \<bar>expiry\<bar> \<le> MAX_SAFE"

lemma scopedString_Inr: "scopedString m v = Inr s \<longleftrightarrow> v = Some (JStr s) \<and> scoped_ok m s"
  by (cases v; cases "the v") (auto simp: scopedString_def scoped_ok_def)

lemma optionalScoped_Inr:
  "optionalScoped v = Inr s \<Longrightarrow> pred_option (scoped_ok 256) s"
  by (auto simp: optionalScoped_def rbind_eq_Inr scopedString_Inr split: if_splits)

lemma validateContext_ok:
  assumes "validateContext v = Inr c"
  shows "context_ok c"
proof -
  have caps: "list_all (scoped_ok 128) out" if "rmap_list (\<lambda>v. scopedString 128 (Some v)) vs = Inr out" for vs out
    using that by (auto simp: rmap_list_Inr_iff list_all2_conv_all_nth list_all_length scopedString_Inr)
  obtain o1 where o1: "Option.bind v as_object = Some o1"
    using assms by (cases "Option.bind v as_object") (simp_all add: validateContext_def)
  obtain vs where vs: "arr_field o1 ''capabilities'' = Some vs"
    using assms o1 by (cases "arr_field o1 ''capabilities''") (simp_all add: validateContext_def rbind_eq_Inr)
  from assms obtain p w pr rq out cr h a where f:
      "scopedString 256 (oget o1 ''principal_id'') = Inr p" "scopedString 256 (oget o1 ''workspace_id'') = Inr w"
      "scopedString 256 (oget o1 ''project_id'') = Inr pr" "scopedString 256 (oget o1 ''request_id'') = Inr rq"
      "rmap_list (\<lambda>v. scopedString 128 (Some v)) vs = Inr out" "optionalScoped (oget o1 ''credential_id'') = Inr cr"
      "optionalScoped (oget o1 ''human_peer_id'') = Inr h" "optionalScoped (oget o1 ''agent_peer_id'') = Inr a"
      "length vs \<le> 128" "distinct out"
    and c: "c = \<lparr>ic_principal_id = p, ic_credential_id = cr, ic_workspace_id = w, ic_project_id = pr, ic_human_peer_id = h,
      ic_agent_peer_id = a, ic_capabilities = out, ic_request_id = rq\<rparr>"
    unfolding validateContext_def o1 by (auto simp: vs rbind_eq_Inr split: if_splits)
  show ?thesis
    using f(1-4) optionalScoped_Inr [OF f(6)] optionalScoped_Inr [OF f(7)] optionalScoped_Inr [OF f(8)]
      caps [OF f(5)] rmap_list_length [OF f(5)] f(9,10)
    by (simp add: context_ok_def c scopedString_Inr)
qed

lemma safe_integer_Some: "safe_integer v = Some i \<longleftrightarrow> v = Some (JNum (of_int i)) \<and> \<bar>i\<bar> \<le> MAX_SAFE"
  by (cases v; cases "the v") (auto simp: safe_integer_def split: if_splits option.splits)

text \<open>
  C22: What an accepted authorization proves.  It was given once, as \<open>Internal nmic1.payload.mac\<close>
  with the MAC of the payload under a secret of at least 32 bytes; the payload is of version 1,
  issued at most a minute ahead, not expired and valid for at most five minutes; and the context it yields has bounded, single-line
  identifiers and at most 128 distinct capabilities.
\<close>

theorem internal_authorization_sound:
  assumes "verifyControlInternalAuthorization hmac parse authorization secret now = Inr c"
  shows "\<exists>header token encoded provided payload iat expiry.
    authorization = OneHeader header \<and> match_internal header = Some (token, encoded, provided) \<and>
    32 \<le> length secret \<and> un_base64url provided = hmac secret encoded \<and>
    Option.bind (parse (un_base64url encoded)) props = Some payload \<and> oget payload ''v'' = Some (JNum 1) \<and>
    oget payload ''iat'' = Some (JNum (of_int iat)) \<and> oget payload ''exp'' = Some (JNum (of_int expiry)) \<and>
    lifetime_ok now iat expiry \<and> validateContext (oget payload ''context'') = Inr c \<and> context_ok c"
proof (cases authorization)
  case (OneHeader header)
  then obtain token encoded provided where m: "32 \<le> length secret" "match_internal header = Some (token, encoded, provided)"
    using assms by (auto simp: verifyControlInternalAuthorization_def split: if_splits option.splits)
  then have s: "un_base64url provided = hmac secret encoded"
    using assms OneHeader by (auto simp: verifyControlInternalAuthorization_def split: if_splits)
  obtain payload where p: "Option.bind (parse (un_base64url encoded)) props = Some payload"
    using assms OneHeader m s
    by (cases "Option.bind (parse (un_base64url encoded)) props")
      (simp_all add: verifyControlInternalAuthorization_def split: if_splits)
  obtain iat expiry where i: "safe_integer (oget payload ''iat'') = Some iat" "safe_integer (oget payload ''exp'') = Some expiry"
    and v: "oget payload ''v'' = Some (JNum 1)"
    using assms OneHeader m s p
    by (cases "safe_integer (oget payload ''iat'')"; cases "safe_integer (oget payload ''exp'')")
      (simp_all add: verifyControlInternalAuthorization_def split: if_splits)
  have r: "lifetime_ok now iat expiry \<and> validateContext (oget payload ''context'') = Inr c"
    using assms OneHeader m s p i v i [unfolded safe_integer_Some]
    by (auto simp: verifyControlInternalAuthorization_def lifetime_ok_def Let_def split: if_splits)
  then have "context_ok c" using validateContext_ok by blast
  then show ?thesis using OneHeader m s p i v r unfolding safe_integer_Some by blast
qed (use assms in \<open>simp_all add: verifyControlInternalAuthorization_def\<close>)

section \<open>What Control mints is accepted\<close>

definition context_json :: "internal_context \<Rightarrow> json" where
  "context_json c = (let opt = (\<lambda>v. case v of None \<Rightarrow> JNull | Some s \<Rightarrow> JStr s) in
     JObj [(''principal_id'', JStr (ic_principal_id c)), (''credential_id'', opt (ic_credential_id c)),
       (''workspace_id'', JStr (ic_workspace_id c)), (''project_id'', JStr (ic_project_id c)),
       (''human_peer_id'', opt (ic_human_peer_id c)), (''agent_peer_id'', opt (ic_agent_peer_id c)),
       (''capabilities'', JArr (map JStr (ic_capabilities c))), (''request_id'', JStr (ic_request_id c))])"

definition minted_payload :: "int \<Rightarrow> int \<Rightarrow> internal_context \<Rightarrow> json" where
  "minted_payload iat expiry c = JObj [(''v'', JNum 1), (''iat'', JNum (of_int iat)), (''exp'', JNum (of_int expiry)),
     (''context'', context_json c)]"

definition minted_token :: "(string \<Rightarrow> string \<Rightarrow> string) \<Rightarrow> string \<Rightarrow> string \<Rightarrow> string" where
  "minted_token hmac secret text = ''nmic1.'' @ base64url text @ ''.'' @ base64url (hmac secret (base64url text))"

lemma optionalScoped_json:
  "pred_option (scoped_ok 256) v \<Longrightarrow> optionalScoped (Some (case v of None \<Rightarrow> JNull | Some s \<Rightarrow> JStr s)) = Inr v"
  by (cases v) (simp_all add: optionalScoped_def nullish_def rbind_eq_Inr scopedString_Inr)

lemma validateContext_json:
  assumes "context_ok c"
  shows "validateContext (Some (context_json c)) = Inr c"
proof -
  have s: "scopedString m (Some (JStr x)) = Inr x" if "scoped_ok m x" for m x using that by (simp add: scopedString_Inr)
  have "rmap_list (\<lambda>v. scopedString 128 (Some v)) (map JStr (ic_capabilities c)) = Inr (ic_capabilities c)"
    using assms by (auto simp: rmap_list_Inr_iff list_all2_conv_all_nth context_ok_def list_all_length scopedString_Inr)
  then show ?thesis using assms
    by (simp add: validateContext_def context_json_def Let_def context_ok_def s optionalScoped_json arr_field_def)
qed

lemma trim_start_minted: "trim_start (CHR '' '' # CHR ''n'' # CHR ''m'' # CHR ''i'' # s) = CHR ''n'' # CHR ''m'' # CHR ''i'' # s"
  by (subst trim_start.simps, subst trim_start.simps) (simp add: ws_front_def)

lemma match_minted:
  assumes "text \<noteq> []" and "hmac secret (base64url text) \<noteq> []"
  shows "match_internal (''Internal '' @ minted_token hmac secret text) =
    Some (minted_token hmac secret text, base64url text, base64url (hmac secret (base64url text)))"
proof -
  have plain: "list_all is_base64url (base64url s)" for s by (auto simp: list_all_iff base64url_safe)
  have dot: "CHR ''.'' \<notin> set (base64url s)" for s
    using base64url_safe [of "CHR ''.''" s]
    by (auto simp: is_base64url_def is_alnum_def is_digit_def is_upper_def is_lower_def)
  have parts: "split_on (CHR ''.'') (minted_token hmac secret text) =
      [''nmic1'', base64url text, base64url (hmac secret (base64url text))]"
    by (simp add: minted_token_def split_on_join split_on_plain dot)
  have rest: "drop 8 (''Internal '' @ minted_token hmac secret text) = CHR '' '' # minted_token hmac secret text" by simp
  have token: "trim_start (CHR '' '' # minted_token hmac secret text) = minted_token hmac secret text"
    by (simp add: minted_token_def trim_start_minted)
  have low: "to_lower ''nmic1'' = ''nmic1''" by (simp add: to_lower_def lower_char_def is_upper_def)
  have "to_lower ''Internal'' = ''internal''" by code_simp
  then have "to_lower (take 8 (''Internal '' @ minted_token hmac secret text)) = ''internal''" by simp
  then show ?thesis unfolding match_internal_def rest token Let_def parts
    using assms by (simp add: plain low)
qed

lemma minted_accepted:
  assumes "context_ok c" and "lifetime_ok now iat expiry" and "32 \<le> length secret"
    and "parse text = Some (minted_payload iat expiry c)"
    and "length (hmac secret (base64url text)) = 32" and "length (minted_token hmac secret text) \<le> 32768" and "text \<noteq> []"
  shows "verifyControlInternalAuthorization hmac parse (OneHeader (''Internal '' @ minted_token hmac secret text)) secret now = Inr c"
proof -
  have i: "safe_integer (Some (JNum (of_int iat))) = Some iat" "safe_integer (Some (JNum (of_int expiry))) = Some expiry"
    using assms(2) by (simp_all add: safe_integer_Some lifetime_ok_def)
  have "hmac secret (base64url text) \<noteq> []" using assms(5) by auto
  then show ?thesis using assms
    by (simp add: verifyControlInternalAuthorization_def match_minted [simplified] length_base64url minted_payload_def i
        lifetime_ok_def validateContext_json Let_def)
qed

text \<open>
  C23: What Control mints is accepted.  An envelope signed with the shared secret, of a context
  within the bounds and an admissible lifetime, yields exactly that context.
\<close>

theorem minted_authorization_accepted:
  assumes "context_ok c" and "lifetime_ok now iat expiry" and "32 \<le> length secret"
    and "parse text = Some (minted_payload iat expiry c)"
    and "length (hmac secret (base64url text)) = 32" and "length (minted_token hmac secret text) \<le> 32768" and "text \<noteq> []"
  shows "verifyControlInternalAuthorization hmac parse (OneHeader (''Internal '' @ minted_token hmac secret text)) secret now = Inr c"
  using assms by (rule minted_accepted)

definition example_internal :: internal_context where
  "example_internal = \<lparr>ic_principal_id = ''p'', ic_credential_id = None, ic_workspace_id = ''w'', ic_project_id = ''j'',
     ic_human_peer_id = None, ic_agent_peer_id = Some ''a'', ic_capabilities = [''r'', ''w''], ic_request_id = ''q''\<rparr>"

definition example_mac :: "string \<Rightarrow> string \<Rightarrow> string" where
  "example_mac secret text = take 32 (text @ secret)"

definition example_secret :: string where
  "example_secret = replicate 32 (CHR ''k'')"

lemma example_internal_ok: "context_ok example_internal" "lifetime_ok 5000 0 10"
  by (simp_all add: context_ok_def example_internal_def scoped_ok_def units_def forbidden_char_def lifetime_ok_def MAX_SAFE_def)

theorem minted_authorization_accepted_witness:
  "verifyControlInternalAuthorization example_mac (\<lambda>s. if s = ''{}'' then Some (minted_payload 0 10 example_internal) else None)
     (OneHeader (''Internal '' @ minted_token example_mac example_secret ''{}'')) example_secret 5000 = Inr example_internal"
  by (rule minted_authorization_accepted [OF example_internal_ok])
    (simp_all add: example_secret_def example_mac_def minted_token_def length_base64url)

theorem internal_authorization_sound_witness: "context_ok example_internal"
proof -
  let ?parse = "\<lambda>s. if s = ''{}'' then Some (minted_payload 0 10 example_internal) else None"
  have "verifyControlInternalAuthorization example_mac ?parse
      (OneHeader (''Internal '' @ minted_token example_mac example_secret ''{}'')) example_secret 5000 = Inr example_internal"
    by (rule minted_accepted [OF example_internal_ok])
      (simp_all add: example_secret_def example_mac_def minted_token_def length_base64url)
  from internal_authorization_sound [OF this] show ?thesis by blast
qed

end
