(* ===== verification/EnvFile.thy ===== *)
theory EnvFile
  imports Json
begin

text \<open>
  The private env file of a node, in \<open>apps/manager/src/node-deployment-manager.ts\<close>:
  \<open>readPrivateEnv\<close>, which reads its text, and \<open>replaceEnvValues\<close>, which changes values in it
  with \<open>String.replace\<close>, whose replacement patterns are part of the model.  Lines end at line
  feeds and carriage returns (the two Unicode line separators are not told apart from other characters).
\<close>

section \<open>Reading\<close>

abbreviation LF :: char where "LF \<equiv> CHR 0x0A"
abbreviation CR :: char where "CR \<equiv> CHR 0x0D"

text \<open>\<open>/^[A-Z][A-Z0-9_]*$/\<close>\<close>

definition env_key_ok :: "string \<Rightarrow> bool" where
  "env_key_ok key = (case key of [] \<Rightarrow> False
     | c # cs \<Rightarrow> is_upper c \<and> list_all (\<lambda>c. is_upper c \<or> is_digit c \<or> c = CHR ''_'') cs)"

definition is_line_end :: "char \<Rightarrow> bool" where
  "is_line_end c = (c = LF \<or> c = CR)"

text \<open>A value in quotes: \<open>value.replace(/^(['"])(.*)\1$/, "$2")\<close>\<close>

definition quoted :: "string \<Rightarrow> bool" where
  "quoted v = (2 \<le> length v \<and> hd v \<in> {CHR 0x22, CHR 0x27} \<and> last v = hd v \<and> \<not> list_ex is_line_end v)"

definition unquote :: "string \<Rightarrow> string" where
  "unquote v = (if quoted v then butlast (tl v) else v)"

definition bad_control :: "string \<Rightarrow> bool" where
  "bad_control v = list_ex (\<lambda>c. is_line_end c \<or> c = CHR 0x00) v"

text \<open>One line: nothing, an entry, or an error; \<open>n\<close> is the index of the line.\<close>

definition env_line :: "nat \<Rightarrow> string \<Rightarrow> (string \<times> string) option res" where
  "env_line n line =
     (let trimmed = trim line
      in if trimmed = [] \<or> hd trimmed = CHR ''#'' then Inr None
         else let key = takeWhile (\<lambda>c. c \<noteq> CHR ''='') trimmed
              in if key = trimmed \<or> key = [] then Inl (''invalid Node env entry on line '' @ dec_str (n + 1))
                 else if \<not> env_key_ok key then Inl (''invalid Node env key '' @ [CHR 0x27] @ key @ [CHR 0x27])
                 else let v = unquote (drop (length key + 1) trimmed)
                      in if bad_control v then Inl (''invalid control character in '' @ key) else Inr (Some (key, v)))"

text \<open>The carriage return before a line feed belongs to the separator, and \<open>trim\<close> takes it anyway.\<close>

definition env_entries :: "string list \<Rightarrow> (string \<times> string) list res" where
  "env_entries lines = rbind (rmap_list (\<lambda>(n, line). env_line n line) (zip [0..<length lines] lines))
     (\<lambda>es. Inr (List.map_filter (\<lambda>e. e) es))"

definition readEnv :: "string \<Rightarrow> (string \<times> string) list res" where
  "readEnv raw = rbind (env_entries (split_on LF raw)) (\<lambda>es. Inr (from_entries es))"

section \<open>Changing values\<close>

text \<open>
  \<open>new RegExp(`^${key}=.*$`, "m")\<close>: the text before the first match, the match, and the rest.
  The key is made of word characters, so it stands for itself.
\<close>

fun find_entry :: "string \<Rightarrow> bool \<Rightarrow> string \<Rightarrow> string \<Rightarrow> (string \<times> string \<times> string) option" where
  "find_entry key at_start before [] = None"
| "find_entry key at_start before (c # cs) =
     (if at_start \<and> starts_with (key @ ''='') (c # cs)
      then Some (before, takeWhile (\<lambda>c. \<not> is_line_end c) (c # cs), dropWhile (\<lambda>c. \<not> is_line_end c) (c # cs))
      else find_entry key (is_line_end c) (before @ [c]) cs)"

text \<open>
  The replacement of \<open>String.replace\<close> for an expression without groups: \<open>$$\<close> is a dollar sign,
  \<open>$&\<close> the match, and the dollar sign with a back or a forward quote what is before or after it.
\<close>

fun expand_replacement :: "string \<Rightarrow> string \<Rightarrow> string \<Rightarrow> string \<Rightarrow> string" where
  "expand_replacement before matched after (c # d # r) =
     (if c \<noteq> CHR ''$'' then c # expand_replacement before matched after (d # r)
      else if d = CHR ''$'' then CHR ''$'' # expand_replacement before matched after r
      else if d = CHR ''&'' then matched @ expand_replacement before matched after r
      else if d = CHR 0x60 then before @ expand_replacement before matched after r
      else if d = CHR 0x27 then after @ expand_replacement before matched after r
      else c # expand_replacement before matched after (d # r))"
| "expand_replacement before matched after r = r"

definition printable :: "char \<Rightarrow> bool" where
  "printable c = (32 \<le> code c \<and> code c \<le> 126)"

definition ends_with_lf :: "string \<Rightarrow> bool" where
  "ends_with_lf s = (s \<noteq> [] \<and> last s = LF)"

fun replaceEnvValues :: "string \<Rightarrow> (string \<times> string) list \<Rightarrow> string res" where
  "replaceEnvValues output [] = Inr output"
| "replaceEnvValues output ((key, v) # values) =
     (if \<not> list_all printable v then Inl (''Invalid '' @ key)
      else replaceEnvValues
        (case find_entry key True [] output of
           Some (before, matched, after) \<Rightarrow>
             before @ expand_replacement before matched after (key @ ''='' @ v) @ after
         | None \<Rightarrow> output @ (if ends_with_lf output then [] else [LF]) @ key @ ''='' @ v @ [LF])
        values)"

section \<open>Lines of a text\<close>

definition join_lines :: "string list \<Rightarrow> string" where
  "join_lines ls = join [LF] ls"

lemma join_lines_simps [simp]:
  "join_lines [l] = l" "join_lines (l # m # ls) = l @ LF # join_lines (m # ls)"
  by (simp_all add: join_lines_def)

lemma split_on_no: "d \<notin> set l \<Longrightarrow> split_on d l = [l]"
  by (induction l) auto

lemma split_on_sep: "d \<notin> set l \<Longrightarrow> split_on d (l @ d # s) = l # split_on d s"
  by (induction l) (auto split: list.splits)

lemma split_on_sep_join: "ls \<noteq> [] \<Longrightarrow> \<forall>l \<in> set ls. LF \<notin> set l \<Longrightarrow> split_on LF (join_lines ls) = ls"
proof (induction ls rule: induct_list012)
  case (3 l m ls)
  then show ?case by (simp add: split_on_sep)
qed (auto simp: split_on_no)

lemma split_on_lines: "\<forall>l \<in> set (split_on d s). d \<notin> set l"
  by (induction s) (auto split: list.splits)

lemma split_on_nonempty [simp]: "split_on d s \<noteq> []"
  by (induction s) (auto split: list.splits)

lemma join_lines_split: "join_lines (split_on LF s) = s"
proof (induction s)
  case (Cons c s)
  obtain w ws where "split_on LF s = w # ws" by (cases "split_on LF s") auto
  then show ?case using Cons by (cases ws) auto
qed simp

section \<open>Finding an entry, line by line\<close>

text \<open>The first line that starts with \<open>key=\<close>\<close>

fun find_line :: "string \<Rightarrow> string list \<Rightarrow> (string list \<times> string \<times> string list) option" where
  "find_line key [] = None"
| "find_line key (l # ls) =
     (if starts_with (key @ ''='') l then Some ([], l, ls)
      else map_option (\<lambda>(before, m, after). (l # before, m, after)) (find_line key ls))"

definition prefix_lines :: "string list \<Rightarrow> string" where
  "prefix_lines ls = concat (map (\<lambda>l. l @ [LF]) ls)"

definition suffix_lines :: "string list \<Rightarrow> string" where
  "suffix_lines ls = concat (map (\<lambda>l. LF # l) ls)"

lemma join_lines_parts: "join_lines (before @ m # after) = prefix_lines before @ m @ suffix_lines after"
proof (induction before)
  case Nil
  show ?case by (induction after arbitrary: m) (auto simp: prefix_lines_def suffix_lines_def)
next
  case (Cons l before)
  then show ?case by (cases before) (auto simp: prefix_lines_def)
qed

lemma starts_with_line:
  assumes "LF \<notin> set p"
  shows "starts_with p (l @ LF # s) \<longleftrightarrow> starts_with p l"
proof (cases "length p \<le> length l")
  case True
  then show ?thesis by (simp add: starts_with_def)
next
  case False
  then obtain n where n: "length p - length l = Suc n" by (metis Suc_diff_Suc not_le)
  then have "take (length p) (l @ LF # s) \<noteq> p" using assms by (auto dest!: arg_cong [where f = set])
  moreover have "length (take (length p) l) \<noteq> length p" using False by simp
  ultimately show ?thesis unfolding starts_with_def by metis
qed

definition plain_line :: "string \<Rightarrow> bool" where
  "plain_line l = (\<not> list_ex is_line_end l)"

lemma find_entry_inside: "plain_line l \<Longrightarrow> find_entry key False before (l @ r) = find_entry key False (before @ l) r"
  by (induction l arbitrary: before) (auto simp: plain_line_def)

lemma find_entry_other:
  assumes "plain_line l" and "\<not> starts_with (key @ ''='') l" and "LF \<notin> set key"
  shows "find_entry key True before (l @ LF # s) = find_entry key True (before @ l @ [LF]) s"
    and "find_entry key True before l = None"
proof -
  have n: "\<not> starts_with (key @ ''='') (l @ LF # s)" using assms(2,3) starts_with_line [of "key @ ''=''" l s] by simp
  show "find_entry key True before (l @ LF # s) = find_entry key True (before @ l @ [LF]) s"
  proof (cases l)
    case Nil
    then show ?thesis using n by (simp add: is_line_end_def)
  next
    case (Cons c cs)
    then show ?thesis using n assms(1) find_entry_inside [of cs key "before @ [c]" "LF # s"]
      by (simp add: plain_line_def is_line_end_def)
  qed
  show "find_entry key True before l = None"
  proof (cases l)
    case (Cons c cs)
    then show ?thesis using assms(1,2) find_entry_inside [of cs key "before @ [c]" "[]"]
      by (simp add: plain_line_def)
  qed simp
qed

lemma find_entry_here:
  assumes "plain_line l" and "starts_with (key @ ''='') l" and "LF \<notin> set key"
  shows "find_entry key True before (l @ suffix_lines ls) = Some (before, l, suffix_lines ls)"
proof -
  have "starts_with (key @ ''='') (l @ suffix_lines ls)"
    using assms(2,3) starts_with_line [of "key @ ''=''" l] by (cases ls) (auto simp: suffix_lines_def)
  moreover obtain c cs where "l = c # cs" using assms(2) by (cases l) (auto simp: starts_with_def)
  moreover have "takeWhile (\<lambda>c. \<not> is_line_end c) (l @ suffix_lines ls) = l"
      "dropWhile (\<lambda>c. \<not> is_line_end c) (l @ suffix_lines ls) = suffix_lines ls"
    using assms(1) by (cases ls; auto simp: plain_line_def list_ex_iff suffix_lines_def is_line_end_def takeWhile_append dropWhile_append)+
  ultimately show ?thesis by simp
qed

lemma find_entry_lines:
  assumes "\<forall>l \<in> set (m # ls). plain_line l" and "LF \<notin> set key"
  shows "find_entry key True before (join_lines (m # ls)) =
    map_option (\<lambda>(b, l, a). (before @ prefix_lines b, l, suffix_lines a)) (find_line key (m # ls))"
  using assms
proof (induction ls arbitrary: m before)
  case Nil
  then show ?case
    using find_entry_here [of m key before "[]"] find_entry_other(2) [of m key before]
    by (auto simp: suffix_lines_def prefix_lines_def)
next
  case (Cons l ls)
  show ?case
  proof (cases "starts_with (key @ ''='') m")
    case True
    then show ?thesis
      using Cons.prems find_entry_here [of m key before "l # ls"] join_lines_parts [of "[]" m "l # ls"]
      by (simp add: prefix_lines_def)
  next
    case False
    then show ?thesis
      using Cons.prems find_entry_other(1) [of m key before "join_lines (l # ls)"] Cons.IH [of l "before @ m @ [LF]"]
      by (auto simp: prefix_lines_def option.map_comp o_def case_prod_unfold intro!: option.map_cong)
  qed
qed

lemma expand_plain: "CHR ''$'' \<notin> set r \<Longrightarrow> expand_replacement before matched after r = r"
  by (induction r rule: expand_replacement.induct [of _ before matched after]) auto

end
