(* ===== verification/NodeConfig.thy ===== *)
theory NodeConfig
  imports EnvFile JsValue
begin

text \<open>
  The configuration of a node deployment, in \<open>apps/manager/src/node-deployment-manager.ts\<close>: what
  \<open>validateConfig\<close> demands of the private env file, the public URL, the preflight checks, and the
  phase the admin status reports.  What \<open>docker\<close> and \<open>nvidia-smi\<close> answer is an argument.
\<close>

section \<open>The environment\<close>

type_synonym env = "(string \<times> string) list"

text \<open>\<open>env.KEY || ""\<close>: every use in the code treats an absent and an empty value alike.\<close>

definition eget :: "env \<Rightarrow> string \<Rightarrow> string" where
  "eget env key = (case oget env key of None \<Rightarrow> [] | Some v \<Rightarrow> v)"

definition eget_or :: "env \<Rightarrow> string \<Rightarrow> string \<Rightarrow> string" where
  "eget_or env key d = (if eget env key = [] then d else eget env key)"

definition REQUIRED_ENV :: "string list" where
  "REQUIRED_ENV = [
     ''COMPOSE_PROJECT_NAME'', ''NEUROMEM_NODE_ID'', ''NEUROMEM_PUBLIC_HOST'',
     ''CONTROL_POSTGRES_DB'', ''CONTROL_POSTGRES_USER'', ''CONTROL_POSTGRES_PASSWORD'',
     ''CONTROL_TOKEN_PEPPER'', ''CONTROL_INTERNAL_SIGNING_KEY'',
     ''MEMORY_POSTGRES_DB'', ''MEMORY_POSTGRES_USER'', ''MEMORY_POSTGRES_PASSWORD'',
     ''MEMORY_REDIS_PASSWORD'', ''MEMORY_INTERNAL_SIGNING_KEY'', ''MEMORY_AUTH_JWT_SECRET'',
     ''MEMORY_CORE_IMAGE'', ''MEMORY_CORE_SOURCE_URL'', ''MEMORY_CORE_SOURCE_REVISION'',
     ''EMBEDDING_BASE_URL'', ''EMBEDDING_API_KEY'', ''EMBEDDING_MODEL'',
     ''GENERATION_BASE_URL'', ''GENERATION_API_KEY'', ''GENERATION_MODEL'',
     ''CONTROL_DB_VOLUME'', ''MEMORY_DB_VOLUME'', ''MEMORY_REDIS_VOLUME'', ''MCP_STATE_VOLUME'']"

definition SECRET_ENV :: "string list" where
  "SECRET_ENV = [
     ''CONTROL_POSTGRES_PASSWORD'', ''CONTROL_TOKEN_PEPPER'', ''CONTROL_INTERNAL_SIGNING_KEY'',
     ''MEMORY_POSTGRES_PASSWORD'', ''MEMORY_REDIS_PASSWORD'', ''MEMORY_INTERNAL_SIGNING_KEY'',
     ''MEMORY_AUTH_JWT_SECRET'']"

definition VOLUME_ENV :: "string list" where
  "VOLUME_ENV = [''CONTROL_DB_VOLUME'', ''MEMORY_DB_VOLUME'', ''MEMORY_REDIS_VOLUME'', ''MCP_STATE_VOLUME'']"

section \<open>Shapes of values\<close>

text \<open>\<open>/^[first][rest]{lo,hi}$/\<close>\<close>

definition shaped :: "(char \<Rightarrow> bool) \<Rightarrow> (char \<Rightarrow> bool) \<Rightarrow> nat \<Rightarrow> nat \<Rightarrow> string \<Rightarrow> bool" where
  "shaped first rest lo hi s =
     (case s of [] \<Rightarrow> False | c # cs \<Rightarrow> first c \<and> list_all rest cs \<and> lo \<le> length cs \<and> length cs \<le> hi)"

text \<open>\<open>/replace-with|example\.com|^<.*>$/i\<close>; a value of the env file has no line end.\<close>

definition placeholder :: "string \<Rightarrow> bool" where
  "placeholder v = (str_includes ''replace-with'' (to_lower v) \<or> str_includes ''example.com'' (to_lower v) \<or>
     2 \<le> length v \<and> hd v = CHR ''<'' \<and> last v = CHR ''>'')"

definition host_ok :: "string \<Rightarrow> bool" where
  "host_ok h = (2 \<le> length h \<and> is_alnum (hd h) \<and> list_all (\<lambda>c. is_alnum c \<or> c = CHR ''.'' \<or> c = CHR ''-'') (tl h) \<and>
     \<not> str_includes ''..'' h)"

text \<open>\<open>/@sha256:[0-9a-f]{64}$/i\<close>\<close>

definition digest_pinned :: "string \<Rightarrow> bool" where
  "digest_pinned img =
     (72 \<le> length img \<and> to_lower (take 8 (drop (length img - 72) img)) = ''@sha256:'' \<and>
      list_all is_hex (drop (length img - 64) img))"

definition volume_ok :: "string \<Rightarrow> bool" where
  "volume_ok v = (to_lower (take 14 v) = ''neuromem-node-'' \<and>
     shaped is_alnum (\<lambda>c. is_alnum c \<or> c = CHR ''-'') 1 62 (drop 14 v))"

fun has_space :: "string \<Rightarrow> bool" where
  "has_space [] = False"
| "has_space (c # cs) = (ws_front (c # cs) \<noteq> 0 \<or> has_space cs)"

text \<open>\<open>/^\S+@\S+\.\S+$/\<close>: an at sign that is not the first character, and later a point with characters on both sides\<close>

fun point_inside :: "string \<Rightarrow> bool" where
  "point_inside (a # b # cs) = ((b = CHR ''.'' \<and> cs \<noteq> []) \<or> point_inside (b # cs))"
| "point_inside _ = False"

fun at_then_point :: "string \<Rightarrow> bool" where
  "at_then_point (a # b # cs) = ((b = CHR ''@'' \<and> point_inside cs) \<or> at_then_point (b # cs))"
| "at_then_point _ = False"

definition email_ok :: "string \<Rightarrow> bool" where
  "email_ok s = (\<not> has_space s \<and> at_then_point s)"

definition loopback_names :: "string list" where
  "loopback_names = [''localhost'', ''127.0.0.1'', ''::1'']"

definition nodePublicUrl :: "env \<Rightarrow> string res" where
  "nodePublicUrl env =
     (let host = eget env ''NEUROMEM_PUBLIC_HOST''
      in if to_lower host \<in> set loopback_names
         then (case Option.bind (str_number (eget_or env ''EDGE_LOOPBACK_PORT'' ''24443'')) rat_integer of
                 Some port \<Rightarrow>
                   if 1 \<le> port \<and> port \<le> 65535
                   then Inr (''http://'' @ (if host = ''::1'' then ''[::1]'' else host) @ '':'' @ dec_str (nat port))
                   else Inl ''EDGE_LOOPBACK_PORT is invalid''
               | None \<Rightarrow> Inl ''EDGE_LOOPBACK_PORT is invalid'')
         else Inr (''https://'' @ host))"

section \<open>\<open>validateConfig\<close>\<close>

record command_result =
  cr_ok :: bool
  cr_stdout :: string
  cr_stderr :: string

record node_config =
  cfg_project :: string
  cfg_public_url :: string
  cfg_image :: string
  cfg_source :: string
  cfg_revision :: string

definition check_all :: "(string \<Rightarrow> bool) \<Rightarrow> (string \<Rightarrow> string) \<Rightarrow> string list \<Rightarrow> unit res" where
  "check_all ok message keys = (case List.find (\<lambda>k. \<not> ok k) keys of None \<Rightarrow> Inr () | Some k \<Rightarrow> Inl (message k))"

definition check_required :: "env \<Rightarrow> unit res" where
  "check_required env =
     rbind (check_all (\<lambda>k. eget env k \<noteq> [] \<and> \<not> placeholder (eget env k))
        (\<lambda>k. k @ '' must be configured in the private Node env file'') REQUIRED_ENV) (\<lambda>_.
     check_all (\<lambda>k. 32 \<le> length (eget env k)) (\<lambda>k. k @ '' must contain at least 32 bytes'') SECRET_ENV)"

definition check_local_login :: "env \<Rightarrow> unit res" where
  "check_local_login env =
     (let email = eget env ''LOCAL_TEST_LOGIN_EMAIL''; pass = eget env ''LOCAL_TEST_LOGIN_PASSWORD''
      in if eget_or env ''LOCAL_TEST_LOGIN_PREFILL'' ''false'' \<notin> {''true'', ''false''}
         then Inl ''LOCAL_TEST_LOGIN_PREFILL must be true or false''
         else if eget env ''LOCAL_TEST_LOGIN_PREFILL'' = ''true''
         then rbind (require (to_lower (eget env ''NEUROMEM_PUBLIC_HOST'') \<in> {''localhost'', ''127.0.0.1''} \<and>
                       eget env ''CLOUDFLARE_TUNNEL_TOKEN'' = [])
                ''Local test login prefill cannot be enabled on a public Node or with Cloudflare Tunnel'') (\<lambda>_.
              rbind (require (eget env ''CONTROL_SECURE_COOKIES'' = ''false'')
                ''Local test login prefill requires loopback cookies'') (\<lambda>_.
              rbind (require (email_ok email \<and> length email \<le> 320) ''LOCAL_TEST_LOGIN_EMAIL is invalid'') (\<lambda>_.
              require (12 \<le> js_length pass \<and> \<not> bad_control pass)
                ''LOCAL_TEST_LOGIN_PASSWORD must contain at least 12 safe characters'')))
         else require (email = [] \<and> pass = []) ''Local test login values require LOCAL_TEST_LOGIN_PREFILL=true'')"

definition check_identity :: "env \<Rightarrow> unit res" where
  "check_identity env =
     rbind (require (shaped is_alnum (\<lambda>c. is_alnum c \<or> c = CHR ''_'' \<or> c = CHR ''-'') 1 62 (eget env ''COMPOSE_PROJECT_NAME''))
        ''COMPOSE_PROJECT_NAME is invalid'') (\<lambda>_.
     rbind (require (shaped is_alnum (\<lambda>c. is_alnum c \<or> c = CHR ''.'' \<or> c = CHR ''_'' \<or> c = CHR ''-'') 0 127 (eget env ''NEUROMEM_NODE_ID''))
        ''NEUROMEM_NODE_ID is invalid'') (\<lambda>_.
     rbind (require (digest_pinned (eget env ''MEMORY_CORE_IMAGE''))
        ''MEMORY_CORE_IMAGE must be pinned by sha256 digest; local AGPL source is not vendored into the Node package'') (\<lambda>_.
     rbind (require (shaped is_hex is_hex 6 63 (eget env ''MEMORY_CORE_SOURCE_REVISION''))
        ''MEMORY_CORE_SOURCE_REVISION must be a pinned commit'') (\<lambda>_.
     check_all (\<lambda>k. volume_ok (eget env k)) (\<lambda>k. k @ '' must be a dedicated neuromem-node-* volume'') VOLUME_ENV))))"

definition config_checks :: "env \<Rightarrow> unit res" where
  "config_checks env =
     rbind (check_required env) (\<lambda>_.
     rbind (require (eget env ''CONTROL_INTERNAL_SIGNING_KEY'' = eget env ''MEMORY_INTERNAL_SIGNING_KEY'')
        ''CONTROL_INTERNAL_SIGNING_KEY and MEMORY_INTERNAL_SIGNING_KEY must match'') (\<lambda>_.
     rbind (require (host_ok (eget env ''NEUROMEM_PUBLIC_HOST''))
        ''NEUROMEM_PUBLIC_HOST must be a hostname without a scheme or path'') (\<lambda>_.
     rbind (check_local_login env) (\<lambda>_.
     check_identity env))))"

text \<open>The checks of the values come first; then \<open>docker compose config\<close> has to accept the file.\<close>

definition validateConfig :: "command_result \<Rightarrow> env \<Rightarrow> node_config res" where
  "validateConfig compose env =
     rbind (config_checks env) (\<lambda>_.
     rbind (require (cr_ok compose) (''Node Compose configuration is invalid'' @
        (if cr_stderr compose = [] then [] else '': '' @ cr_stderr compose))) (\<lambda>_.
     rbind (nodePublicUrl env) (\<lambda>url.
     Inr \<lparr>cfg_project = eget env ''COMPOSE_PROJECT_NAME'', cfg_public_url = url, cfg_image = eget env ''MEMORY_CORE_IMAGE'',
          cfg_source = eget env ''MEMORY_CORE_SOURCE_URL'', cfg_revision = eget env ''MEMORY_CORE_SOURCE_REVISION''\<rparr>)))"

section \<open>Compose profiles\<close>

datatype device = Dgx | Mac

text \<open>\<open>#compose\<close>: the profiles of a command, for a target if one is given\<close>

definition compose_profiles :: "env \<Rightarrow> device option \<Rightarrow> string list" where
  "compose_profiles env target =
     (if eget env ''CLOUDFLARE_TUNNEL_TOKEN'' \<noteq> [] \<and>
         \<not> str_includes ''replace-with'' (to_lower (eget env ''CLOUDFLARE_TUNNEL_TOKEN''))
      then [''--profile'', ''cloudflare''] else []) @
     (if target \<noteq> Some Mac \<and> eget env ''DGX_MODEL_ENABLED'' = ''true'' then [''--profile'', ''dgx-model''] else [])"

section \<open>Preflight\<close>

datatype node_target = TargetAuto | TargetDevice device

record node_check =
  ck_name :: string
  ck_ok :: bool
  ck_detail :: string
  ck_required :: bool

record preflight_result =
  pf_ok :: bool
  pf_target :: device
  pf_checks :: "node_check list"
  pf_warnings :: "string list"

text \<open>What the commands of the preflight answer\<close>

record preflight_env =
  pe_platform :: string
  pe_arch :: string
  pe_docker :: command_result
  pe_compose :: command_result
  pe_runtimes :: command_result
  pe_gpu :: command_result

definition or_text :: "string \<Rightarrow> string \<Rightarrow> string" where
  "or_text a b = (if a = [] then b else a)"

definition resolve_target :: "preflight_env \<Rightarrow> node_target \<Rightarrow> device" where
  "resolve_target env target =
     (case target of
        TargetAuto \<Rightarrow> if pe_platform env = ''linux'' \<and> pe_arch env = ''arm64'' then Dgx else Mac
      | TargetDevice d \<Rightarrow> d)"

definition command_check :: "string \<Rightarrow> command_result \<Rightarrow> node_check" where
  "command_check name r = \<lparr>ck_name = name, ck_ok = cr_ok r,
     ck_detail = (if cr_ok r then or_text (cr_stdout r) ''available'' else or_text (cr_stderr r) ''unavailable''),
     ck_required = True\<rparr>"

definition output_check :: "string \<Rightarrow> string \<Rightarrow> string \<Rightarrow> command_result \<Rightarrow> node_check" where
  "output_check name word missing r = \<lparr>ck_name = name, ck_ok = cr_ok r \<and> str_includes word (to_lower (cr_stdout r)),
     ck_detail = or_text (cr_stdout r) (or_text (cr_stderr r) missing), ck_required = True\<rparr>"

definition platform_check :: "preflight_env \<Rightarrow> string \<Rightarrow> string \<Rightarrow> node_check" where
  "platform_check env name platform = \<lparr>ck_name = name, ck_ok = pe_platform env = platform \<and> pe_arch env = ''arm64'',
     ck_detail = pe_platform env @ ''/'' @ pe_arch env, ck_required = True\<rparr>"

definition preflight :: "preflight_env \<Rightarrow> node_target \<Rightarrow> preflight_result" where
  "preflight env target =
     (let resolved = resolve_target env target;
          base = [command_check ''docker'' (pe_docker env), command_check ''compose'' (pe_compose env)];
          checks = base @ (case resolved of
            Dgx \<Rightarrow> [platform_check env ''dgx-platform'' ''linux'',
                    output_check ''nvidia-container-runtime'' ''nvidia'' ''not reported'' (pe_runtimes env),
                    output_check ''nvidia-gpu'' ''gpu'' ''not detected'' (pe_gpu env)]
          | Mac \<Rightarrow> [platform_check env ''mac-fallback-platform'' ''darwin'']);
          warnings = (case resolved of Dgx \<Rightarrow> []
            | Mac \<Rightarrow> [''Mac fallback uses external model endpoints through host.docker.internal; NVIDIA containers are disabled.''])
      in \<lparr>pf_ok = list_all (\<lambda>c. \<not> ck_required c \<or> ck_ok c) checks, pf_target = resolved, pf_checks = checks, pf_warnings = warnings\<rparr>)"

section \<open>The phase of a node\<close>

record component =
  cp_name :: string
  cp_state :: string
  cp_health :: "string option"
  cp_detail :: string

text \<open>\<open>adminStatus\<close>: the phase from the services and the last verification of the models, if it still holds\<close>

definition service_phase :: "bool \<Rightarrow> component list \<Rightarrow> string" where
  "service_phase ok components =
     (let running = length (filter (\<lambda>c. cp_state c = ''running'') components);
          unhealthy = list_ex (\<lambda>c. cp_health c \<noteq> None \<and> cp_health c \<noteq> Some [] \<and> cp_health c \<noteq> Some ''healthy'') components
      in if \<not> ok then ''failed''
         else if components = [] \<or> running = 0 then ''stopped''
         else if unhealthy \<or> running \<noteq> length components then ''degraded''
         else ''ready'')"

definition admin_phase :: "bool \<Rightarrow> component list \<Rightarrow> string list option \<Rightarrow> string" where
  "admin_phase ok components verified =
     (let phase = service_phase ok components
      in if phase = ''ready'' \<and> (case verified of None \<Rightarrow> False | Some statuses \<Rightarrow> list_ex (\<lambda>s. s \<noteq> ''ready'') statuses)
         then ''degraded'' else phase)"

end
