(* ===== verification/ModelSelection.thy ===== *)
theory ModelSelection
  imports NodeConfig Clients
begin

text \<open>
  The models of a node deployment, in \<open>apps/manager/src/node-deployment-manager.ts\<close>: endpoints,
  saved connections, the probe of a compute source, the validation of selections and of Codex
  requests, and \<open>selectModels\<close>, which rewrites the private env file and restores it when the node
  does not come up with it.  Fetching, \<open>JSON.parse\<close>, the URL constructor and its \<open>toString\<close> are arguments.
\<close>

section \<open>Endpoints\<close>

text \<open>\<open>fetch\<close> of a URL: a status with the JSON of the body (\<open>None\<close> if it does not parse), or a failure\<close>

datatype fetch_json = FetchAnswer nat "json option" | FetchFailed string

record node_world =
  nw_parse_url :: "string \<Rightarrow> url_parts option"
  nw_show_url :: "url_parts \<Rightarrow> string"
  nw_fetch :: "string \<Rightarrow> fetch_json"
  nw_now :: string

definition strip_slashes :: "string \<Rightarrow> string" where
  "strip_slashes s = rev (dropWhile (\<lambda>c. c = CHR ''/'') (rev s))"

definition bare_url :: "url_parts \<Rightarrow> url_parts" where
  "bare_url u = u\<lparr>hostname := (if to_lower (hostname u) = ''host.docker.internal'' then ''127.0.0.1'' else hostname u),
     username := [], password := [], search := [], url_hash := []\<rparr>"

definition displayEndpoint :: "node_world \<Rightarrow> string \<Rightarrow> string res" where
  "displayEndpoint w s = (case nw_parse_url w s of
     None \<Rightarrow> Inl ''Invalid URL'' | Some u \<Rightarrow> Inr (strip_slashes (nw_show_url w (bare_url u))))"

definition safeDisplayEndpoint :: "node_world \<Rightarrow> string \<Rightarrow> string" where
  "safeDisplayEndpoint w s = (case displayEndpoint w s of Inl _ \<Rightarrow> ''invalid'' | Inr e \<Rightarrow> e)"

definition providerUrl :: "node_world \<Rightarrow> string \<Rightarrow> string \<Rightarrow> string res" where
  "providerUrl w base resource =
     rbind (displayEndpoint w base) (\<lambda>shown. case nw_parse_url w shown of
       None \<Rightarrow> Inl ''Invalid URL''
     | Some u \<Rightarrow>
         if protocol u \<notin> {''http:'', ''https:''} then Inl ''model provider URL must use HTTP(S)''
         else let p = strip_slashes (pathname u)
              in Inr (nw_show_url w (u\<lparr>pathname :=
                   (if length resource < length p \<and> drop (length p - length resource - 1) p = CHR ''/'' # resource
                    then p else p @ ''/'' @ resource)\<rparr>)))"

definition containerEndpoint :: "node_world \<Rightarrow> string \<Rightarrow> string res" where
  "containerEndpoint w s = (case nw_parse_url w s of
     None \<Rightarrow> Inl ''Invalid URL''
   | Some u \<Rightarrow>
       if protocol u \<notin> {''http:'', ''https:''} \<or> username u \<noteq> [] \<or> password u \<noteq> [] \<or> search u \<noteq> [] \<or> url_hash u \<noteq> []
       then Inl ''API base URL must be HTTP(S) without credentials, query, or fragment''
       else Inr (strip_slashes (nw_show_url w
              (if to_lower (hostname u) \<in> set [''127.0.0.1'', ''localhost'', ''::1'']
               then u\<lparr>hostname := ''host.docker.internal''\<rparr> else u))))"

section \<open>Sources\<close>

datatype source = CodexSession | OpenaiCompatible

record source_status =
  cs_source :: source
  cs_endpoint :: string
  cs_model :: string
  cs_status :: string
  cs_models :: "string list"
  cs_provider :: "string option"
  cs_detail :: "string option"

record codex_status =
  cx_auth :: string
  cx_models :: "string list"
  cx_diagnostic :: "string option"

text \<open>\<open>/\/internal\/codex(?:\/|$)/i\<close>\<close>

fun codex_path :: "string \<Rightarrow> bool" where
  "codex_path [] = False"
| "codex_path (c # cs) =
     ((starts_with ''/internal/codex'' (c # cs) \<and> (length (c # cs) = 15 \<or> (c # cs) ! 15 = CHR ''/'')) \<or> codex_path cs)"

definition generationSource :: "env \<Rightarrow> source option \<Rightarrow> source" where
  "generationSource env seen =
     (if eget env ''GENERATION_SOURCE'' = ''codex_session'' then CodexSession
      else if eget env ''GENERATION_SOURCE'' = ''openai_compatible'' then OpenaiCompatible
      else if seen = Some CodexSession \<or> codex_path (to_lower (eget env ''GENERATION_BASE_URL'')) then CodexSession
      else OpenaiCompatible)"

definition drop_latest :: "string \<Rightarrow> string" where
  "drop_latest m = (if 7 \<le> length m \<and> drop (length m - 7) m = '':latest'' then take (length m - 7) m else m)"

definition catalog_models :: "json option \<Rightarrow> string list res" where
  "catalog_models payload =
     (case Option.bind payload props of
        None \<Rightarrow> Inr []
      | Some p \<Rightarrow>
          (case coalesce (oget p ''data'') (Some (JArr [])) of
             Some (JArr items) \<Rightarrow> Inr (List.map_filter (\<lambda>item. Option.bind (props item) (\<lambda>o1.
               case str_field o1 ''id'' of Some s \<Rightarrow> if js_length s \<le> 256 then Some s else None | None \<Rightarrow> None)) items)
           | Some v \<Rightarrow> if truthy v then Inl ''payload.data is not iterable'' else Inr []
           | None \<Rightarrow> Inr []))"

text \<open>The model catalog: the models, and why they could not be read\<close>

definition probe_catalog :: "node_world \<Rightarrow> string \<Rightarrow> string list \<times> string" where
  "probe_catalog w base =
     (case providerUrl w base ''models'' of
        Inl e \<Rightarrow> ([], e)
      | Inr url \<Rightarrow>
          (case nw_fetch w url of
             FetchFailed e \<Rightarrow> ([], e)
           | FetchAnswer st payload \<Rightarrow>
               if 200 \<le> st \<and> st \<le> 299
               then (case catalog_models payload of Inl e \<Rightarrow> ([], e) | Inr ms \<Rightarrow> (ms, []))
               else ([], ''model catalog returned HTTP '' @ dec_str st)))"

definition probe_health :: "node_world \<Rightarrow> string \<Rightarrow> fields option" where
  "probe_health w base =
     (case Option.bind (case displayEndpoint w base of Inl _ \<Rightarrow> None | Inr shown \<Rightarrow> nw_parse_url w shown) (\<lambda>u.
        Some (nw_fetch w (nw_show_url w (u\<lparr>pathname := ''/health'', search := [], url_hash := []\<rparr>)))) of
        Some (FetchAnswer st (Some payload)) \<Rightarrow> if 200 \<le> st \<and> st \<le> 299 \<and> truthy payload then props payload else None
      | _ \<Rightarrow> None)"

definition probeComputeSource :: "node_world \<Rightarrow> bool \<Rightarrow> string \<Rightarrow> string \<Rightarrow> source_status" where
  "probeComputeSource w generation base model =
     (let source = (if generation \<and> codex_path (to_lower base) then CodexSession else OpenaiCompatible);
          endpoint = safeDisplayEndpoint w base
      in if endpoint = ''invalid''
         then \<lparr>cs_source = source, cs_endpoint = endpoint, cs_model = model, cs_status = ''unknown'', cs_models = [],
               cs_provider = None, cs_detail = Some ''model provider URL is invalid''\<rparr>
         else let (available, catalogError) = probe_catalog w base;
                  health = (if generation \<and> available = [] then probe_health w base else None);
                  advertised = list_ex (\<lambda>m. m = model \<or> drop_latest m = drop_latest model) available;
                  ready = (advertised \<or> Option.bind health (\<lambda>h. str_field h ''default_model'') = Some model \<or>
                           (health \<noteq> None \<and> generation));
                  provider = Option.bind health (\<lambda>h. str_field h ''provider'')
              in \<lparr>cs_source = (if (case provider of None \<Rightarrow> False | Some p \<Rightarrow> str_includes ''codex'' (to_lower p))
                               then CodexSession else source),
                  cs_endpoint = endpoint, cs_model = model,
                  cs_status = (if ready then ''ready'' else if available \<noteq> [] then ''unavailable'' else ''unknown''),
                  cs_models = sort (uniq available), cs_provider = provider,
                  cs_detail = (if ready then None
                               else Some (or_text catalogError ''configured model was not advertised by the provider''))\<rparr>)"

definition embedding_status :: "node_world \<Rightarrow> env \<Rightarrow> source_status" where
  "embedding_status w env = probeComputeSource w False (eget env ''EMBEDDING_BASE_URL'') (eget env ''EMBEDDING_MODEL'')"

definition generation_status :: "node_world \<Rightarrow> env \<Rightarrow> source_status" where
  "generation_status w env = probeComputeSource w True (eget env ''GENERATION_BASE_URL'') (eget env ''GENERATION_MODEL'')"

section \<open>Selections\<close>

record generation_probe =
  gp_source :: source
  gp_model :: "string option"
  gp_connection :: "json option"

record model_selection =
  ms_embedding :: "string option"
  ms_generation :: "generation_probe option"

text \<open>\<open>/^[A-Za-z0-9][A-Za-z0-9._:/+-]*$/\<close>, at most 256 characters\<close>

definition validModel :: "string \<Rightarrow> bool" where
  "validModel v = (length v \<le> 256 \<and> shaped is_alnum (\<lambda>c. is_alnum c \<or> c \<in> set ''._:/+-'') 0 255 v)"

definition validateGenerationProbe :: "json \<Rightarrow> generation_probe res" where
  "validateGenerationProbe v =
     (case as_object v of
        None \<Rightarrow> Inl ''Generation probe must be a JSON object''
      | Some input \<Rightarrow>
          (case oget input ''source'' of
             Some (JStr s) \<Rightarrow>
               if s \<noteq> ''codex_session'' \<and> s \<noteq> ''openai_compatible'' then Inl ''Invalid generation source''
               else if oget input ''model'' \<noteq> None \<and>
                 (case str_field input ''model'' of None \<Rightarrow> True | Some m \<Rightarrow> \<not> validModel m) then Inl ''Invalid generation model''
               else if s = ''codex_session'' \<and> oget input ''connection'' \<noteq> None
               then Inl ''Codex session probes cannot include API connection fields''
               else Inr \<lparr>gp_source = (if s = ''codex_session'' then CodexSession else OpenaiCompatible),
                         gp_model = str_field input ''model'', gp_connection = oget input ''connection''\<rparr>
           | _ \<Rightarrow> Inl ''Invalid generation source''))"

definition validateModelSelection :: "json \<Rightarrow> model_selection res" where
  "validateModelSelection v =
     (case as_object v of
        None \<Rightarrow> Inl ''Model selection must be a JSON object''
      | Some input \<Rightarrow>
          if list_ex (\<lambda>k. k \<notin> {''embedding_model'', ''generation_model'', ''generation''}) (okeys input)
          then Inl ''Unsupported model selection field''
          else if oget input ''embedding_model'' \<noteq> None \<and>
            (case str_field input ''embedding_model'' of None \<Rightarrow> True | Some m \<Rightarrow> \<not> validModel m) then Inl ''Invalid embedding model''
          else if oget input ''generation_model'' \<noteq> None
          then Inl ''Use the generation source selector when changing generation models''
          else rbind (case oget input ''generation'' of
                        None \<Rightarrow> Inr None
                      | Some g \<Rightarrow> rbind (validateGenerationProbe g) (\<lambda>probe.
                          if gp_model probe = None then Inl ''Generation model is required'' else Inr (Some probe)))
               (\<lambda>generation.
                 if oget input ''embedding_model'' = None \<and> oget input ''generation'' = None
                 then Inl ''At least one model selection is required''
                 else Inr \<lparr>ms_embedding = str_field input ''embedding_model'', ms_generation = generation\<rparr>))"

section \<open>Connections\<close>

definition saved_connection :: "env \<Rightarrow> string \<times> string" where
  "saved_connection env =
     (let direct = generationSource env None = OpenaiCompatible
      in (or_text (eget env ''GENERATION_DIRECT_BASE_URL'') (if direct then eget env ''GENERATION_BASE_URL'' else []),
          or_text (eget env ''GENERATION_DIRECT_API_KEY'') (if direct then eget env ''GENERATION_API_KEY'' else [])))"

definition resolveDirectConnection :: "node_world \<Rightarrow> env \<Rightarrow> json option \<Rightarrow> (string \<times> string) res" where
  "resolveDirectConnection w env connection =
     (case saved_connection env of (savedBase, savedKey) \<Rightarrow>
        if \<not> truthy_opt connection
        then (if savedBase = [] then Inl ''API connection settings are required''
              else rbind (displayEndpoint w savedBase) (\<lambda>base. Inr (base, savedKey)))
        else let input = (case Option.bind connection props of None \<Rightarrow> [] | Some o1 \<Rightarrow> o1)
             in (case str_field input ''base_url'' of
                   None \<Rightarrow> Inl ''API base URL is required''
                 | Some url \<Rightarrow>
                     rbind (displayEndpoint w url) (\<lambda>base.
                       if oget input ''api_key_action'' = Some (JStr ''keep'')
                       then (if savedBase = [] then Inl ''An existing API key cannot be reused after the endpoint changes''
                             else rbind (displayEndpoint w savedBase) (\<lambda>saved.
                               if saved \<noteq> base then Inl ''An existing API key cannot be reused after the endpoint changes''
                               else Inr (base, savedKey)))
                       else if oget input ''api_key_action'' = Some (JStr ''clear'') then Inr (base, [])
                       else (case (oget input ''api_key_action'', str_field input ''api_key'') of
                               (Some (JStr action), Some key) \<Rightarrow>
                                 if action = ''replace'' \<and> key \<noteq> [] \<and> \<not> bad_control key then Inr (base, key)
                                 else Inl ''A valid API key is required when replacing the key''
                             | _ \<Rightarrow> Inl ''A valid API key is required when replacing the key''))))"

text \<open>\<open>generationProbe\<close>, without the answer it builds: whether it throws.\<close>

definition generationProbe :: "node_world \<Rightarrow> codex_status \<Rightarrow> env \<Rightarrow> generation_probe \<Rightarrow> unit res" where
  "generationProbe w codex env probe =
     (case gp_source probe of
        CodexSession \<Rightarrow>
          if cx_auth codex \<noteq> ''signed_in'' then Inl ''Codex is not signed in with ChatGPT''
          else (case gp_model probe of
                  Some m \<Rightarrow> if m \<notin> set (cx_models codex) then Inl ''Selected Codex model is unavailable'' else Inr ()
                | None \<Rightarrow> Inr ())
      | OpenaiCompatible \<Rightarrow> rbind (resolveDirectConnection w env (gp_connection probe)) (\<lambda>_. Inr ()))"

section \<open>\<open>selectModels\<close>\<close>

definition codexBridgeBaseUrl :: "nat \<Rightarrow> string \<Rightarrow> string" where
  "codexBridgeBaseUrl port node = ''http://host.docker.internal:'' @ dec_str port @ ''/v1/internal/codex/nodes/'' @ node"

definition nodeId :: "env \<Rightarrow> string" where
  "nodeId env = eget_or env ''NEUROMEM_NODE_ID'' ''local''"

definition embedding_updates :: "node_world \<Rightarrow> env \<Rightarrow> model_selection \<Rightarrow> env res" where
  "embedding_updates w env sel =
     (case ms_embedding sel of
        None \<Rightarrow> Inr []
      | Some m \<Rightarrow>
          let available = cs_models (embedding_status w env)
          in if available \<noteq> [] \<and> \<not> list_ex (\<lambda>x. x = m \<or> drop_latest x = m) available
             then Inl ''Selected embedding model is unavailable'' else Inr [(''EMBEDDING_MODEL'', m)])"

definition generation_updates :: "node_world \<Rightarrow> codex_status \<Rightarrow> nat \<Rightarrow> string \<Rightarrow> env \<Rightarrow> model_selection \<Rightarrow> env res" where
  "generation_updates w codex port fresh env sel =
     (case ms_generation sel of
        None \<Rightarrow> Inr []
      | Some probe \<Rightarrow>
          let model = (case gp_model probe of None \<Rightarrow> [] | Some m \<Rightarrow> m)
          in rbind (generationProbe w codex env probe) (\<lambda>_.
             case gp_source probe of
               CodexSession \<Rightarrow>
                 let token = eget_or env ''NODE_CODEX_BRIDGE_TOKEN'' fresh
                 in Inr [(''GENERATION_SOURCE'', ''codex_session''), (''GENERATION_BASE_URL'', codexBridgeBaseUrl port (nodeId env)),
                         (''GENERATION_API_KEY'', token), (''GENERATION_MODEL'', model), (''NODE_CODEX_BRIDGE_TOKEN'', token)]
             | OpenaiCompatible \<Rightarrow>
                 rbind (resolveDirectConnection w env (gp_connection probe)) (\<lambda>(base, key).
                 rbind (containerEndpoint w base) (\<lambda>url.
                   Inr [(''GENERATION_SOURCE'', ''openai_compatible''), (''GENERATION_BASE_URL'', url),
                        (''GENERATION_API_KEY'', key), (''GENERATION_MODEL'', model), (''GENERATION_DIRECT_BASE_URL'', url),
                        (''GENERATION_DIRECT_API_KEY'', key), (''GENERATION_DIRECT_MODEL'', model)]))))"

text \<open>
  The state: the private env file, and the cached verification of the models next to it.  The
  environment: the probes, and what \<open>docker compose\<close> answers with a given env file when it checks the configuration and
  when it recreates the services.
\<close>

record selection_state =
  ss_env_file :: string
  ss_health :: "string option"

record selection_env =
  se_world :: node_world
  se_codex :: codex_status
  se_port :: nat
  se_fresh :: string
  se_check :: "string \<Rightarrow> command_result"
  se_up :: "string \<Rightarrow> command_result"

definition apply_env :: "selection_env \<Rightarrow> string \<Rightarrow> unit res" where
  "apply_env e text =
     rbind (readEnv text) (\<lambda>env. rbind (validateConfig (se_check e text) env) (\<lambda>_.
       require (cr_ok (se_up e text)) (cr_stderr (se_up e text))))"

definition selectModels :: "selection_env \<Rightarrow> json \<Rightarrow> selection_state \<Rightarrow> env res \<times> selection_state" where
  "selectModels e input st =
     (let previous = ss_env_file st in
      case rbind (validateModelSelection input) (\<lambda>sel.
           rbind (readEnv previous) (\<lambda>env.
           rbind (embedding_updates (se_world e) env sel) (\<lambda>u1.
           rbind (generation_updates (se_world e) (se_codex e) (se_port e) (se_fresh e) env sel) (\<lambda>u2.
           if u1 @ u2 = [] then Inl ''At least one model selection is required''
           else rbind (replaceEnvValues previous (u1 @ u2)) (\<lambda>next. Inr (u1 @ u2, next)))))) of
        Inl err \<Rightarrow> (Inl err, st)
      | Inr (updates, next) \<Rightarrow>
          (case apply_env e next of
             Inl err \<Rightarrow> (Inl err, st\<lparr>ss_env_file := previous, ss_health := None\<rparr>)
           | Inr _ \<Rightarrow> (Inr updates, st\<lparr>ss_env_file := next, ss_health := None\<rparr>)))"

section \<open>The Codex bridge\<close>

text \<open>
  \<open>authorization.match(/^Bearer\s+(.+)$/i)\<close>, a header of blanks alone counting as no token.  The
  role of a message is checked by its string form and passed on as it is.
\<close>

definition bridge_bearer :: "string \<Rightarrow> string" where
  "bridge_bearer header =
     (let token = trim_start (drop 6 header)
      in if to_lower (take 6 header) = ''bearer'' \<and> token \<noteq> drop 6 header \<and> \<not> list_ex is_line_end token then token else [])"

definition bridge_token :: "env \<Rightarrow> string" where
  "bridge_token env = or_text (eget env ''NODE_CODEX_BRIDGE_TOKEN'') (eget env ''GENERATION_API_KEY'')"

definition authorizeCodexBridge :: "env \<Rightarrow> string \<Rightarrow> string option \<Rightarrow> unit res" where
  "authorizeCodexBridge env selector authorization =
     (let provided = bridge_bearer (case authorization of None \<Rightarrow> [] | Some h \<Rightarrow> h)
      in if selector \<noteq> nodeId env then Inl ''Unknown Node''
         else if provided = [] \<or> bridge_token env = [] \<or> provided \<noteq> bridge_token env
         then Inl ''Invalid Node bridge authorization''
         else Inr ())"

record codex_request =
  cq_model :: string
  cq_messages :: "(json \<times> string) list"
  cq_schema :: json

definition codex_message :: "(rat \<Rightarrow> string) \<Rightarrow> json \<Rightarrow> (json \<times> string) res" where
  "codex_message fmt item =
     (case as_object item of
        None \<Rightarrow> Inl ''Invalid Codex chat message''
      | Some message \<Rightarrow>
          (case (oget message ''role'', str_field message ''content'') of
             (Some role, Some content) \<Rightarrow>
               if js_string fmt role \<in> {''system'', ''user'', ''assistant''} \<and> js_length content \<le> 100000
               then Inr (role, content) else Inl ''Invalid Codex chat message''
           | _ \<Rightarrow> Inl ''Invalid Codex chat message''))"

definition output_schema_of :: "fields \<Rightarrow> json" where
  "output_schema_of o1 =
     (case Option.bind (obj_field o1 ''response_format'') (\<lambda>f. Option.bind (obj_field f ''json_schema'') (\<lambda>s. obj_field s ''schema'')) of
        Some schema \<Rightarrow> JObj schema
      | None \<Rightarrow> JObj [(''type'', JStr ''object''), (''additionalProperties'', JBool True)])"

definition validateCodexCompletion :: "(rat \<Rightarrow> string) \<Rightarrow> json \<Rightarrow> string \<Rightarrow> codex_request res" where
  "validateCodexCompletion fmt input configured =
     (case as_object input of
        None \<Rightarrow> Inl ''Invalid Codex generation request''
      | Some o1 \<Rightarrow>
          if oget o1 ''model'' \<noteq> Some (JStr configured)
          then Inl ''Requested model does not match the configured Codex model''
          else (case arr_field o1 ''messages'' of
                  None \<Rightarrow> Inl ''Invalid Codex chat messages''
                | Some items \<Rightarrow>
                    if items = [] \<or> 64 < length items then Inl ''Invalid Codex chat messages''
                    else rbind (rmap_list (codex_message fmt) items) (\<lambda>messages.
                      Inr \<lparr>cq_model = configured, cq_messages = messages, cq_schema = output_schema_of o1\<rparr>)))"

definition codex_completion_request :: "(rat \<Rightarrow> string) \<Rightarrow> env \<Rightarrow> string \<Rightarrow> string option \<Rightarrow> json \<Rightarrow> codex_request res" where
  "codex_completion_request fmt env selector authorization input =
     rbind (authorizeCodexBridge env selector authorization) (\<lambda>_.
       if generationSource env None \<noteq> CodexSession then Inl ''Codex generation is not active for this Node''
       else validateCodexCompletion fmt input (eget env ''GENERATION_MODEL''))"

end
