(* ===== verification/EnvFileProps.thy ===== *)
theory EnvFileProps
  imports EnvFile
begin

text \<open>
  Changing values in a private env file and reading it back, and the values for which that fails.
\<close>

section \<open>White space\<close>

definition visible :: "char \<Rightarrow> bool" where
  "visible c = (33 \<le> code c \<and> code c \<le> 126)"

lemma ws_prefix_taken: "\<forall>b \<in> set (take (ws_prefix bs) bs). \<not> (33 \<le> b \<and> b \<le> 126)"
  by (induction bs rule: ws_prefix.induct) auto

lemma ws_front_before:
  assumes "visible c"
  shows "ws_front (u @ c # w) \<le> length u"
proof (rule ccontr)
  assume "\<not> ws_front (u @ c # w) \<le> length u"
  then obtain n where "ws_front (u @ c # w) - length u = Suc n" by (metis Suc_diff_Suc not_le)
  then have "code c \<in> set (take (ws_prefix (map of_char (u @ c # w))) (map of_char (u @ c # w)))"
    by (simp add: ws_front_def)
  then show False using ws_prefix_taken [of "map of_char (u @ c # w)"] assms by (auto simp: visible_def)
qed

lemma trim_start_keeps: "visible c \<Longrightarrow> trim_start (u @ c # w) \<noteq> []"
proof (induction "u @ c # w" arbitrary: u rule: trim_start.induct)
  case 1
  show ?case
  proof (cases "ws_front (u @ c # w) = 0")
    case True
    then show ?thesis by (simp add: trim_start.simps [of "u @ c # w"])
  next
    case False
    have d: "drop (ws_front (u @ c # w)) (u @ c # w) = drop (ws_front (u @ c # w)) u @ c # w"
      using ws_front_before [OF 1(2), of u w] by simp
    then have "trim_start (drop (ws_front (u @ c # w)) u @ c # w) \<noteq> []" using 1 False by auto
    then show ?thesis using False d by (simp add: trim_start.simps [of "u @ c # w"])
  qed
qed

lemma trim_end_keeps: "visible c \<Longrightarrow> trim_end (u @ c # w) = u @ c # trim_end w"
proof (induction u)
  case Nil
  then show ?case using trim_start_keeps [of c "[]" w] by simp
next
  case (Cons d u)
  then show ?case using trim_start_keeps [of c "d # u" w] by simp
qed

lemma trim_start_visible: "visible c \<Longrightarrow> trim_start (c # w) = c # w"
  using ws_front_before [of c "[]" w] by (simp add: trim_start.simps [of "c # w"])

lemma trim_end_prefix: "\<exists>w. l = trim_end l @ w"
  by (induction l) auto

section \<open>Entries of lines\<close>

lemma env_key_facts:
  assumes "env_key_ok key"
  shows "CHR ''='' \<notin> set key" "LF \<notin> set key" "\<exists>c cs. key = c # cs \<and> is_upper c"
  using assms by (cases key; auto simp: env_key_ok_def list_all_iff is_upper_def is_digit_def)+

definition line_entry :: "string \<Rightarrow> (string \<times> string) option" where
  "line_entry l = (case env_line 0 l of Inl _ \<Rightarrow> None | Inr e \<Rightarrow> e)"

lemma env_line_index: "env_line n l = Inr e \<longleftrightarrow> env_line 0 l = Inr e"
  by (auto simp: env_line_def Let_def split: if_splits simp del: takeWhile_eq_all_conv)

lemma env_entries_iff:
  "env_entries ls = Inr es \<longleftrightarrow> (\<forall>l \<in> set ls. is_ok (env_line 0 l)) \<and> es = List.map_filter line_entry ls"
proof -
  have e: "env_line n l = Inr x \<longleftrightarrow> is_ok (env_line 0 l) \<and> x = line_entry l" for n l x
    using env_line_index [of n l x] by (cases "env_line 0 l") (auto simp: line_entry_def)
  have r: "rmap_list (\<lambda>(n, line). env_line n line) (zip [0..<length ls] ls) = Inr out \<longleftrightarrow>
      (\<forall>l \<in> set ls. is_ok (env_line 0 l)) \<and> out = map line_entry ls" for out
    by (auto simp: rmap_list_Inr_iff list_all2_conv_all_nth e all_set_conv_all_nth intro: nth_equalityI)
  show ?thesis using r
    by (auto simp: env_entries_def rbind_eq_Inr List.map_filter_def filter_map o_def)
qed

lemma line_entry_Nil: "env_line n [] = Inr None"
  by (simp add: env_line_def trim_def trim_start.simps)

text \<open>The reading of a trimmed line that is not empty, given the key it starts with\<close>

lemma env_line_keyed:
  assumes "trim l = s" and "takeWhile (\<lambda>c. c \<noteq> CHR ''='') s = k"
  shows "env_line n l = (if s = [] \<or> hd s = CHR ''#'' then Inr None
    else if k = s \<or> k = [] then Inl (''invalid Node env entry on line '' @ dec_str (n + 1))
    else if \<not> env_key_ok k then Inl (''invalid Node env key '' @ [CHR 0x27] @ k @ [CHR 0x27])
    else if bad_control (unquote (drop (length k + 1) s)) then Inl (''invalid control character in '' @ k)
    else Inr (Some (k, unquote (drop (length k + 1) s))))"
  unfolding env_line_def Let_def assms ..

lemma env_line_pair:
  assumes "trim l = key @ ''='' @ r" and "env_key_ok key"
  shows "env_line n l = (if bad_control (unquote r) then Inl (''invalid control character in '' @ key) else Inr (Some (key, unquote r)))"
proof -
  have "takeWhile (\<lambda>c. c \<noteq> CHR ''='') (key @ ''='' @ r) = key"
    using env_key_facts(1) [OF assms(2)] by (auto simp: takeWhile_append)
  moreover obtain c cs where "key = c # cs" "is_upper c" using env_key_facts(3) [OF assms(2)] by blast
  moreover have "\<not> is_upper (CHR ''#'')" by (simp add: is_upper_def)
  ultimately show ?thesis using assms(2) env_line_keyed [OF assms(1), of key n] by auto
qed

text \<open>An unindented line defines a key exactly if it starts with it and the equals sign.\<close>

lemma defines_starts:
  assumes "line_entry l = Some (k, v)" and "trim_start l = l"
  shows "starts_with (k @ ''='') l \<and> env_key_ok k"
proof -
  have t: "trim l = trim_end l" using assms(2) by (simp add: trim_def)
  obtain key where key: "takeWhile (\<lambda>c. c \<noteq> CHR ''='') (trim_end l) = key" by blast
  have "env_line 0 l = Inr (Some (k, v))" using assms(1) by (simp add: line_entry_def split: sum.splits)
  then have k: "k = key" "key \<noteq> trim_end l" "env_key_ok key"
    unfolding env_line_keyed [OF t key] by (simp_all split: if_splits)
  have "\<exists>c r. dropWhile (\<lambda>c. c \<noteq> d) s = c # r \<and> c = d" if "takeWhile (\<lambda>c. c \<noteq> d) s \<noteq> s" for d :: char and s
    using that by (induction s) auto
  then obtain r where "dropWhile (\<lambda>c. c \<noteq> CHR ''='') (trim_end l) = CHR ''='' # r"
    using k(2) key by blast
  then have te: "trim_end l = k @ ''='' @ r"
    using k(1) key takeWhile_dropWhile_id [of "\<lambda>c. c \<noteq> CHR ''=''" "trim_end l"] by simp
  obtain w where "l = trim_end l @ w" using trim_end_prefix [of l] by blast
  then have "l = (k @ ''='') @ (r @ w)" unfolding te by simp
  then have "starts_with (k @ ''='') l" by (simp only: starts_with_append)
  then show ?thesis using k(1,3) by blast
qed

lemma starts_trim:
  assumes "env_key_ok key"
  shows "trim (key @ ''='' @ r) = key @ ''='' @ trim_end r"
proof -
  obtain c cs where c: "key = c # cs" "visible c" using env_key_facts(3) [OF assms] by (auto simp: visible_def is_upper_def)
  have "visible (CHR ''='')" by (simp add: visible_def)
  then show ?thesis using trim_start_visible [OF c(2), of "cs @ ''='' @ r"] trim_end_keeps [of "CHR ''=''" key r] c(1)
    by (simp add: trim_def)
qed

lemma starts_defines:
  assumes "starts_with (key @ ''='') l" and "env_key_ok key" and "plain_line l" and "CHR 0x00 \<notin> set l"
  shows "\<exists>v. env_line n l = Inr (Some (key, v))"
proof -
  obtain r where l: "l = key @ ''='' @ r" using assms(1) by (auto simp: starts_with_iff)
  have t: "trim l = key @ ''='' @ trim_end r" using starts_trim [OF assms(2)] l by simp
  have "\<not> bad_control (unquote (trim_end r))"
  proof -
    obtain w where "r = trim_end r @ w" using trim_end_prefix [of r] by blast
    then have "set (trim_end r) \<subseteq> set l" using l by (metis Un_upper1 le_supI2 set_append)
    moreover have "set (unquote x) \<subseteq> set x" for x
      by (cases x) (auto simp: unquote_def dest: in_set_butlastD)
    ultimately show ?thesis using assms(3,4) by (fastforce simp: bad_control_def plain_line_def list_ex_iff)
  qed
  then show ?thesis using env_line_pair [OF t assms(2)] by simp
qed

text \<open>Values that a file keeps as they are\<close>

definition clean_value :: "string \<Rightarrow> bool" where
  "clean_value v \<longleftrightarrow> list_all printable v \<and> CHR ''$'' \<notin> set v \<and> (v = [] \<or> last v \<noteq> CHR '' '') \<and> \<not> quoted v"

lemma clean_line:
  assumes "clean_value v" and "env_key_ok key"
  shows "env_line n (key @ ''='' @ v) = Inr (Some (key, v))"
proof -
  have "trim_end v = v"
  proof (cases v rule: rev_cases)
    case (snoc u c)
    have "printable c" "c \<noteq> CHR '' ''" using assms(1) snoc by (simp_all add: clean_value_def)
    then have "code c \<noteq> 32" using of_char_eq_iff [of c "CHR '' ''", where ?'a = nat] by simp
    then have "visible c" using \<open>printable c\<close> by (simp add: visible_def printable_def)
    then show ?thesis using trim_end_keeps [of c u "[]"] snoc by simp
  qed simp
  then have t: "trim (key @ ''='' @ v) = key @ ''='' @ v" using starts_trim [OF assms(2)] by simp
  have "\<not> bad_control v" using assms(1)
    by (auto simp: clean_value_def bad_control_def list_ex_iff list_all_iff is_line_end_def printable_def)
  then show ?thesis using env_line_pair [OF t assms(2), of n] assms(1) by (simp add: unquote_def clean_value_def)
qed

section \<open>Updating a file\<close>

text \<open>A file whose lines are not indented and in which no key is set twice\<close>

definition file_lines_ok :: "string list \<Rightarrow> bool" where
  "file_lines_ok ls \<longleftrightarrow> ls \<noteq> [] \<and> (\<forall>l \<in> set ls. plain_line l \<and> CHR 0x00 \<notin> set l \<and> trim_start l = l \<and> is_ok (env_line 0 l)) \<and>
     distinct (map fst (List.map_filter line_entry ls))"

definition file_ok :: "string \<Rightarrow> bool" where
  "file_ok raw = file_lines_ok (split_on LF raw)"

lemma map_filter_append: "List.map_filter f (xs @ ys) = List.map_filter f xs @ List.map_filter f ys"
  by (simp add: List.map_filter_def)

lemma map_filter_Cons: "List.map_filter f (x # xs) = (case f x of None \<Rightarrow> [] | Some y \<Rightarrow> [y]) @ List.map_filter f xs"
  by (simp add: List.map_filter_def split: option.split)

lemma map_filter_Nil [simp]: "List.map_filter f [] = []"
  by (simp add: List.map_filter_def)

lemma find_line_Some:
  "find_line key ls = Some (b, m, a) \<Longrightarrow> ls = b @ m # a \<and> starts_with (key @ ''='') m \<and> (\<forall>l \<in> set b. \<not> starts_with (key @ ''='') l)"
  by (induction ls arbitrary: b) (auto split: if_splits)

lemma find_line_None: "find_line key ls = None \<Longrightarrow> l \<in> set ls \<Longrightarrow> \<not> starts_with (key @ ''='') l"
  by (induction ls) (auto split: if_splits)

lemma map_of_changed:
  "distinct (map fst (xs @ (k, v0) # ys)) \<Longrightarrow> map_of (xs @ (k, v) # ys) = (map_of (xs @ (k, v0) # ys)) (k \<mapsto> v)"
  by (induction xs) (auto simp: fun_eq_iff)

lemma map_of_appended: "k \<notin> fst ` set xs \<Longrightarrow> map_of (xs @ [(k, v)]) = (map_of xs) (k \<mapsto> v)"
  by (induction xs) (auto simp: fun_eq_iff)

text \<open>The lines after one update\<close>

definition updated_lines :: "string \<Rightarrow> string \<Rightarrow> string list \<Rightarrow> string list" where
  "updated_lines key v ls =
     (case find_line key ls of
        Some (b, _, a) \<Rightarrow> b @ (key @ ''='' @ v) # a
      | None \<Rightarrow> (if last ls = [] \<and> 1 < length ls then butlast ls else ls) @ [key @ ''='' @ v, []])"

lemma readEnv_ok:
  assumes "file_ok raw"
  shows "\<exists>env. readEnv raw = Inr env \<and> (\<forall>k. oget env k = map_of (List.map_filter line_entry (split_on LF raw)) k)"
proof -
  let ?es = "List.map_filter line_entry (split_on LF raw)"
  have "env_entries (split_on LF raw) = Inr ?es"
    using assms by (simp add: env_entries_iff file_ok_def file_lines_ok_def)
  moreover have "oget (from_entries ?es) k = map_of ?es k" for k
    using assms oget_ospread [of ?es "[]" k]
    by (simp add: from_entries_def file_ok_def file_lines_ok_def oget_def split: option.splits)
  ultimately show ?thesis by (simp add: readEnv_def)
qed

lemma line_entry_clean: "clean_value v \<Longrightarrow> env_key_ok key \<Longrightarrow> line_entry (key @ ''='' @ v) = Some (key, v)"
  using clean_line [of v key 0] by (simp add: line_entry_def)

lemma clean_line_ok:
  assumes "clean_value v" and "env_key_ok key"
  shows "plain_line (key @ ''='' @ v) \<and> CHR 0x00 \<notin> set (key @ ''='' @ v) \<and> trim_start (key @ ''='' @ v) = key @ ''='' @ v \<and>
    is_ok (env_line 0 (key @ ''='' @ v))"
proof -
  obtain c cs where c: "key = c # cs" "visible c" using env_key_facts(3) [OF assms(2)] by (auto simp: visible_def is_upper_def)
  have "list_all printable key" using assms(2)
    by (auto simp: env_key_ok_def list_all_iff printable_def is_upper_def is_digit_def split: list.splits)
  then have "list_all printable (key @ ''='' @ v)" using assms(1) by (simp add: clean_value_def printable_def)
  moreover have "plain_line s \<and> CHR 0x00 \<notin> set s" if "list_all printable s" for s
    using that by (auto simp: plain_line_def list_ex_iff list_all_iff is_line_end_def printable_def)
  ultimately have "plain_line (key @ ''='' @ v) \<and> CHR 0x00 \<notin> set (key @ ''='' @ v)" by blast
  moreover have "trim_start (key @ ''='' @ v) = key @ ''='' @ v" using c trim_start_visible by simp
  ultimately show ?thesis using clean_line [OF assms, of 0] by (simp only:) simp
qed

lemma updated_lines_ok:
  assumes "file_lines_ok ls" and "clean_value v" and "env_key_ok key"
  shows "file_lines_ok (updated_lines key v ls) \<and>
    map_of (List.map_filter line_entry (updated_lines key v ls)) = (map_of (List.map_filter line_entry ls)) (key \<mapsto> v)"
proof (cases "find_line key ls")
  case (Some bma)
  obtain b m a where bma: "bma = (b, m, a)" by (cases bma)
  note f = find_line_Some [OF Some [unfolded bma]]
  have m: "plain_line m" "CHR 0x00 \<notin> set m" using assms(1) f by (auto simp: file_lines_ok_def)
  obtain v0 where "line_entry m = Some (key, v0)"
    using starts_defines [OF _ assms(3) m, of 0] f by (auto simp: line_entry_def)
  then have es: "List.map_filter line_entry ls = List.map_filter line_entry b @ (key, v0) # List.map_filter line_entry a"
    using f by (simp add: map_filter_append map_filter_Cons)
  have u: "updated_lines key v ls = b @ (key @ ''='' @ v) # a" using Some bma by (simp add: updated_lines_def)
  have es': "List.map_filter line_entry (b @ (key @ ''='' @ v) # a) =
      List.map_filter line_entry b @ (key, v) # List.map_filter line_entry a"
    using line_entry_clean [OF assms(2,3)] by (simp add: map_filter_append map_filter_Cons)
  have d: "distinct (map fst (List.map_filter line_entry b @ (key, v0) # List.map_filter line_entry a))"
    using assms(1) es by (simp add: file_lines_ok_def)
  note map_of_changed [OF d, of v]
  moreover have "file_lines_ok (b @ (key @ ''='' @ v) # a)"
    using assms(1) f clean_line_ok [OF assms(2,3)] d unfolding file_lines_ok_def es' by auto
  ultimately show ?thesis unfolding u es' es by blast
next
  case None
  let ?ls = "if last ls = [] \<and> 1 < length ls then butlast ls else ls"
  have ls: "ls = ?ls \<or> ls = ?ls @ [[]]" using assms(1) by (auto simp: file_lines_ok_def) (metis append_butlast_last_id)
  have n: "line_entry [] = None" by (simp add: line_entry_def line_entry_Nil)
  then have es: "List.map_filter line_entry ?ls = List.map_filter line_entry ls"
  proof -
    have "List.map_filter line_entry (xs @ [[]]) = List.map_filter line_entry xs" for xs
      by (simp add: map_filter_append map_filter_Cons n)
    then show ?thesis using ls by metis
  qed
  have es': "List.map_filter line_entry (?ls @ [key @ ''='' @ v, []]) = List.map_filter line_entry ls @ [(key, v)]"
    using line_entry_clean [OF assms(2,3)] n es by (simp add: map_filter_append map_filter_Cons)
  have u: "updated_lines key v ls = ?ls @ [key @ ''='' @ v, []]" using None by (simp add: updated_lines_def)
  have "key \<noteq> fst e" if e: "e \<in> set (List.map_filter line_entry ls)" for e
  proof -
    obtain l where l: "l \<in> set ls" "line_entry l = Some e" using e by (auto simp: List.map_filter_def)
    obtain k w where e: "e = (k, w)" by (cases e)
    have "starts_with (k @ ''='') l" using defines_starts [of l k w] l e assms(1) by (simp add: file_lines_ok_def)
    then show ?thesis using find_line_None [OF None l(1)] e by auto
  qed
  then have fresh: "key \<notin> fst ` set (List.map_filter line_entry ls)" by auto
  have "file_lines_ok (?ls @ [key @ ''='' @ v, []])"
    unfolding file_lines_ok_def es'
  proof -
    have "set ?ls \<subseteq> set ls" by (auto dest: in_set_butlastD)
    then have "\<forall>l \<in> set ?ls. plain_line l \<and> CHR 0x00 \<notin> set l \<and> trim_start l = l \<and> is_ok (env_line 0 l)"
      using assms(1) unfolding file_lines_ok_def by blast
    moreover have "plain_line [] \<and> CHR 0x00 \<notin> set [] \<and> trim_start [] = [] \<and> is_ok (env_line 0 [])"
      by (simp add: plain_line_def trim_start.simps line_entry_Nil)
    moreover have "distinct (map fst (List.map_filter line_entry ls @ [(key, v)]))"
      using assms(1) fresh by (simp add: file_lines_ok_def)
    ultimately show "?ls @ [key @ ''='' @ v, []] \<noteq> [] \<and>
      (\<forall>l \<in> set (?ls @ [key @ ''='' @ v, []]). plain_line l \<and> CHR 0x00 \<notin> set l \<and> trim_start l = l \<and> is_ok (env_line 0 l)) \<and>
      distinct (map fst (List.map_filter line_entry ls @ [(key, v)]))"
      using clean_line_ok [OF assms(2,3)] by (simp only: set_append) auto
  qed
  moreover note map_of_appended [OF fresh, of v]
  ultimately show ?thesis unfolding u es' by blast
qed

lemma plain_no_lf: "plain_line l \<Longrightarrow> LF \<notin> set l"
  by (auto simp: plain_line_def list_ex_iff is_line_end_def)

lemma join_snoc: "join_lines (xs @ [x]) = prefix_lines xs @ x"
  using join_lines_parts [of xs x "[]"] by (simp add: suffix_lines_def)

lemma prefix_join: "ls \<noteq> [] \<Longrightarrow> prefix_lines ls = join_lines ls @ [LF]"
  by (cases ls rule: rev_cases) (simp_all add: join_snoc, simp add: prefix_lines_def)

lemma ends_with_lf_lines:
  assumes "ls \<noteq> []" and "\<forall>l \<in> set ls. LF \<notin> set l"
  shows "ends_with_lf (join_lines ls) \<longleftrightarrow> last ls = [] \<and> 1 < length ls"
proof (cases ls rule: rev_cases)
  case (snoc xs x)
  have jl: "join_lines ls = prefix_lines xs @ x" using snoc join_snoc by simp
  show ?thesis
  proof (cases "x = []")
    case True
    then show ?thesis unfolding ends_with_lf_def jl using snoc
      by (cases xs rule: rev_cases) (auto simp: prefix_lines_def)
  next
    case False
    then have "last x \<noteq> LF" using assms(2) snoc by (metis last_in_set last_snoc in_set_conv_decomp)
    then show ?thesis unfolding ends_with_lf_def jl using snoc False by simp
  qed
qed (use assms in simp)

lemma replace_one:
  assumes "file_ok output" and "clean_value v" and "env_key_ok key"
  shows "\<exists>out. replaceEnvValues output ((key, v) # vals) = replaceEnvValues out vals \<and> file_ok out \<and>
    map_of (List.map_filter line_entry (split_on LF out)) = (map_of (List.map_filter line_entry (split_on LF output))) (key \<mapsto> v)"
proof -
  define ls where "ls = split_on LF output"
  have out: "output = join_lines ls" by (simp add: ls_def join_lines_split)
  have ok: "file_lines_ok ls" using assms(1) by (simp add: file_ok_def ls_def)
  then have plain: "\<forall>l \<in> set ls. plain_line l" and "ls \<noteq> []" by (auto simp: file_lines_ok_def)
  then obtain m ls' where c: "ls = m # ls'" by (cases ls) auto
  let ?new = "updated_lines key v ls"
  note u = updated_lines_ok [OF ok assms(2,3)]
  have kv: "CHR ''$'' \<notin> set (key @ ''='' @ v)"
  proof -
    have "CHR ''$'' \<notin> set key" using assms(3)
      by (auto simp: env_key_ok_def list_all_iff is_upper_def is_digit_def split: list.splits)
    then show ?thesis using assms(2) by (simp add: clean_value_def)
  qed
  have find: "find_entry key True [] output =
      map_option (\<lambda>(b, l, a). (prefix_lines b, l, suffix_lines a)) (find_line key ls)"
    using find_entry_lines [of m ls' key "[]"] plain env_key_facts(2) [OF assms(3)] c out by simp
  have step: "(case find_entry key True [] output of
           Some (before, matched, after) \<Rightarrow>
             before @ expand_replacement before matched after (key @ ''='' @ v) @ after
         | None \<Rightarrow> output @ (if ends_with_lf output then [] else [LF]) @ key @ ''='' @ v @ [LF]) = join_lines ?new"
  proof (cases "find_line key ls")
    case (Some bma)
    obtain b l a where bma: "bma = (b, l, a)" by (cases bma)
    show ?thesis unfolding find Some bma
      using Some bma kv by (simp add: expand_plain updated_lines_def join_lines_parts)
  next
    case None
    have e: "ends_with_lf output \<longleftrightarrow> last ls = [] \<and> 1 < length ls"
      using ends_with_lf_lines [of ls] plain \<open>ls \<noteq> []\<close> plain_no_lf out by blast
    have two: "join_lines (xs @ [x, []]) = prefix_lines xs @ x @ [LF]" for xs x
      using join_lines_parts [of xs x "[[]]"] by (simp add: suffix_lines_def)
    show ?thesis
    proof (cases "ends_with_lf output")
      case True
      then have "output = join_lines (butlast ls @ [[]])" using e out \<open>ls \<noteq> []\<close> by (metis append_butlast_last_id)
      then show ?thesis using True e unfolding find None
        by (simp add: updated_lines_def None join_snoc two)
    next
      case False
      then show ?thesis using e prefix_join [OF \<open>ls \<noteq> []\<close>] out unfolding find None
        by (auto simp: updated_lines_def None two)
    qed
  qed
  have new: "split_on LF (join_lines ?new) = ?new"
    by (rule split_on_sep_join) (use u plain_no_lf in \<open>auto simp: file_lines_ok_def\<close>)
  have "replaceEnvValues output ((key, v) # vals) = replaceEnvValues (join_lines ?new) vals"
    using assms(2) step by (simp add: clean_value_def)
  then show ?thesis using u new unfolding file_ok_def ls_def by metis
qed

lemma replace_all:
  "file_ok raw \<Longrightarrow> \<forall>(key, v) \<in> set vals. env_key_ok key \<and> clean_value v \<Longrightarrow>
     \<exists>out. replaceEnvValues raw vals = Inr out \<and> file_ok out \<and>
       map_of (List.map_filter line_entry (split_on LF out)) = map_of (List.map_filter line_entry (split_on LF raw)) ++ map_of (rev vals)"
proof (induction vals arbitrary: raw)
  case (Cons kv vals)
  obtain key v where kv: "kv = (key, v)" by (cases kv)
  obtain out1 where s: "replaceEnvValues raw ((key, v) # vals) = replaceEnvValues out1 vals" "file_ok out1"
      "map_of (List.map_filter line_entry (split_on LF out1)) = (map_of (List.map_filter line_entry (split_on LF raw))) (key \<mapsto> v)"
    using replace_one [of raw v key vals] Cons.prems kv by auto
  obtain out where "replaceEnvValues out1 vals = Inr out" "file_ok out"
      "map_of (List.map_filter line_entry (split_on LF out)) = map_of (List.map_filter line_entry (split_on LF out1)) ++ map_of (rev vals)"
    using Cons.IH [OF s(2)] Cons.prems by auto
  then show ?case using s kv by auto
qed simp


definition example_file :: string where
  "example_file = ''# node'' @ [LF] @ ''MODEL=old'' @ [LF] @ ''KEY=k'' @ [LF]"

lemma example_file_ok: "file_ok example_file"
  by code_simp


text \<open>
  A dollar sign in a value is taken for a replacement pattern.  Changing an API key to
  \<open>a$&b\<close> in place puts the old entry into the new one, and \<open>a$$b\<close> loses one of its dollar signs,
  where appending the same entry to a file without the key keeps it.
\<close>

theorem env_update_dollar:
  "rbind (replaceEnvValues example_file [(''KEY'', ''a$&b'')]) (\<lambda>out. rbind (readEnv out) (\<lambda>env. Inr (oget env ''KEY''))) =
     Inr (Some ''aKEY=kb'') \<and>
   rbind (replaceEnvValues example_file [(''KEY'', ''a$$b'')]) (\<lambda>out. rbind (readEnv out) (\<lambda>env. Inr (oget env ''KEY''))) =
     Inr (Some ''a$b'') \<and>
   rbind (replaceEnvValues example_file [(''NEW'', ''a$$b'')]) (\<lambda>out. rbind (readEnv out) (\<lambda>env. Inr (oget env ''NEW''))) =
     Inr (Some ''a$$b'')"
  by code_simp

end
