(* ===== verification/ModelHealth.thy ===== *)
theory ModelHealth
  imports ModelSelection EnvFileProps
begin

text \<open>
  The remembered health of a node's models, in \<open>apps/manager/src/node-deployment-manager.ts\<close>: what
  of a verification goes into \<open>model-health.json\<close> (no key, no path of an endpoint), and when a file
  found there still speaks of the current configuration.  SHA-256, \<open>JSON.parse\<close>, the origin of a URL and
  the clock are arguments.  A character cut in half by \<open>slice\<close> is dropped.
\<close>

section \<open>Cleaning\<close>

text \<open>\<open>value.slice(0, n)\<close>\<close>

fun cut_units :: "nat \<Rightarrow> string \<Rightarrow> string" where
  "cut_units n [] = []"
| "cut_units n (c # cs) = (if units c \<le> n then c # cut_units (n - units c) cs else [])"

text \<open>The length of \<open>\S+\<close> at the front\<close>

fun solid :: "string \<Rightarrow> nat" where
  "solid [] = 0"
| "solid (c # cs) = (if ws_front (c # cs) \<noteq> 0 then 0 else Suc (solid cs))"

text \<open>\<open>/^https?:\/\//i\<close>: the length of the scheme at the front, 0 if there is none\<close>

definition scheme_length :: "string \<Rightarrow> nat" where
  "scheme_length s = (if starts_with ''http://'' (to_lower s) then 7 else if starts_with ''https://'' (to_lower s) then 8 else 0)"

definition url_length :: "string \<Rightarrow> nat" where
  "url_length s = (let p = scheme_length s; k = solid (drop p s) in if p = 0 \<or> k = 0 then 0 else p + k)"

text \<open>\<open>value.replace(/https?:\/\/\S+/gi, "[provider]")\<close>\<close>

function replace_urls :: "string \<Rightarrow> string" where
  "replace_urls s = (case s of [] \<Rightarrow> []
     | c # cs \<Rightarrow> if url_length s = 0 then c # replace_urls cs else ''[provider]'' @ replace_urls (drop (url_length s) s))"
  by pat_completeness auto
termination by (relation "measure length") auto

text \<open>\<open>result.replaceAll(secret, "[redacted]")\<close> for a secret that is not empty\<close>

function redact :: "string \<Rightarrow> string \<Rightarrow> string" where
  "redact secret s = (case s of [] \<Rightarrow> []
     | c # cs \<Rightarrow> if secret \<noteq> [] \<and> starts_with secret s then ''[redacted]'' @ redact secret (drop (length secret) s)
                 else c # redact secret cs)"
  by pat_completeness auto
termination by (relation "measure (length \<circ> snd)") auto

declare replace_urls.simps [simp del] redact.simps [simp del]

text \<open>\<open>result.replace(/[\r\n\0]+/g, " ")\<close>\<close>

definition break_char :: "char \<Rightarrow> bool" where
  "break_char c = (is_line_end c \<or> c = CHR 0x00)"

fun squeeze :: "bool \<Rightarrow> string \<Rightarrow> string" where
  "squeeze inside [] = []"
| "squeeze inside (c # cs) =
     (if break_char c then (if inside then squeeze True cs else CHR '' '' # squeeze True cs) else c # squeeze False cs)"

definition modelHealthSensitiveValues :: "env \<Rightarrow> string list" where
  "modelHealthSensitiveValues env = uniq (filter (\<lambda>v. 4 \<le> js_length v)
     [eget env ''EMBEDDING_API_KEY'', eget env ''GENERATION_API_KEY'', eget env ''GENERATION_DIRECT_API_KEY'',
      eget env ''NODE_CODEX_BRIDGE_TOKEN''])"

definition safeModelHealthName :: "string list \<Rightarrow> string \<Rightarrow> string" where
  "safeModelHealthName sensitive v =
     (let model = trim v
      in if \<not> validModel model \<or> scheme_length model \<noteq> 0 \<or> list_ex (\<lambda>secret. str_includes secret model) sensitive
         then ''unavailable'' else model)"

definition safeModelHealthEndpoint :: "node_world \<Rightarrow> (string \<Rightarrow> string option) \<Rightarrow> string \<Rightarrow> string" where
  "safeModelHealthEndpoint w origin v =
     (let endpoint = safeDisplayEndpoint w v
      in if endpoint = ''invalid'' then endpoint else (case origin endpoint of None \<Rightarrow> ''invalid'' | Some u \<Rightarrow> u))"

definition safeModelHealthDetail :: "string list \<Rightarrow> string \<Rightarrow> string" where
  "safeModelHealthDetail sensitive v =
     cut_units 500 (squeeze False (fold redact sensitive (replace_urls v)))"

definition sanitize_source :: "node_world \<Rightarrow> (string \<Rightarrow> string option) \<Rightarrow> string list \<Rightarrow> source_status \<Rightarrow> source_status" where
  "sanitize_source w origin sensitive s =
     \<lparr>cs_source = cs_source s, cs_endpoint = safeModelHealthEndpoint w origin (cs_endpoint s),
      cs_model = safeModelHealthName sensitive (cs_model s), cs_status = cs_status s, cs_models = [], cs_provider = None,
      cs_detail = (case cs_detail s of None \<Rightarrow> None
        | Some d \<Rightarrow> if d = [] then None else Some (safeModelHealthDetail sensitive d))\<rparr>"

definition modelHealthCompute ::
    "node_world \<Rightarrow> (string \<Rightarrow> string option) \<Rightarrow> env \<Rightarrow> source_status \<times> source_status \<Rightarrow> source_status \<times> source_status" where
  "modelHealthCompute w origin env compute =
     (let sensitive = modelHealthSensitiveValues env
      in (sanitize_source w origin sensitive (fst compute), sanitize_source w origin sensitive (snd compute)))"

section \<open>The dimensions of the embedding\<close>

definition configuredEmbeddingDimensions :: "env \<Rightarrow> nat res" where
  "configuredEmbeddingDimensions env =
     (case Option.bind (str_number (eget_or env ''EMBEDDING_VECTOR_DIMENSIONS'' ''1536'')) rat_integer of
        Some d \<Rightarrow> if 1 \<le> d \<and> d \<le> 65536 then Inr (nat d)
                  else Inl ''EMBEDDING_VECTOR_DIMENSIONS must be an integer between 1 and 65536''
      | None \<Rightarrow> Inl ''EMBEDDING_VECTOR_DIMENSIONS must be an integer between 1 and 65536'')"

section \<open>The fingerprint of a configuration\<close>

record health_fingerprint =
  hf_embedding_model :: string
  hf_embedding_endpoint :: string
  hf_dimensions :: "nat option"
  hf_embedding_key :: bool
  hf_generation_model :: string
  hf_generation_source :: source
  hf_generation_endpoint :: string
  hf_generation_key :: bool

definition providerEndpointFingerprint :: "node_world \<Rightarrow> (string \<Rightarrow> string) \<Rightarrow> string \<Rightarrow> string" where
  "providerEndpointFingerprint w sha v =
     (let endpoint = safeDisplayEndpoint w v in if endpoint = ''invalid'' then ''invalid'' else sha endpoint)"

definition modelHealthFingerprint :: "node_world \<Rightarrow> (string \<Rightarrow> string) \<Rightarrow> env \<Rightarrow> health_fingerprint" where
  "modelHealthFingerprint w sha env =
     (let sensitive = modelHealthSensitiveValues env
      in \<lparr>hf_embedding_model = safeModelHealthName sensitive (eget env ''EMBEDDING_MODEL''),
          hf_embedding_endpoint = providerEndpointFingerprint w sha (eget env ''EMBEDDING_BASE_URL''),
          hf_dimensions = (case configuredEmbeddingDimensions env of Inl _ \<Rightarrow> None | Inr d \<Rightarrow> Some d),
          hf_embedding_key = (eget env ''EMBEDDING_API_KEY'' \<noteq> []),
          hf_generation_model = safeModelHealthName sensitive (eget env ''GENERATION_MODEL''),
          hf_generation_source = generationSource env None,
          hf_generation_endpoint = providerEndpointFingerprint w sha (eget env ''GENERATION_BASE_URL''),
          hf_generation_key = (eget env ''GENERATION_API_KEY'' \<noteq> [])\<rparr>)"

fun source_name :: "source \<Rightarrow> string" where
  "source_name CodexSession = ''codex_session''"
| "source_name OpenaiCompatible = ''openai_compatible''"

definition fingerprint_json :: "health_fingerprint \<Rightarrow> json" where
  "fingerprint_json f = JObj [
     (''embedding'', JObj [(''model'', JStr (hf_embedding_model f)), (''source'', JStr ''openai_compatible''),
        (''endpoint_fingerprint'', JStr (hf_embedding_endpoint f)),
        (''dimensions'', (case hf_dimensions f of None \<Rightarrow> JNull | Some d \<Rightarrow> JNum (of_nat d))),
        (''api_key_configured'', JBool (hf_embedding_key f))]),
     (''generation'', JObj [(''model'', JStr (hf_generation_model f)), (''source'', JStr (source_name (hf_generation_source f))),
        (''endpoint_fingerprint'', JStr (hf_generation_endpoint f)), (''api_key_configured'', JBool (hf_generation_key f))])]"

section \<open>The file\<close>

text \<open>A source status as it is written, with the time of its check\<close>

definition status_fields :: "string \<Rightarrow> source_status \<Rightarrow> fields" where
  "status_fields checked_at s =
     [(''source'', JStr (source_name (cs_source s))), (''endpoint'', JStr (cs_endpoint s)), (''model'', JStr (cs_model s)),
      (''status'', JStr (cs_status s)), (''available_models'', JArr (map JStr (cs_models s)))] @
     (case cs_provider s of None \<Rightarrow> [] | Some p \<Rightarrow> [(''provider'', JStr p)]) @
     (case cs_detail s of None \<Rightarrow> [] | Some d \<Rightarrow> [(''detail'', JStr d)]) @
     [(''checked_at'', JStr checked_at)]"

definition health_json :: "node_world \<Rightarrow> (string \<Rightarrow> string) \<Rightarrow> env \<Rightarrow> source_status \<times> source_status \<Rightarrow> json" where
  "health_json w sha env compute = JObj [
     (''format'', JNum 1), (''node_id'', JStr (nodeId env)), (''verified_at'', JStr (nw_now w)),
     (''fingerprint'', fingerprint_json (modelHealthFingerprint w sha env)),
     (''compute'', JObj [(''embedding'', JObj (status_fields (nw_now w) (fst compute))),
        (''generation'', JObj (status_fields (nw_now w) (snd compute)))])]"

definition short_string :: "nat \<Rightarrow> json option \<Rightarrow> bool" where
  "short_string n v = (case v of Some (JStr s) \<Rightarrow> js_length s \<le> n | _ \<Rightarrow> False)"

text \<open>\<open>cachedSourceStatus\<close>: the checked fields, \<open>source\<close> and \<open>status\<close> as they are\<close>

definition cachedSourceStatus :: "(rat \<Rightarrow> string) \<Rightarrow> json option \<Rightarrow> fields option" where
  "cachedSourceStatus fmt v =
     (case Option.bind v as_object of
        None \<Rightarrow> None
      | Some s \<Rightarrow>
          (case (oget s ''source'', oget s ''status'', oget s ''endpoint'', oget s ''model'', oget s ''available_models'',
                 oget s ''checked_at'') of
             (Some source, Some health, Some endpoint, Some model, Some (JArr models), Some checked_at) \<Rightarrow>
               if js_string fmt source \<notin> {''openai_compatible'', ''codex_session'', ''unknown''} \<or>
                 js_string fmt health \<notin> {''ready'', ''unavailable'', ''unknown''} \<or>
                 \<not> short_string 2048 (Some endpoint) \<or> \<not> short_string 256 (Some model) \<or> \<not> short_string 128 (Some checked_at) \<or>
                 512 < length models \<or> list_ex (\<lambda>m. \<not> short_string 256 (Some m)) models \<or>
                 (oget s ''provider'' \<noteq> None \<and> \<not> short_string 256 (oget s ''provider'')) \<or>
                 (oget s ''detail'' \<noteq> None \<and> \<not> short_string 500 (oget s ''detail''))
               then None
               else Some ([(''source'', source), (''endpoint'', endpoint), (''model'', model), (''status'', health),
                      (''available_models'', JArr models)] @
                    (case oget s ''provider'' of None \<Rightarrow> [] | Some p \<Rightarrow> [(''provider'', p)]) @
                    (case oget s ''detail'' of None \<Rightarrow> [] | Some d \<Rightarrow> [(''detail'', d)]) @ [(''checked_at'', checked_at)])
           | _ \<Rightarrow> None))"

definition cachedComputeStatus :: "(rat \<Rightarrow> string) \<Rightarrow> json option \<Rightarrow> (fields \<times> fields) option" where
  "cachedComputeStatus fmt v =
     (case Option.bind v as_object of
        None \<Rightarrow> None
      | Some s \<Rightarrow>
          (case (cachedSourceStatus fmt (oget s ''embedding''), cachedSourceStatus fmt (oget s ''generation'')) of
             (Some e, Some g) \<Rightarrow> Some (e, g)
           | _ \<Rightarrow> None))"

text \<open>\<open>#cachedModelHealth\<close> of the text of the file, if it can be read\<close>

definition cachedModelHealth ::
    "(string \<Rightarrow> json option) \<Rightarrow> (rat \<Rightarrow> string) \<Rightarrow> node_world \<Rightarrow> (string \<Rightarrow> string) \<Rightarrow> env \<Rightarrow> string option \<Rightarrow> (fields \<times> fields) option" where
  "cachedModelHealth parse fmt w sha env text =
     (case Option.bind (Option.bind text parse) props of
        None \<Rightarrow> None
      | Some p \<Rightarrow>
          if oget p ''format'' \<noteq> Some (JNum 1) \<or> oget p ''node_id'' \<noteq> Some (JStr (nodeId env)) then None
          else if map_option (stringify fmt) (oget p ''fingerprint'') \<noteq>
            Some (stringify fmt (fingerprint_json (modelHealthFingerprint w sha env))) then None
          else cachedComputeStatus fmt (oget p ''compute''))"

end
