(* ===== verification/ModelSelectionProps.thy ===== *)
theory ModelSelectionProps
  imports ModelSelection EnvFileProps
begin

text \<open>
  What \<open>selectModels\<close> does to the private env file, where a saved API key can go, and what the Codex
  bridge lets through.
\<close>

section \<open>The env file after a selection\<close>

definition selection_keys :: "string list" where
  "selection_keys = [''EMBEDDING_MODEL'', ''GENERATION_SOURCE'', ''GENERATION_BASE_URL'', ''GENERATION_API_KEY'',
     ''GENERATION_MODEL'', ''NODE_CODEX_BRIDGE_TOKEN'', ''GENERATION_DIRECT_BASE_URL'', ''GENERATION_DIRECT_API_KEY'',
     ''GENERATION_DIRECT_MODEL'']"

lemma selection_keys_ok: "\<forall>k \<in> set selection_keys. env_key_ok k"
proof -
  have "list_all env_key_ok selection_keys" by code_simp
  then show ?thesis by (simp add: list_all_iff)
qed

lemma embedding_keys:
  "embedding_updates w env sel = Inr u \<Longrightarrow> set (map fst u) \<subseteq> {''EMBEDDING_MODEL''} \<and> distinct (map fst u)"
  by (auto simp: embedding_updates_def Let_def split: option.splits if_splits)

lemma generation_keys:
  "generation_updates w codex port fresh env sel = Inr u \<Longrightarrow>
     set (map fst u) \<subseteq> set selection_keys - {''EMBEDDING_MODEL''} \<and> distinct (map fst u)"
  by (auto simp: generation_updates_def selection_keys_def rbind_eq_Inr Let_def split: option.splits source.splits prod.splits)

lemma selectModels_cases:
  assumes "selectModels e input st = (r, st')"
  obtains (refused) err where "r = Inl err" "st' = st"
  | (undone) err where "r = Inl err" "st' = st\<lparr>ss_health := None\<rparr>"
  | (applied) updates where "r = Inr updates" "replaceEnvValues (ss_env_file st) updates = Inr (ss_env_file st')"
      "ss_health st' = None" "apply_env e (ss_env_file st') = Inr ()" "set (map fst updates) \<subseteq> set selection_keys"
      "distinct (map fst updates)"
proof -
  let ?p = "rbind (validateModelSelection input) (\<lambda>sel.
           rbind (readEnv (ss_env_file st)) (\<lambda>env.
           rbind (embedding_updates (se_world e) env sel) (\<lambda>u1.
           rbind (generation_updates (se_world e) (se_codex e) (se_port e) (se_fresh e) env sel) (\<lambda>u2.
           if u1 @ u2 = [] then Inl ''At least one model selection is required''
           else rbind (replaceEnvValues (ss_env_file st) (u1 @ u2)) (\<lambda>next. Inr (u1 @ u2, next))))))"
  show ?thesis
  proof (cases ?p)
    case (Inl err)
    then have "(r, st') = (Inl err, st)" using assms unfolding selectModels_def Let_def by simp
    then show ?thesis using refused by simp
  next
    case (Inr un)
    obtain updates "next" where un: "un = (updates, next)" by (cases un)
    have "\<exists>sel env u1 u2. embedding_updates (se_world e) env sel = Inr u1 \<and>
        generation_updates (se_world e) (se_codex e) (se_port e) (se_fresh e) env sel = Inr u2 \<and> updates = u1 @ u2 \<and>
        replaceEnvValues (ss_env_file st) updates = Inr next"
      using Inr un by (auto simp: rbind_eq_Inr split: if_splits)
    then obtain sel env u1 u2 where u: "embedding_updates (se_world e) env sel = Inr u1"
        "generation_updates (se_world e) (se_codex e) (se_port e) (se_fresh e) env sel = Inr u2" "updates = u1 @ u2"
        "replaceEnvValues (ss_env_file st) updates = Inr next" by blast
    have "set (map fst u1) \<inter> set (map fst u2) = {}" using embedding_keys [OF u(1)] generation_keys [OF u(2)] by blast
    then have k: "set (map fst updates) \<subseteq> set selection_keys" "distinct (map fst updates)"
      using embedding_keys [OF u(1)] generation_keys [OF u(2)] u(3)
      by (simp_all only: map_append set_append distinct_append) (auto simp: selection_keys_def)
    show ?thesis
    proof (cases "apply_env e next")
      case (Inl err)
      then have "(r, st') = (Inl err, st\<lparr>ss_health := None\<rparr>)"
        using assms Inr un unfolding selectModels_def Let_def by simp
      then show ?thesis using undone by simp
    next
      case ok: (Inr v)
      then have "(r, st') = (Inr updates, st\<lparr>ss_env_file := next, ss_health := None\<rparr>)"
        using assms Inr un unfolding selectModels_def Let_def by simp
      then show ?thesis using k u(4) ok applied [of updates] by simp
    qed
  qed
qed

text \<open>
  C24: A selection is applied as a whole or not at all.  When \<open>selectModels\<close> fails, whatever the
  step, the private env file is what it was before; when it succeeds, the new file validates, the node has come up with it
  and the old verification of the models is forgotten, and every changed key reads back as the value chosen for it, provided
  the file sets no key twice and the values are ones that a file keeps.
\<close>

theorem select_models_restores:
  assumes "selectModels e input st = (r, st')"
  shows "case r of
      Inl err \<Rightarrow> ss_env_file st' = ss_env_file st
    | Inr updates \<Rightarrow> replaceEnvValues (ss_env_file st) updates = Inr (ss_env_file st') \<and> ss_health st' = None \<and>
        (\<exists>env cfg. readEnv (ss_env_file st') = Inr env \<and> validateConfig (se_check e (ss_env_file st')) env = Inr cfg \<and>
           cr_ok (se_up e (ss_env_file st')) \<and>
           (file_ok (ss_env_file st) \<and> (\<forall>(key, v) \<in> set updates. clean_value v) \<longrightarrow>
              (\<forall>(key, v) \<in> set updates. oget env key = Some v)))"
  using assms
proof (cases rule: selectModels_cases)
  case (applied updates)
  obtain env cfg where a: "readEnv (ss_env_file st') = Inr env" "validateConfig (se_check e (ss_env_file st')) env = Inr cfg"
      "cr_ok (se_up e (ss_env_file st'))"
    using applied(4) by (auto simp: apply_env_def rbind_eq_Inr)
  have "\<forall>(key, v) \<in> set updates. oget env key = Some v"
    if f: "file_ok (ss_env_file st)" and clean: "\<forall>(key, v) \<in> set updates. clean_value v"
  proof -
    have "\<forall>(key, v) \<in> set updates. env_key_ok key \<and> clean_value v"
      using clean applied(5) selection_keys_ok by fastforce
    from replace_all [OF f this] applied(2) have out: "file_ok (ss_env_file st')"
        "map_of (List.map_filter line_entry (split_on LF (ss_env_file st'))) =
         map_of (List.map_filter line_entry (split_on LF (ss_env_file st))) ++ map_of (rev updates)" by auto
    have "map_of (rev updates) key = Some v" if "(key, v) \<in> set updates" for key v
      using that applied(6) by (simp add: rev_map [symmetric])
    then show ?thesis using readEnv_ok [OF out(1)] a(1) out(2) by (auto simp: map_add_def)
  qed
  then show ?thesis using applied a by auto
qed auto

definition offline_world :: node_world where
  "offline_world = \<lparr>nw_parse_url = (\<lambda>s. Some \<lparr>protocol = ''http:'', username = [], password = [], hostname = s, url_port = [],
     pathname = ''/'', search = [], url_hash = []\<rparr>), nw_show_url = hostname, nw_fetch = (\<lambda>_. FetchFailed ''offline''), nw_now = []\<rparr>"

definition failing_env :: selection_env where
  "failing_env = \<lparr>se_world = offline_world, se_codex = \<lparr>cx_auth = [], cx_models = [], cx_diagnostic = None\<rparr>, se_port = 1,
     se_fresh = [], se_check = (\<lambda>_. \<lparr>cr_ok = True, cr_stdout = [], cr_stderr = []\<rparr>),
     se_up = (\<lambda>_. \<lparr>cr_ok = False, cr_stdout = [], cr_stderr = ''down''\<rparr>)\<rparr>"

theorem select_models_restores_witness:
  "ss_env_file (snd (selectModels failing_env (JObj [(''embedding_model'', JStr ''m2'')])
     \<lparr>ss_env_file = example_file, ss_health = Some ''{}''\<rparr>)) = example_file"
proof -
  let ?st = "\<lparr>ss_env_file = example_file, ss_health = Some ''{}''\<rparr>"
  obtain r st' where s: "selectModels failing_env (JObj [(''embedding_model'', JStr ''m2'')]) ?st = (r, st')" by fastforce
  have "\<not> is_ok r"
  proof
    assume "is_ok r"
    then obtain updates where "r = Inr updates" by (auto simp: is_ok_def split: sum.splits)
    with select_models_restores [OF s] show False by (auto simp: failing_env_def)
  qed
  then show ?thesis using select_models_restores [OF s] unfolding s by (auto simp: is_ok_def split: sum.splits)
qed

section \<open>Where a saved key goes\<close>

text \<open>
  A saved API key stays with its endpoint.  A resolved connection carries a key that the
  request itself gives, or none, or the saved key, and the saved key only for exactly the endpoint it was saved for.
\<close>

theorem saved_key_stays:
  assumes "resolveDirectConnection w env connection = Inr (base, key)"
  shows "key = [] \<or> Option.bind (Option.bind connection props) (\<lambda>input. str_field input ''api_key'') = Some key \<or>
    key = snd (saved_connection env) \<and> displayEndpoint w (fst (saved_connection env)) = Inr base"
proof (cases "truthy_opt connection")
  case False
  then show ?thesis using assms
    by (auto simp: resolveDirectConnection_def rbind_eq_Inr split: prod.splits if_splits)
next
  case True
  define input where "input = (case Option.bind connection props of None \<Rightarrow> [] | Some o1 \<Rightarrow> o1)"
  have key: "Option.bind (Option.bind connection props) (\<lambda>input. str_field input ''api_key'') = str_field input ''api_key''"
    by (cases connection; cases "Option.bind connection props") (simp_all add: input_def str_field_def)
  show ?thesis using assms True unfolding key
    by (auto simp: resolveDirectConnection_def input_def [symmetric] Let_def rbind_eq_Inr
        split: prod.splits option.splits if_splits json.splits)
qed

definition direct_env :: env where
  "direct_env = [(''GENERATION_DIRECT_BASE_URL'', ''h''), (''GENERATION_DIRECT_API_KEY'', ''k'')]"

theorem saved_key_stays_witness:
  "resolveDirectConnection offline_world direct_env None = Inr (''h'', ''k'') \<and>
   displayEndpoint offline_world (fst (saved_connection direct_env)) = Inr ''h''"
proof -
  have r: "resolveDirectConnection offline_world direct_env None = Inr (''h'', ''k'')" by code_simp
  from saved_key_stays [OF r] show ?thesis using r by simp
qed

section \<open>The Codex bridge\<close>

lemma codex_message_ok:
  "codex_message fmt item = Inr (role, content) \<Longrightarrow>
     js_string fmt role \<in> {''system'', ''user'', ''assistant''} \<and> js_length content \<le> 100000"
  by (auto simp: codex_message_def split: option.splits if_splits)

text \<open>
  What the Codex bridge lets through.  A completion reaches the Codex session only for this
  node, with its bridge token, while the Codex session is the active source, for the configured model, with 1 to 64
  messages of at most 100000 characters in a known role.
\<close>

theorem codex_bridge_guarded:
  assumes "codex_completion_request fmt env selector authorization input = Inr req"
  shows "selector = nodeId env \<and> generationSource env None = CodexSession \<and> cq_model req = eget env ''GENERATION_MODEL'' \<and>
    (\<exists>header. authorization = Some header \<and> to_lower (take 6 header) = ''bearer'' \<and>
       trim_start (drop 6 header) = bridge_token env \<and> bridge_token env \<noteq> []) \<and>
    cq_messages req \<noteq> [] \<and> length (cq_messages req) \<le> 64 \<and>
    (\<forall>(role, content) \<in> set (cq_messages req).
       js_string fmt role \<in> {''system'', ''user'', ''assistant''} \<and> js_length content \<le> 100000)"
proof -
  have a: "authorizeCodexBridge env selector authorization = Inr ()" "generationSource env None = CodexSession"
      "validateCodexCompletion fmt input (eget env ''GENERATION_MODEL'') = Inr req"
    using assms by (auto simp: codex_completion_request_def rbind_eq_Inr split: if_splits)
  obtain items messages where m: "items \<noteq> []" "length items \<le> 64" "rmap_list (codex_message fmt) items = Inr messages"
      "cq_messages req = messages" "cq_model req = eget env ''GENERATION_MODEL''"
    using a(3) by (auto simp: validateCodexCompletion_def rbind_eq_Inr split: option.splits if_splits)
  have "length messages = length items" using m(3) by (rule rmap_list_length)
  have each: "\<forall>(role, content) \<in> set messages.
      js_string fmt role \<in> {''system'', ''user'', ''assistant''} \<and> js_length content \<le> 100000"
  proof (rule ballI, rule case_prodI2)
    fix x role content assume "x \<in> set messages" and "x = (role, content)"
    then obtain i where "i < length messages" "messages ! i = (role, content)" by (metis in_set_conv_nth)
    then have "codex_message fmt (items ! i) = Inr (role, content)"
      using m(3) by (simp add: rmap_list_Inr_iff list_all2_conv_all_nth)
    then show "js_string fmt role \<in> {''system'', ''user'', ''assistant''} \<and> js_length content \<le> 100000"
      by (rule codex_message_ok)
  qed
  have s: "selector = nodeId env" and b: "bridge_bearer (case authorization of None \<Rightarrow> [] | Some h \<Rightarrow> h) = bridge_token env"
      "bridge_token env \<noteq> []"
    using a(1) by (simp_all add: authorizeCodexBridge_def Let_def split: if_splits)
  have h: "\<exists>header. authorization = Some header \<and> to_lower (take 6 header) = ''bearer'' \<and>
       trim_start (drop 6 header) = bridge_token env \<and> bridge_token env \<noteq> []"
  proof (cases authorization)
    case None
    then show ?thesis using b by (simp add: bridge_bearer_def Let_def to_lower_def)
  next
    case (Some header)
    then show ?thesis using b by (simp add: bridge_bearer_def Let_def split: if_splits)
  qed
  have "messages \<noteq> []" "length messages \<le> 64" using m(1,2) \<open>length messages = length items\<close> by auto
  then show ?thesis unfolding m(4,5) using a(2) s h each by blast
qed

definition codex_env :: env where
  "codex_env = [(''GENERATION_SOURCE'', ''codex_session''), (''NEUROMEM_NODE_ID'', ''n''), (''GENERATION_MODEL'', ''g''),
     (''NODE_CODEX_BRIDGE_TOKEN'', ''t'')]"

theorem codex_bridge_guarded_witness:
  "\<exists>req. codex_completion_request (\<lambda>_. []) codex_env ''n'' (Some ''Bearer t'')
     (JObj [(''model'', JStr ''g''), (''messages'', JArr [JObj [(''role'', JStr ''user''), (''content'', JStr ''hi'')]])]) = Inr req \<and>
     length (cq_messages req) \<le> 64"
proof -
  let ?r = "codex_completion_request (\<lambda>_. []) codex_env ''n'' (Some ''Bearer t'')
     (JObj [(''model'', JStr ''g''), (''messages'', JArr [JObj [(''role'', JStr ''user''), (''content'', JStr ''hi'')]])])"
  have "authorizeCodexBridge codex_env ''n'' (Some ''Bearer t'') = Inr ()" by code_simp
  then have "is_ok ?r"
    by (simp add: codex_completion_request_def generationSource_def codex_env_def eget_def validateCodexCompletion_def
        arr_field_def codex_message_def str_field_def units_def)
  then obtain req where "?r = Inr req" by (auto simp: is_ok_def split: sum.splits)
  from codex_bridge_guarded [OF this] show ?thesis using \<open>?r = Inr req\<close> by blast
qed

end
