(* ===== verification/ModelHealthProps.thy ===== *)
theory ModelHealthProps
  imports ModelHealth JsonText ModelSelectionProps
begin

text \<open>
  What \<open>model-health.json\<close> may hold and when it is believed: no secret of the node is in what is
  remembered, and a file is read back exactly for the configuration it was written for.
\<close>

section \<open>Occurrences of a word\<close>

lemma starts_with_Cons: "starts_with w (c # s) \<longleftrightarrow> w = [] \<or> (\<exists>u. w = c # u \<and> starts_with u s)"
  by (cases w) (auto simp: starts_with_def)

lemma str_includes_iff: "str_includes w s \<longleftrightarrow> (\<exists>u v. s = u @ w @ v)"
proof (induction s)
  case (Cons c s)
  have "(\<exists>u v. c # s = u @ w @ v) \<longleftrightarrow> (\<exists>v. c # s = w @ v) \<or> (\<exists>u v. s = u @ w @ v)"
    by (metis (no_types, opaque_lifting) append_Cons append_Nil list.exhaust list.inject)
  then show ?case using Cons by (simp add: starts_with_iff)
qed simp

text \<open>A word longer than a mark, without its last character, occurs behind the mark if at all.\<close>

lemma includes_after_mark:
  assumes "str_includes w (u @ c # r)" and "c \<notin> set w" and "length u < length w"
  shows "str_includes w r"
  using assms(1,3)
proof (induction u)
  case Nil
  then show ?case using assms(2) by (auto simp: starts_with_Cons)
next
  case (Cons d u)
  have "\<not> starts_with w ((d # u) @ c # r)"
  proof
    assume "starts_with w ((d # u) @ c # r)"
    then have "w = take (length w) ((d # u) @ c # r)" by (simp add: starts_with_def)
    moreover have "c \<in> set (take (length w) ((d # u) @ c # r))"
    proof -
      obtain n where "length w = Suc (length (d # u) + n)" using less_imp_Suc_add [OF Cons.prems(2)] by blast
      then show ?thesis by simp
    qed
    ultimately show False using assms(2) by simp
  qed
  moreover have "length u < length w" using Cons.prems(2) by simp
  ultimately show ?case using Cons.IH Cons.prems(1) by simp
qed

text \<open>What the cleaning may not hide: a word of at least twelve characters with no bracket, space or break\<close>

definition solid_word :: "string \<Rightarrow> bool" where
  "solid_word w = (12 \<le> length w \<and> list_all (\<lambda>c. c \<noteq> CHR ''['' \<and> c \<noteq> CHR '']'' \<and> c \<noteq> CHR '' '' \<and> \<not> break_char c) w)"

lemma solid_wordD:
  assumes "solid_word w"
  shows "12 \<le> length w" "CHR ''['' \<notin> set w" "CHR '']'' \<notin> set w" "CHR '' '' \<notin> set w" "w \<noteq> []"
proof -
  have l: "12 \<le> length w" and c: "\<forall>c \<in> set w. c \<noteq> CHR ''['' \<and> c \<noteq> CHR '']'' \<and> c \<noteq> CHR '' '' \<and> \<not> break_char c"
    using assms unfolding solid_word_def list_all_iff by blast+
  show "12 \<le> length w" by (rule l)
  show "CHR ''['' \<notin> set w" "CHR '']'' \<notin> set w" "CHR '' '' \<notin> set w" using c by blast+
  show "w \<noteq> []" using l by (cases w) simp_all
qed

lemma solid_word_redacted:
  assumes "solid_word w" and "str_includes w (''[redacted]'' @ r)"
  shows "str_includes w r"
proof (rule includes_after_mark)
  have "''[redacted]'' @ r = ''[redacted'' @ CHR '']'' # r" by simp
  then show "str_includes w (''[redacted'' @ CHR '']'' # r)" using assms(2) by (simp only:)
  show "CHR '']'' \<notin> set w" by (rule solid_wordD [OF assms(1)])
  show "length ''[redacted'' < length w" using solid_wordD(1) [OF assms(1)] by simp
qed

lemma bracket_free_redacted: "CHR ''['' \<notin> set w \<Longrightarrow> starts_with w (''[redacted]'' @ r) \<Longrightarrow> w = []"
  by (auto simp: starts_with_Cons)

section \<open>Redaction\<close>

lemma redact_Nil: "redact s [] = []"
  by (simp add: redact.simps [of s "[]"])

lemma redact_hit: "s \<noteq> [] \<Longrightarrow> starts_with s (c # cs) \<Longrightarrow> redact s (c # cs) = ''[redacted]'' @ redact s (drop (length s) (c # cs))"
  unfolding redact.simps [of s "c # cs"] by simp

lemma redact_miss: "\<not> (s \<noteq> [] \<and> starts_with s (c # cs)) \<Longrightarrow> redact s (c # cs) = c # redact s cs"
  unfolding redact.simps [of s "c # cs"] by auto

lemma redact_cases [case_names empty hit miss]:
  assumes "P []"
    and "\<And>c cs. s \<noteq> [] \<Longrightarrow> starts_with s (c # cs) \<Longrightarrow> P (drop (length s) (c # cs)) \<Longrightarrow> P (c # cs)"
    and "\<And>c cs. \<not> (s \<noteq> [] \<and> starts_with s (c # cs)) \<Longrightarrow> P cs \<Longrightarrow> P (c # cs)"
  shows "P t"
proof (induction t rule: length_induct)
  case (1 t)
  show ?case
  proof (cases t)
    case Nil
    then show ?thesis using assms(1) by simp
  next
    case (Cons c cs)
    then show ?thesis using 1 assms(2) [of c cs] assms(3) [of c cs]
      by (cases "s \<noteq> [] \<and> starts_with s (c # cs)") auto
  qed
qed

lemma redact_prefix: "starts_with w (redact s t) \<Longrightarrow> CHR ''['' \<notin> set w \<Longrightarrow> starts_with w t"
proof (induction t arbitrary: w rule: redact_cases [of _ s])
  case (hit c cs)
  then have "w = []" using bracket_free_redacted by (metis redact_hit)
  then show ?case by (simp add: starts_with_def)
next
  case (miss c cs)
  then show ?case unfolding redact_miss [OF miss(1)] starts_with_Cons by auto
qed (simp add: redact_Nil)

lemma includes_drop: "str_includes w (drop n t) \<Longrightarrow> str_includes w t"
  unfolding str_includes_iff by (metis append.assoc append_take_drop_id)

lemma redact_includes:
  assumes "solid_word w"
  shows "str_includes w (redact s t) \<Longrightarrow> str_includes w t"
proof (induction t rule: redact_cases [of _ s])
  case (hit c cs)
  have "str_includes w (redact s (drop (length s) (c # cs)))"
    using hit(4) unfolding redact_hit [OF hit(1,2)] by (rule solid_word_redacted [OF assms])
  then show ?case using hit(3) includes_drop by blast
next
  case (miss c cs)
  have "starts_with w (redact s (c # cs)) \<or> str_includes w (redact s cs)"
    using miss(3) unfolding redact_miss [OF miss(1)] by simp
  then show ?case using redact_prefix solid_wordD(2) [OF assms] miss(2) by auto
qed (simp add: redact_Nil)

lemma redact_removes:
  assumes "solid_word w"
  shows "\<not> str_includes w (redact w t)"
proof (induction t rule: redact_cases [of _ w])
  case empty
  then show ?case using solid_wordD(5) [OF assms] by (simp add: redact_Nil)
next
  case (hit c cs)
  show ?case unfolding redact_hit [OF hit(1,2)] using hit(3) solid_word_redacted [OF assms] by blast
next
  case (miss c cs)
  have "\<not> starts_with w (redact w (c # cs))"
    using redact_prefix solid_wordD(2,5) [OF assms] miss(1) by blast
  then show ?case using miss(2) unfolding redact_miss [OF miss(1)] by simp
qed

lemma fold_redact_keeps: "solid_word w \<Longrightarrow> str_includes w (fold redact ss t) \<Longrightarrow> str_includes w t"
proof (induction ss arbitrary: t)
  case (Cons s ss)
  then show ?case using redact_includes [of w s t] by simp
qed simp

lemma fold_redact_removes: "solid_word w \<Longrightarrow> w \<in> set ss \<Longrightarrow> \<not> str_includes w (fold redact ss t)"
proof (induction ss arbitrary: t)
  case (Cons s ss)
  show ?case
  proof (cases "s = w")
    case True
    then show ?thesis using fold_redact_keeps [of w ss "redact w t"] redact_removes Cons.prems(1) by auto
  next
    case False
    then show ?thesis using Cons by simp
  qed
qed simp

section \<open>Breaks and length\<close>

lemma squeeze_prefix: "starts_with w (squeeze False t) \<Longrightarrow> CHR '' '' \<notin> set w \<Longrightarrow> starts_with w t"
  by (induction t arbitrary: w) (auto simp: starts_with_Cons split: if_splits)

lemma squeeze_includes:
  assumes "solid_word w"
  shows "str_includes w (squeeze b t) \<Longrightarrow> str_includes w t"
proof (induction t arbitrary: b)
  case (Cons c t)
  note w = solid_wordD(4,5) [OF assms]
  have space: "\<not> starts_with w (CHR '' '' # r)" for r
  proof
    assume "starts_with w (CHR '' '' # r)"
    then show False using w by (cases w) (simp_all add: starts_with_def)
  qed
  show ?case
  proof (cases "break_char c")
    case True
    then have "squeeze b (c # t) = (if b then squeeze True t else CHR '' '' # squeeze True t)" by simp
    then have "str_includes w (squeeze True t)" using Cons.prems space by (simp split: if_splits)
    then show ?thesis using Cons.IH by simp
  next
    case False
    then have e: "squeeze b (c # t) = squeeze False (c # t)" "squeeze False (c # t) = c # squeeze False t" by simp_all
    have "starts_with w (squeeze False (c # t)) \<or> str_includes w (squeeze False t)"
      using Cons.prems unfolding e(1) unfolding e(2) by simp
    then show ?thesis unfolding str_includes.simps(2)
      using squeeze_prefix [of w "c # t", OF _ w(1)] Cons.IH [of False] by blast
  qed
qed simp

lemma cut_units_prefix: "\<exists>r. s = cut_units n s @ r"
  by (induction n s rule: cut_units.induct) auto

lemma cut_units_includes: "str_includes w (cut_units n s) \<Longrightarrow> str_includes w s"
  using cut_units_prefix [of s n] unfolding str_includes_iff by (metis append.assoc)

lemma js_length_cut_units: "js_length (cut_units n s) \<le> n"
  by (induction n s rule: cut_units.induct) auto

lemma safe_detail_hides:
  "solid_word w \<Longrightarrow> w \<in> set sensitive \<Longrightarrow> \<not> str_includes w (safeModelHealthDetail sensitive v)"
  unfolding safeModelHealthDetail_def using cut_units_includes squeeze_includes fold_redact_removes by blast

lemma safe_name_hides:
  assumes "solid_word w" "w \<in> set sensitive"
  shows "\<not> str_includes w (safeModelHealthName sensitive v)"
proof -
  have "\<not> str_includes w ''unavailable''"
  proof
    assume "str_includes w ''unavailable''"
    then obtain u v where "''unavailable'' = u @ w @ v" unfolding str_includes_iff by blast
    then have "length ''unavailable'' = length u + (length w + length v)" by (metis length_append)
    then show False using assms(1) by (simp add: solid_word_def)
  qed
  then show ?thesis using assms(2) by (auto simp: safeModelHealthName_def Let_def list_ex_iff)
qed


definition keyed_env :: env where
  "keyed_env = [(''EMBEDDING_API_KEY'', ''sk-0123456789'')]"

definition leaking_status :: source_status where
  "leaking_status = \<lparr>cs_source = OpenaiCompatible, cs_endpoint = ''h'', cs_model = ''m'', cs_status = ''unavailable'',
     cs_models = [], cs_provider = None, cs_detail = Some ''no such key sk-0123456789''\<rparr>"


section \<open>Reading a verification back\<close>

lemma plain_fingerprint: "plain_json (fingerprint_json f)"
  by (simp add: fingerprint_json_def split: option.split)

lemma source_name_inj: "source_name a = source_name b \<Longrightarrow> a = b"
  by (cases a; cases b) simp_all

lemma fingerprint_json_inj:
  assumes "fingerprint_json f = fingerprint_json g"
  shows "f = g"
proof -
  have "(case a of None \<Rightarrow> JNull | Some d \<Rightarrow> JNum (of_nat d)) = (case b of None \<Rightarrow> JNull | Some d \<Rightarrow> JNum (of_nat d)) \<longleftrightarrow> a = b"
    for a b :: "nat option"
    by (cases a; cases b) simp_all
  then show ?thesis using assms source_name_inj
    by (cases f; cases g) (auto simp: fingerprint_json_def)
qed

lemma stringify_fingerprint:
  "stringify fmt (fingerprint_json f) = stringify fmt (fingerprint_json g) \<longleftrightarrow> f = g"
  using stringify_inj [OF plain_fingerprint plain_fingerprint] fingerprint_json_inj by blast

text \<open>A status a verification may leave: known words, bounded names\<close>

definition storable :: "source_status \<Rightarrow> bool" where
  "storable s = (cs_status s \<in> {''ready'', ''unavailable'', ''unknown''} \<and> js_length (cs_endpoint s) \<le> 2048 \<and>
     js_length (cs_model s) \<le> 256 \<and> cs_models s = [] \<and> cs_provider s = None \<and>
     (case cs_detail s of None \<Rightarrow> True | Some d \<Rightarrow> js_length d \<le> 500))"

lemma cached_status_fields:
  assumes "storable s" and "js_length t \<le> 128"
  shows "cachedSourceStatus fmt (Some (JObj (status_fields t s))) = Some (status_fields t s)"
proof -
  have "source_name (cs_source s) \<in> {''openai_compatible'', ''codex_session'', ''unknown''}" by (cases "cs_source s") simp_all
  then show ?thesis using assms
    by (cases "cs_detail s") (auto simp: cachedSourceStatus_def status_fields_def storable_def short_string_def)
qed

lemma validModel_ascii: "validModel v \<Longrightarrow> js_length v \<le> 256"
proof -
  assume v: "validModel v"
  have "is_ascii v"
    using v by (auto simp: validModel_def shaped_def is_ascii_def list_all_iff is_alnum_def is_lower_def is_upper_def
      is_digit_def split: list.splits)
  then show ?thesis using v by (simp add: js_length_ascii validModel_def)
qed

lemma storable_sanitized:
  assumes "cs_status s \<in> {''ready'', ''unavailable'', ''unknown''}"
    and "js_length (safeModelHealthEndpoint w origin (cs_endpoint s)) \<le> 2048"
  shows "storable (sanitize_source w origin sensitive s)"
proof -
  have "js_length (safeModelHealthName sensitive (cs_model s)) \<le> 256"
    using validModel_ascii by (auto simp: safeModelHealthName_def Let_def units_def)
  then show ?thesis using assms js_length_cut_units
    by (auto simp: storable_def sanitize_source_def safeModelHealthDetail_def split: option.split)
qed

text \<open>
  A verification is remembered exactly for its configuration.  The file a verification writes
  is read back, field for field, by a node whose configuration has the same fingerprint (models, sources, endpoints,
  dimensions, presence of keys) and the same id; every other configuration reads nothing from it.
\<close>

theorem health_read_back:
  assumes "parse text = Some (health_json w sha env (modelHealthCompute w origin env (e, g)))"
    and "js_length (nw_now w) \<le> 128" and "\<forall>s \<in> {e, g}. cs_status s \<in> {''ready'', ''unavailable'', ''unknown''} \<and>
      js_length (safeModelHealthEndpoint w origin (cs_endpoint s)) \<le> 2048"
  shows "cachedModelHealth parse fmt w' sha env' (Some text) =
    (if nodeId env' = nodeId env \<and> modelHealthFingerprint w' sha env' = modelHealthFingerprint w sha env
     then let sensitive = modelHealthSensitiveValues env
          in Some (status_fields (nw_now w) (sanitize_source w origin sensitive e),
                   status_fields (nw_now w) (sanitize_source w origin sensitive g))
     else None)"
proof -
  let ?s = "sanitize_source w origin (modelHealthSensitiveValues env)"
  have c: "cachedSourceStatus fmt (Some (JObj (status_fields (nw_now w) (?s s)))) = Some (status_fields (nw_now w) (?s s))"
    if "s \<in> {e, g}" for s
    using assms(2,3) that by (intro cached_status_fields storable_sanitized) auto
  have "cachedComputeStatus fmt (Some (JObj [(''embedding'', JObj (status_fields (nw_now w) (?s e))),
        (''generation'', JObj (status_fields (nw_now w) (?s g)))])) =
      Some (status_fields (nw_now w) (?s e), status_fields (nw_now w) (?s g))"
    using c [of e] c [of g] by (simp add: cachedComputeStatus_def)
  then show ?thesis using assms(1) stringify_fingerprint
    by (auto simp: cachedModelHealth_def health_json_def modelHealthCompute_def Let_def)
qed

theorem health_read_back_witness:
  "\<exists>parse. cachedModelHealth parse (\<lambda>_. []) offline_world id [] (Some ''file'') = None \<and>
     cachedModelHealth parse (\<lambda>_. []) offline_world id keyed_env (Some ''file'') \<noteq> None"
proof -
  let ?j = "health_json offline_world id keyed_env
    (modelHealthCompute offline_world Some keyed_env (leaking_status, leaking_status))"
  let ?parse = "\<lambda>_ :: string. Some ?j"
  have p: "?parse ''file'' = Some ?j" by simp
  have t: "js_length (nw_now offline_world) \<le> 128" by code_simp
  have b: "\<forall>s \<in> {leaking_status, leaking_status}. cs_status s \<in> {''ready'', ''unavailable'', ''unknown''} \<and>
      js_length (safeModelHealthEndpoint offline_world Some (cs_endpoint s)) \<le> 2048" by code_simp
  have "hf_embedding_key (modelHealthFingerprint offline_world id []) \<noteq>
      hf_embedding_key (modelHealthFingerprint offline_world id keyed_env)"
    by (simp add: modelHealthFingerprint_def Let_def eget_def keyed_env_def)
  then have f: "modelHealthFingerprint offline_world id [] \<noteq> modelHealthFingerprint offline_world id keyed_env" by metis
  have "cachedModelHealth ?parse (\<lambda>_. []) offline_world id [] (Some ''file'') = None"
    using health_read_back [OF p t b, of "\<lambda>_. []" offline_world "[]"] f by (simp add: id_def)
  moreover have "cachedModelHealth ?parse (\<lambda>_. []) offline_world id keyed_env (Some ''file'') \<noteq> None"
    using health_read_back [OF p t b, of "\<lambda>_. []" offline_world keyed_env] by (simp add: Let_def id_def)
  ultimately show ?thesis by blast
qed

end
