(* ===== verification/NodeConfigProps.thy ===== *)
theory NodeConfigProps
  imports NodeConfig
begin

text \<open>What a validated configuration of a node deployment guarantees.\<close>

lemma check_all_Inr: "check_all ok message keys = Inr u \<longleftrightarrow> (\<forall>k \<in> set keys. ok k)"
  by (auto simp: check_all_def find_None_iff split: option.splits) (metis find_Some_iff nth_mem)

lemma public_url_loopback:
  assumes "to_lower (eget env ''NEUROMEM_PUBLIC_HOST'') \<in> {''localhost'', ''127.0.0.1''}" and "nodePublicUrl env = Inr url"
  shows "starts_with ''http://'' url"
proof -
  have "to_lower (eget env ''NEUROMEM_PUBLIC_HOST'') \<in> set loopback_names" using assms(1) by (auto simp: loopback_names_def)
  then obtain rest where "url = ''http://'' @ rest"
    using assms(2) by (auto simp: nodePublicUrl_def Let_def split: option.splits if_splits)
  then show ?thesis by (simp only: starts_with_append)
qed

text \<open>
  C28: A configuration that validates is safe to deploy.  Every required value is set and is not a
  placeholder, every secret has 32 bytes, the two signing keys agree, the memory core is pinned by digest and the volumes
  are dedicated ones; and the prefilled test login is only ever on for a node reached over plain loopback, without a tunnel
  profile in any command, and its values are set only if it is on.
\<close>

theorem validated_config_safe:
  assumes "validateConfig compose env = Inr cfg"
  shows "(\<forall>k \<in> set REQUIRED_ENV. eget env k \<noteq> [] \<and> \<not> placeholder (eget env k)) \<and>
    (\<forall>k \<in> set SECRET_ENV. 32 \<le> length (eget env k)) \<and>
    eget env ''CONTROL_INTERNAL_SIGNING_KEY'' = eget env ''MEMORY_INTERNAL_SIGNING_KEY'' \<and>
    digest_pinned (cfg_image cfg) \<and> (\<forall>k \<in> set VOLUME_ENV. volume_ok (eget env k)) \<and>
    (eget env ''LOCAL_TEST_LOGIN_PREFILL'' = ''true'' \<longrightarrow>
       starts_with ''http://'' (cfg_public_url cfg) \<and> ''cloudflare'' \<notin> set (compose_profiles env target)) \<and>
    (eget env ''LOCAL_TEST_LOGIN_PASSWORD'' \<noteq> [] \<longrightarrow> eget env ''LOCAL_TEST_LOGIN_PREFILL'' = ''true'')"
proof -
  obtain url where v: "check_required env = Inr ()" "host_ok (eget env ''NEUROMEM_PUBLIC_HOST'')"
      "eget env ''CONTROL_INTERNAL_SIGNING_KEY'' = eget env ''MEMORY_INTERNAL_SIGNING_KEY''"
      "check_local_login env = Inr ()" "check_identity env = Inr ()" "nodePublicUrl env = Inr url"
    and cfg: "cfg_public_url cfg = url" "cfg_image cfg = eget env ''MEMORY_CORE_IMAGE''"
    using assms by (auto simp: validateConfig_def config_checks_def rbind_eq_Inr)
  have required: "(\<forall>k \<in> set REQUIRED_ENV. eget env k \<noteq> [] \<and> \<not> placeholder (eget env k)) \<and>
      (\<forall>k \<in> set SECRET_ENV. 32 \<le> length (eget env k))"
    using v(1) by (auto simp: check_required_def rbind_eq_Inr check_all_Inr)
  have pinned: "digest_pinned (cfg_image cfg) \<and> (\<forall>k \<in> set VOLUME_ENV. volume_ok (eget env k))"
    using v(5) cfg(2) by (auto simp: check_identity_def rbind_eq_Inr check_all_Inr)
  have login: "starts_with ''http://'' (cfg_public_url cfg) \<and> ''cloudflare'' \<notin> set (compose_profiles env target)"
    if "eget env ''LOCAL_TEST_LOGIN_PREFILL'' = ''true''"
  proof -
    have "to_lower (eget env ''NEUROMEM_PUBLIC_HOST'') \<in> {''localhost'', ''127.0.0.1''}"
        "eget env ''CLOUDFLARE_TUNNEL_TOKEN'' = []"
      using v(4) that by (auto simp: check_local_login_def Let_def eget_or_def rbind_eq_Inr)
    then show ?thesis using public_url_loopback [OF _ v(6)] cfg(1) by (auto simp: compose_profiles_def)
  qed
  have "eget env ''LOCAL_TEST_LOGIN_PREFILL'' = ''true''" if "eget env ''LOCAL_TEST_LOGIN_PASSWORD'' \<noteq> []"
    using v(4) that by (auto simp: check_local_login_def Let_def split: if_splits)
  then show ?thesis using required pinned login v(3) by blast
qed

definition node_overrides :: env where
  "node_overrides = [(''MEMORY_CORE_IMAGE'', ''@sha256:'' @ replicate 64 (CHR ''0'')),
     (''CONTROL_DB_VOLUME'', ''neuromem-node-db''), (''MEMORY_DB_VOLUME'', ''neuromem-node-db''),
     (''MEMORY_REDIS_VOLUME'', ''neuromem-node-db''), (''MCP_STATE_VOLUME'', ''neuromem-node-db'')]"

definition full_node_env :: env where
  "full_node_env = node_overrides @ map (\<lambda>k. (k, replicate 32 (CHR ''a''))) REQUIRED_ENV"

definition command_ok :: command_result where
  "command_ok = \<lparr>cr_ok = True, cr_stdout = [], cr_stderr = []\<rparr>"

lemma str_includes_set: "str_includes p s \<Longrightarrow> set p \<subseteq> set s"
proof (induction s)
  case (Cons c s)
  then show ?case by (auto simp: starts_with_def) (metis in_set_takeD set_ConsD)
qed simp

lemma no_placeholder:
  "CHR ''w'' \<notin> lower_char ` set v \<Longrightarrow> CHR ''x'' \<notin> lower_char ` set v \<Longrightarrow> hd v \<noteq> CHR ''<'' \<Longrightarrow> \<not> placeholder v"
  using str_includes_set [of "''replace-with''" "to_lower v"] str_includes_set [of "''example.com''" "to_lower v"]
  by (auto simp: placeholder_def to_lower_def)

lemma eget_full:
  "eget full_node_env k = (case oget node_overrides k of Some v \<Rightarrow> v
     | None \<Rightarrow> if k \<in> set REQUIRED_ENV then replicate 32 (CHR ''a'') else [])"
proof -
  have "oget (map (\<lambda>k. (k, v)) ks) k = (if k \<in> set ks then Some v else None)" for ks and v :: string
    by (induction ks) auto
  then show ?thesis by (simp add: eget_def full_node_env_def oget_append split: option.split)
qed

lemma full_node_env_values: "k \<in> set REQUIRED_ENV \<Longrightarrow> eget full_node_env k \<in> set (replicate 32 (CHR ''a'') # map snd node_overrides)"
proof (cases "oget node_overrides k")
  case (Some v)
  then have "v \<in> snd ` set node_overrides" by (metis oget_SomeD image_eqI snd_conv)
  then show ?thesis using Some by (simp add: eget_full)
qed (simp add: eget_full)

lemma node_values_ok:
  "\<forall>v \<in> set (replicate 32 (CHR ''a'') # map snd node_overrides). v \<noteq> [] \<and> \<not> placeholder v"
  by (simp add: node_overrides_def no_placeholder lower_char_def is_upper_def)

lemma full_node_env_required: "check_required full_node_env = Inr ()"
proof -
  have "list_all (\<lambda>k. oget node_overrides k = None \<and> k \<in> set REQUIRED_ENV) SECRET_ENV" by code_simp
  then have "\<forall>k \<in> set SECRET_ENV. 32 \<le> length (eget full_node_env k)" by (auto simp: list_all_iff eget_full)
  moreover have "\<forall>k \<in> set REQUIRED_ENV. eget full_node_env k \<noteq> [] \<and> \<not> placeholder (eget full_node_env k)"
    using full_node_env_values node_values_ok by blast
  ultimately show ?thesis by (simp add: check_required_def rbind_eq_Inr check_all_Inr)
qed

lemma full_node_env_lookups:
  "eget full_node_env ''COMPOSE_PROJECT_NAME'' = replicate 32 (CHR ''a'')"
  "eget full_node_env ''NEUROMEM_NODE_ID'' = replicate 32 (CHR ''a'')"
  "eget full_node_env ''MEMORY_CORE_SOURCE_REVISION'' = replicate 32 (CHR ''a'')"
  "eget full_node_env ''CONTROL_INTERNAL_SIGNING_KEY'' = replicate 32 (CHR ''a'')"
  "eget full_node_env ''MEMORY_INTERNAL_SIGNING_KEY'' = replicate 32 (CHR ''a'')"
  "eget full_node_env ''MEMORY_CORE_IMAGE'' = ''@sha256:'' @ replicate 64 (CHR ''0'')"
  "eget full_node_env ''NEUROMEM_PUBLIC_HOST'' = replicate 32 (CHR ''a'')"
  "eget full_node_env ''LOCAL_TEST_LOGIN_PREFILL'' = []"
  "eget full_node_env ''LOCAL_TEST_LOGIN_EMAIL'' = []" "eget full_node_env ''LOCAL_TEST_LOGIN_PASSWORD'' = []"
  by (simp_all add: eget_full node_overrides_def REQUIRED_ENV_def)

lemma full_node_env_rest:
  "check_local_login full_node_env = Inr ()" "check_identity full_node_env = Inr ()"
  "host_ok (eget full_node_env ''NEUROMEM_PUBLIC_HOST'')"
  "eget full_node_env ''CONTROL_INTERNAL_SIGNING_KEY'' = eget full_node_env ''MEMORY_INTERNAL_SIGNING_KEY''"
proof -
  show "check_local_login full_node_env = Inr ()"
    by (simp add: check_local_login_def eget_or_def full_node_env_lookups)
  have v: "eget full_node_env k = ''neuromem-node-db''" if "k \<in> set VOLUME_ENV" for k
    using that by (auto simp: VOLUME_ENV_def eget_full node_overrides_def)
  have "digest_pinned (''@sha256:'' @ replicate 64 (CHR ''0''))"
    by (simp add: digest_pinned_def to_lower_def lower_char_def is_upper_def is_hex_def is_hex_lower_def is_digit_def list_all_iff)
  moreover have "volume_ok ''neuromem-node-db''"
    by (simp add: volume_ok_def shaped_def to_lower_def lower_char_def is_upper_def is_alnum_def is_lower_def)
  moreover have "is_alnum (CHR ''a'')" "is_hex (CHR ''a'')"
    by (simp_all add: is_alnum_def is_lower_def is_hex_def is_hex_lower_def)
  then have "shaped p q lo hi (replicate 32 (CHR ''a''))" if "p (CHR ''a'')" "q (CHR ''a'')" "lo \<le> 31" "31 \<le> hi" for p q lo hi
    using that by (simp add: shaped_def numeral_eq_Suc)
  ultimately show "check_identity full_node_env = Inr ()"
    by (simp add: check_identity_def full_node_env_lookups check_all_Inr v \<open>is_alnum (CHR ''a'')\<close> \<open>is_hex (CHR ''a'')\<close>)
  show "host_ok (eget full_node_env ''NEUROMEM_PUBLIC_HOST'')"
    using str_includes_set [of "''..''" "replicate 32 (CHR ''a'')"]
    by (auto simp: full_node_env_lookups host_ok_def \<open>is_alnum (CHR ''a'')\<close> numeral_eq_Suc)
qed (simp add: full_node_env_lookups)

lemma full_node_env_url: "nodePublicUrl full_node_env = Inr (''https://'' @ replicate 32 (CHR ''a''))"
proof -
  have "length s \<noteq> 32" if "s \<in> set loopback_names" for s using that by (auto simp: loopback_names_def)
  then have "replicate 32 (lower_char (CHR ''a'')) \<notin> set loopback_names" by (metis length_replicate)
  then show ?thesis by (simp add: nodePublicUrl_def full_node_env_lookups to_lower_def)
qed

lemma full_node_env_valid: "\<exists>cfg. validateConfig command_ok full_node_env = Inr cfg"
proof -
  have "is_ok (validateConfig command_ok full_node_env)"
    by (simp add: validateConfig_def config_checks_def full_node_env_required full_node_env_rest full_node_env_url command_ok_def)
  then show ?thesis by (auto simp: is_ok_def split: sum.splits)
qed

theorem validated_config_safe_witness: "32 \<le> length (eget full_node_env ''CONTROL_TOKEN_PEPPER'')"
proof -
  obtain cfg where "validateConfig command_ok full_node_env = Inr cfg" using full_node_env_valid by blast
  from validated_config_safe [OF this] show ?thesis by (simp add: SECRET_ENV_def)
qed

end
