(* ===== verification/NodeStart.thy ===== *)
theory NodeStart
  imports ModelHealth NodeConfigProps
begin

text \<open>
  Starting a node deployment, in \<open>apps/manager/src/node-deployment-manager.ts\<close>: \<open>start\<close>,
  \<open>schemaInit\<close>, the verification of the schema and of the models' contracts, \<open>stop\<close> and
  \<open>adminOperation\<close>.  A run is the list of the \<open>docker compose\<close> commands it gives, each answered by a
  function of the commands before it, and the stages it reports.
\<close>

section \<open>Running commands\<close>

record run_state =
  rs_commands :: "string list list"
  rs_stages :: "string list"

type_synonym answers = "string list list \<Rightarrow> string list \<Rightarrow> command_result"

type_synonym 'a run = "run_state \<Rightarrow> 'a res \<times> run_state"

definition and_then :: "'a run \<Rightarrow> ('a \<Rightarrow> 'b run) \<Rightarrow> 'b run" where
  "and_then m f st = (case m st of (Inl e, st) \<Rightarrow> (Inl e, st) | (Inr x, st) \<Rightarrow> f x st)"

definition give :: "'a res \<Rightarrow> 'a run" where
  "give r st = (r, st)"

definition stage :: "string \<Rightarrow> unit run" where
  "stage s st = (Inr (), st\<lparr>rs_stages := rs_stages st @ [s]\<rparr>)"

text \<open>\<open>#compose(command, allowFailure, ..., target)\<close>; a failing command throws unless it is allowed to.\<close>

definition compose_run :: "answers \<Rightarrow> env \<Rightarrow> device option \<Rightarrow> bool \<Rightarrow> string list \<Rightarrow> command_result run" where
  "compose_run answer env target allowFailure command st =
     (let args = compose_profiles env target @ command;
          r = answer (rs_commands st) args;
          st = st\<lparr>rs_commands := rs_commands st @ [args]\<rparr>
      in if \<not> cr_ok r \<and> \<not> allowFailure then (Inl (''docker failed'' @ cr_stderr r), st) else (Inr r, st))"

section \<open>The steps of a start\<close>

definition CONFIG_COMMAND :: "string list" where
  "CONFIG_COMMAND = [''config'', ''--quiet'']"

definition validate_run :: "answers \<Rightarrow> env \<Rightarrow> node_config run" where
  "validate_run answer env =
     and_then (give (config_checks env)) (\<lambda>_.
     and_then (compose_run answer env None True CONFIG_COMMAND) (\<lambda>r. give (validateConfig r env)))"

definition DATABASE_COMMAND :: "string list" where
  "DATABASE_COMMAND = [''up'', ''-d'', ''--wait'', ''--wait-timeout'', ''600'', ''control-database'', ''memory-database'', ''memory-redis'']"

definition INIT_COMMANDS :: "string list list" where
  "INIT_COMMANDS = [
     [''build'', ''control''],
     [''up'', ''-d'', ''--wait'', ''--wait-timeout'', ''300'', ''control-database''],
     [''run'', ''--rm'', ''--no-deps'', ''control'', ''neuromem-control-init'']]"

definition SERVICES_COMMAND :: "string list" where
  "SERVICES_COMMAND = [''up'', ''-d'', ''--build'', ''--remove-orphans'', ''--wait'', ''--wait-timeout'', ''900'']"

fun run_each :: "answers \<Rightarrow> env \<Rightarrow> device option \<Rightarrow> string list list \<Rightarrow> unit run" where
  "run_each answer env target [] = give (Inr ())"
| "run_each answer env target (c # cs) = and_then (compose_run answer env target False c) (\<lambda>_. run_each answer env target cs)"

definition schemaInit :: "answers \<Rightarrow> env \<Rightarrow> device \<Rightarrow> unit run" where
  "schemaInit answer env target = and_then (validate_run answer env) (\<lambda>_. run_each answer env (Some target) INIT_COMMANDS)"

definition CONTROL_SCHEMA_SQL :: string where
  "CONTROL_SCHEMA_SQL = ''SELECT CASE WHEN to_regclass('' @ [CHR 0x27] @ ''public.principals'' @ [CHR 0x27] @
     '') IS NOT NULL AND to_regclass('' @ [CHR 0x27] @ ''public.workspaces'' @ [CHR 0x27] @
     '') IS NOT NULL AND to_regclass('' @ [CHR 0x27] @ ''public.projects'' @ [CHR 0x27] @ '') IS NOT NULL THEN '' @
     [CHR 0x27] @ ''ok'' @ [CHR 0x27] @ '' ELSE '' @ [CHR 0x27] @ ''missing'' @ [CHR 0x27] @ '' END;''"

definition MEMORY_SCHEMA_SQL :: string where
  "MEMORY_SCHEMA_SQL = ''SELECT CASE WHEN to_regclass('' @ [CHR 0x27] @ ''public.workspaces'' @ [CHR 0x27] @
     '') IS NOT NULL AND to_regclass('' @ [CHR 0x27] @ ''public.queue'' @ [CHR 0x27] @
     '') IS NOT NULL AND EXISTS (SELECT 1 FROM pg_extension WHERE extname = '' @ [CHR 0x27] @ ''vector'' @ [CHR 0x27] @ '') THEN '' @
     [CHR 0x27] @ ''ok'' @ [CHR 0x27] @ '' ELSE '' @ [CHR 0x27] @ ''missing'' @ [CHR 0x27] @ '' END;''"

definition schema_command :: "string \<Rightarrow> string \<Rightarrow> string \<Rightarrow> string \<Rightarrow> string list" where
  "schema_command service user database sql = [''exec'', ''-T'', service, ''psql'', ''-U'', user, ''-d'', database,
     ''-v'', ''ON_ERROR_STOP=1'', ''-qAtc'', sql]"

definition schema_checks :: "env \<Rightarrow> (string \<times> string list) list" where
  "schema_checks env = [
     (''control-database'', schema_command ''control-database'' (eget env ''CONTROL_POSTGRES_USER'')
        (eget env ''CONTROL_POSTGRES_DB'') CONTROL_SCHEMA_SQL),
     (''memory-database'', schema_command ''memory-database'' (eget env ''MEMORY_POSTGRES_USER'')
        (eget env ''MEMORY_POSTGRES_DB'') MEMORY_SCHEMA_SQL)]"

fun verify_each :: "answers \<Rightarrow> env \<Rightarrow> device \<Rightarrow> (string \<times> string list) list \<Rightarrow> unit run" where
  "verify_each answer env target [] = give (Inr ())"
| "verify_each answer env target ((service, c) # cs) =
     and_then (compose_run answer env (Some target) True c) (\<lambda>r.
       if \<not> cr_ok r \<or> trim (cr_stdout r) \<noteq> ''ok'' then give (Inl (service @ '' schema verification failed''))
       else verify_each answer env target cs)"

definition verifyUnifiedSchema :: "answers \<Rightarrow> env \<Rightarrow> device \<Rightarrow> unit run" where
  "verifyUnifiedSchema answer env target = verify_each answer env target (schema_checks env)"

section \<open>The contracts of the models\<close>

text \<open>\<open>v?.[0]\<close> and \<open>v?.k\<close>\<close>

fun first_of :: "json option \<Rightarrow> json option" where
  "first_of (Some (JArr (x # xs))) = Some x"
| "first_of (Some (JObj o1)) = oget o1 ''0''"
| "first_of _ = None"

definition field_of :: "string \<Rightarrow> json option \<Rightarrow> json option" where
  "field_of k v = Option.bind v (\<lambda>j. Option.bind (props j) (\<lambda>o1. oget o1 k))"

definition answered :: "string \<Rightarrow> fetch_json \<Rightarrow> string \<Rightarrow> json option res" where
  "answered what answer fallback =
     (case answer of
        FetchFailed _ \<Rightarrow> Inl fallback
      | FetchAnswer st payload \<Rightarrow>
          if st < 200 \<or> 299 < st then Inl (what @ '' compatibility probe returned HTTP '' @ dec_str st) else Inr payload)"

fun finite_number :: "json \<Rightarrow> bool" where
  "finite_number (JNum _) = True"
| "finite_number _ = False"

fun is_zero :: "json \<Rightarrow> bool" where
  "is_zero (JNum q) = (q = 0)"
| "is_zero _ = False"

text \<open>The norm is exact here: it is zero exactly for the zero vector.\<close>

definition embedding_contract :: "env \<Rightarrow> fetch_json \<Rightarrow> unit res" where
  "embedding_contract env answer =
     rbind (configuredEmbeddingDimensions env) (\<lambda>dimensions.
     rbind (answered ''Embedding'' answer ''Could not complete the embedding compatibility probe'') (\<lambda>payload.
     case field_of ''embedding'' (first_of (field_of ''data'' payload)) of
       Some (JArr embedding) \<Rightarrow>
         if length embedding \<noteq> dimensions
         then Inl (''Embedding compatibility probe returned '' @ dec_str (length embedding) @ '' dimensions; expected '' @ dec_str dimensions)
         else if \<not> list_all finite_number embedding
         then Inl ''Embedding compatibility probe returned non-finite vector values''
         else if list_all is_zero embedding
         then Inl ''Embedding compatibility probe returned a zero or invalid vector norm''
         else Inr ()
     | _ \<Rightarrow> Inl ''Embedding compatibility probe returned an invalid vector''))"

definition parsed_object :: "(string \<Rightarrow> json option) \<Rightarrow> string \<Rightarrow> string \<Rightarrow> fields res" where
  "parsed_object parse text message =
     (case Option.bind (parse text) as_object of None \<Rightarrow> Inl message | Some o1 \<Rightarrow> Inr o1)"

text \<open>\<open>generated\<close> is what \<open>generateJson\<close> of the Codex session returns, if it does not throw.\<close>

definition generation_contract ::
    "(string \<Rightarrow> json option) \<Rightarrow> env \<Rightarrow> source \<Rightarrow> codex_status \<Rightarrow> string option \<Rightarrow> fetch_json \<Rightarrow> unit res" where
  "generation_contract parse env source codex generated answer =
     (case source of
        CodexSession \<Rightarrow>
          if cx_auth codex \<noteq> ''signed_in'' then Inl ''Codex is not signed in with ChatGPT''
          else if eget env ''GENERATION_MODEL'' \<notin> set (cx_models codex) then Inl ''Configured Codex model is unavailable''
          else (case generated of
                  None \<Rightarrow> Inl ''Could not complete the generation compatibility probe''
                | Some content \<Rightarrow>
                    rbind (parsed_object parse content ''Codex compatibility probe did not return a JSON object'') (\<lambda>o1.
                      require (oget o1 ''ok'' = Some (JBool True)) ''Codex compatibility probe did not return ok=true''))
      | OpenaiCompatible \<Rightarrow>
          rbind (answered ''Generation'' answer ''Could not complete the generation compatibility probe'') (\<lambda>payload.
          case field_of ''content'' (field_of ''message'' (first_of (field_of ''choices'' payload))) of
            Some (JStr content) \<Rightarrow>
              rbind (parsed_object parse content ''Generation compatibility probe did not return a JSON object'') (\<lambda>_. Inr ())
          | _ \<Rightarrow> Inl ''Generation compatibility probe returned an invalid chat response''))"

section \<open>\<open>start\<close>\<close>

record start_result =
  sr_phase :: string
  sr_project :: string
  sr_device :: device
  sr_dashboard :: string
  sr_warnings :: "string list"

text \<open>The warning of a model that did not keep its contract, without secrets\<close>

definition model_warning :: "string list \<Rightarrow> string \<Rightarrow> unit res \<Rightarrow> string list" where
  "model_warning sensitive role verdict = (case verdict of Inr _ \<Rightarrow> []
     | Inl detail \<Rightarrow> [role @ '' source is unavailable: '' @
         or_text (safeModelHealthDetail sensitive (cut_units 500 detail)) ''probe failed''])"

definition failed_checks :: "preflight_result \<Rightarrow> string list" where
  "failed_checks p = map ck_name (filter (\<lambda>c. ck_required c \<and> \<not> ck_ok c) (pf_checks p))"

definition start_node ::
    "answers \<Rightarrow> preflight_env \<Rightarrow> unit res \<Rightarrow> unit res \<Rightarrow> env \<Rightarrow> node_target \<Rightarrow> start_result run" where
  "start_node answer pe embedding generation env target =
     and_then (stage ''config'') (\<lambda>_.
     and_then (validate_run answer env) (\<lambda>config.
     and_then (stage ''preflight'') (\<lambda>_.
     let p = preflight pe target in
     and_then (give (require (pf_ok p) (''Node preflight failed: '' @ join '', '' (failed_checks p)))) (\<lambda>_.
     and_then (stage ''databases'') (\<lambda>_.
     and_then (run_each answer env (Some (pf_target p)) [DATABASE_COMMAND]) (\<lambda>_.
     and_then (stage ''schema'') (\<lambda>_.
     and_then (schemaInit answer env (pf_target p)) (\<lambda>_.
     and_then (stage ''services'') (\<lambda>_.
     and_then (run_each answer env (Some (pf_target p)) [SERVICES_COMMAND]) (\<lambda>_.
     and_then (stage ''compute'') (\<lambda>_.
     and_then (verifyUnifiedSchema answer env (pf_target p)) (\<lambda>_.
     let sensitive = modelHealthSensitiveValues env;
         warnings = model_warning sensitive ''embedding'' embedding @ model_warning sensitive ''generation'' generation in
     and_then (stage ''ready'') (\<lambda>_.
     give (Inr \<lparr>sr_phase = (if warnings = [] then ''ready'' else ''degraded''), sr_project = cfg_project config,
       sr_device = pf_target p, sr_dashboard = cfg_public_url config, sr_warnings = pf_warnings p @ warnings\<rparr>))))))))))))))"

definition stop_node :: "answers \<Rightarrow> env \<Rightarrow> unit run" where
  "stop_node answer env =
     and_then (validate_run answer env) (\<lambda>_.
     and_then (compose_run answer env (Some Dgx) False [''stop'']) (\<lambda>_. give (Inr ())))"

datatype admin_action = ActStart | ActStop | ActRestart

text \<open>\<open>adminOperation\<close>: the phase of the operation's result\<close>

definition admin_operation ::
    "answers \<Rightarrow> preflight_env \<Rightarrow> unit res \<Rightarrow> unit res \<Rightarrow> env \<Rightarrow> admin_action \<Rightarrow> string run" where
  "admin_operation answer pe embedding generation env action =
     (case action of
        ActStop \<Rightarrow> and_then (stop_node answer env) (\<lambda>_. give (Inr ''stopped''))
      | ActRestart \<Rightarrow> and_then (stop_node answer env) (\<lambda>_.
          and_then (start_node answer pe embedding generation env TargetAuto) (\<lambda>r.
            give (Inr (if sr_phase r = ''degraded'' then ''degraded'' else ''ready''))))
      | ActStart \<Rightarrow> and_then (start_node answer pe embedding generation env TargetAuto) (\<lambda>r.
          give (Inr (if sr_phase r = ''degraded'' then ''degraded'' else ''ready''))))"

section \<open>A start is a run of its plan\<close>

definition start_plan :: "env \<Rightarrow> device \<Rightarrow> string list list" where
  "start_plan env d =
     (let c = (\<lambda>command. compose_profiles env (Some d) @ command); config = compose_profiles env None @ CONFIG_COMMAND
      in [config, c DATABASE_COMMAND, config] @ map c INIT_COMMANDS @ [c SERVICES_COMMAND] @ map (c \<circ> snd) (schema_checks env))"

text \<open>
  \<open>out\<close> is the outcome, from \<open>st\<close>, of giving the commands of the plan in order up to the first that
  fails: all but the last of those given succeeded, and all of them if there is no error.
\<close>

definition follows :: "answers \<Rightarrow> string list list \<Rightarrow> run_state \<Rightarrow> 'a res \<times> run_state \<Rightarrow> bool" where
  "follows answer plan st out \<longleftrightarrow> (\<exists>n \<le> length plan.
     rs_commands (snd out) = rs_commands st @ take n plan \<and>
     (is_ok (fst out) \<longrightarrow> n = length plan) \<and>
     (\<forall>i < n. Suc i < n \<or> is_ok (fst out) \<longrightarrow> cr_ok (answer (rs_commands st @ take i plan) (plan ! i))))"

lemma follows_give: "follows answer [] st (give r st)"
  by (simp add: follows_def give_def)

lemma follows_stage: "follows answer [] st (stage s st)"
  by (simp add: follows_def stage_def)

lemma follows_error: "follows answer plan st (Inl e, st)"
  unfolding follows_def by (rule exI [of _ 0]) simp

lemma follows_then:
  assumes "follows answer p st (m st)" and "\<And>x st'. m st = (Inr x, st') \<Longrightarrow> follows answer q st' (f x st')"
  shows "follows answer (p @ q) st (and_then m f st)"
proof (cases "m st")
  case (Pair r st')
  obtain n where n: "n \<le> length p" "rs_commands st' = rs_commands st @ take n p" "is_ok r \<longrightarrow> n = length p"
      "\<forall>i < n. Suc i < n \<or> is_ok r \<longrightarrow> cr_ok (answer (rs_commands st @ take i p) (p ! i))"
    using assms(1) Pair by (auto simp: follows_def)
  show ?thesis
  proof (cases r)
    case (Inl e)
    then show ?thesis unfolding follows_def using n Pair
      by (intro exI [of _ n]) (simp add: and_then_def nth_append)
  next
    case (Inr x)
    then have p: "n = length p" "rs_commands st' = rs_commands st @ p" using n by simp_all
    obtain k where k: "k \<le> length q" "rs_commands (snd (f x st')) = rs_commands st' @ take k q"
        "is_ok (fst (f x st')) \<longrightarrow> k = length q"
        "\<forall>i < k. Suc i < k \<or> is_ok (fst (f x st')) \<longrightarrow> cr_ok (answer (rs_commands st' @ take i q) (q ! i))"
      using assms(2) [of x st'] Pair Inr by (auto simp: follows_def)
    have "cr_ok (answer (rs_commands st @ take i (p @ q)) ((p @ q) ! i))"
      if "i < length p + k" "Suc i < length p + k \<or> is_ok (fst (f x st'))" for i
    proof (cases "i < length p")
      case True
      then show ?thesis using n(4) p(1) Inr by (simp add: nth_append)
    next
      case False
      then show ?thesis using k(4) that p(2) by (simp add: nth_append less_diff_conv2 not_less) (metis Suc_diff_le less_diff_conv2 le_SucI add.commute)
    qed
    then show ?thesis unfolding follows_def using k p(2) Pair Inr
      by (intro exI [of _ "length p + k"]) (simp add: and_then_def)
  qed
qed

lemma follows_compose: "follows answer [compose_profiles env target @ c] st (compose_run answer env target False c st)"
proof (cases "cr_ok (answer (rs_commands st) (compose_profiles env target @ c))")
  case True
  then show ?thesis unfolding follows_def compose_run_def Let_def by (intro exI [of _ 1]) simp
next
  case False
  then show ?thesis unfolding follows_def compose_run_def Let_def by (intro exI [of _ 1]) simp
qed

lemma follows_checked:
  assumes "\<And>r st'. \<not> cr_ok r \<Longrightarrow> \<exists>e. f r st' = (Inl e, st')"
    and "\<And>r st'. cr_ok r \<Longrightarrow> follows answer q st' (f r st')"
  shows "follows answer ((compose_profiles env target @ c) # q) st (and_then (compose_run answer env target True c) f st)"
proof -
  let ?a = "compose_profiles env target @ c"
  let ?r = "answer (rs_commands st) ?a"
  let ?st = "st\<lparr>rs_commands := rs_commands st @ [?a]\<rparr>"
  show ?thesis
  proof (cases "cr_ok ?r")
    case True
    have "follows answer ([?a] @ q) st (and_then (compose_run answer env target False c) f st)"
    proof (rule follows_then [OF follows_compose])
      fix x st' assume "compose_run answer env target False c st = (Inr x, st')"
      then have "cr_ok x" by (auto simp: compose_run_def Let_def split: if_splits)
      then show "follows answer q st' (f x st')" by (rule assms(2))
    qed
    then show ?thesis using True by (simp add: and_then_def compose_run_def Let_def)
  next
    case False
    then obtain e where "f ?r ?st = (Inl e, ?st)" using assms(1) by blast
    then show ?thesis unfolding follows_def by (intro exI [of _ 1]) (simp add: and_then_def compose_run_def Let_def)
  qed
qed

lemma follows_give_then:
  assumes "\<And>x. r = Inr x \<Longrightarrow> follows answer q st (f x st)"
  shows "follows answer q st (and_then (give r) f st)"
  using assms by (cases r) (simp_all add: and_then_def give_def follows_error)

lemma follows_stage_then:
  assumes "follows answer q (st\<lparr>rs_stages := rs_stages st @ [s]\<rparr>) (f () (st\<lparr>rs_stages := rs_stages st @ [s]\<rparr>))"
  shows "follows answer q st (and_then (stage s) f st)"
  using assms by (simp add: and_then_def stage_def follows_def)

lemma follows_validate: "follows answer [compose_profiles env None @ CONFIG_COMMAND] st (validate_run answer env st)"
  unfolding validate_run_def
proof (rule follows_give_then, rule follows_checked)
  fix r :: command_result and st' :: run_state
  assume "\<not> cr_ok r"
  then show "\<exists>e. give (validateConfig r env) st' = (Inl e, st')"
    by (cases "config_checks env") (simp_all add: give_def validateConfig_def)
qed (rule follows_give)

lemma follows_each: "follows answer (map (\<lambda>c. compose_profiles env target @ c) cs) st (run_each answer env target cs st)"
proof (induction cs arbitrary: st)
  case (Cons c cs)
  have "follows answer ([compose_profiles env target @ c] @ map (\<lambda>c. compose_profiles env target @ c) cs) st
      (and_then (compose_run answer env target False c) (\<lambda>_. run_each answer env target cs) st)"
    by (rule follows_then [OF follows_compose]) (rule Cons.IH)
  then show ?case by simp
qed (simp add: follows_give)

lemma follows_verify: "follows answer (map (\<lambda>sc. compose_profiles env (Some d) @ snd sc) cs) st (verify_each answer env d cs st)"
proof (induction cs arbitrary: st)
  case (Cons sc cs)
  obtain s c where sc: "sc = (s, c)" by (cases sc)
  let ?f = "\<lambda>r. if \<not> cr_ok r \<or> trim (cr_stdout r) \<noteq> ''ok'' then give (Inl (s @ '' schema verification failed''))
       else verify_each answer env d cs"
  have "follows answer ((compose_profiles env (Some d) @ c) # map (\<lambda>sc. compose_profiles env (Some d) @ snd sc) cs) st
      (and_then (compose_run answer env (Some d) True c) ?f st)"
  proof (rule follows_checked)
    fix r :: command_result and st'
    show "\<not> cr_ok r \<Longrightarrow> \<exists>e. ?f r st' = (Inl e, st')" by (simp add: give_def)
    show "follows answer (map (\<lambda>sc. compose_profiles env (Some d) @ snd sc) cs) st' (?f r st')"
      using Cons.IH by (simp add: give_def follows_error)
  qed
  then show ?case by (simp add: sc)
qed (simp add: follows_give)

lemma start_follows:
  "follows answer (start_plan env (resolve_target pe target)) st (start_node answer pe embedding generation env target st)"
proof -
  let ?d = "resolve_target pe target"
  let ?c = "\<lambda>command. compose_profiles env (Some ?d) @ command"
  let ?config = "compose_profiles env None @ CONFIG_COMMAND"
  have d: "pf_target (preflight pe target) = ?d" by (simp add: preflight_def Let_def)
  have plan: "start_plan env ?d = [?config] @ [?c DATABASE_COMMAND] @ ([?config] @ map ?c INIT_COMMANDS) @ [?c SERVICES_COMMAND] @
      map (\<lambda>sc. ?c (snd sc)) (schema_checks env) @ []"
    by (simp add: start_plan_def o_def Let_def)
  have one: "follows answer [?c command] st (run_each answer env (Some ?d) [command] st)" for command st
    using follows_each [of answer env "Some ?d" "[command]"] by simp
  have schema: "follows answer ([?config] @ map ?c INIT_COMMANDS) st (schemaInit answer env ?d st)" for st
    unfolding schemaInit_def by (rule follows_then [OF follows_validate]) (rule follows_each)
  have verify: "follows answer (map (\<lambda>sc. ?c (snd sc)) (schema_checks env)) st (verifyUnifiedSchema answer env ?d st)" for st
    unfolding verifyUnifiedSchema_def by (rule follows_verify)
  show ?thesis unfolding plan start_node_def Let_def d
    by (rule follows_stage_then, rule follows_then [OF follows_validate], rule follows_stage_then, rule follows_give_then,
        rule follows_stage_then, rule follows_then [OF one], rule follows_stage_then, rule follows_then [OF schema],
        rule follows_stage_then, rule follows_then [OF one], rule follows_stage_then, rule follows_then [OF verify],
        rule follows_stage_then, rule follows_give)
qed

text \<open>Commands report no stage.\<close>

definition quiet :: "'a run \<Rightarrow> bool" where
  "quiet m \<longleftrightarrow> (\<forall>st. rs_stages (snd (m st)) = rs_stages st)"

lemma quiet_then: "quiet m \<Longrightarrow> (\<And>x. quiet (f x)) \<Longrightarrow> quiet (and_then m f)"
proof (unfold quiet_def, rule allI)
  fix st :: run_state
  assume m: "\<forall>st. rs_stages (snd (m st)) = rs_stages st" and f: "\<And>x. \<forall>st. rs_stages (snd (f x st)) = rs_stages st"
  obtain r st' where e: "m st = (r, st')" by (cases "m st")
  then have "rs_stages st' = rs_stages st" using m spec [of _ st] by (metis snd_conv)
  then show "rs_stages (snd (and_then m f st)) = rs_stages st" using f e by (cases r) (simp_all add: and_then_def)
qed

lemma quiet_give: "quiet (give r)"
  by (simp add: quiet_def give_def)

lemma quiet_compose: "quiet (compose_run answer env target allow c)"
  by (simp add: quiet_def compose_run_def Let_def)

lemma quiet_validate: "quiet (validate_run answer env)"
  unfolding validate_run_def by (rule quiet_then [OF quiet_give quiet_then [OF quiet_compose quiet_give]])

lemma quiet_each: "quiet (run_each answer env target cs)"
  by (induction cs) (simp_all add: quiet_give quiet_then quiet_compose)

lemma quiet_verify: "quiet (verify_each answer env d cs)"
proof (induction cs)
  case (Cons sc cs)
  then show ?case by (cases sc) (auto intro!: quiet_then quiet_compose quiet_give)
qed (simp add: quiet_give)

lemma quiet_schema: "quiet (schemaInit answer env d)"
  unfolding schemaInit_def by (rule quiet_then [OF quiet_validate quiet_each])

lemma quietD: "quiet m \<Longrightarrow> m st = (r, st') \<Longrightarrow> rs_stages st' = rs_stages st"
  by (metis quiet_def snd_conv)

lemma and_then_Inr: "and_then m f st = (Inr x, st') \<longleftrightarrow> (\<exists>y st1. m st = (Inr y, st1) \<and> f y st1 = (Inr x, st'))"
  by (auto simp: and_then_def split: prod.splits sum.splits)

lemma start_returns:
  assumes "start_node answer pe embedding generation env target st = (Inr result, st')"
  shows "pf_ok (preflight pe target) \<and> sr_device result = resolve_target pe target \<and>
    (sr_phase result = ''ready'' \<longleftrightarrow> is_ok embedding \<and> is_ok generation) \<and>
    rs_stages st' = rs_stages st @ [''config'', ''preflight'', ''databases'', ''schema'', ''services'', ''compute'', ''ready'']"
proof -
  have w: "model_warning sensitive role v = [] \<longleftrightarrow> is_ok v" for sensitive role v by (cases v) (simp_all add: model_warning_def)
  have d: "pf_target (preflight pe target) = resolve_target pe target" by (simp add: preflight_def Let_def)
  have p: "(if b then ''ready'' else ''degraded'') = ''ready'' \<longleftrightarrow> b" for b by simp
  have q: "require b m = Inr x \<longleftrightarrow> b" for b m and x :: unit by (simp add: require_def)
  from assms show ?thesis
    unfolding start_node_def Let_def and_then_Inr stage_def give_def verifyUnifiedSchema_def
    by (auto simp: w d p q simp del: run_each.simps split del: if_split
        dest!: quietD [OF quiet_validate] quietD [OF quiet_each] quietD [OF quiet_schema] quietD [OF quiet_verify])
qed

text \<open>
  C25: A start is a run of its plan.  From any answers of \<open>docker\<close>, the commands a start gives are a
  prefix of one fixed list (check the configuration, databases, schema initialisation, services, schema checks), each given
  only after the one before it succeeded; it returns exactly after the whole list, with all of it successful, the
  preflight passed and every stage reported in order, and calls the node ready only if both models keep their contracts.
\<close>

theorem start_runs_plan:
  assumes "start_node answer pe embedding generation env target \<lparr>rs_commands = [], rs_stages = []\<rparr> = (r, st')"
  shows "\<exists>n \<le> length (start_plan env (resolve_target pe target)).
    rs_commands st' = take n (start_plan env (resolve_target pe target)) \<and>
    (\<forall>i. Suc i < n \<longrightarrow> cr_ok (answer (take i (rs_commands st')) (rs_commands st' ! i))) \<and>
    (case r of
       Inl _ \<Rightarrow> True
     | Inr result \<Rightarrow> rs_commands st' = start_plan env (resolve_target pe target) \<and>
         (\<forall>i < n. cr_ok (answer (take i (rs_commands st')) (rs_commands st' ! i))) \<and> pf_ok (preflight pe target) \<and>
         rs_stages st' = [''config'', ''preflight'', ''databases'', ''schema'', ''services'', ''compute'', ''ready''] \<and>
         (sr_phase result = ''ready'' \<longleftrightarrow> is_ok embedding \<and> is_ok generation))"
proof -
  let ?plan = "start_plan env (resolve_target pe target)"
  obtain n where n: "n \<le> length ?plan" "rs_commands st' = take n ?plan" "is_ok r \<longrightarrow> n = length ?plan"
      "\<forall>i < n. Suc i < n \<or> is_ok r \<longrightarrow> cr_ok (answer (take i ?plan) (?plan ! i))"
    using start_follows [of answer env pe target "\<lparr>rs_commands = [], rs_stages = []\<rparr>" embedding generation] assms
    by (auto simp: follows_def)
  have "answer (take i (rs_commands st')) (rs_commands st' ! i) = answer (take i ?plan) (?plan ! i)" if "i < n" for i
    using that n(2) by (simp add: min_def)
  then have given: "\<forall>i < n. Suc i < n \<or> is_ok r \<longrightarrow> cr_ok (answer (take i (rs_commands st')) (rs_commands st' ! i))"
    using n(4) by simp
  show ?thesis
  proof (cases r)
    case (Inl e)
    then show ?thesis using n given by (intro exI [of _ n]) simp
  next
    case (Inr result)
    then have "n = length ?plan" using n(3) by simp
    then show ?thesis using n given Inr start_returns [of answer pe embedding generation env target _ result st'] assms
      by (intro exI [of _ n]) simp
  qed
qed

definition docker_ok :: command_result where
  "docker_ok = \<lparr>cr_ok = True, cr_stdout = ''ok'', cr_stderr = []\<rparr>"

definition mac_env :: preflight_env where
  "mac_env = \<lparr>pe_platform = ''darwin'', pe_arch = ''arm64'', pe_docker = docker_ok, pe_compose = docker_ok,
     pe_runtimes = docker_ok, pe_gpu = docker_ok\<rparr>"

lemma docker_ok_compose:
  "compose_run (\<lambda>_ _. docker_ok) env target allow c st =
     (Inr docker_ok, st\<lparr>rs_commands := rs_commands st @ [compose_profiles env target @ c]\<rparr>)"
  by (simp add: compose_run_def docker_ok_def Let_def)

lemma full_node_starts:
  "\<exists>result st'. start_node (\<lambda>_ _. docker_ok) mac_env (Inr ()) (Inl ''down'') full_node_env TargetAuto st = (Inr result, st')"
proof -
  obtain cfg where "validateConfig command_ok full_node_env = Inr cfg" using full_node_env_valid by blast
  then have cfg: "config_checks full_node_env = Inr ()" "validateConfig docker_ok full_node_env = Inr cfg"
    by (auto simp: validateConfig_def command_ok_def docker_ok_def rbind_eq_Inr require_def)
  have p: "pf_ok (preflight mac_env TargetAuto)"
    by (simp add: preflight_def mac_env_def resolve_target_def command_check_def platform_check_def docker_ok_def)
  have ok: "cr_ok docker_ok" "trim (cr_stdout docker_ok) = ''ok''" by (simp add: docker_ok_def, code_simp)
  show ?thesis
    by (simp add: start_node_def and_then_def stage_def give_def validate_run_def docker_ok_compose cfg p require_def
        schemaInit_def INIT_COMMANDS_def verifyUnifiedSchema_def schema_checks_def ok Let_def)
qed

theorem start_runs_plan_witness:
  "\<exists>result st'. start_node (\<lambda>_ _. docker_ok) mac_env (Inr ()) (Inl ''down'') full_node_env TargetAuto
       \<lparr>rs_commands = [], rs_stages = []\<rparr> = (Inr result, st') \<and>
     rs_commands st' = start_plan full_node_env (resolve_target mac_env TargetAuto) \<and> sr_phase result \<noteq> ''ready''"
proof -
  obtain result st' where r: "start_node (\<lambda>_ _. docker_ok) mac_env (Inr ()) (Inl ''down'') full_node_env TargetAuto
      \<lparr>rs_commands = [], rs_stages = []\<rparr> = (Inr result, st')" using full_node_starts by blast
  have "\<not> is_ok (Inl ''down'' :: unit res)" by (simp add: is_ok_def)
  then show ?thesis using start_runs_plan [OF r] r by auto
qed

end
