(* ===== verification/NodeEnv.thy ===== *)
theory NodeEnv
  imports EnvFileProps NodeConfig ManagerState
begin

text \<open>
  The runtime files of a managed node: the \<open>.env\<close> file that names its database volume
  (\<open>apps/manager/src/node-manager.ts\<close> writes it, \<open>apps/manager/src/compose.ts\<close> reads it), the names of volumes,
  and the check that a node's runtime is its own.
\<close>

section \<open>Names\<close>

definition runtimeKey :: "string \<Rightarrow> string" where
  "runtimeKey nodeId = to_lower (filter (\<lambda>c. c \<noteq> CHR ''-'') nodeId)"

definition dec_int :: "int \<Rightarrow> string" where
  "dec_int i = (if i < 0 then CHR ''-'' # dec_str (nat (- i)) else dec_str (nat i))"

definition volumeName :: "string \<Rightarrow> int \<Rightarrow> string" where
  "volumeName nodeId generation = ''neuromem-'' @ runtimeKey nodeId @ ''-pg-g'' @ dec_int generation"

definition mcp_volume_name :: "string \<Rightarrow> string" where
  "mcp_volume_name nodeId = ''neuromem-'' @ runtimeKey nodeId @ ''-mcp''"

text \<open>\<open>/^neuromem-[0-9a-f]{32}-(?:pg-g[1-9][0-9]*|mcp)$/\<close>\<close>

definition volume_suffix_ok :: "string \<Rightarrow> bool" where
  "volume_suffix_ok s = (s = ''-mcp'' \<or>
     (take 5 s = ''-pg-g'' \<and> (case drop 5 s of [] \<Rightarrow> False
        | c # cs \<Rightarrow> is_digit c \<and> c \<noteq> CHR ''0'' \<and> list_all is_digit cs)))"

definition validateVolume :: "string \<Rightarrow> unit res" where
  "validateVolume volume =
     require (take 9 volume = ''neuromem-'' \<and> length (take 32 (drop 9 volume)) = 32 \<and>
         list_all is_hex_lower (take 32 (drop 9 volume)) \<and> volume_suffix_ok (drop 41 volume))
       (''Refusing to operate on an unrecognized Neuromem volume: '' @ volume)"

text \<open>\<open>safeLabel\<close>: every run of other characters becomes one dash, dashes at the ends go, at most 64 characters.\<close>

definition label_char :: "char \<Rightarrow> bool" where
  "label_char c = (is_alnum c \<or> c = CHR ''_'' \<or> c = CHR ''-'')"

fun dash_runs :: "bool \<Rightarrow> string \<Rightarrow> string" where
  "dash_runs inside [] = []"
| "dash_runs inside (c # cs) =
     (if label_char c then c # dash_runs False cs else if inside then dash_runs True cs else CHR ''-'' # dash_runs True cs)"

definition strip_dashes :: "string \<Rightarrow> string" where
  "strip_dashes s = rev (dropWhile (\<lambda>c. c = CHR ''-'') (rev (dropWhile (\<lambda>c. c = CHR ''-'') s)))"

definition safeLabel :: "string \<Rightarrow> string res" where
  "safeLabel v = (let label = strip_dashes (dash_runs False (trim v))
     in if label = [] then Inl ''A non-empty label is required'' else Inr (take 64 label))"

section \<open>The file\<close>

text \<open>\<open>escapeEnv\<close>: \<open>/^[A-Za-z0-9_./:@-]+$/\<close> stays as it is, the rest is quoted.\<close>

definition bare_char :: "char \<Rightarrow> bool" where
  "bare_char c = (is_alnum c \<or> c \<in> set ''_./:@-'')"

definition quote_char :: "char \<Rightarrow> string" where
  "quote_char c = (if c = CHR 0x5C \<or> c = CHR 0x22 then [CHR 0x5C, c] else [c])"

definition escapeEnv :: "string \<Rightarrow> string" where
  "escapeEnv v = (if v \<noteq> [] \<and> list_all bare_char v then v
     else CHR 0x22 # concat (map quote_char v) @ [CHR 0x22])"

text \<open>\<open>readNodeEnv\<close>: quotes at the ends are dropped, nothing is unescaped.\<close>

definition strip_quotes :: "string \<Rightarrow> string" where
  "strip_quotes v =
     (let w = (if v \<noteq> [] \<and> hd v = CHR 0x22 then tl v else v)
      in if w \<noteq> [] \<and> last w = CHR 0x22 then butlast w else w)"

text \<open>\<open>raw.split(/\r?\n/)\<close>\<close>

definition drop_cr :: "string \<Rightarrow> string" where
  "drop_cr l = (if l \<noteq> [] \<and> last l = CR then butlast l else l)"

definition split_lines :: "string \<Rightarrow> string list" where
  "split_lines raw = (let ls = split_on LF raw in map drop_cr (butlast ls) @ [last ls])"

definition node_env_line :: "string \<Rightarrow> (string \<times> string) option" where
  "node_env_line l =
     (if l = [] \<or> hd l = CHR ''#'' \<or> CHR ''='' \<notin> set l then None
      else let key = takeWhile (\<lambda>c. c \<noteq> CHR ''='') l in Some (key, strip_quotes (drop (length key + 1) l)))"

definition readNodeEnv :: "string \<Rightarrow> env" where
  "readNodeEnv raw = from_entries (List.map_filter node_env_line (split_lines raw))"

definition env_text :: "env \<Rightarrow> string" where
  "env_text values = join [LF] (map (\<lambda>kv. fst kv @ ''='' @ escapeEnv (snd kv)) values) @ [LF]"

definition replaceEnv :: "string \<Rightarrow> string \<Rightarrow> string \<Rightarrow> string res" where
  "replaceEnv source key v =
     (case find_entry key True [] source of
        None \<Rightarrow> Inl (''Runtime environment is missing '' @ key)
      | Some (before, matched, after) \<Rightarrow>
          Inr (before @ expand_replacement before matched after (key @ ''='' @ escapeEnv v) @ after))"

fun replaceRuntimeValues :: "string \<Rightarrow> env \<Rightarrow> string res" where
  "replaceRuntimeValues source [] = Inr source"
| "replaceRuntimeValues source ((key, v) # values) =
     (case find_entry key True [] source of
        None \<Rightarrow> replaceRuntimeValues (source @ (if ends_with_lf source then [] else [LF]) @ key @ ''='' @ escapeEnv v @ [LF]) values
      | Some _ \<Rightarrow> rbind (replaceEnv source key v) (\<lambda>changed. replaceRuntimeValues changed values))"

section \<open>A new runtime\<close>

text \<open>\<open>runtime.X || process.env.X || fallback\<close>\<close>

definition configured :: "env \<Rightarrow> env \<Rightarrow> string \<Rightarrow> string \<Rightarrow> string" where
  "configured runtime process key fallback = or_text (eget runtime key) (or_text (eget process key) fallback)"

text \<open>\<open>ensureRuntime\<close>: the values of a fresh file; \<open>fresh\<close> are the three random tokens.\<close>

definition runtime_values :: "env \<Rightarrow> env \<Rightarrow> nat \<Rightarrow> string \<times> string \<times> string \<Rightarrow> node_record \<Rightarrow> env" where
  "runtime_values runtime process managerPort fresh node =
     (case fresh of (postgres, api, mcp) \<Rightarrow>
      let c = configured runtime process
      in [(''COMPOSE_PROJECT_NAME'', n_compose_project node), (''NODE_ID'', n_node_id node), (''NODE_ALIAS'', n_alias node),
          (''POSTGRES_DB'', ''neuromem''), (''POSTGRES_USER'', ''neuromem''), (''POSTGRES_PASSWORD'', postgres),
          (''API_TOKEN'', api), (''MCP_TOKEN'', mcp),
          (''DB_VOLUME_NAME'', volumeName (n_node_id node) (n_generation node)),
          (''MCP_STATE_VOLUME_NAME'', mcp_volume_name (n_node_id node)),
          (''API_PORT'', dec_int (port_api (n_ports node))), (''MCP_PORT'', dec_int (port_mcp (n_ports node))),
          (''DASHBOARD_PORT'', dec_int (port_dashboard (n_ports node))), (''MANAGER_PORT'', dec_str managerPort),
          (''NEUROMEM_CORE_IMAGE'', c ''NEUROMEM_CORE_IMAGE'' ''neuromem/core:0.1.0''),
          (''NEUROMEM_MCP_IMAGE'', c ''NEUROMEM_MCP_IMAGE'' ''neuromem/mcp:0.1.0''),
          (''NEUROMEM_DASHBOARD_IMAGE'', c ''NEUROMEM_DASHBOARD_IMAGE'' ''neuromem/dashboard:0.1.0''),
          (''POSTGRES_IMAGE'', c ''POSTGRES_IMAGE'' ''pgvector/pgvector:0.8.6-pg15''),
          (''EMBEDDING_BASE_URL'', c ''EMBEDDING_BASE_URL'' ''http://host.docker.internal:11434/v1''),
          (''EMBEDDING_API_KEY'', c ''EMBEDDING_API_KEY'' []), (''EMBEDDING_MODEL'', c ''EMBEDDING_MODEL'' ''qwen3-embedding:4b''),
          (''EMBEDDING_DIMENSIONS'', c ''EMBEDDING_DIMENSIONS'' ''2560''),
          (''EMBEDDING_SEND_DIMENSIONS'', c ''EMBEDDING_SEND_DIMENSIONS'' ''false''),
          (''GENERATION_BASE_URL'', c ''GENERATION_BASE_URL'' []), (''GENERATION_API_KEY'', c ''GENERATION_API_KEY'' []),
          (''GENERATION_MODEL'', c ''GENERATION_MODEL'' []),
          (''GENERATION_SOURCE'', (if c ''GENERATION_BASE_URL'' [] = [] then [] else ''openai_compatible'')),
          (''GENERATION_DIRECT_BASE_URL'', c ''GENERATION_BASE_URL'' []),
          (''GENERATION_DIRECT_API_KEY'', c ''GENERATION_API_KEY'' []), (''GENERATION_DIRECT_MODEL'', c ''GENERATION_MODEL'' [])])"

text \<open>\<open>validateRuntimeIdentity\<close>\<close>

definition expected_identity :: "node_record \<Rightarrow> env" where
  "expected_identity node =
     [(''NODE_ID'', n_node_id node), (''NODE_ALIAS'', n_alias node),
      (''COMPOSE_PROJECT_NAME'', ''neuromem-'' @ runtimeKey (n_node_id node)),
      (''DB_VOLUME_NAME'', volumeName (n_node_id node) (n_generation node)),
      (''MCP_STATE_VOLUME_NAME'', mcp_volume_name (n_node_id node)),
      (''API_PORT'', dec_int (port_api (n_ports node))), (''DASHBOARD_PORT'', dec_int (port_dashboard (n_ports node))),
      (''MCP_PORT'', dec_int (port_mcp (n_ports node)))]"

fun check_identity_values :: "env \<Rightarrow> env \<Rightarrow> unit res" where
  "check_identity_values env [] = Inr ()"
| "check_identity_values env ((name, v) # expected) =
     (if oget env name \<noteq> Some v then Inl (''Runtime identity mismatch for '' @ name @ ''; refusing Docker lifecycle action'')
      else check_identity_values env expected)"

definition validateRuntimeIdentity :: "string \<Rightarrow> node_record \<Rightarrow> unit res" where
  "validateRuntimeIdentity file node = check_identity_values (readNodeEnv file) (expected_identity node)"

end
