(* ===== verification/NodeEnvProps.thy ===== *)
theory NodeEnvProps
  imports NodeEnv JsonText
begin

text \<open>
  Reading a node's runtime file back, which values survive it, and that a new runtime passes the
  check of its identity.
\<close>

section \<open>Lines\<close>

definition env_pair_line :: "string \<times> string \<Rightarrow> string" where
  "env_pair_line kv = fst kv @ ''='' @ escapeEnv (snd kv)"

lemma escapeEnv_last: "escapeEnv v \<noteq> [] \<and> last (escapeEnv v) \<noteq> CR"
proof (cases "v \<noteq> [] \<and> list_all bare_char v")
  case True
  then have "bare_char (last v)" by (simp add: list_all_iff)
  then have "last v \<noteq> CR" by (auto simp: bare_char_def is_alnum_def is_lower_def is_upper_def is_digit_def)
  then show ?thesis using True by (simp add: escapeEnv_def)
qed (auto simp: escapeEnv_def)

lemma escapeEnv_set: "set (escapeEnv v) \<subseteq> insert (CHR 0x22) (insert (CHR 0x5C) (set v))"
  by (auto simp: escapeEnv_def quote_char_def split: if_splits)

lemma env_pair_line_facts:
  assumes "env_key_ok (fst kv)" and "LF \<notin> set (snd kv)"
  shows "LF \<notin> set (env_pair_line kv)" "drop_cr (env_pair_line kv) = env_pair_line kv"
    "node_env_line (env_pair_line kv) = Some (fst kv, strip_quotes (escapeEnv (snd kv)))"
proof -
  obtain c cs where k: "fst kv = c # cs" and c: "is_upper c" using env_key_facts(3) [OF assms(1)] by blast
  have eq: "CHR ''='' \<notin> set (fst kv)" and lf: "LF \<notin> set (fst kv)" using env_key_facts [OF assms(1)] by simp_all
  show "LF \<notin> set (env_pair_line kv)" using lf assms(2) escapeEnv_set [of "snd kv"] by (auto simp: env_pair_line_def)
  show "drop_cr (env_pair_line kv) = env_pair_line kv"
    using escapeEnv_last [of "snd kv"] by (simp add: env_pair_line_def drop_cr_def)
  have "takeWhile (\<lambda>c. c \<noteq> CHR ''='') (fst kv @ CHR ''='' # escapeEnv (snd kv)) = fst kv"
    using eq by (subst takeWhile_append2) auto
  moreover have "c \<noteq> CHR ''#''" using c by (auto simp: is_upper_def)
  ultimately show "node_env_line (env_pair_line kv) = Some (fst kv, strip_quotes (escapeEnv (snd kv)))"
    using k by (simp add: node_env_line_def env_pair_line_def Let_def)
qed

lemma split_lines_join:
  assumes "ls \<noteq> []" and "\<forall>l \<in> set ls. LF \<notin> set l \<and> drop_cr l = l"
  shows "split_lines (join_lines ls @ [LF]) = ls @ [[]]"
proof -
  have "join_lines (ls @ [[]]) = join_lines ls @ [LF]"
    using prefix_join [OF assms(1)] join_snoc [of ls "[]"] by simp
  then have "split_on LF (join_lines ls @ [LF]) = ls @ [[]]" using split_on_sep_join [of "ls @ [[]]"] assms(2) by auto
  then show ?thesis using assms(2) by (simp add: split_lines_def Let_def map_idI)
qed

lemma from_entries_distinct_keys: "distinct (map fst es) \<Longrightarrow> from_entries es = es"
proof (induction es rule: rev_induct)
  case (snoc e es)
  obtain k v where e: "e = (k, v)" by (cases e)
  have "ospread [] (es @ [(k, v)]) = oset k v (ospread [] es)" for es :: "('a \<times> 'b) list"
  proof -
    have "ospread a (es @ [(k, v)]) = oset k v (ospread a es)" for a by (induction a es rule: ospread.induct) auto
    then show ?thesis by simp
  qed
  then show ?case using snoc e by (simp add: from_entries_def oset_fresh)
qed (simp add: from_entries_def)

lemma env_text_lines: "env_text vs = join_lines (map env_pair_line vs) @ [LF]"
  by (simp add: env_text_def join_lines_def env_pair_line_def [abs_def])

definition env_values_ok :: "env \<Rightarrow> bool" where
  "env_values_ok vs \<longleftrightarrow> vs \<noteq> [] \<and> distinct (map fst vs) \<and> (\<forall>kv \<in> set vs. env_key_ok (fst kv) \<and> LF \<notin> set (snd kv))"

lemma readNodeEnv_text:
  assumes "env_values_ok vs"
  shows "readNodeEnv (env_text vs) = map (\<lambda>kv. (fst kv, strip_quotes (escapeEnv (snd kv)))) vs"
proof -
  have l: "\<forall>l \<in> set (map env_pair_line vs). LF \<notin> set l \<and> drop_cr l = l"
    using assms env_pair_line_facts by (auto simp: env_values_ok_def)
  have "List.map_filter node_env_line (map env_pair_line vs @ [[]]) = map (\<lambda>kv. (fst kv, strip_quotes (escapeEnv (snd kv)))) vs"
    using assms env_pair_line_facts(3) unfolding env_values_ok_def
    by (induction vs) (auto simp: map_filter_Cons map_filter_append node_env_line_def, force simp: map_filter_Cons)
  moreover have "distinct (map fst (map (\<lambda>kv. (fst kv, strip_quotes (escapeEnv (snd kv)))) vs))"
    using assms by (simp add: env_values_ok_def comp_def)
  ultimately show ?thesis
    using split_lines_join [OF _ l] assms by (simp add: readNodeEnv_def env_text_lines env_values_ok_def from_entries_distinct_keys)
qed

section \<open>Values that are read back\<close>

definition quotable :: "string \<Rightarrow> bool" where
  "quotable v = list_all (\<lambda>c. c \<noteq> CHR 0x22 \<and> c \<noteq> CHR 0x5C \<and> c \<noteq> LF) v"

lemma strip_escape: "quotable v \<Longrightarrow> strip_quotes (escapeEnv v) = v"
proof -
  assume v: "quotable v"
  have "concat (map quote_char v) = v" using v by (induction v) (auto simp: quotable_def quote_char_def)
  moreover have "strip_quotes v = v" if "v \<noteq> []"
    using that v by (auto simp: strip_quotes_def quotable_def list_all_iff Let_def)
  ultimately show ?thesis by (auto simp: escapeEnv_def strip_quotes_def)
qed

text \<open>
  What is written to a runtime file is read back.  The file of a list of settings is read as
  exactly these settings, in their order, if no value has a quote, a backslash or a line feed.
\<close>

theorem node_env_read_back:
  assumes "vs \<noteq> []" and "distinct (map fst vs)" and "\<forall>(key, v) \<in> set vs. env_key_ok key \<and> quotable v"
  shows "readNodeEnv (env_text vs) = vs"
proof -
  have each: "env_key_ok (fst kv) \<and> quotable (snd kv)" if "kv \<in> set vs" for kv
    using bspec [OF assms(3) that] by (simp add: case_prod_beta)
  have "LF \<notin> set v" if "quotable v" for v using that unfolding quotable_def list_all_iff by blast
  then have ok: "env_values_ok vs" unfolding env_values_ok_def using assms(1,2) each by blast
  have "map (\<lambda>kv. (fst kv, strip_quotes (escapeEnv (snd kv)))) vs = vs"
    using each strip_escape by (intro map_idI) simp
  then show ?thesis by (simp add: readNodeEnv_text [OF ok])
qed

theorem node_env_read_back_witness:
  "readNodeEnv (env_text [(''ALIAS'', ''home''), (''EMPTY'', []), (''MODEL'', ''a b$c'')]) =
     [(''ALIAS'', ''home''), (''EMPTY'', []), (''MODEL'', ''a b$c'')]"
proof (rule node_env_read_back)
  have "env_key_ok ''ALIAS''" "env_key_ok ''EMPTY''" "env_key_ok ''MODEL''" by (simp_all add: env_key_ok_def is_upper_def)
  moreover have "quotable ''home''" "quotable []" "quotable ''a b$c''" by (simp_all add: quotable_def)
  ultimately show "\<forall>(key, v) \<in> set [(''ALIAS'', ''home''), (''EMPTY'', []), (''MODEL'', ''a b$c'')]. env_key_ok key \<and> quotable v"
    by simp
qed simp_all

lemma read_escaped:
  assumes "CHR 0x22 \<in> set v \<or> CHR 0x5C \<in> set v" and "LF \<notin> set v"
  shows "readNodeEnv (env_text [(''KEY'', v)]) = [(''KEY'', concat (map quote_char v))]"
proof -
  have "env_values_ok [(''KEY'', v)]" using assms(2) by (simp add: env_values_ok_def env_key_ok_def is_upper_def)
  moreover have "\<not> bare_char (CHR 0x22)" "\<not> bare_char (CHR 0x5C)"
    by (simp_all add: bare_char_def is_alnum_def is_lower_def is_upper_def is_digit_def)
  then have "\<not> list_all bare_char v" using assms(1) by (auto simp: list_all_iff)
  then have "strip_quotes (escapeEnv v) = concat (map quote_char v)" by (auto simp: escapeEnv_def strip_quotes_def)
  ultimately show ?thesis by (simp add: readNodeEnv_text)
qed

text \<open>
  A value with a quote or a backslash is not read back.  It is escaped when the runtime
  file is written, and nothing undoes that when the manager reads the file: a key with a quote comes back with a
  backslash in it, and one more time through the file doubles it.
\<close>

theorem node_env_escape_lost:
  "readNodeEnv (env_text [(''KEY'', ''a'' @ [CHR 0x22] @ ''b'')]) = [(''KEY'', ''a'' @ [CHR 0x5C, CHR 0x22] @ ''b'')] \<and>
   readNodeEnv (env_text (readNodeEnv (env_text [(''KEY'', ''a'' @ [CHR 0x5C] @ ''b'')]))) =
     [(''KEY'', ''a'' @ [CHR 0x5C, CHR 0x5C, CHR 0x5C, CHR 0x5C] @ ''b'')]"
  using read_escaped [of "''a'' @ [CHR 0x22] @ ''b''"] read_escaped [of "''a'' @ [CHR 0x5C] @ ''b''"]
    read_escaped [of "''a'' @ [CHR 0x5C, CHR 0x5C] @ ''b''"]
  by (simp add: quote_char_def)

section \<open>A new runtime is its node's own\<close>

definition bare :: "string \<Rightarrow> bool" where
  "bare v = (v \<noteq> [] \<and> list_all bare_char v)"

lemma bare_append: "bare a \<Longrightarrow> bare b \<Longrightarrow> bare (a @ b)"
  by (simp add: bare_def)

lemma bare_escape: "bare v \<Longrightarrow> escapeEnv v = v"
  by (simp add: bare_def escapeEnv_def)

lemma bare_char_facts: "bare_char c \<Longrightarrow> c \<noteq> CHR 0x22 \<and> c \<noteq> CHR 0x5C \<and> c \<noteq> LF \<and> c \<noteq> CR \<and> c \<noteq> CHR ''$'' \<and> c \<noteq> CHR ''=''"
  by (auto simp: bare_char_def is_alnum_def is_lower_def is_upper_def is_digit_def)

lemma bare_quotable: "bare v \<Longrightarrow> quotable v"
  using bare_char_facts by (auto simp: bare_def quotable_def list_all_iff)

lemma digits_bare: "v \<noteq> [] \<Longrightarrow> list_all is_digit v \<Longrightarrow> bare v"
  by (auto simp: bare_def list_all_iff bare_char_def is_alnum_def)

lemma bare_dec_int: "bare (dec_int i)"
proof -
  have d: "bare (dec_str n)" for n using digits_bare dec_str_not_Nil dec_str_digits by blast
  moreover have "bare_char (CHR ''-'')" by (simp add: bare_char_def)
  ultimately show ?thesis unfolding dec_int_def by (auto simp: bare_def)
qed

lemma bare_runtimeKey:
  assumes "list_all bare_char v" shows "list_all bare_char (runtimeKey v)"
proof -
  have "bare_char (lower_char c)" if "bare_char c" for c
    using that by (auto simp: bare_char_def lower_char_def is_alnum_def is_lower_def is_upper_def is_digit_def)
  then show ?thesis using assms by (auto simp: runtimeKey_def to_lower_def list_all_iff)
qed

lemma bare_text: "bare ''neuromem-''" "bare ''-pg-g''" "bare ''-mcp''"
  by (simp_all add: bare_def bare_char_def is_alnum_def is_lower_def)

lemma bare_volume:
  assumes "bare nodeId" shows "bare (volumeName nodeId g)" "bare (mcp_volume_name nodeId)" "bare (''neuromem-'' @ runtimeKey nodeId)"
  using bare_runtimeKey [of nodeId] bare_dec_int [of g] bare_text assms
  by (auto simp: volumeName_def mcp_volume_name_def bare_def)

lemma oget_mapped: "oget (map (\<lambda>kv. (fst kv, g (snd kv))) vs) k = map_option g (oget vs k)"
  by (induction vs) auto

lemma runtime_keys:
  "map fst (runtime_values runtime process port fresh node) =
     [''COMPOSE_PROJECT_NAME'', ''NODE_ID'', ''NODE_ALIAS'', ''POSTGRES_DB'', ''POSTGRES_USER'', ''POSTGRES_PASSWORD'',
      ''API_TOKEN'', ''MCP_TOKEN'', ''DB_VOLUME_NAME'', ''MCP_STATE_VOLUME_NAME'', ''API_PORT'', ''MCP_PORT'', ''DASHBOARD_PORT'',
      ''MANAGER_PORT'', ''NEUROMEM_CORE_IMAGE'', ''NEUROMEM_MCP_IMAGE'', ''NEUROMEM_DASHBOARD_IMAGE'', ''POSTGRES_IMAGE'',
      ''EMBEDDING_BASE_URL'', ''EMBEDDING_API_KEY'', ''EMBEDDING_MODEL'', ''EMBEDDING_DIMENSIONS'', ''EMBEDDING_SEND_DIMENSIONS'',
      ''GENERATION_BASE_URL'', ''GENERATION_API_KEY'', ''GENERATION_MODEL'', ''GENERATION_SOURCE'',
      ''GENERATION_DIRECT_BASE_URL'', ''GENERATION_DIRECT_API_KEY'', ''GENERATION_DIRECT_MODEL'']"
  by (cases fresh) (simp add: runtime_values_def Let_def)

lemma runtime_keys_ok: "distinct (map fst (runtime_values runtime process port fresh node)) \<and>
    list_all env_key_ok (map fst (runtime_values runtime process port fresh node))"
  unfolding runtime_keys by code_simp

lemma check_identity_all: "check_identity_values env expected = Inr () \<longleftrightarrow> (\<forall>kv \<in> set expected. oget env (fst kv) = Some (snd kv))"
  by (induction expected) (auto split: if_splits)

text \<open>
  A new runtime passes its own check.  The file \<open>ensureRuntime\<close> writes for a node of the
  registry is accepted by \<open>validateRuntimeIdentity\<close> for that node, whatever is configured, as long as no value
  has a line feed.
\<close>

theorem new_runtime_is_own:
  assumes "n_compose_project node = expected_project (n_node_id node)" and "bare (n_node_id node)" and "bare (n_alias node)"
    and "\<forall>kv \<in> set (runtime_values runtime process port fresh node). LF \<notin> set (snd kv)"
  shows "validateRuntimeIdentity (env_text (runtime_values runtime process port fresh node)) node = Inr ()"
proof -
  let ?vs = "runtime_values runtime process port fresh node"
  have "?vs \<noteq> []" using runtime_keys [of runtime process port fresh node] by auto
  then have "env_values_ok ?vs" using runtime_keys_ok [of runtime process port fresh node] assms(4)
    by (auto simp: env_values_ok_def list_all_iff)
  then have r: "oget (readNodeEnv (env_text ?vs)) k = map_option (\<lambda>v. strip_quotes (escapeEnv v)) (oget ?vs k)" for k
    using oget_mapped [of "\<lambda>v. strip_quotes (escapeEnv v)" ?vs k] by (simp only: readNodeEnv_text)
  have s: "strip_quotes (escapeEnv v) = v" if "bare v" for v using that by (intro strip_escape bare_quotable)
  have p: "n_compose_project node = ''neuromem-'' @ runtimeKey (n_node_id node)"
    using assms(1) by (simp add: expected_project_def runtimeKey_def)
  have k: "oget ?vs ''NODE_ID'' = Some (n_node_id node)" "oget ?vs ''NODE_ALIAS'' = Some (n_alias node)"
      "oget ?vs ''COMPOSE_PROJECT_NAME'' = Some (n_compose_project node)"
      "oget ?vs ''DB_VOLUME_NAME'' = Some (volumeName (n_node_id node) (n_generation node))"
      "oget ?vs ''MCP_STATE_VOLUME_NAME'' = Some (mcp_volume_name (n_node_id node))"
      "oget ?vs ''API_PORT'' = Some (dec_int (port_api (n_ports node)))"
      "oget ?vs ''DASHBOARD_PORT'' = Some (dec_int (port_dashboard (n_ports node)))"
      "oget ?vs ''MCP_PORT'' = Some (dec_int (port_mcp (n_ports node)))"
    by (cases fresh; simp add: runtime_values_def Let_def)+
  have l: "\<forall>kv \<in> set (expected_identity node). oget ?vs (fst kv) = Some (snd kv) \<and> bare (snd kv)"
    using assms(2,3) bare_volume [OF assms(2)] bare_dec_int by (simp add: expected_identity_def k p)
  have "oget (readNodeEnv (env_text ?vs)) (fst kv) = Some (snd kv)" if "kv \<in> set (expected_identity node)" for kv
    unfolding r using bspec [OF l that] s by simp
  then show ?thesis by (simp add: validateRuntimeIdentity_def check_identity_all)
qed

section \<open>Changing one entry and changing it back\<close>

definition entry_line :: "string \<Rightarrow> string \<Rightarrow> bool" where
  "entry_line key m \<longleftrightarrow> starts_with (key @ ''='') m \<and> plain_line m"

lemma starts_with_break:
  assumes "d \<notin> set p" shows "starts_with p (l @ d # s) \<longleftrightarrow> starts_with p l"
proof -
  have "starts_with p (l @ d # s) \<longleftrightarrow> length p \<le> length l \<and> starts_with p l"
  proof (cases "length p \<le> length l")
    case False
    then obtain n where n: "length p = Suc (length l + n)" by (metis less_imp_Suc_add not_le)
    then have "d \<in> set (take (length p) (l @ d # s))" by simp
    then show ?thesis using assms False unfolding starts_with_def by metis
  qed (simp add: starts_with_def)
  moreover have "starts_with p l \<Longrightarrow> length p \<le> length l" by (auto simp: starts_with_iff)
  ultimately show ?thesis by blast
qed

lemma find_entry_swap:
  assumes "find_entry key st b s = Some (b', m, a)" and "plain_line (key @ ''='')" and "entry_line key m'"
  shows "\<exists>u. b' = b @ u \<and> s = u @ m @ a \<and> (u = [] \<longrightarrow> st) \<and> (u \<noteq> [] \<longrightarrow> is_line_end (last u)) \<and> entry_line key m \<and>
    find_entry key st b (u @ m' @ a) = Some (b', m', a)"
  using assms
proof (induction key st b s rule: find_entry.induct)
  case (2 key st b c cs)
  let ?p = "\<lambda>c. \<not> is_line_end c"
  have m': "starts_with (key @ ''='') m'" "plain_line m'" using 2(4) by (simp_all add: entry_line_def)
  have nb: "d \<notin> set (key @ ''='')" if "is_line_end d" for d using 2(3) that unfolding plain_line_def list_ex_iff by blast
  show ?case
  proof (cases "st \<and> starts_with (key @ ''='') (c # cs)")
    case True
    then have e: "b' = b" "m = takeWhile ?p (c # cs)" "a = dropWhile ?p (c # cs)" using 2(2) by auto
    obtain r where r: "c # cs = (key @ ''='') @ r" using True unfolding starts_with_iff by blast
    have "m = (key @ ''='') @ takeWhile ?p r" unfolding e(2) r using nb by (intro takeWhile_append2) blast
    then have "starts_with (key @ ''='') m" unfolding starts_with_iff by blast
    moreover have "plain_line m" unfolding e(2) plain_line_def list_ex_iff using set_takeWhileD by fastforce
    moreover have a: "a = [] \<or> is_line_end (hd a)" using hd_dropWhile [of ?p "c # cs"] e(3) by blast
    have t: "takeWhile ?p (m' @ a) = m'" "dropWhile ?p (m' @ a) = a"
      using m'(2) a by (cases a; auto simp: plain_line_def list_ex_iff takeWhile_append dropWhile_append)+
    obtain x xs where x: "m' = x # xs" using m'(1) by (cases m') (auto simp: starts_with_def)
    have "starts_with (key @ ''='') (m' @ a)" using m'(1) unfolding starts_with_iff by auto
    then have "find_entry key st b (m' @ a) = Some (b, m', a)" using True t x by simp
    ultimately show ?thesis using True e by (intro exI [of _ "[]"]) (simp add: entry_line_def del: takeWhile.simps dropWhile.simps)
  next
    case False
    then have "find_entry key (is_line_end c) (b @ [c]) cs = Some (b', m, a)" using 2(2) by (simp split: if_splits)
    then obtain u where u: "b' = (b @ [c]) @ u" "cs = u @ m @ a" "u = [] \<longrightarrow> is_line_end c" "u \<noteq> [] \<longrightarrow> is_line_end (last u)"
        "entry_line key m" "find_entry key (is_line_end c) (b @ [c]) (u @ m' @ a) = Some (b', m', a)"
      using 2(1) [OF False] 2(3,4) by blast
    obtain w d where w: "c # u = w @ [d]" by (cases "c # u" rule: rev_cases) auto
    have "is_line_end d" using u(3,4) w by (cases u rule: rev_cases) auto
    then have "starts_with (key @ ''='') (w @ d # x) \<longleftrightarrow> starts_with (key @ ''='') w" for x
      using starts_with_break nb by blast
    moreover have "c # u @ x = w @ d # x" for x using w by (metis append.assoc append_Cons append_Nil)
    ultimately have "starts_with (key @ ''='') (c # u @ m' @ a) \<longleftrightarrow> starts_with (key @ ''='') (c # cs)"
      unfolding u(2) by metis
    then have "\<not> (st \<and> starts_with (key @ ''='') (c # u @ m' @ a))" using False by blast
    then have "find_entry key st b (c # u @ m' @ a) = Some (b', m', a)" using u(6) by (simp only: find_entry.simps if_False)
    then show ?thesis using u by (intro exI [of _ "c # u"]) simp
  qed
qed simp

text \<open>The file names the value \<open>v\<close> under \<open>key\<close>, in the form \<open>escapeEnv\<close> gives it.\<close>

definition names_value :: "string \<Rightarrow> string \<Rightarrow> string \<Rightarrow> bool" where
  "names_value key v source \<longleftrightarrow> (\<exists>b a. find_entry key True [] source = Some (b, key @ ''='' @ v, a))"

lemma bare_entry:
  assumes "env_key_ok key" and "bare v"
  shows "plain_line (key @ ''='')" "entry_line key (key @ ''='' @ v)"
    "expand_replacement b m a (key @ ''='' @ v) = key @ ''='' @ v"
proof -
  have k: "c \<noteq> LF \<and> c \<noteq> CR \<and> c \<noteq> CHR ''$''" if "c \<in> set key" for c
    using assms(1) that by (cases key) (auto simp: env_key_ok_def list_all_iff is_upper_def is_digit_def)
  have v: "c \<noteq> LF \<and> c \<noteq> CR \<and> c \<noteq> CHR ''$''" if "c \<in> set v" for c
    using assms(2) that bare_char_facts unfolding bare_def list_all_iff by blast
  show "plain_line (key @ ''='')" using k by (auto simp: plain_line_def list_ex_iff is_line_end_def)
  have "plain_line (key @ ''='' @ v)" using k v by (auto simp: plain_line_def list_ex_iff is_line_end_def)
  moreover have "starts_with (key @ ''='') (key @ ''='' @ v)" unfolding starts_with_iff by simp
  ultimately show "entry_line key (key @ ''='' @ v)" by (simp add: entry_line_def)
  show "expand_replacement b m a (key @ ''='' @ v) = key @ ''='' @ v" using k v by (intro expand_plain) auto
qed

lemma replaceEnv_named:
  assumes "names_value key v0 source" and "env_key_ok key" and "bare v0" "bare v1"
  shows "\<exists>changed. replaceEnv source key v1 = Inr changed \<and> names_value key v1 changed \<and>
    (\<forall>v2. bare v2 \<longrightarrow> replaceEnv changed key v2 = replaceEnv source key v2) \<and> replaceEnv source key v0 = Inr source"
proof -
  obtain b a where f: "find_entry key True [] source = Some (b, key @ ''='' @ v0, a)"
    using assms(1) unfolding names_value_def by blast
  note e = bare_entry [OF assms(2)]
  let ?line = "\<lambda>v. b @ (key @ ''='' @ v) @ a"
  have s: "source = ?line v0 \<and> find_entry key True [] (?line v) = Some (b, key @ ''='' @ v, a)" if "bare v" for v
    using find_entry_swap [OF f e(1) e(2) [OF that]] assms(4) by auto
  have r: "replaceEnv (?line v) key v' = Inr (?line v')" if "bare v" "bare v'" for v v'
    using s [OF that(1)] e(3) [OF that(2)] bare_escape [OF that(2)] by (simp add: replaceEnv_def)
  have src: "source = ?line v0" using s [OF assms(3)] by blast
  show ?thesis
  proof (intro exI conjI allI impI)
    show "replaceEnv source key v1 = Inr (?line v1)" using r [OF assms(3,4)] src by metis
    show "names_value key v1 (?line v1)" unfolding names_value_def using s [OF assms(4)] by blast
    show "replaceEnv (?line v1) key v2 = replaceEnv source key v2" if "bare v2" for v2
      using r [OF assms(4) that] r [OF assms(3) that] src by metis
    show "replaceEnv source key v0 = Inr source" using r [OF assms(3,3)] src by metis
  qed
qed

definition own_node :: node_record where
  "own_node = \<lparr>n_node_id = ''a'', n_alias = ''home'', n_ports = \<lparr>port_api = 1, port_dashboard = 2, port_mcp = 3\<rparr>, n_generation = 1,
     n_desired_state = WantStopped, n_phase = PhStopped, n_compose_project = ''neuromem-a'', n_schema_revision = ''uninitialized'',
     n_created_at = [], n_updated_at = []\<rparr>"

lemma LF_dec: "LF \<notin> set (dec_int i)" "LF \<notin> set (dec_str n)"
proof -
  have d: "LF \<notin> set (dec_str n)" for n
    using dec_str_digits [of n] by (auto simp: list_all_iff is_digit_def)
  then show "LF \<notin> set (dec_str n)" "LF \<notin> set (dec_int i)" by (simp_all add: dec_int_def)
qed

theorem new_runtime_is_own_witness:
  "validateRuntimeIdentity (env_text (runtime_values [] [] 14174 (''p'', ''q'', ''r'') own_node)) own_node = Inr ()"
proof (rule new_runtime_is_own)
  show "n_compose_project own_node = expected_project (n_node_id own_node)" by code_simp
  show "bare (n_node_id own_node)" "bare (n_alias own_node)" by code_simp+
  have "LF \<notin> set (volumeName ''a'' g)" "LF \<notin> set (mcp_volume_name ''a'')" for g
    using LF_dec by (simp_all add: volumeName_def mcp_volume_name_def runtimeKey_def to_lower_def lower_char_def is_upper_def)
  then show "\<forall>kv \<in> set (runtime_values [] [] 14174 (''p'', ''q'', ''r'') own_node). LF \<notin> set (snd kv)"
    using LF_dec by (simp add: runtime_values_def own_node_def configured_def eget_def or_text_def Let_def)
qed

end
