(* ===== verification/NodeRun.thy ===== *)
theory NodeRun
  imports NodeEnv ModelSelection
begin

text \<open>
  How the Node Manager runs (\<open>apps/manager/src/node-manager.ts\<close>): a program reads and writes the manager's
  files and gives commands to \<open>docker\<close>, answered by a function of the commands before.  It returns, it
  throws, or the process dies, before any step that changes something outside of it: \<open>m_left\<close> is the number of
  such steps the process still lives.
\<close>

section \<open>State and programs\<close>

text \<open>Commands of \<open>docker compose\<close> for a project, other commands of \<open>docker\<close>, a command that reads this file,
  requests to a node or a model provider with this token (and body), and a request to Codex for a model\<close>

datatype act = Compose string "string list" | Docker "string list" | Fed string act | Get string string
  | Post string string string | Codex string string

text \<open>The manifest of a database, of the values the query gives\<close>

record database_manifest =
  dm_bytes :: rat
  dm_revision :: string
  dm_rows :: fields
  dm_extensions :: fields
  dm_vectors :: fields

record backup_manifest =
  bm_backup_id :: string
  bm_label :: string
  bm_node_id :: string
  bm_node_alias :: string
  bm_generation :: int
  bm_database :: database_manifest
  bm_created_at :: string
  bm_archive :: string
  bm_archive_bytes :: nat
  bm_sha256 :: string

text \<open>A directory of a backup: the manifest if it can be read, and the other files by their path in the directory\<close>

record backup_dir =
  bd_manifest :: "backup_manifest option"
  bd_files :: "(string \<times> string) list"

text \<open>
  The state: the store, and by node id the \<open>.env\<close> file, the \<open>compose.yaml\<close> and the \<open>backups\<close>
  directory; the temporary files that hold passwords, by path; the commands given.
\<close>

record mgr =
  m_store :: store
  m_env :: "(string \<times> string) list"
  m_compose :: "(string \<times> string) list"
  m_backups :: "(string \<times> (string \<times> backup_dir) list) list"
  m_secret_files :: "(string \<times> string) list"
  m_log :: "act list"
  m_left :: nat

text \<open>
  The world around the process, its answers depending on the commands given before: \<open>h_polls\<close> is how often a wait asks
  again before its deadline, \<open>h_dump\<close> what \<open>pg_dump\<close> writes, \<open>h_free\<close> the free bytes, \<open>h_collate\<close> the sort key of
  \<open>localeCompare\<close>, \<open>h_nodes\<close> the segments of the path of the directory of nodes.  An identifier is fresh for each
  kind of operation.
\<close>

record host =
  h_run :: "act list \<Rightarrow> act \<Rightarrow> command_result"
  h_fetch :: "act list \<Rightarrow> act \<Rightarrow> fetch_json"
  h_polls :: "act list \<Rightarrow> nat"
  h_dump :: "act list \<Rightarrow> string"
  h_free :: "act list \<Rightarrow> int"
  h_alive :: "int \<Rightarrow> bool"
  h_pid :: int
  h_now :: string
  h_operation_id :: "operation_kind \<Rightarrow> string"
  h_backup_id :: string
  h_parse :: "string \<Rightarrow> json option"
  h_format :: "rat \<Rightarrow> string"
  h_sha :: "string \<Rightarrow> string"
  h_collate :: "string \<Rightarrow> string"
  h_nodes :: "string list"
  h_runtime :: env
  h_process :: env
  h_port :: nat
  h_fresh :: "string \<times> string \<times> string"
  h_template :: "string option"

datatype 'a outcome = Ret 'a | Throw string | Dead

type_synonym 'a prog = "mgr \<Rightarrow> 'a outcome \<times> mgr"

definition ret :: "'a \<Rightarrow> 'a prog" where
  "ret x s = (Ret x, s)"

definition throw :: "string \<Rightarrow> 'a prog" where
  "throw e s = (Throw e, s)"

definition bind :: "'a prog \<Rightarrow> ('a \<Rightarrow> 'b prog) \<Rightarrow> 'b prog" where
  "bind m f s = (case m s of (Ret x, s) \<Rightarrow> f x s | (Throw e, s) \<Rightarrow> (Throw e, s) | (Dead, s) \<Rightarrow> (Dead, s))"

definition after :: "'a prog \<Rightarrow> 'b prog \<Rightarrow> 'b prog" where
  "after m n = bind m (\<lambda>_. n)"

text \<open>\<open>try { m } catch (error) { f(error) }\<close>, \<open>try { m } finally { n }\<close> for an \<open>n\<close> that does not throw\<close>

definition catch :: "'a prog \<Rightarrow> (string \<Rightarrow> 'a prog) \<Rightarrow> 'a prog" where
  "catch m f s = (case m s of (Throw e, s) \<Rightarrow> f e s | r \<Rightarrow> r)"

definition finally_do :: "'a prog \<Rightarrow> unit prog \<Rightarrow> 'a prog" where
  "finally_do m n s = (case m s of
     (Ret x, s) \<Rightarrow> after n (ret x) s | (Throw e, s) \<Rightarrow> after n (throw e) s | (Dead, s) \<Rightarrow> (Dead, s))"

text \<open>\<open>m.catch(() => undefined)\<close>\<close>

definition attempt :: "'a prog \<Rightarrow> unit prog" where
  "attempt m = catch (after m (ret ())) (\<lambda>_. ret ())"

definition from_res :: "'a res \<Rightarrow> 'a prog" where
  "from_res r = (case r of Inl e \<Rightarrow> throw e | Inr x \<Rightarrow> ret x)"

definition guard :: "bool \<Rightarrow> string \<Rightarrow> unit prog" where
  "guard b e = (if b then ret () else throw e)"

definition when_do :: "bool \<Rightarrow> unit prog \<Rightarrow> unit prog" where
  "when_do b m = (if b then m else ret ())"

definition ask :: "(mgr \<Rightarrow> 'a) \<Rightarrow> 'a prog" where
  "ask f s = (Ret (f s), s)"

text \<open>One step that changes something outside of the process, or its death before it\<close>

definition step :: "(mgr \<Rightarrow> 'a outcome \<times> mgr) \<Rightarrow> 'a prog" where
  "step f s = (case m_left s of 0 \<Rightarrow> (Dead, s) | Suc n \<Rightarrow> f (s\<lparr>m_left := n\<rparr>))"

fun each :: "('a \<Rightarrow> unit prog) \<Rightarrow> 'a list \<Rightarrow> unit prog" where
  "each f [] = ret ()"
| "each f (x # xs) = after (f x) (each f xs)"

section \<open>Commands\<close>

definition perform_act :: "host \<Rightarrow> bool \<Rightarrow> act \<Rightarrow> command_result prog" where
  "perform_act h allowFailure a = step (\<lambda>s.
     let r = h_run h (m_log s) a; s = s\<lparr>m_log := m_log s @ [a]\<rparr>
     in if cr_ok r \<or> allowFailure then (Ret r, s) else (Throw (''docker failed'' @ cr_stderr r), s))"

definition compose_cmd :: "host \<Rightarrow> node_record \<Rightarrow> bool \<Rightarrow> string list \<Rightarrow> command_result prog" where
  "compose_cmd h node allowFailure extra = perform_act h allowFailure (Compose (n_compose_project node) extra)"

definition docker_cmd :: "host \<Rightarrow> bool \<Rightarrow> string list \<Rightarrow> command_result prog" where
  "docker_cmd h allowFailure args = perform_act h allowFailure (Docker args)"

definition compose_up :: "host \<Rightarrow> node_record \<Rightarrow> unit prog" where
  "compose_up h node = after (compose_cmd h node False [''up'', ''-d'']) (ret ())"

definition compose_stop :: "host \<Rightarrow> node_record \<Rightarrow> unit prog" where
  "compose_stop h node = after (compose_cmd h node False [''stop'']) (ret ())"

definition stop_writers :: "host \<Rightarrow> node_record \<Rightarrow> unit prog" where
  "stop_writers h node = after (compose_cmd h node False [''stop'', ''worker'', ''core'', ''mcp'']) (ret ())"

definition compose_down :: "host \<Rightarrow> node_record \<Rightarrow> unit prog" where
  "compose_down h node = after (compose_cmd h node False [''down'', ''--remove-orphans'']) (ret ())"

definition create_volume :: "host \<Rightarrow> string \<Rightarrow> unit prog" where
  "create_volume h volume = after (from_res (validateVolume volume)) (after (docker_cmd h False [''volume'', ''create'', volume]) (ret ()))"

definition remove_volume :: "host \<Rightarrow> string \<Rightarrow> unit prog" where
  "remove_volume h volume = after (from_res (validateVolume volume)) (after (docker_cmd h False [''volume'', ''rm'', volume]) (ret ()))"

definition volume_exists :: "host \<Rightarrow> string \<Rightarrow> bool prog" where
  "volume_exists h volume = after (from_res (validateVolume volume))
     (bind (docker_cmd h True [''volume'', ''inspect'', volume]) (\<lambda>r. ret (cr_ok r)))"

definition list_node_volumes :: "host \<Rightarrow> string \<Rightarrow> string list prog" where
  "list_node_volumes h nid =
     (let prefix = ''neuromem-'' @ runtimeKey nid @ ''-''
      in bind (docker_cmd h True [''volume'', ''ls'', ''--format'', ''{{.Name}}'', ''--filter'', ''name='' @ prefix]) (\<lambda>r.
         if \<not> cr_ok r then throw ''Cannot enumerate Node volumes before purge''
         else ret (filter (\<lambda>v. starts_with prefix v \<and> is_ok (validateVolume v)) (split_lines (cr_stdout r)))))"

section \<open>Files\<close>

text \<open>\<open>readNodeEnv\<close>, which throws if there is no file\<close>

definition node_env :: "string \<Rightarrow> env prog" where
  "node_env nid = bind (ask (\<lambda>s. oget (m_env s) nid)) (\<lambda>f.
     case f of None \<Rightarrow> throw ''ENOENT'' | Some raw \<Rightarrow> ret (readNodeEnv raw))"

definition env_file :: "string \<Rightarrow> string prog" where
  "env_file nid = bind (ask (\<lambda>s. oget (m_env s) nid)) (\<lambda>f. case f of None \<Rightarrow> throw ''ENOENT'' | Some raw \<Rightarrow> ret raw)"

definition write_env :: "string \<Rightarrow> string \<Rightarrow> unit prog" where
  "write_env nid content = step (\<lambda>s. (Ret (), s\<lparr>m_env := oset nid content (m_env s)\<rparr>))"

definition write_secret_file :: "string \<Rightarrow> string \<Rightarrow> unit prog" where
  "write_secret_file name content = step (\<lambda>s. (Ret (), s\<lparr>m_secret_files := oset name content (m_secret_files s)\<rparr>))"

definition remove_secret_file :: "string \<Rightarrow> unit prog" where
  "remove_secret_file name = step (\<lambda>s. (Ret (), s\<lparr>m_secret_files := odel name (m_secret_files s)\<rparr>))"

section \<open>The store\<close>

text \<open>An operation of the store as one step\<close>

definition store_op :: "(store \<Rightarrow> 'a res \<times> store) \<Rightarrow> 'a prog" where
  "store_op f = step (\<lambda>s. case f (m_store s) of
     (Inl e, st) \<Rightarrow> (Throw e, s\<lparr>m_store := st\<rparr>) | (Inr x, st) \<Rightarrow> (Ret x, s\<lparr>m_store := st\<rparr>))"

definition find_node :: "string \<Rightarrow> node_record prog" where
  "find_node selector = bind (ask (\<lambda>s. findNode (m_store s) selector)) from_res"

definition update_node :: "host \<Rightarrow> string \<Rightarrow> (node_record \<Rightarrow> node_record) \<Rightarrow> node_record prog" where
  "update_node h nid f = store_op (updateNode nid f (h_now h))"

definition set_phase :: "host \<Rightarrow> string \<Rightarrow> node_phase \<Rightarrow> node_record prog" where
  "set_phase h nid phase = update_node h nid (\<lambda>n. n\<lparr>n_phase := phase\<rparr>)"

definition begin_op :: "host \<Rightarrow> string \<Rightarrow> operation_kind \<Rightarrow> string \<Rightarrow> operation_record prog" where
  "begin_op h nid kind phase = store_op (\<lambda>st.
     case beginOperation (h_operation_id h kind) (h_now h) nid kind phase st of (operation, st) \<Rightarrow> (Inr operation, st))"

definition update_op :: "host \<Rightarrow> operation_record \<Rightarrow> (operation_record \<Rightarrow> operation_record) \<Rightarrow> operation_record prog" where
  "update_op h operation patch = store_op (\<lambda>st.
     case updateOperation (h_now h) operation patch st of (operation, st) \<Rightarrow> (Inr operation, st))"

definition succeed_op :: "host \<Rightarrow> operation_record \<Rightarrow> string \<Rightarrow> json \<Rightarrow> operation_record prog" where
  "succeed_op h operation phase result = update_op h operation (\<lambda>o1. o1\<lparr>op_state := OsSucceeded, op_phase := phase,
     op_completed_at := Some (h_now h), op_result := Some result\<rparr>)"

definition move_op :: "host \<Rightarrow> operation_record \<Rightarrow> string \<Rightarrow> operation_record prog" where
  "move_op h operation phase = update_op h operation (\<lambda>o1. o1\<lparr>op_phase := phase\<rparr>)"

text \<open>The node's operation lock, taken and left as one step each; a dead owner's is taken over.\<close>

definition with_lock :: "host \<Rightarrow> string \<Rightarrow> 'a prog \<Rightarrow> 'a prog" where
  "with_lock h nid action =
     after (step (\<lambda>s.
         if owner_alive (h_alive h) (m_store s) nid
         then (Throw (''Node '' @ nid @ '' already has a lifecycle operation in progress''), s)
         else (Ret (), s\<lparr>m_store := (m_store s)\<lparr>s_owners := oset nid (h_pid h) (s_owners (m_store s))\<rparr>\<rparr>)))
       (finally_do action (step (\<lambda>s. (Ret (), s\<lparr>m_store := (m_store s)\<lparr>s_owners := odel nid (s_owners (m_store s))\<rparr>\<rparr>))))"

end
