(* ===== verification/NodeStatus.thy ===== *)
theory NodeStatus
  imports NodeRun
begin

text \<open>
  The status of a managed node: \<open>status\<close>, \<open>waitForReady\<close>, \<open>ensureRuntime\<close> and \<open>ensureImages\<close> of
  \<open>apps/manager/src/node-manager.ts\<close>, with the parts of \<open>apps/manager/src/compose.ts\<close> they use.  The results recorded with an operation carry the fields the manager itself
  reads again; the models of a status are left out.
\<close>

section \<open>What may be shown of an error\<close>

text \<open>\<open>value.replace(/pattern/g, ...)\<close>: \<open>m\<close> is the length of a match at the front and its replacement.\<close>

function replace_global :: "(string \<Rightarrow> (nat \<times> string) option) \<Rightarrow> string \<Rightarrow> string" where
  "replace_global m s = (case s of [] \<Rightarrow> []
     | c # cs \<Rightarrow> (case m s of
         Some (Suc n, r) \<Rightarrow> r @ replace_global m (drop (Suc n) s)
       | _ \<Rightarrow> c # replace_global m cs))"
  by pat_completeness auto
termination by (relation "measure (length \<circ> snd)") auto

declare replace_global.simps [simp del]

text \<open>The length of \<open>\s*\<close> at the front, and of a run of characters that \<open>p\<close> takes, up to white space\<close>

function space_run :: "string \<Rightarrow> nat" where
  "space_run s = (if ws_front s = 0 \<or> s = [] then 0 else ws_front s + space_run (drop (ws_front s) s))"
  by pat_completeness auto
termination by (relation "measure length") auto

declare space_run.simps [simp del]

fun dense_run :: "(char \<Rightarrow> bool) \<Rightarrow> string \<Rightarrow> nat" where
  "dense_run p [] = 0"
| "dense_run p (c # cs) = (if ws_front (c # cs) \<noteq> 0 \<or> \<not> p c then 0 else Suc (dense_run p cs))"

definition SECRET_NAMES :: "string list" where
  "SECRET_NAMES = [''postgres_password'', ''api_token'', ''mcp_token'', ''embedding_api_key'', ''generation_api_key'',
     ''generation_direct_api_key'', ''core_token'', ''authorization'']"

definition match_assignment :: "string \<Rightarrow> (nat \<times> string) option" where
  "match_assignment s =
     (case List.find (\<lambda>n. starts_with n (to_lower s)) SECRET_NAMES of
        None \<Rightarrow> None
      | Some n \<Rightarrow>
          let a = length n + space_run (drop (length n) s)
          in (case drop a s of
                c # cs \<Rightarrow>
                  if c = CHR ''='' \<or> c = CHR '':''
                  then let b = a + 1 + space_run cs;
                           k = dense_run (\<lambda>c. c \<noteq> CHR '','' \<and> c \<noteq> CHR 0x7D) (drop b s)
                       in if k = 0 then None else Some (b + k, take b s @ ''[redacted]'')
                  else None
              | [] \<Rightarrow> None))"

definition match_bearer :: "string \<Rightarrow> (nat \<times> string) option" where
  "match_bearer s =
     (let a = space_run (drop 6 s);
          k = dense_run (\<lambda>c. is_alnum c \<or> c \<in> set ''._~-'') (drop (6 + a) s)
      in if starts_with ''bearer'' (to_lower s) \<and> a \<noteq> 0 \<and> k \<noteq> 0 then Some (6 + a + k, ''Bearer [redacted]'') else None)"

text \<open>\<open>postgres(?:ql)?(?:\+[a-z0-9]+)?:\/\/[^:\s/]+:\<close>, then \<open>[^@\s]+\<close> and an at sign\<close>

definition dsn_prefix :: "string \<Rightarrow> nat" where
  "dsn_prefix s =
     (if \<not> starts_with ''postgres'' (to_lower s) then 0
      else let a = (if starts_with ''ql'' (to_lower (drop 8 s)) then 10 else 8);
               k = dense_run is_alnum (drop (a + 1) s);
               b = (if starts_with ''+'' (drop a s) \<and> k \<noteq> 0 then a + 1 + k else a);
               u = dense_run (\<lambda>c. c \<noteq> CHR '':'' \<and> c \<noteq> CHR ''/'') (drop (b + 3) s)
           in if starts_with ''://'' (drop b s) \<and> u \<noteq> 0 \<and> starts_with '':'' (drop (b + 3 + u) s) then b + 3 + u + 1 else 0)"

definition match_dsn :: "string \<Rightarrow> (nat \<times> string) option" where
  "match_dsn s =
     (let p = dsn_prefix s; k = dense_run (\<lambda>c. c \<noteq> CHR ''@'') (drop p s)
      in if p \<noteq> 0 \<and> k \<noteq> 0 \<and> starts_with ''@'' (drop (p + k) s) then Some (p + k + 1, take p s @ ''[redacted]@'') else None)"

definition redact_message :: "string \<Rightarrow> string" where
  "redact_message s = replace_global match_dsn (replace_global match_bearer (replace_global match_assignment s))"

definition fail_op :: "host \<Rightarrow> operation_record \<Rightarrow> string \<Rightarrow> operation_record prog" where
  "fail_op h operation e = update_op h operation (\<lambda>o1. o1\<lparr>op_state := OsFailed, op_phase := ''failed'',
     op_completed_at := Some (h_now h), op_error := Some (redact_message e)\<rparr>)"

section \<open>Services\<close>

definition first_truthy :: "fields \<Rightarrow> string list \<Rightarrow> json \<Rightarrow> json" where
  "first_truthy item keys fallback =
     (case List.find (\<lambda>k. truthy_opt (oget item k)) keys of None \<Rightarrow> fallback
      | Some k \<Rightarrow> (case oget item k of None \<Rightarrow> fallback | Some v \<Rightarrow> v))"

definition service_status :: "host \<Rightarrow> json \<Rightarrow> component option" where
  "service_status h item = map_option (\<lambda>p.
     \<lparr>cp_name = js_string (h_format h) (first_truthy p [''Service'', ''Name''] (JStr ''unknown'')),
      cp_state = js_string (h_format h) (first_truthy p [''State'', ''Status''] (JStr ''unknown'')),
      cp_health = (if truthy_opt (oget p ''Health'') then map_option (js_string (h_format h)) (oget p ''Health'') else None),
      cp_detail = []\<rparr>) (props item)"

fun all_some :: "'a option list \<Rightarrow> 'a list option" where
  "all_some [] = Some []"
| "all_some (x # xs) = (case (x, all_some xs) of (Some y, Some ys) \<Rightarrow> Some (y # ys) | _ \<Rightarrow> None)"

definition parse_services :: "host \<Rightarrow> string \<Rightarrow> component list" where
  "parse_services h out =
     (let parsed = (if starts_with ''['' (trim out) then Option.bind (h_parse h out) as_array
                    else all_some (map (h_parse h) (filter (\<lambda>l. l \<noteq> []) (split_lines out))))
      in case Option.bind parsed (\<lambda>items. all_some (map (service_status h) items)) of
           Some components \<Rightarrow> components
         | None \<Rightarrow> [\<lparr>cp_name = ''compose'', cp_state = ''unknown'', cp_health = None,
                    cp_detail = ''Cannot parse docker compose status''\<rparr>])"

definition ps :: "host \<Rightarrow> node_record \<Rightarrow> component list prog" where
  "ps h node = bind (compose_cmd h node True [''ps'', ''--format'', ''json'']) (\<lambda>r.
     ret (if \<not> cr_ok r \<or> cr_stdout r = [] then [] else parse_services h (cr_stdout r)))"

definition isRunning :: "string \<Rightarrow> bool" where
  "isRunning v = (str_includes ''running'' (to_lower v) \<or> str_includes ''up'' (to_lower v))"

text \<open>\<open>/^[A-Za-z0-9._-]{1,128}$/\<close>\<close>

definition revision_ok :: "string \<Rightarrow> bool" where
  "revision_ok t = shaped (\<lambda>c. is_alnum c \<or> c \<in> set ''._-'') (\<lambda>c. is_alnum c \<or> c \<in> set ''._-'') 0 127 t"

definition run_migration :: "host \<Rightarrow> node_record \<Rightarrow> string \<Rightarrow> bool \<Rightarrow> bool \<Rightarrow> command_result prog" where
  "run_migration h node target verify allowFailure =
     after (guard (revision_ok target) ''Invalid migration target revision'')
       (compose_cmd h node allowFailure ([''run'', ''--rm'', ''core'', ''migrate''] @ (if verify then [''--verify''] else []) @
          [''--target'', target]))"

section \<open>Readiness\<close>

record readiness =
  rd_operational :: bool
  rd_fully_ready :: bool

definition api_endpoint :: "node_record \<Rightarrow> string" where
  "api_endpoint node = ''http://127.0.0.1:'' @ dec_int (port_api (n_ports node))"

definition provider_ready :: "fields \<Rightarrow> string \<Rightarrow> bool" where
  "provider_ready p key = (case oget p key of None \<Rightarrow> True | Some v \<Rightarrow> v = JStr ''ready'' \<or> v = JStr ''configured'')"

definition readiness_of :: "fetch_json \<Rightarrow> readiness" where
  "readiness_of answer =
     (case answer of
        FetchFailed _ \<Rightarrow> \<lparr>rd_operational = False, rd_fully_ready = False\<rparr>
      | FetchAnswer st payload \<Rightarrow>
          (case props (case payload of None \<Rightarrow> JObj [] | Some j \<Rightarrow> j) of
             None \<Rightarrow> \<lparr>rd_operational = False, rd_fully_ready = False\<rparr>
           | Some p \<Rightarrow>
               let operational = (200 \<le> st \<and> st \<le> 299 \<and> oget p ''database'' \<noteq> Some (JBool False))
               in \<lparr>rd_operational = operational,
                   rd_fully_ready = (operational \<and> oget p ''status'' \<noteq> Some (JStr ''degraded'') \<and>
                     oget p ''embedding_configured'' \<noteq> Some (JBool False) \<and>
                     oget p ''extraction_configured'' \<noteq> Some (JBool False) \<and>
                     provider_ready p ''embedding_provider_status'' \<and> provider_ready p ''extraction_provider_status'')\<rparr>))"

definition probe_ready :: "host \<Rightarrow> node_record \<Rightarrow> readiness prog" where
  "probe_ready h node =
     bind (ask (\<lambda>s. oget (m_env s) (n_node_id node))) (\<lambda>f.
     case f of
       None \<Rightarrow> ret \<lparr>rd_operational = False, rd_fully_ready = False\<rparr>
     | Some raw \<Rightarrow>
         let a = Get (api_endpoint node @ ''/ready'') (eget (readNodeEnv raw) ''API_TOKEN'')
         in step (\<lambda>s. (Ret (readiness_of (h_fetch h (m_log s) a)), s\<lparr>m_log := m_log s @ [a]\<rparr>)))"

section \<open>\<open>status\<close>\<close>

definition SERVICES :: "string list" where
  "SERVICES = [''database'', ''core'', ''worker'', ''mcp'', ''web'']"

definition runs :: "component list \<Rightarrow> string \<Rightarrow> bool" where
  "runs components name = list_ex (\<lambda>c. cp_name c = name \<and> isRunning (cp_state c)) components"

definition phase_of :: "component list \<Rightarrow> readiness \<Rightarrow> node_phase" where
  "phase_of components r =
     (let unhealthy = list_ex (\<lambda>c. cp_health c \<noteq> None \<and> cp_health c \<noteq> Some [] \<and> cp_health c \<noteq> Some ''healthy'') components
      in if list_all (runs components) SERVICES \<and> rd_fully_ready r \<and> \<not> unhealthy then PhReady
         else if rd_operational r then PhDegraded else PhFailed)"

text \<open>\<open>/schema|revision|expected|extension missing|table missing|halfvec/i\<close>\<close>

definition schema_trouble :: "string \<Rightarrow> bool" where
  "schema_trouble detail = list_ex (\<lambda>w. str_includes w (to_lower detail))
     [''schema'', ''revision'', ''expected'', ''extension missing'', ''table missing'', ''halfvec'']"

definition sync_phase :: "host \<Rightarrow> node_record \<Rightarrow> node_phase \<Rightarrow> unit prog" where
  "sync_phase h node phase = when_do (n_phase node \<noteq> phase) (after (set_phase h (n_node_id node) phase) (ret ()))"

record node_status =
  st_phase :: node_phase
  st_docker :: bool

definition status :: "host \<Rightarrow> string \<Rightarrow> node_status prog" where
  "status h selector =
     bind (find_node selector) (\<lambda>node.
     bind (docker_cmd h True [''info'', ''--format'', ''{{.ServerVersion}}'']) (\<lambda>docker.
     if \<not> cr_ok docker
     then let phase = (if n_desired_state node = WantStopped then PhStopped else PhFailed)
          in after (sync_phase h node phase) (ret \<lparr>st_phase = phase, st_docker = False\<rparr>)
     else bind (ps h node) (\<lambda>components.
       if n_desired_state node = WantStopped \<and> list_all (\<lambda>c. \<not> isRunning (cp_state c)) components
       then after (sync_phase h node PhStopped) (ret \<lparr>st_phase = PhStopped, st_docker = True\<rparr>)
       else bind (probe_ready h node) (\<lambda>r.
         bind (if \<not> rd_operational r \<and> runs components ''database''
               then bind (run_migration h node ''head'' True True) (\<lambda>schema.
                 ret (if \<not> cr_ok schema \<and> schema_trouble (cr_stdout schema @ [LF] @ cr_stderr schema)
                      then PhMaintenance else phase_of components r))
               else ret (phase_of components r)) (\<lambda>phase.
         after (sync_phase h node phase) (ret \<lparr>st_phase = phase, st_docker = True\<rparr>))))))"

text \<open>\<open>waitForReady\<close>: asks again while the deadline has not passed, the number of times the clock allows.\<close>

fun poll_status :: "host \<Rightarrow> string \<Rightarrow> nat \<Rightarrow> node_status \<Rightarrow> node_status prog" where
  "poll_status h nid 0 st = ret st"
| "poll_status h nid (Suc n) st =
     (if st_phase st \<in> {PhReady, PhDegraded, PhMaintenance} then ret st else bind (status h nid) (poll_status h nid n))"

definition wait_ready :: "host \<Rightarrow> string \<Rightarrow> node_status prog" where
  "wait_ready h nid = bind (ask (\<lambda>s. h_polls h (m_log s))) (\<lambda>polls. bind (status h nid) (poll_status h nid polls))"

definition operational :: "node_status \<Rightarrow> bool" where
  "operational st = (st_phase st \<in> {PhReady, PhDegraded})"

section \<open>The runtime of a node\<close>

definition ensure_runtime :: "host \<Rightarrow> node_record \<Rightarrow> unit prog" where
  "ensure_runtime h node =
     (let nid = n_node_id node
      in bind (ask (\<lambda>s. (oget (m_compose s) nid, oget (m_env s) nid))) (\<lambda>(compose, env).
         after (when_do (compose = None) (case h_template h of
             None \<Rightarrow> throw ''ENOENT''
           | Some template \<Rightarrow> step (\<lambda>s. (Ret (), s\<lparr>m_compose := oset nid template (m_compose s)\<rparr>))))
         (when_do (env = None)
           (write_env nid (env_text (runtime_values (h_runtime h) (h_process h) (h_port h) (h_fresh h) node))))))"

definition validate_identity :: "node_record \<Rightarrow> unit prog" where
  "validate_identity node = bind (env_file (n_node_id node)) (\<lambda>raw. from_res (validateRuntimeIdentity raw node))"

text \<open>\<open>ensureImages\<close>; \<open>digest\<close> is the digest of a packaged build context with a \<open>Dockerfile\<close>, if there is one.\<close>

definition ensure_image :: "host \<Rightarrow> string option \<Rightarrow> string \<Rightarrow> string \<Rightarrow> string \<Rightarrow> unit prog" where
  "ensure_image h digest context name img =
     after (guard (img \<noteq> []) (''Runtime image is not configured for '' @ name))
     (bind (docker_cmd h True [''image'', ''inspect'', img]) (\<lambda>present.
      bind (if cr_ok present \<and> digest \<noteq> None
            then bind (docker_cmd h True [''image'', ''inspect'', ''--format'',
                     ''{{ index .Config.Labels '' @ [CHR 0x22] @ ''dev.neuromem.context-sha256'' @ [CHR 0x22] @ '' }}'', img])
                   (\<lambda>label. ret (cr_ok label \<and> Some (cr_stdout label) = digest))
            else ret (cr_ok present)) (\<lambda>kept.
      if kept then ret ()
      else (case digest of
          Some d \<Rightarrow> after (docker_cmd h False [''build'', ''--label'', ''dev.neuromem.context-sha256='' @ d, ''--tag'', img, context]) (ret ())
        | None \<Rightarrow> bind (docker_cmd h True [''pull'', img]) (\<lambda>pulled.
            guard (cr_ok pulled) (''Image '' @ img @ '' is unavailable and packaged build context '' @ context @ '' is missing''))))))"

end
