(* ===== verification/NodeLife.thy ===== *)
theory NodeLife
  imports NodeStatus Ids
begin

text \<open>
  The life of a managed node: \<open>createNode\<close>, \<open>start\<close>, \<open>stop\<close>, \<open>restart\<close>, \<open>deleteNode\<close> and
  \<open>reconcileDesiredNodes\<close> of \<open>apps/manager/src/node-manager.ts\<close>.
\<close>

section \<open>The revision a migration reports\<close>

definition revision_char :: "char \<Rightarrow> bool" where
  "revision_char c = (is_alnum c \<or> c \<in> set ''._-'')"

fun search_text :: "(string \<Rightarrow> string option) \<Rightarrow> string \<Rightarrow> string option" where
  "search_text m [] = m []"
| "search_text m (c # cs) = (case m (c # cs) of Some r \<Rightarrow> Some r | None \<Rightarrow> search_text m cs)"

definition non_empty :: "string \<Rightarrow> string option" where
  "non_empty s = (if s = [] then None else Some s)"

text \<open>\<open>/(?:current_revision|revision)\s*[=:]\s*([A-Za-z0-9._-]+)/i\<close>; the longer name contains the shorter.\<close>

definition match_revision :: "string \<Rightarrow> string option" where
  "match_revision s =
     (if \<not> starts_with ''revision'' (to_lower s) then None
      else case drop (8 + space_run (drop 8 s)) s of
        c # cs \<Rightarrow> if c = CHR ''='' \<or> c = CHR '':''
          then non_empty (takeWhile revision_char (drop (space_run cs) cs)) else None
      | [] \<Rightarrow> None)"

text \<open>\<open>/schema\s+verified\s+at\s+([A-Za-z0-9._-]+)/i\<close>\<close>

definition skip_word :: "string \<Rightarrow> string \<Rightarrow> string option" where
  "skip_word w s = (let r = drop (length w) s; k = space_run r
     in if starts_with w (to_lower s) \<and> k \<noteq> 0 then Some (drop k r) else None)"

definition match_verified :: "string \<Rightarrow> string option" where
  "match_verified s = Option.bind (skip_word ''schema'' s) (\<lambda>s. Option.bind (skip_word ''verified'' s) (\<lambda>s.
     Option.bind (skip_word ''at'' s) (\<lambda>s. non_empty (takeWhile revision_char s))))"

definition json_revision :: "host \<Rightarrow> string \<Rightarrow> string option" where
  "json_revision h trimmed = Option.bind (Option.bind (h_parse h trimmed) props) (\<lambda>p.
     let v = (if truthy_opt (oget p ''current_revision'') then oget p ''current_revision'' else oget p ''revision'')
     in if truthy_opt v then Option.bind v (\<lambda>j. let t = js_string (h_format h) j in if revision_ok t then Some t else None)
        else None)"

definition parseVerifiedRevision :: "host \<Rightarrow> string \<Rightarrow> string \<Rightarrow> string res" where
  "parseVerifiedRevision h out requested =
     (let trimmed = trim out
      in if trimmed = []
         then (if requested = ''head'' then Inl ''Migration verification did not report the actual schema revision'' else Inr requested)
         else case json_revision h trimmed of Some r \<Rightarrow> Inr r | None \<Rightarrow>
             (case search_text match_revision trimmed of Some r \<Rightarrow> Inr r | None \<Rightarrow>
               (case search_text match_verified trimmed of Some r \<Rightarrow> Inr r | None \<Rightarrow>
                 if revision_ok trimmed then Inr trimmed
                 else Inl ''Migration verification returned an invalid schema revision'')))"

section \<open>Images\<close>

definition ensure_images :: "host \<Rightarrow> (string \<Rightarrow> string option) \<Rightarrow> string \<Rightarrow> node_record \<Rightarrow> unit prog" where
  "ensure_images h digest contexts node =
     bind (node_env (n_node_id node)) (\<lambda>env.
       each (\<lambda>(name, key). ensure_image h (digest name) (contexts @ ''/'' @ name) name (eget env key))
         [(''core'', ''NEUROMEM_CORE_IMAGE''), (''mcp'', ''NEUROMEM_MCP_IMAGE''), (''web'', ''NEUROMEM_DASHBOARD_IMAGE'')])"

section \<open>Ports\<close>

definition validatePort :: "int \<Rightarrow> unit res" where
  "validatePort port = require (1024 \<le> port \<and> port \<le> 65535) (''Invalid unprivileged port: '' @ dec_int port)"

text \<open>
  \<open>ALIAS_PORTS\<close>.  The source looks the alias up in an object literal, where \<open>constructor\<close> and \<open>__proto__\<close> are found
  too, as a node without ports; here these two are aliases like any other.
\<close>

definition alias_ports :: "string \<Rightarrow> node_ports option" where
  "alias_ports alias =
     (if alias = ''personal'' then Some \<lparr>port_api = 18001, port_dashboard = 14173, port_mcp = 18765\<rparr>
      else if alias = ''company'' then Some \<lparr>port_api = 28001, port_dashboard = 24173, port_mcp = 28765\<rparr> else None)"

record port_request =
  rq_api :: "int option"
  rq_dashboard :: "int option"
  rq_mcp :: "int option"

definition node_port_list :: "node_ports \<Rightarrow> int list" where
  "node_port_list p = [port_api p, port_dashboard p, port_mcp p]"

fun check_ports :: "(int \<Rightarrow> bool) \<Rightarrow> int list \<Rightarrow> int list \<Rightarrow> unit res" where
  "check_ports free used [] = Inr ()"
| "check_ports free used (port # ports) =
     rbind (validatePort port) (\<lambda>_.
       if port \<in> set used then Inl (''Port '' @ dec_int port @ '' is already assigned to another Node'')
       else if \<not> free port then Inl (''Port '' @ dec_int port @ '' is already in use; choose an explicit free port'')
       else check_ports free (port # used) ports)"

definition requested_port :: "int option \<Rightarrow> int \<Rightarrow> int" where
  "requested_port v d = (case v of None \<Rightarrow> d | Some p \<Rightarrow> p)"

definition allocatePorts :: "(int \<Rightarrow> bool) \<Rightarrow> node_record list \<Rightarrow> string \<Rightarrow> port_request \<Rightarrow> node_ports res" where
  "allocatePorts free existing alias requested =
     (if alias_ports alias = None \<and> (rq_api requested = None \<or> rq_dashboard requested = None \<or> rq_mcp requested = None)
      then Inl ''Non-standard Node aliases require explicit api, dashboard, and mcp ports''
      else let d = (case alias_ports alias of None \<Rightarrow> \<lparr>port_api = 0, port_dashboard = 0, port_mcp = 0\<rparr> | Some p \<Rightarrow> p);
               out = \<lparr>port_api = requested_port (rq_api requested) (port_api d),
                      port_dashboard = requested_port (rq_dashboard requested) (port_dashboard d),
                      port_mcp = requested_port (rq_mcp requested) (port_mcp d)\<rparr>;
               used = concat (map (\<lambda>n. node_port_list (n_ports n)) existing)
           in rbind (check_ports free used (node_port_list out)) (\<lambda>_. Inr out))"

section \<open>\<open>createNode\<close>\<close>

definition new_node :: "host \<Rightarrow> string \<Rightarrow> string \<Rightarrow> node_ports \<Rightarrow> node_record" where
  "new_node h nid alias ports = \<lparr>n_node_id = nid, n_alias = alias, n_ports = ports, n_generation = 1,
     n_desired_state = WantStopped, n_phase = PhStopped, n_compose_project = ''neuromem-'' @ runtimeKey nid,
     n_schema_revision = ''uninitialized'', n_created_at = h_now h, n_updated_at = h_now h\<rparr>"

definition createNode ::
    "host \<Rightarrow> (int \<Rightarrow> bool) \<Rightarrow> string \<Rightarrow> string \<Rightarrow> string \<Rightarrow> port_request \<Rightarrow> bool \<Rightarrow> operation_record prog" where
  "createNode h free nid confirmation alias ports make_default =
     after (from_res (assertUuid7 nid ''node_id''))
     (after (guard (confirmation = nid) ''Node creation requires the exact generated Node UUID confirmation'')
     (bind (from_res (safeLabel alias)) (\<lambda>label.
      let alias = to_lower label in
      bind (bind (ask (\<lambda>s. read_registry (m_store s))) from_res) (\<lambda>registry.
      bind (from_res (allocatePorts free (reg_nodes registry) alias ports)) (\<lambda>ports.
      let node = new_node h nid alias ports in
      after (store_op (addNode node make_default))
      (bind (begin_op h nid OpCreate ''preparing_runtime'') (\<lambda>operation.
       catch (after (ensure_runtime h node) (after (validate_identity node)
           (succeed_op h operation ''runtime_ready'' (JObj [(''node_id'', JStr nid)]))))
         (\<lambda>e. after (set_phase h nid PhFailed) (fail_op h operation e)))))))))"

section \<open>\<open>start\<close>, \<open>stop\<close>, \<open>restart\<close>\<close>

fun phase_name :: "node_phase \<Rightarrow> string" where
  "phase_name PhStopped = ''stopped''"
| "phase_name PhStarting = ''starting''"
| "phase_name PhReady = ''ready''"
| "phase_name PhDegraded = ''degraded''"
| "phase_name PhMaintenance = ''maintenance''"
| "phase_name PhFailed = ''failed''"

text \<open>\<open>lifecycle\<close>: the action returns the phase recorded with the operation.\<close>

definition lifecycle :: "host \<Rightarrow> string \<Rightarrow> operation_kind \<Rightarrow> (node_record \<Rightarrow> string prog) \<Rightarrow> operation_record prog" where
  "lifecycle h selector kind action =
     bind (find_node selector) (\<lambda>node.
       with_lock h (n_node_id node)
         (bind (begin_op h (n_node_id node) kind (if kind = OpStop then ''stopping'' else ''starting'')) (\<lambda>operation.
          catch (bind (action node) (\<lambda>phase. succeed_op h operation phase (JObj [(''phase'', JStr phase)])))
            (\<lambda>e. after (attempt (set_phase h (n_node_id node) PhFailed)) (fail_op h operation e)))))"

definition want_running :: "host \<Rightarrow> node_record \<Rightarrow> node_record prog" where
  "want_running h node = update_node h (n_node_id node) (\<lambda>n. n\<lparr>n_desired_state := WantRunning, n_phase := PhStarting\<rparr>)"

text \<open>The last part of a start: the phase and the revision reached are recorded.\<close>

definition settle :: "host \<Rightarrow> node_record \<Rightarrow> bool \<Rightarrow> string prog" where
  "settle h node always_verify =
     bind (wait_ready h (n_node_id node)) (\<lambda>st.
     bind (if operational st \<and> (always_verify \<or> n_schema_revision node = ''uninitialized'')
           then bind (run_migration h node ''head'' True False) (\<lambda>r. from_res (parseVerifiedRevision h (cr_stdout r) ''head''))
           else ret (n_schema_revision node)) (\<lambda>revision.
     after (update_node h (n_node_id node) (\<lambda>n. n\<lparr>n_phase := st_phase st, n_schema_revision := revision\<rparr>))
     (after (guard (operational st) (''Node did not become operational; current phase is '' @ phase_name (st_phase st)))
     (ret (phase_name (st_phase st))))))"

definition prepare :: "host \<Rightarrow> (string \<Rightarrow> string option) \<Rightarrow> string \<Rightarrow> node_record \<Rightarrow> unit prog" where
  "prepare h digest contexts node =
     after (ensure_runtime h node) (after (validate_identity node) (after (ensure_images h digest contexts node)
       (after (want_running h node) (ret ()))))"

definition start :: "host \<Rightarrow> (string \<Rightarrow> string option) \<Rightarrow> string \<Rightarrow> string \<Rightarrow> operation_record prog" where
  "start h digest contexts selector = lifecycle h selector OpStart (\<lambda>node.
     after (prepare h digest contexts node) (after (compose_up h node) (settle h node True)))"

definition stop :: "host \<Rightarrow> string \<Rightarrow> operation_record prog" where
  "stop h selector = lifecycle h selector OpStop (\<lambda>node.
     after (update_node h (n_node_id node) (\<lambda>n. n\<lparr>n_desired_state := WantStopped\<rparr>))
     (after (compose_stop h node) (after (set_phase h (n_node_id node) PhStopped) (ret ''stopped''))))"

definition restart :: "host \<Rightarrow> (string \<Rightarrow> string option) \<Rightarrow> string \<Rightarrow> string \<Rightarrow> operation_record prog" where
  "restart h digest contexts selector = lifecycle h selector OpRestart (\<lambda>node.
     after (prepare h digest contexts node) (after (compose_stop h node) (after (compose_up h node) (settle h node False))))"

text \<open>\<open>reconcileDesiredNodes\<close>, one node after the other; what fails is left alone.\<close>

definition reconcile_desired :: "host \<Rightarrow> (string \<Rightarrow> string option) \<Rightarrow> string \<Rightarrow> node_record \<Rightarrow> unit prog" where
  "reconcile_desired h digest contexts node =
     bind (catch (bind (status h (n_node_id node)) (\<lambda>st. ret (Some st))) (\<lambda>_. ret None)) (\<lambda>st.
       case st of
         None \<Rightarrow> ret ()
       | Some st \<Rightarrow>
           if \<not> st_docker st then ret ()
           else if n_desired_state node = WantStopped
           then when_do (st_phase st \<noteq> PhStopped) (attempt (stop h (n_node_id node)))
           else when_do (st_phase st \<in> {PhStopped, PhFailed}) (attempt (start h digest contexts (n_node_id node))))"

section \<open>\<open>deleteNode\<close>\<close>

definition purge_volumes :: "host \<Rightarrow> node_record \<Rightarrow> unit prog" where
  "purge_volumes h node =
     (let nid = n_node_id node; key = runtimeKey nid
      in bind (node_env nid) (\<lambda>env.
         let volume = eget env ''DB_VOLUME_NAME''; mcp = eget env ''MCP_STATE_VOLUME_NAME''
         in after (guard (volume \<noteq> [] \<and> str_includes key volume) ''Refusing to purge an unrecognized volume name'')
            (after (guard (mcp \<noteq> [] \<and> str_includes key mcp) ''Refusing to purge an unrecognized MCP state volume name'')
            (bind (list_node_volumes h nid) (\<lambda>discovered. each (remove_volume h) (uniq ([volume, mcp] @ discovered)))))))"

definition remove_directory :: "string \<Rightarrow> unit prog" where
  "remove_directory nid = step (\<lambda>s. (Ret (), s\<lparr>m_env := odel nid (m_env s), m_compose := odel nid (m_compose s),
     m_backups := odel nid (m_backups s),
     m_store := (m_store s)\<lparr>s_snapshots := odel nid (s_snapshots (m_store s)), s_operations := odel nid (s_operations (m_store s))\<rparr>\<rparr>))"

definition deleteNode :: "host \<Rightarrow> string \<Rightarrow> string \<Rightarrow> bool \<Rightarrow> operation_record prog" where
  "deleteNode h selector confirmation purge =
     bind (find_node selector) (\<lambda>node.
     let nid = n_node_id node in
     after (guard (confirmation = nid) ''Node deletion requires the exact Node UUID confirmation'')
     (with_lock h nid
       (bind (begin_op h nid OpDelete ''stopping'') (\<lambda>operation.
        catch (after (compose_down h node) (after (when_do purge (purge_volumes h node))
            (bind (succeed_op h operation ''detached'' (JObj [(''data_preserved'', JBool (\<not> purge))])) (\<lambda>operation.
             after (store_op (removeNode nid)) (after (when_do purge (remove_directory nid)) (ret operation))))))
          (fail_op h operation)))))"

end
