(* ===== verification/NodeBackup.thy ===== *)
theory NodeBackup
  imports NodeLife Clients
begin

text \<open>
  Backups of a managed node (\<open>apps/manager/src/node-manager.ts\<close> with the parts of \<open>apps/manager/src/compose.ts\<close> it
  uses): taking one, finding and verifying one, planning a restore or a migration, and staging a candidate database in a
  new volume.  A manifest's constant fields \<open>format\<close> and \<open>verified\<close>, never read, are left out, and so are the fixed
  sentences of a plan; the values of a database's manifest have the types the query gives them.
\<close>

section \<open>The manifest of a database\<close>

text \<open>\<open>stableStringify\<close>; \<open>collate\<close> is the sort key of \<open>localeCompare\<close>.\<close>

fun stableStringify :: "(rat \<Rightarrow> string) \<Rightarrow> (string \<Rightarrow> string) \<Rightarrow> json \<Rightarrow> string" where
  "stableStringify fmt collate (JArr xs) = ''['' @ join '','' (map (stableStringify fmt collate) xs) @ '']''"
| "stableStringify fmt collate (JObj kvs) = ''{'' @ join '','' (map snd (sort_key (\<lambda>kv. collate (fst kv))
     (map (\<lambda>kv. (fst kv, quote (fst kv) @ '':'' @ stableStringify fmt collate (snd kv))) kvs))) @ ''}''"
| "stableStringify fmt collate v = stringify fmt v"

definition sameLogicalManifest :: "host \<Rightarrow> database_manifest \<Rightarrow> database_manifest \<Rightarrow> bool" where
  "sameLogicalManifest h left right =
     (let text = (\<lambda>v. stableStringify (h_format h) (h_collate h) (JObj v))
      in dm_revision left = dm_revision right \<and> text (dm_rows left) = text (dm_rows right) \<and>
         text (dm_extensions left) = text (dm_extensions right) \<and> text (dm_vectors left) = text (dm_vectors right))"

definition parseDatabaseManifest :: "host \<Rightarrow> string \<Rightarrow> database_manifest res" where
  "parseDatabaseManifest h out =
     (case Option.bind (h_parse h (trim out)) props of
        None \<Rightarrow> Inl ''Unexpected token in JSON''
      | Some p \<Rightarrow>
          (case (oget p ''database_bytes'', oget p ''row_counts'', oget p ''vector_columns'') of
             (Some (JNum bytes), Some (JObj rows), Some (JObj vectors)) \<Rightarrow>
               Inr \<lparr>dm_bytes = bytes,
                 dm_revision = (case str_field p ''schema_revision'' of None \<Rightarrow> ''missing'' | Some r \<Rightarrow> if r = [] then ''missing'' else r),
                 dm_rows = rows, dm_extensions = (case obj_field p ''extensions'' of None \<Rightarrow> [] | Some e \<Rightarrow> e), dm_vectors = vectors\<rparr>
           | _ \<Rightarrow> Inl ''Database manifest is incomplete''))"

definition env_user :: "env \<Rightarrow> string" where
  "env_user env = or_text (eget env ''POSTGRES_USER'') ''neuromem''"

definition env_db :: "env \<Rightarrow> string" where
  "env_db env = or_text (eget env ''POSTGRES_DB'') ''neuromem''"

definition env_image :: "env \<Rightarrow> string" where
  "env_image env = or_text (eget env ''POSTGRES_IMAGE'') ''pgvector/pgvector:0.8.6-pg15''"

definition psql :: "env \<Rightarrow> string \<Rightarrow> string \<Rightarrow> string list" where
  "psql env flags sql = [''psql'', ''-U'', env_user env, ''-d'', env_db env, ''-v'', ''ON_ERROR_STOP=1'', flags, sql]"

definition databaseManifestSql :: string where
  "databaseManifestSql = join_lines [
     ''BEGIN;'',
     ''  CREATE TEMP TABLE neuromem_manifest_counts(table_name text PRIMARY KEY, row_count bigint NOT NULL) ON COMMIT DROP;'',
     ''  CREATE TEMP TABLE neuromem_manifest_revision(revision text) ON COMMIT DROP;'',
     ''  DO $neuromem$'',
     ''  DECLARE item record;'',
     ''  BEGIN'',
     ''    FOR item IN SELECT tablename FROM pg_catalog.pg_tables WHERE schemaname = current_schema() AND tablename <> 'alembic_version'' @ [CHR 0x27],
     ''    LOOP'',
     ''      EXECUTE format('INSERT INTO neuromem_manifest_counts SELECT %L, count(*) FROM %I.%I', item.tablename, current_schema(), item.tablename);'',
     ''    END LOOP;'',
     ''    IF to_regclass(current_schema() || '.alembic_version') IS NOT NULL THEN'',
     ''      EXECUTE format('INSERT INTO neuromem_manifest_revision SELECT version_num FROM %I.alembic_version LIMIT 1', current_schema());'',
     ''    END IF;'',
     ''  END $neuromem$;'',
     ''  SELECT json_build_object('',
     ''    'database_bytes', pg_database_size(current_database()),'',
     ''    'schema_revision', (SELECT revision FROM neuromem_manifest_revision LIMIT 1),'',
     ''    'row_counts', COALESCE((SELECT json_object_agg(table_name, row_count ORDER BY table_name) FROM neuromem_manifest_counts), '{}'::json),'',
     ''    'extensions', COALESCE((SELECT json_object_agg(extname, extversion) FROM pg_extension WHERE extname IN ('vector','pg_trgm')), '{}'::json),'',
     ''    'vector_columns', COALESCE((SELECT json_object_agg(relname, json_build_object('',
     ''      'type', formatted_type,'',
     ''      'dimensions', CASE WHEN formatted_type ~ '^halfvec'' @ [CHR 0x5C] @ ''([0-9]+'' @ [CHR 0x5C] @ '')$' THEN substring(formatted_type FROM '[0-9]+')::int ELSE NULL END'',
     ''    )) FROM ('',
     ''      SELECT c.relname, format_type(a.atttypid, a.atttypmod) AS formatted_type'',
     ''      FROM pg_attribute a JOIN pg_class c ON c.oid = a.attrelid JOIN pg_namespace n ON n.oid = c.relnamespace'',
     ''      WHERE n.nspname = current_schema() AND c.relname IN ('record_embeddings','claim_embeddings')'',
     ''        AND a.attname = 'embedding' AND NOT a.attisdropped'',
     ''    ) vector_types), '{}'::json)'',
     ''  )::text;'',
     ''  COMMIT;'']"

definition databaseManifest :: "host \<Rightarrow> node_record \<Rightarrow> database_manifest prog" where
  "databaseManifest h node = bind (node_env (n_node_id node)) (\<lambda>env.
     bind (compose_cmd h node False ([''exec'', ''-T'', ''database''] @ psql env ''-qAtc'' databaseManifestSql)) (\<lambda>r.
     from_res (parseDatabaseManifest h (cr_stdout r))))"

section \<open>Commands on archives\<close>

text \<open>\<open>pgDump\<close>, with what it writes to its output file\<close>

definition pgDump :: "host \<Rightarrow> node_record \<Rightarrow> string prog" where
  "pgDump h node = bind (node_env (n_node_id node)) (\<lambda>env. bind (ask (\<lambda>s. h_dump h (m_log s))) (\<lambda>dump.
     after (compose_cmd h node False
         [''exec'', ''-T'', ''database'', ''pg_dump'', ''-U'', env_user env, ''-d'', env_db env, ''-Fc'', ''-Z'', ''3''])
       (ret dump)))"

definition verifyDump :: "host \<Rightarrow> node_record \<Rightarrow> string \<times> string \<Rightarrow> unit prog" where
  "verifyDump h node archive = bind (node_env (n_node_id node)) (\<lambda>env.
     after (perform_act h False (Fed (snd archive) (Docker [''run'', ''--rm'', ''--mount'',
         ''type=bind,source='' @ fst archive @ '',target=/backup/database.dump,readonly'', ''--entrypoint'', ''pg_restore'',
         env_image env, ''--list'', ''/backup/database.dump''])))
       (ret ()))"

definition QUEUE_TEST :: string where
  "QUEUE_TEST = ''set -eu; if [ -s /state/retry-queue.json ]; then test '' @ [CHR 0x22] @
     ''$(tr -d '[:space:]' < /state/retry-queue.json)'' @ [CHR 0x22] @
     '' = '[]'; fi; if [ -d /state/records ]; then test -z '' @ [CHR 0x22] @
     ''$(find /state/records -type f -name '*.json' -print -quit)'' @ [CHR 0x22] @ ''; fi''"

definition mcpQueueEmpty :: "host \<Rightarrow> node_record \<Rightarrow> bool prog" where
  "mcpQueueEmpty h node = bind (node_env (n_node_id node)) (\<lambda>env.
     let volume = eget env ''MCP_STATE_VOLUME_NAME''
     in after (guard (volume \<noteq> []) ''MCP state volume is not configured'')
        (bind (volume_exists h volume) (\<lambda>there.
          if \<not> there then ret True
          else bind (docker_cmd h True [''run'', ''--rm'', ''--mount'', ''type=volume,source='' @ volume @ '',target=/state,readonly'',
                 ''--entrypoint'', ''sh'', env_image env, ''-c'', QUEUE_TEST]) (\<lambda>r. ret (cr_ok r)))))"

section \<open>Directories of backups\<close>

definition dir_backups :: "string \<Rightarrow> mgr \<Rightarrow> (string \<times> backup_dir) list" where
  "dir_backups nid s = (case oget (m_backups s) nid of None \<Rightarrow> [] | Some ds \<Rightarrow> ds)"

definition write_backup :: "string \<Rightarrow> string \<Rightarrow> backup_dir \<Rightarrow> unit prog" where
  "write_backup nid entry d = step (\<lambda>s. (Ret (), s\<lparr>m_backups := oset nid (oset entry d (dir_backups nid s)) (m_backups s)\<rparr>))"

definition remove_backup :: "string \<Rightarrow> string \<Rightarrow> unit prog" where
  "remove_backup nid entry = step (\<lambda>s. (Ret (), s\<lparr>m_backups := oset nid (odel entry (dir_backups nid s)) (m_backups s)\<rparr>))"

definition rename_backup :: "string \<Rightarrow> string \<Rightarrow> string \<Rightarrow> unit prog" where
  "rename_backup nid old new = step (\<lambda>s. case oget (dir_backups nid s) old of
       None \<Rightarrow> (Throw ''ENOENT'', s)
     | Some d \<Rightarrow> (Ret (), s\<lparr>m_backups := oset nid (oset new d (odel old (dir_backups nid s))) (m_backups s)\<rparr>))"

definition partial_entry :: "string \<Rightarrow> bool" where
  "partial_entry entry = starts_with ''.partial-'' entry"

definition backup_path :: "host \<Rightarrow> string \<Rightarrow> string \<Rightarrow> string list" where
  "backup_path h nid entry = h_nodes h @ [nid, ''backups'', entry]"

definition path_text :: "string list \<Rightarrow> string" where
  "path_text segments = concat (map (\<lambda>seg. CHR ''/'' # seg) segments)"

text \<open>\<open>path.resolve(directory, name)\<close>, for an absolute directory\<close>

definition resolve_segment :: "string list \<Rightarrow> string \<Rightarrow> string list" where
  "resolve_segment segments seg =
     (if seg = [] \<or> seg = ''.'' then segments else if seg = ''..'' then butlast segments else segments @ [seg])"

definition path_resolve :: "string list \<Rightarrow> string \<Rightarrow> string list" where
  "path_resolve directory name =
     foldl resolve_segment (if starts_with ''/'' name then [] else directory) (split_on (CHR ''/'') name)"

definition archive_file :: "string list \<Rightarrow> backup_dir \<Rightarrow> string \<Rightarrow> (string \<times> string) res" where
  "archive_file directory d name =
     (let archive = path_resolve directory name; inner = drop (length directory) archive
      in if take (length directory) archive \<noteq> directory \<or> inner = [] then Inl ''Unsafe backup archive path''
         else case oget (bd_files d) (join ''/'' inner) of
           None \<Rightarrow> Inl ''Backup archive is missing''
         | Some content \<Rightarrow> Inr (path_text archive, content))"

fun locate_in :: "host \<Rightarrow> string \<Rightarrow> string \<Rightarrow> (string \<times> backup_dir) list \<Rightarrow> (backup_manifest \<times> string \<times> string) res" where
  "locate_in h nid backupId [] = Inl (''Unknown backup: '' @ backupId)"
| "locate_in h nid backupId ((entry, d) # ds) =
     (if partial_entry entry then locate_in h nid backupId ds
      else case bd_manifest d of
        None \<Rightarrow> locate_in h nid backupId ds
      | Some m \<Rightarrow>
          if bm_backup_id m \<noteq> backupId then locate_in h nid backupId ds
          else if bm_node_id m \<noteq> nid then Inl ''Backup Node identity mismatch''
          else rbind (archive_file (backup_path h nid entry) d (bm_archive m)) (\<lambda>archive. Inr (m, archive)))"

definition locateBackup :: "host \<Rightarrow> node_record \<Rightarrow> string \<Rightarrow> (backup_manifest \<times> string \<times> string) prog" where
  "locateBackup h node backupId =
     after (from_res (assertUuid backupId ''backup_id''))
       (bind (ask (\<lambda>s. locate_in h (n_node_id node) backupId (dir_backups (n_node_id node) s))) from_res)"

definition verifyLocatedBackup :: "host \<Rightarrow> node_record \<Rightarrow> backup_manifest \<times> string \<times> string \<Rightarrow> unit prog" where
  "verifyLocatedBackup h node located =
     after (guard (h_sha h (snd (snd located)) = bm_sha256 (fst located)) ''Backup checksum does not match its manifest'')
       (verifyDump h node (snd located))"

definition listBackups :: "string \<Rightarrow> (string \<times> backup_manifest list) prog" where
  "listBackups selector = bind (find_node selector) (\<lambda>node. ask (\<lambda>s.
     let nid = n_node_id node;
         manifests = List.map_filter (\<lambda>(entry, d). if partial_entry entry then None
           else case bd_manifest d of Some m \<Rightarrow> if bm_node_id m = nid then Some m else None | None \<Rightarrow> None) (dir_backups nid s)
     in (nid, rev (sort_key bm_created_at (rev manifests)))))"

section \<open>Taking a backup\<close>

definition stamp_text :: "string \<Rightarrow> string" where
  "stamp_text now = map (\<lambda>c. if c = CHR '':'' \<or> c = CHR ''.'' then CHR ''-'' else c) now"

definition partial_name :: "host \<Rightarrow> string" where
  "partial_name h = ''.partial-'' @ h_backup_id h"

definition final_name :: "host \<Rightarrow> string \<Rightarrow> string" where
  "final_name h safe = stamp_text (h_now h) @ ''-'' @ safe @ ''-'' @ h_backup_id h"

definition new_manifest :: "host \<Rightarrow> node_record \<Rightarrow> string \<Rightarrow> database_manifest \<Rightarrow> string \<Rightarrow> backup_manifest" where
  "new_manifest h node safe database dump = \<lparr>bm_backup_id = h_backup_id h, bm_label = safe, bm_node_id = n_node_id node,
     bm_node_alias = n_alias node, bm_generation = n_generation node, bm_database = database, bm_created_at = h_now h,
     bm_archive = ''database.dump'', bm_archive_bytes = length dump, bm_sha256 = h_sha h dump\<rparr>"

text \<open>The part \<open>backupCreate\<close> and \<open>snapshotWhileQuiesced\<close> share\<close>

definition take_snapshot :: "host \<Rightarrow> node_record \<Rightarrow> string \<Rightarrow> string \<Rightarrow> backup_manifest prog" where
  "take_snapshot h node safe changed =
     (let nid = n_node_id node; partial = partial_name h
      in bind (databaseManifest h node) (\<lambda>before.
         bind (pgDump h node) (\<lambda>dump.
         let files = [(''database.dump'', dump)]; m = new_manifest h node safe before dump in
         after (write_backup nid partial \<lparr>bd_manifest = None, bd_files = files\<rparr>)
         (after (verifyDump h node (path_text (backup_path h nid partial @ [''database.dump'']), dump))
         (bind (databaseManifest h node) (\<lambda>afterDump.
          after (guard (sameLogicalManifest h before afterDump) changed)
          (after (write_backup nid partial \<lparr>bd_manifest = Some m, bd_files = files\<rparr>)
          (after (rename_backup nid partial (final_name h safe)) (ret m)))))))))"

definition snapshotWhileQuiesced :: "host \<Rightarrow> node_record \<Rightarrow> string \<Rightarrow> backup_manifest prog" where
  "snapshotWhileQuiesced h node label =
     bind (from_res (safeLabel label)) (\<lambda>safe.
     after (write_backup (n_node_id node) (partial_name h) \<lparr>bd_manifest = None, bd_files = []\<rparr>)
       (catch (take_snapshot h node safe ''Database changed while writers were quiesced'')
         (\<lambda>e. after (remove_backup (n_node_id node) (partial_name h)) (throw e))))"

definition manifest_json :: "backup_manifest \<Rightarrow> json" where
  "manifest_json m = JObj [(''backup_id'', JStr (bm_backup_id m)), (''label'', JStr (bm_label m)), (''node_id'', JStr (bm_node_id m)),
     (''node_alias'', JStr (bm_node_alias m)), (''generation'', JNum (of_int (bm_generation m))),
     (''schema_revision'', JStr (dm_revision (bm_database m))), (''database_bytes'', JNum (dm_bytes (bm_database m))),
     (''row_counts'', JObj (dm_rows (bm_database m))), (''extensions'', JObj (dm_extensions (bm_database m))),
     (''vector_columns'', JObj (dm_vectors (bm_database m))), (''created_at'', JStr (bm_created_at m)),
     (''archive'', JStr (bm_archive m)), (''archive_bytes'', JNum (of_nat (bm_archive_bytes m))), (''sha256'', JStr (bm_sha256 m))]"

definition backupCreate :: "host \<Rightarrow> string \<Rightarrow> string \<Rightarrow> operation_record prog" where
  "backupCreate h selector label =
     bind (find_node selector) (\<lambda>node.
     after (guard (n_schema_revision node \<noteq> ''uninitialized'') ''Start and verify the Node before creating a backup'')
     (let nid = n_node_id node; resume = (n_desired_state node = WantRunning) in
      with_lock h nid
       (bind (begin_op h nid OpBackup ''dumping'') (\<lambda>operation.
        bind (from_res (safeLabel label)) (\<lambda>safe.
        catch (after (write_backup nid (partial_name h) \<lparr>bd_manifest = None, bd_files = []\<rparr>)
              (after (when_do resume (stop_writers h node))
              (bind (mcpQueueEmpty h node) (\<lambda>empty.
               after (guard empty ''Backup is blocked while MCP has pending undelivered records'')
               (bind (take_snapshot h node safe ''Database changed while the backup snapshot was being created'') (\<lambda>m.
                after (when_do resume (compose_up h node))
                  (succeed_op h operation ''verified'' (manifest_json m))))))))
          (\<lambda>e. after (when_do resume (attempt (compose_up h node)))
             (after (remove_backup nid (partial_name h)) (fail_op h operation e))))))))"

definition backupVerify :: "host \<Rightarrow> string \<Rightarrow> string \<Rightarrow> operation_record prog" where
  "backupVerify h selector backupId =
     bind (find_node selector) (\<lambda>node.
       with_lock h (n_node_id node)
        (bind (begin_op h (n_node_id node) OpBackupVerify ''checking_archive'') (\<lambda>operation.
         catch (bind (locateBackup h node backupId) (\<lambda>located.
             after (verifyLocatedBackup h node located)
               (succeed_op h operation ''verified'' (JObj [(''ok'', JBool True), (''manifest'', manifest_json (fst located))]))))
           (fail_op h operation))))"

section \<open>Plans\<close>

definition required_tables :: "string list" where
  "required_tables = [''workspaces'', ''projects'', ''peers'', ''sessions'', ''session_peers'', ''records'', ''record_segments'',
     ''claims'', ''claim_sources'', ''claim_relations'', ''claim_edges'', ''embedding_profiles'', ''record_embeddings'',
     ''claim_embeddings'', ''jobs'']"

definition count_ok :: "json option \<Rightarrow> bool" where
  "count_ok v = (case Option.bind v as_integer of None \<Rightarrow> False | Some i \<Rightarrow> 0 \<le> i \<and> i \<le> MAX_SAFE_INTEGER)"

definition halfvec_ok :: "fields \<Rightarrow> string \<Rightarrow> bool" where
  "halfvec_ok vectors table = (case obj_field vectors table of None \<Rightarrow> False
     | Some v \<Rightarrow> oget v ''type'' = Some (JStr ''halfvec(2560)'') \<and> oget v ''dimensions'' = Some (JNum 2560))"

definition vector_tables :: "string list" where
  "vector_tables = [''record_embeddings'', ''claim_embeddings'']"

definition block_if :: "bool \<Rightarrow> string \<Rightarrow> string list" where
  "block_if b message = (if b then [message] else [])"

definition manifestStructureBlockers :: "backup_manifest \<Rightarrow> string list" where
  "manifestStructureBlockers m =
     (let d = bm_database m
      in block_if (dm_revision d = [] \<or> dm_revision d = ''missing'') ''Backup has no schema revision'' @
         concat (map (\<lambda>t. block_if (\<not> count_ok (oget (dm_rows d) t)) (''Backup has no valid row count for '' @ t)) required_tables) @
         block_if (\<not> truthy_opt (oget (dm_extensions d) ''vector'')) ''Backup has no pgvector extension version'' @
         block_if (\<not> truthy_opt (oget (dm_extensions d) ''pg_trgm'')) ''Backup has no pg_trgm extension version'' @
         concat (map (\<lambda>t. block_if (\<not> halfvec_ok (dm_vectors d) t) (t @ '' is not halfvec(2560)'')) vector_tables))"

text \<open>The space a staged restore needs: at least a gigabyte\<close>

definition required_bytes :: "backup_manifest \<Rightarrow> rat" where
  "required_bytes m = (let b = dm_bytes (bm_database m)
     in max (max (b + of_nat (bm_archive_bytes m) * 2) (of_int \<lceil>b * 5 / 4\<rceil>)) (1024 ^ 3))"

definition restore_blockers :: "node_record \<Rightarrow> backup_manifest \<Rightarrow> bool \<Rightarrow> int \<Rightarrow> string list" where
  "restore_blockers node m queue_empty free =
     block_if (bm_node_id m \<noteq> n_node_id node) ''Backup belongs to another Node'' @
     block_if (dm_revision (bm_database m) \<noteq> n_schema_revision node)
       (''Backup schema '' @ dm_revision (bm_database m) @ '' does not match Node schema '' @ n_schema_revision node) @
     manifestStructureBlockers m @
     block_if (\<not> queue_empty) ''MCP has pending undelivered records; drain or resolve them before restore'' @
     block_if (of_int free < required_bytes m) ''Insufficient free disk space for a staged restore''"

definition plan_json :: "string list \<Rightarrow> fields \<Rightarrow> json" where
  "plan_json blockers rest = JObj ((''ok'', JBool (blockers = [])) # rest @ [(''blockers'', JArr (map JStr blockers))])"

definition restorePlan :: "host \<Rightarrow> string \<Rightarrow> string \<Rightarrow> operation_record prog" where
  "restorePlan h selector backupId =
     bind (find_node selector) (\<lambda>node.
     bind (begin_op h (n_node_id node) OpRestorePlan ''inspecting'') (\<lambda>operation.
     catch (bind (locateBackup h node backupId) (\<lambda>located.
           after (verifyLocatedBackup h node located)
           (bind (ask (\<lambda>s. h_free h (m_log s))) (\<lambda>free.
            bind (mcpQueueEmpty h node) (\<lambda>empty.
            succeed_op h operation ''planned'' (plan_json (restore_blockers node (fst located) empty free)
              [(''node_id'', JStr (n_node_id node)), (''backup'', manifest_json (fst located)),
               (''current_generation'', JNum (of_int (n_generation node))),
               (''candidate_generation'', JNum (of_int (n_generation node + 1))),
               (''free_bytes'', JNum (of_int free)), (''required_bytes'', JNum (required_bytes (fst located)))]))))))
       (fail_op h operation)))"

definition migrationPlan :: "host \<Rightarrow> string \<Rightarrow> string \<Rightarrow> string option \<Rightarrow> operation_record prog" where
  "migrationPlan h selector target requestedMode =
     bind (find_node selector) (\<lambda>node.
     bind (begin_op h (n_node_id node) OpMigratePlan ''inspecting'') (\<lambda>operation.
     catch (after (guard (revision_ok target) ''Invalid target schema revision'')
           (let same = (target = n_schema_revision node) in
            succeed_op h operation ''planned'' (plan_json (block_if same ''Node is already at the target revision'')
              [(''node_id'', JStr (n_node_id node)), (''current_revision'', JStr (n_schema_revision node)),
               (''target_revision'', JStr target), (''requires_backup'', JBool (\<not> same)),
               (''apply_mode'', JStr (if requestedMode = Some ''transactional'' then ''transactional'' else ''new_generation''))])))
       (fail_op h operation)))"

section \<open>A candidate database\<close>

datatype verification_mode = Exact | Migration

definition source_of_truth :: "string list" where
  "source_of_truth = [''workspaces'', ''projects'', ''peers'', ''sessions'', ''session_peers'', ''records'', ''record_segments'',
     ''claims'', ''claim_sources'', ''claim_relations'', ''claim_edges'']"

definition fewer :: "json option \<Rightarrow> json \<Rightarrow> bool" where
  "fewer actual wanted = (case (actual, wanted) of (None, _) \<Rightarrow> True | (Some (JNum a), JNum c) \<Rightarrow> a < c | _ \<Rightarrow> False)"

definition check_rows :: "verification_mode \<Rightarrow> fields \<Rightarrow> string \<times> json \<Rightarrow> unit res" where
  "check_rows mode actual row = (case row of (table, wanted) \<Rightarrow>
     if mode = Exact \<and> oget actual table \<noteq> Some wanted then Inl (''Candidate row count mismatch for '' @ table)
     else if mode = Migration \<and> table \<in> set source_of_truth \<and> fewer (oget actual table) wanted
     then Inl (''Migration lost source rows in '' @ table) else Inr ())"

fun check_each :: "('a \<Rightarrow> unit res) \<Rightarrow> 'a list \<Rightarrow> unit res" where
  "check_each f [] = Inr ()"
| "check_each f (x # xs) = rbind (f x) (\<lambda>_. check_each f xs)"

definition verifyCandidateManifest :: "backup_manifest \<Rightarrow> database_manifest \<Rightarrow> verification_mode \<Rightarrow> unit res" where
  "verifyCandidateManifest expected actual mode =
     rbind (check_each (check_rows mode (dm_rows actual)) (dm_rows (bm_database expected))) (\<lambda>_.
     rbind (check_each (\<lambda>e. require (truthy_opt (oget (dm_extensions actual) e)) (''Candidate is missing '' @ e))
         [''vector'', ''pg_trgm'']) (\<lambda>_.
     check_each (\<lambda>t. require (halfvec_ok (dm_vectors actual) t) (''Candidate '' @ t @ '' is not halfvec(2560)'')) vector_tables))"

definition node_path :: "host \<Rightarrow> string \<Rightarrow> string \<Rightarrow> string" where
  "node_path h nid name = path_text (h_nodes h @ [nid, name])"

definition PROBE_EXTENSION :: string where
  "PROBE_EXTENSION = ''SELECT 1; SELECT extversion FROM pg_extension WHERE extname='vector';''"

definition PROBE_WRITE :: string where
  "PROBE_WRITE = ''BEGIN; CREATE TEMP TABLE neuromem_restore_probe(id integer); INSERT INTO neuromem_restore_probe VALUES (1); '' @
     ''SELECT count(*) FROM neuromem_restore_probe; ROLLBACK; SELECT array_fill(0.0::real, ARRAY[2560])::halfvec(2560) <=> '' @
     ''array_fill(0.0::real, ARRAY[2560])::halfvec(2560);''"

text \<open>The wait for the staged database, asking as often as the clock allows\<close>

fun poll_database :: "host \<Rightarrow> string \<Rightarrow> env \<Rightarrow> nat \<Rightarrow> bool prog" where
  "poll_database h container env 0 = ret False"
| "poll_database h container env (Suc n) =
     bind (docker_cmd h True [''exec'', container, ''pg_isready'', ''-U'', env_user env, ''-d'', env_db env]) (\<lambda>r.
       if cr_ok r then ret True else poll_database h container env n)"

definition database_url :: "env \<Rightarrow> string" where
  "database_url env = ''postgresql+asyncpg://'' @ encodeURIComponent (env_user env) @ '':'' @
     encodeURIComponent (eget env ''POSTGRES_PASSWORD'') @ ''@127.0.0.1:5432/'' @ encodeURIComponent (env_db env)"

definition stage_migration :: "host \<Rightarrow> node_record \<Rightarrow> env \<Rightarrow> string \<Rightarrow> int \<Rightarrow> string \<Rightarrow> string prog" where
  "stage_migration h node env container g target =
     (let core_env = node_path h (n_node_id node) (''.stage-core-'' @ dec_int g @ ''.env'');
          migrate = (\<lambda>flags. [''run'', ''--rm'', ''--network'', ''container:'' @ container, ''--env-file'', core_env,
            or_text (eget env ''NEUROMEM_CORE_IMAGE'') ''neuromem/core:0.1.0'', ''migrate''] @ flags @ [''--target'', target])
      in after (write_secret_file core_env (join_lines [''DATABASE_URL='' @ database_url env,
             ''NEUROMEM_NODE_ID='' @ n_node_id node, ''NEUROMEM_API_TOKEN='' @ eget env ''API_TOKEN'', []]))
         (finally_do (after (docker_cmd h False (migrate []))
             (bind (docker_cmd h False (migrate [''--verify''])) (\<lambda>r. from_res (parseVerifiedRevision h (cr_stdout r) target))))
           (remove_secret_file core_env)))"

text \<open>The work between the start of the staging container and its removal\<close>

definition stage_checked :: "host \<Rightarrow> node_record \<Rightarrow> env \<Rightarrow> string \<Rightarrow> string \<Rightarrow> string \<Rightarrow> string \<Rightarrow> int \<Rightarrow>
    backup_manifest \<Rightarrow> verification_mode \<Rightarrow> string \<Rightarrow> string option prog" where
  "stage_checked h node env archive container env_path volume g expected mode target =
     after (docker_cmd h False [''run'', ''-d'', ''--name'', container, ''--env-file'', env_path,
         ''--mount'', ''type=volume,source='' @ volume @ '',target=/var/lib/postgresql/data'', env_image env])
     (bind (ask (\<lambda>s. h_polls h (m_log s))) (\<lambda>polls.
      bind (poll_database h container env polls) (\<lambda>ready.
      after (guard ready ''Candidate PostgreSQL did not become ready'')
      (after (perform_act h False (Fed archive (Docker [''exec'', ''-i'', container, ''pg_restore'', ''-U'', env_user env, ''-d'',
         env_db env, ''--no-owner'', ''--no-privileges''])))
      (bind (if target = [] then ret None
             else bind (stage_migration h node env container g target) (\<lambda>r. ret (Some r))) (\<lambda>actual.
       after (docker_cmd h False ([''exec'', container] @ psql env ''-Atc'' PROBE_EXTENSION))
       (bind (docker_cmd h False ([''exec'', container] @ psql env ''-qAtc'' databaseManifestSql)) (\<lambda>r.
        bind (from_res (parseDatabaseManifest h (cr_stdout r))) (\<lambda>candidate.
        after (from_res (verifyCandidateManifest expected candidate mode))
        (after (guard (actual = None \<or> Some (dm_revision candidate) = actual)
           ''Candidate schema verification mismatch'')
        (after (docker_cmd h False ([''exec'', container] @ psql env ''-Atc'' PROBE_WRITE)) (ret actual))))))))))))"

definition stageDatabase :: "host \<Rightarrow> node_record \<Rightarrow> string \<Rightarrow> string \<Rightarrow> int \<Rightarrow> backup_manifest \<Rightarrow> verification_mode \<Rightarrow>
    string \<Rightarrow> string option prog" where
  "stageDatabase h node archive volume g expected mode target =
     (let nid = n_node_id node; container = ''neuromem-stage-'' @ runtimeKey nid @ ''-g'' @ dec_int g;
          env_path = node_path h nid (''.stage-'' @ dec_int g @ ''.env'')
      in bind (volume_exists h volume) (\<lambda>there.
         after (guard (\<not> there) (''Candidate volume already exists: '' @ volume))
         (after (create_volume h volume)
         (bind (node_env nid) (\<lambda>env.
          after (write_secret_file env_path (join_lines [''POSTGRES_DB='' @ escapeEnv (env_db env),
              ''POSTGRES_USER='' @ escapeEnv (env_user env), ''POSTGRES_PASSWORD='' @ escapeEnv (eget env ''POSTGRES_PASSWORD''),
              ''PGDATA=/var/lib/postgresql/data/pgdata'', []]))
            (finally_do (stage_checked h node env archive container env_path volume g expected mode target)
              (after (docker_cmd h True [''rm'', ''-f'', container]) (remove_secret_file env_path))))))))"

section \<open>The next generation\<close>

lemma perform_act_left: "perform_act h b a s = (Ret r, s') \<Longrightarrow> m_left s' < m_left s"
  by (auto simp: perform_act_def step_def Let_def split: nat.splits if_splits)

lemma volume_exists_left: "volume_exists h v s = (Ret b, s') \<Longrightarrow> m_left s' < m_left s"
  by (auto simp: volume_exists_def after_def bind_def from_res_def ret_def throw_def docker_cmd_def
      dest: perform_act_left split: sum.splits prod.splits outcome.splits)

text \<open>
  The loop of \<open>nextUnusedGeneration\<close>.  A turn gives a command, so a process with finitely many steps left ends it; a loop
  that never found an unused volume would use up any number of steps.
\<close>

function search_generation :: "host \<Rightarrow> string \<Rightarrow> int \<Rightarrow> int prog" where
  "search_generation h nid g s = (case volume_exists h (volumeName nid g) s of
     (Ret True, s') \<Rightarrow> search_generation h nid (g + 1) s'
   | (Ret False, s') \<Rightarrow> (Ret g, s')
   | (Throw e, s') \<Rightarrow> (Throw e, s')
   | (Dead, s') \<Rightarrow> (Dead, s'))"
  by pat_completeness auto
termination
  by (relation "measure (\<lambda>(h, nid, g, s). m_left s)") (auto dest!: volume_exists_left [OF sym])

declare search_generation.simps [simp del]

definition nextUnusedGeneration :: "host \<Rightarrow> node_record \<Rightarrow> int prog" where
  "nextUnusedGeneration h node = search_generation h (n_node_id node) (n_generation node + 1)"

end
