(* ===== verification/NodeCutover.thy ===== *)
theory NodeCutover
  imports NodeBackup
begin

text \<open>
  Switching a managed node to another database volume (\<open>apps/manager/src/node-manager.ts\<close>): the journal of a cutover,
  the cutover and its rollback, \<open>restoreApply\<close> and \<open>migrationApply\<close>, and what the manager repairs when it starts
  after it died: interrupted cutovers and interrupted changes of models.
\<close>

section \<open>The journal of a cutover\<close>

record cutover_journal =
  j_from_generation :: int
  j_from_volume :: string
  j_from_schema :: string
  j_to_volume :: string
  j_env_sha256 :: string

definition journal_json :: "host \<Rightarrow> node_record \<Rightarrow> string \<Rightarrow> int \<Rightarrow> string \<Rightarrow> string \<Rightarrow> json" where
  "journal_json h node raw g volume schema =
     JObj [(''cutover'', JObj ([(''from_generation'', JNum (of_int (n_generation node)))] @
       (case oget (readNodeEnv raw) ''DB_VOLUME_NAME'' of None \<Rightarrow> [] | Some v \<Rightarrow> [(''from_volume'', JStr v)]) @
       [(''from_schema'', JStr (n_schema_revision node)), (''to_generation'', JNum (of_int g)), (''to_volume'', JStr volume),
        (''to_schema'', JStr schema), (''env_sha256'', JStr (h_sha h raw))]))]"

definition journalCutover :: "host \<Rightarrow> operation_record \<Rightarrow> node_record \<Rightarrow> int \<Rightarrow> string \<Rightarrow> string \<Rightarrow> operation_record prog" where
  "journalCutover h operation node g volume schema =
     bind (env_file (n_node_id node)) (\<lambda>raw.
       update_op h operation (\<lambda>o1. o1\<lparr>op_phase := ''cutover_prepared'', op_result := Some (journal_json h node raw g volume schema)\<rparr>))"

definition result_field :: "operation_record \<Rightarrow> string \<Rightarrow> json option" where
  "result_field operation k = Option.bind (Option.bind (op_result operation) as_object) (\<lambda>r. oget r k)"

definition interrupted_cutover :: "operation_record \<Rightarrow> bool" where
  "interrupted_cutover operation = (op_state operation = OsNeedsAttention \<and> op_phase operation = ''manager_restarted'' \<and>
     truthy_opt (result_field operation ''cutover'') \<and> \<not> truthy_opt (result_field operation ''recovery''))"

text \<open>The journal that can be used: a safe generation, a volume and a schema\<close>

definition text_field :: "fields \<Rightarrow> string \<Rightarrow> string" where
  "text_field fs k = (case str_field fs k of None \<Rightarrow> [] | Some v \<Rightarrow> v)"

definition journal_of :: "operation_record \<Rightarrow> cutover_journal option" where
  "journal_of operation = Option.bind (Option.bind (result_field operation ''cutover'') as_object) (\<lambda>c.
     case Option.bind (oget c ''from_generation'') as_integer of
       None \<Rightarrow> None
     | Some g \<Rightarrow>
         if \<bar>g\<bar> \<le> MAX_SAFE_INTEGER \<and> text_field c ''from_volume'' \<noteq> [] \<and> text_field c ''from_schema'' \<noteq> []
         then Some \<lparr>j_from_generation = g, j_from_volume = text_field c ''from_volume'', j_from_schema = text_field c ''from_schema'',
                j_to_volume = text_field c ''to_volume'', j_env_sha256 = text_field c ''env_sha256''\<rparr>
         else None)"

section \<open>The cutover\<close>

definition set_generation :: "int \<Rightarrow> string \<Rightarrow> node_record \<Rightarrow> node_record" where
  "set_generation g schema n = n\<lparr>n_generation := g, n_schema_revision := schema, n_desired_state := WantRunning, n_phase := PhStarting\<rparr>"

definition cutover_forward :: "host \<Rightarrow> node_record \<Rightarrow> string \<Rightarrow> int \<Rightarrow> string \<Rightarrow> node_status prog" where
  "cutover_forward h node candidate_env g schema =
     (let nid = n_node_id node
      in after (write_env nid candidate_env)
         (after (update_node h nid (set_generation g schema))
         (after (compose_up h node)
         (bind (wait_ready h nid) (\<lambda>st.
          after (guard (operational st) ''Candidate generation failed the post-cutover health check'')
          (after (set_phase h nid (st_phase st)) (ret st)))))))"

definition cutover_rollback :: "host \<Rightarrow> node_record \<Rightarrow> string \<Rightarrow> string \<Rightarrow> node_status prog" where
  "cutover_rollback h node original_env e =
     (let nid = n_node_id node
      in after (attempt (compose_stop h node))
         (after (write_env nid original_env)
         (after (update_node h nid (set_generation (n_generation node) (n_schema_revision node)))
         (after (attempt (compose_up h node))
         (bind (catch (bind (wait_ready h nid) (\<lambda>st. ret (Some st))) (\<lambda>_. ret None)) (\<lambda>rollback.
          after (set_phase h nid (case rollback of None \<Rightarrow> PhFailed | Some st \<Rightarrow> st_phase st)) (throw e)))))))"

definition cutover :: "host \<Rightarrow> node_record \<Rightarrow> string \<Rightarrow> int \<Rightarrow> string \<Rightarrow> node_status prog" where
  "cutover h node volume g schema =
     bind (env_file (n_node_id node)) (\<lambda>original.
     bind (from_res (replaceEnv original ''DB_VOLUME_NAME'' volume)) (\<lambda>candidate.
       after (compose_stop h node)
         (catch (cutover_forward h node candidate g schema) (cutover_rollback h node original))))"

definition resumeExistingGeneration :: "host \<Rightarrow> node_record \<Rightarrow> unit prog" where
  "resumeExistingGeneration h node =
     (let nid = n_node_id node
      in if n_desired_state node \<noteq> WantRunning then attempt (set_phase h nid PhStopped)
         else catch (after (compose_up h node) (bind (wait_ready h nid) (\<lambda>st. after (set_phase h nid (st_phase st)) (ret ()))))
           (\<lambda>_. attempt (set_phase h nid PhFailed)))"

section \<open>\<open>restoreApply\<close> and \<open>migrationApply\<close>\<close>

text \<open>
  \<open>try { m } catch (error) { resume; fail }\<close> with the node and the operation the variables hold at that point.  The code
  has one \<open>try\<close>; its handler returns always, so a program inside it whose variables have moved on is one with a handler of
  its own.
\<close>

definition tracked :: "host \<Rightarrow> node_record \<Rightarrow> operation_record \<Rightarrow> operation_record prog \<Rightarrow> operation_record prog" where
  "tracked h latest operation m = catch m (\<lambda>e. after (resumeExistingGeneration h latest) (fail_op h operation e))"

definition same_generation :: "node_record \<Rightarrow> node_record \<Rightarrow> bool" where
  "same_generation latest node = (n_generation latest = n_generation node \<and> n_schema_revision latest = n_schema_revision node)"

text \<open>Maintenance: the writers stopped, the queue of the MCP empty\<close>

definition enter_maintenance :: "host \<Rightarrow> node_record \<Rightarrow> string \<Rightarrow> unit prog" where
  "enter_maintenance h latest blocked =
     after (set_phase h (n_node_id latest) PhMaintenance)
     (after (stop_writers h latest)
     (bind (mcpQueueEmpty h latest) (\<lambda>empty. guard empty blocked)))"

text \<open>The end of both: the candidate is staged in the next unused generation, the cutover is journalled and made.\<close>

definition switch_generation :: "host \<Rightarrow> node_record \<Rightarrow> operation_record \<Rightarrow> backup_manifest \<times> string \<times> string \<Rightarrow>
    verification_mode \<Rightarrow> string \<Rightarrow> fields \<Rightarrow> operation_record prog" where
  "switch_generation h latest operation located mode target result =
     bind (nextUnusedGeneration h latest) (\<lambda>g.
     let volume = volumeName (n_node_id latest) g in
     bind (stageDatabase h latest (snd (snd located)) volume g (fst located) mode target) (\<lambda>actual.
     let schema = or_text (case actual of None \<Rightarrow> [] | Some r \<Rightarrow> r) target in
     bind (journalCutover h operation latest g volume schema) (\<lambda>operation.
     tracked h latest operation
       (bind (cutover h latest volume g schema) (\<lambda>st.
        succeed_op h operation ''verified'' (JObj (result @ [(''active_generation'', JNum (of_int g))])))))))"

definition plan_ok :: "operation_record \<Rightarrow> bool" where
  "plan_ok planned = (op_state planned = OsSucceeded \<and> truthy_opt (result_field planned ''ok''))"

definition plan_error :: "operation_record \<Rightarrow> string" where
  "plan_error planned = or_text (case op_error planned of None \<Rightarrow> [] | Some e \<Rightarrow> e)
     (''Restore plan is blocked: '' @ (case Option.bind (result_field planned ''blockers'') as_array of None \<Rightarrow> ''unknown reason''
        | Some bs \<Rightarrow> or_text (join ''; '' (List.map_filter as_string bs)) ''unknown reason''))"

text \<open>The steps once the backup is found and verified, then all of them\<close>

definition restore_latest :: "host \<Rightarrow> node_record \<Rightarrow> backup_manifest \<times> string \<times> string \<Rightarrow> operation_record \<Rightarrow> node_record \<Rightarrow>
    operation_record prog" where
  "restore_latest h node located operation latest = tracked h latest operation
     (after (guard (same_generation latest node) ''Node generation or schema changed before restore maintenance; retry the restore'')
     (let m = fst located; revision = dm_revision (bm_database m);
          blockers = manifestStructureBlockers m @
            block_if (revision \<noteq> n_schema_revision latest) ''Backup schema does not match the active Node schema'' in
      after (guard (blockers = []) (''Backup cannot be restored: '' @ join ''; '' blockers))
      (after (enter_maintenance h latest ''Restore is blocked while MCP has pending undelivered records'')
      (bind (move_op h operation ''quiesced_snapshot'') (\<lambda>operation. tracked h latest operation
        (bind (snapshotWhileQuiesced h latest ''pre-restore'') (\<lambda>safety.
         bind (move_op h operation ''staging'') (\<lambda>operation. tracked h latest operation
           (switch_generation h latest operation located Exact revision
              [(''backup'', manifest_json m), (''pre_restore_backup'', JStr (bm_backup_id safety)),
               (''previous_generation'', JNum (of_int (n_generation node)))])))))))))"

definition restore_steps :: "host \<Rightarrow> node_record \<Rightarrow> string \<Rightarrow> operation_record \<Rightarrow> operation_record prog" where
  "restore_steps h node backupId operation = tracked h node operation
     (bind (locateBackup h node backupId) (\<lambda>located.
      after (verifyLocatedBackup h node located)
      (bind (find_node (n_node_id node)) (restore_latest h node located operation))))"

definition restoreApply :: "host \<Rightarrow> string \<Rightarrow> string \<Rightarrow> string \<Rightarrow> operation_record prog" where
  "restoreApply h selector backupId confirmation =
     bind (find_node selector) (\<lambda>node. let nid = n_node_id node in
     after (guard (confirmation = nid) ''Restore requires --confirm with the exact Node UUID'')
     (bind (restorePlan h nid backupId) (\<lambda>planned.
      after (guard (plan_ok planned) (plan_error planned))
      (with_lock h nid (bind (begin_op h nid OpRestoreApply ''entering_maintenance'') (restore_steps h node backupId))))))"

definition transactional_migration :: "host \<Rightarrow> node_record \<Rightarrow> operation_record \<Rightarrow> string \<Rightarrow> backup_manifest \<Rightarrow> operation_record prog" where
  "transactional_migration h latest operation target m =
     bind (move_op h operation ''migrating'') (\<lambda>operation. tracked h latest operation
       (after (run_migration h latest target False False)
       (bind (run_migration h latest target True False) (\<lambda>r.
        bind (from_res (parseVerifiedRevision h (cr_stdout r) target)) (\<lambda>revision.
        after (compose_up h latest)
        (bind (wait_ready h (n_node_id latest)) (\<lambda>st.
         after (guard (operational st) ''Node did not become operational after transactional migration'')
         (after (update_node h (n_node_id latest) (\<lambda>n. n\<lparr>n_schema_revision := revision, n_phase := st_phase st\<rparr>))
           (succeed_op h operation ''verified'' (JObj [(''mode'', JStr ''transactional''), (''actual_revision'', JStr revision),
              (''backup_id'', JStr (bm_backup_id m))]))))))))))"

definition staged_migration :: "host \<Rightarrow> node_record \<Rightarrow> operation_record \<Rightarrow> string \<Rightarrow> backup_manifest \<Rightarrow> operation_record prog" where
  "staged_migration h latest operation target m =
     bind (ask (\<lambda>s. h_free h (m_log s))) (\<lambda>free.
     after (guard (required_bytes m \<le> of_int free) ''Migration requires more free bytes than are available'')
     (bind (locateBackup h latest (bm_backup_id m)) (\<lambda>located.
      after (verifyLocatedBackup h latest located)
      (switch_generation h latest operation located Migration target
        [(''mode'', JStr ''new_generation''), (''backup_id'', JStr (bm_backup_id m)),
         (''previous_generation'', JNum (of_int (n_generation latest)))]))))"

definition migration_latest :: "host \<Rightarrow> node_record \<Rightarrow> string \<Rightarrow> string \<Rightarrow> operation_record \<Rightarrow> node_record \<Rightarrow> operation_record prog" where
  "migration_latest h node target requestedMode operation latest = tracked h latest operation
     (after (guard (same_generation latest node) ''Node generation or schema changed before migration maintenance; retry the migration'')
     (after (enter_maintenance h latest ''Migration is blocked while MCP has pending undelivered records'')
     (bind (move_op h operation ''quiesced_snapshot'') (\<lambda>operation. tracked h latest operation
       (bind (snapshotWhileQuiesced h latest ''pre-migrate'') (\<lambda>m.
        after (guard (dm_revision (bm_database m) = n_schema_revision latest)
          ''Pre-migration backup schema does not match the active Node schema'')
        (if requestedMode = ''transactional'' then transactional_migration h latest operation target m
         else staged_migration h latest operation target m)))))))"

definition migration_steps :: "host \<Rightarrow> node_record \<Rightarrow> string \<Rightarrow> string \<Rightarrow> operation_record \<Rightarrow> operation_record prog" where
  "migration_steps h node target requestedMode operation = tracked h node operation
     (bind (find_node (n_node_id node)) (migration_latest h node target requestedMode operation))"

definition migrationApply :: "host \<Rightarrow> string \<Rightarrow> string \<Rightarrow> string \<Rightarrow> string \<Rightarrow> operation_record prog" where
  "migrationApply h selector target confirmation requestedMode =
     bind (find_node selector) (\<lambda>node. let nid = n_node_id node in
     after (guard (confirmation = nid) ''Migration requires --confirm with the exact Node UUID'')
     (after (guard (revision_ok target) ''Invalid target schema revision'')
     (with_lock h nid (bind (begin_op h nid OpMigrateApply ''entering_maintenance'')
       (migration_steps h node target requestedMode)))))"

section \<open>After the manager died\<close>

definition recovery_json :: "host \<Rightarrow> operation_record \<Rightarrow> cutover_journal \<Rightarrow> json" where
  "recovery_json h operation j = JObj (oset ''recovery'' (JObj [(''active_volume'', JStr (j_from_volume j)),
     (''candidate_volume_preserved'', JStr (j_to_volume j)), (''recovery_completed_at'', JStr (h_now h))])
     (case Option.bind (op_result operation) as_object of None \<Rightarrow> [] | Some r \<Rightarrow> r))"

definition generation_back :: "cutover_journal \<Rightarrow> node_record \<Rightarrow> node_record" where
  "generation_back j n = n\<lparr>n_generation := j_from_generation j, n_schema_revision := j_from_schema j,
     n_phase := (if n_desired_state n = WantRunning then PhStarting else PhStopped)\<rparr>"

text \<open>The part that moves the node back, and the part that starts it and closes the operation\<close>

definition move_back :: "host \<Rightarrow> node_record \<Rightarrow> cutover_journal \<Rightarrow> node_record prog" where
  "move_back h node j =
     (let nid = n_node_id node
      in after (attempt (compose_stop h node))
         (bind (env_file nid) (\<lambda>current.
         bind (from_res (replaceEnv current ''DB_VOLUME_NAME'' (j_from_volume j))) (\<lambda>rolled.
          after (guard (h_sha h rolled = j_env_sha256 j)
            ''Runtime environment changed after cutover preparation; automatic rollback refused'')
          (after (write_env nid rolled) (update_node h nid (generation_back j)))))))"

definition finish_recovery :: "host \<Rightarrow> operation_record \<Rightarrow> cutover_journal \<Rightarrow> node_record \<Rightarrow> unit prog" where
  "finish_recovery h operation j rolledBack =
     after (when_do (n_desired_state rolledBack = WantRunning)
         (after (compose_up h rolledBack)
         (bind (wait_ready h (n_node_id rolledBack)) (\<lambda>st.
          after (guard (operational st) (''Rolled-back Node is '' @ phase_name (st_phase st)))
          (after (set_phase h (n_node_id rolledBack) (st_phase st)) (ret ()))))))
       (after (update_op h operation (\<lambda>o1. o1\<lparr>op_state := OsRecovered, op_phase := ''rolled_back_after_manager_restart'',
          op_completed_at := Some (h_now h), op_result := Some (recovery_json h operation j)\<rparr>)) (ret ()))"

definition found_cutover :: "store \<Rightarrow> string \<Rightarrow> operation_record option" where
  "found_cutover st nid = List.find interrupted_cutover (rev (operations_of st nid))"

definition reconcile_cutover :: "host \<Rightarrow> node_record \<Rightarrow> unit prog" where
  "reconcile_cutover h node =
     bind (ask (\<lambda>s. found_cutover (m_store s) (n_node_id node))) (\<lambda>interrupted.
       case interrupted of
         None \<Rightarrow> ret ()
       | Some operation \<Rightarrow> (case journal_of operation of
           None \<Rightarrow> ret ()
         | Some j \<Rightarrow> catch (bind (move_back h node j) (finish_recovery h operation j))
             (\<lambda>_. after (set_phase h (n_node_id node) PhFailed) (ret ()))))"

definition list_nodes :: "node_record list prog" where
  "list_nodes = bind (bind (ask (\<lambda>s. read_registry (m_store s))) from_res) (\<lambda>registry. ret (reg_nodes registry))"

definition reconcileInterruptedCutovers :: "host \<Rightarrow> unit prog" where
  "reconcileInterruptedCutovers h = bind list_nodes (each (reconcile_cutover h))"

section \<open>Interrupted changes of models\<close>

definition interrupted_models :: "operation_record \<Rightarrow> bool" where
  "interrupted_models operation = (op_kind operation = OpModelsConfigure \<and> op_state operation = OsNeedsAttention \<and>
     op_phase operation \<in> {''manager_restarted'', ''model_recovery_restarting'', ''model_recovery_failed''})"

definition modelRecoveryResult :: "host \<Rightarrow> json option \<Rightarrow> bool \<Rightarrow> json" where
  "modelRecoveryResult h existing restarted = JObj (oset ''recovery''
     (JObj [(''runtime_source'', JStr ''saved_node_environment''), (''restarted'', JBool restarted),
        (''recovery_completed_at'', JStr (h_now h))])
     (case Option.bind existing as_object of None \<Rightarrow> [] | Some r \<Rightarrow> r))"

definition recovered_op :: "host \<Rightarrow> operation_record \<Rightarrow> string \<Rightarrow> bool \<Rightarrow> unit prog" where
  "recovered_op h recovering phase restarted = after (update_op h recovering (\<lambda>o1. o1\<lparr>op_state := OsRecovered, op_phase := phase,
     op_completed_at := Some (h_now h), op_error := None,
     op_result := Some (modelRecoveryResult h (op_result recovering) restarted)\<rparr>)) (ret ())"

definition recover_models :: "host \<Rightarrow> node_record \<Rightarrow> operation_record \<Rightarrow> unit prog" where
  "recover_models h latest recovering =
     (let nid = n_node_id latest
      in after (node_env nid)
         (if n_desired_state latest = WantStopped
          then after (set_phase h nid PhStopped) (recovered_op h recovering ''model_configuration_saved_for_next_start'' False)
          else after (compose_stop h latest) (after (compose_up h latest)
            (bind (wait_ready h nid) (\<lambda>st.
             after (guard (operational st) ''Recovered model runtime did not become operational'')
             (after (set_phase h nid (st_phase st))
               (recovered_op h recovering ''model_runtime_synced_after_manager_restart'' True)))))))"

definition reconcile_models :: "host \<Rightarrow> node_record \<Rightarrow> unit prog" where
  "reconcile_models h node =
     (let nid = n_node_id node
      in bind (ask (\<lambda>s. List.find interrupted_models (rev (operations_of (m_store s) nid)))) (\<lambda>interrupted.
         case interrupted of
           None \<Rightarrow> ret ()
         | Some operation \<Rightarrow> with_lock h nid
             (bind (find_node nid) (\<lambda>latest.
              bind (update_op h operation (\<lambda>o1. o1\<lparr>op_state := OsNeedsAttention, op_phase := ''model_recovery_restarting'',
                  op_completed_at := None,
                  op_error := Some ''The Node Manager is synchronizing the runtime with the saved model configuration''\<rparr>)) (\<lambda>recovering.
              catch (recover_models h latest recovering)
                (\<lambda>_. after (attempt (set_phase h nid PhFailed))
                  (after (update_op h recovering (\<lambda>o1. o1\<lparr>op_state := OsNeedsAttention, op_phase := ''model_recovery_failed'',
                     op_completed_at := Some (h_now h),
                     op_error := Some ''Model configuration recovery failed; restart the Node Manager to retry''\<rparr>))
                   (ret ()))))))))"

definition reconcileInterruptedModelConfigurations :: "host \<Rightarrow> unit prog" where
  "reconcileInterruptedModelConfigurations h = bind list_nodes (each (reconcile_models h))"

text \<open>\<open>initialize\<close>; the records of the operations that were running are changed in one step.\<close>

definition initialize_nodes :: "host \<Rightarrow> bool \<Rightarrow> unit prog" where
  "initialize_nodes h recoverInterrupted =
     after (store_op (\<lambda>st. (Inr (), initialize_store st)))
       (when_do recoverInterrupted
         (after (store_op (recoverInterruptedOperations (h_alive h) (h_now h)))
           (after (reconcileInterruptedModelConfigurations h) (reconcileInterruptedCutovers h))))"

end
