(* ===== verification/NodeLogic.thy ===== *)
theory NodeLogic
  imports NodeCutover ManagerStateProps
begin

text \<open>
  Reasoning about the programs of \<open>NodeRun\<close>: what every step of a program maintains, the death of the process before
  any of them included, and triples with a condition for each outcome.  The locale \<open>harmless\<close> names what a condition has
  to survive so that all the reading, starting, stopping and staging of a node maintains it.
\<close>

section \<open>What a program maintains\<close>

named_theorems maintained

definition maintains :: "(mgr \<Rightarrow> bool) \<Rightarrow> 'a prog \<Rightarrow> bool" where
  "maintains P m \<longleftrightarrow> (\<forall>s. P s \<longrightarrow> P (snd (m s)))"

lemma maintainsD: "maintains P m \<Longrightarrow> P s \<Longrightarrow> m s = (r, s') \<Longrightarrow> P s'"
  by (metis maintains_def snd_conv)

lemma maintains_ret [maintained]: "maintains P (ret x)"
  by (simp add: maintains_def ret_def)

lemma maintains_throw [maintained]: "maintains P (throw e)"
  by (simp add: maintains_def throw_def)

lemma maintains_ask [maintained]: "maintains P (ask f)"
  by (simp add: maintains_def ask_def)

lemma maintains_bind [maintained]: "maintains P m \<Longrightarrow> (\<And>x. maintains P (f x)) \<Longrightarrow> maintains P (bind m f)"
  by (auto simp: maintains_def bind_def split: outcome.splits prod.splits)

lemma maintains_after [maintained]: "maintains P m \<Longrightarrow> maintains P n \<Longrightarrow> maintains P (after m n)"
  by (simp add: after_def maintains_bind)

lemma maintains_catch [maintained]: "maintains P m \<Longrightarrow> (\<And>e. maintains P (f e)) \<Longrightarrow> maintains P (catch m f)"
  by (auto simp: maintains_def catch_def split: outcome.splits prod.splits)

lemma maintains_finally [maintained]: "maintains P m \<Longrightarrow> maintains P n \<Longrightarrow> maintains P (finally_do m n)"
proof -
  have n: "P (snd (after n k s))" if "maintains P n" "maintains P k" "P s" for n :: "unit prog" and k :: "'a prog" and s
    using maintains_after [OF that(1,2)] that(3) by (simp add: maintains_def)
  assume m: "maintains P m" "maintains P n"
  show ?thesis
    unfolding maintains_def
  proof (intro allI impI)
    fix s assume "P s"
    obtain r s' where r: "m s = (r, s')" by fastforce
    then have "P s'" using m(1) \<open>P s\<close> by (rule_tac maintainsD)
    then show "P (snd (finally_do m n s))"
      using r n [OF m(2) maintains_ret] n [OF m(2) maintains_throw] by (cases r) (simp_all add: finally_do_def)
  qed
qed

lemma maintains_attempt [maintained]: "maintains P m \<Longrightarrow> maintains P (attempt m)"
  by (simp add: attempt_def maintained)

lemma maintains_from_res [maintained]: "maintains P (from_res r)"
  by (cases r) (simp_all add: from_res_def maintained)

lemma maintains_guard [maintained]: "maintains P (guard b e)"
  by (simp add: guard_def maintained)

lemma maintains_when [maintained]: "maintains P m \<Longrightarrow> maintains P (when_do b m)"
  by (simp add: when_do_def maintained)

lemma maintains_each [maintained]: "(\<And>x. maintains P (f x)) \<Longrightarrow> maintains P (each f xs)"
  by (induction xs) (simp_all add: maintained)

lemma maintains_if [maintained]: "maintains P m \<Longrightarrow> maintains P n \<Longrightarrow> maintains P (if b then m else n)"
  by simp

lemma maintains_option [maintained]: "maintains P m \<Longrightarrow> (\<And>x. maintains P (f x)) \<Longrightarrow> maintains P (case v of None \<Rightarrow> m | Some x \<Rightarrow> f x)"
  by (simp split: option.split)

lemma maintains_pair [maintained]: "(\<And>x y. maintains P (f x y)) \<Longrightarrow> maintains P (case p of (x, y) \<Rightarrow> f x y)"
  by (simp split: prod.split)

lemma maintains_step: "(\<And>s n. P s \<Longrightarrow> P (snd (f (s\<lparr>m_left := n\<rparr>)))) \<Longrightarrow> maintains P (step f)"
  by (simp add: maintains_def step_def split: nat.split)

section \<open>Triples\<close>

text \<open>From a state in \<open>P\<close>, the program returns in \<open>Q\<close>, throws in \<open>E\<close> or is left dead in \<open>D\<close>.\<close>

definition triple :: "(mgr \<Rightarrow> bool) \<Rightarrow> 'a prog \<Rightarrow> ('a \<Rightarrow> mgr \<Rightarrow> bool) \<Rightarrow> (mgr \<Rightarrow> bool) \<Rightarrow> (mgr \<Rightarrow> bool) \<Rightarrow> bool" where
  "triple P m Q E D \<longleftrightarrow> (\<forall>s. P s \<longrightarrow> (case m s of (Ret x, s') \<Rightarrow> Q x s' | (Throw e, s') \<Rightarrow> E s' | (Dead, s') \<Rightarrow> D s'))"

lemma tripleD:
  assumes "triple P m Q E D" and "P s"
  shows "m s = (Ret x, s') \<Longrightarrow> Q x s'" "m s = (Throw e, s') \<Longrightarrow> E s'" "m s = (Dead, s') \<Longrightarrow> D s'"
  using assms by (auto simp: triple_def split: outcome.splits prod.splits)

lemma triple_weaken:
  assumes "triple P' m Q' E' D'" and "\<And>s. P s \<Longrightarrow> P' s" and "\<And>x s. Q' x s \<Longrightarrow> Q x s"
    and "\<And>s. E' s \<Longrightarrow> E s" and "\<And>s. D' s \<Longrightarrow> D s"
  shows "triple P m Q E D"
  unfolding triple_def
proof (intro allI impI)
  fix s assume "P s"
  then have "P' s" by (rule assms(2))
  note d = tripleD [OF assms(1) this]
  show "case m s of (Ret x, s') \<Rightarrow> Q x s' | (Throw e, s') \<Rightarrow> E s' | (Dead, s') \<Rightarrow> D s'"
    using d assms(3,4,5) by (cases "m s") (auto split: outcome.splits)
qed

lemma triple_bind:
  assumes "triple P m R E D" and "\<And>x. triple (R x) (f x) Q E D"
  shows "triple P (bind m f) Q E D"
  unfolding triple_def
proof (intro allI impI)
  fix s assume "P s"
  note d = tripleD [OF assms(1) this]
  show "case bind m f s of (Ret x, s') \<Rightarrow> Q x s' | (Throw e, s') \<Rightarrow> E s' | (Dead, s') \<Rightarrow> D s'"
  proof (cases "m s")
    case (Pair r s')
    then show ?thesis using d assms(2) by (cases r) (auto simp: bind_def triple_def)
  qed
qed

lemma triple_after: "triple P m (\<lambda>_. R) E D \<Longrightarrow> triple R n Q E D \<Longrightarrow> triple P (after m n) Q E D"
  unfolding after_def by (rule triple_bind)

text \<open>A first part that maintains the condition\<close>

lemma triple_first:
  assumes "maintains P m" and "\<And>x. triple P (f x) Q E D" and "\<And>s. P s \<Longrightarrow> E s" and "\<And>s. P s \<Longrightarrow> D s"
  shows "triple P (bind m f) Q E D"
proof (rule triple_bind [OF _ assms(2)])
  show "triple P m (\<lambda>_. P) E D"
    using assms(1,3,4) unfolding triple_def by (auto dest: maintainsD split: outcome.splits prod.splits)
qed

lemma triple_first_after:
  assumes "maintains P m" and "triple P n Q E D" and "\<And>s. P s \<Longrightarrow> E s" and "\<And>s. P s \<Longrightarrow> D s"
  shows "triple P (after m n) Q E D"
  unfolding after_def by (rule triple_first [OF assms(1)]) (use assms in blast)+

lemma triple_guarded: "(b \<Longrightarrow> triple P n Q E D) \<Longrightarrow> (\<And>s. P s \<Longrightarrow> E s) \<Longrightarrow> triple P (after (guard b e) n) Q E D"
  by (cases b) (auto simp: triple_def guard_def after_def bind_def ret_def throw_def)

lemma triple_catch:
  assumes "triple P m Q R D" and "\<And>e. triple R (f e) Q E D"
  shows "triple P (catch m f) Q E D"
  unfolding triple_def
proof (intro allI impI)
  fix s assume "P s"
  note d = tripleD [OF assms(1) this]
  show "case catch m f s of (Ret x, s') \<Rightarrow> Q x s' | (Throw e, s') \<Rightarrow> E s' | (Dead, s') \<Rightarrow> D s'"
  proof (cases "m s")
    case (Pair r s')
    then show ?thesis using d assms(2) by (cases r) (auto simp: catch_def triple_def)
  qed
qed

lemma triple_ret: "(\<And>s. P s \<Longrightarrow> Q x s) \<Longrightarrow> triple P (ret x) Q E D"
  by (simp add: triple_def ret_def)

lemma triple_throw: "(\<And>s. P s \<Longrightarrow> E s) \<Longrightarrow> triple P (throw e) Q E D"
  by (simp add: triple_def throw_def)

lemma triple_ask: "triple P (ask f) (\<lambda>x s. P s \<and> x = f s) E D"
  by (simp add: triple_def ask_def)

lemma triple_asked: "(\<And>x. triple P (f x) Q E D) \<Longrightarrow> triple P (bind (ask g) f) Q E D"
  by (simp add: triple_def bind_def ask_def)

lemma triple_from_res: "(\<And>s e. P s \<Longrightarrow> r = Inl e \<Longrightarrow> E s) \<Longrightarrow> triple P (from_res r) (\<lambda>x s. P s \<and> r = Inr x) E D"
  by (cases r) (auto simp: triple_def from_res_def ret_def throw_def)

lemma triple_guard: "(\<And>s. P s \<Longrightarrow> \<not> b \<Longrightarrow> E s) \<Longrightarrow> triple P (guard b e) (\<lambda>_ s. P s \<and> b) E D"
  by (auto simp: triple_def guard_def ret_def throw_def)

lemma triple_step:
  assumes "\<And>s. P s \<Longrightarrow> D s"
    and "\<And>s n. P s \<Longrightarrow> (case f (s\<lparr>m_left := n\<rparr>) of (Ret x, s') \<Rightarrow> Q x s' | (Throw e, s') \<Rightarrow> E s' | (Dead, s') \<Rightarrow> D s')"
  shows "triple P (step f) Q E D"
  using assms by (simp add: triple_def step_def split: nat.split)

lemma triple_maintains: "maintains P m \<Longrightarrow> triple P m (\<lambda>_. P) P P"
  by (auto simp: triple_def dest: maintainsD split: outcome.splits prod.splits)

lemma triple_pure: "(b \<Longrightarrow> triple P m Q E D) \<Longrightarrow> triple (\<lambda>s. P s \<and> b) m Q E D"
  by (auto simp: triple_def)

lemma triple_ex: "(\<And>y. triple (P y) m Q E D) \<Longrightarrow> triple (\<lambda>s. \<exists>y. P y s) m Q E D"
  unfolding triple_def by (intro allI impI, elim exE) simp

lemma triple_or: "triple P m Q E D \<Longrightarrow> triple P' m Q E D \<Longrightarrow> triple (\<lambda>s. P s \<or> P' s) m Q E D"
  by (simp add: triple_def)

text \<open>What is caught, the condition maintained, does not throw.\<close>

lemma triple_attempt: "maintains P m \<Longrightarrow> triple P (attempt m) (\<lambda>_. P) E P"
  unfolding attempt_def
  by (rule triple_catch [where R = P], rule triple_first_after) (auto intro: triple_ret)

lemma triple_default: "maintains P m \<Longrightarrow> triple P (catch (bind m (\<lambda>x. ret (f x))) (\<lambda>_. ret y)) (\<lambda>_. P) E P"
  by (rule triple_catch [where R = P], rule triple_first) (auto intro: triple_ret)

text \<open>A condition that the lock does not matter to\<close>

definition lock_free :: "(mgr \<Rightarrow> bool) \<Rightarrow> bool" where
  "lock_free P \<longleftrightarrow> (\<forall>s n os. P s \<longrightarrow> P (s\<lparr>m_left := n\<rparr>) \<and> P (s\<lparr>m_left := n, m_store := (m_store s)\<lparr>s_owners := os\<rparr>\<rparr>))"

lemma triple_finally:
  assumes "triple P m Q E D" and "\<And>x. triple (Q x) n (\<lambda>_. Q x) (\<lambda>_. False) D" and "triple E n (\<lambda>_. E) (\<lambda>_. False) D"
  shows "triple P (finally_do m n) Q E D"
proof -
  have r: "triple (Q x) (after n (ret x)) Q E D" for x
    by (rule triple_after [where R = "Q x"], rule triple_weaken [OF assms(2) [of x]]) (auto intro: triple_ret)
  have t: "triple E (after n (throw e)) Q E D" for e
    by (rule triple_after [where R = E], rule triple_weaken [OF assms(3)]) (auto intro: triple_throw)
  show ?thesis
    unfolding triple_def
  proof (intro allI impI)
    fix s assume "P s"
    note d = tripleD [OF assms(1) this]
    show "case finally_do m n s of (Ret x, s') \<Rightarrow> Q x s' | (Throw e, s') \<Rightarrow> E s' | (Dead, s') \<Rightarrow> D s'"
    proof (cases "m s")
      case (Pair o1 s')
      then show ?thesis using d r t by (cases o1) (auto simp: finally_do_def triple_def)
    qed
  qed
qed

lemma triple_lock:
  assumes "triple P m Q E D" and "lock_free P" "\<And>x. lock_free (Q x)" "lock_free E"
    and "\<And>s. P s \<Longrightarrow> D s" "\<And>x s. Q x s \<Longrightarrow> D s" "\<And>s. E s \<Longrightarrow> D s" "\<And>s. P s \<Longrightarrow> E s"
  shows "triple P (with_lock h nid m) Q E D"
proof -
  have u: "triple F (step (\<lambda>s. (Ret (), s\<lparr>m_store := (m_store s)\<lparr>s_owners := f s\<rparr>\<rparr>))) (\<lambda>_. F) (\<lambda>_. False) D"
    if "lock_free F" "\<And>s. F s \<Longrightarrow> D s" for F f
    by (rule triple_step) (use that in \<open>auto simp: lock_free_def\<close>)
  show ?thesis
    unfolding with_lock_def
  proof (rule triple_after)
    show "triple P (finally_do m (step (\<lambda>s. (Ret (), s\<lparr>m_store := (m_store s)\<lparr>s_owners := odel nid (s_owners (m_store s))\<rparr>\<rparr>)))) Q E D"
      by (rule triple_finally [OF assms(1)]; rule u; rule assms; assumption?)
  qed (rule triple_step, use assms(2,5,8) in \<open>auto simp: lock_free_def\<close>)
qed

lemma triple_fact: "(b \<Longrightarrow> triple P m Q E D) \<Longrightarrow> triple (\<lambda>s. b \<and> P s) m Q E D"
  by (auto simp: triple_def)

lemma triple_keep:
  assumes "triple P m Q E D" and "maintains F m"
  shows "triple (\<lambda>s. P s \<and> F s) m (\<lambda>x s. Q x s \<and> F s) (\<lambda>s. E s \<and> F s) (\<lambda>s. D s \<and> F s)"
  using assms by (fastforce simp: triple_def dest: maintainsD split: outcome.splits prod.splits)

lemma maintains_triple:
  assumes "triple P m (\<lambda>_. P) P P"
  shows "maintains P m"
  unfolding maintains_def
proof (intro allI impI)
  fix s assume "P s"
  with tripleD [OF assms this] show "P (snd (m s))" by (cases "m s"; cases "fst (m s)") auto
qed

section \<open>Conditions that steps maintain\<close>

text \<open>The command that removes a volume\<close>

definition removes_volume :: "act \<Rightarrow> bool" where
  "removes_volume a = (case a of Docker args \<Rightarrow> take 2 args = [''volume'', ''rm''] | _ \<Rightarrow> False)"

lemma removes_volume_simps [simp]:
  "\<not> removes_volume (Compose project args)" "\<not> removes_volume (Get url token)" "\<not> removes_volume (Fed content a)"
  "\<not> removes_volume (Post url token content)" "\<not> removes_volume (Codex model content)"
  "removes_volume (Docker args) \<longleftrightarrow> take 2 args = [''volume'', ''rm'']"
  by (simp_all add: removes_volume_def)

text \<open>
  A condition that survives commands other than the removal of a volume, and changes of a node's phase: reading, starting
  and stopping a node maintains it.
\<close>

locale harmless =
  fixes P :: "mgr \<Rightarrow> bool"
  assumes left: "P s \<Longrightarrow> P (s\<lparr>m_left := n\<rparr>)"
    and said: "P s \<Longrightarrow> \<not> removes_volume a \<Longrightarrow> P (s\<lparr>m_log := m_log s @ [a]\<rparr>)"
    and phase: "P s \<Longrightarrow> updateNode nid (\<lambda>n. n\<lparr>n_phase := p\<rparr>) now (m_store s) = (r, st) \<Longrightarrow> P (s\<lparr>m_store := st\<rparr>)"
begin

lemma performed: "\<not> removes_volume a \<Longrightarrow> maintains P (perform_act h b a)"
  unfolding perform_act_def Let_def by (rule maintains_step) (use said [OF left, simplified] in auto)

lemma docker: "take 2 args \<noteq> [''volume'', ''rm''] \<Longrightarrow> maintains P (docker_cmd h b args)"
  by (simp add: docker_cmd_def performed)

lemma composed: "maintains P (compose_cmd h node b args)"
  by (simp add: compose_cmd_def performed)

lemma phase_set: "maintains P (set_phase h nid p)"
  unfolding set_phase_def update_node_def store_op_def
  by (rule maintains_step) (auto split: prod.splits sum.splits intro: phase dest: left)

lemmas node_commands = composed phase_set

lemma compose_kept: "maintains P (compose_up h node)" "maintains P (compose_stop h node)" "maintains P (stop_writers h node)"
    "maintains P (compose_down h node)"
  by (simp_all add: compose_up_def compose_stop_def stop_writers_def compose_down_def maintained node_commands)

lemma files_read: "maintains P (node_env nid)" "maintains P (env_file nid)" "maintains P (find_node nid)"
    "maintains P (validate_identity node)"
  by (simp_all add: node_env_def env_file_def find_node_def validate_identity_def maintained)

lemma migration: "maintains P (run_migration h node target verify fail)"
  by (simp add: run_migration_def maintained node_commands)

lemma probe: "maintains P (probe_ready h node)"
proof -
  have "maintains P (step (\<lambda>s. (Ret (g s), s\<lparr>m_log := m_log s @ [Get url token]\<rparr>)))" for g :: "mgr \<Rightarrow> readiness" and url token
    by (rule maintains_step) (use said [OF left, simplified] in auto)
  then show ?thesis by (simp add: probe_ready_def maintained Let_def)
qed

lemma phase_synced: "maintains P (sync_phase h node p)"
  by (simp add: sync_phase_def maintained node_commands)

lemmas node_rules = node_commands compose_kept files_read migration probe phase_synced docker

lemma status_kept: "maintains P (status h selector)"
  by (simp add: status_def ps_def Let_def maintained node_rules)

lemma polled: "maintains P (poll_status h nid n st)"
  by (induction n arbitrary: st) (simp_all add: maintained status_kept)

lemma waited: "maintains P (wait_ready h nid)"
  by (simp add: wait_ready_def maintained status_kept polled)

lemma resumed: "maintains P (resumeExistingGeneration h node)"
  by (simp add: resumeExistingGeneration_def Let_def maintained node_rules waited)

lemma volumes: "maintains P (volume_exists h v)" "maintains P (create_volume h v)" "maintains P (list_node_volumes h nid)"
  by (simp_all add: volume_exists_def create_volume_def list_node_volumes_def Let_def maintained node_rules)

lemma images: "maintains P (ensure_images h digest contexts node)"
proof -
  have "maintains P (ensure_image h d dir name img)" for d dir name img
    by (simp add: ensure_image_def maintained node_rules)
  then show ?thesis by (auto simp: ensure_images_def intro!: maintained node_rules)
qed

lemma manifest: "maintains P (databaseManifest h node)"
  by (simp add: databaseManifest_def maintained node_rules)

lemma dumped: "maintains P (pgDump h node)" "maintains P (verifyDump h node archive)"
  by (simp_all add: pgDump_def verifyDump_def maintained node_rules performed)

lemma queue: "maintains P (mcpQueueEmpty h node)"
  by (simp add: mcpQueueEmpty_def Let_def maintained node_rules volumes)

lemma located: "maintains P (locateBackup h node b)" "maintains P (verifyLocatedBackup h node l)"
  by (simp_all add: locateBackup_def verifyLocatedBackup_def maintained dumped)

lemma searched: "maintains P (search_generation h nid g)"
proof -
  have "P s \<Longrightarrow> P (snd (search_generation h nid g s))" for s
  proof (induction h nid g s rule: search_generation.induct)
    case (1 h nid g s)
    have v: "P (snd (volume_exists h (volumeName nid g) s))" using 1(2) volumes(1) by (simp add: maintains_def)
    show ?case
    proof (cases "volume_exists h (volumeName nid g) s")
      case (Pair r s')
      then show ?thesis using 1(1) v
        by (subst search_generation.simps) (auto split: outcome.splits bool.splits)
    qed
  qed
  then show ?thesis by (simp add: maintains_def)
qed

lemma next_generation: "maintains P (nextUnusedGeneration h node)"
  by (simp add: nextUnusedGeneration_def searched)

lemma polled_database: "maintains P (poll_database h container env n)"
  by (induction n) (simp_all add: maintained docker)

lemma maintenance: "maintains P (enter_maintenance h latest blocked)"
  by (simp add: enter_maintenance_def maintained node_rules queue)

lemmas quiet_rules = node_rules status_kept waited resumed volumes images manifest dumped queue located next_generation maintenance

end

text \<open>One that the temporary files, the backups and the owners of locks do not matter to either\<close>

locale quiet = harmless +
  assumes secret: "P s \<Longrightarrow> P (s\<lparr>m_secret_files := fs\<rparr>)"
    and archived: "P s \<Longrightarrow> P (s\<lparr>m_backups := bs\<rparr>)"
    and owned: "P s \<Longrightarrow> P (s\<lparr>m_store := (m_store s)\<lparr>s_owners := os\<rparr>\<rparr>)"
begin

lemma secrets: "maintains P (write_secret_file name content)" "maintains P (remove_secret_file name)"
  unfolding write_secret_file_def remove_secret_file_def
  by (rule maintains_step; use secret [OF left, simplified] in auto)+

lemma backups_changed: "maintains P (write_backup nid entry d)" "maintains P (remove_backup nid entry)" "maintains P (rename_backup nid old new)"
  unfolding write_backup_def remove_backup_def rename_backup_def
  by (rule maintains_step; use archived [OF left, simplified] left in \<open>auto split: option.splits\<close>)+

lemma locked: "maintains P m \<Longrightarrow> maintains P (with_lock h nid m)"
proof -
  have "maintains P (step (\<lambda>s. if c s then (Throw (e s), s) else (Ret (), s\<lparr>m_store := (m_store s)\<lparr>s_owners := f s\<rparr>\<rparr>)))"
    for c e f by (rule maintains_step) (use left owned [OF left, simplified] in auto)
  moreover have "maintains P (step (\<lambda>s. (Ret (), s\<lparr>m_store := (m_store s)\<lparr>s_owners := f s\<rparr>\<rparr>)))" for f
    by (rule maintains_step) (use owned [OF left, simplified] in auto)
  ultimately show "maintains P m \<Longrightarrow> maintains P (with_lock h nid m)" by (simp add: with_lock_def maintained)
qed

lemma staged: "maintains P (stageDatabase h node archive volume g expected mode target)"
proof -
  have "maintains P (stage_migration h node env container g target)" for env container
    by (simp add: stage_migration_def Let_def maintained docker secrets)
  then have "maintains P (stage_checked h node env archive container path volume g expected mode target)" for env container path
    by (simp add: stage_checked_def Let_def maintained docker performed polled_database)
  then show ?thesis
    by (simp add: stageDatabase_def Let_def maintained node_rules volumes secrets)
qed

lemma snapshot: "maintains P (take_snapshot h node safe changed)" "maintains P (snapshotWhileQuiesced h node label)"
  by (simp_all add: take_snapshot_def snapshotWhileQuiesced_def Let_def maintained manifest dumped backups_changed)

lemmas all_rules = quiet_rules staged backups_changed snapshot

end

end
