(* ===== verification/NodeView.thy ===== *)
theory NodeView
  imports NodeLogic NodeEnvProps
begin

text \<open>
  What matters of a node's state for a cutover: the generation and schema the registry has, its \<open>.env\<close> file, and the
  operations that are not finished and carry a cutover's journal; and which steps keep it.
\<close>

section \<open>The store\<close>

definition node_of :: "store \<Rightarrow> string \<Rightarrow> node_record option" where
  "node_of st nid = List.find (\<lambda>n. n_node_id n = nid) (reg_nodes (stored_registry st))"

lemma node_of_id: "node_of st nid = Some n \<Longrightarrow> n_node_id n = nid"
  by (simp add: node_of_def find_Some_iff) blast

lemma node_of_listed: "node_of st nid = Some n \<Longrightarrow> nid \<in> n_node_id ` set (reg_nodes (stored_registry st))"
  by (auto simp: node_of_def find_Some_iff)

text \<open>A change that leaves a node its names\<close>

definition keeps_names :: "(node_record \<Rightarrow> node_record) \<Rightarrow> bool" where
  "keeps_names f \<longleftrightarrow> (\<forall>n. n_node_id (f n) = n_node_id n \<and> n_alias (f n) = n_alias n \<and> n_compose_project (f n) = n_compose_project n)"

lemma keeps_names_phase [simp]: "keeps_names (\<lambda>n. n\<lparr>n_phase := p\<rparr>)"
  by (simp add: keeps_names_def)

lemma keeps_names_generation [simp]: "keeps_names (set_generation g schema)" "keeps_names (generation_back j)"
  by (simp_all add: keeps_names_def set_generation_def generation_back_def)

lemma update_node_in_map:
  assumes "distinct (map n_node_id ns)" and "keeps_names f"
  shows "update_node_in nid f ns = (case List.find (\<lambda>n. n_node_id n = nid) ns of
      None \<Rightarrow> None | Some n \<Rightarrow> Some (f n, map (\<lambda>n. if n_node_id n = nid then f n else n) ns))"
  using assms(1)
proof (induction ns)
  case (Cons m ns)
  show ?case
  proof (cases "n_node_id m = nid")
    case True
    then have "map (\<lambda>n. if n_node_id n = nid then f n else n) ns = ns" using Cons.prems by (intro map_idI) (auto, metis imageI)
    then show ?thesis using True by simp
  next
    case False
    then show ?thesis using Cons by (auto split: option.splits)
  qed
qed simp

definition names_of :: "store \<Rightarrow> (string \<times> string) list" where
  "names_of st = map (\<lambda>n. (n_node_id n, n_alias n)) (reg_nodes (stored_registry st))"

lemma find_mapped:
  assumes "keeps_names f"
  shows "List.find (\<lambda>n. n_node_id n = m) (map (\<lambda>n. if n_node_id n = nid then f n else n) ns) =
    (if m = nid then map_option f (List.find (\<lambda>n. n_node_id n = m) ns) else List.find (\<lambda>n. n_node_id n = m) ns)"
  using assms by (induction ns) (auto simp: keeps_names_def)

lemma stamped_names: "keeps_names f \<Longrightarrow> keeps_names (stamped now f)"
  by (simp add: keeps_names_def stamped_def)

lemma registry_ok_names:
  assumes "map n_node_id ns = map n_node_id (reg_nodes reg)" and "map n_alias ns = map n_alias (reg_nodes reg)"
    and "map n_compose_project ns = map n_compose_project (reg_nodes reg)" and "registry_ok reg"
  shows "registry_ok (reg\<lparr>reg_nodes := ns\<rparr>)"
proof -
  have p: "(\<forall>n \<in> set ns. n_compose_project n = expected_project (n_node_id n)) \<longleftrightarrow>
      map n_compose_project ns = map expected_project (map n_node_id ns)" for ns by (induction ns) auto
  have i: "n_node_id ` set ns = n_node_id ` set (reg_nodes reg)" using assms(1) by (metis list.set_map)
  show ?thesis using assms(4) unfolding registry_ok_def p by (simp add: assms(1-3) i del: map_map) metis
qed

lemma registry_ok_mapped:
  assumes "registry_ok reg" and "keeps_names f"
  shows "registry_ok (reg\<lparr>reg_nodes := map (\<lambda>n. if n_node_id n = nid then f n else n) (reg_nodes reg)\<rparr>)"
  by (rule registry_ok_names [OF _ _ _ assms(1)]) (use assms(2) in \<open>auto simp: keeps_names_def\<close>)

lemma stored_snapshot [simp]: "stored_registry (st\<lparr>s_registry := Some reg, s_snapshots := ss\<rparr>) = reg"
  by (simp add: stored_registry_def)

lemma updateNode_effect:
  assumes "registry_ok (stored_registry st)" and "keeps_names f" and "updateNode nid f now st = (r, st')"
  shows "registry_ok (stored_registry st')" and "s_operations st' = s_operations st" and "s_owners st' = s_owners st"
    and "node_of st' m = (if m = nid then map_option (stamped now f) (node_of st m) else node_of st m)"
    and "r = (case node_of st nid of None \<Rightarrow> Inl (''Unknown Neuromem Node: '' @ nid) | Some n \<Rightarrow> Inr (stamped now f n))"
    and "names_of st' = names_of st"
proof -
  let ?g = "\<lambda>n. if n_node_id n = nid then stamped now f n else n" and ?reg = "stored_registry st"
  note k = stamped_names [OF assms(2), of now]
  have d: "distinct (map n_node_id (reg_nodes ?reg))" using assms(1) by (simp add: registry_ok_def)
  note ok = registry_ok_mapped [OF assms(1) k, of nid]
  have m: "update_mutation nid (stamped now f) ?reg = (case node_of st nid of None \<Rightarrow> Inl (''Unknown Neuromem Node: '' @ nid)
      | Some n \<Rightarrow> Inr (stamped now f n, ?reg\<lparr>reg_nodes := map ?g (reg_nodes ?reg)\<rparr>))"
    by (simp add: update_mutation_def update_node_in_map [OF d k] node_of_def split: option.split)
  have s: "read_registry (initialize_store st) = Inr ?reg" using assms(1) by (simp add: read_registry_Inr)
  have v: "rbind (validateRegistry (?reg\<lparr>reg_nodes := map ?g (reg_nodes ?reg)\<rparr>)) k' = k' ()" for k'
    using validateRegistry_iff [THEN iffD2, OF ok, of "()"] by simp
  have "r = (case node_of st nid of None \<Rightarrow> Inl (''Unknown Neuromem Node: '' @ nid) | Some n \<Rightarrow> Inr (stamped now f n)) \<and>
      stored_registry st' = (case node_of st nid of None \<Rightarrow> ?reg | Some n \<Rightarrow> ?reg\<lparr>reg_nodes := map ?g (reg_nodes ?reg)\<rparr>) \<and>
      s_operations st' = s_operations st \<and> s_owners st' = s_owners st"
    using assms(3) by (cases "node_of st nid") (auto simp: updateNode_def mutateRegistry_def s m v writeNodeSnapshot_def Let_def)
  then have e: "r = (case node_of st nid of None \<Rightarrow> Inl (''Unknown Neuromem Node: '' @ nid) | Some n \<Rightarrow> Inr (stamped now f n))"
      "stored_registry st' = (case node_of st nid of None \<Rightarrow> ?reg | Some n \<Rightarrow> ?reg\<lparr>reg_nodes := map ?g (reg_nodes ?reg)\<rparr>)"
      "s_operations st' = s_operations st" "s_owners st' = s_owners st" by blast+
  show "r = (case node_of st nid of None \<Rightarrow> Inl (''Unknown Neuromem Node: '' @ nid) | Some n \<Rightarrow> Inr (stamped now f n))"
      "s_operations st' = s_operations st" "s_owners st' = s_owners st" by (fact e)+
  show "registry_ok (stored_registry st')" using e(2) ok assms(1) by (simp split: option.split)
  show "node_of st' m = (if m = nid then map_option (stamped now f) (node_of st m) else node_of st m)"
    using e(2) find_mapped [OF k, of m nid "reg_nodes ?reg"] by (auto simp: node_of_def split: option.splits)
  show "names_of st' = names_of st" using e(2) k by (auto simp: names_of_def keeps_names_def split: option.splits)
qed

lemma writeOperation_effect:
  assumes "well_filed st"
  shows "well_filed (writeOperation o1 st)" and "stored_registry (writeOperation o1 st) = stored_registry st"
    and "op_file (writeOperation o1 st) n e =
      (if n = op_node_id o1 \<and> e = op_operation_id o1 @ ''.json'' then Some o1 else op_file st n e)"
proof -
  define files where "files = (case oget (s_operations st) (op_node_id o1) of None \<Rightarrow> [] | Some files \<Rightarrow> files)"
  have ops: "s_operations (writeOperation o1 st) = oset (op_node_id o1) (oset (op_operation_id o1 @ ''.json'') (Some o1) files) (s_operations st)"
    by (simp add: writeOperation_def files_def)
  show f: "op_file (writeOperation o1 st) n e =
      (if n = op_node_id o1 \<and> e = op_operation_id o1 @ ''.json'' then Some o1 else op_file st n e)" for n e
    by (auto simp: op_file_def ops files_def split: option.splits)
  have "distinct (map fst files)"
    using assms by (auto simp: well_filed_def op_entries_def files_def split: option.splits)
  then have "distinct (op_entries (writeOperation o1 st) n)" for n
    using assms by (auto simp: op_entries_def ops well_filed_def)
  then show "well_filed (writeOperation o1 st)" using assms by (auto simp: well_filed_def f)
  show "stored_registry (writeOperation o1 st) = stored_registry st"
    by (simp add: writeOperation_def stored_registry_def)
qed

section \<open>The view of a node\<close>

definition placed :: "string \<Rightarrow> mgr \<Rightarrow> (int \<times> string) option" where
  "placed nid s = map_option (\<lambda>n. (n_generation n, n_schema_revision n)) (node_of (m_store s) nid)"

definition pending_cutover :: "operation_record \<Rightarrow> bool" where
  "pending_cutover o1 \<longleftrightarrow> op_state o1 \<in> {OsRunning, OsNeedsAttention} \<and> truthy_opt (result_field o1 ''cutover'')"

definition pend :: "string \<Rightarrow> mgr \<Rightarrow> (string \<times> operation_record) set" where
  "pend nid s = {(e, o1). op_file (m_store s) nid e = Some o1 \<and> pending_cutover o1}"

text \<open>A sane state: the registry is valid, the operations are filed well, no other node's alias is this node's id.\<close>

definition sane :: "string \<Rightarrow> store \<Rightarrow> bool" where
  "sane nid st \<longleftrightarrow> registry_ok (stored_registry st) \<and> well_filed st \<and> (\<forall>(i, a) \<in> set (names_of st). a = nid \<longrightarrow> i = nid)"

type_synonym node_view = "(int \<times> string) option \<times> string option \<times> (string \<times> operation_record) set"

definition view :: "string \<Rightarrow> mgr \<Rightarrow> node_view" where
  "view nid s = (placed nid s, oget (m_env s) nid, pend nid s)"

definition here :: "string \<Rightarrow> node_view \<Rightarrow> mgr \<Rightarrow> bool" where
  "here nid v s \<longleftrightarrow> sane nid (m_store s) \<and> view nid s = v"

lemma view_frame [simp]:
  "view nid (s\<lparr>m_left := n\<rparr>) = view nid s" "view nid (s\<lparr>m_log := l\<rparr>) = view nid s"
  "view nid (s\<lparr>m_secret_files := fs\<rparr>) = view nid s" "view nid (s\<lparr>m_backups := b\<rparr>) = view nid s"
  "view nid (s\<lparr>m_compose := c\<rparr>) = view nid s"
  by (simp_all add: view_def placed_def pend_def)

lemma here_owned: "here nid v s \<Longrightarrow> here nid v (s\<lparr>m_store := (m_store s)\<lparr>s_owners := os\<rparr>\<rparr>)"
  by (simp add: here_def sane_def view_def placed_def pend_def node_of_def names_of_def stored_registry_def well_filed_def
      op_entries_def op_file_def)

lemma same_operations:
  assumes "s_operations st' = s_operations st"
  shows "op_file st' = op_file st" "well_filed st' = well_filed st"
  using assms by (simp_all add: well_filed_def op_entries_def op_file_def fun_eq_iff)

lemma updated_view:
  assumes "sane nid (m_store s)" and "keeps_names f" and "updateNode m f now (m_store s) = (r, st)"
  shows "sane nid st" and "view nid (s\<lparr>m_store := st\<rparr>) =
    ((if m = nid then map_option (\<lambda>n. (n_generation (f n), n_schema_revision (f n))) (node_of (m_store s) nid) else placed nid s),
      oget (m_env s) nid, pend nid s)"
proof -
  have ok: "registry_ok (stored_registry (m_store s))" using assms(1) by (simp add: sane_def)
  note u = updateNode_effect [OF ok assms(2,3)]
  note o = same_operations [OF u(2)]
  show "sane nid st" using assms(1) u(1,6) o by (simp add: sane_def)
  show "view nid (s\<lparr>m_store := st\<rparr>) =
    ((if m = nid then map_option (\<lambda>n. (n_generation (f n), n_schema_revision (f n))) (node_of (m_store s) nid) else placed nid s),
      oget (m_env s) nid, pend nid s)"
    by (simp add: view_def placed_def pend_def o u(4) option.map_comp comp_def stamped_def)
qed

lemma here_phase:
  assumes "here nid v s" and "updateNode m (\<lambda>n. n\<lparr>n_phase := p\<rparr>) now (m_store s) = (r, st)"
  shows "here nid v (s\<lparr>m_store := st\<rparr>)"
  using updated_view [OF _ keeps_names_phase assms(2), of nid] assms(1) by (auto simp: here_def view_def placed_def)

interpretation here: quiet "here nid v" for nid v
proof unfold_locales
  show "here nid v s \<Longrightarrow> updateNode m (\<lambda>n. n\<lparr>n_phase := p\<rparr>) now (m_store s) = (r, st) \<Longrightarrow> here nid v (s\<lparr>m_store := st\<rparr>)"
    for s m p now r st by (rule here_phase)
  show "here nid v s \<Longrightarrow> here nid v (s\<lparr>m_store := (m_store s)\<lparr>s_owners := os\<rparr>\<rparr>)" for s os by (rule here_owned)
qed (simp_all add: here_def)

section \<open>The steps that change the view\<close>

lemma findNode_sane:
  assumes "sane nid st" and "findNode st nid = Inr n"
  shows "node_of st nid = Some n \<and> n_node_id n = nid"
proof -
  have f: "List.find (\<lambda>n. n_node_id n = nid \<or> n_alias n = nid) (reg_nodes (stored_registry st)) = Some n"
    using assms(2) by (auto simp: findNode_def rbind_eq_Inr read_registry_Inr split: option.splits)
  have a: "\<forall>n \<in> set (reg_nodes (stored_registry st)). (n_node_id n = nid \<or> n_alias n = nid) = (n_node_id n = nid)"
    using assms(1) by (auto simp: sane_def names_of_def)
  have "List.find p ns = List.find q ns" if "\<forall>n \<in> set ns. p n = q n" for p q :: "node_record \<Rightarrow> bool" and ns
    using that by (induction ns) auto
  from this [OF a] f have "node_of st nid = Some n" by (simp add: node_of_def)
  then show ?thesis using node_of_id by blast
qed

lemma find_node_here:
  "triple (here nid (Some k, e, c)) (find_node nid)
     (\<lambda>n s. here nid (Some k, e, c) s \<and> n_node_id n = nid \<and> (n_generation n, n_schema_revision n) = k) (here nid (Some k, e, c)) D"
  unfolding find_node_def
proof (rule triple_bind [OF triple_ask], unfold triple_def, intro allI impI)
  fix f s assume s: "here nid (Some k, e, c) s \<and> f = findNode (m_store s) nid"
  show "case from_res f s of (Ret n, s') \<Rightarrow> here nid (Some k, e, c) s' \<and> n_node_id n = nid \<and> (n_generation n, n_schema_revision n) = k
      | (Throw e', s') \<Rightarrow> here nid (Some k, e, c) s' | (Dead, s') \<Rightarrow> D s'"
  proof (cases f)
    case (Inr n)
    then have "node_of (m_store s) nid = Some n \<and> n_node_id n = nid" using s findNode_sane by (auto simp: here_def)
    then show ?thesis using Inr s by (auto simp: from_res_def ret_def here_def view_def placed_def)
  qed (use s in \<open>simp add: from_res_def throw_def\<close>)
qed

lemma write_env_here: "triple (here nid (p, e, c)) (write_env nid raw) (\<lambda>_. here nid (p, Some raw, c)) E (here nid (p, e, c))"
  unfolding write_env_def by (rule triple_step) (auto simp: here_def view_def placed_def pend_def)

lemma env_file_here:
  "triple (here nid (p, Some raw, c)) (env_file nid) (\<lambda>r s. here nid (p, Some raw, c) s \<and> r = raw) E D"
  by (auto simp: triple_def env_file_def bind_def ask_def ret_def throw_def here_def view_def)

lemma update_node_here:
  assumes "keeps_names f" and "\<And>n. (n_generation n, n_schema_revision n) = k \<Longrightarrow> (n_generation (f n), n_schema_revision (f n)) = k'"
  shows "triple (here nid (Some k, e, c)) (update_node h nid f) (\<lambda>n s. here nid (Some k', e, c) s \<and> n_node_id n = nid \<and>
    (n_generation n, n_schema_revision n) = k') E (here nid (Some k, e, c))"
  unfolding update_node_def store_op_def
proof (rule triple_step)
  fix s n assume s: "here nid (Some k, e, c) s"
  obtain r st where u: "updateNode nid f (h_now h) (m_store s) = (r, st)" by fastforce
  have ok: "registry_ok (stored_registry (m_store s))" "sane nid (m_store s)" using s by (simp_all add: here_def sane_def)
  from s obtain m where m: "node_of (m_store s) nid = Some m" "(n_generation m, n_schema_revision m) = k"
    by (auto simp: here_def view_def placed_def)
  then have "n_node_id m = nid" using node_of_id by blast
  moreover have "r = Inr (stamped (h_now h) f m)" using updateNode_effect(5) [OF ok(1) assms(1) u] m by simp
  ultimately show "case (case updateNode nid f (h_now h) (m_store (s\<lparr>m_left := n\<rparr>)) of
       (Inl e, st) \<Rightarrow> (Throw e, s\<lparr>m_left := n\<rparr>\<lparr>m_store := st\<rparr>) | (Inr x, st) \<Rightarrow> (Ret x, s\<lparr>m_left := n\<rparr>\<lparr>m_store := st\<rparr>)) of
      (Ret n, s') \<Rightarrow> here nid (Some k', e, c) s' \<and> n_node_id n = nid \<and> (n_generation n, n_schema_revision n) = k'
    | (Throw e', s') \<Rightarrow> E s' | (Dead, s') \<Rightarrow> here nid (Some k, e, c) s'"
    using updated_view [OF ok(2) assms(1) u] u s m assms by (auto simp: here_def view_def placed_def pend_def stamped_def keeps_names_def)
qed

lemma set_phase_here: "triple (here nid (Some k, e, c)) (set_phase h nid p) (\<lambda>_. here nid (Some k, e, c)) E (here nid (Some k, e, c))"
  unfolding set_phase_def by (rule triple_weaken [OF update_node_here [where k' = k and E = E]]) simp_all

text \<open>An operation that is written: it is pending or it is not.\<close>

definition pend_write :: "operation_record \<Rightarrow> (string \<times> operation_record) set \<Rightarrow> (string \<times> operation_record) set" where
  "pend_write o1 c = {p \<in> c. fst p \<noteq> op_operation_id o1 @ ''.json''} \<union>
     (if pending_cutover o1 then {(op_operation_id o1 @ ''.json'', o1)} else {})"

lemma write_operation_view:
  assumes "here nid (p, e, c) s"
  shows "here nid (p, e, if op_node_id o1 = nid then pend_write o1 c else c) (s\<lparr>m_store := writeOperation o1 (m_store s)\<rparr>)"
proof -
  have w: "well_filed (m_store s)" using assms by (simp add: here_def sane_def)
  note f = writeOperation_effect [OF w, of o1]
  have "pend nid (s\<lparr>m_store := writeOperation o1 (m_store s)\<rparr>) = (if op_node_id o1 = nid then pend_write o1 c else c)"
    using assms by (auto simp: here_def view_def pend_def f(3) pend_write_def split: if_splits)
  then show ?thesis using assms f(1,2) by (simp add: here_def sane_def view_def placed_def node_of_def names_of_def)
qed

lemma update_op_here:
  assumes "op_node_id operation = nid"
  shows "triple (here nid (p, e, c)) (update_op h operation patch)
    (\<lambda>o1 s. here nid (p, e, pend_write (patched (h_now h) patch operation) c) s \<and> o1 = patched (h_now h) patch operation)
    E (here nid (p, e, c))"
  unfolding update_op_def store_op_def
proof (rule triple_step)
  fix s n assume "here nid (p, e, c) s"
  then have "here nid (p, e, c) (s\<lparr>m_left := n\<rparr>)" by (rule here.left)
  from write_operation_view [OF this, of "patched (h_now h) patch operation"] assms
  show "case (case (case updateOperation (h_now h) operation patch (m_store (s\<lparr>m_left := n\<rparr>)) of (operation, st) \<Rightarrow> (Inr operation, st)) of
       (Inl e, st) \<Rightarrow> (Throw e, s\<lparr>m_left := n\<rparr>\<lparr>m_store := st\<rparr>) | (Inr x, st) \<Rightarrow> (Ret x, s\<lparr>m_left := n\<rparr>\<lparr>m_store := st\<rparr>)) of
      (Ret o1, s') \<Rightarrow> here nid (p, e, pend_write (patched (h_now h) patch operation) c) s' \<and> o1 = patched (h_now h) patch operation
    | (Throw e', s') \<Rightarrow> E s' | (Dead, s') \<Rightarrow> here nid (p, e, c) s'"
    by (simp add: updateOperation_def Let_def patched_def)
qed

text \<open>An operation without a journal\<close>

definition plain_op :: "string \<Rightarrow> operation_record \<Rightarrow> bool" where
  "plain_op nid o1 \<longleftrightarrow> op_node_id o1 = nid \<and> op_state o1 = OsRunning \<and> \<not> truthy_opt (result_field o1 ''cutover'')"

lemma begin_op_here:
  "triple (here nid (p, e, {})) (begin_op h nid kind phase)
     (\<lambda>o1 s. here nid (p, e, {}) s \<and> plain_op nid o1 \<and> op_kind o1 = kind) E (here nid (p, e, {}))"
  unfolding begin_op_def store_op_def
proof (rule triple_step)
  fix s n assume "here nid (p, e, {}) s"
  then have "here nid (p, e, {}) (s\<lparr>m_left := n\<rparr>)" by (rule here.left)
  note w = write_operation_view [OF this]
  define o1 where "o1 = fst (beginOperation (h_operation_id h kind) (h_now h) nid kind phase (m_store s))"
  have o1: "beginOperation (h_operation_id h kind) (h_now h) nid kind phase (m_store s) = (o1, writeOperation o1 (m_store s))"
      "op_node_id o1 = nid" "op_kind o1 = kind" "op_state o1 = OsRunning" "result_field o1 ''cutover'' = None"
    by (simp_all add: o1_def beginOperation_def Let_def result_field_def)
  then have "pend_write o1 {} = {}" by (simp add: pend_write_def pending_cutover_def truthy_opt_def)
  then show "case (case (case beginOperation (h_operation_id h kind) (h_now h) nid kind phase (m_store (s\<lparr>m_left := n\<rparr>)) of
         (operation, st) \<Rightarrow> (Inr operation, st)) of
       (Inl e, st) \<Rightarrow> (Throw e, s\<lparr>m_left := n\<rparr>\<lparr>m_store := st\<rparr>) | (Inr x, st) \<Rightarrow> (Ret x, s\<lparr>m_left := n\<rparr>\<lparr>m_store := st\<rparr>)) of
      (Ret o1, s') \<Rightarrow> here nid (p, e, {}) s' \<and> plain_op nid o1 \<and> op_kind o1 = kind
    | (Throw e', s') \<Rightarrow> E s' | (Dead, s') \<Rightarrow> here nid (p, e, {}) s'"
    using w [of o1] o1 by (simp add: plain_op_def truthy_opt_def)
qed

end
