(* ===== verification/NodeCrash.thy ===== *)
theory NodeCrash
  imports NodeView
begin

text \<open>
  Restores, migrations and the restarts of the manager, wherever the process dies: the registry's generation and the volume
  in the \<open>.env\<close> file move together.
\<close>

section \<open>Where a node can be\<close>

text \<open>The generation and schema it had, its volume and file, and the hash it is recognised by\<close>

record node_start =
  ns_id :: string
  ns_at :: "int \<times> string"
  ns_volume :: string
  ns_env :: string

definition DB :: string where
  "DB = ''DB_VOLUME_NAME''"

definition start_ok :: "node_start \<Rightarrow> bool" where
  "start_ok a \<longleftrightarrow> bare (ns_id a) \<and> bare (ns_volume a) \<and> snd (ns_at a) \<noteq> [] \<and> \<bar>fst (ns_at a)\<bar> \<le> MAX_SAFE_INTEGER \<and>
     names_value DB (ns_volume a) (ns_env a) \<and> oget (readNodeEnv (ns_env a)) DB = Some (ns_volume a)"

definition env_of :: "node_start \<Rightarrow> string \<Rightarrow> bool" where
  "env_of a e \<longleftrightarrow> e = ns_env a \<or> (\<exists>v. bare v \<and> replaceEnv (ns_env a) DB v = Inr e)"

definition journalled :: "node_start \<Rightarrow> (string \<Rightarrow> string) \<Rightarrow> operation_record \<Rightarrow> bool" where
  "journalled a sha o1 \<longleftrightarrow> op_node_id o1 = ns_id a \<and> op_kind o1 \<noteq> OpModelsConfigure \<and>
     (op_state o1 = OsRunning \<or> op_state o1 = OsNeedsAttention \<and> op_phase o1 = ''manager_restarted'') \<and>
     truthy_opt (result_field o1 ''cutover'') \<and> \<not> truthy_opt (result_field o1 ''recovery'') \<and>
     (\<exists>j. journal_of o1 = Some j \<and> j_from_generation j = fst (ns_at a) \<and> j_from_schema j = snd (ns_at a) \<and>
        j_from_volume j = ns_volume a \<and> j_env_sha256 j = sha (ns_env a))"

definition filed :: "operation_record \<Rightarrow> (string \<times> operation_record) set" where
  "filed o1 = {(op_operation_id o1 @ ''.json'', o1)}"

text \<open>Where it was, nothing pending; in a later generation, nothing pending; anywhere, with the journal that leads back\<close>

definition at_start :: "node_start \<Rightarrow> mgr \<Rightarrow> bool" where
  "at_start a = here (ns_id a) (Some (ns_at a), Some (ns_env a), {})"

definition moved_on :: "node_start \<Rightarrow> mgr \<Rightarrow> bool" where
  "moved_on a s \<longleftrightarrow> (\<exists>g schema e. fst (ns_at a) < g \<and> replaceEnv (ns_env a) DB (volumeName (ns_id a) g) = Inr e \<and>
     here (ns_id a) (Some (g, schema), Some e, {}) s)"

definition between :: "node_start \<Rightarrow> operation_record \<Rightarrow> mgr \<Rightarrow> bool" where
  "between a o1 s \<longleftrightarrow> (\<exists>k e. here (ns_id a) (Some k, Some e, filed o1) s \<and> env_of a e)"

definition back_with :: "node_start \<Rightarrow> operation_record \<Rightarrow> mgr \<Rightarrow> bool" where
  "back_with a o1 = here (ns_id a) (Some (ns_at a), Some (ns_env a), filed o1)"

definition under_way :: "node_start \<Rightarrow> (string \<Rightarrow> string) \<Rightarrow> mgr \<Rightarrow> bool" where
  "under_way a sha s \<longleftrightarrow> (\<exists>o1. journalled a sha o1 \<and> between a o1 s)"

definition known :: "node_start \<Rightarrow> (string \<Rightarrow> string) \<Rightarrow> mgr \<Rightarrow> bool" where
  "known a sha s \<longleftrightarrow> at_start a s \<or> moved_on a s \<or> under_way a sha s"

definition finished :: "node_start \<Rightarrow> operation_record \<Rightarrow> mgr \<Rightarrow> bool" where
  "finished a o1 s \<longleftrightarrow> (if op_state o1 = OsSucceeded then moved_on a s else at_start a s)"

lemma DB_ok: "env_key_ok DB"
  unfolding DB_def by code_simp

lemma env_back: "start_ok a \<Longrightarrow> env_of a e \<Longrightarrow> replaceEnv e DB (ns_volume a) = Inr (ns_env a)"
  using replaceEnv_named [OF _ DB_ok, of "ns_volume a" "ns_env a"] unfolding start_ok_def env_of_def
  by (metis sum.inject(2))

lemma env_forward:
  assumes "start_ok a"
  obtains e where "replaceEnv (ns_env a) DB (volumeName (ns_id a) g) = Inr e" and "env_of a e"
proof -
  have b: "bare (volumeName (ns_id a) g)" using assms bare_volume(1) by (simp add: start_ok_def)
  then show ?thesis using that replaceEnv_named [OF _ DB_ok, of "ns_volume a" "ns_env a" "volumeName (ns_id a) g"] assms
    unfolding start_ok_def env_of_def by blast
qed

section \<open>The cutover\<close>

lemma journal_read:
  assumes "start_ok a" and "n_generation node = fst (ns_at a)" and "n_schema_revision node = snd (ns_at a)"
    and "op_result o1 = Some (journal_json h node (ns_env a) g v schema)"
  shows "truthy_opt (result_field o1 ''cutover'')" and "\<not> truthy_opt (result_field o1 ''recovery'')"
    and "journal_of o1 = Some \<lparr>j_from_generation = fst (ns_at a), j_from_volume = ns_volume a, j_from_schema = snd (ns_at a),
      j_to_volume = v, j_env_sha256 = h_sha h (ns_env a)\<rparr>"
proof -
  have db: "oget (readNodeEnv (ns_env a)) ''DB_VOLUME_NAME'' = Some (ns_volume a)" "ns_volume a \<noteq> []"
    using assms(1) by (simp_all add: start_ok_def DB_def bare_def)
  define c where "c = [(''from_generation'', JNum (of_int (n_generation node))), (''from_volume'', JStr (ns_volume a)),
      (''from_schema'', JStr (n_schema_revision node)), (''to_generation'', JNum (of_int g)), (''to_volume'', JStr v),
      (''to_schema'', JStr schema), (''env_sha256'', JStr (h_sha h (ns_env a)))]"
  have r: "result_field o1 k = (if k = ''cutover'' then Some (JObj c) else None)" for k
    using assms(4) db by (simp add: result_field_def journal_json_def c_def)
  show "truthy_opt (result_field o1 ''cutover'')" "\<not> truthy_opt (result_field o1 ''recovery'')"
    by (simp_all add: r truthy_opt_def)
  have f: "oget c ''from_generation'' = Some (JNum (of_int (n_generation node)))" "text_field c ''from_volume'' = ns_volume a"
      "text_field c ''from_schema'' = n_schema_revision node" "text_field c ''to_volume'' = v"
      "text_field c ''env_sha256'' = h_sha h (ns_env a)"
    by (simp_all add: c_def text_field_def str_field_def)
  show "journal_of o1 = Some \<lparr>j_from_generation = fst (ns_at a), j_from_volume = ns_volume a, j_from_schema = snd (ns_at a),
      j_to_volume = v, j_env_sha256 = h_sha h (ns_env a)\<rparr>"
    using assms(1-3) db by (simp add: journal_of_def r f start_ok_def)
qed

lemma journal_here:
  assumes "start_ok a" and "plain_op (ns_id a) operation" and "op_kind operation \<noteq> OpModelsConfigure"
    and "n_node_id node = ns_id a" and "(n_generation node, n_schema_revision node) = ns_at a"
  shows "triple (at_start a) (journalCutover h operation node g v schema)
    (\<lambda>o1 s. back_with a o1 s \<and> journalled a (h_sha h) o1) (at_start a) (at_start a)"
  unfolding journalCutover_def at_start_def assms(4)
proof (rule triple_bind [OF env_file_here], rule triple_pure)
  fix raw assume raw: "raw = ns_env a"
  define patch :: "operation_record \<Rightarrow> operation_record" where "patch = (\<lambda>o1. o1\<lparr>op_phase := ''cutover_prepared'', op_result := Some (journal_json h node raw g v schema)\<rparr>)"
  define o1 where "o1 = patched (h_now h) patch operation"
  have gs: "n_generation node = fst (ns_at a)" "n_schema_revision node = snd (ns_at a)" by (simp_all flip: assms(5))
  have r: "op_result o1 = Some (journal_json h node (ns_env a) g v schema)" by (simp add: o1_def patched_def patch_def raw)
  have o: "op_node_id o1 = ns_id a" "op_kind o1 \<noteq> OpModelsConfigure" "op_state o1 = OsRunning"
    using assms(2,3) by (simp_all add: o1_def patched_def patch_def plain_op_def)
  have j: "journalled a (h_sha h) o1" using o journal_read [OF assms(1) gs r] by (simp add: journalled_def)
  then have p: "pend_write o1 {} = filed o1" using o by (simp add: pend_write_def filed_def pending_cutover_def journalled_def)
  have n: "op_node_id operation = ns_id a" using assms(2) by (simp add: plain_op_def)
  show "triple (here (ns_id a) (Some (ns_at a), Some (ns_env a), {})) (update_op h operation
      (\<lambda>o1. o1\<lparr>op_phase := ''cutover_prepared'', op_result := Some (journal_json h node raw g v schema)\<rparr>))
    (\<lambda>o1 s. back_with a o1 s \<and> journalled a (h_sha h) o1) (here (ns_id a) (Some (ns_at a), Some (ns_env a), {}))
    (here (ns_id a) (Some (ns_at a), Some (ns_env a), {}))"
    unfolding patch_def [symmetric]
    by (rule triple_weaken [OF update_op_here [OF n, where patch = patch]])
      (use j p in \<open>auto simp: back_with_def o1_def [symmetric]\<close>)
qed

lemma maintains_between: "(\<And>v. maintains (here (ns_id a) v) m) \<Longrightarrow> maintains (between a o1) m"
  unfolding maintains_def between_def by blast

lemma back_between: "back_with a o1 s \<Longrightarrow> between a o1 s"
  unfolding back_with_def between_def env_of_def by blast

lemma here_between: "here (ns_id a) (Some k, Some (ns_env a), filed o1) s \<Longrightarrow> between a o1 s"
  unfolding between_def env_of_def by blast

lemma forward_here:
  assumes "n_node_id node = ns_id a" and "env_of a e"
  shows "triple (back_with a o1) (cutover_forward h node e g schema)
    (\<lambda>_. here (ns_id a) (Some (g, schema), Some e, filed o1)) (between a o1) (between a o1)"
proof -
  let ?on = "here (ns_id a) (Some (ns_at a), Some e, filed o1)" and ?new = "here (ns_id a) (Some (g, schema), Some e, filed o1)"
  have b: "?on s \<Longrightarrow> between a o1 s" "?new s \<Longrightarrow> between a o1 s" for s using assms(2) unfolding between_def by blast+
  show ?thesis
    unfolding cutover_forward_def Let_def assms(1)
  proof (rule triple_after)
    show "triple (back_with a o1) (write_env (ns_id a) e) (\<lambda>_. ?on) (between a o1) (between a o1)"
      unfolding back_with_def by (rule triple_weaken [OF write_env_here])
        (auto intro: back_between [unfolded back_with_def])
    show "triple ?on (after (update_node h (ns_id a) (set_generation g schema)) (after (compose_up h node)
        (bind (wait_ready h (ns_id a)) (\<lambda>st. after (guard (operational st) ''Candidate generation failed the post-cutover health check'')
          (after (set_phase h (ns_id a) (st_phase st)) (ret st)))))) (\<lambda>_. ?new) (between a o1) (between a o1)"
    proof (rule triple_after)
      show "triple ?on (update_node h (ns_id a) (set_generation g schema)) (\<lambda>_. ?new) (between a o1) (between a o1)"
        by (rule triple_weaken [OF update_node_here]) (auto simp: set_generation_def intro: b)
      show "triple ?new (after (compose_up h node) (bind (wait_ready h (ns_id a)) (\<lambda>st.
          after (guard (operational st) ''Candidate generation failed the post-cutover health check'')
            (after (set_phase h (ns_id a) (st_phase st)) (ret st))))) (\<lambda>_. ?new) (between a o1) (between a o1)"
        by (intro triple_first_after triple_first triple_guarded triple_ret here.all_rules) (auto intro: b)
    qed
  qed
qed

lemma rollback_here:
  assumes "n_node_id node = ns_id a" and "(n_generation node, n_schema_revision node) = ns_at a"
  shows "triple (between a o1) (cutover_rollback h node (ns_env a) e) (\<lambda>_ _. False) (back_with a o1) (between a o1)"
proof -
  let ?raw = "ns_env a" and ?id = "ns_id a"
  have w: "triple (between a o1) (write_env ?id ?raw) (\<lambda>_ s. \<exists>k. here ?id (Some k, Some ?raw, filed o1) s) (back_with a o1) (between a o1)"
    unfolding between_def
    by (intro triple_ex triple_pure, rule triple_weaken [OF write_env_here [where E = "\<lambda>_. False"]]) blast+
  have u: "triple (\<lambda>s. \<exists>k. here ?id (Some k, Some ?raw, filed o1) s)
      (update_node h ?id (set_generation (n_generation node) (n_schema_revision node))) (\<lambda>_. back_with a o1) (back_with a o1) (between a o1)"
    by (intro triple_ex, rule triple_weaken [OF update_node_here [where k' = "ns_at a" and E = "\<lambda>_. False"]])
      (use assms(2) in \<open>auto simp: set_generation_def back_with_def intro: here_between\<close>)
  have m: "maintains (back_with a o1) m" if "\<And>v. maintains (here ?id v) m" for m :: "'x prog"
    unfolding back_with_def by (rule that)
  show ?thesis
    unfolding cutover_rollback_def Let_def assms(1)
  proof (intro triple_after [OF triple_attempt] triple_after [OF w] triple_after [OF u])
    show "maintains (between a o1) (compose_stop h node)" by (intro maintains_between here.all_rules)
    have up: "triple (back_with a o1) (attempt (compose_up h node)) (\<lambda>_. back_with a o1) (back_with a o1) (between a o1)"
      by (rule triple_weaken [OF triple_attempt [OF m, where E = "\<lambda>_. False"]]) (auto intro: here.all_rules back_between)
    have waited: "triple (back_with a o1) (catch (bind (wait_ready h ?id) (\<lambda>st. ret (Some st))) (\<lambda>_. ret None))
        (\<lambda>_. back_with a o1) (back_with a o1) (between a o1)"
      by (rule triple_weaken [OF triple_default [OF m, where E = "\<lambda>_. False"]]) (auto intro: here.all_rules back_between)
    have told: "triple (back_with a o1) (after (set_phase h ?id p) (throw e)) (\<lambda>_ _. False) (back_with a o1) (between a o1)" for p
      by (rule triple_first_after) (auto intro: m here.all_rules back_between triple_throw)
    show "triple (back_with a o1) (after (attempt (compose_up h node))
        (bind (catch (bind (wait_ready h ?id) (\<lambda>st. ret (Some st))) (\<lambda>_. ret None)) (\<lambda>rollback.
          after (set_phase h ?id (case rollback of None \<Rightarrow> PhFailed | Some st \<Rightarrow> st_phase st)) (throw e))))
      (\<lambda>_ _. False) (back_with a o1) (between a o1)"
      by (rule triple_after [OF up triple_bind [OF waited told]])
  qed
qed

lemma cutover_here:
  assumes "start_ok a" and "n_node_id node = ns_id a" and "(n_generation node, n_schema_revision node) = ns_at a"
    and "replaceEnv (ns_env a) DB v = Inr e" and "env_of a e"
  shows "triple (back_with a o1) (cutover h node v g schema) (\<lambda>_. here (ns_id a) (Some (g, schema), Some e, filed o1))
    (back_with a o1) (between a o1)"
  unfolding cutover_def assms(2)
proof (rule triple_bind)
  show "triple (back_with a o1) (env_file (ns_id a)) (\<lambda>raw s. back_with a o1 s \<and> raw = ns_env a) (back_with a o1) (between a o1)"
    unfolding back_with_def by (rule env_file_here)
  have c: "triple (back_with a o1) (after (compose_stop h node) (catch (cutover_forward h node e g schema) (cutover_rollback h node (ns_env a))))
      (\<lambda>_. here (ns_id a) (Some (g, schema), Some e, filed o1)) (back_with a o1) (between a o1)"
  proof (rule triple_first_after)
    show "maintains (back_with a o1) (compose_stop h node)" unfolding back_with_def by (rule here.all_rules)
    show "triple (back_with a o1) (catch (cutover_forward h node e g schema) (cutover_rollback h node (ns_env a)))
        (\<lambda>_. here (ns_id a) (Some (g, schema), Some e, filed o1)) (back_with a o1) (between a o1)"
      by (rule triple_catch [OF forward_here [OF assms(2,5)]], rule triple_weaken [OF rollback_here [OF assms(2,3)]]) auto
  qed (auto intro: back_between)
  show "triple (\<lambda>s. back_with a o1 s \<and> raw = ns_env a) (bind (from_res (replaceEnv raw ''DB_VOLUME_NAME'' v)) (\<lambda>candidate.
      after (compose_stop h node) (catch (cutover_forward h node candidate g schema) (cutover_rollback h node raw))))
    (\<lambda>_. here (ns_id a) (Some (g, schema), Some e, filed o1)) (back_with a o1) (between a o1)" for raw
    by (rule triple_pure) (use c assms(4) in \<open>simp add: DB_def triple_def bind_def from_res_def ret_def\<close>)
qed

section \<open>Restores and migrations\<close>

lemma tracked_here:
  assumes "triple P m Q E D" and "\<And>e. triple E (after (resumeExistingGeneration h latest) (fail_op h operation e)) Q E' D"
  shows "triple P (tracked h latest operation m) Q E' D"
  unfolding tracked_def by (rule triple_catch [OF assms])

lemma closed_op:
  assumes "op_node_id operation = ns_id a" and "op_state (patch operation) \<notin> {OsRunning, OsNeedsAttention}"
    and "c = {} \<or> c = filed operation"
  shows "triple (here (ns_id a) (k, e, c)) (update_op h operation patch)
    (\<lambda>o1 s. here (ns_id a) (k, e, {}) s \<and> op_state o1 = op_state (patch operation)) E (here (ns_id a) (k, e, c))"
proof -
  have p: "pend_write (patched (h_now h) patch operation) c = {}"
    using assms(2,3) by (auto simp: pend_write_def patched_def pending_cutover_def filed_def)
  show ?thesis
    by (rule triple_weaken [OF update_op_here [OF assms(1), where patch = patch]]) (use p in \<open>auto simp: patched_def\<close>)
qed

lemma fail_here:
  assumes "op_node_id operation = ns_id a" and "c = {} \<or> c = filed operation"
  shows "triple (here (ns_id a) (Some (ns_at a), Some (ns_env a), c))
    (after (resumeExistingGeneration h latest) (fail_op h operation e)) (finished a) E (here (ns_id a) (Some (ns_at a), Some (ns_env a), c))"
proof -
  let ?P = "here (ns_id a) (Some (ns_at a), Some (ns_env a), c)"
  have r: "triple ?P (resumeExistingGeneration h latest) (\<lambda>_. ?P) E ?P"
    by (auto simp: resumeExistingGeneration_def Let_def intro!: triple_attempt triple_catch [where R = ?P] triple_maintains
        maintained here.all_rules)
  show ?thesis
    unfolding fail_op_def
    by (rule triple_after [OF r], rule triple_weaken [OF closed_op [OF assms(1) _ assms(2), where E = E]])
      (auto simp: finished_def at_start_def)
qed

lemma commit_here:
  assumes a: "start_ok a" and o: "plain_op (ns_id a) operation" "op_kind operation \<noteq> OpModelsConfigure"
    and n: "n_node_id latest = ns_id a" "(n_generation latest, n_schema_revision latest) = ns_at a" and g: "fst (ns_at a) < g"
  shows "triple (at_start a) (bind (journalCutover h operation latest g (volumeName (ns_id a) g) schema) (\<lambda>operation.
      tracked h latest operation (bind (cutover h latest (volumeName (ns_id a) g) g schema) (\<lambda>st. succeed_op h operation phase result))))
    (finished a) (at_start a) (known a (h_sha h))"
proof (rule triple_bind)
  show "triple (at_start a) (journalCutover h operation latest g (volumeName (ns_id a) g) schema)
      (\<lambda>o1 s. back_with a o1 s \<and> journalled a (h_sha h) o1) (at_start a) (known a (h_sha h))"
    by (rule triple_weaken [OF journal_here [OF a o n]]) (auto simp: known_def)
  show "triple (\<lambda>s. back_with a o1 s \<and> journalled a (h_sha h) o1) (tracked h latest o1
      (bind (cutover h latest (volumeName (ns_id a) g) g schema) (\<lambda>st. succeed_op h o1 phase result)))
    (finished a) (at_start a) (known a (h_sha h))" for o1
  proof (rule triple_pure)
    assume j: "journalled a (h_sha h) o1"
    then have i: "op_node_id o1 = ns_id a" by (simp add: journalled_def)
    obtain e where e: "replaceEnv (ns_env a) DB (volumeName (ns_id a) g) = Inr e" "env_of a e" using env_forward [OF a] .
    have b: "between a o1 s \<Longrightarrow> known a (h_sha h) s" for s using j unfolding known_def under_way_def by blast
    have d: "here (ns_id a) (Some (g, schema), Some e, filed o1) s \<Longrightarrow> between a o1 s" for s
      using e(2) unfolding between_def by blast
    have s: "triple (here (ns_id a) (Some (g, schema), Some e, filed o1)) (succeed_op h o1 phase result)
        (finished a) (back_with a o1) (between a o1)"
      unfolding succeed_op_def
      by (rule triple_weaken [OF closed_op [OF i, where c = "filed o1" and E = "\<lambda>_. False"]])
        (use e g d in \<open>auto simp: finished_def moved_on_def\<close>)
    have f: "triple (back_with a o1) (after (resumeExistingGeneration h latest) (fail_op h o1 e')) (finished a) (at_start a) (between a o1)" for e'
      by (rule triple_weaken [OF fail_here [OF i, where c = "filed o1" and E = "\<lambda>_. False"]])
        (auto simp: back_with_def intro: back_between [unfolded back_with_def])
    show "triple (back_with a o1) (tracked h latest o1 (bind (cutover h latest (volumeName (ns_id a) g) g schema)
        (\<lambda>st. succeed_op h o1 phase result))) (finished a) (at_start a) (known a (h_sha h))"
      by (rule triple_weaken [OF tracked_here [OF triple_bind [OF cutover_here [OF a n e] s] f]]) (auto intro: b)
  qed
qed

lemma search_generation_ge: "search_generation h nid g s = (Ret g', s') \<Longrightarrow> g \<le> g'"
proof (induction h nid g s rule: search_generation.induct)
  case (1 h nid g s)
  obtain r s1 where v: "volume_exists h (volumeName nid g) s = (r, s1)" by fastforce
  show ?case
  proof (cases "r = Ret True")
    case True
    then have "g + 1 \<le> g'" using 1 v by (simp add: search_generation.simps [of h nid g s])
    then show ?thesis by simp
  next
    case False
    then show ?thesis using 1(2) v by (auto simp: search_generation.simps [of h nid g s] split: outcome.splits bool.splits)
  qed
qed

lemma known_start: "at_start a s \<Longrightarrow> known a sha s"
  by (simp add: known_def)

lemma quiet_start: "(\<And>v. maintains (here (ns_id a) v) m) \<Longrightarrow> maintains (at_start a) m"
  unfolding at_start_def by blast

lemma next_here:
  assumes "n_generation latest = fst (ns_at a)"
  shows "triple (at_start a) (nextUnusedGeneration h latest) (\<lambda>g s. at_start a s \<and> fst (ns_at a) < g) (at_start a) (known a sha)"
proof -
  have "maintains (at_start a) (nextUnusedGeneration h latest)" by (intro quiet_start here.all_rules)
  then show ?thesis
    using search_generation_ge [of h "n_node_id latest" "n_generation latest + 1"] assms
    by (fastforce simp: triple_def nextUnusedGeneration_def intro: known_start dest: maintainsD split: outcome.splits prod.splits)
qed

lemma switch_here:
  assumes a: "start_ok a" and o: "plain_op (ns_id a) operation" "op_kind operation \<noteq> OpModelsConfigure"
    and n: "n_node_id latest = ns_id a" "(n_generation latest, n_schema_revision latest) = ns_at a"
  shows "triple (at_start a) (switch_generation h latest operation located mode target result) (finished a) (at_start a) (known a (h_sha h))"
  unfolding switch_generation_def Let_def n(1)
proof (rule triple_bind [OF next_here])
  show "n_generation latest = fst (ns_at a)" by (simp flip: n(2))
  show "triple (\<lambda>s. at_start a s \<and> fst (ns_at a) < g) (bind (stageDatabase h latest (snd (snd located)) (volumeName (ns_id a) g) g
      (fst located) mode target) (\<lambda>actual. bind (journalCutover h operation latest g (volumeName (ns_id a) g)
        (or_text (case actual of None \<Rightarrow> [] | Some r \<Rightarrow> r) target)) (\<lambda>operation. tracked h latest operation
        (bind (cutover h latest (volumeName (ns_id a) g) g (or_text (case actual of None \<Rightarrow> [] | Some r \<Rightarrow> r) target)) (\<lambda>st.
         succeed_op h operation ''verified'' (JObj (result @ [(''active_generation'', JNum (of_int g))])))))))
    (finished a) (at_start a) (known a (h_sha h))" for g
    by (intro triple_pure triple_first commit_here a o n quiet_start here.all_rules known_start)
qed

lemma tracked_plain:
  assumes "plain_op (ns_id a) operation" and "triple (at_start a) m (finished a) (at_start a) (known a sha)"
  shows "triple (at_start a) (tracked h latest operation m) (finished a) (at_start a) (known a sha)"
proof (rule tracked_here [OF assms(2)])
  have i: "op_node_id operation = ns_id a" using assms(1) by (simp add: plain_op_def)
  show "triple (at_start a) (after (resumeExistingGeneration h latest) (fail_op h operation e)) (finished a) (at_start a) (known a sha)" for e
    by (rule triple_weaken [OF fail_here [OF i, where c = "{}" and E = "\<lambda>_. False"]]) (auto simp: at_start_def known_def)
qed

lemma plain_write:
  assumes "plain_op (ns_id a) operation" and "\<not> truthy_opt (result_field (patch operation) ''cutover'')"
  shows "triple (at_start a) (update_op h operation patch) (\<lambda>o1 s. at_start a s \<and> o1 = patched (h_now h) patch operation) E (at_start a)"
proof -
  have i: "op_node_id operation = ns_id a" using assms(1) by (simp add: plain_op_def)
  have "result_field (patched (h_now h) patch operation) ''cutover'' = result_field (patch operation) ''cutover''"
    by (simp add: result_field_def patched_def)
  then have "pend_write (patched (h_now h) patch operation) {} = {}" using assms(2) by (simp add: pend_write_def pending_cutover_def)
  then show ?thesis using update_op_here [OF i, where patch = patch and c = "{}" and h = h and E = E] by (simp add: at_start_def)
qed

lemma move_here:
  assumes "plain_op (ns_id a) operation"
  shows "triple (at_start a) (move_op h operation phase)
    (\<lambda>o1 s. at_start a s \<and> plain_op (ns_id a) o1 \<and> op_kind o1 = op_kind operation) E (known a sha)"
  unfolding move_op_def
  by (rule triple_weaken [OF plain_write [OF assms]])
    (use assms in \<open>auto simp: plain_op_def patched_def result_field_def known_def\<close>)

lemma maintenance_here:
  "triple (at_start a) (enter_maintenance h latest blocked) (\<lambda>_. at_start a) (at_start a) (known a sha)"
  by (rule triple_weaken [OF triple_maintains [where P = "at_start a"]]) (auto intro: quiet_start here.all_rules known_start)

lemma latest_here:
  "triple (at_start a) (find_node (ns_id a)) (\<lambda>n s. at_start a s \<and> n_node_id n = ns_id a \<and>
     (n_generation n, n_schema_revision n) = ns_at a) (at_start a) (known a sha)"
  unfolding at_start_def by (rule find_node_here)

lemma moved_on_steps:
  assumes "plain_op (ns_id a) operation" and "op_kind operation \<noteq> OpModelsConfigure"
    and "\<And>o1. plain_op (ns_id a) o1 \<Longrightarrow> op_kind o1 \<noteq> OpModelsConfigure \<Longrightarrow>
      triple (at_start a) (f o1) (finished a) (at_start a) (known a sha)"
  shows "triple (at_start a) (bind (move_op h operation phase) (\<lambda>o1. tracked h latest o1 (f o1))) (finished a) (at_start a) (known a sha)"
proof (rule triple_bind [OF move_here [OF assms(1)]])
  show "triple (\<lambda>s. at_start a s \<and> plain_op (ns_id a) o1 \<and> op_kind o1 = op_kind operation) (tracked h latest o1 (f o1))
      (finished a) (at_start a) (known a sha)" for o1
  proof (rule triple_pure, elim conjE)
    assume o: "plain_op (ns_id a) o1" "op_kind o1 = op_kind operation"
    show "triple (at_start a) (tracked h latest o1 (f o1)) (finished a) (at_start a) (known a sha)"
      by (rule tracked_plain [OF o(1)], rule assms(3) [OF o(1)]) (use o(2) assms(2) in simp)
  qed
qed

lemmas start_rules = triple_guarded triple_first triple_first_after quiet_start here.all_rules known_start

lemma restore_steps_here:
  assumes a: "start_ok a" and n: "n_node_id node = ns_id a" and o: "plain_op (ns_id a) operation" "op_kind operation \<noteq> OpModelsConfigure"
  shows "triple (at_start a) (restore_steps h node b operation) (finished a) (at_start a) (known a (h_sha h))"
proof -
  have "triple (at_start a) (restore_latest h node located operation latest) (finished a) (at_start a) (known a (h_sha h))"
    if "n_node_id latest = ns_id a" "(n_generation latest, n_schema_revision latest) = ns_at a" for located latest
    unfolding restore_latest_def Let_def
    by (intro tracked_plain o triple_guarded triple_after [OF maintenance_here] moved_on_steps triple_first switch_here a that
        start_rules)
  then have "triple (\<lambda>s. at_start a s \<and> n_node_id latest = ns_id a \<and> (n_generation latest, n_schema_revision latest) = ns_at a)
      (restore_latest h node located operation latest) (finished a) (at_start a) (known a (h_sha h))" for located latest
    by (intro triple_pure) blast
  then show ?thesis
    unfolding restore_steps_def n by (intro tracked_plain o triple_bind [OF latest_here] start_rules)
qed

lemma migration_steps_here:
  assumes a: "start_ok a" and n: "n_node_id node = ns_id a" and o: "plain_op (ns_id a) operation" "op_kind operation \<noteq> OpModelsConfigure"
    and mode: "mode \<noteq> ''transactional''"
  shows "triple (at_start a) (migration_steps h node target mode operation) (finished a) (at_start a) (known a (h_sha h))"
proof -
  have "triple (at_start a) (migration_latest h node target mode operation latest) (finished a) (at_start a) (known a (h_sha h))"
    if "n_node_id latest = ns_id a" "(n_generation latest, n_schema_revision latest) = ns_at a" for latest
    unfolding migration_latest_def staged_migration_def if_not_P [OF mode]
    by (intro tracked_plain o triple_guarded triple_after [OF maintenance_here] moved_on_steps triple_first maintains_ask
        switch_here a that start_rules)
  then have "triple (\<lambda>s. at_start a s \<and> n_node_id latest = ns_id a \<and> (n_generation latest, n_schema_revision latest) = ns_at a)
      (migration_latest h node target mode operation latest) (finished a) (at_start a) (known a (h_sha h))" for latest
    by (intro triple_pure) blast
  then show ?thesis
    unfolding migration_steps_def n by (intro tracked_plain o triple_bind [OF latest_here])
qed

lemma closed_start:
  assumes "plain_op (ns_id a) operation"
  shows "triple (at_start a) (succeed_op h operation phase result) (\<lambda>_. at_start a) E (at_start a)"
    and "triple (at_start a) (fail_op h operation e) (\<lambda>_. at_start a) E (at_start a)"
proof -
  have i: "op_node_id operation = ns_id a" using assms by (simp add: plain_op_def)
  show "triple (at_start a) (succeed_op h operation phase result) (\<lambda>_. at_start a) E (at_start a)"
    unfolding succeed_op_def at_start_def by (rule triple_weaken [OF closed_op [OF i, where c = "{}" and E = E]]) auto
  show "triple (at_start a) (fail_op h operation e) (\<lambda>_. at_start a) E (at_start a)"
    unfolding fail_op_def at_start_def by (rule triple_weaken [OF closed_op [OF i, where c = "{}" and E = E]]) auto
qed

lemma plan_here: "maintains (at_start a) (restorePlan h (ns_id a) b)"
proof (rule maintains_triple)
  have "triple (at_start a) (bind (begin_op h (ns_id a) OpRestorePlan ''inspecting'') (\<lambda>operation.
        catch (bind (locateBackup h node b) (\<lambda>located. after (verifyLocatedBackup h node located)
            (bind (ask (\<lambda>s. h_free h (m_log s))) (\<lambda>free. bind (mcpQueueEmpty h node) (\<lambda>empty.
             succeed_op h operation ''planned'' (r located free empty))))))
          (fail_op h operation))) (\<lambda>_. at_start a) (at_start a) (at_start a)" for node r
  proof (rule triple_bind)
    show "triple (at_start a) (begin_op h (ns_id a) OpRestorePlan ''inspecting'') (\<lambda>o1 s. at_start a s \<and> plain_op (ns_id a) o1)
        (at_start a) (at_start a)"
      unfolding at_start_def by (rule triple_weaken [OF begin_op_here]) auto
    show "triple (\<lambda>s. at_start a s \<and> plain_op (ns_id a) o1) (catch (bind (locateBackup h node b) (\<lambda>located. after (verifyLocatedBackup h node located)
            (bind (ask (\<lambda>s. h_free h (m_log s))) (\<lambda>free. bind (mcpQueueEmpty h node) (\<lambda>empty.
             succeed_op h o1 ''planned'' (r located free empty))))))
          (fail_op h o1)) (\<lambda>_. at_start a) (at_start a) (at_start a)" for o1
      by (intro triple_pure triple_catch [where R = "at_start a"] closed_start triple_first triple_first_after maintains_ask quiet_start
          here.all_rules)
  qed
  then have "triple (\<lambda>s. at_start a s \<and> n_node_id node = ns_id a \<and> (n_generation node, n_schema_revision node) = ns_at a)
      (bind (begin_op h (n_node_id node) OpRestorePlan ''inspecting'') (\<lambda>operation.
        catch (bind (locateBackup h node b) (\<lambda>located. after (verifyLocatedBackup h node located)
            (bind (ask (\<lambda>s. h_free h (m_log s))) (\<lambda>free. bind (mcpQueueEmpty h node) (\<lambda>empty.
             succeed_op h operation ''planned'' (r located free empty))))))
          (fail_op h operation))) (\<lambda>_. at_start a) (at_start a) (at_start a)" for node r
    by (intro triple_pure, elim conjE) (simp only:)
  then show "triple (at_start a) (restorePlan h (ns_id a) b) (\<lambda>_. at_start a) (at_start a) (at_start a)"
    unfolding restorePlan_def at_start_def by (rule triple_bind [OF find_node_here])
qed

lemma lock_free_here: "lock_free (here nid v)"
  unfolding lock_free_def by (auto intro: here.left here_owned [OF here.left, simplified])

lemma lock_free_here': "here nid v s \<Longrightarrow> here nid v (s\<lparr>m_left := n, m_store := (m_store s)\<lparr>s_owners := os\<rparr>\<rparr>)"
  using lock_free_here unfolding lock_free_def by blast

lemma lock_free_classes: "lock_free (at_start a)" "lock_free (moved_on a)" "lock_free (finished a o1)"
proof -
  show s: "lock_free (at_start a)" unfolding at_start_def by (rule lock_free_here)
  show m: "lock_free (moved_on a)"
    unfolding lock_free_def moved_on_def by (blast intro: here.left lock_free_here')
  show "lock_free (finished a o1)" using s m by (simp add: lock_free_def finished_def)
qed

lemma finished_known: "finished a o1 s \<Longrightarrow> known a sha s"
  by (auto simp: finished_def known_def split: if_splits)

lemma locked_here:
  assumes "kind \<noteq> OpModelsConfigure" and "\<And>o1. plain_op (ns_id a) o1 \<Longrightarrow> op_kind o1 \<noteq> OpModelsConfigure \<Longrightarrow>
      triple (at_start a) (f o1) (finished a) (at_start a) (known a sha)"
  shows "triple (at_start a) (with_lock h (ns_id a) (bind (begin_op h (ns_id a) kind phase) f)) (finished a) (at_start a) (known a sha)"
proof (rule triple_lock [OF triple_bind])
  show "triple (at_start a) (begin_op h (ns_id a) kind phase) (\<lambda>o1 s. at_start a s \<and> plain_op (ns_id a) o1 \<and> op_kind o1 = kind)
      (at_start a) (known a sha)"
    unfolding at_start_def by (rule triple_weaken [OF begin_op_here]) (auto simp: known_def at_start_def)
  show "triple (\<lambda>s. at_start a s \<and> plain_op (ns_id a) o1 \<and> op_kind o1 = kind) (f o1) (finished a) (at_start a) (known a sha)" for o1
    by (rule triple_pure, elim conjE) (use assms in blast)
qed (auto intro: lock_free_classes known_start finished_known)

text \<open>The state a program starts in: the node of \<open>selector\<close> is where it is, and nothing is pending.\<close>

definition chosen :: "node_start \<Rightarrow> string \<Rightarrow> mgr \<Rightarrow> bool" where
  "chosen a selector s \<longleftrightarrow> at_start a s \<and> (\<exists>node. findNode (m_store s) selector = Inr node \<and> n_node_id node = ns_id a)"

lemma chosen_here:
  assumes "\<And>node. n_node_id node = ns_id a \<Longrightarrow> triple (at_start a) (f node) Q (at_start a) (known a sha)"
  shows "triple (chosen a selector) (bind (find_node selector) f) Q (at_start a) (known a sha)"
  using assms unfolding chosen_def triple_def find_node_def bind_def ask_def from_res_def ret_def by fastforce

lemma restore_here:
  assumes "start_ok a"
  shows "triple (chosen a selector) (restoreApply h selector b confirmation) (finished a) (at_start a) (known a (h_sha h))"
  unfolding restoreApply_def Let_def
proof (rule chosen_here)
  fix node :: node_record assume n: "n_node_id node = ns_id a"
  show "triple (at_start a) (after (guard (confirmation = n_node_id node) ''Restore requires --confirm with the exact Node UUID'')
      (bind (restorePlan h (n_node_id node) b) (\<lambda>planned. after (guard (plan_ok planned) (plan_error planned))
        (with_lock h (n_node_id node) (bind (begin_op h (n_node_id node) OpRestoreApply ''entering_maintenance'') (restore_steps h node b))))))
    (finished a) (at_start a) (known a (h_sha h))"
    unfolding n by (intro triple_guarded triple_first plan_here locked_here restore_steps_here assms n known_start) simp
qed

lemma migration_here:
  assumes "start_ok a" and "mode \<noteq> ''transactional''"
  shows "triple (chosen a selector) (migrationApply h selector target confirmation mode) (finished a) (at_start a) (known a (h_sha h))"
  unfolding migrationApply_def Let_def
proof (rule chosen_here)
  fix node :: node_record assume n: "n_node_id node = ns_id a"
  show "triple (at_start a) (after (guard (confirmation = n_node_id node) ''Migration requires --confirm with the exact Node UUID'')
      (after (guard (revision_ok target) ''Invalid target schema revision'')
        (with_lock h (n_node_id node) (bind (begin_op h (n_node_id node) OpMigrateApply ''entering_maintenance'')
          (migration_steps h node target mode)))))
    (finished a) (at_start a) (known a (h_sha h))"
    unfolding n by (intro triple_guarded triple_first locked_here migration_steps_here assms n known_start) simp
qed

end
