(* ===== verification/NodeWorld.thy ===== *)
theory NodeWorld
  imports NodeCrash
begin

text \<open>
  One node of one registry, for the concrete instances: its runtime file names the volume of its generation, and its
  operations are given.
\<close>

definition KEY :: string where
  "KEY = ''0198c5a0-0000-7000-8000-000000000001''"

definition volume_env :: "int \<Rightarrow> string" where
  "volume_env g = env_text [(DB, volumeName KEY g)]"

definition start_of :: "int \<Rightarrow> node_start" where
  "start_of g = \<lparr>ns_id = KEY, ns_at = (g, ''r1''), ns_volume = volumeName KEY g, ns_env = volume_env g\<rparr>"

definition world_node :: "int \<Rightarrow> node_record" where
  "world_node g = \<lparr>n_node_id = KEY, n_alias = ''personal'', n_ports = \<lparr>port_api = 18001, port_dashboard = 14173, port_mcp = 18765\<rparr>,
     n_generation = g, n_desired_state = WantStopped, n_phase = PhStopped, n_compose_project = expected_project KEY,
     n_schema_revision = ''r1'', n_created_at = ''t0'', n_updated_at = ''t0''\<rparr>"

definition world :: "int \<Rightarrow> operation_record list \<Rightarrow> nat \<Rightarrow> mgr" where
  "world g ops n = \<lparr>m_store = \<lparr>s_registry = Some \<lparr>reg_format = 1, reg_default_node_id = Some KEY, reg_nodes = [world_node g]\<rparr>,
       s_snapshots = [], s_operations = [(KEY, map (\<lambda>o1. (op_operation_id o1 @ ''.json'', Some o1)) ops)], s_owners = []\<rparr>,
     m_env = [(KEY, volume_env g)], m_compose = [], m_backups = [], m_secret_files = [], m_log = [], m_left = n\<rparr>"

text \<open>Docker answers nothing, nothing else lives, and a hash of its own argument\<close>

definition dead_host :: host where
  "dead_host = \<lparr>h_run = \<lambda>_ _. \<lparr>cr_ok = False, cr_stdout = [], cr_stderr = []\<rparr>, h_fetch = \<lambda>_ _. FetchFailed [],
     h_polls = \<lambda>_. 0, h_dump = \<lambda>_. [], h_free = \<lambda>_. 0, h_alive = \<lambda>_. False, h_pid = 1, h_now = ''t9'',
     h_operation_id = \<lambda>_. ''o9'', h_backup_id = ''b9'', h_parse = \<lambda>_. None, h_format = \<lambda>_. [], h_sha = id, h_collate = id,
     h_nodes = [], h_runtime = [], h_process = [], h_port = 14174, h_fresh = ([], [], []), h_template = None\<rparr>"

lemma bare_KEY: "bare KEY"
  unfolding KEY_def by code_simp

lemma bare_world: "bare (volumeName KEY g)"
  using bare_volume(1) [OF bare_KEY] .

lemma volume_env_text: "volume_env g = DB @ ''='' @ volumeName KEY g @ [LF]"
  by (simp add: volume_env_def env_text_def bare_escape [OF bare_world])

lemma find_world: "find_entry DB True [] (volume_env g) = Some ([], DB @ ''='' @ volumeName KEY g, [LF])"
proof -
  have e: "entry_line DB (DB @ ''='' @ volumeName KEY g)" by (rule bare_entry [OF DB_ok bare_world])
  have s: "starts_with (DB @ ''='') (volume_env g)" unfolding volume_env_text starts_with_iff by simp
  have p: "\<not> is_line_end c" if "c \<in> set (DB @ ''='' @ volumeName KEY g)" for c
    using e that by (auto simp: entry_line_def plain_line_def list_ex_iff)
  have l: "volume_env g = (DB @ ''='' @ volumeName KEY g) @ [LF]" unfolding volume_env_text by simp
  obtain c cs where c: "volume_env g = c # cs" unfolding volume_env_text DB_def by simp
  have f: "find_entry DB True [] (volume_env g) = Some ([], takeWhile (\<lambda>c. \<not> is_line_end c) (volume_env g), dropWhile (\<lambda>c. \<not> is_line_end c) (volume_env g))"
    using s unfolding c by simp
  have "takeWhile (\<lambda>c. \<not> is_line_end c) (volume_env g) = DB @ ''='' @ volumeName KEY g"
      "dropWhile (\<lambda>c. \<not> is_line_end c) (volume_env g) = [LF]"
    unfolding l using p by (subst takeWhile_append2 dropWhile_append2; auto simp: is_line_end_def)+
  then show ?thesis using f by simp
qed

lemma names_world: "names_value DB (volumeName KEY g) (volume_env g)"
  unfolding names_value_def using find_world by blast

lemma start_of_ok: "\<bar>g\<bar> \<le> MAX_SAFE_INTEGER \<Longrightarrow> start_ok (start_of g)"
proof -
  have k: "env_values_ok [(DB, volumeName KEY g)]"
  proof -
    have "\<forall>c \<in> set (volumeName KEY g). c \<noteq> LF" using bare_world [of g] bare_char_facts unfolding bare_def list_all_iff by blast
    then show ?thesis using DB_ok by (auto simp: env_values_ok_def)
  qed
  have "oget (readNodeEnv (volume_env g)) DB = Some (volumeName KEY g)"
    unfolding volume_env_def readNodeEnv_text [OF k] using strip_escape [OF bare_quotable [OF bare_world]] by simp
  then show "\<bar>g\<bar> \<le> MAX_SAFE_INTEGER \<Longrightarrow> start_ok (start_of g)"
    using bare_KEY bare_world names_world by (simp add: start_ok_def start_of_def)
qed

lemma replace_world: "replaceEnv (volume_env g) DB (volumeName KEY g') = Inr (volume_env g')"
  using bare_entry(3) [OF DB_ok bare_world] unfolding replaceEnv_def find_world bare_escape [OF bare_world]
  by (simp add: volume_env_text)

lemma world_sane:
  assumes "distinct (map op_operation_id ops)" and "\<forall>o1 \<in> set ops. op_node_id o1 = KEY"
  shows "sane KEY (m_store (world g ops n))"
proof -
  have d: "distinct (map (\<lambda>o1. op_operation_id o1 @ ''.json'') ops)"
    using assms(1) by (auto simp: distinct_map inj_on_def)
  have f: "oget (map (\<lambda>o1. (op_operation_id o1 @ ''.json'', Some o1)) ops) e = Some (Some o2) \<Longrightarrow>
      o2 \<in> set ops \<and> e = op_operation_id o2 @ ''.json''" for e o2
    by (auto dest!: oget_SomeD)
  have "well_filed (m_store (world g ops n))"
    unfolding well_filed_def
  proof (intro allI conjI impI)
    show "distinct (op_entries (m_store (world g ops n)) m)" for m
      using d by (simp add: op_entries_def world_def comp_def)
    fix m e o2 assume "op_file (m_store (world g ops n)) m e = Some o2"
    then have "m = KEY \<and> oget (map (\<lambda>o1. (op_operation_id o1 @ ''.json'', Some o1)) ops) e = Some (Some o2)"
      by (auto simp: op_file_def world_def bind_eq_Some_conv split: if_splits)
    then show "e = op_operation_id o2 @ ''.json''" "op_node_id o2 = m" using f assms(2) by blast+
  qed
  moreover have "registry_ok (stored_registry (m_store (world g ops n)))"
    by (simp add: world_def stored_registry_def registry_ok_def world_node_def)
  moreover have "\<forall>(i, a) \<in> set (names_of (m_store (world g ops n))). a = KEY \<longrightarrow> i = KEY"
    by (simp add: world_def stored_registry_def names_of_def world_node_def)
  ultimately show ?thesis by (simp add: sane_def)
qed

lemma world_view:
  "view KEY (world g ops n) = (Some (g, ''r1''), Some (volume_env g),
     {(e, o1). oget (map (\<lambda>o1. (op_operation_id o1 @ ''.json'', Some o1)) ops) e = Some (Some o1) \<and> pending_cutover o1})"
proof -
  have "op_file (m_store (world g ops n)) KEY e = Some o1 \<longleftrightarrow>
      oget (map (\<lambda>o1. (op_operation_id o1 @ ''.json'', Some o1)) ops) e = Some (Some o1)" for e o1
    by (auto simp: op_file_def world_def bind_eq_Some_conv)
  moreover have "placed KEY (world g ops n) = Some (g, ''r1'')" "oget (m_env (world g ops n)) KEY = Some (volume_env g)"
    by (simp_all add: placed_def node_of_def world_def stored_registry_def world_node_def)
  ultimately show ?thesis by (simp add: view_def pend_def)
qed

lemma world_chosen: "chosen (start_of g) ''personal'' (world g [] n)"
proof -
  have s: "sane KEY (m_store (world g [] n))" by (rule world_sane) simp_all
  then have "at_start (start_of g) (world g [] n)" by (simp add: at_start_def here_def start_of_def world_view)
  moreover have "findNode (m_store (world g [] n)) ''personal'' = Inr (world_node g)"
  proof -
    have "registry_ok (stored_registry (m_store (world g [] n)))" using s by (simp add: sane_def)
    then have "read_registry (m_store (world g [] n)) = Inr \<lparr>reg_format = 1, reg_default_node_id = Some KEY, reg_nodes = [world_node g]\<rparr>"
      by (simp add: read_registry_Inr) (simp add: world_def stored_registry_def)
    then show ?thesis by (simp add: findNode_def world_node_def)
  qed
  ultimately show ?thesis by (simp add: chosen_def start_of_def world_node_def)
qed

end
