(* ===== verification/NodeProps.thy ===== *)
theory NodeProps
  imports NodeWorld JsonText
begin

text \<open>
  Properties of single operations on a managed node: the names of its volumes and the search for an unused one, its ports,
  and what the checks of a manifest establish.
\<close>

section \<open>Names of volumes\<close>

definition hexy :: "(char \<Rightarrow> bool) \<Rightarrow> bool" where
  "hexy p \<longleftrightarrow> (\<forall>c. p c \<longrightarrow> is_hex c)"

lemma matches_undashed:
  "matches preds s \<Longrightarrow> \<forall>p \<in> set preds. hexy p \<or> p = (\<lambda>c. c = CHR ''-'') \<Longrightarrow>
     list_all is_hex (filter (\<lambda>c. c \<noteq> CHR ''-'') s) \<and> length (filter (\<lambda>c. c \<noteq> CHR ''-'') s) = length (filter hexy preds)"
proof (induction preds s rule: matches.induct)
  case (3 p preds c cs)
  have d: "\<not> is_hex (CHR ''-'')" by (simp add: is_hex_def is_hex_lower_def is_digit_def)
  have n: "\<not> hexy (\<lambda>c. c = CHR ''-'')" using d by (auto simp: hexy_def)
  show ?case
  proof (cases "hexy p")
    case True
    then have "is_hex c \<and> c \<noteq> CHR ''-''" using 3 d by (auto simp: hexy_def)
    then show ?thesis using 3 True by simp
  next
    case False
    then have "p = (\<lambda>c. c = CHR ''-'')" using 3(3) by simp
    then show ?thesis using 3 n by simp
  qed
qed simp_all

lemma runtimeKey_uuid:
  assumes "assertUuid nid f = Inr ()"
  shows "length (runtimeKey nid) = 32" and "list_all is_hex_lower (runtimeKey nid)"
proof -
  have m: "matches (uuid_pattern is_hex is_version_1_8 is_variant) nid" using assms by (simp add: assertUuid_def)
  have h: "hexy is_hex" "hexy is_version_1_8" "hexy is_variant"
    by (auto simp: hexy_def is_hex_def is_hex_lower_def is_digit_def is_version_1_8_def is_variant_def)
  have n: "\<not> hexy (\<lambda>c. c = CHR ''-'')" by (auto simp: hexy_def is_hex_def is_hex_lower_def is_digit_def)
  have "length (filter hexy (uuid_pattern is_hex is_version_1_8 is_variant)) = 32"
    by (simp add: uuid_pattern_def h n)
  with matches_undashed [OF m] h have u: "list_all is_hex (filter (\<lambda>c. c \<noteq> CHR ''-'') nid)" "length (filter (\<lambda>c. c \<noteq> CHR ''-'') nid) = 32"
    by (auto simp: uuid_pattern_def)
  have l: "is_hex c \<Longrightarrow> is_hex_lower (lower_char c)" for c
    by (auto simp: is_hex_def is_hex_lower_def is_digit_def is_upper_def code_lower_char)
  show "length (runtimeKey nid) = 32" "list_all is_hex_lower (runtimeKey nid)"
    using u l by (auto simp: runtimeKey_def to_lower_def list_all_iff)
qed

lemma dec_str_front: "0 < n \<Longrightarrow> \<exists>c cs. dec_str n = c # cs \<and> is_digit c \<and> c \<noteq> CHR ''0'' \<and> list_all is_digit cs"
proof (induction n rule: dec_str.induct)
  case (1 n)
  show ?case
  proof (cases "n < 10")
    case True
    have "char_of (48 + n) \<noteq> CHR ''0''"
    proof
      assume "char_of (48 + n) = CHR ''0''"
      from arg_cong [of _ _ code, OF this] show False using True 1 by simp
    qed
    then show ?thesis using True by (auto simp: dec_str.simps [of n] is_digit_def)
  next
    case False
    then have "0 < n div 10" by (simp add: div_greater_zero_iff)
    moreover have "is_digit (char_of (48 + n mod 10 :: nat))" by (simp add: is_digit_def)
    ultimately show ?thesis using 1 False by (auto simp: dec_str.simps [of n])
  qed
qed

lemma volume_name_ok:
  assumes "assertUuid nid f = Inr ()" and "1 \<le> g"
  shows "validateVolume (volumeName nid g) = Inr ()"
proof -
  have k: "length (runtimeKey nid) = 32" "list_all is_hex_lower (runtimeKey nid)" using runtimeKey_uuid [OF assms(1)] .
  obtain c cs where c: "dec_str (nat g) = c # cs" "is_digit c" "c \<noteq> CHR ''0''" "list_all is_digit cs"
    using dec_str_front [of "nat g"] assms(2) by auto
  have "take 32 (runtimeKey nid @ r) = runtimeKey nid" "drop 32 (runtimeKey nid @ r) = r" for r using k(1) by simp_all
  then show ?thesis
    using k c assms(2) by (simp add: validateVolume_def volumeName_def dec_int_def volume_suffix_ok_def flip: drop_drop)
qed

lemma dec_int_inj: "dec_int g = dec_int g' \<Longrightarrow> g = g'"
proof -
  have d: "dec_str n \<noteq> CHR ''-'' # s" for n s
    using dec_str_digits [of n] by (auto simp: is_digit_def)
  have i: "dec_str m = dec_str n \<Longrightarrow> m = n" for m n using dec_str_inj [of m "[]" n "[]"] by (simp add: delim_def)
  show "dec_int g = dec_int g' \<Longrightarrow> g = g'"
    using d i [of "nat g" "nat g'"] i [of "nat (- g)" "nat (- g')"] by (auto simp: dec_int_def split: if_splits) (metis d)+
qed

text \<open>
  Every UUID has valid volume names, one for each generation.  The volume of a generation from 1 on passes
  \<open>validateVolume\<close>, so no command on it is refused, and two generations never share a volume.
\<close>

theorem volume_names_valid:
  assumes "assertUuid nid f = Inr ()" and "1 \<le> g"
  shows "validateVolume (volumeName nid g) = Inr () \<and> inj (volumeName nid)"
  using volume_name_ok [OF assms] dec_int_inj by (auto simp: inj_def volumeName_def)

theorem volume_names_valid_witness:
  "validateVolume (volumeName ''0198c5a0-0000-7000-8000-00000000000A'' 12) = Inr ()"
proof -
  have "assertUuid ''0198c5a0-0000-7000-8000-00000000000A'' [] = Inr ()" by code_simp
  from volume_names_valid [OF this, of 12] show ?thesis by simp
qed

section \<open>The next generation\<close>

lemma volume_exists_run:
  assumes "validateVolume v = Inr ()" and "m_left s = Suc n"
  shows "volume_exists h v s = (Ret (cr_ok (h_run h (m_log s) (Docker [''volume'', ''inspect'', v]))),
    s\<lparr>m_left := n, m_log := m_log s @ [Docker [''volume'', ''inspect'', v]]\<rparr>)"
  using assms by (simp add: volume_exists_def from_res_def after_def bind_def ret_def docker_cmd_def perform_act_def step_def Let_def)

lemma search_finds:
  assumes "assertUuid nid f = Inr ()" and "1 \<le> g" and "finite V"
    and "\<And>l g. cr_ok (h_run h l (Docker [''volume'', ''inspect'', volumeName nid g])) \<longleftrightarrow> g \<in> V"
  shows "card {v \<in> V. g \<le> v} < m_left s \<Longrightarrow> \<exists>g' s'. search_generation h nid g s = (Ret g', s') \<and> g \<le> g' \<and> g' \<notin> V \<and>
    {g..<g'} \<subseteq> V \<and> m_store s' = m_store s \<and> m_env s' = m_env s"
  using assms(2)
proof (induction "card {v \<in> V. g \<le> v}" arbitrary: g s rule: less_induct)
  case less
  obtain n where n: "m_left s = Suc n" using less.prems(1) by (cases "m_left s") auto
  define s1 where "s1 = s\<lparr>m_left := n, m_log := m_log s @ [Docker [''volume'', ''inspect'', volumeName nid g]]\<rparr>"
  have r: "volume_exists h (volumeName nid g) s = (Ret (g \<in> V), s1)"
    using volume_exists_run [OF volume_name_ok [OF assms(1) less.prems(2)] n] by (simp add: assms(4) s1_def)
  have e: "search_generation h nid g s = (if g \<in> V then search_generation h nid (g + 1) s1 else (Ret g, s1))"
    by (simp add: search_generation.simps [of h nid g s] r)
  show ?case
  proof (cases "g \<in> V")
    case True
    have f: "finite {v \<in> V. g \<le> v}" using assms(3) by simp
    have "{v \<in> V. g + 1 \<le> v} \<subset> {v \<in> V. g \<le> v}" using True by force
    from psubset_card_mono [OF f this] have c: "card {v \<in> V. g + 1 \<le> v} < card {v \<in> V. g \<le> v}" .
    have "card {v \<in> V. g + 1 \<le> v} < m_left s1" using c less.prems(1) n by (simp add: s1_def)
    then obtain g' s' where "search_generation h nid (g + 1) s1 = (Ret g', s')" "g + 1 \<le> g'" "g' \<notin> V" "{g + 1..<g'} \<subseteq> V"
        "m_store s' = m_store s1" "m_env s' = m_env s1"
      using less.hyps [OF c] less.prems(2) by force
    moreover from this have "{g..<g'} \<subseteq> V" using True by (metis atLeastLessThan_iff atLeastLessThan_singleton insert_subset subsetI subset_iff zle_add1_eq_le le_less add1_zle_eq)
    ultimately show ?thesis using e True by (simp add: s1_def)
  next
    case False
    then show ?thesis using e by (simp add: s1_def)
  qed
qed

text \<open>
  C12: The search for an unused volume ends.  If finitely many of the node's generations have a volume, and docker answers for
  it, then \<open>nextUnusedGeneration\<close> returns, after at most one command for each of them and one more, the least generation
  after the current one that has none; nothing is changed.
\<close>

theorem next_generation_found:
  assumes "assertUuid (n_node_id node) f = Inr ()" and "0 \<le> n_generation node" and "finite V"
    and "\<And>l g. cr_ok (h_run h l (Docker [''volume'', ''inspect'', volumeName (n_node_id node) g])) \<longleftrightarrow> g \<in> V"
    and "card {v \<in> V. n_generation node < v} < m_left s"
  shows "\<exists>g s'. nextUnusedGeneration h node s = (Ret g, s') \<and> n_generation node < g \<and> g \<notin> V \<and>
    (\<forall>v. n_generation node < v \<and> v < g \<longrightarrow> v \<in> V) \<and> m_store s' = m_store s \<and> m_env s' = m_env s"
proof -
  have c: "{v \<in> V. n_generation node + 1 \<le> v} = {v \<in> V. n_generation node < v}" by auto
  obtain g s' where "search_generation h (n_node_id node) (n_generation node + 1) s = (Ret g, s')" "n_generation node + 1 \<le> g" "g \<notin> V"
      "{n_generation node + 1..<g} \<subseteq> V" "m_store s' = m_store s" "m_env s' = m_env s"
    using search_finds [OF assms(1) _ assms(3,4), of "n_generation node + 1" s] assms(2,5) by (auto simp: c)
  then show ?thesis unfolding nextUnusedGeneration_def by (intro exI [of _ g] exI [of _ s']) (auto simp: subset_iff)
qed

theorem next_generation_found_witness:
  "\<exists>s'. nextUnusedGeneration (dead_host\<lparr>h_run := \<lambda>_ a. \<lparr>cr_ok = (a = Docker [''volume'', ''inspect'', volumeName KEY 2]), cr_stdout = [], cr_stderr = []\<rparr>\<rparr>)
     (world_node 1) (world 1 [] 2) = (Ret 3, s')"
proof -
  let ?h = "dead_host\<lparr>h_run := \<lambda>_ a. \<lparr>cr_ok = (a = Docker [''volume'', ''inspect'', volumeName KEY 2]), cr_stdout = [], cr_stderr = []\<rparr>\<rparr>"
  have n: "n_node_id (world_node 1) = KEY" "n_generation (world_node 1) = 1" by (simp_all add: world_node_def)
  have u: "assertUuid KEY [] = Inr ()" unfolding KEY_def by code_simp
  have v: "cr_ok (h_run ?h l (Docker [''volume'', ''inspect'', volumeName (n_node_id (world_node 1)) g])) \<longleftrightarrow> g \<in> {2}" for l g
    using dec_int_inj [of g 2] by (auto simp: n volumeName_def)
  have c: "{v :: int. v = 2 \<and> 1 < v} = {2}" by auto
  have "\<exists>g s'. nextUnusedGeneration ?h (world_node 1) (world 1 [] 2) = (Ret g, s') \<and> n_generation (world_node 1) < g \<and> g \<notin> {2} \<and>
      (\<forall>v. n_generation (world_node 1) < v \<and> v < g \<longrightarrow> v \<in> {2}) \<and> m_store s' = m_store (world 1 [] 2) \<and> m_env s' = m_env (world 1 [] 2)"
    by (rule next_generation_found [OF _ _ _ v]) (use u in \<open>simp_all add: n c\<close>, simp add: world_def)
  then obtain g s' where g: "nextUnusedGeneration ?h (world_node 1) (world 1 [] 2) = (Ret g, s')" "1 < g" "g \<noteq> 2"
      "\<forall>v. 1 < v \<and> v < g \<longrightarrow> v = 2" by (auto simp: n)
  from g(4) [rule_format, of 3] g(2,3) have "g = 3" by presburger
  then show ?thesis using g(1) by blast
qed

section \<open>Ports\<close>

lemma check_ports_iff:
  "check_ports free used ports = Inr () \<longleftrightarrow> distinct ports \<and> (\<forall>p \<in> set ports. 1024 \<le> p \<and> p \<le> 65535 \<and> free p \<and> p \<notin> set used)"
proof (induction free used ports rule: check_ports.induct)
  case (2 free used port ports)
  show ?case
  proof (cases "1024 \<le> port \<and> port \<le> 65535 \<and> port \<notin> set used \<and> free port")
    case True
    then show ?thesis using 2 by (auto simp: validatePort_def)
  next
    case False
    then show ?thesis by (auto simp: validatePort_def require_def)
  qed
qed simp

text \<open>
  The ports of a node.  \<open>allocatePorts\<close> accepts exactly when the alias has standard ports or all three are requested,
  and the three ports, requested or standard, are different, unprivileged, free and of no other node; then it gives those.
\<close>

theorem allocated_ports:
  "allocatePorts free existing alias requested = Inr ports \<longleftrightarrow>
     (alias_ports alias \<noteq> None \<or> rq_api requested \<noteq> None \<and> rq_dashboard requested \<noteq> None \<and> rq_mcp requested \<noteq> None) \<and>
     ports = \<lparr>port_api = requested_port (rq_api requested) (port_api (the (alias_ports alias))),
              port_dashboard = requested_port (rq_dashboard requested) (port_dashboard (the (alias_ports alias))),
              port_mcp = requested_port (rq_mcp requested) (port_mcp (the (alias_ports alias)))\<rparr> \<and>
     distinct (node_port_list ports) \<and>
     (\<forall>p \<in> set (node_port_list ports). 1024 \<le> p \<and> p \<le> 65535 \<and> free p \<and> (\<forall>n \<in> set existing. p \<notin> set (node_port_list (n_ports n))))"
proof -
  let ?given = "rq_api requested \<noteq> None \<and> rq_dashboard requested \<noteq> None \<and> rq_mcp requested \<noteq> None"
  let ?ports = "\<lparr>port_api = requested_port (rq_api requested) (port_api (the (alias_ports alias))),
      port_dashboard = requested_port (rq_dashboard requested) (port_dashboard (the (alias_ports alias))),
      port_mcp = requested_port (rq_mcp requested) (port_mcp (the (alias_ports alias)))\<rparr>"
  let ?used = "concat (map (\<lambda>n. node_port_list (n_ports n)) existing)"
  have e: "allocatePorts free existing alias requested =
      (if alias_ports alias = None \<and> \<not> ?given then Inl ''Non-standard Node aliases require explicit api, dashboard, and mcp ports''
       else rbind (check_ports free ?used (node_port_list ?ports)) (\<lambda>_. Inr ?ports))"
    by (cases "alias_ports alias") (auto simp: allocatePorts_def Let_def requested_port_def)
  have c: "rbind (check_ports free ?used (node_port_list ?ports)) (\<lambda>_. Inr ?ports) = Inr ports \<longleftrightarrow>
      ports = ?ports \<and> check_ports free ?used (node_port_list ?ports) = Inr ()"
    by (cases "check_ports free ?used (node_port_list ?ports)") auto
  show ?thesis unfolding e if_distrib [of "\<lambda>r. r = Inr ports"] c check_ports_iff by auto
qed

theorem allocated_ports_witness:
  "allocatePorts (\<lambda>p. p \<noteq> 1) [] ''personal'' \<lparr>rq_api = None, rq_dashboard = Some 2000, rq_mcp = None\<rparr> =
     Inr \<lparr>port_api = 18001, port_dashboard = 2000, port_mcp = 18765\<rparr>"
  unfolding allocated_ports by (simp add: alias_ports_def requested_port_def node_port_list_def)

section \<open>Manifests\<close>

text \<open>A value with the fields of its objects in the order of \<open>localeCompare\<close>\<close>

fun in_order :: "(string \<Rightarrow> string) \<Rightarrow> json \<Rightarrow> json" where
  "in_order collate (JArr xs) = JArr (map (in_order collate) xs)"
| "in_order collate (JObj kvs) = JObj (sort_key (\<lambda>kv. collate (fst kv)) (map (\<lambda>kv. (fst kv, in_order collate (snd kv))) kvs))"
| "in_order collate v = v"

lemma sort_key_map:
  assumes "\<And>x. k (f x) = k' x"
  shows "sort_key k (map f xs) = map f (sort_key k' xs)"
proof -
  have i: "insort_key k (f x) (map f ys) = map f (insort_key k' x ys)" for x ys
    by (induction ys) (simp_all add: assms)
  show ?thesis by (induction xs) (simp_all add: i)
qed

lemma stable_in_order: "stableStringify fmt collate v = stringify fmt (in_order collate v)"
proof (induction v)
  case (JArr xs)
  then have "map (stableStringify fmt collate) xs = map (stringify fmt) (map (in_order collate) xs)" by simp
  then show ?case unfolding stableStringify.simps in_order.simps stringify.simps by (simp only:)
next
  case (JObj kvs)
  let ?t = "\<lambda>kv. (fst kv, quote (fst kv) @ '':'' @ stringify fmt (snd kv))"
  have e: "map (\<lambda>kv. (fst kv, quote (fst kv) @ '':'' @ stableStringify fmt collate (snd kv))) kvs =
      map ?t (map (\<lambda>kv. (fst kv, in_order collate (snd kv))) kvs)"
    using JObj by (auto simp: snds.intros)
  have k: "sort_key (\<lambda>kv. collate (fst kv)) (map ?t ys) = map ?t (sort_key (\<lambda>kv. collate (fst kv)) ys)" for ys
    by (rule sort_key_map) simp
  have m: "map snd (map ?t ys) = map (\<lambda>kv. quote (fst kv) @ '':'' @ stringify fmt (snd kv)) ys" for ys by simp
  show ?case unfolding stableStringify.simps in_order.simps stringify.simps e k m ..
qed simp_all

lemma plain_in_order: "plain_json v \<Longrightarrow> plain_json (in_order collate v)"
  by (induction v) (auto simp: list_all_iff snds.intros)

lemma told_in_order:
  assumes "plain_json (JObj a)" "plain_json (JObj b)" "distinct (map fst a)" "distinct (map fst b)" "inj collate"
  shows "stableStringify fmt collate (JObj a) = stableStringify fmt collate (JObj b) \<longleftrightarrow>
    (\<forall>k. map_option (in_order collate) (oget a k) = map_option (in_order collate) (oget b k))"
proof -
  define f where "f = (\<lambda>kv :: string \<times> json. (fst kv, in_order collate (snd kv)))"
  have d: "distinct (map fst (map f a))" "distinct (map fst (map f b))" using assms(3,4) by (simp_all add: f_def comp_def)
  have o: "oget (map f kvs) k = map_option (in_order collate) (oget kvs k)" for kvs k
    unfolding f_def by (rule oget_mapped)
  have s: "stableStringify fmt collate (JObj a) = stableStringify fmt collate (JObj b) \<longleftrightarrow>
      sort_key (\<lambda>kv. collate (fst kv)) (map f a) = sort_key (\<lambda>kv. collate (fst kv)) (map f b)"
  proof -
    have i: "in_order collate (JObj kvs) = JObj (sort_key (\<lambda>kv. collate (fst kv)) (map f kvs))" for kvs
      unfolding f_def by (rule in_order.simps)
    have "stringify fmt A = stringify fmt B \<longleftrightarrow> A = B" if "plain_json A" "plain_json B" for A B
      using stringify_inj [OF that] by metis
    from this [OF plain_in_order [OF assms(1)] plain_in_order [OF assms(2)], of collate collate]
    show ?thesis unfolding stable_in_order i json.inject .
  qed
  have inj: "inj_on (\<lambda>kv. collate (fst kv)) (set kvs)" if "distinct (map fst kvs)" for kvs :: fields
  proof (rule inj_onI)
    fix x y assume "x \<in> set kvs" "y \<in> set kvs" "collate (fst x) = collate (fst y)"
    then show "x = y" using that injD [OF assms(5)] by (metis distinct_map inj_onD)
  qed
  have m: "sort_key (\<lambda>kv. collate (fst kv)) (map f a) = sort_key (\<lambda>kv. collate (fst kv)) (map f b) \<longleftrightarrow> set (map f a) = set (map f b)"
  proof
    assume "sort_key (\<lambda>kv. collate (fst kv)) (map f a) = sort_key (\<lambda>kv. collate (fst kv)) (map f b)"
    then show "set (map f a) = set (map f b)" by (metis set_sort)
  next
    assume "set (map f a) = set (map f b)"
    then have "mset (map f a) = mset (map f b)"
      using d by (metis distinct_map set_eq_iff_mset_eq_distinct)
    then show "sort_key (\<lambda>kv. collate (fst kv)) (map f a) = sort_key (\<lambda>kv. collate (fst kv)) (map f b)"
      using inj [OF d(1)] d by (intro sort_key_inj_key_eq) (simp_all add: distinct_map)
  qed
  have "set (map f a) = set (map f b) \<longleftrightarrow> (\<forall>k. oget (map f a) k = oget (map f b) k)"
  proof
    assume "set (map f a) = set (map f b)"
    then show "\<forall>k. oget (map f a) k = oget (map f b) k"
      using oget_Some_iff [OF d(1)] oget_Some_iff [OF d(2)] by (metis not_None_eq)
  next
    assume "\<forall>k. oget (map f a) k = oget (map f b) k"
    then show "set (map f a) = set (map f b)"
      using oget_Some_iff [OF d(1)] oget_Some_iff [OF d(2)] by (auto simp del: set_map)
  qed
  then show ?thesis unfolding s m o .
qed

definition manifest_ok :: "database_manifest \<Rightarrow> bool" where
  "manifest_ok m \<longleftrightarrow> (\<forall>fs \<in> {dm_rows m, dm_extensions m, dm_vectors m}. plain_json (JObj fs) \<and> distinct (map fst fs))"

definition same_field :: "(string \<Rightarrow> string) \<Rightarrow> fields \<Rightarrow> fields \<Rightarrow> bool" where
  "same_field collate a b \<longleftrightarrow> (\<forall>k. map_option (in_order collate) (oget a k) = map_option (in_order collate) (oget b k))"

text \<open>
  A backup is kept only of a database that stood still.  \<open>sameLogicalManifest\<close>, by which a snapshot compares the manifests
  before and after its dump, holds exactly when the schema revisions are equal and every table has the same count, every
  extension the same version and every vector column the same type, in whatever order they are listed: for manifests whose
  numbers are natural and whose keys are distinct, which are ordered by \<open>localeCompare\<close> without ties.
\<close>

theorem same_manifest_iff:
  assumes "manifest_ok left" and "manifest_ok right" and "inj (h_collate h)"
  shows "sameLogicalManifest h left right \<longleftrightarrow> dm_revision left = dm_revision right \<and>
    same_field (h_collate h) (dm_rows left) (dm_rows right) \<and> same_field (h_collate h) (dm_extensions left) (dm_extensions right) \<and>
    same_field (h_collate h) (dm_vectors left) (dm_vectors right)"
  using assms by (simp add: sameLogicalManifest_def Let_def manifest_ok_def same_field_def told_in_order del: stableStringify.simps plain_json.simps)

definition counted :: "fields \<Rightarrow> database_manifest" where
  "counted rows = \<lparr>dm_bytes = 1, dm_revision = ''r1'', dm_rows = rows, dm_extensions = [(''vector'', JStr ''0.8'')], dm_vectors = []\<rparr>"

theorem same_manifest_iff_witness:
  "sameLogicalManifest dead_host (counted [(''jobs'', JNum 2), (''claims'', JNum 1)]) (counted [(''claims'', JNum 1), (''jobs'', JNum 2)]) \<and>
   \<not> sameLogicalManifest dead_host (counted [(''jobs'', JNum 2)]) (counted [(''jobs'', JNum 3)])"
proof -
  have ok: "manifest_ok (counted [(''jobs'', JNum 2), (''claims'', JNum 1)])" "manifest_ok (counted [(''claims'', JNum 1), (''jobs'', JNum 2)])"
      "manifest_ok (counted [(''jobs'', JNum 2)])" "manifest_ok (counted [(''jobs'', JNum 3)])"
    by (simp_all add: manifest_ok_def counted_def)
  have i: "inj (h_collate dead_host)" by (simp add: dead_host_def)
  show ?thesis unfolding same_manifest_iff [OF ok(1,2) i] same_manifest_iff [OF ok(3,4) i]
    by (auto simp: counted_def same_field_def)
qed

end
