(* ===== verification/NodeRecovery.thy ===== *)
theory NodeRecovery
  imports NodeCrash
begin

text \<open>
  The restart of the manager: \<open>initialize\<close> takes a node that an interrupted cutover left anywhere back to where it was,
  leaves every other node's view alone, and may die and be run again.
\<close>

section \<open>Steps on other nodes\<close>

lemma other_env: "m \<noteq> nid \<Longrightarrow> maintains (here nid v) (write_env m raw)"
  unfolding write_env_def by (rule maintains_step) (simp add: here_def view_def placed_def pend_def)

lemma other_node:
  assumes "m \<noteq> nid" and "keeps_names f"
  shows "maintains (here nid v) (update_node h m f)"
  unfolding update_node_def store_op_def
proof (rule maintains_step)
  fix s n assume "here nid v s"
  then have s: "here nid v (s\<lparr>m_left := n\<rparr>)" by (rule here.left)
  obtain r st where u: "updateNode m f (h_now h) (m_store (s\<lparr>m_left := n\<rparr>)) = (r, st)" by fastforce
  have "sane nid (m_store (s\<lparr>m_left := n\<rparr>))" using s by (simp add: here_def)
  from updated_view [OF this assms(2) u] have "here nid v (s\<lparr>m_left := n\<rparr>\<lparr>m_store := st\<rparr>)"
    using s assms(1) by (simp add: here_def view_def placed_def pend_def)
  then show "here nid v (snd (case updateNode m f (h_now h) (m_store (s\<lparr>m_left := n\<rparr>)) of
      (Inl e, st) \<Rightarrow> (Throw e, s\<lparr>m_left := n\<rparr>\<lparr>m_store := st\<rparr>) | (Inr x, st) \<Rightarrow> (Ret x, s\<lparr>m_left := n\<rparr>\<lparr>m_store := st\<rparr>)))"
    unfolding u by (cases r) simp_all
qed

text \<open>An operation whose record does not touch what is pending of the node\<close>

definition beside :: "string \<Rightarrow> (string \<times> operation_record) set \<Rightarrow> operation_record \<Rightarrow> bool" where
  "beside nid c o1 \<longleftrightarrow> (op_node_id o1 = nid \<longrightarrow>
     \<not> truthy_opt (result_field o1 ''cutover'') \<and> (\<forall>p \<in> c. fst p \<noteq> op_operation_id o1 @ ''.json''))"

lemma beside_write:
  assumes "beside nid c operation" and "result_field (patch operation) ''cutover'' = result_field operation ''cutover''"
  shows "triple (here nid (k, e, c)) (update_op h operation patch)
    (\<lambda>o1 s. here nid (k, e, c) s \<and> beside nid c o1 \<and> op_result o1 = op_result (patch operation)) E (here nid (k, e, c))"
  unfolding update_op_def store_op_def
proof (rule triple_step)
  fix s n assume "here nid (k, e, c) s"
  then have h: "here nid (k, e, c) (s\<lparr>m_left := n\<rparr>)" by (rule here.left)
  define o1 where "o1 = patched (h_now h) patch operation"
  have o1: "op_node_id o1 = op_node_id operation" "op_operation_id o1 = op_operation_id operation" "op_result o1 = op_result (patch operation)"
    by (simp_all add: o1_def patched_def)
  then have r: "result_field o1 ''cutover'' = result_field operation ''cutover''" using assms(2) by (simp add: result_field_def)
  have b: "beside nid c o1" using assms(1) o1 r by (simp add: beside_def)
  have "pend_write o1 c = c" if "op_node_id o1 = nid"
    using b that by (auto simp: beside_def pend_write_def pending_cutover_def)
  then show "case (case (case updateOperation (h_now h) operation patch (m_store (s\<lparr>m_left := n\<rparr>)) of (operation, st) \<Rightarrow> (Inr operation, st)) of
       (Inl e, st) \<Rightarrow> (Throw e, s\<lparr>m_left := n\<rparr>\<lparr>m_store := st\<rparr>) | (Inr x, st) \<Rightarrow> (Ret x, s\<lparr>m_left := n\<rparr>\<lparr>m_store := st\<rparr>)) of
      (Ret o1, s') \<Rightarrow> here nid (k, e, c) s' \<and> beside nid c o1 \<and> op_result o1 = op_result (patch operation)
    | (Throw e', s') \<Rightarrow> E s' | (Dead, s') \<Rightarrow> here nid (k, e, c) s'"
    using write_operation_view [OF h, of o1] b o1 by (simp add: updateOperation_def Let_def o1_def [symmetric] split: if_splits)
qed

lemma operations_filed: "o1 \<in> set (operations_of st nid) \<Longrightarrow> op_node_id o1 = nid \<and> (\<exists>e. op_file st nid e = Some o1)"
  by (auto simp: operations_of_def map_filter_def split: if_splits)

lemma filed_listed:
  assumes "well_filed st" and "op_file st nid e = Some o1"
  shows "o1 \<in> set (operations_of st nid)"
proof -
  have f: "e = op_operation_id o1 @ ''.json''" "op_node_id o1 = nid" using assms by (auto simp: well_filed_def)
  then have x: "ends_with ''.json'' e" by (simp only: ends_with_append)
  obtain files where "oget (s_operations st) nid = Some files" "oget files e = Some (Some o1)" using op_file_some [OF assms(2)] by blast
  then have "e \<in> set (op_entries st nid)" by (auto simp: op_entries_def dest: oget_SomeD intro: rev_image_eqI)
  then show ?thesis using f x assms(2) by (force simp: operations_of_def map_filter_def)
qed

lemma listed_beside:
  assumes "here nid (k, e, c) s" and "\<And>p. p \<in> c \<Longrightarrow> \<not> sel (snd p)" and "o1 \<in> set (operations_of (m_store s) m)" and "sel o1"
    and "op_state o1 \<in> {OsRunning, OsNeedsAttention}"
  shows "beside nid c o1"
proof -
  obtain en where f: "op_node_id o1 = m" "op_file (m_store s) m en = Some o1" using operations_filed [OF assms(3)] by blast
  have w: "well_filed (m_store s)" and c: "c = pend nid s" using assms(1) by (simp_all add: here_def sane_def view_def)
  have en: "en = op_operation_id o1 @ ''.json''" using w f(2) by (auto simp: well_filed_def)
  show ?thesis
    unfolding beside_def
  proof (intro impI conjI ballI)
    assume nid: "op_node_id o1 = nid"
    then have f': "op_file (m_store s) nid (op_operation_id o1 @ ''.json'') = Some o1" using f en by simp
    show "\<not> truthy_opt (result_field o1 ''cutover'')"
      using assms(2,4,5) f' by (auto simp: c pend_def pending_cutover_def)
    show "fst p \<noteq> op_operation_id o1 @ ''.json''" if "p \<in> c" for p
      using assms(2) [OF that] assms(4) that f' by (auto simp: c pend_def)
  qed
qed

section \<open>The parts of \<open>initialize\<close>\<close>

lemma no_owner: "(\<And>pid. \<not> h_alive h pid) \<Longrightarrow> \<not> owner_alive (h_alive h) st nid"
  by (simp add: owner_alive_def processIsAlive_def split: option.split)

definition attend :: "host \<Rightarrow> string \<times> operation_record \<Rightarrow> string \<times> operation_record" where
  "attend h p = (fst p, if op_state (snd p) = OsRunning then attended (h_now h) (snd p) else snd p)"

lemma initialized: "maintains (here nid v) (store_op (\<lambda>st. (Inr (), initialize_store st)))"
  unfolding store_op_def
  by (rule maintains_step) (simp add: here_def sane_def view_def placed_def pend_def node_of_def names_of_def well_filed_def
      op_entries_def op_file_def)

lemma recover_here:
  assumes "\<And>pid. \<not> h_alive h pid"
  shows "triple (here nid (Some k, e, c)) (store_op (recoverInterruptedOperations (h_alive h) (h_now h)))
    (\<lambda>_. here nid (Some k, e, attend h ` c)) E (here nid (Some k, e, c))"
  unfolding store_op_def
proof (rule triple_step)
  fix s n assume s: "here nid (Some k, e, c) s"
  obtain r st where u: "recoverInterruptedOperations (h_alive h) (h_now h) (m_store s) = (r, st)" by fastforce
  have w: "well_filed (m_store s)" "registry_ok (stored_registry (m_store s))" using s by (simp_all add: here_def sane_def)
  note rec = recovered_all [OF w u]
  have reg: "nid \<in> registered (m_store s)"
    using s by (auto simp: here_def view_def placed_def node_of_def registered_def find_Some_iff)
  have f: "op_file st nid en = map_option (\<lambda>o1. snd (attend h (en, o1))) (op_file (m_store s) nid en)" for en
    using rec [of nid en] reg no_owner [OF assms]
    by (auto simp: attend_def attended_def patched_def interrupted_patch_def split: option.splits)
  have pc: "pending_cutover (snd (attend h p)) = pending_cutover (snd p)" for p
    by (simp add: pending_cutover_def attend_def attended_def patched_def interrupted_patch_def result_field_def)
  have fst: "fst (attend h p) = fst p" for p by (simp add: attend_def)
  have "{(en, o1). op_file st nid en = Some o1 \<and> pending_cutover o1} = attend h ` pend nid s"
  proof (intro set_eqI iffI)
    fix p assume "p \<in> {(en, o1). op_file st nid en = Some o1 \<and> pending_cutover o1}"
    then obtain o0 where o0: "op_file (m_store s) nid (fst p) = Some o0" "snd p = snd (attend h (fst p, o0))" "pending_cutover (snd p)"
      by (cases p) (auto simp: f)
    have "p = attend h (fst p, o0)" using o0(2) fst [of "(fst p, o0)"] by (metis fst_conv prod.collapse)
    then show "p \<in> attend h ` pend nid s" using o0 pc [of "(fst p, o0)"] by (intro rev_image_eqI) (auto simp: pend_def)
  next
    fix p assume "p \<in> attend h ` pend nid s"
    then obtain q where q: "q \<in> pend nid s" "p = attend h q" by blast
    then show "p \<in> {(en, o1). op_file st nid en = Some o1 \<and> pending_cutover o1}"
      using pc [of q] fst [of q] by (cases q; cases p) (auto simp: pend_def f)
  qed
  moreover have "stored_registry st = stored_registry (m_store s)" "well_filed st" "\<exists>x. r = Inr x" using rec by blast+
  ultimately show "case (case recoverInterruptedOperations (h_alive h) (h_now h) (m_store (s\<lparr>m_left := n\<rparr>)) of
       (Inl e, st) \<Rightarrow> (Throw e, s\<lparr>m_left := n\<rparr>\<lparr>m_store := st\<rparr>) | (Inr x, st) \<Rightarrow> (Ret x, s\<lparr>m_left := n\<rparr>\<lparr>m_store := st\<rparr>)) of
      (Ret _, s') \<Rightarrow> here nid (Some k, e, attend h ` c) s' | (Throw e', s') \<Rightarrow> E s' | (Dead, s') \<Rightarrow> here nid (Some k, e, c) s'"
    using s u by (auto simp: here_def sane_def view_def placed_def pend_def node_of_def names_of_def)
qed

lemma found_listed: "List.find sel (rev (operations_of st m)) = Some o1 \<Longrightarrow> o1 \<in> set (operations_of st m) \<and> sel o1"
  by (auto simp: find_Some_iff) (metis length_rev nth_mem set_rev)

lemma model_result_cutover: "oget (case Option.bind r as_object of None \<Rightarrow> [] | Some fs \<Rightarrow> fs) k = Option.bind (Option.bind r as_object) (\<lambda>fs. oget fs k)"
  by (cases "Option.bind r as_object") simp_all

lemma recovered_beside:
  assumes "beside nid c o1"
  shows "maintains (here nid (k, e, c)) (recovered_op h o1 phase restarted)"
proof (rule maintains_triple)
  define patch :: "operation_record \<Rightarrow> operation_record" where
    "patch = (\<lambda>o2. o2\<lparr>op_state := OsRecovered, op_phase := phase, op_completed_at := Some (h_now h), op_error := None,
       op_result := Some (modelRecoveryResult h (op_result o1) restarted)\<rparr>)"
  have "result_field (patch o1) ''cutover'' = result_field o1 ''cutover''"
    by (simp add: patch_def result_field_def modelRecoveryResult_def model_result_cutover)
  then have w: "triple (here nid (k, e, c)) (update_op h o1 patch) (\<lambda>_. here nid (k, e, c)) (here nid (k, e, c)) (here nid (k, e, c))"
    by (intro triple_weaken [OF beside_write [OF assms, where patch = patch]]) auto
  show "triple (here nid (k, e, c)) (recovered_op h o1 phase restarted) (\<lambda>_. here nid (k, e, c)) (here nid (k, e, c)) (here nid (k, e, c))"
    unfolding recovered_op_def patch_def [symmetric] by (rule triple_after [OF w triple_ret])
qed

lemma models_here:
  assumes "\<And>p. p \<in> c \<Longrightarrow> op_kind (snd p) \<noteq> OpModelsConfigure"
  shows "maintains (here nid (k, e, c)) (reconcile_models h node)"
proof -
  let ?P = "here nid (k, e, c)"
  have r: "maintains ?P (with_lock h m (bind (find_node m) (\<lambda>latest. bind (update_op h o1 patch) (\<lambda>recovering.
      catch (recover_models h latest recovering) (\<lambda>_. after (attempt (set_phase h m PhFailed)) (after (update_op h recovering patch') (ret ())))))))"
    if b: "beside nid c o1" and p: "\<And>o1. op_result (patch o1) = op_result o1" "\<And>o1. op_result (patch' o1) = op_result o1" for m o1 patch patch'
  proof (rule here.locked, rule maintains_bind [OF here.files_read(3)])
    fix latest
    have w: "triple ?P (update_op h o1 patch) (\<lambda>o1 s. ?P s \<and> beside nid c o1) E ?P" for E
      by (rule triple_weaken [OF beside_write [OF b]]) (auto simp: p result_field_def)
    have f: "maintains ?P (update_op h o2 patch')" if "beside nid c o2" for o2
      by (rule maintains_triple, rule triple_weaken [OF beside_write [OF that]]) (auto simp: p result_field_def)
    have m: "maintains ?P (catch (recover_models h latest o2) (\<lambda>_. after (attempt (set_phase h m PhFailed)) (after (update_op h o2 patch') (ret ()))))"
      if "beside nid c o2" for o2
      using recovered_beside [OF that] f [OF that]
      by (auto simp: recover_models_def Let_def intro!: maintained here.all_rules)
    show "maintains ?P (bind (update_op h o1 patch) (\<lambda>recovering.
      catch (recover_models h latest recovering) (\<lambda>_. after (attempt (set_phase h m PhFailed)) (after (update_op h recovering patch') (ret ())))))"
      by (rule maintains_triple, rule triple_bind [OF w], rule triple_pure) (rule triple_maintains [OF m])
  qed
  show ?thesis
    unfolding maintains_def
  proof (intro allI impI)
    fix s assume s: "?P s"
    show "?P (snd (reconcile_models h node s))"
    proof (cases "List.find interrupted_models (rev (operations_of (m_store s) (n_node_id node)))")
      case (Some o1)
      from found_listed [OF this] have o1: "o1 \<in> set (operations_of (m_store s) (n_node_id node))" "interrupted_models o1" by blast+
      have "beside nid c o1"
        by (rule listed_beside [where sel = interrupted_models, OF s _ o1]) (use assms o1(2) in \<open>auto simp: interrupted_models_def\<close>)
      then show ?thesis using r [of o1] s Some by (simp add: reconcile_models_def Let_def bind_def [of "ask _"] ask_def maintains_def)
    qed (use s in \<open>simp add: reconcile_models_def Let_def bind_def ask_def ret_def\<close>)
  qed
qed

lemma other_cutover:
  assumes "n_node_id node \<noteq> nid"
  shows "maintains (here nid (k, e, c)) (reconcile_cutover h node)"
proof -
  let ?P = "here nid (k, e, c)"
  have w: "maintains ?P (update_op h o1 patch)" if "op_node_id o1 = n_node_id node" for o1 patch
  proof (rule maintains_triple)
    show "triple ?P (update_op h o1 patch) (\<lambda>_. ?P) ?P ?P"
      unfolding update_op_def store_op_def
    proof (rule triple_step)
      fix s n assume "?P s"
      then have "?P (s\<lparr>m_left := n\<rparr>)" by (rule here.left)
      from write_operation_view [OF this, of "patched (h_now h) patch o1"] that assms
      show "case (case (case updateOperation (h_now h) o1 patch (m_store (s\<lparr>m_left := n\<rparr>)) of (operation, st) \<Rightarrow> (Inr operation, st)) of
           (Inl e, st) \<Rightarrow> (Throw e, s\<lparr>m_left := n\<rparr>\<lparr>m_store := st\<rparr>) | (Inr x, st) \<Rightarrow> (Ret x, s\<lparr>m_left := n\<rparr>\<lparr>m_store := st\<rparr>)) of
          (Ret _, s') \<Rightarrow> ?P s' | (Throw _, s') \<Rightarrow> ?P s' | (Dead, s') \<Rightarrow> ?P s'"
        by (simp add: updateOperation_def Let_def patched_def)
    qed simp
  qed
  have r: "maintains ?P (catch (bind (move_back h node j) (finish_recovery h o1 j)) (\<lambda>_. after (set_phase h (n_node_id node) PhFailed) (ret ())))"
    if "op_node_id o1 = n_node_id node" for o1 j
    unfolding move_back_def finish_recovery_def Let_def
    by (intro maintained here.all_rules w that other_env other_node assms keeps_names_generation)
  show ?thesis
    unfolding maintains_def
  proof (intro allI impI)
    fix s assume s: "?P s"
    show "?P (snd (reconcile_cutover h node s))"
    proof (cases "found_cutover (m_store s) (n_node_id node)")
      case (Some o1)
      from found_listed [OF this [unfolded found_cutover_def]] operations_filed have "op_node_id o1 = n_node_id node" by blast
      then show ?thesis using r [of o1] s Some
        by (simp add: reconcile_cutover_def bind_def [of "ask _"] ask_def maintains_def ret_def split: option.split)
    qed (use s in \<open>simp add: reconcile_cutover_def bind_def ask_def ret_def\<close>)
  qed
qed

section \<open>The node that was left under way\<close>

definition stopped_under_way :: "node_start \<Rightarrow> (string \<Rightarrow> string) \<Rightarrow> operation_record \<Rightarrow> bool" where
  "stopped_under_way a sha o1 \<longleftrightarrow> journalled a sha o1 \<and> op_state o1 = OsNeedsAttention"

lemma find_only: "x \<in> set xs \<Longrightarrow> sel x \<Longrightarrow> (\<And>y. y \<in> set xs \<Longrightarrow> sel y \<Longrightarrow> y = x) \<Longrightarrow> List.find sel xs = Some x"
proof (induction xs)
  case (Cons y ys)
  show ?case
  proof (cases "sel y")
    case True
    then have "y = x" by (intro Cons.prems(3)) simp_all
    then show ?thesis using True by simp
  next
    case False
    then have "x \<in> set ys" using Cons.prems(1,2) by auto
    then show ?thesis using False Cons.IH [OF _ Cons.prems(2)] Cons.prems(3) by simp
  qed
qed simp

lemma found_here:
  assumes "between a o1 s" and "stopped_under_way a sha o1"
  shows "found_cutover (m_store s) (ns_id a) = Some o1"
proof -
  obtain k e where h: "here (ns_id a) (k, e, filed o1) s" using assms(1) by (auto simp: between_def)
  then have w: "well_filed (m_store s)" and p: "pend (ns_id a) s = filed o1" by (simp_all add: here_def sane_def view_def)
  have i: "interrupted_cutover o1" using assms(2) by (auto simp: stopped_under_way_def journalled_def interrupted_cutover_def)
  have "(op_operation_id o1 @ ''.json'', o1) \<in> pend (ns_id a) s" unfolding p filed_def by (rule insertI1)
  then have f: "op_file (m_store s) (ns_id a) (op_operation_id o1 @ ''.json'') = Some o1" by (simp add: pend_def)
  then have l: "o1 \<in> set (rev (operations_of (m_store s) (ns_id a)))" using filed_listed [OF w f] by simp
  have only: "o2 = o1" if x: "o2 \<in> set (rev (operations_of (m_store s) (ns_id a)))" "interrupted_cutover o2" for o2
  proof -
    obtain en where "op_file (m_store s) (ns_id a) en = Some o2" using operations_filed [of o2 "m_store s" "ns_id a"] x(1) by auto
    then have "(en, o2) \<in> pend (ns_id a) s" using x(2) by (simp add: pend_def pending_cutover_def interrupted_cutover_def)
    then show ?thesis by (simp add: p filed_def)
  qed
  show ?thesis unfolding found_cutover_def by (rule find_only [where sel = interrupted_cutover, OF l i]) (rule only)
qed

lemma move_back_here:
  assumes a: "start_ok a" and n: "n_node_id node = ns_id a"
    and j: "j_from_generation j = fst (ns_at a)" "j_from_schema j = snd (ns_at a)" "j_from_volume j = ns_volume a"
      "j_env_sha256 j = h_sha h (ns_env a)"
  shows "triple (between a o1) (move_back h node j) (\<lambda>n s. back_with a o1 s \<and> n_node_id n = ns_id a) (\<lambda>_. False) (between a o1)"
proof -
  let ?id = "ns_id a" and ?raw = "ns_env a"
  have w: "triple (between a o1) (write_env ?id ?raw) (\<lambda>_ s. \<exists>k. here ?id (Some k, Some ?raw, filed o1) s) (\<lambda>_. False) (between a o1)"
    unfolding between_def
    by (intro triple_ex triple_pure, rule triple_weaken [OF write_env_here [where E = "\<lambda>_. False"]]) blast+
  have u: "triple (\<lambda>s. \<exists>k. here ?id (Some k, Some ?raw, filed o1) s) (update_node h ?id (generation_back j))
      (\<lambda>n s. back_with a o1 s \<and> n_node_id n = ?id) (\<lambda>_. False) (between a o1)"
    by (intro triple_ex, rule triple_weaken [OF update_node_here [where k' = "ns_at a" and E = "\<lambda>_. False"]])
      (use j in \<open>auto simp: generation_back_def back_with_def intro: here_between\<close>)
  have r: "triple (\<lambda>s. between a o1 s \<and> (\<exists>e. oget (m_env s) ?id = Some e \<and> env_of a e)) (bind (env_file ?id) (\<lambda>current.
      bind (from_res (replaceEnv current ''DB_VOLUME_NAME'' (j_from_volume j))) f))
      (\<lambda>n s. back_with a o1 s \<and> n_node_id n = ?id) (\<lambda>_. False) (between a o1)"
    if "triple (between a o1) (f ?raw) (\<lambda>n s. back_with a o1 s \<and> n_node_id n = ?id) (\<lambda>_. False) (between a o1)" for f
    using that env_back [OF a] unfolding triple_def
    by (auto simp: env_file_def bind_def ask_def ret_def from_res_def j DB_def split: option.split)
  have g: "triple (between a o1) (after (guard (h_sha h ?raw = j_env_sha256 j) msg) (after (write_env ?id ?raw) (update_node h ?id (generation_back j))))
      (\<lambda>n s. back_with a o1 s \<and> n_node_id n = ?id) (\<lambda>_. False) (between a o1)" for msg
    using triple_after [OF w u] j by (simp add: guard_def after_def bind_def [of "ret _"] ret_def triple_def)
  show ?thesis
    unfolding move_back_def Let_def n
  proof (rule triple_after [OF triple_attempt])
    show "maintains (between a o1) (compose_stop h node)" by (intro maintains_between here.all_rules)
    show "triple (between a o1) (bind (env_file ?id) (\<lambda>current. bind (from_res (replaceEnv current ''DB_VOLUME_NAME'' (j_from_volume j)))
        (\<lambda>rolled. after (guard (h_sha h rolled = j_env_sha256 j) ''Runtime environment changed after cutover preparation; automatic rollback refused'')
          (after (write_env ?id rolled) (update_node h ?id (generation_back j))))))
      (\<lambda>n s. back_with a o1 s \<and> n_node_id n = ?id) (\<lambda>_. False) (between a o1)"
      by (rule triple_weaken, rule r, rule g) (auto simp: between_def here_def view_def)
  qed
qed

text \<open>Back where it was: the operation closed, or still there with its journal\<close>

definition back_home :: "node_start \<Rightarrow> (string \<Rightarrow> string) \<Rightarrow> mgr \<Rightarrow> bool" where
  "back_home a sha s \<longleftrightarrow> at_start a s \<or> (\<exists>o1. journalled a sha o1 \<and> back_with a o1 s)"

lemma finish_here:
  assumes "stopped_under_way a sha o1" and "n_node_id node = ns_id a"
  shows "triple (back_with a o1) (finish_recovery h o1 j node) (\<lambda>_. at_start a) (back_with a o1) (back_with a o1)"
proof -
  have i: "op_node_id o1 = ns_id a" using assms(1) by (simp add: stopped_under_way_def journalled_def)
  have m: "maintains (back_with a o1) (when_do b (after (compose_up h node) (bind (wait_ready h m) (\<lambda>st.
      after (guard (operational st) (msg st)) (after (set_phase h m (st_phase st)) (ret ()))))))" for b m msg
    unfolding back_with_def by (intro maintained here.all_rules)
  define patch :: "operation_record \<Rightarrow> operation_record" where
    "patch = (\<lambda>o2. o2\<lparr>op_state := OsRecovered, op_phase := ''rolled_back_after_manager_restart'', op_completed_at := Some (h_now h),
       op_result := Some (recovery_json h o1 j)\<rparr>)"
  have c: "op_state (patch o1) \<notin> {OsRunning, OsNeedsAttention}" by (simp add: patch_def)
  have u: "triple (back_with a o1) (update_op h o1 patch) (\<lambda>_. at_start a) (back_with a o1) (back_with a o1)"
    unfolding back_with_def at_start_def
    by (rule triple_weaken [OF closed_op [where patch = patch and E = "\<lambda>_. False", OF i c]]) auto
  show ?thesis
    unfolding finish_recovery_def patch_def [symmetric] by (rule triple_first_after [OF m], rule triple_after [OF u triple_ret]) auto
qed

lemma own_cutover:
  assumes a: "start_ok a" and o: "stopped_under_way a (h_sha h) o1" and n: "n_node_id node = ns_id a"
  shows "triple (between a o1) (reconcile_cutover h node) (\<lambda>_. back_home a (h_sha h)) (\<lambda>_. False)
    (\<lambda>s. between a o1 s \<or> at_start a s)"
proof -
  obtain j where j: "journal_of o1 = Some j" "j_from_generation j = fst (ns_at a)" "j_from_schema j = snd (ns_at a)"
      "j_from_volume j = ns_volume a" "j_env_sha256 j = h_sha h (ns_env a)"
    using o by (auto simp: stopped_under_way_def journalled_def)
  have b: "triple (between a o1) (bind (move_back h node j) (finish_recovery h o1 j)) (\<lambda>_. back_home a (h_sha h)) (back_with a o1)
      (\<lambda>s. between a o1 s \<or> at_start a s)"
  proof (rule triple_bind)
    show "triple (between a o1) (move_back h node j) (\<lambda>n s. back_with a o1 s \<and> n_node_id n = ns_id a) (back_with a o1)
        (\<lambda>s. between a o1 s \<or> at_start a s)"
      by (rule triple_weaken [OF move_back_here [OF a n j(2-)]]) auto
    show "triple (\<lambda>s. back_with a o1 s \<and> n_node_id m = ns_id a) (finish_recovery h o1 j m) (\<lambda>_. back_home a (h_sha h))
        (back_with a o1) (\<lambda>s. between a o1 s \<or> at_start a s)" for m
      by (rule triple_pure, rule triple_weaken [OF finish_here [OF o]]) (auto simp: back_home_def intro: back_between)
  qed
  have f: "triple (back_with a o1) (after (set_phase h (n_node_id node) PhFailed) (ret ())) (\<lambda>_. back_home a (h_sha h)) (\<lambda>_. False)
      (\<lambda>s. between a o1 s \<or> at_start a s)"
    unfolding n back_with_def
    by (rule triple_after [OF triple_weaken [OF set_phase_here [where E = "\<lambda>_. False"]] triple_ret])
      (use o in \<open>auto simp: back_home_def stopped_under_way_def back_with_def intro: here_between\<close>)
  have "triple (between a o1) (catch (bind (move_back h node j) (finish_recovery h o1 j)) (\<lambda>_. after (set_phase h (n_node_id node) PhFailed) (ret ())))
      (\<lambda>_. back_home a (h_sha h)) (\<lambda>_. False) (\<lambda>s. between a o1 s \<or> at_start a s)"
    by (rule triple_catch [OF b f])
  then show ?thesis
    using found_here [OF _ o] unfolding triple_def reconcile_cutover_def bind_def [of "ask _"] ask_def
    by (simp add: n j(1))
qed

section \<open>\<open>initialize\<close>\<close>

lemma calm_cutover: "maintains (here nid (k, e, {})) (reconcile_cutover h node)"
proof (cases "n_node_id node = nid")
  case True
  have "found_cutover (m_store s) nid = None" if "here nid (k, e, {}) s" for s
  proof (rule ccontr)
    assume "found_cutover (m_store s) nid \<noteq> None"
    then obtain o1 where o1: "found_cutover (m_store s) nid = Some o1" by blast
    from found_listed [OF this [unfolded found_cutover_def]] have l: "o1 \<in> set (operations_of (m_store s) nid)" "interrupted_cutover o1"
      by blast+
    then obtain en where "op_file (m_store s) nid en = Some o1" using operations_filed by blast
    then have "(en, o1) \<in> pend nid s" using l(2) by (simp add: pend_def pending_cutover_def interrupted_cutover_def)
    then show False using that by (simp add: here_def view_def)
  qed
  then show ?thesis
    unfolding maintains_def by (simp add: reconcile_cutover_def bind_def ask_def ret_def True)
qed (rule other_cutover)

lemma listed_nodes:
  assumes "\<And>s. P s \<Longrightarrow> registry_ok (stored_registry (m_store s))"
  shows "triple P list_nodes (\<lambda>ns s. P s \<and> ns = reg_nodes (stored_registry (m_store s))) E D"
  unfolding triple_def list_nodes_def
  using assms by (simp add: bind_def ask_def from_res_def ret_def read_registry_Inr [THEN iffD2])

lemma calm_parts:
  "maintains (here nid (k, e, {})) (reconcileInterruptedModelConfigurations h)"
  "maintains (here nid (k, e, {})) (reconcileInterruptedCutovers h)"
  unfolding reconcileInterruptedModelConfigurations_def reconcileInterruptedCutovers_def list_nodes_def
  by (intro maintained models_here calm_cutover; simp)+

lemma calm_restart:
  assumes "\<And>pid. \<not> h_alive h pid"
  shows "triple (here nid (Some k, e, {})) (initialize_nodes h True) (\<lambda>_. here nid (Some k, e, {})) (here nid (Some k, e, {})) (here nid (Some k, e, {}))"
  unfolding initialize_nodes_def when_do_def if_True
  by (rule triple_first_after [OF initialized], rule triple_after [OF recover_here [OF assms, where c = "{}", unfolded image_empty]])
    (auto intro!: triple_maintains maintained calm_parts)

lemma attend_journalled:
  assumes "journalled a sha o1"
  shows "stopped_under_way a sha (snd (attend h (en, o1)))" and "attend h ` filed o1 = filed (snd (attend h (en, o1)))"
proof -
  let ?o = "snd (attend h (en, o1))"
  have same: "op_result ?o = op_result o1" "op_node_id ?o = op_node_id o1" "op_kind ?o = op_kind o1" "op_operation_id ?o = op_operation_id o1"
    by (simp_all add: attend_def attended_def patched_def interrupted_patch_def)
  then have r: "result_field ?o k = result_field o1 k" for k by (simp add: result_field_def)
  then have "journal_of ?o = journal_of o1" by (simp add: journal_of_def)
  moreover have "op_state ?o = OsNeedsAttention \<and> op_phase ?o = ''manager_restarted''"
    using assms by (auto simp: attend_def attended_def patched_def interrupted_patch_def journalled_def)
  ultimately show "stopped_under_way a sha ?o" using assms same r by (simp add: stopped_under_way_def journalled_def)
  show "attend h ` filed o1 = filed ?o" using same(4) by (simp add: filed_def attend_def)
qed

lemma each_cutover:
  assumes a: "start_ok a" and o: "stopped_under_way a (h_sha h) o1"
  shows "distinct (map n_node_id ns) \<Longrightarrow> triple (between a o1) (each (reconcile_cutover h) ns)
    (\<lambda>_ s. if ns_id a \<in> n_node_id ` set ns then back_home a (h_sha h) s else between a o1 s) (known a (h_sha h)) (known a (h_sha h))"
proof (induction ns)
  case (Cons node ns)
  have j: "journalled a (h_sha h) o1" using o by (simp add: stopped_under_way_def)
  then have b: "between a o1 s \<Longrightarrow> known a (h_sha h) s" for s unfolding known_def under_way_def by blast
  have bh: "back_home a (h_sha h) s \<Longrightarrow> known a (h_sha h) s" for s
    unfolding back_home_def known_def under_way_def using back_between by blast
  show ?case
  proof (cases "n_node_id node = ns_id a")
    case True
    then have out: "ns_id a \<notin> n_node_id ` set ns" using Cons.prems by auto
    have m: "maintains (back_home a (h_sha h)) (each (reconcile_cutover h) ns)"
    proof -
      have "maintains (here (ns_id a) (k, e, c)) (each (reconcile_cutover h) ns)" for k e c
        using out by (induction ns) (auto intro!: maintained other_cutover)
      then show ?thesis unfolding maintains_def back_home_def at_start_def back_with_def by blast
    qed
    have t1: "triple (between a o1) (reconcile_cutover h node) (\<lambda>_. back_home a (h_sha h)) (known a (h_sha h)) (known a (h_sha h))"
      by (rule triple_weaken [OF own_cutover [OF a o True]]) (auto intro: b known_start)
    have t2: "triple (back_home a (h_sha h)) (each (reconcile_cutover h) ns) (\<lambda>_. back_home a (h_sha h)) (known a (h_sha h)) (known a (h_sha h))"
      by (rule triple_weaken [OF triple_maintains [OF m]]) (auto intro: bh)
    show ?thesis using True triple_after [OF t1 t2] by simp
  next
    case False
    have m: "maintains (between a o1) (reconcile_cutover h node)"
      unfolding between_def maintains_def using other_cutover [OF False, of _ _ _ h] unfolding maintains_def by blast
    show ?thesis
      using triple_first_after [OF m Cons.IH b b] Cons.prems False by simp
  qed
qed (simp add: triple_ret)

definition settled_node :: "node_start \<Rightarrow> (string \<Rightarrow> string) \<Rightarrow> mgr \<Rightarrow> bool" where
  "settled_node a sha s \<longleftrightarrow> moved_on a s \<or> back_home a sha s"

lemma between_registered:
  assumes "between a o1 s"
  shows "registry_ok (stored_registry (m_store s))" and "distinct (map n_node_id (reg_nodes (stored_registry (m_store s))))"
    and "ns_id a \<in> n_node_id ` set (reg_nodes (stored_registry (m_store s)))"
proof -
  obtain k e where h: "here (ns_id a) (Some k, Some e, filed o1) s" using assms unfolding between_def by blast
  then show ok: "registry_ok (stored_registry (m_store s))" by (simp add: here_def sane_def)
  then show "distinct (map n_node_id (reg_nodes (stored_registry (m_store s))))" by (simp add: registry_ok_def)
  show "ns_id a \<in> n_node_id ` set (reg_nodes (stored_registry (m_store s)))"
    using h node_of_listed by (auto simp: here_def view_def placed_def)
qed

lemma journalled_restart:
  assumes a: "start_ok a" and alive: "\<And>pid. \<not> h_alive h pid" and j: "journalled a (h_sha h) o1"
  shows "triple (between a o1) (initialize_nodes h True) (\<lambda>_. back_home a (h_sha h)) (known a (h_sha h)) (known a (h_sha h))"
proof -
  let ?o = "snd (attend h (op_operation_id o1 @ ''.json'', o1))" and ?K = "known a (h_sha h)"
  note o = attend_journalled [OF j, of h "op_operation_id o1 @ ''.json''"]
  have j': "journalled a (h_sha h) ?o" using o(1) by (simp add: stopped_under_way_def)
  have b: "between a o2 s \<Longrightarrow> ?K s" if "journalled a (h_sha h) o2" for o2 s using that unfolding known_def under_way_def by blast
  have r: "triple (between a o1) (store_op (recoverInterruptedOperations (h_alive h) (h_now h))) (\<lambda>_. between a ?o) ?K ?K"
    unfolding between_def [of a o1]
  proof (intro triple_ex triple_pure)
    fix k e assume e: "env_of a e"
    have "here (ns_id a) (Some k, Some e, attend h ` filed o1) s \<Longrightarrow> between a ?o s"
        "here (ns_id a) (Some k, Some e, filed o1) s \<Longrightarrow> ?K s" for s
      using e b [OF j] unfolding o(2) between_def by blast+
    then show "triple (here (ns_id a) (Some k, Some e, filed o1)) (store_op (recoverInterruptedOperations (h_alive h) (h_now h)))
        (\<lambda>_. between a ?o) ?K ?K"
      by (intro triple_weaken [OF recover_here [OF alive, where E = "\<lambda>_. False"]]) auto
  qed
  have m: "maintains (between a ?o) (reconcileInterruptedModelConfigurations h)"
  proof -
    have "op_kind ?o \<noteq> OpModelsConfigure" using j' by (simp add: journalled_def)
    then have "maintains (here (ns_id a) (k, e, filed ?o)) (reconcileInterruptedModelConfigurations h)" for k e
      unfolding reconcileInterruptedModelConfigurations_def list_nodes_def
      by (intro maintained models_here) (simp add: filed_def)
    then show ?thesis unfolding maintains_def between_def by blast
  qed
  have c: "triple (between a ?o) (reconcileInterruptedCutovers h) (\<lambda>_. back_home a (h_sha h)) ?K ?K"
    unfolding reconcileInterruptedCutovers_def
  proof (rule triple_bind)
    show "triple (between a ?o) list_nodes (\<lambda>ns s. between a ?o s \<and> (distinct (map n_node_id ns) \<and> ns_id a \<in> n_node_id ` set ns)) ?K ?K"
      by (rule triple_weaken [OF listed_nodes [where E = "\<lambda>_. False" and D = "\<lambda>_. False"]])
        (auto dest: between_registered)
    show "triple (\<lambda>s. between a ?o s \<and> (distinct (map n_node_id ns) \<and> ns_id a \<in> n_node_id ` set ns)) (each (reconcile_cutover h) ns)
        (\<lambda>_. back_home a (h_sha h)) ?K ?K" for ns
      by (rule triple_pure) (use each_cutover [OF a o(1), of ns] in simp)
  qed
  show ?thesis
    unfolding initialize_nodes_def when_do_def if_True
    by (intro triple_first_after [OF maintains_between [OF initialized]] triple_after [OF r] triple_first_after [OF m] c) (auto intro: b j j')
qed

lemma restart_here:
  assumes "start_ok a" and "\<And>pid. \<not> h_alive h pid"
  shows "triple (known a (h_sha h)) (initialize_nodes h True) (\<lambda>_. settled_node a (h_sha h)) (known a (h_sha h)) (known a (h_sha h))"
  unfolding known_def
proof (intro triple_or, goal_cases)
  case 1
  show ?case unfolding at_start_def
    by (rule triple_weaken [OF calm_restart [OF assms(2)]]) (auto simp: settled_node_def back_home_def at_start_def)
next
  case 2
  show ?case unfolding moved_on_def [of a]
  proof (intro triple_ex triple_fact)
    fix g schema e assume "fst (ns_at a) < g" "replaceEnv (ns_env a) DB (volumeName (ns_id a) g) = Inr e"
    then have "here (ns_id a) (Some (g, schema), Some e, {}) s \<Longrightarrow> moved_on a s" for s unfolding moved_on_def by blast
    then show "triple (here (ns_id a) (Some (g, schema), Some e, {})) (initialize_nodes h True) (\<lambda>_. settled_node a (h_sha h))
        (\<lambda>s. at_start a s \<or> (\<exists>g schema e. fst (ns_at a) < g \<and> replaceEnv (ns_env a) DB (volumeName (ns_id a) g) = Inr e \<and>
           here (ns_id a) (Some (g, schema), Some e, {}) s) \<or> under_way a (h_sha h) s)
        (\<lambda>s. at_start a s \<or> (\<exists>g schema e. fst (ns_at a) < g \<and> replaceEnv (ns_env a) DB (volumeName (ns_id a) g) = Inr e \<and>
           here (ns_id a) (Some (g, schema), Some e, {}) s) \<or> under_way a (h_sha h) s)"
      unfolding moved_on_def [symmetric] by (intro triple_weaken [OF calm_restart [OF assms(2)]]) (auto simp: settled_node_def)
  qed
next
  case 3
  show ?case unfolding under_way_def
    by (intro triple_ex triple_fact, rule triple_weaken [OF journalled_restart [OF assms]])
      (auto simp: settled_node_def known_def under_way_def)
qed

end
