(* ===== verification/NodeReturns.thy ===== *)
theory NodeReturns
  imports NodeRecovery NodeWorld
begin

text \<open>
  A restart of the manager returns: it does not throw, and the number of steps it takes is bounded.
\<close>

section \<open>A restart does not throw\<close>

definition registers :: "string list \<Rightarrow> mgr \<Rightarrow> bool" where
  "registers ids s \<longleftrightarrow> registry_ok (stored_registry (m_store s)) \<and> well_filed (m_store s) \<and> map fst (names_of (m_store s)) = ids"

lemma registers_updated:
  assumes "registers ids s" and "keeps_names f" and "updateNode m f now (m_store s) = (r, st)"
  shows "registers ids (s\<lparr>m_store := st\<rparr>)"
proof -
  have "registry_ok (stored_registry (m_store s))" using assms(1) by (simp add: registers_def)
  note u = updateNode_effect [OF this assms(2,3)]
  show ?thesis using assms(1) u(1,6) same_operations [OF u(2)] by (simp add: registers_def)
qed

interpretation registers: quiet "registers ids" for ids
proof unfold_locales
  show "registers ids s \<Longrightarrow> updateNode m (\<lambda>n. n\<lparr>n_phase := p\<rparr>) now (m_store s) = (r, st) \<Longrightarrow> registers ids (s\<lparr>m_store := st\<rparr>)"
    for s m p now r st by (rule registers_updated [OF _ keeps_names_phase])
qed (simp_all add: registers_def names_of_def stored_registry_def well_filed_def op_entries_def op_file_def)

abbreviation returns :: "(mgr \<Rightarrow> bool) \<Rightarrow> 'a prog \<Rightarrow> bool" where
  "returns P m \<equiv> triple P m (\<lambda>_. P) (\<lambda>_. False) P"

lemma registers_node: "registers ids s \<Longrightarrow> m \<in> set ids \<Longrightarrow> \<exists>n. node_of (m_store s) m = Some n"
  by (auto simp: registers_def names_of_def node_of_def find_None_iff comp_def simp flip: not_None_eq)

lemma update_node_registers:
  assumes "keeps_names f"
  shows "maintains (registers ids) (update_node h m f)" and "m \<in> set ids \<Longrightarrow> returns (registers ids) (update_node h m f)"
proof -
  have s: "registers ids s \<Longrightarrow> updateNode m f now (m_store s) = (r, st) \<Longrightarrow> registers ids (s\<lparr>m_left := n, m_store := st\<rparr>)" for s now r st n
    using registers_updated [OF _ assms, of ids "s\<lparr>m_left := n\<rparr>"] registers.left [of ids s n] by simp
  show "maintains (registers ids) (update_node h m f)"
    unfolding update_node_def store_op_def by (rule maintains_step) (auto split: prod.splits sum.splits dest: s)
  assume m: "m \<in> set ids"
  have r: "\<exists>n. r = Inr n" if "registers ids s" "updateNode m f (h_now h) (m_store s) = (r, st)" for s r st
    using updateNode_effect(5) [OF _ assms that(2)] registers_node [OF that(1) m] that(1) by (auto simp: registers_def)
  show "returns (registers ids) (update_node h m f)"
    unfolding update_node_def store_op_def
    by (rule triple_step) (auto split: prod.splits sum.splits dest: s r)
qed

lemma registers_op: "returns (registers ids) (update_op h o1 patch)"
  unfolding update_op_def store_op_def
proof (rule triple_step)
  fix s n assume "registers ids s"
  then show "case (case (case updateOperation (h_now h) o1 patch (m_store (s\<lparr>m_left := n\<rparr>)) of (operation, st) \<Rightarrow> (Inr operation, st)) of
       (Inl e, st) \<Rightarrow> (Throw e, s\<lparr>m_left := n\<rparr>\<lparr>m_store := st\<rparr>) | (Inr x, st) \<Rightarrow> (Ret x, s\<lparr>m_left := n\<rparr>\<lparr>m_store := st\<rparr>)) of
      (Ret _, s') \<Rightarrow> registers ids s' | (Throw _, s') \<Rightarrow> False | (Dead, s') \<Rightarrow> registers ids s'"
    by (simp add: updateOperation_def Let_def registers_def writeOperation_effect names_of_def)
qed

lemma returns_maintains: "returns P m \<Longrightarrow> maintains P m"
  by (rule maintains_triple, erule triple_weaken) auto

lemma returns_each: "(\<And>x. x \<in> set xs \<Longrightarrow> returns P (f x)) \<Longrightarrow> returns P (each f xs)"
  by (induction xs) (auto intro: triple_ret triple_after)

lemma returns_lock:
  assumes "returns P m" and "\<And>pid. \<not> h_alive h pid" and "lock_free P"
  shows "returns P (with_lock h nid m)"
proof -
  have u: "returns P (step (\<lambda>s. (Ret (), s\<lparr>m_store := (m_store s)\<lparr>s_owners := f s\<rparr>\<rparr>)))" for f
    by (rule triple_step) (use assms(3) in \<open>auto simp: lock_free_def\<close>)
  have l: "returns P (step (\<lambda>s. if owner_alive (h_alive h) (m_store s) nid then (Throw (e s), s)
      else (Ret (), s\<lparr>m_store := (m_store s)\<lparr>s_owners := f s\<rparr>\<rparr>)))" for e f
    by (rule triple_step) (use assms(3) no_owner [OF assms(2)] in \<open>auto simp: lock_free_def\<close>)
  show ?thesis unfolding with_lock_def by (rule triple_after [OF l triple_finally [OF assms(1) u]]) (simp add: triple_def)
qed

lemma lock_free_registers: "lock_free (registers ids)"
  by (simp add: lock_free_def registers_def names_of_def stored_registry_def well_filed_def op_entries_def op_file_def)

lemma models_return:
  assumes "\<And>pid. \<not> h_alive h pid" and "n_node_id node \<in> set ids"
  shows "returns (registers ids) (reconcile_models h node)"
proof -
  let ?P = "registers ids" and ?m = "n_node_id node"
  have o: "maintains ?P (update_op h o1 patch)" for o1 patch by (rule returns_maintains [OF registers_op])
  have rec: "maintains ?P (recover_models h latest o1)" for latest o1
    unfolding recover_models_def recovered_op_def Let_def by (intro maintained registers.all_rules o)
  have f: "returns ?P (find_node ?m)"
    unfolding triple_def find_node_def
  proof (intro allI impI)
    fix s assume s: "?P s"
    then obtain n where n: "node_of (m_store s) ?m = Some n" using registers_node assms(2) by blast
    have "List.find (\<lambda>n. n_node_id n = ?m \<or> n_alias n = ?m) (reg_nodes (stored_registry (m_store s))) \<noteq> None"
      using node_of_listed [OF n] by (auto simp: find_None_iff)
    then have "\<exists>n. findNode (m_store s) ?m = Inr n"
      using s by (auto simp: findNode_def registers_def read_registry_Inr [THEN iffD2] split: option.splits)
    then show "case bind (ask (\<lambda>s. findNode (m_store s) ?m)) from_res s of (Ret x, s') \<Rightarrow> ?P s' | (Throw e, s') \<Rightarrow> False | (Dead, s') \<Rightarrow> ?P s'"
      using s by (auto simp: bind_def ask_def from_res_def ret_def)
  qed
  have c: "returns ?P (catch (recover_models h latest o1) (\<lambda>_. after (attempt (set_phase h ?m PhFailed)) (after (update_op h o1 patch) (ret ()))))"
    for latest o1 patch
    by (rule triple_catch [OF triple_maintains [OF rec]], rule triple_after [OF triple_attempt [OF registers.all_rules(2)]],
      rule triple_after [OF registers_op triple_ret])
  show ?thesis
    unfolding reconcile_models_def Let_def
    by (rule triple_asked) (auto split: option.split intro!: triple_ret returns_lock assms lock_free_registers triple_bind [OF f] triple_bind [OF registers_op] c)
qed

lemma cutover_returns:
  assumes "n_node_id node \<in> set ids"
  shows "returns (registers ids) (reconcile_cutover h node)"
proof -
  let ?P = "registers ids"
  have w: "maintains ?P (write_env m raw)" for m raw
    unfolding write_env_def by (rule maintains_step) (simp add: registers_def)
  have "maintains ?P (bind (move_back h node j) (finish_recovery h o1 j))" for o1 j
    unfolding move_back_def finish_recovery_def Let_def
    by (intro maintained registers.all_rules w update_node_registers returns_maintains [OF registers_op] keeps_names_generation)
  moreover have "returns ?P (after (set_phase h (n_node_id node) PhFailed) (ret ()))"
    unfolding set_phase_def by (rule triple_after [OF update_node_registers(2) [OF keeps_names_phase assms] triple_ret])
  ultimately have "returns ?P (catch (bind (move_back h node j) (finish_recovery h o1 j)) (\<lambda>_. after (set_phase h (n_node_id node) PhFailed) (ret ())))"
    for o1 j by (intro triple_catch [OF triple_maintains])
  then show ?thesis
    unfolding reconcile_cutover_def
    by (intro triple_asked) (auto split: option.split intro!: triple_ret)
qed

lemma initialized_registers: "returns (registers ids) (store_op (\<lambda>st. (Inr (), initialize_store st)))"
  unfolding store_op_def
  by (rule triple_step) (simp_all add: registers_def names_of_def well_filed_def op_entries_def op_file_def)

lemma recovered_registers: "returns (registers ids) (store_op (recoverInterruptedOperations (h_alive h) (h_now h)))"
  unfolding store_op_def
proof (rule triple_step)
  fix s n assume s: "registers ids s"
  obtain r st where u: "recoverInterruptedOperations (h_alive h) (h_now h) (m_store s) = (r, st)" by fastforce
  have w: "well_filed (m_store s)" "registry_ok (stored_registry (m_store s))" using s by (simp_all add: registers_def)
  have "stored_registry st = stored_registry (m_store s)" "well_filed st" "\<exists>x. r = Inr x" using recovered_all [OF w u] by blast+
  then show "case (case recoverInterruptedOperations (h_alive h) (h_now h) (m_store (s\<lparr>m_left := n\<rparr>)) of
       (Inl e, st) \<Rightarrow> (Throw e, s\<lparr>m_left := n\<rparr>\<lparr>m_store := st\<rparr>) | (Inr x, st) \<Rightarrow> (Ret x, s\<lparr>m_left := n\<rparr>\<lparr>m_store := st\<rparr>)) of
      (Ret _, s') \<Rightarrow> registers ids s' | (Throw e', s') \<Rightarrow> False | (Dead, s') \<Rightarrow> registers ids s'"
    using s u by (auto simp: registers_def names_of_def)
qed simp

lemma restart_returns:
  assumes "\<And>pid. \<not> h_alive h pid"
  shows "returns (registers ids) (initialize_nodes h True)"
proof -
  let ?P = "registers ids"
  note i = initialized_registers and r = recovered_registers
  have l: "triple ?P list_nodes (\<lambda>ns s. ?P s \<and> map n_node_id ns = ids) (\<lambda>_. False) ?P"
    by (rule triple_weaken [OF listed_nodes [where E = "\<lambda>_. False" and D = "\<lambda>_. False"]])
      (auto simp: registers_def names_of_def comp_def)
  have e: "returns ?P (bind list_nodes (each f))" if "\<And>node. n_node_id node \<in> set ids \<Longrightarrow> returns ?P (f node)" for f
    by (rule triple_bind [OF l], rule triple_pure, rule returns_each) (use that in auto)
  show ?thesis
    unfolding initialize_nodes_def when_do_def if_True reconcileInterruptedModelConfigurations_def reconcileInterruptedCutovers_def
    by (intro triple_after [OF i] triple_after [OF r] triple_after [OF e] e models_return cutover_returns assms)
qed

section \<open>How many steps it takes\<close>

text \<open>In a state of \<open>P\<close> with \<open>c\<close> steps left, the process lives on and uses up at most \<open>c\<close> steps.\<close>

definition costs :: "(mgr \<Rightarrow> bool) \<Rightarrow> 'a prog \<Rightarrow> nat \<Rightarrow> bool" where
  "costs P m c \<longleftrightarrow> (\<forall>s. P s \<longrightarrow> c \<le> m_left s \<longrightarrow> fst (m s) \<noteq> Dead \<and> m_left s \<le> m_left (snd (m s)) + c)"

lemma costs_mono: "costs P m c \<Longrightarrow> c \<le> d \<Longrightarrow> costs P m d"
  unfolding costs_def by (meson add_le_mono le_refl order_trans)

lemma costs_bind:
  assumes "costs P m c" and "maintains P m" and "\<And>x. costs P (f x) d"
  shows "costs P (bind m f) (c + d)"
  unfolding costs_def
proof (intro allI impI)
  fix s assume s: "P s" "c + d \<le> m_left s"
  obtain r s1 where r: "m s = (r, s1)" by fastforce
  have 1: "r \<noteq> Dead" "m_left s \<le> m_left s1 + c" "P s1"
    using assms(1,2) s r by (auto simp: costs_def dest!: spec [of _ s] dest: maintainsD)
  show "fst (bind m f s) \<noteq> Dead \<and> m_left s \<le> m_left (snd (bind m f s)) + (c + d)"
  proof (cases r)
    case (Ret x)
    have "d \<le> m_left s1" using 1(2) s(2) by simp
    then show ?thesis using assms(3) [of x] 1 r Ret unfolding costs_def by (fastforce simp: bind_def)
  qed (use 1 r in \<open>auto simp: bind_def\<close>)
qed

lemma costs_after: "costs P m c \<Longrightarrow> maintains P m \<Longrightarrow> costs P n d \<Longrightarrow> costs P (after m n) (c + d)"
  unfolding after_def by (rule costs_bind)

lemma costs_catch:
  assumes "costs P m c" and "maintains P m" and "\<And>e. costs P (f e) d"
  shows "costs P (catch m f) (c + d)"
  unfolding costs_def
proof (intro allI impI)
  fix s assume s: "P s" "c + d \<le> m_left s"
  obtain r s1 where r: "m s = (r, s1)" by fastforce
  have 1: "r \<noteq> Dead" "m_left s \<le> m_left s1 + c" "P s1"
    using assms(1,2) s r by (auto simp: costs_def dest!: spec [of _ s] dest: maintainsD)
  show "fst (catch m f s) \<noteq> Dead \<and> m_left s \<le> m_left (snd (catch m f s)) + (c + d)"
  proof (cases r)
    case (Throw e)
    have "d \<le> m_left s1" using 1(2) s(2) by simp
    then show ?thesis using assms(3) [of e] 1 r Throw unfolding costs_def by (fastforce simp: catch_def)
  qed (use 1 r in \<open>auto simp: catch_def\<close>)
qed

lemma costs_nothing: "costs P (ret x) 0" "costs P (throw e) 0" "costs P (ask g) 0" "costs P (from_res r) 0" "costs P (guard b e) 0"
  by (auto simp: costs_def ret_def throw_def ask_def from_res_def guard_def split: sum.split)

lemma costs_asked: "(\<And>x. costs P (f x) d) \<Longrightarrow> costs P (bind (ask g) f) d"
  by (simp add: costs_def bind_def ask_def)

lemma costs_guarded: "costs P n d \<Longrightarrow> costs P (after (guard b e) n) d"
  by (cases b) (simp_all add: costs_def guard_def after_def bind_def ret_def throw_def)

lemma costs_res: "(\<And>x. costs P (f x) d) \<Longrightarrow> costs P (bind (from_res r) f) d"
  by (cases r) (simp_all add: costs_def from_res_def bind_def ret_def throw_def)

lemma costs_when: "costs P m c \<Longrightarrow> costs P (when_do b m) c"
  by (auto simp: when_do_def intro: costs_mono [OF costs_nothing(1)])

lemma costs_attempt:
  assumes "costs P m c" and "maintains P m"
  shows "costs P (attempt m) c"
proof -
  have "costs P (after m (ret ())) (c + 0)" by (rule costs_after [OF assms costs_nothing(1)])
  then show ?thesis unfolding attempt_def
    using costs_catch [of P "after m (ret ())" "c + 0" "\<lambda>_. ret ()" 0] maintains_after [OF assms(2) maintains_ret [of P "()"]]
    by (simp add: costs_nothing)
qed

lemma costs_if: "costs P m c \<Longrightarrow> costs P n d \<Longrightarrow> costs P (if b then m else n) (max c d)"
  by (auto intro: costs_mono)

lemma costs_option: "costs P m c \<Longrightarrow> (\<And>x. costs P (f x) c) \<Longrightarrow> costs P (case v of None \<Rightarrow> m | Some x \<Rightarrow> f x) c"
  by (simp split: option.split)

lemma costs_step: "(\<And>s n. fst (f (s\<lparr>m_left := n\<rparr>)) \<noteq> Dead \<and> m_left (snd (f (s\<lparr>m_left := n\<rparr>))) = n) \<Longrightarrow> costs P (step f) 1"
  by (auto simp: costs_def step_def split: nat.split)

lemma costs_each:
  assumes "\<And>x. x \<in> set xs \<Longrightarrow> costs P (f x) c" and "\<And>x. x \<in> set xs \<Longrightarrow> maintains P (f x)"
  shows "costs P (each f xs) (length xs * c)"
  using assms
proof (induction xs)
  case (Cons x xs)
  have "costs P (after (f x) (each f xs)) (c + length xs * c)" by (rule costs_after) (use Cons in auto)
  then show ?case by simp
qed (simp add: costs_nothing)

lemma costs_perform: "costs P (perform_act h b a) 1"
  unfolding perform_act_def by (rule costs_step) (auto simp: Let_def)

lemma costs_store: "costs P (store_op f) 1"
  unfolding store_op_def by (rule costs_step) (auto split: prod.split sum.split)

lemma costs_commands: "costs P (compose_cmd h node b args) 1" "costs P (docker_cmd h b args) 1" "costs P (set_phase h m p) 1"
    "costs P (update_node h m f) 1" "costs P (update_op h o1 patch) 1" "costs P (write_env m raw) 1"
  by (simp_all add: compose_cmd_def docker_cmd_def set_phase_def update_node_def update_op_def costs_perform costs_store del: One_nat_def)
    (unfold write_env_def, rule costs_step, simp)

lemma costs_finally:
  assumes "costs P m c" and "maintains P m" and "costs P n d"
  shows "costs P (finally_do m n) (c + d)"
  unfolding costs_def
proof (intro allI impI)
  fix s assume s: "P s" "c + d \<le> m_left s"
  obtain r s1 where r: "m s = (r, s1)" by fastforce
  have 1: "r \<noteq> Dead" "m_left s \<le> m_left s1 + c" "P s1"
    using assms(1,2) s r by (auto simp: costs_def dest!: spec [of _ s] dest: maintainsD)
  have n: "fst (n s1) \<noteq> Dead" "m_left s1 \<le> m_left (snd (n s1)) + d"
    using assms(3) 1 s(2) unfolding costs_def by auto
  obtain q s2 where q: "n s1 = (q, s2)" by fastforce
  show "fst (finally_do m n s) \<noteq> Dead \<and> m_left s \<le> m_left (snd (finally_do m n s)) + (c + d)"
    using r q n 1 by (cases r; cases q) (auto simp: finally_do_def after_def bind_def ret_def throw_def)
qed

lemma costs_files: "costs P (node_env m) 0" "costs P (env_file m) 0" "costs P (find_node m) 0"
  unfolding node_env_def env_file_def find_node_def by (intro costs_asked costs_option costs_nothing)+

section \<open>The steps of a restart\<close>

lemma costs_compose: "costs (registers ids) (compose_up h node) 1" "costs (registers ids) (compose_stop h node) 1"
  unfolding compose_up_def compose_stop_def
  using costs_after [OF costs_commands(1) registers.all_rules(1) costs_nothing(1)] by simp_all

lemma costs_status: "costs (registers ids) (status h m) 5"
proof -
  let ?P = "registers ids"
  have sync: "costs ?P (sync_phase h node p) 1" for node p
    unfolding sync_phase_def using costs_after [OF costs_commands(3) registers.all_rules(2) costs_nothing(1)]
    by (intro costs_when) simp
  have told: "costs ?P (after (sync_phase h node p) (ret st)) 1" for node p and st :: node_status
    using costs_after [OF sync registers.phase_synced costs_nothing(1)] by simp
  have ps: "costs ?P (ps h node) 1" for node
    unfolding ps_def using costs_bind [OF costs_commands(1) registers.all_rules(1) costs_nothing(1)] by simp
  have probe: "costs ?P (probe_ready h node) 1" for node
    unfolding probe_ready_def Let_def
    by (intro costs_asked costs_option costs_mono [OF costs_nothing(1)] costs_step) simp_all
  have migrate: "costs ?P (run_migration h node target verify fail) 1" for node target verify fail
    unfolding run_migration_def by (rule costs_guarded [OF costs_commands(1)])
  have schema: "costs ?P (if b then bind (run_migration h node ''head'' True True) (\<lambda>r. ret (f r)) else ret y) 1"
    for b node and f :: "command_result \<Rightarrow> node_phase" and y
    by (rule costs_mono, (rule costs_if costs_bind migrate registers.migration costs_nothing)+) simp
  have maint: "maintains ?P (if b then bind (run_migration h node ''head'' True True) (\<lambda>r. ret (f r)) else ret y)"
    for b node and f :: "command_result \<Rightarrow> node_phase" and y by (intro maintained registers.all_rules)
  have probed: "costs ?P (bind (probe_ready h node) (\<lambda>r. bind (if b r then bind (run_migration h node ''head'' True True) (\<lambda>s. ret (f r s))
      else ret (y r)) (\<lambda>phase. after (sync_phase h node phase) (ret (st phase))))) 3" for node b f y and st :: "node_phase \<Rightarrow> node_status"
    by (rule costs_mono, rule costs_bind [OF probe registers.probe costs_bind [OF schema maint told]]) simp
  have shown: "costs ?P (bind (ps h node) (\<lambda>cs. if b cs then after (sync_phase h node PhStopped) (ret st) else f cs)) 4"
    if "\<And>cs. costs ?P (f cs) 3" for node b f and st :: node_status
  proof -
    have "maintains ?P (ps h node)" by (simp add: ps_def maintained registers.all_rules)
    then show ?thesis by (rule_tac costs_mono, rule_tac costs_bind [OF ps _ costs_if [OF told that]]) simp_all
  qed
  have docker: "maintains ?P (docker_cmd h True [''info'', ''--format'', ''{{.ServerVersion}}''])" by (rule registers.docker) simp
  have "costs ?P (status h m) (0 + (1 + max 1 4))"
    unfolding status_def Let_def
    by (intro costs_bind [OF _ registers.files_read(3)] costs_bind [OF costs_commands(2) docker] costs_if told shown probed)
      (simp add: find_node_def costs_def bind_def ask_def from_res_def ret_def throw_def split: sum.split)
  then show ?thesis by simp
qed

lemma costs_waited:
  assumes "\<And>l. h_polls h l \<le> p"
  shows "costs (registers ids) (wait_ready h m) (5 * (p + 1))"
proof -
  let ?P = "registers ids"
  have "costs ?P (poll_status h m n st) (n * 5)" for n st
  proof (induction n arbitrary: st)
    case (Suc n)
    have "costs ?P (if st_phase st \<in> {PhReady, PhDegraded, PhMaintenance} then ret st else bind (status h m) (poll_status h m n)) (max 0 (5 + n * 5))"
      by (intro costs_if costs_nothing costs_bind [OF costs_status registers.status_kept] Suc)
    then show ?case by simp
  qed (simp add: costs_nothing)
  then have "costs ?P (bind (status h m) (poll_status h m n)) (5 + n * 5)" for n
    by (intro costs_bind [OF costs_status registers.status_kept])
  then have "costs ?P (bind (status h m) (poll_status h m (h_polls h l))) (5 * (p + 1))" for l
    by (rule costs_mono) (use assms [of l] in simp)
  then show ?thesis unfolding wait_ready_def by (simp add: costs_def bind_def [of "ask _"] ask_def)
qed

lemma costs_models:
  assumes "\<And>l. h_polls h l \<le> p"
  shows "costs (registers ids) (reconcile_models h node) (5 * (p + 1) + 9)"
proof -
  let ?P = "registers ids" and ?w = "5 * (p + 1)"
  note w = costs_waited [OF assms]
  have o: "maintains ?P (update_op h o1 patch)" for o1 patch by (rule returns_maintains [OF registers_op])
  have closed: "costs ?P (recovered_op h o1 phase b) (1 + 0)" for o1 phase b
    unfolding recovered_op_def by (rule costs_after [OF costs_commands(5) o costs_nothing(1)])
  have rec: "costs ?P (recover_models h latest o1) (?w + 4)" for latest o1
    unfolding recover_models_def Let_def
    by (rule costs_mono, (rule costs_after costs_bind costs_if costs_guarded costs_files costs_commands costs_compose closed w
      registers.all_rules registers.waited)+) simp
  have recm: "maintains ?P (recover_models h latest o1)" for latest o1
    unfolding recover_models_def recovered_op_def Let_def by (intro maintained registers.all_rules o)
  have body: "costs ?P (bind (find_node m) (\<lambda>latest. bind (update_op h o1 patch) (\<lambda>o2. catch (recover_models h latest o2)
      (\<lambda>_. after (attempt (set_phase h m PhFailed)) (after (update_op h o2 patch') (ret ())))))) (?w + 7)" for m o1 patch patch'
    by (rule costs_mono, (rule costs_bind costs_catch costs_after costs_attempt costs_files costs_commands costs_nothing rec recm
      registers.all_rules maintains_attempt o)+) simp
  have lock: "costs ?P (with_lock h nid m) (c + 2)" if "costs ?P m c" "maintains ?P m" for nid m c
  proof -
    have "costs ?P (step (\<lambda>s. if owner_alive (h_alive h) (m_store s) nid then (Throw (e s), s) else (Ret (), g s))) 1"
      if "\<And>s. m_left (g s) = m_left s" for e g by (rule costs_step) (simp add: that)
    moreover have "maintains ?P (step (\<lambda>s. if owner_alive (h_alive h) (m_store s) nid then (Throw (e s), s)
        else (Ret (), s\<lparr>m_store := (m_store s)\<lparr>s_owners := f s\<rparr>\<rparr>)))" for e f
      by (rule maintains_step) (auto intro: registers.left registers.owned [OF registers.left, simplified])
    moreover have "costs ?P (step (\<lambda>s. (Ret (), g s))) 1" if "\<And>s. m_left (g s) = m_left s" for g by (rule costs_step) (simp add: that)
    ultimately have "costs ?P (with_lock h nid m) (1 + (c + 1))"
      unfolding with_lock_def by (intro costs_after costs_finally that) simp_all
    then show ?thesis by (rule costs_mono) simp
  qed
  have bodym: "maintains ?P (bind (find_node m) (\<lambda>latest. bind (update_op h o1 patch) (\<lambda>o2. catch (recover_models h latest o2)
      (\<lambda>_. after (attempt (set_phase h m PhFailed)) (after (update_op h o2 patch') (ret ()))))))" for m o1 patch patch'
    by (intro maintained registers.all_rules o recm)
  show ?thesis
    unfolding reconcile_models_def Let_def
    by (intro costs_asked costs_option costs_mono [OF costs_nothing(1)] costs_mono [OF lock [OF body bodym]]) simp_all
qed

lemma costs_cutover:
  assumes "\<And>l. h_polls h l \<le> p"
  shows "costs (registers ids) (reconcile_cutover h node) (5 * (p + 1) + 7)"
proof -
  let ?P = "registers ids" and ?w = "5 * (p + 1)"
  note w = costs_waited [OF assms]
  have o: "maintains ?P (update_op h o1 patch)" for o1 patch by (rule returns_maintains [OF registers_op])
  have e: "maintains ?P (write_env m raw)" for m raw
    unfolding write_env_def by (rule maintains_step) (simp add: registers_def)
  have n: "maintains ?P (update_node h m (generation_back j))" for m j by (rule update_node_registers) simp
  have moved: "costs ?P (move_back h m j) 3" "maintains ?P (move_back h m j)" for m j
    unfolding move_back_def Let_def
    by (rule costs_mono, (rule costs_after costs_bind costs_guarded costs_attempt costs_compose costs_files costs_res costs_commands
      registers.all_rules maintains_attempt e)+, simp) (intro maintained registers.all_rules e n)
  have fin: "costs ?P (finish_recovery h o1 j m) (?w + 3)" "maintains ?P (finish_recovery h o1 j m)" for o1 j m
    unfolding finish_recovery_def
    by (rule costs_mono, (rule costs_after costs_bind costs_guarded costs_when costs_compose costs_commands costs_nothing w
      maintains_when maintains_after maintains_bind maintains_guard maintains_ret registers.all_rules o)+, simp)
      (intro maintained registers.all_rules o)
  have c: "costs ?P (catch (bind (move_back h node j) (finish_recovery h o1 j)) (\<lambda>_. after (set_phase h (n_node_id node) PhFailed) (ret ()))) (?w + 7)"
    for j o1
    by (rule costs_mono, (rule costs_catch costs_bind costs_after moved fin costs_commands costs_nothing maintains_bind
      registers.all_rules)+) simp
  show ?thesis
    unfolding reconcile_cutover_def by (intro costs_asked costs_option costs_mono [OF costs_nothing(1)] c) simp_all
qed

lemma costs_nodes:
  assumes "\<And>node. costs (registers ids) (f node) c" and "\<And>node. maintains (registers ids) (f node)"
  shows "costs (registers ids) (bind list_nodes (each f)) (length ids * c)"
  unfolding costs_def
proof (intro allI impI)
  fix s assume s: "registers ids s" "length ids * c \<le> m_left s"
  then have l: "list_nodes s = (Ret (reg_nodes (stored_registry (m_store s))), s)"
    by (simp add: list_nodes_def bind_def ask_def from_res_def ret_def read_registry_Inr [THEN iffD2] registers_def)
  have n: "length (reg_nodes (stored_registry (m_store s))) = length ids" using s(1) by (auto simp: registers_def names_of_def)
  have "costs (registers ids) (each f ns) (length ns * c)" for ns by (rule costs_each) (use assms in auto)
  from this [of "reg_nodes (stored_registry (m_store s))"] s n
  show "fst (bind list_nodes (each f) s) \<noteq> Dead \<and> m_left s \<le> m_left (snd (bind list_nodes (each f) s)) + length ids * c"
    unfolding costs_def by (simp add: bind_def l)
qed

lemma costs_restart:
  assumes "\<And>l. h_polls h l \<le> p" and "\<And>pid. \<not> h_alive h pid"
  shows "costs (registers ids) (initialize_nodes h True) (2 + length ids * (10 * (p + 1) + 16))"
proof -
  let ?P = "registers ids"
  have models: "maintains ?P (reconcile_models h node)" for node
  proof -
    have o: "maintains ?P (update_op h o1 patch)" for o1 patch by (rule returns_maintains [OF registers_op])
    show ?thesis
      unfolding reconcile_models_def recover_models_def recovered_op_def Let_def
      by (intro maintained registers.all_rules registers.locked o)
  qed
  have cut: "maintains ?P (reconcile_cutover h node)" for node
  proof -
    have o: "maintains ?P (update_op h o1 patch)" for o1 patch by (rule returns_maintains [OF registers_op])
    have "maintains ?P (write_env m raw)" for m raw unfolding write_env_def by (rule maintains_step) (simp add: registers_def)
    then show ?thesis
      unfolding reconcile_cutover_def move_back_def finish_recovery_def Let_def
      by (intro maintained registers.all_rules o update_node_registers keeps_names_generation)
  qed
  have all: "maintains ?P (bind list_nodes (each f))" if "\<And>node. maintains ?P (f node)" for f
    unfolding list_nodes_def by (intro maintained that)
  have rec: "maintains ?P (store_op (recoverInterruptedOperations (h_alive h) (h_now h)))"
    by (rule returns_maintains [OF recovered_registers])
  have "costs ?P (initialize_nodes h True) (1 + (1 + (length ids * (5 * (p + 1) + 9) + length ids * (5 * (p + 1) + 7))))"
    unfolding initialize_nodes_def when_do_def if_True reconcileInterruptedModelConfigurations_def reconcileInterruptedCutovers_def
    by (intro costs_after costs_store costs_nodes costs_models costs_cutover assms all models cut rec
      returns_maintains [OF initialized_registers])
  then show ?thesis by (rule costs_mono) (simp add: algebra_simps)
qed

text \<open>
  C11: A restart comes to its end.  Whatever docker and the nodes answer, and whatever was interrupted, \<open>initialize\<close> with
  recovery returns, without an exception, as soon as the process lives for a number of steps that is linear in the number of
  nodes and in how often a wait asks again; it registers the same nodes.  The hypotheses: the registry and the files of
  operations are sound, and no process with a recorded id lives.
\<close>

theorem restart_completes:
  assumes "registry_ok (stored_registry (m_store s))" and "well_filed (m_store s)" and "\<And>pid. \<not> h_alive h pid"
    and "\<And>l. h_polls h l \<le> p" and "2 + length (reg_nodes (stored_registry (m_store s))) * (10 * (p + 1) + 16) \<le> m_left s"
  shows "\<exists>s'. initialize_nodes h True s = (Ret (), s') \<and> registry_ok (stored_registry (m_store s')) \<and>
    map n_node_id (reg_nodes (stored_registry (m_store s'))) = map n_node_id (reg_nodes (stored_registry (m_store s)))"
proof -
  define ids where "ids = map fst (names_of (m_store s))"
  have s: "registers ids s" using assms(1,2) by (simp add: registers_def ids_def)
  have "length ids = length (reg_nodes (stored_registry (m_store s)))" by (simp add: ids_def names_of_def)
  then have d: "fst (initialize_nodes h True s) \<noteq> Dead"
    using costs_restart [OF assms(4,3), where ids = ids] s assms(5) unfolding costs_def by simp
  obtain r s' where r: "initialize_nodes h True s = (r, s')" by fastforce
  note t = tripleD [OF restart_returns [OF assms(3)] s]
  have "registers ids s'" and "r = Ret ()" using t r d by (cases r; auto)+
  then show ?thesis using r by (auto simp: registers_def ids_def names_of_def comp_def)
qed

theorem restart_completes_witness:
  "\<exists>s'. initialize_nodes dead_host True (world 1 [] 28) = (Ret (), s') \<and> registry_ok (stored_registry (m_store s')) \<and>
    map n_node_id (reg_nodes (stored_registry (m_store s'))) = [KEY]"
proof -
  have s: "sane KEY (m_store (world 1 [] 28))" by (rule world_sane) simp_all
  have r: "reg_nodes (stored_registry (m_store (world 1 [] 28))) = [world_node 1]" by (simp add: world_def stored_registry_def)
  have "\<exists>s'. initialize_nodes dead_host True (world 1 [] 28) = (Ret (), s') \<and> registry_ok (stored_registry (m_store s')) \<and>
      map n_node_id (reg_nodes (stored_registry (m_store s'))) = map n_node_id (reg_nodes (stored_registry (m_store (world 1 [] 28))))"
  proof (rule restart_completes)
    show "2 + length (reg_nodes (stored_registry (m_store (world 1 [] 28)))) * (10 * (0 + 1) + 16) \<le> m_left (world 1 [] 28)"
      unfolding r by (simp add: world_def)
  qed (use s in \<open>simp_all add: sane_def dead_host_def\<close>)
  then show ?thesis unfolding r by (simp add: world_node_def)
qed

end
