(* ===== verification/NodeCrashProps.thy ===== *)
theory NodeCrashProps
  imports NodeReturns
begin

text \<open>
  What restores, migrations and restarts of the manager guarantee, and the restart that undoes a later restore.
\<close>

section \<open>Lives of the manager\<close>

text \<open>The manager is started with a number of steps to live, in the state the one before it left.\<close>

definition boot :: "host \<times> nat \<Rightarrow> mgr \<Rightarrow> unit outcome \<times> mgr" where
  "boot life s = initialize_nodes (fst life) True (s\<lparr>m_left := snd life\<rparr>)"

definition survive :: "(host \<times> nat) list \<Rightarrow> mgr \<Rightarrow> mgr" where
  "survive lives s = foldl (\<lambda>s life. snd (boot life s)) s lives"

text \<open>Later managers: the same hash function, and no process with a recorded id lives.\<close>

definition successors :: "(string \<Rightarrow> string) \<Rightarrow> (host \<times> nat) list \<Rightarrow> bool" where
  "successors sha lives \<longleftrightarrow> (\<forall>life \<in> set lives. h_sha (fst life) = sha \<and> (\<forall>pid. \<not> h_alive (fst life) pid))"

text \<open>The registry and the \<open>.env\<close> file of the node: as they were, or both of the same later generation\<close>

definition at_old :: "node_start \<Rightarrow> mgr \<Rightarrow> bool" where
  "at_old a s \<longleftrightarrow> placed (ns_id a) s = Some (ns_at a) \<and> oget (m_env s) (ns_id a) = Some (ns_env a)"

definition at_new :: "node_start \<Rightarrow> mgr \<Rightarrow> bool" where
  "at_new a s \<longleftrightarrow> (\<exists>g schema e. fst (ns_at a) < g \<and> placed (ns_id a) s = Some (g, schema) \<and>
     oget (m_env s) (ns_id a) = Some e \<and> replaceEnv (ns_env a) ''DB_VOLUME_NAME'' (volumeName (ns_id a) g) = Inr e)"

lemma classes_at: "at_start a s \<Longrightarrow> at_old a s" "moved_on a s \<Longrightarrow> at_new a s" "back_home a sha s \<Longrightarrow> at_old a s"
proof -
  show o: "at_start a s \<Longrightarrow> at_old a s" by (simp add: at_start_def at_old_def here_def view_def)
  show "moved_on a s \<Longrightarrow> at_new a s"
    unfolding moved_on_def at_new_def here_def view_def DB_def by blast
  show "back_home a sha s \<Longrightarrow> at_old a s"
    unfolding back_home_def using o by (auto simp: back_with_def at_old_def here_def view_def)
qed

lemma boot_maintains:
  assumes "successors sha lives" and "\<And>h :: host. h_sha h = sha \<Longrightarrow> (\<And>pid. \<not> h_alive h pid) \<Longrightarrow> maintains P (initialize_nodes h True)"
    and "\<And>s n. P s \<Longrightarrow> P (s\<lparr>m_left := n\<rparr>)" and "P s"
  shows "P (survive lives s)"
  using assms(1,4)
proof (induction lives arbitrary: s)
  case (Cons life lives)
  then have "maintains P (initialize_nodes (fst life) True)" by (intro assms(2)) (auto simp: successors_def)
  then have "P (snd (boot life s))" using assms(3) [OF Cons.prems(2)] by (simp add: boot_def maintains_def)
  then show ?case using Cons by (simp add: survive_def successors_def)
qed (simp add: survive_def)

lemma calm_boots:
  assumes "successors sha lives" and "here nid (Some k, e, {}) s"
  shows "here nid (Some k, e, {}) (survive lives s)"
  by (rule boot_maintains [OF assms(1) _ here.left assms(2)]) (rule maintains_triple, rule calm_restart)

lemma calm_classes:
  assumes "successors sha lives"
  shows "at_start a s \<Longrightarrow> at_start a (survive lives s)" and "moved_on a s \<Longrightarrow> moved_on a (survive lives s)"
  using calm_boots [OF assms] unfolding at_start_def moved_on_def by blast+

lemma known_left: "known a sha s \<Longrightarrow> known a sha (s\<lparr>m_left := n\<rparr>)"
  unfolding known_def at_start_def moved_on_def under_way_def between_def by (blast intro: here.left)

lemma known_boots:
  assumes "start_ok a" and "successors sha lives" and "known a sha s"
  shows "known a sha (survive lives s)"
proof (rule boot_maintains [OF assms(2) _ known_left assms(3)])
  fix h :: host assume h: "h_sha h = sha" "\<And>pid. \<not> h_alive h pid"
  have "settled_node a sha s \<Longrightarrow> known a sha s" for s
    unfolding settled_node_def known_def back_home_def under_way_def using back_between by blast
  then show "maintains (known a sha) (initialize_nodes h True)"
    using h(1) by (intro maintains_triple triple_weaken [OF restart_here [OF assms(1) h(2)]]) auto
qed

lemma chosen_registers: "chosen a selector s \<Longrightarrow> \<exists>ids. registers ids s"
  by (auto simp: chosen_def at_start_def here_def sane_def registers_def)

lemma known_registers: "known a sha s \<Longrightarrow> \<exists>ids. registers ids s"
  unfolding known_def at_start_def moved_on_def under_way_def between_def here_def sane_def registers_def by blast

definition outcome_shown :: "node_start \<Rightarrow> operation_record outcome \<Rightarrow> mgr \<Rightarrow> bool" where
  "outcome_shown a r s \<longleftrightarrow> (case r of
     Ret o1 \<Rightarrow> if op_state o1 = OsSucceeded then at_new a s else at_old a s
   | Throw e \<Rightarrow> at_old a s
   | Dead \<Rightarrow> at_old a s \<or> at_new a s)"

lemma survives:
  assumes a: "start_ok a" and m: "triple (chosen a selector) m (finished a) (at_start a) (known a sha)" "chosen a selector s"
    and s1: "m s = (r, s1)" and l: "successors sha (lives @ [life])"
  shows "(r \<noteq> Dead \<longrightarrow> outcome_shown a r s1) \<and>
    (case boot life (survive lives s1) of (Ret _, s2) \<Rightarrow> outcome_shown a r s2 | (Throw _, _) \<Rightarrow> False | (Dead, _) \<Rightarrow> True)"
proof -
  have l1: "successors sha lives" "successors sha [life]" using l by (auto simp: successors_def)
  note d = tripleD [OF m]
  have k: "known a sha s1" using d s1 by (cases r) (auto intro: known_start finished_known)
  have k2: "known a sha (survive lives s1)" by (rule known_boots [OF a l1(1) k])
  have h: "h_sha (fst life) = sha" "\<not> h_alive (fst life) pid" for pid using l1(2) by (simp_all add: successors_def)
  have one: "snd (boot life s') = survive [life] s'" for s' by (simp add: survive_def)
  have c: "r \<noteq> Dead \<Longrightarrow> outcome_shown a r s1 \<and> outcome_shown a r (snd (boot life (survive lives s1)))"
    using d s1 calm_classes [OF l1(1)] calm_classes [OF l1(2)] classes_at unfolding one
    by (cases r) (auto simp: outcome_shown_def finished_def split: if_splits)
  obtain ids where "registers ids (survive lives s1)" using known_registers [OF k2] by blast
  from tripleD [OF restart_returns [OF h(2)] registers.left [OF this, of "snd life"]]
  have nt: "boot life (survive lives s1) \<noteq> (Throw e, s2)" for e s2 unfolding boot_def by blast
  have d2: "boot life (survive lives s1) = (Ret x, s2) \<Longrightarrow> settled_node a sha s2" for x s2
    using tripleD(1) [OF restart_here [OF a h(2)] known_left [OF k2 [folded h(1)]]] unfolding boot_def h(1) by blast
  show ?thesis
  proof (cases "boot life (survive lives s1)")
    case (Pair o2 s2)
    show ?thesis
    proof (cases o2)
      case (Ret x)
      have "at_old a s2 \<or> at_new a s2" using d2 [of x s2] Pair Ret classes_at unfolding settled_node_def by blast
      then show ?thesis using c Pair Ret by (cases "r = Dead") (auto simp: outcome_shown_def)
    qed (use Pair nt c in auto)
  qed
qed

text \<open>
  C6: A restore survives the death of the manager.  Let a node be registered at a generation whose volume its \<open>.env\<close> file
  names, nothing else of it pending, and let \<open>restoreApply\<close> run with any number of steps to live, whatever docker and the
  node answer.  If it returns a success, the registry and the file are at one later generation; if it returns a failure or
  throws, both are as they were.  However often the manager dies afterwards, in the middle of a recovery too: a restart that
  comes to its end leaves both at the old or both at the one later generation, as the operation's answer said if it was
  given, and a restart never throws.
\<close>

theorem restore_survives_crashes:
  assumes "start_ok a" and "chosen a selector s" and "restoreApply h selector backupId confirmation s = (r, s1)"
    and "successors (h_sha h) (lives @ [life])"
  shows "(r \<noteq> Dead \<longrightarrow> outcome_shown a r s1) \<and>
    (case boot life (survive lives s1) of (Ret _, s2) \<Rightarrow> outcome_shown a r s2 | (Throw _, _) \<Rightarrow> False | (Dead, _) \<Rightarrow> True)"
  using survives [OF assms(1) restore_here [OF assms(1)] assms(2,3,4)] .

lemma dead_successors: "successors (h_sha dead_host) [(dead_host, n), (dead_host, k)]"
  by (simp add: successors_def dead_host_def)

theorem restore_survives_crashes_witness:
  "case restoreApply dead_host ''personal'' KEY KEY (world 1 [] 9) of (r, s1) \<Rightarrow> (r \<noteq> Dead \<longrightarrow> outcome_shown (start_of 1) r s1) \<and>
    (case boot (dead_host, 28) (survive [(dead_host, 2)] s1) of
       (Ret _, s2) \<Rightarrow> outcome_shown (start_of 1) r s2 | (Throw _, _) \<Rightarrow> False | (Dead, _) \<Rightarrow> True)"
proof -
  obtain r s1 where r: "restoreApply dead_host ''personal'' KEY KEY (world 1 [] 9) = (r, s1)" by fastforce
  have a: "start_ok (start_of 1)" by (rule start_of_ok) (simp add: MAX_SAFE_INTEGER_def)
  have "successors (h_sha dead_host) ([(dead_host, 2)] @ [(dead_host, 28)])" using dead_successors by simp
  from restore_survives_crashes [OF a world_chosen r this] show ?thesis unfolding r by simp
qed

text \<open>
  C7: A migration into a new generation survives the death of the manager, in the same way: only the mode
  \<open>transactional\<close>, which changes the database where it is, is left out.
\<close>

theorem migration_survives_crashes:
  assumes "start_ok a" and "chosen a selector s" and "mode \<noteq> ''transactional''"
    and "migrationApply h selector target confirmation mode s = (r, s1)" and "successors (h_sha h) (lives @ [life])"
  shows "(r \<noteq> Dead \<longrightarrow> outcome_shown a r s1) \<and>
    (case boot life (survive lives s1) of (Ret _, s2) \<Rightarrow> outcome_shown a r s2 | (Throw _, _) \<Rightarrow> False | (Dead, _) \<Rightarrow> True)"
  using survives [OF assms(1) migration_here [OF assms(1,3)] assms(2,4,5)] .

theorem migration_survives_crashes_witness:
  "case migrationApply dead_host ''personal'' ''r2'' KEY ''new_generation'' (world 1 [] 9) of (r, s1) \<Rightarrow>
    (r \<noteq> Dead \<longrightarrow> outcome_shown (start_of 1) r s1) \<and>
    (case boot (dead_host, 28) (survive [(dead_host, 2)] s1) of
       (Ret _, s2) \<Rightarrow> outcome_shown (start_of 1) r s2 | (Throw _, _) \<Rightarrow> False | (Dead, _) \<Rightarrow> True)"
proof -
  obtain r s1 where r: "migrationApply dead_host ''personal'' ''r2'' KEY ''new_generation'' (world 1 [] 9) = (r, s1)" by fastforce
  have a: "start_ok (start_of 1)" by (rule start_of_ok) (simp add: MAX_SAFE_INTEGER_def)
  have "successors (h_sha dead_host) ([(dead_host, 2)] @ [(dead_host, 28)])" using dead_successors by simp
  from migration_survives_crashes [OF a world_chosen _ r this] show ?thesis unfolding r by simp
qed

section \<open>The rollback of a cutover that is long over\<close>

text \<open>
  A restore from generation 1 to 2 was interrupted; the restart moved the node back but could not start it, so the
  operation still needs attention.  Later a restore to generation 3 succeeded.
\<close>

definition stale_op :: "(string \<Rightarrow> string) \<Rightarrow> operation_record" where
  "stale_op sha = \<lparr>op_operation_id = ''o1'', op_node_id = KEY, op_kind = OpRestoreApply, op_state = OsNeedsAttention,
     op_phase = ''manager_restarted'', op_started_at = ''t1'', op_updated_at = ''t2'', op_completed_at = Some ''t2'', op_error = None,
     op_result = Some (journal_json (dead_host\<lparr>h_sha := sha\<rparr>) (world_node 1) (volume_env 1) 2 (volumeName KEY 2) ''r1'')\<rparr>"

definition later_op :: operation_record where
  "later_op = \<lparr>op_operation_id = ''o2'', op_node_id = KEY, op_kind = OpRestoreApply, op_state = OsSucceeded,
     op_phase = ''verified'', op_started_at = ''t3'', op_updated_at = ''t4'', op_completed_at = Some ''t4'', op_error = None,
     op_result = Some (JObj [(''active_generation'', JNum 3)])\<rparr>"

lemma stale_journalled: "journalled (start_of 1) sha (stale_op sha)"
proof -
  have a: "start_ok (start_of 1)" by (rule start_of_ok) (simp add: MAX_SAFE_INTEGER_def)
  have r: "op_result (stale_op sha) = Some (journal_json (dead_host\<lparr>h_sha := sha\<rparr>) (world_node 1) (ns_env (start_of 1)) 2 (volumeName KEY 2) ''r1'')"
    by (simp add: stale_op_def start_of_def)
  have n: "n_generation (world_node 1) = fst (ns_at (start_of 1))" "n_schema_revision (world_node 1) = snd (ns_at (start_of 1))"
    by (simp_all add: world_node_def start_of_def)
  note j = journal_read [OF a n r]
  show ?thesis using j by (simp add: journalled_def) (simp add: stale_op_def start_of_def)
qed

lemma stale_between: "between (start_of 1) (stale_op sha) (world 3 [stale_op sha, later_op] n)"
proof -
  have i: "op_operation_id (stale_op sha) = ''o1''" "op_operation_id later_op = ''o2''" "op_node_id (stale_op sha) = KEY" "op_node_id later_op = KEY"
    by (simp_all add: stale_op_def later_op_def)
  have p: "pending_cutover (stale_op sha)" "\<not> pending_cutover later_op"
    using stale_journalled [of sha] by (auto simp: pending_cutover_def journalled_def later_op_def)
  have "{(e, o1). oget (map (\<lambda>o1. (op_operation_id o1 @ ''.json'', Some o1)) [stale_op sha, later_op]) e = Some (Some o1) \<and> pending_cutover o1}
      = filed (stale_op sha)" using p by (auto simp: filed_def i split: if_splits)
  then have v: "view KEY (world 3 [stale_op sha, later_op] n) = (Some (3, ''r1''), Some (volume_env 3), filed (stale_op sha))"
    unfolding world_view by simp
  have "sane KEY (m_store (world 3 [stale_op sha, later_op] n))" by (rule world_sane) (simp_all add: i)
  moreover have "env_of (start_of 1) (volume_env 3)"
    unfolding env_of_def using bare_world replace_world by (auto simp: start_of_def)
  ultimately show ?thesis unfolding between_def here_def using v by (auto simp: start_of_def)
qed

lemma world_operations: "operations_of (m_store (world 3 [stale_op sha, later_op] n)) KEY = [stale_op sha, later_op]"
proof -
  have e: "op_entries (m_store (world 3 [stale_op sha, later_op] n)) KEY = [''o1.json'', ''o2.json'']"
    by (simp add: op_entries_def world_def stale_op_def later_op_def)
  have f: "op_file (m_store (world 3 [stale_op sha, later_op] n)) KEY ''o1.json'' = Some (stale_op sha)"
      "op_file (m_store (world 3 [stale_op sha, later_op] n)) KEY ''o2.json'' = Some later_op"
    by (simp_all add: op_file_def world_def stale_op_def later_op_def)
  have x: "ends_with ''.json'' ''o1.json''" "ends_with ''.json'' ''o2.json''" by code_simp+
  have "''t1'' \<le> (''t3'' :: string)" by code_simp
  then have t: "op_started_at (stale_op sha) \<le> op_started_at later_op" by (simp add: stale_op_def later_op_def)
  have k: "op_node_id (stale_op sha) = KEY" "op_node_id later_op = KEY" by (simp_all add: stale_op_def later_op_def)
  show ?thesis unfolding operations_of_def e using t by (simp add: map_filter_def f x k)
qed

text \<open>
  C36: A restart undoes a later restore.  An interrupted cutover whose rollback could not be completed is rolled back again at
  every restart, whatever has happened since: here the node was restored to generation 3 by a later operation, recorded as
  succeeded, and the next restart, which reports no error, takes it back to generation 1.
\<close>

theorem stale_cutover_undoes_restore:
  assumes "\<And>pid. \<not> h_alive h pid" and "\<And>l. h_polls h l \<le> p" and "10 * (p + 1) + 18 \<le> n"
  shows "at_old (start_of 3) (world 3 [stale_op (h_sha h), later_op] n) \<and>
    last (operations_of (m_store (world 3 [stale_op (h_sha h), later_op] n)) KEY) = later_op \<and>
    (\<exists>s'. initialize_nodes h True (world 3 [stale_op (h_sha h), later_op] n) = (Ret (), s') \<and> at_old (start_of 1) s')"
proof -
  let ?s = "world 3 [stale_op (h_sha h), later_op] n"
  have sane: "sane KEY (m_store ?s)" by (rule world_sane) (simp_all add: stale_op_def later_op_def)
  have "at_old (start_of 3) ?s"
    using world_view [of 3 "[stale_op (h_sha h), later_op]" n] by (simp add: at_old_def view_def start_of_def)
  moreover have "operations_of (m_store ?s) KEY = [stale_op (h_sha h), later_op]" by (rule world_operations)
  moreover obtain s' where s': "initialize_nodes h True ?s = (Ret (), s')"
  proof -
    have r: "reg_nodes (stored_registry (m_store ?s)) = [world_node 3]" by (simp add: world_def stored_registry_def)
    define ids where "ids = map fst (names_of (m_store ?s))"
    have s: "registers ids ?s" using sane by (simp add: registers_def ids_def sane_def)
    have "length ids = 1" by (simp add: ids_def names_of_def r)
    then have "fst (initialize_nodes h True ?s) \<noteq> Dead"
      using costs_restart [OF assms(2,1), where ids = ids] s assms(3) unfolding costs_def by (simp add: world_def)
    then show ?thesis using tripleD(2) [OF restart_returns [OF assms(1)] s] that by (cases "initialize_nodes h True ?s"; cases "fst (initialize_nodes h True ?s)") auto
  qed
  moreover have "start_ok (start_of 1)" by (rule start_of_ok) (simp add: MAX_SAFE_INTEGER_def)
  from tripleD(1) [OF journalled_restart [OF this assms(1) stale_journalled] stale_between s']
  have "at_old (start_of 1) s'" by (rule classes_at)
  ultimately show ?thesis by (simp add: s')
qed

theorem stale_cutover_undoes_restore_witness:
  "\<exists>s'. initialize_nodes dead_host True (world 3 [stale_op id, later_op] 28) = (Ret (), s') \<and> at_old (start_of 1) s'"
proof -
  have "h_sha dead_host = id" by (simp add: dead_host_def)
  then show ?thesis using stale_cutover_undoes_restore [of dead_host 0 28] by (simp add: dead_host_def)
qed

end
