(* ===== verification/NodeModels.thy ===== *)
theory NodeModels
  imports NodeLife ModelHealth
begin

text \<open>
  The models of a managed node, in \<open>apps/manager/src/node-manager.ts\<close>: provider addresses, saved connections, which
  names of models may be shown, the checks of selections, and the lines of the \<open>.env\<close> file a configuration gives.  The
  URL constructor and its \<open>toString\<close> are arguments (\<open>node_world\<close>).
\<close>

section \<open>Addresses of providers\<close>

definition strip_slash :: "string \<Rightarrow> string" where
  "strip_slash s = (if s \<noteq> [] \<and> last s = CHR ''/'' then butlast s else s)"

definition http_protocol :: "url_parts \<Rightarrow> bool" where
  "http_protocol u = (protocol u = ''http:'' \<or> protocol u = ''https:'')"

definition validatedProviderBaseUrl :: "node_world \<Rightarrow> string \<Rightarrow> string \<Rightarrow> string res" where
  "validatedProviderBaseUrl w v label =
     (case nw_parse_url w (trim v) of
        None \<Rightarrow> Inl (label @ '' must be an HTTP(S) URL'')
      | Some u \<Rightarrow>
          if \<not> http_protocol u \<or> username u \<noteq> [] \<or> password u \<noteq> [] \<or> search u \<noteq> [] \<or> url_hash u \<noteq> []
          then Inl (label @ '' must be an HTTP(S) URL without credentials, query, or fragment'')
          else Inr (strip_slashes (trim v)))"

definition parse_provider :: "node_world \<Rightarrow> string \<Rightarrow> url_parts res" where
  "parse_provider w v = rbind (validatedProviderBaseUrl w v ''base_url'') (\<lambda>t.
     case nw_parse_url w t of None \<Rightarrow> Inl ''Invalid URL'' | Some u \<Rightarrow> Inr u)"

definition normalizedProviderBaseUrl :: "node_world \<Rightarrow> string \<Rightarrow> string res" where
  "normalizedProviderBaseUrl w v = rbind (parse_provider w v) (\<lambda>u.
     let host = to_lower (hostname u)
     in Inr (strip_slashes (nw_show_url w (u\<lparr>hostname :=
          (if host = ''localhost'' \<or> host = ''host.docker.internal'' then ''127.0.0.1'' else host)\<rparr>))))"

definition containerProviderBaseUrl :: "node_world \<Rightarrow> string \<Rightarrow> string res" where
  "containerProviderBaseUrl w v = rbind (parse_provider w v) (\<lambda>u.
     Inr (strip_slash (nw_show_url w
       (if to_lower (hostname u) \<in> {''127.0.0.1'', ''localhost'', ''::1''} then u\<lparr>hostname := ''host.docker.internal''\<rparr> else u))))"

definition displayProviderUrl :: "node_world \<Rightarrow> string \<Rightarrow> string" where
  "displayProviderUrl w v = (case nw_parse_url w v of
     None \<Rightarrow> [] | Some u \<Rightarrow> strip_slash (nw_show_url w (bare_url u)))"

definition providerEndpoint :: "node_world \<Rightarrow> string \<Rightarrow> string \<Rightarrow> string res" where
  "providerEndpoint w base resource =
     (case nw_parse_url w base of
        None \<Rightarrow> Inl ''Invalid URL''
      | Some u \<Rightarrow>
          if \<not> http_protocol u \<or> username u \<noteq> [] \<or> password u \<noteq> [] then Inl ''Invalid provider URL''
          else let p = strip_slashes (pathname u); tail = CHR ''/'' # resource
               in Inr (nw_show_url w ((bare_url u)\<lparr>pathname :=
                    (if length tail \<le> length p \<and> drop (length p - length tail) p = tail then p else p @ tail)\<rparr>)))"

section \<open>Names of models\<close>

definition validModelName :: "string \<Rightarrow> bool" where
  "validModelName v = (validModel v \<and> scheme_length v = 0)"

text \<open>A text and a secret share the secret's first or last twelve characters, or one contains the other.\<close>

definition sharesSensitiveFragment :: "string \<Rightarrow> string \<Rightarrow> bool" where
  "sharesSensitiveFragment v sensitive =
     (let l = to_lower v; r = to_lower sensitive; width = min 12 (length r)
      in width \<noteq> 0 \<and> (str_includes r l \<or> str_includes l r \<or> str_includes (take width r) l \<or>
         str_includes (drop (length r - width) r) l))"

text \<open>\<open>/embed(?:ding)?/i\<close> or \<open>/(?:^|[/:._-])(?:bge|e5|gte|instructor|minilm)(?:$|[/:._-])/i\<close>\<close>

definition name_break :: "char \<Rightarrow> bool" where
  "name_break c = (c \<in> set ''/:._-'')"

fun marked_word :: "bool \<Rightarrow> string \<Rightarrow> bool" where
  "marked_word free [] = False"
| "marked_word free (c # cs) =
     (free \<and> list_ex (\<lambda>w. starts_with w (c # cs) \<and> (case drop (length w) (c # cs) of [] \<Rightarrow> True | d # _ \<Rightarrow> name_break d))
        [''bge'', ''e5'', ''gte'', ''instructor'', ''minilm'']
      \<or> marked_word (name_break c) cs)"

definition likelyEmbeddingModel :: "string \<Rightarrow> bool" where
  "likelyEmbeddingModel v = (str_includes ''embed'' (to_lower v) \<or> marked_word True (to_lower v))"

record model_provider =
  pv_url :: string
  pv_key :: string

definition modelNameLeaksProvider :: "node_world \<Rightarrow> string \<Rightarrow> model_provider \<Rightarrow> bool" where
  "modelNameLeaksProvider w v p =
     list_ex (\<lambda>s. s \<noteq> [] \<and> sharesSensitiveFragment v s)
       ([pv_key p, pv_url p] @ (case nw_parse_url w (pv_url p) of
          None \<Rightarrow> []
        | Some u \<Rightarrow> hostname u # (if to_lower (hostname u) = ''host.docker.internal'' then [''127.0.0.1''] else [])))"

record model_catalog =
  ct_models :: "string list"
  ct_diagnostic :: "string option"

definition no_models :: "string \<Rightarrow> model_catalog" where
  "no_models why = \<lparr>ct_models = [], ct_diagnostic = Some why\<rparr>"

definition roleCatalog :: "model_catalog \<Rightarrow> bool \<Rightarrow> model_catalog" where
  "roleCatalog catalog embedding =
     (if (case ct_diagnostic catalog of None \<Rightarrow> False | Some d \<Rightarrow> d \<noteq> []) then catalog\<lparr>ct_models := []\<rparr>
      else let available = filter (\<lambda>m. likelyEmbeddingModel m = embedding) (ct_models catalog)
           in if available = [] \<and> ct_models catalog \<noteq> []
              then no_models (''No '' @ (if embedding then ''embedding'' else ''generation'') @ ''-compatible models were found'')
              else \<lparr>ct_models = available, ct_diagnostic = None\<rparr>)"

text \<open>The names in a catalog: entry by entry, with the length of all ids seen so far\<close>

definition catalog_id :: "json \<Rightarrow> string option" where
  "catalog_id entry = (case entry of JObj kvs \<Rightarrow> str_field kvs ''id'' | _ \<Rightarrow> None)"

fun catalog_names :: "node_world \<Rightarrow> model_provider \<Rightarrow> nat \<Rightarrow> string list \<Rightarrow> json list \<Rightarrow> string list option" where
  "catalog_names w p seen names [] = Some names"
| "catalog_names w p seen names (entry # entries) =
     (case catalog_id entry of
        None \<Rightarrow> catalog_names w p seen names entries
      | Some i \<Rightarrow>
          if 64 * 1024 < seen + js_length i then None
          else catalog_names w p (seen + js_length i)
                 (if validModelName i \<and> \<not> modelNameLeaksProvider w i p \<and> i \<notin> set names then names @ [i] else names) entries)"

definition read_catalog :: "node_world \<Rightarrow> (string \<Rightarrow> string) \<Rightarrow> model_provider \<Rightarrow> json option \<Rightarrow> model_catalog" where
  "read_catalog w collate p payload =
     (case Option.bind (Option.bind payload props) (\<lambda>o1. arr_field o1 ''data'') of
        None \<Rightarrow> no_models ''Model provider returned an invalid model catalog''
      | Some entries \<Rightarrow>
          if 1000 < length entries then no_models ''Model provider returned an oversized model catalog''
          else (case catalog_names w p 0 [] entries of
                  None \<Rightarrow> no_models ''Model provider returned an oversized model catalog''
                | Some names \<Rightarrow> \<lparr>ct_models = sort_key collate names, ct_diagnostic = None\<rparr>))"

section \<open>Saved connections\<close>

definition modelProvider :: "string \<Rightarrow> string \<Rightarrow> model_provider option" where
  "modelProvider base key = (if trim base = [] then None else Some \<lparr>pv_url = trim base, pv_key = key\<rparr>)"

definition codexBridge :: "string \<Rightarrow> string \<Rightarrow> string" where
  "codexBridge port nid = ''http://host.docker.internal:'' @ port @ ''/v1/internal/codex/nodes/'' @ nid"

text \<open>\<open>Number(env.MANAGER_PORT || 14174)\<close> as a text\<close>

definition manager_port :: "(rat \<Rightarrow> string) \<Rightarrow> env \<Rightarrow> string" where
  "manager_port fmt env =
     (let p = eget env ''MANAGER_PORT''
      in if p = [] then ''14174'' else case str_number p of None \<Rightarrow> ''NaN'' | Some r \<Rightarrow> fmt r)"

definition activeSource :: "(rat \<Rightarrow> string) \<Rightarrow> string \<Rightarrow> env \<Rightarrow> source option" where
  "activeSource fmt nid env =
     (if eget env ''GENERATION_SOURCE'' = ''codex_session'' then Some CodexSession
      else if eget env ''GENERATION_SOURCE'' = ''openai_compatible'' then Some OpenaiCompatible
      else if eget env ''GENERATION_BASE_URL'' = codexBridge (manager_port fmt env) nid then Some CodexSession
      else if eget env ''GENERATION_BASE_URL'' \<noteq> [] \<or> eget env ''GENERATION_MODEL'' \<noteq> [] then Some OpenaiCompatible
      else None)"

datatype origin = Generation | EmbeddingFallback

record saved_provider =
  sp_provider :: "model_provider option"
  sp_origin :: "origin option"
  sp_model :: string

definition savedDirectGenerationProvider :: "(rat \<Rightarrow> string) \<Rightarrow> string \<Rightarrow> env \<Rightarrow> saved_provider" where
  "savedDirectGenerationProvider fmt nid env =
     (let saved = modelProvider (eget env ''GENERATION_DIRECT_BASE_URL'') (eget env ''GENERATION_DIRECT_API_KEY'');
          active = (if activeSource fmt nid env = Some CodexSession then None
                    else modelProvider (eget env ''GENERATION_BASE_URL'') (eget env ''GENERATION_API_KEY''));
          embedding = modelProvider (eget env ''EMBEDDING_BASE_URL'') (eget env ''EMBEDDING_API_KEY'')
      in if saved \<noteq> None
         then \<lparr>sp_provider = saved, sp_origin = Some Generation, sp_model = eget env ''GENERATION_DIRECT_MODEL''\<rparr>
         else if active \<noteq> None
         then \<lparr>sp_provider = active, sp_origin = Some Generation, sp_model = eget env ''GENERATION_MODEL''\<rparr>
         else \<lparr>sp_provider = embedding, sp_origin = (if embedding = None then None else Some EmbeddingFallback), sp_model = []\<rparr>)"

datatype key_action = KeepKey | ReplaceKey string | ClearKey

record connection =
  cn_url :: string
  cn_action :: key_action

definition directGenerationProvider :: "node_world \<Rightarrow> (rat \<Rightarrow> string) \<Rightarrow> string \<Rightarrow> env \<Rightarrow> connection option \<Rightarrow> model_provider res" where
  "directGenerationProvider w fmt nid env connection =
     (case connection of
        None \<Rightarrow> Inl ''API connection settings are required''
      | Some c \<Rightarrow>
          let current = sp_provider (savedDirectGenerationProvider fmt nid env)
          in rbind (case current of
                 None \<Rightarrow> Inr None
               | Some p \<Rightarrow> rbind (normalizedProviderBaseUrl w (pv_url p)) (\<lambda>a.
                   rbind (normalizedProviderBaseUrl w (cn_url c)) (\<lambda>b. Inr (if a = b then Some p else None)))) (\<lambda>same.
             case cn_action c of
               KeepKey \<Rightarrow>
                 (case same of
                    None \<Rightarrow> Inl ''The saved API key cannot be reused after changing the provider address''
                  | Some p \<Rightarrow> rbind (containerProviderBaseUrl w (cn_url c)) (\<lambda>url. Inr \<lparr>pv_url = url, pv_key = pv_key p\<rparr>))
             | ReplaceKey key \<Rightarrow> rbind (containerProviderBaseUrl w (cn_url c)) (\<lambda>url. Inr \<lparr>pv_url = url, pv_key = key\<rparr>)
             | ClearKey \<Rightarrow> rbind (containerProviderBaseUrl w (cn_url c)) (\<lambda>url. Inr \<lparr>pv_url = url, pv_key = []\<rparr>)))"

end
