(* ===== verification/NodeModelInput.thy ===== *)
theory NodeModelInput
  imports NodeModels
begin

text \<open>
  What comes in and goes out of the configuration of a managed node's models, in \<open>apps/manager/src/node-manager.ts\<close>:
  the checks of selections and connections, the lines a configuration changes in the \<open>.env\<close> and \<open>compose.yaml\<close> files,
  and the status shown of the models.
\<close>

section \<open>Selections\<close>

text \<open>The choice of a generation model, and the probe of one, for which the model may be missing\<close>

record generation_choice =
  gc_source :: source
  gc_model :: "string option"
  gc_connection :: "connection option"

record selection =
  sl_embedding :: "string option"
  sl_generation_model :: "string option"
  sl_generation :: "generation_choice option"

definition only_keys :: "string list \<Rightarrow> fields \<Rightarrow> bool" where
  "only_keys keys input = list_all (\<lambda>k. k \<in> set keys) (okeys input)"

definition validateGenerationSource :: "json option \<Rightarrow> source res" where
  "validateGenerationSource v =
     (if v = Some (JStr ''codex_session'') then Inr CodexSession
      else if v = Some (JStr ''openai_compatible'') then Inr OpenaiCompatible else Inl ''Invalid generation source'')"

definition validateGenerationConnection :: "node_world \<Rightarrow> json option \<Rightarrow> connection res" where
  "validateGenerationConnection w v =
     (case Option.bind v as_object of
        None \<Rightarrow> Inl ''API connection settings are required''
      | Some input \<Rightarrow>
          if \<not> only_keys [''base_url'', ''api_key_action'', ''api_key''] input then Inl ''Unsupported API connection field''
          else (case str_field input ''base_url'' of
              None \<Rightarrow> Inl ''API base URL is required''
            | Some url \<Rightarrow> rbind (validatedProviderBaseUrl w url ''base_url'') (\<lambda>base.
                case str_field input ''api_key_action'' of
                  None \<Rightarrow> Inl ''Invalid API key action''
                | Some action \<Rightarrow>
                    if action \<notin> {''keep'', ''replace'', ''clear''} then Inl ''Invalid API key action''
                    else if action = ''replace''
                    then (case str_field input ''api_key'' of
                            None \<Rightarrow> Inl ''A valid API key is required when replacing the key''
                          | Some key \<Rightarrow>
                              if key = [] \<or> 8192 < js_length key \<or> bad_control key
                              then Inl ''A valid API key is required when replacing the key''
                              else Inr \<lparr>cn_url = base, cn_action = ReplaceKey key\<rparr>)
                    else if oget input ''api_key'' \<noteq> None then Inl ''API key may only be supplied when replacing the key''
                    else Inr \<lparr>cn_url = base, cn_action = (if action = ''keep'' then KeepKey else ClearKey)\<rparr>)))"

text \<open>\<open>validateGenerationSelection\<close> and \<open>validateGenerationProbeInput\<close>, which differ in their texts and whether a model is needed\<close>

definition validate_choice :: "node_world \<Rightarrow> bool \<Rightarrow> string \<Rightarrow> string \<Rightarrow> json \<Rightarrow> generation_choice res" where
  "validate_choice w need_model what codex_refusal v =
     (case as_object v of
        None \<Rightarrow> Inl (''Generation '' @ what @ '' must be a JSON object'')
      | Some input \<Rightarrow>
          if \<not> only_keys [''source'', ''model'', ''connection''] input
          then Inl (''Unsupported generation '' @ what @ '' field'')
          else rbind (validateGenerationSource (oget input ''source'')) (\<lambda>source.
            if (case oget input ''model'' of None \<Rightarrow> need_model
                | Some m \<Rightarrow> (case as_string m of None \<Rightarrow> True | Some m \<Rightarrow> \<not> validModelName m))
            then Inl ''Invalid generation model''
            else if source = CodexSession
            then (if oget input ''connection'' \<noteq> None then Inl codex_refusal
                  else Inr \<lparr>gc_source = source, gc_model = str_field input ''model'', gc_connection = None\<rparr>)
            else rbind (validateGenerationConnection w (oget input ''connection'')) (\<lambda>c.
                   Inr \<lparr>gc_source = source, gc_model = str_field input ''model'', gc_connection = Some c\<rparr>)))"

definition validateGenerationSelection :: "node_world \<Rightarrow> json \<Rightarrow> generation_choice res" where
  "validateGenerationSelection w =
     validate_choice w True ''selection'' ''Codex session selection cannot include API connection fields''"

definition validateGenerationProbeInput :: "node_world \<Rightarrow> json \<Rightarrow> generation_choice res" where
  "validateGenerationProbeInput w =
     validate_choice w False ''probe'' ''Codex session probes cannot include API connection fields''"

definition selected_model :: "fields \<Rightarrow> string \<Rightarrow> string option res" where
  "selected_model input key =
     (case oget input key of
        None \<Rightarrow> Inr None
      | Some v \<Rightarrow> (case as_string v of
            Some m \<Rightarrow> if validModelName m then Inr (Some m) else Inl (''Invalid '' @ key)
          | None \<Rightarrow> Inl (''Invalid '' @ key)))"

definition validateModelSelectionInput :: "node_world \<Rightarrow> json \<Rightarrow> selection res" where
  "validateModelSelectionInput w v =
     (case as_object v of
        None \<Rightarrow> Inl ''Model selection must be a JSON object''
      | Some input \<Rightarrow>
          if \<not> only_keys [''embedding_model'', ''generation_model'', ''generation''] input
          then Inl ''Unsupported model selection field''
          else rbind (selected_model input ''embedding_model'') (\<lambda>embedding.
               rbind (selected_model input ''generation_model'') (\<lambda>model.
               rbind (case oget input ''generation'' of
                        None \<Rightarrow> Inr None
                      | Some g \<Rightarrow> rbind (validateGenerationSelection w g) (\<lambda>c. Inr (Some c))) (\<lambda>generation.
               if generation \<noteq> None \<and> model \<noteq> None then Inl ''generation and generation_model cannot be combined''
               else if embedding = None \<and> model = None \<and> generation = None then Inl ''At least one model selection is required''
               else Inr \<lparr>sl_embedding = embedding, sl_generation_model = model, sl_generation = generation\<rparr>))))"

section \<open>What a configuration changes\<close>

text \<open>
  A configuration is a JSON object.  Its settings in order, with the name in the \<open>.env\<close> file, whether it is an address
  and whether it may be empty.
\<close>

definition MODEL_SETTINGS :: "(string \<times> string \<times> bool \<times> bool) list" where
  "MODEL_SETTINGS =
     [(''embedding_base_url'', ''EMBEDDING_BASE_URL'', True, False), (''embedding_api_key'', ''EMBEDDING_API_KEY'', False, True),
      (''embedding_model'', ''EMBEDDING_MODEL'', False, False), (''generation_base_url'', ''GENERATION_BASE_URL'', True, False),
      (''generation_api_key'', ''GENERATION_API_KEY'', False, True), (''generation_model'', ''GENERATION_MODEL'', False, False),
      (''generation_direct_base_url'', ''GENERATION_DIRECT_BASE_URL'', True, False),
      (''generation_direct_api_key'', ''GENERATION_DIRECT_API_KEY'', False, True),
      (''generation_direct_model'', ''GENERATION_DIRECT_MODEL'', False, False)]"

definition model_setting :: "node_world \<Rightarrow> fields \<Rightarrow> string \<times> string \<times> bool \<times> bool \<Rightarrow> fields res" where
  "model_setting w configuration setting =
     (case setting of (input, name, address, allowEmpty) \<Rightarrow>
       (case oget configuration input of
          None \<Rightarrow> Inr []
        | Some (JStr v) \<Rightarrow>
            if (\<not> allowEmpty \<and> v = []) \<or> bad_control v then Inl (''Invalid '' @ input)
            else if address then rbind (validatedProviderBaseUrl w v input) (\<lambda>_. Inr [(name, JStr v)])
            else Inr [(name, JStr v)]
        | Some _ \<Rightarrow> Inl (''Invalid '' @ input)))"

definition modelEnvUpdates :: "node_world \<Rightarrow> fields \<Rightarrow> fields res" where
  "modelEnvUpdates w configuration =
     rbind (rmap_list (model_setting w configuration) MODEL_SETTINGS) (\<lambda>settings.
     rbind (case oget configuration ''embedding_send_dimensions'' of
              None \<Rightarrow> Inr []
            | Some (JBool b) \<Rightarrow> Inr [(''EMBEDDING_SEND_DIMENSIONS'', JStr (if b then ''true'' else ''false''))]
            | Some _ \<Rightarrow> Inl ''Invalid embedding_send_dimensions'') (\<lambda>dimensions.
     Inr (concat settings @ dimensions @
       (case oget configuration ''generation_source'' of None \<Rightarrow> [] | Some v \<Rightarrow> [(''GENERATION_SOURCE'', v)]))))"

text \<open>
  The values as they are put into the file.  A value that is not a text (only \<open>generation_source\<close> may be one) goes in by
  its string form if that needs no quotes, and fails otherwise.
\<close>

definition env_value :: "(rat \<Rightarrow> string) \<Rightarrow> string \<times> json \<Rightarrow> (string \<times> string) res" where
  "env_value fmt kv =
     (case kv of
        (key, JStr v) \<Rightarrow> Inr (key, v)
      | (key, v) \<Rightarrow> let t = js_string fmt v
                    in if t \<noteq> [] \<and> list_all bare_char t then Inr (key, t) else Inl ''value.replaceAll is not a function'')"

definition apply_updates :: "(rat \<Rightarrow> string) \<Rightarrow> string \<Rightarrow> fields \<Rightarrow> string res" where
  "apply_updates fmt source updates = rbind (rmap_list (env_value fmt) updates) (replaceRuntimeValues source)"

section \<open>The compose file\<close>

text \<open>The first match of \<open>m\<close> at the start of a line replaced: the length of the match and what stands in its place\<close>

fun replace_at_line :: "(string \<Rightarrow> (nat \<times> string) option) \<Rightarrow> bool \<Rightarrow> string \<Rightarrow> string option" where
  "replace_at_line m at_start [] = None"
| "replace_at_line m at_start (c # cs) =
     (case (if at_start then m (c # cs) else None) of
        Some (n, r) \<Rightarrow> Some (r @ drop n (c # cs))
      | None \<Rightarrow> map_option (Cons c) (replace_at_line m (is_line_end c) cs))"

text \<open>\<open>/^(\s+)KEY:/m\<close> at the start of a line: the white space\<close>

definition indented_key :: "string \<Rightarrow> string \<Rightarrow> string option" where
  "indented_key key s =
     (let k = space_run s in if k \<noteq> 0 \<and> starts_with (key @ '':'') (drop k s) then Some (take k s) else None)"

definition dimensions_line :: "string \<Rightarrow> (nat \<times> string) option" where
  "dimensions_line s = map_option (\<lambda>indent.
     let line = indent @ takeWhile (\<lambda>c. \<not> is_line_end c) (drop (length indent) s)
     in (length line, line @ [LF] @ indent @ ''NEUROMEM_EMBEDDING_SEND_DIMENSIONS: ${EMBEDDING_SEND_DIMENSIONS:-false}''))
     (indented_key ''NEUROMEM_EMBEDDING_DIMENSIONS'' s)"

definition ensureEmbeddingDimensionsCompose :: "string \<Rightarrow> string res" where
  "ensureEmbeddingDimensionsCompose source =
     (if replace_at_line (\<lambda>s. map_option (\<lambda>_. (0, [])) (indented_key ''NEUROMEM_EMBEDDING_SEND_DIMENSIONS'' s)) True source \<noteq> None
      then Inr source
      else (case replace_at_line dimensions_line True source of
              None \<Rightarrow> Inl ''Runtime Compose is missing the embedding dimensions setting''
            | Some changed \<Rightarrow> Inr changed))"

section \<open>The status shown of the models\<close>

definition url_hosts :: "node_world \<Rightarrow> string \<Rightarrow> string list" where
  "url_hosts w base = (case (if base = [] then None else nw_parse_url w base) of
     None \<Rightarrow> []
   | Some u \<Rightarrow> hostname u # (if to_lower (hostname u) = ''host.docker.internal'' then [''127.0.0.1''] else []))"

definition providerSensitiveValues :: "node_world \<Rightarrow> env \<Rightarrow> string list" where
  "providerSensitiveValues w env =
     (let bases = map (eget env) [''EMBEDDING_BASE_URL'', ''GENERATION_BASE_URL'', ''GENERATION_DIRECT_BASE_URL'']
      in uniq (filter (\<lambda>v. v \<noteq> [])
           (map (eget env) [''API_TOKEN'', ''EMBEDDING_API_KEY'', ''GENERATION_API_KEY'', ''GENERATION_DIRECT_API_KEY''] @ bases) @
           concat (map (url_hosts w) bases)))"

definition safeModelName :: "string list \<Rightarrow> string \<Rightarrow> string option" where
  "safeModelName secrets v =
     (let model = trim v
      in if model = [] \<or> 512 < js_length model \<or> bad_control model \<or> scheme_length model \<noteq> 0 \<or>
            list_ex (sharesSensitiveFragment model) secrets then None else Some model)"

definition providerDetail :: "string list \<Rightarrow> json option \<Rightarrow> string option" where
  "providerDetail secrets v =
     (case Option.bind v as_string of
        Some t \<Rightarrow> if t = [] then None else Some (cut_units 500 (fold redact secrets (redact_message t)))
      | None \<Rightarrow> None)"

definition probeTimestamp :: "json option \<Rightarrow> string option" where
  "probeTimestamp v =
     (case Option.bind v as_string of
        Some t \<Rightarrow> if 128 < js_length t \<or> bad_control t then None else Some t
      | None \<Rightarrow> None)"

definition modelProviderState :: "json option \<Rightarrow> bool \<Rightarrow> string" where
  "modelProviderState v conf =
     (case Option.bind v as_string of
        Some t \<Rightarrow> if t \<in> {''unconfigured'', ''configured'', ''unknown'', ''ready'', ''error''} then t
                  else if conf then ''configured'' else ''unconfigured''
      | None \<Rightarrow> if conf then ''configured'' else ''unconfigured'')"

record role_status =
  rs_configured :: bool
  rs_model :: "string option"
  rs_state :: string
  rs_detail :: "string option"
  rs_probed_at :: "string option"

definition role_status_of :: "node_world \<Rightarrow> env \<Rightarrow> fields \<Rightarrow> string \<Rightarrow> string \<Rightarrow> role_status" where
  "role_status_of w env payload role variables =
     (let secrets = providerSensitiveValues w env;
          conf = (case oget payload (role @ ''_configured'') of
              Some (JBool b) \<Rightarrow> b
            | _ \<Rightarrow> eget env (variables @ ''_BASE_URL'') \<noteq> [] \<and> eget env (variables @ ''_MODEL'') \<noteq> [])
      in \<lparr>rs_configured = conf, rs_model = safeModelName secrets (eget env (variables @ ''_MODEL'')),
          rs_state = modelProviderState (oget payload (role @ ''_provider_status'')) conf,
          rs_detail = providerDetail secrets (oget payload (role @ ''_provider_detail'')),
          rs_probed_at = probeTimestamp (oget payload (role @ ''_last_probe_at''))\<rparr>)"

definition modelStatusFrom :: "node_world \<Rightarrow> env \<Rightarrow> fields \<Rightarrow> role_status \<times> role_status" where
  "modelStatusFrom w env payload =
     (role_status_of w env payload ''embedding'' ''EMBEDDING'', role_status_of w env payload ''extraction'' ''GENERATION'')"

end
