(* ===== verification/NodeModelRun.thy ===== *)
theory NodeModelRun
  imports NodeModelInput NodeCutover
begin

text \<open>
  The configuration of a managed node's models at work (\<open>apps/manager/src/node-manager.ts\<close>): the probes of a chosen
  model, the discovery of models, \<open>configureModels\<close> and \<open>selectModels\<close>, which rewrite the runtime files, restart the node
  and put the files back when that fails, and the bridge to Codex.
\<close>

section \<open>Requests\<close>

text \<open>Around the process, besides \<open>host\<close>: URLs, the \<open>content-length\<close> of an answer, and Codex\<close>

record model_host =
  mh_world :: node_world
  mh_length :: "act list \<Rightarrow> act \<Rightarrow> rat"
  mh_codex :: "act list \<Rightarrow> codex_status"
  mh_generate :: "act list \<Rightarrow> act \<Rightarrow> string res"

definition request :: "host \<Rightarrow> model_host \<Rightarrow> act \<Rightarrow> (fetch_json \<times> rat) prog" where
  "request h mh a = step (\<lambda>s. (Ret (h_fetch h (m_log s) a, mh_length mh (m_log s) a), s\<lparr>m_log := m_log s @ [a]\<rparr>))"

definition codex_status :: "model_host \<Rightarrow> codex_status prog" where
  "codex_status mh = ask (\<lambda>s. mh_codex mh (m_log s))"

definition codex_generate :: "model_host \<Rightarrow> string \<Rightarrow> string \<Rightarrow> string prog" where
  "codex_generate mh model prompt = step (\<lambda>s.
     let a = Codex model prompt; s' = s\<lparr>m_log := m_log s @ [a]\<rparr>
     in case mh_generate mh (m_log s) a of Inl e \<Rightarrow> (Throw e, s') | Inr t \<Rightarrow> (Ret t, s'))"

section \<open>Probes\<close>

text \<open>\<open>payload?.data?.[0]?.embedding\<close> and \<open>payload?.choices?.[0]?.message?.content\<close>\<close>

definition prop_at :: "string \<Rightarrow> json option \<Rightarrow> json option" where
  "prop_at key v = Option.bind (Option.bind v props) (\<lambda>kvs. oget kvs key)"

definition first_item :: "json option \<Rightarrow> json option" where
  "first_item v = (case v of Some (JArr (x # _)) \<Rightarrow> Some x | Some (JObj kvs) \<Rightarrow> oget kvs ''0'' | _ \<Rightarrow> None)"

definition answer_ok :: "nat \<Rightarrow> bool" where
  "answer_ok st = (200 \<le> st \<and> st \<le> 299)"

definition vector_verdict :: "json option \<Rightarrow> unit res" where
  "vector_verdict v =
     (case Option.bind v as_array of
        None \<Rightarrow> Inl ''Selected embedding model returned an invalid compatibility probe response''
      | Some xs \<Rightarrow>
          if length xs \<noteq> 2560
          then Inl (''Selected embedding model returned '' @ dec_str (length xs) @ '' dimensions; Neuromem requires 2560'')
          else if \<not> list_all (\<lambda>x. case x of JNum _ \<Rightarrow> True | _ \<Rightarrow> False) xs
          then Inl ''Selected embedding model returned invalid vector values during the compatibility probe''
          else if list_all (\<lambda>x. x = JNum 0) xs
          then Inl ''Selected embedding model returned an invalid vector norm during the compatibility probe''
          else Inr ())"

definition probeEmbeddingCompatibility :: "host \<Rightarrow> model_host \<Rightarrow> model_provider \<Rightarrow> string \<Rightarrow> unit prog" where
  "probeEmbeddingCompatibility h mh p model =
     (case providerEndpoint (mh_world mh) (pv_url p) ''embeddings'' of
        Inl _ \<Rightarrow> throw ''Configured embedding provider URL is invalid''
      | Inr url \<Rightarrow>
          bind (request h mh (Post url (pv_key p) (stringify (h_format h) (JObj [(''model'', JStr model),
              (''input'', JArr [JStr ''Neuromem compatibility probe'']), (''dimensions'', JNum 2560),
              (''encoding_format'', JStr ''float'')])))) (\<lambda>(answer, _).
            case answer of
              FetchFailed _ \<Rightarrow> throw ''Could not complete the selected embedding model compatibility probe''
            | FetchAnswer st payload \<Rightarrow>
                if \<not> answer_ok st
                then throw (''Selected embedding model failed the 2560-dimension compatibility probe (HTTP '' @ dec_str st @ '')'')
                else from_res (vector_verdict (prop_at ''embedding'' (first_item (prop_at ''data'' payload))))))"

definition chat_verdict :: "host \<Rightarrow> json option \<Rightarrow> unit res" where
  "chat_verdict h v =
     (case Option.bind v as_string of
        None \<Rightarrow> Inl ''Selected generation model returned an invalid chat compatibility response''
      | Some content \<Rightarrow> (case h_parse h content of
            None \<Rightarrow> Inl ''Could not complete the selected generation model compatibility probe''
          | Some (JObj _) \<Rightarrow> Inr ()
          | Some _ \<Rightarrow> Inl ''Selected generation model did not return a JSON object''))"

definition probeGenerationCompatibility :: "host \<Rightarrow> model_host \<Rightarrow> model_provider \<Rightarrow> string \<Rightarrow> unit prog" where
  "probeGenerationCompatibility h mh p model =
     (case providerEndpoint (mh_world mh) (pv_url p) ''chat/completions'' of
        Inl _ \<Rightarrow> throw ''Configured generation provider URL is invalid''
      | Inr url \<Rightarrow>
          bind (request h mh (Post url (pv_key p) (stringify (h_format h) (JObj [(''model'', JStr model),
              (''messages'', JArr [JObj [(''role'', JStr ''user''), (''content'', JStr ''Return one JSON object with an ok field.'')]]),
              (''response_format'', JObj [(''type'', JStr ''json_object'')]), (''temperature'', JNum 0), (''max_tokens'', JNum 32)]))))
            (\<lambda>(answer, _). case answer of
              FetchFailed _ \<Rightarrow> throw ''Could not complete the selected generation model compatibility probe''
            | FetchAnswer st payload \<Rightarrow>
                if \<not> answer_ok st
                then throw (''Selected generation model failed the JSON chat compatibility probe (HTTP '' @ dec_str st @ '')'')
                else from_res (chat_verdict h
                  (prop_at ''content'' (prop_at ''message'' (first_item (prop_at ''choices'' payload)))))))"

definition probeCodexCompatibility :: "host \<Rightarrow> model_host \<Rightarrow> string \<Rightarrow> unit prog" where
  "probeCodexCompatibility h mh model =
     bind (codex_status mh) (\<lambda>codex.
     after (guard (cx_auth codex = ''signed_in'') ''Codex is not signed in with ChatGPT'')
     (after (guard (model \<in> set (cx_models codex)) ''Selected Codex model is unavailable'')
     (bind (codex_generate mh model ''Return one JSON object whose ok field is true. Do not use tools.'') (\<lambda>content.
      case Option.bind (h_parse h content) props of
        None \<Rightarrow> throw ''Unexpected answer of Codex''
      | Some p \<Rightarrow> guard (oget p ''ok'' = Some (JBool True)) ''Selected Codex model failed the JSON compatibility probe''))))"

section \<open>Discovery\<close>

definition discoverProviderModels :: "host \<Rightarrow> model_host \<Rightarrow> model_provider \<Rightarrow> model_catalog prog" where
  "discoverProviderModels h mh p =
     (case providerEndpoint (mh_world mh) (pv_url p) ''models'' of
        Inl _ \<Rightarrow> ret (no_models ''Configured model provider URL is invalid'')
      | Inr url \<Rightarrow>
          bind (request h mh (Get url (pv_key p))) (\<lambda>(answer, size). ret
            (case answer of
               FetchFailed _ \<Rightarrow> no_models ''Could not reach the configured model provider''
             | FetchAnswer st payload \<Rightarrow>
                 if \<not> answer_ok st then no_models (''Model provider returned HTTP '' @ dec_str st)
                 else if 1024 * 1024 < size then no_models ''Model provider returned an oversized model catalog''
                 else read_catalog (mh_world mh) (h_collate h) p payload)))"

definition discover_at :: "host \<Rightarrow> model_host \<Rightarrow> model_provider option \<Rightarrow> model_catalog prog" where
  "discover_at h mh p = (case p of None \<Rightarrow> ret (no_models ''Model provider is not configured'') | Some p \<Rightarrow> discoverProviderModels h mh p)"

text \<open>What \<open>modelSelection\<close> shows, with the providers it found\<close>

record discovered =
  ds_embedding_model :: "string option"
  ds_embedding :: model_catalog
  ds_generation_model :: "string option"
  ds_generation :: model_catalog
  ds_active :: "source option"
  ds_codex :: codex_status
  ds_origin :: "origin option"
  ds_display_url :: "string option"
  ds_key_configured :: bool
  ds_direct_model :: "string option"
  ds_direct :: model_catalog
  ds_embedding_provider :: "model_provider option"
  ds_generation_provider :: "model_provider option"

text \<open>The three questions are asked one after the other; a provider with the same address and key is asked once.\<close>

definition discoverModelSelection :: "host \<Rightarrow> model_host \<Rightarrow> string \<Rightarrow> env \<Rightarrow> discovered prog" where
  "discoverModelSelection h mh nid env =
     (let active = activeSource (h_format h) nid env;
          saved = savedDirectGenerationProvider (h_format h) nid env; direct = sp_provider saved;
          own = modelProvider (eget env ''EMBEDDING_BASE_URL'') (eget env ''EMBEDDING_API_KEY'');
          embedding = (if own \<noteq> None then own else if active = Some OpenaiCompatible then direct else None);
          secrets = providerSensitiveValues (mh_world mh) env
      in bind (discover_at h mh embedding) (\<lambda>c1.
         bind (if direct = embedding then ret c1 else discover_at h mh direct) (\<lambda>c2.
         bind (codex_status mh) (\<lambda>codex. ret
           \<lparr>ds_embedding_model = safeModelName secrets (eget env ''EMBEDDING_MODEL''), ds_embedding = roleCatalog c1 True,
            ds_generation_model = safeModelName secrets (eget env ''GENERATION_MODEL''),
            ds_generation = (if active = Some CodexSession
              then \<lparr>ct_models = cx_models codex, ct_diagnostic = (if cx_auth codex = ''signed_in'' then None else cx_diagnostic codex)\<rparr>
              else roleCatalog c2 False),
            ds_active = active, ds_codex = codex, ds_origin = sp_origin saved,
            ds_display_url = map_option (\<lambda>p. displayProviderUrl (mh_world mh) (pv_url p)) direct,
            ds_key_configured = (case direct of None \<Rightarrow> False | Some p \<Rightarrow> pv_key p \<noteq> []),
            ds_direct_model = safeModelName secrets (sp_model saved), ds_direct = roleCatalog c2 False,
            ds_embedding_provider = embedding,
            ds_generation_provider = (if active = Some CodexSession
              then modelProvider (codexBridge (dec_str (h_port h)) nid) (eget env ''API_TOKEN'') else direct)\<rparr>))))"

definition modelSelection :: "host \<Rightarrow> model_host \<Rightarrow> string \<Rightarrow> discovered prog" where
  "modelSelection h mh selector =
     bind (find_node selector) (\<lambda>node. bind (node_env (n_node_id node)) (discoverModelSelection h mh (n_node_id node)))"

text \<open>\<open>generationProbe\<close>: the models and the diagnostic it answers\<close>

definition probeGeneration :: "host \<Rightarrow> model_host \<Rightarrow> string \<Rightarrow> json \<Rightarrow> model_catalog prog" where
  "probeGeneration h mh selector input =
     bind (from_res (validateGenerationProbeInput (mh_world mh) input)) (\<lambda>probe.
     bind (find_node selector) (\<lambda>node.
     bind (node_env (n_node_id node)) (\<lambda>env.
     if gc_source probe = CodexSession
     then bind (codex_status mh) (\<lambda>codex.
       after (guard (cx_auth codex = ''signed_in'') ''Codex is not signed in with ChatGPT'')
       (case gc_model probe of
          None \<Rightarrow> ret \<lparr>ct_models = cx_models codex, ct_diagnostic = None\<rparr>
        | Some m \<Rightarrow> after (guard (m \<in> set (cx_models codex)) ''Selected Codex model is unavailable'')
            (after (probeCodexCompatibility h mh m) (ret \<lparr>ct_models = cx_models codex, ct_diagnostic = None\<rparr>))))
     else bind (from_res (directGenerationProvider (mh_world mh) (h_format h) (n_node_id node) env (gc_connection probe))) (\<lambda>p.
       bind (discoverProviderModels h mh p) (\<lambda>catalog.
       after (case gc_model probe of None \<Rightarrow> ret () | Some m \<Rightarrow> probeGenerationCompatibility h mh p m)
         (ret (roleCatalog catalog False)))))))"

end
