(* ===== verification/NodeModelChange.thy ===== *)
theory NodeModelChange
  imports NodeModelRun
begin

text \<open>
  The change of a managed node's models (\<open>apps/manager/src/node-manager.ts\<close>): \<open>configureModels\<close> and \<open>selectModels\<close>, which
  rewrite the runtime files, restart the node and put the files back when that fails, and the bridge to Codex.
\<close>

section \<open>Changing the runtime files\<close>

definition compose_file :: "string \<Rightarrow> string prog" where
  "compose_file nid = bind (ask (\<lambda>s. oget (m_compose s) nid)) (\<lambda>f. case f of None \<Rightarrow> throw ''ENOENT'' | Some raw \<Rightarrow> ret raw)"

definition write_compose :: "string \<Rightarrow> string \<Rightarrow> unit prog" where
  "write_compose nid content = step (\<lambda>s. (Ret (), s\<lparr>m_compose := oset nid content (m_compose s)\<rparr>))"

definition MODEL_TABLES :: "string list" where
  "MODEL_TABLES = [''records'', ''claims'', ''jobs'', ''embedding_profiles'', ''record_embeddings'', ''claim_embeddings'']"

text \<open>The sum of the rows bound to a model; a count that is no number makes it \<open>NaN\<close> (\<open>None\<close>).\<close>

definition model_rows :: "(rat \<Rightarrow> string) \<Rightarrow> fields \<Rightarrow> rat option" where
  "model_rows fmt rows = fold (\<lambda>table total.
     Option.bind total (\<lambda>t. let v = oget rows table in
       map_option (\<lambda>n. t + n) (js_number fmt (if truthy_opt v then the v else JNum 0)))) MODEL_TABLES (Some 0)"

text \<open>A choice to probe before the change: the embedding model, and the generation model with its source\<close>

record compatibility =
  ch_embedding :: "(model_provider \<times> string) option"
  ch_generation :: "(source \<times> model_provider option \<times> string) option"

definition no_checks :: compatibility where
  "no_checks = \<lparr>ch_embedding = None, ch_generation = None\<rparr>"

definition embedding_changed :: "env \<Rightarrow> fields \<Rightarrow> bool" where
  "embedding_changed env configuration =
     (case oget configuration ''embedding_model'' of None \<Rightarrow> False | Some v \<Rightarrow> Some v \<noteq> map_option JStr (oget env ''EMBEDDING_MODEL''))"

definition check_empty_node :: "host \<Rightarrow> node_record \<Rightarrow> operation_record \<Rightarrow> unit prog" where
  "check_empty_node h node operation =
     after (guard (n_desired_state node = WantRunning)
       ''Changing the embedding model on a stopped Node is blocked because existing model-bound data cannot be verified'')
     (after (move_op h operation ''quiescing_model_writers'')
     (after (stop_writers h node)
     (after (move_op h operation ''verifying_empty_node'')
     (bind (catch (databaseManifest h node)
         (\<lambda>_. throw ''Changing the embedding model is blocked because existing model-bound data could not be verified'')) (\<lambda>manifest.
      guard (\<not> (case model_rows (h_format h) (dm_rows manifest) of None \<Rightarrow> False | Some n \<Rightarrow> 0 < n))
        ''Changing the embedding model requires an empty Node until a re-embedding migration is supported'')))))"

definition probe_choices :: "host \<Rightarrow> model_host \<Rightarrow> operation_record \<Rightarrow> compatibility \<Rightarrow> unit prog" where
  "probe_choices h mh operation checks =
     after (case ch_embedding checks of
         None \<Rightarrow> ret ()
       | Some (p, m) \<Rightarrow> after (move_op h operation ''probing_embedding_model'') (probeEmbeddingCompatibility h mh p m))
       (case ch_generation checks of
         None \<Rightarrow> ret ()
       | Some (source, p, m) \<Rightarrow> after (move_op h operation ''probing_generation_model'')
           (if source = CodexSession then probeCodexCompatibility h mh m
            else (case p of None \<Rightarrow> throw ''Generation model provider is not configured'' | Some p \<Rightarrow> probeGenerationCompatibility h mh p m)))"

text \<open>Stop and start, with the phase reached\<close>

definition cycle :: "host \<Rightarrow> node_record \<Rightarrow> string \<Rightarrow> string prog" where
  "cycle h node refusal =
     after (compose_stop h node)
     (after (compose_up h node)
     (bind (wait_ready h (n_node_id node)) (\<lambda>st.
      after (guard (operational st) (refusal @ phase_name (st_phase st)))
      (after (set_phase h (n_node_id node) (st_phase st)) (ret (phase_name (st_phase st)))))))"

definition change_files :: "host \<Rightarrow> string \<Rightarrow> string \<Rightarrow> string option \<Rightarrow> fields \<Rightarrow> unit prog" where
  "change_files h nid original compose updates =
     after (case compose of
         None \<Rightarrow> ret ()
       | Some source \<Rightarrow> bind (from_res (ensureEmbeddingDimensionsCompose source)) (write_compose nid))
     (bind (from_res (apply_updates (h_format h) original updates)) (write_env nid))"

definition put_files_back :: "string \<Rightarrow> string \<Rightarrow> string option \<Rightarrow> unit prog" where
  "put_files_back nid original compose =
     after (write_env nid original) (case compose of None \<Rightarrow> ret () | Some source \<Rightarrow> write_compose nid source)"

text \<open>
  \<open>configureModelsLocked\<close>.  A record of an operation differs only in its phase when an error comes, and the phase is
  overwritten, so the record it began with stands for all of them.  Writing a file does not fail.
\<close>

definition change_models :: "host \<Rightarrow> model_host \<Rightarrow> node_record \<Rightarrow> fields \<Rightarrow> fields \<Rightarrow> compatibility \<Rightarrow> operation_record \<Rightarrow>
    string \<Rightarrow> string option \<Rightarrow> operation_record prog" where
  "change_models h mh node configuration updates checks operation original compose =
     (let running = (n_desired_state node = WantRunning)
      in after (when_do (embedding_changed (readNodeEnv original) configuration) (check_empty_node h node operation))
         (after (probe_choices h mh operation checks)
         (after (change_files h (n_node_id node) original compose updates)
         (bind (if running then cycle h node ''Node did not become operational after model configuration: '' else ret ''configured'') (\<lambda>phase.
          succeed_op h operation phase (JObj [(''updated_fields'', JArr (map JStr (okeys updates))), (''restarted'', JBool running)]))))))"

definition undo_models :: "host \<Rightarrow> node_record \<Rightarrow> operation_record \<Rightarrow> string \<Rightarrow> string option \<Rightarrow> string \<Rightarrow> operation_record prog" where
  "undo_models h node operation original compose e =
     after (put_files_back (n_node_id node) original compose)
     (bind (if n_desired_state node = WantRunning
            then catch (after (cycle h node ''rollback recovery did not become operational'') (ret False)) (\<lambda>_. ret True)
            else ret False) (\<lambda>rollback_failed.
      if rollback_failed
      then after (attempt (set_phase h (n_node_id node) PhFailed)) (fail_op h operation (e @ ''; rollback recovery failed''))
      else fail_op h operation e))"

definition configureModelsLocked :: "host \<Rightarrow> model_host \<Rightarrow> node_record \<Rightarrow> fields \<Rightarrow> fields \<Rightarrow> compatibility \<Rightarrow> operation_record prog" where
  "configureModelsLocked h mh node configuration updates checks =
     (let nid = n_node_id node
      in bind (begin_op h nid OpModelsConfigure ''updating_runtime'') (\<lambda>operation.
         bind (env_file nid) (\<lambda>original.
         bind (if oget updates ''EMBEDDING_SEND_DIMENSIONS'' = None then ret None
               else bind (compose_file nid) (\<lambda>source. ret (Some source))) (\<lambda>compose.
         catch (change_models h mh node configuration updates checks operation original compose)
           (undo_models h node operation original compose)))))"

definition configureModels :: "host \<Rightarrow> model_host \<Rightarrow> string \<Rightarrow> fields \<Rightarrow> operation_record prog" where
  "configureModels h mh selector configuration =
     bind (find_node selector) (\<lambda>node.
     bind (from_res (modelEnvUpdates (mh_world mh) configuration)) (\<lambda>updates.
     after (guard (updates \<noteq> []) ''At least one model setting is required'')
     (with_lock h (n_node_id node) (bind (find_node (n_node_id node)) (\<lambda>latest.
        configureModelsLocked h mh latest configuration updates no_checks)))))"

section \<open>Selecting models\<close>

text \<open>The configuration a selection leads to, part by part, with what is probed before\<close>

definition select_embedding :: "env \<Rightarrow> discovered \<Rightarrow> selection \<Rightarrow> (fields \<times> (model_provider \<times> string) option) res" where
  "select_embedding env found sel =
     (case sl_embedding sel of
        None \<Rightarrow> Inr ([], None)
      | Some m \<Rightarrow>
          if m = eget env ''EMBEDDING_MODEL'' then Inr ([], None)
          else if m \<notin> set (ct_models (ds_embedding found))
          then Inl ''Selected embedding model is not available from the configured provider''
          else (case ds_embedding_provider found of
              None \<Rightarrow> Inl ''Embedding model provider is not configured''
            | Some p \<Rightarrow> Inr ([(''embedding_model'', JStr m), (''embedding_send_dimensions'', JBool True)] @
                (if eget env ''EMBEDDING_BASE_URL'' \<noteq> [] then []
                 else [(''embedding_base_url'', JStr (pv_url p)), (''embedding_api_key'', JStr (pv_key p))]), Some (p, m))))"

definition preserved_direct :: "(rat \<Rightarrow> string) \<Rightarrow> string \<Rightarrow> env \<Rightarrow> fields" where
  "preserved_direct fmt nid env =
     (let saved = savedDirectGenerationProvider fmt nid env
      in case sp_provider saved of
           None \<Rightarrow> []
         | Some p \<Rightarrow>
             if sp_origin saved \<noteq> Some Generation then []
             else [(''generation_direct_base_url'', JStr (pv_url p)), (''generation_direct_api_key'', JStr (pv_key p))] @
               (if sp_model saved = [] then [] else [(''generation_direct_model'', JStr (sp_model saved))]))"

definition codex_configuration :: "host \<Rightarrow> string \<Rightarrow> env \<Rightarrow> string \<Rightarrow> fields" where
  "codex_configuration h nid env model = preserved_direct (h_format h) nid env @
     [(''generation_source'', JStr ''codex_session''), (''generation_base_url'', JStr (codexBridge (dec_str (h_port h)) nid)),
      (''generation_api_key'', JStr (eget env ''API_TOKEN'')), (''generation_model'', JStr model)]"

definition direct_configuration :: "model_provider \<Rightarrow> string \<Rightarrow> fields" where
  "direct_configuration p model =
     [(''generation_source'', JStr ''openai_compatible''), (''generation_base_url'', JStr (pv_url p)),
      (''generation_api_key'', JStr (pv_key p)), (''generation_model'', JStr model),
      (''generation_direct_base_url'', JStr (pv_url p)), (''generation_direct_api_key'', JStr (pv_key p)),
      (''generation_direct_model'', JStr model)]"

type_synonym generation_change = "fields \<times> (source \<times> model_provider option \<times> string) option"

definition select_source :: "host \<Rightarrow> model_host \<Rightarrow> string \<Rightarrow> env \<Rightarrow> discovered \<Rightarrow> generation_choice \<Rightarrow> generation_change prog" where
  "select_source h mh nid env found choice =
     (let model = (case gc_model choice of None \<Rightarrow> [] | Some m \<Rightarrow> m)
      in if gc_source choice = CodexSession
         then after (guard (cx_auth (ds_codex found) = ''signed_in'') ''Codex is not signed in with ChatGPT'')
              (after (guard (model \<in> set (cx_models (ds_codex found))) ''Selected Codex model is unavailable'')
              (ret (codex_configuration h nid env model, Some (CodexSession, None, model))))
         else bind (from_res (directGenerationProvider (mh_world mh) (h_format h) nid env (gc_connection choice))) (\<lambda>p.
              bind (discoverProviderModels h mh p) (\<lambda>catalog.
              let available = ct_models (roleCatalog catalog False) in
              after (guard (available = [] \<or> model \<in> set available) ''Selected generation model is not available from the configured provider'')
              (ret (direct_configuration p model, Some (OpenaiCompatible, Some p, model))))))"

definition select_generation_model :: "(rat \<Rightarrow> string) \<Rightarrow> string \<Rightarrow> env \<Rightarrow> discovered \<Rightarrow> string \<Rightarrow> generation_change res" where
  "select_generation_model fmt nid env found model =
     (if model = eget env ''GENERATION_MODEL'' then Inr ([], None)
      else if model \<notin> set (ct_models (ds_generation found))
      then Inl ''Selected generation model is not available from the configured provider''
      else (case ds_generation_provider found of
          None \<Rightarrow> Inl ''Generation model provider is not configured''
        | Some p \<Rightarrow> Inr ([(''generation_model'', JStr model)] @
            (if eget env ''GENERATION_BASE_URL'' \<noteq> [] then []
             else [(''generation_base_url'', JStr (pv_url p)), (''generation_api_key'', JStr (pv_key p))]),
            Some (case activeSource fmt nid env of None \<Rightarrow> OpenaiCompatible | Some source \<Rightarrow> source, Some p, model))))"

definition select_generation :: "host \<Rightarrow> model_host \<Rightarrow> string \<Rightarrow> env \<Rightarrow> discovered \<Rightarrow> selection \<Rightarrow> generation_change prog" where
  "select_generation h mh nid env found sel =
     (case sl_generation sel of
        Some choice \<Rightarrow> select_source h mh nid env found choice
      | None \<Rightarrow> (case sl_generation_model sel of
          None \<Rightarrow> ret ([], None)
        | Some m \<Rightarrow> from_res (select_generation_model (h_format h) nid env found m)))"

definition selectNodeModels :: "host \<Rightarrow> model_host \<Rightarrow> string \<Rightarrow> json \<Rightarrow> operation_record prog" where
  "selectNodeModels h mh selector input =
     bind (from_res (validateModelSelectionInput (mh_world mh) input)) (\<lambda>sel.
     bind (find_node selector) (\<lambda>node. let nid = n_node_id node in
     with_lock h nid
       (bind (find_node nid) (\<lambda>latest.
        bind (node_env nid) (\<lambda>env.
        bind (discoverModelSelection h mh nid env) (\<lambda>found.
        bind (from_res (select_embedding env found sel)) (\<lambda>(c1, e).
        bind (select_generation h mh nid env found sel) (\<lambda>(c2, g).
        bind (from_res (modelEnvUpdates (mh_world mh) (c1 @ c2))) (\<lambda>updates.
        after (guard (updates \<noteq> []) ''At least one model selection must change'')
          (configureModelsLocked h mh latest (c1 @ c2) updates \<lparr>ch_embedding = e, ch_generation = g\<rparr>))))))))))"

section \<open>The bridge to Codex\<close>

definition bridge_access :: "string \<Rightarrow> string option \<Rightarrow> (node_record \<times> env) prog" where
  "bridge_access selector authorization =
     bind (find_node selector) (\<lambda>node.
     bind (node_env (n_node_id node)) (\<lambda>env.
     let provided = bridge_bearer (case authorization of None \<Rightarrow> [] | Some a \<Rightarrow> a); expected = eget env ''API_TOKEN'' in
     after (guard (provided \<noteq> [] \<and> expected \<noteq> [] \<and> provided = expected) ''Invalid Node bridge authorization'') (ret (node, env))))"

definition chat_message :: "json \<Rightarrow> (string \<times> string) res" where
  "chat_message v =
     (case as_object v of
        None \<Rightarrow> Inl ''Invalid Codex chat message''
      | Some item \<Rightarrow>
          if \<not> only_keys [''role'', ''content''] item then Inl ''Unsupported Codex chat message field''
          else (case str_field item ''role'' of
              None \<Rightarrow> Inl ''Invalid Codex chat role''
            | Some role \<Rightarrow>
                if role \<notin> {''system'', ''user'', ''assistant''} then Inl ''Invalid Codex chat role''
                else (case str_field item ''content'' of
                    None \<Rightarrow> Inl ''Invalid Codex chat content''
                  | Some content \<Rightarrow> if 900000 < js_length content then Inl ''Invalid Codex chat content'' else Inr (role, content))))"

definition completion_schema :: "json option \<Rightarrow> json res" where
  "completion_schema format =
     (case Option.bind format as_object of
        None \<Rightarrow> Inl ''Codex requires a JSON response format''
      | Some f \<Rightarrow>
          if oget f ''type'' = Some (JStr ''json_schema'')
          then (case Option.bind (obj_field f ''json_schema'') (\<lambda>wrapper. obj_field wrapper ''schema'') of
                  None \<Rightarrow> Inl ''Invalid Codex JSON schema'' | Some schema \<Rightarrow> Inr (JObj schema))
          else if oget f ''type'' = Some (JStr ''json_object'')
          then Inr (JObj [(''type'', JStr ''object''), (''additionalProperties'', JBool True)])
          else Inl ''Codex only supports JSON response formats'')"

record chat_completion =
  cc_model :: string
  cc_messages :: "(string \<times> string) list"
  cc_schema :: json

definition validateCodexChatCompletion :: "json \<Rightarrow> chat_completion res" where
  "validateCodexChatCompletion v =
     (case as_object v of
        None \<Rightarrow> Inl ''Chat completion must be a JSON object''
      | Some input \<Rightarrow>
          if \<not> only_keys [''model'', ''messages'', ''response_format'', ''temperature'', ''max_tokens'', ''max_completion_tokens'',
               ''stream''] input then Inl ''Unsupported Codex chat completion field''
          else (case str_field input ''model'' of
              None \<Rightarrow> Inl ''Invalid Codex model''
            | Some model \<Rightarrow>
                if \<not> validModelName model then Inl ''Invalid Codex model''
                else if oget input ''stream'' = Some (JBool True) then Inl ''Streaming Codex completions are not supported''
                else (case arr_field input ''messages'' of
                    None \<Rightarrow> Inl ''Invalid Codex chat messages''
                  | Some items \<Rightarrow>
                      if items = [] \<or> 64 < length items then Inl ''Invalid Codex chat messages''
                      else rbind (rmap_list chat_message items) (\<lambda>messages.
                        rbind (completion_schema (oget input ''response_format'')) (\<lambda>schema.
                          Inr \<lparr>cc_model = model, cc_messages = messages, cc_schema = schema\<rparr>)))))"

definition completion_prompt :: "host \<Rightarrow> chat_completion \<Rightarrow> string" where
  "completion_prompt h r = stringify (h_format h) (JObj
     [(''messages'', JArr (map (\<lambda>(role, content). JObj [(''role'', JStr role), (''content'', JStr content)]) (cc_messages r))),
      (''output_schema'', cc_schema r)])"

definition codex_active :: "host \<Rightarrow> node_record \<Rightarrow> env \<Rightarrow> unit prog" where
  "codex_active h node env = guard (activeSource (h_format h) (n_node_id node) env = Some CodexSession)
     ''Codex generation is not active for this Node''"

definition codexBridgeModels :: "host \<Rightarrow> model_host \<Rightarrow> string \<Rightarrow> string option \<Rightarrow> string list prog" where
  "codexBridgeModels h mh selector authorization =
     bind (bridge_access selector authorization) (\<lambda>(node, env).
     after (codex_active h node env)
     (bind (codex_status mh) (\<lambda>codex.
      after (guard (cx_auth codex = ''signed_in'') ''Codex is not signed in with ChatGPT'') (ret (cx_models codex)))))"

text \<open>The content of the answer; the envelope around it has the model, a random id and the time.\<close>

definition codexChatCompletion :: "host \<Rightarrow> model_host \<Rightarrow> string \<Rightarrow> string option \<Rightarrow> json \<Rightarrow> string prog" where
  "codexChatCompletion h mh selector authorization input =
     bind (bridge_access selector authorization) (\<lambda>(node, env).
     after (codex_active h node env)
     (bind (from_res (validateCodexChatCompletion input)) (\<lambda>r.
      after (guard (Some (cc_model r) = oget env ''GENERATION_MODEL'') ''Requested model does not match the configured Codex model'')
        (codex_generate mh (cc_model r) (completion_prompt h r)))))"

section \<open>\<open>migrationVerify\<close>\<close>

definition migrationVerify :: "host \<Rightarrow> string \<Rightarrow> string \<Rightarrow> operation_record prog" where
  "migrationVerify h selector target =
     bind (find_node selector) (\<lambda>node.
       with_lock h (n_node_id node)
        (bind (begin_op h (n_node_id node) OpMigrateVerify ''verifying'') (\<lambda>operation.
         catch (bind (run_migration h node target True False) (\<lambda>r.
             bind (from_res (parseVerifiedRevision h (cr_stdout r) target)) (\<lambda>revision.
             after (update_node h (n_node_id node) (\<lambda>n. n\<lparr>n_schema_revision := revision\<rparr>))
               (succeed_op h operation ''verified'' (JObj [(''ok'', JBool True), (''actual_revision'', JStr revision)])))))
           (fail_op h operation))))"

end
