(* ===== verification/NodeFrame.thy ===== *)
theory NodeFrame
  imports NodeLogic NodeModelChange
begin

text \<open>
  Conditions on the runtime files and on the commands given, to which neither the store nor the temporary files nor the
  backups matter: what maintains them, up to the operations of the manager.
\<close>

section \<open>Requests\<close>

context harmless begin

lemma requested: "maintains P (request h mh (Get url token))" "maintains P (request h mh (Post url token content))"
  unfolding request_def by (rule maintains_step; use said [OF left, simplified] in auto)+

lemma generated: "maintains P (codex_generate mh model prompt)"
  unfolding codex_generate_def Let_def
  by (rule maintains_step) (use said [OF left, simplified] in \<open>auto split: sum.split\<close>)

lemma fetch_answers: "(\<And>st payload. maintains P (f st payload)) \<Longrightarrow> (\<And>e. maintains P (g e)) \<Longrightarrow>
    maintains P (case answer of FetchAnswer st payload \<Rightarrow> f st payload | FetchFailed e \<Rightarrow> g e)"
  by (cases answer) simp_all

lemma provided: "(\<And>e. maintains P (f e)) \<Longrightarrow> (\<And>url. maintains P (g url)) \<Longrightarrow> maintains P (case r of Inl e \<Rightarrow> f e | Inr url \<Rightarrow> g url)"
  by (cases r) simp_all

lemma probed: "maintains P (probeEmbeddingCompatibility h mh p m)" "maintains P (probeGenerationCompatibility h mh p m)"
    "maintains P (probeCodexCompatibility h mh m)"
  unfolding probeEmbeddingCompatibility_def probeGenerationCompatibility_def probeCodexCompatibility_def codex_status_def
  by (intro maintained provided requested fetch_answers generated)+

lemma discovered: "maintains P (discoverProviderModels h mh p)" "maintains P (discover_at h mh q)"
    "maintains P (discoverModelSelection h mh nid env)"
proof -
  show p: "maintains P (discoverProviderModels h mh p)" for p
    unfolding discoverProviderModels_def by (intro maintained provided requested)
  show d: "maintains P (discover_at h mh q)" for q unfolding discover_at_def by (intro maintained p)
  show "maintains P (discoverModelSelection h mh nid env)"
    unfolding discoverModelSelection_def codex_status_def Let_def by (intro maintained d)
qed

lemma selected: "maintains P (select_generation h mh nid env found sel)"
  unfolding select_generation_def select_source_def Let_def by (intro maintained discovered)

end

section \<open>Conditions the store does not matter to\<close>

locale storeless = quiet +
  assumes stored: "P s \<Longrightarrow> P (s\<lparr>m_store := st\<rparr>)"
begin

lemma store_kept: "maintains P (store_op f)"
  unfolding store_op_def by (rule maintains_step) (use stored [OF left, simplified] in \<open>auto split: prod.splits sum.splits\<close>)

lemma ops_kept: "maintains P (begin_op h nid kind phase)" "maintains P (update_op h o1 patch)" "maintains P (move_op h o1 phase)"
    "maintains P (succeed_op h o1 phase result)" "maintains P (fail_op h o1 e)" "maintains P (update_node h nid f)"
  by (simp_all add: begin_op_def update_op_def move_op_def succeed_op_def fail_op_def update_node_def store_kept)

lemma checked_empty: "maintains P (check_empty_node h node operation)"
  unfolding check_empty_node_def by (intro maintained ops_kept compose_kept manifest)

lemma choices_probed: "maintains P (probe_choices h mh operation checks)"
  unfolding probe_choices_def by (intro maintained ops_kept probed)

lemma cycled: "maintains P (cycle h node refusal)"
  unfolding cycle_def by (intro maintained compose_kept waited phase_set)

lemma lock_free_kept: "lock_free P"
  unfolding lock_free_def using stored [OF left, simplified] left by simp

end

end
