(* ===== verification/NodeModelProps.thy ===== *)
theory NodeModelProps
  imports NodeFrame NodeWorld
begin

text \<open>A change of models takes effect wholly or not at all, and the embedding model only of an empty node.\<close>

section \<open>The runtime files\<close>

text \<open>The node's files are \<open>e\<close> and \<open>c\<close>, those of the other nodes as in \<open>s0\<close>.\<close>

definition files :: "mgr \<Rightarrow> string \<Rightarrow> string option \<Rightarrow> string option \<Rightarrow> mgr \<Rightarrow> bool" where
  "files s0 nid e c s \<longleftrightarrow> (\<forall>k. oget (m_env s) k = (if k = nid then e else oget (m_env s0) k)) \<and>
     (\<forall>k. oget (m_compose s) k = (if k = nid then c else oget (m_compose s0) k))"

interpretation files: storeless "files s0 nid e c" for s0 nid e c
  by unfold_locales (simp_all add: files_def)

lemma write_env_files: "triple (files s0 nid e c) (write_env nid raw) (\<lambda>_. files s0 nid (Some raw) c) (\<lambda>_. False) (files s0 nid e c)"
  unfolding write_env_def by (rule triple_step) (auto simp: files_def oget_oset)

lemma write_compose_files: "triple (files s0 nid e c) (write_compose nid raw) (\<lambda>_. files s0 nid e (Some raw)) (\<lambda>_. False) (files s0 nid e c)"
  unfolding write_compose_def by (rule triple_step) (auto simp: files_def oget_oset)

text \<open>In between: the \<open>.env\<close> file is the old or an allowed one, and \<open>compose.yaml\<close> may have changed only where it was saved.\<close>

definition midway :: "mgr \<Rightarrow> string \<Rightarrow> string \<Rightarrow> string option \<Rightarrow> string option \<Rightarrow> (string \<Rightarrow> bool) \<Rightarrow> mgr \<Rightarrow> bool" where
  "midway s0 nid original c compose allowed s \<longleftrightarrow> (\<exists>e' c'. files s0 nid (Some e') c' s \<and>
     (e' = original \<or> allowed e') \<and> (c' = c \<or> compose \<noteq> None \<and> compose = c))"

lemma files_midway:
  "files s0 nid (Some e') c' s \<Longrightarrow> e' = original \<or> allowed e' \<Longrightarrow> c' = c \<or> compose \<noteq> None \<and> compose = c \<Longrightarrow>
    midway s0 nid original c compose allowed s"
  unfolding midway_def by blast

interpretation midway: storeless "midway s0 nid original c compose allowed" for s0 nid original c compose allowed
  by unfold_locales (simp_all add: midway_def files_def)

text \<open>The new file is written.\<close>

definition rewritten :: "mgr \<Rightarrow> string \<Rightarrow> string option \<Rightarrow> string option \<Rightarrow> (string \<Rightarrow> bool) \<Rightarrow> mgr \<Rightarrow> bool" where
  "rewritten s0 nid c compose allowed s \<longleftrightarrow> (\<exists>t c'. files s0 nid (Some t) c' s \<and> allowed t \<and> (c' = c \<or> compose \<noteq> None \<and> compose = c))"

lemma rewritten_midway: "rewritten s0 nid c compose allowed s \<Longrightarrow> midway s0 nid original c compose allowed s"
  unfolding rewritten_def midway_def by blast

interpretation rewritten: storeless "rewritten s0 nid c compose allowed" for s0 nid c compose allowed
  by unfold_locales (simp_all add: rewritten_def files_def)

lemma compose_changed:
  assumes "compose = None \<or> compose = c"
  shows "triple (files s0 nid (Some original) c)
    (case compose of None \<Rightarrow> ret () | Some source \<Rightarrow> bind (from_res (ensureEmbeddingDimensionsCompose source)) (write_compose nid))
    (\<lambda>_ s. \<exists>c'. files s0 nid (Some original) c' s \<and> (c' = c \<or> compose \<noteq> None \<and> compose = c))
    (midway s0 nid original c compose allowed) (midway s0 nid original c compose allowed)"
proof (cases compose)
  case None
  then show ?thesis by (auto intro!: triple_ret)
next
  case (Some source)
  have m: "files s0 nid (Some original) c s \<Longrightarrow> midway s0 nid original c (Some source) allowed s" for s by (erule files_midway) simp_all
  show ?thesis unfolding Some option.case
  proof (rule triple_bind, rule triple_from_res, erule m, rule triple_pure)
    fix t
    show "triple (files s0 nid (Some original) c) (write_compose nid t)
      (\<lambda>_ s. \<exists>c'. files s0 nid (Some original) c' s \<and> (c' = c \<or> Some source \<noteq> None \<and> Some source = c))
      (midway s0 nid original c (Some source) allowed) (midway s0 nid original c (Some source) allowed)"
      by (rule triple_weaken [OF write_compose_files]) (use Some assms m in auto)
  qed
qed

lemma env_changed:
  assumes "\<And>t. apply_updates fmt original updates = Inr t \<Longrightarrow> allowed t"
  shows "triple (\<lambda>s. \<exists>c'. files s0 nid (Some original) c' s \<and> (c' = c \<or> compose \<noteq> None \<and> compose = c))
    (bind (from_res (apply_updates fmt original updates)) (write_env nid)) (\<lambda>_. rewritten s0 nid c compose allowed)
    (midway s0 nid original c compose allowed) (midway s0 nid original c compose allowed)"
proof (rule triple_ex, rule triple_pure)
  fix c' assume c': "c' = c \<or> compose \<noteq> None \<and> compose = c"
  have m: "files s0 nid (Some original) c' s \<Longrightarrow> midway s0 nid original c compose allowed s" for s
    by (erule files_midway) (use c' in simp_all)
  show "triple (files s0 nid (Some original) c') (bind (from_res (apply_updates fmt original updates)) (write_env nid))
    (\<lambda>_. rewritten s0 nid c compose allowed) (midway s0 nid original c compose allowed) (midway s0 nid original c compose allowed)"
  proof (rule triple_bind, rule triple_from_res, erule m, rule triple_pure)
    fix t assume "apply_updates fmt original updates = Inr t"
    then show "triple (files s0 nid (Some original) c') (write_env nid t) (\<lambda>_. rewritten s0 nid c compose allowed)
        (midway s0 nid original c compose allowed) (midway s0 nid original c compose allowed)"
      by (intro triple_weaken [OF write_env_files [where e = "Some original" and c = c']])
         (use assms c' m in \<open>auto simp: rewritten_def\<close>)
  qed
qed

lemma change_files_midway:
  assumes "\<And>t. apply_updates (h_format h) original updates = Inr t \<Longrightarrow> allowed t" and "compose = None \<or> compose = c"
  shows "triple (files s0 nid (Some original) c) (change_files h nid original compose updates) (\<lambda>_. rewritten s0 nid c compose allowed)
    (midway s0 nid original c compose allowed) (midway s0 nid original c compose allowed)"
  unfolding change_files_def by (rule triple_after [OF compose_changed [OF assms(2)] env_changed [OF assms(1)]])

section \<open>The check for an empty node\<close>

text \<open>The node's database has answered the query for its manifest, after the commands \<open>l\<close>, with \<open>m\<close>.\<close>

definition manifest_told :: "host \<Rightarrow> node_record \<Rightarrow> database_manifest \<Rightarrow> bool" where
  "manifest_told h node m \<longleftrightarrow> (\<exists>l env. parseDatabaseManifest h (cr_stdout (h_run h l (Compose (n_compose_project node)
     ([''exec'', ''-T'', ''database''] @ psql env ''-qAtc'' databaseManifestSql)))) = Inr m)"

definition shown_empty :: "host \<Rightarrow> node_record \<Rightarrow> bool" where
  "shown_empty h node \<longleftrightarrow> n_desired_state node = WantRunning \<and>
     (\<exists>m. manifest_told h node m \<and> (\<forall>n. model_rows (h_format h) (dm_rows m) = Some n \<longrightarrow> n \<le> 0))"

context harmless begin

lemma told: "triple P (databaseManifest h node) (\<lambda>m s. P s \<and> manifest_told h node m) P P"
proof -
  let ?a = "\<lambda>env. Compose (n_compose_project node) ([''exec'', ''-T'', ''database''] @ psql env ''-qAtc'' databaseManifestSql)"
  have c: "triple P (compose_cmd h node False ([''exec'', ''-T'', ''database''] @ psql env ''-qAtc'' databaseManifestSql))
      (\<lambda>r s. P s \<and> (\<exists>l. r = h_run h l (?a env))) P P" for env
    unfolding compose_cmd_def perform_act_def Let_def
    by (rule triple_step) (use said [OF left, simplified] in auto)
  have f: "triple (\<lambda>s. P s \<and> (\<exists>l. r = h_run h l (?a env))) (from_res (parseDatabaseManifest h (cr_stdout r)))
      (\<lambda>m s. P s \<and> manifest_told h node m) P P" for r env
    by (rule triple_weaken [OF triple_from_res [where P = "\<lambda>s. P s \<and> (\<exists>l. r = h_run h l (?a env))" and E = P and D = P]])
       (auto simp: manifest_told_def)
  show ?thesis unfolding databaseManifest_def by (rule triple_first [OF files_read(1)], rule triple_bind [OF c f])
qed

end

context storeless begin

lemma empty_checked: "triple P (check_empty_node h node operation) (\<lambda>_ s. P s \<and> shown_empty h node) P P"
proof -
  let ?rows = "\<lambda>m. \<not> (case model_rows (h_format h) (dm_rows m) of None \<Rightarrow> False | Some n \<Rightarrow> 0 < n)"
  have g: "triple (\<lambda>s. P s \<and> manifest_told h node m) (guard (?rows m) e) (\<lambda>_ s. P s \<and> shown_empty h node) P P"
    if "n_desired_state node = WantRunning" for m e
    by (rule triple_weaken [OF triple_guard [where P = "\<lambda>s. P s \<and> manifest_told h node m" and E = P and D = P]])
       (use that in \<open>auto simp: shown_empty_def split: option.splits\<close>)
  have d: "triple P (catch (databaseManifest h node) (\<lambda>_. throw e)) (\<lambda>m s. P s \<and> manifest_told h node m) P P" for e
    by (rule triple_catch [OF told]) (auto intro: triple_throw)
  show ?thesis
    unfolding check_empty_node_def
    by (rule triple_guarded, (rule triple_first_after [OF ops_kept(3)] triple_first_after [OF compose_kept(3)])+,
        rule triple_bind [OF d], erule g) simp_all
qed

end

section \<open>A change of models\<close>

context storeless begin

lemma op_updated: "triple P (update_op h o1 patch) (\<lambda>o2 s. P s \<and> o2 = patched (h_now h) patch o1) E P"
  unfolding update_op_def store_op_def
  by (rule triple_step) (use stored [OF left, simplified] in \<open>auto simp: updateOperation_def Let_def\<close>)

lemma op_succeeded: "triple P (succeed_op h o1 phase result) (\<lambda>o2 s. P s \<and> op_state o2 = OsSucceeded) E P"
  unfolding succeed_op_def by (rule triple_weaken [OF op_updated [where E = E]]) (auto simp: patched_def)

lemma op_failed: "triple P (fail_op h o1 e) (\<lambda>o2 s. P s \<and> op_state o2 = OsFailed) E P"
  unfolding fail_op_def by (rule triple_weaken [OF op_updated [where E = E]]) (auto simp: patched_def)

end

lemma change_models_triple:
  assumes "\<And>t. apply_updates (h_format h) original updates = Inr t \<Longrightarrow>
      embedding_changed (readNodeEnv original) configuration \<Longrightarrow> shown_empty h node \<Longrightarrow> allowed t"
    and "\<And>t. apply_updates (h_format h) original updates = Inr t \<Longrightarrow>
      \<not> embedding_changed (readNodeEnv original) configuration \<Longrightarrow> allowed t"
    and "compose = None \<or> compose = c" and "n_node_id node = nid"
  shows "triple (files s0 nid (Some original) c) (change_models h mh node configuration updates checks operation original compose)
    (\<lambda>o1 s. rewritten s0 nid c compose allowed s \<and> op_state o1 = OsSucceeded)
    (midway s0 nid original c compose allowed) (midway s0 nid original c compose allowed)"
proof -
  let ?emb = "embedding_changed (readNodeEnv original) configuration" and ?f = "files s0 nid (Some original) c"
    and ?m = "midway s0 nid original c compose allowed" and ?w = "rewritten s0 nid c compose allowed"
  have m: "?f s \<Longrightarrow> ?m s" for s by (erule files_midway) simp_all
  have checked: "triple ?f (when_do ?emb (check_empty_node h node operation)) (\<lambda>_ s. ?f s \<and> (?emb \<longrightarrow> shown_empty h node)) ?m ?m"
  proof (cases ?emb)
    case True
    then show ?thesis
      by (simp only: when_do_def if_True, intro triple_weaken [OF files.empty_checked]) (auto intro: m)
  qed (auto simp: when_do_def intro!: triple_ret)
  have told: "triple ?w (bind (if running then cycle h node e else ret p) (\<lambda>phase. succeed_op h operation phase (r phase)))
      (\<lambda>o1 s. ?w s \<and> op_state o1 = OsSucceeded) ?m ?m" for running e p r
    by (rule triple_first, simp add: maintained rewritten.cycled,
        rule triple_weaken [OF rewritten.op_succeeded [where E = ?m]]) (auto intro: rewritten_midway)
  show ?thesis
    unfolding change_models_def Let_def assms(4)
  proof (rule triple_after [OF checked], rule triple_pure, rule triple_first_after [OF files.choices_probed])
    assume "?emb \<longrightarrow> shown_empty h node"
    then have a: "apply_updates (h_format h) original updates = Inr t \<Longrightarrow> allowed t" for t using assms(1,2) by blast
    show "triple ?f (after (change_files h nid original compose updates)
        (bind (if n_desired_state node = WantRunning then cycle h node ''Node did not become operational after model configuration: ''
           else ret ''configured'') (\<lambda>phase. succeed_op h operation phase (JObj [(''updated_fields'', JArr (map JStr (okeys updates))),
             (''restarted'', JBool (n_desired_state node = WantRunning))]))))
        (\<lambda>o1 s. ?w s \<and> op_state o1 = OsSucceeded) ?m ?m"
      by (rule triple_after [OF change_files_midway [OF a assms(3)] told])
  qed (simp_all add: m)
qed

lemma files_put_back:
  assumes "compose = None \<or> compose = c"
  shows "triple (midway s0 nid original c compose allowed) (put_files_back nid original compose)
    (\<lambda>_. files s0 nid (Some original) c) (\<lambda>_. False) (midway s0 nid original c compose allowed)"
proof -
  let ?m = "midway s0 nid original c compose allowed"
  have put: "triple (\<lambda>s. files s0 nid (Some e') c' s) (put_files_back nid original compose) (\<lambda>_. files s0 nid (Some original) c) (\<lambda>_. False) ?m"
    if k: "e' = original \<or> allowed e'" "c' = c \<or> compose \<noteq> None \<and> compose = c" for e' c'
  proof -
    have m: "files s0 nid (Some e) c' s \<Longrightarrow> e = e' \<or> e = original \<Longrightarrow> ?m s" for e s by (erule files_midway) (use k in auto)
    have e: "triple (files s0 nid (Some e') c') (write_env nid original) (\<lambda>_. files s0 nid (Some original) c') (\<lambda>_. False) ?m"
      by (rule triple_weaken [OF write_env_files [where e = "Some e'" and c = c']]) (auto intro: m)
    have f: "triple (files s0 nid (Some original) c') (case compose of None \<Rightarrow> ret () | Some source \<Rightarrow> write_compose nid source)
        (\<lambda>_. files s0 nid (Some original) c) (\<lambda>_. False) ?m"
    proof (cases compose)
      case None
      then show ?thesis using k(2) by (auto intro!: triple_ret)
    next
      case (Some source)
      show ?thesis unfolding Some option.case
        by (rule triple_weaken [OF write_compose_files [where e = "Some original" and c = c']])
           (use assms Some m in auto)
    qed
    show ?thesis unfolding put_files_back_def by (rule triple_after [OF e f])
  qed
  have "triple (\<lambda>s. \<exists>e' c'. files s0 nid (Some e') c' s \<and> (e' = original \<or> allowed e') \<and> (c' = c \<or> compose \<noteq> None \<and> compose = c))
      (put_files_back nid original compose) (\<lambda>_. files s0 nid (Some original) c) (\<lambda>_. False) ?m"
    by (rule triple_ex, rule triple_ex, rule triple_pure, rule put) blast+
  then show ?thesis unfolding midway_def .
qed

lemma undo_models_triple:
  assumes "compose = None \<or> compose = c" and "n_node_id node = nid"
  shows "triple (midway s0 nid original c compose allowed) (undo_models h node operation original compose e)
    (\<lambda>o1 s. files s0 nid (Some original) c s \<and> op_state o1 = OsFailed) (files s0 nid (Some original) c)
    (midway s0 nid original c compose allowed)"
proof -
  let ?f = "files s0 nid (Some original) c" and ?m = "midway s0 nid original c compose allowed"
  have m: "?f s \<Longrightarrow> ?m s" for s by (erule files_midway) simp_all
  have fail: "triple ?f (if b then after (attempt (set_phase h nid PhFailed)) (fail_op h operation e1) else fail_op h operation e2)
      (\<lambda>o1 s. ?f s \<and> op_state o1 = OsFailed) ?f ?m" for b e1 e2
    by (rule triple_weaken [where Q' = "\<lambda>o1 s. ?f s \<and> op_state o1 = OsFailed" and E' = ?f and D' = ?f and P' = ?f])
       (auto intro: m triple_first_after [OF maintains_attempt [OF files.phase_set]] files.op_failed)
  have rest: "triple ?f (bind (if b then catch (after (cycle h node r) (ret False)) (\<lambda>_. ret True) else ret False)
      (\<lambda>failed. if failed then after (attempt (set_phase h nid PhFailed)) (fail_op h operation e1) else fail_op h operation e2))
      (\<lambda>o1 s. ?f s \<and> op_state o1 = OsFailed) ?f ?m" for b r e1 e2
    by (rule triple_first [OF _ fail]) (auto intro!: maintained files.cycled dest: m)
  have put: "triple ?m (put_files_back nid original compose) (\<lambda>_. ?f) ?f ?m"
    by (rule triple_weaken [OF files_put_back [OF assms(1)]]) auto
  show ?thesis unfolding undo_models_def assms(2) by (rule triple_after [OF put rest])
qed

text \<open>What a configuration turns the file into, for a node that shows no data if the embedding model changes\<close>

definition new_file :: "host \<Rightarrow> node_record \<Rightarrow> fields \<Rightarrow> fields \<Rightarrow> string \<Rightarrow> string \<Rightarrow> bool" where
  "new_file h node configuration updates original t \<longleftrightarrow> apply_updates (h_format h) original updates = Inr t \<and>
     (embedding_changed (readNodeEnv original) configuration \<longrightarrow> shown_empty h node)"

definition change_outcome :: "mgr \<Rightarrow> string \<Rightarrow> string \<Rightarrow> string option \<Rightarrow> (string \<Rightarrow> bool) \<Rightarrow> operation_record \<Rightarrow> mgr \<Rightarrow> bool" where
  "change_outcome s0 nid original c allowed o1 s \<longleftrightarrow>
     op_state o1 = OsSucceeded \<and> rewritten s0 nid c c allowed s \<or> op_state o1 = OsFailed \<and> files s0 nid (Some original) c s"

lemma configure_locked:
  fixes node :: node_record
  assumes "n_node_id node = nid"
  shows "triple (files s0 nid (Some original) c) (configureModelsLocked h mh node configuration updates checks)
    (change_outcome s0 nid original c (new_file h node configuration updates original))
    (files s0 nid (Some original) c) (midway s0 nid original c c (new_file h node configuration updates original))"
proof -
  let ?a = "new_file h node configuration updates original" and ?f = "files s0 nid (Some original) c"
  let ?m = "midway s0 nid original c c ?a" and ?q = "change_outcome s0 nid original c ?a"
  have m: "?f s \<Longrightarrow> ?m s" for s by (erule files_midway) simp_all
  have n: "midway s0 nid original c compose ?a s \<Longrightarrow> compose = None \<or> compose = c \<Longrightarrow> ?m s" for compose s
    unfolding midway_def by blast
  have r: "rewritten s0 nid c compose ?a s \<Longrightarrow> compose = None \<or> compose = c \<Longrightarrow> rewritten s0 nid c c ?a s" for compose s
    unfolding rewritten_def by blast
  have env: "triple ?f (env_file nid) (\<lambda>raw s. ?f s \<and> raw = original) ?f ?m"
    unfolding env_file_def triple_def bind_def ask_def files_def by (simp add: ret_def)
  have composed: "triple ?f (if b then ret None else bind (compose_file nid) (\<lambda>source. ret (Some source)))
      (\<lambda>k s. ?f s \<and> (k = None \<or> k = c)) ?f ?m" for b
    unfolding compose_file_def triple_def bind_def ask_def files_def by (auto simp: ret_def throw_def split: option.splits)
  have change: "triple ?f (catch (change_models h mh node configuration updates checks operation original k)
      (undo_models h node operation original k)) ?q ?f ?m" if k: "k = None \<or> k = c" for operation k
  proof (rule triple_catch)
    show "triple ?f (change_models h mh node configuration updates checks operation original k) ?q (midway s0 nid original c k ?a) ?m"
      by (rule triple_weaken [OF change_models_triple [where allowed = ?a and compose = k and c = c, OF _ _ k assms]])
         (use k n r in \<open>auto simp: new_file_def change_outcome_def\<close>)
    show "triple (midway s0 nid original c k ?a) (undo_models h node operation original k e) ?q ?f ?m" for e
      by (rule triple_weaken [OF undo_models_triple [OF k assms]]) (use k n in \<open>auto simp: change_outcome_def\<close>)
  qed
  show ?thesis
    unfolding configureModelsLocked_def Let_def assms
    by (rule triple_first [OF files.ops_kept(1)], rule triple_bind [OF env], rule triple_pure, simp only:,
        rule triple_bind [OF composed], rule triple_pure, erule change) (auto intro: m)
qed

section \<open>From the selector\<close>

definition model_file :: "host \<Rightarrow> model_host \<Rightarrow> node_record \<Rightarrow> string \<Rightarrow> string \<Rightarrow> bool" where
  "model_file h mh node original t \<longleftrightarrow> (\<exists>configuration updates. modelEnvUpdates (mh_world mh) configuration = Inr updates \<and>
     new_file h node configuration updates original t)"

definition found :: "mgr \<Rightarrow> node_record \<Rightarrow> string option \<Rightarrow> string option \<Rightarrow> mgr \<Rightarrow> bool" where
  "found s0 node e c s \<longleftrightarrow> findNode (m_store s) (n_node_id node) = Inr node \<and> files s0 (n_node_id node) e c s"

lemma findNode_owners [simp]: "findNode (st\<lparr>s_owners := os\<rparr>) selector = findNode st selector"
  by (simp add: findNode_def read_registry_def stored_registry_def)

lemma lock_free_found: "lock_free (found s0 node e c)"
  by (simp add: lock_free_def found_def files_def)

lemma find_node_found: "triple (found s0 node e c) (find_node (n_node_id node)) (\<lambda>n s. files s0 (n_node_id node) e c s \<and> n = node) E D"
  by (auto simp: triple_def find_node_def bind_def ask_def found_def from_res_def ret_def)

lemma outcome_weaker:
  "change_outcome s0 nid original c a o1 s \<Longrightarrow> (\<And>t. a t \<Longrightarrow> b t) \<Longrightarrow> change_outcome s0 nid original c b o1 s"
  "midway s0 nid original c c a s \<Longrightarrow> (\<And>t. a t \<Longrightarrow> b t) \<Longrightarrow> midway s0 nid original c c b s"
  unfolding change_outcome_def rewritten_def midway_def by blast+

lemma lock_free_outcome: "lock_free (change_outcome s0 nid original c a o1)"
  unfolding change_outcome_def rewritten_def lock_free_def files_def by simp

lemma configure_allowed:
  assumes "modelEnvUpdates (mh_world mh) configuration = Inr updates" and "n_node_id node = nid"
  shows "triple (files s0 nid (Some original) c) (configureModelsLocked h mh node configuration updates checks)
    (change_outcome s0 nid original c (model_file h mh node original)) (files s0 nid (Some original) c)
    (midway s0 nid original c c (model_file h mh node original))"
proof -
  have w: "new_file h node configuration updates original t \<Longrightarrow> model_file h mh node original t" for t
    using assms(1) unfolding model_file_def by blast
  show ?thesis
    by (rule triple_weaken [OF configure_locked [OF assms(2)]]) (auto intro: outcome_weaker [OF _ w])
qed

lemma change_locked:
  assumes "triple (files s0 (n_node_id node) (Some original) c) (act node) (change_outcome s0 (n_node_id node) original c a)
      (files s0 (n_node_id node) (Some original) c) (midway s0 (n_node_id node) original c c a)"
  shows "triple (found s0 node (Some original) c) (with_lock h (n_node_id node) (bind (find_node (n_node_id node)) act))
    (change_outcome s0 (n_node_id node) original c a) (files s0 (n_node_id node) (Some original) c)
    (midway s0 (n_node_id node) original c c a)"
proof -
  let ?f = "files s0 (n_node_id node) (Some original) c" and ?m = "midway s0 (n_node_id node) original c c a"
  have m: "?f s \<Longrightarrow> ?m s" for s by (erule files_midway) simp_all
  have o: "change_outcome s0 (n_node_id node) original c a o1 s \<Longrightarrow> ?m s" for o1 s
    unfolding change_outcome_def using rewritten_midway m by blast
  have b: "triple (\<lambda>s. ?f s \<and> n = node) (act n) (change_outcome s0 (n_node_id node) original c a) ?f ?m" for n
    by (rule triple_pure) (use assms in simp)
  show ?thesis
    by (rule triple_lock [OF triple_bind [OF find_node_found b] lock_free_found lock_free_outcome files.lock_free_kept])
       (auto simp: found_def intro: m o)
qed

lemma find_selected:
  assumes "findNode (m_store s) selector = Inr node" and "m s = (r, s')" and "m = bind (find_node selector) f"
  shows "f node s = (r, s')"
  using assms by (simp add: find_node_def bind_def ask_def from_res_def ret_def)

lemma configured:
  "triple (found s0 node (Some original) c)
     (bind (from_res (modelEnvUpdates (mh_world mh) configuration)) (\<lambda>updates.
      after (guard (updates \<noteq> []) e)
      (with_lock h (n_node_id node) (bind (find_node (n_node_id node)) (\<lambda>latest.
        configureModelsLocked h mh latest configuration updates no_checks)))))
     (change_outcome s0 (n_node_id node) original c (model_file h mh node original))
     (files s0 (n_node_id node) (Some original) c) (midway s0 (n_node_id node) original c c (model_file h mh node original))"
  by (rule triple_bind [OF triple_from_res], simp add: found_def, rule triple_pure, rule triple_guarded,
      rule change_locked, rule configure_allowed) (auto simp: found_def)

lemma selected_change:
  fixes node :: node_record
  defines "nid \<equiv> n_node_id node"
  shows "triple (files s0 nid (Some original) c)
     (bind (node_env nid) (\<lambda>env. bind (discoverModelSelection h mh nid env) (\<lambda>found.
      bind (from_res (select_embedding env found sel)) (\<lambda>(c1, e).
      bind (select_generation h mh nid env found sel) (\<lambda>(c2, g).
      bind (from_res (modelEnvUpdates (mh_world mh) (c1 @ c2))) (\<lambda>updates.
      after (guard (updates \<noteq> []) refusal)
        (configureModelsLocked h mh node (c1 @ c2) updates \<lparr>ch_embedding = e, ch_generation = g\<rparr>)))))))
     (change_outcome s0 nid original c (model_file h mh node original)) (files s0 nid (Some original) c)
     (midway s0 nid original c c (model_file h mh node original))"
proof -
  let ?f = "files s0 nid (Some original) c" and ?m = "midway s0 nid original c c (model_file h mh node original)"
  have m: "?f s \<Longrightarrow> ?m s" for s by (erule files_midway) simp_all
  have u: "triple ?f (bind (from_res (modelEnvUpdates (mh_world mh) k)) (\<lambda>updates.
      after (guard (updates \<noteq> []) refusal) (configureModelsLocked h mh node k updates checks)))
      (change_outcome s0 nid original c (model_file h mh node original)) ?f ?m" for k checks
    by (rule triple_bind [OF triple_from_res], simp, rule triple_pure, rule triple_guarded, rule configure_allowed) (simp_all add: nid_def)
  show ?thesis
    by (rule triple_first [OF files.files_read(1)], rule triple_first [OF files.discovered(3)],
        rule triple_first [OF maintains_from_res], simp only: case_prod_beta,
        rule triple_first [OF files.selected], simp only: case_prod_beta, rule u) (auto intro: m)
qed

lemma selected_models:
  "triple (found s0 node (Some original) c)
     (with_lock h (n_node_id node) (bind (find_node (n_node_id node)) (\<lambda>latest.
      bind (node_env (n_node_id node)) (\<lambda>env. bind (discoverModelSelection h mh (n_node_id node) env) (\<lambda>found.
      bind (from_res (select_embedding env found sel)) (\<lambda>(c1, e).
      bind (select_generation h mh (n_node_id node) env found sel) (\<lambda>(c2, g).
      bind (from_res (modelEnvUpdates (mh_world mh) (c1 @ c2))) (\<lambda>updates.
      after (guard (updates \<noteq> []) refusal)
        (configureModelsLocked h mh latest (c1 @ c2) updates \<lparr>ch_embedding = e, ch_generation = g\<rparr>)))))))))
     (change_outcome s0 (n_node_id node) original c (model_file h mh node original))
     (files s0 (n_node_id node) (Some original) c) (midway s0 (n_node_id node) original c c (model_file h mh node original))"
  by (rule change_locked, rule selected_change)


definition silent_models :: model_host where
  "silent_models = \<lparr>mh_world = \<lparr>nw_parse_url = \<lambda>_. None, nw_show_url = \<lambda>_. [], nw_fetch = \<lambda>_. FetchFailed [], nw_now = ''t9''\<rparr>,
     mh_length = \<lambda>_ _. 0, mh_codex = \<lambda>_. \<lparr>cx_auth = ''unknown'', cx_models = [], cx_diagnostic = None\<rparr>, mh_generate = \<lambda>_ _. Inl []\<rparr>"

lemma world_found: "selector \<in> {KEY, ''personal''} \<Longrightarrow> findNode (m_store (world g [] n)) selector = Inr (world_node g)"
proof -
  have "registry_ok (stored_registry (m_store (world g [] n)))" using world_sane [of "[]"] by (simp add: sane_def)
  then have "read_registry (m_store (world g [] n)) = Inr \<lparr>reg_format = 1, reg_default_node_id = Some KEY, reg_nodes = [world_node g]\<rparr>"
    by (simp add: read_registry_Inr) (simp add: world_def stored_registry_def)
  then show "selector \<in> {KEY, ''personal''} \<Longrightarrow> findNode (m_store (world g [] n)) selector = Inr (world_node g)"
    by (auto simp: findNode_def world_node_def)
qed


end
