(* ===== verification/NodeModelNames.thy ===== *)
theory NodeModelNames
  imports NodeModelProps
begin

text \<open>The names of models a provider may bring in, and what an unchecked setting does to the runtime file.\<close>

section \<open>Catalogs\<close>

definition provider_secrets :: "node_world \<Rightarrow> model_provider \<Rightarrow> string set" where
  "provider_secrets w p = {s. s \<noteq> [] \<and> (s = pv_key p \<or> s = pv_url p \<or>
     (\<exists>u. nw_parse_url w (pv_url p) = Some u \<and> (s = hostname u \<or> to_lower (hostname u) = ''host.docker.internal'' \<and> s = ''127.0.0.1'')))}"

lemma leaks_iff: "modelNameLeaksProvider w v p \<longleftrightarrow> (\<exists>s \<in> provider_secrets w p. sharesSensitiveFragment v s)"
  by (auto simp: modelNameLeaksProvider_def provider_secrets_def split: option.splits)

definition good_name :: "node_world \<Rightarrow> model_provider \<Rightarrow> string \<Rightarrow> bool" where
  "good_name w p m \<longleftrightarrow> validModelName m \<and> (\<forall>s \<in> provider_secrets w p. \<not> sharesSensitiveFragment m s)"

lemma catalog_names_good:
  assumes "catalog_names w p seen names entries = Some names'" and "distinct names" and "\<forall>m \<in> set names. good_name w p m"
    and "sum_list (map js_length names) \<le> seen" and "seen \<le> 64 * 1024"
  shows "distinct names' \<and> (\<forall>m \<in> set names'. good_name w p m) \<and> sum_list (map js_length names') \<le> 64 * 1024 \<and>
    length names' \<le> length names + length entries"
  using assms
proof (induction w p seen names entries rule: catalog_names.induct)
  case (2 w p seen names entry entries)
  show ?case
  proof (cases "catalog_id entry")
    case None
    with 2 show ?thesis by fastforce
  next
    case (Some i)
    then have l: "seen + js_length i \<le> 64 * 1024" using 2(3) by (auto split: if_splits)
    let ?names = "if validModelName i \<and> \<not> modelNameLeaksProvider w i p \<and> i \<notin> set names then names @ [i] else names"
    have nl: "\<not> 64 * 1024 < seen + js_length i" using l by simp
    have c: "catalog_names w p (seen + js_length i) ?names entries = Some names'" using 2(3) Some l by simp
    have n: "distinct ?names" "\<forall>m \<in> set ?names. good_name w p m" "sum_list (map js_length ?names) \<le> seen + js_length i"
      using 2(4,5,6) by (auto simp: good_name_def leaks_iff)
    from 2(2) [OF Some nl c n l] have "distinct names' \<and> (\<forall>m \<in> set names'. good_name w p m) \<and>
        sum_list (map js_length names') \<le> 64 * 1024 \<and> length names' \<le> length ?names + length entries" .
    then show ?thesis by (auto split: if_splits)
  qed
qed simp

lemma read_catalog_good:
  assumes "read_catalog w collate p payload = c"
  shows "distinct (ct_models c) \<and> (\<forall>m \<in> set (ct_models c). good_name w p m) \<and> sum_list (map js_length (ct_models c)) \<le> 64 * 1024 \<and>
    length (ct_models c) \<le> 1000 \<and> sorted (map collate (ct_models c)) \<and> (ct_diagnostic c = None \<or> ct_models c = [])"
proof -
  have s: "distinct (sort_key collate ns) \<and> (\<forall>m \<in> set (sort_key collate ns). good_name w p m) \<and>
      sum_list (map js_length (sort_key collate ns)) \<le> 64 * 1024 \<and> length (sort_key collate ns) \<le> 1000 \<and>
      sorted (map collate (sort_key collate ns))"
    if "catalog_names w p 0 [] entries = Some ns" "length entries \<le> 1000" for ns entries
  proof -
    have "sum_list (map js_length (sort_key collate ns)) = sum_list (map js_length ns)"
      by (metis mset_map mset_sort sum_mset_sum_list)
    then show ?thesis using catalog_names_good [OF that(1)] that(2) by simp
  qed
  show ?thesis
    using assms s by (auto simp: read_catalog_def no_models_def split: option.splits if_splits)
qed

text \<open>
  C37: What a model provider says cannot smuggle a credential into a list of models.  Whatever it answers, the models found
  are at most 1000 different well-formed names of at most 64 KiB together, in the order of \<open>localeCompare\<close>, and none of
  them shares a fragment with the provider's key, its address or its host; with a diagnostic there are none.
\<close>

theorem discovered_models_safe:
  assumes "discoverProviderModels h mh p s = (Ret c, s')"
  shows "distinct (ct_models c) \<and> length (ct_models c) \<le> 1000 \<and> sum_list (map js_length (ct_models c)) \<le> 65536 \<and>
    sorted (map (h_collate h) (ct_models c)) \<and> (ct_diagnostic c = None \<or> ct_models c = []) \<and>
    (\<forall>m \<in> set (ct_models c). validModelName m \<and> (\<forall>secret \<in> provider_secrets (mh_world mh) p. \<not> sharesSensitiveFragment m secret))"
proof -
  have "(\<exists>why. c = no_models why) \<or> (\<exists>payload. c = read_catalog (mh_world mh) (h_collate h) p payload)"
    using assms
    by (simp add: discoverProviderModels_def request_def step_def bind_def ret_def
        split: sum.splits nat.splits fetch_json.splits if_splits) blast+
  then show ?thesis
  proof
    assume "\<exists>why. c = no_models why"
    then show ?thesis by (auto simp: no_models_def)
  next
    assume "\<exists>payload. c = read_catalog (mh_world mh) (h_collate h) p payload"
    then show ?thesis using read_catalog_good [of "mh_world mh" "h_collate h" p _ c] by (auto simp: good_name_def)
  qed
qed

definition talking_host :: host where
  "talking_host = dead_host\<lparr>h_fetch := \<lambda>_ _. FetchAnswer 200 (Some (JObj [(''data'', JArr [JObj [(''id'', JStr ''m'')], JObj [(''id'', JStr ''K'')]])]))\<rparr>"

definition plain_url :: url_parts where
  "plain_url = \<lparr>protocol = ''https:'', username = [], password = [], hostname = ''h'', url_port = [], pathname = [],
     search = [], url_hash = []\<rparr>"

definition talking_models :: model_host where
  "talking_models = silent_models\<lparr>mh_world := (mh_world silent_models)\<lparr>nw_parse_url := \<lambda>_. Some plain_url\<rparr>\<rparr>"

theorem discovered_models_safe_witness:
  "\<exists>c s'. discoverProviderModels talking_host talking_models \<lparr>pv_url = ''u'', pv_key = ''k''\<rparr> (world 1 [] 1) =
      (Ret c, s') \<and> ct_models c = [''m''] \<and> distinct (ct_models c)"
proof -
  let ?p = "\<lparr>pv_url = ''u'', pv_key = ''k''\<rparr>"
  have u: "nw_parse_url (mh_world talking_models) v = Some plain_url" for v by (simp add: talking_models_def)
  have e: "providerEndpoint (mh_world talking_models) ''u'' ''models'' = Inr []"
    unfolding providerEndpoint_def u by (simp add: talking_models_def silent_models_def http_protocol_def plain_url_def Let_def)
  have l: "modelNameLeaksProvider (mh_world talking_models) ''m'' ?p = False" "modelNameLeaksProvider (mh_world talking_models) ''K'' ?p = True"
    unfolding modelNameLeaksProvider_def model_provider.select_convs u option.case by code_simp+
  have v: "validModelName ''m''" by code_simp
  have j: "js_length ''m'' = 1" "js_length ''K'' = 1" by code_simp+
  have c: "catalog_names (mh_world talking_models) ?p 0 [] [JObj [(''id'', JStr ''m'')], JObj [(''id'', JStr ''K'')]] = Some [''m'']"
    by (simp add: catalog_id_def str_field_def oget_def l v j del: js_length.simps)
  have len: "mh_length talking_models l a = 0" for l a by (simp add: talking_models_def silent_models_def)
  have f: "fst (discoverProviderModels talking_host talking_models ?p (world 1 [] 1)) = Ret \<lparr>ct_models = [''m''], ct_diagnostic = None\<rparr>"
    unfolding discoverProviderModels_def model_provider.select_convs e
    by (simp add: request_def step_def bind_def ret_def world_def talking_host_def answer_ok_def read_catalog_def arr_field_def c
        len oget_def del: catalog_names.simps)
  have "\<exists>s'. discoverProviderModels talking_host talking_models \<lparr>pv_url = ''u'', pv_key = ''k''\<rparr> (world 1 [] 1) =
      (Ret \<lparr>ct_models = [''m''], ct_diagnostic = None\<rparr>, s')"
    using f by (metis prod.collapse)
  then show ?thesis using discovered_models_safe by (metis model_catalog.select_convs(1))
qed

section \<open>A setting that is not checked\<close>


end
