(* ===== verification/AdminServer.thy ===== *)
theory AdminServer
  imports NodeModelChange NodeBackup AdminAuth InternalAuth
begin

text \<open>
  The HTTP server of the Node Manager, \<open>apps/manager/src/admin-server.ts\<close>: which request may do what, over the loopback
  port and over the Unix socket, and what it then asks of the manager.  URLs come parsed; \<open>decodeURIComponent\<close>,
  \<open>JSON.parse\<close> and HMAC are arguments.  An argument that is not a text where one is needed is refused at once.
\<close>

section \<open>Requests and answers\<close>

datatype transport = Tcp | Unix

record admin_request =
  aq_method :: string
  aq_path :: string
  aq_query :: "(string \<times> string) list"
  aq_origin :: "string option"
  aq_cookies :: string
  aq_authorization :: auth_header
  aq_body :: "string list"

text \<open>
  The options, the private env file of a node deployment if there is one (or why it cannot be read), and the world around:
  \<open>JSON.parse\<close> with the message of its error.
\<close>

record admin_env =
  ad_port :: nat
  ad_deployment :: bool
  ad_node_file :: "string res option"
  ad_secret :: string
  ad_auth :: auth_env
  ad_now :: int
  ad_hmac :: "string \<Rightarrow> string \<Rightarrow> string"
  ad_parse :: "string \<Rightarrow> json res"
  ad_decode :: "string \<Rightarrow> string option"

text \<open>
  What a request asks for, in the order of the code; the first boolean of a Codex call is whether the node deployment
  answers it.
\<close>

datatype admin_call =
    CodexModels bool string "string option"
  | CodexChat bool string "string option" json
  | PickFolder internal_context
  | DetachFolder internal_context string
  | ExchangeBootstrap string
  | ServeAdmin string
  | IssueBootstrap "string option" "string option"
  | CreateNode json
  | DeleteNode string string bool
  | RestoreApply string string string
  | MigrationApply string string string string
  | MigrationVerify string string
  | ConfigureModels string json
  | ListNodes
  | ReadModels string
  | SelectModels string json
  | ProbeGeneration string json
  | ReadStatus string
  | ReadBacklog string
  | ReadLogs string string string
  | StartNode string
  | StopNode string
  | RestartNode string
  | ListBackups string
  | CreateBackup string string
  | VerifyBackup string string
  | RestorePlan string string
  | MigrationPlan string string "string option"
  | OwnNode
  | OwnModels
  | OwnSelect json
  | OwnProbe json
  | OwnLogs string string
  | OwnOperation string
  | OwnBackup string

datatype decision = Refuse nat string | Answer nat string | Do admin_call

section \<open>Errors\<close>

text \<open>\<open>neuromem-admin=[^&#\s]+\<close>\<close>

definition match_link :: "string \<Rightarrow> (nat \<times> string) option" where
  "match_link s = (let k = dense_run (\<lambda>c. c \<noteq> CHR ''&'' \<and> c \<noteq> CHR 0x23) (drop 15 s)
     in if starts_with ''neuromem-admin='' (to_lower s) \<and> k \<noteq> 0 then Some (15 + k, ''neuromem-admin=[redacted]'') else None)"

definition redactError :: "string \<Rightarrow> string" where
  "redactError s = replace_global match_link (redact_message s)"

text \<open>What is thrown while a request is served\<close>

definition failed :: "string \<Rightarrow> decision" where
  "failed message = Refuse 400 (redactError message)"

section \<open>Reading a request\<close>

fun match_path :: "string option list \<Rightarrow> string list \<Rightarrow> bool" where
  "match_path [] [] = True"
| "match_path (Some w # pat) (s # rest) = (s = w \<and> match_path pat rest)"
| "match_path (None # pat) (s # rest) = (s \<noteq> [] \<and> match_path pat rest)"
| "match_path _ _ = False"

definition segments :: "admin_request \<Rightarrow> string list" where
  "segments q = split_on (CHR ''/'') (aq_path q)"

text \<open>\<open>match(url.pathname, /^\/a\/([^/]+)\/b$/)\<close> with one group: whether it matches, and its decoded group\<close>

definition matches_route :: "string list \<Rightarrow> string list \<Rightarrow> admin_request \<Rightarrow> bool" where
  "matches_route before tail q = match_path ([Some []] @ map Some before @ [None] @ map Some tail) (segments q)"

definition route_group :: "string list \<Rightarrow> admin_request \<Rightarrow> string" where
  "route_group before q = segments q ! (length before + 1)"

definition decoded :: "admin_env \<Rightarrow> string \<Rightarrow> (string \<Rightarrow> decision) \<Rightarrow> decision" where
  "decoded e s f = (case ad_decode e s of None \<Rightarrow> failed ''URI malformed'' | Some t \<Rightarrow> f t)"

definition read_body :: "admin_env \<Rightarrow> admin_request \<Rightarrow> json res" where
  "read_body e q =
     (let v = concat (aq_body q)
      in if 1024 * 1024 < js_length v then Inl ''Request body exceeds 1 MiB''
         else if v = [] then Inr (JObj [])
         else ad_parse e v)"

definition with_body :: "admin_env \<Rightarrow> admin_request \<Rightarrow> (json \<Rightarrow> decision) \<Rightarrow> decision" where
  "with_body e q f = (case read_body e q of Inl why \<Rightarrow> failed why | Inr j \<Rightarrow> f j)"

definition with_fields :: "admin_env \<Rightarrow> admin_request \<Rightarrow> (fields \<Rightarrow> decision) \<Rightarrow> decision" where
  "with_fields e q f = with_body e q (\<lambda>j. case props j of None \<Rightarrow> failed ''Cannot read properties of null'' | Some p \<Rightarrow> f p)"

text \<open>\<open>if (!body.x) return sendError(400)\<close>, and \<open>body.x || fallback\<close>\<close>

definition need_text :: "string \<Rightarrow> json option \<Rightarrow> (string \<Rightarrow> decision) \<Rightarrow> decision" where
  "need_text why v f = (case Option.bind v as_string of None \<Rightarrow> Refuse 400 why | Some t \<Rightarrow> if t = [] then Refuse 400 why else f t)"

definition text_or :: "string \<Rightarrow> json option \<Rightarrow> (string \<Rightarrow> decision) \<Rightarrow> decision" where
  "text_or fallback v f = (if \<not> truthy_opt v then f fallback
     else case Option.bind v as_string of None \<Rightarrow> failed ''Invalid argument'' | Some t \<Rightarrow> f t)"

definition cookie :: "string \<Rightarrow> admin_request \<Rightarrow> string" where
  "cookie name q =
     (case List.find (\<lambda>part. takeWhile (\<lambda>c. c \<noteq> CHR ''='') (trim part) = name) (split_on (CHR '';'') (aq_cookies q)) of
        None \<Rightarrow> []
      | Some part \<Rightarrow> drop (length name + 1) (trim part))"

section \<open>The node deployment\<close>

definition deploymentNodeId :: "admin_env \<Rightarrow> string option" where
  "deploymentNodeId e =
     (if \<not> ad_deployment e then None
      else Option.bind (ad_node_file e) (\<lambda>text. case rbind text readEnv of
        Inl _ \<Rightarrow> None | Inr env \<Rightarrow> Some (eget_or env ''NEUROMEM_NODE_ID'' ''local'')))"

definition isDeploymentNode :: "admin_env \<Rightarrow> string \<Rightarrow> bool" where
  "isDeploymentNode e selector = (ad_deployment e \<and> deploymentNodeId e = Some selector)"

section \<open>Who may ask\<close>

definition origin_allowed :: "admin_env \<Rightarrow> string \<Rightarrow> bool" where
  "origin_allowed e origin = (origin = ''http://127.0.0.1:'' @ dec_str (ad_port e) \<or> origin = ''http://localhost:'' @ dec_str (ad_port e))"

text \<open>\<open>request.headers.origin\<close>, where an empty header counts as none\<close>

definition origin_of :: "admin_request \<Rightarrow> string option" where
  "origin_of q = (case aq_origin q of None \<Rightarrow> None | Some origin \<Rightarrow> if origin = [] then None else Some origin)"

definition allowOrigin :: "admin_env \<Rightarrow> admin_request \<Rightarrow> bool" where
  "allowOrigin e q = (case origin_of q of None \<Rightarrow> True | Some origin \<Rightarrow> origin_allowed e origin)"

definition session_valid :: "admin_env \<Rightarrow> admin_request \<Rightarrow> bool" where
  "session_valid e q = validateSession (ad_auth e) (ad_secret e) (ad_now e) (cookie ''neuromem_admin'' q)"

section \<open>Routes without a session\<close>

definition bearer_header :: "admin_request \<Rightarrow> string option" where
  "bearer_header q = (case aq_authorization q of OneHeader a \<Rightarrow> Some a | _ \<Rightarrow> None)"

text \<open>The answer to an error of the bridge\<close>

definition codex_failure :: "string \<Rightarrow> decision" where
  "codex_failure message =
     (let m = to_lower message
      in if str_includes ''authorization'' m then Refuse 401 ''Invalid Node bridge authorization''
         else if str_includes ''unknown node'' m then Refuse 404 ''Unknown Node''
         else if list_ex (\<lambda>w. str_includes w m) [''invalid'', ''unsupported'', ''does not match'']
         then Refuse 400 ''Invalid Codex generation request''
         else Refuse 503 ''Codex generation is temporarily unavailable'')"

definition CODEX :: "string list" where
  "CODEX = [''v1'', ''internal'', ''codex'', ''nodes'']"

definition codex_route :: "admin_env \<Rightarrow> admin_request \<Rightarrow> decision" where
  "codex_route e q = decoded e (route_group CODEX q) (\<lambda>n.
     let own = isDeploymentNode e n
     in if ad_deployment e \<and> \<not> own then Refuse 404 ''Unknown Node''
        else if aq_method q = ''GET'' then Do (CodexModels own n (bearer_header q))
        else (case read_body e q of
            Inl why \<Rightarrow> codex_failure why
          | Inr content \<Rightarrow> Do (CodexChat own n (bearer_header q) content)))"

definition INTERNAL_NODES :: "string list" where
  "INTERNAL_NODES = [''v1'', ''internal'', ''nodes'']"

definition folder_context_of :: "admin_env \<Rightarrow> string \<Rightarrow> admin_request \<Rightarrow> (internal_context \<Rightarrow> decision) \<Rightarrow> decision" where
  "folder_context_of e n q f =
     (if origin_of q \<noteq> None then Refuse 403 ''Browser origins cannot call internal routes''
      else case (if ad_deployment e then ad_node_file e else None) of
        None \<Rightarrow> Refuse 404 ''Node not found''
      | Some text \<Rightarrow> (case rbind text readEnv of
          Inl _ \<Rightarrow> Refuse 503 ''The local folder source service is unavailable''
        | Inr env \<Rightarrow>
            if eget env ''NEUROMEM_NODE_ID'' = [] \<or> n \<noteq> eget env ''NEUROMEM_NODE_ID'' then Refuse 404 ''Node not found''
            else if length (eget env ''CONTROL_INTERNAL_SIGNING_KEY'') < 32 then Refuse 503 ''Internal authorization is not configured''
            else (case verifyControlInternalAuthorization (ad_hmac e) (\<lambda>t. case ad_parse e t of Inl _ \<Rightarrow> None | Inr j \<Rightarrow> Some j) (aq_authorization q)
                     (eget env ''CONTROL_INTERNAL_SIGNING_KEY'') (ad_now e) of
                Inl _ \<Rightarrow> Refuse 401 ''Invalid internal authorization''
              | Inr context \<Rightarrow>
                  if ''project.write'' \<notin> set (ic_capabilities context) then Refuse 403 ''Project write capability is required''
                  else f context)))"

definition handleInternalFolderSource :: "admin_env \<Rightarrow> string \<Rightarrow> string \<Rightarrow> admin_request \<Rightarrow> decision" where
  "handleInternalFolderSource e n action q = folder_context_of e n q (\<lambda>context.
     if action = ''folder-sources:pick'' then Do (PickFolder context)
     else (case Option.bind (case read_body e q of Inl _ \<Rightarrow> None | Inr j \<Rightarrow> Some j) props of
         None \<Rightarrow> Refuse 503 ''The local folder source service is unavailable''
       | Some content \<Rightarrow> (case str_field content ''source_id'' of
           None \<Rightarrow> Refuse 400 ''source_id is required'' | Some i \<Rightarrow> Do (DetachFolder context i))))"

definition folder_route :: "admin_env \<Rightarrow> transport \<Rightarrow> string \<Rightarrow> admin_request \<Rightarrow> decision" where
  "folder_route e tr action q = decoded e (route_group INTERNAL_NODES q) (\<lambda>n.
     if tr \<noteq> Tcp then Refuse 404 ''Not found'' else handleInternalFolderSource e n action q)"

definition session_route :: "admin_env \<Rightarrow> admin_request \<Rightarrow> decision" where
  "session_route e q =
     (if origin_of q = None then Refuse 403 ''A same-origin browser request is required''
      else if \<not> allowOrigin e q then Refuse 403 ''Origin is not allowed''
      else with_fields e q (\<lambda>content. need_text ''Bootstrap token is required'' (oget content ''token'') (\<lambda>t. Do (ExchangeBootstrap t))))"

text \<open>A route whose expression matches but whose method does not still decodes its group.\<close>

definition codex_method :: "admin_request \<Rightarrow> bool" where
  "codex_method q = (matches_route CODEX [''models''] q \<and> aq_method q = ''GET'' \<or>
     matches_route CODEX [''chat'', ''completions''] q \<and> aq_method q = ''POST'')"

definition bad_group :: "admin_env \<Rightarrow> string list \<Rightarrow> string list list \<Rightarrow> admin_request \<Rightarrow> bool" where
  "bad_group e before tails q =
     (list_ex (\<lambda>tail. matches_route before tail q) tails \<and> ad_decode e (route_group before q) = None)"

definition open_route :: "admin_env \<Rightarrow> transport \<Rightarrow> admin_request \<Rightarrow> decision option" where
  "open_route e tr q =
     (if aq_method q = ''OPTIONS'' then Some (if allowOrigin e q then Answer 204 [] else Refuse 403 ''Origin is not allowed'')
      else if aq_method q = ''GET'' \<and> aq_path q = ''/health'' then Some (Answer 200 ''health'')
      else if aq_method q = ''GET'' \<and> aq_path q = ''/favicon.ico'' then Some (Answer 204 [])
      else if aq_method q = ''GET'' \<and> aq_path q = ''/v1/openapi.json'' then Some (Answer 200 ''openapi'')
      else if bad_group e CODEX [[''models''], [''chat'', ''completions'']] q \<or>
        bad_group e INTERNAL_NODES [[''folder-sources:pick''], [''folder-sources:detach'']] q
      then Some (failed ''URI malformed'')
      else if codex_method q then Some (codex_route e q)
      else if matches_route INTERNAL_NODES [''folder-sources:pick''] q \<and> aq_method q = ''POST''
      then Some (folder_route e tr ''folder-sources:pick'' q)
      else if matches_route INTERNAL_NODES [''folder-sources:detach''] q \<and> aq_method q = ''POST''
      then Some (folder_route e tr ''folder-sources:detach'' q)
      else if aq_path q = ''/v1/admin/session'' \<and> aq_method q = ''POST'' \<and> tr = Tcp then Some (session_route e q)
      else if aq_path q = ''/admin'' \<and> aq_method q = ''GET'' then Some (Answer 308 ''/admin/'')
      else if starts_with ''/admin/'' (aq_path q) \<and> aq_method q = ''GET'' then Some (Do (ServeAdmin (aq_path q)))
      else None)"

text \<open>What a request over the loopback port has to show for the rest\<close>

definition tcp_guard :: "admin_env \<Rightarrow> admin_request \<Rightarrow> decision option" where
  "tcp_guard e q =
     (if \<not> allowOrigin e q then Some (Refuse 403 ''Origin is not allowed'')
      else if aq_method q \<notin> {''GET'', ''HEAD''} \<and> origin_of q = None
      then Some (Refuse 403 ''A same-origin browser request is required'')
      else if \<not> session_valid e q then Some (Refuse 401 ''Admin session is required'')
      else None)"

section \<open>Routes behind the guard\<close>

definition NOT_FOUND :: decision where
  "NOT_FOUND = Refuse 404 ''Not found''"

definition CLI :: "string list" where
  "CLI = [''v1'', ''cli'', ''nodes'']"

definition NODES :: "string list" where
  "NODES = [''v1'', ''nodes'']"

text \<open>Over the Unix socket only, and not for a node deployment\<close>

definition cli_only :: "admin_env \<Rightarrow> transport \<Rightarrow> string \<Rightarrow> decision \<Rightarrow> decision" where
  "cli_only e tr why d = (if tr \<noteq> Unix then NOT_FOUND else if ad_deployment e then Refuse 404 why else d)"

definition bootstrap_route :: "admin_env \<Rightarrow> transport \<Rightarrow> admin_request \<Rightarrow> decision" where
  "bootstrap_route e tr q =
     (if tr \<noteq> Unix then NOT_FOUND
      else with_fields e q (\<lambda>content. case deploymentNodeId e of
          Some own \<Rightarrow> Do (IssueBootstrap (Some own) None)
        | None \<Rightarrow> if \<not> truthy_opt (oget content ''node_id'') then Do (IssueBootstrap None None)
            else text_or [] (oget content ''node_id'') (\<lambda>n. Do (IssueBootstrap None (Some n)))))"

text \<open>A confirmation that is no text is not the id of the node either.\<close>

definition text_of :: "fields \<Rightarrow> string \<Rightarrow> string" where
  "text_of content k = (case str_field content k of None \<Rightarrow> [] | Some t \<Rightarrow> t)"

definition delete_route :: "admin_env \<Rightarrow> string \<Rightarrow> admin_request \<Rightarrow> decision" where
  "delete_route e n q = with_fields e q (\<lambda>content.
     Do (DeleteNode n (text_of content ''confirmation'') (truthy_opt (oget content ''purge_data''))))"

definition apply_route :: "admin_env \<Rightarrow> string \<Rightarrow> string list \<Rightarrow> admin_request \<Rightarrow> decision" where
  "apply_route e n action q = with_fields e q (\<lambda>content.
     if action = [''restore'', ''apply''] then
       (if \<not> truthy_opt (oget content ''backup_id'') \<or> \<not> truthy_opt (oget content ''confirmation'')
        then Refuse 400 ''backup_id and confirmation are required''
        else text_or [] (oget content ''backup_id'') (\<lambda>b. Do (RestoreApply n b (text_of content ''confirmation''))))
     else text_or ''head'' (oget content ''target_revision'') (\<lambda>revision.
       if action = [''migrate'', ''apply''] then
         (if \<not> truthy_opt (oget content ''confirmation'') then Refuse 400 ''confirmation is required''
          else Do (MigrationApply n revision (text_of content ''confirmation'') (text_of content ''apply_mode'')))
       else Do (MigrationVerify n revision)))"

definition models_route :: "admin_env \<Rightarrow> string \<Rightarrow> admin_request \<Rightarrow> decision" where
  "models_route e n q =
     (if aq_method q = ''GET'' then
        (if isDeploymentNode e n then Do OwnModels
         else if ad_deployment e then Refuse 404 ''Node not found'' else Do (ReadModels n))
      else if aq_method q = ''POST'' then
        (if isDeploymentNode e n then with_body e q (\<lambda>input. Do (OwnSelect input))
         else if ad_deployment e then Refuse 404 ''Node not found'' else with_body e q (\<lambda>input. Do (SelectModels n input)))
      else NOT_FOUND)"

definition probe_route :: "admin_env \<Rightarrow> string \<Rightarrow> admin_request \<Rightarrow> decision" where
  "probe_route e n q =
     (if isDeploymentNode e n then with_body e q (\<lambda>input. Do (OwnProbe input))
      else if ad_deployment e then Refuse 404 ''Node not found'' else with_body e q (\<lambda>input. Do (ProbeGeneration n input)))"

text \<open>\<open>url.searchParams.get(name) || fallback\<close>\<close>

definition query_or :: "admin_request \<Rightarrow> string \<Rightarrow> string \<Rightarrow> string" where
  "query_or q name fallback = (case oget (aq_query q) name of None \<Rightarrow> fallback | Some v \<Rightarrow> if v = [] then fallback else v)"

definition own_route :: "string \<Rightarrow> string \<Rightarrow> admin_request \<Rightarrow> decision option" where
  "own_route n action q =
     (if aq_method q = ''GET'' then
        (if action = ''health'' then Some (Do OwnNode)
         else if action = ''backlog'' then Some (Answer 200 ''backlog'')
         else if action = ''logs'' then
           (let service = query_or q ''service'' ''control''
            in Some (Do (OwnLogs (if service = ''api'' then ''control'' else service) (query_or q ''tail'' ''200''))))
         else if action = ''backups'' then Some (Answer 200 ''backups'') else None)
      else if aq_method q = ''POST'' then
        (if action \<in> {''start'', ''stop'', ''restart''} then Some (Do (OwnOperation action))
         else if action = ''backups'' then Some (Do (OwnBackup n)) else None)
      else None)"

definition managed_route :: "admin_env \<Rightarrow> string \<Rightarrow> string \<Rightarrow> admin_request \<Rightarrow> decision" where
  "managed_route e n action q =
     (if aq_method q = ''GET'' then
        (if action = ''health'' then Do (ReadStatus n)
         else if action = ''backlog'' then Do (ReadBacklog n)
         else if action = ''logs'' then Do (ReadLogs n (query_or q ''service'' ''api'') (query_or q ''tail'' ''200''))
         else if action = ''backups'' then Do (ListBackups n) else NOT_FOUND)
      else if aq_method q = ''POST'' then
        (if action = ''start'' then Do (StartNode n)
         else if action = ''stop'' then Do (StopNode n)
         else if action = ''restart'' then Do (RestartNode n)
         else if action = ''backups'' then with_fields e q (\<lambda>content. text_or ''manual'' (oget content ''label'') (\<lambda>l. Do (CreateBackup n l)))
         else NOT_FOUND)
      else NOT_FOUND)"

definition node_route :: "admin_env \<Rightarrow> string \<Rightarrow> string \<Rightarrow> admin_request \<Rightarrow> decision" where
  "node_route e n action q =
     (case (if isDeploymentNode e n then own_route n action q else None) of
        Some d \<Rightarrow> d
      | None \<Rightarrow> if ad_deployment e then Refuse 404 ''Node not found'' else managed_route e n action q)"

definition plan_route :: "admin_env \<Rightarrow> string \<Rightarrow> string \<Rightarrow> admin_request \<Rightarrow> decision" where
  "plan_route e n kind q =
     (if ad_deployment e then Refuse 404 ''This operation is not available for the physical Node''
      else with_fields e q (\<lambda>content.
        if kind = ''restore'' then need_text ''backup_id is required'' (oget content ''backup_id'') (\<lambda>b. Do (RestorePlan n b))
        else need_text ''target_revision is required'' (oget content ''target_revision'') (\<lambda>revision.
          Do (MigrationPlan n revision (str_field content ''apply_mode'')))))"

definition verify_route :: "admin_env \<Rightarrow> string \<Rightarrow> string \<Rightarrow> decision" where
  "verify_route e n b =
     (if ad_deployment e then Refuse 404 ''This operation is not available for the physical Node'' else Do (VerifyBackup n b))"

text \<open>
  The expressions of these routes match different paths, so that a path that one of them matches with another method is
  not found.
\<close>

definition at_route :: "admin_env \<Rightarrow> string list \<Rightarrow> admin_request \<Rightarrow> bool \<Rightarrow> (string \<Rightarrow> decision) \<Rightarrow> decision" where
  "at_route e before q method_ok f = decoded e (route_group before q) (\<lambda>n. if method_ok then f n else NOT_FOUND)"

definition ACTIONS :: "string list" where
  "ACTIONS = [''health'', ''backlog'', ''logs'', ''start'', ''stop'', ''restart'', ''backups'']"

definition APPLY :: "string list list" where
  "APPLY = [[''restore'', ''apply''], [''migrate'', ''apply''], [''migrate'', ''verify'']]"

definition cli_route :: "admin_env \<Rightarrow> transport \<Rightarrow> admin_request \<Rightarrow> decision option" where
  "cli_route e tr q =
     (if aq_path q = ''/v1/cli/nodes'' \<and> aq_method q = ''POST''
      then Some (cli_only e tr ''The physical Node is configured with `neuromem node config init`''
        (with_body e q (\<lambda>input. Do (CreateNode input))))
      else if matches_route CLI [] q
      then Some (at_route e CLI q (aq_method q = ''DELETE'') (\<lambda>n.
        cli_only e tr ''The physical Node cannot be deleted through the legacy Node API'' (delete_route e n q)))
      else if matches_route CLI [''models'', ''configure''] q
      then Some (at_route e CLI q (aq_method q = ''POST'') (\<lambda>n.
        cli_only e tr ''Use the physical Node model selection API'' (with_body e q (\<lambda>input. Do (ConfigureModels n input)))))
      else (case List.find (\<lambda>action. matches_route CLI action q) APPLY of
          Some action \<Rightarrow> Some (at_route e CLI q (aq_method q = ''POST'') (\<lambda>n.
            cli_only e tr ''This operation is not available for the physical Node'' (apply_route e n action q)))
        | None \<Rightarrow> None))"

definition list_route :: "admin_env \<Rightarrow> decision" where
  "list_route e =
     (if ad_deployment e then (if deploymentNodeId e = None then Answer 200 ''no nodes'' else Do OwnNode) else Do ListNodes)"

definition nodes_route :: "admin_env \<Rightarrow> admin_request \<Rightarrow> decision" where
  "nodes_route e q =
     (if aq_path q = ''/v1/nodes'' \<and> aq_method q = ''GET'' then list_route e
      else if matches_route NODES [''models''] q then at_route e NODES q True (\<lambda>n. models_route e n q)
      else if matches_route NODES [''generation'', ''probe''] q
      then at_route e NODES q (aq_method q = ''POST'') (\<lambda>n. probe_route e n q)
      else case List.find (\<lambda>action. matches_route NODES [action] q) ACTIONS of
        Some action \<Rightarrow> at_route e NODES q True (\<lambda>n. node_route e n action q)
      | None \<Rightarrow>
          if match_path [Some [], Some ''v1'', Some ''nodes'', None, Some ''backups'', None, Some ''verify''] (segments q)
          then at_route e NODES q True (\<lambda>n. decoded e (segments q ! 5) (\<lambda>b.
            if aq_method q = ''POST'' then verify_route e n b else NOT_FOUND))
          else case List.find (\<lambda>kind. matches_route NODES [kind, ''plan''] q) [''restore'', ''migrate''] of
            Some kind \<Rightarrow> at_route e NODES q (aq_method q = ''POST'') (\<lambda>n. plan_route e n kind q)
          | None \<Rightarrow> NOT_FOUND)"

definition guarded_route :: "admin_env \<Rightarrow> transport \<Rightarrow> admin_request \<Rightarrow> decision" where
  "guarded_route e tr q =
     (if aq_path q = ''/v1/admin/bootstrap'' \<and> aq_method q = ''POST'' then bootstrap_route e tr q
      else case cli_route e tr q of Some d \<Rightarrow> d | None \<Rightarrow> nodes_route e q)"

definition handle :: "admin_env \<Rightarrow> transport \<Rightarrow> admin_request \<Rightarrow> decision" where
  "handle e tr q =
     (case open_route e tr q of
        Some d \<Rightarrow> d
      | None \<Rightarrow> (case (if tr = Tcp then tcp_guard e q else None) of
          Some d \<Rightarrow> d
        | None \<Rightarrow> guarded_route e tr q))"

section \<open>Static files\<close>

text \<open>
  The files of the web interface, by the segments of their paths: which ones exist, which are regular files, and their
  real paths.
\<close>

record web_files =
  wf_root :: "string list"
  wf_exists :: "string list \<Rightarrow> bool"
  wf_file :: "string list \<Rightarrow> bool"
  wf_real :: "string list \<Rightarrow> string list option"

definition contentType :: "string \<Rightarrow> string" where
  "contentType target =
     (if ends_with ''.html'' target then ''text/html; charset=utf-8''
      else if ends_with ''.js'' target then ''text/javascript; charset=utf-8''
      else if ends_with ''.css'' target then ''text/css; charset=utf-8''
      else if ends_with ''.svg'' target then ''image/svg+xml''
      else if ends_with ''.json'' target then ''application/json; charset=utf-8''
      else ''application/octet-stream'')"

definition inside :: "string list \<Rightarrow> string list \<Rightarrow> bool" where
  "inside base target = (take (length base) target = base)"

text \<open>\<open>replace(/^\/admin\/?/, "")\<close>\<close>

definition admin_relative :: "string \<Rightarrow> string" where
  "admin_relative d = (if starts_with ''/admin/'' d then drop 7 d else if starts_with ''/admin'' d then drop 6 d else d)"

text \<open>The path of the file that is sent, with its type, or a refusal\<close>

definition serveAdmin :: "(string \<Rightarrow> string option) \<Rightarrow> web_files \<Rightarrow> string \<Rightarrow> decision + (string list \<times> string)" where
  "serveAdmin decode fs requestPath =
     (case decode requestPath of
        None \<Rightarrow> Inl (Refuse 400 ''Invalid path encoding'')
      | Some d \<Rightarrow>
          if CHR 0x00 \<in> set d \<or> CHR 0x5C \<in> set d then Inl (Refuse 400 ''Invalid path'')
          else
            let base = (case wf_real fs (wf_root fs) of None \<Rightarrow> wf_root fs | Some p \<Rightarrow> p);
                requested = path_resolve base (or_text (admin_relative d) ''index.html'');
                found = (wf_exists fs requested \<and> wf_file fs requested);
                index_file = base @ [''index.html'']
            in if \<not> inside base requested then Inl (Refuse 403 ''Invalid path'')
               else if \<not> found \<and> starts_with ''/admin/assets/'' d then Inl (Refuse 404 ''Asset not found'')
               else (case (if found then wf_real fs requested
                     else Some (case wf_real fs index_file of None \<Rightarrow> index_file | Some p \<Rightarrow> p)) of
                   None \<Rightarrow> Inl (failed ''ENOENT'')
                 | Some target \<Rightarrow>
                     if \<not> inside base target then Inl (Refuse 403 ''Invalid path'')
                     else if \<not> wf_exists fs target then Inl (Refuse 503 ''Admin UI is not installed'')
                     else Inr (target, contentType (path_text target))))"

lemma served_inside:
  assumes "serveAdmin decode fs requestPath = Inr (target, ty)"
  shows "inside (case wf_real fs (wf_root fs) of None \<Rightarrow> wf_root fs | Some p \<Rightarrow> p) target \<and> wf_exists fs target"
  using assms by (auto simp: serveAdmin_def Let_def split: option.splits if_splits)

end
