(* ===== verification/AdminRun.thy ===== *)
theory AdminRun
  imports AdminServer NodeModelChange NodeLife
begin

text \<open>
  What the routes of \<open>apps/manager/src/admin-server.ts\<close> ask of the manager of the nodes, with the logs and the backlog of
  a node (\<open>node-manager.ts\<close>, \<open>compose.ts\<close>), and the requests served one after the other.
\<close>

section \<open>Logs and backlog\<close>

definition SERVICE_ALIASES :: "(string \<times> string) list" where
  "SERVICE_ALIASES = [(''database'', ''database''), (''api'', ''core''), (''core'', ''core''), (''worker'', ''worker''),
     (''mcp'', ''mcp''), (''dashboard'', ''web''), (''web'', ''web'')]"

text \<open>\<open>slice(-n)\<close>\<close>

fun drop_units :: "nat \<Rightarrow> string \<Rightarrow> string" where
  "drop_units k [] = []"
| "drop_units k (c # cs) = (if k = 0 \<and> units c \<noteq> 0 then c # cs else drop_units (k - units c) cs)"

definition last_units :: "nat \<Rightarrow> string \<Rightarrow> string" where
  "last_units n s = (if js_length s \<le> n then s else drop_units (js_length s - n) s)"

definition tail_count :: "rat option \<Rightarrow> int res" where
  "tail_count v = (case v of None \<Rightarrow> Inl ''tail must be between 1 and 5000''
     | Some q \<Rightarrow> if q = of_int \<lfloor>q\<rfloor> \<and> 1 \<le> q \<and> q \<le> 5000 then Inr \<lfloor>q\<rfloor> else Inl ''tail must be between 1 and 5000'')"

definition compose_logs :: "host \<Rightarrow> node_record \<Rightarrow> string \<Rightarrow> rat option \<Rightarrow> string prog" where
  "compose_logs h node service tail =
     bind (from_res (case oget SERVICE_ALIASES service of None \<Rightarrow> Inl (''Unsupported service: '' @ service) | Some s \<Rightarrow> Inr s)) (\<lambda>resolved.
     bind (from_res (tail_count tail)) (\<lambda>n.
     bind (compose_cmd h node True [''logs'', ''--no-color'', ''--tail'', dec_int n, resolved]) (\<lambda>r.
       ret (last_units 2000000 (join [LF] (filter (\<lambda>t. t \<noteq> []) [cr_stdout r, cr_stderr r]))))))"

definition logs :: "host \<Rightarrow> string \<Rightarrow> string \<Rightarrow> rat option \<Rightarrow> string prog" where
  "logs h selector service tail = bind (find_node selector) (\<lambda>node.
     bind (compose_logs h node service tail) (\<lambda>t. ret (redact_message t)))"

definition backlog :: "host \<Rightarrow> model_host \<Rightarrow> string \<Rightarrow> fields prog" where
  "backlog h mh selector = bind (find_node selector) (\<lambda>node. let nid = n_node_id node in
     catch
       (bind (node_env nid) (\<lambda>env.
        bind (request h mh (Get (api_endpoint node @ ''/v1/system/backlog'') (eget env ''API_TOKEN''))) (\<lambda>(answer, _).
        case answer of
          FetchFailed e \<Rightarrow> throw e
        | FetchAnswer st payload \<Rightarrow>
            after (guard (answer_ok st) (''Core returned HTTP '' @ dec_str st))
            (case payload of
               None \<Rightarrow> throw ''Unexpected token in JSON''
             | Some j \<Rightarrow> ret (foldl (\<lambda>o1 (k, v). oset k v o1) [(''node_id'', JStr nid), (''available'', JBool True)]
                 (case as_object j of None \<Rightarrow> [] | Some fs \<Rightarrow> fs))))))
       (\<lambda>e. ret [(''node_id'', JStr nid), (''available'', JBool False), (''pending'', JNull), (''running'', JNull),
          (''failed'', JNull), (''error'', JStr e)]))"

section \<open>The calls\<close>

text \<open>
  The input of \<open>createNode\<close>, of which the fields are texts and the ports, if any, integers under their three names.
\<close>

definition port_field :: "fields \<Rightarrow> string \<Rightarrow> int option res" where
  "port_field p k = (case oget p k of None \<Rightarrow> Inr None
     | Some (JNum q) \<Rightarrow> if q = of_int \<lfloor>q\<rfloor> then Inr (Some \<lfloor>q\<rfloor>) else Inl ''Invalid unprivileged port''
     | Some _ \<Rightarrow> Inl ''Invalid unprivileged port'')"

definition port_fields :: "json option \<Rightarrow> port_request res" where
  "port_fields v = (case v of
       None \<Rightarrow> Inr \<lparr>rq_api = None, rq_dashboard = None, rq_mcp = None\<rparr>
     | Some (JObj p) \<Rightarrow> rbind (port_field p ''api'') (\<lambda>a. rbind (port_field p ''dashboard'') (\<lambda>d.
         rbind (port_field p ''mcp'') (\<lambda>m. Inr \<lparr>rq_api = a, rq_dashboard = d, rq_mcp = m\<rparr>)))
     | Some _ \<Rightarrow> Inl ''Invalid unprivileged port'')"

record admin_world =
  aw_env :: admin_env
  aw_host :: host
  aw_models :: model_host
  aw_free :: "int \<Rightarrow> bool"
  aw_digest :: "string \<Rightarrow> string option"
  aw_contexts :: string

definition create_input :: "admin_world \<Rightarrow> json \<Rightarrow> operation_record prog" where
  "create_input w input = (case props input of
       None \<Rightarrow> throw ''Cannot read properties of null''
     | Some p \<Rightarrow> bind (from_res (port_fields (oget p ''ports''))) (\<lambda>ports.
         createNode (aw_host w) (aw_free w) (text_of p ''node_id'') (text_of p ''confirmation'') (text_of p ''alias'') ports
           (truthy_opt (oget p ''make_default''))))"

definition quietly :: "'a prog \<Rightarrow> unit prog" where
  "quietly m = after m (ret ())"

text \<open>The part of a call that the manager of the nodes has; the rest is of the node deployment, the folders and the tokens.\<close>

fun perform :: "admin_world \<Rightarrow> admin_call \<Rightarrow> unit prog" where
  "perform w (CodexModels own n authorization) =
     (if own then ret () else quietly (codexBridgeModels (aw_host w) (aw_models w) n authorization))"
| "perform w (CodexChat own n authorization input) =
     (if own then ret () else quietly (codexChatCompletion (aw_host w) (aw_models w) n authorization input))"
| "perform w (IssueBootstrap own selector) = (case selector of None \<Rightarrow> ret () | Some n \<Rightarrow> quietly (find_node n))"
| "perform w (CreateNode input) = quietly (create_input w input)"
| "perform w (DeleteNode n confirmation purge) = quietly (deleteNode (aw_host w) n confirmation purge)"
| "perform w (RestoreApply n b confirmation) = quietly (restoreApply (aw_host w) n b confirmation)"
| "perform w (MigrationApply n target confirmation mode) = quietly (migrationApply (aw_host w) n target confirmation mode)"
| "perform w (MigrationVerify n target) = quietly (migrationVerify (aw_host w) n target)"
| "perform w (ConfigureModels n input) = (case props input of
       None \<Rightarrow> throw ''Cannot convert undefined or null to object''
     | Some p \<Rightarrow> quietly (configureModels (aw_host w) (aw_models w) n p))"
| "perform w (ReadModels n) = quietly (modelSelection (aw_host w) (aw_models w) n)"
| "perform w (SelectModels n input) = quietly (selectNodeModels (aw_host w) (aw_models w) n input)"
| "perform w (ProbeGeneration n input) = quietly (probeGeneration (aw_host w) (aw_models w) n input)"
| "perform w (ReadStatus n) = quietly (status (aw_host w) n)"
| "perform w (ReadBacklog n) = quietly (backlog (aw_host w) (aw_models w) n)"
| "perform w (ReadLogs n service tail) = quietly (logs (aw_host w) n service (str_number tail))"
| "perform w (StartNode n) = quietly (start (aw_host w) (aw_digest w) (aw_contexts w) n)"
| "perform w (StopNode n) = quietly (stop (aw_host w) n)"
| "perform w (RestartNode n) = quietly (restart (aw_host w) (aw_digest w) (aw_contexts w) n)"
| "perform w (ListBackups n) = quietly (listBackups n)"
| "perform w (CreateBackup n label) = quietly (backupCreate (aw_host w) n label)"
| "perform w (VerifyBackup n b) = quietly (backupVerify (aw_host w) n b)"
| "perform w (RestorePlan n b) = quietly (restorePlan (aw_host w) n b)"
| "perform w (MigrationPlan n target mode) = quietly (migrationPlan (aw_host w) n target mode)"
| "perform w ListNodes = quietly list_nodes"
| "perform w _ = ret ()"

text \<open>What an error of a call is answered with\<close>

definition refusal :: "admin_call \<Rightarrow> string \<Rightarrow> decision" where
  "refusal c e = (case c of CodexModels _ _ _ \<Rightarrow> codex_failure e | CodexChat _ _ _ _ \<Rightarrow> codex_failure e | _ \<Rightarrow> failed e)"

definition status_code :: "decision \<Rightarrow> nat" where
  "status_code d = (case d of Refuse st _ \<Rightarrow> st | Answer st _ \<Rightarrow> st | Do _ \<Rightarrow> 200)"

text \<open>A request of the server: the call it asks for, and the status of the answer\<close>

definition serve :: "admin_world \<Rightarrow> transport \<Rightarrow> admin_request \<Rightarrow> nat prog" where
  "serve w tr q =
     (let d = handle (aw_env w) tr q
      in case d of
           Do c \<Rightarrow> catch (after (perform w c) (ret 200)) (\<lambda>e. ret (status_code (refusal c e)))
         | _ \<Rightarrow> ret (status_code d))"

section \<open>One server at a time\<close>

text \<open>
  \<open>acquireInstanceLock\<close>: the directory of the lock, if there is one, has the content of its \<open>pid\<close> file and a time.
\<close>

type_synonym instance_lock = "(string option \<times> int) option"

definition lock_holder :: "string option \<Rightarrow> rat" where
  "lock_holder content = (case Option.bind content str_number of None \<Rightarrow> 0 | Some q \<Rightarrow> q)"

definition holder_alive :: "(int \<Rightarrow> bool) \<Rightarrow> rat \<Rightarrow> bool" where
  "holder_alive alive q = (q = of_int \<lfloor>q\<rfloor> \<and> processIsAlive alive \<lfloor>q\<rfloor>)"

definition acquireInstanceLock :: "host \<Rightarrow> int \<Rightarrow> instance_lock \<Rightarrow> unit res \<times> instance_lock" where
  "acquireInstanceLock h now lock =
     (let own = Some (Some (dec_int (h_pid h) @ [LF]), now)
      in case lock of
           None \<Rightarrow> (Inr (), own)
         | Some (content, mtime) \<Rightarrow>
             let owner = lock_holder content
             in if owner \<noteq> 0 \<and> holder_alive (h_alive h) owner
                then (Inl (''Neuromem Node Manager is already running as PID '' @ h_format h owner), lock)
                else if owner = 0 \<and> now - mtime < 30000 then (Inl ''Neuromem Node Manager is already starting'', lock)
                else (Inr (), own))"

text \<open>\<open>start\<close>, up to the sockets: the nodes are recovered before the lock is asked for.\<close>

definition start_server :: "host \<Rightarrow> int \<Rightarrow> instance_lock \<Rightarrow> mgr \<Rightarrow> unit outcome \<times> mgr \<times> instance_lock" where
  "start_server h now lock s =
     (case initialize_nodes h True s of
        (Ret _, s) \<Rightarrow> (case acquireInstanceLock h now lock of
            (Inl e, lock) \<Rightarrow> (Throw e, s, lock) | (Inr _, lock) \<Rightarrow> (Ret (), s, lock))
      | (r, s) \<Rightarrow> (r, s, lock))"

section \<open>Histories\<close>

text \<open>
  A history of the server: requests, the turns of the timer (\<open>triggerReconcile\<close>), and starts of the process, each in the
  world of its time and with the steps the process then has.
\<close>

datatype server_event = Request transport admin_request | Tick | Boot nat

definition reconcile_nodes :: "admin_world \<Rightarrow> unit prog" where
  "reconcile_nodes w = (if deploymentNodeId (aw_env w) \<noteq> None then ret ()
     else bind list_nodes (each (reconcile_desired (aw_host w) (aw_digest w) (aw_contexts w))))"

fun server_step :: "admin_world \<times> server_event \<Rightarrow> mgr \<Rightarrow> mgr" where
  "server_step (w, Request tr q) s = snd (serve w tr q s)"
| "server_step (w, Tick) s = snd (reconcile_nodes w s)"
| "server_step (w, Boot n) s = snd (initialize_nodes (aw_host w) True (s\<lparr>m_left := n\<rparr>))"

definition server_run :: "(admin_world \<times> server_event) list \<Rightarrow> mgr \<Rightarrow> mgr" where
  "server_run evs s = fold server_step evs s"

end
