(* ===== verification/AdminFrame.thy ===== *)
theory AdminFrame
  imports NodeFrame AdminRun
begin

text \<open>
  Conditions to which only the commands given matter: every call of the admin server maintains those that survive commands
  other than the removal of a volume, except the deletion of a node with its data.
\<close>

text \<open>A deletion with the data\<close>

definition purging :: "admin_call \<Rightarrow> bool" where
  "purging c = (case c of DeleteNode _ _ purge \<Rightarrow> purge | _ \<Rightarrow> False)"

section \<open>Conditions on the commands\<close>

locale commanded = storeless +
  assumes env_written: "P s \<Longrightarrow> P (s\<lparr>m_env := e\<rparr>)"
    and compose_written: "P s \<Longrightarrow> P (s\<lparr>m_compose := c\<rparr>)"
begin

lemma writes: "maintains P (write_env nid raw)" "maintains P (write_compose nid raw)" "maintains P (remove_directory nid)"
proof -
  show "maintains P (write_env nid raw)" "maintains P (write_compose nid raw)"
    unfolding write_env_def write_compose_def
    by (rule maintains_step; use env_written [OF left, simplified] compose_written [OF left, simplified] in auto)+
  show "maintains P (remove_directory nid)"
    unfolding remove_directory_def
  proof (rule maintains_step)
    fix s n assume "P s"
    from stored [OF archived [OF compose_written [OF env_written [OF left [OF this]]]]]
    show "P (snd ((\<lambda>s. (Ret (), s\<lparr>m_env := odel nid (m_env s), m_compose := odel nid (m_compose s),
        m_backups := odel nid (m_backups s),
        m_store := (m_store s)\<lparr>s_snapshots := odel nid (s_snapshots (m_store s)), s_operations := odel nid (s_operations (m_store s))\<rparr>\<rparr>))
        (s\<lparr>m_left := n\<rparr>)))"
      by simp
  qed
qed

lemma runtime: "maintains P (ensure_runtime h node)" "maintains P (prepare h digest contexts node)"
proof -
  have t: "maintains P (step (\<lambda>s. (Ret (), s\<lparr>m_compose := oset nid template (m_compose s)\<rparr>)))" for nid template
    by (rule maintains_step) (use compose_written [OF left, simplified] in auto)
  then show e: "maintains P (ensure_runtime h node)"
    unfolding ensure_runtime_def Let_def by (intro maintained writes)
  show "maintains P (prepare h digest contexts node)"
    unfolding prepare_def want_running_def by (intro maintained e files_read images ops_kept)
qed

lemmas rules = ops_kept writes runtime node_rules status_kept waited resumed volumes manifest dumped queue located
  next_generation maintenance staged backups_changed snapshot store_kept locked

lemma created: "maintains P (createNode h free nid confirmation alias ports def)"
  unfolding createNode_def Let_def by (intro maintained rules)

lemma lifecycles: "maintains P (start h digest contexts n)" "maintains P (stop h n)" "maintains P (restart h digest contexts n)"
proof -
  have l: "maintains P (lifecycle h n kind act)" if "\<And>node. maintains P (act node)" for kind act
    unfolding lifecycle_def by (intro maintained rules that)
  have s: "maintains P (settle h node b)" for node b
    unfolding settle_def by (intro maintained rules)
  show "maintains P (start h digest contexts n)" "maintains P (stop h n)" "maintains P (restart h digest contexts n)"
    unfolding start_def stop_def restart_def by (intro l maintained rules s)+
qed

lemma backed_up: "maintains P (backupCreate h n label)" "maintains P (backupVerify h n b)" "maintains P (listBackups n)"
  unfolding backupCreate_def backupVerify_def listBackups_def Let_def by (intro maintained rules)+

lemma planned: "maintains P (restorePlan h n b)" "maintains P (migrationPlan h n target mode)"
  unfolding restorePlan_def migrationPlan_def Let_def by (intro maintained rules)+

lemma cut_over: "maintains P (cutover h node volume g schema)"
  unfolding cutover_def cutover_forward_def cutover_rollback_def Let_def by (intro maintained rules)

lemma tracked_kept: "maintains P m \<Longrightarrow> maintains P (tracked h node operation m)"
  unfolding tracked_def by (intro maintained rules)

lemma switched: "maintains P (switch_generation h node operation l mode target result)"
  unfolding switch_generation_def journalCutover_def Let_def by (intro maintained tracked_kept rules cut_over)

lemma applied: "maintains P (restoreApply h n b confirmation)" "maintains P (migrationApply h n target confirmation mode)"
proof -
  have r: "maintains P (restore_latest h node located operation latest)" for node located operation latest
    unfolding restore_latest_def Let_def by (intro maintained tracked_kept rules switched)
  have t: "maintains P (transactional_migration h latest operation target m)" "maintains P (staged_migration h latest operation target m)"
    for latest operation target m
    unfolding transactional_migration_def staged_migration_def by (intro maintained tracked_kept rules switched)+
  have m: "maintains P (migration_latest h node target mode operation latest)" for node target mode operation latest
    unfolding migration_latest_def by (intro maintained tracked_kept rules t)
  show "maintains P (restoreApply h n b confirmation)"
    unfolding restoreApply_def restore_steps_def Let_def by (intro maintained tracked_kept rules planned r)
  show "maintains P (migrationApply h n target confirmation mode)"
    unfolding migrationApply_def migration_steps_def Let_def by (intro maintained tracked_kept rules m)
qed

lemma verified: "maintains P (migrationVerify h n target)"
  unfolding migrationVerify_def by (intro maintained rules)

lemma reconfigured: "maintains P (configureModels h mh n configuration)" "maintains P (selectNodeModels h mh n input)"
proof -
  have l: "maintains P (configureModelsLocked h mh node k updates checks)" for node k updates checks
    unfolding configureModelsLocked_def change_models_def undo_models_def change_files_def put_files_back_def compose_file_def Let_def
    by (intro maintained rules checked_empty choices_probed cycled)
  show "maintains P (configureModels h mh n configuration)"
    unfolding configureModels_def by (intro maintained rules l)
  show "maintains P (selectNodeModels h mh n input)"
    unfolding selectNodeModels_def Let_def by (intro maintained rules l discovered selected)
qed

lemma read_calls: "maintains P (modelSelection h mh n)" "maintains P (probeGeneration h mh n input)" "maintains P (logs h n service tail)"
    "maintains P (backlog h mh n)" "maintains P (codexBridgeModels h mh n authorization)"
    "maintains P (codexChatCompletion h mh n authorization input)" "maintains P list_nodes"
  unfolding modelSelection_def probeGeneration_def logs_def compose_logs_def backlog_def codexBridgeModels_def
    codexChatCompletion_def bridge_access_def codex_active_def codex_status_def list_nodes_def Let_def
  by (intro maintained rules discovered probed requested fetch_answers generated)+

lemma deleted:
  assumes "\<And>node. purge \<Longrightarrow> confirmation = n_node_id node \<Longrightarrow> maintains P (purge_volumes h node)"
  shows "maintains P (deleteNode h n confirmation purge)"
proof -
  have g: "maintains P (after (guard (confirmation = n_node_id node) e) m)"
    if "confirmation = n_node_id node \<Longrightarrow> maintains P m" for node e and m :: "operation_record prog"
    using that by (cases "confirmation = n_node_id node") (simp_all add: guard_def after_def bind_def throw_def ret_def maintains_def)
  show ?thesis
  proof (cases purge)
    case True
    then show ?thesis
      unfolding deleteNode_def Let_def
      by (intro maintains_bind [OF files_read(3)] g) (intro maintained rules assms; assumption)
  next
    case False
    then show ?thesis
      unfolding deleteNode_def Let_def when_do_def by (simp only: if_False) (intro maintained rules)
  qed
qed

lemma reconciled: "maintains P (reconcile_nodes w)"
  unfolding reconcile_nodes_def reconcile_desired_def by (intro maintained rules lifecycles read_calls)

lemma started_up: "maintains P (initialize_nodes h b)"
proof -
  have m: "maintains P (reconcile_models h node)" for node
    unfolding reconcile_models_def recover_models_def recovered_op_def Let_def by (intro maintained rules)
  have c: "maintains P (reconcile_cutover h node)" for node
    unfolding reconcile_cutover_def move_back_def finish_recovery_def Let_def by (intro maintained rules)
  show ?thesis
    unfolding initialize_nodes_def reconcileInterruptedModelConfigurations_def reconcileInterruptedCutovers_def
    by (intro maintained rules read_calls m c)
qed

text \<open>Every call but the one that purges\<close>

lemma called:
  assumes "\<not> purging c"
  shows "maintains P (perform w c)"
proof -
  have "maintains P (quietly m)" if "maintains P m" for m :: "'a prog"
    unfolding quietly_def by (intro maintained that)
  note q = this
  have c: "maintains P (create_input w input)" for input
    unfolding create_input_def by (intro maintained created)
  show ?thesis
    using assms
    by (cases c) (auto simp: purging_def intro!: maintained q c deleted created applied verified reconfigured read_calls lifecycles backed_up
      planned status_kept files_read)
qed

end

end
