(* ===== verification/AdminProps.thy ===== *)
theory AdminProps
  imports AdminFrame NodeModelProps
begin

text \<open>What may be asked over which transport, and what a history of the server can do to the data of the nodes.\<close>

section \<open>Decisions that are calls\<close>

named_theorems calls

lemma failed_Do [calls]: "failed why \<noteq> Do c" "codex_failure why \<noteq> Do c" "NOT_FOUND \<noteq> Do c"
  by (simp_all add: failed_def codex_failure_def NOT_FOUND_def Let_def)

lemma decoded_Do [calls]: "decoded e t f = Do c \<longleftrightarrow> (\<exists>u. ad_decode e t = Some u \<and> f u = Do c)"
  by (simp add: decoded_def calls split: option.splits)

lemma with_body_Do [calls]: "with_body e q f = Do c \<longleftrightarrow> (\<exists>j. read_body e q = Inr j \<and> f j = Do c)"
  by (simp add: with_body_def calls split: sum.splits)

lemma with_fields_Do [calls]: "with_fields e q f = Do c \<longleftrightarrow> (\<exists>j p. read_body e q = Inr j \<and> props j = Some p \<and> f p = Do c)"
  by (auto simp: with_fields_def calls split: option.splits)

lemma text_Do [calls]:
  "need_text why v f = Do c \<longleftrightarrow> (\<exists>t. Option.bind v as_string = Some t \<and> t \<noteq> [] \<and> f t = Do c)"
  "text_or fallback v f = Do c \<longleftrightarrow> (if truthy_opt v then \<exists>t. Option.bind v as_string = Some t \<and> f t = Do c else f fallback = Do c)"
  by (auto simp: need_text_def text_or_def calls split: option.splits if_splits)

lemma at_route_Do [calls]: "at_route e before q ok f = Do c \<longleftrightarrow> (\<exists>n. ad_decode e (route_group before q) = Some n \<and> ok \<and> f n = Do c)"
  by (auto simp: at_route_def calls split: if_splits)

lemma cli_only_Do [calls]: "cli_only e tr why d = Do c \<longleftrightarrow> tr = Unix \<and> \<not> ad_deployment e \<and> d = Do c"
  by (auto simp: cli_only_def calls)

text \<open>The calls for the command line only\<close>

definition cli_call :: "admin_call \<Rightarrow> bool" where
  "cli_call c = (case c of CreateNode _ \<Rightarrow> True | DeleteNode _ _ _ \<Rightarrow> True | RestoreApply _ _ _ \<Rightarrow> True
     | MigrationApply _ _ _ _ \<Rightarrow> True | MigrationVerify _ _ \<Rightarrow> True | ConfigureModels _ _ \<Rightarrow> True
     | IssueBootstrap _ _ \<Rightarrow> True | _ \<Rightarrow> False)"

text \<open>The calls before the guard\<close>

definition open_call :: "admin_call \<Rightarrow> bool" where
  "open_call c = (case c of CodexModels _ _ _ \<Rightarrow> True | CodexChat _ _ _ _ \<Rightarrow> True | PickFolder _ \<Rightarrow> True | DetachFolder _ _ \<Rightarrow> True
     | ExchangeBootstrap _ \<Rightarrow> True | ServeAdmin _ \<Rightarrow> True | _ \<Rightarrow> False)"

lemma codex_route_call: "codex_route e q = Do c \<Longrightarrow> \<exists>own n j. c = CodexModels own n (bearer_header q) \<or> c = CodexChat own n (bearer_header q) j"
  by (auto simp: codex_route_def calls Let_def split: if_splits sum.splits)

lemma folder_route_call: "folder_route e tr action q = Do c \<Longrightarrow> \<exists>context i. c = PickFolder context \<or> c = DetachFolder context i"
  by (auto simp: folder_route_def handleInternalFolderSource_def folder_context_of_def calls
      split: if_splits option.splits sum.splits)

lemma session_route_call: "session_route e q = Do c \<Longrightarrow> \<exists>t. c = ExchangeBootstrap t"
  by (auto simp: session_route_def calls split: if_splits)

lemma open_route_call: "open_route e tr q = Some (Do c) \<Longrightarrow> open_call c"
  by (auto simp: open_route_def calls open_call_def dest!: codex_route_call folder_route_call session_route_call split: if_splits)

lemma nodes_route_call: "nodes_route e q = Do c \<Longrightarrow> \<not> cli_call c \<and> \<not> open_call c"
  by (auto simp: nodes_route_def list_route_def models_route_def probe_route_def node_route_def own_route_def managed_route_def
      verify_route_def plan_route_def calls cli_call_def open_call_def Let_def split: if_splits option.splits)

lemma cli_route_call: "cli_route e tr q = Some (Do c) \<Longrightarrow> cli_call c \<and> tr = Unix \<and> \<not> ad_deployment e"
  by (auto simp: cli_route_def delete_route_def apply_route_def calls cli_call_def split: if_splits option.splits)

lemma bootstrap_route_call: "bootstrap_route e tr q = Do c \<Longrightarrow> (\<exists>own n. c = IssueBootstrap own n) \<and> tr = Unix"
  by (auto simp: bootstrap_route_def calls split: if_splits option.splits)

lemma delete_call:
  assumes "handle e tr q = Do (DeleteNode n confirmation purge)"
  shows "tr = Unix \<and> \<not> ad_deployment e \<and> aq_method q = ''DELETE''"
proof -
  have o: "\<not> open_call (DeleteNode n confirmation purge)" and c: "cli_call (DeleteNode n confirmation purge)"
    by (simp_all add: open_call_def cli_call_def)
  have r: "cli_route e tr q = Some (Do (DeleteNode n confirmation purge))"
    using assms o c unfolding handle_def guarded_route_def tcp_guard_def
    by (auto dest!: open_route_call nodes_route_call bootstrap_route_call split: option.splits if_splits)
  then have "aq_method q = ''DELETE''"
    by (auto simp: cli_route_def apply_route_def calls split: if_splits option.splits)
  with cli_route_call [OF r] show ?thesis by simp
qed

text \<open>
  Creating, deleting, restoring, migrating and configuring a node, and a new admin token, can be asked for only over
  the Unix socket.
\<close>

theorem cli_calls_need_socket:
  assumes "handle e tr q = Do c" and "cli_call c"
  shows "tr = Unix \<and> (ad_deployment e \<longrightarrow> (\<exists>own n. c = IssueBootstrap own n))"
proof -
  have "\<not> open_call c" using assms(2) by (auto simp: open_call_def cli_call_def split: admin_call.splits)
  then show ?thesis
    using assms unfolding handle_def guarded_route_def tcp_guard_def
    by (auto dest!: open_route_call nodes_route_call bootstrap_route_call cli_route_call split: option.splits if_splits)
qed

section \<open>Volumes\<close>

text \<open>Only volumes in \<open>allowed\<close> have been removed.\<close>

definition removed_only :: "(string \<Rightarrow> bool) \<Rightarrow> mgr \<Rightarrow> bool" where
  "removed_only allowed s \<longleftrightarrow> (\<forall>a \<in> set (m_log s). removes_volume a \<longrightarrow> (\<exists>v. a = Docker [''volume'', ''rm'', v] \<and> allowed v))"

interpretation removed: commanded "removed_only allowed" for allowed
  by unfold_locales (auto simp: removed_only_def)

lemma volume_removed: "(is_ok (validateVolume v) \<Longrightarrow> allowed v) \<Longrightarrow> maintains (removed_only allowed) (remove_volume h v)"
proof -
  assume a: "is_ok (validateVolume v) \<Longrightarrow> allowed v"
  have "maintains (removed_only allowed) (docker_cmd h False [''volume'', ''rm'', v])" if "allowed v"
    unfolding docker_cmd_def perform_act_def Let_def by (rule maintains_step) (use that in \<open>auto simp: removed_only_def\<close>)
  then show ?thesis
    using a unfolding remove_volume_def
    by (cases "validateVolume v") (auto simp: from_res_def after_def bind_def throw_def ret_def maintains_def split: outcome.splits prod.splits)
qed

text \<open>A volume of the node: a valid name that contains its key\<close>

definition volume_of :: "string \<Rightarrow> string \<Rightarrow> bool" where
  "volume_of nid v \<longleftrightarrow> is_ok (validateVolume v) \<and> str_includes (runtimeKey nid) v"

lemma includes_start: "starts_with p v \<Longrightarrow> str_includes p v"
  by (cases v) (auto simp: starts_with_iff)

lemma includes_later: "str_includes p v \<Longrightarrow> str_includes p (u @ v)"
proof (induction u)
  case (Cons c u)
  then show ?case by (cases "starts_with p (c # u @ v)") simp_all
qed simp

lemma prefix_includes: "starts_with (u @ p @ w) v \<Longrightarrow> str_includes p v"
  using includes_later [OF includes_start] by (force simp: starts_with_iff)

lemma node_volumes_listed:
  "triple (removed_only allowed) (list_node_volumes h nid) (\<lambda>vs s. removed_only allowed s \<and> (\<forall>v \<in> set vs. volume_of nid v))
     (removed_only allowed) (removed_only allowed)"
proof -
  have v: "starts_with (''neuromem-'' @ runtimeKey nid @ ''-'') v \<Longrightarrow> is_ok (validateVolume v) \<Longrightarrow> volume_of nid v" for v
    using prefix_includes [of "''neuromem-''"] by (simp add: volume_of_def)
  have "triple (removed_only allowed) (if \<not> cr_ok r then throw e
      else ret (filter (\<lambda>v. starts_with (''neuromem-'' @ runtimeKey nid @ ''-'') v \<and> is_ok (validateVolume v)) (split_lines (cr_stdout r))))
      (\<lambda>vs s. removed_only allowed s \<and> (\<forall>v \<in> set vs. volume_of nid v)) (removed_only allowed) (removed_only allowed)" for r e
    by (simp add: triple_def throw_def ret_def) (use v in auto)
  note t = this
  show ?thesis
    unfolding list_node_volumes_def Let_def by (rule triple_first [OF removed.docker t]) simp_all
qed

lemma purged:
  assumes "\<And>v. volume_of (n_node_id node) v \<Longrightarrow> allowed v"
  shows "maintains (removed_only allowed) (purge_volumes h node)"
proof -
  let ?P = "removed_only allowed" and ?nid = "n_node_id node"
  have e: "maintains ?P (each (remove_volume h) vs)" if "\<forall>v \<in> set vs. str_includes (runtimeKey ?nid) v" for vs
    using that
  proof (induction vs)
    case (Cons v vs)
    then show ?case by (auto intro!: maintained volume_removed assms simp: volume_of_def)
  qed (simp add: maintained)
  have r: "triple ?P (bind (list_node_volumes h ?nid) (\<lambda>discovered. each (remove_volume h) (uniq ([v, m] @ discovered)))) (\<lambda>_. ?P) ?P ?P"
    if "str_includes (runtimeKey ?nid) v" "str_includes (runtimeKey ?nid) m" for v m
  proof (rule triple_bind [OF node_volumes_listed], rule triple_pure, rule triple_maintains, rule e)
    fix vs assume "\<forall>v \<in> set vs. volume_of ?nid v"
    then show "\<forall>w \<in> set (uniq ([v, m] @ vs)). str_includes (runtimeKey ?nid) w" using that by (auto simp: volume_of_def)
  qed
  have "triple ?P (purge_volumes h node) (\<lambda>_. ?P) ?P ?P"
    unfolding purge_volumes_def Let_def
    by (rule triple_first [OF removed.files_read(1)], rule triple_guarded, rule triple_guarded, rule r) simp_all
  then show ?thesis by (rule maintains_triple)
qed

section \<open>Histories\<close>

lemma served:
  assumes "\<And>n nid v. handle (aw_env w) tr q = Do (DeleteNode n nid True) \<Longrightarrow> volume_of nid v \<Longrightarrow> allowed v"
  shows "maintains (removed_only allowed) (serve w tr q)"
proof -
  have p: "maintains (removed_only allowed) (perform w c)" if c: "handle (aw_env w) tr q = Do c" for c
  proof (cases "purging c")
    case True
    then obtain n nid where d: "c = DeleteNode n nid True" by (auto simp: purging_def split: admin_call.splits)
    have "maintains (removed_only allowed) (deleteNode (aw_host w) n nid True)"
      by (rule removed.deleted) (rule purged, use assms c d in auto)
    then show ?thesis by (simp add: d quietly_def maintained)
  qed (rule removed.called)
  show ?thesis
    unfolding serve_def Let_def using p by (auto intro!: maintained split: decision.split)
qed

lemma server_removed:
  assumes "removed_only allowed s"
    and "\<And>w tr q n nid v. (w, Request tr q) \<in> set evs \<Longrightarrow> handle (aw_env w) tr q = Do (DeleteNode n nid True) \<Longrightarrow>
      volume_of nid v \<Longrightarrow> allowed v"
  shows "removed_only allowed (server_run evs s)"
  using assms
proof (induction evs arbitrary: s)
  case (Cons ev evs)
  obtain w e where ev: "ev = (w, e)" by (cases ev)
  have m: "maintains (removed_only allowed) m \<Longrightarrow> removed_only allowed t \<Longrightarrow> removed_only allowed (snd (m t))" for m :: "'a prog" and t
    by (simp add: maintains_def)
  have "removed_only allowed (server_step ev s)"
  proof (cases e)
    case (Request tr q)
    have "maintains (removed_only allowed) (serve w tr q)"
      by (rule served, rule Cons.prems(2) [of w tr q]) (simp_all add: ev Request)
    then show ?thesis using Cons.prems(1) by (simp add: ev Request maintains_def)
  next
    case Tick
    show ?thesis using removed.reconciled [of allowed w] Cons.prems(1) by (simp add: ev Tick maintains_def)
  next
    case (Boot n)
    show ?thesis
      using removed.started_up [of allowed "aw_host w" True] removed.left [OF Cons.prems(1)] by (simp add: ev Boot maintains_def)
  qed
  moreover have "server_run (ev # evs) s = server_run evs (server_step ev s)" by (simp add: server_run_def)
  ultimately show ?case using Cons.IH [of "server_step ev s"] Cons.prems(2) by simp blast
qed (simp add: server_run_def)



definition purge_env :: string where
  "purge_env = join_lines [''DB_VOLUME_NAME='' @ volumeName KEY 1, ''MCP_STATE_VOLUME_NAME=neuromem-'' @ runtimeKey KEY @ ''-mcp'']"

definition purge_state :: "nat \<Rightarrow> mgr" where
  "purge_state n = (world 1 [] n)\<lparr>m_env := [(KEY, purge_env)]\<rparr>"

definition purge_request :: admin_request where
  "purge_request = \<lparr>aq_method = ''DELETE'', aq_path = ''/v1/cli/nodes/personal'', aq_query = [], aq_origin = None, aq_cookies = [],
     aq_authorization = NoHeader, aq_body = [''{}'']\<rparr>"

definition purge_server :: admin_world where
  "purge_server = \<lparr>aw_env = \<lparr>ad_port = 14174, ad_deployment = False, ad_node_file = None, ad_secret = [],
       ad_auth = \<lparr>ae_hmac = \<lambda>_ t. t, ae_parse = \<lambda>_. None, ae_fmt = \<lambda>_. []\<rparr>, ad_now = 0, ad_hmac = \<lambda>_ t. t,
       ad_parse = \<lambda>_. Inr (JObj [(''confirmation'', JStr KEY), (''purge_data'', JBool True)]), ad_decode = Some\<rparr>,
     aw_host = dead_host\<lparr>h_run := \<lambda>_ _. \<lparr>cr_ok = True, cr_stdout = [], cr_stderr = []\<rparr>\<rparr>,
     aw_models = silent_models, aw_free = \<lambda>_. True, aw_digest = \<lambda>_. None, aw_contexts = []\<rparr>"

lemma purge_handled: "handle (aw_env purge_server) Unix purge_request = Do (DeleteNode ''personal'' KEY True)"
  by (simp add: handle_def open_route_def purge_request_def purge_server_def guarded_route_def cli_route_def delete_route_def
      segments_def matches_route_def route_group_def bad_group_def codex_method_def CODEX_def INTERNAL_NODES_def CLI_def at_route_def
      cli_only_def decoded_def with_fields_def with_body_def read_body_def text_of_def str_field_def units_def
      origin_of_def allowOrigin_def truthy_opt_def)

lemma purge_names: "runtimeKey KEY = ''0198c5a0000070008000000000000001''" "eget (readNodeEnv purge_env) ''DB_VOLUME_NAME'' = volumeName KEY 1"
  unfolding KEY_def by code_simp+

lemma purge_volume: "volumeName KEY 1 = ''neuromem-'' @ runtimeKey KEY @ ''-pg-g1''" "validateVolume (volumeName KEY 1) = Inr ()"
    "str_includes (runtimeKey KEY) (volumeName KEY 1)"
  unfolding KEY_def by code_simp+

lemma purge_mcp: "eget (readNodeEnv purge_env) ''MCP_STATE_VOLUME_NAME'' = ''neuromem-'' @ runtimeKey KEY @ ''-mcp''"
   "str_includes (runtimeKey KEY) (''neuromem-'' @ runtimeKey KEY @ ''-mcp'')"
   "validateVolume (''neuromem-'' @ runtimeKey KEY @ ''-mcp'') = Inr ()"
  unfolding KEY_def by code_simp+

lemma purge_found: "findNode (m_store (purge_state n)) ''personal'' = Inr (world_node 1)"
  using world_found [of "''personal''" 1 n] by (simp add: purge_state_def)

lemma step_lives: "m_left s = Suc n \<Longrightarrow> step f s = f (s\<lparr>m_left := n\<rparr>)"
  by (simp add: step_def)

lemma step_dies: "m_left s = 0 \<Longrightarrow> step f s = (Dead, s)"
  by (simp add: step_def)

lemmas run_defs = bind_def ask_def ret_def throw_def after_def catch_def finally_do_def from_res_def guard_def when_do_def step_lives step_dies

lemma purge_commands:
  assumes "m_left s = Suc (Suc 0)" and "oget (m_env s) nid = Some raw" and "n_node_id node = nid"
    and "eget (readNodeEnv raw) ''DB_VOLUME_NAME'' = v" and "eget (readNodeEnv raw) ''MCP_STATE_VOLUME_NAME'' = m"
    and "str_includes (runtimeKey nid) v" "str_includes (runtimeKey nid) m" "v \<noteq> []" "m \<noteq> []" "v \<noteq> m"
    and "validateVolume v = Inr ()" "validateVolume m = Inr ()"
    and "\<And>l a. h_run h l a = \<lparr>cr_ok = True, cr_stdout = [], cr_stderr = []\<rparr>"
  shows "purge_volumes h node s = (Dead, s\<lparr>m_left := 0, m_log := m_log s @ [Docker [''volume'', ''ls'', ''--format'', ''{{.Name}}'',
      ''--filter'', ''name='' @ (''neuromem-'' @ runtimeKey nid @ ''-'')], Docker [''volume'', ''rm'', v]]\<rparr>)"
proof -
  have l: "split_lines [] = [[]]" by code_simp
  show ?thesis
    using assms
    by (simp add: purge_volumes_def Let_def node_env_def list_node_volumes_def docker_cmd_def perform_act_def remove_volume_def
        run_defs l)
qed

lemma purge_run:
  "Docker [''volume'', ''rm'', volumeName KEY 1] \<in> set (m_log (server_run [(purge_server, Request Unix purge_request)] (purge_state 5)))"
proof -
  let ?h = "aw_host purge_server" and ?node = "world_node 1"
  have n: "n_node_id ?node = KEY" by (simp add: world_node_def)
  have h: "h_run ?h l a = \<lparr>cr_ok = True, cr_stdout = [], cr_stderr = []\<rparr>" "h_alive ?h p = False" for l a p
    by (simp_all add: purge_server_def dead_host_def)
  have s: "m_left (purge_state 5) = Suc (Suc (Suc (Suc (Suc 0))))" "oget (m_env (purge_state 5)) KEY = Some purge_env"
      "s_owners (m_store (purge_state 5)) = []" by (simp_all add: purge_state_def world_def)
  note p = purge_commands [OF _ _ n purge_names(2) purge_mcp(1) purge_volume(3) purge_mcp(2) _ _ _ purge_volume(2) purge_mcp(3) h(1)]
  have v: "volumeName KEY 1 \<noteq> []" "volumeName KEY 1 \<noteq> ''neuromem-'' @ runtimeKey KEY @ ''-mcp''" by (simp_all add: purge_volume(1))
  show ?thesis
    by (simp add: server_run_def serve_def purge_handled Let_def quietly_def deleteNode_def find_node_def purge_found n with_lock_def
        begin_op_def store_op_def beginOperation_def writeOperation_def compose_down_def compose_cmd_def perform_act_def owner_alive_def
        run_defs s h p v del: append.simps)
qed


theorem cli_calls_need_socket_witness: "Unix = Unix \<and> \<not> ad_deployment (aw_env purge_server)"
  using cli_calls_need_socket [OF purge_handled] by (auto simp: cli_call_def)

section \<open>The loopback port\<close>

text \<open>A Codex call changes nothing of the manager, and reaches Codex only with the token of a node.\<close>

definition node_token :: "mgr \<Rightarrow> string \<Rightarrow> bool" where
  "node_token s t \<longleftrightarrow> t \<noteq> [] \<and> (\<exists>selector node raw. findNode (m_store s) selector = Inr node \<and>
     oget (m_env s) (n_node_id node) = Some raw \<and> t = eget (readNodeEnv raw) ''API_TOKEN'')"

definition at_most_codex :: "string option \<Rightarrow> mgr \<Rightarrow> mgr \<Rightarrow> bool" where
  "at_most_codex authorization s s' \<longleftrightarrow> s' = s\<lparr>m_left := m_left s', m_log := m_log s'\<rparr> \<and>
     (m_log s' = m_log s \<or> (\<exists>model prompt a. m_log s' = m_log s @ [Codex model prompt] \<and> authorization = Some a \<and>
        node_token s (bridge_bearer a)))"

lemma access_granted:
  assumes "bridge_access selector authorization s = (Ret x, s')"
  shows "s' = s" "\<exists>a. authorization = Some a \<and> node_token s (bridge_bearer a)"
proof -
  have none: "bridge_bearer [] = []" by (simp add: bridge_bearer_def to_lower_def)
  show "s' = s" "\<exists>a. authorization = Some a \<and> node_token s (bridge_bearer a)"
    using assms
    by (auto simp: bridge_access_def find_node_def node_env_def node_token_def bind_def ask_def from_res_def guard_def after_def ret_def
        throw_def Let_def none split: sum.splits option.splits if_splits outcome.splits prod.splits; metis)+
qed

lemma bridge_unchanged: "bridge_access selector authorization s = (r, s') \<Longrightarrow> s' = s"
  by (auto simp: bridge_access_def find_node_def node_env_def bind_def ask_def from_res_def guard_def after_def ret_def
      throw_def Let_def split: sum.splits option.splits if_splits outcome.splits prod.splits)

lemma completed:
  assumes "codexChatCompletion h mh n authorization input s = (r, s')"
  shows "at_most_codex authorization s s'"
proof (cases "bridge_access n authorization s")
  case (Pair r1 s1)
  then show ?thesis
  proof (cases r1)
    case (Ret x)
    from Pair Ret have a: "s1 = s" "\<exists>a. authorization = Some a \<and> node_token s (bridge_bearer a)"
      using access_granted by auto
    show ?thesis
      using assms a
      by (auto simp: codexChatCompletion_def bind_def Pair Ret after_def guard_def throw_def ret_def codex_active_def from_res_def
          codex_generate_def step_def Let_def at_most_codex_def split: prod.splits sum.splits nat.splits if_splits)
  qed (use assms bridge_unchanged [OF Pair] in \<open>auto simp: codexChatCompletion_def bind_def Pair at_most_codex_def\<close>)
qed

lemma models_listed:
  assumes "codexBridgeModels h mh n authorization s = (r, s')"
  shows "at_most_codex authorization s s'"
proof (cases "bridge_access n authorization s")
  case (Pair r1 s1)
  show ?thesis
    using assms bridge_unchanged [OF Pair]
    by (cases r1) (auto simp: codexBridgeModels_def bind_def Pair after_def guard_def throw_def ret_def codex_active_def ask_def
          codex_status_def Let_def at_most_codex_def split: prod.splits if_splits)
qed

lemma open_performed:
  assumes "open_route e tr q = Some (Do c)" and "perform w c s = (r, s')"
  shows "at_most_codex (bearer_header q) s s'"
proof -
  have u: "at_most_codex a s s" for a by (simp add: at_most_codex_def)
  have m: "quietly m s = (r, s') \<Longrightarrow> \<exists>r. m s = (r, s')" for m :: "'a prog"
    by (auto simp: quietly_def after_def bind_def ret_def split: outcome.splits prod.splits)
  show ?thesis
    using assms u completed models_listed
    by (auto simp: open_route_def calls ret_def dest!: codex_route_call folder_route_call session_route_call m split: if_splits)
qed



section \<open>A second server\<close>

definition plan_op :: operation_record where
  "plan_op = \<lparr>op_operation_id = ''o1'', op_node_id = KEY, op_kind = OpRestorePlan, op_state = OsRunning, op_phase = ''inspecting'',
     op_started_at = ''t1'', op_updated_at = ''t1'', op_completed_at = None, op_error = None, op_result = None\<rparr>"

definition living_host :: host where
  "living_host = dead_host\<lparr>h_alive := \<lambda>_. True\<rparr>"

definition stopped_plan :: operation_record where
  "stopped_plan = patched ''t9'' (interrupted_patch ''t9'') plan_op"

lemma world_registry: "read_registry (m_store (world g ops n)) = Inr \<lparr>reg_format = 1, reg_default_node_id = Some KEY, reg_nodes = [world_node g]\<rparr>"
proof -
  have "registry_ok (stored_registry (m_store (world g ops n)))" using world_sane [of "[]" g n] by (simp add: sane_def world_def stored_registry_def)
  then show ?thesis by (simp add: read_registry_Inr) (simp add: world_def stored_registry_def)
qed

lemma plan_recovered: "recoverInterruptedOperations alive ''t9'' (m_store (world 1 [plan_op] n)) = (Inr 1, m_store (world 1 [stopped_plan] n))"
proof -
  have "recover_nodes alive ''t9'' [world_node 1] (0, m_store (world 1 [plan_op] n)) = (1, m_store (world 1 [stopped_plan] n))"
    by (simp add: world_def world_node_def owner_alive_def op_entries_def ends_with_def op_file_def updateOperation_def writeOperation_def
        plan_op_def stopped_plan_def patched_def interrupted_patch_def Let_def)
  moreover have "initialize_store (m_store (world 1 [plan_op] n)) = m_store (world 1 [plan_op] n)"
    by (simp add: initialize_store_def world_def)
  ultimately show ?thesis by (simp add: recoverInterruptedOperations_def world_registry Let_def)
qed

lemma plan_operations: "operations_of (m_store (world 1 [stopped_plan] n)) KEY = [stopped_plan]"
  by (simp add: operations_of_def world_def op_entries_def ends_with_def op_file_def List.map_filter_simps stopped_plan_def patched_def
      interrupted_patch_def plan_op_def)


end
