(* ===== verification/FolderSources.thy ===== *)
theory FolderSources
  imports NodeBackup
begin

text \<open>
  The folders connected to the projects of the local node, \<open>apps/manager/src/folder-sources.ts\<close>: what may be picked, and the
  file that says which project has which folder.  A path is the list of its segments.  The macOS picker, the file system and
  \<open>JSON.parse\<close> are arguments; the text of the file is kept as its value.
\<close>

section \<open>Contexts and stored sources\<close>

datatype folder_error = UnsupportedPlatform | PickerBusy | PickerFailed | InvalidSelection | BlockedSelection
  | SourceConflict | SourceNotFound | InvalidStore

definition error_status :: "folder_error \<Rightarrow> nat" where
  "error_status e = (case e of UnsupportedPlatform \<Rightarrow> 501 | PickerBusy \<Rightarrow> 409 | PickerFailed \<Rightarrow> 503 | InvalidSelection \<Rightarrow> 400
     | BlockedSelection \<Rightarrow> 400 | SourceConflict \<Rightarrow> 409 | SourceNotFound \<Rightarrow> 404 | InvalidStore \<Rightarrow> 503)"

record project_context =
  pc_principal_id :: string
  pc_workspace_id :: string
  pc_project_id :: string

record folder_source =
  fo_context :: project_context
  fo_source_id :: string
  fo_path :: string
  fo_display_name :: string
  fo_created_at :: string
  fo_updated_at :: string

definition control_char :: "char \<Rightarrow> bool" where
  "control_char c = (c = CHR 0x00 \<or> c = CHR 0x0D \<or> c = CHR 0x0A)"

definition plain_text :: "nat \<Rightarrow> string \<Rightarrow> bool" where
  "plain_text maximum s = (s \<noteq> [] \<and> js_length s \<le> maximum \<and> \<not> list_ex control_char s)"

definition context_ok :: "project_context \<Rightarrow> bool" where
  "context_ok c = list_all (plain_text 256) [pc_principal_id c, pc_workspace_id c, pc_project_id c]"

definition validateContext :: "project_context \<Rightarrow> folder_error + unit" where
  "validateContext c = require (context_ok c) InvalidSelection"

text \<open>\<open>/^[0-9a-f]{8}-[0-9a-f-]{27}$/i\<close>\<close>

definition source_id_ok :: "string \<Rightarrow> bool" where
  "source_id_ok = matches (replicate 8 is_hex @ [\<lambda>c. c = CHR ''-''] @ replicate 27 (\<lambda>c. is_hex c \<or> c = CHR ''-''))"

definition contextKey :: "project_context \<Rightarrow> string" where
  "contextKey c = pc_principal_id c @ [CHR 0x00] @ pc_workspace_id c @ [CHR 0x00] @ pc_project_id c"

definition source_ok :: "folder_source \<Rightarrow> bool" where
  "source_ok s = (list_all (plain_text 4096) [fo_source_id s, pc_principal_id (fo_context s), pc_workspace_id (fo_context s),
       pc_project_id (fo_context s), fo_path s, fo_display_name s, fo_created_at s, fo_updated_at s] \<and>
     starts_with ''/'' (fo_path s) \<and> source_id_ok (fo_source_id s) \<and>
     list_all (\<lambda>t. js_length t \<le> 256) [pc_principal_id (fo_context s), pc_workspace_id (fo_context s), pc_project_id (fo_context s)])"

text \<open>A field that is no text is refused like an empty one; further fields are not kept.\<close>

definition field_text :: "fields \<Rightarrow> string \<Rightarrow> string" where
  "field_text o1 k = (case str_field o1 k of None \<Rightarrow> [] | Some t \<Rightarrow> t)"

definition validateStoredSource :: "json \<Rightarrow> folder_error + folder_source" where
  "validateStoredSource v =
     (case as_object v of
        None \<Rightarrow> Inl InvalidStore
      | Some o1 \<Rightarrow>
          let s = \<lparr>fo_context = \<lparr>pc_principal_id = field_text o1 ''principal_id'', pc_workspace_id = field_text o1 ''workspace_id'',
                   pc_project_id = field_text o1 ''project_id''\<rparr>,
                 fo_source_id = field_text o1 ''source_id'', fo_path = field_text o1 ''path'',
                 fo_display_name = field_text o1 ''display_name'', fo_created_at = field_text o1 ''created_at'',
                 fo_updated_at = field_text o1 ''updated_at''\<rparr>
          in if source_ok s then Inr s else Inl InvalidStore)"

section \<open>The file\<close>

text \<open>No file, one that cannot be read as JSON or is no regular file, or its value; \<open>text_size\<close> is the length of its text.\<close>

type_synonym folder_file = "unit + json option"

definition file_sources :: "fields \<Rightarrow> folder_error + folder_source list" where
  "file_sources o1 =
     (case arr_field o1 ''sources'' of
        None \<Rightarrow> Inl InvalidStore
      | Some items \<Rightarrow>
          if oget o1 ''version'' \<noteq> Some (JNum 1) \<or> 10000 < length items then Inl InvalidStore
          else rbind (rmap_list validateStoredSource items) (\<lambda>sources.
            if distinct (map (contextKey \<circ> fo_context) sources) \<and> distinct (map fo_path sources) then Inr sources
            else Inl InvalidStore))"

definition load_sources :: "(json \<Rightarrow> nat) \<Rightarrow> folder_file \<Rightarrow> folder_error + folder_source list" where
  "load_sources text_size f =
     (case f of
        Inl _ \<Rightarrow> Inl InvalidStore
      | Inr None \<Rightarrow> Inr []
      | Inr (Some j) \<Rightarrow>
          if 5 * 1024 * 1024 < text_size j then Inl InvalidStore
          else (case as_object j of None \<Rightarrow> Inl InvalidStore | Some o1 \<Rightarrow> file_sources o1))"

definition source_json :: "folder_source \<Rightarrow> json" where
  "source_json s = JObj [(''principal_id'', JStr (pc_principal_id (fo_context s))), (''workspace_id'', JStr (pc_workspace_id (fo_context s))),
     (''project_id'', JStr (pc_project_id (fo_context s))), (''source_id'', JStr (fo_source_id s)), (''path'', JStr (fo_path s)),
     (''display_name'', JStr (fo_display_name s)), (''created_at'', JStr (fo_created_at s)), (''updated_at'', JStr (fo_updated_at s))]"

definition sources_json :: "folder_source list \<Rightarrow> json" where
  "sources_json sources = JObj [(''version'', JNum 1), (''sources'', JArr (map source_json sources))]"

definition save_sources :: "folder_source list \<Rightarrow> folder_file" where
  "save_sources sources = Inr (Some (sources_json sources))"

section \<open>Paths\<close>

fun common_prefix :: "string list \<Rightarrow> string list \<Rightarrow> nat" where
  "common_prefix (p # xs) (q # ys) = (if p = q then Suc (common_prefix xs ys) else 0)"
| "common_prefix _ _ = 0"

text \<open>\<open>path.relative\<close> of absolute paths\<close>

definition path_relative :: "string list \<Rightarrow> string list \<Rightarrow> string" where
  "path_relative parent child =
     (let k = common_prefix parent child in join ''/'' (replicate (length parent - k) ''..'' @ drop k child))"

definition isWithin :: "string list \<Rightarrow> string list \<Rightarrow> bool" where
  "isWithin parent child =
     (let r = path_relative parent child in r \<noteq> [] \<and> r \<noteq> ''..'' \<and> \<not> starts_with ''../'' r \<and> \<not> starts_with ''/'' r)"

definition BROAD :: "string list list" where
  "BROAD = [[], [''Network''], [''Users''], [''Volumes''], [''cores''], [''opt'']]"

definition ABSOLUTE_BLOCKED :: "string list list" where
  "ABSOLUTE_BLOCKED = map (\<lambda>d. [d]) [''Applications'', ''Library'', ''System'', ''bin'', ''dev'', ''etc'', ''private'', ''sbin'', ''usr'', ''var'']"

definition homeBlocked :: "string list \<Rightarrow> string list \<Rightarrow> string list list" where
  "homeBlocked home stateHome = map (\<lambda>d. home @ [d]) [''.aws'', ''.azure'', ''.claude'', ''.codex'', ''.config'', ''.docker'',
     ''.gnupg'', ''.kube'', ''.ssh'', ''Library''] @ [stateHome]"

definition assertAllowedDirectory :: "string list \<Rightarrow> string list \<Rightarrow> string list \<Rightarrow> folder_error + unit" where
  "assertAllowedDirectory home stateHome target =
     (if target \<in> set BROAD \<or> target = home \<or>
         list_ex (\<lambda>blocked. target = blocked \<or> isWithin blocked target) (ABSOLUTE_BLOCKED @ homeBlocked home stateHome)
      then Inl BlockedSelection
      else if to_lower (last target) \<in> {''.git'', ''.hg'', ''.svn''} then Inl BlockedSelection
      else Inr ())"

definition displayPath :: "string list \<Rightarrow> string list \<Rightarrow> string" where
  "displayPath target home =
     (let r = path_relative home target
      in if r \<noteq> [] \<and> \<not> starts_with ''../'' r \<and> r \<noteq> ''..'' \<and> \<not> starts_with ''/'' r then ''~/'' @ r
         else [CHR 0xE2, CHR 0x80, CHR 0xA6] @ ''/'' @ last target)"

section \<open>Picking, attaching, detaching\<close>

record folder_world =
  fw_mac :: bool
  fw_home :: "string list"
  fw_state_home :: "string list"
  fw_real :: "string \<Rightarrow> (string list \<times> bool) option"
  fw_parse :: "string \<Rightarrow> json option"
  fw_size :: "json \<Rightarrow> nat"

datatype picked = Cancelled | Picked string

definition parsePickerResult :: "folder_world \<Rightarrow> string \<Rightarrow> folder_error + picked" where
  "parsePickerResult w out =
     (case Option.bind (fw_parse w out) props of
        None \<Rightarrow> Inl PickerFailed
      | Some value \<Rightarrow>
          if oget value ''cancelled'' = Some (JBool True) then Inr Cancelled
          else if oget value ''cancelled'' \<noteq> Some (JBool False) then Inl PickerFailed
          else (case str_field value ''path'' of
              None \<Rightarrow> Inl PickerFailed
            | Some p \<Rightarrow> if plain_text 4096 p then Inr (Picked p) else Inl PickerFailed))"

definition user_cancelled :: "string \<Rightarrow> bool" where
  "user_cancelled err = list_ex (\<lambda>t. str_includes t (to_lower err))
     [''-128'', ''user canceled'', ''user cancelled'', [CHR 0xEC, CHR 0xB7, CHR 0xA8, CHR 0xEC, CHR 0x86, CHR 0x8C]]"

definition canonicalDirectory :: "folder_world \<Rightarrow> string \<Rightarrow> folder_error + string list" where
  "canonicalDirectory w selected =
     (case fw_real w selected of Some (target, True) \<Rightarrow> Inr target | _ \<Rightarrow> Inl InvalidSelection)"

text \<open>The path text of the segments of a real path\<close>

definition real_text :: "string list \<Rightarrow> string" where
  "real_text p = (if p = [] then ''/'' else path_text p)"

definition find_index :: "('a \<Rightarrow> bool) \<Rightarrow> 'a list \<Rightarrow> nat option" where
  "find_index p xs = (let k = length (takeWhile (\<lambda>x. \<not> p x) xs) in if k < length xs then Some k else None)"

definition attach_source :: "project_context \<Rightarrow> string list \<Rightarrow> string \<Rightarrow> string \<Rightarrow> folder_source option \<Rightarrow> folder_source" where
  "attach_source c target uuid now existing = \<lparr>fo_context = c, fo_source_id = uuid, fo_path = real_text target,
     fo_display_name = (if target = [] then [] else last target),
     fo_created_at = (case existing of None \<Rightarrow> now | Some s \<Rightarrow> if fo_created_at s = [] then now else fo_created_at s),
     fo_updated_at = now\<rparr>"

definition attach :: "folder_world \<Rightarrow> project_context \<Rightarrow> string list \<Rightarrow> string \<Rightarrow> string \<Rightarrow> folder_file \<Rightarrow>
    (folder_error + folder_source) \<times> folder_file" where
  "attach w c target uuid now f =
     (case load_sources (fw_size w) f of
        Inl e \<Rightarrow> (Inl e, f)
      | Inr sources \<Rightarrow>
          if list_ex (\<lambda>s. fo_path s = real_text target \<and> fo_context s \<noteq> c) sources then (Inl SourceConflict, f)
          else (case find_index (\<lambda>s. fo_context s = c) sources of
              None \<Rightarrow> let s = attach_source c target uuid now None in (Inr s, save_sources (sources @ [s]))
            | Some i \<Rightarrow>
                if fo_path (sources ! i) = real_text target then (Inr (sources ! i), f)
                else let s = attach_source c target uuid now (Some (sources ! i)) in (Inr s, save_sources (sources[i := s]))))"

definition detach :: "folder_world \<Rightarrow> project_context \<Rightarrow> string \<Rightarrow> folder_file \<Rightarrow> (folder_error + unit) \<times> folder_file" where
  "detach w c sourceId f =
     (if \<not> context_ok c then (Inl InvalidSelection, f)
      else if \<not> source_id_ok sourceId then (Inl SourceNotFound, f)
      else case load_sources (fw_size w) f of
        Inl e \<Rightarrow> (Inl e, f)
      | Inr sources \<Rightarrow>
          (case find_index (\<lambda>s. fo_context s = c) sources of
             None \<Rightarrow> (Inl SourceNotFound, f)
           | Some i \<Rightarrow>
               if fo_source_id (sources ! i) \<noteq> sourceId then (Inl SourceNotFound, f)
               else (Inr (), save_sources (take i sources @ drop (Suc i) sources))))"

text \<open>The result of the picker's process: whether it went well, its code and its output\<close>

record picker_run =
  pr_ok :: bool
  pr_code :: int
  pr_stdout :: string
  pr_stderr :: string

text \<open>What a selection leads to: nothing, or the directory to attach\<close>

definition picked_directory :: "folder_world \<Rightarrow> picker_run \<Rightarrow> folder_error + string list option" where
  "picked_directory w r =
     (if \<not> pr_ok r then (if pr_code r = 1 \<and> user_cancelled (pr_stderr r) then Inr None else Inl PickerFailed)
      else rbind (parsePickerResult w (pr_stdout r)) (\<lambda>selected. case selected of
          Cancelled \<Rightarrow> Inr None
        | Picked p \<Rightarrow> rbind (canonicalDirectory w p) (\<lambda>target.
            rbind (assertAllowedDirectory (fw_home w) (fw_state_home w) target) (\<lambda>_. Inr (Some target)))))"

text \<open>
  The events: a pick begins (the picker opens, if none is open), the picker of a pick ends and the folder is attached, a
  folder is detached.  Changes of the file wait for one another.
\<close>

record folder_state =
  fs_file :: folder_file
  fs_open :: "project_context option"

datatype folder_event =
    PickBegin project_context
  | PickEnd picker_run string string
  | DetachCall project_context string
  | ServerRestart

definition pick_begin :: "folder_world \<Rightarrow> project_context \<Rightarrow> folder_state \<Rightarrow> (folder_error + unit) \<times> folder_state" where
  "pick_begin w c st =
     (if \<not> context_ok c then (Inl InvalidSelection, st)
      else if \<not> fw_mac w then (Inl UnsupportedPlatform, st)
      else if fs_open st \<noteq> None then (Inl PickerBusy, st)
      else (Inr (), st\<lparr>fs_open := Some c\<rparr>))"

definition pick_end :: "folder_world \<Rightarrow> picker_run \<Rightarrow> string \<Rightarrow> string \<Rightarrow> folder_state \<Rightarrow> (folder_error + folder_source option) \<times> folder_state" where
  "pick_end w r uuid now st =
     (case fs_open st of
        None \<Rightarrow> (Inr None, st)
      | Some c \<Rightarrow>
          let st = st\<lparr>fs_open := None\<rparr>
          in case picked_directory w r of
               Inl e \<Rightarrow> (Inl e, st)
             | Inr None \<Rightarrow> (Inr None, st)
             | Inr (Some target) \<Rightarrow>
                 (case attach w c target uuid now (fs_file st) of
                    (Inl e, f) \<Rightarrow> (Inl e, st\<lparr>fs_file := f\<rparr>)
                  | (Inr s, f) \<Rightarrow> (Inr (Some s), st\<lparr>fs_file := f\<rparr>)))"

fun folder_step :: "folder_world \<times> folder_event \<Rightarrow> folder_state \<Rightarrow> folder_state" where
  "folder_step (w, PickBegin c) st = snd (pick_begin w c st)"
| "folder_step (w, PickEnd r uuid now) st = snd (pick_end w r uuid now st)"
| "folder_step (w, DetachCall c i) st = st\<lparr>fs_file := snd (detach w c i (fs_file st))\<rparr>"
| "folder_step (w, ServerRestart) st = st\<lparr>fs_open := None\<rparr>"

definition folder_run :: "(folder_world \<times> folder_event) list \<Rightarrow> folder_state \<Rightarrow> folder_state" where
  "folder_run evs st = fold folder_step evs st"

end
