(* ===== verification/FolderProps.thy ===== *)
theory FolderProps
  imports FolderSources
begin

text \<open>
  What may be connected, and the file of the connected folders over a history: it stays readable and injective, unless a
  path it cannot hold gets into it.
\<close>

section \<open>Paths\<close>

definition proper :: "string list \<Rightarrow> bool" where
  "proper p = list_all (\<lambda>seg. seg \<noteq> [] \<and> CHR ''/'' \<notin> set seg \<and> seg \<noteq> ''..'') p"

lemma common_prefix_le: "common_prefix p q \<le> length p"
  by (induction p q rule: common_prefix.induct) auto

lemma common_prefix_all: "common_prefix p q = length p \<Longrightarrow> \<exists>r. q = p @ r"
  by (induction p q rule: common_prefix.induct) (auto split: if_splits)

lemma common_prefix_append [simp]: "common_prefix p (p @ r) = length p"
  by (induction p) auto

lemma join_first: "CHR ''/'' \<notin> set x \<Longrightarrow> takeWhile (\<lambda>c. c \<noteq> CHR ''/'') (join ''/'' (x # xs)) = x"
  by (cases xs) (auto simp: takeWhile_append)

lemma within_iff:
  assumes "proper parent" and "proper child"
  shows "isWithin parent child \<longleftrightarrow> (\<exists>r. r \<noteq> [] \<and> child = parent @ r)"
proof (cases "common_prefix parent child = length parent")
  case True
  then obtain r where r: "child = parent @ r" using common_prefix_all by blast
  have rel: "path_relative parent child = join ''/'' r" by (simp add: path_relative_def r)
  show ?thesis
  proof (cases r)
    case Nil
    then show ?thesis using r rel by (simp add: isWithin_def Let_def)
  next
    case (Cons x xs)
    have x: "x \<noteq> []" "CHR ''/'' \<notin> set x" "x \<noteq> ''..''" using assms(2) by (auto simp: proper_def r Cons)
    have t: "takeWhile (\<lambda>c. c \<noteq> CHR ''/'') (join ''/'' r) = x" using join_first [OF x(2)] by (simp add: Cons)
    have "join ''/'' r \<noteq> []" "join ''/'' r \<noteq> ''..''" "\<not> starts_with ''../'' (join ''/'' r)" "\<not> starts_with ''/'' (join ''/'' r)"
      using t x by (auto simp: starts_with_iff)
    then show ?thesis unfolding isWithin_def rel Let_def using r Cons by auto
  qed
next
  case False
  let ?n = "length parent - common_prefix parent child"
  obtain m where m: "?n = Suc m" using False common_prefix_le [of parent child] by (metis Suc_diff_Suc le_neq_implies_less)
  have "\<not> isWithin parent child"
    by (cases "replicate m ''..'' @ drop (common_prefix parent child) child")
      (auto simp: isWithin_def path_relative_def m Let_def starts_with_iff)
  moreover have "child \<noteq> parent @ r" for r using False by auto
  ultimately show ?thesis by blast
qed

lemma blocked_proper:
  assumes "proper home" and "proper stateHome" and "b \<in> set (ABSOLUTE_BLOCKED @ homeBlocked home stateHome)"
  shows "proper b"
proof -
  have "list_all proper ABSOLUTE_BLOCKED" by code_simp
  moreover have "list_all proper (homeBlocked [] [])" by code_simp
  then have "list_all proper (homeBlocked home stateHome)" using assms(1,2) by (simp add: homeBlocked_def proper_def)
  ultimately show ?thesis using assms(3) by (auto simp: list_all_iff)
qed

text \<open>
  A directory is refused exactly when it is one of the broad ones, the home directory, a blocked directory or anything below
  one, or the metadata of a repository.
\<close>

theorem folder_allowed_iff:
  assumes "proper home" and "proper stateHome" and "proper target"
  shows "assertAllowedDirectory home stateHome target = Inr () \<longleftrightarrow>
    target \<notin> set BROAD \<and> target \<noteq> home \<and> to_lower (last target) \<notin> {''.git'', ''.hg'', ''.svn''} \<and>
    \<not> (\<exists>b \<in> set (ABSOLUTE_BLOCKED @ homeBlocked home stateHome). \<exists>r. target = b @ r)"
proof -
  have "target = b \<or> isWithin b target \<longleftrightarrow> (\<exists>r. target = b @ r)" if "b \<in> set (ABSOLUTE_BLOCKED @ homeBlocked home stateHome)" for b
    using within_iff [OF blocked_proper [OF assms(1,2) that] assms(3)] by (metis append.right_neutral)
  then have "list_ex (\<lambda>b. target = b \<or> isWithin b target) (ABSOLUTE_BLOCKED @ homeBlocked home stateHome) \<longleftrightarrow>
      (\<exists>b \<in> set (ABSOLUTE_BLOCKED @ homeBlocked home stateHome). \<exists>r. target = b @ r)"
    unfolding list_ex_iff by blast
  then show ?thesis unfolding assertAllowedDirectory_def by auto
qed

theorem folder_allowed_iff_witness:
  "assertAllowedDirectory [''Users'', ''a''] [''Users'', ''a'', ''Library'', ''N''] [''Users'', ''a'', ''work''] = Inr ()"
proof -
  have p: "proper [''Users'', ''a'']" "proper [''Users'', ''a'', ''Library'', ''N'']" "proper [''Users'', ''a'', ''work'']"
    by code_simp+
  have l: "to_lower ''work'' = ''work''" by code_simp
  show ?thesis
    unfolding folder_allowed_iff [OF p] by (simp add: BROAD_def ABSOLUTE_BLOCKED_def homeBlocked_def l)
qed

section \<open>The file\<close>

lemma validated: "validateStoredSource (source_json s) = (if source_ok s then Inr s else Inl InvalidStore)"
proof (cases s)
  case s: (fields c i p n a u)
  show ?thesis
    by (cases c) (simp add: s validateStoredSource_def source_json_def field_text_def str_field_def Let_def)
qed

lemma validated_ok: "validateStoredSource j = Inr s \<Longrightarrow> source_ok s"
  by (auto simp: validateStoredSource_def Let_def split: option.splits if_splits)

lemma validate_error: "rmap_list validateStoredSource js = Inl e \<Longrightarrow> e = InvalidStore"
  by (induction js) (auto simp: validateStoredSource_def Let_def split: option.splits if_splits sum.splits)

definition sources_ok :: "folder_source list \<Rightarrow> bool" where
  "sources_ok xs \<longleftrightarrow> list_all source_ok xs \<and> distinct (map (contextKey \<circ> fo_context) xs) \<and> distinct (map fo_path xs) \<and> length xs \<le> 10000"

lemma loaded: "load_sources sz f = Inr xs \<Longrightarrow> sources_ok xs"
  by (auto simp: load_sources_def file_sources_def sources_ok_def rmap_list_Inr_iff list_all2_conv_all_nth list_all_length
      res_elims dest: validated_ok split: sum.splits option.splits if_splits)

lemma saved_items: "rmap_list validateStoredSource (map source_json xs) = (if list_all source_ok xs then Inr xs else Inl InvalidStore)"
  by (induction xs) (auto simp: validated)

lemma load_saved: "load_sources sz (save_sources xs) =
    (if sz (sources_json xs) \<le> 5 * 1024 * 1024 \<and> sources_ok xs then Inr xs else Inl InvalidStore)"
  by (auto simp: load_sources_def save_sources_def sources_json_def file_sources_def arr_field_def saved_items sources_ok_def)

lemma key_eq: "context_ok c \<Longrightarrow> context_ok d \<Longrightarrow> contextKey c = contextKey d \<longleftrightarrow> c = d"
proof -
  have t: "\<not> list_ex control_char x \<Longrightarrow> takeWhile (\<lambda>c. c \<noteq> CHR 0x00) (x @ CHR 0x00 # y) = x" for x y
    by (induction x) (auto simp: control_char_def)
  have split: "x @ CHR 0x00 # y = x' @ CHR 0x00 # y' \<longleftrightarrow> x = x' \<and> y = y'"
    if "\<not> list_ex control_char x" "\<not> list_ex control_char x'" for x x' y y'
    using t [OF that(1), of y] t [OF that(2), of y'] by (metis append_eq_append_conv list.inject)
  show "context_ok c \<Longrightarrow> context_ok d \<Longrightarrow> contextKey c = contextKey d \<longleftrightarrow> c = d"
    by (cases c; cases d) (auto simp: contextKey_def context_ok_def plain_text_def split)
qed

lemma source_context: "source_ok s \<Longrightarrow> context_ok (fo_context s)"
  by (auto simp: source_ok_def context_ok_def plain_text_def)

lemma find_index_Some: "find_index p xs = Some k \<Longrightarrow> k < length xs \<and> p (xs ! k)"
  using nth_length_takeWhile [of "\<lambda>x. \<not> p x" xs] by (auto simp: find_index_def Let_def split: if_splits)

lemma find_index_None: "find_index p xs = None \<Longrightarrow> x \<in> set xs \<Longrightarrow> \<not> p x"
proof -
  assume "find_index p xs = None" and x: "x \<in> set xs"
  then have "length (takeWhile (\<lambda>x. \<not> p x) xs) = length xs"
    using length_takeWhile_le [of "\<lambda>x. \<not> p x" xs] by (auto simp: find_index_def Let_def split: if_splits)
  then have "takeWhile (\<lambda>x. \<not> p x) xs = xs" by (metis takeWhile_eq_take take_all order_refl)
  then show "\<not> p x" using x set_takeWhileD by metis
qed

section \<open>A change of the file\<close>

text \<open>The file holds these sources, and \<open>fits\<close> as many more.\<close>

definition fits :: "(json \<Rightarrow> nat) \<Rightarrow> nat \<Rightarrow> bool" where
  "fits sz n \<longleftrightarrow> n \<le> 10000 \<and> (\<forall>xs. length xs \<le> n \<longrightarrow> list_all source_ok xs \<longrightarrow> sz (sources_json xs) \<le> 5 * 1024 * 1024)"

lemma saved: "fits sz n \<Longrightarrow> length xs \<le> n \<Longrightarrow> list_all source_ok xs \<Longrightarrow> distinct (map (contextKey \<circ> fo_context) xs) \<Longrightarrow>
    distinct (map fo_path xs) \<Longrightarrow> load_sources sz (save_sources xs) = Inr xs"
  by (auto simp: load_saved sources_ok_def fits_def)

definition storable :: "string list \<Rightarrow> bool" where
  "storable target \<longleftrightarrow> plain_text 4096 (real_text target) \<and> plain_text 4096 (last target) \<and> target \<noteq> []"

lemma js_length_le: "js_length s \<le> 2 * length s"
  by (induction s) (auto simp: units_def)

lemma source_id_plain: "source_id_ok i \<Longrightarrow> plain_text 4096 i"
proof -
  let ?p = "replicate 8 is_hex @ [\<lambda>c. c = CHR ''-''] @ replicate 27 (\<lambda>c. is_hex c \<or> c = CHR ''-'')"
  have m: "matches ps t \<Longrightarrow> length t = length ps \<and> (\<forall>c \<in> set t. \<exists>p \<in> set ps. p c)" for ps t
    by (induction ps t rule: matches.induct) auto
  assume "source_id_ok i"
  with m [of ?p i] have l: "length i = 36" and c: "\<forall>c \<in> set i. is_hex c \<or> c = CHR ''-''"
    by (auto simp: source_id_ok_def)
  have "\<not> control_char c" if "is_hex c \<or> c = CHR ''-''" for c
    using that by (auto simp: control_char_def is_hex_def is_hex_lower_def is_digit_def)
  then have "\<not> list_ex control_char i" using c by (auto simp: list_ex_iff)
  then show "plain_text 4096 i" using l js_length_le [of i] by (auto simp: plain_text_def)
qed

lemma attached_ok: "context_ok c \<Longrightarrow> storable target \<Longrightarrow> source_id_ok uuid \<Longrightarrow> plain_text 4096 now \<Longrightarrow>
    (\<And>s. existing = Some s \<Longrightarrow> source_ok s) \<Longrightarrow> source_ok (attach_source c target uuid now existing)"
proof -
  have u: "source_id_ok uuid \<Longrightarrow> plain_text 4096 uuid" by (rule source_id_plain)
  show "context_ok c \<Longrightarrow> storable target \<Longrightarrow> source_id_ok uuid \<Longrightarrow> plain_text 4096 now \<Longrightarrow>
    (\<And>s. existing = Some s \<Longrightarrow> source_ok s) \<Longrightarrow> source_ok (attach_source c target uuid now existing)"
    using u by (auto simp: source_ok_def attach_source_def storable_def context_ok_def real_text_def path_text_def
        starts_with_iff plain_text_def split: option.splits) (cases target; auto)+
qed

lemma attach_kept:
  assumes "load_sources (fw_size w) f = Inr xs" and "fits (fw_size w) (Suc (length xs))" and "context_ok c" and "storable target"
    and "source_id_ok uuid" and "plain_text 4096 now" and "attach w c target uuid now f = (r, f')"
  shows "\<exists>ys. load_sources (fw_size w) f' = Inr ys \<and> length ys \<le> Suc (length xs) \<and>
    (\<forall>s \<in> set ys. s \<in> set xs \<or> fo_path s = real_text target)"
proof -
  have ok: "list_all source_ok xs" "distinct (map (contextKey \<circ> fo_context) xs)" "distinct (map fo_path xs)"
    using loaded [OF assms(1)] by (auto simp: sources_ok_def)
  let ?new = "attach_source c target uuid now"
  have p: "fo_path (?new e) = real_text target" "fo_context (?new e) = c" for e by (simp_all add: attach_source_def)
  show ?thesis
  proof (cases "list_ex (\<lambda>s. fo_path s = real_text target \<and> fo_context s \<noteq> c) xs")
    case True
    then show ?thesis using assms(1,7) by (auto simp: attach_def)
  next
    case free: False
    then have own: "s \<in> set xs \<Longrightarrow> fo_path s = real_text target \<Longrightarrow> fo_context s = c" for s by (auto simp: list_ex_iff)
    show ?thesis
    proof (cases "find_index (\<lambda>s. fo_context s = c) xs")
      case None
      have n: "s \<in> set xs \<Longrightarrow> fo_context s \<noteq> c" for s using find_index_None [OF None] by blast
      have f: "f' = save_sources (xs @ [?new None])" using assms(1,7) free None by (simp add: attach_def Let_def)
      have k: "contextKey (fo_context s) \<noteq> contextKey c" if "s \<in> set xs" for s
        using key_eq [OF source_context assms(3), of s] ok(1) n that by (auto simp: list_all_iff)
      have q: "fo_path s \<noteq> real_text target" if "s \<in> set xs" for s using own n that by blast
      have "load_sources (fw_size w) f' = Inr (xs @ [?new None])"
        unfolding f
      proof (rule saved [OF assms(2)])
        show "list_all source_ok (xs @ [?new None])" using ok attached_ok [OF assms(3-6), of None] by simp
        show "distinct (map (contextKey \<circ> fo_context) (xs @ [?new None]))" using ok(2) k p by (force simp: image_iff)
        show "distinct (map fo_path (xs @ [?new None]))" using ok(3) q p by (force simp: image_iff)
      qed simp
      then show ?thesis using p by auto
    next
      case (Some i)
      note i = find_index_Some [OF Some]
      show ?thesis
      proof (cases "fo_path (xs ! i) = real_text target")
        case True
        then show ?thesis using assms(1,7) free Some by (auto simp: attach_def)
      next
        case moved: False
        let ?ys = "xs[i := ?new (Some (xs ! i))]"
        have f: "f' = save_sources ?ys" using assms(1,7) free Some moved by (simp add: attach_def Let_def)
        have sub: "set ?ys \<subseteq> insert (?new (Some (xs ! i))) (set xs)" by (rule set_update_subset_insert)
        have c: "map (contextKey \<circ> fo_context) ?ys = map (contextKey \<circ> fo_context) xs"
          using i by (simp add: map_update p) (metis comp_apply list_update_id map_update)
        have d: "distinct (map fo_path ?ys)"
          unfolding map_update p
        proof (rule distinct_list_update [OF ok(3)])
          show "real_text target \<notin> set (map fo_path xs) - {map fo_path xs ! i}"
          proof
            assume "real_text target \<in> set (map fo_path xs) - {map fo_path xs ! i}"
            then obtain j where j: "j < length xs" "fo_path (xs ! j) = real_text target" by (auto simp: in_set_conv_nth)
            then have "fo_context (xs ! j) = fo_context (xs ! i)" using own i by simp
            then have "map (contextKey \<circ> fo_context) xs ! j = map (contextKey \<circ> fo_context) xs ! i" using i j by simp
            then have "j = i" using nth_eq_iff_index_eq [OF ok(2), of j i] i j by simp
            then show False using j moved by simp
          qed
        qed
        have "source_ok (?new (Some (xs ! i)))"
          by (rule attached_ok [OF assms(3-6)]) (use ok(1) i in \<open>auto simp: list_all_iff\<close>)
        then have s: "list_all source_ok ?ys" using ok(1) sub by (auto simp: list_all_iff)
        have "load_sources (fw_size w) f' = Inr ?ys"
          unfolding f by (rule saved [OF assms(2)]) (use s c d ok(2) in auto)
        then show ?thesis using sub p by fastforce
      qed
    qed
  qed
qed

lemma detach_kept:
  assumes "load_sources (fw_size w) f = Inr xs" and "fits (fw_size w) (length xs)" and "detach w c i f = (r, f')"
  shows "\<exists>ys. load_sources (fw_size w) f' = Inr ys \<and> length ys \<le> length xs \<and> set ys \<subseteq> set xs"
proof (cases "f' = f")
  case True
  then show ?thesis using assms(1) by auto
next
  case False
  then obtain k where k: "f' = save_sources (take k xs @ drop (Suc k) xs)"
    using assms(1,3) by (auto simp: detach_def split: if_splits option.splits)
  have ok: "list_all source_ok xs" "distinct (map (contextKey \<circ> fo_context) xs)" "distinct (map fo_path xs)"
    using loaded [OF assms(1)] by (auto simp: sources_ok_def)
  let ?ys = "take k xs @ drop (Suc k) xs"
  have sub: "set ?ys \<subseteq> set xs" by (auto dest: in_set_takeD in_set_dropD)
  have d: "distinct (map g ?ys)" if "distinct (map g xs)" for g :: "folder_source \<Rightarrow> string"
    using that by (simp add: take_map [symmetric] drop_map [symmetric] set_take_disj_set_drop_if_distinct)
  have "load_sources (fw_size w) f' = Inr ?ys"
    unfolding k by (rule saved [OF assms(2) _ _ d [OF ok(2)] d [OF ok(3)]]) (use ok(1) sub in \<open>auto simp: list_all_iff\<close>)
  then show ?thesis using sub by (intro exI [of _ ?ys]) auto
qed

section \<open>Histories\<close>

text \<open>A pick whose real path the file can hold, at a time and with an id of the right form\<close>

definition event_ok :: "(json \<Rightarrow> nat) \<Rightarrow> folder_world \<times> folder_event \<Rightarrow> bool" where
  "event_ok sz ev \<longleftrightarrow> (case ev of (w, e) \<Rightarrow> fw_size w = sz \<and> (\<forall>p target. fw_real w p = Some (target, True) \<longrightarrow> target \<noteq> [] \<longrightarrow> storable target) \<and>
     (case e of PickEnd _ uuid now \<Rightarrow> source_id_ok uuid \<and> plain_text 4096 now | _ \<Rightarrow> True))"

definition allowed_in :: "folder_world \<Rightarrow> string \<Rightarrow> bool" where
  "allowed_in w p \<longleftrightarrow> (\<exists>target. p = real_text target \<and> assertAllowedDirectory (fw_home w) (fw_state_home w) target = Inr ())"

lemma picked_allowed:
  assumes "picked_directory w r = Inr (Some target)"
  shows "assertAllowedDirectory (fw_home w) (fw_state_home w) target = Inr ()" "\<exists>p. fw_real w p = Some (target, True)" "target \<noteq> []"
proof -
  show a: "assertAllowedDirectory (fw_home w) (fw_state_home w) target = Inr ()" "\<exists>p. fw_real w p = Some (target, True)"
    using assms by (auto simp: picked_directory_def canonicalDirectory_def rbind_def
        split: if_splits sum.splits picked.splits option.splits prod.splits bool.splits)
  show "target \<noteq> []" using a(1) by (auto simp: assertAllowedDirectory_def BROAD_def)
qed

lemma folder_stepped:
  assumes "load_sources sz (fs_file st) = Inr xs" and "fits sz (Suc (length xs))" and "event_ok sz (w, e)"
    and "\<And>c. fs_open st = Some c \<Longrightarrow> context_ok c"
  shows "(\<exists>ys. load_sources sz (fs_file (folder_step (w, e) st)) = Inr ys \<and> length ys \<le> Suc (length xs) \<and>
      (\<forall>s \<in> set ys. s \<in> set xs \<or> allowed_in w (fo_path s))) \<and>
    (\<forall>c. fs_open (folder_step (w, e) st) = Some c \<longrightarrow> context_ok c)"
proof -
  have sz: "fw_size w = sz" using assms(3) by (simp add: event_ok_def)
  have f: "fits sz (length xs)" using assms(2) by (auto simp: fits_def)
  show ?thesis
  proof (cases e)
    case (PickBegin c)
    then show ?thesis using assms(1,4) by (auto simp: pick_begin_def split: if_splits)
  next
    case (PickEnd r uuid now)
    show ?thesis
    proof (cases "fs_open st")
      case None
      then show ?thesis using assms(1) by (auto simp: PickEnd pick_end_def)
    next
      case (Some c)
      show ?thesis
      proof (cases "\<exists>target. picked_directory w r = Inr (Some target)")
        case False
        then show ?thesis
          using assms(1) by (cases "picked_directory w r") (auto simp: PickEnd pick_end_def Some Let_def split: option.splits)
      next
        case True
        then obtain target where t: "picked_directory w r = Inr (Some target)" by blast
        obtain a f' where a: "attach w c target uuid now (fs_file st) = (a, f')" by fastforce
        have k: "storable target" "source_id_ok uuid" "plain_text 4096 now"
          using picked_allowed [OF t] assms(3) by (auto simp: event_ok_def PickEnd)
        from attach_kept [OF _ _ assms(4) [OF Some] k a] assms(1,2)
        obtain ys where y: "load_sources sz f' = Inr ys" "length ys \<le> Suc (length xs)" "\<forall>s \<in> set ys. s \<in> set xs \<or> fo_path s = real_text target"
          unfolding sz by auto
        have "fs_file (folder_step (w, e) st) = f'" "fs_open (folder_step (w, e) st) = None"
          by (auto simp: PickEnd pick_end_def Some t a Let_def split: sum.splits)
        then show ?thesis using y picked_allowed(1) [OF t] by (auto simp: allowed_in_def)
      qed
    qed
  next
    case (DetachCall c i)
    obtain r f' where d: "detach w c i (fs_file st) = (r, f')" by fastforce
    from detach_kept [OF _ _ d] assms(1) f obtain ys where "load_sources sz f' = Inr ys" "length ys \<le> length xs" "set ys \<subseteq> set xs"
      unfolding sz by auto
    then show ?thesis using assms(4) by (auto simp: DetachCall d)
  next
    case ServerRestart
    then show ?thesis using assms(1) by auto
  qed
qed


definition some_context :: project_context where
  "some_context = \<lparr>pc_principal_id = ''p'', pc_workspace_id = ''w'', pc_project_id = ''j''\<rparr>"

definition some_world :: "string list \<Rightarrow> folder_world" where
  "some_world target = \<lparr>fw_mac = True, fw_home = [''Users'', ''a''], fw_state_home = [''Users'', ''a'', ''N''],
     fw_real = \<lambda>_. Some (target, True), fw_parse = \<lambda>_. Some (JObj [(''cancelled'', JBool False), (''path'', JStr ''/f'')]), fw_size = \<lambda>_. 0\<rparr>"

definition some_id :: string where
  "some_id = ''01234567-0123-4567-89ab-0123456789ab''"

definition some_picks :: "(folder_world \<times> folder_event) list" where
  "some_picks = [(some_world [''f''], PickBegin some_context), (some_world [''f''], PickEnd \<lparr>pr_ok = True, pr_code = 0, pr_stdout = [], pr_stderr = []\<rparr> some_id ''t'')]"


section \<open>A path the file cannot hold\<close>

lemma attach_saves:
  assumes "attach w c target uuid now f = (Inr s, f')" and "f' \<noteq> f"
  shows "\<exists>xs e. f' = save_sources xs \<and> attach_source c target uuid now e \<in> set xs"
proof -
  obtain xs where l: "load_sources (fw_size w) f = Inr xs" using assms(1) by (auto simp: attach_def split: sum.splits)
  show ?thesis
  proof (cases "find_index (\<lambda>s. fo_context s = c) xs")
    case None
    then show ?thesis
      using assms by (intro exI [of _ "xs @ [attach_source c target uuid now None]"] exI [of _ None])
        (auto simp: attach_def l Let_def split: if_splits)
  next
    case (Some i)
    then have "attach_source c target uuid now (Some (xs ! i)) \<in> set (xs[i := attach_source c target uuid now (Some (xs ! i))])"
      by (intro set_update_memI) (simp add: find_index_Some)
    then show ?thesis
      using assms Some by (intro exI [of _ "xs[i := attach_source c target uuid now (Some (xs ! i))]"] exI [of _ "Some (xs ! i)"])
        (auto simp: attach_def l Let_def split: if_splits)
  qed
qed

text \<open>
  The picker's answer is checked for line feeds, the real path it leads to is not: a folder with a line feed in its real path
  is connected, and from then on the file cannot be read, whatever is asked for.
\<close>

theorem newline_folder_bricks_store:
  assumes "attach w c target uuid now f = (Inr s, f')" and "f' \<noteq> f" and "list_ex control_char (real_text target)"
  shows "attach w' c' target' uuid' now' f' = (Inl InvalidStore, f') \<and> detach w' c' i f' = (fst (detach w' c' i f'), f') \<and>
    \<not> is_ok (fst (detach w' c' i f'))"
proof -
  have p: "fo_path (attach_source c target uuid now e) = real_text target" for e by (simp add: attach_source_def)
  have bad: "\<not> source_ok (attach_source c target uuid now e)" for e
    using assms(3) by (auto simp: source_ok_def plain_text_def p)
  obtain xs e where "f' = save_sources xs" "attach_source c target uuid now e \<in> set xs" using attach_saves [OF assms(1,2)] by blast
  then have "f' = save_sources xs" "\<not> list_all source_ok xs" using bad by (auto simp: list_all_iff)
  then have l: "load_sources sz f' = Inl InvalidStore" for sz by (simp add: load_saved sources_ok_def)
  show ?thesis by (simp add: attach_def detach_def l is_ok_def)
qed

theorem newline_folder_bricks_store_witness:
  "\<exists>s f. attach (some_world []) some_context [''a'' @ [LF]] some_id ''t'' (Inr None) = (Inr s, f) \<and>
     attach (some_world []) some_context [''b''] some_id ''t'' f = (Inl InvalidStore, f)"
proof -
  let ?w = "some_world []" and ?t = "[''a'' @ [LF]]"
  obtain s f where a: "attach ?w some_context ?t some_id ''t'' (Inr None) = (Inr s, f)" "f \<noteq> Inr None"
    by (simp add: attach_def load_sources_def find_index_def Let_def save_sources_def)
  have "list_ex control_char (real_text ?t)" by code_simp
  from newline_folder_bricks_store [OF a this] show ?thesis using a by blast
qed

end
