(* ===== verification/CodexProps.thy ===== *)
theory CodexProps
  imports CodexProvider NodeModelChange
begin

text \<open>
  What the Codex provider promises: what the children are told, what a login status may say, when a generation is
  answered, and which children are signalled.
\<close>

section \<open>Environment and binary\<close>

lemma default_to_get:
  "oget (default_to key v e) k = (if k = key \<and> (oget e key = None \<or> oget e key = Some []) then Some v else oget e k)"
  by (simp add: default_to_def)

lemma copied_keys:
  "oget (fold (\<lambda>key e. case oget source key of None \<Rightarrow> e | Some v \<Rightarrow> oset key v e) keys e0) k =
     (if k \<in> set keys \<and> oget source k \<noteq> None then oget source k else oget e0 k)"
  by (induction keys arbitrary: e0) (auto split: option.splits)

lemma codex_environment_allowed:
  assumes "oget (codexSpawnEnvironment source homedir tmpdir) key = Some v"
  shows "key \<in> set codex_environment_keys \<and>
    (oget source key = Some v \<or> key = ''HOME'' \<and> v = homedir \<or> key = ''TMPDIR'' \<and> v = tmpdir)"
proof -
  have m: "''HOME'' \<in> set codex_environment_keys" "''TMPDIR'' \<in> set codex_environment_keys"
    by (simp_all add: codex_environment_keys_def)
  show ?thesis
    using assms m unfolding codexSpawnEnvironment_def default_to_get copied_keys by (auto split: if_splits)
qed

lemma resolved_binary_executable: "resolveCodexBinary pf e chosen = Some b \<Longrightarrow> pf_executable pf b"
  by (simp add: resolveCodexBinary_def find_Some_iff) blast

lemma configured_binary_first:
  assumes "b \<noteq> []" and "pf_executable pf (pf_resolve pf b)"
  shows "resolveCodexBinary pf e (Some b) = Some (pf_resolve pf b)"
  using assms by (simp add: resolveCodexBinary_def codex_candidates_def present_def)

section \<open>The login session\<close>

lemma entry_model_valid: "entry_model entry = Some m \<Longrightarrow> validCodexModel m"
  by (auto simp: entry_model_def Let_def split: option.splits if_splits)

lemma listed_models_valid:
  "distinct (listed_models reply) \<and> length (listed_models reply) \<le> 100 \<and> list_all validCodexModel (listed_models reply)"
proof -
  have u: "length (uniq ys) \<le> length ys" for ys :: "string list"
    by (induction ys) (auto intro: order_trans [OF length_filter_le])
  have f: "length (List.map_filter g ys) \<le> length ys" for g :: "json \<Rightarrow> string option" and ys
    by (simp add: List.map_filter_def)
  have v: "m \<in> set (List.map_filter entry_model ys) \<Longrightarrow> validCodexModel m" for m ys
    by (induction ys) (auto simp: List.map_filter_simps entry_model_valid split: option.splits)
  have n: "length (uniq (List.map_filter entry_model (take 100 ys))) \<le> 100" for ys
    using u [of "List.map_filter entry_model (take 100 ys)"] f [of entry_model "take 100 ys"] by simp
  show ?thesis
    unfolding listed_models_def Let_def by (auto simp: list_all_iff n dest: v)
qed

lemma js_length_slice: "js_length (js_slice n s) \<le> n"
proof (induction n s rule: js_slice.induct)
  case (2 n c cs)
  have "js_length (high_surrogate (c # cs)) = 1"
    by (simp add: high_surrogate_def Let_def units_def)
  with 2 show ?case by auto
qed simp

definition session_sound :: "session_status \<Rightarrow> bool" where
  "session_sound s \<longleftrightarrow>
     (ss_models s \<noteq> [] \<longrightarrow> ss_auth s = ''signed_in'') \<and> (ss_auth s = ''signed_in'' \<longleftrightarrow> ss_diagnostic s = None) \<and>
     distinct (ss_models s) \<and> length (ss_models s) \<le> 100 \<and> list_all validCodexModel (ss_models s) \<and>
     (\<forall>p. ss_plan s = Some p \<longrightarrow> js_length p \<le> 64)"

lemma no_session_sound: "auth \<noteq> ''signed_in'' \<Longrightarrow> session_sound (no_session available auth diagnostic checked)"
  by (simp add: session_sound_def no_session_def)

lemma read_session_sound: "read_session checked replies = Some s \<Longrightarrow> session_sound s"
  using listed_models_valid [of "oget replies 2"]
  by (auto simp: read_session_def session_sound_def Let_def js_length_slice split: option.splits if_splits)

lemma session_status_sound: "sessionStatus closing parse binary checked evs = Settled s \<Longrightarrow> session_sound s"
  by (auto simp: sessionStatus_def no_session_sound split: option.splits promise.splits sum.splits dest: read_session_sound)

section \<open>The app server\<close>

lemma ap_done_finish [simp]: "ap_done (ap_finish r st) = (if ap_done st = None then Some r else ap_done st)"
  by (simp add: ap_finish_def)

lemma ap_done_send [simp]: "ap_done (ap_send m st) = ap_done st" "ap_thrown (ap_send m st) = ap_thrown st"
  by (simp_all add: ap_send_def)

lemma ap_done_sends [simp]: "ap_done (fold ap_send ms st) = ap_done st" "ap_thrown (fold ap_send ms st) = ap_thrown st"
  by (induction ms arbitrary: st) simp_all

lemma ap_done_line: "ap_done st = Some r \<Longrightarrow> ap_done (ap_line parse requests line st) = Some r"
  by (auto simp: ap_line_def ap_message_def ap_reply_def Let_def split: option.split)

lemma ap_done_step: "ap_done st \<noteq> None \<Longrightarrow> ap_done (ap_step parse requests ev st) = ap_done st"
  by (cases ev) (auto simp: ap_step_def ap_done_line)

text \<open>A promise is settled once: what it is settled with does not change any more.\<close>

lemma ap_done_run: "ap_done st \<noteq> None \<Longrightarrow> ap_done (fold (ap_step parse requests) evs st) = ap_done st"
  by (induction evs arbitrary: st) (simp_all add: ap_done_step)

lemma ap_thrown_run: "ap_thrown st \<Longrightarrow> fold (ap_step parse requests) evs st = st"
  by (induction evs) (simp_all add: ap_step_def)

lemma app_server_answers:
  assumes "TimedOut \<in> set evs \<or> (\<exists>n. ChildClosed n \<in> set evs)"
  shows "appServerRequests closing parse requests evs \<noteq> Waiting"
proof -
  obtain ev evs1 evs2 where e: "evs = evs1 @ ev # evs2" and ev: "ev = TimedOut \<or> (\<exists>n. ev = ChildClosed n)"
    using assms by (metis split_list)
  let ?st1 = "fold (ap_step parse requests) evs1 ap_start"
  let ?st2 = "ap_step parse requests ev ?st1"
  have "ap_thrown ?st2 \<or> ap_done ?st2 \<noteq> None"
    using ev by (auto simp: ap_step_def split: if_splits)
  then have "ap_thrown (fold (ap_step parse requests) evs ap_start) \<or> ap_done (fold (ap_step parse requests) evs ap_start) \<noteq> None"
    unfolding e by (auto simp: ap_thrown_run ap_done_run)
  then show ?thesis
    by (auto simp: appServerRequests_def Let_def split: sum.splits)
qed

text \<open>Nothing but the initialization is asked before it has been answered.\<close>

lemma ap_sent_first:
  assumes "\<forall>line. Line line \<in> set evs \<longrightarrow> (\<forall>m. parse line = Some m \<longrightarrow> message_id m \<noteq> Some 0)"
  shows "ap_sent (fold (ap_step parse requests) evs ap_start) = [initialize_message]"
proof -
  have f: "ap_sent (ap_finish r st) = ap_sent st" for r st
    by (simp add: ap_finish_def)
  have l: "ap_sent (ap_line parse requests line st) = ap_sent st"
    if "\<And>m. parse line = Some m \<Longrightarrow> message_id m \<noteq> Some 0" for line st
    using that by (auto simp: ap_line_def ap_message_def ap_reply_def f Let_def split: option.split)
  have step: "ap_sent (ap_step parse requests ev st) = ap_sent st"
    if "\<And>line m. ev = Line line \<Longrightarrow> parse line = Some m \<Longrightarrow> message_id m \<noteq> Some 0" for ev st
    using that by (cases ev) (simp_all add: ap_step_def f l)
  have "ap_sent (fold (ap_step parse requests) evs st) = ap_sent st" for st
    using assms by (induction evs arbitrary: st) (auto simp: step)
  then show ?thesis by (simp add: ap_start_def ap_send_def)
qed

fun line_bytes :: "app_event \<Rightarrow> nat" where
  "line_bytes (Line line) = length line"
| "line_bytes _ = 0"

lemma ap_bytes_finish [simp]: "ap_bytes (ap_finish r st) = ap_bytes st"
  by (simp add: ap_finish_def)

lemma ap_bytes_sends [simp]: "ap_bytes (fold ap_send ms st) = ap_bytes st"
  by (induction ms arbitrary: st) (simp_all add: ap_send_def)

lemma ap_bytes_send [simp]: "ap_bytes (ap_send m st) = ap_bytes st"
  by (simp add: ap_send_def)

lemma ap_bytes_step: "ap_bytes (ap_step parse requests ev st) \<le> ap_bytes st + line_bytes ev"
  by (cases ev) (simp_all add: ap_step_def ap_line_def ap_message_def ap_reply_def Let_def split: option.split)

lemma ap_bytes_run: "ap_bytes (fold (ap_step parse requests) evs st) \<le> ap_bytes st + sum_list (map line_bytes evs)"
proof (induction evs arbitrary: st)
  case (Cons ev evs)
  from Cons [of "ap_step parse requests ev st"] ap_bytes_step [of parse requests ev st] show ?case by simp
qed simp

section \<open>The running child\<close>

text \<open>What the child has written, and a child nothing has gone wrong with so far\<close>

fun stdout_chunks :: "exec_event list \<Rightarrow> string list" where
  "stdout_chunks [] = []"
| "stdout_chunks (ExOut chunk # evs) = chunk # stdout_chunks evs"
| "stdout_chunks (_ # evs) = stdout_chunks evs"

fun harmless :: "exec_event \<Rightarrow> bool" where
  "harmless (ExOut chunk) = True"
| "harmless (ExErr chunk) = True"
| "harmless ExKilled = True"
| "harmless _ = False"

lemma stdout_chunks_append [simp]: "stdout_chunks (evs1 @ evs2) = stdout_chunks evs1 @ stdout_chunks evs2"
  by (induction evs1 rule: stdout_chunks.induct) simp_all

definition undisturbed :: "(string \<Rightarrow> string) \<Rightarrow> exec_event list \<Rightarrow> exec_run \<Rightarrow> bool" where
  "undisturbed decode evs st \<longleftrightarrow>
     list_all harmless evs \<and> ex_bytes st = length (concat (stdout_chunks evs)) \<and> ex_bytes st \<le> 4 * 1024 * 1024 \<and>
     ex_out st = concat (map decode (stdout_chunks evs))"

definition clean_run :: "(string \<Rightarrow> json option) \<Rightarrow> (string \<Rightarrow> string) \<Rightarrow> exec_event list \<Rightarrow> bool" where
  "clean_run parse decode evs \<longleftrightarrow>
     (\<exists>evs1 evs2. evs = evs1 @ ExClosed (Some 0) # evs2 \<and> list_all harmless evs1 \<and>
        length (concat (stdout_chunks evs1)) \<le> 4 * 1024 * 1024 \<and>
        \<not> containsToolUse parse (concat (map decode (stdout_chunks evs1))))"

lemma clean_run_snoc: "clean_run parse decode evs \<Longrightarrow> clean_run parse decode (evs @ [ev])"
  unfolding clean_run_def by fastforce

definition exec_inv :: "(string \<Rightarrow> json option) \<Rightarrow> (string \<Rightarrow> string) \<Rightarrow> exec_event list \<Rightarrow> exec_run \<Rightarrow> bool" where
  "exec_inv parse decode evs st \<longleftrightarrow>
     (ex_done st = None \<and> ex_pending st = None \<longrightarrow> undisturbed decode evs st) \<and>
     (ex_done st = Some (Inr ()) \<longrightarrow> clean_run parse decode evs)"

lemma clean_run_now:
  assumes "undisturbed decode evs st" and "\<not> containsToolUse parse (ex_out st)"
  shows "clean_run parse decode (evs @ [ExClosed (Some 0)])"
  using assms unfolding undisturbed_def clean_run_def by fastforce

lemma exec_inv_closed:
  assumes "exec_inv parse decode evs st"
  shows "exec_inv parse decode (evs @ [ExClosed c]) (ex_step parse decode (ExClosed c) st)"
proof (cases "ex_done st = None \<and> ex_pending st = None")
  case True
  with assms show ?thesis
    by (auto simp: exec_inv_def ex_finish_def intro: clean_run_now)
next
  case False
  with assms show ?thesis
    by (auto simp: exec_inv_def ex_finish_def clean_run_snoc split: option.split)
qed

lemma exec_inv_step: "exec_inv parse decode evs st \<Longrightarrow> exec_inv parse decode (evs @ [ev]) (ex_step parse decode ev st)"
  by (cases ev)
    (auto simp: exec_inv_closed simp del: ex_step.simps(6),
     auto simp: exec_inv_def ex_finish_def ex_abort_def undisturbed_def clean_run_snoc Let_def split: option.splits)

lemma exec_inv_run: "exec_inv parse decode evs (fold (ex_step parse decode) evs ex_start)"
proof (induction evs rule: rev_induct)
  case Nil
  show ?case by (simp add: exec_inv_def ex_start_def undisturbed_def)
next
  case (snoc ev evs)
  from exec_inv_step [OF this, of ev] show ?case by simp
qed

lemma exec_resolves_clean:
  assumes "runCodexExec closing parse decode evs = Settled (Inr ())"
  shows "\<not> closing \<and> clean_run parse decode evs"
  using assms exec_inv_run [of parse decode evs]
  by (auto simp: runCodexExec_def exec_inv_def split: if_splits option.splits)

lemma ex_done_step: "ex_done st = Some r \<Longrightarrow> ex_done (ex_step parse decode ev st) = Some r"
  by (cases ev) (auto simp: ex_finish_def ex_abort_def Let_def split: option.splits)

lemma ex_done_run: "ex_done st = Some r \<Longrightarrow> ex_done (fold (ex_step parse decode) evs st) = Some r"
  by (induction evs arbitrary: st) (simp_all add: ex_done_step)

lemma ex_done_closed: "\<exists>r. ex_done (ex_step parse decode (ExClosed c) st) = Some r"
  by (cases "ex_done st"; cases "ex_pending st") (simp_all add: ex_finish_def)

text \<open>The end of the child always settles the promise.\<close>

lemma exec_answers:
  assumes "ExClosed c \<in> set evs"
  shows "\<exists>r. runCodexExec closing parse decode evs = Settled r"
proof -
  obtain evs1 evs2 where e: "evs = evs1 @ ExClosed c # evs2"
    using assms by (metis split_list)
  let ?st = "fold (ex_step parse decode) evs1 ex_start"
  obtain r where "ex_done (ex_step parse decode (ExClosed c) ?st) = Some r"
    using ex_done_closed by blast
  from ex_done_run [OF this] have "ex_done (fold (ex_step parse decode) evs ex_start) = Some r"
    by (simp add: e del: ex_step.simps)
  then show ?thesis by (simp add: runCodexExec_def)
qed

section \<open>One generation\<close>

lemma generate_json_sound:
  assumes "generateJson w model messages = Settled (Inr answer, left)"
  shows "\<not> left \<and> validCodexModel model \<and> messages \<noteq> [] \<and> length messages \<le> 64 \<and> list_all prompt_message messages \<and>
    clean_run (cw_parse w) (cw_decode w) (cw_events w) \<and>
    (\<exists>output kvs. cw_output w = Inr output \<and> length output \<le> 1024 * 1024 \<and> cw_parse w output = Some (JObj kvs) \<and>
       answer = stringify (cw_format w) (JObj kvs))"
proof -
  obtain r where a: "codex_attempt w messages = Settled r" and c: "codex_cleanup (cw_remove w) r = (Inr answer, left)"
    and g: "validCodexModel model" "messages \<noteq> []" "length messages \<le> 64"
    using assms by (auto simp: generateJson_def split: if_splits sum.splits promise.splits)
  from c have r: "r = Inr answer" and l: "\<not> left"
    by (auto simp: codex_cleanup_def split: sum.splits if_splits)
  obtain u where e: "runCodexExec (cw_closing_later w) (cw_parse w) (cw_decode w) (cw_events w) = Settled (Inr u)"
    and m: "list_all prompt_message messages" and o: "\<exists>output kvs. cw_output w = Inr output \<and> length output \<le> 1024 * 1024 \<and>
      cw_parse w output = Some (JObj kvs) \<and> answer = stringify (cw_format w) (JObj kvs)"
    using a unfolding r
    by (auto simp: codex_attempt_def rbind_def codexPrompt_def split: sum.splits promise.splits if_splits option.splits json.splits)
  from e have "clean_run (cw_parse w) (cw_decode w) (cw_events w)"
    by (auto dest: exec_resolves_clean)
  with g l m o show ?thesis by blast
qed

lemma generate_json_leaves:
  assumes "generateJson w model messages = Settled (r, True)"
  shows "\<not> cw_remove w \<and> \<not> is_ok r"
  using assms
  by (auto simp: generateJson_def codex_cleanup_def is_ok_def split: if_splits sum.splits promise.splits)

section \<open>Children\<close>

lemma child_closed_alive [simp]:
  "ch_alive (fold child_closed cs st) = filter (\<lambda>c. c \<notin> set cs) (ch_alive st)"
  "ch_signals (fold child_closed cs st) = ch_signals st" "ch_closing (fold child_closed cs st) = ch_closing st"
proof -
  have "ch_alive (fold child_closed cs st) = filter (\<lambda>c. c \<notin> set cs) (ch_alive st) \<and>
      ch_signals (fold child_closed cs st) = ch_signals st \<and> ch_closing (fold child_closed cs st) = ch_closing st"
    by (induction cs arbitrary: st) (simp_all add: child_closed_def)
  then show "ch_alive (fold child_closed cs st) = filter (\<lambda>c. c \<notin> set cs) (ch_alive st)"
    "ch_signals (fold child_closed cs st) = ch_signals st" "ch_closing (fold child_closed cs st) = ch_closing st" by auto
qed

lemma signalled [simp]:
  "ch_signals (fold (signalChild sg) cs st) = ch_signals st @ map (\<lambda>c. (c, sg)) cs"
  "ch_alive (fold (signalChild sg) cs st) = ch_alive st" "ch_closing (fold (signalChild sg) cs st) = ch_closing st"
  by (induction cs arbitrary: st) (auto simp: signalChild_def)

text \<open>Every tracked child is asked to end, and killed exactly when it has not ended in the first wait.\<close>

lemma terminate_signals:
  "ch_signals (terminateChildren cs grace late st) = ch_signals st @
     map (\<lambda>c. (c, SIGTERM)) (filter (\<lambda>c. c \<in> set (ch_alive st)) cs) @
     map (\<lambda>c. (c, SIGKILL)) (filter (\<lambda>c. c \<in> set (ch_alive st) \<and> c \<notin> set grace) cs)"
proof -
  have "filter (\<lambda>c. c \<in> set (filter (\<lambda>c. c \<notin> set grace) (ch_alive st))) (filter (\<lambda>c. c \<in> set (ch_alive st)) cs) =
      filter (\<lambda>c. c \<in> set (ch_alive st) \<and> c \<notin> set grace) cs"
    by (induction cs) auto
  then show ?thesis by (simp only: terminateChildren_def Let_def signalled child_closed_alive append_assoc)
qed

lemma closed_provider_refuses:
  "fst (spawn_child c (fold child_closed gone (close_provider grace late st))) = Inl ''Codex provider is stopping''"
  by (simp add: spawn_child_def close_provider_def terminateChildren_def Let_def)

fun gone_in :: "wait_event list \<Rightarrow> nat set" where
  "gone_in [] = {}"
| "gone_in (Gone c # evs) = insert c (gone_in evs)"
| "gone_in (WaitTimer # evs) = gone_in evs"

lemma gone_in_append [simp]: "gone_in (evs1 @ evs2) = gone_in evs1 \<union> gone_in evs2"
  by (induction evs1 rule: gone_in.induct) auto

lemma wait_run:
  assumes "distinct waiting" and "waiting \<noteq> []"
  shows "case fold (wait_step waiting) evs ([], False) of (gone, over) \<Rightarrow>
    distinct gone \<and> set gone \<subseteq> set waiting \<and> (\<not> over \<longrightarrow> set gone = set waiting \<inter> gone_in evs) \<and>
    (over \<longleftrightarrow> WaitTimer \<in> set evs \<or> set waiting \<subseteq> gone_in evs)"
proof (induction evs rule: rev_induct)
  case Nil
  from assms show ?case by (cases waiting) auto
next
  case (snoc ev evs)
  obtain gone over where r: "fold (wait_step waiting) evs ([], False) = (gone, over)" by fastforce
  note ih = snoc.IH [unfolded r prod.case]
  show ?case
  proof (cases ev)
    case (Gone c)
    have n: "length (c # gone) = length waiting \<longleftrightarrow> set waiting \<subseteq> set (c # gone)"
      if "distinct (c # gone)" "set (c # gone) \<subseteq> set waiting"
      using that assms(1) by (metis card_subset_eq distinct_card finite_set subset_antisym subset_refl)
    show ?thesis using ih n by (auto simp: r Gone)
  next
    case WaitTimer
    with ih r show ?thesis by auto
  qed
qed

text \<open>\<open>waitForTrackedChildren\<close> resolves when every child it waits for has closed, or the time is over.\<close>

lemma wait_for_children_iff:
  assumes "distinct cs"
  shows "waitForTrackedChildren cs st evs \<longleftrightarrow> WaitTimer \<in> set evs \<or> set cs \<inter> set (ch_alive st) \<subseteq> gone_in evs"
proof (cases "filter (\<lambda>c. c \<in> set (ch_alive st)) cs = []")
  case True
  then show ?thesis by (auto simp: waitForTrackedChildren_def filter_empty_conv)
next
  case False
  with wait_run [of "filter (\<lambda>c. c \<in> set (ch_alive st)) cs" evs] assms show ?thesis
    by (auto simp: waitForTrackedChildren_def Let_def split: prod.splits)
qed

section \<open>The callers\<close>

text \<open>
  The provider of Codex behind the Node Manager and the deployment manager: the interface both rest on, what follows from
  its laws there, and the provider's own status as its instance.
\<close>

section \<open>The interface\<close>

locale codex_backend =
  fixes codex :: codex_status
  assumes listed_signed: "cx_models codex \<noteq> [] \<Longrightarrow> cx_auth codex = ''signed_in''"
    and listed_valid: "m \<in> set (cx_models codex) \<Longrightarrow> validCodexModel m"
    and listed_few: "length (cx_models codex) \<le> 100"

context codex_backend
begin

text \<open>What the deployment manager writes for a chosen Codex model is a valid name of a model of a signed-in session.\<close>

lemma updates_chosen:
  assumes "generation_updates w codex port fresh env sel = Inr u" and "ms_generation sel = Some probe"
    and "gp_source probe = CodexSession" and "gp_model probe = Some m"
  shows "oget u ''GENERATION_MODEL'' = Some m \<and> validCodexModel m \<and> cx_auth codex = ''signed_in''"
  using assms listed_valid
  by (auto simp: generation_updates_def generationProbe_def rbind_eq_Inr Let_def split: if_splits)

lemma source_chosen:
  assumes "select_source h mh nid env found choice st = (Ret (changes, g), st')" and "ds_codex found = codex"
    and "gc_source choice = CodexSession"
  shows "\<exists>m. gc_model choice = Some m \<and> validCodexModel m \<and> g = Some (CodexSession, None, m)"
proof -
  have "\<not> validCodexModel []" by (simp add: validCodexModel_def)
  with assms listed_valid show ?thesis
    by (auto simp: select_source_def after_def bind_def guard_def ret_def throw_def Let_def split: if_splits option.splits)
qed

lemma bridge_lists:
  assumes "\<And>log. mh_codex mh log = codex" and "codexBridgeModels h mh selector authorization st = (Ret models, st')"
  shows "models = cx_models codex \<and> list_all validCodexModel models \<and> length models \<le> 100"
  using assms listed_valid listed_few
  by (auto simp: codexBridgeModels_def codex_status_def list_all_iff ask_def after_def bind_def guard_def ret_def throw_def
      split: if_splits prod.splits outcome.splits)

end

section \<open>The provider\<close>

text \<open>What the callers read of a status; a status that is not there yet is never read.\<close>

definition codex_view :: "session_status promise \<Rightarrow> codex_status" where
  "codex_view p =
     (case p of
        Settled s \<Rightarrow> \<lparr>cx_auth = ss_auth s, cx_models = ss_models s, cx_diagnostic = ss_diagnostic s\<rparr>
      | _ \<Rightarrow> \<lparr>cx_auth = [], cx_models = [], cx_diagnostic = None\<rparr>)"

lemma codex_view_sound:
  assumes p: "p = sessionStatus closing parse binary checked evs"
  shows "(cx_models (codex_view p) \<noteq> [] \<longrightarrow> cx_auth (codex_view p) = ''signed_in'') \<and>
    list_all validCodexModel (cx_models (codex_view p)) \<and> length (cx_models (codex_view p)) \<le> 100"
proof (cases p)
  case (Settled s)
  then have "session_sound s" unfolding p by (rule session_status_sound)
  with Settled show ?thesis by (auto simp: codex_view_def session_sound_def)
qed (simp_all add: codex_view_def)

interpretation session: codex_backend "codex_view (sessionStatus closing parse binary checked evs)"
  for closing parse binary checked evs
  using codex_view_sound [OF refl, of closing parse binary checked evs] by unfold_locales (auto simp: list_all_iff)

section \<open>What it comes to\<close>

lemma session_listed:
  assumes "m \<in> set (cx_models (codex_view (sessionStatus closing parse binary checked evs)))"
  shows "\<exists>replies account. appServerRequests closing parse status_requests evs = Settled (Inr replies) \<and>
    prop_at ''account'' (prop_at ''result'' (oget replies 1)) = Some (JObj account) \<and>
    oget account ''type'' = Some (JStr ''chatgpt'') \<and> m \<in> set (listed_models (oget replies 2))"
proof -
  from assms obtain s where s: "sessionStatus closing parse binary checked evs = Settled s" and m: "m \<in> set (ss_models s)"
    by (auto simp: codex_view_def split: promise.splits)
  have n: "ss_models (no_session available auth diagnostic checked) = []" for available auth diagnostic
    by (simp add: no_session_def)
  from s m obtain replies where a: "appServerRequests closing parse status_requests evs = Settled (Inr replies)"
    and r: "read_session checked replies = Some s"
    by (auto simp: sessionStatus_def n split: option.splits promise.splits sum.splits)
  from r m show ?thesis
    by (auto simp: a read_session_def Let_def bind_eq_Some_conv split: option.splits if_splits)
qed

text \<open>
  C20: A Codex model is chosen only as the Codex session allows.  When the deployment manager turns a selection of Codex into
  settings, the Codex app server has answered that its account is a ChatGPT account and has itself listed the model; the name
  is at most 128 characters of a set without line ends, quotes and spaces, and is what the settings hold.
\<close>

theorem codex_choice_safe:
  assumes "generation_updates w (codex_view (sessionStatus closing parse binary checked evs)) port fresh env sel = Inr u"
    and "ms_generation sel = Some probe" and "gp_source probe = CodexSession" and "gp_model probe = Some m"
  shows "oget u ''GENERATION_MODEL'' = Some m \<and> js_length m \<le> 128 \<and>
    list_all (\<lambda>c. is_alnum c \<or> c \<in> set ''._:+/-'') m \<and>
    (\<exists>replies account. appServerRequests closing parse status_requests evs = Settled (Inr replies) \<and>
       prop_at ''account'' (prop_at ''result'' (oget replies 1)) = Some (JObj account) \<and>
       oget account ''type'' = Some (JStr ''chatgpt'') \<and> m \<in> set (listed_models (oget replies 2)))"
proof -
  from session.updates_chosen [OF assms] have o: "oget u ''GENERATION_MODEL'' = Some m" and v: "validCodexModel m" by auto
  from v have "js_length m \<le> 128 \<and> list_all (\<lambda>c. is_alnum c \<or> c \<in> set ''._:+/-'') m"
    by (cases m) (auto simp: validCodexModel_def)
  moreover have "m \<in> set (cx_models (codex_view (sessionStatus closing parse binary checked evs)))"
    using assms by (auto simp: generation_updates_def generationProbe_def rbind_eq_Inr Let_def split: if_splits)
  ultimately show ?thesis using o session_listed by blast
qed

text \<open>An app server that answers at once, and a selection of the one model it lists\<close>

definition sample_parse :: "string \<Rightarrow> json option" where
  "sample_parse line =
     (if line = ''i'' then Some (JObj [(''id'', JNum 0)])
      else if line = ''a'' then Some (JObj [(''id'', JNum 1),
        (''result'', JObj [(''account'', JObj [(''type'', JStr ''chatgpt'')])])])
      else if line = ''m'' then Some (JObj [(''id'', JNum 2),
        (''result'', JObj [(''data'', JArr [JObj [(''id'', JStr ''g'')]])])])
      else if line = ''o'' then Some (JObj [])
      else if line = ''n'' then Some JNull else None)"

definition sample_selection :: model_selection where
  "sample_selection = \<lparr>ms_embedding = None,
     ms_generation = Some \<lparr>gp_source = CodexSession, gp_model = Some ''g'', gp_connection = None\<rparr>\<rparr>"

lemma sample_answers:
  "appServerRequests False sample_parse status_requests [Line ''i'', Line ''a'', Line ''m''] =
     Settled (Inr [(1, the (sample_parse ''a'')), (2, the (sample_parse ''m''))])"
  by (simp add: appServerRequests_def ap_start_def ap_send_def ap_step_def ap_line_def ap_message_def ap_reply_def ap_finish_def
      sample_parse_def message_id_def prop_at_def truthy_opt_def status_requests_def expected_ids_def Let_def)

lemma sample_view:
  "codex_view (sessionStatus False sample_parse (Some ''codex'') [] [Line ''i'', Line ''a'', Line ''m'']) =
     \<lparr>cx_auth = ''signed_in'', cx_models = [''g''], cx_diagnostic = None\<rparr>"
  unfolding sessionStatus_def option.case sample_answers
  by (simp add: codex_view_def read_session_def sample_parse_def prop_at_def truthy_opt_def listed_models_def Let_def
      List.map_filter_simps entry_model_def str_field_def validCodexModel_def units_def is_alnum_def is_lower_def)

theorem codex_choice_safe_witness:
  "oget [(''GENERATION_SOURCE'', ''codex_session''), (''GENERATION_BASE_URL'', codexBridgeBaseUrl 1 ''local''),
       (''GENERATION_API_KEY'', ''k''), (''GENERATION_MODEL'', ''g''), (''NODE_CODEX_BRIDGE_TOKEN'', ''k'')] ''GENERATION_MODEL'' =
     Some ''g'' \<and> js_length ''g'' \<le> 128"
proof -
  have u: "generation_updates offline_world (codex_view (sessionStatus False sample_parse (Some ''codex'') []
      [Line ''i'', Line ''a'', Line ''m''])) 1 ''k'' [] sample_selection =
      Inr [(''GENERATION_SOURCE'', ''codex_session''), (''GENERATION_BASE_URL'', codexBridgeBaseUrl 1 ''local''),
       (''GENERATION_API_KEY'', ''k''), (''GENERATION_MODEL'', ''g''), (''NODE_CODEX_BRIDGE_TOKEN'', ''k'')]"
    unfolding sample_view
    by (simp add: generation_updates_def generationProbe_def sample_selection_def rbind_def eget_def eget_or_def nodeId_def Let_def)
  show ?thesis
    using codex_choice_safe [OF u, of "\<lparr>gp_source = CodexSession, gp_model = Some ''g'', gp_connection = None\<rparr>" "''g''"]
    by (simp add: sample_selection_def)
qed

text \<open>
  C40: A line that holds \<open>null\<close>, before the status has been read, makes the handler read a property of \<open>null\<close>: the exception
  leaves the handler of an event, and nothing catches it there.
\<close>

theorem null_line_crashes:
  assumes "appServerRequests False parse status_requests evs1 = Waiting" and "parse line = Some JNull"
    and "sum_list (map line_bytes evs1) + length line \<le> 4 * 1024 * 1024"
  shows "sessionStatus False parse (Some binary) checked (evs1 @ Line line # evs2) = Crashed"
proof -
  let ?st = "fold (ap_step parse status_requests) evs1 ap_start"
  have t: "\<not> ap_thrown ?st"
    using assms(1) by (auto simp: appServerRequests_def Let_def)
  have "ap_bytes ?st + length line \<le> 4 * 1024 * 1024"
    using assms(3) ap_bytes_run [of parse status_requests evs1 ap_start] by (simp add: ap_start_def)
  with assms(2) t have s: "ap_thrown (ap_step parse status_requests (Line line) ?st)"
    by (simp add: ap_step_def ap_line_def ap_message_def Let_def)
  have "ap_thrown (fold (ap_step parse status_requests) (evs1 @ Line line # evs2) ap_start)"
    unfolding fold_append fold_simps o_def ap_thrown_run [OF s] by (rule s)
  then show ?thesis
    unfolding sessionStatus_def appServerRequests_def Let_def by (simp del: fold_append fold_simps)
qed

theorem null_line_crashes_witness:
  "sessionStatus False sample_parse (Some ''codex'') [] ([Line ''i''] @ Line ''n'' # [Line ''a'', Line ''m'']) = Crashed"
proof (rule null_line_crashes)
  show "appServerRequests False sample_parse status_requests [Line ''i''] = Waiting"
    by (simp add: appServerRequests_def ap_start_def ap_send_def ap_step_def ap_line_def ap_message_def ap_finish_def
        sample_parse_def message_id_def prop_at_def truthy_opt_def status_requests_def Let_def)
  show "sample_parse ''n'' = Some JNull"
    by (simp add: sample_parse_def)
qed simp

text \<open>
  C19: A generation is answered only by a clean run, and cleans up.  An answer is the print of a JSON object the child has left
  in its output file, at most 1 MiB; the child has ended with 0, without a timeout, an error or more than 4 MiB of output before,
  and its events name no tool; the model's name is valid and the messages are well-formed.  The directory of the run is
  left behind only when its removal has failed, and then the generation has failed too.
\<close>

theorem codex_answer_clean:
  assumes "generateJson w model messages = Settled (r, left)"
  shows "(left \<longrightarrow> \<not> cw_remove w \<and> \<not> is_ok r) \<and>
    (\<forall>answer. r = Inr answer \<longrightarrow>
       validCodexModel model \<and> messages \<noteq> [] \<and> length messages \<le> 64 \<and> list_all prompt_message messages \<and>
       clean_run (cw_parse w) (cw_decode w) (cw_events w) \<and>
       (\<exists>output kvs. cw_output w = Inr output \<and> length output \<le> 1024 * 1024 \<and> cw_parse w output = Some (JObj kvs) \<and>
          answer = stringify (cw_format w) (JObj kvs)))"
proof (intro conjI impI allI)
  assume left
  with assms show "\<not> cw_remove w" "\<not> is_ok r"
    using generate_json_leaves [of w model messages r] by simp_all
qed (use assms generate_json_sound in \<open>blast+\<close>)

definition sample_run :: codex_world where
  "sample_run = \<lparr>cw_closing = False, cw_closing_later = False, cw_binary = Some ''codex'', cw_format = \<lambda>_. [],
     cw_parse = sample_parse, cw_decode = id, cw_mkdir = Inr (), cw_write = Inr (), cw_events = [ExOut ''x'', ExClosed (Some 0)],
     cw_output = Inr ''o'', cw_remove = True\<rparr>"

theorem codex_answer_clean_witness:
  "clean_run sample_parse id [ExOut ''x'', ExClosed (Some 0)]"
proof -
  let ?m = "[JObj [(''role'', JStr ''user''), (''content'', JStr ''hi'')]]"
  have c: "\<not> containsToolUse sample_parse ''x''"
    by (simp add: containsToolUse_def text_lines_def strip_cr_def tool_event_def sample_parse_def Let_def)
  have "generateJson sample_run ''g'' ?m = Settled (Inr ''{}'', False)"
    by (simp add: generateJson_def sample_run_def validCodexModel_def units_def is_alnum_def is_lower_def codex_attempt_def rbind_def
        codexPrompt_def prompt_message_def prop_at_def quote_def escape_char_def runCodexExec_def ex_start_def ex_finish_def c
        codex_cleanup_def Let_def) (simp add: sample_parse_def)
  from codex_answer_clean [OF this] show ?thesis by (simp add: sample_run_def)
qed

end
