(* ===== verification/NodeSetup.thy ===== *)
theory NodeSetup
  imports EnvFileProps NodeConfigProps
begin

text \<open>
  The first env file of a node deployment (\<open>apps/manager/src/node-deployment-manager.ts\<close>): \<open>initializeConfig\<close> fills the
  template of the deployment directory with generated values, \<open>readPrivateText\<close> reads a private file, \<open>mcpConfig\<close>
  writes the settings of a client.
\<close>

section \<open>The template\<close>

text \<open>The lines of \<open>node.env.example\<close>\<close>

definition node_env_lines :: "string list" where
  "node_env_lines = [
     ''COMPOSE_PROJECT_NAME=neuromem-node'',
     ''NEUROMEM_NODE_ID=replace-with-node-uuid'',
     '''',
     ''# Public edge. Cloudflare Tunnel is the only supported public ingress.'',
     ''NEUROMEM_PUBLIC_HOST=memory.example.com'',
     ''CLOUDFLARE_TUNNEL_TOKEN=replace-with-cloudflare-tunnel-token'',
     ''EDGE_LOOPBACK_PORT=24443'',
     ''NODE_MANAGER_URL=http://host.docker.internal:14174'',
     ''NODE_MANAGER_TIMEOUT_SECONDS=600'',
     '''',
     ''# Control plane database and signing secrets.'',
     ''CONTROL_POSTGRES_DB=neuromem_control'',
     ''CONTROL_POSTGRES_USER=neuromem_control'',
     ''CONTROL_POSTGRES_PASSWORD=replace-with-random-secret'',
     ''CONTROL_TOKEN_PEPPER=replace-with-32-byte-random-secret'',
     ''CONTROL_INTERNAL_SIGNING_KEY=replace-with-32-byte-random-secret'',
     ''CONTROL_SECURE_COOKIES=true'',
     '''',
     ''# Local loopback testing only. Never enable with a public host or Cloudflare Tunnel.'',
     ''LOCAL_TEST_LOGIN_PREFILL=false'',
     ''LOCAL_TEST_LOGIN_EMAIL='',
     ''LOCAL_TEST_LOGIN_PASSWORD='',
     '''',
     ''# AGPL memory-core database/cache.'',
     ''MEMORY_POSTGRES_DB=neuromem_memory'',
     ''MEMORY_POSTGRES_USER=neuromem_memory'',
     ''MEMORY_POSTGRES_PASSWORD=replace-with-random-secret'',
     ''MEMORY_REDIS_PASSWORD=replace-with-random-secret'',
     ''MEMORY_INTERNAL_SIGNING_KEY=replace-with-the-control-signing-key'',
     ''MEMORY_AUTH_JWT_SECRET=replace-with-random-jwt-signing-secret'',
     '''',
     ''# Model endpoints remain on the private Docker network or host loopback.'',
     ''EMBEDDING_BASE_URL=http://host.docker.internal:11434/v1'',
     ''EMBEDDING_API_KEY=local-model'',
     ''EMBEDDING_MODEL=qwen3-embedding-honcho-8192'',
     ''EMBEDDING_VECTOR_DIMENSIONS=1536'',
     ''GENERATION_BASE_URL=http://host.docker.internal:11435/v1'',
     ''GENERATION_API_KEY=local-model'',
     ''GENERATION_MODEL=nvidia/Qwen3.6-35B-A3B-NVFP4'',
     ''GENERATION_SOURCE=openai_compatible'',
     ''GENERATION_DIRECT_BASE_URL=http://host.docker.internal:11435/v1'',
     ''GENERATION_DIRECT_API_KEY=local-model'',
     ''GENERATION_DIRECT_MODEL=nvidia/Qwen3.6-35B-A3B-NVFP4'',
     ''NODE_CODEX_BRIDGE_TOKEN=replace-with-random-secret'',
     ''DERIVER_BATCH_TARGET_TOKENS=512'',
     ''DERIVER_BATCH_MAX_AGE_SECONDS=1800'',
     '''',
     ''# Immutable deployment inputs. Pin released images by digest in production.'',
     ''MEMORY_CORE_IMAGE=ghcr.io/chenjingdev/neuromem-memory-core@sha256:15669c488866012c2762a4eefca2e8e9aa3b589a3eb874f12e49c8917aa7e365'',
     ''MEMORY_CORE_SOURCE_URL=https://github.com/chenjingdev/neuromem-memory-core'',
     ''MEMORY_CORE_SOURCE_REVISION=307a6051ffe0b56bfaad88d8c905f4aa00f73724'',
     ''CONTROL_IMAGE=neuromem-control:local'',
     ''MCP_IMAGE=neuromem-mcp:local'',
     ''WEB_IMAGE=neuromem-web:local'',
     '''',
     ''# The model server is external by default on Mac and DGX. A future pinned'',
     ''# Compose model profile may set this true after its image has been qualified.'',
     ''DGX_MODEL_ENABLED=false'',
     '''',
     ''# Named volumes make rollback explicit.'',
     ''CONTROL_DB_VOLUME=neuromem-node-control-db'',
     ''MEMORY_DB_VOLUME=neuromem-node-memory-db'',
     ''MEMORY_REDIS_VOLUME=neuromem-node-memory-redis'',
     ''MCP_STATE_VOLUME=neuromem-node-mcp'',
     '''']"

section \<open>\<open>initializeConfig\<close>\<close>

text \<open>\<open>crypto.randomBytes(32).toString("base64url")\<close>, call by call, \<open>crypto.randomUUID()\<close>, and the port of the manager\<close>

record setup_world =
  su_random :: "nat \<Rightarrow> string"
  su_uuid :: string
  su_port :: nat

definition config_values :: "setup_world \<Rightarrow> (string \<times> string) list" where
  "config_values w = [
     (''COMPOSE_PROJECT_NAME'', ''neuromem-node''),
     (''NEUROMEM_NODE_ID'', su_uuid w),
     (''NEUROMEM_PUBLIC_HOST'', ''localhost''),
     (''CLOUDFLARE_TUNNEL_TOKEN'', []),
     (''CONTROL_POSTGRES_PASSWORD'', su_random w 2),
     (''CONTROL_TOKEN_PEPPER'', su_random w 3),
     (''CONTROL_INTERNAL_SIGNING_KEY'', su_random w 0),
     (''CONTROL_SECURE_COOKIES'', ''false''),
     (''MEMORY_POSTGRES_PASSWORD'', su_random w 4),
     (''MEMORY_REDIS_PASSWORD'', su_random w 5),
     (''MEMORY_INTERNAL_SIGNING_KEY'', su_random w 0),
     (''MEMORY_AUTH_JWT_SECRET'', su_random w 6),
     (''GENERATION_BASE_URL'', ''http://host.docker.internal:'' @ dec_str (su_port w) @ ''/v1/internal/codex/nodes/'' @ su_uuid w),
     (''GENERATION_API_KEY'', su_random w 1),
     (''GENERATION_MODEL'', ''gpt-5.6-sol''),
     (''GENERATION_SOURCE'', ''codex_session''),
     (''GENERATION_DIRECT_BASE_URL'', []),
     (''GENERATION_DIRECT_API_KEY'', []),
     (''GENERATION_DIRECT_MODEL'', []),
     (''NODE_CODEX_BRIDGE_TOKEN'', su_random w 1),
     (''CONTROL_DB_VOLUME'', ''neuromem-node-control-db''),
     (''MEMORY_DB_VOLUME'', ''neuromem-node-memory-db''),
     (''MEMORY_REDIS_VOLUME'', ''neuromem-node-memory-redis''),
     (''MCP_STATE_VOLUME'', ''neuromem-node-mcp'')]"

fun fill_template :: "string \<Rightarrow> (string \<times> string) list \<Rightarrow> string res" where
  "fill_template content [] = Inr content"
| "fill_template content ((key, v) # vals) =
     (case find_entry key True [] content of
        None \<Rightarrow> Inl (''Node env template is missing '' @ key)
      | Some (before, matched, after) \<Rightarrow>
          fill_template (before @ expand_replacement before matched after (key @ ''='' @ v) @ after) vals)"

text \<open>The state is the env file, if there is one.\<close>

definition initializeConfig :: "setup_world \<Rightarrow> string res \<Rightarrow> string option \<Rightarrow> unit res \<times> string option" where
  "initializeConfig w template st =
     (if st \<noteq> None then (Inl ''Node env already exists'', st)
      else case rbind template (\<lambda>content. fill_template content (config_values w)) of
          Inl e \<Rightarrow> (Inl e, st)
        | Inr content \<Rightarrow> (Inr (), Some content))"

section \<open>Private files\<close>

text \<open>What \<open>fs.stat\<close> tells of a path, and the text of the file\<close>

record private_file =
  pr_is_file :: bool
  pr_mode :: nat
  pr_text :: string

definition readPrivateText :: "bool \<Rightarrow> private_file option \<Rightarrow> string res" where
  "readPrivateText windows f =
     (case f of
        None \<Rightarrow> Inl ''private file does not exist''
      | Some p \<Rightarrow>
          if \<not> pr_is_file p then Inl ''private path is not a file''
          else if \<not> windows \<and> pr_mode p mod 64 \<noteq> 0 then Inl ''private file permissions must be 0600''
          else Inr (pr_text p))"

section \<open>\<open>mcpConfig\<close>\<close>

text \<open>\<open>JSON.stringify(value, null, 2)\<close>\<close>

fun pretty :: "(rat \<Rightarrow> string) \<Rightarrow> nat \<Rightarrow> json \<Rightarrow> string" where
  "pretty fmt d (JArr []) = ''[]''"
| "pretty fmt d (JArr (x # xs)) = ''['' @ [LF] @
     join ('','' @ [LF]) (map (\<lambda>v. replicate (d + 2) (CHR '' '') @ pretty fmt (d + 2) v) (x # xs)) @ [LF] @ replicate d (CHR '' '') @ '']''"
| "pretty fmt d (JObj []) = ''{}''"
| "pretty fmt d (JObj (e # es)) = ''{'' @ [LF] @
     join ('','' @ [LF]) (map (\<lambda>kv. replicate (d + 2) (CHR '' '') @ quote (fst kv) @ '': '' @ pretty fmt (d + 2) (snd kv)) (e # es)) @
       [LF] @ replicate d (CHR '' '') @ ''}''"
| "pretty fmt d v = stringify fmt v"

definition mcpConfig :: "(rat \<Rightarrow> string) \<Rightarrow> node_config res \<Rightarrow> string res \<Rightarrow> string \<Rightarrow> string res" where
  "mcpConfig fmt config credential format =
     rbind config (\<lambda>cfg.
     rbind credential (\<lambda>raw.
     let token = trim raw; url = cfg_public_url cfg @ ''/mcp''
     in if length token < 32 \<or> bad_control token then Inl ''Node MCP credential file is invalid''
        else if format = ''toml''
        then Inr (''[mcp_servers.neuromem]'' @ [LF] @ ''url = '' @ quote url @ [LF] @
               ''http_headers = { Authorization = '' @ quote (''Bearer '' @ token) @ '' }'' @ [LF])
        else if format \<noteq> ''json'' then Inl ''MCP config format must be json or toml''
        else Inr (pretty fmt 0 (JObj [(''mcpServers'', JObj [(''neuromem'', JObj [(''url'', JStr url),
               (''headers'', JObj [(''Authorization'', JStr (''Bearer '' @ token))])])])]) @ [LF])))"

end
