(* ===== verification/NodeOps.thy ===== *)
theory NodeOps
  imports NodeStart NodeSetup CodexProvider
begin

text \<open>
  The operations of a node deployment besides its start (\<open>apps/manager/src/node-deployment-manager.ts\<close>): its status, its
  logs, the rehearsals of a migration and of a backup, and what it tells of its models.  Commands are answered as in
  NodeStart; a command that is not one of \<open>docker compose\<close> is recorded with \<open>docker\<close> in front.
\<close>

section \<open>The output of \<open>docker compose ps\<close>\<close>

fun all_some :: "'a option list \<Rightarrow> 'a list option" where
  "all_some [] = Some []"
| "all_some (x # xs) = (case x of None \<Rightarrow> None | Some v \<Rightarrow> map_option ((#) v) (all_some xs))"

definition unread_services :: "string \<Rightarrow> json list" where
  "unread_services raw =
     [JObj [(''service'', JStr ''compose''), (''state'', JStr ''unknown''), (''detail'', JStr (js_slice 2000 raw))]]"

definition parseComposePs :: "(string \<Rightarrow> json option) \<Rightarrow> string \<Rightarrow> json list" where
  "parseComposePs parse raw =
     (if trim raw = [] then []
      else case (if hd (trim raw) = CHR ''['' then Option.bind (parse raw) as_array
                 else all_some (map parse (filter (\<lambda>l. l \<noteq> []) (text_lines raw)))) of
          None \<Rightarrow> unread_services raw
        | Some services \<Rightarrow> services)"

text \<open>\<open>String(a || b || ... || last)\<close>\<close>

definition first_text :: "(rat \<Rightarrow> string) \<Rightarrow> fields \<Rightarrow> string list \<Rightarrow> string \<Rightarrow> string" where
  "first_text fmt service keys fallback =
     (case find truthy (List.map_filter (oget service) keys) of None \<Rightarrow> fallback | Some v \<Rightarrow> js_string fmt v)"

definition service_component :: "(rat \<Rightarrow> string) \<Rightarrow> fields \<Rightarrow> component" where
  "service_component fmt service =
     \<lparr>cp_name = first_text fmt service [''Service'', ''service'', ''Name'', ''name''] ''unknown'',
      cp_state = to_lower (first_text fmt service [''State'', ''state''] ''unknown''),
      cp_health = (if truthy_opt (oget service ''Health'') then map_option (to_lower \<circ> js_string fmt) (oget service ''Health'') else None),
      cp_detail = first_text fmt service [''Status'', ''status'', ''Health'', ''health''] []\<rparr>"

text \<open>Reading a property of \<open>null\<close> throws.\<close>

definition service_components :: "(rat \<Rightarrow> string) \<Rightarrow> json list \<Rightarrow> component list res" where
  "service_components fmt services =
     rmap_list (\<lambda>s. case props s of None \<Rightarrow> Inl ''Cannot read properties of null'' | Some p \<Rightarrow> Inr (service_component fmt p)) services"

section \<open>Status\<close>

definition PS_COMMAND :: "string list" where
  "PS_COMMAND = [''ps'', ''--format'', ''json'']"

record plain_status =
  ps_ok :: bool
  ps_project :: string
  ps_url :: string
  ps_services :: "json list"
  ps_compute :: "source_status \<times> source_status"
  ps_error :: "string option"

definition node_status :: "answers \<Rightarrow> (string \<Rightarrow> json option) \<Rightarrow> node_world \<Rightarrow> env \<Rightarrow> plain_status run" where
  "node_status answer parse w env =
     and_then (validate_run answer env) (\<lambda>config.
     and_then (compose_run answer env None True PS_COMMAND) (\<lambda>r.
     give (Inr \<lparr>ps_ok = cr_ok r, ps_project = cfg_project config, ps_url = cfg_public_url config,
       ps_services = parseComposePs parse (cr_stdout r), ps_compute = (embedding_status w env, generation_status w env),
       ps_error = (if cr_ok r then None else Some (or_text (cr_stderr r) ''docker compose ps failed''))\<rparr>)))"

text \<open>What \<open>computeProviderStatus\<close> reads of a source, probed just now or verified before\<close>

record model_view =
  mv_model :: string
  mv_status :: string
  mv_detail :: "string option"
  mv_provider :: "string option"

definition live_view :: "source_status \<Rightarrow> model_view" where
  "live_view s = \<lparr>mv_model = cs_model s, mv_status = cs_status s, mv_detail = cs_detail s, mv_provider = cs_provider s\<rparr>"

definition cached_view :: "fields \<Rightarrow> model_view" where
  "cached_view f =
     (let text = (\<lambda>k. case str_field f k of None \<Rightarrow> [] | Some v \<Rightarrow> v)
      in \<lparr>mv_model = text ''model'', mv_status = text ''status'', mv_detail = str_field f ''detail'', mv_provider = str_field f ''provider''\<rparr>)"

definition nonempty :: "string option \<Rightarrow> string option" where
  "nonempty v = (if v = Some [] then None else v)"

text \<open>The model, the status of its provider, and its detail\<close>

definition computeProviderStatus :: "model_view \<Rightarrow> string \<times> string \<times> string option" where
  "computeProviderStatus v =
     (mv_model v,
      if mv_status v = ''ready'' then ''ready'' else if mv_status v = ''unavailable'' then ''error'' else ''unknown'',
      case nonempty (mv_detail v) of Some d \<Rightarrow> Some d | None \<Rightarrow> nonempty (mv_provider v))"

record admin_status =
  as_node_id :: string
  as_alias :: string
  as_port :: "rat option"
  as_desired :: string
  as_phase :: string
  as_project :: string
  as_schema :: string
  as_docker :: bool
  as_components :: "component list"
  as_endpoints :: "string \<times> string \<times> string"
  as_models :: "(string \<times> string \<times> string option) \<times> (string \<times> string \<times> string option)"
  as_error :: "string option"

definition adminStatus ::
    "answers \<Rightarrow> (string \<Rightarrow> json option) \<Rightarrow> (rat \<Rightarrow> string) \<Rightarrow> node_world \<Rightarrow> (fields \<times> fields) option \<Rightarrow> env \<Rightarrow> admin_status run" where
  "adminStatus answer parse fmt w cached env =
     and_then (validate_run answer env) (\<lambda>config.
     and_then (compose_run answer env None True PS_COMMAND) (\<lambda>r.
     and_then (give (service_components fmt (parseComposePs parse (cr_stdout r)))) (\<lambda>components.
     let views = (case cached of
                    Some (e, g) \<Rightarrow> (cached_view e, cached_view g)
                  | None \<Rightarrow> (live_view (embedding_status w env), live_view (generation_status w env)));
         phase = admin_phase (cr_ok r) components (case cached of None \<Rightarrow> None | Some _ \<Rightarrow> Some [mv_status (fst views), mv_status (snd views)])
     in give (Inr \<lparr>as_node_id = nodeId env,
          as_alias = or_text (eget env ''NEUROMEM_NODE_NAME'') (or_text (eget env ''COMPOSE_PROJECT_NAME'') ''Neuromem Node''),
          as_port = str_number (eget_or env ''EDGE_LOOPBACK_PORT'' ''24443''),
          as_desired = (if phase = ''stopped'' then ''stopped'' else ''running''), as_phase = phase,
          as_project = eget env ''COMPOSE_PROJECT_NAME'', as_schema = eget_or env ''MEMORY_CORE_SOURCE_REVISION'' ''unknown'',
          as_docker = cr_ok r, as_components = components,
          as_endpoints = (cfg_public_url config @ ''/api'', cfg_public_url config, cfg_public_url config @ ''/mcp''),
          as_models = (computeProviderStatus (fst views), computeProviderStatus (snd views)),
          as_error = (if cr_ok r then None else Some (or_text (cr_stderr r) ''Docker Compose status failed''))\<rparr>))))"

section \<open>Logs\<close>

definition NODE_SERVICES :: "string list" where
  "NODE_SERVICES = [''control-database'', ''memory-database'', ''memory-redis'', ''memory-core'', ''memory-worker'',
     ''control'', ''mcp'', ''web'', ''edge'', ''cloudflared'', ''generation-model'']"

text \<open>\<open>text.slice(-n)\<close>\<close>

fun drop_units :: "nat \<Rightarrow> string \<Rightarrow> string" where
  "drop_units n [] = []"
| "drop_units n (c # cs) = (if n = 0 \<and> units c \<noteq> 0 then c # cs else drop_units (n - units c) cs)"

definition slice_last :: "nat \<Rightarrow> string \<Rightarrow> string" where
  "slice_last n s = (if js_length s \<le> n then s else drop_units (js_length s - n) s)"

definition node_logs :: "answers \<Rightarrow> env \<Rightarrow> string \<Rightarrow> int \<Rightarrow> string run" where
  "node_logs answer env service tail =
     (if service \<notin> set NODE_SERVICES then give (Inl (''unsupported Node service '' @ [CHR 0x27] @ service @ [CHR 0x27]))
      else if tail < 1 \<or> 5000 < tail then give (Inl ''tail must be between 1 and 5000'')
      else and_then (validate_run answer env) (\<lambda>_.
           and_then (compose_run answer env None True [''logs'', ''--no-color'', ''--tail'', dec_str (nat tail), service]) (\<lambda>r.
             give (Inr (slice_last 2000000 (join [LF] (filter (\<lambda>s. s \<noteq> []) [cr_stdout r, cr_stderr r])))))))"

section \<open>The rehearsal of a migration\<close>

text \<open>
  \<open>raw.toLowerCase().match(/\b[0-9a-f]{7,64}\b/g)\<close>: a boundary is between a word character and another one, so a match is a
  maximal run of word characters.
\<close>

definition is_word :: "char \<Rightarrow> bool" where
  "is_word c = (is_alnum c \<or> c = CHR ''_'')"

function word_runs :: "string \<Rightarrow> string list" where
  "word_runs s =
     (case dropWhile (\<lambda>c. \<not> is_word c) s of
        [] \<Rightarrow> []
      | c # cs \<Rightarrow> (c # takeWhile is_word cs) # word_runs (dropWhile is_word cs))"
  by auto

termination
proof (relation "measure length", simp)
  fix s c cs assume e: "dropWhile (\<lambda>c. \<not> is_word c) s = c # cs"
  have "length (dropWhile is_word cs) \<le> length cs" by (rule length_dropWhile_le)
  also have "length cs < length (dropWhile (\<lambda>c. \<not> is_word c) s)" by (simp add: e)
  also have "length (dropWhile (\<lambda>c. \<not> is_word c) s) \<le> length s" by (rule length_dropWhile_le)
  finally show "(dropWhile is_word cs, s) \<in> measure length" by simp
qed

declare word_runs.simps [simp del]

definition revisionIds :: "string \<Rightarrow> string list" where
  "revisionIds raw = uniq (filter (\<lambda>r. 7 \<le> length r \<and> length r \<le> 64 \<and> list_all is_hex_lower r) (word_runs (to_lower raw)))"

definition DATABASE_UP :: "string list" where
  "DATABASE_UP = [''up'', ''-d'', ''--wait'', ''--wait-timeout'', ''300'', ''memory-database'']"

definition alembic :: "string \<Rightarrow> string list" where
  "alembic command = [''run'', ''--rm'', ''--no-deps'', ''--entrypoint'', ''/app/.venv/bin/alembic'', ''memory-core'', command]"

definition revision_ok :: "string \<Rightarrow> bool" where
  "revision_ok r = (1 \<le> length r \<and> length r \<le> 128 \<and> list_all (\<lambda>c. is_alnum c \<or> c \<in> set ''._-'') r)"

definition at_revision :: "string \<Rightarrow> string list \<Rightarrow> string list \<Rightarrow> bool" where
  "at_revision target current heads =
     (if target = ''head'' then heads \<noteq> [] \<and> list_all (\<lambda>r. r \<in> set current) heads
      else list_ex (\<lambda>r. starts_with (to_lower target) r) current)"

record migration_report =
  mr_ok :: bool
  mr_target :: string
  mr_current :: "string list"
  mr_heads :: "string list"
  mr_error :: "string option"

definition migrationRehearsal :: "answers \<Rightarrow> env \<Rightarrow> string \<Rightarrow> migration_report run" where
  "migrationRehearsal answer env target =
     (if \<not> revision_ok target then give (Inl ''invalid migration target revision'')
      else and_then (validate_run answer env) (\<lambda>_.
           and_then (compose_run answer env None False DATABASE_UP) (\<lambda>_.
           and_then (compose_run answer env None True (alembic ''current'')) (\<lambda>current.
           and_then (compose_run answer env None True (alembic ''heads'')) (\<lambda>heads.
           let cs = revisionIds (cr_stdout current); hs = revisionIds (cr_stdout heads);
               good = (cr_ok current \<and> cr_ok heads \<and> at_revision target cs hs)
           in give (Inr \<lparr>mr_ok = good, mr_target = target, mr_current = cs, mr_heads = hs,
                mr_error = (if good then None else Some (or_text (cr_stderr current) (or_text (cr_stderr heads)
                  ''Memory Core database is not at the requested revision'')))\<rparr>))))))"

section \<open>The rehearsal of a backup\<close>

definition docker_run :: "answers \<Rightarrow> string list \<Rightarrow> command_result run" where
  "docker_run answer command st =
     (let args = ''docker'' # command; r = answer (rs_commands st) args; st = st\<lparr>rs_commands := rs_commands st @ [args]\<rparr>
      in if \<not> cr_ok r then (Inl (''docker failed'' @ cr_stderr r), st) else (Inr r, st))"

definition dump_command :: "string \<Rightarrow> string \<Rightarrow> string \<Rightarrow> string list" where
  "dump_command service user database = [''exec'', ''-T'', service, ''pg_dump'', ''-U'', user, ''-d'', database, ''-Fc'', ''-Z'', ''3'']"

definition list_dump :: "string \<Rightarrow> string \<Rightarrow> string list" where
  "list_dump dump img = [''run'', ''--rm'', ''--mount'', ''type=bind,source='' @ dump @ '',target=/backup/database.dump,readonly'',
     ''--entrypoint'', ''pg_restore'', img, ''--list'', ''/backup/database.dump'']"

record dump_file =
  df_name :: string
  df_bytes :: nat
  df_sha :: string

record backup_manifest =
  bm_created :: string
  bm_project :: string
  bm_files :: "dump_file list"

text \<open>
  \<open>target\<close> is the directory with whether it is there already, \<open>stat\<close> the size and hash of a file after the commands given.  A
  manifest is returned exactly if it has been written.
\<close>

definition backupRehearsal :: "answers \<Rightarrow> (string list list \<Rightarrow> string \<Rightarrow> nat \<times> string) \<Rightarrow> string \<Rightarrow> env \<Rightarrow> string \<times> bool \<Rightarrow>
    backup_manifest run" where
  "backupRehearsal answer stat now env target =
     and_then (validate_run answer env) (\<lambda>config.
     and_then (give (require (\<not> snd target) (''backup rehearsal output already exists: '' @ fst target))) (\<lambda>_.
     let control = fst target @ ''/control.dump''; memory = fst target @ ''/memory.dump'' in
     and_then (compose_run answer env None False (dump_command ''control-database'' (eget env ''CONTROL_POSTGRES_USER'') (eget env ''CONTROL_POSTGRES_DB''))) (\<lambda>_.
     and_then (compose_run answer env None False (dump_command ''memory-database'' (eget env ''MEMORY_POSTGRES_USER'') (eget env ''MEMORY_POSTGRES_DB''))) (\<lambda>_.
     and_then (docker_run answer (list_dump control ''postgres:15-bookworm'')) (\<lambda>_.
     and_then (docker_run answer (list_dump memory ''pgvector/pgvector:0.8.6-pg15'')) (\<lambda>_ st.
     give (Inr \<lparr>bm_created = now, bm_project = cfg_project config,
        bm_files = map (\<lambda>(n, p). \<lparr>df_name = n, df_bytes = fst (stat (rs_commands st) p), df_sha = snd (stat (rs_commands st) p)\<rparr>)
          [(''control.dump'', control), (''memory.dump'', memory)]\<rparr>) st))))))"

section \<open>What is told of the models\<close>

record generation_answer =
  ga_source :: source
  ga_models :: "string list"
  ga_compatible :: bool
  ga_diagnostic :: "string option"
  ga_display :: "string option"
  ga_key :: bool

text \<open>\<open>generationProbe\<close>, with the answer it builds; whether it throws is the \<open>generationProbe\<close> of ModelSelection.\<close>

definition probe_answer :: "node_world \<Rightarrow> codex_status \<Rightarrow> env \<Rightarrow> generation_probe \<Rightarrow> generation_answer res" where
  "probe_answer w codex env probe =
     rbind (generationProbe w codex env probe) (\<lambda>_.
     case gp_source probe of
       CodexSession \<Rightarrow>
         Inr \<lparr>ga_source = CodexSession, ga_models = cx_models codex, ga_compatible = (nonempty (gp_model probe) \<noteq> None),
           ga_diagnostic = None, ga_display = None, ga_key = False\<rparr>
     | OpenaiCompatible \<Rightarrow>
         rbind (resolveDirectConnection w env (gp_connection probe)) (\<lambda>(base, key).
         let chosen = (case nonempty (gp_model probe) of Some m \<Rightarrow> m
                       | None \<Rightarrow> or_text (eget env ''GENERATION_DIRECT_MODEL'') (eget env ''GENERATION_MODEL''));
             status = probeComputeSource w True base chosen
         in Inr \<lparr>ga_source = OpenaiCompatible, ga_models = cs_models status,
              ga_compatible = (case nonempty (gp_model probe) of None \<Rightarrow> False
                | Some m \<Rightarrow> cs_models status = [] \<or> m \<in> set (cs_models status)),
              ga_diagnostic = (if cs_status status = ''ready'' then None
                else Some (case nonempty (cs_detail status) of Some d \<Rightarrow> d | None \<Rightarrow> ''Generation provider is unavailable'')),
              ga_display = Some (cs_endpoint status), ga_key = (key \<noteq> [])\<rparr>))"

text \<open>The direct connection of a node, and what a status says to the administrator\<close>

definition direct_of :: "env \<Rightarrow> source \<Rightarrow> string \<Rightarrow> string \<Rightarrow> string" where
  "direct_of env active direct plain = or_text (eget env direct) (if active = OpenaiCompatible then eget env plain else [])"

definition model_diagnostic :: "string \<Rightarrow> source_status \<Rightarrow> string option" where
  "model_diagnostic fallback s =
     (if cs_status s = ''ready'' then None
      else Some (case nonempty (cs_detail s) of Some d \<Rightarrow> d | None \<Rightarrow> fallback))"

record model_snapshot =
  ml_embedding :: "string option"
  ml_embedding_models :: "string list"
  ml_embedding_diagnostic :: "string option"
  ml_active :: source
  ml_generation :: "string option"
  ml_generation_models :: "string list"
  ml_generation_diagnostic :: "string option"
  ml_direct_configured :: bool
  ml_direct_display :: "string option"
  ml_direct_key :: bool
  ml_direct_model :: "string option"
  ml_direct_models :: "string list"
  ml_direct_diagnostic :: "string option"

definition modelSelection :: "node_world \<Rightarrow> codex_status \<Rightarrow> env \<Rightarrow> model_snapshot res" where
  "modelSelection w codex env =
     (let embedding = embedding_status w env; generation = generation_status w env;
          active = generationSource env (Some (cs_source generation));
          base = direct_of env active ''GENERATION_DIRECT_BASE_URL'' ''GENERATION_BASE_URL'';
          model = direct_of env active ''GENERATION_DIRECT_MODEL'' ''GENERATION_MODEL'';
          key = direct_of env active ''GENERATION_DIRECT_API_KEY'' ''GENERATION_API_KEY'';
          direct = (if base = [] then None else Some (probeComputeSource w True base (or_text model (eget env ''GENERATION_MODEL''))));
          models = (case direct of None \<Rightarrow> [] | Some d \<Rightarrow> cs_models d)
      in rbind (if base = [] then Inr None else rbind (displayEndpoint w base) (\<lambda>shown. Inr (Some shown))) (\<lambda>display.
         Inr \<lparr>ml_embedding = nonempty (Some (eget env ''EMBEDDING_MODEL'')), ml_embedding_models = cs_models embedding,
           ml_embedding_diagnostic = model_diagnostic ''Embedding provider is unavailable'' embedding,
           ml_active = active, ml_generation = nonempty (Some (eget env ''GENERATION_MODEL'')),
           ml_generation_models = (if active = CodexSession then cx_models codex else models),
           ml_generation_diagnostic =
             (if active = CodexSession then (if cx_auth codex = ''signed_in'' then None else cx_diagnostic codex)
              else case direct of None \<Rightarrow> Some ''Generation provider is unavailable''
                | Some d \<Rightarrow> model_diagnostic ''Generation provider is unavailable'' d),
           ml_direct_configured = (base \<noteq> []), ml_direct_display = display, ml_direct_key = (key \<noteq> []),
           ml_direct_model = nonempty (Some model), ml_direct_models = models,
           ml_direct_diagnostic = (case direct of None \<Rightarrow> Some ''Model provider is not configured''
             | Some d \<Rightarrow> model_diagnostic ''Generation provider is unavailable'' d)\<rparr>))"

section \<open>What the operations promise\<close>

subsection \<open>Status\<close>

lemma give_Inr [simp]: "give r st = (Inr x, st') \<longleftrightarrow> r = Inr x \<and> st' = st"
  by (auto simp: give_def)

lemma service_phase_ready:
  "service_phase ok components = ''ready'' \<longleftrightarrow>
     ok \<and> components \<noteq> [] \<and> list_all (\<lambda>c. cp_state c = ''running'' \<and> nonempty (cp_health c) \<in> {None, Some ''healthy''}) components"
proof -
  have r: "length (filter P xs) = length xs \<longleftrightarrow> list_all P xs" for P and xs :: "component list"
    by (cases "list_all P xs") (auto simp: list_all_iff, metis length_filter_less less_irrefl)
  have h: "(cp_health c \<noteq> None \<and> cp_health c \<noteq> Some [] \<and> cp_health c \<noteq> Some ''healthy'') \<longleftrightarrow>
      nonempty (cp_health c) \<notin> {None, Some ''healthy''}" for c
    by (auto simp: nonempty_def)
  have z: "length (filter (\<lambda>c. cp_state c = ''running'') components) = 0 \<Longrightarrow> components \<noteq> [] \<Longrightarrow>
      \<not> list_all (\<lambda>c. cp_state c = ''running'') components"
    by (cases components) (auto split: if_splits)
  show ?thesis
    unfolding service_phase_def Let_def h r
    using z by (auto simp: list_ex_iff list_all_iff)
qed

text \<open>A node is called ready only when docker answers, every service runs, and no verified model is known to be broken.\<close>

lemma admin_status_ready:
  assumes "adminStatus answer parse fmt w cached env st = (Inr s, st')" and "as_phase s = ''ready''"
  shows "as_docker s \<and> as_components s \<noteq> [] \<and>
    list_all (\<lambda>c. cp_state c = ''running'' \<and> nonempty (cp_health c) \<in> {None, Some ''healthy''}) (as_components s) \<and>
    (\<forall>e g. cached = Some (e, g) \<longrightarrow> str_field e ''status'' = Some ''ready'' \<and> str_field g ''status'' = Some ''ready'')"
proof -
  obtain r :: command_result and components where s: "as_docker s = cr_ok r" "as_components s = components"
      "as_phase s = admin_phase (cr_ok r) components (case cached of None \<Rightarrow> None
         | Some (e, g) \<Rightarrow> Some [mv_status (cached_view e), mv_status (cached_view g)])"
  proof -
    from assms(1) obtain r :: command_result and components where "as_docker s = cr_ok r" "as_components s = components"
        "as_phase s = admin_phase (cr_ok r) components (case cached of None \<Rightarrow> None
           | Some (e, g) \<Rightarrow> Some [mv_status (cached_view e), mv_status (cached_view g)])"
      by (auto simp: adminStatus_def and_then_Inr Let_def split: option.splits)
    then show thesis by (rule that)
  qed
  have p: "service_phase (cr_ok r) components = ''ready''"
    using assms(2) s(3) by (auto simp: admin_phase_def Let_def split: if_splits)
  moreover have "str_field e ''status'' = Some ''ready'' \<and> str_field g ''status'' = Some ''ready''" if "cached = Some (e, g)" for e g
  proof -
    have "mv_status (cached_view e) = ''ready'' \<and> mv_status (cached_view g) = ''ready''"
      using assms(2) s(3) p that by (auto simp: admin_phase_def Let_def split: if_splits)
    then show ?thesis by (auto simp: cached_view_def Let_def split: option.splits)
  qed
  ultimately show ?thesis using s by (auto simp: service_phase_ready)
qed

subsection \<open>Logs\<close>

lemma js_length_drop: "js_length (drop_units n s) \<le> js_length s - n"
  by (induction n s rule: drop_units.induct) auto

lemma node_logs_bounded:
  assumes "node_logs answer env service tail st = (Inr text, st')"
  shows "service \<in> set NODE_SERVICES \<and> 1 \<le> tail \<and> tail \<le> 5000 \<and> js_length text \<le> 2000000"
proof -
  have "js_length (slice_last 2000000 s) \<le> 2000000" for s
    using js_length_drop [of "js_length s - 2000000" s] by (auto simp: slice_last_def)
  then show ?thesis
    using assms by (auto simp: node_logs_def and_then_Inr split: if_splits)
qed

subsection \<open>Rehearsals\<close>

lemma revision_ids_hex: "r \<in> set (revisionIds raw) \<Longrightarrow> 7 \<le> length r \<and> length r \<le> 64 \<and> list_all is_hex_lower r"
  by (simp add: revisionIds_def)

lemma follows_docker: "follows answer [''docker'' # c] st (docker_run answer c st)"
  unfolding follows_def docker_run_def Let_def by (intro exI [of _ 1]) simp

definition backup_plan :: "env \<Rightarrow> string \<Rightarrow> string list list" where
  "backup_plan env target =
     [compose_profiles env None @ CONFIG_COMMAND,
      compose_profiles env None @ dump_command ''control-database'' (eget env ''CONTROL_POSTGRES_USER'') (eget env ''CONTROL_POSTGRES_DB''),
      compose_profiles env None @ dump_command ''memory-database'' (eget env ''MEMORY_POSTGRES_USER'') (eget env ''MEMORY_POSTGRES_DB''),
      ''docker'' # list_dump (target @ ''/control.dump'') ''postgres:15-bookworm'',
      ''docker'' # list_dump (target @ ''/memory.dump'') ''pgvector/pgvector:0.8.6-pg15'']"

text \<open>A manifest is written only after both dumps have been taken and both have been read back, and never over an old one.\<close>

lemma backup_rehearsal_plan:
  "follows answer (backup_plan env (fst target)) st (backupRehearsal answer stat now env target st)"
proof -
  have "follows answer ([compose_profiles env None @ CONFIG_COMMAND] @ ([compose_profiles env None @ dump_command ''control-database'' (eget env ''CONTROL_POSTGRES_USER'') (eget env ''CONTROL_POSTGRES_DB'')] @
      ([compose_profiles env None @ dump_command ''memory-database'' (eget env ''MEMORY_POSTGRES_USER'') (eget env ''MEMORY_POSTGRES_DB'')] @
      ([''docker'' # list_dump (fst target @ ''/control.dump'') ''postgres:15-bookworm''] @
      ([''docker'' # list_dump (fst target @ ''/memory.dump'') ''pgvector/pgvector:0.8.6-pg15''] @ []))))) st
      (backupRehearsal answer stat now env target st)"
    unfolding backupRehearsal_def Let_def
    by (intro follows_then follows_validate follows_give_then follows_compose follows_docker follows_give)
  then show ?thesis by (simp add: backup_plan_def)
qed

lemma backup_rehearsal_new: "backupRehearsal answer stat now env target st = (Inr m, st') \<Longrightarrow> \<not> snd target"
  by (auto simp: backupRehearsal_def and_then_Inr require_def Let_def split: if_splits)

text \<open>A rehearsal of a migration is good exactly when the database is at the revision asked for; it gives no command that migrates.\<close>

lemma migration_rehearsal_result:
  assumes "migrationRehearsal answer env target st = (Inr r, st')"
  shows "mr_ok r \<longleftrightarrow> mr_error r = None"
    and "mr_ok r \<Longrightarrow> at_revision target (mr_current r) (mr_heads r)"
    and "rs_commands st' = rs_commands st @ map (\<lambda>c. compose_profiles env None @ c)
      [CONFIG_COMMAND, DATABASE_UP, alembic ''current'', alembic ''heads'']"
proof -
  have v: "rs_commands (snd (validate_run answer env s)) = rs_commands s @ [compose_profiles env None @ CONFIG_COMMAND]"
    if "is_ok (fst (validate_run answer env s))" for s
    using that by (auto simp: validate_run_def and_then_def give_def compose_run_def Let_def is_ok_def split: sum.splits if_splits)
  have c: "rs_commands (snd (compose_run answer env None af cmd s)) = rs_commands s @ [compose_profiles env None @ cmd]" for af cmd s
    by (simp add: compose_run_def Let_def)
  obtain cfg s1 where 1: "validate_run answer env st = (Inr cfg, s1)"
    using assms by (auto simp: migrationRehearsal_def and_then_Inr split: if_splits)
  obtain r2 s2 where 2: "compose_run answer env None False DATABASE_UP s1 = (Inr r2, s2)"
    using assms 1 by (auto simp: migrationRehearsal_def and_then_Inr split: if_splits)
  obtain r3 s3 where 3: "compose_run answer env None True (alembic ''current'') s2 = (Inr r3, s3)"
    by (simp add: compose_run_def Let_def)
  obtain r4 s4 where 4: "compose_run answer env None True (alembic ''heads'') s3 = (Inr r4, s4)"
    by (simp add: compose_run_def Let_def)
  let ?good = "cr_ok r3 \<and> cr_ok r4 \<and> at_revision target (revisionIds (cr_stdout r3)) (revisionIds (cr_stdout r4))"
  have r: "st' = s4" "mr_ok r = ?good" "mr_current r = revisionIds (cr_stdout r3)" "mr_heads r = revisionIds (cr_stdout r4)"
      "mr_error r = None \<longleftrightarrow> ?good"
    using assms by (auto simp: migrationRehearsal_def and_then_Inr 1 2 3 4 Let_def split: if_splits)
  show "mr_ok r \<longleftrightarrow> mr_error r = None" "mr_ok r \<Longrightarrow> at_revision target (mr_current r) (mr_heads r)" using r by simp_all
  show "rs_commands st' = rs_commands st @ map (\<lambda>c. compose_profiles env None @ c)
      [CONFIG_COMMAND, DATABASE_UP, alembic ''current'', alembic ''heads'']"
    using v [of st] c [of False DATABASE_UP s1] c [of True "alembic ''current''" s2] c [of True "alembic ''heads''" s3]
    by (simp add: 1 2 3 4 r(1) is_ok_def)
qed

end
