(* ===== verification/NodeSetupProps.thy ===== *)
theory NodeSetupProps
  imports NodeSetup
begin

text \<open>Filling a template is replacing in it, and what the template of the repository says, line by line.\<close>

section \<open>Filling is replacing\<close>

definition entries_of :: "string \<Rightarrow> string \<Rightarrow> string option" where
  "entries_of raw = map_of (List.map_filter line_entry (split_on LF raw))"

lemma find_line_defined:
  assumes "file_lines_ok ls" and "map_of (List.map_filter line_entry ls) key \<noteq> None"
  shows "find_line key ls \<noteq> None"
proof
  assume n: "find_line key ls = None"
  from assms(2) obtain v where "(key, v) \<in> set (List.map_filter line_entry ls)"
    by (auto dest: map_of_SomeD)
  then obtain l where l: "l \<in> set ls" and e: "line_entry l = Some (key, v)"
    by (induction ls) (auto simp: map_filter_Cons split: option.splits)
  from assms(1) l have "trim_start l = l" by (auto simp: file_lines_ok_def)
  with e have "starts_with (key @ ''='') l" by (simp add: defines_starts)
  with find_line_None [OF n l] show False by simp
qed

lemma find_entry_defined:
  assumes "file_ok raw" and "entries_of raw key \<noteq> None" and "env_key_ok key"
  shows "\<exists>b m a. find_entry key True [] raw = Some (b, m, a)"
proof -
  obtain l ls where ls: "split_on LF raw = l # ls" by (cases "split_on LF raw") auto
  have ok: "file_lines_ok (l # ls)" using assms(1) ls by (simp add: file_ok_def)
  then have plain: "\<forall>x \<in> set (l # ls). plain_line x" by (simp add: file_lines_ok_def)
  have "find_line key (l # ls) \<noteq> None"
    using find_line_defined [OF ok] assms(2) by (simp add: entries_of_def ls)
  moreover have "find_entry key True [] raw = map_option (\<lambda>(b, l, a). ([] @ prefix_lines b, l, suffix_lines a)) (find_line key (l # ls))"
    using find_entry_lines [OF plain env_key_facts(2) [OF assms(3)], of "[]"] by (simp only: join_lines_split [of raw, unfolded ls])
  ultimately show ?thesis by auto
qed

lemma fill_is_replace:
  assumes "file_ok raw" and "\<forall>(key, v) \<in> set vals. env_key_ok key \<and> clean_value v" and "\<forall>key \<in> fst ` set vals. entries_of raw key \<noteq> None"
  shows "fill_template raw vals = replaceEnvValues raw vals"
  using assms
proof (induction vals arbitrary: raw)
  case (Cons e vals)
  obtain key v where e: "e = (key, v)" by fastforce
  with Cons.prems have k: "env_key_ok key" "clean_value v" by auto
  obtain b m a where f: "find_entry key True [] raw = Some (b, m, a)"
    using find_entry_defined [OF Cons.prems(1) _ k(1)] Cons.prems(3) e by auto
  let ?out = "b @ expand_replacement b m a (key @ ''='' @ v) @ a"
  have p: "list_all printable v" using k(2) by (simp add: clean_value_def)
  obtain out where o: "replaceEnvValues raw [(key, v)] = Inr out" and ok: "file_ok out"
    and d: "entries_of out = (entries_of raw) (key \<mapsto> v)"
    using replace_one [OF Cons.prems(1) k(2,1), of "[]"] by (auto simp: entries_of_def)
  from o f p have out: "out = ?out" by simp
  have "fill_template ?out vals = replaceEnvValues ?out vals"
    using Cons.IH [of ?out] ok d Cons.prems e by (auto simp: out)
  then show ?case using f p by (simp add: e)
qed simp

section \<open>The template\<close>

text \<open>A line that is read at a glance: empty, a comment, or a key and a clean value\<close>

definition plain_entry :: "string \<Rightarrow> (string \<times> string) option" where
  "plain_entry l =
     (case dropWhile (\<lambda>c. c \<noteq> CHR ''='') l of
        [] \<Rightarrow> None
      | _ # v \<Rightarrow> let key = takeWhile (\<lambda>c. c \<noteq> CHR ''='') l in if env_key_ok key \<and> clean_value v then Some (key, v) else None)"

definition comment_line :: "string \<Rightarrow> bool" where
  "comment_line l = (case l of [] \<Rightarrow> True | c # cs \<Rightarrow> c = CHR ''#'' \<and> list_all printable cs)"

lemma plain_entry_line: "plain_entry l = Some (key, v) \<Longrightarrow> l = key @ ''='' @ v \<and> env_key_ok key \<and> clean_value v"
proof -
  assume p: "plain_entry l = Some (key, v)"
  then obtain c where "dropWhile (\<lambda>c. c \<noteq> CHR ''='') l = c # v" and k: "takeWhile (\<lambda>c. c \<noteq> CHR ''='') l = key"
      "env_key_ok key" "clean_value v"
    by (auto simp: plain_entry_def Let_def split: list.splits if_splits)
  moreover from this have "c = CHR ''=''" using hd_dropWhile [of "\<lambda>c. c \<noteq> CHR ''=''" l] by simp
  ultimately show ?thesis using takeWhile_dropWhile_id [of "\<lambda>c. c \<noteq> CHR ''=''" l] by simp
qed

lemma comment_line_ok:
  assumes "comment_line l"
  shows "plain_line l \<and> CHR 0x00 \<notin> set l \<and> trim_start l = l \<and> is_ok (env_line 0 l) \<and> line_entry l = None"
proof (cases l)
  case Nil
  then show ?thesis by (simp add: plain_line_def trim_start.simps line_entry_def line_entry_Nil is_ok_def)
next
  case (Cons c cs)
  with assms have c: "c = CHR ''#''" and p: "list_all printable cs" by (auto simp: comment_line_def)
  have v: "visible c" by (simp add: c visible_def)
  have t: "trim l = c # trim_end cs"
    using trim_start_visible [OF v] trim_end_keeps [OF v, of "[]" cs] by (simp add: trim_def Cons)
  have "env_line 0 l = Inr None" by (simp add: env_line_def t c)
  moreover have "plain_line l \<and> CHR 0x00 \<notin> set l"
    using p by (auto simp: Cons c plain_line_def list_ex_iff list_all_iff is_line_end_def printable_def)
  ultimately show ?thesis using trim_start_visible [OF v] by (simp add: Cons line_entry_def is_ok_def)
qed

lemma easy_lines_ok:
  assumes "list_all (\<lambda>l. comment_line l \<or> plain_entry l \<noteq> None) ls" and "ls \<noteq> []"
    and "es = List.map_filter (\<lambda>l. if comment_line l then None else plain_entry l) ls" and "distinct (map fst es)"
  shows "file_lines_ok ls \<and> List.map_filter line_entry ls = es"
proof -
  have l: "plain_line l \<and> CHR 0x00 \<notin> set l \<and> trim_start l = l \<and> is_ok (env_line 0 l) \<and>
      line_entry l = (if comment_line l then None else plain_entry l)" if "l \<in> set ls" for l
  proof (cases "comment_line l")
    case True
    then show ?thesis using comment_line_ok by simp
  next
    case False
    with assms(1) that obtain key v where e: "plain_entry l = Some (key, v)" by (auto simp: list_all_iff)
    from plain_entry_line [OF this] have "l = key @ ''='' @ v" "env_key_ok key" "clean_value v" by auto
    then show ?thesis using False e clean_line_ok line_entry_clean by simp
  qed
  then have "List.map_filter line_entry ls = es"
    unfolding assms(3) by (auto simp: List.map_filter_def intro!: map_cong filter_cong)
  with l assms(2,4) show ?thesis by (auto simp: file_lines_ok_def)
qed

definition node_env_defaults :: env where
  "node_env_defaults = [
     (''COMPOSE_PROJECT_NAME'', ''neuromem-node''),
     (''NEUROMEM_NODE_ID'', ''replace-with-node-uuid''),
     (''NEUROMEM_PUBLIC_HOST'', ''memory.example.com''),
     (''CLOUDFLARE_TUNNEL_TOKEN'', ''replace-with-cloudflare-tunnel-token''),
     (''EDGE_LOOPBACK_PORT'', ''24443''),
     (''NODE_MANAGER_URL'', ''http://host.docker.internal:14174''),
     (''NODE_MANAGER_TIMEOUT_SECONDS'', ''600''),
     (''CONTROL_POSTGRES_DB'', ''neuromem_control''),
     (''CONTROL_POSTGRES_USER'', ''neuromem_control''),
     (''CONTROL_POSTGRES_PASSWORD'', ''replace-with-random-secret''),
     (''CONTROL_TOKEN_PEPPER'', ''replace-with-32-byte-random-secret''),
     (''CONTROL_INTERNAL_SIGNING_KEY'', ''replace-with-32-byte-random-secret''),
     (''CONTROL_SECURE_COOKIES'', ''true''),
     (''LOCAL_TEST_LOGIN_PREFILL'', ''false''),
     (''LOCAL_TEST_LOGIN_EMAIL'', []),
     (''LOCAL_TEST_LOGIN_PASSWORD'', []),
     (''MEMORY_POSTGRES_DB'', ''neuromem_memory''),
     (''MEMORY_POSTGRES_USER'', ''neuromem_memory''),
     (''MEMORY_POSTGRES_PASSWORD'', ''replace-with-random-secret''),
     (''MEMORY_REDIS_PASSWORD'', ''replace-with-random-secret''),
     (''MEMORY_INTERNAL_SIGNING_KEY'', ''replace-with-the-control-signing-key''),
     (''MEMORY_AUTH_JWT_SECRET'', ''replace-with-random-jwt-signing-secret''),
     (''EMBEDDING_BASE_URL'', ''http://host.docker.internal:11434/v1''),
     (''EMBEDDING_API_KEY'', ''local-model''),
     (''EMBEDDING_MODEL'', ''qwen3-embedding-honcho-8192''),
     (''EMBEDDING_VECTOR_DIMENSIONS'', ''1536''),
     (''GENERATION_BASE_URL'', ''http://host.docker.internal:11435/v1''),
     (''GENERATION_API_KEY'', ''local-model''),
     (''GENERATION_MODEL'', ''nvidia/Qwen3.6-35B-A3B-NVFP4''),
     (''GENERATION_SOURCE'', ''openai_compatible''),
     (''GENERATION_DIRECT_BASE_URL'', ''http://host.docker.internal:11435/v1''),
     (''GENERATION_DIRECT_API_KEY'', ''local-model''),
     (''GENERATION_DIRECT_MODEL'', ''nvidia/Qwen3.6-35B-A3B-NVFP4''),
     (''NODE_CODEX_BRIDGE_TOKEN'', ''replace-with-random-secret''),
     (''DERIVER_BATCH_TARGET_TOKENS'', ''512''),
     (''DERIVER_BATCH_MAX_AGE_SECONDS'', ''1800''),
     (''MEMORY_CORE_IMAGE'', ''ghcr.io/chenjingdev/neuromem-memory-core@sha256:15669c488866012c2762a4eefca2e8e9aa3b589a3eb874f12e49c8917aa7e365''),
     (''MEMORY_CORE_SOURCE_URL'', ''https://github.com/chenjingdev/neuromem-memory-core''),
     (''MEMORY_CORE_SOURCE_REVISION'', ''307a6051ffe0b56bfaad88d8c905f4aa00f73724''),
     (''CONTROL_IMAGE'', ''neuromem-control:local''),
     (''MCP_IMAGE'', ''neuromem-mcp:local''),
     (''WEB_IMAGE'', ''neuromem-web:local''),
     (''DGX_MODEL_ENABLED'', ''false''),
     (''CONTROL_DB_VOLUME'', ''neuromem-node-control-db''),
     (''MEMORY_DB_VOLUME'', ''neuromem-node-memory-db''),
     (''MEMORY_REDIS_VOLUME'', ''neuromem-node-memory-redis''),
     (''MCP_STATE_VOLUME'', ''neuromem-node-mcp'')]"

text \<open>Both questions about a list of lines in one pass\<close>

fun easy_entries :: "string list \<Rightarrow> env option" where
  "easy_entries [] = Some []"
| "easy_entries (l # ls) =
     (if comment_line l then easy_entries ls
      else case plain_entry l of None \<Rightarrow> None | Some e \<Rightarrow> map_option ((#) e) (easy_entries ls))"

lemma easy_entries_Some:
  "easy_entries ls = Some es \<Longrightarrow> list_all (\<lambda>l. comment_line l \<or> plain_entry l \<noteq> None) ls \<and>
     List.map_filter (\<lambda>l. if comment_line l then None else plain_entry l) ls = es"
  by (induction ls arbitrary: es) (auto simp: map_filter_Cons split: if_splits option.splits)

lemma template_read: "easy_entries node_env_lines = Some node_env_defaults"
  by code_simp

lemmas template_easy = easy_entries_Some [OF template_read, THEN conjunct1]
  and template_defaults = easy_entries_Some [OF template_read, THEN conjunct2]

lemma template_keys: "distinct (map fst node_env_defaults)"
  by code_simp

text \<open>A fresh env file: the template of the repository, filled, is a configuration that validates.\<close>

section \<open>A fresh configuration\<close>

text \<open>32 bytes in base64url, and a UUID\<close>

definition secret_text :: "string \<Rightarrow> bool" where
  "secret_text s \<longleftrightarrow> length s = 43 \<and> list_all (\<lambda>c. is_alnum c \<or> c = CHR ''-'' \<or> c = CHR ''_'') s"

definition uuid_text :: "string \<Rightarrow> bool" where
  "uuid_text s \<longleftrightarrow> length s = 36 \<and> is_hex_lower (hd s) \<and> list_all (\<lambda>c. is_hex_lower c \<or> c = CHR ''-'') s"

definition generated :: "setup_world \<Rightarrow> bool" where
  "generated w \<longleftrightarrow> uuid_text (su_uuid w) \<and>
     (\<forall>i < 7. secret_text (su_random w i) \<and> \<not> str_includes ''replace-with'' (to_lower (su_random w i)))"

text \<open>A character that stands for itself: visible, no dollar sign and no quote\<close>

definition tame :: "char \<Rightarrow> bool" where
  "tame c \<longleftrightarrow> visible c \<and> c \<noteq> CHR ''$'' \<and> c \<noteq> CHR 0x22 \<and> c \<noteq> CHR 0x27"

lemma tame_alnum: "is_alnum c \<Longrightarrow> tame c"
  unfolding tame_def by (cases "c = CHR ''$'' \<or> c = CHR 0x22 \<or> c = CHR 0x27")
    (auto simp: visible_def is_alnum_def is_digit_def is_upper_def is_lower_def)

lemma tame_hex: "is_hex_lower c \<Longrightarrow> tame c"
  by (rule tame_alnum) (auto simp: is_alnum_def is_hex_lower_def is_lower_def)

lemma tame_punctuation [simp]: "tame (CHR ''-'')" "tame (CHR ''_'')"
  by (simp_all add: tame_def visible_def)

lemma tame_clean:
  assumes "list_all tame v"
  shows "clean_value v"
proof -
  have t: "tame c" if "c \<in> set v" for c using assms that by (simp add: list_all_iff)
  have "printable c" if "c \<in> set v" for c using t [OF that] by (simp add: tame_def visible_def printable_def)
  then have p: "list_all printable v" by (simp add: list_all_iff)
  have d: "CHR ''$'' \<notin> set v" using t [of "CHR ''$''"] by (auto simp: tame_def)
  show ?thesis
  proof (cases v)
    case (Cons c cs)
    then have "tame (last v)" "tame (hd v)" using t by simp_all
    then have "last v \<noteq> CHR '' ''" "hd v \<noteq> CHR 0x22 \<and> hd v \<noteq> CHR 0x27" by (auto simp: tame_def visible_def)
    with p d show ?thesis by (simp add: clean_value_def quoted_def)
  qed (simp add: clean_value_def quoted_def)
qed

lemma secret_tame: "secret_text s \<Longrightarrow> list_all tame s"
  unfolding secret_text_def by (auto elim!: list.pred_mono_strong simp: tame_alnum)

lemma uuid_tame: "uuid_text s \<Longrightarrow> list_all tame s"
  unfolding uuid_text_def by (auto elim!: list.pred_mono_strong intro: tame_hex)

lemma dec_tame: "list_all tame (dec_str n)"
proof (induction n rule: dec_str.induct)
  case (1 n)
  have "tame (char_of (48 + k))" if "k < 10" for k :: nat
    using that by (intro tame_alnum) (simp add: is_alnum_def is_digit_def)
  with 1 show ?case by (subst dec_str.simps) simp
qed

lemma config_clean:
  assumes "generated w"
  shows "\<forall>(key, v) \<in> set (config_values w). env_key_ok key \<and> clean_value v"
proof -
  have k: "list_all env_key_ok (map fst (config_values w))" by code_simp
  have s: "list_all tame (su_random w i)" if "i < 7" for i
    using assms that by (auto simp: generated_def secret_tame)
  have u: "list_all tame (su_uuid w)" using assms by (simp add: generated_def uuid_tame)
  have "list_all (list_all tame) (map snd (config_values w))"
    by (simp add: config_values_def s u dec_tame) (simp add: tame_def visible_def)
  then have "\<forall>v \<in> snd ` set (config_values w). clean_value v"
    by (auto simp: list_all_iff intro!: tame_clean)
  with k show ?thesis by (auto simp: list_all_iff)
qed

text \<open>The environment of the filled template\<close>

definition fresh_env :: "setup_world \<Rightarrow> env" where
  "fresh_env w = config_values w @ node_env_defaults"

lemma config_keys: "map fst (config_values w) = [''COMPOSE_PROJECT_NAME'', ''NEUROMEM_NODE_ID'', ''NEUROMEM_PUBLIC_HOST'',
    ''CLOUDFLARE_TUNNEL_TOKEN'', ''CONTROL_POSTGRES_PASSWORD'', ''CONTROL_TOKEN_PEPPER'', ''CONTROL_INTERNAL_SIGNING_KEY'',
    ''CONTROL_SECURE_COOKIES'', ''MEMORY_POSTGRES_PASSWORD'', ''MEMORY_REDIS_PASSWORD'', ''MEMORY_INTERNAL_SIGNING_KEY'',
    ''MEMORY_AUTH_JWT_SECRET'', ''GENERATION_BASE_URL'', ''GENERATION_API_KEY'', ''GENERATION_MODEL'', ''GENERATION_SOURCE'',
    ''GENERATION_DIRECT_BASE_URL'', ''GENERATION_DIRECT_API_KEY'', ''GENERATION_DIRECT_MODEL'', ''NODE_CODEX_BRIDGE_TOKEN'',
    ''CONTROL_DB_VOLUME'', ''MEMORY_DB_VOLUME'', ''MEMORY_REDIS_VOLUME'', ''MCP_STATE_VOLUME'']"
  by (simp add: config_values_def)

lemma template_has_keys: "list_all (\<lambda>k. map_of node_env_defaults k \<noteq> None) (map fst (config_values w))"
  unfolding config_keys by code_simp

lemma config_distinct: "distinct (map fst (config_values w))"
  unfolding config_keys by code_simp

lemma template_file:
  "file_ok (join_lines node_env_lines)" "entries_of (join_lines node_env_lines) = map_of node_env_defaults"
proof -
  have n: "node_env_lines \<noteq> []" by (simp add: node_env_lines_def)
  from easy_lines_ok [OF template_easy n template_defaults [symmetric] template_keys]
  have l: "file_lines_ok node_env_lines" "List.map_filter line_entry node_env_lines = node_env_defaults" by auto
  have "split_on LF (join_lines node_env_lines) = node_env_lines"
    using l(1) by (intro split_on_sep_join n) (auto simp: file_lines_ok_def plain_no_lf)
  with l show "file_ok (join_lines node_env_lines)" "entries_of (join_lines node_env_lines) = map_of node_env_defaults"
    by (simp_all add: file_ok_def entries_of_def)
qed

lemma fresh_file:
  assumes "generated w"
  shows "\<exists>content env. initializeConfig w (Inr (join_lines node_env_lines)) None = (Inr (), Some content) \<and>
    file_ok content \<and> readEnv content = Inr env \<and> oget env = oget (fresh_env w)"
proof -
  have "\<forall>key \<in> fst ` set (config_values w). entries_of (join_lines node_env_lines) key \<noteq> None"
    using template_has_keys [of w] by (auto simp: template_file list_all_iff)
  with assms have f: "fill_template (join_lines node_env_lines) (config_values w) = replaceEnvValues (join_lines node_env_lines) (config_values w)"
    by (intro fill_is_replace template_file config_clean)
  obtain content where c: "replaceEnvValues (join_lines node_env_lines) (config_values w) = Inr content" and ok: "file_ok content"
    and e: "entries_of content = map_of node_env_defaults ++ map_of (rev (config_values w))"
    using replace_all [OF template_file(1) config_clean [OF assms]] template_file(2) by (auto simp: entries_of_def)
  obtain env where r: "readEnv content = Inr env" and g: "\<forall>k. oget env k = entries_of content k"
    using readEnv_ok [OF ok] by (auto simp: entries_of_def)
  have m: "map_of (rev (config_values w)) = map_of (config_values w)"
    using config_distinct [of w] by (subst map_of_inject_set) (simp_all add: rev_map [symmetric])
  have "oget env = oget (fresh_env w)"
    using g by (simp add: fun_eq_iff e m fresh_env_def oget_append oget_def map_add_def split: option.split)
  with c f ok r show ?thesis by (simp add: initializeConfig_def rbind_def)
qed

section \<open>It validates\<close>

lemma config_lookups:
  "eget (fresh_env w) ''COMPOSE_PROJECT_NAME'' = ''neuromem-node''"
  "eget (fresh_env w) ''NEUROMEM_NODE_ID'' = su_uuid w"
  "eget (fresh_env w) ''NEUROMEM_PUBLIC_HOST'' = ''localhost''"
  "eget (fresh_env w) ''CONTROL_INTERNAL_SIGNING_KEY'' = su_random w 0"
  "eget (fresh_env w) ''MEMORY_INTERNAL_SIGNING_KEY'' = su_random w 0"
  by (simp_all add: fresh_env_def config_values_def eget_def)

lemma other_lookup: "k \<notin> set (map fst (config_values w)) \<Longrightarrow> eget (fresh_env w) k = eget node_env_defaults k"
proof -
  assume "k \<notin> set (map fst (config_values w))"
  then have "oget (config_values w) k = None" by (simp add: oget_def map_of_eq_None_iff)
  then show ?thesis by (simp add: fresh_env_def eget_def oget_append)
qed

lemma value_lookup: "(k, v) \<in> set (config_values w) \<Longrightarrow> eget (fresh_env w) k = v"
  using config_distinct [of w] by (simp add: fresh_env_def eget_def oget_append oget_def)

lemma secret_value:
  assumes "generated w" and "i < 7"
  shows "su_random w i \<noteq> []" "length (su_random w i) = 43" "\<not> placeholder (su_random w i)"
proof -
  have s: "secret_text (su_random w i)" and r: "\<not> str_includes ''replace-with'' (to_lower (su_random w i))"
    using assms by (auto simp: generated_def)
  show n: "su_random w i \<noteq> []" and "length (su_random w i) = 43" using s by (auto simp: secret_text_def)
  have t: "\<forall>c \<in> set (su_random w i). c \<noteq> CHR ''.'' \<and> c \<noteq> CHR ''<''"
    using s by (auto simp: secret_text_def list_all_iff is_alnum_def is_digit_def is_upper_def is_lower_def)
  have "CHR ''.'' \<notin> set (to_lower (su_random w i))"
  proof
    assume "CHR ''.'' \<in> set (to_lower (su_random w i))"
    then obtain c where c: "c \<in> set (su_random w i)" "lower_char c = CHR ''.''" by (auto simp: to_lower_def)
    then have "is_upper c" using t by (auto simp: lower_char_def split: if_splits)
    with c(2) show False by (auto simp: lower_char_def is_upper_def dest: arg_cong [of _ _ "of_char :: char \<Rightarrow> nat"])
  qed
  with str_includes_set [of "''example.com''" "to_lower (su_random w i)"] r t n show "\<not> placeholder (su_random w i)"
    by (auto simp: placeholder_def)
qed

definition proper :: "string \<Rightarrow> bool" where
  "proper v \<longleftrightarrow> v \<noteq> [] \<and> \<not> placeholder v"

definition empty_keys :: "string list" where
  "empty_keys = [''CLOUDFLARE_TUNNEL_TOKEN'', ''GENERATION_DIRECT_BASE_URL'', ''GENERATION_DIRECT_API_KEY'', ''GENERATION_DIRECT_MODEL'']"

lemma proper_url:
  assumes "uuid_text u"
  shows "proper (''http://host.docker.internal:'' @ dec_str n @ ''/v1/internal/codex/nodes/'' @ u)"
proof -
  let ?v = "''http://host.docker.internal:'' @ dec_str n @ ''/v1/internal/codex/nodes/'' @ u"
  have d: "list_all is_digit (dec_str n)"
  proof (induction n rule: dec_str.induct)
    case (1 n)
    have "is_digit (char_of (48 + k))" if "k < 10" for k :: nat using that by (simp add: is_digit_def)
    with 1 show ?case by (subst dec_str.simps) simp
  qed
  have low: "lower_char c = c" if "\<not> is_upper c" for c using that by (simp add: lower_char_def)
  have dl: "to_lower (dec_str n) = dec_str n"
    using d by (auto simp: to_lower_def list_all_iff is_digit_def is_upper_def intro!: map_idI low)
  have ul: "to_lower u = u"
    using assms by (auto simp: uuid_text_def to_lower_def list_all_iff is_hex_lower_def is_digit_def is_upper_def intro!: map_idI low)
  have l: "to_lower ?v = ?v"
    using dl ul by (simp add: to_lower_def lower_char_def is_upper_def)
  have dw: "c \<notin> set (dec_str n)" if "\<not> is_digit c" for c using d that by (auto simp: list_all_iff)
  have uw: "c \<notin> set u" if "\<not> is_hex_lower c" "c \<noteq> CHR ''-''" for c
    using assms that by (auto simp: uuid_text_def list_all_iff)
  have "CHR ''w'' \<notin> set ?v" "CHR ''m'' \<notin> set ?v"
    using dw [of "CHR ''w''"] dw [of "CHR ''m''"] uw [of "CHR ''w''"] uw [of "CHR ''m''"]
    by (simp_all add: is_digit_def is_hex_lower_def)
  then show ?thesis
    using str_includes_set [of "''replace-with''" ?v] str_includes_set [of "''example.com''" ?v]
    by (auto simp: proper_def placeholder_def l simp del: append.simps)
qed

lemma proper_uuid:
  assumes "uuid_text u"
  shows "proper u"
proof -
  have "list_all (\<lambda>c. \<not> is_upper c) u"
    using assms by (auto simp: uuid_text_def is_hex_lower_def is_digit_def is_upper_def elim!: list.pred_mono_strong)
  then have l: "to_lower u = u"
    by (auto simp: to_lower_def list_all_iff lower_char_def intro!: map_idI)
  have uw: "c \<notin> set u" if "\<not> is_hex_lower c" "c \<noteq> CHR ''-''" for c
    using assms that by (auto simp: uuid_text_def list_all_iff)
  have "CHR ''w'' \<notin> set u" "CHR ''m'' \<notin> set u"
    using uw by (simp_all add: is_digit_def is_hex_lower_def)
  moreover have "hd u \<noteq> CHR ''<''" "u \<noteq> []"
    using assms by (auto simp: uuid_text_def is_hex_lower_def is_digit_def)
  ultimately show ?thesis
    using str_includes_set [of "''replace-with''" u] str_includes_set [of "''example.com''" u]
    by (auto simp: proper_def placeholder_def l)
qed

lemma proper_fixed:
  "proper ''neuromem-node''" "proper ''localhost''" "proper ''false''" "proper ''gpt-5.6-sol''" "proper ''codex_session''"
  "proper ''neuromem-node-control-db''" "proper ''neuromem-node-memory-db''" "proper ''neuromem-node-memory-redis''"
  "proper ''neuromem-node-mcp''"
  by code_simp+

lemma proper_values:
  assumes "generated w"
  shows "list_all (\<lambda>(k, v). k \<in> set empty_keys \<or> proper v) (config_values w)"
proof -
  have u: "uuid_text (su_uuid w)" using assms by (simp add: generated_def)
  have r: "proper (su_random w i)" if "i < 7" for i
    using secret_value [OF assms that] by (simp add: proper_def)
  show ?thesis
    unfolding config_values_def empty_keys_def by (simp add: r proper_fixed proper_uuid [OF u] proper_url [OF u] del: append.simps)
qed

lemma required_covered:
  "list_all (\<lambda>k. k \<notin> set empty_keys \<and> (k \<in> set (map fst (config_values w)) \<or> proper (eget node_env_defaults k))) REQUIRED_ENV"
  unfolding config_keys by code_simp

lemma required_ok:
  assumes "generated w" and "k \<in> set REQUIRED_ENV"
  shows "proper (eget (fresh_env w) k)"
proof (cases "k \<in> set (map fst (config_values w))")
  case True
  then obtain v where v: "(k, v) \<in> set (config_values w)" by auto
  moreover have "k \<notin> set empty_keys" using required_covered [of w] assms(2) by (auto simp: list_all_iff)
  ultimately show ?thesis using proper_values [OF assms(1)] by (auto simp: list_all_iff value_lookup)
next
  case False
  then show ?thesis using required_covered [of w] assms(2) by (auto simp: list_all_iff other_lookup)
qed

lemma secrets_long:
  assumes "generated w"
  shows "\<forall>k \<in> set SECRET_ENV. 32 \<le> length (eget (fresh_env w) k)"
proof -
  have l: "length (su_random w i) = 43" if "i < 7" for i using secret_value [OF assms that] by simp
  have "list_all (\<lambda>(k, v). k \<notin> set SECRET_ENV \<or> 32 \<le> length v) (config_values w)"
    unfolding config_values_def SECRET_ENV_def by (simp add: l del: append.simps)
  moreover have "list_all (\<lambda>k. k \<in> set (map fst (config_values w))) SECRET_ENV"
    unfolding config_keys by code_simp
  ultimately show ?thesis by (fastforce simp: list_all_iff value_lookup)
qed

lemma volumes_ok: "\<forall>k \<in> set VOLUME_ENV. volume_ok (eget (fresh_env w) k)"
proof -
  have v: "volume_ok ''neuromem-node-control-db''" "volume_ok ''neuromem-node-memory-db''"
      "volume_ok ''neuromem-node-memory-redis''" "volume_ok ''neuromem-node-mcp''"
    by code_simp+
  have "list_all (\<lambda>(k, v). k \<notin> set VOLUME_ENV \<or> volume_ok v) (config_values w)"
    unfolding config_values_def VOLUME_ENV_def by (simp add: v del: append.simps)
  moreover have "list_all (\<lambda>k. k \<in> set (map fst (config_values w))) VOLUME_ENV"
    unfolding config_keys by code_simp
  ultimately show ?thesis by (fastforce simp: list_all_iff value_lookup)
qed

lemma default_lookups:
  "eget (fresh_env w) ''MEMORY_CORE_IMAGE'' =
     ''ghcr.io/chenjingdev/neuromem-memory-core@sha256:15669c488866012c2762a4eefca2e8e9aa3b589a3eb874f12e49c8917aa7e365''"
  "eget (fresh_env w) ''MEMORY_CORE_SOURCE_REVISION'' = ''307a6051ffe0b56bfaad88d8c905f4aa00f73724''"
  "eget (fresh_env w) ''LOCAL_TEST_LOGIN_PREFILL'' = ''false''"
  "eget (fresh_env w) ''LOCAL_TEST_LOGIN_EMAIL'' = []" "eget (fresh_env w) ''LOCAL_TEST_LOGIN_PASSWORD'' = []"
  "eget (fresh_env w) ''EDGE_LOOPBACK_PORT'' = ''24443''"
  by (subst other_lookup, simp only: config_keys, code_simp, code_simp)+

lemma uuid_shaped:
  assumes "uuid_text u"
  shows "shaped is_alnum (\<lambda>c. is_alnum c \<or> c = CHR ''.'' \<or> c = CHR ''_'' \<or> c = CHR ''-'') 0 127 u"
  using assms
  by (cases u) (auto simp: uuid_text_def shaped_def is_alnum_def is_hex_lower_def is_lower_def elim!: list.pred_mono_strong)

lemma fresh_identity:
  assumes "generated w"
  shows "check_identity (fresh_env w) = Inr ()"
proof -
  have c: "shaped is_alnum (\<lambda>c. is_alnum c \<or> c = CHR ''_'' \<or> c = CHR ''-'') 1 62 ''neuromem-node''"
    "digest_pinned ''ghcr.io/chenjingdev/neuromem-memory-core@sha256:15669c488866012c2762a4eefca2e8e9aa3b589a3eb874f12e49c8917aa7e365''"
    "shaped is_hex is_hex 6 63 ''307a6051ffe0b56bfaad88d8c905f4aa00f73724''"
    by code_simp+
  show ?thesis
    using uuid_shaped [of "su_uuid w"] assms volumes_ok [of w]
    by (simp add: check_identity_def config_lookups default_lookups c c(1) [unfolded One_nat_def] generated_def check_all_Inr)
qed

lemma fresh_url: "nodePublicUrl (fresh_env w) = Inr ''http://localhost:24443''"
proof -
  have t: "trim ''24443'' = ''24443''" by code_simp
  have d: "hex_val (CHR ''2'') = 2" "hex_val (CHR ''4'') = 4" "hex_val (CHR ''3'') = 3" by (simp_all add: hex_val_def is_digit_def)
  have "str_number ''24443'' = Some (of_int 24443)"
    by (simp add: str_number_def t prefixed_number_def lower_char_def is_upper_def unsigned_decimal_def is_digit_def
        exponent_value_def digits_value_def d)
  then have p: "Option.bind (str_number ''24443'') rat_integer = Some 24443"
    using rat_integer_of_int [of 24443] by simp
  have "dec_str 24443 = ''24443''"
    by (simp add: dec_str.simps [of 24443] dec_str.simps [of 2444] dec_str.simps [of 244] dec_str.simps [of 24] dec_str.simps [of 2]
        char_of_def bit_0)
  note p = p this
  show ?thesis
    by (simp add: nodePublicUrl_def config_lookups eget_or_def default_lookups p loopback_names_def Let_def
        to_lower_def lower_char_def is_upper_def)
qed

lemma fresh_checks:
  assumes "generated w"
  shows "config_checks (fresh_env w) = Inr ()"
proof -
  have "check_required (fresh_env w) = Inr ()"
    using required_ok [OF assms] secrets_long [OF assms] by (simp add: check_required_def rbind_eq_Inr check_all_Inr proper_def)
  moreover have "check_local_login (fresh_env w) = Inr ()"
    by (simp add: check_local_login_def eget_or_def default_lookups)
  moreover have "host_ok ''localhost''" by code_simp
  ultimately show ?thesis
    using fresh_identity [OF assms] by (simp add: config_checks_def config_lookups)
qed

text \<open>
  C26: A first configuration works.  With the template of the repository, whatever the generated secrets and the UUID are, the
  first \<open>initializeConfig\<close> creates an env file that reads back every generated value and keeps every other default, and the
  result validates as soon as docker accepts it: the dashboard is \<open>http://localhost:24443\<close>, and the two services share
  the signing key.  A second call refuses and changes nothing.
\<close>

theorem fresh_config_validates:
  assumes "generated w"
  shows "\<exists>content env. initializeConfig w (Inr (join_lines node_env_lines)) None = (Inr (), Some content) \<and>
    initializeConfig w' template (Some content) = (Inl ''Node env already exists'', Some content) \<and>
    readEnv content = Inr env \<and> (\<forall>(key, v) \<in> set (config_values w). eget env key = v) \<and>
    (\<forall>key. key \<notin> fst ` set (config_values w) \<longrightarrow> eget env key = eget node_env_defaults key) \<and>
    (\<forall>compose. cr_ok compose \<longrightarrow> (\<exists>cfg. validateConfig compose env = Inr cfg \<and> cfg_public_url cfg = ''http://localhost:24443''))"
proof -
  obtain content env where c: "initializeConfig w (Inr (join_lines node_env_lines)) None = (Inr (), Some content)"
    and r: "readEnv content = Inr env" and o: "oget env = oget (fresh_env w)"
    using fresh_file [OF assms] by blast
  have e: "eget env = eget (fresh_env w)" by (simp add: eget_def o fun_eq_iff)
  have "\<exists>cfg. validateConfig compose env = Inr cfg \<and> cfg_public_url cfg = ''http://localhost:24443''"
    if "cr_ok compose" for compose
  proof -
    have "config_checks env = config_checks (fresh_env w)" "nodePublicUrl env = nodePublicUrl (fresh_env w)"
      by (simp_all only: config_checks_def check_required_def check_local_login_def check_identity_def nodePublicUrl_def eget_or_def e)
    then have "config_checks env = Inr ()" "nodePublicUrl env = Inr ''http://localhost:24443''"
      by (simp_all only: fresh_checks [OF assms] fresh_url)
    with that show ?thesis by (simp add: validateConfig_def)
  qed
  moreover have "initializeConfig w' template (Some content) = (Inl ''Node env already exists'', Some content)"
    by (simp add: initializeConfig_def)
  ultimately show ?thesis
    using c r by (auto simp: e value_lookup other_lookup)
qed

definition sample_setup :: setup_world where
  "sample_setup = \<lparr>su_random = \<lambda>_. replicate 43 (CHR ''a''), su_uuid = replicate 36 (CHR ''0''), su_port = 14174\<rparr>"

theorem fresh_config_validates_witness:
  "\<exists>content env. initializeConfig sample_setup (Inr (join_lines node_env_lines)) None = (Inr (), Some content) \<and>
     readEnv content = Inr env \<and> eget env ''NEUROMEM_PUBLIC_HOST'' = ''localhost''"
proof -
  have "CHR ''r'' \<notin> set (to_lower (replicate 43 (CHR ''a'')))"
    by (simp add: to_lower_def lower_char_def is_upper_def)
  then have "\<not> str_includes ''replace-with'' (to_lower (replicate 43 (CHR ''a'')))"
    using str_includes_set by fastforce
  then have "generated sample_setup"
    by (simp add: generated_def sample_setup_def uuid_text_def secret_text_def is_alnum_def is_lower_def is_hex_lower_def is_digit_def
        list_all_iff)
  from fresh_config_validates [OF this, of sample_setup "Inl []"] obtain content env
    where "initializeConfig sample_setup (Inr (join_lines node_env_lines)) None = (Inr (), Some content)"
      and "readEnv content = Inr env" and v: "\<forall>(key, v) \<in> set (config_values sample_setup). eget env key = v"
    by blast
  moreover have "(''NEUROMEM_PUBLIC_HOST'', ''localhost'') \<in> set (config_values sample_setup)"
    by (simp add: config_values_def)
  then have "eget env ''NEUROMEM_PUBLIC_HOST'' = ''localhost''" using v by fast
  ultimately show ?thesis by blast
qed

end
