(* ===== verification/Spec2Isabelle.thy ===== *)
theory Spec2Isabelle
  imports RetryIdem Memory FederatedProps Ids RpcProps HttpProps HttpStart
    ManagerStateProps NodeLock AdminAuth InternalAuth
    ModelHealthProps NodeStart NodeEnvProps NodeProps NodeCrashProps NodeModelNames AdminProps FolderProps
    CodexProps NodeOps NodeSetupProps
begin

text \<open>
  neuromem: the MCP adapter (\<open>apps/mcp/src\<close>) and the Node Manager (\<open>apps/manager/src\<close>).

  The adapter sits between MCP clients and a set of Core nodes: it records messages on several nodes, keeps what a node did
  not accept in a durable retry queue, reads from several nodes and fuses their answers, over stdio and over HTTP.  The Node
  Manager runs the nodes as docker compose projects on one machine: it creates, starts, backs up, restores, migrates and
  configures them, recovers after it was killed, and is asked over a Unix socket and a loopback port.

  FOUNDATIONS.  Prelude, JsString, Json, JsValue, JsonText, Base64: results, insertion-ordered objects and maps, strings as
  UTF-8 byte strings with their length in UTF-16 units, regular expressions of the fixed shapes the code uses,
  \<open>JSON.stringify\<close>, \<open>canonicalJson\<close>, the conversions \<open>String\<close> and \<open>Number\<close>.

  THE ADAPTER.  Ids: \<open>ids.ts\<close> and the generator of \<open>fs-safe.ts\<close>.  Durable, RetryQueue, RetryHistory, RetryProps, RetryIdem:
  \<open>retry-queue.ts\<close>.  An operation is the list of its atomic file writes with its result, so a crash is a prefix of that list;
  the locale of Durable is the contract of a store whose steps add and drop named things, and the queue interprets it.
  Clients, Config, Targets: \<open>core-client.ts\<close>, \<open>control-gateway-client.ts\<close>, \<open>config.ts\<close>, and the constructor, targets and
  scopes of \<open>router.ts\<close>.  Extract, Rrf, Federated, FederatedProps: its reading half, with the equivalence of the one-pass
  fusion and the grouping it means, and the bound on the answer.  Delivery, Memory: its writing half; the locale of Delivery is
  what the router needs of its queue, interpreted on the durable queue.  ToolTables, Tools, Dispatch, DispatchProps:
  \<open>tools.ts\<close>.  Rpc, RpcProps: \<open>rpc.ts\<close> and \<open>stdio.ts\<close>.  Http, HttpServer, HttpStart, HttpProps: \<open>http.ts\<close>, the
  server as a machine of overlapping requests, with the invariant of its counters and what an effect needs.

  THE NODE MANAGER.  ManagerState, ManagerStateProps, NodeLock: \<open>state.ts\<close>, the registry over any history, and the lock of a
  node as a machine of interleaved tasks.  AdminAuth, InternalAuth: \<open>auth.ts\<close>, \<open>internal-auth.ts\<close>.  EnvFile, NodeConfig,
  ModelSelection, ModelHealth, NodeStart (and their Props): \<open>node-deployment-manager.ts\<close>, whose start refines one fixed
  plan of commands.  NodeSetup, NodeSetupProps: its first env file, filled from the template of the repository, which is proved
  to validate.  NodeOps: its status, logs, rehearsals and what it tells of its models, with what they promise.
  CodexProvider, CodexProps: \<open>codex-provider.ts\<close>, its app server and its runs as machines on the events of a child, and the locale
  \<open>codex_backend\<close>, what its callers need of a login status, interpreted on the provider.  FolderSources, FolderProps:
  \<open>folder-sources.ts\<close>.  NodeEnv: runtime files, in \<open>node-manager.ts\<close> and \<open>compose.ts\<close>.  NodeRun: the programs over the
  manager's files and the answers of docker, the network and the clock.  Every step that changes something outside of the
  process may be the last one: \<open>m_left\<close> is how many steps the process still lives, and a theorem for every \<open>m_left\<close> is one for
  a death before any step.  NodeStatus, NodeLife, NodeBackup, NodeCutover: status and readiness, the life of a node, backups,
  restore, migration, cutover, recovery.  NodeModels, NodeModelInput, NodeModelRun, NodeModelChange: the configuration of the
  models and the bridge to Codex.  AdminServer, AdminRun: \<open>admin-server.ts\<close>, its routes as a function from a request to a
  refusal or a call, the calls as programs of NodeRun, and histories of requests, timer turns and restarts.

  NodeLogic has the rules for these programs (what a program maintains, triples with a condition for each outcome) and the
  locales \<open>harmless\<close> and \<open>quiet\<close>: what a condition must survive so that reading, starting, stopping and staging a node
  maintains it.  NodeFrame (\<open>storeless\<close>) and AdminFrame (\<open>commanded\<close>) extend them.  They are interpreted on the place of a node
  in registry and env file (NodeView), on the registered ids (NodeReturns), on its runtime files (NodeModelProps) and on
  the commands given (AdminProps).  NodeCrash, NodeRecovery, NodeCrashProps: a restore or migration leaves the node wholly at
  its old or its new generation, however often the manager dies.  NodeReturns: a restart ends within a bound on its steps.
  NodeProps, NodeEnvProps: ports, generations, manifests, env files.  NodeModelProps, NodeModelNames: a change of models is
  all or nothing, and the names of models share nothing with a key.  AdminProps: which request may do what.  NodeWorld: the
  concrete node of the witnesses.

  BOUNDS AND LOOPS.  Recursion is structural, or ends by a measure.  A wait asks again \<open>h_polls\<close> times, which stands for its
  deadline.  The search for an unused generation uses a step each turn; that it ends is proved for finitely many volumes.

  IDEALISATIONS.  Files of the manager hold values of their types (a file that is no JSON is one that cannot be read).  Numbers
  are exact rationals.  Case mapping is that of ASCII, the line ends U+2028 and U+2029 are ordinary characters, a character cut
  in half by \<open>slice\<close> is dropped.  The object literals that are looked up have no inherited names.  The lock of a node and the
  marking of interrupted operations are one step each in NodeRun (NodeLock has the steps of the lock).  Requests of the admin
  server come one after the other, and models are asked of providers one after the other.  \<open>listBackups\<close> compares times as byte
  strings.  An argument that is no text where one is needed is refused at once by the admin server, a body that is one for
  \<open>createNode\<close> has no ports but the three.  HMAC, SHA-256, \<open>JSON.parse\<close>, URLs, \<open>fetch\<close>, docker, \<open>localeCompare\<close>, random bytes
  and the clock are arguments of the definitions.

  NOT MODELLED.  The file lock of the retry queue and the timers of the router; sockets and signals (a timeout is an event); the
  creation and the modes of directories; the dialog in which a folder is picked; command lines, launchd and systemd units; the web interface and the Python services, which are other
  programs.
\<close>

end
